(* ===== verification/Prelude.thy ===== *)
theory Prelude
  imports Main "HOL-Library.List_Lexorder" "HOL-Library.Char_ord" "HOL-Library.Code_Target_Numeral"
begin

text \<open>
  The prelude of the development: the error monad every operation of the model returns in, the
  loops of the source that may stop at the first error, the lookup of a row in a table, and the
  part of JavaScript's strings the code uses (trimming, truthiness, decimal printing, padding and
  the comparison of strings).  JavaScript strings are modelled as lists of 8-bit characters, so
  the model covers strings whose code units are below 256; identifiers, dates, codes and prefixes
  of the program are ASCII.
\<close>

named_theorems res_simps \<open>unfolding of the error monad\<close>

section \<open>The error monad\<close>

text \<open>
  A \<open>throw\<close> of the source is \<^term>\<open>Inl e\<close>; a normal return is \<^term>\<open>Inr x\<close>.  An operation
  on the database returns the new state in its result, so that a thrown error leaves no new
  state behind: the transaction that \<open>UnitOfWork.run\<close> opens is rolled back.
\<close>

definition rbind :: "'e + 'a \<Rightarrow> ('a \<Rightarrow> 'e + 'b) \<Rightarrow> 'e + 'b" where
  "rbind m f = (case m of Inl e \<Rightarrow> Inl e | Inr x \<Rightarrow> f x)"

definition require :: "bool \<Rightarrow> 'e \<Rightarrow> 'e + unit" where
  "require b e = (if b then Inr () else Inl e)"

definition fetch :: "'e \<Rightarrow> 'a option \<Rightarrow> 'e + 'a" where
  "fetch e x = (case x of None \<Rightarrow> Inl e | Some a \<Rightarrow> Inr a)"

fun rmap :: "('a \<Rightarrow> 'e + 'b) \<Rightarrow> 'a list \<Rightarrow> 'e + 'b list" where
  "rmap f [] = Inr []"
| "rmap f (x # xs) = rbind (f x) (\<lambda>y. rbind (rmap f xs) (\<lambda>ys. Inr (y # ys)))"

fun riter :: "('a \<Rightarrow> 'e + unit) \<Rightarrow> 'a list \<Rightarrow> 'e + unit" where
  "riter f [] = Inr ()"
| "riter f (x # xs) = rbind (f x) (\<lambda>_. riter f xs)"

lemma rbind_Inl [simp]: "rbind (Inl e) f = Inl e"
  by (simp add: rbind_def)

lemma rbind_Inr [simp]: "rbind (Inr x) f = f x"
  by (simp add: rbind_def)

lemma rbind_eq_Inr [res_simps]: "rbind m f = Inr y \<longleftrightarrow> (\<exists>x. m = Inr x \<and> f x = Inr y)"
  by (cases m) auto

lemma rbind_eq_Inl [res_simps]:
  "rbind m f = Inl e \<longleftrightarrow> m = Inl e \<or> (\<exists>x. m = Inr x \<and> f x = Inl e)"
  by (cases m) auto

lemma rbindE:
  assumes "rbind m f = Inr y"
  obtains x where "m = Inr x" and "f x = Inr y"
  using assms by (cases m) auto

text \<open>Evaluation from left to right: the rest of a computation is not simplified before its first step.\<close>

lemma rbind_weak_cong: "m = m' \<Longrightarrow> rbind m f = rbind m' f"
  by simp

lemma require_eq_Inr [simp]: "require b e = Inr u \<longleftrightarrow> b"
  by (simp add: require_def)

lemma require_eq_Inl [simp]: "require b e = Inl e' \<longleftrightarrow> \<not> b \<and> e' = e"
  by (auto simp: require_def)

lemma require_True [simp]: "require True e = Inr ()"
  by (simp add: require_def)

lemma require_False [simp]: "require False e = Inl e"
  by (simp add: require_def)

lemma fetch_None [simp]: "fetch e None = Inl e"
  by (simp add: fetch_def)

lemma fetch_Some [simp]: "fetch e (Some x) = Inr x"
  by (simp add: fetch_def)

lemma fetch_eq_Inr [simp]: "fetch e x = Inr a \<longleftrightarrow> x = Some a"
  by (cases x) auto

lemma fetch_eq_Inl [simp]: "fetch e x = Inl e' \<longleftrightarrow> x = None \<and> e' = e"
  by (cases x) auto

lemma rmap_eq_Inr: "rmap f xs = Inr ys \<longleftrightarrow> list_all2 (\<lambda>x y. f x = Inr y) xs ys"
proof (induction xs arbitrary: ys)
  case Nil
  then show ?case by auto
next
  case (Cons x xs)
  then show ?case by (cases ys) (auto simp: rbind_eq_Inr)
qed

lemma rmap_total: "(\<And>x. x \<in> set xs \<Longrightarrow> f x = Inr (g x)) \<Longrightarrow> rmap f xs = Inr (map g xs)"
  by (induction xs) auto

lemma rmap_cong: "(\<And>x. x \<in> set xs \<Longrightarrow> f x = g x) \<Longrightarrow> rmap f xs = rmap g xs"
  by (induction xs) auto

lemma riter_eq_Inr: "riter f xs = Inr u \<longleftrightarrow> (\<forall>x \<in> set xs. f x = Inr ())"
  by (induction xs) (auto simp: rbind_eq_Inr)

lemma riter_InlD: "riter f xs = Inl e \<Longrightarrow> \<exists>x \<in> set xs. f x = Inl e"
  by (induction xs) (auto simp: rbind_eq_Inl)

lemma riter_throws:
  assumes "x \<in> set xs" and "f x = Inl e" shows "\<exists>e. riter f xs = Inl e"
proof (cases "riter f xs")
  case (Inr u)
  with assms show ?thesis by (auto simp: riter_eq_Inr)
qed simp

text \<open>
  The transaction boundary: \<open>uow.run(work)\<close> commits the state of a normal return and keeps the
  old state when \<open>work\<close> throws.
\<close>

definition commit :: "'s \<Rightarrow> 'e + ('a \<times> 's) \<Rightarrow> 's" where
  "commit s r = (case r of Inl _ \<Rightarrow> s | Inr (_, s') \<Rightarrow> s')"

lemma commit_Inl [simp]: "commit s (Inl e) = s"
  by (simp add: commit_def)

lemma commit_Inr [simp]: "commit s (Inr (x, s')) = s'"
  by (simp add: commit_def)

lemma commit_cases:
  obtains "commit s r = s" | x s' where "r = Inr (x, s')" "commit s r = s'"
  by (cases r) auto

section \<open>Tables\<close>

text \<open>\<open>update_where P f\<close> is SQL's \<open>UPDATE ... SET ... WHERE P\<close> on a table.\<close>

definition update_where :: "('r \<Rightarrow> bool) \<Rightarrow> ('r \<Rightarrow> 'r) \<Rightarrow> 'r list \<Rightarrow> 'r list" where
  "update_where P f tbl = map (\<lambda>r. if P r then f r else r) tbl"

lemma length_update_where [simp]: "length (update_where P f tbl) = length tbl"
  by (simp add: update_where_def)

lemma set_update_where: "set (update_where P f tbl) = f ` {r \<in> set tbl. P r} \<union> {r \<in> set tbl. \<not> P r}"
  by (auto simp: update_where_def)

lemma map_update_where:
  "(\<And>r. r \<in> set tbl \<Longrightarrow> P r \<Longrightarrow> g (f r) = g r) \<Longrightarrow> map g (update_where P f tbl) = map g tbl"
  by (simp add: update_where_def)

lemma update_where_none: "(\<And>r. r \<in> set tbl \<Longrightarrow> \<not> P r) \<Longrightarrow> update_where P f tbl = tbl"
  by (simp add: update_where_def map_idI)

lemma find_SomeD: "List.find P xs = Some x \<Longrightarrow> P x \<and> x \<in> set xs"
  by (induction xs) (auto split: if_splits)

lemma find_unique:
  assumes "x \<in> set xs" and "P x" and "\<And>y. y \<in> set xs \<Longrightarrow> P y \<Longrightarrow> y = x"
  shows "List.find P xs = Some x"
proof (cases "List.find P xs")
  case None
  with assms(1,2) show ?thesis by (simp add: find_None_iff)
next
  case (Some y)
  with assms(3) find_SomeD [OF this] show ?thesis by simp
qed

lemma find_append: "List.find P (xs @ ys) = (case List.find P xs of None \<Rightarrow> List.find P ys | Some x \<Rightarrow> Some x)"
  by (induction xs) auto

lemma distinct_map_inj: "distinct (map f xs) \<Longrightarrow> x \<in> set xs \<Longrightarrow> y \<in> set xs \<Longrightarrow> f x = f y \<Longrightarrow> x = y"
  by (auto simp: distinct_map dest: inj_onD)

section \<open>JavaScript strings\<close>

text \<open>\<open>!!s\<close> on \<open>string | null | undefined\<close>: the empty string is falsy too.\<close>

definition truthy :: "string option \<Rightarrow> bool" where
  "truthy s = (case s of None \<Rightarrow> False | Some t \<Rightarrow> t \<noteq> [])"

lemma truthy_None [simp]: "\<not> truthy None"
  by (simp add: truthy_def)

lemma truthy_Some [simp]: "truthy (Some t) \<longleftrightarrow> t \<noteq> []"
  by (simp add: truthy_def)

lemma truthy_iff: "truthy s \<longleftrightarrow> (\<exists>t. s = Some t \<and> t \<noteq> [])"
  by (cases s) auto

text \<open>\<open>String.prototype.trim\<close>: white space and line terminators below code unit 256.\<close>

definition js_space :: "char \<Rightarrow> bool" where
  "js_space c = (let n = (of_char c :: nat) in (9 \<le> n \<and> n \<le> 13) \<or> n = 32 \<or> n = 160)"

definition trim :: "string \<Rightarrow> string" where
  "trim s = rev (dropWhile js_space (rev (dropWhile js_space s)))"

lemma trim_Nil [simp]: "trim [] = []"
  by (simp add: trim_def)

lemma trim_idem_space_free: "(\<And>c. c \<in> set s \<Longrightarrow> \<not> js_space c) \<Longrightarrow> trim s = s"
proof -
  assume a: "\<And>c. c \<in> set s \<Longrightarrow> \<not> js_space c"
  have d: "dropWhile js_space xs = xs" if "set xs \<subseteq> set s" for xs
    using that a by (cases xs) auto
  show ?thesis by (simp add: trim_def d)
qed

lemma set_trim: "set (trim s) \<subseteq> set s"
  by (auto simp: trim_def dest!: set_dropWhileD)

section \<open>Rows changed by key\<close>

text \<open>When every hit has the key of one row of a table with distinct keys, that row is the only one changed.\<close>

lemma hit_unique:
  assumes "distinct (map k tbl)" and "a \<in> set tbl" and "\<And>r. hit r \<Longrightarrow> k r = k a" and "list_ex hit tbl"
  shows "hit a" and "filter hit tbl = [a]" and "update_where hit f tbl = update_where (\<lambda>r. r = a) f tbl"
proof -
  have eq: "r = a" if "r \<in> set tbl" "hit r" for r
    using distinct_map_inj [OF assms(1) that(1) assms(2)] assms(3) [OF that(2)] by simp
  with assms(4) show h: "hit a" by (auto simp: list_ex_iff)
  have iff: "hit r \<longleftrightarrow> r = a" if "r \<in> set tbl" for r using eq [OF that] h by blast
  show "update_where hit f tbl = update_where (\<lambda>r. r = a) f tbl"
    unfolding update_where_def by (rule map_cong [OF refl]) (simp add: iff)
  have "filter hit tbl = filter (\<lambda>r. r = a) tbl" by (rule filter_cong [OF refl]) (simp add: iff)
  also have "\<dots> = [a]" using assms(1,2)
  proof (induction tbl)
    case (Cons x xs)
    then show ?case
    proof (cases "x = a")
      case True
      with Cons.prems(1) have "a \<notin> set xs" by (auto simp: rev_image_eqI)
      then have "filter (\<lambda>r. r = a) xs = []" by (auto simp: filter_empty_conv)
      with True show ?thesis by simp
    qed auto
  qed simp
  finally show "filter hit tbl = [a]" .
qed

lemma update_one_set: "x \<in> set (update_where (\<lambda>r. r = a) f tbl) \<Longrightarrow> x \<in> set tbl \<or> x = f a"
  by (auto simp: update_where_def)

lemma update_one_keeps: "x \<in> set tbl \<Longrightarrow> x \<noteq> a \<Longrightarrow> x \<in> set (update_where (\<lambda>r. r = a) f tbl)"
  by (force simp: update_where_def)

lemma update_one_new: "a \<in> set tbl \<Longrightarrow> f a \<in> set (update_where (\<lambda>r. r = a) f tbl)"
  by (force simp: update_where_def)

lemma update_one_keys: "k (f a) = k a \<Longrightarrow> map k (update_where (\<lambda>r. r = a) f tbl) = map k tbl"
  by (rule map_update_where) simp

end
