(* ===== verification/Decimals.thy ===== *)
theory Decimals
  imports Complex_Main Prelude
begin

text \<open>
  Exact decimal arithmetic.  The program computes money and quantities with the package decimal.js,
  which is not part of the repository: a finite \<open>Decimal\<close> is modelled by the rational number it
  denotes (comparisons are those of the rationals; negative zero, NaN and infinities are not
  values of the model), and the two operations that round are a parameter of every definition
  that computes: \<open>rnd\<close> is the rounding to \<open>Decimal.precision\<close> significant digits that
  \<open>plus\<close>, \<open>minus\<close>, \<open>times\<close> and \<open>dividedBy\<close> apply to the exact result, and \<open>to_dp n\<close> is
  \<open>toDecimalPlaces(n, Decimal.ROUND_HALF_UP)\<close>.  The repository never calls \<open>Decimal.set\<close>, so the
  documented defaults hold: 20 significant digits, rounding half up.  The locale \<open>decimal_js\<close> states
  what the code relies on, and the interpretation at the end discharges it for an executable
  20-digit instance.
\<close>

type_synonym decimal = rat

record dec_lib =
  rnd :: "rat \<Rightarrow> rat"
  to_dp :: "nat \<Rightarrow> rat \<Rightarrow> rat"

definition d_plus :: "dec_lib \<Rightarrow> decimal \<Rightarrow> decimal \<Rightarrow> decimal" where
  "d_plus D x y = rnd D (x + y)"

definition d_minus :: "dec_lib \<Rightarrow> decimal \<Rightarrow> decimal \<Rightarrow> decimal" where
  "d_minus D x y = rnd D (x - y)"

definition d_times :: "dec_lib \<Rightarrow> decimal \<Rightarrow> decimal \<Rightarrow> decimal" where
  "d_times D x y = rnd D (x * y)"

text \<open>\<open>dividedBy\<close> is only modelled for a divisor that is not zero, as the code guards it.\<close>

definition d_div :: "dec_lib \<Rightarrow> decimal \<Rightarrow> decimal \<Rightarrow> decimal" where
  "d_div D x y = rnd D (x / y)"

section \<open>Decimal grids and rounding half up\<close>

text \<open>\<open>on_grid n x\<close>: the value \<open>x\<close> has at most \<open>n\<close> decimal places.\<close>

definition on_grid :: "nat \<Rightarrow> rat \<Rightarrow> bool" where
  "on_grid n x \<longleftrightarrow> x * 10 ^ n \<in> \<int>"

definition hu_int :: "rat \<Rightarrow> int" where
  "hu_int x = (if 0 \<le> x then \<lfloor>x + 1 / 2\<rfloor> else - \<lfloor>- x + 1 / 2\<rfloor>)"

definition half_up :: "nat \<Rightarrow> rat \<Rightarrow> rat" where
  "half_up n x = of_int (hu_int (x * 10 ^ n)) / 10 ^ n"

lemma on_grid_code [code]: "on_grid n x \<longleftrightarrow> of_int \<lfloor>x * 10 ^ n\<rfloor> = x * 10 ^ n"
  unfolding on_grid_def by (metis Ints_of_int of_int_floor_cancel Ints_cases)

lemma on_grid_0 [simp, intro]: "on_grid n 0"
  by (simp add: on_grid_def)

lemma on_grid_add [intro]: "on_grid n x \<Longrightarrow> on_grid n y \<Longrightarrow> on_grid n (x + y)"
  by (simp add: on_grid_def distrib_right)

lemma on_grid_diff [intro]: "on_grid n x \<Longrightarrow> on_grid n y \<Longrightarrow> on_grid n (x - y)"
  by (simp add: on_grid_def left_diff_distrib)

lemma on_grid_uminus [simp]: "on_grid n (- x) \<longleftrightarrow> on_grid n x"
  by (simp add: on_grid_def)

lemma on_grid_min [intro]: "on_grid n x \<Longrightarrow> on_grid n y \<Longrightarrow> on_grid n (min x y)"
  by (simp add: min_def)

lemma on_grid_sum_list: "(\<And>x. x \<in> set xs \<Longrightarrow> on_grid n x) \<Longrightarrow> on_grid n (sum_list xs)"
  by (induction xs) auto

lemma on_gridE:
  assumes "on_grid n x" obtains m where "x = of_int m / 10 ^ n"
proof -
  from assms obtain m where "x * 10 ^ n = of_int m"
    by (auto simp: on_grid_def elim: Ints_cases)
  then have "x = of_int m / 10 ^ n" by (simp add: field_simps)
  then show ?thesis by (rule that)
qed

lemma on_grid_of_int_div: "on_grid n (of_int m / 10 ^ n)"
  by (simp add: on_grid_def)

lemma hu_int_of_int [simp]: "hu_int (of_int m) = m"
proof -
  have "\<lfloor>rat_of_int k + 1 / 2\<rfloor> = k" for k
    by (simp add: floor_eq_iff)
  from this [of m] this [of "- m"] show ?thesis by (simp add: hu_int_def)
qed

lemma hu_int_error: "\<bar>of_int (hu_int x) - x\<bar> \<le> 1 / 2"
proof -
  have *: "\<bar>of_int \<lfloor>y + 1 / 2\<rfloor> - y\<bar> \<le> 1 / 2" for y :: rat
    unfolding abs_le_iff using floor_correct [of "y + 1 / 2"] by linarith
  show ?thesis
  proof (cases "0 \<le> x")
    case True
    with * [of x] show ?thesis by (simp add: hu_int_def)
  next
    case False
    have "\<bar>of_int (hu_int x) - x\<bar> = \<bar>of_int \<lfloor>- x + 1 / 2\<rfloor> - - x\<bar>"
      using False by (simp add: hu_int_def)
    with * [of "- x"] show ?thesis by (simp only:)
  qed
qed

lemma hu_int_mono: "x \<le> y \<Longrightarrow> hu_int x \<le> hu_int y"
proof -
  assume xy: "x \<le> y"
  have pos: "0 \<le> \<lfloor>z + 1 / 2\<rfloor>" if "0 \<le> z" for z :: rat
    using that by simp
  show ?thesis
  proof (cases "0 \<le> x \<or> y < 0")
    case True
    with xy show ?thesis by (auto simp: hu_int_def intro!: floor_mono)
  next
    case False
    then have "0 \<le> hu_int y" using pos [of y] by (simp add: hu_int_def)
    moreover from False have "hu_int x \<le> 0" using pos [of "- x"] unfolding hu_int_def by simp
    ultimately show ?thesis by (rule order_trans [rotated])
  qed
qed

lemma on_grid_half_up [simp, intro]: "on_grid n (half_up n x)"
  by (simp add: half_up_def on_grid_of_int_div)

lemma half_up_on_grid: "on_grid n x \<Longrightarrow> half_up n x = x"
  by (erule on_gridE) (simp add: half_up_def)

lemma half_up_mono: "x \<le> y \<Longrightarrow> half_up n x \<le> half_up n y"
  by (simp add: half_up_def divide_right_mono hu_int_mono)

lemma half_up_0 [simp]: "half_up n 0 = 0"
  by (rule half_up_on_grid) simp

lemma half_up_nonneg: "0 \<le> x \<Longrightarrow> 0 \<le> half_up n x"
  using half_up_mono [of 0 x n] by simp

lemma half_up_le_grid: "x \<le> y \<Longrightarrow> on_grid n y \<Longrightarrow> half_up n x \<le> y"
  using half_up_mono [of x y n] by (simp add: half_up_on_grid)

lemma half_up_ge_grid: "y \<le> x \<Longrightarrow> on_grid n y \<Longrightarrow> y \<le> half_up n x"
  using half_up_mono [of y x n] by (simp add: half_up_on_grid)

lemma half_up_error: "\<bar>half_up n x - x\<bar> * 10 ^ n \<le> 1 / 2"
proof -
  have "\<bar>half_up n x - x\<bar> * 10 ^ n = \<bar>(half_up n x - x) * 10 ^ n\<bar>"
    by (simp add: abs_mult)
  also have "(half_up n x - x) * 10 ^ n = of_int (hu_int (x * 10 ^ n)) - x * 10 ^ n"
    by (simp add: half_up_def left_diff_distrib)
  finally show ?thesis using hu_int_error [of "x * 10 ^ n"] by simp
qed

text \<open>Any value less than half a unit above a grid point rounds to at most that point.\<close>

lemma half_up_le_near:
  assumes "on_grid n y" and "(x - y) * 10 ^ n < 1 / 2" and "0 \<le> y"
  shows "half_up n x \<le> y"
proof (cases "x \<le> y")
  case True
  with assms show ?thesis by (simp add: half_up_le_grid)
next
  case False
  from assms(1) obtain m where m: "y * 10 ^ n = of_int m"
    by (auto simp: on_grid_def elim: Ints_cases)
  from False assms(3) have nn: "0 \<le> x * 10 ^ n" by simp
  from assms(2) m have "x * 10 ^ n + 1 / 2 < of_int m + 1" by (simp add: left_diff_distrib)
  then have "\<lfloor>x * 10 ^ n + 1 / 2\<rfloor> \<le> m" by (simp add: floor_le_iff)
  with nn have "hu_int (x * 10 ^ n) \<le> m" by (simp add: hu_int_def)
  then have "of_int (hu_int (x * 10 ^ n)) \<le> y * 10 ^ n" unfolding m by simp
  then show ?thesis by (simp add: half_up_def field_simps)
qed

section \<open>Column ranges\<close>

text \<open>
  \<open>num18_4\<close>: the values a \<open>numeric(18,4)\<close> column can hold.  \<open>exact_range\<close>: a hundred such
  values can be added without leaving the 20 significant digits of decimal.js.
\<close>

definition num18_4 :: "decimal \<Rightarrow> bool" where
  "num18_4 x \<longleftrightarrow> on_grid 4 x \<and> \<bar>x\<bar> < 10 ^ 14"

definition exact_range :: "decimal \<Rightarrow> bool" where
  "exact_range x \<longleftrightarrow> on_grid 4 x \<and> \<bar>x\<bar> < 10 ^ 16"

lemma num18_4_exact: "num18_4 x \<Longrightarrow> exact_range x"
  by (simp add: num18_4_def exact_range_def)

lemma num18_4_0 [simp]: "num18_4 0"
  by (simp add: num18_4_def)

lemma exact_range_0 [simp]: "exact_range 0"
  by (simp add: exact_range_def)

section \<open>What the code relies on\<close>

locale decimal_js =
  fixes D :: dec_lib
  assumes rnd_exact: "on_grid n x \<Longrightarrow> \<bar>x\<bar> * 10 ^ n < 10 ^ 20 \<Longrightarrow> rnd D x = x"
    and rnd_error: "\<bar>rnd D x - x\<bar> * (2 * 10 ^ 19) \<le> \<bar>x\<bar>"
    and to_dp_half_up: "to_dp D n x = half_up n x"
begin

lemma rnd_exact_range: "exact_range x \<Longrightarrow> rnd D x = x"
  by (rule rnd_exact [of 4]) (simp_all add: exact_range_def)

lemma plus_exact: "exact_range (x + y) \<Longrightarrow> d_plus D x y = x + y"
  by (simp add: d_plus_def rnd_exact_range)

lemma minus_exact: "exact_range (x - y) \<Longrightarrow> d_minus D x y = x - y"
  by (simp add: d_minus_def rnd_exact_range)

lemma rnd_0 [simp]: "rnd D 0 = 0"
  by (rule rnd_exact_range) simp

lemma rnd_nonneg: "0 \<le> x \<Longrightarrow> 0 \<le> rnd D x"
proof -
  assume x: "0 \<le> x"
  have "(x - rnd D x) * (2 * 10 ^ 19) \<le> \<bar>rnd D x - x\<bar> * (2 * 10 ^ 19)"
    by (rule mult_right_mono) auto
  also have "\<dots> \<le> x" using rnd_error [of x] x by simp
  finally show ?thesis using x by (simp add: left_diff_distrib)
qed

lemma rnd_nonpos: "x \<le> 0 \<Longrightarrow> rnd D x \<le> 0"
proof -
  assume x: "x \<le> 0"
  have "(rnd D x - x) * (2 * 10 ^ 19) \<le> \<bar>rnd D x - x\<bar> * (2 * 10 ^ 19)"
    by (rule mult_right_mono) auto
  also have "\<dots> \<le> - x" using rnd_error [of x] x by simp
  finally show ?thesis using x by (simp add: left_diff_distrib)
qed

lemma rnd_upper: "0 \<le> x \<Longrightarrow> rnd D x * (2 * 10 ^ 19) \<le> x * (2 * 10 ^ 19 + 1)"
proof -
  assume x: "0 \<le> x"
  have "(rnd D x - x) * (2 * 10 ^ 19) \<le> \<bar>rnd D x - x\<bar> * (2 * 10 ^ 19)"
    by (rule mult_right_mono) auto
  also have "\<dots> \<le> x" using rnd_error [of x] x by simp
  finally show ?thesis by (simp add: algebra_simps)
qed

lemma to_dp_grid [simp, intro]: "on_grid n (to_dp D n x)"
  by (simp add: to_dp_half_up)

lemma to_dp_id: "on_grid n x \<Longrightarrow> to_dp D n x = x"
  by (simp add: to_dp_half_up half_up_on_grid)

lemma to_dp_nonneg: "0 \<le> x \<Longrightarrow> 0 \<le> to_dp D n x"
  by (simp add: to_dp_half_up half_up_nonneg)

end

section \<open>The documented default configuration: 20 digits, half up\<close>

function mag_up :: "rat \<Rightarrow> nat" where
  "mag_up x = (if x = 0 \<or> 10 ^ 19 \<le> \<bar>x\<bar> then 0 else Suc (mag_up (10 * x)))"
  by pat_completeness auto

termination
proof (relation "measure (\<lambda>x. nat \<lceil>10 ^ 19 / \<bar>x\<bar>\<rceil>)")
  fix x :: rat
  assume "\<not> (x = 0 \<or> 10 ^ 19 \<le> \<bar>x\<bar>)"
  then have x: "0 < \<bar>x\<bar>" "\<bar>x\<bar> < 10 ^ 19" by auto
  define a where "a = 10 ^ 19 / \<bar>x\<bar>"
  from x have a: "1 < a" by (simp add: a_def field_simps)
  have e: "10 ^ 19 / \<bar>10 * x\<bar> = a / 10" by (simp add: a_def abs_mult)
  have "\<lceil>a / 10\<rceil> < \<lceil>a\<rceil>"
  proof (cases "a \<le> 10")
    case True
    then have "\<lceil>a / 10\<rceil> \<le> 1" by (simp add: ceiling_le_iff)
    moreover from a have "1 < \<lceil>a\<rceil>" by (simp add: less_ceiling_iff)
    ultimately show ?thesis by linarith
  next
    case False
    then have "a / 10 + 1 \<le> a" by (simp add: field_simps)
    then have "\<lceil>a / 10 + 1\<rceil> \<le> \<lceil>a\<rceil>" by (rule ceiling_mono)
    then show ?thesis by simp
  qed
  moreover have "0 < \<lceil>a / 10\<rceil>" using a by (simp add: less_ceiling_iff)
  ultimately show "(10 * x, x) \<in> measure (\<lambda>x. nat \<lceil>10 ^ 19 / \<bar>x\<bar>\<rceil>)"
    unfolding in_measure e a_def [symmetric] by linarith
qed simp

function mag_down :: "rat \<Rightarrow> nat" where
  "mag_down x = (if \<bar>x\<bar> < 10 ^ 20 then 0 else Suc (mag_down (x / 10)))"
  by pat_completeness auto

termination
proof (relation "measure (\<lambda>x. nat \<lfloor>\<bar>x\<bar>\<rfloor>)")
  fix x :: rat
  assume "\<not> \<bar>x\<bar> < 10 ^ 20"
  then have x: "10 ^ 20 \<le> \<bar>x\<bar>" by simp
  have "\<bar>x / 10\<bar> + 1 \<le> \<bar>x\<bar>" using x by (simp add: abs_divide)
  then have "\<lfloor>\<bar>x / 10\<bar> + 1\<rfloor> \<le> \<lfloor>\<bar>x\<bar>\<rfloor>" by (rule floor_mono)
  then have "\<lfloor>\<bar>x / 10\<bar>\<rfloor> < \<lfloor>\<bar>x\<bar>\<rfloor>" by simp
  moreover have "0 \<le> \<lfloor>\<bar>x / 10\<bar>\<rfloor>" by simp
  ultimately show "(x / 10, x) \<in> measure (\<lambda>x. nat \<lfloor>\<bar>x\<bar>\<rfloor>)"
    unfolding in_measure by linarith
qed simp

declare mag_up.simps [simp del] mag_down.simps [simp del]

definition rnd20 :: "rat \<Rightarrow> rat" where
  "rnd20 x =
     (if \<bar>x\<bar> < 10 ^ 20 then half_up (mag_up x) x
      else of_int (hu_int (x / 10 ^ mag_down x)) * 10 ^ mag_down x)"

definition dec20 :: dec_lib where
  "dec20 = \<lparr>rnd = rnd20, to_dp = half_up\<rparr>"

lemma mag_up_least:
  assumes "x \<noteq> 0" shows "10 ^ 19 \<le> \<bar>x\<bar> * 10 ^ mag_up x \<and> (\<forall>k < mag_up x. \<bar>x\<bar> * 10 ^ k < 10 ^ 19)"
  using assms
proof (induction x rule: mag_up.induct)
  case (1 x)
  show ?case
  proof (cases "10 ^ 19 \<le> \<bar>x\<bar>")
    case True
    then show ?thesis by (simp add: mag_up.simps [of x])
  next
    case False
    with 1 have IH: "10 ^ 19 \<le> \<bar>10 * x\<bar> * 10 ^ mag_up (10 * x)"
      "\<forall>k < mag_up (10 * x). \<bar>10 * x\<bar> * 10 ^ k < 10 ^ 19" by auto
    from False 1(2) have m: "mag_up x = Suc (mag_up (10 * x))" by (simp add: mag_up.simps [of x])
    have "\<bar>x\<bar> * 10 ^ k < 10 ^ 19" if "k < mag_up x" for k
      using that IH(2) False m by (cases k) (auto simp: abs_mult mult_ac)
    with IH(1) m show ?thesis by (simp add: abs_mult mult_ac)
  qed
qed

lemma mag_down_bounds:
  assumes "10 ^ 19 \<le> \<bar>x\<bar>"
  shows "10 ^ 19 \<le> \<bar>x\<bar> / 10 ^ mag_down x \<and> \<bar>x\<bar> / 10 ^ mag_down x < 10 ^ 20"
  using assms
proof (induction x rule: mag_down.induct)
  case (1 x)
  show ?case
  proof (cases "\<bar>x\<bar> < 10 ^ 20")
    case True
    with 1(2) show ?thesis by (simp add: mag_down.simps [of x])
  next
    case False
    then have "10 ^ 19 \<le> \<bar>x / 10\<bar>" by (simp add: abs_divide)
    with False 1(1) have "10 ^ 19 \<le> \<bar>x / 10\<bar> / 10 ^ mag_down (x / 10)"
      "\<bar>x / 10\<bar> / 10 ^ mag_down (x / 10) < 10 ^ 20" by auto
    moreover from False have "mag_down x = Suc (mag_down (x / 10))" by (simp add: mag_down.simps [of x])
    ultimately show ?thesis by (simp add: abs_divide)
  qed
qed

lemma on_grid_mono: "on_grid n x \<Longrightarrow> n \<le> k \<Longrightarrow> on_grid k x"
proof -
  assume "on_grid n x" and "n \<le> k"
  then have "x * 10 ^ n * 10 ^ (k - n) \<in> \<int>" by (simp add: on_grid_def)
  also have "x * 10 ^ n * 10 ^ (k - n) = x * 10 ^ k"
    using \<open>n \<le> k\<close> by (simp add: mult.assoc flip: power_add)
  finally show ?thesis by (simp add: on_grid_def)
qed

lemma rnd20_exact:
  assumes "on_grid n x" and "\<bar>x\<bar> * 10 ^ n < 10 ^ 20"
  shows "rnd20 x = x"
proof (cases "x = 0")
  case True
  then show ?thesis by (simp add: rnd20_def)
next
  case False
  have "\<bar>x\<bar> * 1 \<le> \<bar>x\<bar> * 10 ^ n" by (rule mult_left_mono) auto
  with assms(2) have small: "\<bar>x\<bar> < 10 ^ 20" by simp
  have "n \<le> mag_up x"
  proof (rule ccontr)
    assume "\<not> n \<le> mag_up x"
    then obtain j where n: "n = mag_up x + Suc j" by (auto simp: not_le less_iff_Suc_add)
    have "10 ^ 19 * 10 \<le> (\<bar>x\<bar> * 10 ^ mag_up x) * 10 ^ Suc j"
      using mag_up_least [OF False] by (intro mult_mono) auto
    with assms(2) show False unfolding n by (simp add: power_add mult_ac)
  qed
  with assms(1) have "on_grid (mag_up x) x" by (rule on_grid_mono)
  with small show ?thesis by (simp add: rnd20_def half_up_on_grid)
qed

text \<open>Evaluation takes the common case first: a value with four decimals in range is not rounded.\<close>

lemma rnd20_code [code]:
  "rnd20 x =
     (if of_int \<lfloor>x * 10000\<rfloor> = x * 10000 \<and> \<bar>x\<bar> < 10000000000000000 then x
      else if \<bar>x\<bar> < 10 ^ 20 then half_up (mag_up x) x
      else of_int (hu_int (x / 10 ^ mag_down x)) * 10 ^ mag_down x)"
proof (cases "of_int \<lfloor>x * 10000\<rfloor> = x * 10000 \<and> \<bar>x\<bar> < 10000000000000000")
  case True
  then have "on_grid 4 x" by (simp add: on_grid_code)
  with True show ?thesis by (simp add: rnd20_exact)
next
  case False
  then show ?thesis by (simp only: rnd20_def if_False)
qed

lemma rnd20_error: "\<bar>rnd20 x - x\<bar> * (2 * 10 ^ 19) \<le> \<bar>x\<bar>"
proof (cases "\<bar>x\<bar> < 10 ^ 20")
  case True
  show ?thesis
  proof (cases "x = 0")
    case False
    let ?e = "\<bar>half_up (mag_up x) x - x\<bar>"
    have "?e * (2 * 10 ^ 19) \<le> ?e * (2 * (\<bar>x\<bar> * 10 ^ mag_up x))"
      using mag_up_least [OF False] by (intro mult_left_mono) auto
    also have "\<dots> = \<bar>x\<bar> * (2 * (?e * 10 ^ mag_up x))" by (simp add: mult_ac)
    also have "\<dots> \<le> \<bar>x\<bar> * 1"
      using half_up_error [of "mag_up x" x] by (intro mult_left_mono) auto
    finally show ?thesis using True by (simp add: rnd20_def)
  qed (simp add: rnd20_def)
next
  case False
  let ?p = "10 ^ mag_down x :: rat" and ?y = "x / 10 ^ mag_down x"
  have "of_int (hu_int ?y) * ?p - x = (of_int (hu_int ?y) - ?y) * ?p"
    by (simp add: left_diff_distrib)
  then have "\<bar>of_int (hu_int ?y) * ?p - x\<bar> = \<bar>of_int (hu_int ?y) - ?y\<bar> * ?p"
    by (simp add: abs_mult)
  also have "\<dots> * (2 * 10 ^ 19) \<le> (1 / 2) * ?p * (2 * 10 ^ 19)"
    using hu_int_error [of ?y] by (intro mult_right_mono) auto
  also have "\<dots> = 10 ^ 19 * ?p" by simp
  also have "\<dots> \<le> \<bar>x\<bar> / ?p * ?p"
    using mag_down_bounds [of x] False by (intro mult_right_mono) auto
  finally show ?thesis using False by (simp add: rnd20_def)
qed

interpretation dec20: decimal_js dec20
proof unfold_locales
  fix n x
  show "on_grid n x \<Longrightarrow> \<bar>x\<bar> * 10 ^ n < 10 ^ 20 \<Longrightarrow> rnd dec20 x = x"
    using rnd20_exact by (simp add: dec20_def)
  show "\<bar>rnd dec20 x - x\<bar> * (2 * 10 ^ 19) \<le> \<bar>x\<bar>"
    using rnd20_error by (simp add: dec20_def)
  show "to_dp dec20 n x = half_up n x" by (simp add: dec20_def)
qed

lemma decimal_js_dec20: "decimal_js dec20"
  by (rule dec20.decimal_js_axioms)

text \<open>Evaluation of concrete runs: a small value with four decimals is kept as it is.\<close>

lemma rnd20_small: "of_int \<lfloor>x * 10 ^ 4\<rfloor> = x * 10 ^ 4 \<Longrightarrow> \<bar>x\<bar> < 10 ^ 16 \<Longrightarrow> rnd dec20 x = x"
  by (rule dec20.rnd_exact_range) (simp add: exact_range_def on_grid_code)

lemma to_dp20_small: "of_int \<lfloor>x * 10 ^ 4\<rfloor> = x * 10 ^ 4 \<Longrightarrow> to_dp dec20 4 x = x"
  by (rule dec20.to_dp_id) (simp add: on_grid_code)

end
