(* ===== verification/Errors.thy ===== *)
theory Errors
  imports Decimals
begin

text \<open>
  The errors the program throws (\<open>src/src/common/errors/domain-error.ts\<close> and the \<open>errors.ts\<close> of
  each module): one constructor per error class of the kernel, the sales, the receipt and the inventory
  module, carrying the details the class records (its message text is dropped); \<open>CodedError code detail\<close>
  for the classes of the other modules, which are their code; and two more for what is not a
  \<open>DomainError\<close>: a JavaScript \<open>RangeError\<close>/\<open>Error\<close>, and an error the database raises.  \<open>error_code\<close> gives each class its stable
  code (the string value of the enumeration) and \<open>domain_error_status\<close> the HTTP status the exception
  filter answers with.
\<close>

datatype (plugins only: code) domain_error =
    ValidationError string
  | NotFoundError string
  | ConflictError string
  | OptimisticLockConflictError
  | CrossCompanyReferenceError string
  | SeriesAlreadyExistsError
  | LedgerImbalanceError decimal decimal
  | LineSideError nat
  | MinLinesError nat
  | TagMatrixError string string
  | ProjectClosedError string
  | AlreadyReversedError string
  | CannotReverseReversalError string
  | PeriodClosedError string string
  | NoPeriodDefinedError string string string
  | PeriodsAlreadyExistError string
  | PeriodAlreadyClosedError string
  | PeriodAlreadyOpenError string
  | PeriodFyLockedError string
  | NoPeriodsForFyError string
  | FinancialYearNotFoundError string
  | NegativeStockError decimal decimal
  | SameGodownTransferError string
  | NotApprovedError string
  | StockJournalPostedImmutableError string
  | InvalidStockJournalTransitionError string string
  | StockJournalAlreadyReversedError string
  | IssueSideOnTransferOnlyError string
  | InventoryAccountNotConfiguredError string
  | CurrentlyDueNegativeError decimal
  | AdvanceExceededError decimal decimal
  | CertifiedNotPositiveError decimal
  | DuplicateSeqNoError string int
  | NotDraftError string
  | NotPostedError string
  | SalesAccountNotConfiguredError string
  | OverReleaseError decimal decimal
  | SettledAmountInvalidError decimal
  | OverApplicationError decimal decimal
  | ReferenceXorError
  | ChequeRefMissingError string
  | IpcNotPostedError string string
  | ReceiptAccountNotConfiguredError string
  | InvalidGeneralTargetError string
  | CodedError string string
  | JsError string
  | DatabaseError string

fun error_code :: "domain_error \<Rightarrow> string option" where
  "error_code (ValidationError _) = Some ''VALIDATION_ERROR''"
| "error_code (NotFoundError _) = Some ''NOT_FOUND''"
| "error_code (ConflictError _) = Some ''CONFLICT''"
| "error_code OptimisticLockConflictError = Some ''OPTIMISTIC_LOCK_CONFLICT''"
| "error_code (CrossCompanyReferenceError _) = Some ''CROSS_COMPANY_REFERENCE''"
| "error_code SeriesAlreadyExistsError = Some ''SERIES_ALREADY_EXISTS''"
| "error_code (LedgerImbalanceError _ _) = Some ''LEDGER_IMBALANCE''"
| "error_code (LineSideError _) = Some ''INVALID_LINE''"
| "error_code (MinLinesError _) = Some ''INVALID_LINE''"
| "error_code (TagMatrixError _ _) = Some ''MISSING_DIMENSION''"
| "error_code (ProjectClosedError _) = Some ''PROJECT_CLOSED''"
| "error_code (AlreadyReversedError _) = Some ''ALREADY_REVERSED''"
| "error_code (CannotReverseReversalError _) = Some ''CANNOT_REVERSE_REVERSAL''"
| "error_code (PeriodClosedError _ _) = Some ''PERIOD_CLOSED''"
| "error_code (NoPeriodDefinedError _ _ _) = Some ''NO_PERIOD_DEFINED''"
| "error_code (PeriodsAlreadyExistError _) = Some ''PERIODS_ALREADY_EXIST''"
| "error_code (PeriodAlreadyClosedError _) = Some ''PERIOD_ALREADY_CLOSED''"
| "error_code (PeriodAlreadyOpenError _) = Some ''PERIOD_ALREADY_OPEN''"
| "error_code (PeriodFyLockedError _) = Some ''PERIOD_FY_LOCKED''"
| "error_code (NoPeriodsForFyError _) = Some ''NO_PERIODS_FOR_FY''"
| "error_code (FinancialYearNotFoundError _) = Some ''FINANCIAL_YEAR_NOT_FOUND''"
| "error_code (NegativeStockError _ _) = Some ''NEGATIVE_STOCK_BLOCKED''"
| "error_code (SameGodownTransferError _) = Some ''SAME_GODOWN_TRANSFER''"
| "error_code (NotApprovedError _) = Some ''STOCK_JOURNAL_NOT_APPROVED''"
| "error_code (StockJournalPostedImmutableError _) = Some ''VOUCHER_POSTED_IMMUTABLE''"
| "error_code (InvalidStockJournalTransitionError _ _) = Some ''INVALID_STOCK_JOURNAL_TRANSITION''"
| "error_code (StockJournalAlreadyReversedError _) = Some ''ALREADY_REVERSED''"
| "error_code (IssueSideOnTransferOnlyError _) = Some ''VALIDATION_ERROR''"
| "error_code (InventoryAccountNotConfiguredError _) = Some ''INVENTORY_ACCOUNT_NOT_CONFIGURED''"
| "error_code (CurrentlyDueNegativeError _) = Some ''CURRENTLY_DUE_NEGATIVE''"
| "error_code (AdvanceExceededError _ _) = Some ''ADVANCE_EXCEEDS_REMAINING''"
| "error_code (CertifiedNotPositiveError _) = Some ''CERTIFIED_NOT_POSITIVE''"
| "error_code (DuplicateSeqNoError _ _) = Some ''DUPLICATE_IPC_SEQ_NO''"
| "error_code (NotDraftError _) = Some ''VOUCHER_POSTED_IMMUTABLE''"
| "error_code (NotPostedError _) = Some ''VOUCHER_NOT_POSTED''"
| "error_code (SalesAccountNotConfiguredError _) = Some ''SALES_ACCOUNT_NOT_CONFIGURED''"
| "error_code (OverReleaseError _ _) = Some ''OVER_RELEASE''"
| "error_code (SettledAmountInvalidError _) = Some ''SETTLED_COMPOSITION_INVALID''"
| "error_code (OverApplicationError _ _) = Some ''RECEIPT_EXCEEDS_OUTSTANDING''"
| "error_code ReferenceXorError = Some ''REFERENCE_XOR_VIOLATION''"
| "error_code (ChequeRefMissingError _) = Some ''CHEQUE_REF_REQUIRED''"
| "error_code (IpcNotPostedError _ _) = Some ''IPC_NOT_POSTED''"
| "error_code (ReceiptAccountNotConfiguredError _) = Some ''RECEIPT_ACCOUNT_NOT_CONFIGURED''"
| "error_code (InvalidGeneralTargetError _) = Some ''INVALID_GENERAL_TARGET''"
| "error_code (CodedError c _) = Some c"
| "error_code (JsError _) = None"
| "error_code (DatabaseError _) = None"

definition domain_error_status :: "(string \<times> nat) list" where
  "domain_error_status =
    [(''VALIDATION_ERROR'', 400),
     (''NOT_FOUND'', 404),
     (''CONFLICT'', 409),
     (''FORBIDDEN'', 403),
     (''UNAUTHORIZED'', 401),
     (''INVALID_CREDENTIALS'', 401),
     (''TOKEN_EXPIRED'', 401),
     (''UNAUTHENTICATED'', 401),
     (''OPTIMISTIC_LOCK_CONFLICT'', 409),
     (''CROSS_COMPANY_REFERENCE'', 400),
     (''DUPLICATE_CODE'', 409),
     (''DUPLICATE_NAME'', 409),
     (''IMMUTABLE_PROJECT_CODE'', 409),
     (''INVALID_STATUS_TRANSITION'', 409),
     (''REFERENCED_MASTER'', 409),
     (''ACCOUNT_TYPE_MISMATCH'', 400),
     (''ACCOUNT_TYPE_IMMUTABLE'', 409),
     (''BASE_UOM_IMMUTABLE'', 409),
     (''CROSS_PROJECT_DIMENSION'', 400),
     (''SERIES_ALREADY_EXISTS'', 409),
     (''LEDGER_IMBALANCE'', 400),
     (''MISSING_DIMENSION'', 400),
     (''APPEND_ONLY_VIOLATION'', 409),
     (''INVALID_LINE'', 400),
     (''PROJECT_CLOSED'', 409),
     (''ALREADY_REVERSED'', 409),
     (''CANNOT_REVERSE_REVERSAL'', 409),
     (''PERIOD_CLOSED'', 409),
     (''NO_PERIOD_DEFINED'', 409),
     (''PERIODS_ALREADY_EXIST'', 409),
     (''PERIOD_OVERLAP'', 409),
     (''PERIOD_ALREADY_CLOSED'', 409),
     (''PERIOD_ALREADY_OPEN'', 409),
     (''PERIOD_FY_LOCKED'', 409),
     (''NO_PERIODS_FOR_FY'', 404),
     (''FINANCIAL_YEAR_NOT_FOUND'', 404),
     (''NUMBERING_EXHAUSTED'', 409),
     (''NEGATIVE_STOCK_BLOCKED'', 409),
     (''SAME_GODOWN_TRANSFER'', 400),
     (''STOCK_JOURNAL_NOT_APPROVED'', 409),
     (''INVALID_STOCK_JOURNAL_TRANSITION'', 409),
     (''INVENTORY_ACCOUNT_NOT_CONFIGURED'', 409),
     (''NOT_BANK_CASH_ACCOUNT'', 400),
     (''MISSING_REQUIRED_DIMENSION'', 400),
     (''MISSING_CONTROL_PARTY'', 400),
     (''UNBALANCED_ENTRY'', 400),
     (''VOUCHER_POSTED_IMMUTABLE'', 409),
     (''VOUCHER_NOT_POSTED'', 409),
     (''OPENING_ALREADY_EXISTS'', 409),
     (''OPENING_ACCOUNT_NOT_CONFIGURED'', 409),
     (''DUPLICATE_IPC_SEQ_NO'', 409),
     (''CURRENTLY_DUE_NEGATIVE'', 400),
     (''ADVANCE_EXCEEDS_REMAINING'', 409),
     (''CERTIFIED_NOT_POSITIVE'', 400),
     (''SALES_ACCOUNT_NOT_CONFIGURED'', 409),
     (''OVER_RELEASE'', 409),
     (''ALREADY_CONFIRMED'', 409),
     (''NOT_ACCRUABLE_MODE'', 409),
     (''ATTENDANCE_CONFIRMED_IMMUTABLE'', 409),
     (''ATTENDANCE_NOT_CONFIRMED'', 409),
     (''EMPLOYEE_NOT_OFFICE_STAFF'', 400),
     (''IMMUTABLE_EMPLOYEE_CODE'', 409),
     (''EFFECTIVE_DATE_BEFORE_JOINING'', 400),
     (''DUPLICATE_ATTENDANCE'', 409),
     (''HR_ACCOUNT_NOT_CONFIGURED'', 409),
     (''LABOUR_COST_CENTRE_NOT_CONFIGURED'', 409),
     (''SALARY_NOT_DRAFT'', 409),
     (''DUPLICATE_DRAFT_SHEET'', 409),
     (''SALARY_NOT_POSTED'', 409),
     (''SETTLED_COMPOSITION_INVALID'', 400),
     (''RECEIPT_EXCEEDS_OUTSTANDING'', 409),
     (''REFERENCE_XOR_VIOLATION'', 400),
     (''CHEQUE_REF_REQUIRED'', 400),
     (''IPC_NOT_POSTED'', 409),
     (''RECEIPT_ACCOUNT_NOT_CONFIGURED'', 409),
     (''INVALID_GENERAL_TARGET'', 400),
     (''REQUISITION_NOT_SUBMITTED'', 409),
     (''REQUISITION_NOT_APPROVED'', 409),
     (''APPROVAL_BEYOND_AUTHORITY'', 403),
     (''MISSING_REJECT_REASON'', 400),
     (''NO_OUTSTANDING_BALANCE'', 409),
     (''INVALID_REQUISITION_TRANSITION'', 409),
     (''ISSUE_EXCEEDS_BALANCE'', 400),
     (''GODOWN_NOT_IN_PROJECT'', 400),
     (''INACTIVE_MASTER_REFERENCE'', 400),
     (''PAYMENT_OVER_ALLOCATION'', 409),
     (''PAYABLE_NOT_SETTLEABLE'', 409),
     (''ALLOCATION_EXCEEDS_OUTSTANDING'', 409),
     (''SETTLEMENT_ACCOUNT_IS_EXPENSE'', 409),
     (''PAYMENT_ACCOUNT_NOT_CONFIGURED'', 409),
     (''NET_PAYABLE_NEGATIVE'', 400),
     (''LINE_TYPE_INVALID'', 400),
     (''PO_NOT_BILLABLE'', 409),
     (''INVALID_PO_TRANSITION'', 409),
     (''PURCHASE_ACCOUNT_NOT_CONFIGURED'', 409),
     (''TENANT_SCOPE_MISSING'', 400)]"

text \<open>\<open>AllExceptionsFilter.toEnvelope\<close> for the errors of the model: a domain error answers with its
  mapped status (400 when the table has none), anything else with 500.\<close>

definition response_status :: "domain_error \<Rightarrow> nat" where
  "response_status e =
     (case error_code e of
        Some c \<Rightarrow> (case map_of domain_error_status c of Some n \<Rightarrow> n | None \<Rightarrow> 400)
      | None \<Rightarrow> 500)"

end
