(* ===== verification/Js_Dates.thy ===== *)
theory Js_Dates
  imports Errors "HOL-Library.Product_Lexorder"
begin

text \<open>
  Calendar dates: what \<open>Date.UTC\<close>, \<open>toISOString\<close> and the comparison of ISO strings compute, for
  the days the program handles.  A day is a triple (year, month 1-12, day of the month), ordered
  lexicographically, which is the order of \<open>getTime()\<close> at midnight UTC.  The printing and padding of
  decimal numbers (\<open>String(n)\<close>, \<open>padStart\<close>) is here too, as dates and voucher numbers share it, with
  the lemma that fixed-width decimal strings compare like the numbers they print, so that the
  string comparisons of the source are date comparisons.
\<close>

type_synonym ymd = "int \<times> int \<times> int"

section \<open>Printing numbers\<close>

definition digit :: "nat \<Rightarrow> char" where
  "digit n = char_of (48 + n)"

definition digit_val :: "char \<Rightarrow> nat" where
  "digit_val c = of_char c - 48"

definition is_digit :: "char \<Rightarrow> bool" where
  "is_digit c = (let n = (of_char c :: nat) in 48 \<le> n \<and> n \<le> 57)"

text \<open>\<open>String(n)\<close> of a non-negative integer, and \<open>s.padStart(w, '0')\<close>.\<close>

fun show_nat :: "nat \<Rightarrow> string" where
  "show_nat n = (if n < 10 then [digit n] else show_nat (n div 10) @ [digit (n mod 10)])"

declare show_nat.simps [simp del]

definition pad_start :: "nat \<Rightarrow> string \<Rightarrow> string" where
  "pad_start w s = replicate (w - length s) CHR ''0'' @ s"

text \<open>\<open>parseInt(s, 10)\<close> of a string of digits.\<close>

definition parse_nat :: "string \<Rightarrow> nat" where
  "parse_nat s = foldl (\<lambda>a c. 10 * a + digit_val c) 0 s"

lemma of_char_digit: "n < 10 \<Longrightarrow> (of_char (digit n) :: nat) = 48 + n"
  by (simp add: digit_def of_char_of take_bit_eq_mod)

lemma digit_val_digit [simp]: "n < 10 \<Longrightarrow> digit_val (digit n) = n"
  by (simp add: digit_val_def of_char_digit)

lemma is_digit_digit [simp]: "n < 10 \<Longrightarrow> is_digit (digit n)"
  by (simp add: is_digit_def of_char_digit Let_def)

lemma digit_less_iff: "m < 10 \<Longrightarrow> n < 10 \<Longrightarrow> digit m < digit n \<longleftrightarrow> m < n"
  by (simp add: less_char_def of_char_digit)

lemma digit_digit_val: "is_digit c \<Longrightarrow> digit (digit_val c) = c"
  by (auto simp: is_digit_def digit_val_def digit_def Let_def)

lemma digit_val_less: "is_digit c \<Longrightarrow> digit_val c < 10"
  by (auto simp: is_digit_def digit_val_def Let_def)

lemma digit_zero: "digit 0 = CHR ''0''"
  by code_simp

lemma parse_nat_append: "parse_nat (s @ [c]) = 10 * parse_nat s + digit_val c"
  by (simp add: parse_nat_def)

lemma parse_nat_show_nat [simp]: "parse_nat (show_nat n) = n"
proof (induction n rule: show_nat.induct)
  case (1 n)
  show ?case
  proof (cases "n < 10")
    case True
    then show ?thesis by (simp add: show_nat.simps [of n] parse_nat_def)
  next
    case False
    with 1 have "parse_nat (show_nat (n div 10)) = n div 10" by simp
    with False show ?thesis by (simp add: show_nat.simps [of n] parse_nat_append)
  qed
qed

lemma parse_nat_zeros: "parse_nat (replicate k CHR ''0'' @ s) = parse_nat s"
  by (induction k) (simp_all add: parse_nat_def digit_val_def)

lemma parse_nat_pad_start [simp]: "parse_nat (pad_start w s) = parse_nat s"
  by (simp add: pad_start_def parse_nat_zeros)

lemma show_nat_digits: "\<forall>c \<in> set (show_nat n). is_digit c"
proof (induction n rule: show_nat.induct)
  case (1 n)
  then show ?case by (subst show_nat.simps) auto
qed

lemma show_nat_nonempty: "show_nat n \<noteq> []"
  by (subst show_nat.simps) simp

lemma pad_start_digits: "\<forall>c \<in> set (pad_start w (show_nat n)). is_digit c"
  using show_nat_digits [of n] by (auto simp: pad_start_def is_digit_def)

lemma pad_start_inject: "pad_start w (show_nat m) = pad_start w (show_nat n) \<longleftrightarrow> m = n"
  by (metis parse_nat_pad_start parse_nat_show_nat)

section \<open>Fixed-width decimal strings\<close>

fun fixw :: "nat \<Rightarrow> nat \<Rightarrow> string" where
  "fixw 0 n = []"
| "fixw (Suc w) n = fixw w (n div 10) @ [digit (n mod 10)]"

lemma length_fixw [simp]: "length (fixw w n) = w"
  by (induction w arbitrary: n) auto

lemma fixw_0: "fixw w 0 = replicate w CHR ''0''"
  by (induction w) (auto simp: digit_zero replicate_append_same)

lemma pad_start_fixw: "n < 10 ^ w \<Longrightarrow> 0 < w \<Longrightarrow> pad_start w (show_nat n) = fixw w n"
proof (induction w arbitrary: n)
  case 0
  then show ?case by simp
next
  case (Suc w)
  show ?case
  proof (cases "n < 10")
    case True
    then show ?thesis by (simp add: show_nat.simps [of n] pad_start_def fixw_0)
  next
    case False
    with Suc.prems have "n div 10 < 10 ^ w" and "0 < w"
      by (auto intro!: less_mult_imp_div_less simp: mult.commute intro: gr0I)
    with Suc.IH have "pad_start w (show_nat (n div 10)) = fixw w (n div 10)" by blast
    with False show ?thesis by (simp add: show_nat.simps [of n] pad_start_def)
  qed
qed

lemma list_less_append:
  fixes xs ys us vs :: "'a::linorder list"
  assumes "length xs = length ys"
  shows "xs @ us < ys @ vs \<longleftrightarrow> xs < ys \<or> xs = ys \<and> us < vs"
  using assms
proof (induction xs ys rule: list_induct2)
  case Nil
  then show ?case by simp
next
  case (Cons x xs y ys)
  then show ?case by auto
qed

lemma base10_less:
  fixes a b r s :: nat
  shows "r < 10 \<Longrightarrow> s < 10 \<Longrightarrow> 10 * a + r < 10 * b + s \<longleftrightarrow> a < b \<or> a = b \<and> r < s"
  by (cases a b rule: linorder_cases) auto

lemma base10_split: "m = 10 * (m div 10) + m mod (10::nat)"
  by simp

lemma fixw_order:
  "m < 10 ^ w \<Longrightarrow> n < 10 ^ w \<Longrightarrow>
     (fixw w m < fixw w n \<longleftrightarrow> m < n) \<and> (fixw w m = fixw w n \<longleftrightarrow> m = n)"
proof (induction w arbitrary: m n)
  case 0
  then show ?case by simp
next
  case (Suc w)
  have "m div 10 < 10 ^ w" and "n div 10 < 10 ^ w"
    using Suc.prems by (auto intro!: less_mult_imp_div_less simp: mult.commute)
  note IH = Suc.IH [OF this]
  have inj: "digit a = digit b \<longleftrightarrow> a = b" if "a < 10" "b < 10" for a b
    using that by (metis digit_val_digit)
  have "fixw (Suc w) m < fixw (Suc w) n \<longleftrightarrow>
      m div 10 < n div 10 \<or> m div 10 = n div 10 \<and> m mod 10 < n mod 10"
    using IH by (simp add: list_less_append digit_less_iff)
  also have "\<dots> \<longleftrightarrow> 10 * (m div 10) + m mod 10 < 10 * (n div 10) + n mod 10"
    by (rule base10_less [symmetric]) auto
  also have "\<dots> \<longleftrightarrow> m < n" by (simp only: base10_split [symmetric])
  finally have lt: "fixw (Suc w) m < fixw (Suc w) n \<longleftrightarrow> m < n" .
  have "fixw (Suc w) m = fixw (Suc w) n \<longleftrightarrow> m div 10 = n div 10 \<and> m mod 10 = n mod 10"
    using IH by (simp add: inj)
  also have "\<dots> \<longleftrightarrow> m = n" by (metis base10_split)
  finally show ?case using lt by blast
qed

section \<open>Calendar days\<close>

definition leap_year :: "int \<Rightarrow> bool" where
  "leap_year y \<longleftrightarrow> y mod 4 = 0 \<and> (y mod 100 \<noteq> 0 \<or> y mod 400 = 0)"

definition days_in_month :: "int \<Rightarrow> int \<Rightarrow> int" where
  "days_in_month y m =
     (if m = 2 then (if leap_year y then 29 else 28)
      else if m = 4 \<or> m = 6 \<or> m = 9 \<or> m = 11 then 30 else 31)"

definition valid_ymd :: "ymd \<Rightarrow> bool" where
  "valid_ymd dt = (case dt of (y, m, d) \<Rightarrow> 1 \<le> m \<and> m \<le> 12 \<and> 1 \<le> d \<and> d \<le> days_in_month y m)"

definition next_month :: "int \<times> int \<Rightarrow> int \<times> int" where
  "next_month ym = (case ym of (y, m) \<Rightarrow> if m < 12 then (y, m + 1) else (y + 1, 1))"

lemma days_in_month_bounds: "28 \<le> days_in_month y m \<and> days_in_month y m \<le> 31"
  by (simp add: days_in_month_def)

text \<open>
  \<open>Date.UTC(y, mi, d)\<close> with the month index \<open>mi\<close> counted from 0: a year from 0 to 99 means 1900 to
  1999, the month index carries into the year, day 0 is the last day of the month before, and days
  past the end of the month carry into the following months.
\<close>

function carry_days :: "int \<Rightarrow> int \<Rightarrow> int \<Rightarrow> ymd" where
  "carry_days y m d =
     (if d \<le> days_in_month y m then (y, m, d)
      else case next_month (y, m) of (y', m') \<Rightarrow> carry_days y' m' (d - days_in_month y m))"
  by pat_completeness auto

termination
proof (relation "measure (\<lambda>(y, m, d). nat d)")
  fix y m d y' m' :: int and p
  assume "\<not> d \<le> days_in_month y m"
  with days_in_month_bounds [of y m]
  show "((y', m', d - days_in_month y m), y, m, d) \<in> measure (\<lambda>(y, m, d). nat d)"
    by simp
qed simp

declare carry_days.simps [simp del]

definition utc_year :: "int \<Rightarrow> int" where
  "utc_year y = (if 0 \<le> y \<and> y \<le> 99 then 1900 + y else y)"

definition date_utc :: "int \<Rightarrow> int \<Rightarrow> int \<Rightarrow> ymd" where
  "date_utc y mi d =
     (let yy = utc_year y + mi div 12; mm = mi mod 12 + 1 in
      if d = 0 then (if mm = 1 then (yy - 1, 12, 31) else (yy, mm - 1, days_in_month yy (mm - 1)))
      else carry_days yy mm d)"

lemma utc_year_ge: "y \<le> utc_year y"
  by (simp add: utc_year_def)

lemma utc_year_id: "100 \<le> y \<Longrightarrow> utc_year y = y"
  by (simp add: utc_year_def)

lemma carry_days_id: "d \<le> days_in_month y m \<Longrightarrow> carry_days y m d = (y, m, d)"
  by (simp add: carry_days.simps)

lemma carry_days_month:
  "1 \<le> m \<Longrightarrow> m \<le> 12 \<Longrightarrow> carry_days y m d = (a, b, c) \<Longrightarrow>
     1 \<le> b \<and> b \<le> 12 \<and> 12 * y + m \<le> 12 * a + b"
proof (induction y m d rule: carry_days.induct)
  case (1 y m d)
  show ?case
  proof (cases "d \<le> days_in_month y m")
    case True
    with 1 show ?thesis by (simp add: carry_days_id)
  next
    case False
    obtain y' m' where n: "next_month (y, m) = (y', m')" by force
    with 1(2,3) have m': "1 \<le> m'" "m' \<le> 12" "12 * y + m \<le> 12 * y' + m'"
      by (auto simp: next_month_def split: if_splits)
    with 1(1) [OF False n [symmetric]] 1(4) False n
    show ?thesis by (simp add: carry_days.simps [of y m d])
  qed
qed

lemma carry_days_valid:
  "1 \<le> m \<Longrightarrow> m \<le> 12 \<Longrightarrow> 1 \<le> d \<Longrightarrow> valid_ymd (carry_days y m d)"
proof (induction y m d rule: carry_days.induct)
  case (1 y m d)
  show ?case
  proof (cases "d \<le> days_in_month y m")
    case True
    with 1 show ?thesis by (simp add: carry_days_id valid_ymd_def)
  next
    case False
    obtain y' m' where n: "next_month (y, m) = (y', m')" by force
    with 1(2,3) have "1 \<le> m'" "m' \<le> 12" by (auto simp: next_month_def split: if_splits)
    with 1(1) [OF False n [symmetric]] False n
    show ?thesis by (simp add: carry_days.simps [of y m d])
  qed
qed

lemma date_utc_month_ge:
  assumes "date_utc y mi d = (a, b, c)" shows "1 \<le> b \<and> b \<le> 12 \<and> 12 * y + mi \<le> 12 * a + b"
proof -
  have mm: "1 \<le> mi mod 12 + 1" "mi mod 12 + 1 \<le> 12" using pos_mod_bound [of 12 mi] by auto
  have idx: "12 * (utc_year y + mi div 12) + (mi mod 12 + 1) = 12 * utc_year y + mi + 1" by simp
  show ?thesis
  proof (cases "d = 0")
    case True
    with assms idx utc_year_ge [of y] mm show ?thesis
      by (auto simp: date_utc_def Let_def split: if_splits)
  next
    case False
    with assms have "carry_days (utc_year y + mi div 12) (mi mod 12 + 1) d = (a, b, c)"
      by (simp add: date_utc_def Let_def)
    from carry_days_month [OF mm this] idx utc_year_ge [of y] show ?thesis by linarith
  qed
qed

lemma date_utc_valid_id:
  assumes "valid_ymd (y, m, d)" and "100 \<le> y" shows "date_utc y (m - 1) d = (y, m, d)"
proof -
  from assms have m: "1 \<le> m" "m \<le> 12" "1 \<le> d" "d \<le> days_in_month y m" by (auto simp: valid_ymd_def)
  then have "(m - 1) div 12 = 0" "(m - 1) mod 12 = m - 1" by auto
  with m assms(2) show ?thesis by (simp add: date_utc_def Let_def utc_year_id carry_days_id)
qed

lemma date_utc_last_of_month:
  assumes "1 \<le> m" and "m \<le> 12" and "100 \<le> y"
  shows "date_utc y m 0 = (y, m, days_in_month y m)"
proof (cases "m = 12")
  case True
  with assms show ?thesis by (simp add: date_utc_def Let_def utc_year_id days_in_month_def)
next
  case False
  with assms have "m div 12 = 0" "m mod 12 = m" by auto
  with assms show ?thesis by (simp add: date_utc_def Let_def utc_year_id)
qed

section \<open>ISO strings\<close>

text \<open>\<open>toISOString().slice(0, 10)\<close> for the years 0 to 9999.\<close>

definition iso :: "ymd \<Rightarrow> string" where
  "iso dt = (case dt of (y, m, d) \<Rightarrow>
     pad_start 4 (show_nat (nat y)) @ ''-'' @ pad_start 2 (show_nat (nat m)) @ ''-'' @
     pad_start 2 (show_nat (nat d)))"

text \<open>\<open>/^\d{4}-\d{2}-\d{2}$/\<close> with the three numbers it separates.\<close>

definition parse_iso :: "string \<Rightarrow> ymd option" where
  "parse_iso s =
     (if length s = 10 \<and> list_all is_digit (take 4 s) \<and> s ! 4 = CHR ''-'' \<and>
         list_all is_digit (take 2 (drop 5 s)) \<and> s ! 7 = CHR ''-'' \<and> list_all is_digit (drop 8 s)
      then Some (int (parse_nat (take 4 s)), int (parse_nat (take 2 (drop 5 s))),
                 int (parse_nat (drop 8 s)))
      else None)"

definition iso_range :: "ymd \<Rightarrow> bool" where
  "iso_range dt = (case dt of (y, m, d) \<Rightarrow> 0 \<le> y \<and> y < 10000 \<and> 0 \<le> m \<and> m < 100 \<and> 0 \<le> d \<and> d < 100)"

lemma iso_fixw:
  "iso_range (y, m, d) \<Longrightarrow>
     iso (y, m, d) = fixw 4 (nat y) @ ''-'' @ fixw 2 (nat m) @ ''-'' @ fixw 2 (nat d)"
  by (simp add: iso_def iso_range_def pad_start_fixw nat_less_iff)

lemma iso_less_iff:
  assumes "iso_range dt" and "iso_range dt'" shows "iso dt < iso dt' \<longleftrightarrow> dt < dt'"
proof -
  obtain y m d y' m' d' where e: "dt = (y, m, d)" "dt' = (y', m', d')" by (metis prod_cases3)
  from assms have b: "nat y < 10 ^ 4" "nat y' < 10 ^ 4" "nat m < 10 ^ 2" "nat m' < 10 ^ 2"
    "nat d < 10 ^ 2" "nat d' < 10 ^ 2"
    and nn: "0 \<le> y" "0 \<le> y'" "0 \<le> m" "0 \<le> m'" "0 \<le> d" "0 \<le> d'"
    by (auto simp: e iso_range_def nat_less_iff)
  have "iso dt < iso dt' \<longleftrightarrow>
      nat y < nat y' \<or> nat y = nat y' \<and> (nat m < nat m' \<or> nat m = nat m' \<and> nat d < nat d')"
    using assms fixw_order [OF b(1,2)] fixw_order [OF b(3,4)] fixw_order [OF b(5,6)]
    by (simp add: e iso_fixw list_less_append)
  with nn show ?thesis by (auto simp: e less_prod_def')
qed

lemma iso_inject:
  assumes "iso_range dt" and "iso_range dt'" and "iso dt = iso dt'" shows "dt = dt'"
  using iso_less_iff [OF assms(1,2)] iso_less_iff [OF assms(2,1)] assms(3) by auto

lemma iso_le_iff:
  assumes "iso_range dt" and "iso_range dt'" shows "iso dt \<le> iso dt' \<longleftrightarrow> dt \<le> dt'"
  using iso_less_iff [OF assms(2,1)] by (simp add: not_less [symmetric])

lemma valid_iso_range: "valid_ymd (y, m, d) \<Longrightarrow> 0 \<le> y \<Longrightarrow> y < 10000 \<Longrightarrow> iso_range (y, m, d)"
  using days_in_month_bounds [of y m] by (auto simp: valid_ymd_def iso_range_def)

lemma parse_iso_iso: "iso_range dt \<Longrightarrow> parse_iso (iso dt) = Some dt"
proof -
  assume r: "iso_range dt"
  obtain y m d where e: "dt = (y, m, d)" by (metis prod_cases3)
  have l: "length (pad_start w (show_nat n)) = w" if "n < 10 ^ w" "0 < w" for w n
    using that by (simp add: pad_start_fixw)
  from r have "length (pad_start 4 (show_nat (nat y))) = 4" "length (pad_start 2 (show_nat (nat m))) = 2"
    "length (pad_start 2 (show_nat (nat d))) = 2"
    by (auto simp: e iso_range_def nat_less_iff intro!: l)
  moreover from r have "0 \<le> y" "0 \<le> m" "0 \<le> d" by (auto simp: e iso_range_def)
  ultimately show ?thesis
    using pad_start_digits by (simp add: e parse_iso_def iso_def nth_append list_all_iff)
qed

lemma parse_nat_bound: "list_all is_digit s \<Longrightarrow> parse_nat s < 10 ^ length s"
proof (induction s rule: rev_induct)
  case (snoc c s)
  then have "parse_nat s + 1 \<le> 10 ^ length s" "digit_val c < 10" by (auto simp: digit_val_less)
  then show ?case by (simp add: parse_nat_append)
qed (simp add: parse_nat_def)

lemma fixw_parse_nat: "list_all is_digit s \<Longrightarrow> fixw (length s) (parse_nat s) = s"
proof (induction s rule: rev_induct)
  case (snoc c s)
  then have "digit_val c < 10" "fixw (length s) (parse_nat s) = s" by (auto simp: digit_val_less)
  with snoc.prems show ?case by (simp add: parse_nat_append digit_digit_val)
qed simp

lemma parse_iso_Some:
  assumes "parse_iso s = Some dt" shows "iso_range dt \<and> iso dt = s"
proof -
  from assms have l: "length s = 10" and t: "list_all is_digit (take 4 s)"
    "list_all is_digit (take 2 (drop 5 s))" "list_all is_digit (drop 8 s)"
    and c: "s ! 4 = CHR ''-''" "s ! 7 = CHR ''-''"
    and dt: "dt = (int (parse_nat (take 4 s)), int (parse_nat (take 2 (drop 5 s))), int (parse_nat (drop 8 s)))"
    by (auto simp: parse_iso_def split: if_splits)
  from t [THEN parse_nat_bound] l have r: "iso_range dt" by (simp add: dt iso_range_def)
  have "s = take 4 s @ [s ! 4] @ take 2 (drop 5 s) @ [s ! 7] @ drop 8 s"
  proof -
    have "s = take 4 s @ drop 4 s" by simp
    also have "drop 4 s = s ! 4 # drop 5 s" using l Cons_nth_drop_Suc [of 4 s] by simp
    also have "drop 5 s = take 2 (drop 5 s) @ drop 7 s"
      using append_take_drop_id [of 2 "drop 5 s"] by (simp del: append_take_drop_id)
    also have "drop 7 s = s ! 7 # drop 8 s" using l Cons_nth_drop_Suc [of 7 s] by simp
    finally show ?thesis by simp
  qed
  moreover have "iso dt = take 4 s @ ''-'' @ take 2 (drop 5 s) @ ''-'' @ drop 8 s"
    using t [THEN fixw_parse_nat] l iso_fixw r by (simp add: dt)
  ultimately show ?thesis using r c by simp
qed

end
