(* ===== verification/Values.thy ===== *)
theory Values
  imports Js_Dates
begin

text \<open>
  The shared value objects (\<open>src/src/common/\<close>): \<open>Money\<close>, \<open>DateOnly\<close>, \<open>Bin\<close>, \<open>Tin\<close> and
  \<open>PhoneNumber\<close>, and the input checks every aggregate repeats: \<open>toDecimal\<close>, \<open>assertNonNeg\<close>,
  \<open>req\<close>, \<open>clean\<close> and the merging of a patch.
\<close>

section \<open>Money\<close>

text \<open>
  \<open>Currency\<close> has the single value \<open>'BDT'\<close>, so the currency check of the arithmetic can never fail
  and an amount of money is its decimal.  \<open>isPositive\<close> is the sign test of decimal.js, true of zero.
\<close>

type_synonym money = decimal

definition money_plus :: "dec_lib \<Rightarrow> money \<Rightarrow> money \<Rightarrow> money" where
  "money_plus D a b = d_plus D a b"

definition money_minus :: "dec_lib \<Rightarrow> money \<Rightarrow> money \<Rightarrow> money" where
  "money_minus D a b = d_minus D a b"

definition money_times :: "dec_lib \<Rightarrow> money \<Rightarrow> decimal \<Rightarrow> money" where
  "money_times D a f = d_times D a f"

definition money_round :: "dec_lib \<Rightarrow> money \<Rightarrow> money" where
  "money_round D a = to_dp D 4 a"

definition money_is_zero :: "money \<Rightarrow> bool" where
  "money_is_zero a \<longleftrightarrow> a = 0"

definition money_is_negative :: "money \<Rightarrow> bool" where
  "money_is_negative a \<longleftrightarrow> a < 0"

definition money_is_positive :: "money \<Rightarrow> bool" where
  "money_is_positive a \<longleftrightarrow> 0 \<le> a"

text \<open>\<open>lines.reduce((s, l) => s.plus(f(l)), Money.zero())\<close>.\<close>

definition money_sum :: "dec_lib \<Rightarrow> money list \<Rightarrow> money" where
  "money_sum D xs = foldl (money_plus D) 0 xs"

definition nonneg_grid :: "decimal \<Rightarrow> bool" where
  "nonneg_grid x \<longleftrightarrow> 0 \<le> x \<and> on_grid 4 x"

lemma nonneg_grid_simps [simp]: "nonneg_grid 0"
  by (simp add: nonneg_grid_def)

context decimal_js begin

lemma money_sum_acc:
  assumes "\<forall>x \<in> set xs. nonneg_grid x" and "nonneg_grid a" and "a + sum_list xs < 10 ^ 16"
  shows "foldl (money_plus D) a xs = a + sum_list xs"
  using assms
proof (induction xs arbitrary: a)
  case Nil
  then show ?case by simp
next
  case (Cons x xs)
  have s: "0 \<le> sum_list xs" using Cons.prems(1) by (intro sum_list_nonneg) (auto simp: nonneg_grid_def)
  have ax: "nonneg_grid (a + x)" using Cons.prems by (auto simp: nonneg_grid_def)
  have "exact_range (a + x)"
    using Cons.prems(3) s ax by (simp add: exact_range_def nonneg_grid_def)
  then have "money_plus D a x = a + x" by (simp add: money_plus_def plus_exact)
  with Cons.IH [of "a + x"] Cons.prems ax show ?case by (simp add: add.assoc)
qed

lemma money_sum_exact:
  "\<forall>x \<in> set xs. nonneg_grid x \<Longrightarrow> sum_list xs < 10 ^ 16 \<Longrightarrow> money_sum D xs = sum_list xs"
  using money_sum_acc [of xs 0] by (simp add: money_sum_def)

lemma money_sum_two: "money_sum D [x, y] = d_plus D (d_plus D 0 x) y"
  by (simp add: money_sum_def money_plus_def)

end

section \<open>Inputs\<close>

text \<open>
  What \<open>new Decimal(value)\<close> makes of the value a caller supplies: nothing was supplied
  (\<open>null\<close>, \<open>undefined\<close> or the empty string), decimal.js rejects it, it is NaN or infinite, or it is
  a finite decimal.
\<close>

datatype decimal_input = Absent | Unparsable | NonFinite | Dec decimal

definition to_decimal :: "decimal_input \<Rightarrow> string \<Rightarrow> domain_error + decimal" where
  "to_decimal v field =
     (case v of
        Absent \<Rightarrow> Inl (ValidationError field)
      | Unparsable \<Rightarrow> Inl (ValidationError field)
      | NonFinite \<Rightarrow> Inl (ValidationError field)
      | Dec d \<Rightarrow> Inr d)"

definition assert_non_neg :: "decimal \<Rightarrow> string \<Rightarrow> domain_error + decimal" where
  "assert_non_neg d field = (if d < 0 then Inl (ValidationError field) else Inr d)"

definition round4 :: "dec_lib \<Rightarrow> decimal \<Rightarrow> decimal" where
  "round4 D d = to_dp D 4 d"

text \<open>\<open>req(v, field)\<close>: a string that is not blank, trimmed.  \<open>clean(v)\<close>: blank becomes \<open>null\<close>.\<close>

definition req :: "string \<Rightarrow> string \<Rightarrow> domain_error + string" where
  "req v field = (if trim v = [] then Inl (ValidationError field) else Inr (trim v))"

definition clean :: "string option \<Rightarrow> string option" where
  "clean v = (case v of None \<Rightarrow> None | Some s \<Rightarrow> if trim s = [] then None else Some (trim s))"

text \<open>A field of a \<open>PATCH\<close>: left out, \<open>null\<close>, or a value; \<open>??\<close> and \<open>!== undefined\<close> merge it.\<close>

datatype 'a patch = Undefined | Null | Given 'a

definition patch_nullish :: "'a patch \<Rightarrow> 'a \<Rightarrow> 'a" where
  "patch_nullish p old = (case p of Given x \<Rightarrow> x | Null \<Rightarrow> old | Undefined \<Rightarrow> old)"

definition patch_defined :: "'a patch \<Rightarrow> 'a option \<Rightarrow> 'a option" where
  "patch_defined p old = (case p of Undefined \<Rightarrow> old | Null \<Rightarrow> None | Given x \<Rightarrow> Some x)"

definition or_empty :: "string option \<Rightarrow> string" where
  "or_empty v = (case v of None \<Rightarrow> [] | Some s \<Rightarrow> s)"

definition patched :: "'a patch \<Rightarrow> 'b \<Rightarrow> ('a option \<Rightarrow> domain_error + 'b) \<Rightarrow> domain_error + 'b" where
  "patched p old f = (case p of Undefined \<Rightarrow> Inr old | Null \<Rightarrow> f None | Given x \<Rightarrow> f (Some x))"

definition clean_patch :: "string patch \<Rightarrow> string option \<Rightarrow> string option" where
  "clean_patch p old = (case p of Undefined \<Rightarrow> old | Null \<Rightarrow> None | Given s \<Rightarrow> clean (Some s))"

lemma to_decimal_eq_Inr [simp]: "to_decimal v f = Inr d \<longleftrightarrow> v = Dec d"
  by (cases v) (auto simp: to_decimal_def)

lemma to_decimal_Dec [simp]: "to_decimal (Dec d) f = Inr d"
  by simp

lemma to_decimal_eq_Inl: "to_decimal v f = Inl e \<longleftrightarrow> (\<forall>d. v \<noteq> Dec d) \<and> e = ValidationError f"
  by (cases v) (auto simp: to_decimal_def)

lemma assert_non_neg_eq_Inr [simp]: "assert_non_neg d f = Inr x \<longleftrightarrow> 0 \<le> d \<and> x = d"
  by (auto simp: assert_non_neg_def)

lemma req_eq_Inr [simp]: "req v f = Inr x \<longleftrightarrow> trim v \<noteq> [] \<and> x = trim v"
  by (auto simp: req_def)

lemma clean_Some_iff: "clean v = Some x \<longleftrightarrow> (\<exists>s. v = Some s \<and> trim s \<noteq> [] \<and> x = trim s)"
  by (cases v) (auto simp: clean_def)

lemma truthy_clean: "truthy (clean v) \<longleftrightarrow> clean v \<noteq> None"
  by (cases v) (auto simp: clean_def)

context decimal_js begin

lemma round4_grid [simp, intro]: "on_grid 4 (round4 D x)"
  by (simp add: round4_def)

lemma round4_id: "on_grid 4 x \<Longrightarrow> round4 D x = x"
  by (simp add: round4_def to_dp_id)

lemma round4_nonneg: "0 \<le> x \<Longrightarrow> 0 \<le> round4 D x"
  by (simp add: round4_def to_dp_nonneg)

end

section \<open>DateOnly\<close>

text \<open>
  \<open>DateOnly.of\<close> trims, checks the shape \<open>YYYY-MM-DD\<close>, and accepts the three numbers when the day
  \<open>Date.UTC\<close> builds from them has the same year, month and day.
\<close>

definition date_only_of :: "string \<Rightarrow> domain_error + string" where
  "date_only_of raw =
     (case parse_iso (trim raw) of
        None \<Rightarrow> Inl (ValidationError ''value'')
      | Some (y, m, d) \<Rightarrow>
          if date_utc y (m - 1) d \<noteq> (y, m, d) then Inl (ValidationError ''value'')
          else Inr (trim raw))"

definition date_only_from_date :: "ymd \<Rightarrow> string" where
  "date_only_from_date dt = (case dt of (y, m, d) \<Rightarrow>
     show_nat (nat y) @ ''-'' @ pad_start 2 (show_nat (nat m)) @ ''-'' @ pad_start 2 (show_nat (nat d)))"

definition date_only_is_before :: "string \<Rightarrow> string \<Rightarrow> bool" where
  "date_only_is_before a b \<longleftrightarrow> a < b"

definition date_only_is_after :: "string \<Rightarrow> string \<Rightarrow> bool" where
  "date_only_is_after a b \<longleftrightarrow> b < a"

lemma date_utc_roundtrip_valid:
  assumes "date_utc y (m - 1) d = (y, m, d)" and "0 \<le> y" and "0 \<le> d"
  shows "valid_ymd (y, m, d) \<and> 100 \<le> y"
proof -
  have "1 \<le> m" "m \<le> 12" using date_utc_month_ge [OF assms(1)] by auto
  then have i: "(m - 1) div 12 = 0" "(m - 1) mod 12 = m - 1" by auto
  show ?thesis
  proof (cases "d = 0")
    case True
    with assms(1) i show ?thesis by (auto simp: date_utc_def Let_def split: if_splits)
  next
    case False
    with assms(1) i have c: "carry_days (utc_year y) m d = (y, m, d)" by (simp add: date_utc_def Let_def)
    with carry_days_valid [of m d "utc_year y"] \<open>1 \<le> m\<close> \<open>m \<le> 12\<close> False assms(3)
    have "valid_ymd (y, m, d)" by simp
    moreover have "12 * utc_year y + m \<le> 12 * y + m"
      using carry_days_month [OF \<open>1 \<le> m\<close> \<open>m \<le> 12\<close> c] by simp
    ultimately show ?thesis using assms(2) by (auto simp: utc_year_def split: if_splits)
  qed
qed

lemma date_only_of_Inr:
  "date_only_of raw = Inr s \<longleftrightarrow>
     s = trim raw \<and> (\<exists>y m d. valid_ymd (y, m, d) \<and> 100 \<le> y \<and> y < 10000 \<and> iso (y, m, d) = s)"
proof
  assume "date_only_of raw = Inr s"
  then obtain y m d where p: "parse_iso (trim raw) = Some (y, m, d)"
    and u: "date_utc y (m - 1) d = (y, m, d)" and s: "s = trim raw"
    by (auto simp: date_only_of_def split: option.splits if_splits)
  from parse_iso_Some [OF p] have "iso_range (y, m, d)" "iso (y, m, d) = s" by (auto simp: s)
  with date_utc_roundtrip_valid [OF u] s
  show "s = trim raw \<and> (\<exists>y m d. valid_ymd (y, m, d) \<and> 100 \<le> y \<and> y < 10000 \<and> iso (y, m, d) = s)"
    by (auto simp: iso_range_def)
next
  assume "s = trim raw \<and> (\<exists>y m d. valid_ymd (y, m, d) \<and> 100 \<le> y \<and> y < 10000 \<and> iso (y, m, d) = s)"
  then obtain y m d where v: "valid_ymd (y, m, d)" "100 \<le> y" "y < 10000"
    and s: "iso (y, m, d) = s" "s = trim raw" by auto
  from v have "iso_range (y, m, d)" by (simp add: valid_iso_range)
  then have "parse_iso s = Some (y, m, d)" using s parse_iso_iso [of "(y, m, d)"] by simp
  with v s show "date_only_of raw = Inr s" by (simp add: date_only_of_def date_utc_valid_id)
qed

section \<open>Registration numbers and phone numbers\<close>

definition bin_of :: "string \<Rightarrow> domain_error + string" where
  "bin_of raw =
     (if length (trim raw) = 13 \<and> list_all is_digit (trim raw) then Inr (trim raw)
      else Inl (ValidationError ''value''))"

definition tin_of :: "string \<Rightarrow> domain_error + string" where
  "tin_of raw =
     (if length (trim raw) = 12 \<and> list_all is_digit (trim raw) then Inr (trim raw)
      else Inl (ValidationError ''value''))"

text \<open>\<open>/^\\+[1-9]\\d{7,14}$/\<close>.\<close>

definition e164 :: "string \<Rightarrow> bool" where
  "e164 s =
     (case s of
        p # c # ds \<Rightarrow> p = CHR ''+'' \<and> is_digit c \<and> c \<noteq> CHR ''0'' \<and>
          7 \<le> length ds \<and> length ds \<le> 14 \<and> list_all is_digit ds
      | _ \<Rightarrow> False)"

definition phone_of :: "string \<Rightarrow> domain_error + string" where
  "phone_of raw = (if e164 (trim raw) then Inr (trim raw) else Inl (ValidationError ''value''))"

definition phone_is_bangladeshi :: "string \<Rightarrow> bool" where
  "phone_is_bangladeshi s \<longleftrightarrow> take 4 s = ''+880''"

lemma digit_not_space: "is_digit c \<Longrightarrow> \<not> js_space c"
  by (auto simp: is_digit_def js_space_def Let_def)

lemma dropWhile_id: "xs = [] \<or> \<not> P (hd xs) \<Longrightarrow> dropWhile P xs = xs"
  by (cases xs) auto

lemma trim_trim [simp]: "trim (trim s) = trim s"
proof -
  define u where "u = dropWhile js_space s"
  define v where "v = dropWhile js_space (rev u)"
  have "rev v = [] \<or> \<not> js_space (hd (rev v))"
  proof (cases "v = []")
    case False
    have "rev u = takeWhile js_space (rev u) @ v" by (simp add: v_def)
    then have "u = rev v @ rev (takeWhile js_space (rev u))" by (metis rev_append rev_rev_ident)
    with False have "u \<noteq> []" "hd u = hd (rev v)" by (metis Nil_is_append_conv rev_is_Nil_conv, metis hd_append2 rev_is_Nil_conv)
    with hd_dropWhile [of js_space s] show ?thesis by (auto simp: u_def)
  qed simp
  moreover have "v = [] \<or> \<not> js_space (hd v)" using hd_dropWhile [of js_space "rev u"] by (auto simp: v_def)
  ultimately show ?thesis by (simp add: trim_def dropWhile_id flip: u_def v_def)
qed

end
