(* ===== verification/Ledger_Types.thy ===== *)
theory Ledger_Types
  imports Values
begin

text \<open>
  The request types of the posting kernel (\<open>src/src/core/posting/domain/voucher-type.ts\<close>,
  \<open>posting-command.ts\<close>): the ten voucher types, the lines of a posting command with their four
  dimensions and party, and the command each voucher module submits to \<open>PostingService.post\<close>.
\<close>

datatype voucher_type =
    SALES_IPC | PURCHASE | PAYMENT | RECEIPT | CONTRA | JOURNAL | STOCK_JOURNAL | SALARY
  | DAILY_LABOUR_ACCRUAL | OPENING

definition VOUCHER_TYPES :: "(string \<times> voucher_type) list" where
  "VOUCHER_TYPES =
     [(''SALES_IPC'', SALES_IPC), (''PURCHASE'', PURCHASE), (''PAYMENT'', PAYMENT),
      (''RECEIPT'', RECEIPT), (''CONTRA'', CONTRA), (''JOURNAL'', JOURNAL),
      (''STOCK_JOURNAL'', STOCK_JOURNAL), (''SALARY'', SALARY),
      (''DAILY_LABOUR_ACCRUAL'', DAILY_LABOUR_ACCRUAL), (''OPENING'', OPENING)]"

text \<open>\<open>isVoucherType(value)\<close>, returning the type it narrows the string to.\<close>

definition is_voucher_type :: "string \<Rightarrow> voucher_type option" where
  "is_voucher_type v = map_of VOUCHER_TYPES v"

fun voucher_type_name :: "voucher_type \<Rightarrow> string" where
  "voucher_type_name SALES_IPC = ''SALES_IPC''"
| "voucher_type_name PURCHASE = ''PURCHASE''"
| "voucher_type_name PAYMENT = ''PAYMENT''"
| "voucher_type_name RECEIPT = ''RECEIPT''"
| "voucher_type_name CONTRA = ''CONTRA''"
| "voucher_type_name JOURNAL = ''JOURNAL''"
| "voucher_type_name STOCK_JOURNAL = ''STOCK_JOURNAL''"
| "voucher_type_name SALARY = ''SALARY''"
| "voucher_type_name DAILY_LABOUR_ACCRUAL = ''DAILY_LABOUR_ACCRUAL''"
| "voucher_type_name OPENING = ''OPENING''"

lemma is_voucher_type_name [simp]: "is_voucher_type (voucher_type_name vt) = Some vt"
  by (cases vt) (simp_all add: is_voucher_type_def VOUCHER_TYPES_def)

datatype account_type = ASSET | LIABILITY | EQUITY | INCOME | EXPENSE

record posting_line =
  pl_account :: string
  pl_project :: "string option"
  pl_cost_centre :: "string option"
  pl_purpose :: "string option"
  pl_godown :: "string option"
  pl_party :: "string option"
  pl_debit :: money
  pl_credit :: money
  pl_narration :: "string option"
  pl_account_type :: "account_type option"
  pl_is_control :: "bool option"
  pl_is_stock :: "bool option"

record posting_command =
  pc_company :: string
  pc_fy :: string
  pc_voucher_type :: voucher_type
  pc_voucher_date :: string
  pc_source_type :: string
  pc_source_id :: string
  pc_posted_by :: string
  pc_narration :: "string option"
  pc_lines :: "posting_line list"

text \<open>
  The line most voucher modules push: project, cost centre and purpose, one side, no godown, no
  narration, a classification.
\<close>

definition dim_line ::
  "string \<Rightarrow> string option \<Rightarrow> string option \<Rightarrow> string option \<Rightarrow> string option \<Rightarrow> money \<Rightarrow> money \<Rightarrow>
   account_type \<Rightarrow> bool \<Rightarrow> posting_line" where
  "dim_line acc proj cc purp party dr cr ty ctl =
     \<lparr>pl_account = acc, pl_project = proj, pl_cost_centre = cc, pl_purpose = purp, pl_godown = None,
      pl_party = party, pl_debit = dr, pl_credit = cr, pl_narration = None,
      pl_account_type = Some ty, pl_is_control = Some ctl, pl_is_stock = None\<rparr>"

lemma dim_line_simps [simp]:
  "pl_account (dim_line acc proj cc purp party dr cr ty ctl) = acc"
  "pl_project (dim_line acc proj cc purp party dr cr ty ctl) = proj"
  "pl_cost_centre (dim_line acc proj cc purp party dr cr ty ctl) = cc"
  "pl_purpose (dim_line acc proj cc purp party dr cr ty ctl) = purp"
  "pl_godown (dim_line acc proj cc purp party dr cr ty ctl) = None"
  "pl_party (dim_line acc proj cc purp party dr cr ty ctl) = party"
  "pl_debit (dim_line acc proj cc purp party dr cr ty ctl) = dr"
  "pl_credit (dim_line acc proj cc purp party dr cr ty ctl) = cr"
  "pl_account_type (dim_line acc proj cc purp party dr cr ty ctl) = Some ty"
  "pl_is_control (dim_line acc proj cc purp party dr cr ty ctl) = Some ctl"
  "pl_is_stock (dim_line acc proj cc purp party dr cr ty ctl) = None"
  by (simp_all add: dim_line_def)

text \<open>
  The exact totals of a command, and what the invariants of the ledger ask of it: every line has
  exactly one side, positive and with at most four decimals, at least two lines, equal totals.
\<close>

definition pl_ok :: "posting_line \<Rightarrow> bool" where
  "pl_ok l \<longleftrightarrow> 0 \<le> pl_debit l \<and> 0 \<le> pl_credit l \<and> (pl_debit l = 0) \<noteq> (pl_credit l = 0)"

definition pl_grid :: "posting_line \<Rightarrow> bool" where
  "pl_grid l \<longleftrightarrow> on_grid 4 (pl_debit l) \<and> on_grid 4 (pl_credit l)"

definition total_dr :: "posting_line list \<Rightarrow> decimal" where
  "total_dr ls = sum_list (map pl_debit ls)"

definition total_cr :: "posting_line list \<Rightarrow> decimal" where
  "total_cr ls = sum_list (map pl_credit ls)"

lemma totals_simps [simp]:
  "total_dr [] = 0" "total_cr [] = 0"
  "total_dr (l # ls) = pl_debit l + total_dr ls" "total_cr (l # ls) = pl_credit l + total_cr ls"
  "total_dr (ls @ ks) = total_dr ls + total_dr ks" "total_cr (ls @ ks) = total_cr ls + total_cr ks"
  by (simp_all add: total_dr_def total_cr_def)

end
