(* ===== verification/Journal_Entry.thy ===== *)
theory Journal_Entry
  imports Ledger_Types
begin

text \<open>
  The journal entry aggregate (\<open>src/src/core/posting/domain/journal-entry.ts\<close>): lines and entries
  with their construction checks, and the reversal of an entry.
\<close>

record journal_line =
  jl_no :: nat
  jl_account :: string
  jl_project :: "string option"
  jl_cost_centre :: "string option"
  jl_purpose :: "string option"
  jl_godown :: "string option"
  jl_party :: "string option"
  jl_debit :: money
  jl_credit :: money
  jl_narration :: "string option"

record journal_entry =
  je_id :: string
  je_company :: string
  je_fy :: string
  je_no :: string
  je_voucher_type :: voucher_type
  je_voucher_date :: string
  je_source_type :: string
  je_source_id :: string
  je_is_reversal :: bool
  je_reversal_of :: "string option"
  je_posted_at :: int
  je_posted_by :: string
  je_narration :: "string option"
  je_lines :: "journal_line list"

section \<open>Construction\<close>

definition line_create :: "posting_line \<Rightarrow> nat \<Rightarrow> domain_error + journal_line" where
  "line_create l n =
     (if money_is_negative (pl_debit l) \<or> money_is_negative (pl_credit l) then Inl (LineSideError n)
      else if money_is_zero (pl_debit l) = money_is_zero (pl_credit l) then Inl (LineSideError n)
      else Inr \<lparr>jl_no = n, jl_account = pl_account l, jl_project = pl_project l,
        jl_cost_centre = pl_cost_centre l, jl_purpose = pl_purpose l, jl_godown = pl_godown l,
        jl_party = pl_party l, jl_debit = pl_debit l, jl_credit = pl_credit l,
        jl_narration = pl_narration l\<rparr>)"

definition lines_create :: "posting_line list \<Rightarrow> domain_error + journal_line list" where
  "lines_create ls = rmap (\<lambda>(i, l). line_create l i) (enumerate 1 ls)"

definition assert_min_lines :: "journal_line list \<Rightarrow> domain_error + unit" where
  "assert_min_lines ls = require (2 \<le> length ls) (MinLinesError (length ls))"

definition assert_balanced :: "dec_lib \<Rightarrow> journal_line list \<Rightarrow> domain_error + unit" where
  "assert_balanced D ls =
     (let dr = money_sum D (map jl_debit ls); cr = money_sum D (map jl_credit ls) in
      require (dr = cr) (LedgerImbalanceError dr cr))"

definition assert_postable :: "dec_lib \<Rightarrow> posting_line list \<Rightarrow> domain_error + unit" where
  "assert_postable D ls =
     rbind (lines_create ls) (\<lambda>built.
     rbind (assert_min_lines built) (\<lambda>_. assert_balanced D built))"

text \<open>\<open>JournalEntry.create\<close>; the id and the time come from the \<open>IdGenerator\<close> and the \<open>Clock\<close>.\<close>

definition entry_create ::
  "dec_lib \<Rightarrow> posting_command \<Rightarrow> string \<Rightarrow> string \<Rightarrow> int \<Rightarrow> domain_error + journal_entry" where
  "entry_create D cmd entry_no new_id now =
     rbind (lines_create (pc_lines cmd)) (\<lambda>ls.
     rbind (assert_min_lines ls) (\<lambda>_.
     rbind (assert_balanced D ls) (\<lambda>_.
     Inr \<lparr>je_id = new_id, je_company = pc_company cmd, je_fy = pc_fy cmd, je_no = entry_no,
       je_voucher_type = pc_voucher_type cmd, je_voucher_date = pc_voucher_date cmd,
       je_source_type = pc_source_type cmd, je_source_id = pc_source_id cmd,
       je_is_reversal = False, je_reversal_of = None, je_posted_at = now,
       je_posted_by = pc_posted_by cmd, je_narration = pc_narration cmd, je_lines = ls\<rparr>)))"

definition swapped :: "journal_line \<Rightarrow> nat \<Rightarrow> journal_line" where
  "swapped l n = l\<lparr>jl_no := n, jl_debit := jl_credit l, jl_credit := jl_debit l\<rparr>"

definition entry_reverse ::
  "journal_entry \<Rightarrow> string \<Rightarrow> string \<Rightarrow> string \<Rightarrow> string \<Rightarrow> int \<Rightarrow> journal_entry" where
  "entry_reverse e reason entry_no posted_by new_id now =
     e\<lparr>je_id := new_id, je_no := entry_no, je_is_reversal := True, je_reversal_of := Some (je_id e),
       je_posted_at := now, je_posted_by := posted_by,
       je_narration := Some (''Reversal: '' @ reason),
       je_lines := map (\<lambda>(i, l). swapped l i) (enumerate 1 (je_lines e))\<rparr>"

definition total_debit :: "dec_lib \<Rightarrow> journal_entry \<Rightarrow> money" where
  "total_debit D e = money_sum D (map jl_debit (je_lines e))"

section \<open>The invariants of an entry\<close>

definition jl_ok :: "journal_line \<Rightarrow> bool" where
  "jl_ok l \<longleftrightarrow> 0 \<le> jl_debit l \<and> 0 \<le> jl_credit l \<and> (jl_debit l = 0) \<noteq> (jl_credit l = 0)"

definition jl_net :: "journal_line \<Rightarrow> decimal" where
  "jl_net l = jl_debit l - jl_credit l"

definition entry_net :: "(journal_line \<Rightarrow> bool) \<Rightarrow> journal_entry \<Rightarrow> decimal" where
  "entry_net P e = sum_list (map jl_net (filter P (je_lines e)))"

definition entry_ok :: "journal_entry \<Rightarrow> bool" where
  "entry_ok e \<longleftrightarrow>
     2 \<le> length (je_lines e) \<and> (\<forall>l \<in> set (je_lines e). jl_ok l) \<and>
     map jl_no (je_lines e) = [1..<Suc (length (je_lines e))] \<and>
     sum_list (map jl_debit (je_lines e)) = sum_list (map jl_credit (je_lines e))"

definition line_of :: "posting_line \<Rightarrow> nat \<Rightarrow> journal_line" where
  "line_of l n = \<lparr>jl_no = n, jl_account = pl_account l, jl_project = pl_project l,
        jl_cost_centre = pl_cost_centre l, jl_purpose = pl_purpose l, jl_godown = pl_godown l,
        jl_party = pl_party l, jl_debit = pl_debit l, jl_credit = pl_credit l,
        jl_narration = pl_narration l\<rparr>"

definition lines_of :: "posting_line list \<Rightarrow> journal_line list" where
  "lines_of ls = map (\<lambda>(i, l). line_of l i) (enumerate 1 ls)"

lemma line_of_simps [simp]:
  "jl_no (line_of l n) = n" "jl_account (line_of l n) = pl_account l"
  "jl_project (line_of l n) = pl_project l" "jl_cost_centre (line_of l n) = pl_cost_centre l"
  "jl_purpose (line_of l n) = pl_purpose l" "jl_godown (line_of l n) = pl_godown l"
  "jl_party (line_of l n) = pl_party l" "jl_debit (line_of l n) = pl_debit l"
  "jl_credit (line_of l n) = pl_credit l"
  by (simp_all add: line_of_def)

lemma map_enumerate_snd: "(\<And>i x. g (f i x) = h x) \<Longrightarrow> map g (map (\<lambda>(i, x). f i x) (enumerate n xs)) = map h xs"
  by (induction xs arbitrary: n) auto

lemma map_enumerate_fst: "(\<And>i x. g (f i x) = i) \<Longrightarrow> map g (map (\<lambda>(i, x). f i x) (enumerate n xs)) = [n..<n + length xs]"
  by (induction xs arbitrary: n) (auto simp: upt_rec)

lemma length_lines_of [simp]: "length (lines_of ls) = length ls"
  by (simp add: lines_of_def)

lemma lines_of_debits [simp]: "map jl_debit (lines_of ls) = map pl_debit ls"
  unfolding lines_of_def by (rule map_enumerate_snd) simp

lemma lines_of_credits [simp]: "map jl_credit (lines_of ls) = map pl_credit ls"
  unfolding lines_of_def by (rule map_enumerate_snd) simp

lemma lines_of_numbers: "map jl_no (lines_of ls) = [1..<Suc (length ls)]"
  unfolding lines_of_def using map_enumerate_fst [of jl_no "\<lambda>i l. line_of l i" 1 ls] by simp

lemma line_create_Inr: "line_create l n = Inr j \<longleftrightarrow> pl_ok l \<and> j = line_of l n"
  by (auto simp: line_create_def pl_ok_def line_of_def money_is_negative_def money_is_zero_def)

lemma line_create_Inl: "line_create l n = Inl e \<longleftrightarrow> \<not> pl_ok l \<and> e = LineSideError n"
  by (auto simp: line_create_def pl_ok_def money_is_negative_def money_is_zero_def)

lemma lines_create_Inr: "lines_create ls = Inr js \<longleftrightarrow> (\<forall>l \<in> set ls. pl_ok l) \<and> js = lines_of ls"
proof -
  have "rmap (\<lambda>(i, l). line_create l i) (enumerate n ls) = Inr js \<longleftrightarrow>
      (\<forall>l \<in> set ls. pl_ok l) \<and> js = map (\<lambda>(i, l). line_of l i) (enumerate n ls)" for n
    by (induction ls arbitrary: n js) (auto simp: rbind_eq_Inr line_create_Inr)
  then show ?thesis by (simp add: lines_create_def lines_of_def)
qed

lemma lines_create_Inl:
  "lines_create ls = Inl e \<Longrightarrow> \<exists>i. i < length ls \<and> \<not> pl_ok (ls ! i) \<and> e = LineSideError (Suc i)"
proof -
  have "rmap (\<lambda>(i, l). line_create l i) (enumerate n ls) = Inl e \<Longrightarrow>
      \<exists>i. i < length ls \<and> \<not> pl_ok (ls ! i) \<and> e = LineSideError (n + i)" for n
  proof (induction ls arbitrary: n)
    case Nil
    then show ?case by simp
  next
    case (Cons l ls)
    from Cons.prems consider "line_create l n = Inl e" |
      "rmap (\<lambda>(i, l). line_create l i) (enumerate (Suc n) ls) = Inl e"
      by (auto simp: rbind_eq_Inl)
    then show ?case
    proof cases
      case 1
      then show ?thesis by (intro exI [of _ 0]) (simp add: line_create_Inl)
    next
      case 2
      from Cons.IH [OF 2] obtain i where "i < length ls" "\<not> pl_ok (ls ! i)" "e = LineSideError (Suc n + i)"
        by auto
      then show ?thesis by (intro exI [of _ "Suc i"]) simp
    qed
  qed
  from this [of 1] show "lines_create ls = Inl e \<Longrightarrow> \<exists>i. i < length ls \<and> \<not> pl_ok (ls ! i) \<and> e = LineSideError (Suc i)"
    by (simp add: lines_create_def)
qed

lemma assert_postable_Inr:
  "assert_postable D ls = Inr u \<longleftrightarrow>
     (\<forall>l \<in> set ls. pl_ok l) \<and> 2 \<le> length ls \<and>
     money_sum D (map pl_debit ls) = money_sum D (map pl_credit ls)"
  by (auto simp: assert_postable_def rbind_eq_Inr lines_create_Inr assert_min_lines_def
      assert_balanced_def Let_def)

lemma entry_create_Inr:
  "entry_create D cmd no i now = Inr e \<Longrightarrow>
     assert_postable D (pc_lines cmd) = Inr () \<and> je_lines e = lines_of (pc_lines cmd)"
  by (auto simp: entry_create_def assert_postable_def rbind_eq_Inr lines_create_Inr)

text \<open>
  The check \<open>PostingService\<close> makes before it takes a number is the check of the construction: after
  it, \<open>JournalEntry.create\<close> cannot throw.
\<close>

lemma assert_postable_then_create:
  "assert_postable D (pc_lines cmd) = Inr () \<Longrightarrow> \<exists>e. entry_create D cmd no i now = Inr e"
  by (auto simp: entry_create_def assert_postable_def rbind_eq_Inr lines_create_Inr)

lemma pl_ok_debits: "\<forall>l \<in> set ls. pl_ok l \<Longrightarrow> \<forall>l \<in> set ls. pl_grid l \<Longrightarrow>
    (\<forall>x \<in> set (map pl_debit ls). nonneg_grid x) \<and> (\<forall>x \<in> set (map pl_credit ls). nonneg_grid x)"
  by (auto simp: pl_ok_def pl_grid_def nonneg_grid_def)

context decimal_js begin

lemma assert_postable_exact:
  assumes "\<forall>l \<in> set ls. pl_grid l" and "total_dr ls < 10 ^ 16" and "total_cr ls < 10 ^ 16"
  shows "assert_postable D ls = Inr u \<longleftrightarrow>
    (\<forall>l \<in> set ls. pl_ok l) \<and> 2 \<le> length ls \<and> total_dr ls = total_cr ls"
proof (cases "\<forall>l \<in> set ls. pl_ok l")
  case True
  from pl_ok_debits [OF True assms(1)] assms(2,3) show ?thesis
    by (simp add: assert_postable_Inr True money_sum_exact total_dr_def total_cr_def)
qed (auto simp: assert_postable_Inr)

lemma entry_create_ok:
  assumes "entry_create D cmd no i now = Inr e" and "\<forall>l \<in> set (pc_lines cmd). pl_grid l"
    and "total_dr (pc_lines cmd) < 10 ^ 16" and "total_cr (pc_lines cmd) < 10 ^ 16"
  shows "entry_ok e"
proof -
  from entry_create_Inr [OF assms(1)] have p: "assert_postable D (pc_lines cmd) = Inr ()"
    and l: "je_lines e = lines_of (pc_lines cmd)" by auto
  from assert_postable_exact [OF assms(2-4)] p
  have ok: "\<forall>l \<in> set (pc_lines cmd). pl_ok l" "2 \<le> length (pc_lines cmd)"
    "total_dr (pc_lines cmd) = total_cr (pc_lines cmd)" by auto
  have "\<forall>l \<in> set (lines_of (pc_lines cmd)). jl_ok l"
    using ok(1) by (auto simp: lines_of_def in_set_enumerate_eq jl_ok_def pl_ok_def)
  with ok l show ?thesis
    by (simp add: entry_ok_def lines_of_numbers total_dr_def total_cr_def del: upt_Suc)
qed

end

section \<open>Reversal\<close>

lemma swapped_simps [simp]:
  "jl_debit (swapped l n) = jl_credit l" "jl_credit (swapped l n) = jl_debit l"
  "jl_no (swapped l n) = n" "jl_account (swapped l n) = jl_account l"
  "jl_project (swapped l n) = jl_project l" "jl_cost_centre (swapped l n) = jl_cost_centre l"
  "jl_purpose (swapped l n) = jl_purpose l" "jl_godown (swapped l n) = jl_godown l"
  "jl_party (swapped l n) = jl_party l" "jl_narration (swapped l n) = jl_narration l"
  by (simp_all add: swapped_def)

lemma entry_reverse_lines:
  "je_lines (entry_reverse e r no by i now) = map (\<lambda>(i, l). swapped l i) (enumerate 1 (je_lines e))"
  by (simp add: entry_reverse_def)

lemma entry_reverse_fields [simp]:
  "je_id (entry_reverse e r no by i now) = i" "je_no (entry_reverse e r no by i now) = no"
  "je_company (entry_reverse e r no by i now) = je_company e"
  "je_fy (entry_reverse e r no by i now) = je_fy e"
  "je_voucher_type (entry_reverse e r no by i now) = je_voucher_type e"
  "je_voucher_date (entry_reverse e r no by i now) = je_voucher_date e"
  "je_is_reversal (entry_reverse e r no by i now)"
  "je_reversal_of (entry_reverse e r no by i now) = Some (je_id e)"
  by (simp_all add: entry_reverse_def)

lemma entry_reverse_debits:
  "map jl_debit (je_lines (entry_reverse e r no by i now)) = map jl_credit (je_lines e)"
  unfolding entry_reverse_lines by (rule map_enumerate_snd) simp

lemma entry_reverse_credits:
  "map jl_credit (je_lines (entry_reverse e r no by i now)) = map jl_debit (je_lines e)"
  unfolding entry_reverse_lines by (rule map_enumerate_snd) simp

lemma entry_reverse_ok: "entry_ok e \<Longrightarrow> entry_ok (entry_reverse e r no by i now)"
proof -
  assume e: "entry_ok e"
  have n: "length (je_lines (entry_reverse e r no by i now)) = length (je_lines e)"
    by (simp add: entry_reverse_lines)
  have "map jl_no (je_lines (entry_reverse e r no by i now)) = [1..<Suc (length (je_lines e))]"
    unfolding entry_reverse_lines
    using map_enumerate_fst [of jl_no "\<lambda>i l. swapped l i" 1 "je_lines e"] by simp
  moreover have "\<forall>l \<in> set (je_lines (entry_reverse e r no by i now)). jl_ok l"
    using e by (fastforce simp: entry_reverse_lines in_set_enumerate_eq jl_ok_def entry_ok_def)
  ultimately show ?thesis
    using e unfolding entry_ok_def entry_reverse_debits entry_reverse_credits n by simp
qed

text \<open>
  An entry and its reversal cancel on every account, party and dimension: whatever lines \<open>P\<close>
  selects by their tags, the net of the two entries over them is zero.
\<close>

lemma entry_reverse_net:
  assumes "\<And>l n. P (swapped l n) = P l"
  shows "entry_net P (entry_reverse e r no by i now) = - entry_net P e"
proof -
  have "sum_list (map jl_net (filter P (map (\<lambda>(i, l). swapped l i) (enumerate n ls)))) =
      - sum_list (map jl_net (filter P ls))" for n ls
    by (induction ls arbitrary: n) (auto simp: assms jl_net_def)
  then show ?thesis by (simp add: entry_net_def entry_reverse_lines)
qed

lemma entry_reverse_twice:
  assumes "map jl_no (je_lines e) = [1..<Suc (length (je_lines e))]"
  shows "je_lines (entry_reverse (entry_reverse e r no by i now) r' no' by' i' now') = je_lines e"
proof -
  have "map (\<lambda>(i, l). swapped l i) (enumerate n (map (\<lambda>(i, l). swapped l i) (enumerate n ls))) = ls"
    if "map jl_no ls = [n..<n + length ls]" for n ls
    using that
  proof (induction ls arbitrary: n)
    case (Cons l ls)
    then have "jl_no l = n" "map jl_no ls = [Suc n..<Suc n + length ls]"
      by (simp_all add: upt_conv_Cons del: upt_Suc)
    with Cons.IH [of "Suc n"] show ?case by (simp add: swapped_def)
  qed simp
  from this [of "je_lines e" 1] assms show ?thesis by (simp add: entry_reverse_lines)
qed

end
