(* ===== verification/Tag_Matrix.thy ===== *)
theory Tag_Matrix
  imports Ledger_Types
begin

text \<open>
  The tag matrix (\<open>src/src/core/posting/domain/tag-matrix.ts\<close>): which of the four dimensions a
  line of each voucher type must carry, and the party of a control-account line.
\<close>

datatype dim_key = ProjectId | CostCentreId | PurposeId | GodownId

fun DIM_LABEL :: "dim_key \<Rightarrow> string" where
  "DIM_LABEL ProjectId = ''project_id''"
| "DIM_LABEL CostCentreId = ''cost_centre_id''"
| "DIM_LABEL PurposeId = ''purpose_id''"
| "DIM_LABEL GodownId = ''godown_id''"

fun line_dim :: "posting_line \<Rightarrow> dim_key \<Rightarrow> string option" where
  "line_dim l ProjectId = pl_project l"
| "line_dim l CostCentreId = pl_cost_centre l"
| "line_dim l PurposeId = pl_purpose l"
| "line_dim l GodownId = pl_godown l"

fun REQUIRED :: "voucher_type \<Rightarrow> dim_key list" where
  "REQUIRED SALES_IPC = [ProjectId, CostCentreId, PurposeId]"
| "REQUIRED PURCHASE = [ProjectId, CostCentreId, PurposeId, GodownId]"
| "REQUIRED STOCK_JOURNAL = [ProjectId, CostCentreId, PurposeId, GodownId]"
| "REQUIRED PAYMENT = []"
| "REQUIRED RECEIPT = [CostCentreId, PurposeId]"
| "REQUIRED SALARY = [ProjectId, CostCentreId, PurposeId]"
| "REQUIRED DAILY_LABOUR_ACCRUAL = [ProjectId, CostCentreId, PurposeId]"
| "REQUIRED JOURNAL = []"
| "REQUIRED CONTRA = []"
| "REQUIRED OPENING = []"

definition is_pnl :: "posting_line \<Rightarrow> bool" where
  "is_pnl l \<longleftrightarrow> pl_account_type l = Some INCOME \<or> pl_account_type l = Some EXPENSE"

definition required_dims :: "voucher_type \<Rightarrow> posting_line \<Rightarrow> dim_key list" where
  "required_dims vt l =
     (if vt = JOURNAL \<or> vt = OPENING \<or> vt = PAYMENT
      then (if is_pnl l then [ProjectId, CostCentreId, PurposeId] else [])
      else if vt = PURCHASE
      then (if pl_is_stock l = Some False then [ProjectId, CostCentreId, PurposeId]
            else REQUIRED PURCHASE)
      else REQUIRED vt)"

definition check_dim :: "posting_line \<Rightarrow> dim_key \<Rightarrow> domain_error + unit" where
  "check_dim l d = require (truthy (line_dim l d)) (TagMatrixError (pl_account l) (DIM_LABEL d))"

definition check_party :: "posting_line \<Rightarrow> domain_error + unit" where
  "check_party l =
     require (\<not> (pl_is_control l = Some True \<and> \<not> truthy (pl_party l)))
       (TagMatrixError (pl_account l) ''party_id'')"

definition tag_check_line :: "voucher_type \<Rightarrow> posting_line \<Rightarrow> domain_error + unit" where
  "tag_check_line vt l =
     rbind (riter (check_dim l) (required_dims vt l)) (\<lambda>_. check_party l)"

definition tag_assert :: "posting_command \<Rightarrow> domain_error + unit" where
  "tag_assert cmd = riter (tag_check_line (pc_voucher_type cmd)) (pc_lines cmd)"

text \<open>The rule of the matrix, as a predicate on a line.\<close>

definition tagged :: "voucher_type \<Rightarrow> posting_line \<Rightarrow> bool" where
  "tagged vt l \<longleftrightarrow>
     (\<forall>d \<in> set (required_dims vt l). truthy (line_dim l d)) \<and>
     (pl_is_control l = Some True \<longrightarrow> truthy (pl_party l))"

lemma tag_check_line_Inr: "tag_check_line vt l = Inr u \<longleftrightarrow> tagged vt l"
  by (auto simp: tag_check_line_def tagged_def rbind_eq_Inr riter_eq_Inr check_dim_def check_party_def)

lemma tag_assert_Inr: "tag_assert cmd = Inr u \<longleftrightarrow> (\<forall>l \<in> set (pc_lines cmd). tagged (pc_voucher_type cmd) l)"
  by (auto simp: tag_assert_def riter_eq_Inr tag_check_line_Inr)

lemma tag_check_line_Inl: "tag_check_line vt l = Inl e \<Longrightarrow> \<exists>d. e = TagMatrixError (pl_account l) d"
  by (auto simp: tag_check_line_def rbind_eq_Inl check_dim_def check_party_def dest!: riter_InlD)

lemma tag_assert_Inl:
  "tag_assert cmd = Inl e \<Longrightarrow> \<exists>l \<in> set (pc_lines cmd). \<exists>d. e = TagMatrixError (pl_account l) d"
  by (auto simp: tag_assert_def dest!: riter_InlD tag_check_line_Inl)

lemmas tagged_simps = tagged_def required_dims_def is_pnl_def

text \<open>
  For the vouchers of fixed dimensions (an IPC, a salary sheet, a labour accrual) the matrix is a
  plain conjunction; for the per-type ones only income and expense lines need the dimensions.
\<close>

lemma tagged_fixed:
  "vt \<in> {SALES_IPC, SALARY, DAILY_LABOUR_ACCRUAL} \<Longrightarrow>
     tagged vt l \<longleftrightarrow> truthy (pl_project l) \<and> truthy (pl_cost_centre l) \<and> truthy (pl_purpose l) \<and>
       (pl_is_control l = Some True \<longrightarrow> truthy (pl_party l))"
  by (auto simp: tagged_simps)

lemma tagged_balance_sheet:
  "vt \<in> {JOURNAL, OPENING, PAYMENT} \<Longrightarrow> \<not> is_pnl l \<Longrightarrow>
     tagged vt l \<longleftrightarrow> (pl_is_control l = Some True \<longrightarrow> truthy (pl_party l))"
  by (auto simp: tagged_def required_dims_def)

lemma tagged_receipt:
  "tagged RECEIPT l \<longleftrightarrow> truthy (pl_cost_centre l) \<and> truthy (pl_purpose l) \<and>
     (pl_is_control l = Some True \<longrightarrow> truthy (pl_party l))"
  by (auto simp: tagged_simps)

lemma tagged_stock_journal:
  "tagged STOCK_JOURNAL l \<longleftrightarrow> truthy (pl_project l) \<and> truthy (pl_cost_centre l) \<and>
     truthy (pl_purpose l) \<and> truthy (pl_godown l) \<and>
     (pl_is_control l = Some True \<longrightarrow> truthy (pl_party l))"
  by (auto simp: tagged_simps)

end
