(* ===== verification/Core_State.thy ===== *)
theory Core_State
  imports Journal_Entry Tag_Matrix
begin

text \<open>
  The tables of the posting kernel, as one record every operation passes on, and what every use
  case shares: the actor, the audit log, the id generator and the unit of work.  A module with
  tables of its own extends the record.  Rows are kept in insertion order.  Transactions run one
  after the other here; where the code guards against a concurrent transaction, what that
  transaction committed is an argument of the operation.
\<close>

section \<open>Tables\<close>

record financial_year =
  fy_id :: string
  fy_company :: string
  fy_start :: ymd
  fy_end :: ymd

record series_row =
  s_id :: string
  s_company :: string
  s_fy :: string
  s_voucher_type :: voucher_type
  s_prefix :: string
  s_padding :: nat
  s_last :: nat
  s_version :: nat

datatype period_status = OPEN | CLOSED

record period =
  per_id :: string
  per_company :: string
  per_fy :: string
  per_name :: string
  per_start :: string
  per_end :: string
  per_status :: period_status
  per_closed_at :: "int option"
  per_closed_by :: "string option"
  per_version :: nat

text \<open>\<open>audit.record\<close>: the row it appends, without its before/after snapshots.\<close>

record audit_row =
  a_action :: string
  a_entity_type :: string
  a_entity_id :: string
  a_actor :: string
  a_company :: string

record db =
  db_fys :: "financial_year list"
  db_series :: "series_row list"
  db_periods :: "period list"
  db_entries :: "journal_entry list"
  db_audit :: "audit_row list"
  db_ids :: nat

record actor =
  act_user :: string
  act_company :: string
  act_fy :: string
  act_role :: string
  act_unscoped :: bool
  act_projects :: "string list"
  act_limit :: "decimal option"

section \<open>Shared operations\<close>

text \<open>
  \<open>ids.next()\<close>: the generator is \<open>crypto.randomUUID\<close>, so the identifier of the n-th call is a
  parameter \<open>mk n\<close> of the model; that it never repeats is the hypothesis \<open>inj mk\<close> where needed.
\<close>

definition ids_next :: "(nat \<Rightarrow> string) \<Rightarrow> 'a db_scheme \<Rightarrow> string \<times> 'a db_scheme" where
  "ids_next mk s = (mk (db_ids s), s\<lparr>db_ids := Suc (db_ids s)\<rparr>)"

definition audit_record ::
  "string \<Rightarrow> string \<Rightarrow> string \<Rightarrow> actor \<Rightarrow> 'a db_scheme \<Rightarrow> 'a db_scheme" where
  "audit_record action entity entity_id act s =
     s\<lparr>db_audit := db_audit s @ [\<lparr>a_action = action, a_entity_type = entity, a_entity_id = entity_id,
        a_actor = act_user act, a_company = act_company act\<rparr>]\<rparr>"

definition find_fy :: "string \<Rightarrow> string \<Rightarrow> financial_year list \<Rightarrow> financial_year option" where
  "find_fy fy co fys = List.find (\<lambda>f. fy_id f = fy \<and> fy_company f = co) fys"

lemma ids_next_simps [simp]:
  "fst (ids_next mk s) = mk (db_ids s)" "snd (ids_next mk s) = s\<lparr>db_ids := Suc (db_ids s)\<rparr>"
  by (simp_all add: ids_next_def)

lemma audit_record_simps [simp]:
  "db_fys (audit_record a b c d s) = db_fys s" "db_series (audit_record a b c d s) = db_series s"
  "db_periods (audit_record a b c d s) = db_periods s"
  "db_entries (audit_record a b c d s) = db_entries s" "db_ids (audit_record a b c d s) = db_ids s"
  by (simp_all add: audit_record_def)

section \<open>The journal tables\<close>

text \<open>
  Saving an entry (\<open>typeorm-journal-entry.repository.ts\<close>): both amounts of a line pass
  the money transformer (\<open>toFixed(4)\<close>, half up) into a \<open>numeric(18,4)\<close> column, and the row checks
  of \<open>1700000400000-CreateLedger.ts\<close> refuse a negative amount, a line with no or two sides, an
  amount out of range and a second entry with the same id.
\<close>

definition stored_line :: "dec_lib \<Rightarrow> journal_line \<Rightarrow> journal_line" where
  "stored_line D l = l\<lparr>jl_debit := to_dp D 4 (jl_debit l), jl_credit := to_dp D 4 (jl_credit l)\<rparr>"

definition line_checks :: "journal_line \<Rightarrow> domain_error + unit" where
  "line_checks l =
     rbind (require (\<bar>jl_debit l\<bar> < 10 ^ 14 \<and> \<bar>jl_credit l\<bar> < 10 ^ 14)
       (DatabaseError ''numeric field overflow'')) (\<lambda>_.
     rbind (require (0 \<le> jl_debit l) (DatabaseError ''chk_journal_line_debit_nonneg'')) (\<lambda>_.
     rbind (require (0 \<le> jl_credit l) (DatabaseError ''chk_journal_line_credit_nonneg'')) (\<lambda>_.
     require ((jl_debit l = 0) \<noteq> (jl_credit l = 0)) (DatabaseError ''chk_journal_line_one_side''))))"

definition entry_save ::
  "dec_lib \<Rightarrow> journal_entry \<Rightarrow> 'a db_scheme \<Rightarrow> domain_error + 'a db_scheme" where
  "entry_save D e s =
     rbind (require (je_id e \<notin> je_id ` set (db_entries s)) (DatabaseError ''journal_entry_pkey'')) (\<lambda>_.
     rbind (riter line_checks (map (stored_line D) (je_lines e))) (\<lambda>_.
     Inr (s\<lparr>db_entries := db_entries s @ [e\<lparr>je_lines := map (stored_line D) (je_lines e)\<rparr>]\<rparr>)))"

definition entry_find :: "string \<Rightarrow> string \<Rightarrow> journal_entry list \<Rightarrow> journal_entry option" where
  "entry_find i co es = List.find (\<lambda>e. je_id e = i \<and> je_company e = co) es"

definition exists_reversal_of :: "string \<Rightarrow> string \<Rightarrow> journal_entry list \<Rightarrow> bool" where
  "exists_reversal_of i co es = list_ex (\<lambda>e. je_reversal_of e = Some i \<and> je_company e = co) es"

text \<open>
  The unit of work: \<open>run(work)\<close> opens one transaction; at its commit the deferred trigger
  \<open>ze_ledger_balance_check\<close> sums the stored lines of every entry the transaction inserted into
  \<open>numeric(18,4)\<close> variables and raises when the sums differ.
\<close>

definition balance_check :: "journal_entry \<Rightarrow> domain_error + unit" where
  "balance_check e =
     (let dr = sum_list (map jl_debit (je_lines e)); cr = sum_list (map jl_credit (je_lines e)) in
      rbind (require (\<bar>dr\<bar> < 10 ^ 14 \<and> \<bar>cr\<bar> < 10 ^ 14) (DatabaseError ''numeric field overflow'')) (\<lambda>_.
      require (dr = cr) (DatabaseError ''unbalanced journal entry'')))"

definition uow_run ::
  "('a db_scheme \<Rightarrow> domain_error + ('b \<times> 'a db_scheme)) \<Rightarrow> 'a db_scheme \<Rightarrow>
   domain_error + ('b \<times> 'a db_scheme)" where
  "uow_run work s =
     rbind (work s) (\<lambda>(x, s').
     rbind (riter balance_check (drop (length (db_entries s)) (db_entries s'))) (\<lambda>_.
     Inr (x, s')))"

text \<open>What the database accepts: an entry inside the range of its columns.\<close>

definition entry_in_range :: "journal_entry \<Rightarrow> bool" where
  "entry_in_range e \<longleftrightarrow> (\<forall>l \<in> set (je_lines e). on_grid 4 (jl_debit l) \<and> on_grid 4 (jl_credit l)) \<and>
     sum_list (map jl_debit (je_lines e)) < 10 ^ 14"

lemma sum_list_member_le:
  fixes f :: "'x \<Rightarrow> rat"
  assumes "x \<in> set xs" and "\<forall>y \<in> set xs. 0 \<le> f y" shows "f x \<le> sum_list (map f xs)"
  using assms
proof (induction xs)
  case (Cons a xs)
  then have "0 \<le> f a" by simp
  moreover from Cons.prems have "0 \<le> sum_list (map f xs)" by (intro sum_list_nonneg) auto
  ultimately show ?case using Cons by auto
qed simp

lemma balance_check_Inr:
  "balance_check e = Inr u \<longleftrightarrow>
     \<bar>sum_list (map jl_debit (je_lines e))\<bar> < 10 ^ 14 \<and>
     sum_list (map jl_debit (je_lines e)) = sum_list (map jl_credit (je_lines e))"
  by (auto simp: balance_check_def Let_def rbind_eq_Inr)

lemma line_checks_Inr: "line_checks l = Inr u \<longleftrightarrow> jl_ok l \<and> \<bar>jl_debit l\<bar> < 10 ^ 14 \<and> \<bar>jl_credit l\<bar> < 10 ^ 14"
  by (auto simp: line_checks_def jl_ok_def rbind_eq_Inr)

lemma entry_save_InrD:
  "entry_save D e s = Inr s' \<Longrightarrow>
     je_id e \<notin> je_id ` set (db_entries s) \<and>
     s' = s\<lparr>db_entries := db_entries s @ [e\<lparr>je_lines := map (stored_line D) (je_lines e)\<rparr>]\<rparr> \<and>
     (\<forall>l \<in> set (je_lines e). jl_ok (stored_line D l))"
  by (auto simp: entry_save_def rbind_eq_Inr riter_eq_Inr line_checks_Inr)

lemma exists_reversal_of_iff:
  "exists_reversal_of i co es \<longleftrightarrow> (\<exists>e \<in> set es. je_reversal_of e = Some i \<and> je_company e = co)"
  by (auto simp: exists_reversal_of_def list_ex_iff)

lemma entry_find_SomeD: "entry_find i co es = Some e \<Longrightarrow> e \<in> set es \<and> je_id e = i \<and> je_company e = co"
  by (auto simp: entry_find_def dest: find_SomeD)

context decimal_js begin

lemma stored_line_id:
  "on_grid 4 (jl_debit l) \<Longrightarrow> on_grid 4 (jl_credit l) \<Longrightarrow> stored_line D l = l"
  by (simp add: stored_line_def to_dp_id)

lemma stored_lines_id: "entry_in_range e \<Longrightarrow> map (stored_line D) (je_lines e) = je_lines e"
  by (auto simp: entry_in_range_def stored_line_id intro!: map_idI)

lemma entry_ok_checks:
  assumes "entry_ok e" and "entry_in_range e"
  shows "riter line_checks (je_lines e) = Inr ()" and "balance_check e = Inr ()"
proof -
  have nn: "0 \<le> jl_debit l" "0 \<le> jl_credit l" if "l \<in> set (je_lines e)" for l
    using assms(1) that by (auto simp: entry_ok_def jl_ok_def)
  have eq: "sum_list (map jl_debit (je_lines e)) = sum_list (map jl_credit (je_lines e))"
    using assms(1) by (simp add: entry_ok_def)
  have "jl_debit l < 10 ^ 14" "jl_credit l < 10 ^ 14" if "l \<in> set (je_lines e)" for l
    using sum_list_member_le [of l _ jl_debit] sum_list_member_le [of l _ jl_credit] that nn assms(2) eq
    unfolding entry_in_range_def by (metis le_less_trans)+
  with nn assms(1) show "riter line_checks (je_lines e) = Inr ()"
    by (simp add: riter_eq_Inr line_checks_Inr entry_ok_def)
  have "0 \<le> sum_list (map jl_debit (je_lines e))" by (rule sum_list_nonneg) (auto intro: nn)
  with assms eq show "balance_check e = Inr ()" by (simp add: balance_check_Inr entry_in_range_def)
qed

text \<open>
  Defence in depth: an entry the aggregate accepts, whose amounts have four decimals and whose
  total fits the column, is stored unchanged and never trips a check of the database.
\<close>

lemma entry_save_ok:
  assumes "entry_ok e" and "entry_in_range e" and "je_id e \<notin> je_id ` set (db_entries s)"
  shows "entry_save D e s = Inr (s\<lparr>db_entries := db_entries s @ [e]\<rparr>)"
  using entry_ok_checks [OF assms(1,2)] assms by (simp add: entry_save_def stored_lines_id)

end

lemma uow_run_InrD:
  "uow_run work s = Inr (x, s') \<Longrightarrow>
     work s = Inr (x, s') \<and>
     (\<forall>e \<in> set (drop (length (db_entries s)) (db_entries s')). balance_check e = Inr ())"
  by (auto simp: uow_run_def rbind_eq_Inr riter_eq_Inr split: prod.splits)

lemma uow_run_Inr_iff:
  "uow_run work s = Inr (x, s') \<longleftrightarrow>
     work s = Inr (x, s') \<and>
     (\<forall>e \<in> set (drop (length (db_entries s)) (db_entries s')). balance_check e = Inr ())"
  by (auto simp: uow_run_def rbind_eq_Inr riter_eq_Inr split: prod.splits)

lemma uow_run_Inl: "work s = Inl e \<Longrightarrow> uow_run work s = Inl e"
  by (simp add: uow_run_def)

lemma uow_run_no_entries:
  "(\<And>x s'. work s = Inr (x, s') \<Longrightarrow> db_entries s' = db_entries s) \<Longrightarrow> uow_run work s = work s"
  by (cases "work s") (auto simp: uow_run_def)

end
