(* ===== verification/Numbering.thy ===== *)
theory Numbering
  imports Core_State
begin

text \<open>
  Voucher numbering (\<open>src/src/core/numbering/\<close>): the formatting rules, the allocator
  \<open>TypeOrmNumberingService.next\<close> and the two configuration use cases.
\<close>

section \<open>Formatting rules\<close>

fun default_prefix_for :: "voucher_type \<Rightarrow> string" where
  "default_prefix_for SALES_IPC = ''IPC''"
| "default_prefix_for PURCHASE = ''PUR''"
| "default_prefix_for PAYMENT = ''PV''"
| "default_prefix_for RECEIPT = ''RV''"
| "default_prefix_for CONTRA = ''CV''"
| "default_prefix_for JOURNAL = ''JV''"
| "default_prefix_for STOCK_JOURNAL = ''SJ''"
| "default_prefix_for SALARY = ''SAL''"
| "default_prefix_for DAILY_LABOUR_ACCRUAL = ''DLA''"
| "default_prefix_for OPENING = ''OB''"

definition default_padding_width :: nat where
  "default_padding_width = 4"

definition fy_short_label :: "nat \<Rightarrow> nat \<Rightarrow> string" where
  "fy_short_label sy ey = pad_start 2 (show_nat (sy mod 100)) @ pad_start 2 (show_nat (ey mod 100))"

definition format_voucher_number :: "string \<Rightarrow> string \<Rightarrow> nat \<Rightarrow> nat \<Rightarrow> string" where
  "format_voucher_number prefix label sequence width =
     prefix @ ''/'' @ label @ ''/'' @ pad_start width (show_nat sequence)"

text \<open>\<open>/^[A-Za-z0-9][A-Za-z0-9\-_.]*$/\<close>.\<close>

definition alnum :: "char \<Rightarrow> bool" where
  "alnum c = (let n = (of_char c :: nat) in
     (65 \<le> n \<and> n \<le> 90) \<or> (97 \<le> n \<and> n \<le> 122) \<or> (48 \<le> n \<and> n \<le> 57))"

definition prefix_pattern :: "string \<Rightarrow> bool" where
  "prefix_pattern s =
     (case s of [] \<Rightarrow> False
      | c # cs \<Rightarrow> alnum c \<and> list_all (\<lambda>x. alnum x \<or> x = CHR ''-'' \<or> x = CHR ''_'' \<or> x = CHR ''.'') cs)"

definition normalize_prefix :: "string \<Rightarrow> domain_error + string" where
  "normalize_prefix raw =
     (let t = trim raw in
      if length t = 0 then Inl (ValidationError ''prefix'')
      else if CHR ''/'' \<in> set t then Inl (ValidationError ''prefix'')
      else if \<not> prefix_pattern t then Inl (ValidationError ''prefix'')
      else Inr t)"

text \<open>The width is a JavaScript number: a rational here, an integer when \<open>Number.isInteger\<close> says so.\<close>

definition normalize_padding_width :: "rat option \<Rightarrow> domain_error + nat" where
  "normalize_padding_width raw =
     (let v = (case raw of None \<Rightarrow> of_nat default_padding_width | Some x \<Rightarrow> x) in
      if of_int \<lfloor>v\<rfloor> \<noteq> v \<or> v < 1 then Inl (ValidationError ''paddingWidth'') else Inr (nat \<lfloor>v\<rfloor>))"

section \<open>The allocator\<close>

definition series_of :: "voucher_type \<Rightarrow> string \<Rightarrow> string \<Rightarrow> series_row \<Rightarrow> bool" where
  "series_of vt co fy r \<longleftrightarrow> s_company r = co \<and> s_fy r = fy \<and> s_voucher_type r = vt"

definition lock_series ::
  "voucher_type \<Rightarrow> string \<Rightarrow> string \<Rightarrow> series_row list \<Rightarrow> series_row option" where
  "lock_series vt co fy tbl = List.find (series_of vt co fy) tbl"

definition series_insert :: "series_row \<Rightarrow> series_row list \<Rightarrow> domain_error + series_row list" where
  "series_insert r tbl =
     (if list_ex (series_of (s_voucher_type r) (s_company r) (s_fy r)) tbl
      then Inl (DatabaseError ''23505'') else Inr (tbl @ [r]))"

text \<open>
  \<open>provision\<close>: the insert runs inside a savepoint.  \<open>race\<close> is what a concurrent first post of the
  same series committed between the locking read and the insert; the insert then fails with a
  unique violation, is rolled back to the savepoint, and the committed row is there to be read.
\<close>

definition provision ::
  "series_row option \<Rightarrow> string \<Rightarrow> voucher_type \<Rightarrow> string \<Rightarrow> string \<Rightarrow> series_row list \<Rightarrow>
   domain_error + series_row list" where
  "provision race new_id vt co fy tbl =
     (let seen = tbl @ (case race of None \<Rightarrow> [] | Some r \<Rightarrow> [r]);
          row = \<lparr>s_id = new_id, s_company = co, s_fy = fy, s_voucher_type = vt,
            s_prefix = default_prefix_for vt, s_padding = default_padding_width,
            s_last = 0, s_version = 1\<rparr>
      in case series_insert row seen of
           Inr tbl' \<Rightarrow> Inr tbl'
         | Inl e \<Rightarrow> if e = DatabaseError ''23505'' then Inr seen else Inl e)"

definition resolve_fy_label :: "financial_year list \<Rightarrow> string \<Rightarrow> string \<Rightarrow> domain_error + string" where
  "resolve_fy_label fys co fy =
     (case find_fy fy co fys of
        None \<Rightarrow> Inl (ValidationError ''financial year not found for numbering'')
      | Some f \<Rightarrow> Inr (fy_short_label (nat (fst (fy_start f))) (nat (fst (fy_end f)))))"

text \<open>The two halves of \<open>next\<close>: get the locked row of the series, then take its next number.\<close>

definition obtain_series ::
  "(nat \<Rightarrow> string) \<Rightarrow> series_row option \<Rightarrow> voucher_type \<Rightarrow> string \<Rightarrow> string \<Rightarrow> 'a db_scheme \<Rightarrow>
   domain_error + (series_row \<times> 'a db_scheme)" where
  "obtain_series mk race vt co fy s =
     (case lock_series vt co fy (db_series s) of
        Some r \<Rightarrow> Inr (r, s)
      | None \<Rightarrow>
          (case ids_next mk s of (new_id, s1) \<Rightarrow>
           rbind (provision race new_id vt co fy (db_series s1)) (\<lambda>tbl.
           rbind (fetch (JsError ''numbering series could not be provisioned'')
                    (lock_series vt co fy tbl)) (\<lambda>r.
           Inr (r, s1\<lparr>db_series := tbl\<rparr>)))))"

definition numbering_next ::
  "(nat \<Rightarrow> string) \<Rightarrow> series_row option \<Rightarrow> voucher_type \<Rightarrow> string \<Rightarrow> string \<Rightarrow> 'a db_scheme \<Rightarrow>
   domain_error + (string \<times> 'a db_scheme)" where
  "numbering_next mk race vt co fy s =
     rbind (obtain_series mk race vt co fy s) (\<lambda>(r, s2).
       let seq = s_last r + 1;
           s3 = s2\<lparr>db_series := update_where (\<lambda>x. s_id x = s_id r) (\<lambda>x. x\<lparr>s_last := seq\<rparr>) (db_series s2)\<rparr>
       in rbind (resolve_fy_label (db_fys s3) co fy) (\<lambda>label.
          Inr (format_voucher_number (s_prefix r) label seq (s_padding r), s3)))"

section \<open>Configuration\<close>

record new_series_input =
  ns_fy :: string
  ns_voucher_type :: string
  ns_prefix :: "string option"
  ns_padding :: "rat option"

definition series_create ::
  "(nat \<Rightarrow> string) \<Rightarrow> new_series_input \<Rightarrow> actor \<Rightarrow> 'a db_scheme \<Rightarrow>
   domain_error + (string \<times> 'a db_scheme)" where
  "series_create mk inp act s =
     rbind (fetch (ValidationError ''voucherType'') (is_voucher_type (ns_voucher_type inp))) (\<lambda>vt.
     rbind (case ns_prefix inp of Some p \<Rightarrow> normalize_prefix p | None \<Rightarrow> Inr (default_prefix_for vt)) (\<lambda>prefix.
     rbind (normalize_padding_width (ns_padding inp)) (\<lambda>width.
     case ids_next mk s of (new_id, s1) \<Rightarrow>
     uow_run (\<lambda>s2.
       rbind (require (find_fy (ns_fy inp) (act_company act) (db_fys s2) \<noteq> None)
                (CrossCompanyReferenceError (ns_fy inp))) (\<lambda>_.
       rbind (case series_insert
                \<lparr>s_id = new_id, s_company = act_company act, s_fy = ns_fy inp, s_voucher_type = vt,
                 s_prefix = prefix, s_padding = width, s_last = 0, s_version = 1\<rparr> (db_series s2) of
                Inr tbl \<Rightarrow> Inr tbl
              | Inl e \<Rightarrow> Inl (if e = DatabaseError ''23505'' then SeriesAlreadyExistsError else e)) (\<lambda>tbl.
       Inr (new_id, audit_record ''CREATE'' ''NumberingSeries'' new_id act (s2\<lparr>db_series := tbl\<rparr>)))))
       s1)))"

definition series_update_config ::
  "string \<Rightarrow> string \<Rightarrow> nat \<Rightarrow> string option \<Rightarrow> nat option \<Rightarrow> series_row list \<Rightarrow> bool \<times> series_row list" where
  "series_update_config i co expected prefix width tbl =
     (let P = (\<lambda>r. s_id r = i \<and> s_company r = co \<and> s_version r = expected) in
      (list_ex P tbl,
       update_where P (\<lambda>r. r\<lparr>s_prefix := (case prefix of Some p \<Rightarrow> p | None \<Rightarrow> s_prefix r),
                             s_padding := (case width of Some w \<Rightarrow> w | None \<Rightarrow> s_padding r),
                             s_version := s_version r + 1\<rparr>) tbl))"

definition series_update ::
  "string \<Rightarrow> string option \<Rightarrow> rat option \<Rightarrow> nat \<Rightarrow> actor \<Rightarrow> 'a db_scheme \<Rightarrow>
   domain_error + (unit \<times> 'a db_scheme)" where
  "series_update i raw_prefix raw_width version act s =
     rbind (case raw_prefix of None \<Rightarrow> Inr None
            | Some p \<Rightarrow> rbind (normalize_prefix p) (\<lambda>q. Inr (Some q))) (\<lambda>prefix.
     rbind (case raw_width of None \<Rightarrow> Inr None
            | Some w \<Rightarrow> rbind (normalize_padding_width (Some w)) (\<lambda>q. Inr (Some q))) (\<lambda>width.
     uow_run (\<lambda>s1.
       rbind (fetch (NotFoundError i)
                (List.find (\<lambda>r. s_id r = i \<and> s_company r = act_company act) (db_series s1))) (\<lambda>existing.
       rbind (require (s_version existing = version) OptimisticLockConflictError) (\<lambda>_.
       case series_update_config i (act_company act) version prefix width (db_series s1) of (ok, tbl) \<Rightarrow>
       rbind (require ok OptimisticLockConflictError) (\<lambda>_.
       Inr ((), audit_record ''UPDATE'' ''NumberingSeries'' i act (s1\<lparr>db_series := tbl\<rparr>)))))) s))"

section \<open>Numbers determine their sequence\<close>

lemma fy_short_label_no_slash: "CHR ''/'' \<notin> set (fy_short_label sy ey)"
  using pad_start_digits [of 2 "sy mod 100"] pad_start_digits [of 2 "ey mod 100"]
  by (auto simp: fy_short_label_def is_digit_def)

lemma append_slash_inject:
  assumes "c \<notin> set xs" and "c \<notin> set ys"
  shows "xs @ c # us = ys @ c # vs \<longleftrightarrow> xs = ys \<and> us = vs"
  using assms
proof (induction xs arbitrary: ys)
  case Nil
  then show ?case by (cases ys) auto
next
  case (Cons x xs)
  then show ?case by (cases ys) auto
qed

lemma format_voucher_number_inject:
  assumes "CHR ''/'' \<notin> set p" and "CHR ''/'' \<notin> set q" and "CHR ''/'' \<notin> set l" and "CHR ''/'' \<notin> set k"
    and "format_voucher_number p l m w = format_voucher_number q k n v"
  shows "p = q \<and> l = k \<and> m = n"
proof -
  from assms(5) have "p @ CHR ''/'' # (l @ CHR ''/'' # pad_start w (show_nat m)) =
      q @ CHR ''/'' # (k @ CHR ''/'' # pad_start v (show_nat n))"
    by (simp add: format_voucher_number_def)
  with assms(1-4) have "p = q" "l = k" "pad_start w (show_nat m) = pad_start v (show_nat n)"
    by (auto simp: append_slash_inject)
  then show ?thesis by (metis parse_nat_pad_start parse_nat_show_nat)
qed

lemma default_prefix_no_slash: "CHR ''/'' \<notin> set (default_prefix_for vt)"
  by (cases vt) simp_all

lemma normalize_prefix_Inr:
  "normalize_prefix raw = Inr p \<longleftrightarrow> p = trim raw \<and> p \<noteq> [] \<and> CHR ''/'' \<notin> set p \<and> prefix_pattern p"
  by (auto simp: normalize_prefix_def Let_def)

lemma normalize_padding_width_Inr:
  "normalize_padding_width raw = Inr w \<Longrightarrow>
     1 \<le> w \<and> of_nat w = (case raw of None \<Rightarrow> 4 | Some x \<Rightarrow> x)"
  by (auto simp: normalize_padding_width_def Let_def default_padding_width_def le_nat_iff
      split: if_splits option.splits)

section \<open>The series table\<close>

definition series_key :: "series_row \<Rightarrow> voucher_type \<times> string \<times> string" where
  "series_key r = (s_voucher_type r, s_company r, s_fy r)"

definition series_wf :: "series_row list \<Rightarrow> bool" where
  "series_wf tbl \<longleftrightarrow> distinct (map s_id tbl) \<and> distinct (map series_key tbl)"

definition last_sequence :: "voucher_type \<Rightarrow> string \<Rightarrow> string \<Rightarrow> series_row list \<Rightarrow> nat" where
  "last_sequence vt co fy tbl = (case lock_series vt co fy tbl of Some r \<Rightarrow> s_last r | None \<Rightarrow> 0)"

lemma series_of_key: "series_of vt co fy r \<longleftrightarrow> series_key r = (vt, co, fy)"
  by (auto simp: series_of_def series_key_def)

lemma lock_series_SomeD: "lock_series vt co fy tbl = Some r \<Longrightarrow> r \<in> set tbl \<and> series_key r = (vt, co, fy)"
  by (auto simp: lock_series_def series_of_key dest: find_SomeD)

lemma lock_series_None: "lock_series vt co fy tbl = None \<longleftrightarrow> (vt, co, fy) \<notin> series_key ` set tbl"
  by (force simp: lock_series_def find_None_iff series_of_key)

lemma lock_series_unique:
  "series_wf tbl \<Longrightarrow> r \<in> set tbl \<Longrightarrow> lock_series (s_voucher_type r) (s_company r) (s_fy r) tbl = Some r"
  unfolding lock_series_def
  by (rule find_unique) (auto simp: series_of_def series_wf_def series_key_def dest: distinct_map_inj)

lemma lock_series_append:
  "lock_series vt co fy (tbl @ [r]) =
     (case lock_series vt co fy tbl of
        Some x \<Rightarrow> Some x | None \<Rightarrow> if series_key r = (vt, co, fy) then Some r else None)"
  by (simp add: lock_series_def find_append series_of_key split: option.splits)

lemma lock_series_bump:
  assumes wf: "series_wf tbl" and r: "lock_series vt co fy tbl = Some r"
  shows "lock_series vt' co' fy' (update_where (\<lambda>x. s_id x = s_id r) (\<lambda>x. x\<lparr>s_last := n\<rparr>) tbl) =
    (if (vt', co', fy') = (vt, co, fy) then Some (r\<lparr>s_last := n\<rparr>) else lock_series vt' co' fy' tbl)"
proof -
  have key: "series_key (x\<lparr>s_last := n\<rparr>) = series_key x" for x by (simp add: series_key_def)
  have step: "List.find (\<lambda>x. series_key x = k) (update_where (\<lambda>x. s_id x = s_id r) (\<lambda>x. x\<lparr>s_last := n\<rparr>) ts) =
      map_option (\<lambda>x. if s_id x = s_id r then x\<lparr>s_last := n\<rparr> else x) (List.find (\<lambda>x. series_key x = k) ts)" for k ts
    by (induction ts) (auto simp: update_where_def key)
  from lock_series_SomeD [OF r] have "r \<in> set tbl" "series_key r = (vt, co, fy)" by auto
  then have "s_id x = s_id r \<longleftrightarrow> series_key x = (vt, co, fy)" if "x \<in> set tbl" for x
    using wf that by (auto simp: series_wf_def dest: distinct_map_inj)
  then have "lock_series vt' co' fy' tbl = Some x \<Longrightarrow> s_id x = s_id r \<longleftrightarrow> (vt', co', fy') = (vt, co, fy)" for x
    by (auto dest!: lock_series_SomeD)
  with r show ?thesis
    unfolding lock_series_def series_of_key step by (cases "List.find (\<lambda>x. series_key x = (vt', co', fy')) tbl") auto
qed

lemma series_wf_update:
  assumes "series_wf tbl" and "\<And>x. series_key (f x) = series_key x" and "\<And>x. s_id (f x) = s_id x"
  shows "series_wf (update_where P f tbl)"
  using assms by (simp add: series_wf_def map_update_where)

text \<open>A concurrent provisioner can only have committed a fresh row of the same series.\<close>

definition race_ok :: "series_row option \<Rightarrow> voucher_type \<Rightarrow> string \<Rightarrow> string \<Rightarrow> series_row list \<Rightarrow> bool" where
  "race_ok race vt co fy tbl \<longleftrightarrow>
     (case race of None \<Rightarrow> True | Some r \<Rightarrow> series_key r = (vt, co, fy) \<and> s_id r \<notin> s_id ` set tbl)"

lemma race_ok_None [simp]: "race_ok None vt co fy tbl"
  by (simp add: race_ok_def)

lemma provision_Inr:
  assumes "lock_series vt co fy tbl = None" and "race_ok race vt co fy tbl" and "new_id \<notin> s_id ` set tbl"
  shows "\<exists>r. provision race new_id vt co fy tbl = Inr (tbl @ [r]) \<and> series_key r = (vt, co, fy) \<and>
    s_id r \<notin> s_id ` set tbl \<and> (race = None \<longrightarrow> s_last r = 0 \<and> s_prefix r = default_prefix_for vt) \<and>
    (race = Some r \<or> race = None)"
proof (cases race)
  case None
  with assms show ?thesis
    by (auto simp: provision_def series_insert_def list_ex_iff series_of_key lock_series_None series_key_def image_iff)
next
  case (Some r)
  with assms show ?thesis
    by (auto simp: provision_def series_insert_def list_ex_iff series_of_key race_ok_def)
qed

text \<open>
  Getting the row never fails: either it was there, or \<open>provision\<close> inserted it or lost the race to
  a row that is now there.  The last \<open>throw\<close> of \<open>next\<close> is unreachable, as its comment says.
\<close>

lemma obtain_series_spec:
  assumes "series_wf (db_series s)" and "race_ok race vt co fy (db_series s)"
    and "mk (db_ids s) \<notin> s_id ` set (db_series s)"
  shows "\<exists>r s2. obtain_series mk race vt co fy s = Inr (r, s2) \<and>
    lock_series vt co fy (db_series s2) = Some r \<and> series_wf (db_series s2) \<and>
    (s2 = s \<or> lock_series vt co fy (db_series s) = None \<and>
      s2 = s\<lparr>db_ids := Suc (db_ids s), db_series := db_series s @ [r]\<rparr> \<and>
      (race = None \<and> s_last r = 0 \<and> s_prefix r = default_prefix_for vt \<or> race = Some r))"
proof (cases "lock_series vt co fy (db_series s)")
  case (Some r)
  with assms show ?thesis by (simp add: obtain_series_def)
next
  case None
  from provision_Inr [where new_id = "mk (db_ids s)", OF this assms(2,3)] obtain r where
    p: "provision race (mk (db_ids s)) vt co fy (db_series s) = Inr (db_series s @ [r])"
    and r: "series_key r = (vt, co, fy)" "s_id r \<notin> s_id ` set (db_series s)"
    "race = None \<longrightarrow> s_last r = 0 \<and> s_prefix r = default_prefix_for vt" "race = Some r \<or> race = None" by blast
  have "lock_series vt co fy (db_series s @ [r]) = Some r" using None r by (simp add: lock_series_append)
  moreover have "series_wf (db_series s @ [r])"
    using assms(1) r None by (auto simp: series_wf_def lock_series_None)
  ultimately show ?thesis using None p r
    by (auto simp: obtain_series_def ids_next_def)
qed

lemma numbering_next_spec:
  assumes "series_wf (db_series s)" and "race_ok race vt co fy (db_series s)"
    and "mk (db_ids s) \<notin> s_id ` set (db_series s)"
    and "numbering_next mk race vt co fy s = Inr (no, s')"
  obtains r f s2 where "obtain_series mk race vt co fy s = Inr (r, s2)"
    and "lock_series vt co fy (db_series s2) = Some r" and "series_wf (db_series s2)"
    and "s2 = s \<or> lock_series vt co fy (db_series s) = None \<and>
      s2 = s\<lparr>db_ids := Suc (db_ids s), db_series := db_series s @ [r]\<rparr> \<and>
      (race = None \<and> s_last r = 0 \<and> s_prefix r = default_prefix_for vt \<or> race = Some r)"
    and "find_fy fy co (db_fys s) = Some f"
    and "s' = s2\<lparr>db_series := update_where (\<lambda>x. s_id x = s_id r) (\<lambda>x. x\<lparr>s_last := s_last r + 1\<rparr>) (db_series s2)\<rparr>"
    and "no = format_voucher_number (s_prefix r)
      (fy_short_label (nat (fst (fy_start f))) (nat (fst (fy_end f)))) (s_last r + 1) (s_padding r)"
proof -
  from obtain_series_spec [where mk = mk, OF assms(1-3)] obtain r s2 where
    o: "obtain_series mk race vt co fy s = Inr (r, s2)"
      "lock_series vt co fy (db_series s2) = Some r" "series_wf (db_series s2)"
      "s2 = s \<or> lock_series vt co fy (db_series s) = None \<and>
        s2 = s\<lparr>db_ids := Suc (db_ids s), db_series := db_series s @ [r]\<rparr> \<and>
        (race = None \<and> s_last r = 0 \<and> s_prefix r = default_prefix_for vt \<or> race = Some r)" by blast
  from o(4) have "db_fys s2 = db_fys s" by auto
  with assms(4) o(1) obtain f where "find_fy fy co (db_fys s) = Some f"
    "s' = s2\<lparr>db_series := update_where (\<lambda>x. s_id x = s_id r) (\<lambda>x. x\<lparr>s_last := s_last r + 1\<rparr>) (db_series s2)\<rparr>"
    "no = format_voucher_number (s_prefix r)
      (fy_short_label (nat (fst (fy_start f))) (nat (fst (fy_end f)))) (s_last r + 1) (s_padding r)"
    by (auto simp: numbering_next_def resolve_fy_label_def Let_def rbind_eq_Inr split: option.splits)
  with o show ?thesis by (rule that)
qed

lemma numbering_next_last:
  assumes "series_wf (db_series s)" and "mk (db_ids s) \<notin> s_id ` set (db_series s)"
    and "numbering_next mk None vt co fy s = Inr (no, s')"
  shows "last_sequence vt' co' fy' (db_series s') =
      (if (vt', co', fy') = (vt, co, fy) then Suc (last_sequence vt co fy (db_series s))
       else last_sequence vt' co' fy' (db_series s))"
    and "series_wf (db_series s')"
proof -
  from numbering_next_spec [where mk = mk, OF assms(1) race_ok_None assms(2,3)] obtain r f s2 where
    r: "lock_series vt co fy (db_series s2) = Some r" "series_wf (db_series s2)"
    and s2: "s2 = s \<or> lock_series vt co fy (db_series s) = None \<and>
        s2 = s\<lparr>db_ids := Suc (db_ids s), db_series := db_series s @ [r]\<rparr> \<and> s_last r = 0"
    and s': "s' = s2\<lparr>db_series := update_where (\<lambda>x. s_id x = s_id r) (\<lambda>x. x\<lparr>s_last := s_last r + 1\<rparr>) (db_series s2)\<rparr>"
    by (metis option.distinct(1))
  have before: "last_sequence vt'' co'' fy'' (db_series s2) = last_sequence vt'' co'' fy'' (db_series s)" for vt'' co'' fy''
    using s2 r(1) by (auto simp: last_sequence_def lock_series_append split: option.splits if_splits)
  show "series_wf (db_series s')"
    using r(2) unfolding s' by (auto intro!: series_wf_update simp: series_key_def)
  show "last_sequence vt' co' fy' (db_series s') =
      (if (vt', co', fy') = (vt, co, fy) then Suc (last_sequence vt co fy (db_series s))
       else last_sequence vt' co' fy' (db_series s))"
    using before [of vt co fy] before [of vt' co' fy'] r
    by (simp add: s' last_sequence_def lock_series_bump [OF r(2,1)])
qed

end
