(* ===== verification/Periods.thy ===== *)
theory Periods
  imports Core_State
begin

text \<open>
  Accounting periods (\<open>src/src/core/period/\<close>): the aggregate with its OPEN/CLOSED state machine,
  the monthly generation, the repository, the post-time guard \<open>assertOpen\<close>, and the use cases
  generate, close, close the year and reopen.
\<close>

section \<open>The aggregate\<close>

definition period_create :: "string \<Rightarrow> string \<Rightarrow> string \<Rightarrow> string \<Rightarrow> string \<Rightarrow> string \<Rightarrow> period" where
  "period_create i co fy name sd ed =
     \<lparr>per_id = i, per_company = co, per_fy = fy, per_name = name, per_start = sd, per_end = ed,
      per_status = OPEN, per_closed_at = None, per_closed_by = None, per_version = 1\<rparr>"

definition period_close :: "string \<Rightarrow> int \<Rightarrow> period \<Rightarrow> domain_error + period" where
  "period_close actor_id now p =
     (if per_status p \<noteq> OPEN then Inl (PeriodAlreadyClosedError (per_id p))
      else Inr (p\<lparr>per_status := CLOSED, per_closed_at := Some now, per_closed_by := Some actor_id\<rparr>))"

definition period_reopen :: "period \<Rightarrow> domain_error + period" where
  "period_reopen p =
     (if per_status p \<noteq> CLOSED then Inl (PeriodAlreadyOpenError (per_id p))
      else Inr (p\<lparr>per_status := OPEN, per_closed_at := None, per_closed_by := None\<rparr>))"

definition period_is_open :: "period \<Rightarrow> bool" where
  "period_is_open p \<longleftrightarrow> per_status p = OPEN"

definition period_owns :: "period \<Rightarrow> string \<Rightarrow> bool" where
  "period_owns p date \<longleftrightarrow> per_start p \<le> date \<and> date \<le> per_end p"

section \<open>Monthly generation\<close>

definition MONTHS :: "string list" where
  "MONTHS = [''Jan'', ''Feb'', ''Mar'', ''Apr'', ''May'', ''Jun'',
             ''Jul'', ''Aug'', ''Sep'', ''Oct'', ''Nov'', ''Dec'']"

definition span_name :: "int \<Rightarrow> int \<Rightarrow> string" where
  "span_name y m = MONTHS ! nat (m - 1) @ '' '' @ show_nat (nat y)"

lemma month_spans_decreases:
  assumes "date_utc y (m - 1) d \<le> fin" shows "12 * y + m - 1 \<le> 12 * fst fin + 12"
proof -
  obtain a b c where abc: "date_utc y (m - 1) d = (a, b, c)" by (metis prod_cases3)
  obtain e f g where fin: "fin = (e, f, g)" by (metis prod_cases3)
  from assms abc fin have "a \<le> e" by (auto simp: less_eq_prod_def)
  with date_utc_month_ge [OF abc] show ?thesis by (simp add: fin)
qed

text \<open>
  The loop of \<open>monthlyPeriods\<close>: \<open>cursorStart\<close> is \<open>Date.UTC(year, month - 1, d)\<close>, with \<open>d\<close> the day of
  the year's start in the first round and 1 afterwards.
\<close>

function month_spans :: "int \<Rightarrow> int \<Rightarrow> int \<Rightarrow> ymd \<Rightarrow> (string \<times> ymd \<times> ymd) list" where
  "month_spans year month d fin =
     (if date_utc year (month - 1) d \<le> fin
      then (span_name year month, date_utc year (month - 1) d,
            (if date_utc year month 0 \<le> fin then date_utc year month 0 else fin)) #
           (if 12 < month + 1 then month_spans (year + 1) 1 1 fin else month_spans year (month + 1) 1 fin)
      else [])"
  by pat_completeness auto

termination
proof (relation "measure (\<lambda>(y, m, d, fin). nat (12 * fst fin + 14 - (12 * y + min m 12)))")
  fix y m d :: int and fin
  assume "date_utc y (m - 1) d \<le> fin"
  from month_spans_decreases [OF this]
  show "12 < m + 1 \<Longrightarrow> ((y + 1, 1, 1, fin), y, m, d, fin)
      \<in> measure (\<lambda>(y, m, d, fin). nat (12 * fst fin + 14 - (12 * y + min m 12)))"
    and "\<not> 12 < m + 1 \<Longrightarrow> ((y, m + 1, 1, fin), y, m, d, fin)
      \<in> measure (\<lambda>(y, m, d, fin). nat (12 * fst fin + 14 - (12 * y + min m 12)))"
    by auto
qed simp

declare month_spans.simps [simp del]

record monthly_span =
  ms_name :: string
  ms_start :: string
  ms_end :: string

text \<open>The bounds are \<open>date\<close> columns printed as \<open>YYYY-MM-DD\<close>.\<close>

definition monthly_periods :: "string \<Rightarrow> string \<Rightarrow> monthly_span list" where
  "monthly_periods fy_start_s fy_end_s =
     (case (parse_iso fy_start_s, parse_iso fy_end_s) of
        (Some (sy, sm, sd), Some fin) \<Rightarrow>
          map (\<lambda>(name, a, b). \<lparr>ms_name = name, ms_start = iso a, ms_end = iso b\<rparr>)
            (month_spans sy sm sd fin)
      | _ \<Rightarrow> [])"

section \<open>The repository\<close>

definition find_owning :: "string \<Rightarrow> string \<Rightarrow> string \<Rightarrow> period list \<Rightarrow> period option" where
  "find_owning co fy date ps =
     List.find (\<lambda>p. per_company p = co \<and> per_fy p = fy \<and> per_start p \<le> date \<and> date \<le> per_end p) ps"

definition period_by_id :: "string \<Rightarrow> string \<Rightarrow> period list \<Rightarrow> period option" where
  "period_by_id i co ps = List.find (\<lambda>p. per_id p = i \<and> per_company p = co) ps"

definition list_by_fy :: "string \<Rightarrow> string \<Rightarrow> period list \<Rightarrow> period list" where
  "list_by_fy co fy ps = sort_key per_start (filter (\<lambda>p. per_company p = co \<and> per_fy p = fy) ps)"

definition exists_any_for_fy :: "string \<Rightarrow> string \<Rightarrow> period list \<Rightarrow> bool" where
  "exists_any_for_fy co fy ps = list_ex (\<lambda>p. per_company p = co \<and> per_fy p = fy) ps"

text \<open>
  The constraints of the table on an insert: the range check, the unique name, and the exclusion of
  overlapping ranges of one company and year (which subsumes the unique start).
\<close>

definition period_insert :: "period \<Rightarrow> period list \<Rightarrow> domain_error + period list" where
  "period_insert p ps =
     (if per_end p < per_start p then Inl (DatabaseError ''chk_accounting_period_date_range'')
      else if list_ex (\<lambda>q. per_company q = per_company p \<and> per_fy q = per_fy p \<and> per_name q = per_name p) ps
      then Inl (DatabaseError ''uq_accounting_period_name'')
      else if list_ex (\<lambda>q. per_company q = per_company p \<and> per_fy q = per_fy p \<and>
                per_start q \<le> per_end p \<and> per_start p \<le> per_end q) ps
      then Inl (DatabaseError ''excl_accounting_period_overlap'')
      else Inr (ps @ [p]))"

definition period_save :: "period \<Rightarrow> period list \<Rightarrow> domain_error + period list" where
  "period_save p ps =
     (if \<not> list_ex (\<lambda>q. per_id q = per_id p) ps then period_insert p ps
      else
        let P = (\<lambda>q. per_id q = per_id p \<and> per_version q = per_version p) in
        if \<not> list_ex P ps then Inl OptimisticLockConflictError
        else Inr (update_where P (\<lambda>q. q\<lparr>per_status := per_status p, per_closed_at := per_closed_at p,
               per_closed_by := per_closed_by p, per_version := per_version q + 1\<rparr>) ps))"

fun period_save_many :: "period list \<Rightarrow> period list \<Rightarrow> domain_error + period list" where
  "period_save_many [] ps = Inr ps"
| "period_save_many (q # qs) ps = rbind (period_save q ps) (period_save_many qs)"

definition fy_bounds :: "string \<Rightarrow> string \<Rightarrow> financial_year list \<Rightarrow> (string \<times> string) option" where
  "fy_bounds co fy fys = map_option (\<lambda>f. (iso (fy_start f), iso (fy_end f))) (find_fy fy co fys)"

section \<open>The post-time guard\<close>

definition assert_open :: "string \<Rightarrow> string \<Rightarrow> string \<Rightarrow> 'a db_scheme \<Rightarrow> domain_error + unit" where
  "assert_open co fy date s =
     (case find_owning co fy date (db_periods s) of
        None \<Rightarrow> Inl (NoPeriodDefinedError co fy date)
      | Some p \<Rightarrow> if \<not> period_is_open p then Inl (PeriodClosedError (per_id p) date) else Inr ())"

section \<open>Use cases\<close>

fun create_periods ::
  "(nat \<Rightarrow> string) \<Rightarrow> string \<Rightarrow> string \<Rightarrow> monthly_span list \<Rightarrow> 'a db_scheme \<Rightarrow>
   domain_error + (period list \<times> 'a db_scheme)" where
  "create_periods mk co fy [] s = Inr ([], s)"
| "create_periods mk co fy (sp # sps) s =
     (case ids_next mk s of (i, s1) \<Rightarrow>
      rbind (date_only_of (ms_start sp)) (\<lambda>sd.
      rbind (date_only_of (ms_end sp)) (\<lambda>ed.
      rbind (create_periods mk co fy sps s1) (\<lambda>(ps, s2).
      Inr (period_create i co fy (ms_name sp) sd ed # ps, s2)))))"

definition generate_periods ::
  "(nat \<Rightarrow> string) \<Rightarrow> string \<Rightarrow> actor \<Rightarrow> 'a db_scheme \<Rightarrow> domain_error + (period list \<times> 'a db_scheme)" where
  "generate_periods mk fy act = uow_run (\<lambda>s.
     rbind (fetch (FinancialYearNotFoundError fy) (fy_bounds (act_company act) fy (db_fys s))) (\<lambda>(a, b).
     rbind (require (\<not> exists_any_for_fy (act_company act) fy (db_periods s))
              (PeriodsAlreadyExistError fy)) (\<lambda>_.
     rbind (create_periods mk (act_company act) fy (monthly_periods a b) s) (\<lambda>(created, s1).
     rbind (period_save_many created (db_periods s1)) (\<lambda>ps.
     Inr (created, s1\<lparr>db_periods := ps\<rparr>))))))"

definition close_period ::
  "string \<Rightarrow> int \<Rightarrow> actor \<Rightarrow> 'a db_scheme \<Rightarrow> domain_error + (period \<times> 'a db_scheme)" where
  "close_period i now act = uow_run (\<lambda>s.
     rbind (fetch (NotFoundError i) (period_by_id i (act_company act) (db_periods s))) (\<lambda>p.
     rbind (period_close (act_user act) now p) (\<lambda>p'.
     rbind (period_save p' (db_periods s)) (\<lambda>ps.
     Inr (p', audit_record ''UPDATE'' ''AccountingPeriod'' i act (s\<lparr>db_periods := ps\<rparr>))))))"

definition close_fy ::
  "string \<Rightarrow> int \<Rightarrow> actor \<Rightarrow> 'a db_scheme \<Rightarrow> domain_error + ((nat \<times> nat) \<times> 'a db_scheme)" where
  "close_fy fy now act = uow_run (\<lambda>s.
     let all = list_by_fy (act_company act) fy (db_periods s) in
     rbind (require (all \<noteq> []) (NoPeriodsForFyError fy)) (\<lambda>_.
     let to_close = filter period_is_open all in
     rbind (rmap (period_close (act_user act) now) to_close) (\<lambda>closed.
     rbind (period_save_many closed (db_periods s)) (\<lambda>ps.
     Inr ((length to_close, length all - length to_close),
       fold (\<lambda>p st. audit_record ''UPDATE'' ''AccountingPeriod'' (per_id p) act st) to_close
         (s\<lparr>db_periods := ps\<rparr>))))))"

definition reopen_period ::
  "string \<Rightarrow> actor \<Rightarrow> 'a db_scheme \<Rightarrow> domain_error + (period \<times> 'a db_scheme)" where
  "reopen_period i act = uow_run (\<lambda>s.
     rbind (fetch (NotFoundError i) (period_by_id i (act_company act) (db_periods s))) (\<lambda>p.
     let siblings = list_by_fy (act_company act) (per_fy p) (db_periods s) in
     rbind (require (\<not> (siblings \<noteq> [] \<and> list_all (\<lambda>q. \<not> period_is_open q) siblings))
              (PeriodFyLockedError (per_fy p))) (\<lambda>_.
     rbind (period_reopen p) (\<lambda>p'.
     rbind (period_save p' (db_periods s)) (\<lambda>ps.
     Inr (p', audit_record ''UPDATE'' ''AccountingPeriod'' i act (s\<lparr>db_periods := ps\<rparr>)))))))"

section \<open>Spans tile the year\<close>

definition in_span :: "ymd \<Rightarrow> string \<times> ymd \<times> ymd \<Rightarrow> bool" where
  "in_span dt sp = (case sp of (_, a, b) \<Rightarrow> a \<le> dt \<and> dt \<le> b)"

lemma in_span_simp [simp]: "in_span dt (nm, a, b) \<longleftrightarrow> a \<le> dt \<and> dt \<le> b"
  by (simp add: in_span_def)

lemma ymd_le: "((y, m, d) :: ymd) \<le> (y', m', d') \<longleftrightarrow> y < y' \<or> y = y' \<and> (m < m' \<or> m = m' \<and> d \<le> d')"
  by (auto simp: less_eq_prod_def)

text \<open>One unfolding of the loop, for a valid first day of year 100 or later.\<close>

lemma month_spans_step:
  assumes "valid_ymd (y, m, d)" and "100 \<le> y"
  shows "month_spans y m d fin =
    (if (y, m, d) \<le> fin
     then (span_name y m, (y, m, d), min (y, m, days_in_month y m) fin) #
          (case next_month (y, m) of (y', m') \<Rightarrow> month_spans y' m' 1 fin)
     else [])"
proof -
  from assms have m: "1 \<le> m" "m \<le> 12" by (auto simp: valid_ymd_def)
  show ?thesis
    unfolding month_spans.simps [of y m d fin] date_utc_valid_id [OF assms]
      date_utc_last_of_month [OF m assms(2)] by (simp add: next_month_def min_def)
qed

lemma next_month_first:
  assumes "valid_ymd (y, m, d)" and "100 \<le> y" and "next_month (y, m) = (y', m')"
  shows "valid_ymd (y', m', 1) \<and> 100 \<le> y'"
  using assms days_in_month_bounds [of y' m'] by (auto simp: valid_ymd_def next_month_def split: if_splits)

text \<open>Between the last day of a month and the first of the next there is no day.\<close>

lemma no_day_between:
  assumes "valid_ymd (a, b, c)" and "1 \<le> m" and "m \<le> 12" and "next_month (y, m) = (y', m')"
  shows "(a, b, c) \<le> (y, m, days_in_month y m) \<longleftrightarrow> \<not> (y', m', 1) \<le> (a, b, c)"
proof -
  from assms(1) have "1 \<le> b" "b \<le> 12" "1 \<le> c" "c \<le> days_in_month a b" by (auto simp: valid_ymd_def)
  with assms(2-4) show ?thesis
    by (cases "a = y \<and> b = m") (auto simp: ymd_le next_month_def split: if_splits)
qed

lemma month_spans_tile:
  assumes "valid_ymd dt" and "valid_ymd (y, m, d)" and "100 \<le> y"
  shows "length (filter (in_span dt) (month_spans y m d fin)) = (if (y, m, d) \<le> dt \<and> dt \<le> fin then 1 else 0)"
  using assms(2,3)
proof (induction y m d fin rule: month_spans.induct)
  case (1 y m d fin)
  note step = month_spans_step [OF 1(3,4), of fin]
  from 1(3) have m: "1 \<le> m" "m \<le> 12" and d: "1 \<le> d" "d \<le> days_in_month y m" by (auto simp: valid_ymd_def)
  obtain y' m' where n: "next_month (y, m) = (y', m')" by fastforce
  obtain a b c where dt: "dt = (a, b, c)" by (metis prod_cases3)
  show ?case
  proof (cases "(y, m, d) \<le> fin")
    case False
    then show ?thesis by (auto simp: step)
  next
    case True
    with 1(1,2) next_month_first [OF 1(3,4) n] n date_utc_valid_id [OF 1(3,4)]
    have IH: "length (filter (in_span dt) (month_spans y' m' 1 fin)) = (if (y', m', 1) \<le> dt \<and> dt \<le> fin then 1 else 0)"
      by (auto simp: next_month_def split: if_splits)
    from no_day_between [of a b c m y y' m'] assms(1) m n dt
    have gap: "dt \<le> (y, m, days_in_month y m) \<longleftrightarrow> \<not> (y', m', 1) \<le> dt" by simp
    have "(y, m, d) \<le> (y', m', 1)" using n m by (auto simp: ymd_le next_month_def split: if_splits)
    then have "(y', m', 1) \<le> dt \<Longrightarrow> (y, m, d) \<le> dt" by (rule order_trans)
    moreover have "length (filter (in_span dt) (month_spans y m d fin)) =
        (if (y, m, d) \<le> dt \<and> dt \<le> (y, m, days_in_month y m) \<and> dt \<le> fin then 1 else 0) +
        length (filter (in_span dt) (month_spans y' m' 1 fin))"
      by (simp add: step True n)
    ultimately show ?thesis unfolding IH using gap by auto
  qed
qed

section \<open>Generation covers the year\<close>

text \<open>A date the program can write: valid, of the years 100 to 9999.\<close>

definition good_date :: "ymd \<Rightarrow> bool" where
  "good_date dt \<longleftrightarrow> valid_ymd dt \<and> 100 \<le> fst dt \<and> fst dt < 10000"

definition span_ok :: "ymd \<Rightarrow> ymd \<Rightarrow> string \<times> ymd \<times> ymd \<Rightarrow> bool" where
  "span_ok st fin sp = (case sp of (name, a, b) \<Rightarrow> good_date a \<and> good_date b \<and> a \<le> b \<and> st \<le> a \<and> b \<le> fin \<and>
     name = span_name (fst a) (fst (snd a)))"

definition span_before :: "string \<times> ymd \<times> ymd \<Rightarrow> string \<times> ymd \<times> ymd \<Rightarrow> bool" where
  "span_before x y = (case (x, y) of ((_, a, b), (_, a', b')) \<Rightarrow>
     b < a' \<and> (fst a, fst (snd a)) < (fst a', fst (snd a')))"

lemma good_date_iso: "good_date dt \<Longrightarrow> iso_range dt"
  by (cases dt) (auto simp: good_date_def intro: valid_iso_range)

lemma good_date_only: "good_date dt \<Longrightarrow> date_only_of (iso dt) = Inr (iso dt)"
proof -
  assume g: "good_date dt"
  obtain y m d where dt: "dt = (y, m, d)" by (metis prod_cases3)
  have "\<not> js_space c" if "c \<in> set (iso dt)" for c
    using that pad_start_digits [of 4 "nat y"] pad_start_digits [of 2 "nat m"] pad_start_digits [of 2 "nat d"]
    by (auto simp: dt iso_def js_space_def is_digit_def Let_def)
  then have "trim (iso dt) = iso dt" by (rule trim_idem_space_free)
  with g show ?thesis by (auto simp: date_only_of_Inr good_date_def dt)
qed

lemma ymd_between: "(a :: ymd) \<le> b \<Longrightarrow> b \<le> c \<Longrightarrow> fst a \<le> fst b \<and> fst b \<le> fst c"
  by (cases a; cases b; cases c) (auto simp: ymd_le)

lemma span_name_inject:
  assumes "span_name y m = span_name y' m'" and "1 \<le> m" and "m \<le> 12" and "1 \<le> m'" and "m' \<le> 12"
    and "0 \<le> y" and "0 \<le> y'"
  shows "y = y' \<and> m = m'"
proof -
  have len: "length (MONTHS ! i) = 3" if "i < 12" for i
    using that by (auto simp: MONTHS_def less_Suc_eq numeral_eq_Suc)
  have dist: "distinct MONTHS" "length MONTHS = 12" by (simp_all add: MONTHS_def)
  have i: "nat (m - 1) < 12" "nat (m' - 1) < 12" using assms(2-5) by auto
  with assms(1) have "MONTHS ! nat (m - 1) = MONTHS ! nat (m' - 1) \<and> show_nat (nat y) = show_nat (nat y')"
    unfolding span_name_def by (simp add: len append_eq_append_conv)
  with dist i have "nat (m - 1) = nat (m' - 1)" "nat y = nat y'"
    by (auto simp: nth_eq_iff_index_eq) (metis parse_nat_show_nat)
  with assms(2-7) show ?thesis by auto
qed

lemma span_ok_mono: "span_ok st' fin sp \<Longrightarrow> st \<le> st' \<Longrightarrow> span_ok st fin sp"
  unfolding span_ok_def by (cases sp rule: prod_cases3) (auto simp del: less_eq_prod_simp intro: order_trans)

lemma span_ok_before:
  assumes "span_ok (y', m', d') fin sp" and "e < (y', m', d')" and "(y, m) < (y', m')"
  shows "span_before (nm, (y, m, d), e) sp"
proof -
  obtain nm' a b where sp: "sp = (nm', a, b)" by (metis prod_cases3)
  obtain ya ma da where a: "a = (ya, ma, da)" by (metis prod_cases3)
  from assms(1) have le: "(y', m', d') \<le> a" by (simp add: span_ok_def sp)
  with assms(2) have "e < a" by (rule less_le_trans)
  moreover from le assms(3) have "(y, m) < (ya, ma)" by (auto simp: a)
  ultimately show ?thesis by (simp add: span_before_def sp a)
qed

lemma month_spans_ok:
  assumes "good_date fin" and "valid_ymd (y, m, d)" and "100 \<le> y"
  shows "list_all (span_ok (y, m, d) fin) (month_spans y m d fin) \<and>
    sorted_wrt span_before (month_spans y m d fin)"
  using assms
proof (induction y m d fin rule: month_spans.induct)
  case (1 y m d fin)
  note step = month_spans_step [OF 1(4,5), of fin]
  from 1(4) have m: "1 \<le> m" "m \<le> 12" and d: "1 \<le> d" "d \<le> days_in_month y m" by (auto simp: valid_ymd_def)
  obtain y' m' where n: "next_month (y, m) = (y', m')" by fastforce
  show ?case
  proof (cases "(y, m, d) \<le> fin")
    case False
    then show ?thesis by (auto simp: step)
  next
    case True
    with 1(1-3) next_month_first [OF 1(4,5) n] n date_utc_valid_id [OF 1(4,5)]
    have IH: "list_all (span_ok (y', m', 1) fin) (month_spans y' m' 1 fin)"
      "sorted_wrt span_before (month_spans y' m' 1 fin)"
      by (auto simp: next_month_def split: if_splits)
    have later: "(y, m, days_in_month y m) < (y', m', 1)" "(y, m, d) \<le> (y', m', 1)" "(y, m) < (y', m')"
      using n m d by (auto simp: less_le ymd_le next_month_def split: if_splits)
    let ?e = "min (y, m, days_in_month y m) fin"
    from 1(3) True 1(5) have "fst fin < 10000" "y \<le> fst fin" "valid_ymd fin" "100 \<le> fst fin"
      by (auto simp: good_date_def dest: ymd_between [OF order_refl])
    with 1(4,5) m d have "good_date (y, m, d)" "good_date ?e"
      by (auto simp: good_date_def min_def valid_ymd_def days_in_month_bounds)
    moreover have "(y, m, d) \<le> ?e" using True d by (simp add: ymd_le)
    ultimately have "span_ok (y, m, d) fin (span_name y m, (y, m, d), ?e)" by (simp add: span_ok_def)
    moreover from IH(1) later(2) have "list_all (span_ok (y, m, d) fin) (month_spans y' m' 1 fin)"
      by (auto simp: list_all_iff intro: span_ok_mono)
    moreover from later(1) have "?e < (y', m', 1)" by (rule le_less_trans [OF min.cobounded1])
    with IH(1) later(3) have "\<forall>x \<in> set (month_spans y' m' 1 fin). span_before (span_name y m, (y, m, d), ?e) x"
      by (auto simp: list_all_iff intro: span_ok_before)
    ultimately show ?thesis using True n IH(2) by (simp add: step)
  qed
qed

definition ms_of :: "string \<times> ymd \<times> ymd \<Rightarrow> monthly_span" where
  "ms_of = (\<lambda>(name, a, b). \<lparr>ms_name = name, ms_start = iso a, ms_end = iso b\<rparr>)"

definition period_of_span :: "(nat \<Rightarrow> string) \<Rightarrow> string \<Rightarrow> string \<Rightarrow> nat \<times> (string \<times> ymd \<times> ymd) \<Rightarrow> period" where
  "period_of_span mk co fy = (\<lambda>(n, name, a, b). period_create (mk n) co fy name (iso a) (iso b))"

lemma period_of_span_simps [simp]:
  "per_id (period_of_span mk co fy (n, nm, a, b)) = mk n" "per_start (period_of_span mk co fy (n, nm, a, b)) = iso a"
  "per_end (period_of_span mk co fy (n, nm, a, b)) = iso b" "per_name (period_of_span mk co fy (n, nm, a, b)) = nm" "per_company (period_of_span mk co fy x) = co"
  "per_fy (period_of_span mk co fy x) = fy" "per_status (period_of_span mk co fy x) = OPEN"
  by (simp_all add: period_of_span_def period_create_def split: prod.splits)

lemma create_periods_ok:
  assumes "list_all (span_ok st fin) sps"
  shows "create_periods mk co fy (map ms_of sps) s =
    Inr (map (period_of_span mk co fy) (enumerate (db_ids s) sps), s\<lparr>db_ids := db_ids s + length sps\<rparr>)"
  using assms
proof (induction sps arbitrary: s)
  case (Cons sp sps)
  obtain nm a b where sp: "sp = (nm, a, b)" by (metis prod_cases3)
  from Cons show ?case
    by (simp add: sp span_ok_def ms_of_def ids_next_def good_date_only period_of_span_def)
qed simp

lemma period_save_new:
  assumes "per_id p \<notin> per_id ` set ps" and "per_start p \<le> per_end p"
    and "\<And>q. q \<in> set ps \<Longrightarrow> per_company q = per_company p \<Longrightarrow> per_fy q = per_fy p \<Longrightarrow>
      per_name q \<noteq> per_name p \<and> (per_end q < per_start p \<or> per_end p < per_start q)"
  shows "period_save p ps = Inr (ps @ [p])"
proof -
  have "\<not> (per_start q \<le> per_end p \<and> per_start p \<le> per_end q)"
    if "q \<in> set ps" "per_company q = per_company p" "per_fy q = per_fy p" for q
    using assms(3) [OF that] by (auto simp: not_le)
  then have "\<not> list_ex (\<lambda>q. per_company q = per_company p \<and> per_fy q = per_fy p \<and>
      per_start q \<le> per_end p \<and> per_start p \<le> per_end q) ps" by (auto simp: list_ex_iff)
  moreover have "\<not> list_ex (\<lambda>q. per_company q = per_company p \<and> per_fy q = per_fy p \<and> per_name q = per_name p) ps"
    using assms(3) by (auto simp: list_ex_iff)
  moreover have "\<not> list_ex (\<lambda>q. per_id q = per_id p) ps" using assms(1) by (auto simp: list_ex_iff image_iff)
  ultimately show ?thesis using assms(2) by (simp add: period_save_def period_insert_def not_less)
qed

lemma period_save_many_new:
  assumes "distinct (map per_id qs)" and "per_id ` set qs \<inter> per_id ` set ps = {}"
    and "\<forall>q \<in> set qs. per_start q \<le> per_end q \<and> per_company q = co \<and> per_fy q = fy"
    and "\<forall>p \<in> set ps. \<forall>q \<in> set qs. per_company p = co \<longrightarrow> per_fy p = fy \<longrightarrow>
      per_name p \<noteq> per_name q \<and> per_end p < per_start q"
    and "sorted_wrt (\<lambda>p q. per_name p \<noteq> per_name q \<and> per_end p < per_start q) qs"
  shows "period_save_many qs ps = Inr (ps @ qs)"
  using assms
proof (induction qs arbitrary: ps)
  case (Cons q qs)
  then have "period_save q ps = Inr (ps @ [q])" by (intro period_save_new) auto
  moreover from Cons have "period_save_many qs (ps @ [q]) = Inr ((ps @ [q]) @ qs)" by (intro Cons.IH) auto
  ultimately show ?case by simp
qed simp

lemma find_period_of_span:
  assumes "list_all (span_ok st fin) sps" and "good_date dt"
  shows "(\<exists>p. find_owning co fy (iso dt) (map (period_of_span mk co fy) (enumerate n sps)) = Some p \<and> per_status p = OPEN) \<longleftrightarrow>
      filter (in_span dt) sps \<noteq> []"
    and "filter (in_span dt) sps = [] \<Longrightarrow>
      find_owning co fy (iso dt) (map (period_of_span mk co fy) (enumerate n sps)) = None"
  using assms
proof (atomize (full), induction sps arbitrary: n)
  case (Cons sp sps)
  obtain nm a b where sp: "sp = (nm, a, b)" by (metis prod_cases3)
  from Cons.prems have "iso a \<le> iso dt \<longleftrightarrow> a \<le> dt" "iso dt \<le> iso b \<longleftrightarrow> dt \<le> b"
    by (auto simp: sp span_ok_def iso_le_iff good_date_iso)
  with Cons show ?case by (auto simp: sp find_owning_def)
qed (simp add: find_owning_def)

lemma find_owning_append_none:
  assumes "\<not> exists_any_for_fy co fy ps"
  shows "find_owning co fy d (ps @ qs) = find_owning co fy d qs"
  using assms
  by (auto simp: find_owning_def find_append exists_any_for_fy_def list_ex_iff split: option.splits dest!: find_SomeD)

text \<open>
  What \<open>generate\<close> does for a year with sound bounds and no periods yet: it never trips a constraint of
  the table, and from then on the guard knows an open period for exactly the dates of the year.
\<close>

definition fresh_ids :: "(nat \<Rightarrow> string) \<Rightarrow> 'a db_scheme \<Rightarrow> string set \<Rightarrow> bool" where
  "fresh_ids mk s used \<longleftrightarrow> inj mk \<and> (\<forall>n \<ge> db_ids s. mk n \<notin> used)"

lemma enumerate_ids: "map (\<lambda>x. per_id (period_of_span mk co fy x)) (enumerate n xs) = map mk [n..<n + length xs]"
  by (induction xs arbitrary: n) (auto simp: upt_rec)

lemma in_set_enumerate_nth: "x \<in> set (enumerate n xs) \<Longrightarrow> \<exists>i y. x = (i, y) \<and> y \<in> set xs"
  by (auto simp: in_set_enumerate_eq split: prod.splits intro!: nth_mem) (metis nth_mem less_diff_conv2 prod.collapse)

lemma generated_sorted:
  assumes "list_all (span_ok st fin) sps" and "sorted_wrt span_before sps"
  shows "sorted_wrt (\<lambda>p q. per_name p \<noteq> per_name q \<and> per_end p < per_start q) (map (period_of_span mk co fy) (enumerate n sps))"
  using assms
proof (induction sps arbitrary: n)
  case (Cons sp sps)
  obtain nm a b where sp: "sp = (nm, a, b)" by (metis prod_cases3)
  have "nm \<noteq> per_name (period_of_span mk co fy (i, x)) \<and> iso b < per_start (period_of_span mk co fy (i, x))"
    if "x \<in> set sps" for i x
  proof -
    obtain nm' a' b' where x: "x = (nm', a', b')" by (metis prod_cases3)
    from that Cons.prems x sp have ok: "span_ok st fin (nm, a, b)" "span_ok st fin (nm', a', b')"
      and before: "span_before (nm, a, b) (nm', a', b')" by (auto simp: list_all_iff)
    from ok before have "iso b < iso a'" by (simp add: span_ok_def span_before_def iso_less_iff good_date_iso)
    moreover from ok before have "nm \<noteq> nm'"
      by (cases a; cases a') (auto simp: span_ok_def span_before_def good_date_def valid_ymd_def dest!: span_name_inject)
    ultimately show ?thesis by (simp add: x)
  qed
  then have "\<forall>p \<in> set (map (period_of_span mk co fy) (enumerate (Suc n) sps)). nm \<noteq> per_name p \<and> iso b < per_start p"
    by (metis (no_types, lifting) imageE in_set_enumerate_nth set_map)
  with Cons show ?case by (simp add: sp)
qed simp

lemma generate_periods_spec:
  assumes "find_fy fy (act_company act) (db_fys s) = Some f"
    and "good_date (fy_start f)" and "good_date (fy_end f)"
    and none: "\<not> exists_any_for_fy (act_company act) fy (db_periods s)"
    and "inj mk" and "\<forall>n \<ge> db_ids s. mk n \<notin> per_id ` set (db_periods s)"
  obtains sps where "list_all (span_ok (fy_start f) (fy_end f)) sps"
    and "\<And>dt. valid_ymd dt \<Longrightarrow> filter (in_span dt) sps \<noteq> [] \<longleftrightarrow> fy_start f \<le> dt \<and> dt \<le> fy_end f"
    and "generate_periods mk fy act s =
      (let created = map (period_of_span mk (act_company act) fy) (enumerate (db_ids s) sps) in
       Inr (created, s\<lparr>db_ids := db_ids s + length sps, db_periods := db_periods s @ created\<rparr>))"
proof -
  obtain y m d where st: "fy_start f = (y, m, d)" by (metis prod_cases3)
  let ?sps = "month_spans y m d (fy_end f)"
  let ?created = "map (period_of_span mk (act_company act) fy) (enumerate (db_ids s) ?sps)"
  from assms(2) have v: "valid_ymd (y, m, d)" "100 \<le> y" by (auto simp: good_date_def st)
  from month_spans_ok [OF assms(3) v] have ok: "list_all (span_ok (y, m, d) (fy_end f)) ?sps"
    "sorted_wrt span_before ?sps" by auto
  have mp: "monthly_periods (iso (fy_start f)) (iso (fy_end f)) = map ms_of ?sps"
    using assms(2,3) by (simp add: monthly_periods_def parse_iso_iso good_date_iso st ms_of_def)
  have "period_save_many ?created (db_periods s) = Inr (db_periods s @ ?created)"
  proof (rule period_save_many_new [where co = "act_company act" and fy = fy])
    show "distinct (map per_id ?created)"
      using assms(5) by (simp add: enumerate_ids distinct_map comp_def inj_on_def)
    show "per_id ` set ?created \<inter> per_id ` set (db_periods s) = {}"
      using assms(6) by (auto simp: in_set_enumerate_eq)
    show "\<forall>q \<in> set ?created. per_start q \<le> per_end q \<and> per_company q = act_company act \<and> per_fy q = fy"
      using ok(1) by (auto simp: list_all_iff span_ok_def iso_le_iff good_date_iso dest!: in_set_enumerate_nth)
    show "sorted_wrt (\<lambda>p q. per_name p \<noteq> per_name q \<and> per_end p < per_start q) ?created" by (rule generated_sorted [OF ok])
  qed (use none in \<open>auto simp: exists_any_for_fy_def list_ex_iff\<close>)
  with assms(1) none ok(1) have "generate_periods mk fy act s =
      (let created = ?created in
       Inr (created, s\<lparr>db_ids := db_ids s + length ?sps, db_periods := db_periods s @ created\<rparr>))"
    by (simp add: generate_periods_def fy_bounds_def mp create_periods_ok uow_run_def Let_def)
  moreover have "filter (in_span dt) ?sps \<noteq> [] \<longleftrightarrow> fy_start f \<le> dt \<and> dt \<le> fy_end f" if "valid_ymd dt" for dt
    using month_spans_tile [OF that v, of "fy_end f"] unfolding st
    by (metis length_0_conv zero_neq_one)
  ultimately show ?thesis using that ok(1) by (simp add: st)
qed

section \<open>The state machine of a year\<close>

text \<open>The steps of the module, and the invariant of its table.\<close>

inductive period_step :: "(nat \<Rightarrow> string) \<Rightarrow> 'a db_scheme \<Rightarrow> 'a db_scheme \<Rightarrow> bool" for mk where
  step_generate: "generate_periods mk fy act s = Inr (r, s') \<Longrightarrow> period_step mk s s'"
| step_close: "close_period i now act s = Inr (r, s') \<Longrightarrow> period_step mk s s'"
| step_close_fy: "close_fy fy now act s = Inr (r, s') \<Longrightarrow> period_step mk s s'"
| step_reopen: "reopen_period i act s = Inr (r, s') \<Longrightarrow> period_step mk s s'"

definition stamps_ok :: "period \<Rightarrow> bool" where
  "stamps_ok p \<longleftrightarrow> (per_closed_at p \<noteq> None \<longleftrightarrow> per_status p = CLOSED) \<and>
     (per_closed_by p \<noteq> None \<longleftrightarrow> per_status p = CLOSED)"

definition periods_ok :: "period list \<Rightarrow> bool" where
  "periods_ok ps \<longleftrightarrow> distinct (map per_id ps) \<and>
     (\<forall>p \<in> set ps. per_start p \<le> per_end p \<and> stamps_ok p) \<and>
     (\<forall>p \<in> set ps. \<forall>q \<in> set ps. per_id p \<noteq> per_id q \<longrightarrow> per_company p = per_company q \<longrightarrow>
        per_fy p = per_fy q \<longrightarrow> per_end p < per_start q \<or> per_end q < per_start p)"

definition ids_fresh :: "(nat \<Rightarrow> string) \<Rightarrow> nat \<Rightarrow> string set \<Rightarrow> bool" where
  "ids_fresh mk n used \<longleftrightarrow> (\<forall>m \<ge> n. mk m \<notin> used)"

definition fy_locked :: "string \<Rightarrow> string \<Rightarrow> period list \<Rightarrow> bool" where
  "fy_locked co fy ps \<longleftrightarrow> list_by_fy co fy ps \<noteq> [] \<and> list_all (\<lambda>p. \<not> period_is_open p) (list_by_fy co fy ps)"

lemma set_list_by_fy [simp]: "set (list_by_fy co fy ps) = {p \<in> set ps. per_company p = co \<and> per_fy p = fy}"
  by (simp add: list_by_fy_def)

lemma fy_locked_iff:
  "fy_locked co fy ps \<longleftrightarrow> (\<exists>p \<in> set ps. per_company p = co \<and> per_fy p = fy) \<and>
     (\<forall>p \<in> set ps. per_company p = co \<longrightarrow> per_fy p = fy \<longrightarrow> per_status p = CLOSED)"
  using set_list_by_fy [of co fy ps]
  by (auto simp: fy_locked_def list_all_iff period_is_open_def set_empty [symmetric] simp del: set_empty set_list_by_fy
      intro: period_status.exhaust)

lemma period_save_cases:
  assumes "period_save p ps = Inr ps'"
  obtains (insert) "per_id p \<notin> per_id ` set ps" "per_start p \<le> per_end p" "ps' = ps @ [p]"
    "\<And>q. q \<in> set ps \<Longrightarrow> per_company q = per_company p \<Longrightarrow> per_fy q = per_fy p \<Longrightarrow>
      per_end q < per_start p \<or> per_end p < per_start q"
  | (update) "per_id p \<in> per_id ` set ps"
    "ps' = update_where (\<lambda>q. per_id q = per_id p \<and> per_version q = per_version p)
      (\<lambda>q. q\<lparr>per_status := per_status p, per_closed_at := per_closed_at p,
               per_closed_by := per_closed_by p, per_version := per_version q + 1\<rparr>) ps"
proof (cases "per_id p \<in> per_id ` set ps")
  case True
  then have "list_ex (\<lambda>q. per_id q = per_id p) ps" by (auto simp: list_ex_iff image_iff)
  with assms True show ?thesis by (intro update) (auto simp: period_save_def Let_def split: if_splits)
next
  case False
  then have "\<not> list_ex (\<lambda>q. per_id q = per_id p) ps" by (auto simp: list_ex_iff image_iff)
  with assms False show ?thesis
    by (intro insert) (auto simp: period_save_def period_insert_def list_ex_iff not_le split: if_splits)
qed

lemma period_save_ids: "period_save p ps = Inr ps' \<Longrightarrow> per_id ` set ps' = insert (per_id p) (per_id ` set ps)"
proof (erule period_save_cases)
  let ?f = "\<lambda>q. q\<lparr>per_status := per_status p, per_closed_at := per_closed_at p,
               per_closed_by := per_closed_by p, per_version := per_version q + 1\<rparr>"
  assume "per_id p \<in> per_id ` set ps"
    and e: "ps' = update_where (\<lambda>q. per_id q = per_id p \<and> per_version q = per_version p) ?f ps"
  have "map per_id ps' = map per_id ps" unfolding e by (rule map_update_where) simp
  then have "per_id ` set ps' = per_id ` set ps" by (metis set_map)
  with \<open>per_id p \<in> per_id ` set ps\<close> show ?thesis by blast
qed auto

lemma periods_ok_save:
  assumes "periods_ok ps" and "stamps_ok p" and "period_save p ps = Inr ps'" shows "periods_ok ps'"
  using assms(3)
proof (cases rule: period_save_cases)
  case insert
  have "per_end q < per_start p \<or> per_end p < per_start q"
    if "q \<in> set ps" "per_company q = per_company p" "per_fy q = per_fy p" for q
    by (rule insert(4) [OF that])
  with insert(1-3) assms(1,2) show ?thesis unfolding periods_ok_def by (simp add: ball_Un) metis
next
  case update
  let ?P = "\<lambda>q. per_id q = per_id p \<and> per_version q = per_version p"
  let ?f = "\<lambda>q. q\<lparr>per_status := per_status p, per_closed_at := per_closed_at p,
               per_closed_by := per_closed_by p, per_version := per_version q + 1\<rparr>"
  have old: "\<exists>r \<in> set ps. per_id q = per_id r \<and> per_start q = per_start r \<and> per_end q = per_end r \<and>
      per_company q = per_company r \<and> per_fy q = per_fy r \<and> (stamps_ok r \<longrightarrow> stamps_ok q)" if "q \<in> set ps'" for q
    using that unfolding update(2) set_update_where
  proof (elim UnE)
    assume "q \<in> ?f ` {r \<in> set ps. ?P r}"
    then obtain r where "r \<in> set ps" "q = ?f r" by blast
    with assms(2) show ?thesis by (intro bexI [of _ r]) (simp_all add: stamps_ok_def)
  qed blast
  have "distinct (map per_id ps')" using assms(1) unfolding update(2) by (simp add: map_update_where periods_ok_def)
  moreover have "per_start q \<le> per_end q \<and> stamps_ok q" if "q \<in> set ps'" for q
    using old [OF that] assms(1) by (auto simp: periods_ok_def)
  moreover have "per_end q < per_start r \<or> per_end r < per_start q"
    if "q \<in> set ps'" "r \<in> set ps'" "per_id q \<noteq> per_id r" "per_company q = per_company r" "per_fy q = per_fy r" for q r
    using old [OF that(1)] old [OF that(2)] that(3-) assms(1) unfolding periods_ok_def by metis
  ultimately show ?thesis by (simp add: periods_ok_def)
qed

lemma periods_ok_save_many:
  assumes "periods_ok ps" and "\<forall>p \<in> set qs. stamps_ok p" and "period_save_many qs ps = Inr ps'"
  shows "periods_ok ps' \<and> per_id ` set ps' = per_id ` set qs \<union> per_id ` set ps"
  using assms
proof (induction qs arbitrary: ps)
  case (Cons q qs)
  then obtain x where x: "period_save q ps = Inr x" "period_save_many qs x = Inr ps'"
    by (auto elim!: rbindE)
  with Cons.IH [of x] Cons.prems periods_ok_save [OF _ _ x(1)] show ?case
    by (simp add: period_save_ids [OF x(1)])
qed simp

lemma period_close_Inr:
  "period_close u now p = Inr p' \<longleftrightarrow> per_status p = OPEN \<and>
     p' = p\<lparr>per_status := CLOSED, per_closed_at := Some now, per_closed_by := Some u\<rparr>"
  by (auto simp: period_close_def)

lemma period_reopen_Inr:
  "period_reopen p = Inr p' \<longleftrightarrow> per_status p = CLOSED \<and>
     p' = p\<lparr>per_status := OPEN, per_closed_at := None, per_closed_by := None\<rparr>"
  by (cases "per_status p") (auto simp: period_reopen_def)

lemma period_by_id_SomeD: "period_by_id i co ps = Some p \<Longrightarrow> p \<in> set ps \<and> per_id p = i \<and> per_company p = co"
  by (auto simp: period_by_id_def dest: find_SomeD)

text \<open>What each step does to the table.\<close>

lemma create_periods_Inr:
  assumes "create_periods mk co fy sps s = Inr (ps, s')"
  shows "s' = s\<lparr>db_ids := db_ids s + length ps\<rparr> \<and> map per_id ps = map mk [db_ids s..<db_ids s + length ps] \<and>
    (\<forall>p \<in> set ps. per_company p = co \<and> per_fy p = fy \<and> per_status p = OPEN \<and> stamps_ok p)"
  using assms
proof (induction sps arbitrary: s ps)
  case (Cons sp sps)
  then obtain sd ed qs where "create_periods mk co fy sps (s\<lparr>db_ids := Suc (db_ids s)\<rparr>) = Inr (qs, s')"
    "ps = period_create (mk (db_ids s)) co fy (ms_name sp) sd ed # qs"
    by (auto simp: ids_next_def elim!: rbindE)
  with Cons.IH [OF this(1)] show ?case
    by (auto simp: period_create_def stamps_ok_def upt_conv_Cons simp del: upt_Suc)
qed simp

lemma generate_periods_InrE:
  assumes "generate_periods mk fy act s = Inr (r, s')"
  obtains created ps where "\<not> exists_any_for_fy (act_company act) fy (db_periods s)"
    and "period_save_many created (db_periods s) = Inr ps"
    and "s' = s\<lparr>db_ids := db_ids s + length created, db_periods := ps\<rparr>"
    and "map per_id created = map mk [db_ids s..<db_ids s + length created]"
    and "\<forall>p \<in> set created. per_company p = act_company act \<and> per_fy p = fy \<and> per_status p = OPEN \<and> stamps_ok p"
  using assms unfolding generate_periods_def
  by (auto dest!: uow_run_InrD elim!: rbindE split: prod.splits dest: create_periods_Inr)

lemma close_period_InrE:
  assumes "close_period i now act s = Inr (r, s')"
  obtains p p' where "p \<in> set (db_periods s)" and "per_id p = i" and "per_company p = act_company act"
    and "period_close (act_user act) now p = Inr p'" and "period_save p' (db_periods s) = Inr (db_periods s')"
    and "db_ids s' = db_ids s"
  using assms unfolding close_period_def
  by (auto dest!: uow_run_InrD period_by_id_SomeD elim!: rbindE)

lemma reopen_period_InrE:
  assumes "reopen_period i act s = Inr (r, s')"
  obtains p p' where "p \<in> set (db_periods s)" and "per_id p = i" and "per_company p = act_company act"
    and "\<not> fy_locked (act_company act) (per_fy p) (db_periods s)"
    and "period_reopen p = Inr p'" and "period_save p' (db_periods s) = Inr (db_periods s')"
    and "db_ids s' = db_ids s"
  using assms unfolding reopen_period_def
  by (auto simp: fy_locked_def Let_def dest!: uow_run_InrD period_by_id_SomeD elim!: rbindE)

lemma fold_audit_periods [simp]:
  "db_periods (fold (\<lambda>p st. audit_record a b (f p) act st) ps s) = db_periods s"
  "db_ids (fold (\<lambda>p st. audit_record a b (f p) act st) ps s) = db_ids s"
  by (induction ps arbitrary: s) auto

lemma close_fy_InrE:
  assumes "close_fy fy now act s = Inr (r, s')"
  obtains cls where "list_by_fy (act_company act) fy (db_periods s) \<noteq> []"
    and "rmap (period_close (act_user act) now) (filter period_is_open (list_by_fy (act_company act) fy (db_periods s))) = Inr cls"
    and "period_save_many cls (db_periods s) = Inr (db_periods s')"
    and "db_ids s' = db_ids s"
  using assms unfolding close_fy_def
  by (auto simp: Let_def dest!: uow_run_InrD elim!: rbindE)

lemma closed_periods:
  assumes "rmap (period_close u now) ps = Inr cls"
  shows "\<forall>q \<in> set cls. per_status q = CLOSED \<and> stamps_ok q \<and> per_id q \<in> per_id ` set ps"
  using assms
  by (induction ps arbitrary: cls) (auto simp: period_close_Inr stamps_ok_def elim!: rbindE)

definition period_inv :: "(nat \<Rightarrow> string) \<Rightarrow> 'a db_scheme \<Rightarrow> bool" where
  "period_inv mk s \<longleftrightarrow> periods_ok (db_periods s) \<and> ids_fresh mk (db_ids s) (per_id ` set (db_periods s))"

lemma period_inv_save:
  assumes "period_inv mk s" and "p \<in> set (db_periods s)" and "per_id p' = per_id p" and "stamps_ok p'"
    and "period_save p' (db_periods s) = Inr (db_periods s')" and "db_ids s' = db_ids s"
  shows "period_inv mk s'"
proof -
  have "per_id ` set (db_periods s') = per_id ` set (db_periods s)"
    using period_save_ids [OF assms(5)] assms(2,3) by (metis imageI insert_absorb)
  with assms(1,6) periods_ok_save [OF _ assms(4,5)] show ?thesis by (simp add: period_inv_def)
qed

lemma period_step_inv:
  assumes "period_step mk s s'" and "inj mk" and "period_inv mk s" shows "period_inv mk s'"
  using assms
proof (cases rule: period_step.cases)
  case (step_generate fy act r)
  then show ?thesis
  proof (rule generate_periods_InrE)
    fix created ps
    assume sv: "period_save_many created (db_periods s) = Inr ps"
      and s': "s' = s\<lparr>db_ids := db_ids s + length created, db_periods := ps\<rparr>"
      and i: "map per_id created = map mk [db_ids s..<db_ids s + length created]"
      and ok: "\<forall>p \<in> set created. per_company p = act_company act \<and> per_fy p = fy \<and> per_status p = OPEN \<and> stamps_ok p"
    from i have "per_id ` set created = mk ` {db_ids s..<db_ids s + length created}" by (metis set_map set_upt)
    with periods_ok_save_many [OF _ _ sv] assms(2,3) ok show ?thesis
      by (auto simp: period_inv_def s' ids_fresh_def dest: injD)
  qed
next
  case (step_close i now act r)
  then show ?thesis
    by (rule close_period_InrE)
      (rule period_inv_save [OF assms(3)], auto simp: period_close_Inr stamps_ok_def)
next
  case (step_close_fy fy now act r)
  then show ?thesis
  proof (rule close_fy_InrE)
    fix cls
    let ?open = "filter period_is_open (list_by_fy (act_company act) fy (db_periods s))"
    assume r: "rmap (period_close (act_user act) now) ?open = Inr cls"
      and sv: "period_save_many cls (db_periods s) = Inr (db_periods s')" and i: "db_ids s' = db_ids s"
    from closed_periods [OF r] have "\<forall>p \<in> set cls. stamps_ok p" "per_id ` set cls \<subseteq> per_id ` set (db_periods s)"
      by auto
    with periods_ok_save_many [OF _ _ sv] assms(3)
    have "periods_ok (db_periods s')" "per_id ` set (db_periods s') = per_id ` set (db_periods s)"
      by (auto simp: period_inv_def)
    with assms(3) show ?thesis by (simp add: period_inv_def i)
  qed
next
  case (step_reopen i act r)
  then show ?thesis
    by (rule reopen_period_InrE)
      (rule period_inv_save [OF assms(3)], auto simp: period_reopen_Inr stamps_ok_def)
qed

text \<open>A locked year stays locked: every step leaves its periods CLOSED.\<close>

definition fy_ids :: "string \<Rightarrow> string \<Rightarrow> period list \<Rightarrow> string set" where
  "fy_ids co fy ps = per_id ` {p \<in> set ps. per_company p = co \<and> per_fy p = fy}"

lemma fy_ids_map:
  assumes "\<And>q. per_company (g q) = per_company q" and "\<And>q. per_fy (g q) = per_fy q" and "\<And>q. per_id (g q) = per_id q"
  shows "fy_ids co fy (map g ps) = fy_ids co fy ps"
proof -
  have alt: "fy_ids co fy qs = set (map per_id (filter (\<lambda>p. per_company p = co \<and> per_fy p = fy) qs))" for qs
    by (auto simp: fy_ids_def)
  have m: "map per_id (filter (\<lambda>p. per_company p = co \<and> per_fy p = fy) (map g ps)) =
      map per_id (filter (\<lambda>p. per_company p = co \<and> per_fy p = fy) ps)"
    by (induction ps) (simp_all add: assms)
  show ?thesis by (simp only: alt m)
qed

lemma fy_locked_save:
  assumes "fy_locked co fy ps" and "period_save p ps = Inr ps'"
    and "per_status p = CLOSED \<or> per_id p \<notin> fy_ids co fy ps \<and> (per_company p, per_fy p) \<noteq> (co, fy)"
  shows "fy_locked co fy ps'"
    and "(per_company p, per_fy p) \<noteq> (co, fy) \<Longrightarrow> fy_ids co fy ps' = fy_ids co fy ps"
  using assms(2)
proof (atomize (full), cases rule: period_save_cases)
  case insert
  with assms(1,3) show "fy_locked co fy ps' \<and>
      ((per_company p, per_fy p) \<noteq> (co, fy) \<longrightarrow> fy_ids co fy ps' = fy_ids co fy ps)"
    by (auto simp: fy_locked_iff fy_ids_def)
next
  case update
  let ?g = "\<lambda>q. if per_id q = per_id p \<and> per_version q = per_version p
      then q\<lparr>per_status := per_status p, per_closed_at := per_closed_at p,
               per_closed_by := per_closed_by p, per_version := per_version q + 1\<rparr> else q"
  have g: "per_company (?g q) = per_company q" "per_fy (?g q) = per_fy q" "per_id (?g q) = per_id q" for q by auto
  have ps': "ps' = map ?g ps" unfolding update(2) update_where_def by simp
  have cl: "per_status (?g q) = CLOSED" if "q \<in> set ps" "per_company q = co" "per_fy q = fy" for q
  proof -
    from that have "per_id q \<in> fy_ids co fy ps" by (auto simp: fy_ids_def)
    with that assms(1,3) show ?thesis by (auto simp: fy_locked_iff)
  qed
  have "fy_locked co fy ps'"
    using assms(1) cl unfolding ps' fy_locked_iff set_map ball_simps bex_simps g by blast
  moreover have "fy_ids co fy ps' = fy_ids co fy ps"
    unfolding ps' by (rule fy_ids_map) (rule g)+
  ultimately show "fy_locked co fy ps' \<and>
      ((per_company p, per_fy p) \<noteq> (co, fy) \<longrightarrow> fy_ids co fy ps' = fy_ids co fy ps)" by blast
qed

lemma fy_locked_save_many:
  assumes "fy_locked co fy ps" and "period_save_many qs ps = Inr ps'"
    and "(\<forall>p \<in> set qs. per_status p = CLOSED) \<or>
      (\<forall>p \<in> set qs. per_id p \<notin> fy_ids co fy ps \<and> (per_company p, per_fy p) \<noteq> (co, fy))"
  shows "fy_locked co fy ps'"
  using assms
proof (induction qs arbitrary: ps)
  case (Cons q qs)
  then obtain x where x: "period_save q ps = Inr x" "period_save_many qs x = Inr ps'" by (auto elim!: rbindE)
  from Cons.prems(3) have "fy_locked co fy x" by (intro fy_locked_save [OF Cons.prems(1) x(1)]) auto
  moreover from Cons.prems(3) have "(\<forall>p \<in> set qs. per_status p = CLOSED) \<or>
      (\<forall>p \<in> set qs. per_id p \<notin> fy_ids co fy x \<and> (per_company p, per_fy p) \<noteq> (co, fy))"
    using fy_locked_save(2) [OF Cons.prems(1) x(1)] by auto
  ultimately show ?case using x(2) Cons.IH by blast
qed simp

lemma fy_locked_step:
  assumes "period_step mk s s'" and "period_inv mk s" and "fy_locked co fy (db_periods s)"
  shows "fy_locked co fy (db_periods s')"
  using assms(1)
proof (cases rule: period_step.cases)
  case (step_generate fy' act r)
  then show ?thesis
  proof (rule generate_periods_InrE)
    fix created ps
    assume none: "\<not> exists_any_for_fy (act_company act) fy' (db_periods s)"
      and sv: "period_save_many created (db_periods s) = Inr ps"
      and s': "s' = s\<lparr>db_ids := db_ids s + length created, db_periods := ps\<rparr>"
      and i: "map per_id created = map mk [db_ids s..<db_ids s + length created]"
      and ok: "\<forall>p \<in> set created. per_company p = act_company act \<and> per_fy p = fy' \<and> per_status p = OPEN \<and> stamps_ok p"
    have other: "(act_company act, fy') \<noteq> (co, fy)"
      using none assms(3) by (auto simp: exists_any_for_fy_def list_ex_iff fy_locked_iff)
    have "per_id p \<notin> fy_ids co fy (db_periods s)" if "p \<in> set created" for p
    proof -
      from that i have "per_id p \<in> mk ` {db_ids s..<db_ids s + length created}" by (metis image_eqI set_map set_upt)
      then obtain n where "per_id p = mk n" "db_ids s \<le> n" by auto
      with assms(2) have "per_id p \<notin> per_id ` set (db_periods s)" by (simp add: period_inv_def ids_fresh_def)
      then show ?thesis by (auto simp: fy_ids_def)
    qed
    with other ok have "fy_locked co fy ps" by (intro fy_locked_save_many [OF assms(3) sv]) auto
    then show ?thesis by (simp add: s')
  qed
next
  case (step_close i now act r)
  then show ?thesis
    by (rule close_period_InrE) (auto simp: period_close_Inr intro: fy_locked_save(1) [OF assms(3)])
next
  case (step_close_fy fy' now act r)
  then show ?thesis
    by (rule close_fy_InrE) (auto dest!: closed_periods intro!: fy_locked_save_many [OF assms(3)])
next
  case (step_reopen i act r)
  then show ?thesis
  proof (rule reopen_period_InrE)
    fix p p'
    assume p: "p \<in> set (db_periods s)" "per_company p = act_company act"
      and nl: "\<not> fy_locked (act_company act) (per_fy p) (db_periods s)"
      and r: "period_reopen p = Inr p'" and sv: "period_save p' (db_periods s) = Inr (db_periods s')"
    have other: "(per_company p, per_fy p) \<noteq> (co, fy)" using nl assms(3) p by auto
    have "per_id p \<notin> fy_ids co fy (db_periods s)"
      using assms(2) p(1) other by (auto simp: period_inv_def periods_ok_def fy_ids_def dest: distinct_map_inj)
    with r other show ?thesis by (intro fy_locked_save(1) [OF assms(3) sv]) (auto simp: period_reopen_Inr)
  qed
qed

lemma fy_locked_assert_open:
  "fy_locked co fy (db_periods s) \<Longrightarrow>
     assert_open co fy d s = Inl (NoPeriodDefinedError co fy d) \<or> (\<exists>i. assert_open co fy d s = Inl (PeriodClosedError i d))"
  by (cases "find_owning co fy d (db_periods s)")
    (auto simp: assert_open_def period_is_open_def fy_locked_iff find_owning_def dest!: find_SomeD)

lemma inj_show_nat: "inj show_nat"
  by (rule injI) (metis parse_nat_show_nat)

definition sample_year :: financial_year where
  "sample_year = \<lparr>fy_id = ''FY'', fy_company = ''C'', fy_start = (2025, 7, 1), fy_end = (2026, 6, 30)\<rparr>"

definition sample_company :: db where
  "sample_company = \<lparr>db_fys = [sample_year], db_series = [], db_periods = [], db_entries = [], db_audit = [], db_ids = 0\<rparr>"

definition sample_actor :: actor where
  "sample_actor = \<lparr>act_user = ''U'', act_company = ''C'', act_fy = ''FY'',
     act_role = ''Admin'', act_unscoped = True, act_projects = [], act_limit = None\<rparr>"

section \<open>Properties\<close>

text \<open>
  C9.  Generating the periods of a year with sound bounds succeeds (it never trips a constraint of the
  table) and from then on the guard knows an open period for exactly the dates of the year: a
  date from the first to the last day is accepted, any other is refused as undefined.
\<close>
theorem generated_periods_cover_year:
  assumes "find_fy fy (act_company act) (db_fys s) = Some f"
    and "good_date (fy_start f)" and "good_date (fy_end f)"
    and "\<not> exists_any_for_fy (act_company act) fy (db_periods s)"
    and "inj mk" and "\<forall>n \<ge> db_ids s. mk n \<notin> per_id ` set (db_periods s)"
  shows "\<exists>created s'. generate_periods mk fy act s = Inr (created, s') \<and>
    (\<forall>dt. good_date dt \<longrightarrow> assert_open (act_company act) fy (iso dt) s' =
      (if fy_start f \<le> dt \<and> dt \<le> fy_end f then Inr ()
       else Inl (NoPeriodDefinedError (act_company act) fy (iso dt))))"
proof -
  from generate_periods_spec [OF assms] obtain sps where ok: "list_all (span_ok (fy_start f) (fy_end f)) sps"
    and tile: "\<And>dt. valid_ymd dt \<Longrightarrow> filter (in_span dt) sps \<noteq> [] \<longleftrightarrow> fy_start f \<le> dt \<and> dt \<le> fy_end f"
    and g: "generate_periods mk fy act s =
      (let created = map (period_of_span mk (act_company act) fy) (enumerate (db_ids s) sps) in
       Inr (created, s\<lparr>db_ids := db_ids s + length sps, db_periods := db_periods s @ created\<rparr>))"
    by blast
  let ?created = "map (period_of_span mk (act_company act) fy) (enumerate (db_ids s) sps)"
  let ?s = "s\<lparr>db_ids := db_ids s + length sps, db_periods := db_periods s @ ?created\<rparr>"
  have "assert_open (act_company act) fy (iso dt) ?s =
      (if fy_start f \<le> dt \<and> dt \<le> fy_end f then Inr () else Inl (NoPeriodDefinedError (act_company act) fy (iso dt)))"
    if "good_date dt" for dt
  proof -
    from that have "valid_ymd dt" by (simp add: good_date_def)
    from tile [OF this] find_period_of_span [OF ok that, of "act_company act" fy mk "db_ids s"]
    show ?thesis
      by (cases "filter (in_span dt) sps = []")
        (auto simp: assert_open_def find_owning_append_none [OF assms(4)] period_is_open_def)
  qed
  with g show ?thesis by (simp add: Let_def)
qed

theorem generated_periods_cover_year_witness:
  "\<exists>created s'. generate_periods show_nat ''FY'' sample_actor sample_company = Inr (created, s') \<and>
     assert_open ''C'' ''FY'' (iso (2026, 2, 28)) s' = Inr () \<and>
     assert_open ''C'' ''FY'' (iso (2026, 7, 1)) s' = Inl (NoPeriodDefinedError ''C'' ''FY'' (iso (2026, 7, 1)))"
proof -
  have d: "good_date (fy_start sample_year)" "good_date (fy_end sample_year)"
    "good_date (2026, 2, 28)" "good_date (2026, 7, 1)"
    by (simp_all add: good_date_def valid_ymd_def days_in_month_def sample_year_def)
  have c: "act_company sample_actor = ''C''" by (simp add: sample_actor_def)
  have f: "find_fy ''FY'' (act_company sample_actor) (db_fys sample_company) = Some sample_year"
    by (simp add: find_fy_def sample_company_def sample_year_def sample_actor_def)
  have n: "\<not> exists_any_for_fy (act_company sample_actor) ''FY'' (db_periods sample_company)"
    "\<forall>n \<ge> db_ids sample_company. show_nat n \<notin> per_id ` set (db_periods sample_company)"
    by (simp_all add: exists_any_for_fy_def sample_company_def)
  from generated_periods_cover_year [OF f d(1,2) n(1) inj_show_nat n(2), unfolded c] obtain created s'
    where g: "generate_periods show_nat ''FY'' sample_actor sample_company = Inr (created, s')"
    and a: "\<And>dt. good_date dt \<Longrightarrow> assert_open ''C'' ''FY'' (iso dt) s' =
      (if fy_start sample_year \<le> dt \<and> dt \<le> fy_end sample_year then Inr () else Inl (NoPeriodDefinedError ''C'' ''FY'' (iso dt)))"
    by blast
  from g a [OF d(3)] a [OF d(4)] show ?thesis
    by (intro exI [of _ created] exI [of _ s']) (simp add: sample_year_def)
qed

lemma period_reachable_inv:
  assumes "rtranclp (period_step mk) s0 s" and "inj mk" and "db_periods s0 = []"
  shows "period_inv mk s"
  using assms(1)
proof (induction rule: rtranclp_induct)
  case base
  show ?case by (simp add: period_inv_def periods_ok_def ids_fresh_def assms(3))
next
  case (step y z)
  show ?case by (rule period_step_inv [OF step(2) assms(2) step(3)])
qed

text \<open>
  C10.  In every state the period operations can reach, no two rows of the table share an identifier, whatever
  company or year they belong to; a date belongs to at most one period of a company's year, so the guard's verdict is
  unambiguous; and a period carries its two closing stamps exactly when it is CLOSED.
\<close>
theorem periods_stay_sound:
  assumes "rtranclp (period_step mk) s0 s" and "inj mk" and "db_periods s0 = []"
    and "p \<in> set (db_periods s)" and "q \<in> set (db_periods s)"
    and "per_company p = per_company q" and "per_fy p = per_fy q" and "period_owns p d" and "period_owns q d"
  shows "distinct (map per_id (db_periods s)) \<and> p = q \<and>
    (per_closed_at p \<noteq> None \<longleftrightarrow> \<not> period_is_open p) \<and> (per_closed_by p \<noteq> None \<longleftrightarrow> \<not> period_is_open p)"
proof -
  from period_reachable_inv [OF assms(1-3)] have ok: "periods_ok (db_periods s)" by (simp add: period_inv_def)
  have "per_id p = per_id q"
  proof (rule ccontr)
    assume "per_id p \<noteq> per_id q"
    with ok assms(4-7) have "per_end p < per_start q \<or> per_end q < per_start p" by (simp add: periods_ok_def)
    with assms(8,9) show False unfolding period_owns_def by (meson leD order.strict_trans1 order.trans)
  qed
  with ok assms(4,5) have "p = q" by (auto simp: periods_ok_def dest: distinct_map_inj)
  moreover from ok assms(4) have "stamps_ok p" "distinct (map per_id (db_periods s))" by (simp_all add: periods_ok_def)
  ultimately show ?thesis by (cases "per_status p") (auto simp: stamps_ok_def period_is_open_def)
qed

theorem periods_stay_sound_witness:
  "\<exists>s' p. period_step show_nat sample_company s' \<and> p \<in> set (db_periods s') \<and> period_owns p ''2025-07-15'' \<and>
     per_closed_at p = None"
proof -
  have d: "good_date (fy_start sample_year)" "good_date (fy_end sample_year)" "good_date (2025, 7, 15)"
    by (simp_all add: good_date_def valid_ymd_def days_in_month_def sample_year_def)
  have f: "find_fy ''FY'' (act_company sample_actor) (db_fys sample_company) = Some sample_year"
    by (simp add: find_fy_def sample_company_def sample_year_def sample_actor_def)
  have n: "\<not> exists_any_for_fy (act_company sample_actor) ''FY'' (db_periods sample_company)"
    "\<forall>n \<ge> db_ids sample_company. show_nat n \<notin> per_id ` set (db_periods sample_company)"
    by (simp_all add: exists_any_for_fy_def sample_company_def)
  have "\<exists>r s'. generate_periods show_nat ''FY'' sample_actor sample_company = Inr (r, s') \<and>
      (\<exists>p. find_owning (act_company sample_actor) ''FY'' (iso (2025, 7, 15)) (db_periods s') = Some p \<and> per_status p = OPEN)"
    (is "\<exists>r s'. ?G r s' \<and> ?F s'")
  proof (rule generate_periods_spec [OF f d(1,2) n(1) inj_show_nat n(2)])
    fix sps
    let ?created = "map (period_of_span show_nat (act_company sample_actor) ''FY'') (enumerate (db_ids sample_company) sps)"
    assume sps: "list_all (span_ok (fy_start sample_year) (fy_end sample_year)) sps"
      and t: "\<And>dt. valid_ymd dt \<Longrightarrow> filter (in_span dt) sps \<noteq> [] \<longleftrightarrow> fy_start sample_year \<le> dt \<and> dt \<le> fy_end sample_year"
      and g: "generate_periods show_nat ''FY'' sample_actor sample_company = (let created = ?created in Inr (created,
        sample_company\<lparr>db_ids := db_ids sample_company + length sps, db_periods := db_periods sample_company @ created\<rparr>))"
    have "filter (in_span (2025, 7, 15)) sps \<noteq> []"
      using t [of "(2025, 7, 15)"] d(3) by (simp add: good_date_def sample_year_def)
    with find_period_of_span(1) [OF sps d(3)] g show "\<exists>r s'. ?G r s' \<and> ?F s'"
      by (simp add: Let_def sample_company_def)
  qed
  then obtain r s' p where g: "generate_periods show_nat ''FY'' sample_actor sample_company = Inr (r, s')"
    and "find_owning (act_company sample_actor) ''FY'' (iso (2025, 7, 15)) (db_periods s') = Some p" "per_status p = OPEN"
    by blast
  then have p: "p \<in> set (db_periods s')" "period_owns p (iso (2025, 7, 15))" "period_is_open p"
    by (auto simp: find_owning_def period_owns_def period_is_open_def dest!: find_SomeD)
  have st: "period_step show_nat sample_company s'" using g by (rule step_generate)
  have e: "db_periods sample_company = []" by (simp add: sample_company_def)
  have i: "iso (2025, 7, 15) = ''2025-07-15''" by code_simp
  from periods_stay_sound [OF r_into_rtranclp [of "period_step show_nat", OF st] inj_show_nat e p(1) p(1) refl refl p(2) p(2)] p st i
  show ?thesis by auto
qed

end
