(* ===== verification/Posting.thy ===== *)
theory Posting
  imports Numbering Periods
begin

text \<open>
  The posting service (\<open>src/src/core/posting/application/posting.service.ts\<close>), the only writer of the
  ledger: \<open>post\<close>, \<open>reverse\<close> and \<open>repost\<close>, over the ports it calls and as the module wires them.
\<close>

section \<open>The ports\<close>

text \<open>
  The service is injected a period guard, a project guard, a reference check and a numbering service,
  each reading or changing the state of the running transaction.
\<close>

record 's ports =
  p_assert_open :: "string \<Rightarrow> string \<Rightarrow> string \<Rightarrow> 's \<Rightarrow> domain_error + unit"
  p_not_closed :: "string \<Rightarrow> string \<Rightarrow> 's \<Rightarrow> domain_error + unit"
  p_refs :: "posting_command \<Rightarrow> 's \<Rightarrow> domain_error + unit"
  p_next :: "voucher_type \<Rightarrow> string \<Rightarrow> string \<Rightarrow> 's \<Rightarrow> domain_error + (string \<times> 's)"

text \<open>
  \<open>posting.module.ts\<close> binds the real period and numbering services, and the two pass-through
  adapters of \<open>mas-seam.adapters.ts\<close> for the project status and the master lookup.
\<close>

definition allow_all_project_status :: "string \<Rightarrow> string \<Rightarrow> 's \<Rightarrow> domain_error + unit" where
  "allow_all_project_status co project s = Inr ()"

definition allow_all_master_lookup :: "posting_command \<Rightarrow> 's \<Rightarrow> domain_error + unit" where
  "allow_all_master_lookup cmd s = Inr ()"

definition erp_ports :: "(nat \<Rightarrow> string) \<Rightarrow> 'a db_scheme ports" where
  "erp_ports mk =
     \<lparr>p_assert_open = assert_open, p_not_closed = allow_all_project_status,
      p_refs = allow_all_master_lookup, p_next = numbering_next mk None\<rparr>"

section \<open>Operations\<close>

text \<open>\<open>[...new Set(ids.filter((p) => !!p))]\<close>: the distinct non-empty ids, in order of first occurrence.\<close>

definition project_ids :: "string option list \<Rightarrow> string list" where
  "project_ids ps = rev (remdups (rev (map the (filter truthy ps))))"

definition assert_projects ::
  "'s ports \<Rightarrow> string \<Rightarrow> string option list \<Rightarrow> 's \<Rightarrow> domain_error + unit" where
  "assert_projects P co projects s = riter (\<lambda>p. p_not_closed P co p s) (project_ids projects)"

definition post ::
  "dec_lib \<Rightarrow> (nat \<Rightarrow> string) \<Rightarrow> 'a db_scheme ports \<Rightarrow> posting_command \<Rightarrow> int \<Rightarrow> 'a db_scheme \<Rightarrow>
   domain_error + (journal_entry \<times> 'a db_scheme)" where
  "post D mk P cmd now s =
     rbind (p_assert_open P (pc_company cmd) (pc_fy cmd) (pc_voucher_date cmd) s) (\<lambda>_.
     rbind (assert_projects P (pc_company cmd) (map pl_project (pc_lines cmd)) s) (\<lambda>_.
     rbind (tag_assert cmd) (\<lambda>_.
     rbind (p_refs P cmd s) (\<lambda>_.
     rbind (assert_postable D (pc_lines cmd)) (\<lambda>_.
     rbind (p_next P (pc_voucher_type cmd) (pc_company cmd) (pc_fy cmd) s) (\<lambda>(entry_no, s1).
     case ids_next mk s1 of (new_id, s2) \<Rightarrow>
     rbind (entry_create D cmd entry_no new_id now) (\<lambda>entry.
     rbind (entry_save D entry s2) (\<lambda>s3.
     Inr (entry, s3)))))))))"

definition reverse ::
  "dec_lib \<Rightarrow> (nat \<Rightarrow> string) \<Rightarrow> 'a db_scheme ports \<Rightarrow> string \<Rightarrow> string \<Rightarrow> string \<Rightarrow> string \<Rightarrow> int \<Rightarrow>
   'a db_scheme \<Rightarrow> domain_error + (journal_entry \<times> 'a db_scheme)" where
  "reverse D mk P entry_id co reason reversed_by now s =
     rbind (fetch (NotFoundError entry_id) (entry_find entry_id co (db_entries s))) (\<lambda>original.
     rbind (require (\<not> je_is_reversal original) (CannotReverseReversalError entry_id)) (\<lambda>_.
     rbind (require (\<not> exists_reversal_of entry_id co (db_entries s)) (AlreadyReversedError entry_id)) (\<lambda>_.
     rbind (p_assert_open P (je_company original) (je_fy original) (je_voucher_date original) s) (\<lambda>_.
     rbind (assert_projects P co (map jl_project (je_lines original)) s) (\<lambda>_.
     rbind (p_next P (je_voucher_type original) (je_company original) (je_fy original) s) (\<lambda>(entry_no, s1).
     case ids_next mk s1 of (new_id, s2) \<Rightarrow>
     let reversal = entry_reverse original reason entry_no reversed_by new_id now in
     rbind (entry_save D reversal s2) (\<lambda>s3.
     Inr (reversal, s3))))))))"

definition repost ::
  "dec_lib \<Rightarrow> (nat \<Rightarrow> string) \<Rightarrow> 'a db_scheme ports \<Rightarrow> string \<Rightarrow> string \<Rightarrow> string \<Rightarrow> string \<Rightarrow>
   posting_command \<Rightarrow> int \<Rightarrow> 'a db_scheme \<Rightarrow>
   domain_error + ((journal_entry \<times> journal_entry) \<times> 'a db_scheme)" where
  "repost D mk P entry_id co reason reversed_by corrected now s =
     rbind (reverse D mk P entry_id co reason reversed_by now s) (\<lambda>(reversal, s1).
     rbind (post D mk P corrected now s1) (\<lambda>(reposted, s2).
     Inr ((reversal, reposted), s2)))"

section \<open>The sequence number of a voucher\<close>

definition seq_of :: "string \<Rightarrow> nat" where
  "seq_of no = parse_nat (rev (takeWhile (\<lambda>c. c \<noteq> CHR ''/'') (rev no)))"

lemma seq_of_format [simp]: "seq_of (format_voucher_number p l n w) = n"
proof -
  have "\<forall>c \<in> set (pad_start w (show_nat n)). c \<noteq> CHR ''/''"
    using pad_start_digits [of w n] by (auto simp: is_digit_def)
  then have "takeWhile (\<lambda>c. c \<noteq> CHR ''/'') (rev (pad_start w (show_nat n)) @ CHR ''/'' # xs) =
      rev (pad_start w (show_nat n))" for xs
    by (subst takeWhile_append2) auto
  then show ?thesis by (simp add: seq_of_def format_voucher_number_def)
qed

section \<open>The numbering contract\<close>

text \<open>
  What the posting service relies on: \<open>next\<close> moves the counter of its own series by one, no other
  counter, gives out the number that carries the new count, and touches neither the entries nor
  the periods.
\<close>

locale numbering_service =
  fixes next_no :: "voucher_type \<Rightarrow> string \<Rightarrow> string \<Rightarrow> 'a db_scheme \<Rightarrow> domain_error + (string \<times> 'a db_scheme)"
    and last_no :: "voucher_type \<Rightarrow> string \<Rightarrow> string \<Rightarrow> 'a db_scheme \<Rightarrow> nat"
    and inv :: "'a db_scheme \<Rightarrow> bool"
  assumes next_inv: "inv s \<Longrightarrow> next_no vt co fy s = Inr (no, s') \<Longrightarrow> inv s'"
    and next_last: "inv s \<Longrightarrow> next_no vt co fy s = Inr (no, s') \<Longrightarrow>
      last_no vt' co' fy' s' = (if (vt', co', fy') = (vt, co, fy) then Suc (last_no vt co fy s) else last_no vt' co' fy' s)"
    and next_seq: "inv s \<Longrightarrow> next_no vt co fy s = Inr (no, s') \<Longrightarrow> seq_of no = Suc (last_no vt co fy s)"
    and next_frame: "next_no vt co fy s = Inr (no, s') \<Longrightarrow>
      db_entries s' = db_entries s \<and> db_periods s' = db_periods s \<and> db_fys s' = db_fys s \<and> db_ids s \<le> db_ids s'"
begin

text \<open>A run of calls gives out the next numbers of each series, in order and without a gap.\<close>

fun run_next :: "(voucher_type \<times> string \<times> string) list \<Rightarrow> 'a db_scheme \<Rightarrow> domain_error + (string list \<times> 'a db_scheme)" where
  "run_next [] s = Inr ([], s)"
| "run_next ((vt, co, fy) # ks) s =
     rbind (next_no vt co fy s) (\<lambda>(no, s1). rbind (run_next ks s1) (\<lambda>(nos, s2). Inr (no # nos, s2)))"

lemma run_next_gapless:
  assumes "inv s" and "run_next ks s = Inr (nos, s')"
  shows "inv s' \<and> length nos = length ks \<and>
    map (seq_of \<circ> snd) (filter (\<lambda>x. fst x = (vt, co, fy)) (zip ks nos)) =
      [Suc (last_no vt co fy s)..<Suc (last_no vt co fy s')]  \<and> last_no vt co fy s \<le> last_no vt co fy s'"
  using assms
proof (induction ks arbitrary: s nos)
  case (Cons k ks)
  obtain vt1 co1 fy1 where k: "k = (vt1, co1, fy1)" by (metis prod_cases3)
  from Cons.prems k obtain no s1 rest where r: "next_no vt1 co1 fy1 s = Inr (no, s1)"
    "run_next ks s1 = Inr (rest, s')" "nos = no # rest"
    by (auto elim!: rbindE)
  from Cons.IH [OF next_inv [OF Cons.prems(1) r(1)] r(2)]
  show ?case
    using next_last [OF Cons.prems(1) r(1), of vt co fy] next_seq [OF Cons.prems(1) r(1)]
    by (auto simp: r(3) k upt_conv_Cons simp del: upt_Suc split: if_splits)
qed simp

end

definition series_inv :: "(nat \<Rightarrow> string) \<Rightarrow> 'a db_scheme \<Rightarrow> bool" where
  "series_inv mk s \<longleftrightarrow> inj mk \<and> series_wf (db_series s) \<and> ids_fresh mk (db_ids s) (s_id ` set (db_series s))"

lemma series_inv_fresh: "series_inv mk s \<Longrightarrow> mk (db_ids s) \<notin> s_id ` set (db_series s)"
  by (simp add: series_inv_def ids_fresh_def)

lemma ids_fresh_mono: "ids_fresh mk n A \<Longrightarrow> n \<le> m \<Longrightarrow> B \<subseteq> A \<Longrightarrow> ids_fresh mk m B"
  by (auto simp: ids_fresh_def)

lemma ids_fresh_insert: "inj mk \<Longrightarrow> ids_fresh mk n A \<Longrightarrow> n < m \<Longrightarrow> ids_fresh mk m (insert (mk n) A)"
  by (auto simp: ids_fresh_def dest: injD)

lemma numbering_next_frame:
  assumes "numbering_next mk race vt co fy s = Inr (no, s')"
  shows "db_entries s' = db_entries s \<and> db_periods s' = db_periods s \<and> db_fys s' = db_fys s \<and> db_ids s \<le> db_ids s'"
  using assms
  by (auto simp: numbering_next_def obtain_series_def ids_next_def Let_def elim!: rbindE split: option.splits)

lemma obtain_series_ids:
  assumes "obtain_series mk None vt co fy s = Inr (r, s2)"
  shows "s2 = s \<or> db_ids s2 = Suc (db_ids s) \<and>
    s_id ` set (db_series s2) \<subseteq> insert (mk (db_ids s)) (s_id ` set (db_series s))"
  using assms
  by (auto simp: obtain_series_def provision_def series_insert_def ids_next_def Let_def elim!: rbindE
      split: option.splits if_splits)

lemma numbering_next_inv:
  assumes "series_inv mk s" and "numbering_next mk None vt co fy s = Inr (no, s')"
  shows "series_inv mk s'"
proof -
  from assms(2) obtain r s2 where o: "obtain_series mk None vt co fy s = Inr (r, s2)"
    and s': "db_series s' = update_where (\<lambda>x. s_id x = s_id r) (\<lambda>x. x\<lparr>s_last := s_last r + 1\<rparr>) (db_series s2)"
      "db_ids s' = db_ids s2"
    by (auto simp: numbering_next_def Let_def elim!: rbindE)
  have "map s_id (db_series s') = map s_id (db_series s2)" unfolding s' by (rule map_update_where) simp
  then have ids: "s_id ` set (db_series s') = s_id ` set (db_series s2)" by (metis set_map)
  have "ids_fresh mk (db_ids s2) (s_id ` set (db_series s2))"
    using obtain_series_ids [OF o] assms(1)
    by (auto simp: series_inv_def intro: ids_fresh_mono [OF ids_fresh_insert])
  with assms numbering_next_last(2) [where mk = mk, OF _ series_inv_fresh [OF assms(1)] assms(2)] ids s'(2)
  show ?thesis by (simp add: series_inv_def)
qed

lemma numbering_next_seq:
  assumes "series_inv mk s" and "numbering_next mk None vt co fy s = Inr (no, s')"
  shows "seq_of no = Suc (last_sequence vt co fy (db_series s))"
proof -
  from assms(1) have wf: "series_wf (db_series s)" by (simp add: series_inv_def)
  from numbering_next_spec [where mk = mk, OF wf race_ok_None series_inv_fresh [OF assms(1)] assms(2)]
  obtain r s2 where r: "lock_series vt co fy (db_series s2) = Some r"
    and s2: "s2 = s \<or> lock_series vt co fy (db_series s) = None \<and> s_last r = 0"
    and no: "\<exists>p l w. no = format_voucher_number p l (s_last r + 1) w"
    by (metis option.distinct(1))
  from r s2 have "s_last r = last_sequence vt co fy (db_series s)" by (auto simp: last_sequence_def)
  with no show ?thesis by auto
qed

text \<open>The numbering module provides the contract.\<close>

interpretation num: numbering_service "numbering_next mk None"
  "\<lambda>vt co fy s. last_sequence vt co fy (db_series s)" "series_inv mk" for mk
proof
  fix s s' :: "'a db_scheme" and vt co fy no vt' co' fy'
  assume i: "series_inv mk s" and n: "numbering_next mk None vt co fy s = Inr (no, s')"
  show "series_inv mk s'" by (rule numbering_next_inv [OF i n])
  show "seq_of no = Suc (last_sequence vt co fy (db_series s))" by (rule numbering_next_seq [OF i n])
  from i have "series_wf (db_series s)" by (simp add: series_inv_def)
  from numbering_next_last(1) [where mk = mk, OF this series_inv_fresh [OF i] n]
  show "last_sequence vt' co' fy' (db_series s') =
      (if (vt', co', fy') = (vt, co, fy) then Suc (last_sequence vt co fy (db_series s))
       else last_sequence vt' co' fy' (db_series s))" .
qed (rule numbering_next_frame)

section \<open>What a successful call did\<close>

definition stored_entry :: "dec_lib \<Rightarrow> journal_entry \<Rightarrow> journal_entry" where
  "stored_entry D e = e\<lparr>je_lines := map (stored_line D) (je_lines e)\<rparr>"

lemma stored_entry_simps [simp]:
  "je_id (stored_entry D e) = je_id e" "je_company (stored_entry D e) = je_company e"
  "je_fy (stored_entry D e) = je_fy e" "je_no (stored_entry D e) = je_no e"
  "je_voucher_type (stored_entry D e) = je_voucher_type e"
  "je_voucher_date (stored_entry D e) = je_voucher_date e"
  "je_source_type (stored_entry D e) = je_source_type e" "je_source_id (stored_entry D e) = je_source_id e"
  "je_is_reversal (stored_entry D e) = je_is_reversal e"
  "je_reversal_of (stored_entry D e) = je_reversal_of e"
  "je_lines (stored_entry D e) = map (stored_line D) (je_lines e)"
  by (simp_all add: stored_entry_def)

text \<open>Appending the entry \<open>e\<close> to the tables after its number and its id were drawn.\<close>

definition appended :: "dec_lib \<Rightarrow> journal_entry \<Rightarrow> 'a db_scheme \<Rightarrow> 'a db_scheme" where
  "appended D e s1 = s1\<lparr>db_ids := Suc (db_ids s1), db_entries := db_entries s1 @ [stored_entry D e]\<rparr>"

lemma appended_simps [simp]:
  "db_entries (appended D e s) = db_entries s @ [stored_entry D e]"
  "db_series (appended D e s) = db_series s" "db_periods (appended D e s) = db_periods s"
  "db_fys (appended D e s) = db_fys s" "db_ids (appended D e s) = Suc (db_ids s)"
  "db_audit (appended D e s) = db_audit s" "db.more (appended D e s) = db.more s"
  by (simp_all add: appended_def)

lemma entry_save_appended:
  assumes "entry_save D e (s1\<lparr>db_ids := Suc (db_ids s1)\<rparr>) = Inr s'"
  shows "s' = appended D e s1 \<and> je_id e \<notin> je_id ` set (db_entries s1) \<and>
    (\<forall>l \<in> set (je_lines e). jl_ok (stored_line D l))"
  using entry_save_InrD [OF assms] by (simp add: appended_def stored_entry_def)

lemma entry_create_InrD:
  "entry_create D cmd no i now = Inr e \<Longrightarrow>
     je_id e = i \<and> je_no e = no \<and> je_voucher_type e = pc_voucher_type cmd \<and> je_company e = pc_company cmd \<and>
     je_fy e = pc_fy cmd \<and> je_voucher_date e = pc_voucher_date cmd \<and> je_source_type e = pc_source_type cmd \<and>
     je_source_id e = pc_source_id cmd \<and> \<not> je_is_reversal e \<and> je_reversal_of e = None \<and>
     2 \<le> length (je_lines e) \<and> je_lines e = lines_of (pc_lines cmd) \<and> (\<forall>l \<in> set (pc_lines cmd). pl_ok l)"
  by (auto simp: entry_create_def assert_min_lines_def lines_create_Inr elim!: rbindE)

lemma post_InrE:
  assumes "post D mk P cmd now s = Inr (e, s')"
  obtains s1 where "p_assert_open P (pc_company cmd) (pc_fy cmd) (pc_voucher_date cmd) s = Inr ()"
    and "assert_projects P (pc_company cmd) (map pl_project (pc_lines cmd)) s = Inr ()"
    and "tag_assert cmd = Inr ()" and "p_refs P cmd s = Inr ()" and "assert_postable D (pc_lines cmd) = Inr ()"
    and "p_next P (pc_voucher_type cmd) (pc_company cmd) (pc_fy cmd) s = Inr (je_no e, s1)"
    and "entry_create D cmd (je_no e) (mk (db_ids s1)) now = Inr e"
    and "s' = appended D e s1" and "je_id e \<notin> je_id ` set (db_entries s1)"
    and "\<forall>l \<in> set (je_lines e). jl_ok (stored_line D l)"
proof -
  from assms obtain s1 no where g: "p_assert_open P (pc_company cmd) (pc_fy cmd) (pc_voucher_date cmd) s = Inr ()"
    "assert_projects P (pc_company cmd) (map pl_project (pc_lines cmd)) s = Inr ()"
    "tag_assert cmd = Inr ()" "p_refs P cmd s = Inr ()" "assert_postable D (pc_lines cmd) = Inr ()"
    "p_next P (pc_voucher_type cmd) (pc_company cmd) (pc_fy cmd) s = Inr (no, s1)"
    and c: "entry_create D cmd no (mk (db_ids s1)) now = Inr e"
    and sv: "entry_save D e (s1\<lparr>db_ids := Suc (db_ids s1)\<rparr>) = Inr s'"
    by (auto simp: post_def ids_next_def elim!: rbindE)
  from c have "je_no e = no" by (auto dest!: entry_create_InrD)
  with g c entry_save_appended [OF sv] show ?thesis by (intro that) auto
qed

lemma reverse_InrE:
  assumes "reverse D mk P i co reason by' now s = Inr (e, s')"
  obtains s1 original where "original \<in> set (db_entries s)" and "je_id original = i" and "je_company original = co"
    and "\<not> je_is_reversal original" and "\<not> exists_reversal_of i co (db_entries s)"
    and "p_assert_open P (je_company original) (je_fy original) (je_voucher_date original) s = Inr ()"
    and "assert_projects P co (map jl_project (je_lines original)) s = Inr ()"
    and "p_next P (je_voucher_type original) (je_company original) (je_fy original) s = Inr (je_no e, s1)"
    and "e = entry_reverse original reason (je_no e) by' (mk (db_ids s1)) now"
    and "s' = appended D e s1" and "je_id e \<notin> je_id ` set (db_entries s1)"
    and "\<forall>l \<in> set (je_lines e). jl_ok (stored_line D l)"
  using assms
  by (auto simp: reverse_def ids_next_def Let_def elim!: rbindE dest!: entry_find_SomeD entry_save_appended
      intro: that)

section \<open>The ledger invariant\<close>

text \<open>
  What holds of every row of the ledger inside a transaction; that the two sides are equal as well
  is re-checked by the trigger when the transaction commits.
\<close>

definition row_ok :: "journal_entry \<Rightarrow> bool" where
  "row_ok e \<longleftrightarrow> 2 \<le> length (je_lines e) \<and> map jl_no (je_lines e) = [1..<Suc (length (je_lines e))] \<and>
     (\<forall>l \<in> set (je_lines e). jl_ok l \<and> on_grid 4 (jl_debit l) \<and> on_grid 4 (jl_credit l))"

definition entry_series :: "voucher_type \<Rightarrow> string \<Rightarrow> string \<Rightarrow> journal_entry list \<Rightarrow> journal_entry list" where
  "entry_series vt co fy es = filter (\<lambda>e. je_voucher_type e = vt \<and> je_company e = co \<and> je_fy e = fy) es"

text \<open>\<open>r\<close> is the reversal of \<open>o'\<close>: the same voucher with the two sides of every line swapped.\<close>

definition reverses :: "journal_entry \<Rightarrow> journal_entry \<Rightarrow> bool" where
  "reverses r o' \<longleftrightarrow> je_reversal_of r = Some (je_id o') \<and> \<not> je_is_reversal o' \<and>
     je_company r = je_company o' \<and> je_fy r = je_fy o' \<and> je_voucher_type r = je_voucher_type o' \<and>
     je_voucher_date r = je_voucher_date o' \<and>
     je_lines r = map (\<lambda>(n, l). swapped l n) (enumerate 1 (je_lines o'))"

definition reversals_ok :: "journal_entry list \<Rightarrow> bool" where
  "reversals_ok es \<longleftrightarrow>
     (\<forall>e \<in> set es. if je_is_reversal e then \<exists>o' \<in> set es. reverses e o' else je_reversal_of e = None) \<and>
     (\<forall>e \<in> set es. \<forall>e' \<in> set es. je_is_reversal e \<longrightarrow> je_reversal_of e = je_reversal_of e' \<longrightarrow> e = e')"

definition ledger_core ::
  "(nat \<Rightarrow> string) \<Rightarrow> (voucher_type \<Rightarrow> string \<Rightarrow> string \<Rightarrow> 'a db_scheme \<Rightarrow> nat) \<Rightarrow> 'a db_scheme \<Rightarrow> bool" where
  "ledger_core mk last_no s \<longleftrightarrow>
     distinct (map je_id (db_entries s)) \<and> ids_fresh mk (db_ids s) (je_id ` set (db_entries s)) \<and>
     (\<forall>e \<in> set (db_entries s). row_ok e) \<and> reversals_ok (db_entries s) \<and>
     (\<forall>vt co fy. map (seq_of \<circ> je_no) (entry_series vt co fy (db_entries s)) = [1..<Suc (last_no vt co fy s)])"

definition ledger_balanced :: "journal_entry list \<Rightarrow> bool" where
  "ledger_balanced es \<longleftrightarrow> (\<forall>e \<in> set es. balance_check e = Inr ())"

lemma entry_series_append [simp]:
  "entry_series vt co fy (es @ [e]) = entry_series vt co fy es @
     (if je_voucher_type e = vt \<and> je_company e = co \<and> je_fy e = fy then [e] else [])"
  by (simp add: entry_series_def)

lemma reversals_ok_append:
  assumes "reversals_ok es" and "je_id e \<notin> je_id ` set es"
    and "if je_is_reversal e then (\<exists>o' \<in> set es. reverses e o') \<and> (\<forall>r \<in> set es. je_reversal_of r \<noteq> je_reversal_of e)
         else je_reversal_of e = None"
  shows "reversals_ok (es @ [e])"
proof -
  have some: "je_reversal_of x \<noteq> None" if "x \<in> set es" "je_is_reversal x" for x
    using assms(1) that by (fastforce simp: reversals_ok_def reverses_def)
  have "\<forall>x \<in> set (es @ [e]). if je_is_reversal x then \<exists>o' \<in> set (es @ [e]). reverses x o' else je_reversal_of x = None"
    using assms(1,3) by (auto simp: reversals_ok_def split: if_splits)
  moreover have "x = y" if "x \<in> set (es @ [e])" "y \<in> set (es @ [e])" "je_is_reversal x"
    "je_reversal_of x = je_reversal_of y" for x y
  proof (cases "x \<in> set es"; cases "y \<in> set es")
    assume "x \<in> set es" "y \<in> set es"
    with that assms(1) show ?thesis unfolding reversals_ok_def by blast
  next
    assume "x \<in> set es" "y \<notin> set es"
    with that some [of x] assms(3) show ?thesis by (auto split: if_splits)
  next
    assume "x \<notin> set es" "y \<in> set es"
    with that assms(3) show ?thesis by (auto split: if_splits)
  next
    assume "x \<notin> set es" "y \<notin> set es"
    with that show ?thesis by simp
  qed
  ultimately show ?thesis unfolding reversals_ok_def by blast
qed

context decimal_js begin

lemma stored_swapped: "stored_line D (swapped l n) = swapped (stored_line D l) n"
  by (simp add: stored_line_def swapped_def)

lemma stored_lines_row_ok: "row_ok e \<Longrightarrow> map (stored_line D) (je_lines e) = je_lines e"
  by (auto simp: row_ok_def stored_line_id intro!: map_idI)

lemma row_ok_stored:
  assumes "2 \<le> length (je_lines e)" and "map jl_no (je_lines e) = [1..<Suc (length (je_lines e))]"
    and "\<forall>l \<in> set (je_lines e). jl_ok (stored_line D l)"
  shows "row_ok (stored_entry D e)"
proof -
  have "map jl_no (map (stored_line D) (je_lines e)) = map jl_no (je_lines e)"
    by (simp add: stored_line_def)
  with assms show ?thesis by (auto simp: row_ok_def stored_line_def simp del: map_map upt_Suc)
qed

lemma entry_reverse_row_ok:
  assumes "row_ok e" shows "row_ok (stored_entry D (entry_reverse e r no by' i now))"
    and "reverses (stored_entry D (entry_reverse e r no by' i now)) e \<longleftrightarrow> \<not> je_is_reversal e"
proof -
  have lines: "map (stored_line D) (je_lines (entry_reverse e r no by' i now)) = je_lines (entry_reverse e r no by' i now)"
    unfolding entry_reverse_lines using assms
    by (auto simp: row_ok_def stored_swapped stored_line_id in_set_enumerate_eq intro!: map_idI)
  have "map jl_no (je_lines (entry_reverse e r no by' i now)) = [1..<Suc (length (je_lines e))]"
    unfolding entry_reverse_lines
    using map_enumerate_fst [of jl_no "\<lambda>i l. swapped l i" 1 "je_lines e"] by simp
  moreover have "length (je_lines (entry_reverse e r no by' i now)) = length (je_lines e)"
    by (simp add: entry_reverse_lines)
  moreover have "\<forall>l \<in> set (je_lines (entry_reverse e r no by' i now)).
      jl_ok l \<and> on_grid 4 (jl_debit l) \<and> on_grid 4 (jl_credit l)"
    using assms by (auto simp: row_ok_def entry_reverse_lines jl_ok_def dest!: in_set_enumerate_nth)
  ultimately show "row_ok (stored_entry D (entry_reverse e r no by' i now))"
    using assms unfolding row_ok_def stored_entry_simps lines by simp
  show "reverses (stored_entry D (entry_reverse e r no by' i now)) e \<longleftrightarrow> \<not> je_is_reversal e"
    unfolding reverses_def stored_entry_simps lines by (simp add: entry_reverse_lines)
qed

end

section \<open>The posting service over any sound ports\<close>

locale posting_service = numbering_service "p_next P" last_no inv + decimal_js D
  for P :: "'a db_scheme ports" and last_no and inv and D +
  fixes mk :: "nat \<Rightarrow> string"
  assumes mk_inj: "inv s \<Longrightarrow> inj mk"
    and inv_appended: "inv s \<Longrightarrow> inv (appended D e s)"
    and last_appended: "last_no vt co fy (appended D e s) = last_no vt co fy s"
begin

lemma core_append:
  assumes "inv s" and "ledger_core mk last_no s" and "p_next P vt co fy s = Inr (je_no e, s1)"
    and "je_id e = mk (db_ids s1)" and "je_voucher_type e = vt" and "je_company e = co" and "je_fy e = fy"
    and "row_ok (stored_entry D e)"
    and "if je_is_reversal e then (\<exists>o' \<in> set (db_entries s). reverses (stored_entry D e) o') \<and>
           (\<forall>r \<in> set (db_entries s). je_reversal_of r \<noteq> je_reversal_of e)
         else je_reversal_of e = None"
  shows "ledger_core mk last_no (appended D e s1) \<and> inv (appended D e s1)"
proof -
  from next_frame [OF assms(3)] have fr: "db_entries s1 = db_entries s" "db_ids s \<le> db_ids s1" by auto
  from assms(2) fr(2) have new: "je_id e \<notin> je_id ` set (db_entries s)"
    by (auto simp: ledger_core_def ids_fresh_def assms(4))
  have "ids_fresh mk (Suc (db_ids s1)) (insert (je_id e) (je_id ` set (db_entries s)))"
    using assms(2) fr(2) mk_inj [OF assms(1)]
    by (auto simp: ledger_core_def assms(4) intro: ids_fresh_insert ids_fresh_mono)
  moreover have "reversals_ok (db_entries s @ [stored_entry D e])"
    using assms(2,9) new by (intro reversals_ok_append) (auto simp: ledger_core_def)
  moreover have "map (seq_of \<circ> je_no) (entry_series vt' co' fy' (db_entries s @ [stored_entry D e])) =
      [1..<Suc (last_no vt' co' fy' s1)]" for vt' co' fy'
    using assms(2) next_last [OF assms(1,3), of vt' co' fy'] next_seq [OF assms(1,3)]
    by (auto simp: ledger_core_def assms(5-7))
  ultimately show ?thesis
    using assms(2,8) new next_inv [OF assms(1,3)]
    by (auto simp: ledger_core_def fr last_appended intro: inv_appended)
qed

lemma post_core:
  assumes "inv s" and "ledger_core mk last_no s" and "post D mk P cmd now s = Inr (e, s')"
  shows "ledger_core mk last_no s' \<and> inv s' \<and> (\<exists>e'. db_entries s' = db_entries s @ [e'])"
  using assms(3)
proof (rule post_InrE)
  fix s1
  assume n: "p_next P (pc_voucher_type cmd) (pc_company cmd) (pc_fy cmd) s = Inr (je_no e, s1)"
    and c: "entry_create D cmd (je_no e) (mk (db_ids s1)) now = Inr e" and s': "s' = appended D e s1"
    and ok: "\<forall>l \<in> set (je_lines e). jl_ok (stored_line D l)"
  from c have f: "je_id e = mk (db_ids s1)" "je_voucher_type e = pc_voucher_type cmd" "je_company e = pc_company cmd"
    "je_fy e = pc_fy cmd" "\<not> je_is_reversal e" "je_reversal_of e = None"
    "2 \<le> length (je_lines e)" "je_lines e = lines_of (pc_lines cmd)"
    by (auto dest!: entry_create_InrD)
  have "map jl_no (je_lines e) = [1..<Suc (length (je_lines e))]"
    unfolding f(8) lines_of_numbers by simp
  with f have "row_ok (stored_entry D e)" by (intro row_ok_stored ok) auto
  with f show ?thesis
    using core_append [OF assms(1,2) n f(1)] next_frame [OF n] by (simp add: s')
qed

lemma reverse_core:
  assumes "inv s" and "ledger_core mk last_no s" and "reverse D mk P i co reason by' now s = Inr (e, s')"
  shows "ledger_core mk last_no s' \<and> inv s' \<and> (\<exists>e'. db_entries s' = db_entries s @ [e'])"
  using assms(3)
proof (rule reverse_InrE)
  fix s1 orig
  assume o: "orig \<in> set (db_entries s)" "je_id orig = i" "je_company orig = co" "\<not> je_is_reversal orig"
    "\<not> exists_reversal_of i co (db_entries s)"
    and n: "p_next P (je_voucher_type orig) (je_company orig) (je_fy orig) s = Inr (je_no e, s1)"
    and e: "e = entry_reverse orig reason (je_no e) by' (mk (db_ids s1)) now"
    and s': "s' = appended D e s1" and ok: "\<forall>l \<in> set (je_lines e). jl_ok (stored_line D l)"
  from assms(2) o(1) have r: "row_ok orig" by (simp add: ledger_core_def)
  from entry_reverse_row_ok [OF r] o(4) have rv: "row_ok (stored_entry D e)" "reverses (stored_entry D e) orig"
    by (subst e; simp)+
  have f: "je_id e = mk (db_ids s1)" "je_voucher_type e = je_voucher_type orig" "je_company e = je_company orig"
    "je_fy e = je_fy orig" "je_is_reversal e" "je_reversal_of e = Some i"
    by (subst e; simp add: o(2))+
  have "\<forall>x \<in> set (db_entries s). je_reversal_of x \<noteq> Some i"
  proof
    fix x assume x: "x \<in> set (db_entries s)"
    show "je_reversal_of x \<noteq> Some i"
    proof
      assume xi: "je_reversal_of x = Some i"
      with assms(2) x obtain o' where o': "o' \<in> set (db_entries s)" "reverses x o'"
        unfolding ledger_core_def reversals_ok_def by (metis option.distinct(1))
      with xi have "je_id o' = i" "je_company x = je_company o'" by (auto simp: reverses_def)
      moreover from this o' o(1,2) assms(2) have "o' = orig"
        by (auto simp: ledger_core_def dest: distinct_map_inj)
      ultimately show False using o(3,5) x xi by (auto simp: exists_reversal_of_iff)
    qed
  qed
  with o(1) rv f show ?thesis
    using core_append [OF assms(1,2) n f(1-4)] next_frame [OF n] by (auto simp: s')
qed

lemma repost_core:
  assumes "inv s" and "ledger_core mk last_no s" and "repost D mk P i co reason by' cmd now s = Inr (x, s')"
  shows "ledger_core mk last_no s' \<and> inv s' \<and> (\<exists>r e. db_entries s' = db_entries s @ [r, e])"
proof -
  from assms(3) obtain r e s1 where r: "reverse D mk P i co reason by' now s = Inr (r, s1)"
    and p: "post D mk P cmd now s1 = Inr (e, s')"
    by (auto simp: repost_def elim!: rbindE)
  from reverse_core [OF assms(1,2) r] obtain r' where "ledger_core mk last_no s1" "inv s1"
    "db_entries s1 = db_entries s @ [r']" by blast
  with post_core [OF _ _ p] show ?thesis by auto
qed

end

section \<open>The service as wired\<close>

lemma erp_ports_simps [simp]:
  "p_assert_open (erp_ports mk) = assert_open" "p_next (erp_ports mk) = numbering_next mk None"
  "p_not_closed (erp_ports mk) co i s = Inr ()" "p_refs (erp_ports mk) cmd s = Inr ()"
  by (simp_all add: erp_ports_def allow_all_project_status_def allow_all_master_lookup_def)

abbreviation last_seq :: "voucher_type \<Rightarrow> string \<Rightarrow> string \<Rightarrow> 'a db_scheme \<Rightarrow> nat" where
  "last_seq vt co fy s \<equiv> last_sequence vt co fy (db_series s)"

lemma erp_posting_service:
  assumes "decimal_js D"
  shows "posting_service (erp_ports mk) last_seq (series_inv mk :: 'a db_scheme \<Rightarrow> bool) D mk"
proof (intro posting_service.intro numbering_service.intro posting_service_axioms.intro assms)
  fix s s' :: "'a db_scheme" and vt co fy no vt' co' fy'
  assume i: "series_inv mk s" and n: "p_next (erp_ports mk) vt co fy s = Inr (no, s')"
  from n have n': "numbering_next mk None vt co fy s = Inr (no, s')" by simp
  show "series_inv mk s'" by (rule num.next_inv [OF i n'])
  show "seq_of no = Suc (last_seq vt co fy s)" by (rule num.next_seq [OF i n'])
  show "last_seq vt' co' fy' s' = (if (vt', co', fy') = (vt, co, fy) then Suc (last_seq vt co fy s) else last_seq vt' co' fy' s)"
    by (rule num.next_last [OF i n'])
qed (auto simp: series_inv_def appended_def dest: numbering_next_frame intro: ids_fresh_mono)

interpretation erp20: posting_service "erp_ports mk" last_seq "series_inv mk" dec20 mk for mk
  by (rule erp_posting_service [OF decimal_js_dec20])

section \<open>Steps of the ledger\<close>

text \<open>
  The committed steps of the kernel: a post, a reversal or a repost in a transaction of its own, the
  use cases of the periods and of the numbering series.
\<close>

inductive erp_step :: "dec_lib \<Rightarrow> (nat \<Rightarrow> string) \<Rightarrow> 'a db_scheme \<Rightarrow> 'a db_scheme \<Rightarrow> bool" for D mk where
  step_post: "uow_run (post D mk (erp_ports mk) cmd now) s = Inr (e, s') \<Longrightarrow> erp_step D mk s s'"
| step_reverse: "uow_run (reverse D mk (erp_ports mk) i co reason who now) s = Inr (e, s') \<Longrightarrow> erp_step D mk s s'"
| step_repost: "uow_run (repost D mk (erp_ports mk) i co reason who cmd now) s = Inr (p, s') \<Longrightarrow> erp_step D mk s s'"
| step_period: "period_step mk s s' \<Longrightarrow> erp_step D mk s s'"
| step_series_create: "series_create mk inp act s = Inr (i, s') \<Longrightarrow> erp_step D mk s s'"
| step_series_update: "series_update i pre wid ver act s = Inr (u, s') \<Longrightarrow> erp_step D mk s s'"

definition erp_inv :: "(nat \<Rightarrow> string) \<Rightarrow> 'a db_scheme \<Rightarrow> bool" where
  "erp_inv mk s \<longleftrightarrow> series_inv mk s \<and> period_inv mk s \<and> ledger_core mk last_seq s \<and> ledger_balanced (db_entries s)"

definition empty_db :: "'a db_scheme \<Rightarrow> bool" where
  "empty_db s \<longleftrightarrow> db_entries s = [] \<and> db_series s = [] \<and> db_periods s = []"

lemma erp_inv_empty: "inj mk \<Longrightarrow> empty_db s \<Longrightarrow> erp_inv mk s"
  by (simp add: erp_inv_def empty_db_def series_inv_def series_wf_def ids_fresh_def period_inv_def periods_ok_def
      ledger_core_def reversals_ok_def entry_series_def last_sequence_def lock_series_def ledger_balanced_def)

lemma erp_inv_entries:
  assumes "erp_inv mk s" shows "\<forall>e \<in> set (db_entries s). entry_ok e"
  using assms by (auto simp: erp_inv_def ledger_core_def ledger_balanced_def row_ok_def entry_ok_def balance_check_Inr)

text \<open>A transaction that only appends to the ledger, keeping its core, commits balanced entries only.\<close>

lemma uow_run_balanced:
  assumes "uow_run work s = Inr (x, s')" and "ledger_balanced (db_entries s)"
    and "db_entries s' = db_entries s @ new"
  shows "ledger_balanced (db_entries s')"
  using assms by (auto simp: uow_run_Inr_iff ledger_balanced_def ball_Un)

lemma post_frame:
  assumes "post D mk (erp_ports mk) cmd now s = Inr (e, s')"
  shows "db_periods s' = db_periods s \<and> db_fys s' = db_fys s \<and> db_ids s \<le> db_ids s' \<and> (\<exists>new. db_entries s' = db_entries s @ new)"
  using assms by (rule post_InrE) (auto dest: numbering_next_frame)

lemma reverse_frame:
  assumes "reverse D mk (erp_ports mk) i co reason who now s = Inr (e, s')"
  shows "db_periods s' = db_periods s \<and> db_fys s' = db_fys s \<and> db_ids s \<le> db_ids s' \<and> (\<exists>new. db_entries s' = db_entries s @ new)"
  using assms by (rule reverse_InrE) (auto dest: numbering_next_frame)

lemma repost_frame:
  assumes "repost D mk (erp_ports mk) i co reason who cmd now s = Inr (p, s')"
  shows "db_periods s' = db_periods s \<and> db_fys s' = db_fys s \<and> db_ids s \<le> db_ids s' \<and> (\<exists>new. db_entries s' = db_entries s @ new)"
  using assms by (fastforce simp: repost_def elim!: rbindE dest!: reverse_frame post_frame)

lemma period_inv_frame:
  "period_inv mk s \<Longrightarrow> db_periods s' = db_periods s \<Longrightarrow> db_ids s \<le> db_ids s' \<Longrightarrow> period_inv mk s'"
  by (auto simp: period_inv_def intro: ids_fresh_mono)

text \<open>Any transaction made of the operations of the service keeps the invariant.\<close>

lemma uow_run_erp_inv:
  assumes "uow_run work s = Inr (x, s')" and "erp_inv mk s"
    and "db_periods s' = db_periods s \<and> db_fys s' = db_fys s \<and> db_ids s \<le> db_ids s' \<and> (\<exists>new. db_entries s' = db_entries s @ new)"
    and "ledger_core mk last_seq s' \<and> series_inv mk s'"
  shows "erp_inv mk s'"
  using assms uow_run_balanced [OF assms(1)] by (auto simp: erp_inv_def intro: period_inv_frame)

lemma fold_audit_frame [simp]:
  "db_entries (fold (\<lambda>p st. audit_record a b (f p) act st) ps s) = db_entries s"
  "db_series (fold (\<lambda>p st. audit_record a b (f p) act st) ps s) = db_series s"
  "db_fys (fold (\<lambda>p st. audit_record a b (f p) act st) ps s) = db_fys s"
  by (induction ps arbitrary: s) auto

lemma period_step_frame:
  "period_step mk s s' \<Longrightarrow> db_entries s' = db_entries s \<and> db_series s' = db_series s \<and>
     db_fys s' = db_fys s \<and> db_ids s \<le> db_ids s'"
  by (cases rule: period_step.cases, assumption)
    (auto simp: generate_periods_def close_period_def close_fy_def reopen_period_def Let_def
      dest!: uow_run_InrD create_periods_Inr elim!: rbindE)

lemma core_frame:
  assumes "ledger_core mk last_seq s" and "db_entries s' = db_entries s" and "db_ids s \<le> db_ids s'"
    and "\<And>vt co fy. last_seq vt co fy s' = last_seq vt co fy s"
  shows "ledger_core mk last_seq s'"
  using assms by (auto simp: ledger_core_def intro: ids_fresh_mono)

lemma series_insert_inv:
  assumes "series_wf tbl" and "s_id r \<notin> s_id ` set tbl" and "series_insert r tbl = Inr tbl'" and "s_last r = 0"
  shows "series_wf tbl' \<and> s_id ` set tbl' = insert (s_id r) (s_id ` set tbl) \<and>
    (\<forall>vt co fy. last_sequence vt co fy tbl' = last_sequence vt co fy tbl)"
proof -
  from assms(3) have tbl': "tbl' = tbl @ [r]"
    and "\<not> list_ex (series_of (s_voucher_type r) (s_company r) (s_fy r)) tbl"
    by (auto simp: series_insert_def split: if_splits)
  then have new: "series_key r \<notin> series_key ` set tbl"
    by (auto simp: list_ex_iff series_of_key series_key_def)
  with assms(1,2) have "series_wf tbl'" by (auto simp: series_wf_def tbl')
  moreover have "last_sequence vt co fy tbl' = last_sequence vt co fy tbl" for vt co fy
    by (auto simp: last_sequence_def tbl' lock_series_append assms(4) split: option.splits)
  ultimately show ?thesis by (simp add: tbl')
qed

lemma series_create_inv:
  assumes "series_create mk inp act s = Inr (i, s')" and "series_inv mk s"
  shows "series_inv mk s' \<and> db_entries s' = db_entries s \<and> db_periods s' = db_periods s \<and>
    db_fys s' = db_fys s \<and> db_ids s \<le> db_ids s' \<and> (\<forall>vt co fy. last_seq vt co fy s' = last_seq vt co fy s)"
proof -
  from assms(1) obtain vt prefix width tbl where
    ins: "series_insert \<lparr>s_id = mk (db_ids s), s_company = act_company act, s_fy = ns_fy inp, s_voucher_type = vt,
          s_prefix = prefix, s_padding = width, s_last = 0, s_version = 1\<rparr> (db_series s) = Inr tbl"
    and s': "db_series s' = tbl" "db_ids s' = Suc (db_ids s)" "db_entries s' = db_entries s"
      "db_periods s' = db_periods s" "db_fys s' = db_fys s"
    by (auto simp: series_create_def ids_next_def audit_record_def elim!: rbindE dest!: uow_run_InrD
        split: sum.splits)
  from assms(2) have "series_wf (db_series s)" by (simp add: series_inv_def)
  from series_insert_inv [OF this _ ins] series_inv_fresh [OF assms(2)]
  show ?thesis using assms(2) s' by (auto simp: series_inv_def intro: ids_fresh_mono [OF ids_fresh_insert])
qed

lemma series_update_config_inv:
  assumes "series_wf tbl" and "series_update_config i co v p w tbl = (ok, tbl')"
  shows "series_wf tbl' \<and> s_id ` set tbl' = s_id ` set tbl \<and>
    (\<forall>vt co fy. last_sequence vt co fy tbl' = last_sequence vt co fy tbl)"
proof -
  obtain P f where tbl': "tbl' = update_where P f tbl"
    and f: "\<And>x. series_key (f x) = series_key x" "\<And>x. s_id (f x) = s_id x" "\<And>x. s_last (f x) = s_last x"
    using assms(2) that unfolding series_update_config_def Let_def by (auto simp: series_key_def)
  have "map s_id tbl' = map s_id tbl" unfolding tbl' by (rule map_update_where) (simp add: f)
  then have ids: "s_id ` set tbl' = s_id ` set tbl" by (metis set_map)
  have "List.find (\<lambda>x. series_key x = k) (update_where P f ts) =
      map_option (\<lambda>x. if P x then f x else x) (List.find (\<lambda>x. series_key x = k) ts)" for k ts
    by (induction ts) (auto simp: update_where_def f)
  then have "last_sequence vt co fy tbl' = last_sequence vt co fy tbl" for vt co fy
    unfolding last_sequence_def lock_series_def series_of_key tbl' by (auto simp: f split: option.splits)
  with ids series_wf_update [OF assms(1) f(1,2)] show ?thesis by (simp add: tbl')
qed

lemma series_update_inv:
  assumes "series_update i pre wid ver act s = Inr (u, s')" and "series_inv mk s"
  shows "series_inv mk s' \<and> db_entries s' = db_entries s \<and> db_periods s' = db_periods s \<and>
    db_fys s' = db_fys s \<and> db_ids s' = db_ids s \<and> (\<forall>vt co fy. last_seq vt co fy s' = last_seq vt co fy s)"
proof -
  from assms(1) obtain p w ok tbl where c: "series_update_config i (act_company act) ver p w (db_series s) = (ok, tbl)"
    and s': "db_series s' = tbl" "db_ids s' = db_ids s" "db_entries s' = db_entries s"
      "db_periods s' = db_periods s" "db_fys s' = db_fys s"
    by (auto simp: series_update_def Let_def elim!: rbindE dest!: uow_run_InrD split: prod.splits)
  from assms(2) have "series_wf (db_series s)" by (simp add: series_inv_def)
  from series_update_config_inv [OF this c] show ?thesis
    using assms(2) s' by (auto simp: series_inv_def)
qed

lemma erp_step_append:
  assumes "erp_step D mk s s'" shows "\<exists>new. db_entries s' = db_entries s @ new"
  using assms
proof (cases rule: erp_step.cases)
  case (step_series_create inp act i)
  then show ?thesis
    by (auto simp: series_create_def ids_next_def Let_def elim!: rbindE dest!: uow_run_InrD)
next
  case (step_series_update i pre wid ver act u)
  then show ?thesis
    by (auto simp: series_update_def Let_def elim!: rbindE dest!: uow_run_InrD split: prod.splits)
qed (auto dest!: uow_run_InrD dest: post_frame reverse_frame repost_frame period_step_frame)

lemma erp_step_inv:
  assumes "decimal_js D" and "erp_step D mk s s'" and "erp_inv mk s" shows "erp_inv mk s'"
proof -
  note ps = erp_posting_service [OF assms(1), where mk = mk]
  from assms(3) have i: "series_inv mk s" "ledger_core mk last_seq s" "period_inv mk s"
    "ledger_balanced (db_entries s)" by (auto simp: erp_inv_def)
  from assms(2) show ?thesis
  proof (cases rule: erp_step.cases)
    case (step_post cmd now e)
    from uow_run_InrD [OF this] show ?thesis
      by (auto intro!: uow_run_erp_inv [OF step_post assms(3)] dest: post_frame posting_service.post_core [OF ps i(1,2)])
  next
    case (step_reverse a b c d now e)
    from uow_run_InrD [OF this] show ?thesis
      by (auto intro!: uow_run_erp_inv [OF step_reverse assms(3)] dest: reverse_frame posting_service.reverse_core [OF ps i(1,2)])
  next
    case (step_repost a b c d cmd now e)
    from uow_run_InrD [OF this] show ?thesis
      by (auto intro!: uow_run_erp_inv [OF step_repost assms(3)] dest: repost_frame posting_service.repost_core [OF ps i(1,2)])
  next
    case step_period
    with period_step_frame [OF this] period_step_inv [OF this _ i(3)] i show ?thesis
      by (auto simp: erp_inv_def series_inv_def intro: ids_fresh_mono core_frame)
  next
    case (step_series_create inp act j)
    from series_create_inv [OF this i(1)] i show ?thesis
      by (auto simp: erp_inv_def intro: core_frame period_inv_frame)
  next
    case (step_series_update j pre wid ver act u)
    from series_update_inv [OF this i(1)] i show ?thesis
      by (auto simp: erp_inv_def intro: core_frame period_inv_frame)
  qed
qed

text \<open>Nothing committed is ever lost from a reachable ledger, and the invariant holds of all of it.\<close>

lemma reachable_inv:
  assumes "decimal_js D" and "inj mk" and "empty_db s0" and "rtranclp (erp_step D mk) s0 s"
  shows "erp_inv mk s"
  using assms(4)
proof (induction rule: rtranclp_induct)
  case base
  show ?case by (rule erp_inv_empty [OF assms(2,3)])
next
  case (step s s')
  show ?case by (rule erp_step_inv [OF assms(1) step(2,3)])
qed

lemma obtain_series_fys: "obtain_series mk race vt co fy s = Inr (r, s2) \<Longrightarrow> db_fys s2 = db_fys s"
  by (auto simp: obtain_series_def ids_next_def elim!: rbindE split: option.splits)

lemma numbering_next_total:
  assumes "series_inv mk s" and "find_fy fy co (db_fys s) \<noteq> None"
  shows "\<exists>no s'. numbering_next mk None vt co fy s = Inr (no, s')"
proof -
  from assms(1) have "series_wf (db_series s)" by (simp add: series_inv_def)
  from obtain_series_spec [where mk = mk, OF this race_ok_None series_inv_fresh [OF assms(1)]]
  obtain r s2 where "obtain_series mk None vt co fy s = Inr (r, s2)" "db_fys s2 = db_fys s"
    by fastforce
  with assms(2) show ?thesis by (auto simp: numbering_next_def resolve_fy_label_def Let_def)
qed

lemma numbering_next_Inl:
  assumes "series_inv mk s" and "find_fy fy co (db_fys s) = None"
  shows "\<exists>e. numbering_next mk None vt co fy s = Inl e"
proof (cases "numbering_next mk None vt co fy s")
  case (Inr x)
  with assms(2) show ?thesis
    by (cases x) (auto simp: numbering_next_def resolve_fy_label_def Let_def
        elim!: rbindE split: option.splits dest!: obtain_series_fys)
qed simp

section \<open>A concrete run\<close>

text \<open>A company with a one-month year: its periods are generated and one journal voucher is posted.\<close>

definition sample_fy :: financial_year where
  "sample_fy = \<lparr>fy_id = ''FY'', fy_company = ''C'', fy_start = (2025, 7, 1), fy_end = (2025, 7, 31)\<rparr>"

definition sample_db :: db where
  "sample_db = \<lparr>db_fys = [sample_fy], db_series = [], db_periods = [], db_entries = [], db_audit = [], db_ids = 0\<rparr>"

definition sample_cmd :: posting_command where
  "sample_cmd = \<lparr>pc_company = ''C'', pc_fy = ''FY'', pc_voucher_type = JOURNAL, pc_voucher_date = ''2025-07-15'',
     pc_source_type = ''JOURNAL'', pc_source_id = ''J1'', pc_posted_by = ''U'', pc_narration = None,
     pc_lines = [dim_line ''A1'' None None None None 100 0 ASSET False,
                 dim_line ''L1'' None None None None 0 100 LIABILITY False]\<rparr>"

definition sample_open :: db where
  "sample_open = \<lparr>db_fys = [sample_fy], db_series = [],
     db_periods = [period_create ''0'' ''C'' ''FY'' ''Jul 2025'' ''2025-07-01'' ''2025-07-31''],
     db_entries = [], db_audit = [], db_ids = 1\<rparr>"

definition sample_entry :: journal_entry where
  "sample_entry = \<lparr>je_id = ''2'', je_company = ''C'', je_fy = ''FY'', je_no = ''JV/2525/0001'', je_voucher_type = JOURNAL,
     je_voucher_date = ''2025-07-15'', je_source_type = ''JOURNAL'', je_source_id = ''J1'', je_is_reversal = False,
     je_reversal_of = None, je_posted_at = 0, je_posted_by = ''U'', je_narration = None,
     je_lines = lines_of (pc_lines sample_cmd)\<rparr>"

definition sample_posted :: db where
  "sample_posted = sample_open\<lparr>db_ids := 3, db_entries := [sample_entry],
    db_series := [\<lparr>s_id = ''1'', s_company = ''C'', s_fy = ''FY'', s_voucher_type = JOURNAL,
            s_prefix = ''JV'', s_padding = 4, s_last = 1, s_version = 1\<rparr>]\<rparr>"

lemma sample_generate: "generate_periods show_nat ''FY'' sample_actor sample_db = Inr (db_periods sample_open, sample_open)"
  by code_simp

lemma sample_post: "post dec20 show_nat (erp_ports show_nat) sample_cmd 0 sample_open = Inr (sample_entry, sample_posted)"
  by code_simp

lemma sample_balanced: "balance_check sample_entry = Inr ()"
  by code_simp

lemma sample_post_commits:
  "uow_run (post dec20 show_nat (erp_ports show_nat) sample_cmd 0) sample_open = Inr (sample_entry, sample_posted)"
proof -
  have "drop (length (db_entries sample_open)) (db_entries sample_posted) = [sample_entry]"
    by (simp add: sample_open_def sample_posted_def)
  with sample_post sample_balanced show ?thesis by (simp add: uow_run_Inr_iff)
qed

lemma sample_empty: "empty_db sample_db"
  by (simp add: empty_db_def sample_db_def)

lemma sample_reachable: "rtranclp (erp_step dec20 show_nat) sample_db sample_posted"
proof -
  have "erp_step dec20 show_nat sample_db sample_open" by (rule step_period [OF step_generate [OF sample_generate]])
  moreover have "erp_step dec20 show_nat sample_open sample_posted" by (rule step_post [OF sample_post_commits])
  ultimately show ?thesis by (meson rtranclp.rtrancl_refl rtranclp.rtrancl_into_rtrancl)
qed

section \<open>Acceptance\<close>

text \<open>When the wired service accepts a command or a reversal.\<close>

lemma project_guard_open [simp]: "assert_projects (erp_ports mk) co ps s = Inr ()"
  by (simp add: assert_projects_def riter_eq_Inr)

lemma erp_inv_numbering:
  "erp_inv mk s \<Longrightarrow> (\<exists>no s1. numbering_next mk None vt co fy s = Inr (no, s1)) \<longleftrightarrow> find_fy fy co (db_fys s) \<noteq> None"
  using numbering_next_total [of mk s fy co vt] numbering_next_Inl [of mk s fy co vt]
  by (cases "find_fy fy co (db_fys s)") (auto simp: erp_inv_def)

lemma new_entry_id:
  assumes "erp_inv mk s" and "numbering_next mk None vt co fy s = Inr (no, s1)"
  shows "mk (db_ids s1) \<notin> je_id ` set (db_entries s)"
  using assms numbering_next_frame [OF assms(2)] by (auto simp: erp_inv_def ledger_core_def ids_fresh_def)

lemma lines_of_grid:
  "\<forall>l \<in> set ls. pl_grid l \<Longrightarrow> \<forall>j \<in> set (lines_of ls). on_grid 4 (jl_debit j) \<and> on_grid 4 (jl_credit j)"
  by (auto simp: lines_of_def pl_grid_def dest!: in_set_enumerate_nth)

context decimal_js begin

lemma save_commits:
  assumes "erp_inv mk s" and "numbering_next mk None vt co fy s = Inr (no, s1)" and "je_id e = mk (db_ids s1)"
    and "entry_ok e" and "entry_in_range e"
  shows "entry_save D e (s1\<lparr>db_ids := Suc (db_ids s1)\<rparr>) = Inr (appended D e s1)"
    and "riter balance_check (drop (length (db_entries s)) (db_entries (appended D e s1))) = Inr ()"
proof -
  have st: "stored_entry D e = e" using stored_lines_id [OF assms(5)] by (simp add: stored_entry_def)
  from new_entry_id [OF assms(1,2)] numbering_next_frame [OF assms(2)] assms(3)
  have "je_id e \<notin> je_id ` set (db_entries (s1\<lparr>db_ids := Suc (db_ids s1)\<rparr>))" by simp
  from entry_save_ok [OF assms(4,5) this]
  show "entry_save D e (s1\<lparr>db_ids := Suc (db_ids s1)\<rparr>) = Inr (appended D e s1)"
    by (simp add: appended_def st)
  show "riter balance_check (drop (length (db_entries s)) (db_entries (appended D e s1))) = Inr ()"
    using numbering_next_frame [OF assms(2)] entry_ok_checks(2) [OF assms(4,5)] by (simp add: st)
qed

lemma post_accepted:
  assumes "erp_inv mk s" and "\<forall>l \<in> set (pc_lines cmd). pl_grid l"
    and "total_dr (pc_lines cmd) < 10 ^ 14" and "total_cr (pc_lines cmd) < 10 ^ 14"
  shows "(\<exists>e s'. uow_run (post D mk (erp_ports mk) cmd now) s = Inr (e, s')) \<longleftrightarrow>
    assert_open (pc_company cmd) (pc_fy cmd) (pc_voucher_date cmd) s = Inr () \<and>
    (\<forall>l \<in> set (pc_lines cmd). tagged (pc_voucher_type cmd) l) \<and>
    (\<forall>l \<in> set (pc_lines cmd). pl_ok l) \<and> 2 \<le> length (pc_lines cmd) \<and>
    total_dr (pc_lines cmd) = total_cr (pc_lines cmd) \<and> find_fy (pc_fy cmd) (pc_company cmd) (db_fys s) \<noteq> None"
    (is "?L \<longleftrightarrow> ?R")
proof -
  have ap: "assert_postable D (pc_lines cmd) = Inr () \<longleftrightarrow> (\<forall>l \<in> set (pc_lines cmd). pl_ok l) \<and>
      2 \<le> length (pc_lines cmd) \<and> total_dr (pc_lines cmd) = total_cr (pc_lines cmd)"
    using assms(2-4) by (intro assert_postable_exact) simp_all
  show ?thesis
  proof
    assume ?L
    then obtain e s' where "post D mk (erp_ports mk) cmd now s = Inr (e, s')" by (auto dest: uow_run_InrD)
    then show ?R
    proof (rule post_InrE)
      fix s1
      assume g: "p_assert_open (erp_ports mk) (pc_company cmd) (pc_fy cmd) (pc_voucher_date cmd) s = Inr ()"
        "tag_assert cmd = Inr ()" "assert_postable D (pc_lines cmd) = Inr ()"
        and "p_next (erp_ports mk) (pc_voucher_type cmd) (pc_company cmd) (pc_fy cmd) s = Inr (je_no e, s1)"
      then have "\<exists>no s1. numbering_next mk None (pc_voucher_type cmd) (pc_company cmd) (pc_fy cmd) s = Inr (no, s1)"
        by auto
      then have "find_fy (pc_fy cmd) (pc_company cmd) (db_fys s) \<noteq> None"
        unfolding erp_inv_numbering [OF assms(1)] .
      with g ap show ?R by (simp add: tag_assert_Inr)
    qed
  next
    assume R: ?R
    then obtain no s1 where n: "numbering_next mk None (pc_voucher_type cmd) (pc_company cmd) (pc_fy cmd) s = Inr (no, s1)"
      using erp_inv_numbering [OF assms(1)] by blast
    from R ap have a: "assert_postable D (pc_lines cmd) = Inr ()" by simp
    from assert_postable_then_create [OF a] obtain e where c: "entry_create D cmd no (mk (db_ids s1)) now = Inr e" by blast
    have "entry_ok e" using assms(2-4) by (intro entry_create_ok [OF c]) simp_all
    moreover have "entry_in_range e"
      using entry_create_InrD [OF c] assms(3) lines_of_grid [OF assms(2)]
      by (simp add: entry_in_range_def total_dr_def)
    moreover have "je_id e = mk (db_ids s1)" using entry_create_InrD [OF c] by simp
    ultimately have sv: "entry_save D e (s1\<lparr>db_ids := Suc (db_ids s1)\<rparr>) = Inr (appended D e s1)"
      "riter balance_check (drop (length (db_entries s)) (db_entries (appended D e s1))) = Inr ()"
      using save_commits [OF assms(1) n] by blast+
    have t: "tag_assert cmd = Inr ()" using R by (simp add: tag_assert_Inr)
    have "post D mk (erp_ports mk) cmd now s = Inr (e, appended D e s1)"
      using R n a c sv(1) t by (simp add: post_def ids_next_def)
    then have "uow_run (post D mk (erp_ports mk) cmd now) s = Inr (e, appended D e s1)"
      using sv(2) by (simp add: uow_run_def del: appended_simps)
    then show ?L by blast
  qed
qed

lemma reverse_accepted:
  assumes "erp_inv mk s" and "orig \<in> set (db_entries s)" and "je_company orig = co"
  shows "(\<exists>e s'. uow_run (reverse D mk (erp_ports mk) (je_id orig) co reason who now) s = Inr (e, s')) \<longleftrightarrow>
    \<not> je_is_reversal orig \<and> \<not> (\<exists>r \<in> set (db_entries s). reverses r orig) \<and>
    assert_open co (je_fy orig) (je_voucher_date orig) s = Inr () \<and> find_fy (je_fy orig) co (db_fys s) \<noteq> None"
    (is "?L \<longleftrightarrow> ?R")
proof -
  from assms(1) have core: "distinct (map je_id (db_entries s))" "\<forall>e \<in> set (db_entries s). row_ok e"
    "reversals_ok (db_entries s)" "ledger_balanced (db_entries s)" by (auto simp: erp_inv_def ledger_core_def)
  have f: "entry_find (je_id orig) co (db_entries s) = Some orig"
    unfolding entry_find_def using core(1) assms(2,3) by (intro find_unique) (auto dest: distinct_map_inj)
  have x: "exists_reversal_of (je_id orig) co (db_entries s) \<longleftrightarrow> (\<exists>r \<in> set (db_entries s). reverses r orig)"
  proof
    assume "exists_reversal_of (je_id orig) co (db_entries s)"
    then obtain r where r: "r \<in> set (db_entries s)" "je_reversal_of r = Some (je_id orig)"
      by (auto simp: exists_reversal_of_iff)
    with core(3) obtain o' where "o' \<in> set (db_entries s)" "reverses r o'"
      unfolding reversals_ok_def by (metis option.distinct(1))
    moreover from this r(2) have "je_id o' = je_id orig" by (simp add: reverses_def)
    ultimately show "\<exists>r \<in> set (db_entries s). reverses r orig"
      using r(1) assms(2) core(1) by (metis distinct_map_inj)
  qed (auto simp: exists_reversal_of_iff reverses_def assms(3))
  show ?thesis
  proof
    assume ?L
    then obtain e s' where "reverse D mk (erp_ports mk) (je_id orig) co reason who now s = Inr (e, s')"
      by (auto dest: uow_run_InrD)
    with f x assms(3) erp_inv_numbering [OF assms(1), of "je_voucher_type orig" co "je_fy orig"] show ?R
      by (auto simp: reverse_def elim!: rbindE)
  next
    assume R: ?R
    then obtain no s1 where n: "numbering_next mk None (je_voucher_type orig) co (je_fy orig) s = Inr (no, s1)"
      using erp_inv_numbering [OF assms(1)] by blast
    let ?e = "entry_reverse orig reason no who (mk (db_ids s1)) now"
    have ro: "row_ok orig" and b: "balance_check orig = Inr ()"
      using core(2,4) assms(2) by (auto simp: ledger_balanced_def)
    then have "entry_ok orig" by (auto simp: entry_ok_def row_ok_def balance_check_Inr)
    then have ok: "entry_ok ?e" by (rule entry_reverse_ok)
    have "\<forall>l \<in> set (je_lines ?e). on_grid 4 (jl_debit l) \<and> on_grid 4 (jl_credit l)"
      using ro by (auto simp: row_ok_def entry_reverse_lines dest!: in_set_enumerate_nth)
    with b have "entry_in_range ?e"
      unfolding entry_in_range_def entry_reverse_debits by (auto simp: balance_check_Inr)
    from save_commits [OF assms(1) n _ ok this]
    have sv: "entry_save D ?e (s1\<lparr>db_ids := Suc (db_ids s1)\<rparr>) = Inr (appended D ?e s1)"
      "riter balance_check (drop (length (db_entries s)) (db_entries (appended D ?e s1))) = Inr ()" by simp_all
    have "reverse D mk (erp_ports mk) (je_id orig) co reason who now s = Inr (?e, appended D ?e s1)"
      using R f x n sv(1) assms(3) by (simp add: reverse_def ids_next_def Let_def)
    then have "uow_run (reverse D mk (erp_ports mk) (je_id orig) co reason who now) s = Inr (?e, appended D ?e s1)"
      using sv(2) by (simp add: uow_run_def del: appended_simps)
    then show ?L by blast
  qed
qed

end

section \<open>The concrete run, continued\<close>

definition sample_reversal :: journal_entry where
  "sample_reversal = entry_reverse sample_entry ''typo'' ''JV/2525/0002'' ''U'' ''3'' 5"

definition sample_reversed :: db where
  "sample_reversed = sample_posted\<lparr>db_ids := 4, db_entries := [sample_entry, sample_reversal],
    db_series := [\<lparr>s_id = ''1'', s_company = ''C'', s_fy = ''FY'', s_voucher_type = JOURNAL,
            s_prefix = ''JV'', s_padding = 4, s_last = 2, s_version = 1\<rparr>]\<rparr>"

definition sample_closed :: db where
  "sample_closed = sample_reversed\<lparr>db_periods :=
      [(period_create ''0'' ''C'' ''FY'' ''Jul 2025'' ''2025-07-01'' ''2025-07-31'')
         \<lparr>per_status := CLOSED, per_closed_at := Some 9, per_closed_by := Some ''U'', per_version := 2\<rparr>],
    db_audit := [\<lparr>a_action = ''UPDATE'', a_entity_type = ''AccountingPeriod'', a_entity_id = ''0'',
        a_actor = ''U'', a_company = ''C''\<rparr>]\<rparr>"

lemma sample_reverse:
  "reverse dec20 show_nat (erp_ports show_nat) ''2'' ''C'' ''typo'' ''U'' 5 sample_posted = Inr (sample_reversal, sample_reversed)"
  by code_simp

lemma sample_reversal_balanced: "balance_check sample_reversal = Inr ()"
  by code_simp

lemma sample_reverse_commits:
  "uow_run (reverse dec20 show_nat (erp_ports show_nat) ''2'' ''C'' ''typo'' ''U'' 5) sample_posted =
     Inr (sample_reversal, sample_reversed)"
proof -
  have "drop (length (db_entries sample_posted)) (db_entries sample_reversed) = [sample_reversal]"
    by (simp add: sample_posted_def sample_reversed_def)
  with sample_reverse sample_reversal_balanced show ?thesis by (simp add: uow_run_Inr_iff)
qed

lemma sample_close: "close_fy ''FY'' 9 sample_actor sample_reversed = Inr ((1, 0), sample_closed)"
  by code_simp

lemma sample_reversed_reachable: "rtranclp (erp_step dec20 show_nat) sample_db sample_reversed"
  using sample_reachable step_reverse [OF sample_reverse_commits] by (rule rtranclp.rtrancl_into_rtrancl)

lemma sample_closed_reachable: "rtranclp (erp_step dec20 show_nat) sample_db sample_closed"
  using sample_reversed_reachable step_period [OF step_close_fy [OF sample_close]]
  by (rule rtranclp.rtrancl_into_rtrancl)

lemma sample_closed_locked: "fy_locked ''C'' ''FY'' (db_periods sample_closed)"
  by (simp add: fy_locked_iff sample_closed_def period_create_def)

lemma fy_locked_reachable:
  assumes "decimal_js D" and "inj mk" and "empty_db s0" and "rtranclp (erp_step D mk) s0 s"
    and "fy_locked co fy (db_periods s)" and "rtranclp (erp_step D mk) s s'"
  shows "fy_locked co fy (db_periods s')"
  using assms(6)
proof (induction rule: rtranclp_induct)
  case (step y z)
  from assms(4) step(1) have "rtranclp (erp_step D mk) s0 y" by (rule rtranclp_trans)
  from reachable_inv [OF assms(1-3) this] have i: "period_inv mk y" by (simp add: erp_inv_def)
  from step(2) show ?case
  proof (cases rule: erp_step.cases)
    case step_period
    from fy_locked_step [OF this i step(3)] show ?thesis .
  next
    case (step_series_create inp act j)
    from series_create_inv [OF this] reachable_inv [OF assms(1-3) \<open>rtranclp (erp_step D mk) s0 y\<close>] step(3)
    show ?thesis by (simp add: erp_inv_def)
  next
    case (step_series_update j pre wid ver act u)
    from series_update_inv [where mk = mk, OF this] reachable_inv [OF assms(1-3) \<open>rtranclp (erp_step D mk) s0 y\<close>] step(3)
    show ?thesis by (simp add: erp_inv_def)
  qed (use step(3) in \<open>auto dest!: uow_run_InrD dest: post_frame reverse_frame repost_frame\<close>)
qed (rule assms(5))

section \<open>Properties\<close>

text \<open>
  C1.  In every state the kernel can reach from an empty ledger, by any sequence of committed posts,
  reversals, reposts, period and numbering operations, every entry of the ledger is a proper double
  entry: two lines or more, numbered from 1, each with exactly one positive side, equal totals.
\<close>
theorem ledger_always_balanced:
  assumes "decimal_js D" and "inj mk" and "empty_db s0" and "rtranclp (erp_step D mk) s0 s"
  shows "\<forall>e \<in> set (db_entries s). entry_ok e"
  by (rule erp_inv_entries [OF reachable_inv [OF assms]])

theorem ledger_always_balanced_witness: "entry_ok sample_entry \<and> entry_ok sample_reversal"
  using ledger_always_balanced [OF decimal_js_dec20 inj_show_nat sample_empty sample_reversed_reachable]
  by (simp add: sample_reversed_def)

text \<open>
  C2.  Voucher numbers are gapless: in every reachable state the entries of one voucher type, company
  and year carry, in the order they were posted, the sequence numbers 1, 2, 3, ...  In particular no
  two of them have the same number, whatever prefixes the series had meanwhile, and a rejected
  command has not used up a number.
\<close>
theorem vouchers_gapless:
  assumes "decimal_js D" and "inj mk" and "empty_db s0" and "rtranclp (erp_step D mk) s0 s"
  shows "map (seq_of \<circ> je_no) (entry_series vt co fy (db_entries s)) =
      [1..<Suc (length (entry_series vt co fy (db_entries s)))] \<and>
    distinct (map je_no (entry_series vt co fy (db_entries s)))"
proof -
  from reachable_inv [OF assms] have m: "map (seq_of \<circ> je_no) (entry_series vt co fy (db_entries s)) = [1..<Suc (last_seq vt co fy s)]"
    by (simp add: erp_inv_def ledger_core_def)
  then have l: "length (entry_series vt co fy (db_entries s)) = last_seq vt co fy s"
    by (metis diff_Suc_1 length_map length_upt)
  from m have "distinct (map seq_of (map je_no (entry_series vt co fy (db_entries s))))"
    unfolding map_map by (simp del: upt_Suc)
  then have "distinct (map je_no (entry_series vt co fy (db_entries s)))" by (metis distinct_map)
  then show ?thesis using m l by (simp del: upt_Suc)
qed

theorem vouchers_gapless_witness:
  "map (seq_of \<circ> je_no) (entry_series JOURNAL ''C'' ''FY'' (db_entries sample_reversed)) = [1, 2]"
proof -
  have l: "length (entry_series JOURNAL ''C'' ''FY'' (db_entries sample_reversed)) = 2" by code_simp
  have u: "[1..<Suc 2] = [1, 2]" by (simp add: upt_rec)
  show ?thesis
    using conjunct1 [OF vouchers_gapless [OF decimal_js_dec20 inj_show_nat sample_empty sample_reversed_reachable,
      of JOURNAL "''C''" "''FY''"]]
    unfolding l u .
qed

text \<open>
  C3.  Corrections are reversals, and only of originals: in every reachable state each reversal in the
  ledger mirrors exactly one entry of the same company, year, type and date, line by line with the
  sides swapped, that entry is not itself a reversal, and no other row reverses it.
\<close>
theorem reversal_of_one_original:
  assumes "decimal_js D" and "inj mk" and "empty_db s0" and "rtranclp (erp_step D mk) s0 s"
    and "r \<in> set (db_entries s)" and "je_is_reversal r"
  shows "\<exists>!o'. o' \<in> set (db_entries s) \<and> reverses r o' \<and> (\<forall>r' \<in> set (db_entries s). reverses r' o' \<longrightarrow> r' = r)"
proof -
  from reachable_inv [OF assms(1-4)] have i: "reversals_ok (db_entries s)" "distinct (map je_id (db_entries s))"
    by (auto simp: erp_inv_def ledger_core_def)
  with assms(5,6) obtain o' where o': "o' \<in> set (db_entries s)" "reverses r o'"
    unfolding reversals_ok_def by metis
  from i(1) have one: "\<forall>e \<in> set (db_entries s). \<forall>e' \<in> set (db_entries s).
      je_is_reversal e \<longrightarrow> je_reversal_of e = je_reversal_of e' \<longrightarrow> e = e'" by (simp add: reversals_ok_def)
  have r: "r' = r" if "r' \<in> set (db_entries s)" "reverses r' o'" for r'
  proof -
    have "je_reversal_of r = je_reversal_of r'" using that o'(2) by (simp add: reverses_def)
    from one [rule_format, OF assms(5) that(1) assms(6) this] show ?thesis by simp
  qed
  have o: "o'' = o'" if "o'' \<in> set (db_entries s)" "reverses r o''" for o''
    using distinct_map_inj [OF i(2) that(1) o'(1)] that(2) o'(2) by (simp add: reverses_def)
  show ?thesis
  proof (rule ex1I [of _ o'])
    show "o' \<in> set (db_entries s) \<and> reverses r o' \<and> (\<forall>r' \<in> set (db_entries s). reverses r' o' \<longrightarrow> r' = r)"
      using o' r by blast
  next
    fix x assume "x \<in> set (db_entries s) \<and> reverses r x \<and> (\<forall>r' \<in> set (db_entries s). reverses r' x \<longrightarrow> r' = r)"
    then show "x = o'" using o [of x] by blast
  qed
qed

theorem reversal_of_one_original_witness:
  "\<exists>!o'. o' \<in> set (db_entries sample_reversed) \<and> reverses sample_reversal o' \<and>
     (\<forall>r' \<in> set (db_entries sample_reversed). reverses r' o' \<longrightarrow> r' = sample_reversal)"
proof (rule reversal_of_one_original [OF decimal_js_dec20 inj_show_nat sample_empty sample_reversed_reachable])
  show "sample_reversal \<in> set (db_entries sample_reversed)" by (simp add: sample_reversed_def)
  show "je_is_reversal sample_reversal" by (simp add: sample_reversal_def)
qed

text \<open>
  C4.  The ledger is append-only: no committed operation of the kernel changes or removes a row, it only
  adds rows at the end.
\<close>
theorem ledger_append_only:
  assumes "erp_step D mk s s'"
  shows "take (length (db_entries s)) (db_entries s') = db_entries s"
  using erp_step_append [OF assms] by auto

theorem ledger_append_only_witness:
  "take (length (db_entries sample_posted)) (db_entries sample_reversed) = db_entries sample_posted"
  by (rule ledger_append_only [OF step_reverse [OF sample_reverse_commits]])

text \<open>
  C5.  When a post is accepted.  For amounts with four decimals whose totals fit the column, the command
  is posted and committed exactly when the date lies in an open period of the year, every line is
  tagged as the matrix of its voucher type requires, every line has exactly one positive side, there
  are two lines or more, the totals are equal, and the financial year exists.
\<close>
theorem post_accepts_iff:
  assumes "decimal_js D" and "erp_inv mk s" and "\<forall>l \<in> set (pc_lines cmd). pl_grid l"
    and "total_dr (pc_lines cmd) < 10 ^ 14" and "total_cr (pc_lines cmd) < 10 ^ 14"
  shows "(\<exists>e s'. uow_run (post D mk (erp_ports mk) cmd now) s = Inr (e, s')) \<longleftrightarrow>
    assert_open (pc_company cmd) (pc_fy cmd) (pc_voucher_date cmd) s = Inr () \<and>
    (\<forall>l \<in> set (pc_lines cmd). tagged (pc_voucher_type cmd) l) \<and>
    (\<forall>l \<in> set (pc_lines cmd). pl_ok l) \<and> 2 \<le> length (pc_lines cmd) \<and>
    total_dr (pc_lines cmd) = total_cr (pc_lines cmd) \<and> find_fy (pc_fy cmd) (pc_company cmd) (db_fys s) \<noteq> None"
  by (rule decimal_js.post_accepted [OF assms])

lemma sample_inv: "erp_inv show_nat sample_reversed"
  by (rule reachable_inv [OF decimal_js_dec20 inj_show_nat sample_empty sample_reversed_reachable])

theorem post_accepts_iff_witness:
  "\<exists>e s'. uow_run (post dec20 show_nat (erp_ports show_nat) sample_cmd 7) sample_reversed = Inr (e, s')"
proof -
  have l: "pc_lines sample_cmd = [dim_line ''A1'' None None None None 100 0 ASSET False,
                 dim_line ''L1'' None None None None 0 100 LIABILITY False]" by (simp add: sample_cmd_def)
  have g: "\<forall>l \<in> set (pc_lines sample_cmd). pl_grid l" by code_simp
  have o: "assert_open (pc_company sample_cmd) (pc_fy sample_cmd) (pc_voucher_date sample_cmd) sample_reversed = Inr ()"
    by code_simp
  have f: "find_fy (pc_fy sample_cmd) (pc_company sample_cmd) (db_fys sample_reversed) \<noteq> None" by code_simp
  have t: "\<forall>l \<in> set (pc_lines sample_cmd). tagged (pc_voucher_type sample_cmd) l" by code_simp
  show ?thesis
    unfolding post_accepts_iff [OF decimal_js_dec20 sample_inv g, unfolded l, simplified]
    using o f t by (simp add: l pl_ok_def)
qed

text \<open>
  C6.  When a reversal is accepted.  Every original row of a company can be reversed, whatever it says,
  as long as the period of its own date is open, exactly once: the reversal commits exactly when
  the row is not itself a reversal, has no reversal yet, and its period is open.
\<close>
theorem reverse_accepts_iff:
  assumes "decimal_js D" and "erp_inv mk s" and "orig \<in> set (db_entries s)" and "je_company orig = co"
  shows "(\<exists>e s'. uow_run (reverse D mk (erp_ports mk) (je_id orig) co reason who now) s = Inr (e, s')) \<longleftrightarrow>
    \<not> je_is_reversal orig \<and> \<not> (\<exists>r \<in> set (db_entries s). reverses r orig) \<and>
    assert_open co (je_fy orig) (je_voucher_date orig) s = Inr () \<and> find_fy (je_fy orig) co (db_fys s) \<noteq> None"
  by (rule decimal_js.reverse_accepted [OF assms])

theorem reverse_accepts_iff_witness:
  "\<not> (\<exists>e s'. uow_run (reverse dec20 show_nat (erp_ports show_nat) (je_id sample_reversal) ''C'' ''again'' ''U'' 8)
       sample_reversed = Inr (e, s'))"
proof -
  have r: "sample_reversal \<in> set (db_entries sample_reversed)" by (simp add: sample_reversed_def)
  have c: "je_company sample_reversal = ''C''" by (simp add: sample_reversal_def sample_entry_def)
  have "je_is_reversal sample_reversal" by (simp add: sample_reversal_def)
  with reverse_accepts_iff [OF decimal_js_dec20 sample_inv r c] show ?thesis by blast
qed

definition ledger_net :: "(journal_line \<Rightarrow> bool) \<Rightarrow> journal_entry list \<Rightarrow> decimal" where
  "ledger_net Q es = sum_list (map (entry_net Q) es)"

text \<open>
  C7.  A reversal takes back exactly what its original did: over any selection of lines by account,
  party, project, cost centre, purpose or godown, the balance of the ledger after the reversal is the
  balance before it less the original's contribution.
\<close>
theorem reversal_takes_back:
  assumes "decimal_js D" and "erp_inv mk s"
    and "uow_run (reverse D mk (erp_ports mk) i co reason who now) s = Inr (e, s')"
    and "\<And>l n. Q (swapped l n) = Q l"
  shows "\<exists>orig \<in> set (db_entries s). je_id orig = i \<and>
    ledger_net Q (db_entries s') = ledger_net Q (db_entries s) - entry_net Q orig"
proof -
  from uow_run_InrD [OF assms(3)] have "reverse D mk (erp_ports mk) i co reason who now s = Inr (e, s')" by simp
  then show ?thesis
  proof (rule reverse_InrE)
    fix s1 orig
    assume o: "orig \<in> set (db_entries s)" "je_id orig = i" "\<not> je_is_reversal orig"
      and n: "p_next (erp_ports mk) (je_voucher_type orig) (je_company orig) (je_fy orig) s = Inr (je_no e, s1)"
      and e: "e = entry_reverse orig reason (je_no e) who (mk (db_ids s1)) now" and s': "s' = appended D e s1"
    from assms(2) o(1) have "row_ok orig" by (simp add: erp_inv_def ledger_core_def)
    from decimal_js.entry_reverse_row_ok(2) [OF assms(1) this] o(3) have "reverses (stored_entry D e) orig" by (subst e) simp
    then have "je_lines (stored_entry D e) = je_lines (entry_reverse orig [] [] [] [] 0)"
      by (simp add: reverses_def entry_reverse_lines)
    then have "entry_net Q (stored_entry D e) = - entry_net Q orig"
      using entry_reverse_net [of Q orig "[]" "[]" "[]" "[]" 0, OF assms(4)] by (simp add: entry_net_def)
    moreover have "db_entries s' = db_entries s @ [stored_entry D e]"
      using n by (auto simp: s' dest: numbering_next_frame)
    ultimately show ?thesis using o(1,2) by (intro bexI [of _ orig]) (simp_all add: ledger_net_def)
  qed
qed

lemma sample_posted_inv: "erp_inv show_nat sample_posted"
  by (rule reachable_inv [OF decimal_js_dec20 inj_show_nat sample_empty sample_reachable])

theorem reversal_takes_back_witness:
  "ledger_net (\<lambda>l. jl_account l = ''A1'') (db_entries sample_reversed) = 0"
proof -
  have "\<exists>orig \<in> set (db_entries sample_posted). je_id orig = ''2'' \<and>
      ledger_net (\<lambda>l. jl_account l = ''A1'') (db_entries sample_reversed) =
      ledger_net (\<lambda>l. jl_account l = ''A1'') (db_entries sample_posted) - entry_net (\<lambda>l. jl_account l = ''A1'') orig"
    by (rule reversal_takes_back [OF decimal_js_dec20 sample_posted_inv sample_reverse_commits]) simp
  then show ?thesis by (auto simp: sample_posted_def ledger_net_def)
qed

text \<open>
  C8.  The year lock is final: once every period of a financial year is closed, no operation of the
  kernel ever reopens one, and every later attempt to post into that year is rejected.
\<close>
theorem year_lock_is_final:
  assumes "decimal_js D" and "inj mk" and "empty_db s0" and "rtranclp (erp_step D mk) s0 s"
    and "fy_locked co fy (db_periods s)" and "rtranclp (erp_step D mk) s s'"
    and "pc_company cmd = co" and "pc_fy cmd = fy"
  shows "fy_locked co fy (db_periods s') \<and> (\<exists>err. uow_run (post D mk (erp_ports mk) cmd now) s' = Inl err)"
proof -
  have l: "fy_locked co fy (db_periods s')" by (rule fy_locked_reachable [OF assms(1-6)])
  then obtain err where "assert_open co fy (pc_voucher_date cmd) s' = Inl err"
    using fy_locked_assert_open by blast
  then have "post D mk (erp_ports mk) cmd now s' = Inl err" by (simp add: post_def assms(7,8))
  with l show ?thesis by (auto simp: uow_run_Inl)
qed

theorem year_lock_is_final_witness:
  "\<exists>err. uow_run (post dec20 show_nat (erp_ports show_nat) sample_cmd 11) sample_closed = Inl err"
proof -
  have "pc_company sample_cmd = ''C''" "pc_fy sample_cmd = ''FY''" by (simp_all add: sample_cmd_def)
  from year_lock_is_final [OF decimal_js_dec20 inj_show_nat sample_empty sample_closed_reachable
      sample_closed_locked rtranclp.rtrancl_refl this]
  show ?thesis by blast
qed

end
