(* ===== verification/Vouchers.thy ===== *)
theory Vouchers
  imports Posting
begin

text \<open>
  What the voucher modules share in their use of the posting service: a transaction that posts,
  reverses or reposts between changes of the module's own tables keeps the invariant of the kernel
  and appends to the ledger exactly the rows it should, and the net effect of rows on a selection of
  lines.
\<close>

section \<open>Master rows the modules look up\<close>

record account_row =
  ac_id :: string
  ac_company :: string
  ac_code :: string

record owned_row =
  ow_id :: string
  ow_company :: string
  ow_project :: "string option"

record project_state =
  pst_id :: string
  pst_company :: string
  pst_status :: string

text \<open>The version an edit was made against.\<close>

definition assert_version :: "nat \<Rightarrow> nat \<Rightarrow> domain_error + unit" where
  "assert_version current expected = require (current = expected) OptimisticLockConflictError"

section \<open>Transactions around the posting service\<close>

text \<open>\<open>quiet s s'\<close>: only identifiers were drawn; audit rows and the module's own tables may differ.\<close>

definition quiet :: "'a db_scheme \<Rightarrow> 'a db_scheme \<Rightarrow> bool" where
  "quiet s s' \<longleftrightarrow> db_entries s' = db_entries s \<and> db_series s' = db_series s \<and> db_periods s' = db_periods s \<and>
     db_fys s' = db_fys s \<and> db_ids s \<le> db_ids s'"

lemma quiet_refl [simp, intro]: "quiet s s"
  by (simp add: quiet_def)

lemma quiet_ids [simp, intro]: "quiet s (snd (ids_next mk s))" "quiet s (s\<lparr>db_ids := Suc (db_ids s)\<rparr>)"
  by (simp_all add: quiet_def)

lemma quiet_entries: "quiet s s' \<Longrightarrow> db_entries s' = db_entries s"
  by (simp add: quiet_def)

lemma quiet_erp_inv: "quiet s s' \<Longrightarrow> erp_inv mk s \<Longrightarrow> erp_inv mk s'"
  by (auto simp: quiet_def erp_inv_def series_inv_def intro: core_frame period_inv_frame ids_fresh_mono)

lemma core_parts:
  "erp_inv mk s \<Longrightarrow> series_inv mk s \<and> ledger_core mk last_seq s"
  by (simp add: erp_inv_def)

lemma numbering_next_more: "numbering_next mk race vt co fy s = Inr (no, s') \<Longrightarrow> db.more s' = db.more s"
  by (auto simp: numbering_next_def obtain_series_def ids_next_def Let_def elim!: rbindE split: option.splits)

lemma post_appends:
  assumes "post D mk (erp_ports mk) cmd now s = Inr (e, s')"
  shows "db.more s' = db.more s" and "db_entries s' = db_entries s @ [stored_entry D e]"
    and "je_lines e = lines_of (pc_lines cmd)" and "je_source_type e = pc_source_type cmd"
    and "je_source_id e = pc_source_id cmd" and "je_company e = pc_company cmd" and "\<not> je_is_reversal e"
  using assms
  by (auto elim!: post_InrE dest!: entry_create_InrD dest: numbering_next_more numbering_next_frame)

lemma reverse_appends:
  assumes "reverse D mk (erp_ports mk) i co reason who now s = Inr (e, s')"
  obtains o' where "db.more s' = db.more s" and "o' \<in> set (db_entries s)" and "je_id o' = i" and "je_company o' = co"
    and "\<not> je_is_reversal o'" and "db_entries s' = db_entries s @ [stored_entry D e]"
    and "\<exists>no j. e = entry_reverse o' reason no who j now"
  using assms
  by (rule reverse_InrE) (auto dest: numbering_next_more numbering_next_frame intro!: that)

text \<open>
  A transaction that posts between two changes of the module's own tables.
\<close>

lemma tx_quiet:
  assumes "erp_inv mk s" and "quiet s s'" shows "erp_inv mk s'"
  by (rule quiet_erp_inv [OF assms(2,1)])

lemma tx_erp_inv:
  assumes "uow_run work s = Inr (x, s')" and "erp_inv mk s" and "quiet s s0"
    and "db_periods s1 = db_periods s0 \<and> db_fys s1 = db_fys s0 \<and> db_ids s0 \<le> db_ids s1 \<and> (\<exists>new. db_entries s1 = db_entries s0 @ new)"
    and "ledger_core mk last_seq s1 \<and> series_inv mk s1" and "quiet s1 s'"
  shows "erp_inv mk s'"
proof (rule uow_run_erp_inv [OF assms(1,2)])
  show "db_periods s' = db_periods s \<and> db_fys s' = db_fys s \<and> db_ids s \<le> db_ids s' \<and> (\<exists>new. db_entries s' = db_entries s @ new)"
    using assms(3,4,6) by (auto simp: quiet_def)
  show "ledger_core mk last_seq s' \<and> series_inv mk s'"
    using assms(5,6) by (auto simp: quiet_def series_inv_def intro: core_frame ids_fresh_mono)
qed

context decimal_js begin

lemma tx_post:
  assumes "uow_run work s = Inr (x, s')" and "erp_inv mk s" and "quiet s s0"
    and "post D mk (erp_ports mk) cmd now s0 = Inr (e, s1)" and "quiet s1 s'"
  shows "erp_inv mk s'"
  using core_parts [OF quiet_erp_inv [OF assms(3,2)]]
    posting_service.post_core [OF erp_posting_service [OF decimal_js_axioms] _ _ assms(4)]
  by (intro tx_erp_inv [OF assms(1-3) post_frame [OF assms(4)] _ assms(5)]) blast

lemma tx_reverse:
  assumes "uow_run work s = Inr (x, s')" and "erp_inv mk s" and "quiet s s0"
    and "reverse D mk (erp_ports mk) i co reason who now s0 = Inr (e, s1)" and "quiet s1 s'"
  shows "erp_inv mk s'"
  using core_parts [OF quiet_erp_inv [OF assms(3,2)]]
    posting_service.reverse_core [OF erp_posting_service [OF decimal_js_axioms] _ _ assms(4)]
  by (intro tx_erp_inv [OF assms(1-3) reverse_frame [OF assms(4)] _ assms(5)]) blast

lemma tx_repost:
  assumes "uow_run work s = Inr (x, s')" and "erp_inv mk s" and "quiet s s0"
    and "repost D mk (erp_ports mk) i co reason who cmd now s0 = Inr (p, s1)" and "quiet s1 s'"
  shows "erp_inv mk s'"
  using core_parts [OF quiet_erp_inv [OF assms(3,2)]]
    posting_service.repost_core [OF erp_posting_service [OF decimal_js_axioms] _ _ assms(4)]
  by (intro tx_erp_inv [OF assms(1-3) repost_frame [OF assms(4)] _ assms(5)]) blast

end

section \<open>Nets over a selection of lines\<close>

definition net_of :: "(journal_line \<Rightarrow> bool) \<Rightarrow> posting_line list \<Rightarrow> decimal" where
  "net_of Q ls = sum_list (map jl_net (filter Q (lines_of ls)))"

definition swap_free :: "(journal_line \<Rightarrow> bool) \<Rightarrow> bool" where
  "swap_free Q \<longleftrightarrow> (\<forall>l n. Q (swapped l n) = Q l)"

lemma entry_net_lines: "je_lines e = lines_of ls \<Longrightarrow> entry_net Q e = net_of Q ls"
  by (simp add: entry_net_def net_of_def)

lemma ledger_net_simps [simp]:
  "ledger_net Q [] = 0" "ledger_net Q (e # es) = entry_net Q e + ledger_net Q es"
  "ledger_net Q (es @ fs) = ledger_net Q es + ledger_net Q fs"
  by (simp_all add: ledger_net_def)

text \<open>What a command does to an account.\<close>

definition lines_net :: "string \<Rightarrow> posting_line list \<Rightarrow> decimal" where
  "lines_net acc ls = sum_list (map (\<lambda>l. pl_debit l - pl_credit l) (filter (\<lambda>l. pl_account l = acc) ls))"

lemma lines_net_simps [simp]:
  "lines_net acc [] = 0"
  "lines_net acc (l # ls) = (if pl_account l = acc then pl_debit l - pl_credit l else 0) + lines_net acc ls"
  "lines_net acc (ls @ ks) = lines_net acc ls + lines_net acc ks"
  by (simp_all add: lines_net_def)

lemma net_of_account: "net_of (\<lambda>l. jl_account l = acc) ls = lines_net acc ls"
proof -
  have "sum_list (map jl_net (filter (\<lambda>l. jl_account l = acc) (map (\<lambda>(i, l). line_of l i) (enumerate n ls)))) = lines_net acc ls" for n
    by (induction ls arbitrary: n) (auto simp: jl_net_def)
  then show ?thesis by (simp add: net_of_def lines_of_def)
qed

lemma swap_free_account [simp]: "swap_free (\<lambda>l. jl_account l = acc)"
  by (simp add: swap_free_def)

context decimal_js begin

lemma stored_lines_of: "\<forall>l \<in> set ls. pl_grid l \<Longrightarrow> map (stored_line D) (lines_of ls) = lines_of ls"
  by (intro map_idI stored_line_id) (auto dest!: lines_of_grid)

lemma stored_post_lines:
  assumes "post D mk (erp_ports mk) cmd now s = Inr (e, s')" and "\<forall>l \<in> set (pc_lines cmd). pl_grid l"
  shows "je_lines (stored_entry D e) = lines_of (pc_lines cmd)"
  using post_appends(3) [OF assms(1)] stored_lines_of [OF assms(2)] by simp

lemma reversal_net:
  assumes "row_ok o'" and "swap_free Q"
  shows "entry_net Q (stored_entry D (entry_reverse o' reason no who j now)) = - entry_net Q o'"
proof -
  have "map (stored_line D) (je_lines (entry_reverse o' reason no who j now)) = je_lines (entry_reverse o' reason no who j now)"
    unfolding entry_reverse_lines using assms(1)
    by (auto simp: row_ok_def stored_swapped stored_line_id in_set_enumerate_eq intro!: map_idI)
  then have "entry_net Q (stored_entry D (entry_reverse o' reason no who j now)) = entry_net Q (entry_reverse o' reason no who j now)"
    by (simp add: entry_net_def)
  with assms(2) show ?thesis by (simp add: entry_reverse_net swap_free_def)
qed

end

text \<open>Changing the one row with a key changes a sum over the table by the difference of the row.\<close>

lemma sum_update_where:
  fixes g :: "'r \<Rightarrow> rat"
  assumes "distinct (map k tbl)" and "r \<in> set tbl" and "P r" and "\<And>x. P x \<Longrightarrow> k x = k r"
  shows "sum_list (map g (update_where P f tbl)) = sum_list (map g tbl) - g r + g (f r)"
  using assms(1,2)
proof (induction tbl)
  case (Cons x xs)
  show ?case
  proof (cases "x = r")
    case True
    have "\<not> P y" if "y \<in> set xs" for y
      using assms(4) [of y] Cons.prems(1) that True by (auto simp: rev_image_eqI)
    then have "update_where P f xs = xs" by (rule update_where_none)
    with True assms(3) show ?thesis by (simp add: update_where_def)
  next
    case False
    with Cons.prems have r: "r \<in> set xs" by simp
    with Cons.prems(1) assms(4) have "\<not> P x" by (auto simp: rev_image_eqI)
    with Cons.IH Cons.prems(1) r show ?thesis by (simp add: update_where_def)
  qed
qed simp

end
