(* ===== verification/Sales_Ipc.thy ===== *)
theory Sales_Ipc
  imports Vouchers
begin

text \<open>
  The sales aggregate (\<open>src/src/modules/sales/domain/\<close>): the rates, the interim payment certificate
  with its money figures and lifecycle, and the mapping of a certificate to its ledger lines.
\<close>

section \<open>Rates\<close>

record ipc_rates =
  rt_retention :: decimal
  rt_advance :: decimal
  rt_vat :: decimal

definition rates_pct :: "decimal_input \<Rightarrow> string \<Rightarrow> domain_error + decimal" where
  "rates_pct v field =
     (case v of
        Dec d \<Rightarrow> if d < 0 then Inl (ValidationError field) else Inr d
      | _ \<Rightarrow> Inl (ValidationError field))"

definition rates_of :: "decimal_input \<Rightarrow> decimal_input \<Rightarrow> decimal_input \<Rightarrow> domain_error + ipc_rates" where
  "rates_of retention advance vat =
     rbind (rates_pct retention ''retentionPct'') (\<lambda>r.
     rbind (rates_pct advance ''advancePct'') (\<lambda>a.
     rbind (rates_pct vat ''vatPct'') (\<lambda>v.
     Inr \<lparr>rt_retention = r, rt_advance = a, rt_vat = v\<rparr>)))"

definition retention_fraction :: "dec_lib \<Rightarrow> ipc_rates \<Rightarrow> decimal" where
  "retention_fraction D r = d_div D (rt_retention r) 100"

definition advance_fraction :: "dec_lib \<Rightarrow> ipc_rates \<Rightarrow> decimal" where
  "advance_fraction D r = d_div D (rt_advance r) 100"

definition vat_fraction :: "dec_lib \<Rightarrow> ipc_rates \<Rightarrow> decimal" where
  "vat_fraction D r = d_div D (rt_vat r) 100"

section \<open>The aggregate\<close>

datatype ipc_status = IpcDraft | IpcPosted | IpcCancelled

fun ipc_status_name :: "ipc_status \<Rightarrow> string" where
  "ipc_status_name IpcDraft = ''DRAFT''"
| "ipc_status_name IpcPosted = ''POSTED''"
| "ipc_status_name IpcCancelled = ''CANCELLED''"

text \<open>
  An override is \<open>None\<close> when it was left out or \<open>null\<close>.  The sequence number is a JavaScript number.
\<close>

record new_ipc =
  ni_project :: string
  ni_customer :: string
  ni_seq_no :: rat
  ni_ipc_date :: string
  ni_bill_date :: string
  ni_due_date :: string
  ni_work_pct :: decimal_input
  ni_certified :: decimal_input
  ni_cost_centre :: string
  ni_purpose :: string
  ni_output_vat :: "decimal_input option"
  ni_ait_tds :: "decimal_input option"
  ni_retention :: "decimal_input option"
  ni_advance :: "decimal_input option"
  ni_narration :: "string option"

record edit_ipc =
  ei_project :: "string option"
  ei_customer :: "string option"
  ei_seq_no :: "rat option"
  ei_ipc_date :: "string option"
  ei_bill_date :: "string option"
  ei_due_date :: "string option"
  ei_work_pct :: "decimal_input option"
  ei_certified :: "decimal_input option"
  ei_cost_centre :: "string option"
  ei_purpose :: "string option"
  ei_output_vat :: "decimal_input patch"
  ei_ait_tds :: "decimal_input patch"
  ei_retention :: "decimal_input patch"
  ei_advance :: "decimal_input patch"
  ei_narration :: "string patch"

record ipc =
  ip_id :: string
  ip_company :: string
  ip_fy :: string
  ip_project :: string
  ip_customer :: string
  ip_seq_no :: nat
  ip_ipc_date :: string
  ip_bill_date :: string
  ip_due_date :: string
  ip_work_pct :: decimal
  ip_certified :: money
  ip_cost_centre :: string
  ip_purpose :: string
  ip_output_vat :: money
  ip_ait_tds :: money
  ip_retention :: money
  ip_advance :: money
  ip_currently_due :: money
  ip_retention_pct :: decimal
  ip_advance_pct :: decimal
  ip_narration :: "string option"
  ip_status :: ipc_status
  ip_entry_no :: "string option"
  ip_journal_entry :: "string option"
  ip_posted_at :: "int option"
  ip_posted_by :: "string option"
  ip_version :: nat

section \<open>Figures\<close>

record ipc_figures =
  fg_work_pct :: decimal
  fg_certified :: money
  fg_output_vat :: money
  fg_ait_tds :: money
  fg_retention :: money
  fg_advance :: money
  fg_currently_due :: money
  fg_retention_pct :: decimal

definition assert_pct :: "decimal \<Rightarrow> domain_error + decimal" where
  "assert_pct d = (if d < 0 \<or> 100 < d then Inl (ValidationError ''workCompletedPct'') else Inr d)"

definition override_amount :: "dec_lib \<Rightarrow> decimal_input \<Rightarrow> string \<Rightarrow> domain_error + decimal" where
  "override_amount D v field =
     rbind (to_decimal v field) (\<lambda>d. rbind (assert_non_neg d field) (\<lambda>d. Inr (round4 D d)))"

definition compute_figures ::
  "dec_lib \<Rightarrow> new_ipc \<Rightarrow> ipc_rates \<Rightarrow> money \<Rightarrow> domain_error + ipc_figures" where
  "compute_figures D inp rates remaining =
     rbind (to_decimal (ni_certified inp) ''certifiedAmount'') (\<lambda>c.
     let certified = round4 D c in
     rbind (require (0 < certified) (CertifiedNotPositiveError certified)) (\<lambda>_.
     rbind (to_decimal (ni_work_pct inp) ''workCompletedPct'') (\<lambda>w.
     rbind (assert_pct w) (\<lambda>work_pct.
     rbind (case ni_output_vat inp of
              Some v \<Rightarrow> override_amount D v ''outputVatAmount''
            | None \<Rightarrow> Inr (round4 D (d_times D certified (vat_fraction D rates)))) (\<lambda>vat.
     rbind (case ni_ait_tds inp of
              Some v \<Rightarrow> override_amount D v ''aitTdsAmount''
            | None \<Rightarrow> Inr 0) (\<lambda>ait.
     rbind (case ni_retention inp of
              Some v \<Rightarrow> rbind (override_amount D v ''retentionAmount'') (\<lambda>r.
                Inr (r, if certified = 0 then rt_retention rates else d_times D (d_div D r certified) 100))
            | None \<Rightarrow> Inr (round4 D (d_times D certified (retention_fraction D rates)), rt_retention rates)) (\<lambda>(retention, pct).
     rbind (case ni_advance inp of
              Some v \<Rightarrow> override_amount D v ''advanceRecoveredAmount''
            | None \<Rightarrow> Inr (round4 D (d_times D certified (advance_fraction D rates)))) (\<lambda>raw_advance.
     let advance = min raw_advance remaining;
         due = d_minus D (d_minus D (d_minus D (d_plus D certified vat) retention) advance) ait
     in rbind (require (0 \<le> due) (CurrentlyDueNegativeError due)) (\<lambda>_.
     Inr \<lparr>fg_work_pct = work_pct, fg_certified = certified, fg_output_vat = vat, fg_ait_tds = ait,
          fg_retention = retention, fg_advance = advance, fg_currently_due = round4 D due,
          fg_retention_pct = round4 D pct\<rparr>)))))))))"

section \<open>Construction and lifecycle\<close>

definition req_seq_no :: "rat \<Rightarrow> domain_error + nat" where
  "req_seq_no n = (if of_int \<lfloor>n\<rfloor> \<noteq> n \<or> n < 1 then Inl (ValidationError ''ipcSeqNo'') else Inr (nat \<lfloor>n\<rfloor>))"

definition req_due_date :: "string \<Rightarrow> string \<Rightarrow> domain_error + string" where
  "req_due_date bill due =
     rbind (req bill ''billDate'') (\<lambda>b.
     rbind (req due ''dueDate'') (\<lambda>d.
     if d < b then Inl (ValidationError ''dueDate'') else Inr d))"

text \<open>The fields \<open>createDraft\<close> and \<open>updateDraft\<close> set, in the order both check them.\<close>

definition ipc_fill ::
  "new_ipc \<Rightarrow> ipc_figures \<Rightarrow> ipc_rates \<Rightarrow> ipc \<Rightarrow> domain_error + ipc" where
  "ipc_fill inp f rates ip =
     rbind (req (ni_project inp) ''projectId'') (\<lambda>project.
     rbind (req (ni_customer inp) ''customerId'') (\<lambda>customer.
     rbind (req_seq_no (ni_seq_no inp)) (\<lambda>seq.
     rbind (req (ni_ipc_date inp) ''ipcDate'') (\<lambda>ipc_date.
     rbind (req (ni_bill_date inp) ''billDate'') (\<lambda>bill_date.
     rbind (req_due_date (ni_bill_date inp) (ni_due_date inp)) (\<lambda>due_date.
     rbind (req (ni_cost_centre inp) ''costCentreId'') (\<lambda>cost_centre.
     rbind (req (ni_purpose inp) ''purposeId'') (\<lambda>purpose.
     Inr (ip\<lparr>ip_project := project, ip_customer := customer, ip_seq_no := seq, ip_ipc_date := ipc_date,
         ip_bill_date := bill_date, ip_due_date := due_date, ip_work_pct := fg_work_pct f,
         ip_certified := fg_certified f, ip_cost_centre := cost_centre, ip_purpose := purpose,
         ip_output_vat := fg_output_vat f, ip_ait_tds := fg_ait_tds f, ip_retention := fg_retention f,
         ip_advance := fg_advance f, ip_currently_due := fg_currently_due f,
         ip_retention_pct := fg_retention_pct f, ip_advance_pct := rt_advance rates,
         ip_narration := ni_narration inp\<rparr>)))))))))"

definition blank_ipc :: "string \<Rightarrow> string \<Rightarrow> string \<Rightarrow> ipc" where
  "blank_ipc i co fy =
     \<lparr>ip_id = i, ip_company = co, ip_fy = fy, ip_project = [], ip_customer = [], ip_seq_no = 0,
      ip_ipc_date = [], ip_bill_date = [], ip_due_date = [], ip_work_pct = 0, ip_certified = 0,
      ip_cost_centre = [], ip_purpose = [], ip_output_vat = 0, ip_ait_tds = 0, ip_retention = 0,
      ip_advance = 0, ip_currently_due = 0, ip_retention_pct = 0, ip_advance_pct = 0,
      ip_narration = None, ip_status = IpcDraft, ip_entry_no = None, ip_journal_entry = None,
      ip_posted_at = None, ip_posted_by = None, ip_version = 1\<rparr>"

definition ipc_create_draft ::
  "dec_lib \<Rightarrow> string \<Rightarrow> string \<Rightarrow> string \<Rightarrow> new_ipc \<Rightarrow> ipc_rates \<Rightarrow> money \<Rightarrow> domain_error + ipc" where
  "ipc_create_draft D i co fy inp rates remaining =
     rbind (compute_figures D inp rates remaining) (\<lambda>f. ipc_fill inp f rates (blank_ipc i co fy))"

definition ipc_assert_draft :: "ipc \<Rightarrow> domain_error + unit" where
  "ipc_assert_draft ip = require (ip_status ip = IpcDraft) (NotDraftError (ipc_status_name (ip_status ip)))"

definition override_patch :: "'a patch \<Rightarrow> 'a option" where
  "override_patch p = (case p of Given x \<Rightarrow> Some x | _ \<Rightarrow> None)"

definition ipc_merge :: "ipc \<Rightarrow> edit_ipc \<Rightarrow> new_ipc" where
  "ipc_merge p e =
     \<lparr>ni_project = (case ei_project e of Some x \<Rightarrow> x | None \<Rightarrow> ip_project p),
      ni_customer = (case ei_customer e of Some x \<Rightarrow> x | None \<Rightarrow> ip_customer p),
      ni_seq_no = (case ei_seq_no e of Some x \<Rightarrow> x | None \<Rightarrow> of_nat (ip_seq_no p)),
      ni_ipc_date = (case ei_ipc_date e of Some x \<Rightarrow> x | None \<Rightarrow> ip_ipc_date p),
      ni_bill_date = (case ei_bill_date e of Some x \<Rightarrow> x | None \<Rightarrow> ip_bill_date p),
      ni_due_date = (case ei_due_date e of Some x \<Rightarrow> x | None \<Rightarrow> ip_due_date p),
      ni_work_pct = (case ei_work_pct e of Some x \<Rightarrow> x | None \<Rightarrow> Dec (ip_work_pct p)),
      ni_certified = (case ei_certified e of Some x \<Rightarrow> x | None \<Rightarrow> Dec (ip_certified p)),
      ni_cost_centre = (case ei_cost_centre e of Some x \<Rightarrow> x | None \<Rightarrow> ip_cost_centre p),
      ni_purpose = (case ei_purpose e of Some x \<Rightarrow> x | None \<Rightarrow> ip_purpose p),
      ni_output_vat = override_patch (ei_output_vat e),
      ni_ait_tds = (case ei_ait_tds e of Undefined \<Rightarrow> Some (Dec (ip_ait_tds p)) | Null \<Rightarrow> None | Given x \<Rightarrow> Some x),
      ni_retention = override_patch (ei_retention e),
      ni_advance = override_patch (ei_advance e),
      ni_narration = patch_defined (ei_narration e) (ip_narration p)\<rparr>"

definition ipc_update_draft ::
  "dec_lib \<Rightarrow> edit_ipc \<Rightarrow> ipc_rates \<Rightarrow> money \<Rightarrow> ipc \<Rightarrow> domain_error + ipc" where
  "ipc_update_draft D e rates remaining ip =
     rbind (ipc_assert_draft ip) (\<lambda>_.
     rbind (compute_figures D (ipc_merge ip e) rates remaining) (\<lambda>f.
     ipc_fill (ipc_merge ip e) f rates ip))"

definition assert_advance_within :: "money \<Rightarrow> ipc \<Rightarrow> domain_error + unit" where
  "assert_advance_within remaining ip =
     require (\<not> remaining < ip_advance ip) (AdvanceExceededError (ip_advance ip) remaining)"

definition ipc_mark_posted :: "string \<Rightarrow> string \<Rightarrow> string \<Rightarrow> int \<Rightarrow> ipc \<Rightarrow> domain_error + ipc" where
  "ipc_mark_posted entry_id entry_no who time ip =
     rbind (ipc_assert_draft ip) (\<lambda>_.
     Inr (ip\<lparr>ip_status := IpcPosted, ip_journal_entry := Some entry_id, ip_entry_no := Some entry_no,
             ip_posted_by := Some who, ip_posted_at := Some time\<rparr>))"

definition ipc_mark_cancelled :: "ipc \<Rightarrow> domain_error + ipc" where
  "ipc_mark_cancelled ip =
     (if ip_status ip \<noteq> IpcPosted then Inl (NotDraftError (ipc_status_name (ip_status ip)))
      else Inr (ip\<lparr>ip_status := IpcCancelled\<rparr>))"

section \<open>The ledger lines\<close>

record sales_account_map =
  sa_receivable :: string
  sa_retention :: string
  sa_advance :: string
  sa_ait :: string
  sa_revenue :: string
  sa_vat :: string

definition ipc_line ::
  "ipc \<Rightarrow> string \<Rightarrow> string option \<Rightarrow> money \<Rightarrow> money \<Rightarrow> account_type \<Rightarrow> bool \<Rightarrow> posting_line" where
  "ipc_line p acc party dr cr ty ctl =
     dim_line acc (Some (ip_project p)) (Some (ip_cost_centre p)) (Some (ip_purpose p)) party dr cr ty ctl"

definition ipc_lines :: "dec_lib \<Rightarrow> ipc \<Rightarrow> sales_account_map \<Rightarrow> posting_line list" where
  "ipc_lines D p a =
     [ipc_line p (sa_receivable a) (Some (ip_customer p)) (d_plus D (ip_certified p) (ip_output_vat p)) 0 ASSET True,
      ipc_line p (sa_revenue a) None 0 (ip_certified p) INCOME False] @
     (if 0 < ip_output_vat p then [ipc_line p (sa_vat a) None 0 (ip_output_vat p) LIABILITY False] else []) @
     (if 0 < ip_ait_tds p
      then [ipc_line p (sa_ait a) None (ip_ait_tds p) 0 ASSET False,
            ipc_line p (sa_receivable a) (Some (ip_customer p)) 0 (ip_ait_tds p) ASSET True] else []) @
     (if 0 < ip_retention p
      then [ipc_line p (sa_retention a) (Some (ip_customer p)) (ip_retention p) 0 ASSET True,
            ipc_line p (sa_receivable a) (Some (ip_customer p)) 0 (ip_retention p) ASSET True] else []) @
     (if 0 < ip_advance p
      then [ipc_line p (sa_advance a) (Some (ip_customer p)) (ip_advance p) 0 LIABILITY True,
            ipc_line p (sa_receivable a) (Some (ip_customer p)) 0 (ip_advance p) ASSET True] else [])"

definition build_ipc_command :: "dec_lib \<Rightarrow> ipc \<Rightarrow> sales_account_map \<Rightarrow> string \<Rightarrow> posting_command" where
  "build_ipc_command D p a posted_by =
     \<lparr>pc_company = ip_company p, pc_fy = ip_fy p, pc_voucher_type = SALES_IPC, pc_voucher_date = ip_ipc_date p,
      pc_source_type = ''SalesInvoice'', pc_source_id = ip_id p, pc_posted_by = posted_by,
      pc_narration = ip_narration p, pc_lines = ipc_lines D p a\<rparr>"

section \<open>The figures of a certificate\<close>

text \<open>
  \<open>amounts_ok\<close>: the five amounts have four decimals and none is negative, the certified amount is
  positive, and the currently-due amount is the exact residual.  \<open>amounts_fit\<close> bounds them by
  what the totals of a ledger entry can hold.
\<close>

definition amounts_ok :: "money \<Rightarrow> money \<Rightarrow> money \<Rightarrow> money \<Rightarrow> money \<Rightarrow> money \<Rightarrow> bool" where
  "amounts_ok certified vat ait retention advance due \<longleftrightarrow>
     0 < certified \<and> nonneg_grid certified \<and> nonneg_grid vat \<and> nonneg_grid ait \<and> nonneg_grid retention \<and>
     nonneg_grid advance \<and> 0 \<le> due \<and> due = certified + vat - retention - advance - ait"

definition amounts_fit :: "money \<Rightarrow> money \<Rightarrow> money \<Rightarrow> money \<Rightarrow> money \<Rightarrow> bool" where
  "amounts_fit certified vat ait retention advance \<longleftrightarrow> certified + vat + ait + retention + advance < 10 ^ 15"

definition figures_ok :: "ipc_figures \<Rightarrow> bool" where
  "figures_ok f \<longleftrightarrow> amounts_ok (fg_certified f) (fg_output_vat f) (fg_ait_tds f) (fg_retention f)
     (fg_advance f) (fg_currently_due f)"

definition figures_fit :: "ipc_figures \<Rightarrow> bool" where
  "figures_fit f \<longleftrightarrow> amounts_fit (fg_certified f) (fg_output_vat f) (fg_ait_tds f) (fg_retention f) (fg_advance f)"

definition ipc_amounts_ok :: "ipc \<Rightarrow> bool" where
  "ipc_amounts_ok p \<longleftrightarrow> amounts_ok (ip_certified p) (ip_output_vat p) (ip_ait_tds p) (ip_retention p)
     (ip_advance p) (ip_currently_due p)"

definition ipc_fits :: "ipc \<Rightarrow> bool" where
  "ipc_fits p \<longleftrightarrow> amounts_fit (ip_certified p) (ip_output_vat p) (ip_ait_tds p) (ip_retention p) (ip_advance p)"

definition rates_ok :: "ipc_rates \<Rightarrow> bool" where
  "rates_ok r \<longleftrightarrow> 0 \<le> rt_retention r \<and> 0 \<le> rt_advance r \<and> 0 \<le> rt_vat r"

lemma rates_of_ok: "rates_of a b c = Inr r \<Longrightarrow> rates_ok r"
  by (auto simp: rates_of_def rates_pct_def rates_ok_def elim!: rbindE split: decimal_input.splits if_splits)

lemma nonneg_grid_add: "nonneg_grid x \<Longrightarrow> nonneg_grid y \<Longrightarrow> nonneg_grid (x + y)"
  by (auto simp: nonneg_grid_def)

context decimal_js begin

lemma override_amount_Inr: "override_amount D v f = Inr x \<Longrightarrow> nonneg_grid x"
  by (auto simp: override_amount_def nonneg_grid_def round4_nonneg elim!: rbindE)

lemma optional_amount:
  "(case v of Some w \<Rightarrow> override_amount D w f | None \<Rightarrow> Inr d) = Inr x \<Longrightarrow> nonneg_grid d \<Longrightarrow> nonneg_grid x"
  by (cases v) (auto dest: override_amount_Inr)

lemma rate_amount_ok:
  assumes "0 \<le> certified" and "0 \<le> pct"
  shows "nonneg_grid (round4 D (d_times D certified (d_div D pct 100)))"
  using assms by (auto simp: nonneg_grid_def d_times_def d_div_def intro!: round4_nonneg rnd_nonneg mult_nonneg_nonneg)

lemma residual_exact:
  assumes "nonneg_grid a" and "nonneg_grid b" and "nonneg_grid c" and "nonneg_grid d" and "nonneg_grid e"
    and "a + b + c + d + e < 10 ^ 15"
  shows "d_minus D (d_minus D (d_minus D (d_plus D a b) c) d) e = a + b - c - d - e"
proof -
  have g: "on_grid 4 a" "on_grid 4 b" "on_grid 4 c" "on_grid 4 d" "on_grid 4 e"
    and n: "0 \<le> a" "0 \<le> b" "0 \<le> c" "0 \<le> d" "0 \<le> e" using assms(1-5) by (auto simp: nonneg_grid_def)
  have "exact_range (a + b)" "exact_range (a + b - c)" "exact_range (a + b - c - d)" "exact_range (a + b - c - d - e)"
    using g n assms(6) by (auto simp: exact_range_def intro!: on_grid_add on_grid_diff)
  then show ?thesis by (simp add: plus_exact minus_exact)
qed

text \<open>
  A remaining advance beyond the range where the subtraction is exact is larger than any amount a
  column holds.
\<close>

lemma compute_figures_ok:
  assumes "compute_figures D inp rates remaining = Inr f" and "rates_ok rates"
    and "nonneg_grid remaining \<or> 10 ^ 15 \<le> remaining" and "figures_fit f"
  shows "figures_ok f" and "fg_advance f \<le> remaining"
proof -
  from assms(1) obtain c w vat ait ret pct raw where
    f: "f = \<lparr>fg_work_pct = w, fg_certified = round4 D c, fg_output_vat = vat, fg_ait_tds = ait,
          fg_retention = ret, fg_advance = min raw remaining,
          fg_currently_due = round4 D (d_minus D (d_minus D (d_minus D (d_plus D (round4 D c) vat) ret) (min raw remaining)) ait),
          fg_retention_pct = round4 D pct\<rparr>"
    and pos: "0 < round4 D c"
    and due: "0 \<le> d_minus D (d_minus D (d_minus D (d_plus D (round4 D c) vat) ret) (min raw remaining)) ait"
    and cases: "(case ni_output_vat inp of Some v \<Rightarrow> override_amount D v ''outputVatAmount''
          | None \<Rightarrow> Inr (round4 D (d_times D (round4 D c) (vat_fraction D rates)))) = Inr vat"
      "(case ni_ait_tds inp of Some v \<Rightarrow> override_amount D v ''aitTdsAmount'' | None \<Rightarrow> Inr 0) = Inr ait"
      "(case ni_retention inp of
              Some v \<Rightarrow> rbind (override_amount D v ''retentionAmount'') (\<lambda>r.
                Inr (r, if round4 D c = 0 then rt_retention rates else d_times D (d_div D r (round4 D c)) 100))
            | None \<Rightarrow> Inr (round4 D (d_times D (round4 D c) (retention_fraction D rates)), rt_retention rates)) = Inr (ret, pct)"
      "(case ni_advance inp of Some v \<Rightarrow> override_amount D v ''advanceRecoveredAmount''
            | None \<Rightarrow> Inr (round4 D (d_times D (round4 D c) (advance_fraction D rates)))) = Inr raw"
    unfolding compute_figures_def Let_def by (elim rbindE) (auto split: prod.splits elim!: rbindE)
  have rate: "nonneg_grid (round4 D (d_times D (round4 D c) (vat_fraction D rates)))"
    "nonneg_grid (round4 D (d_times D (round4 D c) (retention_fraction D rates)))"
    "nonneg_grid (round4 D (d_times D (round4 D c) (advance_fraction D rates)))"
    unfolding vat_fraction_def retention_fraction_def advance_fraction_def
    using assms(2) pos by (simp_all add: rates_ok_def rate_amount_ok)
  have "nonneg_grid ret" using cases(3) rate(2)
    by (cases "ni_retention inp") (auto elim!: rbindE dest: override_amount_Inr)
  then have g: "nonneg_grid vat" "nonneg_grid ait" "nonneg_grid ret" "nonneg_grid raw"
    using optional_amount [OF cases(1) rate(1)] optional_amount [OF cases(2)] optional_amount [OF cases(4) rate(3)]
    by (simp_all add: nonneg_grid_def)
  have c: "nonneg_grid (round4 D c)" using pos by (auto simp: nonneg_grid_def)
  have a: "nonneg_grid (min raw remaining)"
  proof (cases "nonneg_grid remaining")
    case True
    with g(4) show ?thesis by (auto simp: nonneg_grid_def min_def)
  next
    case False
    with assms(3) have "10 ^ 15 \<le> remaining" by simp
    with assms(4) g c have "min raw remaining = raw"
      by (auto simp: figures_fit_def amounts_fit_def f nonneg_grid_def min_def split: if_splits)
    with g(4) show ?thesis by simp
  qed
  have ex: "d_minus D (d_minus D (d_minus D (d_plus D (round4 D c) vat) ret) (min raw remaining)) ait =
      round4 D c + vat - ret - min raw remaining - ait"
    using assms(4) by (intro residual_exact c g a) (simp add: figures_fit_def amounts_fit_def f)
  have "on_grid 4 (round4 D c + vat - ret - min raw remaining - ait)"
    using c g a by (intro on_grid_add on_grid_diff) (simp_all add: nonneg_grid_def)
  with ex due pos c g a show "figures_ok f" by (simp add: figures_ok_def amounts_ok_def f round4_id)
  show "fg_advance f \<le> remaining" by (simp add: f)
qed

end

section \<open>The command of a certificate\<close>

definition ipc_dims_ok :: "ipc \<Rightarrow> bool" where
  "ipc_dims_ok p \<longleftrightarrow> ip_project p \<noteq> [] \<and> ip_customer p \<noteq> [] \<and> ip_cost_centre p \<noteq> [] \<and> ip_purpose p \<noteq> []"

definition sales_accounts_distinct :: "sales_account_map \<Rightarrow> bool" where
  "sales_accounts_distinct a \<longleftrightarrow>
     distinct [sa_receivable a, sa_retention a, sa_advance a, sa_ait a, sa_revenue a, sa_vat a]"

lemma ipc_line_simps [simp]:
  "pl_account (ipc_line p acc party dr cr ty ctl) = acc" "pl_project (ipc_line p acc party dr cr ty ctl) = Some (ip_project p)"
  "pl_cost_centre (ipc_line p acc party dr cr ty ctl) = Some (ip_cost_centre p)"
  "pl_purpose (ipc_line p acc party dr cr ty ctl) = Some (ip_purpose p)" "pl_party (ipc_line p acc party dr cr ty ctl) = party"
  "pl_debit (ipc_line p acc party dr cr ty ctl) = dr" "pl_credit (ipc_line p acc party dr cr ty ctl) = cr"
  "pl_is_control (ipc_line p acc party dr cr ty ctl) = Some ctl"
  by (simp_all add: ipc_line_def)

context decimal_js begin

lemma ipc_gross:
  assumes "ipc_amounts_ok p" and "ipc_fits p"
  shows "d_plus D (ip_certified p) (ip_output_vat p) = ip_certified p + ip_output_vat p"
  using assms
  by (auto simp: ipc_amounts_ok_def amounts_ok_def ipc_fits_def amounts_fit_def nonneg_grid_def exact_range_def
      intro!: plus_exact on_grid_add)

text \<open>A pair of lines that is left out when its amount is zero contributes that amount either way.\<close>

lemma optional_lines:
  assumes "0 \<le> x"
  shows "total_dr ls = x \<Longrightarrow> total_dr (if 0 < x then ls else []) = x"
    and "total_cr ls = x \<Longrightarrow> total_cr (if 0 < x then ls else []) = x"
    and "lines_net acc ls = y \<Longrightarrow> (x = 0 \<Longrightarrow> y = 0) \<Longrightarrow> lines_net acc (if 0 < x then ls else []) = y"
  using assms by auto

lemma list_all_optional: "list_all Q (if b then ls else []) \<longleftrightarrow> (b \<longrightarrow> list_all Q ls)"
  by simp

lemma ipc_amounts_nonneg:
  "ipc_amounts_ok p \<Longrightarrow> 0 \<le> ip_output_vat p \<and> 0 \<le> ip_ait_tds p \<and> 0 \<le> ip_retention p \<and> 0 \<le> ip_advance p \<and> 0 < ip_certified p"
  by (auto simp: ipc_amounts_ok_def amounts_ok_def nonneg_grid_def)

lemma ipc_lines_totals:
  assumes "ipc_amounts_ok p" and "ipc_fits p"
  shows "total_dr (ipc_lines D p a) = ip_certified p + ip_output_vat p + ip_ait_tds p + ip_retention p + ip_advance p"
    and "total_cr (ipc_lines D p a) = ip_certified p + ip_output_vat p + ip_ait_tds p + ip_retention p + ip_advance p"
  using ipc_gross [OF assms] ipc_amounts_nonneg [OF assms(1)]
  by (simp_all add: ipc_lines_def optional_lines)

lemma ipc_lines_ok:
  assumes "ipc_amounts_ok p" and "ipc_fits p"
  shows "\<forall>l \<in> set (ipc_lines D p a). pl_ok l \<and> pl_grid l" and "2 \<le> length (ipc_lines D p a)"
proof -
  have g: "on_grid 4 (ip_certified p)" "on_grid 4 (ip_output_vat p)" "on_grid 4 (ip_ait_tds p)"
    "on_grid 4 (ip_retention p)" "on_grid 4 (ip_advance p)" "on_grid 4 (ip_certified p + ip_output_vat p)"
    using assms(1) by (auto simp: ipc_amounts_ok_def amounts_ok_def nonneg_grid_def)
  have n: "0 < ip_certified p + ip_output_vat p" using ipc_amounts_nonneg [OF assms(1)] by auto
  show "\<forall>l \<in> set (ipc_lines D p a). pl_ok l \<and> pl_grid l"
    unfolding ipc_lines_def Ball_set list_all_append list_all_optional
    using ipc_gross [OF assms] ipc_amounts_nonneg [OF assms(1)] g n by (simp add: pl_ok_def pl_grid_def)
  show "2 \<le> length (ipc_lines D p a)" by (simp add: ipc_lines_def)
qed

lemma ipc_lines_tagged:
  assumes "ipc_dims_ok p" shows "\<forall>l \<in> set (ipc_lines D p a). tagged SALES_IPC l"
  unfolding ipc_lines_def Ball_set list_all_append list_all_optional
  using assms by (simp add: tagged_fixed ipc_dims_ok_def)

lemma ipc_lines_net:
  assumes "ipc_amounts_ok p" and "ipc_fits p" and "sales_accounts_distinct a"
  shows "lines_net (sa_receivable a) (ipc_lines D p a) = ip_currently_due p"
    and "lines_net (sa_retention a) (ipc_lines D p a) = ip_retention p"
    and "lines_net (sa_advance a) (ipc_lines D p a) = ip_advance p"
    and "lines_net (sa_ait a) (ipc_lines D p a) = ip_ait_tds p"
    and "lines_net (sa_revenue a) (ipc_lines D p a) = - ip_certified p"
    and "lines_net (sa_vat a) (ipc_lines D p a) = - ip_output_vat p"
proof -
  have due: "ip_currently_due p = ip_certified p + ip_output_vat p - ip_retention p - ip_advance p - ip_ait_tds p"
    using assms(1) by (simp add: ipc_amounts_ok_def amounts_ok_def)
  note n = ipc_amounts_nonneg [OF assms(1)] and g = ipc_gross [OF assms(1,2)]
  have "distinct (rev [sa_receivable a, sa_retention a, sa_advance a, sa_ait a, sa_revenue a, sa_vat a])"
    using assms(3) by (simp only: distinct_rev sales_accounts_distinct_def)
  note d = assms(3) [unfolded sales_accounts_distinct_def, simplified] this [simplified]
  have z: "(if 0 < x then ls else []) = (if x = 0 then [] else ls)" if "0 \<le> x" for x :: rat and ls :: "posting_line list"
    using that by auto
  show "lines_net (sa_receivable a) (ipc_lines D p a) = ip_currently_due p"
    using d n unfolding ipc_lines_def due by (simp add: g z)
  show "lines_net (sa_retention a) (ipc_lines D p a) = ip_retention p"
    using d n unfolding ipc_lines_def by (simp add: g z)
  show "lines_net (sa_advance a) (ipc_lines D p a) = ip_advance p"
    using d n unfolding ipc_lines_def by (simp add: g z)
  show "lines_net (sa_ait a) (ipc_lines D p a) = ip_ait_tds p"
    using d n unfolding ipc_lines_def by (simp add: g z)
  show "lines_net (sa_revenue a) (ipc_lines D p a) = - ip_certified p"
    using d n unfolding ipc_lines_def by (simp add: g z)
  show "lines_net (sa_vat a) (ipc_lines D p a) = - ip_output_vat p"
    using d n unfolding ipc_lines_def by (simp add: g z)
qed

end

end
