(* ===== verification/Sales_Use_Cases.thy ===== *)
theory Sales_Use_Cases
  imports Sales_Ipc
begin

text \<open>
  The sales module around its aggregate (\<open>src/src/modules/sales/\<close>): the retention release, the
  repositories over their tables, the adapters that read the master data and the ledger, and the use
  cases create, update, delete, post, cancel, repost and release retention, each one transaction.

  \<open>find\<close> of TypeORM with \<open>deletedAt: null\<close> in its conditions is a parameter \<open>nn\<close>: whether the library
  turns a \<open>null\<close> there into \<open>IS NULL\<close>.  Foreign keys are not modelled.
\<close>

section \<open>Retention releases\<close>

datatype release_status = RelDraft | RelPosted | RelCancelled

record retention_release =
  rr_id :: string
  rr_company :: string
  rr_fy :: string
  rr_ipc :: string
  rr_project :: string
  rr_customer :: string
  rr_cost_centre :: string
  rr_purpose :: string
  rr_date :: string
  rr_amount :: money
  rr_narration :: "string option"
  rr_status :: release_status
  rr_entry_no :: "string option"
  rr_journal_entry :: "string option"
  rr_posted_at :: "int option"
  rr_posted_by :: "string option"
  rr_version :: nat

record new_release =
  nr_company :: string
  nr_fy :: string
  nr_ipc :: string
  nr_project :: string
  nr_customer :: string
  nr_cost_centre :: string
  nr_purpose :: string
  nr_date :: string
  nr_amount :: decimal_input
  nr_narration :: "string option"

definition assert_releasable :: "money \<Rightarrow> retention_release \<Rightarrow> domain_error + unit" where
  "assert_releasable held r =
     rbind (require (0 < rr_amount r) (ValidationError ''releasedAmount'')) (\<lambda>_.
     require (\<not> held < rr_amount r) (OverReleaseError (rr_amount r) held))"

definition release_create_draft ::
  "dec_lib \<Rightarrow> string \<Rightarrow> new_release \<Rightarrow> money \<Rightarrow> domain_error + retention_release" where
  "release_create_draft D i inp held =
     rbind (to_decimal (nr_amount inp) ''releasedAmount'') (\<lambda>x.
     rbind (req (nr_company inp) ''companyId'') (\<lambda>company.
     rbind (req (nr_fy inp) ''financialYearId'') (\<lambda>fy.
     rbind (req (nr_ipc inp) ''ipcId'') (\<lambda>ipc_id.
     rbind (req (nr_project inp) ''projectId'') (\<lambda>project.
     rbind (req (nr_customer inp) ''customerId'') (\<lambda>customer.
     rbind (req (nr_cost_centre inp) ''costCentreId'') (\<lambda>cost_centre.
     rbind (req (nr_purpose inp) ''purposeId'') (\<lambda>purpose.
     rbind (req (nr_date inp) ''releaseDate'') (\<lambda>date.
     let r = \<lparr>rr_id = i, rr_company = company, rr_fy = fy, rr_ipc = ipc_id, rr_project = project,
       rr_customer = customer, rr_cost_centre = cost_centre, rr_purpose = purpose, rr_date = date,
       rr_amount = round4 D x, rr_narration = nr_narration inp, rr_status = RelDraft, rr_entry_no = None,
       rr_journal_entry = None, rr_posted_at = None, rr_posted_by = None, rr_version = 1\<rparr>
     in rbind (assert_releasable held r) (\<lambda>_. Inr r))))))))))"

definition release_mark_posted ::
  "string \<Rightarrow> string \<Rightarrow> string \<Rightarrow> int \<Rightarrow> retention_release \<Rightarrow> domain_error + retention_release" where
  "release_mark_posted entry_id entry_no who time r =
     (if rr_status r \<noteq> RelDraft then Inl (ValidationError ''status'')
      else Inr (r\<lparr>rr_status := RelPosted, rr_journal_entry := Some entry_id, rr_entry_no := Some entry_no,
                 rr_posted_by := Some who, rr_posted_at := Some time\<rparr>))"

definition release_command :: "retention_release \<Rightarrow> sales_account_map \<Rightarrow> string \<Rightarrow> posting_command" where
  "release_command r a posted_by =
     \<lparr>pc_company = rr_company r, pc_fy = rr_fy r, pc_voucher_type = JOURNAL, pc_voucher_date = rr_date r,
      pc_source_type = ''RetentionRelease'', pc_source_id = rr_id r, pc_posted_by = posted_by,
      pc_narration = rr_narration r,
      pc_lines =
       [dim_line (sa_receivable a) (Some (rr_project r)) (Some (rr_cost_centre r)) (Some (rr_purpose r))
          (Some (rr_customer r)) (rr_amount r) 0 ASSET True,
        dim_line (sa_retention a) (Some (rr_project r)) (Some (rr_cost_centre r)) (Some (rr_purpose r))
          (Some (rr_customer r)) 0 (rr_amount r) ASSET True]\<rparr>"

section \<open>State\<close>

record project_row =
  pj_id :: string
  pj_company :: string
  pj_customer :: string

record ipc_row =
  ir_ipc :: ipc
  ir_deleted :: bool

record sales_db = db +
  sal_accounts :: "account_row list"
  sal_projects :: "project_row list"
  sal_ipcs :: "ipc_row list"
  sal_releases :: "retention_release list"

section \<open>Adapters\<close>

definition by_code :: "string \<Rightarrow> string \<Rightarrow> string \<Rightarrow> account_row list \<Rightarrow> domain_error + string" where
  "by_code co code role accs =
     (case List.find (\<lambda>a. ac_company a = co \<and> ac_code a = code) accs of
        None \<Rightarrow> Inl (SalesAccountNotConfiguredError role) | Some a \<Rightarrow> Inr (ac_id a))"

definition resolve_sales_accounts :: "string \<Rightarrow> account_row list \<Rightarrow> domain_error + sales_account_map" where
  "resolve_sales_accounts co accs =
     rbind (by_code co ''1200'' ''accounts-receivable control'' accs) (\<lambda>ar.
     rbind (by_code co ''1210'' ''retention-receivable'' accs) (\<lambda>ret.
     rbind (by_code co ''2110'' ''mobilization-advance'' accs) (\<lambda>adv.
     rbind (by_code co ''1220'' ''AIT-recoverable'' accs) (\<lambda>ait.
     rbind (by_code co ''4100'' ''revenue - construction'' accs) (\<lambda>rev.
     rbind (by_code co ''2200'' ''output-VAT payable'' accs) (\<lambda>vat.
     Inr \<lparr>sa_receivable = ar, sa_retention = ret, sa_advance = adv, sa_ait = ait, sa_revenue = rev, sa_vat = vat\<rparr>))))))"

definition resolve_customer :: "string \<Rightarrow> string \<Rightarrow> project_row list \<Rightarrow> string option" where
  "resolve_customer co project ps =
     map_option pj_customer (List.find (\<lambda>p. pj_id p = project \<and> pj_company p = co) ps)"

definition ipc_config_rates :: "domain_error + ipc_rates" where
  "ipc_config_rates = rates_of (Dec 10) (Dec 15) (Dec (15 / 2))"

text \<open>The sums of the query run over \<open>numeric\<close> values and are exact; the subtraction is decimal.js's.\<close>

definition party_lines :: "string \<Rightarrow> string \<Rightarrow> string \<Rightarrow> string \<Rightarrow> journal_entry list \<Rightarrow> journal_line list" where
  "party_lines co account customer project es =
     filter (\<lambda>l. jl_account l = account \<and> jl_party l = Some customer \<and> jl_project l = Some project)
       (concat (map je_lines (filter (\<lambda>e. je_company e = co) es)))"

definition remaining_advance ::
  "dec_lib \<Rightarrow> string \<Rightarrow> string \<Rightarrow> string \<Rightarrow> 'a sales_db_scheme \<Rightarrow> money" where
  "remaining_advance D co project customer s =
     (case List.find (\<lambda>a. ac_company a = co \<and> ac_code a = ''2110'') (sal_accounts s) of
        None \<Rightarrow> 0
      | Some a \<Rightarrow>
          let ls = party_lines co (ac_id a) customer project (db_entries s);
              remaining = d_minus D (sum_list (map jl_credit ls)) (sum_list (map jl_debit ls))
          in if remaining < 0 then 0 else remaining)"

section \<open>Repositories\<close>

text \<open>
  The columns of \<open>sales_invoice\<close> hold four decimals; the checks of the table and its unique index over
  the rows that are not deleted.
\<close>

definition stored_ipc :: "dec_lib \<Rightarrow> ipc \<Rightarrow> ipc" where
  "stored_ipc D p = p\<lparr>ip_work_pct := to_dp D 4 (ip_work_pct p), ip_certified := to_dp D 4 (ip_certified p),
     ip_output_vat := to_dp D 4 (ip_output_vat p), ip_ait_tds := to_dp D 4 (ip_ait_tds p),
     ip_retention := to_dp D 4 (ip_retention p), ip_advance := to_dp D 4 (ip_advance p),
     ip_currently_due := to_dp D 4 (ip_currently_due p), ip_retention_pct := to_dp D 4 (ip_retention_pct p),
     ip_advance_pct := to_dp D 4 (ip_advance_pct p)\<rparr>"

definition ipc_row_checks :: "ipc \<Rightarrow> domain_error + unit" where
  "ipc_row_checks p =
     rbind (require (list_all (\<lambda>x. \<bar>x\<bar> < 10 ^ 14) [ip_work_pct p, ip_certified p, ip_output_vat p, ip_ait_tds p,
         ip_retention p, ip_advance p, ip_currently_due p, ip_retention_pct p, ip_advance_pct p])
       (DatabaseError ''numeric field overflow'')) (\<lambda>_.
     rbind (require (0 < ip_certified p) (DatabaseError ''chk_sales_invoice_certified_pos'')) (\<lambda>_.
     rbind (require (0 \<le> ip_currently_due p) (DatabaseError ''chk_sales_invoice_due_nonneg'')) (\<lambda>_.
     require (0 < ip_seq_no p) (DatabaseError ''chk_sales_invoice_seq_pos''))))"

definition same_seq :: "ipc \<Rightarrow> ipc_row \<Rightarrow> bool" where
  "same_seq p r \<longleftrightarrow> \<not> ir_deleted r \<and> ip_company (ir_ipc r) = ip_company p \<and>
     ip_project (ir_ipc r) = ip_project p \<and> ip_seq_no (ir_ipc r) = ip_seq_no p"

definition ipc_insert :: "dec_lib \<Rightarrow> ipc \<Rightarrow> ipc_row list \<Rightarrow> domain_error + ipc_row list" where
  "ipc_insert D p tbl =
     (let q = (stored_ipc D p)\<lparr>ip_version := 1\<rparr> in
      rbind (ipc_row_checks q) (\<lambda>_.
      rbind (require (\<not> list_ex (\<lambda>r. ip_id (ir_ipc r) = ip_id q) tbl) (DatabaseError ''sales_invoice_pkey'')) (\<lambda>_.
      rbind (require (\<not> list_ex (same_seq q) tbl) (DatabaseError ''uq_sales_invoice_project_seq'')) (\<lambda>_.
      Inr (tbl @ [\<lparr>ir_ipc = q, ir_deleted = False\<rparr>])))))"

definition ipc_save :: "dec_lib \<Rightarrow> ipc \<Rightarrow> nat \<Rightarrow> ipc_row list \<Rightarrow> domain_error + ipc_row list" where
  "ipc_save D p expected tbl =
     (let hit = (\<lambda>r. ip_id (ir_ipc r) = ip_id p \<and> ip_company (ir_ipc r) = ip_company p \<and> ip_version (ir_ipc r) = expected);
          new = (\<lambda>r. r\<lparr>ir_ipc := (stored_ipc D p)\<lparr>ip_fy := ip_fy (ir_ipc r), ip_version := expected + 1\<rparr>\<rparr>)
      in if \<not> list_ex hit tbl then Inl OptimisticLockConflictError
         else
           rbind (ipc_row_checks (stored_ipc D p)) (\<lambda>_.
           rbind (require (\<not> list_ex (\<lambda>r. \<not> hit r \<and> same_seq p r) tbl \<or> list_all (\<lambda>r. hit r \<longrightarrow> ir_deleted r) tbl)
                    (DatabaseError ''uq_sales_invoice_project_seq'')) (\<lambda>_.
           Inr (update_where hit new tbl))))"

definition ipc_find :: "bool \<Rightarrow> string \<Rightarrow> string \<Rightarrow> ipc_row list \<Rightarrow> ipc option" where
  "ipc_find nn i co tbl =
     map_option ir_ipc (List.find (\<lambda>r. ip_id (ir_ipc r) = i \<and> ip_company (ir_ipc r) = co \<and> (nn \<longrightarrow> \<not> ir_deleted r)) tbl)"

definition ipc_find_for_update :: "string \<Rightarrow> string \<Rightarrow> ipc_row list \<Rightarrow> ipc option" where
  "ipc_find_for_update i co tbl =
     map_option ir_ipc (List.find (\<lambda>r. ip_id (ir_ipc r) = i \<and> ip_company (ir_ipc r) = co \<and> \<not> ir_deleted r) tbl)"

definition exists_seq_no :: "bool \<Rightarrow> string \<Rightarrow> string \<Rightarrow> rat \<Rightarrow> ipc_row list \<Rightarrow> bool" where
  "exists_seq_no nn co project seq tbl =
     list_ex (\<lambda>r. ip_company (ir_ipc r) = co \<and> ip_project (ir_ipc r) = project \<and>
        of_nat (ip_seq_no (ir_ipc r)) = seq \<and> (nn \<longrightarrow> \<not> ir_deleted r)) tbl"

definition ipc_soft_delete :: "string \<Rightarrow> string \<Rightarrow> ipc_row list \<Rightarrow> ipc_row list" where
  "ipc_soft_delete i co tbl =
     update_where (\<lambda>r. ip_id (ir_ipc r) = i \<and> ip_company (ir_ipc r) = co) (\<lambda>r. r\<lparr>ir_deleted := True\<rparr>) tbl"

definition release_insert ::
  "dec_lib \<Rightarrow> retention_release \<Rightarrow> retention_release list \<Rightarrow> domain_error + retention_release list" where
  "release_insert D r tbl =
     (let q = r\<lparr>rr_amount := to_dp D 4 (rr_amount r), rr_version := 1\<rparr> in
      rbind (require (\<bar>rr_amount q\<bar> < 10 ^ 14) (DatabaseError ''numeric field overflow'')) (\<lambda>_.
      rbind (require (0 < rr_amount q) (DatabaseError ''chk_retention_release_amount_pos'')) (\<lambda>_.
      rbind (require (\<not> list_ex (\<lambda>x. rr_id x = rr_id q) tbl) (DatabaseError ''retention_release_pkey'')) (\<lambda>_.
      Inr (tbl @ [q])))))"

definition sum_posted_released :: "string \<Rightarrow> string \<Rightarrow> retention_release list \<Rightarrow> money" where
  "sum_posted_released ipc_id co tbl =
     sum_list (map rr_amount (filter (\<lambda>r. rr_ipc r = ipc_id \<and> rr_company r = co \<and> rr_status r = RelPosted) tbl))"

section \<open>Use cases\<close>

definition create_ipc ::
  "bool \<Rightarrow> dec_lib \<Rightarrow> (nat \<Rightarrow> string) \<Rightarrow> new_ipc \<Rightarrow> actor \<Rightarrow> 'a sales_db_scheme \<Rightarrow>
   domain_error + (string \<times> 'a sales_db_scheme)" where
  "create_ipc nn D mk inp act = uow_run (\<lambda>s.
     let co = act_company act in
     rbind (require (truthy (resolve_customer co (ni_project inp) (sal_projects s)))
              (NotFoundError (ni_project inp))) (\<lambda>_.
     let customer = the (resolve_customer co (ni_project inp) (sal_projects s)) in
     rbind (require (\<not> exists_seq_no nn co (ni_project inp) (ni_seq_no inp) (sal_ipcs s))
              (DuplicateSeqNoError (ni_project inp) \<lfloor>ni_seq_no inp\<rfloor>)) (\<lambda>_.
     rbind ipc_config_rates (\<lambda>rates.
     let remaining = remaining_advance D co (ni_project inp) customer s in
     case ids_next mk s of (i, s1) \<Rightarrow>
     rbind (ipc_create_draft D i co (act_fy act) (inp\<lparr>ni_customer := customer\<rparr>) rates remaining) (\<lambda>p.
     rbind (ipc_insert D p (sal_ipcs s1)) (\<lambda>tbl.
     Inr (i, audit_record ''CREATE'' ''SalesInvoice'' i act (s1\<lparr>sal_ipcs := tbl\<rparr>))))))))"

definition update_ipc_draft ::
  "bool \<Rightarrow> dec_lib \<Rightarrow> string \<Rightarrow> edit_ipc \<Rightarrow> nat \<Rightarrow> actor \<Rightarrow> 'a sales_db_scheme \<Rightarrow>
   domain_error + (unit \<times> 'a sales_db_scheme)" where
  "update_ipc_draft nn D i patch version act = uow_run (\<lambda>s.
     rbind (fetch (NotFoundError i) (ipc_find nn i (act_company act) (sal_ipcs s))) (\<lambda>p.
     rbind (assert_version (ip_version p) version) (\<lambda>_.
     rbind ipc_config_rates (\<lambda>rates.
     let project = (case ei_project patch of Some x \<Rightarrow> x | None \<Rightarrow> ip_project p);
         remaining = remaining_advance D (act_company act) project (ip_customer p) s in
     rbind (ipc_update_draft D (patch\<lparr>ei_customer := None\<rparr>) rates remaining p) (\<lambda>q.
     rbind (ipc_save D q version (sal_ipcs s)) (\<lambda>tbl.
     Inr ((), audit_record ''UPDATE'' ''SalesInvoice'' i act (s\<lparr>sal_ipcs := tbl\<rparr>))))))))"

definition delete_ipc ::
  "bool \<Rightarrow> string \<Rightarrow> actor \<Rightarrow> 'a sales_db_scheme \<Rightarrow> domain_error + (unit \<times> 'a sales_db_scheme)" where
  "delete_ipc nn i act = uow_run (\<lambda>s.
     rbind (fetch (NotFoundError i) (ipc_find nn i (act_company act) (sal_ipcs s))) (\<lambda>p.
     rbind (ipc_assert_draft p) (\<lambda>_.
     Inr ((), audit_record ''DELETE'' ''SalesInvoice'' i act
       (s\<lparr>sal_ipcs := ipc_soft_delete i (act_company act) (sal_ipcs s)\<rparr>)))))"

definition post_ipc ::
  "dec_lib \<Rightarrow> (nat \<Rightarrow> string) \<Rightarrow> 'a sales_db_scheme ports \<Rightarrow> string \<Rightarrow> actor \<Rightarrow> int \<Rightarrow> 'a sales_db_scheme \<Rightarrow>
   domain_error + ((string \<times> string) \<times> 'a sales_db_scheme)" where
  "post_ipc D mk P i act now = uow_run (\<lambda>s.
     rbind (fetch (NotFoundError i) (ipc_find_for_update i (act_company act) (sal_ipcs s))) (\<lambda>p.
     rbind (ipc_assert_draft p) (\<lambda>_.
     rbind (assert_advance_within
              (remaining_advance D (act_company act) (ip_project p) (ip_customer p) s) p) (\<lambda>_.
     rbind (resolve_sales_accounts (act_company act) (sal_accounts s)) (\<lambda>accs.
     rbind (post D mk P (build_ipc_command D p accs (act_user act)) now s) (\<lambda>(entry, s1).
     rbind (ipc_mark_posted (je_id entry) (je_no entry) (act_user act) now p) (\<lambda>q.
     rbind (ipc_save D q (ip_version p) (sal_ipcs s1)) (\<lambda>tbl.
     Inr ((je_id entry, je_no entry), audit_record ''POST'' ''SalesInvoice'' i act (s1\<lparr>sal_ipcs := tbl\<rparr>))))))))))"

definition cancel_ipc ::
  "dec_lib \<Rightarrow> (nat \<Rightarrow> string) \<Rightarrow> 'a sales_db_scheme ports \<Rightarrow> string \<Rightarrow> string \<Rightarrow> actor \<Rightarrow> int \<Rightarrow> 'a sales_db_scheme \<Rightarrow>
   domain_error + ((string \<times> string) \<times> 'a sales_db_scheme)" where
  "cancel_ipc D mk P i reason act now = uow_run (\<lambda>s.
     rbind (fetch (NotFoundError i) (ipc_find_for_update i (act_company act) (sal_ipcs s))) (\<lambda>p.
     rbind (require (ip_status p = IpcPosted) (NotPostedError (ipc_status_name (ip_status p)))) (\<lambda>_.
     rbind (require (truthy (ip_journal_entry p)) (ValidationError i)) (\<lambda>_.
     rbind (reverse D mk P (the (ip_journal_entry p)) (act_company act) reason (act_user act) now s) (\<lambda>(rev, s1).
     rbind (ipc_mark_cancelled p) (\<lambda>q.
     rbind (ipc_save D q (ip_version p) (sal_ipcs s1)) (\<lambda>tbl.
     Inr ((je_id rev, je_no rev), audit_record ''CANCEL'' ''SalesInvoice'' i act (s1\<lparr>sal_ipcs := tbl\<rparr>)))))))))"

definition repost_ipc ::
  "dec_lib \<Rightarrow> (nat \<Rightarrow> string) \<Rightarrow> 'a sales_db_scheme ports \<Rightarrow> string \<Rightarrow> edit_ipc \<Rightarrow> string \<Rightarrow> actor \<Rightarrow> int \<Rightarrow>
   'a sales_db_scheme \<Rightarrow> domain_error + ((journal_entry \<times> journal_entry) \<times> 'a sales_db_scheme)" where
  "repost_ipc D mk P i patch reason act now = uow_run (\<lambda>s.
     rbind (fetch (NotFoundError i) (ipc_find_for_update i (act_company act) (sal_ipcs s))) (\<lambda>p.
     rbind (require (ip_status p = IpcPosted) (NotPostedError (ipc_status_name (ip_status p)))) (\<lambda>_.
     rbind (require (truthy (ip_journal_entry p)) (ValidationError i)) (\<lambda>_.
     rbind ipc_config_rates (\<lambda>rates.
     let inp = (ipc_merge p patch)\<lparr>ni_customer := ip_customer p\<rparr>;
         remaining = remaining_advance D (act_company act) (ni_project inp) (ip_customer p) s in
     rbind (ipc_create_draft D i (act_company act) (act_fy act) inp rates remaining) (\<lambda>c.
     rbind (resolve_sales_accounts (act_company act) (sal_accounts s)) (\<lambda>accs.
     rbind (repost D mk P (the (ip_journal_entry p)) (act_company act) reason (act_user act)
              (build_ipc_command D c accs (act_user act)) now s) (\<lambda>((rev, entry), s1).
     rbind (ipc_mark_posted (je_id entry) (je_no entry) (act_user act) now c) (\<lambda>q.
     rbind (ipc_save D (q\<lparr>ip_version := ip_version p\<rparr>) (ip_version p) (sal_ipcs s1)) (\<lambda>tbl.
     Inr ((rev, entry), audit_record ''POST'' ''SalesInvoice'' i act (s1\<lparr>sal_ipcs := tbl\<rparr>))))))))))))"

definition release_retention ::
  "bool \<Rightarrow> dec_lib \<Rightarrow> (nat \<Rightarrow> string) \<Rightarrow> 'a sales_db_scheme ports \<Rightarrow> string \<Rightarrow> string \<Rightarrow> decimal_input option \<Rightarrow>
   string option \<Rightarrow> actor \<Rightarrow> int \<Rightarrow> 'a sales_db_scheme \<Rightarrow>
   domain_error + (retention_release \<times> 'a sales_db_scheme)" where
  "release_retention nn D mk P ipc_id date amount narration act now = uow_run (\<lambda>s.
     rbind (fetch (NotFoundError ipc_id) (ipc_find nn ipc_id (act_company act) (sal_ipcs s))) (\<lambda>p.
     rbind (require (ip_status p = IpcPosted) (NotPostedError (ipc_status_name (ip_status p)))) (\<lambda>_.
     let held = money_minus D (ip_retention p) (sum_posted_released ipc_id (act_company act) (sal_releases s));
         floored = (if money_is_negative held then 0 else held) in
     case ids_next mk s of (i, s0) \<Rightarrow>
     rbind (release_create_draft D i
        \<lparr>nr_company = act_company act, nr_fy = act_fy act, nr_ipc = ipc_id, nr_project = ip_project p,
         nr_customer = ip_customer p, nr_cost_centre = ip_cost_centre p, nr_purpose = ip_purpose p,
         nr_date = date, nr_amount = (case amount of Some x \<Rightarrow> x | None \<Rightarrow> Dec floored),
         nr_narration = narration\<rparr> floored) (\<lambda>r.
     rbind (resolve_sales_accounts (act_company act) (sal_accounts s0)) (\<lambda>accs.
     rbind (post D mk P (release_command r accs (act_user act)) now s0) (\<lambda>(entry, s1).
     rbind (release_mark_posted (je_id entry) (je_no entry) (act_user act) now r) (\<lambda>q.
     rbind (release_insert D q (sal_releases s1)) (\<lambda>tbl.
     Inr (q, audit_record ''POST'' ''RetentionRelease'' (rr_id q) act (s1\<lparr>sal_releases := tbl\<rparr>))))))))))"

end
