(* ===== verification/Sales_Soundness.thy ===== *)
theory Sales_Soundness
  imports Sales_Use_Cases
begin

text \<open>
  The sales module and its books: the committed steps of the module, the invariant that links every
  certificate to its ledger entry, and the reconciliation of the sub-ledger with the ledger.
\<close>

section \<open>Frames\<close>

lemma sales_more:
  fixes s s' :: "'a sales_db_scheme"
  assumes "db.more s' = db.more s"
  shows "sal_accounts s' = sal_accounts s" "sal_projects s' = sal_projects s" "sal_ipcs s' = sal_ipcs s"
    "sal_releases s' = sal_releases s"
  using assms by (cases s; cases s'; simp)+

section \<open>Steps\<close>

definition sales_entry :: "journal_entry \<Rightarrow> bool" where
  "sales_entry e \<longleftrightarrow> je_source_type e \<in> {''SalesInvoice'', ''RetentionRelease''}"

text \<open>Everything else in the program posts and reverses vouchers of its own source types.\<close>

definition other_books :: "'a sales_db_scheme \<Rightarrow> 'a sales_db_scheme \<Rightarrow> bool" where
  "other_books s s' \<longleftrightarrow>
     sal_accounts s' = sal_accounts s \<and> sal_ipcs s' = sal_ipcs s \<and> sal_releases s' = sal_releases s \<and>
     (\<forall>e \<in> set (drop (length (db_entries s)) (db_entries s')). \<not> sales_entry e)"

inductive sales_step ::
  "bool \<Rightarrow> dec_lib \<Rightarrow> (nat \<Rightarrow> string) \<Rightarrow> 'a sales_db_scheme \<Rightarrow> 'a sales_db_scheme \<Rightarrow> bool" for nn D mk where
  s_create: "create_ipc nn D mk inp act s = Inr (x, s') \<Longrightarrow> sales_step nn D mk s s'"
| s_update: "update_ipc_draft nn D i patch v act s = Inr (u, s') \<Longrightarrow> sales_step nn D mk s s'"
| s_delete: "delete_ipc nn i act s = Inr (u, s') \<Longrightarrow> sales_step nn D mk s s'"
| s_post: "post_ipc D mk (erp_ports mk) i act now s = Inr (x, s') \<Longrightarrow> sales_step nn D mk s s'"
| s_cancel: "cancel_ipc D mk (erp_ports mk) i reason act now s = Inr (x, s') \<Longrightarrow> sales_step nn D mk s s'"
| s_repost: "repost_ipc D mk (erp_ports mk) i patch reason act now s = Inr (p, s') \<Longrightarrow> sales_step nn D mk s s'"
| s_release: "trim (act_company act) = act_company act \<Longrightarrow>
    release_retention nn D mk (erp_ports mk) i date amount narr act now s = Inr (r, s') \<Longrightarrow> sales_step nn D mk s s'"
| s_other: "erp_step D mk s s' \<Longrightarrow> other_books s s' \<Longrightarrow> sales_step nn D mk s s'"

section \<open>Nets\<close>

definition sales_entries :: "string \<Rightarrow> journal_entry list \<Rightarrow> journal_entry list" where
  "sales_entries co es = filter (\<lambda>e. je_company e = co \<and> sales_entry e) es"

definition row_net :: "dec_lib \<Rightarrow> (journal_line \<Rightarrow> bool) \<Rightarrow> sales_account_map \<Rightarrow> string \<Rightarrow> ipc \<Rightarrow> decimal" where
  "row_net D Q a co p = (if ip_company p = co \<and> ip_status p = IpcPosted then net_of Q (ipc_lines D p a) else 0)"

definition release_net :: "(journal_line \<Rightarrow> bool) \<Rightarrow> sales_account_map \<Rightarrow> string \<Rightarrow> retention_release \<Rightarrow> decimal" where
  "release_net Q a co r = (if rr_company r = co then net_of Q (pc_lines (release_command r a [])) else 0)"

definition books_agree :: "dec_lib \<Rightarrow> 'a sales_db_scheme \<Rightarrow> bool" where
  "books_agree D s \<longleftrightarrow> (\<forall>co a Q. resolve_sales_accounts co (sal_accounts s) = Inr a \<longrightarrow> swap_free Q \<longrightarrow>
     ledger_net Q (sales_entries co (db_entries s)) =
       sum_list (map (row_net D Q a co \<circ> ir_ipc) (sal_ipcs s)) + sum_list (map (release_net Q a co) (sal_releases s)))"

definition backed :: "dec_lib \<Rightarrow> 'a sales_db_scheme \<Rightarrow> ipc \<Rightarrow> bool" where
  "backed D s p \<longleftrightarrow> (\<exists>e \<in> set (db_entries s). ip_journal_entry p = Some (je_id e) \<and> je_company e = ip_company p \<and>
     je_source_type e = ''SalesInvoice'' \<and>
     (\<exists>a. resolve_sales_accounts (ip_company p) (sal_accounts s) = Inr a \<and> je_lines e = lines_of (ipc_lines D p a)))"

definition row_sound :: "dec_lib \<Rightarrow> 'a sales_db_scheme \<Rightarrow> ipc \<Rightarrow> bool" where
  "row_sound D s p \<longleftrightarrow> ipc_amounts_ok p \<and> ipc_fits p \<and> (ip_status p = IpcPosted \<longrightarrow> backed D s p)"

definition release_ok :: "retention_release \<Rightarrow> bool" where
  "release_ok r \<longleftrightarrow> rr_status r = RelPosted \<and> 0 < rr_amount r \<and> on_grid 4 (rr_amount r)"

definition sales_inv :: "dec_lib \<Rightarrow> (nat \<Rightarrow> string) \<Rightarrow> 'a sales_db_scheme \<Rightarrow> bool" where
  "sales_inv D mk s \<longleftrightarrow> erp_inv mk s \<and> distinct (map (ip_id \<circ> ir_ipc) (sal_ipcs s)) \<and>
     (\<forall>r \<in> set (sal_ipcs s). row_sound D s (ir_ipc r)) \<and> (\<forall>r \<in> set (sal_releases s). release_ok r) \<and>
     books_agree D s"

lemma sales_entries_simps [simp]:
  "sales_entries co [] = []" "sales_entries co (es @ fs) = sales_entries co es @ sales_entries co fs"
  "sales_entries co (e # es) = (if je_company e = co \<and> sales_entry e then [e] else []) @ sales_entries co es"
  by (simp_all add: sales_entries_def)

section \<open>Rows and their figures\<close>

lemma ipc_fill_Inr:
  assumes "ipc_fill inp f rates ip = Inr p"
  shows "ip_certified p = fg_certified f" "ip_output_vat p = fg_output_vat f" "ip_ait_tds p = fg_ait_tds f"
    "ip_retention p = fg_retention f" "ip_advance p = fg_advance f" "ip_currently_due p = fg_currently_due f"
    "ip_id p = ip_id ip" "ip_company p = ip_company ip" "ip_status p = ip_status ip" "ip_fy p = ip_fy ip"
    "ip_version p = ip_version ip" "ip_journal_entry p = ip_journal_entry ip" "ip_entry_no p = ip_entry_no ip"
    "ipc_dims_ok p"
  using assms by (auto simp: ipc_fill_def ipc_dims_ok_def elim!: rbindE)

lemma stored_ipc_simps [simp]:
  "ip_id (stored_ipc D p) = ip_id p" "ip_company (stored_ipc D p) = ip_company p"
  "ip_status (stored_ipc D p) = ip_status p" "ip_journal_entry (stored_ipc D p) = ip_journal_entry p"
  "ip_project (stored_ipc D p) = ip_project p" "ip_customer (stored_ipc D p) = ip_customer p"
  "ip_cost_centre (stored_ipc D p) = ip_cost_centre p" "ip_purpose (stored_ipc D p) = ip_purpose p"
  "ip_version (stored_ipc D p) = ip_version p" "ip_seq_no (stored_ipc D p) = ip_seq_no p"
  by (simp_all add: stored_ipc_def)

definition same_books :: "ipc \<Rightarrow> ipc \<Rightarrow> bool" where
  "same_books p q \<longleftrightarrow> ip_certified q = ip_certified p \<and> ip_output_vat q = ip_output_vat p \<and> ip_ait_tds q = ip_ait_tds p \<and>
     ip_retention q = ip_retention p \<and> ip_advance q = ip_advance p \<and> ip_currently_due q = ip_currently_due p \<and>
     ip_project q = ip_project p \<and> ip_customer q = ip_customer p \<and> ip_cost_centre q = ip_cost_centre p \<and>
     ip_purpose q = ip_purpose p \<and> ip_company q = ip_company p \<and> ip_id q = ip_id p"

lemma same_books_lines: "same_books p q \<Longrightarrow> ipc_lines D q a = ipc_lines D p a"
  by (simp add: same_books_def ipc_lines_def ipc_line_def)

lemma same_books_ok: "same_books p q \<Longrightarrow> ipc_amounts_ok p \<and> ipc_fits p \<Longrightarrow> ipc_amounts_ok q \<and> ipc_fits q"
  by (simp add: same_books_def ipc_amounts_ok_def ipc_fits_def)

lemma row_checks_fit:
  assumes "ipc_row_checks q = Inr u"
  shows "ip_certified q < 10 ^ 14" "ip_output_vat q < 10 ^ 14" "ip_ait_tds q < 10 ^ 14" "ip_retention q < 10 ^ 14"
    "ip_advance q < 10 ^ 14" "ipc_fits q"
proof -
  from assms have "list_all (\<lambda>x. \<bar>x\<bar> < 10 ^ 14) [ip_work_pct q, ip_certified q, ip_output_vat q, ip_ait_tds q,
         ip_retention q, ip_advance q, ip_currently_due q, ip_retention_pct q, ip_advance_pct q]"
    by (auto simp only: ipc_row_checks_def require_eq_Inr elim!: rbindE)
  then have b: "\<bar>ip_certified q\<bar> < 10 ^ 14" "\<bar>ip_output_vat q\<bar> < 10 ^ 14" "\<bar>ip_ait_tds q\<bar> < 10 ^ 14"
    "\<bar>ip_retention q\<bar> < 10 ^ 14" "\<bar>ip_advance q\<bar> < 10 ^ 14"
    by (simp_all only: list.pred_inject)
  have "x < 10 ^ 14" if "\<bar>x\<bar> < 10 ^ 14" for x :: rat using that by linarith
  from this [OF b(1)] this [OF b(2)] this [OF b(3)] this [OF b(4)] this [OF b(5)]
  show "ip_certified q < 10 ^ 14" "ip_output_vat q < 10 ^ 14" "ip_ait_tds q < 10 ^ 14" "ip_retention q < 10 ^ 14"
    "ip_advance q < 10 ^ 14" "ipc_fits q"
    by (simp_all add: ipc_fits_def amounts_fit_def)
qed

lemma ipc_insert_InrD:
  assumes "ipc_insert D p tbl = Inr tbl'"
  shows "tbl' = tbl @ [\<lparr>ir_ipc = (stored_ipc D p)\<lparr>ip_version := 1\<rparr>, ir_deleted = False\<rparr>]"
    and "ipc_row_checks (stored_ipc D p) = Inr ()" and "ip_id p \<notin> (ip_id \<circ> ir_ipc) ` set tbl"
  using assms by (auto simp: ipc_insert_def Let_def list_ex_iff ipc_row_checks_def elim!: rbindE)

definition save_hit :: "ipc \<Rightarrow> nat \<Rightarrow> ipc_row \<Rightarrow> bool" where
  "save_hit p v r \<longleftrightarrow> ip_id (ir_ipc r) = ip_id p \<and> ip_company (ir_ipc r) = ip_company p \<and> ip_version (ir_ipc r) = v"

definition saved_row :: "dec_lib \<Rightarrow> ipc \<Rightarrow> nat \<Rightarrow> ipc_row \<Rightarrow> ipc_row" where
  "saved_row D p v r = r\<lparr>ir_ipc := (stored_ipc D p)\<lparr>ip_fy := ip_fy (ir_ipc r), ip_version := v + 1\<rparr>\<rparr>"

lemma ipc_save_InrD:
  assumes "ipc_save D p v tbl = Inr tbl'"
  shows "\<exists>r \<in> set tbl. save_hit p v r" and "ipc_row_checks (stored_ipc D p) = Inr ()"
    and "tbl' = update_where (save_hit p v) (saved_row D p v) tbl"
  using assms
  by (auto simp: ipc_save_def Let_def list_ex_iff save_hit_def [abs_def] saved_row_def [abs_def] elim!: rbindE split: if_splits)

context decimal_js begin

lemma figures_stored:
  assumes "compute_figures D inp rates remaining = Inr f" and "rates_ok rates"
    and "nonneg_grid remaining \<or> 10 ^ 15 \<le> remaining"
    and "ipc_fill inp' f rates ip = Inr p" and "ipc_row_checks (stored_ipc D p) = Inr ()"
  shows "ipc_amounts_ok p" and "ipc_fits p" and "same_books p (stored_ipc D p)"
proof -
  have grids: "on_grid 4 (fg_certified f) \<and> on_grid 4 (fg_output_vat f) \<and> on_grid 4 (fg_ait_tds f) \<and>
      on_grid 4 (fg_retention f) \<and> on_grid 4 (fg_currently_due f) \<and>
      (on_grid 4 (fg_advance f) \<or> fg_advance f = remaining)"
    using assms(1) unfolding compute_figures_def Let_def
    by (auto simp: min_def dest!: override_amount_Inr elim!: rbindE split: option.splits simp: nonneg_grid_def)
  have adv: "on_grid 4 (fg_advance f)"
  proof (rule ccontr)
    assume "\<not> on_grid 4 (fg_advance f)"
    with grids assms(3) have "10 ^ 15 \<le> fg_advance f" by (auto simp: nonneg_grid_def)
    then have "10 ^ 15 \<le> to_dp D 4 (fg_advance f)"
      unfolding to_dp_half_up by (rule half_up_ge_grid) (simp add: on_grid_def)
    with row_checks_fit(5) [OF assms(5)] show False
      by (simp add: stored_ipc_def ipc_fill_Inr(5) [OF assms(4)])
  qed
  note e = ipc_fill_Inr(1-6) [OF assms(4)]
  show sb: "same_books p (stored_ipc D p)"
    using grids adv by (simp add: same_books_def stored_ipc_def e to_dp_id)
  with row_checks_fit(6) [OF assms(5)] show fits: "ipc_fits p" by (simp add: same_books_def ipc_fits_def)
  then have "figures_fit f" by (simp add: ipc_fits_def figures_fit_def e)
  from compute_figures_ok(1) [OF assms(1-3) this] show "ipc_amounts_ok p"
    by (simp add: figures_ok_def ipc_amounts_ok_def e)
qed

end


section \<open>The remaining advance\<close>

lemma erp_inv_grid:
  assumes "erp_inv mk s" and "l \<in> set (concat (map je_lines (filter P (db_entries s))))"
  shows "on_grid 4 (jl_debit l) \<and> on_grid 4 (jl_credit l)"
  using assms by (auto simp: erp_inv_def ledger_core_def row_ok_def)

context decimal_js begin

lemma minus_floor_ok:
  assumes "on_grid 4 (x - y)"
  shows "(let r = d_minus D x y in nonneg_grid (if r < 0 then 0 else r) \<or> 10 ^ 15 \<le> (if r < 0 then 0 else r))"
proof (cases "\<bar>x - y\<bar> < 10 ^ 16")
  case True
  with assms have "d_minus D x y = x - y" by (simp add: minus_exact exact_range_def)
  with assms show ?thesis by (simp add: nonneg_grid_def Let_def)
next
  case False
  note e = rnd_error [of "x - y"]
  show ?thesis
  proof (cases "0 \<le> x - y")
    case True
    with False have big: "10 ^ 16 \<le> x - y" by simp
    have "(x - y - rnd D (x - y)) * (2 * 10 ^ 19) \<le> \<bar>rnd D (x - y) - (x - y)\<bar> * (2 * 10 ^ 19)"
      by (rule mult_right_mono) auto
    with e True have "(x - y - rnd D (x - y)) * (2 * 10 ^ 19) \<le> x - y" by linarith
    with big have "10 ^ 15 \<le> rnd D (x - y)" by (simp add: left_diff_distrib)
    then show ?thesis by (simp add: d_minus_def Let_def)
  next
    case False
    have "(rnd D (x - y) - (x - y)) * (2 * 10 ^ 19) \<le> \<bar>rnd D (x - y) - (x - y)\<bar> * (2 * 10 ^ 19)"
      by (rule mult_right_mono) auto
    with e False have "(rnd D (x - y) - (x - y)) * (2 * 10 ^ 19) \<le> - (x - y)" by linarith
    with False have "rnd D (x - y) < 0" by (simp add: left_diff_distrib)
    then show ?thesis by (simp add: d_minus_def nonneg_grid_def)
  qed
qed

lemma remaining_advance_ok:
  assumes "erp_inv mk s"
  shows "nonneg_grid (remaining_advance D co project customer s) \<or> 10 ^ 15 \<le> remaining_advance D co project customer s"
proof (cases "List.find (\<lambda>a. ac_company a = co \<and> ac_code a = ''2110'') (sal_accounts s)")
  case None
  then show ?thesis by (simp add: remaining_advance_def nonneg_grid_def)
next
  case (Some a)
  define ls where "ls = party_lines co (ac_id a) customer project (db_entries s)"
  have g: "on_grid 4 (jl_debit l) \<and> on_grid 4 (jl_credit l)" if "l \<in> set ls" for l
    using that erp_inv_grid [OF assms] by (auto simp: ls_def party_lines_def)
  have "on_grid 4 (sum_list (map jl_credit ls) - sum_list (map jl_debit ls))"
    using g by (intro on_grid_diff on_grid_sum_list) auto
  from minus_floor_ok [OF this] Some show ?thesis
    by (simp add: remaining_advance_def Let_def flip: ls_def)
qed

lemma stored_row_sound:
  assumes "erp_inv mk s" and "ipc_config_rates = Inr rates"
    and "compute_figures D inp rates (remaining_advance D co project customer s) = Inr f"
    and "ipc_fill inp' f rates ip = Inr p" and "ipc_row_checks (stored_ipc D p) = Inr ()"
  shows "ipc_amounts_ok p \<and> ipc_fits p \<and> same_books p (stored_ipc D p)"
proof -
  from assms(2) have "rates_ok rates" by (auto simp: ipc_config_rates_def dest: rates_of_ok)
  from figures_stored [OF assms(3) this remaining_advance_ok [OF assms(1)] assms(4,5)]
  show ?thesis by blast
qed

end

section \<open>The invariant under a step\<close>

lemma backed_mono:
  "backed D s p \<Longrightarrow> sal_accounts s' = sal_accounts s \<Longrightarrow> db_entries s' = db_entries s @ new \<Longrightarrow> backed D s' p"
  by (auto simp: backed_def)

lemma row_sound_mono:
  "row_sound D s p \<Longrightarrow> sal_accounts s' = sal_accounts s \<Longrightarrow> db_entries s' = db_entries s @ new \<Longrightarrow> row_sound D s' p"
  by (auto simp: row_sound_def dest: backed_mono)

lemma sales_inv_step:
  assumes "sales_inv D mk s" and "erp_inv mk s'" and "sal_accounts s' = sal_accounts s"
    and "db_entries s' = db_entries s @ new"
    and "distinct (map (ip_id \<circ> ir_ipc) (sal_ipcs s'))"
    and "\<forall>r \<in> set (sal_ipcs s'). ir_ipc r \<in> ir_ipc ` set (sal_ipcs s) \<or> row_sound D s' (ir_ipc r)"
    and "\<And>co a Q. resolve_sales_accounts co (sal_accounts s) = Inr a \<Longrightarrow> swap_free Q \<Longrightarrow>
      ledger_net Q (sales_entries co new) =
        (sum_list (map (row_net D Q a co \<circ> ir_ipc) (sal_ipcs s')) - sum_list (map (row_net D Q a co \<circ> ir_ipc) (sal_ipcs s))) +
        (sum_list (map (release_net Q a co) (sal_releases s')) - sum_list (map (release_net Q a co) (sal_releases s)))"
    and "\<forall>r \<in> set (sal_releases s'). r \<in> set (sal_releases s) \<or> release_ok r"
  shows "sales_inv D mk s'"
proof -
  have "row_sound D s' (ir_ipc r)" if "r \<in> set (sal_ipcs s')" for r
    using assms(1,6) that row_sound_mono [OF _ assms(3,4)] unfolding sales_inv_def by (metis imageE)
  moreover have "books_agree D s'"
    using assms(1,7) unfolding sales_inv_def books_agree_def assms(3,4) sales_entries_simps ledger_net_simps
    by auto
  moreover have "\<forall>r \<in> set (sal_releases s'). release_ok r" using assms(1,8) by (auto simp: sales_inv_def)
  ultimately show ?thesis using assms(2,5) by (simp add: sales_inv_def)
qed

lemma saved_books:
  assumes "ipc_save D q v tbl = Inr tbl'" and "distinct (map (ip_id \<circ> ir_ipc) tbl)" and "r0 \<in> set tbl"
    and "ip_id (ir_ipc r0) = ip_id q"
  shows "distinct (map (ip_id \<circ> ir_ipc) tbl')"
    and "\<forall>r \<in> set tbl'. ir_ipc r \<in> ir_ipc ` set tbl \<or> r = saved_row D q v r0"
    and "sum_list (map (g \<circ> ir_ipc) tbl') = sum_list (map (g \<circ> ir_ipc) tbl) - (g (ir_ipc r0) :: rat) + g (ir_ipc (saved_row D q v r0))"
    and "ip_company (ir_ipc r0) = ip_company q" and "ip_version (ir_ipc r0) = v"
proof -
  from ipc_save_InrD [OF assms(1)] obtain r where r: "r \<in> set tbl" "save_hit q v r"
    and tbl': "tbl' = update_where (save_hit q v) (saved_row D q v) tbl" by blast
  have hit: "x = r0" if "x \<in> set tbl" "save_hit q v x" for x
    using distinct_map_inj [OF assms(2) that(1) assms(3)] that(2) assms(4) by (simp add: save_hit_def)
  from hit [OF r] r have h0: "save_hit q v r0" by simp
  then show "ip_company (ir_ipc r0) = ip_company q" and "ip_version (ir_ipc r0) = v" by (simp_all add: save_hit_def)
  have "map (ip_id \<circ> ir_ipc) tbl' = map (ip_id \<circ> ir_ipc) tbl"
    unfolding tbl' by (rule map_update_where) (simp add: save_hit_def saved_row_def)
  with assms(2) show "distinct (map (ip_id \<circ> ir_ipc) tbl')" by simp
  show "\<forall>r \<in> set tbl'. ir_ipc r \<in> ir_ipc ` set tbl \<or> r = saved_row D q v r0"
    unfolding tbl' set_update_where using hit by auto
  show "sum_list (map (g \<circ> ir_ipc) tbl') = sum_list (map (g \<circ> ir_ipc) tbl) - (g (ir_ipc r0) :: rat) + g (ir_ipc (saved_row D q v r0))"
    unfolding tbl' using sum_update_where [where P = "save_hit q v", OF assms(2,3) h0, where f = "saved_row D q v" and g = "g \<circ> ir_ipc"] assms(4)
    by (simp add: save_hit_def)
qed

lemma saved_row_simps [simp]:
  "ip_company (ir_ipc (saved_row D q v r)) = ip_company q" "ip_status (ir_ipc (saved_row D q v r)) = ip_status q"
  "ip_journal_entry (ir_ipc (saved_row D q v r)) = ip_journal_entry q" "ip_id (ir_ipc (saved_row D q v r)) = ip_id q"
  "ip_version (ir_ipc (saved_row D q v r)) = v + 1" "ir_deleted (saved_row D q v r) = ir_deleted r"
  by (simp_all add: saved_row_def)

lemma saved_row_books: "same_books q (stored_ipc D q) \<Longrightarrow> same_books q (ir_ipc (saved_row D q v r))"
  by (simp add: same_books_def saved_row_def)

lemma row_net_same: "same_books p q \<Longrightarrow> ip_status q = ip_status p \<Longrightarrow> row_net D Q a co q = row_net D Q a co p"
  by (simp add: row_net_def same_books_lines) (simp add: same_books_def)


section \<open>Each use case\<close>

lemma ipc_find_SomeD: "ipc_find nn i co tbl = Some p \<Longrightarrow> \<exists>r \<in> set tbl. p = ir_ipc r \<and> ip_id p = i \<and> ip_company p = co"
  by (auto simp: ipc_find_def dest: find_SomeD)

lemma ipc_find_for_update_SomeD:
  "ipc_find_for_update i co tbl = Some p \<Longrightarrow> \<exists>r \<in> set tbl. p = ir_ipc r \<and> ip_id p = i \<and> ip_company p = co \<and> \<not> ir_deleted r"
  by (auto simp: ipc_find_for_update_def dest: find_SomeD)

lemma quiet_audit [simp, intro]: "quiet s (audit_record a b c d (s\<lparr>sal_ipcs := t\<rparr>))" "quiet s (audit_record a b c d (s\<lparr>sal_releases := u\<rparr>))"
  by (simp_all add: quiet_def)

lemma audit_sales_simps [simp]:
  "sal_ipcs (audit_record a b c d s) = sal_ipcs s" "sal_releases (audit_record a b c d s) = sal_releases s"
  "sal_accounts (audit_record a b c d s) = sal_accounts s" "sal_projects (audit_record a b c d s) = sal_projects s"
  by (simp_all add: audit_record_def)

lemma soft_delete_map: "map (g \<circ> ir_ipc) (ipc_soft_delete i co tbl) = map (g \<circ> ir_ipc) tbl"
  unfolding ipc_soft_delete_def by (rule map_update_where) simp

lemma soft_delete_rows: "ir_ipc ` set (ipc_soft_delete i co tbl) = ir_ipc ` set tbl"
proof -
  have "map ir_ipc (ipc_soft_delete i co tbl) = map ir_ipc tbl"
    using soft_delete_map [of id] by (simp add: id_comp)
  then show ?thesis by (metis set_map)
qed

context decimal_js begin

lemma create_ipc_inv:
  assumes "create_ipc nn D mk inp act s = Inr (x, s')" and "sales_inv D mk s"
  shows "sales_inv D mk s'"
proof -
  from uow_run_InrD [OF assms(1) [unfolded create_ipc_def]]
  obtain customer rates f p tbl where r: "ipc_config_rates = Inr rates"
    and f: "compute_figures D (inp\<lparr>ni_customer := customer\<rparr>) rates
      (remaining_advance D (act_company act) (ni_project inp) customer s) = Inr f"
    and p: "ipc_fill (inp\<lparr>ni_customer := customer\<rparr>) f rates (blank_ipc (mk (db_ids s)) (act_company act) (act_fy act)) = Inr p"
    and i: "ipc_insert D p (sal_ipcs s) = Inr tbl"
    and s': "s' = audit_record ''CREATE'' ''SalesInvoice'' (mk (db_ids s)) act (s\<lparr>db_ids := Suc (db_ids s), sal_ipcs := tbl\<rparr>)"
    by (auto simp: ids_next_def ipc_create_draft_def Let_def elim!: rbindE)
  from assms(2) have e: "erp_inv mk s" by (simp add: sales_inv_def)
  note ins = ipc_insert_InrD [OF i]
  from stored_row_sound [OF e r f p ins(2)]
  have ok: "ipc_amounts_ok p" "ipc_fits p" "same_books p (stored_ipc D p)" by auto
  define q where "q = (stored_ipc D p)\<lparr>ip_version := Suc 0\<rparr>"
  have sb: "same_books p q" using ok(3) by (simp add: q_def same_books_def)
  have draft: "ip_status q \<noteq> IpcPosted" by (simp add: q_def ipc_fill_Inr(9) [OF p] blank_ipc_def)
  have quiet: "quiet s s'" by (simp add: quiet_def s')
  have id: "ip_id q = ip_id p" by (simp add: q_def)
  show ?thesis
  proof (rule sales_inv_step [OF assms(2) quiet_erp_inv [OF quiet e]])
    show "db_entries s' = db_entries s @ []" by (simp add: s')
    show "distinct (map (ip_id \<circ> ir_ipc) (sal_ipcs s'))"
      using assms(2) ins(3) by (simp add: s' ins(1) sales_inv_def id flip: q_def)
    show "\<forall>r \<in> set (sal_ipcs s'). ir_ipc r \<in> ir_ipc ` set (sal_ipcs s) \<or> row_sound D s' (ir_ipc r)"
      using same_books_ok [OF sb] ok draft by (auto simp: s' ins(1) row_sound_def simp flip: q_def)
  qed (use draft in \<open>simp_all add: s' ins(1) row_net_def flip: q_def\<close>)
qed

lemma update_ipc_inv:
  assumes "update_ipc_draft nn D i patch v act s = Inr (u, s')" and "sales_inv D mk s"
  shows "sales_inv D mk s'"
proof -
  from uow_run_InrD [OF assms(1) [unfolded update_ipc_draft_def]]
  obtain p0 rates f q tbl project where p0: "ipc_find nn i (act_company act) (sal_ipcs s) = Some p0"
    and d: "ip_status p0 = IpcDraft" and r: "ipc_config_rates = Inr rates"
    and f: "compute_figures D (ipc_merge p0 (patch\<lparr>ei_customer := None\<rparr>)) rates
      (remaining_advance D (act_company act) project (ip_customer p0) s) = Inr f"
    and q: "ipc_fill (ipc_merge p0 (patch\<lparr>ei_customer := None\<rparr>)) f rates p0 = Inr q"
    and sv: "ipc_save D q v (sal_ipcs s) = Inr tbl"
    and s': "s' = audit_record ''UPDATE'' ''SalesInvoice'' i act (s\<lparr>sal_ipcs := tbl\<rparr>)"
    by (auto simp: ipc_update_draft_def ipc_assert_draft_def Let_def elim!: rbindE)
  from assms(2) have e: "erp_inv mk s" and di: "distinct (map (ip_id \<circ> ir_ipc) (sal_ipcs s))" by (auto simp: sales_inv_def)
  from ipc_find_SomeD [OF p0] obtain r0 where r0: "r0 \<in> set (sal_ipcs s)" "p0 = ir_ipc r0" by blast
  note fl = ipc_fill_Inr [OF q]
  have hit: "ip_id (ir_ipc r0) = ip_id q" using r0(2) fl(7) by simp
  note svd = saved_books [OF sv di r0(1) hit]
  from stored_row_sound [OF e r f q ipc_save_InrD(2) [OF sv]]
  have ok: "ipc_amounts_ok q" "ipc_fits q" "same_books q (stored_ipc D q)" by auto
  have st: "ip_status q = IpcDraft" using d fl(9) by simp
  show ?thesis
  proof (rule sales_inv_step [OF assms(2) quiet_erp_inv [OF _ e]])
    show "db_entries s' = db_entries s @ []" "quiet s s'" by (simp_all add: s' quiet_def)
    show "distinct (map (ip_id \<circ> ir_ipc) (sal_ipcs s'))" using svd(1) by (simp add: s')
    show "\<forall>r \<in> set (sal_ipcs s'). ir_ipc r \<in> ir_ipc ` set (sal_ipcs s) \<or> row_sound D s' (ir_ipc r)"
      using svd(2) same_books_ok [OF saved_row_books [OF ok(3)]] ok st by (auto simp: s' row_sound_def)
  qed (use d st r0 in \<open>simp_all add: s' svd(3) row_net_def\<close>)
qed

lemma delete_ipc_inv:
  assumes "delete_ipc nn i act s = Inr (u, s')" and "sales_inv D mk s"
  shows "sales_inv D mk s'"
proof -
  from uow_run_InrD [OF assms(1) [unfolded delete_ipc_def]]
  have s': "s' = audit_record ''DELETE'' ''SalesInvoice'' i act (s\<lparr>sal_ipcs := ipc_soft_delete i (act_company act) (sal_ipcs s)\<rparr>)"
    by (auto elim!: rbindE)
  note m = soft_delete_map
  have rows: "\<forall>r \<in> set (sal_ipcs s'). ir_ipc r \<in> ir_ipc ` set (sal_ipcs s)"
    using soft_delete_rows [of i "act_company act" "sal_ipcs s"] by (auto simp: s')
  from assms(2) have e: "erp_inv mk s" by (simp add: sales_inv_def)
  show ?thesis
  proof (rule sales_inv_step [OF assms(2) quiet_erp_inv [OF _ e]])
    show "db_entries s' = db_entries s @ []" "quiet s s'" by (simp_all add: s' quiet_def)
    show "distinct (map (ip_id \<circ> ir_ipc) (sal_ipcs s'))" using assms(2) by (simp add: s' m sales_inv_def)
  qed (use rows in \<open>simp_all add: s' m\<close>)
qed

text \<open>What posting a certificate appends.\<close>

lemma posted_ipc_entry:
  assumes "post D mk (erp_ports mk) (build_ipc_command D p accs who) now s = Inr (e, s1)"
    and "ipc_amounts_ok p" and "ipc_fits p"
  shows "db_entries s1 = db_entries s @ [stored_entry D e]" and "db.more s1 = db.more s"
    and "je_lines (stored_entry D e) = lines_of (ipc_lines D p accs)"
    and "je_source_type e = ''SalesInvoice''" and "je_company e = ip_company p" and "je_source_id e = ip_id p"
  using post_appends [OF assms(1)] stored_post_lines [OF assms(1)] ipc_lines_ok(1) [OF assms(2,3), of accs]
  by (simp_all add: build_ipc_command_def)

lemma posted_row_sound:
  assumes "same_books p q" and "ipc_amounts_ok p" and "ipc_fits p"
    and "ip_journal_entry q = Some (je_id e)" and "je_company e = ip_company p" and "je_source_type e = ''SalesInvoice''"
    and "je_lines (stored_entry D e) = lines_of (ipc_lines D p accs)"
    and "stored_entry D e \<in> set (db_entries s')"
    and "resolve_sales_accounts (ip_company p) (sal_accounts s') = Inr accs"
  shows "row_sound D s' q"
proof -
  have "backed D s' q"
    unfolding backed_def
    using assms same_books_lines [OF assms(1), of D accs]
    by (intro bexI [OF _ assms(8)]) (auto simp: same_books_def)
  with same_books_ok [OF assms(1)] assms(2,3) show ?thesis by (simp add: row_sound_def)
qed

lemma post_ipc_InrE:
  assumes "post_ipc D mk (erp_ports mk) i act now s = Inr (x, s')" and "sales_inv D mk s"
  obtains r0 accs e s1 q tbl where "r0 \<in> set (sal_ipcs s)" and "ip_id (ir_ipc r0) = i" and "ip_company (ir_ipc r0) = act_company act"
    and "ip_status (ir_ipc r0) = IpcDraft"
    and "\<not> remaining_advance D (act_company act) (ip_project (ir_ipc r0)) (ip_customer (ir_ipc r0)) s < ip_advance (ir_ipc r0)"
    and "resolve_sales_accounts (act_company act) (sal_accounts s) = Inr accs"
    and "post D mk (erp_ports mk) (build_ipc_command D (ir_ipc r0) accs (act_user act)) now s = Inr (e, s1)"
    and "q = (ir_ipc r0)\<lparr>ip_status := IpcPosted, ip_journal_entry := Some (je_id e), ip_entry_no := Some (je_no e),
             ip_posted_by := Some (act_user act), ip_posted_at := Some now\<rparr>"
    and "ipc_save D q (ip_version (ir_ipc r0)) (sal_ipcs s) = Inr tbl"
    and "s' = audit_record ''POST'' ''SalesInvoice'' i act (s1\<lparr>sal_ipcs := tbl\<rparr>)"
    and "x = (je_id e, je_no e)" and "\<not> ir_deleted r0"
proof -
  from uow_run_InrD [OF assms(1) [unfolded post_ipc_def]]
  obtain p accs e s1 tbl where p: "ipc_find_for_update i (act_company act) (sal_ipcs s) = Some p"
    and d: "ip_status p = IpcDraft"
    and a: "\<not> remaining_advance D (act_company act) (ip_project p) (ip_customer p) s < ip_advance p"
    and accs: "resolve_sales_accounts (act_company act) (sal_accounts s) = Inr accs"
    and post: "post D mk (erp_ports mk) (build_ipc_command D p accs (act_user act)) now s = Inr (e, s1)"
    and sv: "ipc_save D (p\<lparr>ip_status := IpcPosted, ip_journal_entry := Some (je_id e), ip_entry_no := Some (je_no e),
             ip_posted_by := Some (act_user act), ip_posted_at := Some now\<rparr>) (ip_version p) (sal_ipcs s1) = Inr tbl"
    and s': "s' = audit_record ''POST'' ''SalesInvoice'' i act (s1\<lparr>sal_ipcs := tbl\<rparr>)" and x: "x = (je_id e, je_no e)"
    by (auto simp: ipc_assert_draft_def assert_advance_within_def ipc_mark_posted_def elim!: rbindE)
  from ipc_find_for_update_SomeD [OF p] obtain r0 where "r0 \<in> set (sal_ipcs s)" "p = ir_ipc r0" "ip_id p = i"
    "ip_company p = act_company act" "\<not> ir_deleted r0" by blast
  moreover have "sal_ipcs s1 = sal_ipcs s" using post_appends(1) [OF post] by (rule sales_more(3))
  ultimately show ?thesis using d a accs post sv s' x by (intro that) auto
qed

lemma post_ipc_inv:
  assumes "post_ipc D mk (erp_ports mk) i act now s = Inr (x, s')" and "sales_inv D mk s"
  shows "sales_inv D mk s'"
  using assms
proof (rule post_ipc_InrE)
  fix r0 :: ipc_row and accs e q tbl and s1 :: "'a sales_db_scheme"
  let ?p = "ir_ipc r0"
  assume r0: "r0 \<in> set (sal_ipcs s)" and i: "ip_id ?p = i" and co: "ip_company ?p = act_company act" and d: "ip_status ?p = IpcDraft"
    and accs: "resolve_sales_accounts (act_company act) (sal_accounts s) = Inr accs"
    and post: "post D mk (erp_ports mk) (build_ipc_command D ?p accs (act_user act)) now s = Inr (e, s1)"
    and q: "q = ?p\<lparr>ip_status := IpcPosted, ip_journal_entry := Some (je_id e), ip_entry_no := Some (je_no e),
             ip_posted_by := Some (act_user act), ip_posted_at := Some now\<rparr>"
    and sv: "ipc_save D q (ip_version ?p) (sal_ipcs s) = Inr tbl"
    and s': "s' = audit_record ''POST'' ''SalesInvoice'' i act (s1\<lparr>sal_ipcs := tbl\<rparr>)"
  from assms(2) r0 have ok: "ipc_amounts_ok ?p" "ipc_fits ?p" and di: "distinct (map (ip_id \<circ> ir_ipc) (sal_ipcs s))"
    and e: "erp_inv mk s"
    by (auto simp: sales_inv_def row_sound_def)
  note pe = posted_ipc_entry [OF post ok]
  note fr = sales_more [OF pe(2)]
  have hit: "ip_id ?p = ip_id q" by (simp add: q)
  note svd = saved_books [OF sv di r0 hit]
  have sb: "same_books ?p q" by (simp add: q same_books_def)
  have "same_books q (stored_ipc D q)"
    using ok by (auto simp: q same_books_def stored_ipc_def ipc_amounts_ok_def amounts_ok_def nonneg_grid_def to_dp_id
        intro!: on_grid_add on_grid_diff to_dp_id)
  then have sb': "same_books ?p (ir_ipc (saved_row D q (ip_version ?p) r0))"
    using saved_row_books [of q D "ip_version ?p" r0] sb by (simp add: same_books_def)
  show ?thesis
  proof (rule sales_inv_step [OF assms(2)])
    show "erp_inv mk s'"
      by (rule tx_post [OF assms(1) [unfolded post_ipc_def] e quiet_refl post]) (simp add: s')
    show "sal_accounts s' = sal_accounts s" by (simp add: s' fr)
    show "db_entries s' = db_entries s @ [stored_entry D e]" by (simp add: s' pe(1))
    show "distinct (map (ip_id \<circ> ir_ipc) (sal_ipcs s'))" using svd(1) by (simp add: s')
    have "row_sound D s' (ir_ipc (saved_row D q (ip_version ?p) r0))"
      by (rule posted_row_sound [OF sb' ok _ pe(5,4,3)]) (simp_all add: s' q pe(1) fr co accs)
    then show "\<forall>r \<in> set (sal_ipcs s'). ir_ipc r \<in> ir_ipc ` set (sal_ipcs s) \<or> row_sound D s' (ir_ipc r)"
      using svd(2) by (auto simp: s')
    show "\<forall>r \<in> set (sal_releases s'). r \<in> set (sal_releases s) \<or> release_ok r" by (simp add: s' fr)
  next
    fix co' a Q assume a: "resolve_sales_accounts co' (sal_accounts s) = Inr a" and "swap_free Q"
    have "row_net D Q a co' (ir_ipc (saved_row D q (ip_version ?p) r0)) =
        (if ip_company ?p = co' then net_of Q (ipc_lines D ?p a) else 0)"
      using same_books_lines [OF sb'] by (simp add: row_net_def q)
    moreover have "row_net D Q a co' ?p = 0" by (simp add: row_net_def d)
    moreover have "ledger_net Q (sales_entries co' [stored_entry D e]) = (if ip_company ?p = co' then net_of Q (ipc_lines D ?p a) else 0)"
      using accs a entry_net_lines [OF pe(3)] by (auto simp: sales_entry_def pe(4,5) co)
    ultimately show "ledger_net Q (sales_entries co' [stored_entry D e]) =
        (sum_list (map (row_net D Q a co' \<circ> ir_ipc) (sal_ipcs s')) - sum_list (map (row_net D Q a co' \<circ> ir_ipc) (sal_ipcs s))) +
        (sum_list (map (release_net Q a co') (sal_releases s')) - sum_list (map (release_net Q a co') (sal_releases s)))"
      by (simp add: s' fr svd(3))
  qed
qed

text \<open>A row as it is stored, once its figures fit, is the row.\<close>

lemma stored_same: "ipc_amounts_ok p \<Longrightarrow> same_books p (stored_ipc D p)"
  by (auto simp: same_books_def stored_ipc_def ipc_amounts_ok_def amounts_ok_def nonneg_grid_def to_dp_id
      intro!: on_grid_add on_grid_diff to_dp_id)

text \<open>Reversing the entry behind a posted certificate takes back exactly its lines.\<close>

lemma reverse_backed:
  assumes "reverse D mk (erp_ports mk) (the (ip_journal_entry p)) (ip_company p) reason who now s = Inr (e, s1)"
    and "sales_inv D mk s" and "backed D s p" and "resolve_sales_accounts (ip_company p) (sal_accounts s) = Inr a"
  shows "db_entries s1 = db_entries s @ [stored_entry D e]" and "db.more s1 = db.more s"
    and "je_company e = ip_company p" and "sales_entry e"
    and "swap_free Q \<Longrightarrow> entry_net Q (stored_entry D e) = - net_of Q (ipc_lines D p a)"
proof -
  from assms(3,4) obtain o1 where o1: "o1 \<in> set (db_entries s)" "ip_journal_entry p = Some (je_id o1)"
    "je_company o1 = ip_company p" "je_source_type o1 = ''SalesInvoice''" "je_lines o1 = lines_of (ipc_lines D p a)"
    by (auto simp: backed_def)
  from assms(2) have di: "distinct (map je_id (db_entries s))" and rows: "\<forall>x \<in> set (db_entries s). row_ok x"
    by (auto simp: sales_inv_def erp_inv_def ledger_core_def)
  from assms(1) show "db_entries s1 = db_entries s @ [stored_entry D e]" and "db.more s1 = db.more s"
    by (auto elim!: reverse_appends)
  from assms(1) obtain o' no j where o': "o' \<in> set (db_entries s)" "je_id o' = je_id o1"
    and e: "e = entry_reverse o' reason no who j now"
    using o1(2) by (auto elim!: reverse_appends)
  from distinct_map_inj [OF di o'(1) o1(1) o'(2)] have "o' = o1" .
  with e o1 show "je_company e = ip_company p" and "sales_entry e"
    by (auto simp: sales_entry_def entry_reverse_def)
  show "entry_net Q (stored_entry D e) = - net_of Q (ipc_lines D p a)" if "swap_free Q"
    unfolding e \<open>o' = o1\<close> using reversal_net [OF _ that] rows o1(1) entry_net_lines [OF o1(5)] by simp
qed

lemma cancel_ipc_inv:
  assumes "cancel_ipc D mk (erp_ports mk) i reason act now s = Inr (x, s')" and "sales_inv D mk s"
  shows "sales_inv D mk s'"
proof -
  from uow_run_InrD [OF assms(1) [unfolded cancel_ipc_def]]
  obtain p e s1 tbl where p: "ipc_find_for_update i (act_company act) (sal_ipcs s) = Some p"
    and d: "ip_status p = IpcPosted"
    and rev: "reverse D mk (erp_ports mk) (the (ip_journal_entry p)) (act_company act) reason (act_user act) now s = Inr (e, s1)"
    and sv: "ipc_save D (p\<lparr>ip_status := IpcCancelled\<rparr>) (ip_version p) (sal_ipcs s1) = Inr tbl"
    and s': "s' = audit_record ''CANCEL'' ''SalesInvoice'' i act (s1\<lparr>sal_ipcs := tbl\<rparr>)"
    by (auto simp: ipc_mark_cancelled_def elim!: rbindE)
  from ipc_find_for_update_SomeD [OF p] obtain r0 where r0: "r0 \<in> set (sal_ipcs s)" "p = ir_ipc r0" "ip_id p = i"
    "ip_company p = act_company act" by blast
  from assms(2) r0 d have ok: "ipc_amounts_ok p" "ipc_fits p" and b: "backed D s p"
    and di: "distinct (map (ip_id \<circ> ir_ipc) (sal_ipcs s))" and e: "erp_inv mk s"
    by (auto simp: sales_inv_def row_sound_def)
  from b obtain a0 where a0: "resolve_sales_accounts (ip_company p) (sal_accounts s) = Inr a0" by (auto simp: backed_def)
  note rv = reverse_backed [OF rev [folded r0(4)] assms(2) b a0]
  note fr = sales_more [OF rv(2)]
  let ?q = "p\<lparr>ip_status := IpcCancelled\<rparr>"
  have hit: "ip_id (ir_ipc r0) = ip_id ?q" by (simp add: r0)
  note svd = saved_books [OF sv [unfolded fr] di r0(1) hit]
  have "ipc_amounts_ok ?q" using ok by (simp add: ipc_amounts_ok_def)
  from saved_row_books [OF stored_same [OF this]] have "same_books p (ir_ipc (saved_row D ?q (ip_version p) r0))"
    by (simp add: same_books_def)
  from same_books_ok [OF this] ok have row: "row_sound D s' (ir_ipc (saved_row D ?q (ip_version p) r0))"
    by (simp add: row_sound_def)
  show ?thesis
  proof (rule sales_inv_step [OF assms(2)])
    show "erp_inv mk s'"
      by (rule tx_reverse [OF assms(1) [unfolded cancel_ipc_def] e quiet_refl rev]) (simp add: s')
    show "sal_accounts s' = sal_accounts s" by (simp add: s' fr)
    show "db_entries s' = db_entries s @ [stored_entry D e]" by (simp add: s' rv(1))
    show "distinct (map (ip_id \<circ> ir_ipc) (sal_ipcs s'))" using svd(1) by (simp add: s')
    show "\<forall>r \<in> set (sal_ipcs s'). ir_ipc r \<in> ir_ipc ` set (sal_ipcs s) \<or> row_sound D s' (ir_ipc r)"
      using svd(2) row by (auto simp: s')
    show "\<forall>r \<in> set (sal_releases s'). r \<in> set (sal_releases s) \<or> release_ok r" by (simp add: s' fr)
  next
    fix co a Q assume a: "resolve_sales_accounts co (sal_accounts s) = Inr a" and Q: "swap_free Q"
    have "ledger_net Q (sales_entries co [stored_entry D e]) = (if ip_company p = co then - net_of Q (ipc_lines D p a) else 0)"
      using a a0 rv(5) [OF Q] rv(3,4) by (auto simp: sales_entry_def)
    then show "ledger_net Q (sales_entries co [stored_entry D e]) =
        (sum_list (map (row_net D Q a co \<circ> ir_ipc) (sal_ipcs s')) - sum_list (map (row_net D Q a co \<circ> ir_ipc) (sal_ipcs s))) +
        (sum_list (map (release_net Q a co) (sal_releases s')) - sum_list (map (release_net Q a co) (sal_releases s)))"
      by (simp add: s' fr svd(3) row_net_def d flip: r0(2))
  qed
qed

lemma repost_ipc_inv:
  assumes "repost_ipc D mk (erp_ports mk) i patch reason act now s = Inr (x, s')" and "sales_inv D mk s"
  shows "sales_inv D mk s'"
proof -
  from uow_run_InrD [OF assms(1) [unfolded repost_ipc_def]]
  obtain p rates f c accs rev e s2 tbl inp project where p: "ipc_find_for_update i (act_company act) (sal_ipcs s) = Some p"
    and d: "ip_status p = IpcPosted" and r: "ipc_config_rates = Inr rates"
    and f: "compute_figures D inp rates (remaining_advance D (act_company act) project (ip_customer p) s) = Inr f"
    and c: "ipc_fill inp f rates (blank_ipc i (act_company act) (act_fy act)) = Inr c"
    and accs: "resolve_sales_accounts (act_company act) (sal_accounts s) = Inr accs"
    and rp: "repost D mk (erp_ports mk) (the (ip_journal_entry p)) (act_company act) reason (act_user act)
              (build_ipc_command D c accs (act_user act)) now s = Inr ((rev, e), s2)"
    and sv: "ipc_save D (c\<lparr>ip_status := IpcPosted, ip_journal_entry := Some (je_id e), ip_entry_no := Some (je_no e),
             ip_posted_by := Some (act_user act), ip_posted_at := Some now, ip_version := ip_version p\<rparr>)
             (ip_version p) (sal_ipcs s2) = Inr tbl"
    and s': "s' = audit_record ''POST'' ''SalesInvoice'' i act (s2\<lparr>sal_ipcs := tbl\<rparr>)"
    by (auto simp: ipc_create_draft_def ipc_mark_posted_def ipc_assert_draft_def Let_def elim!: rbindE)
  from rp obtain s1 where rev: "reverse D mk (erp_ports mk) (the (ip_journal_entry p)) (act_company act) reason (act_user act) now s = Inr (rev, s1)"
    and post: "post D mk (erp_ports mk) (build_ipc_command D c accs (act_user act)) now s1 = Inr (e, s2)"
    by (auto simp: repost_def elim!: rbindE)
  from ipc_find_for_update_SomeD [OF p] obtain r0 where r0: "r0 \<in> set (sal_ipcs s)" "p = ir_ipc r0" "ip_id p = i"
    "ip_company p = act_company act" by blast
  note fl = ipc_fill_Inr [OF c]
  have cf: "ip_id c = i" "ip_company c = act_company act" using fl(7,8) by (simp_all add: blank_ipc_def)
  from assms(2) r0 d have b: "backed D s p"
    and di: "distinct (map (ip_id \<circ> ir_ipc) (sal_ipcs s))" and e: "erp_inv mk s"
    by (auto simp: sales_inv_def row_sound_def)
  note rv = reverse_backed [OF rev [folded r0(4)] assms(2) b accs [folded r0(4)]]
  define q where "q = c\<lparr>ip_status := IpcPosted, ip_journal_entry := Some (je_id e), ip_entry_no := Some (je_no e),
             ip_posted_by := Some (act_user act), ip_posted_at := Some now, ip_version := ip_version p\<rparr>"
  have "ipc_row_checks (stored_ipc D c) = Inr ()"
    using ipc_save_InrD(2) [OF sv] by (simp add: ipc_row_checks_def stored_ipc_def)
  from stored_row_sound [OF e r f c this] have ok: "ipc_amounts_ok c" "ipc_fits c" by auto
  note pe = posted_ipc_entry [OF post ok]
  have more: "db.more s2 = db.more s" using pe(2) rv(2) by simp
  note fr = sales_more [OF more]
  have hit: "ip_id (ir_ipc r0) = ip_id q" using r0 cf by (simp add: q_def)
  note svd = saved_books [OF sv [folded q_def, unfolded fr] di r0(1) hit]
  have "ipc_amounts_ok q" using ok by (simp add: q_def ipc_amounts_ok_def)
  from saved_row_books [OF stored_same [OF this]] have sb: "same_books c (ir_ipc (saved_row D q (ip_version p) r0))"
    by (simp add: same_books_def q_def)
  show ?thesis
  proof (rule sales_inv_step [OF assms(2)])
    show "erp_inv mk s'"
      by (rule tx_repost [OF assms(1) [unfolded repost_ipc_def] e quiet_refl rp]) (simp add: s')
    show "sal_accounts s' = sal_accounts s" by (simp add: s' fr)
    show en: "db_entries s' = db_entries s @ [stored_entry D rev, stored_entry D e]" by (simp add: s' rv(1) pe(1))
    show "distinct (map (ip_id \<circ> ir_ipc) (sal_ipcs s'))" using svd(1) by (simp add: s')
    have "row_sound D s' (ir_ipc (saved_row D q (ip_version p) r0))"
      by (rule posted_row_sound [OF sb ok _ pe(5,4,3)]) (simp_all add: en, simp_all add: s' q_def fr cf accs)
    then show "\<forall>r \<in> set (sal_ipcs s'). ir_ipc r \<in> ir_ipc ` set (sal_ipcs s) \<or> row_sound D s' (ir_ipc r)"
      using svd(2) by (auto simp: s')
    show "\<forall>r \<in> set (sal_releases s'). r \<in> set (sal_releases s) \<or> release_ok r" by (simp add: s' fr)
  next
    fix co a Q assume a: "resolve_sales_accounts co (sal_accounts s) = Inr a" and Q: "swap_free Q"
    have ac: "a = accs" if "co = act_company act" using that a accs by simp
    have "row_net D Q a co (ir_ipc (saved_row D q (ip_version p) r0)) =
        (if act_company act = co then net_of Q (ipc_lines D c accs) else 0)"
      using same_books_lines [OF sb] ac by (auto simp: row_net_def q_def cf)
    moreover have "row_net D Q a co p = (if act_company act = co then net_of Q (ipc_lines D p accs) else 0)"
      using ac by (auto simp: row_net_def d r0(4))
    moreover have "ledger_net Q (sales_entries co [stored_entry D rev, stored_entry D e]) =
        (if act_company act = co then - net_of Q (ipc_lines D p accs) + net_of Q (ipc_lines D c accs) else 0)"
      using rv(3,4) rv(5) [OF Q] entry_net_lines [OF pe(3)] by (auto simp: sales_entry_def pe(4,5) cf r0(4))
    ultimately show "ledger_net Q (sales_entries co [stored_entry D rev, stored_entry D e]) =
        (sum_list (map (row_net D Q a co \<circ> ir_ipc) (sal_ipcs s')) - sum_list (map (row_net D Q a co \<circ> ir_ipc) (sal_ipcs s))) +
        (sum_list (map (release_net Q a co) (sal_releases s')) - sum_list (map (release_net Q a co) (sal_releases s)))"
      by (simp add: s' fr svd(3) flip: r0(2))
  qed
qed

lemma release_create_draft_InrD:
  "release_create_draft D i inp held = Inr r \<Longrightarrow>
     0 < rr_amount r \<and> \<not> held < rr_amount r \<and> on_grid 4 (rr_amount r) \<and> rr_company r = trim (nr_company inp) \<and>
     rr_ipc r = trim (nr_ipc inp) \<and> rr_id r = i \<and> rr_status r = RelDraft"
  by (auto simp: release_create_draft_def assert_releasable_def Let_def elim!: rbindE)

lemma release_retention_InrE:
  assumes "release_retention nn D mk (erp_ports mk) i date amount narr act now s = Inr (x, s')"
  obtains p held r accs e s1 where "ipc_find nn i (act_company act) (sal_ipcs s) = Some p" and "ip_status p = IpcPosted"
    and "held = money_minus D (ip_retention p) (sum_posted_released i (act_company act) (sal_releases s))"
    and "0 < rr_amount r" and "\<not> (if money_is_negative held then 0 else held) < rr_amount r" and "on_grid 4 (rr_amount r)"
    and "rr_amount r < 10 ^ 14"
    and "rr_company r = trim (act_company act)" and "rr_ipc r = trim i" and "rr_status x = RelPosted"
    and "rr_company x = rr_company r" and "rr_ipc x = rr_ipc r" and "rr_amount x = rr_amount r" and "rr_id x = mk (db_ids s)"
    and "resolve_sales_accounts (act_company act) (sal_accounts s) = Inr accs"
    and "post D mk (erp_ports mk) (release_command r accs (act_user act)) now (s\<lparr>db_ids := Suc (db_ids s)\<rparr>) = Inr (e, s1)"
    and "s' = audit_record ''POST'' ''RetentionRelease'' (rr_id x) act (s1\<lparr>sal_releases := sal_releases s @ [x\<lparr>rr_version := 1\<rparr>]\<rparr>)"
    and "pc_lines (release_command x accs []) = pc_lines (release_command r accs (act_user act))"
proof -
  from uow_run_InrD [OF assms [unfolded release_retention_def]]
  obtain p r accs e s1 tbl where p: "ipc_find nn i (act_company act) (sal_ipcs s) = Some p" and d: "ip_status p = IpcPosted"
    and r: "0 < rr_amount r" "\<not> (if money_is_negative (money_minus D (ip_retention p) (sum_posted_released i (act_company act) (sal_releases s))) then 0
        else money_minus D (ip_retention p) (sum_posted_released i (act_company act) (sal_releases s))) < rr_amount r"
      "on_grid 4 (rr_amount r)" "rr_company r = trim (act_company act)" "rr_ipc r = trim i" "rr_id r = mk (db_ids s)"
    and accs: "resolve_sales_accounts (act_company act) (sal_accounts s) = Inr accs"
    and post: "post D mk (erp_ports mk) (release_command r accs (act_user act)) now (s\<lparr>db_ids := Suc (db_ids s)\<rparr>) = Inr (e, s1)"
    and x: "x = r\<lparr>rr_status := RelPosted, rr_journal_entry := Some (je_id e), rr_entry_no := Some (je_no e),
                 rr_posted_by := Some (act_user act), rr_posted_at := Some now\<rparr>"
    and ins: "release_insert D x (sal_releases s1) = Inr tbl"
    and s': "s' = audit_record ''POST'' ''RetentionRelease'' (rr_id x) act (s1\<lparr>sal_releases := tbl\<rparr>)"
    by (auto simp: ids_next_def Let_def release_mark_posted_def elim!: rbindE dest!: release_create_draft_InrD
        split: if_splits)
  have rel: "sal_releases s1 = sal_releases s" using sales_more(4) [OF post_appends(1) [OF post]] by simp
  have tbl: "tbl = sal_releases s @ [x\<lparr>rr_version := 1\<rparr>]" "rr_amount r < 10 ^ 14"
    using ins r(3) by (auto simp: release_insert_def Let_def rel x to_dp_id elim!: rbindE)
  have x': "rr_amount x = rr_amount r" "rr_company x = rr_company r" "rr_ipc x = rr_ipc r" "rr_id x = mk (db_ids s)" "rr_status x = RelPosted"
    "pc_lines (release_command x accs []) = pc_lines (release_command r accs (act_user act))"
    by (simp_all add: x r(6) release_command_def)
  show ?thesis by (rule that [OF p d refl r(1-3) tbl(2) r(4,5) x'(5,2,3,1,4) accs post s' [unfolded tbl(1)] x'(6)])
qed

lemma release_inv:
  assumes "release_retention nn D mk (erp_ports mk) i date amount narr act now s = Inr (x, s')" and "sales_inv D mk s"
    and "trim (act_company act) = act_company act"
  shows "sales_inv D mk s'"
  using assms(1)
proof (rule release_retention_InrE)
  fix r accs e and s1 :: "'a sales_db_scheme"
  assume pos: "0 < rr_amount r" and g: "on_grid 4 (rr_amount r)" and co: "rr_company r = trim (act_company act)"
    and cx: "rr_company x = rr_company r" and x: "rr_status x = RelPosted" "rr_amount x = rr_amount r"
    and accs: "resolve_sales_accounts (act_company act) (sal_accounts s) = Inr accs"
    and post: "post D mk (erp_ports mk) (release_command r accs (act_user act)) now (s\<lparr>db_ids := Suc (db_ids s)\<rparr>) = Inr (e, s1)"
    and s': "s' = audit_record ''POST'' ''RetentionRelease'' (rr_id x) act (s1\<lparr>sal_releases := sal_releases s @ [x\<lparr>rr_version := 1\<rparr>]\<rparr>)"
    and lines: "pc_lines (release_command x accs []) = pc_lines (release_command r accs (act_user act))"
  from assms(2) have e: "erp_inv mk s" by (simp add: sales_inv_def)
  note pa = post_appends [OF post]
  have fr: "sal_accounts s1 = sal_accounts s" "sal_ipcs s1 = sal_ipcs s" using sales_more [OF pa(1)] by simp_all
  have "\<forall>l \<in> set (pc_lines (release_command r accs (act_user act))). pl_grid l"
    using g by (simp add: release_command_def pl_grid_def)
  note sl = stored_post_lines [OF post this]
  have en: "db_entries s' = db_entries s @ [stored_entry D e]" by (simp add: s' pa(2))
  show ?thesis
  proof (rule sales_inv_step [OF assms(2) _ _ en])
    show "erp_inv mk s'"
      by (rule tx_post [OF assms(1) [unfolded release_retention_def] e quiet_ids(2) post]) (simp add: s')
    show "sal_accounts s' = sal_accounts s" by (simp add: s' fr)
    show "distinct (map (ip_id \<circ> ir_ipc) (sal_ipcs s'))" using assms(2) by (simp add: s' fr sales_inv_def)
    show "\<forall>r \<in> set (sal_ipcs s'). ir_ipc r \<in> ir_ipc ` set (sal_ipcs s) \<or> row_sound D s' (ir_ipc r)" by (simp add: s' fr)
    have "sal_releases s1 = sal_releases s" using sales_more(4) [OF pa(1)] by simp
    then show "\<forall>r \<in> set (sal_releases s'). r \<in> set (sal_releases s) \<or> release_ok r"
      using pos g x by (auto simp: s' release_ok_def)
  next
    fix co' a Q assume a: "resolve_sales_accounts co' (sal_accounts s) = Inr a" and "swap_free Q"
    have "pc_lines (release_command (x\<lparr>rr_version := Suc 0\<rparr>) accs []) = pc_lines (release_command r accs (act_user act))"
      using lines by (simp add: release_command_def)
    then have "release_net Q a co' (x\<lparr>rr_version := Suc 0\<rparr>) =
        (if rr_company r = co' then net_of Q (pc_lines (release_command r accs (act_user act))) else 0)"
      using a accs assms(3) by (auto simp: release_net_def cx co)
    moreover have "ledger_net Q (sales_entries co' [stored_entry D e]) =
        (if rr_company r = co' then net_of Q (pc_lines (release_command r accs (act_user act))) else 0)"
      using entry_net_lines [OF sl] pa(4,6) by (auto simp: sales_entry_def release_command_def)
    ultimately show "ledger_net Q (sales_entries co' [stored_entry D e]) =
        (sum_list (map (row_net D Q a co' \<circ> ir_ipc) (sal_ipcs s')) - sum_list (map (row_net D Q a co' \<circ> ir_ipc) (sal_ipcs s))) +
        (sum_list (map (release_net Q a co') (sal_releases s')) - sum_list (map (release_net Q a co') (sal_releases s)))"
      by (simp add: s' fr)
  qed
qed

lemma sales_step_inv:
  assumes "sales_step nn D mk s s'" and "sales_inv D mk s"
  shows "sales_inv D mk s'"
  using assms(1)
proof (cases rule: sales_step.cases)
  case s_other
  from erp_step_append [OF s_other(1)] obtain new where new: "db_entries s' = db_entries s @ new" by blast
  with s_other(2) have "\<forall>e \<in> set new. \<not> sales_entry e" by (simp add: other_books_def)
  then have no: "sales_entries co new = []" for co by (auto simp: sales_entries_def filter_empty_conv)
  from assms(2) have "erp_inv mk s" by (simp add: sales_inv_def)
  from erp_step_inv [OF decimal_js_axioms s_other(1) this] show ?thesis
    using s_other(2) assms(2) by (intro sales_inv_step [OF assms(2) _ _ new]) (auto simp: other_books_def no sales_inv_def)
qed (use assms(2) in \<open>blast intro: create_ipc_inv update_ipc_inv delete_ipc_inv post_ipc_inv cancel_ipc_inv repost_ipc_inv release_inv\<close>)+

end

definition empty_sales :: "'a sales_db_scheme \<Rightarrow> bool" where
  "empty_sales s \<longleftrightarrow> empty_db s \<and> sal_ipcs s = [] \<and> sal_releases s = []"

lemma sales_reachable_inv:
  assumes "decimal_js D" and "inj mk" and "empty_sales s0" and "rtranclp (sales_step nn D mk) s0 s"
  shows "sales_inv D mk s"
  using assms(4)
proof (induction rule: rtranclp_induct)
  case base
  from assms(2,3) erp_inv_empty [OF assms(2), of s0] show ?case
    by (simp add: sales_inv_def empty_sales_def books_agree_def empty_db_def)
next
  case (step s s')
  show ?case by (rule decimal_js.sales_step_inv [OF assms(1) step(2,3)])
qed

end
