(* ===== verification/Sales_Books.thy ===== *)
theory Sales_Books
  imports Sales_Soundness
begin

text \<open>
  The properties of the sales module, over every state its committed steps reach, and a concrete run
  of the module.
\<close>

section \<open>A concrete run\<close>

definition demo_accounts :: "account_row list" where
  "demo_accounts = map (\<lambda>(i, c). \<lparr>ac_id = i, ac_company = ''C'', ac_code = c\<rparr>)
     [(''AR'', ''1200''), (''RET'', ''1210''), (''ADV'', ''2110''), (''AIT'', ''1220''), (''REV'', ''4100''), (''VAT'', ''2200'')]"

definition demo_map :: sales_account_map where
  "demo_map = \<lparr>sa_receivable = ''AR'', sa_retention = ''RET'', sa_advance = ''ADV'', sa_ait = ''AIT'',
     sa_revenue = ''REV'', sa_vat = ''VAT''\<rparr>"

definition demo_state :: "period list \<Rightarrow> journal_entry list \<Rightarrow> series_row list \<Rightarrow> audit_row list \<Rightarrow> nat \<Rightarrow> ipc_row list \<Rightarrow> sales_db" where
  "demo_state ps es ss au n is =
     \<lparr>db_fys = [sample_fy], db_series = ss, db_periods = ps, db_entries = es, db_audit = au, db_ids = n,
      sal_accounts = demo_accounts, sal_projects = [\<lparr>pj_id = ''P'', pj_company = ''C'', pj_customer = ''K''\<rparr>],
      sal_ipcs = is, sal_releases = []\<rparr>"

definition demo_periods :: "period list" where
  "demo_periods = [period_create ''0'' ''C'' ''FY'' ''Jul 2025'' ''2025-07-01'' ''2025-07-31'']"

definition demo_db :: sales_db where
  "demo_db = demo_state [] [] [] [] 0 []"

definition demo_open :: sales_db where
  "demo_open = demo_state demo_periods [] [] [] 1 []"

definition demo_audit :: "string \<Rightarrow> audit_row" where
  "demo_audit a = \<lparr>a_action = a, a_entity_type = ''SalesInvoice'', a_entity_id = ''1'', a_actor = ''U'', a_company = ''C''\<rparr>"

definition demo_new :: new_ipc where
  "demo_new = \<lparr>ni_project = ''P'', ni_customer = [], ni_seq_no = 1, ni_ipc_date = ''2025-07-10'',
     ni_bill_date = ''2025-07-10'', ni_due_date = ''2025-07-20'', ni_work_pct = Dec 30, ni_certified = Dec 1000,
     ni_cost_centre = ''CC'', ni_purpose = ''W'', ni_output_vat = None, ni_ait_tds = Some (Dec 20),
     ni_retention = None, ni_advance = None, ni_narration = None\<rparr>"

definition demo_ipc :: ipc where
  "demo_ipc = \<lparr>ip_id = ''1'', ip_company = ''C'', ip_fy = ''FY'', ip_project = ''P'', ip_customer = ''K'', ip_seq_no = 1,
     ip_ipc_date = ''2025-07-10'', ip_bill_date = ''2025-07-10'', ip_due_date = ''2025-07-20'', ip_work_pct = 30,
     ip_certified = 1000, ip_cost_centre = ''CC'', ip_purpose = ''W'', ip_output_vat = 75, ip_ait_tds = 20,
     ip_retention = 100, ip_advance = 0, ip_currently_due = 955, ip_retention_pct = 10, ip_advance_pct = 15,
     ip_narration = None, ip_status = IpcDraft, ip_entry_no = None, ip_journal_entry = None, ip_posted_at = None,
     ip_posted_by = None, ip_version = 1\<rparr>"

definition demo_created :: sales_db where
  "demo_created = demo_state demo_periods [] [] [demo_audit ''CREATE''] 2 [\<lparr>ir_ipc = demo_ipc, ir_deleted = False\<rparr>]"

definition demo_entry :: journal_entry where
  "demo_entry = \<lparr>je_id = ''3'', je_company = ''C'', je_fy = ''FY'', je_no = ''IPC/2525/0001'', je_voucher_type = SALES_IPC,
     je_voucher_date = ''2025-07-10'', je_source_type = ''SalesInvoice'', je_source_id = ''1'', je_is_reversal = False,
     je_reversal_of = None, je_posted_at = 5, je_posted_by = ''U'', je_narration = None,
     je_lines = lines_of (ipc_lines dec20 demo_ipc demo_map)\<rparr>"

definition demo_posted_ipc :: ipc where
  "demo_posted_ipc = demo_ipc\<lparr>ip_status := IpcPosted, ip_entry_no := Some ''IPC/2525/0001'', ip_journal_entry := Some ''3'',
     ip_posted_at := Some 5, ip_posted_by := Some ''U'', ip_version := 2\<rparr>"

definition demo_series :: series_row where
  "demo_series = \<lparr>s_id = ''2'', s_company = ''C'', s_fy = ''FY'', s_voucher_type = SALES_IPC,
     s_prefix = ''IPC'', s_padding = 4, s_last = 1, s_version = 1\<rparr>"

definition demo_posted :: sales_db where
  "demo_posted = demo_state demo_periods [demo_entry] [demo_series] [demo_audit ''CREATE'', demo_audit ''POST''] 4
     [\<lparr>ir_ipc = demo_posted_ipc, ir_deleted = False\<rparr>]"

lemma demo_generate: "generate_periods show_nat ''FY'' sample_actor demo_db = Inr (demo_periods, demo_open)"
  by code_simp

text \<open>The figures are evaluated from left to right, so that nothing is rounded before it is known.\<close>

definition demo_rates :: ipc_rates where
  "demo_rates = \<lparr>rt_retention = 10, rt_advance = 15, rt_vat = 15 / 2\<rparr>"

definition demo_figures :: ipc_figures where
  "demo_figures = \<lparr>fg_work_pct = 30, fg_certified = 1000, fg_output_vat = 75, fg_ait_tds = 20, fg_retention = 100,
     fg_advance = 0, fg_currently_due = 955, fg_retention_pct = 10\<rparr>"

lemma demo_figures: "compute_figures dec20 (demo_new\<lparr>ni_customer := ''K''\<rparr>) demo_rates 0 = Inr demo_figures"
  by (simp add: compute_figures_def demo_new_def demo_rates_def demo_figures_def rnd20_small to_dp20_small round4_def
      d_plus_def d_minus_def d_times_def d_div_def vat_fraction_def retention_fraction_def advance_fraction_def
      assert_pct_def override_amount_def assert_non_neg_def Let_def cong: rbind_weak_cong)

lemma demo_fill:
  "ipc_fill (demo_new\<lparr>ni_customer := ''K''\<rparr>) demo_figures demo_rates (blank_ipc ''1'' ''C'' ''FY'') = Inr demo_ipc"
  by code_simp

lemma demo_insert: "ipc_insert dec20 demo_ipc [] = Inr [\<lparr>ir_ipc = demo_ipc, ir_deleted = False\<rparr>]"
  by code_simp

lemma demo_open_facts:
  "ipc_config_rates = Inr demo_rates" "remaining_advance dec20 ''C'' ''P'' ''K'' demo_open = 0"
  "resolve_customer ''C'' ''P'' (sal_projects demo_open) = Some ''K''"
  "ids_next show_nat demo_open = (''1'', demo_state demo_periods [] [] [] 2 [])"
  by code_simp+

lemma demo_fields:
  "ni_project demo_new = ''P''" "ni_seq_no demo_new = 1" "act_company sample_actor = ''C''" "act_fy sample_actor = ''FY''"
  "sal_ipcs demo_open = []" "db_entries demo_open = []" "sal_ipcs (demo_state ps es ss au n is) = is"
  "db_entries (demo_state ps es ss au n is) = es"
  by (simp_all add: demo_new_def sample_actor_def demo_open_def demo_state_def)

lemma demo_create: "create_ipc True dec20 show_nat demo_new sample_actor demo_open = Inr (''1'', demo_created)"
  by (simp add: create_ipc_def uow_run_def ipc_create_draft_def demo_fill demo_figures demo_open_facts demo_fields
      demo_insert exists_seq_no_def)
    (simp add: demo_created_def audit_record_def sample_actor_def demo_state_def demo_audit_def)

lemma demo_post:
  "post_ipc dec20 show_nat (erp_ports show_nat) ''1'' sample_actor 5 demo_created = Inr ((''3'', ''IPC/2525/0001''), demo_posted)"
  by code_simp

definition demo_release :: retention_release where
  "demo_release = \<lparr>rr_id = ''4'', rr_company = ''C'', rr_fy = ''FY'', rr_ipc = ''1'', rr_project = ''P'', rr_customer = ''K'',
     rr_cost_centre = ''CC'', rr_purpose = ''W'', rr_date = ''2025-07-30'', rr_amount = 40, rr_narration = None,
     rr_status = RelPosted, rr_entry_no = Some ''JV/2525/0001'', rr_journal_entry = Some ''6'', rr_posted_at = Some 8,
     rr_posted_by = Some ''U'', rr_version = 1\<rparr>"

lemma demo_release_held:
  "\<exists>s'. release_retention True dec20 show_nat (erp_ports show_nat) ''1'' ''2025-07-30'' (Some (Dec 40)) None sample_actor 8 demo_posted =
     Inr (demo_release, s') \<and> sal_releases s' = [demo_release]"
proof -
  have "(case release_retention True dec20 show_nat (erp_ports show_nat) ''1'' ''2025-07-30'' (Some (Dec 40)) None sample_actor 8 demo_posted of
      Inr (r, s') \<Rightarrow> r = demo_release \<and> sal_releases s' = [demo_release] | Inl e \<Rightarrow> False)"
    by code_simp
  then show ?thesis by (auto split: sum.splits)
qed

lemma demo_empty: "empty_sales demo_db"
  by (simp add: empty_sales_def empty_db_def demo_db_def demo_state_def)

lemma demo_created_reachable: "rtranclp (sales_step True dec20 show_nat) demo_db demo_created"
proof -
  have "other_books demo_db demo_open" by (simp add: other_books_def demo_open_def demo_db_def demo_state_def)
  then have "sales_step True dec20 show_nat demo_db demo_open"
    by (rule s_other [OF step_period [OF step_generate [OF demo_generate]]])
  moreover have "sales_step True dec20 show_nat demo_open demo_created" by (rule s_create [OF demo_create])
  ultimately show ?thesis by (meson rtranclp.rtrancl_refl rtranclp.rtrancl_into_rtrancl)
qed

lemma demo_reachable: "rtranclp (sales_step True dec20 show_nat) demo_db demo_posted"
  by (rule rtranclp.rtrancl_into_rtrancl [OF demo_created_reachable s_post [OF demo_post]])

lemma demo_resolves: "resolve_sales_accounts ''C'' (sal_accounts demo_posted) = Inr demo_map"
  by code_simp

lemma demo_distinct: "sales_accounts_distinct demo_map"
  by (simp add: sales_accounts_distinct_def demo_map_def)

section \<open>Balances\<close>

text \<open>The certificates of a company whose posting is live, and the balance of an account over the sales entries.\<close>

definition posted_ipcs :: "string \<Rightarrow> ipc_row list \<Rightarrow> ipc list" where
  "posted_ipcs co tbl = filter (\<lambda>p. ip_company p = co \<and> ip_status p = IpcPosted) (map ir_ipc tbl)"

definition releases_of :: "string \<Rightarrow> retention_release list \<Rightarrow> retention_release list" where
  "releases_of co tbl = filter (\<lambda>r. rr_company r = co) tbl"

definition sales_balance :: "string \<Rightarrow> string \<Rightarrow> journal_entry list \<Rightarrow> decimal" where
  "sales_balance acc co es = ledger_net (\<lambda>l. jl_account l = acc) (sales_entries co es)"

lemma sum_list_filter_if: "sum_list (map f (filter P xs)) = sum_list (map (\<lambda>x. if P x then f x else (0 :: rat)) xs)"
  by (induction xs) auto

lemma balance_split:
  assumes "sales_inv D mk s" and "resolve_sales_accounts co (sal_accounts s) = Inr a"
    and "\<And>p. ipc_amounts_ok p \<Longrightarrow> ipc_fits p \<Longrightarrow> lines_net acc (ipc_lines D p a) = f p"
    and "\<And>r. lines_net acc (pc_lines (release_command r a [])) = g r"
  shows "sales_balance acc co (db_entries s) =
    sum_list (map f (posted_ipcs co (sal_ipcs s))) + sum_list (map g (releases_of co (sal_releases s)))"
proof -
  have "sales_balance acc co (db_entries s) =
      sum_list (map (row_net D (\<lambda>l. jl_account l = acc) a co \<circ> ir_ipc) (sal_ipcs s)) +
      sum_list (map (release_net (\<lambda>l. jl_account l = acc) a co) (sal_releases s))"
    using assms(1,2) swap_free_account [of acc] by (simp add: sales_inv_def books_agree_def sales_balance_def)
  moreover have "sum_list (map (row_net D (\<lambda>l. jl_account l = acc) a co \<circ> ir_ipc) (sal_ipcs s)) =
      sum_list (map f (posted_ipcs co (sal_ipcs s)))"
    unfolding posted_ipcs_def sum_list_filter_if map_map
    using assms(1,3)
    by (intro arg_cong [where f = sum_list] map_cong) (auto simp: row_net_def net_of_account sales_inv_def row_sound_def)
  moreover have "sum_list (map (release_net (\<lambda>l. jl_account l = acc) a co) (sal_releases s)) =
      sum_list (map g (releases_of co (sal_releases s)))"
    unfolding releases_of_def sum_list_filter_if
    using assms(4) by (intro arg_cong [where f = sum_list] map_cong) (auto simp: release_net_def net_of_account)
  ultimately show ?thesis by simp
qed

lemma release_lines_net:
  assumes "sales_accounts_distinct a"
  shows "lines_net (sa_receivable a) (pc_lines (release_command r a w)) = rr_amount r"
    and "lines_net (sa_retention a) (pc_lines (release_command r a w)) = - rr_amount r"
    and "lines_net (sa_advance a) (pc_lines (release_command r a w)) = 0"
    and "lines_net (sa_ait a) (pc_lines (release_command r a w)) = 0"
    and "lines_net (sa_revenue a) (pc_lines (release_command r a w)) = 0"
    and "lines_net (sa_vat a) (pc_lines (release_command r a w)) = 0"
  using assms by (auto simp: release_command_def sales_accounts_distinct_def)

section \<open>Properties\<close>

text \<open>
  C11.  The books of the sales module agree with its documents.  In every state its transactions reach,
  whatever the rest of the program posts, the balance the sales vouchers leave on each account is the
  figure the documents give: receivable is what the live certificates make currently due plus the
  retention released, retention receivable what they hold back less what was released, and the
  advance, the tax deducted, the revenue and the output VAT are the sums of the certificates' amounts.
\<close>
theorem sales_books_reconcile:
  assumes "decimal_js D" and "inj mk" and "empty_sales s0" and "rtranclp (sales_step nn D mk) s0 s"
    and "resolve_sales_accounts co (sal_accounts s) = Inr a" and "sales_accounts_distinct a"
  shows "sales_balance (sa_receivable a) co (db_entries s) =
      sum_list (map ip_currently_due (posted_ipcs co (sal_ipcs s))) + sum_list (map rr_amount (releases_of co (sal_releases s))) \<and>
    sales_balance (sa_retention a) co (db_entries s) =
      sum_list (map ip_retention (posted_ipcs co (sal_ipcs s))) - sum_list (map rr_amount (releases_of co (sal_releases s))) \<and>
    sales_balance (sa_advance a) co (db_entries s) = sum_list (map ip_advance (posted_ipcs co (sal_ipcs s))) \<and>
    sales_balance (sa_ait a) co (db_entries s) = sum_list (map ip_ait_tds (posted_ipcs co (sal_ipcs s))) \<and>
    sales_balance (sa_revenue a) co (db_entries s) = - sum_list (map ip_certified (posted_ipcs co (sal_ipcs s))) \<and>
    sales_balance (sa_vat a) co (db_entries s) = - sum_list (map ip_output_vat (posted_ipcs co (sal_ipcs s)))"
proof -
  note i = sales_reachable_inv [OF assms(1-4)]
  note net = decimal_js.ipc_lines_net [OF assms(1) _ _ assms(6)]
  note rel = release_lines_net [OF assms(6)]
  note b = balance_split [OF i assms(5)]
  show ?thesis
    using b [OF net(1) rel(1)] b [OF net(2) rel(2)] b [OF net(3) rel(3)] b [OF net(4) rel(4)] b [OF net(5) rel(5)]
      b [OF net(6) rel(6)]
    by (simp add: uminus_sum_list_map comp_def)
qed

theorem sales_books_reconcile_witness:
  "sales_balance ''AR'' ''C'' (db_entries demo_posted) = 955 \<and> sales_balance ''RET'' ''C'' (db_entries demo_posted) = 100"
proof -
  have p: "posted_ipcs ''C'' (sal_ipcs demo_posted) = [demo_posted_ipc]" "sal_releases demo_posted = []"
    by (simp_all add: posted_ipcs_def demo_posted_def demo_state_def demo_posted_ipc_def demo_ipc_def)
  show ?thesis
    using sales_books_reconcile [OF decimal_js_dec20 inj_show_nat demo_empty demo_reachable demo_resolves demo_distinct]
    by (simp add: p releases_of_def demo_map_def demo_posted_ipc_def demo_ipc_def)
qed

text \<open>
  C12.  Every stored certificate is exact and every posted one is backed.  In every reachable state the
  amounts of a certificate have four decimals, none is negative, the currently-due amount is exactly
  certified plus VAT less retention, advance and tax deducted, and a posted certificate has an entry
  in the ledger, of its company and posted for it, whose lines are the certificate's.
\<close>
theorem certificates_exact_and_backed:
  assumes "decimal_js D" and "inj mk" and "empty_sales s0" and "rtranclp (sales_step nn D mk) s0 s"
    and "r \<in> set (sal_ipcs s)" and "p = ir_ipc r"
  shows "0 < ip_certified p \<and> 0 \<le> ip_output_vat p \<and> 0 \<le> ip_ait_tds p \<and> 0 \<le> ip_retention p \<and> 0 \<le> ip_advance p \<and>
    ip_currently_due p = ip_certified p + ip_output_vat p - ip_retention p - ip_advance p - ip_ait_tds p \<and>
    0 \<le> ip_currently_due p \<and> on_grid 4 (ip_currently_due p) \<and>
    (ip_status p = IpcPosted \<longrightarrow> (\<exists>e \<in> set (db_entries s). ip_journal_entry p = Some (je_id e) \<and>
      je_company e = ip_company p \<and> je_source_type e = ''SalesInvoice'' \<and> entry_ok e \<and>
      (\<exists>a. resolve_sales_accounts (ip_company p) (sal_accounts s) = Inr a \<and> je_lines e = lines_of (ipc_lines D p a))))"
proof -
  from sales_reachable_inv [OF assms(1-4)] assms(5,6) have i: "row_sound D s p" and e: "\<forall>e \<in> set (db_entries s). entry_ok e"
    by (auto simp: sales_inv_def dest: erp_inv_entries)
  from i have "ipc_amounts_ok p" by (simp add: row_sound_def)
  then have "on_grid 4 (ip_currently_due p)"
    by (auto simp: ipc_amounts_ok_def amounts_ok_def nonneg_grid_def intro!: on_grid_add on_grid_diff)
  with i e show ?thesis
    by (auto simp: row_sound_def ipc_amounts_ok_def amounts_ok_def nonneg_grid_def backed_def)
qed

theorem certificates_exact_and_backed_witness:
  "\<exists>e \<in> set (db_entries demo_posted). je_id e = ''3'' \<and> entry_ok e"
proof -
  have r: "\<lparr>ir_ipc = demo_posted_ipc, ir_deleted = False\<rparr> \<in> set (sal_ipcs demo_posted)"
    by (simp add: demo_posted_def demo_state_def)
  have "ip_status demo_posted_ipc = IpcPosted" "ip_journal_entry demo_posted_ipc = Some ''3''"
    by (simp_all add: demo_posted_ipc_def)
  with certificates_exact_and_backed [OF decimal_js_dec20 inj_show_nat demo_empty demo_reachable r refl]
  show ?thesis by auto
qed

text \<open>What a release checked, and what it leaves behind.\<close>

lemma release_effect:
  fixes s s' :: "'a sales_db_scheme"
  assumes "decimal_js D" and "release_retention nn D mk (erp_ports mk) i date amount narr act now s = Inr (x, s')"
    and "trim i = i" and "trim (act_company act) = act_company act"
  obtains p held where "ipc_find nn i (act_company act) (sal_ipcs s) = Some p" and "ip_status p = IpcPosted"
    and "held = money_minus D (ip_retention p) (sum_posted_released i (act_company act) (sal_releases s))"
    and "0 < rr_amount x" and "rr_amount x \<le> (if money_is_negative held then 0 else held)"
    and "rr_company x = act_company act" and "rr_ipc x = i" and "rr_status x = RelPosted"
    and "sal_ipcs s' = sal_ipcs s" and "sal_releases s' = sal_releases s @ [x\<lparr>rr_version := 1\<rparr>]"
proof (rule decimal_js.release_retention_InrE [OF assms(1,2)])
  fix p held accs e and r :: retention_release and s1 :: "'a sales_db_scheme"
  assume "post D mk (erp_ports mk) (release_command r accs (act_user act)) now (s\<lparr>db_ids := Suc (db_ids s)\<rparr>) = Inr (e, s1)"
  then have "sal_ipcs s1 = sal_ipcs s" using sales_more(3) [OF post_appends(1)] by fastforce
  moreover assume "ipc_find nn i (act_company act) (sal_ipcs s) = Some p" "ip_status p = IpcPosted"
    "held = money_minus D (ip_retention p) (sum_posted_released i (act_company act) (sal_releases s))"
    "0 < rr_amount r" "\<not> (if money_is_negative held then 0 else held) < rr_amount r"
    "rr_company r = trim (act_company act)" "rr_ipc r = trim i" "rr_status x = RelPosted" "rr_company x = rr_company r"
    "rr_ipc x = rr_ipc r" "rr_amount x = rr_amount r"
    "s' = audit_record ''POST'' ''RetentionRelease'' (rr_id x) act (s1\<lparr>sal_releases := sal_releases s @ [x\<lparr>rr_version := 1\<rparr>]\<rparr>)"
  ultimately show ?thesis using assms(3,4) by (intro that [of p held]) auto
qed

text \<open>
  C13.  A release of retention pays out at most what is still held.  In every reachable state, a release that commits
  names a posted certificate and leaves the total released against it at most the retention the certificate holds at
  that moment; it changes no certificate and no other certificate's total.  (Releases are not looked at again when the
  certificate is later reposted for less or cancelled.)
\<close>
theorem retention_release_within_held:
  assumes "decimal_js D" and "inj mk" and "empty_sales s0" and "rtranclp (sales_step nn D mk) s0 s"
    and "release_retention nn D mk (erp_ports mk) i date amount narr act now s = Inr (x, s')"
    and "trim i = i" and "trim (act_company act) = act_company act"
  shows "\<exists>p. ipc_find nn i (act_company act) (sal_ipcs s) = Some p \<and> ip_status p = IpcPosted \<and> 0 < rr_amount x \<and>
    sum_posted_released i (act_company act) (sal_releases s') = sum_posted_released i (act_company act) (sal_releases s) + rr_amount x \<and>
    sum_posted_released i (act_company act) (sal_releases s') \<le> ip_retention p \<and> sal_ipcs s' = sal_ipcs s \<and>
    (\<forall>j co. (j, co) \<noteq> (i, act_company act) \<longrightarrow>
       sum_posted_released j co (sal_releases s') = sum_posted_released j co (sal_releases s))"
proof -
  from sales_reachable_inv [OF assms(1-4)] have inv: "sales_inv D mk s" .
  let ?T = "sum_posted_released i (act_company act) (sal_releases s)"
  obtain p held where p: "ipc_find nn i (act_company act) (sal_ipcs s) = Some p" "ip_status p = IpcPosted"
    and held: "held = money_minus D (ip_retention p) ?T"
    and x: "0 < rr_amount x" "rr_amount x \<le> (if money_is_negative held then 0 else held)"
      "rr_company x = act_company act" "rr_ipc x = i" "rr_status x = RelPosted"
    and s': "sal_ipcs s' = sal_ipcs s" "sal_releases s' = sal_releases s @ [x\<lparr>rr_version := 1\<rparr>]"
    by (rule release_effect [OF assms(1,5-7)])
  have posr: "\<forall>r \<in> set (sal_releases s). 0 \<le> rr_amount r \<and> on_grid 4 (rr_amount r)"
    using inv unfolding sales_inv_def release_ok_def by (meson less_imp_le)
  have T: "0 \<le> ?T" "on_grid 4 ?T"
    using posr unfolding sum_posted_released_def by (auto intro!: sum_list_nonneg on_grid_sum_list)
  from ipc_find_SomeD [OF p(1)] inv have row: "row_sound D s p" by (auto simp: sales_inv_def)
  then have R: "0 \<le> ip_retention p" "on_grid 4 (ip_retention p)" "ip_retention p < 10 ^ 15"
    by (auto simp: row_sound_def ipc_amounts_ok_def amounts_ok_def nonneg_grid_def ipc_fits_def amounts_fit_def)
  have h: "rr_amount x \<le> held" using x(1,2) by (auto simp: money_is_negative_def split: if_splits)
  with x(1) have "0 < rnd D (ip_retention p - ?T)" by (simp add: held money_minus_def d_minus_def)
  then have pos: "0 \<le> ip_retention p - ?T" by (meson decimal_js.rnd_nonpos [OF assms(1)] leI less_imp_le not_le)
  have "exact_range (ip_retention p - ?T)" using T R pos by (auto simp: exact_range_def)
  then have "held = ip_retention p - ?T" by (simp add: held money_minus_def decimal_js.minus_exact [OF assms(1)])
  with h have "?T + rr_amount x \<le> ip_retention p" by simp
  moreover have "sum_posted_released j co (sal_releases s') =
      sum_posted_released j co (sal_releases s) + (if (j, co) = (i, act_company act) then rr_amount x else 0)" for j co
    using x(3-5) by (auto simp: sum_posted_released_def s')
  ultimately show ?thesis using p s'(1) x(1) by auto
qed

theorem retention_release_within_held_witness:
  "sum_posted_released ''1'' ''C'' [demo_release] \<le> 100"
proof -
  from demo_release_held obtain s' where r: "release_retention True dec20 show_nat (erp_ports show_nat) ''1'' ''2025-07-30''
      (Some (Dec 40)) None sample_actor 8 demo_posted = Inr (demo_release, s')" "sal_releases s' = [demo_release]" by blast
  have "trim ''1'' = ''1''" "trim (act_company sample_actor) = act_company sample_actor" by code_simp+
  from retention_release_within_held [OF decimal_js_dec20 inj_show_nat demo_empty demo_reachable r(1) this] r(2)
  have "\<exists>p. ipc_find True ''1'' ''C'' (sal_ipcs demo_posted) = Some p \<and> sum_posted_released ''1'' ''C'' [demo_release] \<le> ip_retention p"
    by (auto simp: sample_actor_def)
  moreover have "ipc_find True ''1'' ''C'' (sal_ipcs demo_posted) = Some demo_posted_ipc"
    by (simp add: ipc_find_def demo_posted_def demo_state_def demo_posted_ipc_def demo_ipc_def)
  ultimately show ?thesis by (auto simp: demo_posted_ipc_def demo_ipc_def)
qed

section \<open>The mobilization advance\<close>

text \<open>The balance of a customer's advance on a project: what was received less what was recovered.\<close>

definition advance_balance :: "string \<Rightarrow> string \<Rightarrow> string \<Rightarrow> string \<Rightarrow> journal_entry list \<Rightarrow> decimal" where
  "advance_balance co acc customer project es =
     sum_list (map jl_credit (party_lines co acc customer project es)) -
     sum_list (map jl_debit (party_lines co acc customer project es))"

lemma advance_balance_append:
  "advance_balance co acc customer project (es @ [e]) = advance_balance co acc customer project es -
     (if je_company e = co then entry_net (\<lambda>l. jl_account l = acc \<and> jl_party l = Some customer \<and> jl_project l = Some project) e else 0)"
proof -
  have "sum_list (map jl_net ls) = sum_list (map jl_debit ls) - sum_list (map jl_credit ls)" for ls
    by (induction ls) (auto simp: jl_net_def)
  then show ?thesis by (simp add: advance_balance_def party_lines_def entry_net_def)
qed

lemma ipc_lines_advance:
  assumes "sales_accounts_distinct a" and "0 \<le> ip_advance p"
  shows "net_of (\<lambda>l. jl_account l = sa_advance a \<and> jl_party l = Some (ip_customer p) \<and> jl_project l = Some (ip_project p))
    (ipc_lines D p a) = ip_advance p"
proof -
  have "filter (\<lambda>l. jl_account l = sa_advance a \<and> jl_party l = Some (ip_customer p) \<and> jl_project l = Some (ip_project p)) (lines_of ls) =
      filter (\<lambda>l. jl_account l = sa_advance a) (lines_of ls)"
    if "\<forall>l \<in> set ls. pl_account l = sa_advance a \<longrightarrow> pl_party l = Some (ip_customer p) \<and> pl_project l = Some (ip_project p)" for ls
    using that by (intro filter_cong) (auto simp: lines_of_def in_set_enumerate_eq)
  moreover have "\<forall>l \<in> set (ipc_lines D p a). pl_account l = sa_advance a \<longrightarrow> pl_party l = Some (ip_customer p) \<and> pl_project l = Some (ip_project p)"
    using assms(1) unfolding ipc_lines_def by (auto simp: sales_accounts_distinct_def)
  ultimately have "net_of (\<lambda>l. jl_account l = sa_advance a \<and> jl_party l = Some (ip_customer p) \<and> jl_project l = Some (ip_project p))
      (ipc_lines D p a) = net_of (\<lambda>l. jl_account l = sa_advance a) (ipc_lines D p a)"
    by (simp add: net_of_def)
  also have "\<dots> = ip_advance p"
    using assms unfolding net_of_account ipc_lines_def by (auto simp: sales_accounts_distinct_def)
  finally show ?thesis .
qed

lemma advance_within_exact:
  assumes "decimal_js D" and "erp_inv mk s" and "0 \<le> advance_balance co (ac_id a) customer project (db_entries s)"
    and "List.find (\<lambda>a. ac_company a = co \<and> ac_code a = ''2110'') (sal_accounts s) = Some a"
    and "x \<le> remaining_advance D co project customer s" and "x < 10 ^ 15"
  shows "x \<le> advance_balance co (ac_id a) customer project (db_entries s)"
proof (cases "advance_balance co (ac_id a) customer project (db_entries s) < 10 ^ 16")
  case True
  let ?b = "advance_balance co (ac_id a) customer project (db_entries s)"
  have g: "on_grid 4 (jl_debit l) \<and> on_grid 4 (jl_credit l)"
    if "l \<in> set (party_lines co (ac_id a) customer project (db_entries s))" for l
    using that erp_inv_grid [OF assms(2)] by (auto simp: party_lines_def)
  then have "on_grid 4 ?b" unfolding advance_balance_def by (intro on_grid_diff on_grid_sum_list) auto
  with True assms(3) have "exact_range ?b" by (simp add: exact_range_def)
  then have "remaining_advance D co project customer s = ?b"
    using assms(3,4) decimal_js.minus_exact [OF assms(1)]
    by (simp add: remaining_advance_def Let_def advance_balance_def)
  with assms(5) show ?thesis by simp
next
  case False
  with assms(6) show ?thesis by simp
qed

text \<open>
  C14.  An advance is never over-recovered.  A certificate posted in any reachable state lowers the
  advance of its customer on its project by exactly the amount it recovers, and if no more had been
  recovered than received before, then neither after.
\<close>
theorem advance_never_over_recovered:
  assumes "decimal_js D" and "inj mk" and "empty_sales s0" and "rtranclp (sales_step nn D mk) s0 s"
    and "post_ipc D mk (erp_ports mk) i act now s = Inr (x, s')"
    and "resolve_sales_accounts (act_company act) (sal_accounts s) = Inr a" and "sales_accounts_distinct a"
  shows "\<exists>r \<in> set (sal_ipcs s). ip_id (ir_ipc r) = i \<and>
    advance_balance (act_company act) (sa_advance a) (ip_customer (ir_ipc r)) (ip_project (ir_ipc r)) (db_entries s') =
      advance_balance (act_company act) (sa_advance a) (ip_customer (ir_ipc r)) (ip_project (ir_ipc r)) (db_entries s) -
      ip_advance (ir_ipc r) \<and>
    (0 \<le> advance_balance (act_company act) (sa_advance a) (ip_customer (ir_ipc r)) (ip_project (ir_ipc r)) (db_entries s) \<longrightarrow>
     0 \<le> advance_balance (act_company act) (sa_advance a) (ip_customer (ir_ipc r)) (ip_project (ir_ipc r)) (db_entries s'))"
proof -
  note inv = sales_reachable_inv [OF assms(1-4)]
  show ?thesis
  proof (rule decimal_js.post_ipc_InrE [OF assms(1,5) inv])
    fix r :: ipc_row and accs e q tbl and s1 :: "'a sales_db_scheme"
    let ?p = "ir_ipc r" and ?co = "act_company act"
    let ?b = "advance_balance ?co (sa_advance a) (ip_customer ?p) (ip_project ?p)"
    assume r: "r \<in> set (sal_ipcs s)" "ip_id ?p = i" "ip_company ?p = ?co"
      and adv: "\<not> remaining_advance D ?co (ip_project ?p) (ip_customer ?p) s < ip_advance ?p"
      and accs: "resolve_sales_accounts ?co (sal_accounts s) = Inr accs"
      and post: "post D mk (erp_ports mk) (build_ipc_command D ?p accs (act_user act)) now s = Inr (e, s1)"
      and s': "s' = audit_record ''POST'' ''SalesInvoice'' i act (s1\<lparr>sal_ipcs := tbl\<rparr>)"
    from assms(6) accs have a: "accs = a" by simp
    from inv r(1) have ok: "ipc_amounts_ok ?p" "ipc_fits ?p" and e: "erp_inv mk s" by (auto simp: sales_inv_def row_sound_def)
    note pe = decimal_js.posted_ipc_entry [OF assms(1) post ok]
    from ok have n: "0 \<le> ip_advance ?p" "ip_advance ?p < 10 ^ 15"
      by (auto simp: ipc_amounts_ok_def amounts_ok_def nonneg_grid_def ipc_fits_def amounts_fit_def)
    have after: "?b (db_entries s') = ?b (db_entries s) - ip_advance ?p"
      using entry_net_lines [OF pe(3)] ipc_lines_advance [OF assms(7) n(1), where D = D]
      by (simp add: s' pe(1,5) advance_balance_append a r(3))
    from assms(6) obtain ac where ac: "List.find (\<lambda>a. ac_company a = ?co \<and> ac_code a = ''2110'') (sal_accounts s) = Some ac"
      and id: "sa_advance a = ac_id ac"
      by (auto simp: resolve_sales_accounts_def by_code_def elim!: rbindE split: option.splits)
    have "0 \<le> ?b (db_entries s')" if "0 \<le> ?b (db_entries s)"
      using advance_within_exact [OF assms(1) e that [unfolded id] ac _ n(2)] adv after id by (simp add: not_less)
    with r after show ?thesis by blast
  qed
qed

theorem advance_never_over_recovered_witness:
  "0 \<le> advance_balance ''C'' ''ADV'' ''K'' ''P'' (db_entries demo_posted)"
proof -
  have c: "act_company sample_actor = ''C''" by (simp add: sample_actor_def)
  have a: "resolve_sales_accounts (act_company sample_actor) (sal_accounts demo_created) = Inr demo_map" by code_simp
  have i: "set (sal_ipcs demo_created) = {\<lparr>ir_ipc = demo_ipc, ir_deleted = False\<rparr>}" "db_entries demo_created = []"
    by (simp_all add: demo_created_def demo_state_def)
  have z: "advance_balance ''C'' ''ADV'' ''K'' ''P'' [] = 0" by (simp add: advance_balance_def party_lines_def)
  from advance_never_over_recovered [OF decimal_js_dec20 inj_show_nat demo_empty demo_created_reachable demo_post a demo_distinct]
  show ?thesis by (simp add: i c z demo_map_def demo_ipc_def)
qed

end
