(* ===== verification/Policies.thy ===== *)
theory Policies
  imports Vouchers
begin

text \<open>
  The policies use cases consult: the access policy (\<open>src/src/core/auth/domain/access-policy.ts\<close>), the
  consistency of project-scoped tags and the over-budget classification with its prospective check
  (\<open>src/src/core/cost-control/\<close>).
\<close>

section \<open>Access\<close>

datatype project_filter = AllProjects | OnlyProjects "string list"

definition assert_project_in_scope :: "actor \<Rightarrow> string \<Rightarrow> domain_error + unit" where
  "assert_project_in_scope act project =
     (if act_unscoped act then Inr ()
      else require (project \<in> set (act_projects act)) (JsError ''FORBIDDEN_SCOPE''))"

definition scope_project_filter :: "actor \<Rightarrow> project_filter" where
  "scope_project_filter act = (if act_unscoped act then AllProjects else OnlyProjects (act_projects act))"

definition assert_within_approval_limit :: "actor \<Rightarrow> decimal \<Rightarrow> domain_error + unit" where
  "assert_within_approval_limit act v =
     (case act_limit act of
        None \<Rightarrow> Inl (JsError ''OVER_APPROVAL_LIMIT'')
      | Some limit \<Rightarrow> require (\<not> limit < v) (JsError ''OVER_APPROVAL_LIMIT''))"

text \<open>A use case that answers a scope error with \<open>403 FORBIDDEN\<close>.\<close>

definition scope_or_forbidden :: "actor \<Rightarrow> string \<Rightarrow> domain_error + unit" where
  "scope_or_forbidden act project =
     (case assert_project_in_scope act project of
        Inl _ \<Rightarrow> Inl (CodedError ''FORBIDDEN'' project)
      | Inr u \<Rightarrow> Inr u)"

definition in_filter :: "project_filter \<Rightarrow> string \<Rightarrow> bool" where
  "in_filter f project = (case f of AllProjects \<Rightarrow> True | OnlyProjects ps \<Rightarrow> project \<in> set ps)"

section \<open>Tag consistency\<close>

record tag_line =
  tl_project :: string
  tl_purpose :: "string option"
  tl_godown :: "string option"

text \<open>\<open>projectOfPurposes\<close>, \<open>projectOfGodowns\<close>: a lookup in a map filled row by row, so the last row wins.\<close>

definition owner_project :: "string \<Rightarrow> owned_row list \<Rightarrow> string \<Rightarrow> string option" where
  "owner_project co rows i =
     (case List.find (\<lambda>r. ow_company r = co \<and> ow_id r = i) (rev rows) of None \<Rightarrow> None | Some r \<Rightarrow> ow_project r)"

definition tag_dim_check :: "string \<Rightarrow> owned_row list \<Rightarrow> string \<Rightarrow> string option \<Rightarrow> domain_error + unit" where
  "tag_dim_check co rows project tag =
     (if truthy tag
      then require (owner_project co rows (the tag) = Some project) (CodedError ''CROSS_PROJECT_DIMENSION'' (the tag))
      else Inr ())"

definition assert_consistent ::
  "string \<Rightarrow> owned_row list \<Rightarrow> owned_row list \<Rightarrow> tag_line list \<Rightarrow> domain_error + unit" where
  "assert_consistent co purposes godowns ls =
     riter (\<lambda>l. rbind (tag_dim_check co purposes (tl_project l) (tl_purpose l)) (\<lambda>_.
                tag_dim_check co godowns (tl_project l) (tl_godown l))) ls"

definition tags_agree :: "string \<Rightarrow> owned_row list \<Rightarrow> owned_row list \<Rightarrow> tag_line \<Rightarrow> bool" where
  "tags_agree co purposes godowns l \<longleftrightarrow>
     (truthy (tl_purpose l) \<longrightarrow> owner_project co purposes (the (tl_purpose l)) = Some (tl_project l)) \<and>
     (truthy (tl_godown l) \<longrightarrow> owner_project co godowns (the (tl_godown l)) = Some (tl_project l))"

lemma assert_consistent_Inr:
  "assert_consistent co purposes godowns ls = Inr u \<longleftrightarrow> (\<forall>l \<in> set ls. tags_agree co purposes godowns l)"
  by (auto simp: assert_consistent_def riter_eq_Inr tags_agree_def tag_dim_check_def rbind_eq_Inr)

section \<open>Budgets\<close>

datatype budget_status = BudgetOk | Approaching | Over | Unbudgeted

definition classify :: "dec_lib \<Rightarrow> decimal option \<Rightarrow> decimal \<Rightarrow> budget_status \<times> decimal option" where
  "classify D budgeted actual =
     (case budgeted of
        None \<Rightarrow> (Unbudgeted, None)
      | Some b \<Rightarrow>
          if b \<le> 0 then (Unbudgeted, None)
          else let u = d_times D (d_div D actual b) 100 in
            (if 100 \<le> u then Over else if 90 \<le> u then Approaching else BudgetOk, Some u))"

record draft_cost =
  dc_project :: string
  dc_cost_centre :: string
  dc_amount :: decimal

record prospective =
  pr_project :: string
  pr_cost_centre :: string
  pr_current :: decimal
  pr_draft :: decimal
  pr_budget :: "decimal option"
  pr_utilisation :: "decimal option"
  pr_status :: budget_status

text \<open>
  \<open>drafts\<close>: the draft's amounts summed per pair, in the insertion order of a JavaScript \<open>Map\<close>.  The two
  reads are given as functions of the pair.
\<close>

fun add_draft :: "dec_lib \<Rightarrow> draft_cost \<Rightarrow> draft_cost list \<Rightarrow> draft_cost list" where
  "add_draft D l [] = [l\<lparr>dc_amount := d_plus D 0 (dc_amount l)\<rparr>]"
| "add_draft D l (d # ds) =
     (if dc_project d = dc_project l \<and> dc_cost_centre d = dc_cost_centre l
      then d\<lparr>dc_amount := d_plus D (dc_amount d) (dc_amount l)\<rparr> # ds
      else d # add_draft D l ds)"

definition check_prospective ::
  "dec_lib \<Rightarrow> (string \<Rightarrow> string \<Rightarrow> decimal option) \<Rightarrow> (string \<Rightarrow> string \<Rightarrow> decimal option) \<Rightarrow> draft_cost list \<Rightarrow>
   prospective list" where
  "check_prospective D actual_of budget_of ls =
     map (\<lambda>d.
       let current = (case actual_of (dc_project d) (dc_cost_centre d) of Some x \<Rightarrow> x | None \<Rightarrow> 0);
           budget = budget_of (dc_project d) (dc_cost_centre d);
           (status, u) = classify D budget (d_plus D current (dc_amount d))
       in \<lparr>pr_project = dc_project d, pr_cost_centre = dc_cost_centre d, pr_current = current,
           pr_draft = dc_amount d, pr_budget = budget, pr_utilisation = u, pr_status = status\<rparr>)
     (fold (add_draft D) ls [])"

text \<open>
  \<open>actualByPair\<close>: what the ledger has charged to the expense accounts of a pair, the sum taken by the
  database over \<open>numeric\<close> values.
\<close>

definition actual_by_pair ::
  "(string \<Rightarrow> bool) \<Rightarrow> string \<Rightarrow> journal_entry list \<Rightarrow> string \<Rightarrow> string \<Rightarrow> decimal option" where
  "actual_by_pair is_expense co es project cc =
     (let ls = filter (\<lambda>l. is_expense (jl_account l) \<and> jl_project l = Some project \<and> jl_cost_centre l = Some cc)
                 (concat (map je_lines (filter (\<lambda>e. je_company e = co) es)))
      in if ls = [] then None else Some (sum_list (map jl_net ls)))"

section \<open>Rounding never misclassifies\<close>

text \<open>The classification over the exact ratio of actual to budget.\<close>

definition classify_exact :: "decimal option \<Rightarrow> decimal \<Rightarrow> budget_status" where
  "classify_exact budgeted actual =
     (case budgeted of
        None \<Rightarrow> Unbudgeted
      | Some b \<Rightarrow> if b \<le> 0 then Unbudgeted else if b \<le> actual then Over else if 9 * b \<le> 10 * actual then Approaching else BudgetOk)"

text \<open>Two multiples of the grid that differ, differ by at least one unit.\<close>

lemma grid_gap:
  assumes "on_grid n x" and "x < 0" shows "x * 10 ^ n \<le> -1"
proof -
  from assms(1) obtain m where m: "x * 10 ^ n = of_int m" by (auto simp: on_grid_def elim: Ints_cases)
  have "x * 10 ^ n < 0" using assms(2) by (simp add: mult_neg_pos)
  then have "m \<le> -1" by (simp add: m)
  then show ?thesis unfolding m by (metis of_int_le_iff of_int_minus of_int_1)
qed

lemma on_grid_scale: "on_grid n x \<Longrightarrow> on_grid n (of_int k * x)"
  unfolding on_grid_def mult.assoc by (rule Ints_mult) auto

text \<open>A ratio one unit of the grid away from a threshold is a fixed distance away from it.\<close>

lemma ratio_gap:
  fixes x b c e :: rat
  assumes "0 < b" and "b < 10 ^ 14" and "e \<le> y * b" and "0 < e" shows "e / 10 ^ 14 < y"
proof -
  have "0 < y" using assms(1,3,4) by (meson less_le_trans zero_less_mult_pos2)
  then have "y * b < y * 10 ^ 14" using assms(2) by (rule mult_strict_left_mono [rotated])
  with assms(3) show ?thesis by simp
qed

context decimal_js begin

text \<open>Both roundings of the percentage move it by less than that distance.\<close>

lemma percent_near:
  assumes "0 < x"
  defines "u \<equiv> rnd D (rnd D x * 100)"
  shows "u \<le> 100 * x + 100 * x / 9990000000000000000" and "100 * x - 100 * x / 9990000000000000000 \<le> u"
proof -
  define q where "q = rnd D x"
  define A where "A = \<bar>q - x\<bar>"
  define B where "B = \<bar>u - q * 100\<bar>"
  have q0: "0 \<le> q" unfolding q_def using assms(1) by (intro rnd_nonneg) simp
  have "A * 20000000000000000000 \<le> x" using rnd_error [of x] assms(1) by (simp add: A_def q_def)
  moreover have "B * 20000000000000000000 \<le> q * 100" using rnd_error [of "q * 100"] q0 by (simp add: B_def u_def q_def)
  moreover have "q \<le> x + A" "x - A \<le> q" "u \<le> q * 100 + B" "q * 100 - B \<le> u" unfolding A_def B_def by linarith+
  ultimately show "u \<le> 100 * x + 100 * x / 9990000000000000000" "100 * x - 100 * x / 9990000000000000000 \<le> u"
    using assms(1) by simp_all
qed

lemma percent_exact: "d_times D (d_div D b b) 100 = 100" if "b \<noteq> 0"
proof -
  have "on_grid 0 1" "on_grid 0 100" by (simp_all add: on_grid_def)
  then have "rnd D 1 = 1" "rnd D 100 = 100" by (auto intro!: rnd_exact [of 0])
  with that show ?thesis by (simp add: d_div_def d_times_def)
qed

lemma percent_ninety: "d_times D (d_div D a b) 100 = 90" if "b \<noteq> 0" "10 * a = 9 * b"
proof -
  have r: "a / b = 9 / 10" using that by (simp add: field_simps)
  have q: "rnd D (9 / 10) = 9 / 10" by (rule rnd_exact [of 1]) (simp_all add: on_grid_def)
  have "rnd D 90 = 90" by (rule rnd_exact [of 0]) (simp_all add: on_grid_def)
  then show ?thesis unfolding d_div_def d_times_def r q by simp
qed

lemma percent_over:
  assumes "on_grid 4 a" and "num18_4 b" and "0 < b"
  shows "100 \<le> d_times D (d_div D a b) 100 \<longleftrightarrow> b \<le> a"
proof -
  let ?u = "d_times D (d_div D a b) 100"
  have u: "?u = rnd D (rnd D (a / b) * 100)" by (simp add: d_div_def d_times_def)
  have b: "b < 10 ^ 14" "on_grid 4 b" using assms(2) by (auto simp: num18_4_def)
  have xb: "a / b * b = a" using assms(3) by simp
  consider "a = b" | "a < b" "a \<le> 0" | "a < b" "0 < a" | "b < a" by linarith
  then show ?thesis
  proof cases
    case 1 then show ?thesis using percent_exact [of b] assms(3) by simp
  next
    case 2
    then have "rnd D (a / b) * 100 \<le> 0" using rnd_nonpos [of "a / b"] assms(3) by (simp add: divide_nonpos_pos)
    then have "?u \<le> 0" unfolding u by (rule rnd_nonpos)
    with 2 show ?thesis by simp
  next
    case 3
    have "1 / 10000 \<le> (1 - a / b) * b"
      using grid_gap [OF on_grid_diff [OF assms(1) b(2)]] 3 xb assms(3) by (simp add: algebra_simps)
    from ratio_gap [OF assms(3) b(1) this] have "a / b < 1 - 1 / 1000000000000000000" by simp
    moreover have "0 < a / b" using 3 assms(3) by simp
    ultimately have "?u < 100" using percent_near(1) [of "a / b"] unfolding u by simp
    with 3 show ?thesis by simp
  next
    case 4
    have "1 / 10000 \<le> (a / b - 1) * b"
      using grid_gap [OF on_grid_diff [OF b(2) assms(1)]] 4 xb assms(3) by (simp add: algebra_simps)
    from ratio_gap [OF assms(3) b(1) this] have "1 + 1 / 1000000000000000000 < a / b" by simp
    moreover have "0 < a / b" using 4 assms(3) by simp
    ultimately have "100 \<le> ?u" using percent_near(2) [of "a / b"] unfolding u by simp
    with 4 show ?thesis by simp
  qed
qed

lemma percent_approaching:
  assumes "on_grid 4 a" and "num18_4 b" and "0 < b"
  shows "90 \<le> d_times D (d_div D a b) 100 \<longleftrightarrow> 9 * b \<le> 10 * a"
proof -
  let ?u = "d_times D (d_div D a b) 100"
  have u: "?u = rnd D (rnd D (a / b) * 100)" by (simp add: d_div_def d_times_def)
  have b: "b < 10 ^ 14" "on_grid 4 b" using assms(2) by (auto simp: num18_4_def)
  have g: "on_grid 4 (10 * a)" "on_grid 4 (9 * b)" using on_grid_scale [OF assms(1), of 10] on_grid_scale [OF b(2), of 9] by simp_all
  have xb: "a / b * b = a" using assms(3) by simp
  consider "10 * a = 9 * b" | "10 * a < 9 * b" "a \<le> 0" | "10 * a < 9 * b" "0 < a" | "9 * b < 10 * a" by linarith
  then show ?thesis
  proof cases
    case 1 then show ?thesis using percent_ninety [of b a] assms(3) by simp
  next
    case 2
    then have "rnd D (a / b) * 100 \<le> 0" using rnd_nonpos [of "a / b"] assms(3) by (simp add: divide_nonpos_pos)
    then have "?u \<le> 0" unfolding u by (rule rnd_nonpos)
    with 2 show ?thesis by simp
  next
    case 3
    have "1 / 10000 \<le> (9 - 10 * (a / b)) * b"
      using grid_gap [OF on_grid_diff [OF g]] 3 xb assms(3) by (simp add: algebra_simps)
    from ratio_gap [OF assms(3) b(1) this] have "10 * (a / b) < 9 - 1 / 1000000000000000000" by simp
    moreover have "0 < a / b" using 3 assms(3) by simp
    ultimately have "?u < 90" using percent_near(1) [of "a / b"] unfolding u by simp
    with 3 show ?thesis by simp
  next
    case 4
    have "1 / 10000 \<le> (10 * (a / b) - 9) * b"
      using grid_gap [OF on_grid_diff [OF g(2,1)]] 4 xb assms(3) by (simp add: algebra_simps)
    from ratio_gap [OF assms(3) b(1) this] have "9 + 1 / 1000000000000000000 < 10 * (a / b)" by simp
    moreover have "0 < a / b" using 4 assms(3) by simp
    ultimately have "90 \<le> ?u" using percent_near(2) [of "a / b"] unfolding u by simp
    with 4 show ?thesis by simp
  qed
qed

end

text \<open>
  C15.  The over-budget status the policy computes with 20-digit decimals is the status of the exact ratio,
  for every actual and budget the ledger and the budget table can hold: rounding never misclassifies.
\<close>
theorem classification_is_exact:
  assumes "decimal_js D" and "on_grid 4 actual" and "\<forall>b. budgeted = Some b \<longrightarrow> num18_4 b"
  shows "fst (classify D budgeted actual) = classify_exact budgeted actual"
  using assms decimal_js.percent_over [OF assms(1,2)] decimal_js.percent_approaching [OF assms(1,2)]
  by (auto simp: classify_def classify_exact_def Let_def split: option.splits)

theorem classification_is_exact_witness:
  "fst (classify dec20 (Some 300) 270) = Approaching"
proof -
  have "on_grid 4 270" "\<forall>b. Some 300 = Some b \<longrightarrow> num18_4 b" by (simp_all add: on_grid_code num18_4_def)
  from classification_is_exact [OF decimal_js_dec20 this] show ?thesis by (simp add: classify_exact_def)
qed

end
