(* ===== verification/Stock_Ledger.thy ===== *)
theory Stock_Ledger
  imports Policies
begin

text \<open>
  The stock ledger of the inventory module (\<open>src/src/modules/inventory/\<close>): the weighted-average
  valuation, the append-only movements with their locked running balance, and the service through which
  purchases and requisitions move stock.
\<close>

section \<open>Valuation\<close>

record balance =
  bal_qty :: decimal
  bal_value :: decimal

record issue_result =
  is_value :: decimal
  is_rate :: decimal
  is_balance :: balance

definition empty_balance :: balance where
  "empty_balance = \<lparr>bal_qty = 0, bal_value = 0\<rparr>"

definition average_rate :: "dec_lib \<Rightarrow> balance \<Rightarrow> decimal option" where
  "average_rate D b = (if bal_qty b = 0 then None else Some (to_dp D 4 (d_div D (bal_value b) (bal_qty b))))"

definition assert_positive :: "decimal \<Rightarrow> string \<Rightarrow> domain_error + unit" where
  "assert_positive v name = require (0 < v) (JsError name)"

definition assert_non_negative :: "decimal \<Rightarrow> string \<Rightarrow> domain_error + unit" where
  "assert_non_negative v name = require (\<not> v < 0) (JsError name)"

definition apply_receipt :: "dec_lib \<Rightarrow> balance \<Rightarrow> decimal \<Rightarrow> decimal \<Rightarrow> domain_error + balance" where
  "apply_receipt D prev qty rate =
     rbind (assert_positive qty ''quantity'') (\<lambda>_.
     rbind (assert_non_negative rate ''rate'') (\<lambda>_.
     Inr \<lparr>bal_qty = d_plus D (bal_qty prev) qty,
          bal_value = d_plus D (bal_value prev) (to_dp D 4 (d_times D qty rate))\<rparr>))"

definition value_issue :: "dec_lib \<Rightarrow> balance \<Rightarrow> decimal \<Rightarrow> bool \<Rightarrow> domain_error + issue_result" where
  "value_issue D prev qty allow =
     rbind (assert_positive qty ''quantity'') (\<lambda>_.
     rbind (require (\<not> (bal_qty prev < qty \<and> \<not> allow)) (NegativeStockError (bal_qty prev) qty)) (\<lambda>_.
     let rate = (if bal_qty prev = 0 then 0 else to_dp D 4 (d_div D (bal_value prev) (bal_qty prev)));
         issued = (if qty = bal_qty prev then bal_value prev
                   else if bal_qty prev = 0 then 0
                   else to_dp D 4 (d_div D (d_times D qty (bal_value prev)) (bal_qty prev)))
     in Inr \<lparr>is_value = issued, is_rate = rate,
             is_balance = \<lparr>bal_qty = d_minus D (bal_qty prev) qty, bal_value = d_minus D (bal_value prev) issued\<rparr>\<rparr>))"

definition apply_transfer_in :: "dec_lib \<Rightarrow> balance \<Rightarrow> decimal \<Rightarrow> decimal \<Rightarrow> domain_error + balance" where
  "apply_transfer_in D prev qty incoming =
     rbind (assert_positive qty ''quantity'') (\<lambda>_.
     rbind (assert_non_negative incoming ''value'') (\<lambda>_.
     Inr \<lparr>bal_qty = d_plus D (bal_qty prev) qty, bal_value = d_plus D (bal_value prev) incoming\<rparr>))"

section \<open>Movements\<close>

datatype movement_direction = MvIn | MvOut

datatype movement_source = SrcStockJournal | SrcGrn | SrcReqIssue

record stock_movement =
  mv_id :: string
  mv_company :: string
  mv_godown :: string
  mv_item :: string
  mv_source_type :: movement_source
  mv_source_id :: string
  mv_direction :: movement_direction
  mv_quantity :: decimal
  mv_rate :: decimal
  mv_value :: decimal
  mv_qty_after :: decimal
  mv_value_after :: decimal
  mv_avg_after :: "decimal option"
  mv_is_reversal :: bool
  mv_reversal_of :: "string option"
  mv_date :: string
  mv_posted_at :: int
  mv_posted_by :: string

record new_movement =
  nm_company :: string
  nm_godown :: string
  nm_item :: string
  nm_source_type :: movement_source
  nm_source_id :: string
  nm_direction :: movement_direction
  nm_quantity :: decimal
  nm_rate :: decimal
  nm_value :: decimal
  nm_balance_after :: balance
  nm_is_reversal :: bool
  nm_date :: string
  nm_posted_by :: string

definition movement_create ::
  "dec_lib \<Rightarrow> new_movement \<Rightarrow> string \<Rightarrow> int \<Rightarrow> domain_error + stock_movement" where
  "movement_create D inp i now =
     rbind (require (0 < nm_quantity inp) (JsError ''quantity'')) (\<lambda>_.
     rbind (require (\<not> nm_value inp < 0) (JsError ''value'')) (\<lambda>_.
     Inr \<lparr>mv_id = i, mv_company = nm_company inp, mv_godown = nm_godown inp, mv_item = nm_item inp,
          mv_source_type = nm_source_type inp, mv_source_id = nm_source_id inp, mv_direction = nm_direction inp,
          mv_quantity = nm_quantity inp, mv_rate = nm_rate inp, mv_value = nm_value inp,
          mv_qty_after = bal_qty (nm_balance_after inp), mv_value_after = bal_value (nm_balance_after inp),
          mv_avg_after = average_rate D (nm_balance_after inp), mv_is_reversal = nm_is_reversal inp,
          mv_reversal_of = None, mv_date = nm_date inp, mv_posted_at = now, mv_posted_by = nm_posted_by inp\<rparr>))"

definition signed_quantity :: "stock_movement \<Rightarrow> decimal" where
  "signed_quantity m = (case mv_direction m of MvIn \<Rightarrow> mv_quantity m | MvOut \<Rightarrow> - mv_quantity m)"

definition signed_value :: "stock_movement \<Rightarrow> decimal" where
  "signed_value m = (case mv_direction m of MvIn \<Rightarrow> mv_value m | MvOut \<Rightarrow> - mv_value m)"

section \<open>Tables and the movement repository\<close>

record stock_balance =
  sb_id :: string
  sb_company :: string
  sb_godown :: string
  sb_item :: string
  sb_qty :: decimal
  sb_value :: decimal
  sb_avg :: "decimal option"
  sb_version :: nat

record stock_db = db +
  st_movements :: "stock_movement list"
  st_balances :: "stock_balance list"

type_synonym stock_key = "string \<times> string \<times> string"

definition mv_key :: "stock_movement \<Rightarrow> stock_key" where
  "mv_key m = (mv_company m, mv_godown m, mv_item m)"

definition sb_key :: "stock_balance \<Rightarrow> stock_key" where
  "sb_key r = (sb_company r, sb_godown r, sb_item r)"

text \<open>The row as the \<open>numeric(18,4)\<close> columns hold it, and the checks of \<open>stock_movement\<close>.\<close>

definition stored_movement :: "dec_lib \<Rightarrow> stock_movement \<Rightarrow> stock_movement" where
  "stored_movement D m = m\<lparr>mv_quantity := to_dp D 4 (mv_quantity m), mv_rate := to_dp D 4 (mv_rate m),
     mv_value := to_dp D 4 (mv_value m), mv_qty_after := to_dp D 4 (mv_qty_after m),
     mv_value_after := to_dp D 4 (mv_value_after m), mv_avg_after := map_option (to_dp D 4) (mv_avg_after m)\<rparr>"

definition in_column :: "decimal \<Rightarrow> domain_error + unit" where
  "in_column x = require (\<bar>x\<bar> < 10 ^ 14) (DatabaseError ''numeric field overflow'')"

definition movement_checks :: "stock_movement \<Rightarrow> domain_error + unit" where
  "movement_checks m =
     rbind (riter in_column [mv_quantity m, mv_rate m, mv_value m, mv_qty_after m, mv_value_after m]) (\<lambda>_.
     rbind (case mv_avg_after m of None \<Rightarrow> Inr () | Some a \<Rightarrow> in_column a) (\<lambda>_.
     rbind (require (0 < mv_quantity m) (DatabaseError ''chk_stock_movement_qty_pos'')) (\<lambda>_.
     rbind (require (0 \<le> mv_value m) (DatabaseError ''chk_stock_movement_value_nonneg'')) (\<lambda>_.
     require (0 \<le> mv_rate m) (DatabaseError ''chk_stock_movement_rate_nonneg'')))))"

definition upsert_balance :: "string \<Rightarrow> stock_movement \<Rightarrow> stock_balance list \<Rightarrow> stock_balance list" where
  "upsert_balance i m tbl =
     (if list_ex (\<lambda>r. sb_key r = mv_key m) tbl
      then update_where (\<lambda>r. sb_key r = mv_key m)
        (\<lambda>r. r\<lparr>sb_qty := mv_qty_after m, sb_value := mv_value_after m, sb_avg := mv_avg_after m, sb_version := sb_version r + 1\<rparr>) tbl
      else tbl @ [\<lparr>sb_id = i, sb_company = mv_company m, sb_godown = mv_godown m, sb_item = mv_item m,
                   sb_qty = mv_qty_after m, sb_value = mv_value_after m, sb_avg = mv_avg_after m, sb_version = 1\<rparr>])"

definition movement_append ::
  "dec_lib \<Rightarrow> (nat \<Rightarrow> string) \<Rightarrow> stock_movement \<Rightarrow> 'a stock_db_scheme \<Rightarrow> domain_error + 'a stock_db_scheme" where
  "movement_append D mk m s =
     (let q = stored_movement D m in
      rbind (movement_checks q) (\<lambda>_.
      rbind (require (mv_id q \<notin> mv_id ` set (st_movements s)) (DatabaseError ''stock_movement_pkey'')) (\<lambda>_.
      case ids_next mk s of (i, s1) \<Rightarrow>
      Inr (s1\<lparr>st_movements := st_movements s @ [q], st_balances := upsert_balance i q (st_balances s)\<rparr>))))"

definition current_balance ::
  "(nat \<Rightarrow> string) \<Rightarrow> stock_key \<Rightarrow> 'a stock_db_scheme \<Rightarrow> balance \<times> 'a stock_db_scheme" where
  "current_balance mk k s =
     (case ids_next mk s of (i, s1) \<Rightarrow>
      case List.find (\<lambda>r. sb_key r = k) (st_balances s) of
        Some r \<Rightarrow> (\<lparr>bal_qty = sb_qty r, bal_value = sb_value r\<rparr>, s1)
      | None \<Rightarrow> (case k of (co, g, it) \<Rightarrow>
          (\<lparr>bal_qty = 0, bal_value = 0\<rparr>,
           s1\<lparr>st_balances := st_balances s @ [\<lparr>sb_id = i, sb_company = co, sb_godown = g, sb_item = it,
             sb_qty = 0, sb_value = 0, sb_avg = None, sb_version = 1\<rparr>]\<rparr>)))"

section \<open>The inventory service\<close>

record post_ctx =
  cx_company :: string
  cx_date :: string
  cx_posted_by :: string

record stock_input =
  si_godown :: string
  si_item :: string
  si_qty :: decimal
  si_source :: string

definition service_movement ::
  "post_ctx \<Rightarrow> stock_input \<Rightarrow> movement_source \<Rightarrow> movement_direction \<Rightarrow> decimal \<Rightarrow> decimal \<Rightarrow> balance \<Rightarrow> bool \<Rightarrow> new_movement" where
  "service_movement cx inp src dir rate val after mirror =
     \<lparr>nm_company = cx_company cx, nm_godown = si_godown inp, nm_item = si_item inp, nm_source_type = src,
      nm_source_id = si_source inp, nm_direction = dir, nm_quantity = si_qty inp, nm_rate = rate, nm_value = val,
      nm_balance_after = after, nm_is_reversal = mirror, nm_date = cx_date cx, nm_posted_by = cx_posted_by cx\<rparr>"

definition receive_in ::
  "dec_lib \<Rightarrow> (nat \<Rightarrow> string) \<Rightarrow> post_ctx \<Rightarrow> stock_input \<Rightarrow> decimal \<Rightarrow> int \<Rightarrow> 'a stock_db_scheme \<Rightarrow>
   domain_error + (decimal option \<times> 'a stock_db_scheme)" where
  "receive_in D mk cx inp rate now s =
     (case current_balance mk (cx_company cx, si_godown inp, si_item inp) s of (prev, s1) \<Rightarrow>
      rbind (apply_receipt D prev (si_qty inp) rate) (\<lambda>after.
      case ids_next mk s1 of (i, s2) \<Rightarrow>
      rbind (movement_create D (service_movement cx inp SrcGrn MvIn rate (d_times D (si_qty inp) rate) after False) i now) (\<lambda>m.
      rbind (movement_append D mk m s2) (\<lambda>s3.
      Inr (average_rate D after, s3)))))"

definition issue_out ::
  "dec_lib \<Rightarrow> (nat \<Rightarrow> string) \<Rightarrow> post_ctx \<Rightarrow> stock_input \<Rightarrow> bool \<Rightarrow> int \<Rightarrow> 'a stock_db_scheme \<Rightarrow>
   domain_error + ((decimal \<times> decimal \<times> string) \<times> 'a stock_db_scheme)" where
  "issue_out D mk cx inp allow now s =
     (case current_balance mk (cx_company cx, si_godown inp, si_item inp) s of (prev, s1) \<Rightarrow>
      rbind (value_issue D prev (si_qty inp) allow) (\<lambda>r.
      case ids_next mk s1 of (i, s2) \<Rightarrow>
      rbind (movement_create D (service_movement cx inp SrcReqIssue MvOut (is_rate r) (is_value r) (is_balance r) False) i now) (\<lambda>m.
      rbind (movement_append D mk m s2) (\<lambda>s3.
      Inr ((is_value r, is_rate r, i), s3)))))"

definition reverse_issue_out ::
  "dec_lib \<Rightarrow> (nat \<Rightarrow> string) \<Rightarrow> post_ctx \<Rightarrow> stock_input \<Rightarrow> decimal \<Rightarrow> int \<Rightarrow> 'a stock_db_scheme \<Rightarrow>
   domain_error + (unit \<times> 'a stock_db_scheme)" where
  "reverse_issue_out D mk cx inp val now s =
     (case current_balance mk (cx_company cx, si_godown inp, si_item inp) s of (prev, s1) \<Rightarrow>
      rbind (apply_transfer_in D prev (si_qty inp) val) (\<lambda>restored.
      let rate = (if si_qty inp = 0 then 0 else d_div D val (si_qty inp)) in
      case ids_next mk s1 of (i, s2) \<Rightarrow>
      rbind (movement_create D (service_movement cx inp SrcReqIssue MvIn rate val restored True) i now) (\<lambda>m.
      rbind (movement_append D mk m s2) (\<lambda>s3.
      Inr ((), s3)))))"

definition reverse_receipt ::
  "dec_lib \<Rightarrow> (nat \<Rightarrow> string) \<Rightarrow> post_ctx \<Rightarrow> stock_input \<Rightarrow> int \<Rightarrow> 'a stock_db_scheme \<Rightarrow>
   domain_error + (unit \<times> 'a stock_db_scheme)" where
  "reverse_receipt D mk cx inp now s =
     (case current_balance mk (cx_company cx, si_godown inp, si_item inp) s of (prev, s1) \<Rightarrow>
      rbind (value_issue D prev (si_qty inp) True) (\<lambda>r.
      case ids_next mk s1 of (i, s2) \<Rightarrow>
      rbind (movement_create D (service_movement cx inp SrcGrn MvOut (is_rate r) (is_value r) (is_balance r) True) i now) (\<lambda>m.
      rbind (movement_append D mk m s2) (\<lambda>s3.
      Inr ((), s3)))))"

section \<open>Bounds of an issue\<close>

definition balance_ok :: "balance \<Rightarrow> bool" where
  "balance_ok b \<longleftrightarrow> num18_4 (bal_qty b) \<and> num18_4 (bal_value b)"

definition balance_nonneg :: "balance \<Rightarrow> bool" where
  "balance_nonneg b \<longleftrightarrow> 0 \<le> bal_qty b \<and> 0 \<le> bal_value b"

context decimal_js begin

text \<open>
  The product and the quotient are both rounded to twenty digits; on a value that fits its column the
  error stays below half of the last decimal, so that rounding to four decimals cannot exceed it.
\<close>

lemma share_le:
  assumes "0 < q" and "q \<le> p" and "0 \<le> v" and "v < 10 ^ 14"
  shows "d_div D (d_times D q v) p \<le> v + v / (5 * 10 ^ 18)"
proof -
  have p: "0 < p" using assms(1,2) by linarith
  have qv: "0 \<le> q * v" using assms(1,3) by simp
  have t0: "0 \<le> rnd D (q * v)" by (rule rnd_nonneg [OF qv])
  have "rnd D (q * v) * (2 * 10 ^ 19) \<le> (q * v) * (2 * 10 ^ 19 + 1)" by (rule rnd_upper [OF qv])
  also have "\<dots> \<le> (p * v) * (2 * 10 ^ 19 + 1)"
    using assms by (intro mult_right_mono) auto
  finally have "rnd D (q * v) / p * (2 * 10 ^ 19) \<le> v * (2 * 10 ^ 19 + 1)"
    using p by (simp add: field_simps)
  moreover have "rnd D (rnd D (q * v) / p) * (2 * 10 ^ 19) \<le> (rnd D (q * v) / p) * (2 * 10 ^ 19 + 1)"
    using t0 p by (intro rnd_upper) simp
  ultimately have "rnd D (rnd D (q * v) / p) * (2 * 10 ^ 19) * (2 * 10 ^ 19) \<le> v * (2 * 10 ^ 19 + 1) * (2 * 10 ^ 19 + 1)"
    by (simp add: field_simps)
  also have "\<dots> \<le> (v + v / (5 * 10 ^ 18)) * (2 * 10 ^ 19) * (2 * 10 ^ 19)"
    using assms(3) by (simp add: field_simps)
  finally show ?thesis by (simp add: d_div_def d_times_def)
qed

lemma issued_value_bounds:
  assumes "0 < q" and "q \<le> p" and "0 \<le> v" and "num18_4 v"
  shows "0 \<le> to_dp D 4 (d_div D (d_times D q v) p)" and "to_dp D 4 (d_div D (d_times D q v) p) \<le> v"
proof -
  have p: "0 < p" using assms(1,2) by linarith
  have "0 \<le> d_div D (d_times D q v) p"
    unfolding d_div_def d_times_def using assms(1,3) p by (intro rnd_nonneg divide_nonneg_nonneg mult_nonneg_nonneg) auto
  then show "0 \<le> to_dp D 4 (d_div D (d_times D q v) p)" by (rule to_dp_nonneg)
  have v: "v < 10 ^ 14" "on_grid 4 v" using assms(3,4) by (auto simp: num18_4_def)
  from share_le [OF assms(1-3) v(1)] v(1) have "(d_div D (d_times D q v) p - v) * 10 ^ 4 < 1 / 2"
    by (simp add: field_simps)
  then show "to_dp D 4 (d_div D (d_times D q v) p) \<le> v"
    unfolding to_dp_half_up by (rule half_up_le_near [OF v(2) _ assms(3)])
qed

text \<open>Two roundings to twenty digits and one to four decimals stay within one stored unit of the exact share.\<close>

lemma share_near:
  assumes "0 < q" and "q \<le> p" and "0 \<le> v" and "v < 10 ^ 14"
  shows "\<bar>to_dp D 4 (d_div D (d_times D q v) p) - q * v / p\<bar> < 1 / 10 ^ 4"
proof -
  have p: "0 < p" using assms(1,2) by linarith
  let ?x = "q * v / p" and ?t = "rnd D (q * v) / p"
  have x: "0 \<le> ?x" "?x < 10 ^ 14"
  proof -
    show "0 \<le> ?x" using assms(1,3) p by simp
    have "q * v \<le> p * v" using assms(2,3) by (intro mult_right_mono)
    then have "?x \<le> v" using p by (simp add: field_simps)
    with assms(4) show "?x < 10 ^ 14" by linarith
  qed
  have "\<bar>rnd D (q * v) - q * v\<bar> * (2 * 10 ^ 19) \<le> q * v" using rnd_error [of "q * v"] assms(1,3) by simp
  then have "\<bar>rnd D (q * v) - q * v\<bar> / p * (2 * 10 ^ 19) \<le> ?x" using p by (simp add: field_simps)
  moreover have "?t - ?x = (rnd D (q * v) - q * v) / p" by (simp add: diff_divide_distrib)
  then have "\<bar>?t - ?x\<bar> = \<bar>rnd D (q * v) - q * v\<bar> / p" using p by (simp add: abs_divide)
  ultimately have t: "\<bar>?t - ?x\<bar> * (2 * 10 ^ 19) \<le> ?x" by simp
  have "0 \<le> rnd D (q * v)" using assms(1,3) by (intro rnd_nonneg) simp
  then have "\<bar>rnd D ?t - ?t\<bar> * (2 * 10 ^ 19) \<le> ?t" using rnd_error [of ?t] p by simp
  moreover have "\<bar>b - x\<bar> < 1 / 50000"
    if "\<bar>a - x\<bar> * (2 * 10 ^ 19) \<le> x" "\<bar>b - a\<bar> * (2 * 10 ^ 19) \<le> a" "0 \<le> x" "x < 10 ^ 14" for a b x :: rat
  proof -
    define A and B where "A = \<bar>a - x\<bar>" and "B = \<bar>b - a\<bar>"
    have AB: "\<bar>b - x\<bar> \<le> B + A" "a \<le> x + A" unfolding A_def B_def by linarith+
    have "A * 20000000000000000000 \<le> x" "B * 20000000000000000000 \<le> a" "x < 100000000000000"
      using that unfolding A_def B_def by simp_all
    then have "A < 1 / 200000" "B < 2 / 200000" using AB(2) by simp_all
    with AB(1) show ?thesis by simp
  qed
  ultimately have n: "\<bar>rnd D ?t - ?x\<bar> < 1 / 50000" using t x by blast
  have "\<bar>half_up 4 (rnd D ?t) - rnd D ?t\<bar> \<le> 1 / 20000" using half_up_error [of 4 "rnd D ?t"] by simp
  moreover have "\<bar>half_up 4 (rnd D ?t) - ?x\<bar> \<le> \<bar>half_up 4 (rnd D ?t) - rnd D ?t\<bar> + \<bar>rnd D ?t - ?x\<bar>"
    by (rule order_trans [OF _ abs_triangle_ineq]) simp
  ultimately have "\<bar>half_up 4 (rnd D ?t) - ?x\<bar> < 1 / 10 ^ 4" using n by simp
  then show ?thesis by (simp add: d_div_def d_times_def to_dp_half_up)
qed

lemma num_diff: "num18_4 x \<Longrightarrow> num18_4 y \<Longrightarrow> d_minus D x y = x - y"
  by (intro minus_exact) (auto simp: num18_4_def exact_range_def)

lemma num_sum: "num18_4 x \<Longrightarrow> num18_4 y \<Longrightarrow> d_plus D x y = x + y"
  by (intro plus_exact) (auto simp: num18_4_def exact_range_def)

lemma value_issue_Inr:
  assumes "value_issue D prev q allow = Inr r"
  shows "0 < q" and "q \<le> bal_qty prev \<or> allow" and "is_balance r = \<lparr>bal_qty = d_minus D (bal_qty prev) q,
      bal_value = d_minus D (bal_value prev) (is_value r)\<rparr>"
    and "balance_ok prev \<Longrightarrow> on_grid 4 (is_value r)"
    and "q = bal_qty prev \<Longrightarrow> is_value r = bal_value prev"
  using assms by (auto simp: value_issue_def assert_positive_def Let_def balance_ok_def num18_4_def elim!: rbindE)

lemma value_issue_share:
  assumes "value_issue D prev q allow = Inr r" and "balance_ok prev" and "balance_nonneg prev" and "q \<le> bal_qty prev"
  shows "0 \<le> is_value r" and "is_value r \<le> bal_value prev"
proof -
  note f = value_issue_Inr [OF assms(1)]
  have v: "0 \<le> bal_value prev" "num18_4 (bal_value prev)"
    using assms(2,3) by (auto simp: balance_ok_def balance_nonneg_def)
  have "is_value r = bal_value prev \<or> is_value r = to_dp D 4 (d_div D (d_times D q (bal_value prev)) (bal_qty prev))"
    using assms(1,4) f(1) by (auto simp: value_issue_def Let_def assert_positive_def elim!: rbindE)
  with issued_value_bounds [OF f(1) assms(4) v(1,2)] v(1) show "0 \<le> is_value r" "is_value r \<le> bal_value prev" by auto
qed

lemma value_issue_bounds:
  assumes "value_issue D prev q allow = Inr r" and "balance_ok prev" and "balance_nonneg prev" and "q \<le> bal_qty prev"
    and "on_grid 4 q"
  shows "0 \<le> is_value r" and "is_value r \<le> bal_value prev" and "balance_nonneg (is_balance r)"
    and "is_balance r = \<lparr>bal_qty = bal_qty prev - q, bal_value = bal_value prev - is_value r\<rparr>"
proof -
  note f = value_issue_Inr [OF assms(1)]
  have v: "num18_4 (bal_value prev)" "num18_4 (bal_qty prev)" using assms(2) by (auto simp: balance_ok_def)
  note b = value_issue_share [OF assms(1-4)]
  show "0 \<le> is_value r" "is_value r \<le> bal_value prev" by (fact b)+
  have "num18_4 q" using v(2) f(1) assms(4,5) by (auto simp: num18_4_def)
  moreover have "num18_4 (is_value r)" using b v(1) f(4) [OF assms(2)] by (auto simp: num18_4_def)
  ultimately show r: "is_balance r = \<lparr>bal_qty = bal_qty prev - q, bal_value = bal_value prev - is_value r\<rparr>"
    using v f(3) by (simp add: num_diff)
  show "balance_nonneg (is_balance r)" unfolding r using b assms(4) by (simp add: balance_nonneg_def)
qed

text \<open>
  A balance whose columns are rounded after the sum differs from the sum of the rounded columns by at most one unit of
  the last digit, whatever was added.
\<close>

lemma rounded_near:
  assumes "num18_4 b" and "num18_4 (to_dp D 4 x)" and "y = b + x \<and> z = to_dp D 4 x \<or> y = b - x \<and> z = - to_dp D 4 x"
  shows "\<bar>to_dp D 4 (rnd D y) - (b + z)\<bar> * 10 ^ 4 \<le> 1"
proof -
  let ?u = "to_dp D 4 (rnd D y) - (b + z)"
  have e: "\<bar>to_dp D 4 x - x\<bar> * 10 ^ 4 \<le> 1 / 2" "\<bar>to_dp D 4 (rnd D y) - rnd D y\<bar> * 10 ^ 4 \<le> 1 / 2"
    unfolding to_dp_half_up by (rule half_up_error)+
  have b: "\<bar>b\<bar> < 10 ^ 14" "\<bar>to_dp D 4 x\<bar> < 10 ^ 14" using assms(1,2) by (auto simp: num18_4_def)
  have x: "\<bar>x\<bar> < 10 ^ 14 + 1" using e(1) b(2) by (simp add: abs_if split: if_splits)
  then have y: "\<bar>y\<bar> < 3 * 10 ^ 14" using assms(3) b(1) by (auto simp: abs_if split: if_splits)
  have "\<bar>rnd D y - y\<bar> * (2 * 10 ^ 19) \<le> \<bar>y\<bar>" by (rule rnd_error)
  with y have r: "\<bar>rnd D y - y\<bar> * 10 ^ 4 < 1" by (simp add: abs_if split: if_splits)
  have d: "\<bar>y - (b + z)\<bar> = \<bar>to_dp D 4 x - x\<bar>" using assms(3) by auto
  have "?u = (to_dp D 4 (rnd D y) - rnd D y) + (rnd D y - y) + (y - (b + z))" by simp
  then have "\<bar>?u\<bar> \<le> \<bar>to_dp D 4 (rnd D y) - rnd D y\<bar> + \<bar>rnd D y - y\<bar> + \<bar>y - (b + z)\<bar>" by linarith
  moreover have "u * 10 ^ 4 < 2" if "u \<le> a + c + v" "v * 10 ^ 4 \<le> 1 / 2" "a * 10 ^ 4 \<le> 1 / 2" "c * 10 ^ 4 < 1" for u a c v :: rat
    using that by simp
  ultimately have u: "\<bar>?u\<bar> * 10 ^ 4 < 2" using e r unfolding d by blast
  have "on_grid 4 ?u" using assms by (auto simp: num18_4_def intro!: on_grid_diff on_grid_add)
  then obtain m where m: "?u * 10 ^ 4 = of_int m" by (auto simp: on_grid_def elim: Ints_cases)
  have "\<bar>v\<bar> * 10 ^ 4 = \<bar>v * 10 ^ 4\<bar>" for v :: rat unfolding abs_mult by simp
  then have a: "\<bar>?u\<bar> * 10 ^ 4 = of_int \<bar>m\<bar>" by (simp only: m of_int_abs)
  with u have "\<bar>m\<bar> < 2" by simp
  then show ?thesis unfolding a by simp
qed

lemma rounded_sum:
  "num18_4 b \<Longrightarrow> num18_4 (to_dp D 4 x) \<Longrightarrow> \<bar>to_dp D 4 (d_plus D b x) - (b + to_dp D 4 x)\<bar> * 10 ^ 4 \<le> 1"
  unfolding d_plus_def by (rule rounded_near) blast+

lemma rounded_diff:
  "num18_4 b \<Longrightarrow> num18_4 (to_dp D 4 x) \<Longrightarrow> \<bar>to_dp D 4 (d_minus D b x) - (b + - to_dp D 4 x)\<bar> * 10 ^ 4 \<le> 1"
  unfolding d_minus_def by (rule rounded_near) blast+

end

end
