(* ===== verification/Stock_Books.thy ===== *)
theory Stock_Books
  imports Stock_Ledger
begin

text \<open>
  What the stock ledger keeps true: the cached balance of every godown and item is the sum of its
  movements, in quantity and in value, exactly for amounts of four decimals and up to one unit of the last digit per
  movement for any others, and no operation without the negative-stock authority drives it below zero.
\<close>

section \<open>The cache as a function\<close>

definition bal_of :: "'a stock_db_scheme \<Rightarrow> stock_key \<Rightarrow> balance" where
  "bal_of s k =
     (case List.find (\<lambda>r. sb_key r = k) (st_balances s) of
        Some r \<Rightarrow> \<lparr>bal_qty = sb_qty r, bal_value = sb_value r\<rparr>
      | None \<Rightarrow> empty_balance)"

definition on_hand :: "stock_key \<Rightarrow> stock_movement list \<Rightarrow> decimal" where
  "on_hand k ms = sum_list (map signed_quantity (filter (\<lambda>m. mv_key m = k) ms))"

definition stock_worth :: "stock_key \<Rightarrow> stock_movement list \<Rightarrow> decimal" where
  "stock_worth k ms = sum_list (map signed_value (filter (\<lambda>m. mv_key m = k) ms))"

lemma on_hand_simps [simp]:
  "on_hand k [] = 0" "on_hand k (ms @ [m]) = on_hand k ms + (if mv_key m = k then signed_quantity m else 0)"
  by (simp_all add: on_hand_def)

lemma stock_worth_simps [simp]:
  "stock_worth k [] = 0" "stock_worth k (ms @ [m]) = stock_worth k ms + (if mv_key m = k then signed_value m else 0)"
  by (simp_all add: stock_worth_def)

lemma sb_key_simps [simp]:
  "sb_key \<lparr>sb_id = i, sb_company = c, sb_godown = g, sb_item = it, sb_qty = q, sb_value = v, sb_avg = a, sb_version = n\<rparr> = (c, g, it)"
  "sb_key (r\<lparr>sb_qty := q\<rparr>) = sb_key r" "sb_key (r\<lparr>sb_value := v\<rparr>) = sb_key r"
  "sb_key (r\<lparr>sb_avg := a\<rparr>) = sb_key r" "sb_key (r\<lparr>sb_version := n\<rparr>) = sb_key r"
  by (simp_all add: sb_key_def)

lemma find_update_where:
  assumes "\<And>r. k (f r) = k r"
  shows "List.find (\<lambda>r. k r = a) (update_where (\<lambda>r. k r = b) f tbl) =
    (if a = b then map_option f (List.find (\<lambda>r. k r = a) tbl) else List.find (\<lambda>r. k r = a) tbl)"
  by (induction tbl) (auto simp: update_where_def assms)

lemma find_upsert:
  "List.find (\<lambda>r. sb_key r = k) (upsert_balance i m tbl) =
     (if mv_key m = k
      then Some (case List.find (\<lambda>r. sb_key r = k) tbl of
             Some r \<Rightarrow> r\<lparr>sb_qty := mv_qty_after m, sb_value := mv_value_after m, sb_avg := mv_avg_after m, sb_version := sb_version r + 1\<rparr>
           | None \<Rightarrow> \<lparr>sb_id = i, sb_company = mv_company m, sb_godown = mv_godown m, sb_item = mv_item m,
                   sb_qty = mv_qty_after m, sb_value = mv_value_after m, sb_avg = mv_avg_after m, sb_version = 1\<rparr>)
      else List.find (\<lambda>r. sb_key r = k) tbl)"
proof (cases "list_ex (\<lambda>r. sb_key r = mv_key m) tbl")
  case True
  then have "List.find (\<lambda>r. sb_key r = mv_key m) tbl \<noteq> None" by (auto simp: find_None_iff list_ex_iff)
  with True show ?thesis
    by (auto simp: upsert_balance_def find_update_where)
next
  case False
  then have "List.find (\<lambda>r. sb_key r = mv_key m) tbl = None" by (auto simp: find_None_iff list_ex_iff)
  with False show ?thesis
    by (auto simp: upsert_balance_def find_append mv_key_def split: option.splits)
qed

text \<open>One movement: the row is appended and its snapshot becomes the balance of its key; nothing else moves.\<close>

definition moved :: "'a stock_db_scheme \<Rightarrow> stock_movement \<Rightarrow> 'a stock_db_scheme \<Rightarrow> bool" where
  "moved s q s' \<longleftrightarrow> st_movements s' = st_movements s @ [q] \<and>
     bal_of s' = (bal_of s)(mv_key q := \<lparr>bal_qty = mv_qty_after q, bal_value = mv_value_after q\<rparr>) \<and>
     quiet s s' \<and> stock_db.more s' = stock_db.more s \<and> db_audit s' = db_audit s"

definition same_stock :: "'a stock_db_scheme \<Rightarrow> 'a stock_db_scheme \<Rightarrow> bool" where
  "same_stock s s' \<longleftrightarrow> st_movements s' = st_movements s \<and> bal_of s' = bal_of s \<and> quiet s s' \<and>
     stock_db.more s' = stock_db.more s \<and> db_audit s' = db_audit s"

lemma bal_of_upsert:
  "bal_of (s\<lparr>st_balances := upsert_balance i q (st_balances s)\<rparr>) =
     (bal_of s)(mv_key q := \<lparr>bal_qty = mv_qty_after q, bal_value = mv_value_after q\<rparr>)"
  by (rule ext) (auto simp: bal_of_def find_upsert split: option.splits)

lemma current_balance_effect:
  assumes "current_balance mk k s = (b, s1)"
  shows "b = bal_of s k" and "same_stock s s1"
proof -
  have f: "b = bal_of s k \<and> st_movements s1 = st_movements s \<and> quiet s s1 \<and> stock_db.more s1 = stock_db.more s \<and> db_audit s1 = db_audit s"
    using assms by (auto simp: current_balance_def ids_next_def bal_of_def empty_balance_def quiet_def split: option.splits prod.splits)
  have "bal_of s1 k' = bal_of s k'" for k'
    using assms by (auto simp: current_balance_def ids_next_def bal_of_def empty_balance_def find_append
        split: option.splits prod.splits if_splits)
  with f show "b = bal_of s k" "same_stock s s1" by (auto simp: same_stock_def)
qed

lemma movement_append_InrD:
  assumes "movement_append D mk m s = Inr s'"
  shows "moved s (stored_movement D m) s'" and "movement_checks (stored_movement D m) = Inr ()"
    and "mv_id m \<notin> mv_id ` set (st_movements s)"
proof -
  let ?q = "stored_movement D m"
  obtain i s1 where i: "ids_next mk s = (i, s1)" by fastforce
  from assms i have s': "s' = s1\<lparr>st_movements := st_movements s @ [?q], st_balances := upsert_balance i ?q (st_balances s)\<rparr>"
    and c: "movement_checks ?q = Inr ()" and d: "mv_id ?q \<notin> mv_id ` set (st_movements s)"
    by (auto simp: movement_append_def Let_def elim!: rbindE)
  have "bal_of s' = bal_of (s\<lparr>st_balances := upsert_balance i ?q (st_balances s)\<rparr>)"
    by (rule ext) (simp add: s' bal_of_def)
  with i show "moved s ?q s'" by (auto simp: moved_def s' bal_of_upsert ids_next_def quiet_def)
  from c show "movement_checks ?q = Inr ()" .
  from d show "mv_id m \<notin> mv_id ` set (st_movements s)" by (simp add: stored_movement_def)
qed

lemma quiet_trans [trans]: "quiet s t \<Longrightarrow> quiet t u \<Longrightarrow> quiet s u"
  by (auto simp: quiet_def)

lemma same_stock_ids [simp]: "same_stock s (snd (ids_next mk s))" "same_stock s (s\<lparr>db_ids := Suc (db_ids s)\<rparr>)"
  by (auto simp: same_stock_def bal_of_def)

lemma same_stock_moved: "same_stock s t \<Longrightarrow> moved t q u \<Longrightarrow> moved s q u"
  by (auto simp: same_stock_def moved_def intro: quiet_trans)

lemma same_stock_trans: "same_stock s t \<Longrightarrow> same_stock t u \<Longrightarrow> same_stock s u"
  by (auto simp: same_stock_def intro: quiet_trans)

section \<open>The invariant and the steps that keep it\<close>

text \<open>
  A movement carries a balance on when its snapshot is the balance before it with its own signed
  quantity and value added.
\<close>

definition carries_qty :: "balance \<Rightarrow> stock_movement \<Rightarrow> bool" where
  "carries_qty b q \<longleftrightarrow> mv_qty_after q = bal_qty b + signed_quantity q"

definition carries_value :: "balance \<Rightarrow> stock_movement \<Rightarrow> bool" where
  "carries_value b q \<longleftrightarrow> mv_value_after q = bal_value b + signed_value q"

text \<open>A movement is near when its snapshot is off by at most one unit of the last stored digit.\<close>

definition near_qty :: "balance \<Rightarrow> stock_movement \<Rightarrow> bool" where
  "near_qty b q \<longleftrightarrow> \<bar>mv_qty_after q - (bal_qty b + signed_quantity q)\<bar> * 10 ^ 4 \<le> 1"

definition near_value :: "balance \<Rightarrow> stock_movement \<Rightarrow> bool" where
  "near_value b q \<longleftrightarrow> \<bar>mv_value_after q - (bal_value b + signed_value q)\<bar> * 10 ^ 4 \<le> 1"

lemma carries_near: "carries_qty b q \<Longrightarrow> near_qty b q" "carries_value b q \<Longrightarrow> near_value b q"
  by (simp_all add: carries_qty_def carries_value_def near_qty_def near_value_def)

definition moves_of :: "stock_key \<Rightarrow> stock_movement list \<Rightarrow> nat" where
  "moves_of k ms = length (filter (\<lambda>m. mv_key m = k) ms)"

definition stock_inv :: "'a stock_db_scheme \<Rightarrow> bool" where
  "stock_inv s \<longleftrightarrow> (\<forall>k. balance_ok (bal_of s k))"

definition qty_inv :: "'a stock_db_scheme \<Rightarrow> bool" where
  "qty_inv s \<longleftrightarrow> (\<forall>k. bal_qty (bal_of s k) = on_hand k (st_movements s))"

definition value_inv :: "'a stock_db_scheme \<Rightarrow> bool" where
  "value_inv s \<longleftrightarrow> (\<forall>k. bal_value (bal_of s k) = stock_worth k (st_movements s))"

definition qty_close :: "'a stock_db_scheme \<Rightarrow> bool" where
  "qty_close s \<longleftrightarrow> (\<forall>k. \<bar>bal_qty (bal_of s k) - on_hand k (st_movements s)\<bar> * 10 ^ 4 \<le> of_nat (moves_of k (st_movements s)))"

definition value_close :: "'a stock_db_scheme \<Rightarrow> bool" where
  "value_close s \<longleftrightarrow> (\<forall>k. \<bar>bal_value (bal_of s k) - stock_worth k (st_movements s)\<bar> * 10 ^ 4 \<le> of_nat (moves_of k (st_movements s)))"

definition stock_nonneg :: "'a stock_db_scheme \<Rightarrow> bool" where
  "stock_nonneg s \<longleftrightarrow> (\<forall>k. balance_nonneg (bal_of s k))"

lemma moved_stock_inv:
  assumes "moved s q s'" and "stock_inv s" and "num18_4 (mv_qty_after q)" and "num18_4 (mv_value_after q)"
  shows "stock_inv s'"
  using assms by (auto simp: moved_def stock_inv_def balance_ok_def)

lemma moved_qty_inv:
  assumes "moved s q s'" and "qty_inv s" and "carries_qty (bal_of s (mv_key q)) q"
  shows "qty_inv s'"
  using assms by (auto simp: moved_def qty_inv_def carries_qty_def)

lemma moved_value_inv:
  assumes "moved s q s'" and "value_inv s" and "carries_value (bal_of s (mv_key q)) q"
  shows "value_inv s'"
  using assms by (auto simp: moved_def value_inv_def carries_value_def)

lemma close_step:
  fixes a b c d e :: rat
  assumes "\<bar>b - a\<bar> * 10 ^ 4 \<le> of_nat n" and "\<bar>c - (b + d)\<bar> * 10 ^ 4 \<le> 1" shows "\<bar>c - (a + d)\<bar> * 10 ^ 4 \<le> 1 + of_nat n"
proof -
  have "u * 10 ^ 4 \<le> 1 + m" if "u \<le> v + w" "w * 10 ^ 4 \<le> m" "v * 10 ^ 4 \<le> 1" for u v w m :: rat using that by simp
  moreover have "\<bar>c - (a + d)\<bar> \<le> \<bar>c - (b + d)\<bar> + \<bar>b - a\<bar>" by linarith
  ultimately show ?thesis using assms by blast
qed

lemma moves_of_snoc: "moves_of k (ms @ [q]) = moves_of k ms + (if mv_key q = k then 1 else 0)"
  by (simp add: moves_of_def)

lemma moved_qty_close:
  assumes "moved s q s'" and "qty_close s" and "near_qty (bal_of s (mv_key q)) q"
  shows "qty_close s'"
  unfolding qty_close_def
proof
  fix k
  have c: "\<bar>bal_qty (bal_of s k) - on_hand k (st_movements s)\<bar> * 10 ^ 4 \<le> of_nat (moves_of k (st_movements s))"
    using assms(2) unfolding qty_close_def by blast
  show "\<bar>bal_qty (bal_of s' k) - on_hand k (st_movements s')\<bar> * 10 ^ 4 \<le> of_nat (moves_of k (st_movements s'))"
  proof (cases "mv_key q = k")
    case True
    with assms(1,3) close_step [OF c, of "mv_qty_after q" "signed_quantity q"] show ?thesis
      by (auto simp: moved_def near_qty_def moves_of_snoc)
  next
    case False
    with assms(1) c show ?thesis by (auto simp: moved_def moves_of_snoc)
  qed
qed

lemma moved_value_close:
  assumes "moved s q s'" and "value_close s" and "near_value (bal_of s (mv_key q)) q"
  shows "value_close s'"
  unfolding value_close_def
proof
  fix k
  have c: "\<bar>bal_value (bal_of s k) - stock_worth k (st_movements s)\<bar> * 10 ^ 4 \<le> of_nat (moves_of k (st_movements s))"
    using assms(2) unfolding value_close_def by blast
  show "\<bar>bal_value (bal_of s' k) - stock_worth k (st_movements s')\<bar> * 10 ^ 4 \<le> of_nat (moves_of k (st_movements s'))"
  proof (cases "mv_key q = k")
    case True
    with assms(1,3) close_step [OF c, of "mv_value_after q" "signed_value q"] show ?thesis
      by (auto simp: moved_def near_value_def moves_of_snoc)
  next
    case False
    with assms(1) c show ?thesis by (auto simp: moved_def moves_of_snoc)
  qed
qed

lemma moved_nonneg:
  assumes "moved s q s'" and "stock_nonneg s" and "0 \<le> mv_qty_after q" and "0 \<le> mv_value_after q"
  shows "stock_nonneg s'"
  using assms by (auto simp: moved_def stock_nonneg_def balance_nonneg_def)

lemma movement_checks_InrD:
  "movement_checks q = Inr u \<Longrightarrow> \<bar>mv_quantity q\<bar> < 10 ^ 14 \<and> \<bar>mv_value q\<bar> < 10 ^ 14 \<and> \<bar>mv_qty_after q\<bar> < 10 ^ 14 \<and>
     \<bar>mv_value_after q\<bar> < 10 ^ 14 \<and> 0 < mv_quantity q \<and> 0 \<le> mv_value q"
  by (auto simp: movement_checks_def in_column_def elim!: rbindE)

definition stored_move :: "'a stock_db_scheme \<Rightarrow> stock_movement \<Rightarrow> 'a stock_db_scheme \<Rightarrow> bool" where
  "stored_move s q s' \<longleftrightarrow> moved s q s' \<and> num18_4 (mv_qty_after q) \<and> num18_4 (mv_value_after q) \<and> num18_4 (mv_quantity q) \<and>
     num18_4 (mv_value q) \<and> 0 < mv_quantity q \<and> 0 \<le> mv_value q"

definition near_move :: "'a stock_db_scheme \<Rightarrow> stock_movement \<Rightarrow> 'a stock_db_scheme \<Rightarrow> bool" where
  "near_move s q s' \<longleftrightarrow> stored_move s q s' \<and> near_qty (bal_of s (mv_key q)) q \<and> near_value (bal_of s (mv_key q)) q"

definition qty_move :: "'a stock_db_scheme \<Rightarrow> stock_movement \<Rightarrow> 'a stock_db_scheme \<Rightarrow> bool" where
  "qty_move s q s' \<longleftrightarrow> moved s q s' \<and> carries_qty (bal_of s (mv_key q)) q \<and>
     num18_4 (mv_qty_after q) \<and> num18_4 (mv_value_after q) \<and> num18_4 (mv_quantity q) \<and> num18_4 (mv_value q) \<and>
     0 < mv_quantity q \<and> 0 \<le> mv_value q"

definition sound_move :: "'a stock_db_scheme \<Rightarrow> stock_movement \<Rightarrow> 'a stock_db_scheme \<Rightarrow> bool" where
  "sound_move s q s' \<longleftrightarrow> qty_move s q s' \<and> carries_value (bal_of s (mv_key q)) q"

text \<open>
  What a step does to the agreement of the cache and the log: it stays close, and exact where the step is exact.
\<close>

definition keeps_qty :: "bool \<Rightarrow> 'a stock_db_scheme \<Rightarrow> 'a stock_db_scheme \<Rightarrow> bool" where
  "keeps_qty fine s s' \<longleftrightarrow> (fine \<longrightarrow> qty_inv s \<longrightarrow> qty_inv s') \<and> (qty_close s \<longrightarrow> qty_close s')"

definition keeps_value :: "bool \<Rightarrow> 'a stock_db_scheme \<Rightarrow> 'a stock_db_scheme \<Rightarrow> bool" where
  "keeps_value fine s s' \<longleftrightarrow> (fine \<longrightarrow> value_inv s \<longrightarrow> value_inv s') \<and> (value_close s \<longrightarrow> value_close s')"

lemma keeps_refl [simp]: "keeps_qty fine s s" "keeps_value fine s s"
  by (simp_all add: keeps_qty_def keeps_value_def)

lemma keeps_trans:
  "keeps_qty fine s t \<Longrightarrow> keeps_qty fine t u \<Longrightarrow> keeps_qty fine s u"
  "keeps_value fine s t \<Longrightarrow> keeps_value fine t u \<Longrightarrow> keeps_value fine s u"
  by (auto simp: keeps_qty_def keeps_value_def)

lemma qty_move_invs:
  assumes "qty_move s q s'"
  shows "stock_inv s \<Longrightarrow> stock_inv s'" "quiet s s'" "keeps_qty fine s s'"
  using assms unfolding qty_move_def keeps_qty_def
  by (auto intro: moved_stock_inv moved_qty_inv moved_qty_close carries_near simp: moved_def)

lemma sound_move_invs:
  assumes "sound_move s q s'"
  shows "stock_inv s \<Longrightarrow> stock_inv s'" "keeps_value fine s s'" "quiet s s'" "qty_move s q s'" "keeps_qty fine s s'"
  using assms qty_move_invs [of s q s'] unfolding sound_move_def keeps_value_def
  by (auto intro: moved_value_inv moved_value_close carries_near simp: qty_move_def)

lemma near_move_invs:
  assumes "near_move s q s'"
  shows "stock_inv s \<Longrightarrow> stock_inv s'" "keeps_value False s s'" "quiet s s'" "keeps_qty False s s'"
  using assms unfolding near_move_def stored_move_def keeps_value_def keeps_qty_def
  by (auto intro: moved_stock_inv moved_qty_close moved_value_close simp: moved_def)

context decimal_js begin

text \<open>Quantities: the exact difference or sum, in the range of its column.\<close>

lemma stored_in_range:
  assumes "movement_checks (stored_movement D m) = Inr u"
  shows "num18_4 (mv_quantity (stored_movement D m))" "num18_4 (mv_value (stored_movement D m))"
    "num18_4 (mv_qty_after (stored_movement D m))" "num18_4 (mv_value_after (stored_movement D m))"
    "0 < mv_quantity (stored_movement D m)" "0 \<le> mv_value (stored_movement D m)"
proof -
  have "on_grid 4 (mv_quantity (stored_movement D m)) \<and> on_grid 4 (mv_value (stored_movement D m)) \<and>
    on_grid 4 (mv_qty_after (stored_movement D m)) \<and> on_grid 4 (mv_value_after (stored_movement D m))"
    by (simp add: stored_movement_def)
  with movement_checks_InrD [OF assms]
  show "num18_4 (mv_quantity (stored_movement D m))" "num18_4 (mv_value (stored_movement D m))"
    "num18_4 (mv_qty_after (stored_movement D m))" "num18_4 (mv_value_after (stored_movement D m))"
    "0 < mv_quantity (stored_movement D m)" "0 \<le> mv_value (stored_movement D m)"
    unfolding num18_4_def by blast+
qed

lemma sum_stored: "num18_4 x \<Longrightarrow> num18_4 y \<Longrightarrow> to_dp D 4 (d_plus D x y) = x + y"
  by (simp add: num_sum to_dp_id num18_4_def on_grid_add)

lemma diff_stored: "num18_4 x \<Longrightarrow> num18_4 y \<Longrightarrow> to_dp D 4 (d_minus D x y) = x - y"
  by (simp add: num_diff to_dp_id num18_4_def on_grid_diff)

lemma stored_fields [simp]:
  "mv_key (stored_movement D m) = mv_key m" "mv_direction (stored_movement D m) = mv_direction m"
  "mv_quantity (stored_movement D m) = to_dp D 4 (mv_quantity m)" "mv_value (stored_movement D m) = to_dp D 4 (mv_value m)"
  "mv_qty_after (stored_movement D m) = to_dp D 4 (mv_qty_after m)" "mv_value_after (stored_movement D m) = to_dp D 4 (mv_value_after m)"
  "mv_id (stored_movement D m) = mv_id m"
  by (simp_all add: stored_movement_def mv_key_def)

text \<open>
  A movement built from the balance that was read, by adding or subtracting its own quantity (and value),
  carries the balance on after the columns have rounded it.
\<close>

lemma append_qty:
  assumes "movement_append D mk m s1 = Inr s'" and "same_stock s s1" and "balance_ok (bal_of s (mv_key m))"
    and "on_grid 4 (mv_quantity m)"
    and "mv_qty_after m = (case mv_direction m of
      MvIn \<Rightarrow> d_plus D (bal_qty (bal_of s (mv_key m))) (mv_quantity m)
    | MvOut \<Rightarrow> d_minus D (bal_qty (bal_of s (mv_key m))) (mv_quantity m))"
  shows "qty_move s (stored_movement D m) s'"
proof -
  note a = movement_append_InrD [OF assms(1)]
  note r = stored_in_range [OF a(2)]
  have g: "to_dp D 4 (mv_quantity m) = mv_quantity m" using assms(4) by (rule to_dp_id)
  from assms(3) have b: "num18_4 (bal_qty (bal_of s (mv_key m)))" by (auto simp: balance_ok_def)
  show ?thesis
    using same_stock_moved [OF assms(2) a(1)] r assms(5) b g
    by (cases "mv_direction m") (auto simp: qty_move_def carries_qty_def sum_stored diff_stored signed_quantity_def)
qed

lemma append_sound:
  assumes "movement_append D mk m s1 = Inr s'" and "same_stock s s1" and "balance_ok (bal_of s (mv_key m))"
    and "on_grid 4 (mv_quantity m)"
    and "mv_qty_after m = (case mv_direction m of
      MvIn \<Rightarrow> d_plus D (bal_qty (bal_of s (mv_key m))) (mv_quantity m)
    | MvOut \<Rightarrow> d_minus D (bal_qty (bal_of s (mv_key m))) (mv_quantity m))"
    and "mv_value_after m = (case mv_direction m of
      MvIn \<Rightarrow> d_plus D (bal_value (bal_of s (mv_key m))) (to_dp D 4 (mv_value m))
    | MvOut \<Rightarrow> d_minus D (bal_value (bal_of s (mv_key m))) (to_dp D 4 (mv_value m)))"
  shows "sound_move s (stored_movement D m) s'"
proof -
  note r = stored_in_range [OF movement_append_InrD(2) [OF assms(1)]]
  from assms(3) have b: "num18_4 (bal_value (bal_of s (mv_key m)))" by (auto simp: balance_ok_def)
  show ?thesis
    using append_qty [OF assms(1-5)] r assms(6) b
    by (cases "mv_direction m") (auto simp: sound_move_def carries_value_def sum_stored diff_stored signed_value_def)
qed

text \<open>Whatever the amounts, the columns stay close.\<close>

lemma append_near:
  assumes "movement_append D mk m s1 = Inr s'" and "same_stock s s1" and "balance_ok (bal_of s (mv_key m))"
    and "mv_qty_after m = (case mv_direction m of
      MvIn \<Rightarrow> d_plus D (bal_qty (bal_of s (mv_key m))) (mv_quantity m)
    | MvOut \<Rightarrow> d_minus D (bal_qty (bal_of s (mv_key m))) (mv_quantity m))"
    and "mv_value_after m = (case mv_direction m of
      MvIn \<Rightarrow> d_plus D (bal_value (bal_of s (mv_key m))) x
    | MvOut \<Rightarrow> d_minus D (bal_value (bal_of s (mv_key m))) x)"
    and "to_dp D 4 x = to_dp D 4 (mv_value m)"
  shows "near_move s (stored_movement D m) s'"
proof -
  note a = movement_append_InrD [OF assms(1)]
  note r = stored_in_range [OF a(2)]
  from assms(3) have b: "num18_4 (bal_qty (bal_of s (mv_key m)))" "num18_4 (bal_value (bal_of s (mv_key m)))" by (auto simp: balance_ok_def)
  have "near_qty (bal_of s (mv_key m)) (stored_movement D m)"
    unfolding near_qty_def signed_quantity_def stored_fields assms(4)
    using rounded_sum [OF b(1) r(1) [unfolded stored_fields]] rounded_diff [OF b(1) r(1) [unfolded stored_fields]]
    by (cases "mv_direction m") (simp_all only: movement_direction.case)
  moreover have "near_value (bal_of s (mv_key m)) (stored_movement D m)"
    unfolding near_value_def signed_value_def stored_fields assms(5)
    using rounded_sum [OF b(2), of x] rounded_diff [OF b(2), of x] r(2) [unfolded stored_fields] unfolding assms(6)
    by (cases "mv_direction m") (simp_all only: movement_direction.case)
  ultimately show ?thesis
    using same_stock_moved [OF assms(2) a(1)] r by (simp add: near_move_def stored_move_def)
qed

end

section \<open>The operations of the service\<close>

lemma movement_create_InrD:
  "movement_create D inp i now = Inr m \<Longrightarrow>
     mv_id m = i \<and> mv_key m = (nm_company inp, nm_godown inp, nm_item inp) \<and> mv_direction m = nm_direction inp \<and>
     mv_quantity m = nm_quantity inp \<and> mv_value m = nm_value inp \<and> mv_rate m = nm_rate inp \<and>
     mv_source_type m = nm_source_type inp \<and> mv_source_id m = nm_source_id inp \<and> mv_is_reversal m = nm_is_reversal inp \<and>
     mv_qty_after m = bal_qty (nm_balance_after inp) \<and> mv_value_after m = bal_value (nm_balance_after inp)"
  by (auto simp: movement_create_def mv_key_def elim!: rbindE)

text \<open>What every operation shares once the balance has been read and the new one computed.\<close>

definition nm_key :: "new_movement \<Rightarrow> stock_key" where
  "nm_key inp = (nm_company inp, nm_godown inp, nm_item inp)"

definition cx_key :: "post_ctx \<Rightarrow> stock_input \<Rightarrow> stock_key" where
  "cx_key cx inp = (cx_company cx, si_godown inp, si_item inp)"

definition movement_for :: "dec_lib \<Rightarrow> new_movement \<Rightarrow> stock_movement \<Rightarrow> bool" where
  "movement_for D inp q \<longleftrightarrow> mv_key q = nm_key inp \<and> mv_direction q = nm_direction inp \<and> mv_quantity q = nm_quantity inp \<and>
     mv_value q = to_dp D 4 (nm_value inp) \<and> mv_source_type q = nm_source_type inp \<and> mv_source_id q = nm_source_id inp \<and>
     mv_is_reversal q = nm_is_reversal inp"

definition near_for :: "dec_lib \<Rightarrow> new_movement \<Rightarrow> stock_movement \<Rightarrow> bool" where
  "near_for D inp q \<longleftrightarrow> mv_key q = nm_key inp \<and> mv_direction q = nm_direction inp \<and> mv_quantity q = to_dp D 4 (nm_quantity inp) \<and>
     mv_value q = to_dp D 4 (nm_value inp) \<and> mv_qty_after q = to_dp D 4 (bal_qty (nm_balance_after inp)) \<and>
     mv_value_after q = to_dp D 4 (bal_value (nm_balance_after inp))"

definition next_qty :: "dec_lib \<Rightarrow> balance \<Rightarrow> new_movement \<Rightarrow> decimal" where
  "next_qty D prev inp = (case nm_direction inp of MvIn \<Rightarrow> d_plus D (bal_qty prev) (nm_quantity inp)
     | MvOut \<Rightarrow> d_minus D (bal_qty prev) (nm_quantity inp))"

definition next_value :: "dec_lib \<Rightarrow> balance \<Rightarrow> new_movement \<Rightarrow> decimal" where
  "next_value D prev inp = (case nm_direction inp of MvIn \<Rightarrow> d_plus D (bal_value prev) (to_dp D 4 (nm_value inp))
     | MvOut \<Rightarrow> d_minus D (bal_value prev) (to_dp D 4 (nm_value inp)))"

context decimal_js begin

lemma new_move:
  assumes "current_balance mk (nm_key inp) s = (prev, s1)" and "ids_next mk s1 = (i, s2)"
    and "movement_create D inp i now = Inr m" and "movement_append D mk m s2 = Inr s3"
    and "stock_inv s" and "on_grid 4 (nm_quantity inp)" and "bal_qty (nm_balance_after inp) = next_qty D prev inp"
  shows "prev = bal_of s (nm_key inp)" and "\<exists>q. qty_move s q s3 \<and> movement_for D inp q \<and> mv_id q = i"
    and "bal_value (nm_balance_after inp) = next_value D prev inp \<Longrightarrow> \<exists>q. sound_move s q s3 \<and> movement_for D inp q \<and> mv_id q = i"
proof -
  note c = current_balance_effect [OF assms(1)]
  note f = movement_create_InrD [OF assms(3), folded nm_key_def]
  have st: "same_stock s s2"
    using same_stock_trans [OF c(2), of "s1\<lparr>db_ids := Suc (db_ids s1)\<rparr>"] assms(2) by (auto simp: ids_next_def)
  have ok: "balance_ok (bal_of s (mv_key m))" using assms(5) by (simp only: stock_inv_def)
  have m: "movement_for D inp (stored_movement D m)"
    using f assms(6) by (auto simp: movement_for_def to_dp_id) (simp_all add: stored_movement_def)
  show "prev = bal_of s (nm_key inp)" by (rule c(1))
  have "qty_move s (stored_movement D m) s3"
    by (rule append_qty [OF assms(4) st ok]) (use assms(6,7) f c(1) in \<open>auto simp: next_qty_def split: movement_direction.splits\<close>)
  with m f show "\<exists>q. qty_move s q s3 \<and> movement_for D inp q \<and> mv_id q = i" by auto
  assume v: "bal_value (nm_balance_after inp) = next_value D prev inp"
  have "sound_move s (stored_movement D m) s3"
    by (rule append_sound [OF assms(4) st ok])
      (use assms(6,7) f c(1) v in \<open>auto simp: next_qty_def next_value_def split: movement_direction.splits\<close>)
  with m f show "\<exists>q. sound_move s q s3 \<and> movement_for D inp q \<and> mv_id q = i" by auto
qed

text \<open>The same without any assumption on the quantity.\<close>

lemma new_near:
  assumes "current_balance mk (nm_key inp) s = (prev, s1)" and "ids_next mk s1 = (i, s2)"
    and "movement_create D inp i now = Inr m" and "movement_append D mk m s2 = Inr s3"
    and "stock_inv s" and "bal_qty (nm_balance_after inp) = next_qty D prev inp"
    and "bal_value (nm_balance_after inp) = (case nm_direction inp of MvIn \<Rightarrow> d_plus D (bal_value prev) x | MvOut \<Rightarrow> d_minus D (bal_value prev) x)"
    and "to_dp D 4 x = to_dp D 4 (nm_value inp)"
  shows "\<exists>q. near_move s q s3 \<and> near_for D inp q"
proof -
  note c = current_balance_effect [OF assms(1)]
  note f = movement_create_InrD [OF assms(3), folded nm_key_def]
  have st: "same_stock s s2"
    using same_stock_trans [OF c(2), of "s1\<lparr>db_ids := Suc (db_ids s1)\<rparr>"] assms(2) by (auto simp: ids_next_def)
  have ok: "balance_ok (bal_of s (mv_key m))" using assms(5) by (simp only: stock_inv_def)
  have "near_move s (stored_movement D m) s3"
    by (rule append_near [OF assms(4) st ok, of x]) (use assms(6-8) f c(1) in \<open>auto simp: next_qty_def split: movement_direction.splits\<close>)
  moreover have "near_for D inp (stored_movement D m)" using f by (simp add: near_for_def)
  ultimately show ?thesis by blast
qed

text \<open>A movement whose new balance is not negative leaves no stock negative.\<close>

lemma near_nonneg:
  assumes "near_move s q s'" and "near_for D inp q" and "stock_nonneg s"
    and "0 \<le> bal_qty (nm_balance_after inp)" and "0 \<le> bal_value (nm_balance_after inp)"
  shows "stock_nonneg s'"
  using assms by (intro moved_nonneg [OF _ assms(3)]) (auto simp: near_move_def stored_move_def near_for_def to_dp_nonneg)

lemma receipt_next:
  "apply_receipt D prev q rate = Inr after \<Longrightarrow> after = \<lparr>bal_qty = d_plus D (bal_qty prev) q,
     bal_value = d_plus D (bal_value prev) (to_dp D 4 (d_times D q rate))\<rparr> \<and> 0 < q \<and> \<not> rate < 0"
  by (auto simp: apply_receipt_def assert_positive_def assert_non_negative_def elim!: rbindE)

lemma transfer_next:
  "apply_transfer_in D prev q v = Inr after \<Longrightarrow>
     after = \<lparr>bal_qty = d_plus D (bal_qty prev) q, bal_value = d_plus D (bal_value prev) v\<rparr> \<and> 0 < q \<and> \<not> v < 0"
  by (auto simp: apply_transfer_in_def assert_positive_def assert_non_negative_def elim!: rbindE)

text \<open>The four operations of the service.\<close>

lemma receive_in_InrD:
  assumes "receive_in D mk cx inp rate now s = Inr (avg, s')" and "stock_inv s" and "on_grid 4 (si_qty inp)"
  shows "\<exists>q. sound_move s q s' \<and> mv_key q = cx_key cx inp \<and> mv_direction q = MvIn \<and> mv_quantity q = si_qty inp \<and>
    mv_value q = to_dp D 4 (d_times D (si_qty inp) rate) \<and> \<not> rate < 0"
proof -
  obtain prev s1 where c: "current_balance mk (cx_key cx inp) s = (prev, s1)" by fastforce
  obtain i s2 where i: "ids_next mk s1 = (i, s2)" by fastforce
  from assms(1) c i obtain after m where a: "apply_receipt D prev (si_qty inp) rate = Inr after"
    and m: "movement_create D (service_movement cx inp SrcGrn MvIn rate (d_times D (si_qty inp) rate) after False) i now = Inr m"
    and p: "movement_append D mk m s2 = Inr s'"
    by (auto simp: receive_in_def cx_key_def elim!: rbindE)
  note r = receipt_next [OF a]
  have "\<exists>q. sound_move s q s' \<and> movement_for D (service_movement cx inp SrcGrn MvIn rate (d_times D (si_qty inp) rate) after False) q \<and> mv_id q = i"
    by (rule new_move(3) [OF _ i m p assms(2)])
      (use c r assms(3) in \<open>simp_all add: service_movement_def nm_key_def cx_key_def next_qty_def next_value_def\<close>)
  with r show ?thesis by (auto simp: movement_for_def service_movement_def nm_key_def cx_key_def)
qed

lemma issue_out_InrD:
  assumes "issue_out D mk cx inp allow now s = Inr ((val, rate, i), s')" and "stock_inv s" and "on_grid 4 (si_qty inp)"
  shows "\<exists>q r. sound_move s q s' \<and> mv_key q = cx_key cx inp \<and> mv_direction q = MvOut \<and> mv_quantity q = si_qty inp \<and>
    mv_value q = val \<and> mv_id q = i \<and> value_issue D (bal_of s (cx_key cx inp)) (si_qty inp) allow = Inr r \<and> is_value r = val"
proof -
  obtain prev s1 where c: "current_balance mk (cx_key cx inp) s = (prev, s1)" by fastforce
  obtain i' s2 where i: "ids_next mk s1 = (i', s2)" by fastforce
  from assms(1) c i obtain r m where a: "value_issue D prev (si_qty inp) allow = Inr r"
    and m: "movement_create D (service_movement cx inp SrcReqIssue MvOut (is_rate r) (is_value r) (is_balance r) False) i' now = Inr m"
    and p: "movement_append D mk m s2 = Inr s'" and v: "val = is_value r" "i = i'"
    by (auto simp: issue_out_def cx_key_def elim!: rbindE)
  have b: "prev = bal_of s (cx_key cx inp)" "balance_ok prev"
    using current_balance_effect [OF c] assms(2) by (simp_all only: stock_inv_def)
  note vi = value_issue_Inr [OF a]
  from vi(4) [OF b(2)] have g: "to_dp D 4 (is_value r) = is_value r" by (rule to_dp_id)
  have "\<exists>q. sound_move s q s' \<and> movement_for D (service_movement cx inp SrcReqIssue MvOut (is_rate r) (is_value r) (is_balance r) False) q \<and> mv_id q = i'"
    by (rule new_move(3) [OF _ i m p assms(2)])
      (use c vi(3) g assms(3) in \<open>simp_all add: service_movement_def nm_key_def cx_key_def next_qty_def next_value_def\<close>)
  with a b g v show ?thesis by (auto simp: movement_for_def service_movement_def nm_key_def cx_key_def)
qed

lemma reverse_issue_out_InrD:
  assumes "reverse_issue_out D mk cx inp val now s = Inr (u, s')" and "stock_inv s" and "on_grid 4 (si_qty inp)" and "on_grid 4 val"
  shows "\<exists>q. sound_move s q s' \<and> mv_key q = cx_key cx inp \<and> mv_direction q = MvIn \<and> mv_quantity q = si_qty inp \<and> mv_value q = val"
proof -
  obtain prev s1 where c: "current_balance mk (cx_key cx inp) s = (prev, s1)" by fastforce
  obtain i s2 where i: "ids_next mk s1 = (i, s2)" by fastforce
  from assms(1) c i obtain after rate m where a: "apply_transfer_in D prev (si_qty inp) val = Inr after"
    and m: "movement_create D (service_movement cx inp SrcReqIssue MvIn rate val after True) i now = Inr m"
    and p: "movement_append D mk m s2 = Inr s'"
    by (auto simp: reverse_issue_out_def cx_key_def Let_def elim!: rbindE)
  note r = transfer_next [OF a]
  have g: "to_dp D 4 val = val" using assms(4) by (rule to_dp_id)
  have "\<exists>q. sound_move s q s' \<and> movement_for D (service_movement cx inp SrcReqIssue MvIn rate val after True) q \<and> mv_id q = i"
    by (rule new_move(3) [OF _ i m p assms(2)])
      (use c r g assms(3) in \<open>simp_all add: service_movement_def nm_key_def cx_key_def next_qty_def next_value_def\<close>)
  with g show ?thesis by (auto simp: movement_for_def service_movement_def nm_key_def cx_key_def)
qed

lemma reverse_receipt_InrD:
  assumes "reverse_receipt D mk cx inp now s = Inr (u, s')" and "stock_inv s" and "on_grid 4 (si_qty inp)"
  shows "\<exists>q. sound_move s q s' \<and> mv_key q = cx_key cx inp \<and> mv_direction q = MvOut \<and> mv_quantity q = si_qty inp"
proof -
  obtain prev s1 where c: "current_balance mk (cx_key cx inp) s = (prev, s1)" by fastforce
  obtain i s2 where i: "ids_next mk s1 = (i, s2)" by fastforce
  from assms(1) c i obtain r m where a: "value_issue D prev (si_qty inp) True = Inr r"
    and m: "movement_create D (service_movement cx inp SrcGrn MvOut (is_rate r) (is_value r) (is_balance r) True) i now = Inr m"
    and p: "movement_append D mk m s2 = Inr s'"
    by (auto simp: reverse_receipt_def cx_key_def elim!: rbindE)
  have b: "balance_ok prev"
    using current_balance_effect [OF c] assms(2) by (simp only: stock_inv_def)
  note vi = value_issue_Inr [OF a]
  from vi(4) [OF b] have g: "to_dp D 4 (is_value r) = is_value r" by (rule to_dp_id)
  have "\<exists>q. sound_move s q s' \<and> movement_for D (service_movement cx inp SrcGrn MvOut (is_rate r) (is_value r) (is_balance r) True) q \<and> mv_id q = i"
    by (rule new_move(3) [OF _ i m p assms(2)])
      (use c vi(3) g assms(3) in \<open>simp_all add: service_movement_def nm_key_def cx_key_def next_qty_def next_value_def\<close>)
  then show ?thesis by (auto simp: movement_for_def service_movement_def nm_key_def cx_key_def)
qed

text \<open>The four operations whatever the quantities.\<close>

lemma receive_in_near:
  assumes "receive_in D mk cx inp rate now s = Inr (avg, s')" and "stock_inv s"
  shows "\<exists>q. near_move s q s'" and "stock_nonneg s \<Longrightarrow> stock_nonneg s'"
proof -
  obtain prev s1 where c: "current_balance mk (cx_key cx inp) s = (prev, s1)" by fastforce
  obtain i s2 where i: "ids_next mk s1 = (i, s2)" by fastforce
  from assms(1) c i obtain after m where a: "apply_receipt D prev (si_qty inp) rate = Inr after"
    and m: "movement_create D (service_movement cx inp SrcGrn MvIn rate (d_times D (si_qty inp) rate) after False) i now = Inr m"
    and p: "movement_append D mk m s2 = Inr s'"
    by (auto simp: receive_in_def cx_key_def elim!: rbindE)
  note r = receipt_next [OF a]
  let ?n = "service_movement cx inp SrcGrn MvIn rate (d_times D (si_qty inp) rate) after False"
  have "\<exists>q. near_move s q s' \<and> near_for D ?n q"
    by (rule new_near [OF _ i m p assms(2), of prev "to_dp D 4 (d_times D (si_qty inp) rate)"])
      (use c r in \<open>simp_all add: service_movement_def nm_key_def cx_key_def next_qty_def to_dp_id\<close>)
  then obtain q where q: "near_move s q s'" "near_for D ?n q" by blast
  then show "\<exists>q. near_move s q s'" by blast
  assume n: "stock_nonneg s"
  then have b: "balance_nonneg prev" using current_balance_effect(1) [OF c] by (simp only: stock_nonneg_def)
  have v: "0 \<le> d_times D (si_qty inp) rate" unfolding d_times_def using r by (intro rnd_nonneg) auto
  show "stock_nonneg s'"
    by (rule near_nonneg [OF q n])
      (use r b v in \<open>simp_all add: service_movement_def d_plus_def balance_nonneg_def rnd_nonneg to_dp_nonneg\<close>)
qed

lemma issue_out_near:
  assumes "issue_out D mk cx inp allow now s = Inr (x, s')" and "stock_inv s"
  shows "\<exists>q. near_move s q s'" and "\<not> allow \<Longrightarrow> stock_nonneg s \<Longrightarrow> stock_nonneg s'"
proof -
  obtain prev s1 where c: "current_balance mk (cx_key cx inp) s = (prev, s1)" by fastforce
  obtain i s2 where i: "ids_next mk s1 = (i, s2)" by fastforce
  from assms(1) c i obtain r m where a: "value_issue D prev (si_qty inp) allow = Inr r"
    and m: "movement_create D (service_movement cx inp SrcReqIssue MvOut (is_rate r) (is_value r) (is_balance r) False) i now = Inr m"
    and p: "movement_append D mk m s2 = Inr s'"
    by (auto simp: issue_out_def cx_key_def elim!: rbindE)
  note e = current_balance_effect(1) [OF c]
  have b: "balance_ok prev" using e assms(2) by (simp only: stock_inv_def)
  note vi = value_issue_Inr [OF a]
  let ?n = "service_movement cx inp SrcReqIssue MvOut (is_rate r) (is_value r) (is_balance r) False"
  have "\<exists>q. near_move s q s' \<and> near_for D ?n q"
    by (rule new_near [OF _ i m p assms(2), of prev "is_value r"])
      (use c vi(3) in \<open>simp_all add: service_movement_def nm_key_def cx_key_def next_qty_def\<close>)
  then obtain q where q: "near_move s q s'" "near_for D ?n q" by blast
  then show "\<exists>q. near_move s q s'" by blast
  assume n: "\<not> allow" "stock_nonneg s"
  then have bn: "balance_nonneg prev" using e by (simp only: stock_nonneg_def)
  have le: "si_qty inp \<le> bal_qty prev" using vi(2) n(1) by simp
  show "stock_nonneg s'"
    by (rule near_nonneg [OF q n(2)])
      (use le value_issue_share(2) [OF a b bn le] in \<open>simp_all add: service_movement_def vi(3) d_minus_def rnd_nonneg\<close>)
qed

lemma reverse_issue_out_near:
  assumes "reverse_issue_out D mk cx inp val now s = Inr (u, s')" and "stock_inv s"
  shows "\<exists>q. near_move s q s'" and "stock_nonneg s \<Longrightarrow> stock_nonneg s'"
proof -
  obtain prev s1 where c: "current_balance mk (cx_key cx inp) s = (prev, s1)" by fastforce
  obtain i s2 where i: "ids_next mk s1 = (i, s2)" by fastforce
  from assms(1) c i obtain after rate m where a: "apply_transfer_in D prev (si_qty inp) val = Inr after"
    and m: "movement_create D (service_movement cx inp SrcReqIssue MvIn rate val after True) i now = Inr m"
    and p: "movement_append D mk m s2 = Inr s'"
    by (auto simp: reverse_issue_out_def cx_key_def Let_def elim!: rbindE)
  note r = transfer_next [OF a]
  let ?n = "service_movement cx inp SrcReqIssue MvIn rate val after True"
  have "\<exists>q. near_move s q s' \<and> near_for D ?n q"
    by (rule new_near [OF _ i m p assms(2), of prev val])
      (use c r in \<open>simp_all add: service_movement_def nm_key_def cx_key_def next_qty_def\<close>)
  then obtain q where q: "near_move s q s'" "near_for D ?n q" by blast
  then show "\<exists>q. near_move s q s'" by blast
  assume n: "stock_nonneg s"
  then have b: "balance_nonneg prev" using current_balance_effect(1) [OF c] by (simp only: stock_nonneg_def)
  show "stock_nonneg s'"
    by (rule near_nonneg [OF q n]) (use r b in \<open>simp_all add: service_movement_def d_plus_def balance_nonneg_def rnd_nonneg\<close>)
qed

lemma reverse_receipt_near:
  assumes "reverse_receipt D mk cx inp now s = Inr (u, s')" and "stock_inv s"
  shows "\<exists>q. near_move s q s'"
proof -
  obtain prev s1 where c: "current_balance mk (cx_key cx inp) s = (prev, s1)" by fastforce
  obtain i s2 where i: "ids_next mk s1 = (i, s2)" by fastforce
  from assms(1) c i obtain r m where a: "value_issue D prev (si_qty inp) True = Inr r"
    and m: "movement_create D (service_movement cx inp SrcGrn MvOut (is_rate r) (is_value r) (is_balance r) True) i now = Inr m"
    and p: "movement_append D mk m s2 = Inr s'"
    by (auto simp: reverse_receipt_def cx_key_def elim!: rbindE)
  have "\<exists>q. near_move s q s' \<and> near_for D (service_movement cx inp SrcGrn MvOut (is_rate r) (is_value r) (is_balance r) True) q"
    by (rule new_near [OF _ i m p assms(2), of prev "is_value r"])
      (use c value_issue_Inr(3) [OF a] in \<open>simp_all add: service_movement_def nm_key_def cx_key_def next_qty_def\<close>)
  then show ?thesis by blast
qed

text \<open>A receipt keeps every balance non-negative, and so does an issue of what is on hand.\<close>

lemma in_move_nonneg:
  assumes "sound_move s q s'" and "mv_direction q = MvIn" and "stock_nonneg s" shows "stock_nonneg s'"
proof (rule moved_nonneg [OF _ assms(3)])
  show "moved s q s'" using assms(1) by (simp add: sound_move_def qty_move_def)
  have "balance_nonneg (bal_of s (mv_key q))" using assms(3) by (simp only: stock_nonneg_def)
  with assms(1,2) show "0 \<le> mv_qty_after q" "0 \<le> mv_value_after q"
    by (auto simp: sound_move_def qty_move_def carries_qty_def carries_value_def signed_quantity_def signed_value_def balance_nonneg_def)
qed

lemma out_move_nonneg:
  assumes "sound_move s q s'" and "mv_direction q = MvOut" and "stock_nonneg s" and "stock_inv s"
    and "value_issue D (bal_of s (mv_key q)) (mv_quantity q) False = Inr r" and "is_value r = mv_value q"
  shows "stock_nonneg s'"
proof (rule moved_nonneg [OF _ assms(3)])
  show "moved s q s'" using assms(1) by (simp add: sound_move_def qty_move_def)
  have b: "balance_nonneg (bal_of s (mv_key q))" using assms(3) by (simp only: stock_nonneg_def)
  have ok: "balance_ok (bal_of s (mv_key q))" using assms(4) by (simp only: stock_inv_def)
  have le: "mv_quantity q \<le> bal_qty (bal_of s (mv_key q))" using value_issue_Inr(2) [OF assms(5)] by simp
  have g: "on_grid 4 (mv_quantity q)" using assms(1) by (simp add: sound_move_def qty_move_def num18_4_def)
  note v = value_issue_bounds [OF assms(5) ok b le g]
  show "0 \<le> mv_qty_after q" "0 \<le> mv_value_after q"
    using assms(1,2,6) le v(2)
    by (auto simp: sound_move_def qty_move_def carries_qty_def carries_value_def signed_quantity_def signed_value_def)
qed

end

end
