(* ===== verification/Stock_Journal.thy ===== *)
theory Stock_Journal
  imports Stock_Ledger
begin

text \<open>
  The stock journal (\<open>src/src/modules/inventory/\<close>): the voucher's aggregate with its side rules and its
  life cycle, its repository, the resolution of its accounts, and the use cases create, update, delete,
  approve, post and reverse, each one transaction.
\<close>

section \<open>Modes and side rules\<close>

datatype stock_journal_mode = TRANSFER | ISSUE | ADJUSTMENT

definition mode_of_name :: "string \<Rightarrow> stock_journal_mode option" where
  "mode_of_name n = map_of [(''TRANSFER'', TRANSFER), (''ISSUE'', ISSUE), (''ADJUSTMENT'', ADJUSTMENT)] n"

fun mode_name :: "stock_journal_mode \<Rightarrow> string" where
  "mode_name TRANSFER = ''TRANSFER''"
| "mode_name ISSUE = ''ISSUE''"
| "mode_name ADJUSTMENT = ''ADJUSTMENT''"

record mode_side_rule =
  from_required :: bool
  to_required :: bool
  to_forbidden :: bool

fun side_rule_for :: "stock_journal_mode \<Rightarrow> mode_side_rule" where
  "side_rule_for TRANSFER = \<lparr>from_required = True, to_required = True, to_forbidden = False\<rparr>"
| "side_rule_for ISSUE = \<lparr>from_required = True, to_required = False, to_forbidden = True\<rparr>"
| "side_rule_for ADJUSTMENT = \<lparr>from_required = False, to_required = False, to_forbidden = False\<rparr>"

section \<open>The aggregate\<close>

datatype stock_journal_status = SjDraft | SjApproved | SjPosted | SjCancelled

fun sj_status_name :: "stock_journal_status \<Rightarrow> string" where
  "sj_status_name SjDraft = ''DRAFT''"
| "sj_status_name SjApproved = ''APPROVED''"
| "sj_status_name SjPosted = ''POSTED''"
| "sj_status_name SjCancelled = ''CANCELLED''"

datatype sj_side = SideOut | SideIn

record sj_line =
  ln_no :: nat
  ln_side :: sj_side
  ln_godown :: string
  ln_item :: string
  ln_qty :: decimal
  ln_rate :: "decimal option"
  ln_value :: "decimal option"
  ln_project :: string
  ln_cost_centre :: string
  ln_purpose :: string

record new_stock_journal =
  ns_date :: string
  ns_mode :: string
  ns_from :: "string option"
  ns_to :: "string option"
  ns_item :: string
  ns_qty :: decimal_input
  ns_project :: string
  ns_cost_centre :: string
  ns_purpose :: string
  ns_issued_by :: "string option"
  ns_received_by :: "string option"
  ns_narration :: "string option"

record edit_stock_journal =
  es_date :: "string option"
  es_mode :: "string option"
  es_from :: "string patch"
  es_to :: "string patch"
  es_item :: "string option"
  es_qty :: "decimal_input option"
  es_project :: "string option"
  es_cost_centre :: "string option"
  es_purpose :: "string option"
  es_issued_by :: "string patch"
  es_received_by :: "string patch"
  es_narration :: "string patch"

record stock_journal =
  sj_id :: string
  sj_company :: string
  sj_fy :: string
  sj_entry_no :: "string option"
  sj_date :: string
  sj_mode :: stock_journal_mode
  sj_status :: stock_journal_status
  sj_from :: "string option"
  sj_to :: "string option"
  sj_item :: string
  sj_qty :: decimal
  sj_rate :: "decimal option"
  sj_value :: "decimal option"
  sj_project :: string
  sj_cost_centre :: string
  sj_purpose :: string
  sj_issued_by :: "string option"
  sj_received_by :: "string option"
  sj_approved_by :: "string option"
  sj_approved_at :: "int option"
  sj_allow_negative :: bool
  sj_authorised_by :: "string option"
  sj_reason :: "string option"
  sj_journal_entry :: "string option"
  sj_narration :: "string option"
  sj_posted_at :: "int option"
  sj_posted_by :: "string option"
  sj_version :: nat
  sj_lines :: "sj_line list"

definition to_qty :: "decimal_input \<Rightarrow> domain_error + decimal" where
  "to_qty v = to_decimal v ''quantity''"

definition new_sj_line ::
  "sj_side \<Rightarrow> string \<Rightarrow> string \<Rightarrow> decimal \<Rightarrow> string \<Rightarrow> string \<Rightarrow> string \<Rightarrow> nat \<Rightarrow> domain_error + sj_line" where
  "new_sj_line side godown item qty project cost_centre purpose n =
     rbind (require (0 < qty) (ValidationError ''quantity'')) (\<lambda>_.
     rbind (req godown ''godownId'') (\<lambda>g.
     rbind (req item ''itemId'') (\<lambda>it.
     rbind (req project ''projectId'') (\<lambda>p.
     rbind (req cost_centre ''costCentreId'') (\<lambda>cc.
     rbind (req purpose ''purposeId'') (\<lambda>pu.
     Inr \<lparr>ln_no = n, ln_side = side, ln_godown = g, ln_item = it, ln_qty = qty, ln_rate = None, ln_value = None,
          ln_project = p, ln_cost_centre = cc, ln_purpose = pu\<rparr>))))))"

definition with_valuation :: "decimal \<Rightarrow> decimal \<Rightarrow> sj_line \<Rightarrow> sj_line" where
  "with_valuation rate val l = l\<lparr>ln_rate := Some rate, ln_value := Some val\<rparr>"

text \<open>The guards of \<open>createDraft\<close> on the godown sides.\<close>

definition sides_check :: "stock_journal_mode \<Rightarrow> string option \<Rightarrow> string option \<Rightarrow> domain_error + unit" where
  "sides_check mode from_g to_g =
     rbind (require (\<not> (to_forbidden (side_rule_for mode) \<and> truthy to_g)) (IssueSideOnTransferOnlyError (mode_name mode))) (\<lambda>_.
     rbind (require (\<not> (from_required (side_rule_for mode) \<and> \<not> truthy from_g)) (ValidationError ''fromGodownId'')) (\<lambda>_.
     rbind (require (\<not> (to_required (side_rule_for mode) \<and> \<not> truthy to_g)) (ValidationError ''toGodownId'')) (\<lambda>_.
     rbind (require (\<not> (mode = ADJUSTMENT \<and> \<not> truthy from_g \<and> \<not> truthy to_g)) (ValidationError ''mode'')) (\<lambda>_.
     require (\<not> (mode = TRANSFER \<and> truthy from_g \<and> truthy to_g \<and> from_g = to_g)) (SameGodownTransferError (the from_g))))))"

definition side_line ::
  "sj_side \<Rightarrow> string option \<Rightarrow> string \<Rightarrow> decimal \<Rightarrow> string \<Rightarrow> string \<Rightarrow> string \<Rightarrow> nat \<Rightarrow> domain_error + sj_line list" where
  "side_line side godown item qty project cost_centre purpose n =
     (if truthy godown
      then rbind (new_sj_line side (the godown) item qty project cost_centre purpose n) (\<lambda>l. Inr [l])
      else Inr [])"

definition sj_create_draft ::
  "string \<Rightarrow> string \<Rightarrow> string \<Rightarrow> new_stock_journal \<Rightarrow> domain_error + stock_journal" where
  "sj_create_draft i company fy inp =
     rbind (fetch (ValidationError ''mode'') (mode_of_name (ns_mode inp))) (\<lambda>mode.
     let from_g = clean (ns_from inp); to_g = clean (ns_to inp) in
     rbind (sides_check mode from_g to_g) (\<lambda>_.
     rbind (to_qty (ns_qty inp)) (\<lambda>qty.
     rbind (require (0 < qty) (ValidationError ''quantity'')) (\<lambda>_.
     rbind (req (ns_project inp) ''projectId'') (\<lambda>project.
     rbind (req (ns_cost_centre inp) ''costCentreId'') (\<lambda>cost_centre.
     rbind (req (ns_purpose inp) ''purposeId'') (\<lambda>purpose.
     rbind (req (ns_item inp) ''itemId'') (\<lambda>item.
     rbind (side_line SideOut from_g item qty project cost_centre purpose 1) (\<lambda>outs.
     rbind (side_line SideIn to_g item qty project cost_centre purpose (1 + length outs)) (\<lambda>ins.
     rbind (req (ns_date inp) ''voucherDate'') (\<lambda>date.
     Inr \<lparr>sj_id = i, sj_company = company, sj_fy = fy, sj_entry_no = None, sj_date = date, sj_mode = mode,
          sj_status = SjDraft, sj_from = from_g, sj_to = to_g, sj_item = item, sj_qty = qty, sj_rate = None,
          sj_value = None, sj_project = project, sj_cost_centre = cost_centre, sj_purpose = purpose,
          sj_issued_by = clean (ns_issued_by inp), sj_received_by = clean (ns_received_by inp),
          sj_approved_by = None, sj_approved_at = None, sj_allow_negative = False, sj_authorised_by = None,
          sj_reason = None, sj_journal_entry = None, sj_narration = ns_narration inp, sj_posted_at = None,
          sj_posted_by = None, sj_version = 1, sj_lines = outs @ ins\<rparr>)))))))))))"

definition sj_merge :: "stock_journal \<Rightarrow> edit_stock_journal \<Rightarrow> new_stock_journal" where
  "sj_merge j e =
     \<lparr>ns_date = (case es_date e of Some x \<Rightarrow> x | None \<Rightarrow> sj_date j),
      ns_mode = (case es_mode e of Some x \<Rightarrow> x | None \<Rightarrow> mode_name (sj_mode j)),
      ns_from = patch_defined (es_from e) (sj_from j), ns_to = patch_defined (es_to e) (sj_to j),
      ns_item = (case es_item e of Some x \<Rightarrow> x | None \<Rightarrow> sj_item j),
      ns_qty = (case es_qty e of Some x \<Rightarrow> x | None \<Rightarrow> Dec (sj_qty j)),
      ns_project = (case es_project e of Some x \<Rightarrow> x | None \<Rightarrow> sj_project j),
      ns_cost_centre = (case es_cost_centre e of Some x \<Rightarrow> x | None \<Rightarrow> sj_cost_centre j),
      ns_purpose = (case es_purpose e of Some x \<Rightarrow> x | None \<Rightarrow> sj_purpose j),
      ns_issued_by = patch_defined (es_issued_by e) (sj_issued_by j),
      ns_received_by = patch_defined (es_received_by e) (sj_received_by j),
      ns_narration = patch_defined (es_narration e) (sj_narration j)\<rparr>"

definition sj_edit_draft :: "edit_stock_journal \<Rightarrow> stock_journal \<Rightarrow> domain_error + stock_journal" where
  "sj_edit_draft e j =
     rbind (require (sj_status j = SjDraft)
              (InvalidStockJournalTransitionError (sj_status_name (sj_status j)) ''edit (requires DRAFT)'')) (\<lambda>_.
     rbind (sj_create_draft (sj_id j) (sj_company j) (sj_fy j) (sj_merge j e)) (\<lambda>r.
     Inr (r\<lparr>sj_version := sj_version j\<rparr>)))"

definition sj_approve :: "string \<Rightarrow> int \<Rightarrow> stock_journal \<Rightarrow> domain_error + stock_journal" where
  "sj_approve who now j =
     rbind (require (sj_status j = SjDraft)
              (InvalidStockJournalTransitionError (sj_status_name (sj_status j)) ''approve'')) (\<lambda>_.
     Inr (j\<lparr>sj_status := SjApproved, sj_approved_by := Some who, sj_approved_at := Some now\<rparr>))"

definition sj_assert_postable :: "stock_journal \<Rightarrow> domain_error + unit" where
  "sj_assert_postable j = require (sj_status j = SjApproved) (NotApprovedError (sj_status_name (sj_status j)))"

definition sj_assert_posted :: "stock_journal \<Rightarrow> domain_error + unit" where
  "sj_assert_posted j =
     rbind (require (sj_status j \<noteq> SjCancelled) (StockJournalAlreadyReversedError (sj_id j))) (\<lambda>_.
     require (sj_status j = SjPosted) (InvalidStockJournalTransitionError (sj_status_name (sj_status j)) ''reverse''))"

definition record_negative_authorisation :: "string option \<Rightarrow> string option \<Rightarrow> stock_journal \<Rightarrow> stock_journal" where
  "record_negative_authorisation who reason j =
     j\<lparr>sj_allow_negative := (who \<noteq> None), sj_authorised_by := who, sj_reason := reason\<rparr>"

definition sj_mark_posted ::
  "string option \<Rightarrow> string option \<Rightarrow> decimal \<Rightarrow> decimal \<Rightarrow> sj_line list \<Rightarrow> string \<Rightarrow> int \<Rightarrow> stock_journal \<Rightarrow>
   domain_error + stock_journal" where
  "sj_mark_posted entry_no entry_id rate val ls who now j =
     rbind (sj_assert_postable j) (\<lambda>_.
     Inr (j\<lparr>sj_status := SjPosted, sj_entry_no := entry_no, sj_journal_entry := entry_id, sj_rate := Some rate,
            sj_value := Some val, sj_lines := ls, sj_posted_by := Some who, sj_posted_at := Some now\<rparr>))"

definition sj_mark_cancelled :: "stock_journal \<Rightarrow> domain_error + stock_journal" where
  "sj_mark_cancelled j = rbind (sj_assert_posted j) (\<lambda>_. Inr (j\<lparr>sj_status := SjCancelled\<rparr>))"

definition sj_assert_editable :: "stock_journal \<Rightarrow> domain_error + unit" where
  "sj_assert_editable j = require (sj_status j = SjDraft) (StockJournalPostedImmutableError (sj_status_name (sj_status j)))"

section \<open>State and repository\<close>

record item_row =
  it_id :: string
  it_company :: string
  it_account :: "string option"

record sj_row =
  jr_journal :: stock_journal
  jr_deleted :: bool

record inventory_db = stock_db +
  inv_items :: "item_row list"
  inv_accounts :: "account_row list"
  inv_purposes :: "owned_row list"
  inv_godowns :: "owned_row list"
  inv_journals :: "sj_row list"

text \<open>
  The columns: the quantity transformer writes three decimals, the money transformer four.  The lines are
  rows of their own, rewritten by every save with fresh identifiers and read back in the order of their
  line numbers; they are kept here with their header, in that order.
\<close>

definition stored_sj_line :: "dec_lib \<Rightarrow> sj_line \<Rightarrow> sj_line" where
  "stored_sj_line D l = l\<lparr>ln_qty := to_dp D 3 (ln_qty l), ln_rate := map_option (to_dp D 4) (ln_rate l),
     ln_value := map_option (to_dp D 4) (ln_value l)\<rparr>"

definition stored_sj :: "dec_lib \<Rightarrow> stock_journal \<Rightarrow> stock_journal" where
  "stored_sj D j = j\<lparr>sj_qty := to_dp D 3 (sj_qty j), sj_rate := map_option (to_dp D 4) (sj_rate j),
     sj_value := map_option (to_dp D 4) (sj_value j), sj_lines := map (stored_sj_line D) (sj_lines j)\<rparr>"

definition optional_column :: "decimal option \<Rightarrow> domain_error + unit" where
  "optional_column x = (case x of None \<Rightarrow> Inr () | Some v \<Rightarrow> in_column v)"

definition sj_header_checks :: "stock_journal \<Rightarrow> domain_error + unit" where
  "sj_header_checks j =
     rbind (in_column (sj_qty j)) (\<lambda>_.
     rbind (optional_column (sj_rate j)) (\<lambda>_.
     rbind (optional_column (sj_value j)) (\<lambda>_.
     require (0 < sj_qty j) (DatabaseError ''chk_stock_journal_quantity_pos''))))"

definition sj_line_checks :: "sj_line \<Rightarrow> domain_error + unit" where
  "sj_line_checks l =
     rbind (in_column (ln_qty l)) (\<lambda>_.
     rbind (optional_column (ln_rate l)) (\<lambda>_.
     rbind (optional_column (ln_value l)) (\<lambda>_.
     require (0 < ln_qty l) (DatabaseError ''chk_stock_journal_line_quantity_pos''))))"

definition sj_insert ::
  "dec_lib \<Rightarrow> stock_journal \<Rightarrow> 'a inventory_db_scheme \<Rightarrow> domain_error + 'a inventory_db_scheme" where
  "sj_insert D j s =
     (let q = (stored_sj D j)\<lparr>sj_version := 1\<rparr> in
      rbind (sj_header_checks q) (\<lambda>_.
      rbind (require (\<not> list_ex (\<lambda>r. sj_id (jr_journal r) = sj_id q) (inv_journals s)) (DatabaseError ''stock_journal_pkey'')) (\<lambda>_.
      rbind (riter sj_line_checks (sj_lines q)) (\<lambda>_.
      Inr (s\<lparr>inv_journals := inv_journals s @ [\<lparr>jr_journal = q, jr_deleted = False\<rparr>],
             db_ids := db_ids s + length (sj_lines q)\<rparr>)))))"

definition sj_save ::
  "dec_lib \<Rightarrow> stock_journal \<Rightarrow> nat \<Rightarrow> 'a inventory_db_scheme \<Rightarrow> domain_error + 'a inventory_db_scheme" where
  "sj_save D j expected s =
     (let hit = (\<lambda>r. sj_id (jr_journal r) = sj_id j \<and> sj_company (jr_journal r) = sj_company j \<and>
                   sj_version (jr_journal r) = expected);
          new = (\<lambda>r. r\<lparr>jr_journal := (stored_sj D j)\<lparr>sj_fy := sj_fy (jr_journal r), sj_version := expected + 1\<rparr>\<rparr>)
      in if \<not> list_ex hit (inv_journals s) then Inl OptimisticLockConflictError
         else
           rbind (sj_header_checks (stored_sj D j)) (\<lambda>_.
           rbind (riter sj_line_checks (sj_lines (stored_sj D j))) (\<lambda>_.
           Inr (s\<lparr>inv_journals := update_where hit new (inv_journals s),
                  db_ids := db_ids s + length (sj_lines j)\<rparr>))))"

definition sj_find_for_update :: "string \<Rightarrow> string \<Rightarrow> sj_row list \<Rightarrow> stock_journal option" where
  "sj_find_for_update i co tbl =
     map_option jr_journal
       (List.find (\<lambda>r. sj_id (jr_journal r) = i \<and> sj_company (jr_journal r) = co \<and> \<not> jr_deleted r) tbl)"

definition sj_soft_delete :: "string \<Rightarrow> string \<Rightarrow> sj_row list \<Rightarrow> sj_row list" where
  "sj_soft_delete i co tbl =
     update_where (\<lambda>r. sj_id (jr_journal r) = i \<and> sj_company (jr_journal r) = co) (\<lambda>r. r\<lparr>jr_deleted := True\<rparr>) tbl"

section \<open>Accounts and the posting command\<close>

definition inventory_account_of :: "string \<Rightarrow> string \<Rightarrow> item_row list \<Rightarrow> domain_error + string" where
  "inventory_account_of co item items =
     (case List.find (\<lambda>r. it_id r = item \<and> it_company r = co) items of
        None \<Rightarrow> Inl (InventoryAccountNotConfiguredError ''item-inventory'')
      | Some r \<Rightarrow> if truthy (it_account r) then Inr (the (it_account r))
                  else Inl (InventoryAccountNotConfiguredError ''item-inventory''))"

definition expense_account_of :: "string \<Rightarrow> account_row list \<Rightarrow> domain_error + string" where
  "expense_account_of co accs =
     (case List.find (\<lambda>a. ac_company a = co \<and> ac_code a = ''5100'') accs of
        None \<Rightarrow> Inl (InventoryAccountNotConfiguredError ''material-expense'')
      | Some a \<Rightarrow> Inr (ac_id a))"

definition sj_posting_line :: "string \<Rightarrow> sj_line \<Rightarrow> decimal \<Rightarrow> decimal \<Rightarrow> account_type \<Rightarrow> posting_line" where
  "sj_posting_line acc l dr cr ty =
     (dim_line acc (Some (ln_project l)) (Some (ln_cost_centre l)) (Some (ln_purpose l)) None dr cr ty False)
       \<lparr>pl_godown := Some (ln_godown l)\<rparr>"

definition sj_command :: "stock_journal \<Rightarrow> posting_line list \<Rightarrow> string \<Rightarrow> posting_command" where
  "sj_command j ls who =
     \<lparr>pc_company = sj_company j, pc_fy = sj_fy j, pc_voucher_type = STOCK_JOURNAL, pc_voucher_date = sj_date j,
      pc_source_type = ''STOCK_JOURNAL'', pc_source_id = sj_id j, pc_posted_by = who, pc_narration = None, pc_lines = ls\<rparr>"

definition sj_build_command ::
  "stock_journal \<Rightarrow> sj_line option \<Rightarrow> sj_line option \<Rightarrow> decimal \<Rightarrow> string \<Rightarrow> 'a inventory_db_scheme \<Rightarrow>
   domain_error + posting_command option" where
  "sj_build_command j out_l in_l val who s =
     (case out_l of
        None \<Rightarrow> Inr None
      | Some ol \<Rightarrow>
         (case in_l of
            Some il \<Rightarrow>
              rbind (inventory_account_of (sj_company j) (sj_item j) (inv_items s)) (\<lambda>from_acc.
              rbind (inventory_account_of (sj_company j) (sj_item j) (inv_items s)) (\<lambda>to_acc.
              if from_acc = to_acc then Inr None
              else Inr (Some (sj_command j [sj_posting_line to_acc il val 0 ASSET, sj_posting_line from_acc ol 0 val ASSET] who))))
          | None \<Rightarrow>
              rbind (inventory_account_of (sj_company j) (sj_item j) (inv_items s)) (\<lambda>inv_acc.
              rbind (expense_account_of (sj_company j) (inv_accounts s)) (\<lambda>exp_acc.
              Inr (Some (sj_command j [sj_posting_line exp_acc ol val 0 EXPENSE, sj_posting_line inv_acc ol 0 val ASSET] who))))))"

section \<open>Use cases\<close>

definition sj_tag_lines :: "stock_journal \<Rightarrow> tag_line list" where
  "sj_tag_lines j =
     map (\<lambda>l. \<lparr>tl_project = ln_project l, tl_purpose = Some (ln_purpose l), tl_godown = Some (ln_godown l)\<rparr>) (sj_lines j)"

definition create_stock_journal ::
  "dec_lib \<Rightarrow> (nat \<Rightarrow> string) \<Rightarrow> new_stock_journal \<Rightarrow> actor \<Rightarrow> 'a inventory_db_scheme \<Rightarrow>
   domain_error + (string \<times> 'a inventory_db_scheme)" where
  "create_stock_journal D mk inp act = uow_run (\<lambda>s.
     case ids_next mk s of (i, s1) \<Rightarrow>
     rbind (sj_create_draft i (act_company act) (act_fy act) inp) (\<lambda>j.
     rbind (assert_consistent (act_company act) (inv_purposes s1) (inv_godowns s1) (sj_tag_lines j)) (\<lambda>_.
     rbind (sj_insert D j s1) (\<lambda>s2.
     Inr (i, audit_record ''CREATE'' ''StockJournal'' i act s2)))))"

definition update_stock_journal ::
  "dec_lib \<Rightarrow> string \<Rightarrow> edit_stock_journal \<Rightarrow> nat \<Rightarrow> actor \<Rightarrow> 'a inventory_db_scheme \<Rightarrow>
   domain_error + (unit \<times> 'a inventory_db_scheme)" where
  "update_stock_journal D i e version act = uow_run (\<lambda>s.
     rbind (fetch (NotFoundError i) (sj_find_for_update i (act_company act) (inv_journals s))) (\<lambda>j.
     rbind (require (sj_version j = version) OptimisticLockConflictError) (\<lambda>_.
     rbind (sj_edit_draft e j) (\<lambda>q.
     rbind (assert_consistent (act_company act) (inv_purposes s) (inv_godowns s) (sj_tag_lines q)) (\<lambda>_.
     rbind (sj_save D q (sj_version q) s) (\<lambda>s1.
     Inr ((), audit_record ''UPDATE'' ''StockJournal'' i act s1)))))))"

definition delete_stock_journal ::
  "string \<Rightarrow> actor \<Rightarrow> 'a inventory_db_scheme \<Rightarrow> domain_error + (unit \<times> 'a inventory_db_scheme)" where
  "delete_stock_journal i act = uow_run (\<lambda>s.
     rbind (fetch (NotFoundError i) (sj_find_for_update i (act_company act) (inv_journals s))) (\<lambda>j.
     rbind (sj_assert_editable j) (\<lambda>_.
     Inr ((), audit_record ''DELETE'' ''StockJournal'' i act
       (s\<lparr>inv_journals := sj_soft_delete i (act_company act) (inv_journals s)\<rparr>)))))"

definition approve_stock_journal ::
  "dec_lib \<Rightarrow> string \<Rightarrow> actor \<Rightarrow> int \<Rightarrow> 'a inventory_db_scheme \<Rightarrow> domain_error + (unit \<times> 'a inventory_db_scheme)" where
  "approve_stock_journal D i act now = uow_run (\<lambda>s.
     rbind (fetch (NotFoundError i) (sj_find_for_update i (act_company act) (inv_journals s))) (\<lambda>j.
     rbind (scope_or_forbidden act (sj_project j)) (\<lambda>_.
     rbind (sj_approve (act_user act) now j) (\<lambda>q.
     rbind (sj_save D q (sj_version q) s) (\<lambda>s1.
     Inr ((), audit_record ''APPROVE'' ''StockJournal'' i act s1))))))"

definition sj_movement ::
  "stock_journal \<Rightarrow> sj_line \<Rightarrow> movement_direction \<Rightarrow> decimal \<Rightarrow> decimal \<Rightarrow> balance \<Rightarrow> bool \<Rightarrow> actor \<Rightarrow> new_movement" where
  "sj_movement j l dir rate val after mirror act =
     \<lparr>nm_company = act_company act, nm_godown = ln_godown l, nm_item = ln_item l, nm_source_type = SrcStockJournal,
      nm_source_id = sj_id j, nm_direction = dir, nm_quantity = ln_qty l, nm_rate = rate, nm_value = val,
      nm_balance_after = after, nm_is_reversal = mirror, nm_date = sj_date j, nm_posted_by = act_user act\<rparr>"

text \<open>The end of each movement: draw an identifier, build the row, append it.\<close>

definition sj_move ::
  "dec_lib \<Rightarrow> (nat \<Rightarrow> string) \<Rightarrow> new_movement \<Rightarrow> int \<Rightarrow> 'a stock_db_scheme \<Rightarrow> domain_error + 'a stock_db_scheme" where
  "sj_move D mk inp now s =
     (case ids_next mk s of (i, s1) \<Rightarrow>
      rbind (movement_create D inp i now) (\<lambda>m. movement_append D mk m s1))"

definition sj_post_out ::
  "dec_lib \<Rightarrow> (nat \<Rightarrow> string) \<Rightarrow> stock_journal \<Rightarrow> sj_line option \<Rightarrow> bool \<Rightarrow> actor \<Rightarrow> int \<Rightarrow> 'a inventory_db_scheme \<Rightarrow>
   domain_error + ((decimal \<times> decimal \<times> sj_line list) \<times> 'a inventory_db_scheme)" where
  "sj_post_out D mk j out_l allow act now s =
     (case out_l of
        None \<Rightarrow> Inr ((0, 0, []), s)
      | Some l \<Rightarrow>
         (case current_balance mk (act_company act, ln_godown l, ln_item l) s of (prev, s1) \<Rightarrow>
          rbind (value_issue D prev (ln_qty l) allow) (\<lambda>r.
          rbind (sj_move D mk (sj_movement j l MvOut (is_rate r) (is_value r) (is_balance r) False act) now s1) (\<lambda>s2.
          Inr ((is_rate r, is_value r, [with_valuation (is_rate r) (is_value r) l]), s2)))))"

definition sj_post_in ::
  "dec_lib \<Rightarrow> (nat \<Rightarrow> string) \<Rightarrow> stock_journal \<Rightarrow> sj_line option \<Rightarrow> decimal \<Rightarrow> decimal \<Rightarrow> actor \<Rightarrow> int \<Rightarrow>
   'a inventory_db_scheme \<Rightarrow> domain_error + (sj_line list \<times> 'a inventory_db_scheme)" where
  "sj_post_in D mk j in_l rate val act now s =
     (case in_l of
        None \<Rightarrow> Inr ([], s)
      | Some l \<Rightarrow>
         (case current_balance mk (act_company act, ln_godown l, ln_item l) s of (prev, s1) \<Rightarrow>
          rbind (apply_transfer_in D prev (ln_qty l) val) (\<lambda>after.
          rbind (sj_move D mk (sj_movement j l MvIn rate val after False act) now s1) (\<lambda>s2.
          Inr ([with_valuation rate val l], s2)))))"

definition sj_side_of :: "sj_side \<Rightarrow> stock_journal \<Rightarrow> sj_line option" where
  "sj_side_of side j = List.find (\<lambda>l. ln_side l = side) (sj_lines j)"

definition post_stock_journal ::
  "dec_lib \<Rightarrow> (nat \<Rightarrow> string) \<Rightarrow> 'a inventory_db_scheme ports \<Rightarrow> string \<Rightarrow> bool \<Rightarrow> string option \<Rightarrow> actor \<Rightarrow> int \<Rightarrow>
   'a inventory_db_scheme \<Rightarrow> domain_error + ((string option \<times> string option) \<times> 'a inventory_db_scheme)" where
  "post_stock_journal D mk P i allow reason act now s0 =
     rbind (require (\<not> (allow \<and> clean reason = None)) (ValidationError ''negativeStockReason'')) (\<lambda>_.
     uow_run (\<lambda>s.
       rbind (fetch (NotFoundError i) (sj_find_for_update i (act_company act) (inv_journals s))) (\<lambda>j0.
       rbind (sj_assert_postable j0) (\<lambda>_.
       let j = record_negative_authorisation (if allow then Some (act_user act) else None) (if allow then reason else None) j0;
           out_l = sj_side_of SideOut j; in_l = sj_side_of SideIn j in
       rbind (sj_post_out D mk j out_l allow act now s) (\<lambda>((rate, val, outs), s1).
       rbind (sj_post_in D mk j in_l rate val act now s1) (\<lambda>(ins, s2).
       rbind (sj_build_command j out_l in_l val (act_user act) s2) (\<lambda>cmd.
       rbind (case cmd of None \<Rightarrow> Inr (None, s2)
              | Some c \<Rightarrow> rbind (post D mk P c now s2) (\<lambda>(e, s'). Inr (Some e, s'))) (\<lambda>(entry, s3).
       rbind (sj_mark_posted (map_option je_no entry) (map_option je_id entry) rate val (outs @ ins) (act_user act) now j) (\<lambda>q.
       rbind (sj_save D q (sj_version q) s3) (\<lambda>s4.
       Inr ((map_option je_no entry, map_option je_id entry), audit_record ''POST'' ''StockJournal'' i act s4)))))))))) s0)"

text \<open>The mirror of one posted line.\<close>

definition sj_mirror ::
  "dec_lib \<Rightarrow> (nat \<Rightarrow> string) \<Rightarrow> stock_journal \<Rightarrow> actor \<Rightarrow> int \<Rightarrow> sj_line \<Rightarrow> 'a inventory_db_scheme \<Rightarrow>
   domain_error + 'a inventory_db_scheme" where
  "sj_mirror D mk j act now l s =
     (case (ln_rate l, ln_value l) of
        (Some rate, Some val) \<Rightarrow>
         (case current_balance mk (act_company act, ln_godown l, ln_item l) s of (prev, s1) \<Rightarrow>
          (case ln_side l of
             SideOut \<Rightarrow>
               rbind (apply_transfer_in D prev (ln_qty l) val) (\<lambda>restored.
               sj_move D mk (sj_movement j l MvIn rate val restored True act) now s1)
           | SideIn \<Rightarrow>
               rbind (value_issue D prev (ln_qty l) True) (\<lambda>r.
               sj_move D mk (sj_movement j l MvOut rate val (is_balance r) True act) now s1)))
      | _ \<Rightarrow> Inr s)"

fun sj_mirrors ::
  "dec_lib \<Rightarrow> (nat \<Rightarrow> string) \<Rightarrow> stock_journal \<Rightarrow> actor \<Rightarrow> int \<Rightarrow> sj_line list \<Rightarrow> 'a inventory_db_scheme \<Rightarrow>
   domain_error + 'a inventory_db_scheme" where
  "sj_mirrors D mk j act now [] s = Inr s"
| "sj_mirrors D mk j act now (l # ls) s = rbind (sj_mirror D mk j act now l s) (sj_mirrors D mk j act now ls)"

definition reverse_stock_journal ::
  "dec_lib \<Rightarrow> (nat \<Rightarrow> string) \<Rightarrow> 'a inventory_db_scheme ports \<Rightarrow> string \<Rightarrow> string \<Rightarrow> actor \<Rightarrow> int \<Rightarrow>
   'a inventory_db_scheme \<Rightarrow> domain_error + (unit \<times> 'a inventory_db_scheme)" where
  "reverse_stock_journal D mk P i reason act now = uow_run (\<lambda>s.
     rbind (fetch (NotFoundError i) (sj_find_for_update i (act_company act) (inv_journals s))) (\<lambda>j.
     rbind (sj_assert_posted j) (\<lambda>_.
     rbind (sj_mirrors D mk j act now (sj_lines j) s) (\<lambda>s1.
     rbind (if truthy (sj_journal_entry j)
            then rbind (reverse D mk P (the (sj_journal_entry j)) (act_company act) reason (act_user act) now s1) (\<lambda>(_, s'). Inr s')
            else Inr s1) (\<lambda>s2.
     rbind (sj_mark_cancelled j) (\<lambda>q.
     rbind (sj_save D q (sj_version q) s2) (\<lambda>s3.
     Inr ((), audit_record ''CANCEL'' ''StockJournal'' i act s3))))))))"

end
