(* ===== verification/Stock_Soundness.thy ===== *)
theory Stock_Soundness
  imports Stock_Books Stock_Journal
begin

text \<open>
  The stock journal over the stock ledger and the posting kernel: the shape of a stored journal, what each
  use case does to the tables, the committed steps of the module and the invariants they keep.
\<close>

section \<open>Frames\<close>

lemma inventory_more:
  fixes s s' :: "'a inventory_db_scheme"
  assumes "db.more s' = db.more s"
  shows "st_movements s' = st_movements s" "st_balances s' = st_balances s" "stock_db.more s' = stock_db.more s"
    "inv_items s' = inv_items s" "inv_accounts s' = inv_accounts s" "inv_purposes s' = inv_purposes s"
    "inv_godowns s' = inv_godowns s" "inv_journals s' = inv_journals s"
  using assms by (cases s; cases s'; simp)+

lemma stock_more:
  fixes s s' :: "'a inventory_db_scheme"
  assumes "stock_db.more s' = stock_db.more s"
  shows "inv_items s' = inv_items s" "inv_accounts s' = inv_accounts s" "inv_purposes s' = inv_purposes s"
    "inv_godowns s' = inv_godowns s" "inv_journals s' = inv_journals s"
  using assms by (cases s; cases s'; simp)+

lemma bal_of_cong: "st_balances s' = st_balances s \<Longrightarrow> bal_of s' = bal_of s"
  by (rule ext) (simp add: bal_of_def)

text \<open>A change of the journals, the audit log or the generator leaves the stock alone.\<close>

definition stock_same :: "'a stock_db_scheme \<Rightarrow> 'a stock_db_scheme \<Rightarrow> bool" where
  "stock_same s s' \<longleftrightarrow> st_movements s' = st_movements s \<and> bal_of s' = bal_of s"

lemma stock_same_invs:
  assumes "stock_same s s'"
  shows "stock_inv s' \<longleftrightarrow> stock_inv s" "stock_nonneg s' \<longleftrightarrow> stock_nonneg s" "keeps_qty fine t s' \<longleftrightarrow> keeps_qty fine t s"
    "keeps_value fine t s' \<longleftrightarrow> keeps_value fine t s"
  using assms
  by (simp_all add: stock_same_def stock_inv_def stock_nonneg_def keeps_qty_def keeps_value_def qty_inv_def qty_close_def value_inv_def
      value_close_def)

lemma stock_same_refl [simp]: "stock_same s s"
  by (simp add: stock_same_def)

lemma stock_same_trans: "stock_same s t \<Longrightarrow> stock_same t u \<Longrightarrow> stock_same s u"
  by (simp add: stock_same_def)

section \<open>The shape of a journal\<close>

definition line_for :: "sj_side \<Rightarrow> string \<Rightarrow> stock_journal \<Rightarrow> sj_line \<Rightarrow> bool" where
  "line_for side g j l \<longleftrightarrow> ln_side l = side \<and> ln_godown l = g \<and> ln_item l = sj_item j \<and> ln_qty l = sj_qty j \<and>
     ln_project l = sj_project j \<and> ln_cost_centre l = sj_cost_centre j \<and> ln_purpose l = sj_purpose j"

definition side_lines_ok :: "sj_side \<Rightarrow> string option \<Rightarrow> stock_journal \<Rightarrow> sj_line list \<Rightarrow> bool" where
  "side_lines_ok side g j ls \<longleftrightarrow> (case g of None \<Rightarrow> ls = [] | Some x \<Rightarrow> x \<noteq> [] \<and> (\<exists>l. ls = [l] \<and> line_for side x j l))"

definition line_valued :: "sj_line \<Rightarrow> bool" where
  "line_valued l \<longleftrightarrow> (\<exists>r v. ln_rate l = Some r \<and> ln_value l = Some v \<and> on_grid 4 v \<and> 0 \<le> v)"

definition line_unvalued :: "sj_line \<Rightarrow> bool" where
  "line_unvalued l \<longleftrightarrow> ln_rate l = None \<and> ln_value l = None"

definition sj_ok :: "stock_journal \<Rightarrow> bool" where
  "sj_ok j \<longleftrightarrow> on_grid 3 (sj_qty j) \<and> 0 < sj_qty j \<and> sides_check (sj_mode j) (sj_from j) (sj_to j) = Inr () \<and>
     (\<exists>outs ins. sj_lines j = outs @ ins \<and> side_lines_ok SideOut (sj_from j) j outs \<and> side_lines_ok SideIn (sj_to j) j ins) \<and>
     (if sj_status j \<in> {SjDraft, SjApproved} then list_all line_unvalued (sj_lines j) else list_all line_valued (sj_lines j))"

lemma line_forD:
  "line_for side g j l \<Longrightarrow> ln_side l = side \<and> ln_godown l = g \<and> ln_item l = sj_item j \<and> ln_qty l = sj_qty j"
  by (simp add: line_for_def)

text \<open>The line of a side is the one its godown asks for.\<close>

lemma sj_side_of_shape:
  assumes "sj_lines j = outs @ ins" and "side_lines_ok SideOut (sj_from j) j outs" and "side_lines_ok SideIn (sj_to j) j ins"
  shows "sj_side_of SideOut j = (case sj_from j of None \<Rightarrow> None | Some _ \<Rightarrow> Some (hd outs))"
    and "sj_side_of SideIn j = (case sj_to j of None \<Rightarrow> None | Some _ \<Rightarrow> Some (hd ins))"
  using assms by (auto simp: sj_side_of_def side_lines_ok_def line_for_def split: option.splits)

lemma sides_ok_modes:
  assumes "sides_check m f t = Inr ()" and "f \<noteq> Some []" and "t \<noteq> Some []"
  shows "(m = TRANSFER \<and> (\<exists>a b. f = Some a \<and> t = Some b \<and> a \<noteq> b)) \<or> (m = ISSUE \<and> f \<noteq> None \<and> t = None) \<or>
    (m = ADJUSTMENT \<and> (f \<noteq> None \<or> t \<noteq> None))"
  using assms by (cases m; cases f; cases t) (auto simp: sides_check_def rbind_eq_Inr)

lemma clean_trimmed: "clean v = Some x \<Longrightarrow> trim x = x \<and> x \<noteq> []"
  by (auto simp: clean_Some_iff trim_trim)

lemma side_line_Inr:
  assumes "side_line side (clean g) item qty project cc purpose n = Inr ls"
    and "trim item = item" "trim project = project" "trim cc = cc" "trim purpose = purpose"
  shows "(case clean g of None \<Rightarrow> ls = [] | Some x \<Rightarrow> x \<noteq> [] \<and> (\<exists>l. ls = [l] \<and> ln_side l = side \<and> ln_godown l = x \<and> ln_item l = item \<and>
    ln_qty l = qty \<and> ln_project l = project \<and> ln_cost_centre l = cc \<and> ln_purpose l = purpose \<and> line_unvalued l))"
  using assms by (auto simp: side_line_def new_sj_line_def line_unvalued_def truthy_clean dest: clean_trimmed elim!: rbindE split: option.splits if_splits)

lemma require_mode: "mode_of_name n = Some m \<Longrightarrow> mode_name m = n"
  by (auto simp: mode_of_name_def split: if_splits)

lemma sj_create_draft_Inr:
  assumes "sj_create_draft i co fy inp = Inr j"
  shows "sj_id j = i" "sj_company j = co" "sj_fy j = fy" "sj_status j = SjDraft" "sj_version j = 1"
    "0 < sj_qty j" "sides_check (sj_mode j) (sj_from j) (sj_to j) = Inr ()"
    "\<exists>outs ins. sj_lines j = outs @ ins \<and> side_lines_ok SideOut (sj_from j) j outs \<and> side_lines_ok SideIn (sj_to j) j ins"
    "list_all line_unvalued (sj_lines j)"
proof -
  from assms obtain mode qty outs ins where j: "sides_check mode (clean (ns_from inp)) (clean (ns_to inp)) = Inr ()" "0 < qty"
      "side_line SideOut (clean (ns_from inp)) (trim (ns_item inp)) qty (trim (ns_project inp)) (trim (ns_cost_centre inp))
        (trim (ns_purpose inp)) 1 = Inr outs"
      "side_line SideIn (clean (ns_to inp)) (trim (ns_item inp)) qty (trim (ns_project inp)) (trim (ns_cost_centre inp))
        (trim (ns_purpose inp)) (1 + length outs) = Inr ins"
      "sj_mode j = mode" "sj_from j = clean (ns_from inp)" "sj_to j = clean (ns_to inp)" "sj_item j = trim (ns_item inp)"
      "sj_qty j = qty" "sj_project j = trim (ns_project inp)" "sj_cost_centre j = trim (ns_cost_centre inp)"
      "sj_purpose j = trim (ns_purpose inp)" "sj_lines j = outs @ ins"
    and b: "sj_id j = i" "sj_company j = co" "sj_fy j = fy" "sj_status j = SjDraft" "sj_version j = 1"
    unfolding sj_create_draft_def Let_def by (auto elim!: rbindE)
  show "sj_id j = i" "sj_company j = co" "sj_fy j = fy" "sj_status j = SjDraft" "sj_version j = 1" by (fact b)+
  show "0 < sj_qty j" "sides_check (sj_mode j) (sj_from j) (sj_to j) = Inr ()" using j by simp_all
  note o = side_line_Inr [OF j(3) trim_trim trim_trim trim_trim trim_trim]
  note n = side_line_Inr [OF j(4) trim_trim trim_trim trim_trim trim_trim]
  have "side_lines_ok SideOut (sj_from j) j outs" "side_lines_ok SideIn (sj_to j) j ins"
    using o n j by (auto simp: side_lines_ok_def line_for_def split: option.splits)
  with j(13) show "\<exists>outs ins. sj_lines j = outs @ ins \<and> side_lines_ok SideOut (sj_from j) j outs \<and> side_lines_ok SideIn (sj_to j) j ins"
    by blast
  show "list_all line_unvalued (sj_lines j)"
    using o n j(13) by (auto split: option.splits)
qed

lemma stored_sj_simps [simp]:
  "sj_id (stored_sj D j) = sj_id j" "sj_company (stored_sj D j) = sj_company j" "sj_status (stored_sj D j) = sj_status j"
  "sj_mode (stored_sj D j) = sj_mode j" "sj_from (stored_sj D j) = sj_from j" "sj_to (stored_sj D j) = sj_to j"
  "sj_item (stored_sj D j) = sj_item j" "sj_project (stored_sj D j) = sj_project j" "sj_version (stored_sj D j) = sj_version j"
  "sj_cost_centre (stored_sj D j) = sj_cost_centre j" "sj_purpose (stored_sj D j) = sj_purpose j"
  "sj_journal_entry (stored_sj D j) = sj_journal_entry j" "sj_fy (stored_sj D j) = sj_fy j"
  "sj_qty (stored_sj D j) = to_dp D 3 (sj_qty j)" "sj_lines (stored_sj D j) = map (stored_sj_line D) (sj_lines j)"
  by (simp_all add: stored_sj_def)

lemma stored_sj_updates [simp]:
  "stored_sj D (j\<lparr>sj_status := st\<rparr>) = (stored_sj D j)\<lparr>sj_status := st\<rparr>"
  "stored_sj D (j\<lparr>sj_version := n\<rparr>) = (stored_sj D j)\<lparr>sj_version := n\<rparr>"
  "stored_sj D (j\<lparr>sj_approved_by := w\<rparr>) = (stored_sj D j)\<lparr>sj_approved_by := w\<rparr>"
  "stored_sj D (j\<lparr>sj_approved_at := t\<rparr>) = (stored_sj D j)\<lparr>sj_approved_at := t\<rparr>"
  by (simp_all add: stored_sj_def)

lemma line_for_stored: "line_for side g j l \<Longrightarrow> line_for side g (stored_sj D j) (stored_sj_line D l)"
  by (simp add: line_for_def stored_sj_line_def)

lemma side_lines_stored: "side_lines_ok side g j ls \<Longrightarrow> side_lines_ok side g (stored_sj D j) (map (stored_sj_line D) ls)"
  by (auto simp: side_lines_ok_def line_for_stored split: option.splits)

lemma line_for_cong:
  "sj_item k = sj_item j \<Longrightarrow> sj_qty k = sj_qty j \<Longrightarrow> sj_project k = sj_project j \<Longrightarrow> sj_cost_centre k = sj_cost_centre j \<Longrightarrow>
   sj_purpose k = sj_purpose j \<Longrightarrow> line_for side g k l = line_for side g j l"
  by (simp add: line_for_def)

lemma side_lines_cong:
  "sj_item k = sj_item j \<Longrightarrow> sj_qty k = sj_qty j \<Longrightarrow> sj_project k = sj_project j \<Longrightarrow> sj_cost_centre k = sj_cost_centre j \<Longrightarrow>
   sj_purpose k = sj_purpose j \<Longrightarrow> side_lines_ok side g k ls = side_lines_ok side g j ls"
  by (auto simp: side_lines_ok_def line_for_def split: option.splits)

text \<open>What the columns store of a journal that was sound is sound; a draft only needs its side rules.\<close>

definition sj_sound :: "stock_journal \<Rightarrow> bool" where
  "sj_sound j \<longleftrightarrow> sides_check (sj_mode j) (sj_from j) (sj_to j) = Inr () \<and>
     (\<exists>outs ins. sj_lines j = outs @ ins \<and> side_lines_ok SideOut (sj_from j) j outs \<and> side_lines_ok SideIn (sj_to j) j ins) \<and>
     (if sj_status j \<in> {SjDraft, SjApproved} then list_all line_unvalued (sj_lines j) else list_all line_valued (sj_lines j))"

lemma sj_ok_sound: "sj_ok j \<Longrightarrow> sj_sound j"
  by (auto simp: sj_ok_def sj_sound_def)

context decimal_js begin

lemma stored_sj_ok:
  assumes "sj_sound j" and "sj_header_checks (stored_sj D j) = Inr ()"
  shows "sj_ok (stored_sj D j)"
proof -
  from assms(1) obtain outs ins where l: "sj_lines j = outs @ ins" "side_lines_ok SideOut (sj_from j) j outs"
      "side_lines_ok SideIn (sj_to j) j ins" and s: "sides_check (sj_mode j) (sj_from j) (sj_to j) = Inr ()"
    and v: "if sj_status j \<in> {SjDraft, SjApproved} then list_all line_unvalued (sj_lines j) else list_all line_valued (sj_lines j)"
    unfolding sj_sound_def by blast
  have "0 < to_dp D 3 (sj_qty j)" using assms(2) by (auto simp: sj_header_checks_def elim!: rbindE)
  moreover have "list_all line_unvalued (map (stored_sj_line D) (sj_lines j))" if "list_all line_unvalued (sj_lines j)"
    using that by (auto simp: list_all_iff line_unvalued_def stored_sj_line_def)
  moreover have "list_all line_valued (map (stored_sj_line D) (sj_lines j))" if "list_all line_valued (sj_lines j)"
    using that by (auto simp: list_all_iff line_valued_def stored_sj_line_def to_dp_nonneg to_dp_id)
  moreover have "sj_lines (stored_sj D j) = map (stored_sj_line D) outs @ map (stored_sj_line D) ins" using l(1) by simp
  ultimately show ?thesis
    unfolding sj_ok_def using s v side_lines_stored [OF l(2)] side_lines_stored [OF l(3)]
    by (auto split: if_splits)
qed

end

section \<open>The journal table\<close>

definition put_row :: "sj_row \<Rightarrow> sj_row \<Rightarrow> sj_row list \<Rightarrow> sj_row list" where
  "put_row r r' tbl = map (\<lambda>x. if x = r then r' else x) tbl"

definition sj_row_ok :: "dec_lib \<Rightarrow> sj_row \<Rightarrow> bool" where
  "sj_row_ok D r \<longleftrightarrow> sj_ok (jr_journal r) \<and> stored_sj D (jr_journal r) = jr_journal r"

definition row_id :: "sj_row \<Rightarrow> string" where
  "row_id r = sj_id (jr_journal r)"

definition journals_ok :: "dec_lib \<Rightarrow> 'a inventory_db_scheme \<Rightarrow> bool" where
  "journals_ok D s \<longleftrightarrow> distinct (map row_id (inv_journals s)) \<and> (\<forall>r \<in> set (inv_journals s). sj_row_ok D r)"

lemma journals_ok_put:
  assumes "journals_ok D s" and "inv_journals s' = put_row r r' (inv_journals s)" and "row_id r' = row_id r" and "sj_row_ok D r'"
  shows "journals_ok D s'"
proof -
  have "map row_id (inv_journals s') = map row_id (inv_journals s)"
    using assms(3) by (simp add: assms(2) put_row_def)
  moreover have "\<forall>x \<in> set (inv_journals s'). sj_row_ok D x"
    using assms by (auto simp: journals_ok_def put_row_def)
  ultimately show ?thesis using assms(1) by (simp add: journals_ok_def)
qed

lemma sj_find_SomeD:
  "sj_find_for_update i co tbl = Some j \<Longrightarrow> \<exists>r \<in> set tbl. jr_journal r = j \<and> \<not> jr_deleted r \<and> sj_id j = i \<and> sj_company j = co"
  by (auto simp: sj_find_for_update_def dest!: find_SomeD)

lemma row_of_id: "distinct (map row_id tbl) \<Longrightarrow> x \<in> set tbl \<Longrightarrow> r \<in> set tbl \<Longrightarrow> sj_id (jr_journal x) = sj_id (jr_journal r) \<Longrightarrow> x = r"
  using distinct_map_inj [of row_id tbl x r] by (simp add: row_id_def)

lemma update_where_row:
  assumes "distinct (map row_id tbl)" and "r \<in> set tbl" and "P r" and "\<And>x. P x \<Longrightarrow> sj_id (jr_journal x) = sj_id (jr_journal r)"
  shows "update_where P f tbl = put_row r (f r) tbl"
  unfolding update_where_def put_row_def
proof (rule map_cong [OF refl])
  fix x assume "x \<in> set tbl"
  then have "P x \<longleftrightarrow> x = r" using row_of_id [OF assms(1) _ assms(2)] assms(3,4) by blast
  then show "(if P x then f x else x) = (if x = r then f r else x)" by simp
qed

lemma sj_save_effect:
  assumes "sj_save D q v s = Inr s'" and "distinct (map row_id (inv_journals s))" and "r \<in> set (inv_journals s)"
    and "sj_id q = sj_id (jr_journal r)" "sj_company q = sj_company (jr_journal r)" "sj_fy q = sj_fy (jr_journal r)"
    and "v = sj_version (jr_journal r)" and "\<not> jr_deleted r"
  shows "s' = s\<lparr>inv_journals := put_row r \<lparr>jr_journal = (stored_sj D q)\<lparr>sj_version := Suc v\<rparr>, jr_deleted = False\<rparr> (inv_journals s),
      db_ids := db_ids s + length (sj_lines q)\<rparr>"
    and "sj_header_checks (stored_sj D q) = Inr ()"
proof -
  let ?hit = "\<lambda>r. sj_id (jr_journal r) = sj_id q \<and> sj_company (jr_journal r) = sj_company q \<and> sj_version (jr_journal r) = v"
  let ?new = "\<lambda>r. r\<lparr>jr_journal := (stored_sj D q)\<lparr>sj_fy := sj_fy (jr_journal r), sj_version := v + 1\<rparr>\<rparr>"
  from assms(1) have s': "s' = s\<lparr>inv_journals := update_where ?hit ?new (inv_journals s), db_ids := db_ids s + length (sj_lines q)\<rparr>"
    and c: "sj_header_checks (stored_sj D q) = Inr ()"
    by (auto simp: sj_save_def Let_def elim!: rbindE split: if_splits)
  have "update_where ?hit ?new (inv_journals s) = put_row r (?new r) (inv_journals s)"
    using assms(4,5,7) by (intro update_where_row [OF assms(2,3)]) auto
  moreover have "?new r = \<lparr>jr_journal = (stored_sj D q)\<lparr>sj_version := Suc v\<rparr>, jr_deleted = False\<rparr>"
    using assms(6,8) by (cases r) (simp add: stored_sj_def)
  ultimately show "s' = s\<lparr>inv_journals := put_row r \<lparr>jr_journal = (stored_sj D q)\<lparr>sj_version := Suc v\<rparr>, jr_deleted = False\<rparr> (inv_journals s),
      db_ids := db_ids s + length (sj_lines q)\<rparr>" using s' by simp
  show "sj_header_checks (stored_sj D q) = Inr ()" by (rule c)
qed

lemma sj_ok_version: "sj_ok (j\<lparr>sj_version := n\<rparr>) \<longleftrightarrow> sj_ok j"
  using side_lines_cong [of "j\<lparr>sj_version := n\<rparr>" j] by (simp add: sj_ok_def)

context decimal_js begin

lemma stored_sj_idem: "stored_sj D (stored_sj D j) = stored_sj D j"
  by (cases "sj_rate j"; cases "sj_value j")
    (auto simp: stored_sj_def stored_sj_line_def to_dp_id option.map_comp comp_def intro!: map_cong option.map_cong)

lemma saved_row_ok:
  assumes "sj_sound q" and "sj_header_checks (stored_sj D q) = Inr ()"
  shows "sj_row_ok D \<lparr>jr_journal = (stored_sj D q)\<lparr>sj_version := n\<rparr>, jr_deleted = b\<rparr>"
proof -
  have "stored_sj D ((stored_sj D q)\<lparr>sj_version := n\<rparr>) = (stored_sj D (stored_sj D q))\<lparr>sj_version := n\<rparr>"
    by (simp add: stored_sj_def)
  with stored_sj_ok [OF assms] show ?thesis by (simp add: sj_row_ok_def sj_ok_version stored_sj_idem)
qed

end

section \<open>The life cycle of a journal\<close>

definition sj_terms :: "stock_journal \<Rightarrow> (string \<times> stock_journal_mode \<times> string option \<times> string option \<times> string \<times> decimal) \<times>
    (string \<times> string \<times> string \<times> string option \<times> string option \<times> string option \<times> string option \<times> int option)" where
  "sj_terms j = ((sj_date j, sj_mode j, sj_from j, sj_to j, sj_item j, sj_qty j),
     (sj_project j, sj_cost_centre j, sj_purpose j, sj_issued_by j, sj_received_by j, sj_narration j, sj_approved_by j, sj_approved_at j))"

text \<open>
  What one use case may do to a stored journal: a draft is edited, approved or deleted; an approved journal
  is posted on its approved terms; a posted one is cancelled and otherwise untouched; nothing follows that.
\<close>

definition row_follows :: "sj_row \<Rightarrow> sj_row \<Rightarrow> bool" where
  "row_follows r r' \<longleftrightarrow> (let j = jr_journal r; k = jr_journal r' in
     sj_id k = sj_id j \<and> sj_company k = sj_company j \<and> sj_fy k = sj_fy j \<and> \<not> jr_deleted r \<and>
     (case sj_status j of
        SjDraft \<Rightarrow> (k = j \<and> jr_deleted r') \<or>
          (\<not> jr_deleted r' \<and> sj_version k = Suc (sj_version j) \<and>
            (sj_status k = SjDraft \<or>
             (\<exists>who time. k = j\<lparr>sj_status := SjApproved, sj_approved_by := Some who, sj_approved_at := Some time,
                 sj_version := Suc (sj_version j)\<rparr>)))
      | SjApproved \<Rightarrow> \<not> jr_deleted r' \<and> sj_status k = SjPosted \<and> sj_terms k = sj_terms j
      | SjPosted \<Rightarrow> \<not> jr_deleted r' \<and> k = j\<lparr>sj_status := SjCancelled, sj_version := Suc (sj_version j)\<rparr>
      | SjCancelled \<Rightarrow> False))"

text \<open>One use case changes at most one journal, in place, or adds one draft.\<close>

definition journal_step :: "dec_lib \<Rightarrow> sj_row list \<Rightarrow> sj_row list \<Rightarrow> bool" where
  "journal_step D tbl tbl' \<longleftrightarrow> tbl' = tbl \<or>
     (\<exists>r \<in> set tbl. \<exists>r'. tbl' = put_row r r' tbl \<and> row_follows r r' \<and> sj_row_ok D r') \<or>
     (\<exists>r. tbl' = tbl @ [r] \<and> row_id r \<notin> row_id ` set tbl \<and> sj_status (jr_journal r) = SjDraft \<and> \<not> jr_deleted r \<and> sj_row_ok D r)"

lemma journal_step_ok:
  assumes "journals_ok D s" and "journal_step D (inv_journals s) (inv_journals s')" shows "journals_ok D s'"
  using assms(2) unfolding journal_step_def
proof (elim disjE bexE exE conjE)
  fix r r' assume "inv_journals s' = put_row r r' (inv_journals s)" "row_follows r r'" "sj_row_ok D r'"
  then show ?thesis by (intro journals_ok_put [OF assms(1)]) (auto simp: row_follows_def row_id_def Let_def)
qed (use assms(1) in \<open>auto simp: journals_ok_def\<close>)

lemma sj_version_updates [simp]:
  "sj_status (j\<lparr>sj_version := n\<rparr>) = sj_status j" "sj_terms (j\<lparr>sj_version := n\<rparr>) = sj_terms j"
  by (simp_all add: sj_terms_def)

definition inventory_inv :: "dec_lib \<Rightarrow> (nat \<Rightarrow> string) \<Rightarrow> 'a inventory_db_scheme \<Rightarrow> bool" where
  "inventory_inv D mk s \<longleftrightarrow> erp_inv mk s \<and> stock_inv s \<and> journals_ok D s"

text \<open>A use case that moves no stock and posts nothing.\<close>

definition desk_step :: "dec_lib \<Rightarrow> 'a inventory_db_scheme \<Rightarrow> 'a inventory_db_scheme \<Rightarrow> bool" where
  "desk_step D s s' \<longleftrightarrow> quiet s s' \<and> stock_same s s' \<and> journal_step D (inv_journals s) (inv_journals s')"

lemma stock_same_fields:
  fixes s s' :: "'a stock_db_scheme"
  assumes "st_movements s' = st_movements s" and "st_balances s' = st_balances s" shows "stock_same s s'"
  using bal_of_cong [OF assms(2)] assms(1) by (simp add: stock_same_def)

lemma audit_inventory [simp]:
  "inv_journals (audit_record a b c act s) = inv_journals s" "st_movements (audit_record a b c act s) = st_movements s"
  "st_balances (audit_record a b c act s) = st_balances s" "inv_items (audit_record a b c act s) = inv_items s"
  "inv_accounts (audit_record a b c act s) = inv_accounts s"
  by (simp_all add: audit_record_def)

lemma create_stock_journal_step:
  assumes "create_stock_journal D mk inp act s = Inr (i, s')" and "decimal_js D"
  shows "desk_step D s s'" and "i = mk (db_ids s)"
proof -
  obtain i0 s1 where i: "ids_next mk s = (i0, s1)" by fastforce
  then have s1: "s1 = s\<lparr>db_ids := Suc (db_ids s)\<rparr>" "i0 = mk (db_ids s)" by (auto simp: ids_next_def)
  from assms(1) i obtain j s2 where j: "sj_create_draft i (act_company act) (act_fy act) inp = Inr j"
    and n: "sj_insert D j s1 = Inr s2" and s': "s' = audit_record ''CREATE'' ''StockJournal'' i act s2" and ii: "i = i0"
    by (auto simp: create_stock_journal_def uow_run_Inr_iff elim!: rbindE)
  note d = sj_create_draft_Inr [OF j]
  let ?q = "(stored_sj D j)\<lparr>sj_version := 1\<rparr>" and ?r = "\<lparr>jr_journal = (stored_sj D j)\<lparr>sj_version := 1\<rparr>, jr_deleted = False\<rparr>"
  from n have s2: "s2 = s1\<lparr>inv_journals := inv_journals s1 @ [?r], db_ids := db_ids s1 + length (sj_lines ?q)\<rparr>"
    and c: "sj_header_checks ?q = Inr ()" and f: "\<not> list_ex (\<lambda>r. sj_id (jr_journal r) = sj_id ?q) (inv_journals s1)"
    by (auto simp: sj_insert_def Let_def elim!: rbindE)
  have "sj_sound j" unfolding sj_sound_def using d by simp
  moreover have "sj_header_checks (stored_sj D j) = Inr ()" using c by (simp add: sj_header_checks_def stored_sj_def)
  ultimately have "sj_row_ok D ?r" by (rule decimal_js.saved_row_ok [OF assms(2)])
  moreover have "row_id ?r \<notin> row_id ` set (inv_journals s)" using f by (auto simp: s1 row_id_def list_ex_iff)
  ultimately have "journal_step D (inv_journals s) (inv_journals s')"
    using d(4) by (auto simp: journal_step_def s' s2 s1)
  then show "desk_step D s s'"
    by (auto simp: desk_step_def quiet_def s' s2 s1 intro!: stock_same_fields)
  show "i = mk (db_ids s)" using ii s1 by simp
qed

lemma update_stock_journal_step:
  assumes "update_stock_journal D i e v act s = Inr (u, s')" and "decimal_js D" and "journals_ok D s"
  shows "desk_step D s s'"
proof -
  from assms(1) obtain j q s1 where f: "sj_find_for_update i (act_company act) (inv_journals s) = Some j"
    and q: "sj_edit_draft e j = Inr q" and sv: "sj_save D q (sj_version q) s = Inr s1"
    and s': "s' = audit_record ''UPDATE'' ''StockJournal'' i act s1"
    by (auto simp: update_stock_journal_def uow_run_Inr_iff elim!: rbindE)
  from sj_find_SomeD [OF f] obtain r where r: "r \<in> set (inv_journals s)" "jr_journal r = j" "\<not> jr_deleted r" by blast
  from q obtain k where st: "sj_status j = SjDraft" and k: "sj_create_draft (sj_id j) (sj_company j) (sj_fy j) (sj_merge j e) = Inr k"
    and qk: "q = k\<lparr>sj_version := sj_version j\<rparr>"
    by (auto simp: sj_edit_draft_def elim!: rbindE)
  note d = sj_create_draft_Inr [OF k]
  have "sj_sound q" unfolding sj_sound_def qk using d side_lines_cong [of "k\<lparr>sj_version := sj_version j\<rparr>" k] by simp
  moreover note e = sj_save_effect [OF sv _ r(1)]
  have e1: "s1 = s\<lparr>inv_journals := put_row r \<lparr>jr_journal = (stored_sj D q)\<lparr>sj_version := Suc (sj_version q)\<rparr>, jr_deleted = False\<rparr> (inv_journals s),
      db_ids := db_ids s + length (sj_lines q)\<rparr>" "sj_header_checks (stored_sj D q) = Inr ()"
    by (rule e; use assms(3) r d qk in \<open>simp add: journals_ok_def\<close>)+
  ultimately have "sj_row_ok D \<lparr>jr_journal = (stored_sj D q)\<lparr>sj_version := Suc (sj_version q)\<rparr>, jr_deleted = False\<rparr>"
    using decimal_js.saved_row_ok [OF assms(2)] by blast
  moreover have "row_follows r \<lparr>jr_journal = (stored_sj D q)\<lparr>sj_version := Suc (sj_version q)\<rparr>, jr_deleted = False\<rparr>"
    using r st d qk by (simp add: row_follows_def)
  ultimately have "journal_step D (inv_journals s) (inv_journals s')"
    using r(1) by (auto simp: journal_step_def s' e1(1))
  then show ?thesis by (auto simp: desk_step_def quiet_def s' e1(1) intro!: stock_same_fields)
qed

lemma approve_stock_journal_step:
  assumes "approve_stock_journal D i act now s = Inr (u, s')" and "decimal_js D" and "journals_ok D s"
  shows "desk_step D s s'"
proof -
  from assms(1) obtain j q s1 where f: "sj_find_for_update i (act_company act) (inv_journals s) = Some j"
    and q: "sj_approve (act_user act) now j = Inr q" and sv: "sj_save D q (sj_version q) s = Inr s1"
    and s': "s' = audit_record ''APPROVE'' ''StockJournal'' i act s1"
    by (auto simp: approve_stock_journal_def uow_run_Inr_iff elim!: rbindE)
  from sj_find_SomeD [OF f] obtain r where r: "r \<in> set (inv_journals s)" "jr_journal r = j" "\<not> jr_deleted r" by blast
  from q have st: "sj_status j = SjDraft" and qj: "q = j\<lparr>sj_status := SjApproved, sj_approved_by := Some (act_user act), sj_approved_at := Some now\<rparr>"
    by (auto simp: sj_approve_def elim!: rbindE)
  from assms(3) r have ok: "sj_ok j" "stored_sj D j = j" by (auto simp: journals_ok_def sj_row_ok_def)
  have "sj_sound q" using sj_ok_sound [OF ok(1)] st side_lines_cong [of q j] unfolding sj_sound_def qj by simp
  moreover note e = sj_save_effect [OF sv _ r(1)]
  have e1: "s1 = s\<lparr>inv_journals := put_row r \<lparr>jr_journal = (stored_sj D q)\<lparr>sj_version := Suc (sj_version q)\<rparr>, jr_deleted = False\<rparr> (inv_journals s),
      db_ids := db_ids s + length (sj_lines q)\<rparr>" "sj_header_checks (stored_sj D q) = Inr ()"
    by (rule e; use assms(3) r qj in \<open>simp add: journals_ok_def\<close>)+
  ultimately have "sj_row_ok D \<lparr>jr_journal = (stored_sj D q)\<lparr>sj_version := Suc (sj_version q)\<rparr>, jr_deleted = False\<rparr>"
    using decimal_js.saved_row_ok [OF assms(2)] by blast
  moreover have "stored_sj D q = q" using ok(2) by (simp add: qj)
  then have "row_follows r \<lparr>jr_journal = (stored_sj D q)\<lparr>sj_version := Suc (sj_version q)\<rparr>, jr_deleted = False\<rparr>"
    using r st by (auto simp: row_follows_def qj)
  ultimately have "journal_step D (inv_journals s) (inv_journals s')"
    using r(1) by (auto simp: journal_step_def s' e1(1))
  then show ?thesis by (auto simp: desk_step_def quiet_def s' e1(1) intro!: stock_same_fields)
qed

lemma delete_stock_journal_step:
  assumes "delete_stock_journal i act s = Inr (u, s')" and "journals_ok D s"
  shows "desk_step D s s'"
proof -
  from assms(1) obtain j where f: "sj_find_for_update i (act_company act) (inv_journals s) = Some j" and st: "sj_status j = SjDraft"
    and s': "s' = audit_record ''DELETE'' ''StockJournal'' i act (s\<lparr>inv_journals := sj_soft_delete i (act_company act) (inv_journals s)\<rparr>)"
    by (auto simp: delete_stock_journal_def uow_run_Inr_iff sj_assert_editable_def elim!: rbindE)
  from sj_find_SomeD [OF f] obtain r where r: "r \<in> set (inv_journals s)" "jr_journal r = j" "\<not> jr_deleted r"
      "sj_id j = i" "sj_company j = act_company act" by blast
  have "sj_soft_delete i (act_company act) (inv_journals s) = put_row r (r\<lparr>jr_deleted := True\<rparr>) (inv_journals s)"
    unfolding sj_soft_delete_def using assms(2) r by (intro update_where_row) (auto simp: journals_ok_def)
  moreover have "row_follows r (r\<lparr>jr_deleted := True\<rparr>)" using r st by (simp add: row_follows_def)
  moreover have "sj_row_ok D (r\<lparr>jr_deleted := True\<rparr>)" using assms(2) r(1) by (simp add: journals_ok_def sj_row_ok_def)
  ultimately have "journal_step D (inv_journals s) (inv_journals s')" using r(1) by (auto simp: journal_step_def s')
  then show ?thesis by (auto simp: desk_step_def quiet_def s' intro!: stock_same_fields)
qed

section \<open>Sequences of movements\<close>

inductive stock_moves ::
  "('a stock_db_scheme \<Rightarrow> stock_movement \<Rightarrow> 'a stock_db_scheme \<Rightarrow> bool) \<Rightarrow> 'a stock_db_scheme \<Rightarrow> stock_movement list \<Rightarrow>
   'a stock_db_scheme \<Rightarrow> bool" for R where
  moves_Nil: "stock_moves R s [] s"
| moves_Cons: "R s q t \<Longrightarrow> stock_moves R t qs u \<Longrightarrow> stock_moves R s (q # qs) u"

inductive_simps stock_moves_simps [simp]: "stock_moves R s [] u" "stock_moves R s (q # qs) u"

lemma stock_moves_append: "stock_moves R s qs t \<Longrightarrow> stock_moves R t rs u \<Longrightarrow> stock_moves R s (qs @ rs) u"
  by (induction rule: stock_moves.induct) auto

lemma sound_qty_moves: "stock_moves sound_move s qs u \<Longrightarrow> stock_moves qty_move s qs u"
  by (induction rule: stock_moves.induct) (auto simp: sound_move_def)

lemma qty_moves_effect:
  assumes "stock_moves qty_move s qs u"
  shows "st_movements u = st_movements s @ qs" "quiet s u" "stock_db.more u = stock_db.more s" "db_audit u = db_audit s"
    "stock_inv s \<Longrightarrow> stock_inv u" "keeps_qty fine s u"
  using assms
proof (induction rule: stock_moves.induct)
  case (moves_Cons s q t qs u)
  {
    case 1 then show ?case using moves_Cons by (simp add: qty_move_def moved_def)
  next
    case 2 then show ?case using moves_Cons by (auto simp: qty_move_def moved_def intro: quiet_trans)
  next
    case 3 then show ?case using moves_Cons by (simp add: qty_move_def moved_def)
  next
    case 4 then show ?case using moves_Cons by (simp add: qty_move_def moved_def)
  next
    case 5 then show ?case using moves_Cons qty_move_invs(1) by blast
  next
    case 6 then show ?case using moves_Cons qty_move_invs(3) keeps_trans(1) by blast
  }
qed auto

lemma sound_moves_value: "stock_moves sound_move s qs u \<Longrightarrow> keeps_value fine s u"
  by (induction rule: stock_moves.induct) (auto intro: keeps_trans(2) sound_move_invs(2))

section \<open>Posting and reversing move stock\<close>

definition sj_key :: "actor \<Rightarrow> sj_line \<Rightarrow> stock_key" where
  "sj_key act l = (act_company act, ln_godown l, ln_item l)"

lemma sj_movement_simps [simp]:
  "nm_key (sj_movement j l dir rate val after mirror act) = sj_key act l"
  "nm_direction (sj_movement j l dir rate val after mirror act) = dir"
  "nm_quantity (sj_movement j l dir rate val after mirror act) = ln_qty l"
  "nm_value (sj_movement j l dir rate val after mirror act) = val"
  "nm_balance_after (sj_movement j l dir rate val after mirror act) = after"
  "nm_is_reversal (sj_movement j l dir rate val after mirror act) = mirror"
  "nm_source_type (sj_movement j l dir rate val after mirror act) = SrcStockJournal"
  "nm_source_id (sj_movement j l dir rate val after mirror act) = sj_id j"
  by (simp_all add: sj_movement_def nm_key_def sj_key_def)

context decimal_js begin

lemma sj_move_effect:
  assumes "current_balance mk (nm_key inp) s = (prev, s1)" and "sj_move D mk inp now s1 = Inr s2"
    and "stock_inv s" and "on_grid 4 (nm_quantity inp)" and "bal_qty (nm_balance_after inp) = next_qty D prev inp"
  shows "\<exists>q. qty_move s q s2 \<and> movement_for D inp q"
    and "bal_value (nm_balance_after inp) = next_value D prev inp \<Longrightarrow> \<exists>q. sound_move s q s2 \<and> movement_for D inp q"
proof -
  obtain i s1' where i: "ids_next mk s1 = (i, s1')" by fastforce
  with assms(2) obtain m where m: "movement_create D inp i now = Inr m" "movement_append D mk m s1' = Inr s2"
    by (auto simp: sj_move_def elim!: rbindE)
  note n = new_move [OF assms(1) i m assms(3-5)]
  from n(2) show "\<exists>q. qty_move s q s2 \<and> movement_for D inp q" by blast
  from n(3) show "bal_value (nm_balance_after inp) = next_value D prev inp \<Longrightarrow> \<exists>q. sound_move s q s2 \<and> movement_for D inp q" by blast
qed

lemma sj_post_out_effect:
  assumes "sj_post_out D mk j (Some l) allow act now s = Inr ((rate, val, outs), s1)" and "stock_inv s" and "on_grid 4 (ln_qty l)"
  shows "\<exists>q r. sound_move s q s1 \<and> mv_key q = sj_key act l \<and> mv_direction q = MvOut \<and> mv_quantity q = ln_qty l \<and>
      mv_value q = val \<and> mv_source_id q = sj_id j \<and> \<not> mv_is_reversal q \<and>
      value_issue D (bal_of s (sj_key act l)) (ln_qty l) allow = Inr r \<and> is_value r = val"
    and "outs = [with_valuation rate val l]" and "on_grid 4 val" and "0 \<le> val"
proof -
  obtain prev s0 where c: "current_balance mk (sj_key act l) s = (prev, s0)" by fastforce
  from assms(1) c obtain r where v: "value_issue D prev (ln_qty l) allow = Inr r" "rate = is_rate r" "val = is_value r"
    and m: "sj_move D mk (sj_movement j l MvOut rate val (is_balance r) False act) now s0 = Inr s1"
    and o: "outs = [with_valuation rate val l]"
    by (auto simp: sj_post_out_def sj_key_def elim!: rbindE)
  have b: "prev = bal_of s (sj_key act l)" "balance_ok prev"
    using current_balance_effect [OF c] assms(2) by (simp_all only: stock_inv_def)
  note vi = value_issue_Inr [OF v(1)]
  from vi(4) [OF b(2)] have g: "on_grid 4 val" by (simp add: v)
  then have t: "to_dp D 4 val = val" by (rule to_dp_id)
  have "\<exists>q. sound_move s q s1 \<and> movement_for D (sj_movement j l MvOut rate val (is_balance r) False act) q"
    by (rule sj_move_effect(2) [OF _ m assms(2), of prev])
      (use c vi(3) t assms(3) v in \<open>simp_all add: next_qty_def next_value_def\<close>)
  then obtain q where q: "sound_move s q s1" "movement_for D (sj_movement j l MvOut rate val (is_balance r) False act) q" by blast
  with t v b show "\<exists>q r. sound_move s q s1 \<and> mv_key q = sj_key act l \<and> mv_direction q = MvOut \<and> mv_quantity q = ln_qty l \<and>
      mv_value q = val \<and> mv_source_id q = sj_id j \<and> \<not> mv_is_reversal q \<and>
      value_issue D (bal_of s (sj_key act l)) (ln_qty l) allow = Inr r \<and> is_value r = val"
    by (auto simp: movement_for_def)
  show "outs = [with_valuation rate val l]" "on_grid 4 val" by (fact o g)+
  show "0 \<le> val" using q t by (auto simp: movement_for_def sound_move_def qty_move_def)
qed

lemma sj_post_in_effect:
  assumes "sj_post_in D mk j (Some l) rate val act now s = Inr (ins, s1)" and "stock_inv s" and "on_grid 4 (ln_qty l)" and "on_grid 4 val"
  shows "\<exists>q. sound_move s q s1 \<and> mv_key q = sj_key act l \<and> mv_direction q = MvIn \<and> mv_quantity q = ln_qty l \<and>
      mv_value q = val \<and> mv_source_id q = sj_id j \<and> \<not> mv_is_reversal q"
    and "ins = [with_valuation rate val l]"
proof -
  obtain prev s0 where c: "current_balance mk (sj_key act l) s = (prev, s0)" by fastforce
  from assms(1) c obtain after where a: "apply_transfer_in D prev (ln_qty l) val = Inr after"
    and m: "sj_move D mk (sj_movement j l MvIn rate val after False act) now s0 = Inr s1" and i: "ins = [with_valuation rate val l]"
    by (auto simp: sj_post_in_def sj_key_def elim!: rbindE)
  from assms(4) have t: "to_dp D 4 val = val" by (rule to_dp_id)
  note r = transfer_next [OF a]
  have "\<exists>q. sound_move s q s1 \<and> movement_for D (sj_movement j l MvIn rate val after False act) q"
    by (rule sj_move_effect(2) [OF _ m assms(2), of prev])
      (use c r t assms(3) in \<open>simp_all add: next_qty_def next_value_def\<close>)
  with t show "\<exists>q. sound_move s q s1 \<and> mv_key q = sj_key act l \<and> mv_direction q = MvIn \<and> mv_quantity q = ln_qty l \<and>
      mv_value q = val \<and> mv_source_id q = sj_id j \<and> \<not> mv_is_reversal q"
    by (auto simp: movement_for_def)
  show "ins = [with_valuation rate val l]" by (fact i)
qed

lemma sj_mirror_effect:
  assumes "sj_mirror D mk j act now l s = Inr s1" and "stock_inv s" and "on_grid 4 (ln_qty l)" and "line_valued l"
  shows "\<exists>q. qty_move s q s1 \<and> mv_key q = sj_key act l \<and> mv_is_reversal q \<and> mv_quantity q = ln_qty l \<and> mv_value q = the (ln_value l) \<and>
      mv_direction q = (if ln_side l = SideOut then MvIn else MvOut) \<and> (ln_side l = SideOut \<longrightarrow> sound_move s q s1)"
proof -
  from assms(4) obtain rate val where v: "ln_rate l = Some rate" "ln_value l = Some val" "on_grid 4 val"
    by (auto simp: line_valued_def)
  from v(3) have t: "to_dp D 4 val = val" by (rule to_dp_id)
  obtain prev s0 where c: "current_balance mk (sj_key act l) s = (prev, s0)" by fastforce
  show ?thesis
  proof (cases "ln_side l")
    case SideOut
    with assms(1) c v obtain after where a: "apply_transfer_in D prev (ln_qty l) val = Inr after"
      and m: "sj_move D mk (sj_movement j l MvIn rate val after True act) now s0 = Inr s1"
      by (auto simp: sj_mirror_def sj_key_def elim!: rbindE)
    note r = transfer_next [OF a]
    have "\<exists>q. sound_move s q s1 \<and> movement_for D (sj_movement j l MvIn rate val after True act) q"
      by (rule sj_move_effect(2) [OF _ m assms(2), of prev])
        (use c r t assms(3) in \<open>simp_all add: next_qty_def next_value_def\<close>)
    with t v SideOut show ?thesis by (auto simp: movement_for_def sound_move_def)
  next
    case SideIn
    with assms(1) c v obtain r where a: "value_issue D prev (ln_qty l) True = Inr r"
      and m: "sj_move D mk (sj_movement j l MvOut rate val (is_balance r) True act) now s0 = Inr s1"
      by (auto simp: sj_mirror_def sj_key_def elim!: rbindE)
    have "\<exists>q. qty_move s q s1 \<and> movement_for D (sj_movement j l MvOut rate val (is_balance r) True act) q"
      by (rule sj_move_effect(1) [OF _ m assms(2), of prev])
        (use c value_issue_Inr(3) [OF a] t assms(3) in \<open>simp_all add: next_qty_def\<close>)
    with t v SideIn show ?thesis by (auto simp: movement_for_def)
  qed
qed

lemma sj_mirrors_moves:
  assumes "sj_mirrors D mk j act now ls s = Inr s1" and "stock_inv s" and "\<forall>l \<in> set ls. on_grid 4 (ln_qty l) \<and> line_valued l"
  shows "\<exists>qs. stock_moves qty_move s qs s1 \<and> ((\<forall>l \<in> set ls. ln_side l = SideOut) \<longrightarrow>
    stock_moves sound_move s qs s1 \<and> (stock_nonneg s \<longrightarrow> stock_nonneg s1))"
  using assms
proof (induction ls arbitrary: s)
  case (Cons l ls)
  from Cons.prems(1) obtain t where t: "sj_mirror D mk j act now l s = Inr t" "sj_mirrors D mk j act now ls t = Inr s1"
    by (auto elim!: rbindE)
  from sj_mirror_effect [OF t(1) Cons.prems(2)] Cons.prems(3)
  obtain q where q: "qty_move s q t" "ln_side l = SideOut \<longrightarrow> sound_move s q t \<and> mv_direction q = MvIn" by auto
  from Cons.IH [OF t(2) qty_move_invs(1) [OF q(1) Cons.prems(2)]] Cons.prems(3)
  obtain qs where "stock_moves qty_move t qs s1" "(\<forall>l \<in> set ls. ln_side l = SideOut) \<longrightarrow>
    stock_moves sound_move t qs s1 \<and> (stock_nonneg t \<longrightarrow> stock_nonneg s1)" by auto
  with q show ?case by (intro exI [of _ "q # qs"]) (auto dest: in_move_nonneg)
qed (auto intro: exI [of _ "[]"])

end

section \<open>The whole post and the whole reversal\<close>

lemma sj_ok_lines:
  assumes "sj_ok j"
  obtains outs ins where "sj_lines j = outs @ ins" and "side_lines_ok SideOut (sj_from j) j outs" and "side_lines_ok SideIn (sj_to j) j ins"
    and "\<forall>l \<in> set (sj_lines j). ln_qty l = sj_qty j \<and> on_grid 4 (ln_qty l)"
proof -
  from assms obtain outs ins where l: "sj_lines j = outs @ ins" "side_lines_ok SideOut (sj_from j) j outs" "side_lines_ok SideIn (sj_to j) j ins"
    and g: "on_grid 3 (sj_qty j)" by (auto simp: sj_ok_def)
  have "on_grid 4 (sj_qty j)" by (rule on_grid_mono [OF g]) simp
  then have "\<forall>l \<in> set (sj_lines j). ln_qty l = sj_qty j \<and> on_grid 4 (ln_qty l)"
    using l by (auto simp: side_lines_ok_def line_for_def split: option.splits)
  with l show ?thesis by (rule that)
qed

lemma with_valuation_simps [simp]:
  "line_for side g j (with_valuation r v l) = line_for side g j l" "ln_value (with_valuation r v l) = Some v"
  "ln_rate (with_valuation r v l) = Some r"
  by (simp_all add: with_valuation_def line_for_def)

lemma authorised_simps [simp]:
  "sj_lines (record_negative_authorisation w r j) = sj_lines j" "sj_id (record_negative_authorisation w r j) = sj_id j"
  "sj_company (record_negative_authorisation w r j) = sj_company j" "sj_fy (record_negative_authorisation w r j) = sj_fy j"
  "sj_version (record_negative_authorisation w r j) = sj_version j" "sj_status (record_negative_authorisation w r j) = sj_status j"
  "sj_from (record_negative_authorisation w r j) = sj_from j" "sj_to (record_negative_authorisation w r j) = sj_to j"
  "sj_mode (record_negative_authorisation w r j) = sj_mode j" "sj_qty (record_negative_authorisation w r j) = sj_qty j"
  "sj_item (record_negative_authorisation w r j) = sj_item j" "sj_date (record_negative_authorisation w r j) = sj_date j"
  "sj_terms (record_negative_authorisation w r j) = sj_terms j"
  "sj_side_of side (record_negative_authorisation w r j) = sj_side_of side j"
  by (simp_all add: record_negative_authorisation_def sj_terms_def sj_side_of_def)

lemma authorised_side_lines [simp]:
  "side_lines_ok side g (record_negative_authorisation w r j) ls = side_lines_ok side g j ls"
  by (rule side_lines_cong) (simp_all add: record_negative_authorisation_def)

text \<open>What the posting of a stock journal does, step by step.\<close>

lemma post_stock_journal_InrE:
  assumes "decimal_js D" and "post_stock_journal D mk P i allow reason act now s = Inr (x, s')" and "journals_ok D s"
  obtains r j outs ins rate val s1 s2 cmd entry s3 r' where
    "r \<in> set (inv_journals s)" and "jr_journal r = j" and "\<not> jr_deleted r" and "sj_id j = i" and "sj_company j = act_company act"
    and "sj_status j = SjApproved"
    and "sj_post_out D mk (record_negative_authorisation (if allow then Some (act_user act) else None) (if allow then reason else None) j)
      (sj_side_of SideOut j) allow act now s = Inr ((rate, val, outs), s1)"
    and "sj_post_in D mk (record_negative_authorisation (if allow then Some (act_user act) else None) (if allow then reason else None) j)
      (sj_side_of SideIn j) rate val act now s1 = Inr (ins, s2)"
    and "sj_build_command (record_negative_authorisation (if allow then Some (act_user act) else None) (if allow then reason else None) j)
      (sj_side_of SideOut j) (sj_side_of SideIn j) val (act_user act) s2 = Inr cmd"
    and "case cmd of None \<Rightarrow> s3 = s2 \<and> entry = None | Some c \<Rightarrow> (\<exists>e. post D mk P c now s2 = Inr (e, s3) \<and> entry = Some e)"
    and "\<exists>tbl n. s' = audit_record ''POST'' ''StockJournal'' i act (s3\<lparr>inv_journals := tbl, db_ids := db_ids s3 + n\<rparr>)"
    and "inv_journals s3 = inv_journals s \<Longrightarrow> inv_journals s' = put_row r r' (inv_journals s)"
    and "jr_deleted r' = False" and "sj_status (jr_journal r') = SjPosted" and "sj_journal_entry (jr_journal r') = map_option je_id entry"
    and "inv_journals s3 = inv_journals s \<Longrightarrow> sj_header_checks (jr_journal r') = Inr ()"
    and "jr_journal r' = stored_sj D (jr_journal r')"
    and "sj_lines (jr_journal r') = map (stored_sj_line D) (outs @ ins)" and "row_follows r r'" and "x = (map_option je_no entry, map_option je_id entry)"
proof -
  let ?w = "if allow then Some (act_user act) else None" and ?z = "if allow then reason else None"
  from assms(2) obtain j0 rate val outs s1 ins s2 cmd entry s3 q s4 where
    f: "sj_find_for_update i (act_company act) (inv_journals s) = Some j0" and st: "sj_status j0 = SjApproved"
    and o: "sj_post_out D mk (record_negative_authorisation ?w ?z j0) (sj_side_of SideOut j0) allow act now s = Inr ((rate, val, outs), s1)"
    and n: "sj_post_in D mk (record_negative_authorisation ?w ?z j0) (sj_side_of SideIn j0) rate val act now s1 = Inr (ins, s2)"
    and c: "sj_build_command (record_negative_authorisation ?w ?z j0) (sj_side_of SideOut j0) (sj_side_of SideIn j0) val (act_user act) s2 = Inr cmd"
    and p: "(case cmd of None \<Rightarrow> Inr (None, s2) | Some c \<Rightarrow> rbind (post D mk P c now s2) (\<lambda>(e, s'). Inr (Some e, s'))) = Inr (entry, s3)"
    and q: "sj_mark_posted (map_option je_no entry) (map_option je_id entry) rate val (outs @ ins) (act_user act) now
        (record_negative_authorisation ?w ?z j0) = Inr q"
    and sv: "sj_save D q (sj_version q) s3 = Inr s4" and s': "s' = audit_record ''POST'' ''StockJournal'' i act s4"
    and x: "x = (map_option je_no entry, map_option je_id entry)"
    unfolding post_stock_journal_def uow_run_Inr_iff Let_def
    by (auto simp: uow_run_Inr_iff sj_assert_postable_def elim!: rbindE split: prod.splits)
  from sj_find_SomeD [OF f] obtain r where r: "r \<in> set (inv_journals s)" "jr_journal r = j0" "\<not> jr_deleted r"
      "sj_id j0 = i" "sj_company j0 = act_company act" by blast
  from q have qj: "q = (record_negative_authorisation ?w ?z j0)\<lparr>sj_status := SjPosted, sj_entry_no := map_option je_no entry,
      sj_journal_entry := map_option je_id entry, sj_rate := Some rate, sj_value := Some val, sj_lines := outs @ ins,
      sj_posted_by := Some (act_user act), sj_posted_at := Some now\<rparr>"
    by (auto simp: sj_mark_posted_def elim!: rbindE)
  let ?r = "\<lparr>jr_journal = (stored_sj D q)\<lparr>sj_version := Suc (sj_version q)\<rparr>, jr_deleted = False\<rparr>"
  have qs: "sj_id q = sj_id j0" "sj_company q = sj_company j0" "sj_fy q = sj_fy j0" "sj_version q = sj_version j0" "sj_status q = SjPosted"
    "sj_terms q = sj_terms j0" "sj_lines q = outs @ ins" "sj_journal_entry q = map_option je_id entry" "sj_qty q = sj_qty j0"
    by (simp_all add: qj record_negative_authorisation_def sj_terms_def)
  have ok: "stored_sj D j0 = j0" using assms(3) r(1,2) by (auto simp: journals_ok_def sj_row_ok_def)
  have "sj_terms (stored_sj D q) = sj_terms q"
  proof -
    have "sj_qty j0 = to_dp D 3 (sj_qty j0)" using arg_cong [OF ok, of sj_qty] by simp
    then show ?thesis using qs(9) by (simp add: sj_terms_def stored_sj_def)
  qed
  with r st qs have fo: "row_follows r ?r" by (simp add: row_follows_def)
  have e: "s4 = s3\<lparr>inv_journals := put_row r ?r (inv_journals s3), db_ids := db_ids s3 + length (sj_lines q)\<rparr>" "sj_header_checks (stored_sj D q) = Inr ()"
    if "inv_journals s3 = inv_journals s"
    by (rule sj_save_effect [OF sv, where r = r]; use assms(3) r qs that in \<open>simp add: journals_ok_def\<close>)+
  have ex: "\<exists>tbl n. s' = audit_record ''POST'' ''StockJournal'' i act (s3\<lparr>inv_journals := tbl, db_ids := db_ids s3 + n\<rparr>)"
    using sv unfolding s' sj_save_def Let_def by (auto elim!: rbindE split: if_splits)
  show ?thesis
  proof (rule that [of r j0 rate val outs s1 ins s2 cmd s3 entry ?r])
    show "case cmd of None \<Rightarrow> s3 = s2 \<and> entry = None | Some c \<Rightarrow> (\<exists>e. post D mk P c now s2 = Inr (e, s3) \<and> entry = Some e)"
      using p by (auto elim!: rbindE split: option.splits)
    show "inv_journals s3 = inv_journals s \<Longrightarrow> sj_header_checks (jr_journal ?r) = Inr ()"
      using e(2) by (simp add: sj_header_checks_def stored_sj_def)
    show "jr_journal ?r = stored_sj D (jr_journal ?r)" by (simp add: decimal_js.stored_sj_idem [OF assms(1)])
  qed (use r st o n c ex e(1) qs fo x s' in simp_all)
qed

lemma sj_terms_eqD:
  "sj_terms k = sj_terms j \<Longrightarrow> sj_mode k = sj_mode j \<and> sj_from k = sj_from j \<and> sj_to k = sj_to j \<and> sj_item k = sj_item j \<and>
     sj_qty k = sj_qty j \<and> sj_project k = sj_project j \<and> sj_cost_centre k = sj_cost_centre j \<and> sj_purpose k = sj_purpose j"
  by (simp add: sj_terms_def)

context decimal_js begin

lemma posted_side:
  assumes "side_lines_ok side g j ls" and "sj_terms k = sj_terms j" and "on_grid 3 (sj_qty j)" and "on_grid 4 v" "0 \<le> v"
    and "outs = (case g of None \<Rightarrow> [] | Some _ \<Rightarrow> [with_valuation r v (hd ls)])"
  shows "side_lines_ok side g k (map (stored_sj_line D) outs)" and "list_all line_valued (map (stored_sj_line D) outs)"
  using assms sj_terms_eqD [OF assms(2)] to_dp_id [OF assms(3)] to_dp_id [OF assms(4)]
  by (auto simp: side_lines_ok_def line_for_def stored_sj_line_def with_valuation_def line_valued_def split: option.splits)

lemma sj_post_sides:
  assumes "sj_post_out D mk j (case f of None \<Rightarrow> None | Some _ \<Rightarrow> Some (hd os)) allow act now s = Inr ((rate, val, outs), s1)"
    and "sj_post_in D mk j (case t of None \<Rightarrow> None | Some _ \<Rightarrow> Some (hd is)) rate val act now s1 = Inr (ins, s2)"
    and "stock_inv s" and "f \<noteq> None \<Longrightarrow> on_grid 4 (ln_qty (hd os))" and "t \<noteq> None \<Longrightarrow> on_grid 4 (ln_qty (hd is))"
  shows "on_grid 4 val" "0 \<le> val" "\<exists>qs. stock_moves sound_move s qs s2"
    "outs = (case f of None \<Rightarrow> [] | Some _ \<Rightarrow> [with_valuation rate val (hd os)])"
    "ins = (case t of None \<Rightarrow> [] | Some _ \<Rightarrow> [with_valuation rate val (hd is)])"
    "\<not> allow \<Longrightarrow> stock_nonneg s \<Longrightarrow> stock_nonneg s2"
proof -
  have o: "on_grid 4 val \<and> 0 \<le> val \<and> (\<exists>qs. stock_moves sound_move s qs s1) \<and> (\<not> allow \<longrightarrow> stock_nonneg s \<longrightarrow> stock_nonneg s1) \<and>
      outs = (case f of None \<Rightarrow> [] | Some _ \<Rightarrow> [with_valuation rate val (hd os)])"
  proof (cases f)
    case None
    with assms(1) show ?thesis by (auto simp: sj_post_out_def intro: exI [of _ "[]"])
  next
    case (Some g)
    with assms(1,4) have a: "sj_post_out D mk j (Some (hd os)) allow act now s = Inr ((rate, val, outs), s1)" "on_grid 4 (ln_qty (hd os))" by auto
    note e = sj_post_out_effect [OF a(1) assms(3) a(2)]
    from e(1) obtain q r where q: "sound_move s q s1" "mv_direction q = MvOut" "is_value r = mv_value q"
      "value_issue D (bal_of s (mv_key q)) (mv_quantity q) allow = Inr r" by auto
    then have "\<not> allow \<longrightarrow> stock_nonneg s \<longrightarrow> stock_nonneg s1" using out_move_nonneg [OF q(1,2) _ assms(3)] by auto
    with Some q(1) e(2-4) show ?thesis by (auto intro: exI [of _ "[q]"])
  qed
  then obtain qs where qs: "stock_moves sound_move s qs s1" by blast
  have inv: "stock_inv s1" by (rule qty_moves_effect(5) [OF sound_qty_moves [OF qs] assms(3)])
  have i: "(\<exists>rs. stock_moves sound_move s1 rs s2) \<and> (stock_nonneg s1 \<longrightarrow> stock_nonneg s2) \<and> ins = (case t of None \<Rightarrow> [] | Some _ \<Rightarrow> [with_valuation rate val (hd is)])"
  proof (cases t)
    case None
    with assms(2) show ?thesis by (auto simp: sj_post_in_def intro: exI [of _ "[]"])
  next
    case (Some g)
    with assms(2,5) have a: "sj_post_in D mk j (Some (hd is)) rate val act now s1 = Inr (ins, s2)" "on_grid 4 (ln_qty (hd is))" by auto
    from o have v: "on_grid 4 val" by blast
    from sj_post_in_effect [OF a(1) inv a(2) v] obtain q where "sound_move s1 q s2" "mv_direction q = MvIn" "ins = [with_valuation rate val (hd is)]" by blast
    with Some show ?thesis by (auto intro: exI [of _ "[q]"] dest: in_move_nonneg)
  qed
  show "on_grid 4 val" "0 \<le> val" "outs = (case f of None \<Rightarrow> [] | Some _ \<Rightarrow> [with_valuation rate val (hd os)])" using o by blast+
  show "ins = (case t of None \<Rightarrow> [] | Some _ \<Rightarrow> [with_valuation rate val (hd is)])" using i by blast
  show "\<exists>qs. stock_moves sound_move s qs s2" using qs i stock_moves_append by blast
  show "\<not> allow \<Longrightarrow> stock_nonneg s \<Longrightarrow> stock_nonneg s2" using o i by blast
qed

text \<open>A committed post keeps every invariant.\<close>

lemma post_stock_journal_step:
  fixes s s' :: "'a inventory_db_scheme"
  assumes "post_stock_journal D mk (erp_ports mk) i allow reason act now s = Inr (x, s')" and "inventory_inv D mk s"
  shows "inventory_inv D mk s' \<and> journal_step D (inv_journals s) (inv_journals s') \<and> keeps_qty fine s s' \<and> keeps_value fine s s' \<and>
    (\<not> allow \<and> stock_nonneg s \<longrightarrow> stock_nonneg s')"
proof -
  from assms(2) have e: "erp_inv mk s" and inv: "stock_inv s" and jo: "journals_ok D s" by (auto simp: inventory_inv_def)
  show ?thesis
  proof (rule post_stock_journal_InrE [OF decimal_js_axioms assms(1) jo])
    fix r :: sj_row and j outs ins rate val and s1 s2 s3 :: "'a inventory_db_scheme" and cmd entry and r' :: sj_row
    let ?k = "record_negative_authorisation (if allow then Some (act_user act) else None) (if allow then reason else None) j"
    assume r: "r \<in> set (inv_journals s)" "jr_journal r = j"
      and o: "sj_post_out D mk ?k (sj_side_of SideOut j) allow act now s = Inr ((rate, val, outs), s1)"
      and n: "sj_post_in D mk ?k (sj_side_of SideIn j) rate val act now s1 = Inr (ins, s2)"
      and p: "case cmd of None \<Rightarrow> s3 = s2 \<and> entry = None | Some c \<Rightarrow> (\<exists>e. post D mk (erp_ports mk) c now s2 = Inr (e, s3) \<and> entry = Some e)"
      and s': "\<exists>tbl n. s' = audit_record ''POST'' ''StockJournal'' i act (s3\<lparr>inv_journals := tbl, db_ids := db_ids s3 + n\<rparr>)"
      and tb: "inv_journals s3 = inv_journals s \<Longrightarrow> inv_journals s' = put_row r r' (inv_journals s)"
      and st: "sj_status (jr_journal r') = SjPosted"
      and fx: "jr_journal r' = stored_sj D (jr_journal r')"
      and ln: "sj_lines (jr_journal r') = map (stored_sj_line D) (outs @ ins)" and fo: "row_follows r r'" and app: "sj_status j = SjApproved"
    from jo r have ok: "sj_ok j" by (auto simp: journals_ok_def sj_row_ok_def)
    obtain os "is" where l: "sj_lines j = os @ is" "side_lines_ok SideOut (sj_from j) j os" "side_lines_ok SideIn (sj_to j) j is"
      and g: "\<forall>l \<in> set (sj_lines j). ln_qty l = sj_qty j \<and> on_grid 4 (ln_qty l)" by (rule sj_ok_lines [OF ok])
    note side = sj_side_of_shape [OF l]
    have go: "sj_from j \<noteq> None \<Longrightarrow> on_grid 4 (ln_qty (hd os))" and gi: "sj_to j \<noteq> None \<Longrightarrow> on_grid 4 (ln_qty (hd is))"
      using l g by (auto simp: side_lines_ok_def split: option.splits)
    note m = sj_post_sides [OF o [unfolded side] n [unfolded side] inv go gi]
    from m(3) obtain qs where qs: "stock_moves sound_move s qs s2" by blast
    note ef = qty_moves_effect [OF sound_qty_moves [OF qs]]
    have more: "db.more s3 = db.more s2" using p by (auto dest: post_appends(1) split: option.splits)
    have j3: "inv_journals s3 = inv_journals s" using inventory_more(8) [OF more] stock_more(5) [OF ef(3)] by simp
    have same: "stock_same s2 s'" using s' inventory_more(1,2) [OF more] by (auto intro!: stock_same_fields)
    have terms: "sj_terms (jr_journal r') = sj_terms j" using fo r app by (simp add: row_follows_def Let_def)
    from ok have q3: "on_grid 3 (sj_qty j)" by (simp add: sj_ok_def)
    note po = posted_side [OF l(2) terms q3 m(1,2,4)] and pi = posted_side [OF l(3) terms q3 m(1,2,5)]
    have "sj_ok (jr_journal r')"
      unfolding sj_ok_def using ok sj_terms_eqD [OF terms] po pi ln st by (auto simp: sj_ok_def)
    with fx have "sj_row_ok D r'" by (simp add: sj_row_ok_def)
    with tb [OF j3] r(1) fo have js: "journal_step D (inv_journals s) (inv_journals s')" by (auto simp: journal_step_def)
    have "erp_inv mk s'"
    proof (cases cmd)
      case None
      with p ef(2) s' show ?thesis by (intro quiet_erp_inv [OF _ e]) (auto simp: quiet_def)
    next
      case (Some c)
      with p obtain en where en: "post D mk (erp_ports mk) c now s2 = Inr (en, s3)" by auto
      from assms(1) obtain work where w: "uow_run work s = Inr (x, s')"
        by (auto simp: post_stock_journal_def elim!: rbindE)
      show ?thesis
        by (rule tx_post [OF w e ef(2) en]) (use s' in \<open>auto simp: quiet_def\<close>)
    qed
    with js ef(5) [OF inv] ef(6) [of fine] same sound_moves_value [OF qs, of fine] m(6) show ?thesis
      by (auto simp: inventory_inv_def stock_same_invs journal_step_ok [OF jo])
  qed
qed

lemma reverse_stock_journal_InrE:
  fixes s s' :: "'a inventory_db_scheme"
  assumes "reverse_stock_journal D mk P i reason act now s = Inr (x, s')" and "journals_ok D s"
  obtains r j r' and s1 s2 :: "'a inventory_db_scheme" where
    "r \<in> set (inv_journals s)" and "jr_journal r = j" and "\<not> jr_deleted r" and "sj_id j = i" and "sj_company j = act_company act"
    and "sj_status j = SjPosted" and "sj_mirrors D mk j act now (sj_lines j) s = Inr s1"
    and "if truthy (sj_journal_entry j)
         then (\<exists>e. reverse D mk P (the (sj_journal_entry j)) (act_company act) reason (act_user act) now s1 = Inr (e, s2)) else s2 = s1"
    and "\<exists>tbl n. s' = audit_record ''CANCEL'' ''StockJournal'' i act (s2\<lparr>inv_journals := tbl, db_ids := db_ids s2 + n\<rparr>)"
    and "inv_journals s2 = inv_journals s \<Longrightarrow> inv_journals s' = put_row r r' (inv_journals s)"
    and "row_follows r r'" and "sj_row_ok D r'"
proof -
  from assms(1) obtain j s1 s2 q s3 where f: "sj_find_for_update i (act_company act) (inv_journals s) = Some j"
    and st: "sj_status j = SjPosted" and m: "sj_mirrors D mk j act now (sj_lines j) s = Inr s1"
    and p: "(if truthy (sj_journal_entry j)
            then rbind (reverse D mk P (the (sj_journal_entry j)) (act_company act) reason (act_user act) now s1) (\<lambda>(_, s'). Inr s')
            else Inr s1) = Inr s2"
    and q: "sj_mark_cancelled j = Inr q" and sv: "sj_save D q (sj_version q) s2 = Inr s3"
    and s': "s' = audit_record ''CANCEL'' ''StockJournal'' i act s3"
    unfolding reverse_stock_journal_def uow_run_Inr_iff
    by (auto simp: sj_assert_posted_def elim!: rbindE)
  from sj_find_SomeD [OF f] obtain r where r: "r \<in> set (inv_journals s)" "jr_journal r = j" "\<not> jr_deleted r"
      "sj_id j = i" "sj_company j = act_company act" by blast
  from q have qj: "q = j\<lparr>sj_status := SjCancelled\<rparr>" by (auto simp: sj_mark_cancelled_def elim!: rbindE)
  from assms(2) r(1,2) have ok: "sj_ok j" "stored_sj D j = j" by (auto simp: journals_ok_def sj_row_ok_def)
  then have sq: "stored_sj D q = q" by (simp add: qj)
  let ?r = "\<lparr>jr_journal = q\<lparr>sj_version := Suc (sj_version q)\<rparr>, jr_deleted = False\<rparr>"
  have e: "s3 = s2\<lparr>inv_journals := put_row r ?r (inv_journals s2), db_ids := db_ids s2 + length (sj_lines q)\<rparr>"
    if "inv_journals s2 = inv_journals s"
    by (rule sj_save_effect(1) [OF sv, where r = r, unfolded sq]; use assms(2) r qj that in \<open>simp add: journals_ok_def\<close>)
  have ex: "\<exists>tbl n. s' = audit_record ''CANCEL'' ''StockJournal'' i act (s2\<lparr>inv_journals := tbl, db_ids := db_ids s2 + n\<rparr>)"
    using sv unfolding s' sj_save_def Let_def by (auto elim!: rbindE split: if_splits)
  have "sj_ok q" using ok(1) st side_lines_cong [of q j] by (simp add: sj_ok_def qj)
  with sq have ro: "sj_row_ok D ?r" by (simp add: sj_row_ok_def sj_ok_version)
  have fo: "row_follows r ?r" using r st by (simp add: row_follows_def qj)
  have pp: "if truthy (sj_journal_entry j)
     then (\<exists>e. reverse D mk P (the (sj_journal_entry j)) (act_company act) reason (act_user act) now s1 = Inr (e, s2)) else s2 = s1"
    using p by (auto elim!: rbindE split: if_splits)
  show ?thesis
  proof (rule that [OF r(1-5) st m pp ex _ fo ro])
    assume "inv_journals s2 = inv_journals s"
    from e [OF this] this show "inv_journals s' = put_row r ?r (inv_journals s)" by (simp add: s')
  qed
qed

lemma reverse_stock_journal_step:
  fixes s s' :: "'a inventory_db_scheme"
  assumes "reverse_stock_journal D mk (erp_ports mk) i reason act now s = Inr (x, s')" and "inventory_inv D mk s"
  shows "inventory_inv D mk s' \<and> journal_step D (inv_journals s) (inv_journals s') \<and> keeps_qty fine s s' \<and>
    ((\<forall>r \<in> set (inv_journals s). sj_id (jr_journal r) = i \<longrightarrow> sj_to (jr_journal r) = None) \<longrightarrow>
      keeps_value fine s s' \<and> (stock_nonneg s \<longrightarrow> stock_nonneg s'))"
proof -
  from assms(2) have e: "erp_inv mk s" and inv: "stock_inv s" and jo: "journals_ok D s" by (auto simp: inventory_inv_def)
  show ?thesis
  proof (rule reverse_stock_journal_InrE [OF assms(1) jo])
    fix r :: sj_row and j and r' :: sj_row and s1 s2 :: "'a inventory_db_scheme"
    assume r: "r \<in> set (inv_journals s)" "jr_journal r = j" "sj_id j = i"
      and st: "sj_status j = SjPosted" and m: "sj_mirrors D mk j act now (sj_lines j) s = Inr s1"
      and p: "if truthy (sj_journal_entry j)
         then (\<exists>e. reverse D mk (erp_ports mk) (the (sj_journal_entry j)) (act_company act) reason (act_user act) now s1 = Inr (e, s2)) else s2 = s1"
      and s': "\<exists>tbl n. s' = audit_record ''CANCEL'' ''StockJournal'' i act (s2\<lparr>inv_journals := tbl, db_ids := db_ids s2 + n\<rparr>)"
      and tb: "inv_journals s2 = inv_journals s \<Longrightarrow> inv_journals s' = put_row r r' (inv_journals s)"
      and fo: "row_follows r r'" and ro: "sj_row_ok D r'"
    from jo r have ok: "sj_ok j" by (auto simp: journals_ok_def sj_row_ok_def)
    obtain os "is" where l: "sj_lines j = os @ is" "side_lines_ok SideOut (sj_from j) j os" "side_lines_ok SideIn (sj_to j) j is"
      and g: "\<forall>l \<in> set (sj_lines j). ln_qty l = sj_qty j \<and> on_grid 4 (ln_qty l)" by (rule sj_ok_lines [OF ok])
    have "\<forall>l \<in> set (sj_lines j). on_grid 4 (ln_qty l) \<and> line_valued l"
      using g ok st by (auto simp: sj_ok_def list_all_iff)
    from sj_mirrors_moves [OF m inv this] obtain qs where qs: "stock_moves qty_move s qs s1"
      and sq: "(\<forall>l \<in> set (sj_lines j). ln_side l = SideOut) \<longrightarrow> stock_moves sound_move s qs s1 \<and> (stock_nonneg s \<longrightarrow> stock_nonneg s1)" by blast
    note ef = qty_moves_effect [OF qs]
    have more: "db.more s2 = db.more s1" using p by (auto elim: reverse_appends split: if_splits)
    have j2: "inv_journals s2 = inv_journals s" using inventory_more(8) [OF more] stock_more(5) [OF ef(3)] by simp
    have same: "stock_same s1 s'" using s' inventory_more(1,2) [OF more] by (auto intro!: stock_same_fields)
    from tb [OF j2] r(1) fo ro have js: "journal_step D (inv_journals s) (inv_journals s')" by (auto simp: journal_step_def)
    have "erp_inv mk s'"
    proof (cases "truthy (sj_journal_entry j)")
      case False
      with p ef(2) s' show ?thesis by (intro quiet_erp_inv [OF _ e]) (auto simp: quiet_def)
    next
      case True
      with p obtain en where en: "reverse D mk (erp_ports mk) (the (sj_journal_entry j)) (act_company act) reason (act_user act) now s1 = Inr (en, s2)" by auto
      from assms(1) obtain work where w: "uow_run work s = Inr (x, s')" by (auto simp: reverse_stock_journal_def)
      show ?thesis
        by (rule tx_reverse [OF w e ef(2) en]) (use s' in \<open>auto simp: quiet_def\<close>)
    qed
    moreover have "keeps_value fine s s' \<and> (stock_nonneg s \<longrightarrow> stock_nonneg s')"
      if "\<forall>r \<in> set (inv_journals s). sj_id (jr_journal r) = i \<longrightarrow> sj_to (jr_journal r) = None"
    proof -
      have t: "sj_to j = None" using bspec [OF that r(1)] r(2,3) by simp
      have "\<forall>l \<in> set (sj_lines j). ln_side l = SideOut"
        using l(2,3) unfolding l(1) t by (auto simp: side_lines_ok_def line_for_def split: option.splits)
      with sq have "stock_moves sound_move s qs s1" "stock_nonneg s \<longrightarrow> stock_nonneg s1" by blast+
      with sound_moves_value [of s qs s1 fine] same show ?thesis by (simp add: stock_same_invs)
    qed
    ultimately show ?thesis using js ef(5) [OF inv] ef(6) [of fine] same
      by (auto simp: inventory_inv_def stock_same_invs journal_step_ok [OF jo])
  qed
qed

end

end
