(* ===== verification/Stock_Demo.thy ===== *)
theory Stock_Demo
  imports Stock_Soundness
begin

text \<open>
  A concrete run of the inventory module: ten units are received at a rate of five, an issue of four is
  drafted, approved, posted and reversed, and in a second run a transfer of four is posted instead.
\<close>

definition stk_state :: "period list \<Rightarrow> journal_entry list \<Rightarrow> series_row list \<Rightarrow> string list \<Rightarrow> nat \<Rightarrow> stock_movement list \<Rightarrow> stock_balance list \<Rightarrow> sj_row list \<Rightarrow> inventory_db" where
  "stk_state ps es ss au n ms bs js =
     \<lparr>db_fys = [sample_fy], db_series = ss, db_periods = ps, db_entries = es,
      db_audit = map (\<lambda>a. \<lparr>a_action = a, a_entity_type = ''StockJournal'', a_entity_id = ''4'', a_actor = ''U'', a_company = ''C''\<rparr>) au,
      db_ids = n, st_movements = ms, st_balances = bs,
      inv_items = [\<lparr>it_id = ''I'', it_company = ''C'', it_account = Some ''INV''\<rparr>],
      inv_accounts = [\<lparr>ac_id = ''EXP'', ac_company = ''C'', ac_code = ''5100''\<rparr>],
      inv_purposes = [\<lparr>ow_id = ''W'', ow_company = ''C'', ow_project = Some ''P''\<rparr>],
      inv_godowns = [\<lparr>ow_id = ''G'', ow_company = ''C'', ow_project = Some ''P''\<rparr>, \<lparr>ow_id = ''H'', ow_company = ''C'', ow_project = Some ''P''\<rparr>],
      inv_journals = js\<rparr>"

definition stk_periods :: "period list" where
  "stk_periods = [period_create ''0'' ''C'' ''FY'' ''Jul 2025'' ''2025-07-01'' ''2025-07-31'']"

definition stk_db :: inventory_db where "stk_db = stk_state [] [] [] [] 0 [] [] []"

definition stk_open :: inventory_db where "stk_open = stk_state stk_periods [] [] [] 1 [] [] []"

definition stk_cx :: post_ctx where
  "stk_cx = \<lparr>cx_company = ''C'', cx_date = ''2025-07-05'', cx_posted_by = ''U''\<rparr>"

definition stk_in :: stock_input where
  "stk_in = \<lparr>si_godown = ''G'', si_item = ''I'', si_qty = 10, si_source = ''B''\<rparr>"

definition stk_mv :: "string \<Rightarrow> string \<Rightarrow> movement_source \<Rightarrow> string \<Rightarrow> movement_direction \<Rightarrow> rat \<Rightarrow> rat \<Rightarrow> rat \<Rightarrow> rat \<Rightarrow> bool \<Rightarrow> string \<Rightarrow> int \<Rightarrow> stock_movement" where
  "stk_mv i g src sid dir q v qa va mirror d t = \<lparr>mv_id = i, mv_company = ''C'', mv_godown = g, mv_item = ''I'', mv_source_type = src,
    mv_source_id = sid, mv_direction = dir, mv_quantity = q, mv_rate = 5, mv_value = v, mv_qty_after = qa, mv_value_after = va,
    mv_avg_after = Some 5, mv_is_reversal = mirror, mv_reversal_of = None, mv_date = d, mv_posted_at = t, mv_posted_by = ''U''\<rparr>"

definition stk_bal :: "string \<Rightarrow> string \<Rightarrow> rat \<Rightarrow> rat \<Rightarrow> nat \<Rightarrow> stock_balance" where
  "stk_bal i g q v n = \<lparr>sb_id = i, sb_company = ''C'', sb_godown = g, sb_item = ''I'', sb_qty = q, sb_value = v, sb_avg = Some 5, sb_version = n\<rparr>"

definition stk_grn :: stock_movement where
  "stk_grn = stk_mv ''2'' ''G'' SrcGrn ''B'' MvIn 10 50 10 50 False ''2025-07-05'' 3"

definition stk_received :: inventory_db where
  "stk_received = stk_state stk_periods [] [] [] 4 [stk_grn] [stk_bal ''1'' ''G'' 10 50 2] []"

lemma show_small: "show_nat 1 = ''1''" "show_nat 2 = ''2''" "show_nat 3 = ''3''" "show_nat 4 = ''4''" "show_nat 5 = ''5''" "show_nat 7 = ''7''"
  "show_nat 8 = ''8''" "show_nat 9 = ''9''" "show_nat 10 = ''10''" "show_nat 11 = ''11''" "show_nat 12 = ''12''" "show_nat 13 = ''13''"
  "show_nat 14 = ''14''" "show_nat 15 = ''15''" "show_nat 16 = ''16''" "show_nat (Suc 0) = ''1''" "show_nat (Suc (Suc 0)) = ''2''"
  by code_simp+

lemmas stk_eval = receive_in_def current_balance_def ids_next_def movement_create_def movement_append_def stored_movement_def
  movement_checks_def in_column_def upsert_balance_def apply_receipt_def assert_positive_def assert_non_negative_def service_movement_def
  average_rate_def d_plus_def d_minus_def d_times_def d_div_def rnd20_small to_dp20_small Let_def mv_key_def sb_key_def show_small update_where_def

lemma stk_receive: "receive_in dec20 show_nat stk_cx stk_in 5 3 stk_open = Inr (Some 5, stk_received)"
  by (simp add: stk_eval stk_cx_def stk_in_def stk_open_def stk_received_def stk_state_def stk_grn_def stk_mv_def stk_bal_def cong: rbind_weak_cong)

definition stk_new :: "string \<Rightarrow> string option \<Rightarrow> new_stock_journal" where
  "stk_new mode t = \<lparr>ns_date = ''2025-07-10'', ns_mode = mode, ns_from = Some ''G'', ns_to = t, ns_item = ''I'', ns_qty = Dec 4,
    ns_project = ''P'', ns_cost_centre = ''CC'', ns_purpose = ''W'', ns_issued_by = None, ns_received_by = None, ns_narration = None\<rparr>"

definition stk_line :: "sj_side \<Rightarrow> string \<Rightarrow> (rat \<times> rat) option \<Rightarrow> sj_line" where
  "stk_line side g v = \<lparr>ln_no = (case side of SideOut \<Rightarrow> 1 | SideIn \<Rightarrow> 2), ln_side = side, ln_godown = g, ln_item = ''I'', ln_qty = 4, ln_rate = map_option fst v,
    ln_value = map_option snd v, ln_project = ''P'', ln_cost_centre = ''CC'', ln_purpose = ''W''\<rparr>"

definition stk_sj :: "stock_journal_status \<Rightarrow> stock_journal_mode \<Rightarrow> string option \<Rightarrow> bool \<Rightarrow> (rat \<times> rat) option \<Rightarrow> string option \<Rightarrow> string option \<Rightarrow> nat \<Rightarrow> stock_journal" where
  "stk_sj st m t approved v no je n = \<lparr>sj_id = ''4'', sj_company = ''C'', sj_fy = ''FY'', sj_entry_no = no, sj_date = ''2025-07-10'',
     sj_mode = m, sj_status = st, sj_from = Some ''G'', sj_to = t, sj_item = ''I'', sj_qty = 4, sj_rate = map_option fst v,
     sj_value = map_option snd v, sj_project = ''P'', sj_cost_centre = ''CC'', sj_purpose = ''W'', sj_issued_by = None,
     sj_received_by = None, sj_approved_by = (if approved then Some ''U'' else None), sj_approved_at = (if approved then Some 5 else None),
     sj_allow_negative = False, sj_authorised_by = None, sj_reason = None, sj_journal_entry = je, sj_narration = None,
     sj_posted_at = (if v = None then None else Some 6), sj_posted_by = (if v = None then None else Some ''U''), sj_version = n,
     sj_lines = stk_line SideOut ''G'' v # (case t of None \<Rightarrow> [] | Some g \<Rightarrow> [stk_line SideIn g v])\<rparr>"

definition stk_row :: "stock_journal \<Rightarrow> sj_row" where
  "stk_row j = \<lparr>jr_journal = j, jr_deleted = False\<rparr>"

definition stk_drafted :: inventory_db where
  "stk_drafted = stk_state stk_periods [] [] [''CREATE''] 6 [stk_grn] [stk_bal ''1'' ''G'' 10 50 2]
     [stk_row (stk_sj SjDraft ISSUE None False None None None 1)]"

definition stk_approved :: inventory_db where
  "stk_approved = stk_state stk_periods [] [] [''CREATE'', ''APPROVE''] 7 [stk_grn] [stk_bal ''1'' ''G'' 10 50 2]
     [stk_row (stk_sj SjApproved ISSUE None True None None None 2)]"

lemma trim_small: "trim ''G'' = ''G''" "trim ''H'' = ''H''" "trim ''I'' = ''I''" "trim ''P'' = ''P''" "trim ''CC'' = ''CC''" "trim ''W'' = ''W''"
  "trim ''2025-07-10'' = ''2025-07-10''"
  by code_simp+

lemma to_dp20_three: "of_int \<lfloor>x * 10 ^ 3\<rfloor> = x * 10 ^ 3 \<Longrightarrow> to_dp dec20 3 x = x"
  by (rule dec20.to_dp_id) (simp add: on_grid_code)

lemmas stk_states = stk_cx_def stk_in_def stk_open_def stk_received_def stk_drafted_def stk_approved_def stk_state_def stk_grn_def stk_mv_def stk_bal_def
  stk_new_def stk_line_def stk_sj_def stk_row_def sample_actor_def

lemmas stk_desk = create_stock_journal_def approve_stock_journal_def uow_run_def sj_create_draft_def sj_insert_def sj_save_def
  sj_find_for_update_def sj_approve_def scope_or_forbidden_def assert_project_in_scope_def assert_consistent_def sj_tag_lines_def
  tag_dim_check_def owner_project_def mode_of_name_def sides_check_def clean_def req_def side_line_def new_sj_line_def to_qty_def
  stored_sj_def stored_sj_line_def sj_header_checks_def sj_line_checks_def optional_column_def in_column_def trim_small
  to_dp20_small to_dp20_three update_where_def audit_record_def ids_next_def show_small Let_def

lemma stk_create: "create_stock_journal dec20 show_nat (stk_new ''ISSUE'' None) sample_actor stk_received = Inr (''4'', stk_drafted)"
  by (simp add: stk_desk stk_states cong: rbind_weak_cong)

lemma stk_approve: "approve_stock_journal dec20 ''4'' sample_actor 5 stk_drafted = Inr ((), stk_approved)"
  by (simp add: stk_desk stk_states cong: rbind_weak_cong)

definition stk_out :: stock_movement where
  "stk_out = stk_mv ''8'' ''G'' SrcStockJournal ''4'' MvOut 4 20 6 30 False ''2025-07-10'' 6"

definition stk_moved :: inventory_db where
  "stk_moved = stk_state stk_periods [] [] [''CREATE'', ''APPROVE''] 10 [stk_grn, stk_out] [stk_bal ''1'' ''G'' 6 30 3]
     [stk_row (stk_sj SjApproved ISSUE None True None None None 2)]"

definition stk_cmd :: posting_command where
  "stk_cmd = sj_command (stk_sj SjApproved ISSUE None True None None None 2)
     [sj_posting_line ''EXP'' (stk_line SideOut ''G'' None) 20 0 EXPENSE, sj_posting_line ''INV'' (stk_line SideOut ''G'' None) 0 20 ASSET] ''U''"

definition stk_entry :: journal_entry where
  "stk_entry = \<lparr>je_id = ''11'', je_company = ''C'', je_fy = ''FY'', je_no = ''SJ/2525/0001'', je_voucher_type = STOCK_JOURNAL,
     je_voucher_date = ''2025-07-10'', je_source_type = ''STOCK_JOURNAL'', je_source_id = ''4'', je_is_reversal = False,
     je_reversal_of = None, je_posted_at = 6, je_posted_by = ''U'', je_narration = None, je_lines = lines_of (pc_lines stk_cmd)\<rparr>"

definition stk_series :: "nat \<Rightarrow> series_row" where
  "stk_series n = \<lparr>s_id = ''10'', s_company = ''C'', s_fy = ''FY'', s_voucher_type = STOCK_JOURNAL, s_prefix = ''SJ'',
     s_padding = 4, s_last = n, s_version = 1\<rparr>"

definition stk_booked :: inventory_db where
  "stk_booked = stk_state stk_periods [stk_entry] [stk_series 1] [''CREATE'', ''APPROVE''] 12 [stk_grn, stk_out] [stk_bal ''1'' ''G'' 6 30 3]
     [stk_row (stk_sj SjApproved ISSUE None True None None None 2)]"

definition stk_posted :: inventory_db where
  "stk_posted = stk_state stk_periods [stk_entry] [stk_series 1] [''CREATE'', ''APPROVE'', ''POST''] 13 [stk_grn, stk_out] [stk_bal ''1'' ''G'' 6 30 3]
     [stk_row (stk_sj SjPosted ISSUE None True (Some (5, 20)) (Some ''SJ/2525/0001'') (Some ''11'') 3)]"

lemma stk_post_ledger: "post dec20 show_nat (erp_ports show_nat) stk_cmd 6 stk_moved = Inr (stk_entry, stk_booked)"
  by code_simp

lemma stk_entry_balanced: "balance_check stk_entry = Inr ()"
  by code_simp

lemmas stk_states2 = stk_states stk_moved_def stk_posted_def stk_out_def

lemma stk_fields:
  "sj_find_for_update ''4'' ''C'' [stk_row j] = (if sj_id j = ''4'' \<and> sj_company j = ''C'' then Some j else None)"
  by (simp add: sj_find_for_update_def stk_row_def)

lemma stk_out_move:
  "sj_post_out dec20 show_nat (stk_sj SjApproved m t True None None None 2) (Some (stk_line SideOut ''G'' None)) False sample_actor 6
     (stk_state stk_periods [] [] au 7 [stk_grn] [stk_bal ''1'' ''G'' 10 50 2] js) =
   Inr ((5, 20, [stk_line SideOut ''G'' (Some (5, 20))]),
     stk_state stk_periods [] [] au 10 [stk_grn, stk_out] [stk_bal ''1'' ''G'' 6 30 3] js)"
  by (simp add: sj_post_out_def value_issue_def sj_move_def sj_movement_def with_valuation_def stk_eval stk_states2 cong: rbind_weak_cong)

lemma stk_build:
  "sj_build_command (stk_sj SjApproved ISSUE None True None None None 2) (Some (stk_line SideOut ''G'' None)) None 20 ''U'' stk_moved = Inr (Some stk_cmd)"
  by (simp add: sj_build_command_def inventory_account_of_def expense_account_of_def stk_cmd_def stk_moved_def stk_state_def stk_sj_def)

lemma stk_entry_no: "je_no stk_entry = ''SJ/2525/0001''" "je_id stk_entry = ''11''"
  by (simp_all add: stk_entry_def)

lemma stk_version: "sj_version (stk_sj st m t a v no je n) = n"
  by (simp add: stk_sj_def)

lemma stk_sides:
  "sj_side_of SideOut (stk_sj st m t a v no je n) = Some (stk_line SideOut ''G'' v)"
  "sj_side_of SideIn (stk_sj st m t a v no je n) = (case t of None \<Rightarrow> None | Some g \<Rightarrow> Some (stk_line SideIn g v))"
  by (simp_all add: sj_side_of_def stk_sj_def stk_line_def split: option.split)

lemma stk_authorise: "record_negative_authorisation None None (stk_sj st m t a v no je n) = stk_sj st m t a v no je n"
  by (simp add: record_negative_authorisation_def stk_sj_def)

lemma stk_post: "post_stock_journal dec20 show_nat (erp_ports show_nat) ''4'' False None sample_actor 6 stk_approved =
    Inr ((Some ''SJ/2525/0001'', Some ''11''), stk_posted)"
proof -
  have c: "act_company sample_actor = ''C''" "act_user sample_actor = ''U''" by (simp_all add: sample_actor_def)
  have j: "inv_journals stk_approved = [stk_row (stk_sj SjApproved ISSUE None True None None None 2)]" by (simp add: stk_approved_def stk_state_def)
  have i: "sj_id (stk_sj SjApproved ISSUE None True None None None 2) = ''4''" "sj_company (stk_sj SjApproved ISSUE None True None None None 2) = ''C''"
    "sj_status (stk_sj SjApproved ISSUE None True None None None 2) = SjApproved" by (simp_all add: stk_sj_def)
  have m: "sj_mark_posted (Some ''SJ/2525/0001'') (Some ''11'') 5 20 [stk_line SideOut ''G'' (Some (5, 20))] ''U'' 6
      (stk_sj SjApproved ISSUE None True None None None 2) = Inr (stk_sj SjPosted ISSUE None True (Some (5, 20)) (Some ''SJ/2525/0001'') (Some ''11'') 2)"
    by (simp add: sj_mark_posted_def sj_assert_postable_def stk_sj_def)
  have sv: "sj_save dec20 (stk_sj SjPosted ISSUE None True (Some (5, 20)) (Some ''SJ/2525/0001'') (Some ''11'') 2) 2 stk_booked =
      Inr (stk_booked\<lparr>inv_journals := inv_journals stk_posted, db_ids := 13\<rparr>)"
    by (simp add: stk_desk stk_states2 stk_booked_def cong: rbind_weak_cong)
  have d: "db_entries stk_approved = []" "db_entries stk_posted = [stk_entry]"
    "audit_record ''POST'' ''StockJournal'' ''4'' sample_actor (stk_booked\<lparr>inv_journals := inv_journals stk_posted, db_ids := 13\<rparr>) = stk_posted"
    by (simp_all add: stk_states2 stk_booked_def audit_record_def)
  show ?thesis
    using stk_entry_balanced
    by (simp add: post_stock_journal_def uow_run_def j c stk_fields i sj_assert_postable_def stk_sides stk_authorise
        stk_out_move [of ISSUE None "[''CREATE'', ''APPROVE'']" "inv_journals stk_approved", unfolded j, folded stk_approved_def stk_moved_def]
        sj_post_in_def stk_build stk_post_ledger Let_def stk_entry_no m sv stk_version d)
qed

definition stk_back :: stock_movement where
  "stk_back = stk_mv ''14'' ''G'' SrcStockJournal ''4'' MvIn 4 20 10 50 True ''2025-07-10'' 7"

definition stk_mirrored :: inventory_db where
  "stk_mirrored = stk_state stk_periods [stk_entry] [stk_series 1] [''CREATE'', ''APPROVE'', ''POST''] 16 [stk_grn, stk_out, stk_back]
     [stk_bal ''1'' ''G'' 10 50 4] [stk_row (stk_sj SjPosted ISSUE None True (Some (5, 20)) (Some ''SJ/2525/0001'') (Some ''11'') 3)]"

definition stk_reversal :: journal_entry where
  "stk_reversal = entry_reverse stk_entry ''wrong'' ''SJ/2525/0002'' ''U'' ''16'' 7"

definition stk_unbooked :: inventory_db where
  "stk_unbooked = stk_state stk_periods [stk_entry, stk_reversal] [stk_series 2] [''CREATE'', ''APPROVE'', ''POST''] 17
     [stk_grn, stk_out, stk_back] [stk_bal ''1'' ''G'' 10 50 4]
     [stk_row (stk_sj SjPosted ISSUE None True (Some (5, 20)) (Some ''SJ/2525/0001'') (Some ''11'') 3)]"

definition stk_reversed :: inventory_db where
  "stk_reversed = stk_state stk_periods [stk_entry, stk_reversal] [stk_series 2] [''CREATE'', ''APPROVE'', ''POST'', ''CANCEL''] 18
     [stk_grn, stk_out, stk_back] [stk_bal ''1'' ''G'' 10 50 4]
     [stk_row (stk_sj SjCancelled ISSUE None True (Some (5, 20)) (Some ''SJ/2525/0001'') (Some ''11'') 4)]"

lemma stk_reverse_ledger:
  "reverse dec20 show_nat (erp_ports show_nat) ''11'' ''C'' ''wrong'' ''U'' 7 stk_mirrored = Inr (stk_reversal, stk_unbooked)"
  by code_simp

lemma stk_reversal_balanced: "balance_check stk_reversal = Inr ()"
  by code_simp

lemma stk_mirror:
  "sj_mirrors dec20 show_nat (stk_sj SjPosted ISSUE None True (Some (5, 20)) (Some ''SJ/2525/0001'') (Some ''11'') 3) sample_actor 7
     [stk_line SideOut ''G'' (Some (5, 20))] stk_posted = Inr stk_mirrored"
  by (simp add: sj_mirror_def apply_transfer_in_def sj_move_def sj_movement_def stk_eval stk_states2 stk_mirrored_def stk_back_def cong: rbind_weak_cong)

lemma stk_reverse: "reverse_stock_journal dec20 show_nat (erp_ports show_nat) ''4'' ''wrong'' sample_actor 7 stk_posted = Inr ((), stk_reversed)"
proof -
  let ?j = "stk_sj SjPosted ISSUE None True (Some (5, 20)) (Some ''SJ/2525/0001'') (Some ''11'') 3"
  let ?k = "stk_sj SjCancelled ISSUE None True (Some (5, 20)) (Some ''SJ/2525/0001'') (Some ''11'') 3"
  have c: "act_company sample_actor = ''C''" "act_user sample_actor = ''U''" by (simp_all add: sample_actor_def)
  have j: "inv_journals stk_posted = [stk_row ?j]" by (simp add: stk_posted_def stk_state_def)
  have i: "sj_id ?j = ''4''" "sj_company ?j = ''C''" "sj_status ?j = SjPosted" "sj_lines ?j = [stk_line SideOut ''G'' (Some (5, 20))]"
    "sj_journal_entry ?j = Some ''11''" "sj_mark_cancelled ?j = Inr ?k"
    by (simp_all add: stk_sj_def sj_mark_cancelled_def sj_assert_posted_def)
  have sv: "sj_save dec20 ?k 3 stk_unbooked = Inr (stk_unbooked\<lparr>inv_journals := inv_journals stk_reversed, db_ids := 18\<rparr>)"
    by (simp add: stk_desk stk_states2 stk_unbooked_def stk_reversed_def cong: rbind_weak_cong)
  have d: "db_entries stk_posted = [stk_entry]" "db_entries stk_reversed = [stk_entry, stk_reversal]"
    "audit_record ''CANCEL'' ''StockJournal'' ''4'' sample_actor (stk_unbooked\<lparr>inv_journals := inv_journals stk_reversed, db_ids := 18\<rparr>) = stk_reversed"
    by (simp_all add: stk_states2 stk_unbooked_def stk_reversed_def audit_record_def)
  show ?thesis
    using stk_reversal_balanced
    by (simp add: reverse_stock_journal_def uow_run_def j c stk_fields i sj_assert_posted_def stk_mirror [simplified] stk_reverse_ledger Let_def sv stk_version d)
qed

definition stk_drafted_t :: inventory_db where
  "stk_drafted_t = stk_state stk_periods [] [] [''CREATE''] 7 [stk_grn] [stk_bal ''1'' ''G'' 10 50 2]
     [stk_row (stk_sj SjDraft TRANSFER (Some ''H'') False None None None 1)]"

definition stk_approved_t :: inventory_db where
  "stk_approved_t = stk_state stk_periods [] [] [''CREATE'', ''APPROVE''] 9 [stk_grn] [stk_bal ''1'' ''G'' 10 50 2]
     [stk_row (stk_sj SjApproved TRANSFER (Some ''H'') True None None None 2)]"

definition stk_moves_t :: "stock_movement list" where
  "stk_moves_t = [stk_grn, stk_mv ''10'' ''G'' SrcStockJournal ''4'' MvOut 4 20 6 30 False ''2025-07-10'' 6,
     stk_mv ''13'' ''H'' SrcStockJournal ''4'' MvIn 4 20 4 20 False ''2025-07-10'' 6]"

definition stk_moved_t :: "nat \<Rightarrow> string list \<Rightarrow> sj_row \<Rightarrow> inventory_db" where
  "stk_moved_t n au r = stk_state stk_periods [] [] au n stk_moves_t [stk_bal ''1'' ''G'' 6 30 3, stk_bal ''12'' ''H'' 4 20 (Suc (Suc 0))] [r]"

definition stk_posted_t :: inventory_db where
  "stk_posted_t = stk_moved_t 17 [''CREATE'', ''APPROVE'', ''POST'']
     (stk_row (stk_sj SjPosted TRANSFER (Some ''H'') True (Some (5, 20)) None None 3))"

lemmas stk_states_t = stk_states2 stk_drafted_t_def stk_approved_t_def stk_moves_t_def stk_moved_t_def stk_posted_t_def

lemma stk_create_t: "create_stock_journal dec20 show_nat (stk_new ''TRANSFER'' (Some ''H'')) sample_actor stk_received = Inr (''4'', stk_drafted_t)"
  by (simp add: stk_desk stk_states_t cong: rbind_weak_cong)

lemma stk_approve_t: "approve_stock_journal dec20 ''4'' sample_actor 5 stk_drafted_t = Inr ((), stk_approved_t)"
  by (simp add: stk_desk stk_states_t cong: rbind_weak_cong)

lemma stk_moves_t:
  "rbind (sj_post_out dec20 show_nat (stk_sj SjApproved TRANSFER (Some ''H'') True None None None 2) (Some (stk_line SideOut ''G'' None)) False
      sample_actor 6 stk_approved_t) (\<lambda>((rate, val, outs), s1).
    rbind (sj_post_in dec20 show_nat (stk_sj SjApproved TRANSFER (Some ''H'') True None None None 2) (Some (stk_line SideIn ''H'' None)) rate val
      sample_actor 6 s1) (\<lambda>(ins, s2). f rate val outs ins s2)) =
   f 5 20 [stk_line SideOut ''G'' (Some (5, 20))] [stk_line SideIn ''H'' (Some (5, 20))]
     (stk_moved_t 15 [''CREATE'', ''APPROVE''] (stk_row (stk_sj SjApproved TRANSFER (Some ''H'') True None None None 2)))"
  by (simp add: sj_post_out_def sj_post_in_def value_issue_def apply_transfer_in_def sj_move_def sj_movement_def with_valuation_def
      stk_eval stk_states_t cong: rbind_weak_cong)

lemma stk_post_t: "post_stock_journal dec20 show_nat (erp_ports show_nat) ''4'' False None sample_actor 6 stk_approved_t = Inr ((None, None), stk_posted_t)"
proof -
  let ?j = "stk_sj SjApproved TRANSFER (Some ''H'') True None None None 2"
  let ?k = "stk_sj SjPosted TRANSFER (Some ''H'') True (Some (5, 20)) None None 2"
  let ?s = "stk_moved_t 15 [''CREATE'', ''APPROVE''] (stk_row ?j)"
  have c: "act_company sample_actor = ''C''" "act_user sample_actor = ''U''" by (simp_all add: sample_actor_def)
  have j: "inv_journals stk_approved_t = [stk_row ?j]" by (simp add: stk_approved_t_def stk_state_def)
  have i: "sj_id ?j = ''4''" "sj_company ?j = ''C''" "sj_status ?j = SjApproved" by (simp_all add: stk_sj_def)
  have m: "sj_mark_posted None None 5 20 [stk_line SideOut ''G'' (Some (5, 20)), stk_line SideIn ''H'' (Some (5, 20))] ''U'' 6 ?j = Inr ?k"
    by (simp add: sj_mark_posted_def sj_assert_postable_def stk_sj_def)
  have b: "sj_build_command ?j (Some (stk_line SideOut ''G'' None)) (Some (stk_line SideIn ''H'' None)) 20 ''U'' ?s = Inr None"
    by (simp add: sj_build_command_def inventory_account_of_def stk_moved_t_def stk_state_def stk_sj_def)
  have sv: "sj_save dec20 ?k 2 ?s = Inr (?s\<lparr>inv_journals := inv_journals stk_posted_t, db_ids := 17\<rparr>)"
    by (simp add: stk_desk stk_states_t cong: rbind_weak_cong)
  have d: "db_entries stk_approved_t = []" "db_entries stk_posted_t = []"
    "audit_record ''POST'' ''StockJournal'' ''4'' sample_actor (?s\<lparr>inv_journals := inv_journals stk_posted_t, db_ids := 17\<rparr>) = stk_posted_t"
    by (simp_all add: stk_states_t audit_record_def)
  show ?thesis
    by (simp add: post_stock_journal_def uow_run_def j c stk_fields i sj_assert_postable_def stk_sides stk_authorise stk_moves_t b m Let_def sv stk_version d)
qed

text \<open>The first step: the periods of the year are generated.\<close>

lemma stk_generate: "generate_periods show_nat ''FY'' sample_actor stk_db = Inr (stk_periods, stk_open)"
  by code_simp

end
