(* ===== verification/Stock_Properties.thy ===== *)
theory Stock_Properties
  imports Stock_Demo
begin

text \<open>
  The properties of the inventory module over every state its committed steps reach: the stock cache is
  the sum of the movement log up to rounding, stock stays non-negative without the authority to go below zero, a posted
  issue is what the ledger consumed, a transfer conserves stock, a reversal restores it, and journals
  follow their life cycle.
\<close>

section \<open>Steps\<close>

definition other_rooms :: "'a inventory_db_scheme \<Rightarrow> 'a inventory_db_scheme \<Rightarrow> bool" where
  "other_rooms s s' \<longleftrightarrow> st_movements s' = st_movements s \<and> st_balances s' = st_balances s \<and> inv_journals s' = inv_journals s"

text \<open>
  \<open>neg\<close>: whether a movement may take a balance below zero, that is an issue with the authority to do so, or the
  reversal of a receipt, which the service lets through whatever is on hand.  \<open>mir\<close>: whether journals with a receiving
  side may be reversed.  \<open>fine\<close>: whether the callers of the service only pass amounts of at most four decimals; the
  service itself checks no such thing, so the runs in general are those where \<open>fine\<close> is false.
\<close>

inductive inventory_step ::
  "bool \<Rightarrow> bool \<Rightarrow> bool \<Rightarrow> dec_lib \<Rightarrow> (nat \<Rightarrow> string) \<Rightarrow> 'a inventory_db_scheme \<Rightarrow> 'a inventory_db_scheme \<Rightarrow> bool"
  for neg mir fine D mk where
  i_create: "create_stock_journal D mk inp act s = Inr (i, s') \<Longrightarrow> inventory_step neg mir fine D mk s s'"
| i_update: "update_stock_journal D i e v act s = Inr (u, s') \<Longrightarrow> inventory_step neg mir fine D mk s s'"
| i_delete: "delete_stock_journal i act s = Inr (u, s') \<Longrightarrow> inventory_step neg mir fine D mk s s'"
| i_approve: "approve_stock_journal D i act now s = Inr (u, s') \<Longrightarrow> inventory_step neg mir fine D mk s s'"
| i_post: "post_stock_journal D mk (erp_ports mk) i allow reason act now s = Inr (x, s') \<Longrightarrow> allow \<longrightarrow> neg \<Longrightarrow>
    inventory_step neg mir fine D mk s s'"
| i_reverse: "reverse_stock_journal D mk (erp_ports mk) i reason act now s = Inr (u, s') \<Longrightarrow>
    mir \<or> (\<forall>r \<in> set (inv_journals s). sj_id (jr_journal r) = i \<longrightarrow> sj_to (jr_journal r) = None) \<Longrightarrow>
    inventory_step neg mir fine D mk s s'"
| i_receive: "receive_in D mk cx inp rate now s = Inr (avg, s') \<Longrightarrow> fine \<longrightarrow> on_grid 4 (si_qty inp) \<Longrightarrow> inventory_step neg mir fine D mk s s'"
| i_issue: "issue_out D mk cx inp allow now s = Inr (x, s') \<Longrightarrow> fine \<longrightarrow> on_grid 4 (si_qty inp) \<Longrightarrow> allow \<longrightarrow> neg \<Longrightarrow>
    inventory_step neg mir fine D mk s s'"
| i_unissue: "reverse_issue_out D mk cx inp val now s = Inr (u, s') \<Longrightarrow> fine \<longrightarrow> on_grid 4 (si_qty inp) \<and> on_grid 4 val \<Longrightarrow>
    inventory_step neg mir fine D mk s s'"
| i_unreceive: "reverse_receipt D mk cx inp now s = Inr (u, s') \<Longrightarrow> fine \<longrightarrow> on_grid 4 (si_qty inp) \<Longrightarrow> neg \<Longrightarrow>
    inventory_step neg mir fine D mk s s'"
| i_other: "erp_step D mk s s' \<Longrightarrow> other_rooms s s' \<Longrightarrow> inventory_step neg mir fine D mk s s'"

definition empty_inventory :: "'a inventory_db_scheme \<Rightarrow> bool" where
  "empty_inventory s \<longleftrightarrow> empty_db s \<and> st_movements s = [] \<and> st_balances s = [] \<and> inv_journals s = []"

text \<open>What one step does to everything the properties speak of.\<close>

definition keeps_all ::
  "bool \<Rightarrow> bool \<Rightarrow> bool \<Rightarrow> dec_lib \<Rightarrow> (nat \<Rightarrow> string) \<Rightarrow> 'a inventory_db_scheme \<Rightarrow> 'a inventory_db_scheme \<Rightarrow> bool" where
  "keeps_all neg mir fine D mk s s' \<longleftrightarrow> inventory_inv D mk s' \<and> journal_step D (inv_journals s) (inv_journals s') \<and>
     keeps_qty fine s s' \<and> (\<not> mir \<longrightarrow> keeps_value fine s s') \<and> (\<not> mir \<and> \<not> neg \<and> stock_nonneg s \<longrightarrow> stock_nonneg s')"

lemma desk_keeps:
  assumes "desk_step D s s'" and "inventory_inv D mk s" shows "keeps_all neg mir fine D mk s s'"
proof -
  from assms have q: "quiet s s'" "stock_same s s'" "journal_step D (inv_journals s) (inv_journals s')"
    and i: "erp_inv mk s" "stock_inv s" "journals_ok D s" by (auto simp: desk_step_def inventory_inv_def)
  from quiet_erp_inv [OF q(1) i(1)] journal_step_ok [OF i(3) q(3)] q i show ?thesis
    by (simp add: keeps_all_def inventory_inv_def stock_same_invs)
qed

text \<open>A movement of the service: exact when its amounts are, close otherwise.\<close>

lemma service_keeps:
  fixes s s' :: "'a inventory_db_scheme"
  assumes "near_move s q s'" and "fine \<Longrightarrow> \<exists>q. sound_move s q s'" and "inventory_inv D mk s"
    and "\<not> mir \<and> \<not> neg \<and> stock_nonneg s \<longrightarrow> stock_nonneg s'"
  shows "keeps_all neg mir fine D mk s s'"
proof -
  note m = near_move_invs [OF assms(1)]
  have j: "inv_journals s' = inv_journals s"
    using assms(1) by (intro stock_more) (simp add: near_move_def stored_move_def moved_def)
  have k: "keeps_qty fine s s'" "keeps_value fine s s'"
  proof -
    have "keeps_qty fine s s' \<and> keeps_value fine s s'"
    proof (cases fine)
      case True
      then show ?thesis using assms(2) sound_move_invs(2,5) by blast
    next
      case False
      with m(2,4) show ?thesis by simp
    qed
    then show "keeps_qty fine s s'" "keeps_value fine s s'" by blast+
  qed
  from assms(3) m quiet_erp_inv [OF m(3)] assms(4) j k show ?thesis
    by (auto simp: keeps_all_def inventory_inv_def journals_ok_def journal_step_def)
qed

context decimal_js begin

lemma inventory_step_keeps:
  assumes "inventory_step neg mir fine D mk s s'" and "inventory_inv D mk s"
  shows "keeps_all neg mir fine D mk s s'"
  using assms(1)
proof (cases rule: inventory_step.cases)
  case i_create
  from desk_keeps [OF create_stock_journal_step(1) [OF this decimal_js_axioms] assms(2)] show ?thesis .
next
  case i_update
  from desk_keeps [OF update_stock_journal_step [OF this decimal_js_axioms] assms(2)] assms(2) show ?thesis by (simp add: inventory_inv_def)
next
  case i_delete
  from desk_keeps [OF delete_stock_journal_step [OF this] assms(2)] assms(2) show ?thesis by (simp add: inventory_inv_def)
next
  case i_approve
  from desk_keeps [OF approve_stock_journal_step [OF this decimal_js_axioms] assms(2)] assms(2) show ?thesis by (simp add: inventory_inv_def)
next
  case i_post
  from post_stock_journal_step [OF i_post(1) assms(2), of fine] i_post(2) show ?thesis by (auto simp: keeps_all_def)
next
  case i_reverse
  from reverse_stock_journal_step [OF i_reverse(1) assms(2), of fine] i_reverse(2) show ?thesis by (auto simp: keeps_all_def)
next
  case (i_receive cx inp rate now avg)
  from assms(2) have inv: "stock_inv s" by (simp add: inventory_inv_def)
  note n = receive_in_near [OF i_receive(1) inv]
  from n(1) obtain q where "near_move s q s'" by blast
  then show ?thesis using receive_in_InrD [OF i_receive(1) inv] i_receive(2) n(2) by (intro service_keeps [OF _ _ assms(2)]) blast+
next
  case (i_issue cx inp allow now x)
  from assms(2) have inv: "stock_inv s" by (simp add: inventory_inv_def)
  obtain val rate i where x: "x = (val, rate, i)" by (cases x)
  note n = issue_out_near [OF i_issue(1) inv]
  from n(1) obtain q where "near_move s q s'" by blast
  then show ?thesis
    using issue_out_InrD [OF i_issue(1) [unfolded x] inv] i_issue(2,3) n(2) by (intro service_keeps [OF _ _ assms(2)]) blast+
next
  case (i_unissue cx inp val now u)
  from assms(2) have inv: "stock_inv s" by (simp add: inventory_inv_def)
  note n = reverse_issue_out_near [OF i_unissue(1) inv]
  from n(1) obtain q where "near_move s q s'" by blast
  then show ?thesis
    using reverse_issue_out_InrD [OF i_unissue(1) inv] i_unissue(2) n(2) by (intro service_keeps [OF _ _ assms(2)]) blast+
next
  case (i_unreceive cx inp now u)
  from assms(2) have inv: "stock_inv s" by (simp add: inventory_inv_def)
  from reverse_receipt_near [OF i_unreceive(1) inv] obtain q where "near_move s q s'" by blast
  then show ?thesis
    using reverse_receipt_InrD [OF i_unreceive(1) inv] i_unreceive(2,3) by (intro service_keeps [OF _ _ assms(2)]) blast+
next
  case i_other
  from assms(2) have "erp_inv mk s" by (simp add: inventory_inv_def)
  from erp_step_inv [OF decimal_js_axioms i_other(1) this] i_other(2) assms(2) stock_same_invs [OF stock_same_fields, of s' s]
  show ?thesis by (auto simp: keeps_all_def inventory_inv_def other_rooms_def journals_ok_def journal_step_def)
qed

end

lemma inventory_reachable:
  assumes "decimal_js D" and "inj mk" and "empty_inventory s0" and "rtranclp (inventory_step neg mir fine D mk) s0 s"
  shows "inventory_inv D mk s \<and> (fine \<longrightarrow> qty_inv s) \<and> qty_close s \<and> (\<not> mir \<longrightarrow> (fine \<longrightarrow> value_inv s) \<and> value_close s) \<and>
    (\<not> mir \<and> \<not> neg \<longrightarrow> stock_nonneg s)"
  using assms(4)
proof (induction rule: rtranclp_induct)
  case base
  have "bal_of s0 = (\<lambda>_. empty_balance)" using assms(3) by (auto simp: bal_of_def empty_inventory_def)
  moreover have "erp_inv mk s0" using assms(2,3) by (simp add: erp_inv_empty empty_inventory_def)
  ultimately show ?case using assms(3)
    by (simp add: inventory_inv_def stock_inv_def qty_inv_def value_inv_def qty_close_def value_close_def stock_nonneg_def balance_ok_def
        balance_nonneg_def empty_balance_def journals_ok_def empty_inventory_def)
next
  case (step t u)
  then have "inventory_inv D mk t" by simp
  from decimal_js.inventory_step_keeps [OF assms(1) step(2) this] step.IH show ?case
    by (auto simp: keeps_all_def keeps_qty_def keeps_value_def)
qed

text \<open>The run of \<open>Stock_Demo\<close> is made of steps.\<close>

lemma stk_empty: "empty_inventory stk_db"
  by (simp add: empty_inventory_def empty_db_def stk_db_def stk_state_def)

lemma stk_received_reachable: "rtranclp (inventory_step False False True dec20 show_nat) stk_db stk_received"
proof -
  have "other_rooms stk_db stk_open" by (simp add: other_rooms_def stk_open_def stk_db_def stk_state_def)
  then have "inventory_step False False True dec20 show_nat stk_db stk_open"
    by (rule i_other [OF step_period [OF step_generate [OF stk_generate]]])
  moreover have "on_grid 4 (si_qty stk_in)" by (simp add: stk_in_def on_grid_code)
  then have "inventory_step False False True dec20 show_nat stk_open stk_received" by (intro i_receive [OF stk_receive] impI)
  ultimately show ?thesis by (meson rtranclp.rtrancl_refl rtranclp.rtrancl_into_rtrancl)
qed

lemma stk_approved_reachable: "rtranclp (inventory_step False False True dec20 show_nat) stk_db stk_approved"
  by (rule rtranclp.rtrancl_into_rtrancl [OF rtranclp.rtrancl_into_rtrancl [OF stk_received_reachable i_create [OF stk_create]]
        i_approve [OF stk_approve]])

lemma stk_post_step: "inventory_step False False True dec20 show_nat stk_approved stk_posted"
  by (rule i_post [OF stk_post]) simp

lemma stk_posted_reachable: "rtranclp (inventory_step False False True dec20 show_nat) stk_db stk_posted"
  by (rule rtranclp.rtrancl_into_rtrancl [OF stk_approved_reachable stk_post_step])

lemma stk_approved_t_reachable: "rtranclp (inventory_step False False True dec20 show_nat) stk_db stk_approved_t"
  by (rule rtranclp.rtrancl_into_rtrancl [OF rtranclp.rtrancl_into_rtrancl [OF stk_received_reachable i_create [OF stk_create_t]]
        i_approve [OF stk_approve_t]])

lemma stk_rows:
  "inv_journals stk_approved = [stk_row (stk_sj SjApproved ISSUE None True None None None 2)]"
  "inv_journals stk_approved_t = [stk_row (stk_sj SjApproved TRANSFER (Some ''H'') True None None None 2)]"
  "inv_journals stk_posted = [stk_row (stk_sj SjPosted ISSUE None True (Some (5, 20)) (Some ''SJ/2525/0001'') (Some ''11'') 3)]"
  "jr_journal (stk_row j) = j" "sj_mode (stk_sj st m t a v no je n) = m" "sj_to (stk_sj st m t a v no je n) = t"
  "sj_status (stk_sj st m t a v no je n) = st" "sj_qty (stk_sj st m t a v no je n) = 4" "stk_row j = stk_row k \<longleftrightarrow> j = k"
  "db_entries stk_approved = []" "db_entries stk_posted = [stk_entry]"
  by (simp_all add: stk_approved_def stk_approved_t_def stk_posted_def stk_state_def stk_row_def stk_sj_def)

section \<open>The cache and the log\<close>

text \<open>
  C16.  The locked running balance of a godown and item is the sum of its movements.  In every run it is off by at most
  one unit of the last stored digit per movement of that godown and item, because the service rounds the balance after
  adding an amount it has not rounded; and in every run whose callers pass amounts of at most four decimals it is the
  sum exactly.  It always fits its column.
\<close>
theorem stock_cache_is_movement_sum:
  assumes "decimal_js D" and "inj mk" and "empty_inventory s0" and "rtranclp (inventory_step neg mir fine D mk) s0 s"
  shows "num18_4 (bal_qty (bal_of s k)) \<and>
    \<bar>bal_qty (bal_of s k) - on_hand k (st_movements s)\<bar> * 10 ^ 4 \<le> of_nat (moves_of k (st_movements s)) \<and>
    (fine \<longrightarrow> bal_qty (bal_of s k) = on_hand k (st_movements s))"
proof -
  from inventory_reachable [OF assms] have i: "stock_inv s" "fine \<longrightarrow> qty_inv s" "qty_close s" by (simp_all add: inventory_inv_def)
  from i(1) have "balance_ok (bal_of s k)" by (simp only: stock_inv_def)
  then have "num18_4 (bal_qty (bal_of s k))" by (simp add: balance_ok_def)
  moreover have "\<bar>bal_qty (bal_of s k) - on_hand k (st_movements s)\<bar> * 10 ^ 4 \<le> of_nat (moves_of k (st_movements s))"
    using i(3) unfolding qty_close_def by blast
  moreover have "fine \<longrightarrow> bal_qty (bal_of s k) = on_hand k (st_movements s)" using i(2) unfolding qty_inv_def by blast
  ultimately show ?thesis by blast
qed

theorem stock_cache_is_movement_sum_witness:
  "on_hand (''C'', ''G'', ''I'') (st_movements stk_posted) = 6"
proof -
  have "bal_qty (bal_of stk_posted (''C'', ''G'', ''I'')) = 6"
    by (simp add: bal_of_def stk_posted_def stk_state_def stk_bal_def sb_key_def)
  with stock_cache_is_movement_sum [OF decimal_js_dec20 inj_show_nat stk_empty stk_posted_reachable] show ?thesis by metis
qed

text \<open>
  The bound is met: of ten units on hand an issue of 2.00005 leaves a balance of 8.0000, although the movement it writes
  is of 2.0001.
\<close>

lemma rounding_drifts:
  "to_dp dec20 4 (d_minus dec20 10 (200005 / 100000)) = 8" "to_dp dec20 4 (200005 / 100000) = 20001 / 10000"
  by code_simp+

text \<open>
  C17.  As long as no journal with a receiving side is reversed, the value of a balance is the sum of the
  values of its movements too: to one unit of the last stored digit per movement in every run, exactly when the callers
  pass amounts of at most four decimals.  And as long as no issue uses the authority to go below zero and no receipt is
  reversed, neither the quantity nor the value of any balance is ever negative, whatever the callers pass.
\<close>
theorem stock_value_reconciles_and_stays_nonnegative:
  assumes "decimal_js D" and "inj mk" and "empty_inventory s0" and "rtranclp (inventory_step neg False fine D mk) s0 s"
  shows "\<bar>bal_value (bal_of s k) - stock_worth k (st_movements s)\<bar> * 10 ^ 4 \<le> of_nat (moves_of k (st_movements s)) \<and>
    (fine \<longrightarrow> bal_value (bal_of s k) = stock_worth k (st_movements s)) \<and>
    (\<not> neg \<longrightarrow> 0 \<le> bal_qty (bal_of s k) \<and> 0 \<le> bal_value (bal_of s k) \<and>
       (fine \<longrightarrow> 0 \<le> on_hand k (st_movements s) \<and> 0 \<le> stock_worth k (st_movements s)))"
proof -
  from inventory_reachable [OF assms] have i: "fine \<longrightarrow> qty_inv s" "fine \<longrightarrow> value_inv s" "value_close s" "\<not> neg \<longrightarrow> stock_nonneg s" by simp_all
  have "\<bar>bal_value (bal_of s k) - stock_worth k (st_movements s)\<bar> * 10 ^ 4 \<le> of_nat (moves_of k (st_movements s))"
    using i(3) unfolding value_close_def by blast
  moreover have e: "fine \<longrightarrow> bal_value (bal_of s k) = stock_worth k (st_movements s)" "fine \<longrightarrow> bal_qty (bal_of s k) = on_hand k (st_movements s)"
    using i(1,2) unfolding qty_inv_def value_inv_def by blast+
  moreover have "\<not> neg \<longrightarrow> balance_nonneg (bal_of s k)" using i(4) unfolding stock_nonneg_def by blast
  ultimately show ?thesis unfolding balance_nonneg_def by (metis (no_types))
qed

theorem stock_value_reconciles_and_stays_nonnegative_witness:
  "stock_worth (''C'', ''G'', ''I'') (st_movements stk_posted) = 30 \<and> 0 \<le> on_hand (''C'', ''G'', ''I'') (st_movements stk_posted)"
proof -
  have "bal_value (bal_of stk_posted (''C'', ''G'', ''I'')) = 30"
    by (simp add: bal_of_def stk_posted_def stk_state_def stk_bal_def sb_key_def)
  with stock_value_reconciles_and_stays_nonnegative [OF decimal_js_dec20 inj_show_nat stk_empty stk_posted_reachable] show ?thesis by metis
qed

text \<open>
  C18.  One committed step changes at most one stock journal, in place, and only along its life cycle: a
  draft is edited, approved or deleted, an approved journal is posted on the terms that were approved, a
  posted one is cancelled with nothing else changed, and no step follows a cancellation; no journal is lost.
\<close>
theorem stock_journal_life_cycle:
  assumes "decimal_js D" and "inj mk" and "empty_inventory s0" and "rtranclp (inventory_step neg mir fine D mk) s0 s"
    and "inventory_step neg mir fine D mk s s'"
  shows "length (inv_journals s) \<le> length (inv_journals s') \<and>
    (\<forall>n < length (inv_journals s). inv_journals s' ! n = inv_journals s ! n \<or> row_follows (inv_journals s ! n) (inv_journals s' ! n)) \<and>
    (\<forall>n < length (inv_journals s'). length (inv_journals s) \<le> n \<longrightarrow> sj_status (jr_journal (inv_journals s' ! n)) = SjDraft)"
proof -
  from inventory_reachable [OF assms(1-4)] have "inventory_inv D mk s" by simp
  from decimal_js.inventory_step_keeps [OF assms(1,5) this] have "journal_step D (inv_journals s) (inv_journals s')" by (simp add: keeps_all_def)
  then show ?thesis unfolding journal_step_def
  proof (elim disjE bexE exE conjE)
    fix r r' assume "inv_journals s' = put_row r r' (inv_journals s)" "row_follows r r'"
    then show ?thesis by (auto simp: put_row_def)
  qed (auto simp: nth_append)
qed

theorem stock_journal_life_cycle_witness:
  "row_follows (stk_row (stk_sj SjApproved ISSUE None True None None None 2))
     (stk_row (stk_sj SjPosted ISSUE None True (Some (5, 20)) (Some ''SJ/2525/0001'') (Some ''11'') 3))"
proof -
  have "stk_sj SjPosted ISSUE None True (Some (5, 20)) (Some ''SJ/2525/0001'') (Some ''11'') 3 \<noteq> stk_sj SjApproved ISSUE None True None None None 2"
    by (simp add: stk_sj_def)
  with stock_journal_life_cycle [OF decimal_js_dec20 inj_show_nat stk_empty stk_approved_reachable stk_post_step]
  show ?thesis by (simp add: stk_rows)
qed

section \<open>Issues, transfers and their reversals\<close>

lemma sj_command_lines [simp]: "pc_lines (sj_command j ls who) = ls" "pc_source_id (sj_command j ls who) = sj_id j"
  "pc_company (sj_command j ls who) = sj_company j" "pc_source_type (sj_command j ls who) = ''STOCK_JOURNAL''"
  by (simp_all add: sj_command_def)

lemma sj_posting_line_simps [simp]:
  "pl_account (sj_posting_line acc l dr cr ty) = acc" "pl_debit (sj_posting_line acc l dr cr ty) = dr"
  "pl_credit (sj_posting_line acc l dr cr ty) = cr"
  by (simp_all add: sj_posting_line_def dim_line_def)

context decimal_js begin

text \<open>Posting a journal with a giving side only.\<close>

lemma post_out_only:
  fixes s s' :: "'a inventory_db_scheme"
  assumes "post_stock_journal D mk (erp_ports mk) i allow reason act now s = Inr (x, s')" and "inventory_inv D mk s"
    and "\<forall>r \<in> set (inv_journals s). sj_id (jr_journal r) = i \<longrightarrow> sj_to (jr_journal r) = None"
  obtains j l rate val q e inv_acc exp_acc r r' and s2 s3 :: "'a inventory_db_scheme" where
    "r \<in> set (inv_journals s)" and "jr_journal r = j" and "sj_id j = i" and "sj_company j = act_company act"
    and "sound_move s q s2" and "mv_key q = sj_key act l" and "mv_direction q = MvOut" and "mv_value q = val" and "mv_quantity q = ln_qty l"
    and "mv_source_id q = i" and "on_grid 4 val" and "0 \<le> val"
    and "\<exists>b. value_issue D (bal_of s (mv_key q)) (mv_quantity q) allow = Inr b \<and> is_value b = val"
    and "inventory_account_of (act_company act) (sj_item j) (inv_items s) = Inr inv_acc"
    and "expense_account_of (act_company act) (inv_accounts s) = Inr exp_acc"
    and "post D mk (erp_ports mk) (sj_command (record_negative_authorisation (if allow then Some (act_user act) else None)
        (if allow then reason else None) j)
      [sj_posting_line exp_acc l val 0 EXPENSE, sj_posting_line inv_acc l 0 val ASSET] (act_user act)) now s2 = Inr (e, s3)"
    and "stock_same s2 s'" and "db_entries s' = db_entries s3" and "inv_journals s' = put_row r r' (inv_journals s)"
    and "sj_id (jr_journal r') = i" and "sj_company (jr_journal r') = act_company act" and "sj_journal_entry (jr_journal r') = Some (je_id e)"
    and "sj_lines (jr_journal r') = [stored_sj_line D (with_valuation rate val l)]" and "ln_side l = SideOut"
    and "on_grid 3 (ln_qty l)" and "db_entries s2 = db_entries s"
proof -
  from assms(2) have inv: "stock_inv s" and jo: "journals_ok D s" by (auto simp: inventory_inv_def)
  show ?thesis
  proof (rule post_stock_journal_InrE [OF decimal_js_axioms assms(1) jo])
    fix r :: sj_row and j outs ins rate val and s1 s2 s3 :: "'a inventory_db_scheme" and cmd entry and r' :: sj_row
    let ?k = "record_negative_authorisation (if allow then Some (act_user act) else None) (if allow then reason else None) j"
    assume r: "r \<in> set (inv_journals s)" "jr_journal r = j" "sj_id j = i" "sj_company j = act_company act"
      and o: "sj_post_out D mk ?k (sj_side_of SideOut j) allow act now s = Inr ((rate, val, outs), s1)"
      and n: "sj_post_in D mk ?k (sj_side_of SideIn j) rate val act now s1 = Inr (ins, s2)"
      and c: "sj_build_command ?k (sj_side_of SideOut j) (sj_side_of SideIn j) val (act_user act) s2 = Inr cmd"
      and p: "case cmd of None \<Rightarrow> s3 = s2 \<and> entry = None | Some c \<Rightarrow> (\<exists>e. post D mk (erp_ports mk) c now s2 = Inr (e, s3) \<and> entry = Some e)"
      and s': "\<exists>tbl n. s' = audit_record ''POST'' ''StockJournal'' i act (s3\<lparr>inv_journals := tbl, db_ids := db_ids s3 + n\<rparr>)"
      and tb: "inv_journals s3 = inv_journals s \<Longrightarrow> inv_journals s' = put_row r r' (inv_journals s)"
      and je: "sj_journal_entry (jr_journal r') = map_option je_id entry"
      and ln: "sj_lines (jr_journal r') = map (stored_sj_line D) (outs @ ins)" and fo: "row_follows r r'"
    from jo r have ok: "sj_ok j" by (auto simp: journals_ok_def sj_row_ok_def)
    obtain os "is" where l: "sj_lines j = os @ is" "side_lines_ok SideOut (sj_from j) j os" "side_lines_ok SideIn (sj_to j) j is"
      and g: "\<forall>l \<in> set (sj_lines j). ln_qty l = sj_qty j \<and> on_grid 4 (ln_qty l)" by (rule sj_ok_lines [OF ok])
    note side = sj_side_of_shape [OF l]
    have t: "sj_to j = None" using bspec [OF assms(3) r(1)] r(2,3) by simp
    have "sides_check (sj_mode j) (sj_from j) None = Inr ()" using ok t by (simp add: sj_ok_def)
    then obtain g0 where f: "sj_from j = Some g0" by (cases "sj_mode j"; cases "sj_from j") (auto simp: sides_check_def rbind_eq_Inr)
    with l(2) obtain ol where ol: "os = [ol]" "line_for SideOut g0 j ol" by (auto simp: side_lines_ok_def)
    have so: "sj_side_of SideOut j = Some ol" "sj_side_of SideIn j = None" using side f t ol by simp_all
    have ni: "ins = []" "s2 = s1" using n so by (simp_all add: sj_post_in_def)
    have gq: "on_grid 4 (ln_qty ol)" using g unfolding l(1) ol(1) by (metis append_Cons list.set_intros(1))
    note e = sj_post_out_effect [OF o [unfolded so] inv gq]
    from e(1) obtain q b where q: "sound_move s q s2" "mv_key q = sj_key act ol" "mv_direction q = MvOut" "mv_quantity q = ln_qty ol"
      "mv_value q = val" "mv_source_id q = sj_id ?k" "value_issue D (bal_of s (sj_key act ol)) (ln_qty ol) allow = Inr b" "is_value b = val"
      unfolding ni(2) by blast
    have more: "stock_db.more s2 = stock_db.more s" "db_entries s2 = db_entries s"
      using q(1) by (auto simp: sound_move_def qty_move_def moved_def quiet_def)
    from c so obtain inv_acc exp_acc where acc: "inventory_account_of (sj_company ?k) (sj_item ?k) (inv_items s2) = Inr inv_acc"
        "expense_account_of (sj_company ?k) (inv_accounts s2) = Inr exp_acc"
      and cmd: "cmd = Some (sj_command ?k [sj_posting_line exp_acc ol val 0 EXPENSE, sj_posting_line inv_acc ol 0 val ASSET] (act_user act))"
      by (auto simp: sj_build_command_def elim!: rbindE)
    from p cmd obtain en where en: "post D mk (erp_ports mk) (sj_command ?k [sj_posting_line exp_acc ol val 0 EXPENSE,
        sj_posting_line inv_acc ol 0 val ASSET] (act_user act)) now s2 = Inr (en, s3)" "entry = Some en" by auto
    have m3: "db.more s3 = db.more s2" by (rule post_appends(1) [OF en(1)])
    have j3: "inv_journals s3 = inv_journals s" using inventory_more(8) [OF m3] stock_more(5) [OF more(1)] by simp
    show ?thesis
    proof (rule that [OF r q(1,2,3,5,4)])
      show "stock_same s2 s'" using s' inventory_more(1,2) [OF m3] by (auto intro!: stock_same_fields)
      show "db_entries s' = db_entries s3" using s' by auto
      show "inv_journals s' = put_row r r' (inv_journals s)" by (rule tb [OF j3])
      show "sj_journal_entry (jr_journal r') = Some (je_id en)" using je en(2) by simp
      show "sj_lines (jr_journal r') = [stored_sj_line D (with_valuation rate val ol)]" using ln e(2) ni by simp
      show "sj_id (jr_journal r') = i" "sj_company (jr_journal r') = act_company act" using fo r by (simp_all add: row_follows_def Let_def)
      show "ln_side ol = SideOut" "on_grid 3 (ln_qty ol)" using ol(2) ok by (simp_all add: line_for_def sj_ok_def)
      show "inventory_account_of (act_company act) (sj_item j) (inv_items s) = Inr inv_acc"
        "expense_account_of (act_company act) (inv_accounts s) = Inr exp_acc"
        using acc r(4) stock_more(1,2) [OF more(1)] by simp_all
      show "post D mk (erp_ports mk) (sj_command ?k [sj_posting_line exp_acc ol val 0 EXPENSE,
        sj_posting_line inv_acc ol 0 val ASSET] (act_user act)) now s2 = Inr (en, s3)" by (rule en(1))
    qed (use q e r more in auto)
  qed
qed

end

context decimal_js begin

lemma issue_entry:
  assumes "post D mk (erp_ports mk) (sj_command k [sj_posting_line exp_acc l val 0 EXPENSE, sj_posting_line inv_acc l 0 val ASSET] who)
      now s2 = Inr (e, s3)" and "on_grid 4 val"
  shows "db_entries s3 = db_entries s2 @ [stored_entry D e]" and "je_source_id e = sj_id k" and "je_company e = sj_company k"
    and "entry_net Q (stored_entry D e) = net_of Q [sj_posting_line exp_acc l val 0 EXPENSE, sj_posting_line inv_acc l 0 val ASSET]"
  using post_appends [OF assms(1)] stored_post_lines [OF assms(1)] assms(2)
  by (simp_all add: pl_grid_def entry_net_lines)

end

text \<open>
  C19.  Posting an issue consumes stock and books the consumption as one: it appends one outgoing movement
  and one ledger entry of the same journal, and the entry moves exactly the value of the movement from the
  inventory account of the item to the material expense account.  That value is positive: an issue of stock
  that is worth nothing cannot be posted.
\<close>
theorem issue_is_what_the_ledger_consumed:
  fixes s s' :: "'a inventory_db_scheme"
  assumes "decimal_js D" and "inj mk" and "empty_inventory s0" and "rtranclp (inventory_step neg mir fine D mk) s0 s"
    and "post_stock_journal D mk (erp_ports mk) i allow reason act now s = Inr (x, s')"
    and "\<forall>r \<in> set (inv_journals s). sj_id (jr_journal r) = i \<longrightarrow> sj_mode (jr_journal r) = ISSUE"
  shows "\<exists>r m e inv_acc exp_acc. r \<in> set (inv_journals s) \<and> sj_id (jr_journal r) = i \<and>
    st_movements s' = st_movements s @ [m] \<and> db_entries s' = db_entries s @ [e] \<and>
    mv_direction m = MvOut \<and> mv_source_id m = i \<and> je_source_id e = i \<and> 0 < mv_value m \<and>
    inventory_account_of (act_company act) (sj_item (jr_journal r)) (inv_items s) = Inr inv_acc \<and>
    expense_account_of (act_company act) (inv_accounts s) = Inr exp_acc \<and>
    (\<forall>acc. entry_net (\<lambda>l. jl_account l = acc) e =
      (if acc = exp_acc then mv_value m else 0) - (if acc = inv_acc then mv_value m else 0))"
proof -
  from inventory_reachable [OF assms(1-4)] have inv: "inventory_inv D mk s" by simp
  have to: "\<forall>r \<in> set (inv_journals s). sj_id (jr_journal r) = i \<longrightarrow> sj_to (jr_journal r) = None"
  proof (intro ballI impI)
    fix r assume r: "r \<in> set (inv_journals s)" "sj_id (jr_journal r) = i"
    with inv have "sj_ok (jr_journal r)" by (simp add: inventory_inv_def journals_ok_def sj_row_ok_def)
    moreover from r assms(6) have "sj_mode (jr_journal r) = ISSUE" by simp
    ultimately show "sj_to (jr_journal r) = None"
      by (cases "sj_to (jr_journal r)") (auto simp: sj_ok_def sides_check_def rbind_eq_Inr side_lines_ok_def split: option.splits)
  qed
  show ?thesis
  proof (rule decimal_js.post_out_only [OF assms(1,5) inv to])
    fix j l rate val q e inv_acc exp_acc r and s2 s3 :: "'a inventory_db_scheme"
    let ?k = "record_negative_authorisation (if allow then Some (act_user act) else None) (if allow then reason else None) j"
    assume r: "r \<in> set (inv_journals s)" "jr_journal r = j" "sj_id j = i"
      and q: "sound_move s q s2" "mv_direction q = MvOut" "mv_value q = val" "mv_source_id q = i" and g: "on_grid 4 val" "0 \<le> val"
      and acc: "inventory_account_of (act_company act) (sj_item j) (inv_items s) = Inr inv_acc"
        "expense_account_of (act_company act) (inv_accounts s) = Inr exp_acc"
      and p: "post D mk (erp_ports mk) (sj_command ?k [sj_posting_line exp_acc l val 0 EXPENSE, sj_posting_line inv_acc l 0 val ASSET]
        (act_user act)) now s2 = Inr (e, s3)"
      and st: "stock_same s2 s'" and en: "db_entries s' = db_entries s3" "db_entries s2 = db_entries s"
    note ie = decimal_js.issue_entry [OF assms(1) p g(1)]
    have "row_ok (stored_entry D e)"
      using decimal_js.post_stock_journal_step [OF assms(1,5) inv] en(1) ie(1)
      by (simp add: inventory_inv_def erp_inv_def ledger_core_def)
    moreover have "je_lines (stored_entry D e) = lines_of [sj_posting_line exp_acc l val 0 EXPENSE, sj_posting_line inv_acc l 0 val ASSET]"
      using decimal_js.stored_post_lines [OF assms(1) p] g(1) by (simp add: pl_grid_def)
    ultimately have pos: "0 < mv_value q" using g(2) q(3) by (auto simp: row_ok_def lines_of_def jl_ok_def)
    have "st_movements s' = st_movements s @ [q]" using q(1) st by (simp add: sound_move_def qty_move_def moved_def stock_same_def)
    moreover have "entry_net (\<lambda>l. jl_account l = acc) (stored_entry D e) =
      (if acc = exp_acc then mv_value q else 0) - (if acc = inv_acc then mv_value q else 0)" for acc
      unfolding ie(4) net_of_account by (simp add: q(3))
    ultimately show ?thesis using r q acc en ie(1,2) pos
      by (intro exI [of _ r] exI [of _ q] exI [of _ "stored_entry D e"] exI [of _ inv_acc] exI [of _ exp_acc]) simp
  qed
qed

theorem issue_is_what_the_ledger_consumed_witness:
  "\<exists>m. st_movements stk_posted = st_movements stk_approved @ [m] \<and> 0 < mv_value m \<and>
    entry_net (\<lambda>l. jl_account l = ''EXP'') stk_entry = mv_value m"
proof -
  have m: "\<forall>r \<in> set (inv_journals stk_approved). sj_id (jr_journal r) = ''4'' \<longrightarrow> sj_mode (jr_journal r) = ISSUE"
    by (simp add: stk_rows)
  have a: "expense_account_of (act_company sample_actor) (inv_accounts stk_approved) = Inr ''EXP''"
    "inventory_account_of (act_company sample_actor) i (inv_items stk_approved) = Inr y \<Longrightarrow> y = ''INV''" for i y
    by (auto simp: expense_account_of_def inventory_account_of_def sample_actor_def stk_approved_def stk_state_def split: if_splits)
  from issue_is_what_the_ledger_consumed [OF decimal_js_dec20 inj_show_nat stk_empty stk_approved_reachable stk_post m]
  show ?thesis by (auto simp: stk_rows a(1) dest!: a(2))
qed

lemma post_id_range: "post D mk P cmd now s = Inr (e, s') \<Longrightarrow> \<exists>n. je_id e = mk n"
  by (auto elim!: post_InrE dest!: entry_create_InrD)

text \<open>
  C20.  Reversing a posted journal that only gave stock out restores the books: the balance of every godown
  and item is what it was before the posting, and no selection of ledger lines that ignores sides has a
  different net.
\<close>
theorem reversal_restores_stock_and_ledger:
  fixes s s1 s2 :: "'a inventory_db_scheme"
  assumes "decimal_js D" and "inj mk" and "\<forall>n. mk n \<noteq> []" and "empty_inventory s0"
    and "rtranclp (inventory_step neg mir fine D mk) s0 s"
    and "post_stock_journal D mk (erp_ports mk) i allow reason act now s = Inr (x, s1)"
    and "reverse_stock_journal D mk (erp_ports mk) i why act' now' s1 = Inr (u, s2)"
    and "\<forall>r \<in> set (inv_journals s). sj_id (jr_journal r) = i \<longrightarrow> sj_to (jr_journal r) = None"
  shows "bal_of s2 = bal_of s \<and> (\<forall>Q. swap_free Q \<longrightarrow> ledger_net Q (db_entries s2) = ledger_net Q (db_entries s))"
proof -
  from inventory_reachable [OF assms(1,2,4,5)] have inv: "inventory_inv D mk s" by simp
  from decimal_js.post_stock_journal_step [OF assms(1,6) inv] have inv1: "inventory_inv D mk s1" by simp
  then have e1: "erp_inv mk s1" and st1: "stock_inv s1" and jo1: "journals_ok D s1" by (simp_all add: inventory_inv_def)
  show ?thesis
  proof (rule decimal_js.post_out_only [OF assms(1,6) inv assms(8)])
    fix j l rate val q e inv_acc exp_acc r r' and t t3 :: "'a inventory_db_scheme"
    let ?k = "record_negative_authorisation (if allow then Some (act_user act) else None) (if allow then reason else None) j"
    let ?ls = "[sj_posting_line exp_acc l val 0 EXPENSE, sj_posting_line inv_acc l 0 val ASSET]"
    assume r: "r \<in> set (inv_journals s)" "jr_journal r = j" "sj_id j = i" "sj_company j = act_company act"
      and q: "sound_move s q t" "mv_key q = sj_key act l" "mv_direction q = MvOut" "mv_value q = val" "mv_quantity q = ln_qty l"
      and g: "on_grid 4 val" "0 \<le> val"
      and p: "post D mk (erp_ports mk) (sj_command ?k ?ls (act_user act)) now t = Inr (e, t3)"
      and st: "stock_same t s1" and en: "db_entries s1 = db_entries t3" "db_entries t = db_entries s"
      and tb: "inv_journals s1 = put_row r r' (inv_journals s)" and r': "sj_id (jr_journal r') = i" "sj_company (jr_journal r') = act_company act"
        "sj_journal_entry (jr_journal r') = Some (je_id e)" "sj_lines (jr_journal r') = [stored_sj_line D (with_valuation rate val l)]"
      and side: "ln_side l = SideOut" and gq: "on_grid 3 (ln_qty l)"
    note ie = decimal_js.issue_entry [OF assms(1) p g(1)]
    have b1: "bal_of s1 = (bal_of s)(sj_key act l := \<lparr>bal_qty = mv_qty_after q, bal_value = mv_value_after q\<rparr>)"
      using q st by (simp add: sound_move_def qty_move_def moved_def stock_same_def)
    have r'in: "r' \<in> set (inv_journals s1)" using r(1) by (auto simp: tb put_row_def)
    show ?thesis
    proof (rule decimal_js.reverse_stock_journal_InrE [OF assms(1,7) jo1])
      fix r2 j2 and m1 m2 :: "'a inventory_db_scheme"
      assume r2: "r2 \<in> set (inv_journals s1)" "jr_journal r2 = j2" "sj_id j2 = i" "sj_company j2 = act_company act'"
        and m: "sj_mirrors D mk j2 act' now' (sj_lines j2) s1 = Inr m1"
        and rv: "if truthy (sj_journal_entry j2)
         then (\<exists>e. reverse D mk (erp_ports mk) (the (sj_journal_entry j2)) (act_company act') why (act_user act') now' m1 = Inr (e, m2)) else m2 = m1"
        and s2: "\<exists>tbl n. s2 = audit_record ''CANCEL'' ''StockJournal'' i act' (m2\<lparr>inv_journals := tbl, db_ids := db_ids m2 + n\<rparr>)"
      have "r2 = r'" using row_of_id [OF _ r2(1) r'in] jo1 r2(2,3) r'(1) by (simp add: journals_ok_def)
      then have j2: "j2 = jr_journal r'" using r2(2) by simp
      let ?l = "stored_sj_line D (with_valuation rate val l)"
      have lf: "ln_value ?l = Some val" "ln_qty ?l = ln_qty l" "ln_side ?l = SideOut" "ln_godown ?l = ln_godown l" "ln_item ?l = ln_item l"
        using decimal_js.to_dp_id [OF assms(1)] g gq side by (simp_all add: stored_sj_line_def with_valuation_def)
      have co: "act_company act' = act_company act" using r2(4) r'(2) j2 by simp
      have m': "sj_mirror D mk j2 act' now' ?l s1 = Inr m1" using m r'(4) by (auto simp: j2 elim!: rbindE)
      have vl: "line_valued ?l" using g lf(1) by (auto simp: line_valued_def stored_sj_line_def with_valuation_def)
      have gl: "on_grid 4 (ln_qty ?l)" unfolding lf(2) by (rule on_grid_mono [OF gq]) simp
      from decimal_js.sj_mirror_effect [OF assms(1) m' st1 gl vl] lf co
      obtain q2 where q2: "sound_move s1 q2 m1" "mv_key q2 = sj_key act l" "mv_direction q2 = MvIn" "mv_quantity q2 = ln_qty l" "mv_value q2 = val"
        by (auto simp: sj_key_def)
      have b2: "bal_of m1 = bal_of s"
      proof
        fix k
        show "bal_of m1 k = bal_of s k"
          using q q2 b1 by (cases "k = sj_key act l")
            (auto simp: sound_move_def qty_move_def moved_def carries_qty_def carries_value_def signed_quantity_def signed_value_def)
      qed
      have tr: "truthy (sj_journal_entry j2)" and id: "the (sj_journal_entry j2) = je_id e"
        using post_id_range [OF p] assms(3) by (auto simp: j2 r'(3)) metis
      with rv obtain e2 where e2: "reverse D mk (erp_ports mk) (je_id e) (act_company act') why (act_user act') now' m1 = Inr (e2, m2)" by auto
      have ents: "db_entries m1 = db_entries s @ [stored_entry D e]"
        using q2(1) en ie(1) by (auto simp: sound_move_def qty_move_def moved_def quiet_def)
      show ?thesis
      proof (rule reverse_appends [OF e2])
        fix o' assume o: "o' \<in> set (db_entries m1)" "je_id o' = je_id e" and more: "db.more m2 = db.more m1"
          and app: "db_entries m2 = db_entries m1 @ [stored_entry D e2]" and rev: "\<exists>no j. e2 = entry_reverse o' why no (act_user act') j now'"
        have d: "distinct (map je_id (db_entries m1))" "\<forall>e \<in> set (db_entries m1). row_ok e"
          using e1 ents en ie(1) by (simp_all add: erp_inv_def ledger_core_def)
        have "o' = stored_entry D e"
          by (rule distinct_map_inj [OF d(1) o(1)]) (simp_all add: ents o(2) stored_entry_def)
        with d(2) o(1) rev have "entry_net Q (stored_entry D e2) = - entry_net Q (stored_entry D e)" if "swap_free Q" for Q
          using decimal_js.reversal_net [OF assms(1) _ that] by metis
        moreover have "db_entries s2 = db_entries m2" using s2 by auto
        moreover have "bal_of s2 = bal_of m2" using s2 by (auto intro!: bal_of_cong)
        moreover have "bal_of m2 = bal_of m1" using inventory_more(2) [OF more] by (rule bal_of_cong)
        ultimately show ?thesis using b2 by (simp add: app ents)
      qed
    qed
  qed
qed

theorem reversal_restores_stock_and_ledger_witness:
  "bal_of stk_reversed = bal_of stk_approved"
proof -
  have "\<forall>r \<in> set (inv_journals stk_approved). sj_id (jr_journal r) = ''4'' \<longrightarrow> sj_to (jr_journal r) = None"
    by (simp add: stk_rows)
  from reversal_restores_stock_and_ledger [OF decimal_js_dec20 inj_show_nat allI [OF show_nat_nonempty] stk_empty stk_approved_reachable stk_post
      stk_reverse this] show ?thesis by blast
qed

lemma sum_list_swap:
  fixes f g :: "'g \<Rightarrow> rat"
  assumes "distinct gs" and "a \<in> set gs" and "b \<in> set gs" and "a \<noteq> b"
    and "g a = f a - d" and "g b = f b + d" and "\<And>x. x \<noteq> a \<Longrightarrow> x \<noteq> b \<Longrightarrow> g x = f x"
  shows "sum_list (map g gs) = sum_list (map f gs)"
proof -
  have "sum_list (map h gs) = h a + (h b + sum h (set gs - {a, b}))" for h :: "'g \<Rightarrow> rat"
  proof -
    have s: "set gs = insert a (insert b (set gs - {a, b}))" using assms(2,3) by blast
    have "sum h (set gs) = h a + (h b + sum h (set gs - {a, b}))" using assms(4) by (subst s) (simp del: insert_Diff_single)
    with assms(1) show ?thesis by (simp add: sum_list_distinct_conv_sum_set)
  qed
  moreover have "sum g (set gs - {a, b}) = sum f (set gs - {a, b})" using assms(7) by (intro sum.cong) auto
  ultimately show ?thesis using assms(5,6) by simp
qed

text \<open>What posting a transfer does, in terms of the journal it posts.\<close>

lemma transfer_effect:
  fixes s s' :: "'a inventory_db_scheme"
  assumes "decimal_js D" and inv: "stock_inv s" and jo: "journals_ok D s"
    and "post_stock_journal D mk (erp_ports mk) i allow reason act now s = Inr (x, s')"
    and "\<forall>r \<in> set (inv_journals s). sj_id (jr_journal r) = i \<longrightarrow> sj_mode (jr_journal r) = TRANSFER"
  obtains r f t w where "r \<in> set (inv_journals s)" and "sj_id (jr_journal r) = i" and "sj_company (jr_journal r) = act_company act"
    and "sj_from (jr_journal r) = Some f" and "sj_to (jr_journal r) = Some t" and "f \<noteq> t" and "0 \<le> is_value w"
    and "value_issue D (bal_of s (act_company act, f, sj_item (jr_journal r))) (sj_qty (jr_journal r)) allow = Inr w"
    and "bal_of s' = (let n = sj_qty (jr_journal r); a = (act_company act, f, sj_item (jr_journal r)); b = (act_company act, t, sj_item (jr_journal r)) in (bal_of s)
        (a := \<lparr>bal_qty = bal_qty (bal_of s a) - n, bal_value = bal_value (bal_of s a) - is_value w\<rparr>,
         b := \<lparr>bal_qty = bal_qty (bal_of s b) + n, bal_value = bal_value (bal_of s b) + is_value w\<rparr>))"
    and "x = (None, None)" and "db_entries s' = db_entries s" and "db_series s' = db_series s"
proof (rule post_stock_journal_InrE [OF assms(1,4) jo])
  fix r :: sj_row and j outs ins rate val and s1 s2 s3 :: "'a inventory_db_scheme" and cmd entry and r' :: sj_row
  let ?k = "record_negative_authorisation (if allow then Some (act_user act) else None) (if allow then reason else None) j"
  assume r: "r \<in> set (inv_journals s)" "jr_journal r = j" "sj_id j = i" "sj_company j = act_company act"
    and o: "sj_post_out D mk ?k (sj_side_of SideOut j) allow act now s = Inr ((rate, val, outs), s1)"
    and n: "sj_post_in D mk ?k (sj_side_of SideIn j) rate val act now s1 = Inr (ins, s2)"
    and c: "sj_build_command ?k (sj_side_of SideOut j) (sj_side_of SideIn j) val (act_user act) s2 = Inr cmd"
    and p: "case cmd of None \<Rightarrow> s3 = s2 \<and> entry = None | Some c \<Rightarrow> (\<exists>e. post D mk (erp_ports mk) c now s2 = Inr (e, s3) \<and> entry = Some e)"
    and s': "\<exists>tbl n. s' = audit_record ''POST'' ''StockJournal'' i act (s3\<lparr>inv_journals := tbl, db_ids := db_ids s3 + n\<rparr>)"
    and x: "x = (map_option je_no entry, map_option je_id entry)"
  from jo r have ok: "sj_ok j" by (auto simp: journals_ok_def sj_row_ok_def)
  obtain os "is" where l: "sj_lines j = os @ is" "side_lines_ok SideOut (sj_from j) j os" "side_lines_ok SideIn (sj_to j) j is"
    and g: "\<forall>l \<in> set (sj_lines j). ln_qty l = sj_qty j \<and> on_grid 4 (ln_qty l)" by (rule sj_ok_lines [OF ok])
  have m: "sj_mode j = TRANSFER" using assms(5) r by auto
  have "sj_from j \<noteq> Some []" "sj_to j \<noteq> Some []" using l(2,3) by (auto simp: side_lines_ok_def)
  with sides_ok_modes [of "sj_mode j" "sj_from j" "sj_to j"] ok m obtain ga gb where f: "sj_from j = Some ga" "sj_to j = Some gb" "ga \<noteq> gb"
    by (auto simp: sj_ok_def)
  with l(2,3) obtain la lb where la: "os = [la]" "line_for SideOut ga j la" "is = [lb]" "line_for SideIn gb j lb"
    by (auto simp: side_lines_ok_def)
  have so: "sj_side_of SideOut j = Some la" "sj_side_of SideIn j = Some lb" using sj_side_of_shape [OF l] f la by simp_all
  have gq: "on_grid 4 (ln_qty la)" "on_grid 4 (ln_qty lb)" using g unfolding l(1) la(1,3) by (metis append_Cons append_Nil list.set_intros)+
  note e = decimal_js.sj_post_out_effect [OF assms(1) o [unfolded so] inv gq(1)]
  from e(1) obtain q1 w where q1: "sound_move s q1 s1" "mv_key q1 = sj_key act la" "mv_direction q1 = MvOut" "mv_quantity q1 = ln_qty la"
    "mv_value q1 = val" and w: "value_issue D (bal_of s (sj_key act la)) (ln_qty la) allow = Inr w" "is_value w = val" by blast
  note i1 = sound_move_invs(1) [OF q1(1) inv]
  from decimal_js.sj_post_in_effect(1) [OF assms(1) n [unfolded so] i1 gq(2) e(3)]
  obtain q2 where q2: "sound_move s1 q2 s2" "mv_key q2 = sj_key act lb" "mv_direction q2 = MvIn" "mv_quantity q2 = ln_qty lb" "mv_value q2 = val"
    by blast
  have ne: "sj_key act la \<noteq> sj_key act lb" using la f(3) by (simp add: sj_key_def line_for_def)
  from c so have "cmd = None" by (auto simp: sj_build_command_def elim!: rbindE split: if_splits)
  with p have s3: "s3 = s2" "entry = None" by auto
  have b2: "bal_of s2 = (bal_of s)
      (sj_key act la := \<lparr>bal_qty = bal_qty (bal_of s (sj_key act la)) - sj_qty j, bal_value = bal_value (bal_of s (sj_key act la)) - val\<rparr>,
       sj_key act lb := \<lparr>bal_qty = bal_qty (bal_of s (sj_key act lb)) + sj_qty j, bal_value = bal_value (bal_of s (sj_key act lb)) + val\<rparr>)"
    using q1 q2 ne line_forD [OF la(2)] line_forD [OF la(4)]
    by (auto simp: sound_move_def qty_move_def moved_def carries_qty_def carries_value_def signed_quantity_def signed_value_def)
  have qt: "quiet s s2" by (rule quiet_trans [OF sound_move_invs(3) [OF q1(1)] sound_move_invs(3) [OF q2(1)]])
  have bs: "bal_of s' = bal_of s2" using s' s3 by (auto intro!: bal_of_cong)
  have ks: "sj_key act la = (act_company act, ga, sj_item j)" "sj_key act lb = (act_company act, gb, sj_item j)"
    using la by (simp_all add: sj_key_def line_for_def)
  have "value_issue D (bal_of s (act_company act, ga, sj_item j)) (sj_qty j) allow = Inr w" using w(1) line_forD [OF la(2)] by (simp add: ks)
  moreover have "0 \<le> is_value w" using e(4) w(2) by simp
  moreover have "db_entries s' = db_entries s" "db_series s' = db_series s" using s' s3 qt by (auto simp: quiet_def)
  ultimately show ?thesis using r f x s3(2) w(2) b2 [folded bs, unfolded ks] by (intro that [of r ga gb w]) (simp_all add: Let_def)
qed

text \<open>
  C21.  A transfer moves stock and books nothing: exactly the journal's quantity of the journal's item, at the value an
  issue of that quantity takes from the giving godown, leaves the balance of the journal's giving godown and enters the
  balance of its receiving godown, a different one; every other balance is untouched, so that the item's quantity and
  value over all the godowns of the company are what they were, and no entry and no voucher number is used.
\<close>
theorem transfer_conserves_stock:
  fixes s s' :: "'a inventory_db_scheme"
  assumes "decimal_js D" and "inj mk" and "empty_inventory s0" and "rtranclp (inventory_step neg mir fine D mk) s0 s"
    and "post_stock_journal D mk (erp_ports mk) i allow reason act now s = Inr (x, s')"
    and "\<forall>r \<in> set (inv_journals s). sj_id (jr_journal r) = i \<longrightarrow> sj_mode (jr_journal r) = TRANSFER"
  shows "x = (None, None) \<and> db_entries s' = db_entries s \<and> db_series s' = db_series s \<and>
    (\<exists>r \<in> set (inv_journals s). sj_id (jr_journal r) = i \<and> sj_company (jr_journal r) = act_company act \<and> (\<exists>f t v.
      sj_from (jr_journal r) = Some f \<and> sj_to (jr_journal r) = Some t \<and> f \<noteq> t \<and>
      (let co = sj_company (jr_journal r); it = sj_item (jr_journal r); n = sj_qty (jr_journal r); a = (co, f, it); b = (co, t, it) in
       0 \<le> v \<and> (\<exists>w. value_issue D (bal_of s a) n allow = Inr w \<and> is_value w = v) \<and>
       bal_of s' = (bal_of s)
        (a := \<lparr>bal_qty = bal_qty (bal_of s a) - n, bal_value = bal_value (bal_of s a) - v\<rparr>,
         b := \<lparr>bal_qty = bal_qty (bal_of s b) + n, bal_value = bal_value (bal_of s b) + v\<rparr>) \<and>
       (\<forall>gs. distinct gs \<and> f \<in> set gs \<and> t \<in> set gs \<longrightarrow>
          sum_list (map (\<lambda>g. bal_qty (bal_of s' (co, g, it))) gs) = sum_list (map (\<lambda>g. bal_qty (bal_of s (co, g, it))) gs) \<and>
          sum_list (map (\<lambda>g. bal_value (bal_of s' (co, g, it))) gs) = sum_list (map (\<lambda>g. bal_value (bal_of s (co, g, it))) gs)))))"
proof -
  from inventory_reachable [OF assms(1-4)] have inv: "stock_inv s" and jo: "journals_ok D s" by (simp_all add: inventory_inv_def)
  obtain r f t w where r: "r \<in> set (inv_journals s)" "sj_id (jr_journal r) = i" "sj_company (jr_journal r) = act_company act"
      "sj_from (jr_journal r) = Some f" "sj_to (jr_journal r) = Some t" and ne: "f \<noteq> t" and v: "0 \<le> is_value w"
      "value_issue D (bal_of s (act_company act, f, sj_item (jr_journal r))) (sj_qty (jr_journal r)) allow = Inr w"
    and b: "bal_of s' = (let n = sj_qty (jr_journal r); a = (act_company act, f, sj_item (jr_journal r)); b = (act_company act, t, sj_item (jr_journal r)) in (bal_of s)
        (a := \<lparr>bal_qty = bal_qty (bal_of s a) - n, bal_value = bal_value (bal_of s a) - is_value w\<rparr>,
         b := \<lparr>bal_qty = bal_qty (bal_of s b) + n, bal_value = bal_value (bal_of s b) + is_value w\<rparr>))"
    and rest: "x = (None, None)" "db_entries s' = db_entries s" "db_series s' = db_series s"
    by (rule transfer_effect [OF assms(1) inv jo assms(5,6)])
  have tot: "sum_list (map (\<lambda>g. h (bal_of s' (act_company act, g, sj_item (jr_journal r)))) gs) =
      sum_list (map (\<lambda>g. h (bal_of s (act_company act, g, sj_item (jr_journal r)))) gs)"
    if "distinct gs" "f \<in> set gs" "t \<in> set gs" "h = bal_qty \<and> d = sj_qty (jr_journal r) \<or> h = bal_value \<and> d = is_value w" for gs h d
    using that ne by (intro sum_list_swap [of gs f t _ _ d]) (auto simp: b Let_def)
  show ?thesis using r ne v b rest tot [of _ bal_qty "sj_qty (jr_journal r)"] tot [of _ bal_value "is_value w"]
    by (intro conjI bexI [of _ r] exI [of _ f] exI [of _ t] exI [of _ "is_value w"]) (simp_all add: Let_def)
qed

theorem transfer_conserves_stock_witness:
  "db_entries stk_posted_t = db_entries stk_approved_t \<and>
   bal_qty (bal_of stk_posted_t (''C'', ''G'', ''I'')) + bal_qty (bal_of stk_posted_t (''C'', ''H'', ''I'')) =
   bal_qty (bal_of stk_approved_t (''C'', ''G'', ''I'')) + bal_qty (bal_of stk_approved_t (''C'', ''H'', ''I''))"
proof -
  have m: "\<forall>r \<in> set (inv_journals stk_approved_t). sj_id (jr_journal r) = ''4'' \<longrightarrow> sj_mode (jr_journal r) = TRANSFER"
    by (simp add: stk_rows)
  have j: "sj_company (stk_sj SjApproved TRANSFER (Some ''H'') True None None None 2) = ''C''"
    "sj_item (stk_sj SjApproved TRANSFER (Some ''H'') True None None None 2) = ''I''"
    "sj_from (stk_sj SjApproved TRANSFER (Some ''H'') True None None None 2) = Some ''G''"
    by (simp_all add: stk_sj_def)
  have co: "act_company sample_actor = ''C''" by (simp add: sample_actor_def)
  note c = transfer_conserves_stock [OF decimal_js_dec20 inj_show_nat stk_empty stk_approved_t_reachable stk_post_t m]
  then have "\<forall>gs. distinct gs \<and> ''G'' \<in> set gs \<and> ''H'' \<in> set gs \<longrightarrow>
     sum_list (map (\<lambda>g. bal_qty (bal_of stk_posted_t (''C'', g, ''I''))) gs) = sum_list (map (\<lambda>g. bal_qty (bal_of stk_approved_t (''C'', g, ''I''))) gs)"
    unfolding stk_rows(2) by (clarsimp simp: stk_rows(4,6) j co Let_def)
  from this [rule_format, of "[''G'', ''H'']"] c show ?thesis by simp
qed

text \<open>
  C22.  The value an issue takes is the weighted average: less than one unit of the last stored digit away
  from quantity times value over quantity on hand, never more than the stock is worth, what remains is the
  exact difference, and issuing everything leaves nothing behind.
\<close>
theorem issue_value_is_weighted_average:
  assumes "decimal_js D" and "balance_ok b" and "balance_nonneg b" and "on_grid 4 q"
    and "value_issue D b q False = Inr r"
  shows "\<bar>is_value r - q * bal_value b / bal_qty b\<bar> < 1 / 10 ^ 4 \<and> 0 \<le> is_value r \<and> is_value r \<le> bal_value b \<and>
    is_balance r = \<lparr>bal_qty = bal_qty b - q, bal_value = bal_value b - is_value r\<rparr> \<and>
    (q = bal_qty b \<longrightarrow> is_balance r = empty_balance)"
proof -
  note f = decimal_js.value_issue_Inr [OF assms(1,5)]
  from f(2) have le: "q \<le> bal_qty b" by simp
  note v = decimal_js.value_issue_bounds [OF assms(1,5,2,3) le assms(4)]
  have near: "\<bar>is_value r - q * bal_value b / bal_qty b\<bar> < 1 / 10 ^ 4"
  proof (cases "q = bal_qty b")
    case True
    with f(1,5) show ?thesis by simp
  next
    case False
    with le f(1) have p: "q < bal_qty b" "0 < bal_qty b" by auto
    with assms(5) False have "is_value r = to_dp D 4 (d_div D (d_times D q (bal_value b)) (bal_qty b))"
      by (auto simp: value_issue_def Let_def elim!: rbindE)
    moreover have "0 \<le> bal_value b" "bal_value b < 10 ^ 14" using assms(2,3) by (auto simp: balance_ok_def balance_nonneg_def num18_4_def)
    ultimately show ?thesis using decimal_js.share_near [OF assms(1) f(1) le] by simp
  qed
  have "is_balance r = empty_balance" if "q = bal_qty b" using v(4) f(5) that by (simp add: empty_balance_def)
  with near v show ?thesis by blast
qed

theorem issue_value_is_weighted_average_witness:
  "\<exists>r. value_issue dec20 \<lparr>bal_qty = 10, bal_value = 50\<rparr> 3 False = Inr r \<and> \<bar>is_value r - 15\<bar> < 1 / 10 ^ 4"
proof -
  have "balance_ok \<lparr>bal_qty = 10, bal_value = 50\<rparr>" "balance_nonneg \<lparr>bal_qty = 10, bal_value = 50\<rparr>" "on_grid 4 3"
    by (simp_all add: balance_ok_def balance_nonneg_def num18_4_def on_grid_code)
  moreover obtain r where r: "value_issue dec20 \<lparr>bal_qty = 10, bal_value = 50\<rparr> 3 False = Inr r"
    by (simp add: value_issue_def assert_positive_def Let_def)
  ultimately show ?thesis using issue_value_is_weighted_average [OF decimal_js_dec20 _ _ _ r] by auto
qed

end
