(* ===== verification/Hr_Csv.thy ===== *)
theory Hr_Csv
  imports Prelude
begin

text \<open>
  The CSV the attendance reports are exported as (\<open>escapeCsvValue\<close>, \<open>formatExcelText\<close> and \<open>toCsv\<close> of
  \<open>src/src/modules/hr/attendance-reports/domain/attendance-rules.ts\<close>) and a reader of the format of RFC 4180
  that takes it back.  A cell is the text \<open>String(value)\<close>, empty for \<open>undefined\<close> and \<open>null\<close>.
\<close>

abbreviation quote :: char where "quote \<equiv> CHR 0x22"
abbreviation comma :: char where "comma \<equiv> CHR 0x2C"
abbreviation carriage_return :: char where "carriage_return \<equiv> CHR 0x0D"
abbreviation line_feed :: char where "line_feed \<equiv> CHR 0x0A"

definition cell_text :: "string option \<Rightarrow> string" where
  "cell_text v = (case v of None \<Rightarrow> [] | Some s \<Rightarrow> s)"

text \<open>\<open>text.replace(/"/g, '""')\<close>\<close>

definition double_quotes :: "string \<Rightarrow> string" where
  "double_quotes s = concat (map (\<lambda>c. if c = quote then [quote, quote] else [c]) s)"

definition escape_csv_value :: "string option \<Rightarrow> string" where
  "escape_csv_value v =
     (let s = cell_text v in
      if list_ex (\<lambda>c. c = quote \<or> c = comma \<or> c = carriage_return \<or> c = line_feed) s
      then quote # double_quotes s @ [quote] else s)"

definition format_excel_text :: "string option \<Rightarrow> string" where
  "format_excel_text v =
     (let s = cell_text v in if s = [] then [] else ''='' @ quote # double_quotes s @ [quote])"

fun join :: "string \<Rightarrow> string list \<Rightarrow> string" where
  "join sep [] = []"
| "join sep [x] = x"
| "join sep (x # y # xs) = x @ sep @ join sep (y # xs)"

definition to_csv :: "string option list list \<Rightarrow> string" where
  "to_csv rows = join [carriage_return, line_feed] (map (\<lambda>row. join [comma] (map escape_csv_value row)) rows)"

section \<open>A reader\<close>

datatype csv_mode = FieldStart | Plain | Quoted | QuoteSeen

fun read_from :: "csv_mode \<Rightarrow> string \<Rightarrow> string list \<Rightarrow> string \<Rightarrow> string list list" where
  "read_from mode field row [] = [row @ [field]]"
| "read_from mode field row (c # cs) =
     (if mode = Quoted then
        if c = quote then read_from QuoteSeen field row cs else read_from Quoted (field @ [c]) row cs
      else if mode = QuoteSeen \<and> c = quote then read_from Quoted (field @ [c]) row cs
      else if mode = FieldStart \<and> c = quote then read_from Quoted field row cs
      else if c = comma then read_from FieldStart [] (row @ [field]) cs
      else if c = carriage_return then read_from mode field row cs
      else if c = line_feed then (row @ [field]) # read_from FieldStart [] [] cs
      else read_from Plain (field @ [c]) row cs)"

definition read_csv :: "string \<Rightarrow> string list list" where
  "read_csv s = read_from FieldStart [] [] s"

lemma read_quoted:
  "read_from Quoted field row (double_quotes s @ quote # cs) = read_from QuoteSeen (field @ s) row cs"
  by (induction s arbitrary: field) (auto simp: double_quotes_def)

lemma read_plain:
  "mode \<noteq> Quoted \<Longrightarrow> mode \<noteq> QuoteSeen \<Longrightarrow>
   list_all (\<lambda>c. \<not> (c = quote \<or> c = comma \<or> c = carriage_return \<or> c = line_feed)) s \<Longrightarrow>
     read_from mode field row (s @ cs) = read_from (if s = [] then mode else Plain) (field @ s) row cs"
  by (induction s arbitrary: mode field) auto

text \<open>One cell: what follows it is read with the cell complete, whatever it contains.\<close>

lemma read_cell:
  "\<exists>mode. mode \<noteq> Quoted \<and> (\<forall>cs. cs = [] \<or> hd cs = comma \<or> hd cs = carriage_return \<longrightarrow>
      read_from FieldStart [] row (escape_csv_value v @ cs) = read_from mode (cell_text v) row cs)"
proof (cases "list_ex (\<lambda>c. c = quote \<or> c = comma \<or> c = carriage_return \<or> c = line_feed) (cell_text v)")
  case True
  then have e: "escape_csv_value v = quote # double_quotes (cell_text v) @ [quote]" by (simp add: escape_csv_value_def Let_def)
  have "read_from FieldStart [] row (escape_csv_value v @ cs) = read_from QuoteSeen (cell_text v) row cs" for cs
    unfolding e using read_quoted [of "[]" row "cell_text v" cs] by simp
  then show ?thesis by (intro exI [of _ QuoteSeen]) simp
next
  case False
  then have "list_all (\<lambda>c. \<not> (c = quote \<or> c = comma \<or> c = carriage_return \<or> c = line_feed)) (cell_text v)"
    by (auto simp: list_all_iff list_ex_iff)
  from read_plain [OF _ _ this, of FieldStart "[]" row] False
  show ?thesis by (intro exI [of _ "if cell_text v = [] then FieldStart else Plain"]) (simp add: escape_csv_value_def Let_def)
qed

lemma read_row:
  "row \<noteq> [] \<Longrightarrow> rest = [] \<or> (\<exists>cs. rest = carriage_return # line_feed # cs) \<Longrightarrow>
   read_from FieldStart [] done_cells (join [comma] (map escape_csv_value row) @ rest) =
     (case rest of [] \<Rightarrow> [done_cells @ map cell_text row]
      | _ \<Rightarrow> (done_cells @ map cell_text row) # read_from FieldStart [] [] (drop 2 rest))"
proof (induction "[comma]" "map escape_csv_value row" arbitrary: done_cells row rule: join.induct)
  case 1
  then show ?case by simp
next
  case (2 x)
  then obtain v where row: "row = [v]" by auto
  obtain mode where m: "mode \<noteq> Quoted"
    "\<And>cs. cs = [] \<or> hd cs = comma \<or> hd cs = carriage_return \<Longrightarrow>
      read_from FieldStart [] done_cells (escape_csv_value v @ cs) = read_from mode (cell_text v) done_cells cs"
    using read_cell [of done_cells v] by blast
  from m(2) [of "[]"] m(2) [of rest] m(1) 2 show ?case by (auto simp: row)
next
  case (3 x y xs)
  then obtain v w vs where row: "row = v # w # vs" by auto
  obtain mode where m: "mode \<noteq> Quoted"
    "\<And>cs. cs = [] \<or> hd cs = comma \<or> hd cs = carriage_return \<Longrightarrow>
      read_from FieldStart [] done_cells (escape_csv_value v @ cs) = read_from mode (cell_text v) done_cells cs"
    using read_cell [of done_cells v] by blast
  have "read_from FieldStart [] done_cells (join [comma] (map escape_csv_value row) @ rest) =
      read_from FieldStart [] (done_cells @ [cell_text v]) (join [comma] (map escape_csv_value (w # vs)) @ rest)"
    using m by (simp add: row)
  also have "\<dots> = (case rest of [] \<Rightarrow> [(done_cells @ [cell_text v]) @ map cell_text (w # vs)]
      | _ \<Rightarrow> ((done_cells @ [cell_text v]) @ map cell_text (w # vs)) # read_from FieldStart [] [] (drop 2 rest))"
    using 3(1) [of "w # vs" "done_cells @ [cell_text v]"] 3(2,4) row by auto
  finally show ?case by (simp add: row split: list.splits)
qed

text \<open>
  C26.  Export and import: reading the CSV \<open>toCsv\<close> writes gives back the text of every cell, in its row and
  column, whatever quotes, commas and line breaks the cells contain; so a report cell can never break
  out of its column or row.
\<close>
theorem csv_round_trip:
  assumes "rows \<noteq> []" and "\<forall>row \<in> set rows. row \<noteq> []"
  shows "read_csv (to_csv rows) = map (map cell_text) rows"
  using assms
proof (induction rows rule: induct_list012)
  case (2 row)
  then show ?case using read_row [of row "[]" "[]"] by (simp add: read_csv_def to_csv_def)
next
  case (3 row row' rows)
  let ?line = "\<lambda>row. join [comma] (map escape_csv_value row)"
  have "to_csv (row # row' # rows) = ?line row @ carriage_return # line_feed # to_csv (row' # rows)"
    by (simp add: to_csv_def)
  with 3 read_row [of row "carriage_return # line_feed # to_csv (row' # rows)" "[]"] show ?case
    by (simp add: read_csv_def)
qed simp

theorem csv_round_trip_witness:
  "read_csv (to_csv [[Some ''Name'', Some ''Note''], [Some ''Rahim, A.'', Some [quote, line_feed, quote]], [None, Some '''']]) =
     [[''Name'', ''Note''], [''Rahim, A.'', [quote, line_feed, quote]], ['''', '''']]"
  using csv_round_trip [of "[[Some ''Name'', Some ''Note''], [Some ''Rahim, A.'', Some [quote, line_feed, quote]], [None, Some '''']]"]
  by (simp add: cell_text_def)

end
