(* ===== verification/Calendar.thy ===== *)
theory Calendar
  imports Js_Dates
begin

text \<open>
  Walking over calendar days: \<open>date.setDate(date.getDate() + 1)\<close>, the loops that list every day of a
  window, the day number behind \<open>getTime()\<close> and the weekday.  Local dates are the calendar days of
  the server's zone; the model has no zone whose midnights are skipped by daylight saving.
\<close>

section \<open>Walking\<close>

definition next_day :: "ymd \<Rightarrow> ymd" where
  "next_day dt = (case dt of (y, m, d) \<Rightarrow> carry_days y m (d + 1))"

text \<open>The month never goes back, and a carried day is a day of its month.\<close>

lemma carry_days_progress:
  "\<not> d \<le> days_in_month y m \<Longrightarrow> carry_days y m d = (a, b, c) \<Longrightarrow>
     12 * y + min m 12 < 12 * a + min b 12 \<and> 1 \<le> c"
proof (induction y m d rule: carry_days.induct)
  case (1 y m d)
  obtain y' m' where n: "next_month (y, m) = (y', m')" by force
  then have s: "12 * y + min m 12 < 12 * y' + min m' 12" by (auto simp: next_month_def split: if_splits)
  from 1(2,3) n have c: "carry_days y' m' (d - days_in_month y m) = (a, b, c)"
    by (simp add: carry_days.simps [of y m d])
  show ?case
  proof (cases "d - days_in_month y m \<le> days_in_month y' m'")
    case True
    with c 1(2) s show ?thesis by (auto simp: carry_days_id)
  next
    case False
    from 1(1) [OF 1(2) n [symmetric] False c] s show ?thesis by simp
  qed
qed

text \<open>The loop \<open>while (current <= last) { \<dots>; current.setDate(current.getDate() + 1); }\<close>.\<close>

function each_day :: "ymd \<Rightarrow> ymd \<Rightarrow> ymd list" where
  "each_day cur last_day = (if cur \<le> last_day then cur # each_day (next_day cur) last_day else [])"
  by pat_completeness auto

termination
proof (relation "measure (\<lambda>((y, m, d), fin). nat (32 * (12 * fst fin + 13 - (12 * y + min m 12)) - min d 31))")
  fix cur fin :: ymd
  assume le: "cur \<le> fin"
  obtain y m d where cur: "cur = (y, m, d)" by (metis prod_cases3)
  obtain a b c where nx: "carry_days y m (d + 1) = (a, b, c)" by (metis prod_cases3)
  from le cur have y: "y \<le> fst fin" by (cases fin) (auto simp: less_eq_prod_def)
  show "((next_day cur, fin), cur, fin) \<in>
      measure (\<lambda>((y, m, d), fin). nat (32 * (12 * fst fin + 13 - (12 * y + min m 12)) - min d 31))"
  proof (cases "d + 1 \<le> days_in_month y m")
    case True
    with nx have "(a, b, c) = (y, m, d + 1)" "d + 1 \<le> 31"
      using days_in_month_bounds [of y m] by (auto simp: carry_days_id)
    with y cur nx show ?thesis by (auto simp: next_day_def)
  next
    case False
    from carry_days_progress [OF this nx] y cur nx show ?thesis by (auto simp: next_day_def)
  qed
qed simp

declare each_day.simps [simp del]

lemma ymd_less: "((y, m, d) :: ymd) < (y', m', d') \<longleftrightarrow> y < y' \<or> y = y' \<and> (m < m' \<or> m = m' \<and> d < d')"
  by (auto simp: less_prod_def')

lemma ymd_order: "((y, m, d) :: ymd) \<le> (y', m', d') \<longleftrightarrow> y < y' \<or> y = y' \<and> (m < m' \<or> m = m' \<and> d \<le> d')"
  by (auto simp: less_eq_prod_def)

lemma next_day_cases:
  assumes "valid_ymd (y, m, d)"
  shows "next_day (y, m, d) =
    (if d < days_in_month y m then (y, m, d + 1) else if m < 12 then (y, m + 1, 1) else (y + 1, 1, 1))"
proof -
  from assms have d: "1 \<le> m" "m \<le> 12" "1 \<le> d" "d \<le> days_in_month y m" by (auto simp: valid_ymd_def)
  show ?thesis
  proof (cases "d < days_in_month y m")
    case True
    then show ?thesis by (simp add: next_day_def carry_days_id)
  next
    case False
    with d have e: "d + 1 - days_in_month y m = 1" "\<not> d + 1 \<le> days_in_month y m" by auto
    have one: "1 \<le> days_in_month y' m'" for y' m' using days_in_month_bounds [of y' m'] by linarith
    show ?thesis unfolding next_day_def prod.case carry_days.simps [of y m "d + 1"]
      using e False one by (auto simp: next_month_def carry_days_id)
  qed
qed

lemma next_day_valid: "valid_ymd dt \<Longrightarrow> valid_ymd (next_day dt)"
  by (cases dt) (auto simp: next_day_def valid_ymd_def [of "(_, _, _)"] intro!: carry_days_valid)

lemma next_day_greater: "valid_ymd dt \<Longrightarrow> dt < next_day dt"
  by (cases dt) (auto simp: next_day_cases ymd_less valid_ymd_def)

lemma next_day_least:
  assumes "valid_ymd dt" and "valid_ymd e" and "dt < e" shows "next_day dt \<le> e"
proof -
  obtain y m d a b c where e: "dt = (y, m, d)" "e = (a, b, c)" by (metis prod_cases3)
  from assms have v: "m \<le> 12" "1 \<le> b" "b \<le> 12" "1 \<le> c" "c \<le> days_in_month a b"
    by (auto simp: e valid_ymd_def)
  from assms(3) [unfolded e ymd_less] consider "y < a" | "y = a" "m < b" | "y = a" "m = b" "d < c" by blast
  then show ?thesis
    by cases (use v assms(1) in \<open>auto simp: e next_day_cases ymd_order\<close>)
qed

lemma each_day_set:
  "valid_ymd cur \<Longrightarrow> set (each_day cur fin) = {dt. valid_ymd dt \<and> cur \<le> dt \<and> dt \<le> fin}"
proof (induction cur fin rule: each_day.induct)
  case (1 cur fin)
  show ?case
  proof (cases "cur \<le> fin")
    case True
    then have "set (each_day cur fin) = insert cur {dt. valid_ymd dt \<and> next_day cur \<le> dt \<and> dt \<le> fin}"
      using 1 next_day_valid by (subst each_day.simps) simp
    also have "\<dots> = {dt. valid_ymd dt \<and> cur \<le> dt \<and> dt \<le> fin}"
      using True 1(2) next_day_greater [OF 1(2)] next_day_least [OF 1(2)] by (auto simp: order_le_less)
    finally show ?thesis .
  next
    case False
    then show ?thesis by (subst each_day.simps) auto
  qed
qed

lemma each_day_sorted: "valid_ymd cur \<Longrightarrow> sorted_wrt (<) (each_day cur fin)"
proof (induction cur fin rule: each_day.induct)
  case (1 cur fin)
  show ?case
  proof (cases "cur \<le> fin")
    case True
    with 1 have "sorted_wrt (<) (each_day (next_day cur) fin)" by (simp add: next_day_valid)
    moreover have "\<forall>dt \<in> set (each_day (next_day cur) fin). cur < dt"
      using next_day_greater [OF 1(2)] each_day_set [OF next_day_valid [OF 1(2)]] by (auto intro: less_le_trans)
    ultimately show ?thesis using True by (subst each_day.simps) simp
  next
    case False
    then show ?thesis by (subst each_day.simps) simp
  qed
qed

lemma each_day_distinct: "valid_ymd cur \<Longrightarrow> distinct (each_day cur fin)"
  using each_day_sorted strict_sorted_iff by blast

text \<open>Clamping the end of the window is filtering its days.\<close>

lemma each_day_clamp:
  assumes "valid_ymd cur"
  shows "each_day cur (min fin today) = filter (\<lambda>dt. dt \<le> today) (each_day cur fin)"
proof (rule sorted_distinct_set_unique)
  show "sorted (each_day cur (min fin today))" "distinct (each_day cur (min fin today))"
    using each_day_sorted [OF assms] strict_sorted_iff by blast+
  show "sorted (filter (\<lambda>dt. dt \<le> today) (each_day cur fin))"
    using each_day_sorted [OF assms, of fin] by (auto simp: strict_sorted_iff intro: sorted_filter [of "\<lambda>x. x", simplified])
  show "distinct (filter (\<lambda>dt. dt \<le> today) (each_day cur fin))"
    using each_day_distinct [OF assms] by simp
  show "set (each_day cur (min fin today)) = set (filter (\<lambda>dt. dt \<le> today) (each_day cur fin))"
    using assms by (auto simp: each_day_set)
qed

section \<open>Day numbers\<close>

text \<open>
  The days of a year before a month, and the number of days since 1 January 1970: \<open>getTime()\<close> at
  midnight divided by the milliseconds of a day, with the rounding that hides a daylight saving hour.
\<close>

definition days_before_month :: "int \<Rightarrow> int \<Rightarrow> int" where
  "days_before_month y m =
     (if m \<le> 1 then 0 else if m = 2 then 31
      else [59, 90, 120, 151, 181, 212, 243, 273, 304, 334] ! nat (m - 3) + (if leap_year y then 1 else 0))"

definition days_before_year :: "int \<Rightarrow> int" where
  "days_before_year y = 365 * (y - 1970) + (y - 1969) div 4 - (y - 1901) div 100 + (y - 1601) div 400"

definition day_number :: "ymd \<Rightarrow> int" where
  "day_number dt = (case dt of (y, m, d) \<Rightarrow> days_before_year y + days_before_month y m + d - 1)"

text \<open>\<open>getDay()\<close>: 0 is Sunday; 1 January 1970 was a Thursday.\<close>

definition weekday :: "ymd \<Rightarrow> int" where
  "weekday dt = (day_number dt + 4) mod 7"

lemma days_before_month_next:
  assumes "1 \<le> m" and "m < 12" shows "days_before_month y (m + 1) = days_before_month y m + days_in_month y m"
proof -
  from assms have "m = 1 \<or> m = 2 \<or> m = 3 \<or> m = 4 \<or> m = 5 \<or> m = 6 \<or> m = 7 \<or> m = 8 \<or> m = 9 \<or> m = 10 \<or> m = 11"
    by presburger
  then show ?thesis by (elim disjE) (simp_all add: days_before_month_def days_in_month_def)
qed

lemma days_before_month_year: "days_before_month y 12 + 31 = (if leap_year y then 366 else 365)"
  by (simp add: days_before_month_def)

lemma div_step:
  fixes a n :: int
  assumes "0 < n" shows "(a + 1) div n = a div n + (if (a + 1) mod n = 0 then 1 else 0)"
proof -
  define q r where "q = (a + 1) div n" and "r = (a + 1) mod n"
  have a: "a = n * q + r - 1" unfolding q_def r_def using mult_div_mod_eq [of n "a + 1"] by linarith
  have r: "0 \<le> r" "r < n" using assms by (simp_all add: r_def)
  show ?thesis
  proof (cases "r = 0")
    case True
    with a assms have "a div n = q - 1" by (intro int_div_pos_eq [of _ _ _ "n - 1"]) (auto simp: algebra_simps)
    with True show ?thesis by (simp add: q_def r_def)
  next
    case False
    with a r have "a div n = q" by (intro int_div_pos_eq [of _ _ _ "r - 1"]) auto
    with False show ?thesis by (simp add: q_def r_def)
  qed
qed

lemma leap_balance:
  fixes x a b c :: int
  assumes "q \<Longrightarrow> p" and "r \<Longrightarrow> q"
  shows "x + 365 + (a + (if p then 1 else 0)) - (b + (if q then 1 else 0)) + (c + (if r then 1 else 0)) =
    x + a - b + c + (if p \<and> (\<not> q \<or> r) then 366 else 365)"
  using assms by auto

lemma days_before_year_next: "days_before_year (y + 1) = days_before_year y + (if leap_year y then 366 else 365)"
proof -
  define a b c where "a = (y - 1969) div 4" and "b = (y - 1901) div 100" and "c = (y - 1601) div 400"
  have a: "(y - 1968) div 4 = a + (if y mod 4 = 0 then 1 else 0)"
    using div_step [of 4 "y - 1969"] mod_mult_self1 [of y "-492" 4] by (simp add: a_def)
  have b: "(y - 1900) div 100 = b + (if y mod 100 = 0 then 1 else 0)"
    using div_step [of 100 "y - 1901"] mod_mult_self1 [of y "-19" 100] by (simp add: b_def)
  have c: "(y - 1600) div 400 = c + (if y mod 400 = 0 then 1 else 0)"
    using div_step [of 400 "y - 1601"] mod_mult_self1 [of y "-4" 400] by (simp add: c_def)
  have i: "y mod 100 = 0 \<Longrightarrow> y mod 4 = 0" "y mod 400 = 0 \<Longrightarrow> y mod 100 = 0"
    using mod_mod_cancel [of 4 100 y] mod_mod_cancel [of 100 400 y] by simp_all
  have "days_before_year (y + 1) = 365 * (y - 1970) + 365 + (y - 1968) div 4 - (y - 1900) div 100 + (y - 1600) div 400"
    by (simp add: days_before_year_def)
  also have "\<dots> = 365 * (y - 1970) + a - b + c + (if leap_year y then 366 else 365)"
    unfolding a b c leap_year_def by (rule leap_balance [OF i])
  finally show ?thesis unfolding days_before_year_def a_def b_def c_def .
qed

lemma day_number_next:
  assumes "valid_ymd dt" shows "day_number (next_day dt) = day_number dt + 1"
proof -
  obtain y m d where dt: "dt = (y, m, d)" by (metis prod_cases3)
  with assms have v: "1 \<le> m" "m \<le> 12" "d \<le> days_in_month y m" by (auto simp: valid_ymd_def)
  have "days_in_month y 12 = 31" by (simp add: days_in_month_def)
  with v assms show ?thesis
    using days_before_month_next [of m y] days_before_month_year [of y] days_before_year_next [of y]
    by (auto simp: dt next_day_cases day_number_def days_before_month_def [of _ 1] not_less order_le_less)
qed

lemma day_number_gap: "valid_ymd cur \<Longrightarrow> valid_ymd fin \<Longrightarrow> cur \<le> fin \<Longrightarrow>
    int (length (each_day cur fin)) = day_number fin - day_number cur + 1"
proof (induction cur fin rule: each_day.induct)
  case (1 cur fin)
  show ?case
  proof (cases "next_day cur \<le> fin")
    case True
    with 1 show ?thesis by (subst each_day.simps) (simp add: next_day_valid day_number_next)
  next
    case False
    with 1 have "cur = fin" using next_day_least [of cur fin] by (auto simp: order_le_less)
    with False have "each_day cur fin = [cur]" by (subst each_day.simps, subst each_day.simps) simp
    with \<open>cur = fin\<close> show ?thesis by simp
  qed
qed

lemma weekday_next: "valid_ymd dt \<Longrightarrow> weekday (next_day dt) = (weekday dt + 1) mod 7"
  by (simp add: weekday_def day_number_next mod_simps algebra_simps)

section \<open>Local date strings\<close>

text \<open>
  \<open>text.split('-').map(Number)\<close> and \<open>new Date(year, month - 1, day)\<close>.  \<open>Number\<close> is modelled on
  digits, which gives 0 on the empty string; any other part makes the date invalid (the further
  spellings \<open>Number\<close> accepts, such as exponents, do not occur in the columns and validated
  parameters these functions read).
\<close>

fun split_on :: "char \<Rightarrow> string \<Rightarrow> string list" where
  "split_on c [] = [[]]"
| "split_on c (x # xs) =
     (if x = c then [] # split_on c xs
      else case split_on c xs of [] \<Rightarrow> [[x]] | p # ps \<Rightarrow> (x # p) # ps)"

definition number_of :: "string \<Rightarrow> nat option" where
  "number_of s = (if list_all is_digit s then Some (parse_nat s) else None)"

definition local_day :: "string \<Rightarrow> ymd option" where
  "local_day s =
     (case map number_of (split_on CHR ''-'' s) of
        Some y # Some m # Some d # _ \<Rightarrow> Some (date_utc (int y) (int m - 1) (int d))
      | _ \<Rightarrow> None)"

text \<open>\<open>formatLocalDate\<close>: the year is not padded.\<close>

definition format_local :: "ymd \<Rightarrow> string" where
  "format_local dt = (case dt of (y, m, d) \<Rightarrow>
     show_nat (nat y) @ ''-'' @ pad_start 2 (show_nat (nat m)) @ ''-'' @ pad_start 2 (show_nat (nat d)))"

text \<open>The days the columns and parameters hold: real days of the years 1000 to 9999.\<close>

definition good_day :: "ymd \<Rightarrow> bool" where
  "good_day dt \<longleftrightarrow> valid_ymd dt \<and> 1000 \<le> fst dt \<and> fst dt \<le> 9999"

lemma split_on_append: "c \<notin> set xs \<Longrightarrow> split_on c (xs @ c # ys) = xs # split_on c ys"
  by (induction xs) auto

lemma split_on_none: "c \<notin> set xs \<Longrightarrow> split_on c xs = [xs]"
  by (induction xs) auto

lemma number_of_show: "number_of (pad_start w (show_nat n)) = Some n"
  using pad_start_digits [of w n] by (simp add: number_of_def list_all_iff parse_nat_pad_start)

lemma no_dash: "CHR ''-'' \<notin> set (pad_start w (show_nat n))"
  using pad_start_digits [of w n] by (auto simp: is_digit_def)

lemma local_day_iso: "good_day dt \<Longrightarrow> local_day (iso dt) = Some dt"
  by (cases dt) (auto simp: local_day_def iso_def good_day_def split_on_append split_on_none no_dash number_of_show
    date_utc_valid_id valid_ymd_def)

lemma show_nat_long: "10 ^ k \<le> n \<Longrightarrow> k < length (show_nat n)"
proof (induction k arbitrary: n)
  case 0
  then show ?case using show_nat_nonempty by auto
next
  case (Suc k)
  then have "10 ^ k \<le> n div 10" by (simp add: less_eq_div_iff_mult_less_eq mult.commute)
  moreover from this have "\<not> n < 10" by (metis div_less le_zero_eq power_not_zero zero_neq_numeral)
  ultimately show ?case using Suc.IH [of "n div 10"] by (subst show_nat.simps) simp
qed

lemma format_local_iso: "good_day dt \<Longrightarrow> format_local dt = iso dt"
proof -
  assume g: "good_day dt"
  obtain y m d where dt: "dt = (y, m, d)" by (metis prod_cases3)
  from g have "10 ^ 3 \<le> nat y" by (auto simp: dt good_day_def)
  from show_nat_long [OF this] show ?thesis by (simp add: dt format_local_def iso_def pad_start_def [of 4])
qed

lemma good_day_range: "good_day dt \<Longrightarrow> iso_range dt"
  by (cases dt) (auto simp: good_day_def intro!: valid_iso_range)

lemma good_day_iso_inject: "good_day a \<Longrightarrow> good_day b \<Longrightarrow> iso a = iso b \<longleftrightarrow> a = b"
  using iso_inject good_day_range by blast

lemma good_days_between:
  assumes "good_day a" and "good_day b" and "dt \<in> set (each_day a b)" shows "good_day dt"
  using assms by (auto simp: good_day_def each_day_set less_eq_prod_def)

end
