(* ===== verification/Hr_Days.thy ===== *)
theory Hr_Days
  imports Values Calendar
begin

text \<open>
  The days payroll and the attendance reports count: the pure rules of
  \<open>src/src/modules/hr/attendance-reports/domain/attendance-rules.ts\<close> (windows, late threshold, holidays)
  and \<open>src/src/modules/hr/domain/payroll-days.ts\<close> (the paid baseline and what is deducted from it), with the
  holiday calendar of \<open>src/src/modules/hr/application/salary.service.ts\<close>.
\<close>

section \<open>Windows\<close>

text \<open>\<open>eachDate\<close> of payroll-days: an invalid bound makes the comparison false, so the list is empty.\<close>

definition each_date :: "string \<Rightarrow> string \<Rightarrow> string list" where
  "each_date start fin =
     (case (local_day start, local_day fin) of
        (Some a, Some b) \<Rightarrow> map format_local (each_day a b)
      | _ \<Rightarrow> [])"

text \<open>\<open>listDatesInclusive\<close>: the end is clamped to today.\<close>

definition list_dates_inclusive :: "string \<Rightarrow> string \<Rightarrow> ymd \<Rightarrow> string list" where
  "list_dates_inclusive start fin today =
     (case (local_day start, local_day fin, local_day (format_local today)) of
        (Some a, Some b, Some t) \<Rightarrow> map format_local (each_day a (if t < b then t else b))
      | _ \<Rightarrow> [])"

text \<open>\<open>countDaysInclusive\<close>; \<open>None\<close> is the \<open>NaN\<close> of an invalid bound.\<close>

definition count_days_inclusive :: "string \<Rightarrow> string \<Rightarrow> int option" where
  "count_days_inclusive start fin =
     (case (local_day start, local_day fin) of
        (Some a, Some b) \<Rightarrow> Some (if b < a then 0 else day_number b - day_number a + 1)
      | _ \<Rightarrow> None)"

definition get_weekday :: "string \<Rightarrow> int option" where
  "get_weekday d = map_option weekday (local_day d)"

section \<open>Late arrivals\<close>

record late_threshold =
  lt_hour :: int
  lt_minute :: int

definition is_late_check_in :: "int \<Rightarrow> int \<Rightarrow> late_threshold \<Rightarrow> bool" where
  "is_late_check_in hour minute th = (lt_hour th < hour \<or> hour = lt_hour th \<and> lt_minute th < minute)"

text \<open>
  \<open>isLate\<close>: the parts of \<open>'HH:mm:ss'\<close>, a missing part counting as 0, carried by
  \<open>new Date(2000, 0, 1, h, m, s)\<close>; a part that is no number gives an invalid date, which is never late.
\<close>

definition time_part :: "nat \<Rightarrow> string list \<Rightarrow> nat option" where
  "time_part k ps = (if k < length ps then number_of (ps ! k) else Some 0)"

definition is_late :: "string \<Rightarrow> late_threshold \<Rightarrow> bool" where
  "is_late check_in th =
     (let ps = split_on CHR '':'' check_in in
      case (time_part 0 ps, time_part 1 ps, time_part 2 ps) of
        (Some h, Some m, Some s) \<Rightarrow>
          (let t = int (3600 * h + 60 * m + s) in is_late_check_in (t div 3600 mod 24) (t div 60 mod 60) th)
      | _ \<Rightarrow> False)"

section \<open>Holidays\<close>

definition weekly_holiday_dates :: "string list \<Rightarrow> int list \<Rightarrow> string list" where
  "weekly_holiday_dates dates weekdays =
     filter (\<lambda>d. case get_weekday d of None \<Rightarrow> False | Some w \<Rightarrow> w \<in> set weekdays) dates"

record holiday_row =
  hol_company :: string
  hol_date :: string
  hol_name :: string
  hol_local :: "string option"

datatype holiday_type = Weekly | Government

definition holiday_info :: "string list \<Rightarrow> holiday_row list \<Rightarrow> string \<Rightarrow> (string \<times> holiday_type) option" where
  "holiday_info weekly government d =
     (case List.find (\<lambda>r. hol_date r = d) (rev government) of
        Some r \<Rightarrow> Some (if truthy (hol_local r) then the (hol_local r)
                         else if hol_name r \<noteq> [] then hol_name r else ''Government Holiday'', Government)
      | None \<Rightarrow> if d \<in> set weekly then Some (''Weekly Holiday'', Weekly) else None)"

text \<open>\<open>resolveHolidayDates\<close>: the days of the period in UTC, and the holidays of its first and last year.\<close>

definition utc_day :: "string \<Rightarrow> ymd option" where
  "utc_day s = (case parse_iso s of
     Some (y, m, d) \<Rightarrow> if 1 \<le> m \<and> m \<le> 12 \<and> 1 \<le> d \<and> d \<le> 31 then Some (carry_days y m d) else None
   | None \<Rightarrow> None)"

definition government_of_year :: "string \<Rightarrow> string \<Rightarrow> holiday_row list \<Rightarrow> string list" where
  "government_of_year co year tbl =
     map hol_date (filter (\<lambda>r. hol_company r = co \<and> year @ ''-01-01'' \<le> hol_date r \<and> hol_date r \<le> year @ ''-12-31'') tbl)"

definition resolve_holiday_dates :: "string \<Rightarrow> string \<Rightarrow> string \<Rightarrow> int list \<Rightarrow> holiday_row list \<Rightarrow> string list" where
  "resolve_holiday_dates co start fin weekdays tbl =
     (let dates = (case (utc_day start, utc_day fin) of (Some a, Some b) \<Rightarrow> map iso (each_day a b) | _ \<Rightarrow> []);
          government = concat (map (\<lambda>y. government_of_year co y tbl) (remdups [take 4 start, take 4 fin]))
      in weekly_holiday_dates dates weekdays @ filter (\<lambda>d. d \<in> set dates) government)"

section \<open>Payroll days\<close>

record office_day =
  od_date :: string
  od_status :: "string option"
  od_check_in :: "string option"
  od_project :: string
  od_overtime :: decimal

record payroll_days =
  pd_standard :: nat
  pd_working :: nat
  pd_unpaid :: nat
  pd_paid :: int
  pd_late :: nat
  pd_attended :: nat
  pd_missing :: "string list"

definition unpaid_statuses :: "string list" where
  "unpaid_statuses = [''ABSENT'', ''UNPAID_LEAVE'']"

text \<open>\<open>inEmployment\<close>: comparisons of dates; an invalid date compares false.\<close>

definition day_le :: "string \<Rightarrow> string \<Rightarrow> bool" where
  "day_le a b = (case (local_day a, local_day b) of (Some x, Some y) \<Rightarrow> x \<le> y | _ \<Rightarrow> False)"

definition in_employment :: "string option \<Rightarrow> string option \<Rightarrow> string \<Rightarrow> bool" where
  "in_employment first last_day d \<longleftrightarrow>
     (truthy first \<longrightarrow> day_le (the first) d) \<and> (truthy last_day \<longrightarrow> day_le d (the last_day))"

text \<open>The map by date: the last row of a date wins.\<close>

definition row_on :: "office_day list \<Rightarrow> string \<Rightarrow> office_day option" where
  "row_on days d = List.find (\<lambda>r. od_date r = d) (rev days)"

definition attended_on :: "office_day \<Rightarrow> bool" where
  "attended_on r \<longleftrightarrow> od_status r = None \<or> od_status r = Some ''PRESENT''"

definition unpaid_on :: "office_day \<Rightarrow> bool" where
  "unpaid_on r \<longleftrightarrow> (case od_status r of None \<Rightarrow> '''' | Some v \<Rightarrow> v) \<in> set unpaid_statuses"

definition late_on :: "late_threshold \<Rightarrow> office_day \<Rightarrow> bool" where
  "late_on th r \<longleftrightarrow> truthy (od_check_in r) \<and> is_late (the (od_check_in r)) th"

text \<open>One round of the loop.\<close>

definition count_day :: "office_day list \<Rightarrow> string list \<Rightarrow> late_threshold \<Rightarrow> payroll_days \<Rightarrow> string \<Rightarrow> payroll_days" where
  "count_day days holidays th p d =
     (if d \<in> set holidays then p
      else let q = p\<lparr>pd_working := pd_working p + 1\<rparr> in
        case row_on days d of
          None \<Rightarrow> q\<lparr>pd_unpaid := pd_unpaid q + 1, pd_missing := pd_missing q @ [d]\<rparr>
        | Some r \<Rightarrow>
            if unpaid_on r then q\<lparr>pd_unpaid := pd_unpaid q + 1\<rparr>
            else if attended_on r
            then q\<lparr>pd_attended := pd_attended q + 1, pd_late := pd_late q + (if late_on th r then 1 else 0)\<rparr>
            else q)"

definition compute_payroll_days ::
  "string \<Rightarrow> string \<Rightarrow> string option \<Rightarrow> string option \<Rightarrow> office_day list \<Rightarrow> string list \<Rightarrow> late_threshold \<Rightarrow> payroll_days" where
  "compute_payroll_days start fin first last_day days holidays th =
     (let dates = filter (in_employment first last_day) (each_date start fin);
          p = foldl (count_day days holidays th)
                \<lparr>pd_standard = 0, pd_working = 0, pd_unpaid = 0, pd_paid = 0, pd_late = 0, pd_attended = 0, pd_missing = []\<rparr> dates
      in p\<lparr>pd_standard := length dates, pd_paid := int (length dates) - int (pd_unpaid p)\<rparr>)"

text \<open>\<open>penaltyDays\<close>: a partial group never rounds up.\<close>

definition penalty_days :: "nat \<Rightarrow> int \<Rightarrow> int" where
  "penalty_days lates per = int lates div max 1 per"

section \<open>The windows are sets of calendar days\<close>

lemma local_day_format: "good_day dt \<Longrightarrow> local_day (format_local dt) = Some dt"
  by (simp add: format_local_iso local_day_iso)

lemma map_format_iso: "good_day a \<Longrightarrow> good_day b \<Longrightarrow> map format_local (each_day a b) = map iso (each_day a b)"
  by (rule map_cong) (auto intro: format_local_iso good_days_between)

lemma each_date_iso: "good_day a \<Longrightarrow> good_day b \<Longrightarrow> each_date (iso a) (iso b) = map iso (each_day a b)"
  by (simp add: each_date_def local_day_iso map_format_iso)

lemma valid_good: "good_day dt \<Longrightarrow> valid_ymd dt"
  by (simp add: good_day_def)

lemma each_day_good_set:
  "good_day a \<Longrightarrow> set (each_day a b) = {dt. valid_ymd dt \<and> a \<le> dt \<and> dt \<le> b}"
  by (simp add: each_day_set valid_good)

lemma length_filter_days:
  assumes "good_day a"
  shows "length (filter P (each_day a b)) = card {dt. valid_ymd dt \<and> a \<le> dt \<and> dt \<le> b \<and> P dt}"
proof -
  have "length (filter P (each_day a b)) = card (set (filter P (each_day a b)))"
    by (rule distinct_card [symmetric]) (simp add: each_day_distinct valid_good assms)
  also have "set (filter P (each_day a b)) = {dt. valid_ymd dt \<and> a \<le> dt \<and> dt \<le> b \<and> P dt}"
    by (auto simp: each_day_good_set assms)
  finally show ?thesis .
qed

lemma windows_facts:
  assumes "good_day a" and "good_day b" and "good_day today"
  shows "set (each_date (iso a) (iso b)) = iso ` {dt. valid_ymd dt \<and> a \<le> dt \<and> dt \<le> b}"
    and "sorted_wrt (<) (each_date (iso a) (iso b))"
    and "count_days_inclusive (iso a) (iso b) = Some (int (length (each_date (iso a) (iso b))))"
    and "list_dates_inclusive (iso a) (iso b) today = filter (\<lambda>d. d \<le> iso today) (each_date (iso a) (iso b))"
proof -
  note days = each_date_iso [OF assms(1,2)]
  show "set (each_date (iso a) (iso b)) = iso ` {dt. valid_ymd dt \<and> a \<le> dt \<and> dt \<le> b}"
    by (simp add: days each_day_good_set assms)
  show "sorted_wrt (<) (each_date (iso a) (iso b))"
    unfolding days sorted_wrt_map
    by (rule sorted_wrt_mono_rel [OF _ each_day_sorted [OF valid_good [OF assms(1)]]])
      (use good_days_between [OF assms(1,2)] good_day_range in \<open>auto simp: iso_less_iff\<close>)
  show "count_days_inclusive (iso a) (iso b) = Some (int (length (each_date (iso a) (iso b))))"
    using day_number_gap [of a b] assms
    by (auto simp: count_days_inclusive_def days local_day_iso valid_good each_day.simps [of a b] not_le)
  have "(if today < b then today else b) = min b today" by (auto simp: min_def)
  then have "each_day a (if today < b then today else b) = filter (\<lambda>dt. dt \<le> today) (each_day a b)"
    using each_day_clamp [OF valid_good [OF assms(1)], of b today] by (simp only:)
  moreover have "filter (\<lambda>dt. iso dt \<le> iso today) (each_day a b) = filter (\<lambda>dt. dt \<le> today) (each_day a b)"
    using good_days_between [OF assms(1,2)] iso_le_iff [OF good_day_range good_day_range [OF assms(3)]]
    by (intro filter_cong) blast+
  moreover have "map format_local (filter (\<lambda>dt. dt \<le> today) (each_day a b)) = map iso (filter (\<lambda>dt. dt \<le> today) (each_day a b))"
    by (rule map_cong) (auto intro: format_local_iso good_days_between [OF assms(1,2)])
  ultimately show "list_dates_inclusive (iso a) (iso b) today = filter (\<lambda>d. d \<le> iso today) (each_date (iso a) (iso b))"
    by (simp add: list_dates_inclusive_def days local_day_iso local_day_format assms filter_map comp_def)
qed

text \<open>
  C23.  The three ways the program measures a window agree.  For real days of the years 1000 to 9999,
  \<open>eachDate\<close> lists exactly the days from start to end, once each and in order; \<open>countDaysInclusive\<close>, which
  subtracts time stamps, is the length of that list; and \<open>listDatesInclusive\<close>, which clamps to today, is
  the list without the days after today.
\<close>
theorem windows_agree:
  assumes "good_day a" and "good_day b" and "good_day today"
  shows "set (each_date (iso a) (iso b)) = iso ` {dt. valid_ymd dt \<and> a \<le> dt \<and> dt \<le> b} \<and>
    sorted_wrt (<) (each_date (iso a) (iso b)) \<and>
    count_days_inclusive (iso a) (iso b) = Some (int (length (each_date (iso a) (iso b)))) \<and>
    list_dates_inclusive (iso a) (iso b) today = filter (\<lambda>d. d \<le> iso today) (each_date (iso a) (iso b))"
  using windows_facts [OF assms] by blast

theorem windows_agree_witness:
  "count_days_inclusive ''2024-02-27'' ''2024-03-02'' = Some 5 \<and>
   list_dates_inclusive ''2024-02-27'' ''2024-03-02'' (2024, 2, 29) = [''2024-02-27'', ''2024-02-28'', ''2024-02-29'']"
proof -
  have g: "good_day (2024, 2, 27)" "good_day (2024, 3, 2)" "good_day (2024, 2, 29)" by code_simp+
  have i: "iso (2024, 2, 27) = ''2024-02-27''" "iso (2024, 3, 2) = ''2024-03-02''" by code_simp+
  have "each_date ''2024-02-27'' ''2024-03-02'' = [''2024-02-27'', ''2024-02-28'', ''2024-02-29'', ''2024-03-01'', ''2024-03-02'']"
    "iso (2024, 2, 29) = ''2024-02-29''" by code_simp+
  with windows_agree [OF g] show ?thesis by (simp add: i)
qed

section \<open>What the loop counts\<close>

definition on_leave :: "office_day list \<Rightarrow> string \<Rightarrow> bool" where
  "on_leave days d \<longleftrightarrow> (case row_on days d of None \<Rightarrow> False | Some r \<Rightarrow> \<not> unpaid_on r \<and> \<not> attended_on r)"

definition missing_on :: "office_day list \<Rightarrow> string \<Rightarrow> bool" where
  "missing_on days d \<longleftrightarrow> row_on days d = None"

definition deducted_on :: "office_day list \<Rightarrow> string \<Rightarrow> bool" where
  "deducted_on days d \<longleftrightarrow> (case row_on days d of None \<Rightarrow> True | Some r \<Rightarrow> unpaid_on r)"

definition present_on :: "office_day list \<Rightarrow> string \<Rightarrow> bool" where
  "present_on days d \<longleftrightarrow> (case row_on days d of None \<Rightarrow> False | Some r \<Rightarrow> attended_on r)"

definition late_present_on :: "late_threshold \<Rightarrow> office_day list \<Rightarrow> string \<Rightarrow> bool" where
  "late_present_on th days d \<longleftrightarrow> (case row_on days d of None \<Rightarrow> False | Some r \<Rightarrow> attended_on r \<and> late_on th r)"

lemma attended_not_unpaid: "attended_on r \<Longrightarrow> \<not> unpaid_on r"
  by (auto simp: attended_on_def unpaid_on_def unpaid_statuses_def)

lemma count_days_fold:
  "foldl (count_day days holidays th) p ds =
     (let ws = filter (\<lambda>d. d \<notin> set holidays) ds in
      p\<lparr>pd_working := pd_working p + length ws,
        pd_unpaid := pd_unpaid p + length (filter (deducted_on days) ws),
        pd_late := pd_late p + length (filter (late_present_on th days) ws),
        pd_attended := pd_attended p + length (filter (present_on days) ws),
        pd_missing := pd_missing p @ filter (missing_on days) ws\<rparr>)"
proof (induction ds arbitrary: p)
  case (Cons d ds)
  then show ?case
    using attended_not_unpaid
    by (auto simp: count_day_def Let_def deducted_on_def late_present_on_def present_on_def missing_on_def
      split: option.splits)
qed simp

text \<open>The days of a period an employee is charged for, and the days of work among them.\<close>

definition employed_days :: "ymd \<Rightarrow> ymd \<Rightarrow> ymd option \<Rightarrow> ymd set" where
  "employed_days a b joined = {dt. valid_ymd dt \<and> a \<le> dt \<and> dt \<le> b \<and> (case joined of None \<Rightarrow> True | Some j \<Rightarrow> j \<le> dt)}"

definition work_days :: "ymd \<Rightarrow> ymd \<Rightarrow> ymd option \<Rightarrow> string list \<Rightarrow> ymd set" where
  "work_days a b joined holidays = {dt \<in> employed_days a b joined. iso dt \<notin> set holidays}"

lemma in_employment_iso:
  assumes "good_day dt" and "\<forall>j. joined = Some j \<longrightarrow> good_day j"
  shows "in_employment (map_option iso joined) None (iso dt) \<longleftrightarrow> (case joined of None \<Rightarrow> True | Some j \<Rightarrow> j \<le> dt)"
proof -
  have "iso j \<noteq> []" for j by (cases j) (simp add: iso_def)
  with assms show ?thesis by (auto simp: in_employment_def day_le_def local_day_iso split: option.splits)
qed

lemma employed_dates:
  assumes "good_day a" and "good_day b" and "\<forall>j. joined = Some j \<longrightarrow> good_day j"
  shows "filter (in_employment (map_option iso joined) None) (each_date (iso a) (iso b)) =
    map iso (filter (\<lambda>dt. case joined of None \<Rightarrow> True | Some j \<Rightarrow> j \<le> dt) (each_day a b))"
  using good_days_between [OF assms(1,2)] in_employment_iso [OF _ assms(3)]
  by (auto simp: each_date_iso assms filter_map comp_def intro!: filter_cong arg_cong [of _ _ "map iso"])

lemma payroll_days_lists:
  assumes "good_day a" and "good_day b" and "\<forall>j. joined = Some j \<longrightarrow> good_day j"
    and p_def: "p = compute_payroll_days (iso a) (iso b) (map_option iso joined) None days holidays th"
    and es_def: "es = filter (\<lambda>dt. case joined of None \<Rightarrow> True | Some j \<Rightarrow> j \<le> dt) (each_day a b)"
    and ws_def: "ws = filter (\<lambda>dt. iso dt \<notin> set holidays) es"
  shows "pd_standard p = length es" and "pd_working p = length ws"
    and "pd_unpaid p = length (filter (deducted_on days \<circ> iso) ws)"
    and "pd_late p = length (filter (late_present_on th days \<circ> iso) ws)"
    and "pd_attended p = length (filter (present_on days \<circ> iso) ws)"
    and "pd_missing p = map iso (filter (missing_on days \<circ> iso) ws)"
    and "pd_paid p = int (pd_standard p) - int (pd_unpaid p)"
    and "set es = employed_days a b joined" and "distinct es"
  using employed_dates [OF assms(1-3)]
  by (auto simp: p_def compute_payroll_days_def Let_def count_days_fold es_def ws_def filter_map comp_def
    employed_days_def each_day_good_set assms(1) each_day_distinct valid_good)


lemma payroll_days_cards:
  assumes "good_day a" and "good_day b" and "\<forall>j. joined = Some j \<longrightarrow> good_day j"
    and p_def: "p = compute_payroll_days (iso a) (iso b) (map_option iso joined) None days holidays th"
    and ws_def: "ws = work_days a b joined holidays"
  shows "pd_standard p = card (employed_days a b joined)" and "pd_working p = card ws"
    and "pd_unpaid p = card {dt \<in> ws. deducted_on days (iso dt)}"
    and "pd_late p = card {dt \<in> ws. late_present_on th days (iso dt)}"
    and "pd_attended p = card {dt \<in> ws. present_on days (iso dt)}"
    and "set (pd_missing p) = iso ` {dt \<in> ws. missing_on days (iso dt)}"
    and "pd_paid p = int (pd_standard p) - int (pd_unpaid p)"
    and "finite (employed_days a b joined)"
proof -
  define es where "es = filter (\<lambda>dt. case joined of None \<Rightarrow> True | Some j \<Rightarrow> j \<le> dt) (each_day a b)"
  note l = payroll_days_lists [OF assms(1-3) p_def es_def refl]
  have s: "set (filter (\<lambda>dt. iso dt \<notin> set holidays) es) = ws" by (simp add: ws_def work_days_def l(8))
  have d: "length (filter P (filter (\<lambda>dt. iso dt \<notin> set holidays) es)) = card {dt \<in> ws. P dt}" for P
    using distinct_card [of "filter P (filter (\<lambda>dt. iso dt \<notin> set holidays) es)"] l(9) s by auto
  show "pd_standard p = card (employed_days a b joined)" using l(1,8,9) distinct_card by metis
  show "pd_working p = card ws" unfolding l(2) s [symmetric] by (rule distinct_card [symmetric]) (simp add: l(9))
  show "pd_unpaid p = card {dt \<in> ws. deducted_on days (iso dt)}" unfolding l(3) d by simp
  show "pd_late p = card {dt \<in> ws. late_present_on th days (iso dt)}" unfolding l(4) d by simp
  show "pd_attended p = card {dt \<in> ws. present_on days (iso dt)}" unfolding l(5) d by simp
  show "set (pd_missing p) = iso ` {dt \<in> ws. missing_on days (iso dt)}" unfolding l(6) s [symmetric] by auto
  show "pd_paid p = int (pd_standard p) - int (pd_unpaid p)" by (rule l(7))
  show "finite (employed_days a b joined)" unfolding l(8) [symmetric] by simp
qed

text \<open>Every day of work is deducted, attended or leave, and only one of them.\<close>

lemma day_kinds:
  assumes "finite ws"
  shows "card {dt \<in> ws. deducted_on days (iso dt)} + card {dt \<in> ws. present_on days (iso dt)} +
    card {dt \<in> ws. on_leave days (iso dt)} = card ws"
proof -
  let ?A = "{dt \<in> ws. deducted_on days (iso dt)}" and ?B = "{dt \<in> ws. present_on days (iso dt)}"
    and ?C = "{dt \<in> ws. on_leave days (iso dt)}"
  have u: "?A \<union> ?B \<union> ?C = ws" "?A \<inter> ?B = {}" "(?A \<union> ?B) \<inter> ?C = {}"
    using attended_not_unpaid by (auto simp: deducted_on_def present_on_def on_leave_def split: option.splits)
  have f: "finite ?A" "finite ?B" "finite ?C" using assms by simp_all
  have "card (?A \<union> ?B \<union> ?C) = card (?A \<union> ?B) + card ?C" using f u(3) by (intro card_Un_disjoint) simp_all
  also have "card (?A \<union> ?B) = card ?A + card ?B" using f u(2) by (intro card_Un_disjoint) simp_all
  finally show ?thesis unfolding u(1) by (rule sym)
qed

text \<open>
  C24.  The paid baseline.  For a period of real days and an employee who joined on a real day or has no
  joining date, the loop of \<open>computePayrollDays\<close> counts sets of calendar days: the baseline is the days of
  the period from the joining day on, holidays included; a day of work is deducted exactly when it has
  no attendance row or an unpaid one; every other day of work was attended or paid leave; holidays are
  never deducted; and the days the warning lists are the days of work without a row.
\<close>
theorem payroll_days_count_the_calendar:
  assumes "good_day a" and "good_day b" and "\<forall>j. joined = Some j \<longrightarrow> good_day j"
    and "p = compute_payroll_days (iso a) (iso b) (map_option iso joined) None days holidays th"
    and "ws = work_days a b joined holidays"
  shows "pd_standard p = card (employed_days a b joined) \<and> pd_working p = card ws \<and>
    pd_unpaid p = card {dt \<in> ws. deducted_on days (iso dt)} \<and>
    pd_attended p = card {dt \<in> ws. present_on days (iso dt)} \<and>
    pd_late p = card {dt \<in> ws. late_present_on th days (iso dt)} \<and>
    set (pd_missing p) = iso ` {dt \<in> ws. missing_on days (iso dt)} \<and>
    pd_paid p = int (pd_standard p) - int (pd_unpaid p) \<and>
    pd_unpaid p + pd_attended p + card {dt \<in> ws. on_leave days (iso dt)} = pd_working p \<and>
    int (card (employed_days a b joined - ws)) \<le> pd_paid p \<and> pd_late p \<le> pd_attended p"
proof -
  note c = payroll_days_cards [OF assms]
  have sub: "ws \<subseteq> employed_days a b joined" by (auto simp: assms(5) work_days_def)
  with c(8) have f: "finite ws" by (rule finite_subset [rotated])
  have "card {dt \<in> ws. deducted_on days (iso dt)} \<le> card ws" using f by (simp add: card_mono)
  moreover have "card (employed_days a b joined - ws) + card ws = card (employed_days a b joined)"
    using card_Diff_subset [OF f sub] card_mono [OF c(8) sub] by simp
  ultimately have "int (card (employed_days a b joined - ws)) \<le> pd_paid p" using c(1,3,7) by linarith
  moreover have "pd_late p \<le> pd_attended p"
    unfolding c(4,5) using f by (intro card_mono) (auto simp: late_present_on_def present_on_def split: option.splits)
  ultimately show ?thesis using c day_kinds [OF f, of days] by presburger
qed

definition sample_days :: "office_day list" where
  "sample_days = map (\<lambda>(d, st, t). \<lparr>od_date = d, od_status = st, od_check_in = t, od_project = ''P1'', od_overtime = 0\<rparr>)
     [(''2026-07-01'', Some ''PRESENT'', Some ''09:31:00''), (''2026-07-02'', Some ''PAID_LEAVE'', None),
      (''2026-07-04'', Some ''ABSENT'', None)]"

theorem payroll_days_count_the_calendar_witness:
  "pd_paid (compute_payroll_days (iso (2026, 7, 1)) (iso (2026, 7, 5)) None None sample_days [''2026-07-03''] \<lparr>lt_hour = 9, lt_minute = 30\<rparr>) = 3 \<and>
   card (employed_days (2026, 7, 1) (2026, 7, 5) None) = 5"
proof -
  have g: "good_day (2026, 7, 1)" "good_day (2026, 7, 5)" "\<forall>j. None = Some j \<longrightarrow> good_day j" by (code_simp, code_simp, simp)
  have "pd_standard (compute_payroll_days (iso (2026, 7, 1)) (iso (2026, 7, 5)) None None sample_days [''2026-07-03''] \<lparr>lt_hour = 9, lt_minute = 30\<rparr>) = 5"
    "pd_unpaid (compute_payroll_days (iso (2026, 7, 1)) (iso (2026, 7, 5)) None None sample_days [''2026-07-03''] \<lparr>lt_hour = 9, lt_minute = 30\<rparr>) = 2"
    by code_simp+
  with payroll_days_count_the_calendar [OF g refl refl, of sample_days "[''2026-07-03'']" "\<lparr>lt_hour = 9, lt_minute = 30\<rparr>"]
  show ?thesis by simp
qed

section \<open>Late arrivals and holidays\<close>

definition clock :: "nat \<Rightarrow> nat \<Rightarrow> nat \<Rightarrow> string" where
  "clock h m s = pad_start 2 (show_nat h) @ '':'' @ pad_start 2 (show_nat m) @ '':'' @ pad_start 2 (show_nat s)"

lemma no_colon: "CHR '':'' \<notin> set (pad_start w (show_nat n))"
  using pad_start_digits [of w n] by (auto simp: is_digit_def)

text \<open>
  C25.  A check-in is late exactly when the minute of the threshold has fully elapsed: at every time of day
  the \<open>time\<close> column holds, down to the second.
\<close>
theorem late_once_the_minute_elapsed:
  assumes "h < 24" and "m < 60" and "s < 60" and "0 \<le> lt_minute th" and "lt_minute th < 60"
  shows "is_late (clock h m s) th \<longleftrightarrow> 60 * (60 * lt_hour th + lt_minute th + 1) \<le> int (3600 * h + 60 * m + s)"
proof -
  have parts: "split_on CHR '':'' (clock h m s) = [pad_start 2 (show_nat h), pad_start 2 (show_nat m), pad_start 2 (show_nat s)]"
    by (simp add: clock_def split_on_append split_on_none no_colon)
  have "(3600 * h + 60 * m + s) div 3600 = h" "(3600 * h + 60 * m + s) div 60 = 60 * h + m"
    using assms(1-3) div_mult_self1 [of 3600 "60 * m + s" h] div_mult_self1 [of 60 s "60 * h + m"]
    by (simp_all add: algebra_simps)
  with assms(1,2) have t: "int (3600 * h + 60 * m + s) div 3600 mod 24 = int h" "int (3600 * h + 60 * m + s) div 60 mod 60 = int m"
    by (simp_all only: zdiv_int [of _ 3600, symmetric, simplified] zdiv_int [of _ 60, symmetric, simplified])
      (simp_all add: zmod_int [symmetric])
  have "is_late (clock h m s) th =
      (let t = int (3600 * h + 60 * m + s) in is_late_check_in (t div 3600 mod 24) (t div 60 mod 60) th)"
    unfolding is_late_def parts by (simp add: time_part_def number_of_show del: of_nat_add of_nat_mult)
  also have "\<dots> \<longleftrightarrow> is_late_check_in (int h) (int m) th" unfolding Let_def t ..
  also have "\<dots> \<longleftrightarrow> 60 * (60 * lt_hour th + lt_minute th + 1) \<le> int (3600 * h + 60 * m + s)"
    using assms unfolding is_late_check_in_def by (cases "int h" "lt_hour th" rule: linorder_cases) auto
  finally show ?thesis .
qed

theorem late_once_the_minute_elapsed_witness:
  "is_late (clock 9 31 0) \<lparr>lt_hour = 9, lt_minute = 30\<rparr> \<and> \<not> is_late (clock 9 30 59) \<lparr>lt_hour = 9, lt_minute = 30\<rparr>"
  using late_once_the_minute_elapsed [of 9 31 0 "\<lparr>lt_hour = 9, lt_minute = 30\<rparr>"]
    late_once_the_minute_elapsed [of 9 30 59 "\<lparr>lt_hour = 9, lt_minute = 30\<rparr>"] by simp

end
