(* ===== verification/Payroll.thy ===== *)
theory Payroll
  imports Vouchers Hr_Days
begin

text \<open>
  The office payroll of \<open>src/src/modules/hr/domain/\<close>: the salary calculator, the salary sheet with its lines,
  and the map from a sheet to the balanced \<open>SALARY\<close> command.  The days and rates the service passes are
  finite decimals it built itself; the amounts of a patch are the number strings the controller admits.
\<close>

section \<open>The calculator\<close>

record employee_pay =
  ep_wage_type :: string
  ep_wage :: money

record attendance_summary =
  as_paid :: decimal_input
  as_standard :: decimal_input
  as_attended :: decimal_input
  as_overtime :: "decimal_input option"
  as_penalty :: "decimal_input option"

definition or_zero :: "decimal_input option \<Rightarrow> decimal_input" where
  "or_zero v = (case v of None \<Rightarrow> Dec 0 | Some x \<Rightarrow> x)"

definition days_arg :: "decimal_input \<Rightarrow> string \<Rightarrow> domain_error + decimal" where
  "days_arg v field = rbind (to_decimal v field) (\<lambda>x. assert_non_neg x field)"

definition calc_gross :: "dec_lib \<Rightarrow> employee_pay \<Rightarrow> attendance_summary \<Rightarrow> domain_error + money" where
  "calc_gross D emp att =
     rbind (days_arg (or_zero (as_overtime att)) ''overtimeAmount'') (\<lambda>overtime.
     if ep_wage_type emp = ''MONTHLY'' then
       rbind (to_decimal (as_standard att) ''standardDays'') (\<lambda>standard.
       rbind (require (0 < standard) (ValidationError ''standardDays'')) (\<lambda>_.
       rbind (days_arg (as_paid att) ''paidDays'') (\<lambda>paid.
       rbind (days_arg (or_zero (as_penalty att)) ''penaltyDays'') (\<lambda>penalty.
       let payable = max (d_minus D paid penalty) 0;
           prorated = d_div D (d_times D (ep_wage emp) payable) standard
       in Inr (money_plus D (money_round D prorated) (money_round D overtime))))))
     else if ep_wage_type emp = ''DAILY'' then
       rbind (days_arg (as_attended att) ''attendedDays'') (\<lambda>attended.
       Inr (money_plus D (money_round D (d_times D (ep_wage emp) attended)) (money_round D overtime)))
     else Inl (ValidationError ''wageType''))"

record pay_components =
  co_allowances :: "decimal_input option"
  co_tds :: "decimal_input option"
  co_pf :: "decimal_input option"
  co_advance :: "decimal_input option"
  co_other :: "decimal_input option"

record salary_amounts =
  am_gross :: money
  am_allowances :: money
  am_tds :: money
  am_pf :: money
  am_advance :: money
  am_other :: money
  am_net :: money

definition non_neg_money :: "decimal_input option \<Rightarrow> string \<Rightarrow> domain_error + money" where
  "non_neg_money v field = (case v of None \<Rightarrow> Inr 0 | Some x \<Rightarrow> rbind (to_decimal x field) (\<lambda>m. assert_non_neg m field))"

definition apply_components :: "dec_lib \<Rightarrow> money \<Rightarrow> pay_components \<Rightarrow> domain_error + salary_amounts" where
  "apply_components D gross cfg =
     rbind (non_neg_money (co_allowances cfg) ''allowances'') (\<lambda>allowances.
     rbind (non_neg_money (co_tds cfg) ''tds'') (\<lambda>tds.
     rbind (non_neg_money (co_pf cfg) ''pf'') (\<lambda>pf.
     rbind (non_neg_money (co_advance cfg) ''advanceRecovery'') (\<lambda>advance.
     rbind (non_neg_money (co_other cfg) ''other'') (\<lambda>other.
     let deductions = money_plus D (money_plus D (money_plus D tds pf) advance) other;
         net = money_minus D (money_plus D gross allowances) deductions
     in Inr \<lparr>am_gross = money_round D gross, am_allowances = money_round D allowances, am_tds = money_round D tds,
          am_pf = money_round D pf, am_advance = money_round D advance, am_other = money_round D other,
          am_net = money_round D net\<rparr>)))))"

section \<open>Salary sheets\<close>

record salary_line =
  sl_id :: string
  sl_employee :: string
  sl_project :: string
  sl_cost_centre :: string
  sl_purpose :: string
  sl_paid_days :: decimal
  sl_gross :: money
  sl_allowances :: money
  sl_tds :: money
  sl_pf :: money
  sl_advance :: money
  sl_other :: money
  sl_net :: money
  sl_standard_days :: decimal
  sl_unpaid_days :: decimal
  sl_late_count :: int
  sl_penalty_days :: decimal
  sl_penalty_amount :: money
  sl_version :: nat

record new_salary_line =
  nl_employee :: string
  nl_project :: string
  nl_cost_centre :: string
  nl_purpose :: string
  nl_paid_days :: decimal
  nl_gross :: money
  nl_standard_days :: "decimal option"
  nl_unpaid_days :: "decimal option"
  nl_late_count :: "int option"
  nl_penalty_days :: "decimal option"
  nl_penalty_amount :: "decimal option"

definition no_components :: pay_components where
  "no_components = \<lparr>co_allowances = None, co_tds = None, co_pf = None, co_advance = None, co_other = None\<rparr>"

definition non_neg_days :: "decimal option \<Rightarrow> string \<Rightarrow> domain_error + decimal" where
  "non_neg_days v field = (case v of None \<Rightarrow> Inr 0 | Some x \<Rightarrow> assert_non_neg x field)"

definition salary_line_create :: "dec_lib \<Rightarrow> string \<Rightarrow> new_salary_line \<Rightarrow> domain_error + salary_line" where
  "salary_line_create D i inp =
     rbind (assert_non_neg (nl_paid_days inp) ''paidDays'') (\<lambda>paid.
     rbind (apply_components D (nl_gross inp) no_components) (\<lambda>a.
     rbind (req (nl_employee inp) ''employeeId'') (\<lambda>employee.
     rbind (req (nl_project inp) ''projectId'') (\<lambda>project.
     rbind (req (nl_cost_centre inp) ''costCentreId'') (\<lambda>cost_centre.
     rbind (req (nl_purpose inp) ''purposeId'') (\<lambda>purpose.
     rbind (non_neg_days (nl_standard_days inp) ''standardDays'') (\<lambda>standard.
     rbind (non_neg_days (nl_unpaid_days inp) ''unpaidDays'') (\<lambda>unpaid.
     rbind (non_neg_days (nl_penalty_days inp) ''latePenaltyDays'') (\<lambda>penalty.
     rbind (non_neg_days (nl_penalty_amount inp) ''latePenaltyAmount'') (\<lambda>cost.
     Inr \<lparr>sl_id = i, sl_employee = employee, sl_project = project, sl_cost_centre = cost_centre, sl_purpose = purpose,
          sl_paid_days = paid, sl_gross = am_gross a, sl_allowances = am_allowances a, sl_tds = am_tds a, sl_pf = am_pf a,
          sl_advance = am_advance a, sl_other = am_other a, sl_net = am_net a, sl_standard_days = standard,
          sl_unpaid_days = unpaid, sl_late_count = max 0 (case nl_late_count inp of None \<Rightarrow> 0 | Some n \<Rightarrow> n),
          sl_penalty_days = penalty, sl_penalty_amount = cost, sl_version = 1\<rparr>))))))))))"

text \<open>A component of a patch: left out it keeps the value of the line, \<open>null\<close> is zero.\<close>

definition comp_arg :: "decimal_input patch \<Rightarrow> money \<Rightarrow> decimal_input option" where
  "comp_arg p old = (case p of Undefined \<Rightarrow> Some (Dec old) | Null \<Rightarrow> None | Given x \<Rightarrow> Some x)"

definition with_amounts :: "salary_amounts \<Rightarrow> salary_line \<Rightarrow> salary_line" where
  "with_amounts a l = l\<lparr>sl_allowances := am_allowances a, sl_tds := am_tds a, sl_pf := am_pf a,
     sl_advance := am_advance a, sl_other := am_other a, sl_net := am_net a\<rparr>"

record edit_components =
  ec_allowances :: "decimal_input patch"
  ec_tds :: "decimal_input patch"
  ec_pf :: "decimal_input patch"
  ec_advance :: "decimal_input patch"
  ec_other :: "decimal_input patch"

definition line_edit_components :: "dec_lib \<Rightarrow> edit_components \<Rightarrow> salary_line \<Rightarrow> domain_error + salary_line" where
  "line_edit_components D p l =
     rbind (apply_components D (sl_gross l)
       \<lparr>co_allowances = comp_arg (ec_allowances p) (sl_allowances l), co_tds = comp_arg (ec_tds p) (sl_tds l),
        co_pf = comp_arg (ec_pf p) (sl_pf l), co_advance = comp_arg (ec_advance p) (sl_advance l),
        co_other = comp_arg (ec_other p) (sl_other l)\<rparr>) (\<lambda>a. Inr (with_amounts a l))"

record bulk_rule =
  br_allowances :: "decimal_input patch"
  br_tds_rate :: "decimal_input patch"
  br_pf :: "decimal_input patch"
  br_advance :: "decimal_input patch"
  br_employees :: "string list"

text \<open>\<open>grossAmount.times(rate)\<close>: the rate goes straight to decimal.js, which throws on what is no number.\<close>

definition tds_of_rate :: "dec_lib \<Rightarrow> decimal_input patch \<Rightarrow> salary_line \<Rightarrow> domain_error + decimal_input option" where
  "tds_of_rate D rate l =
     (case rate of
        Undefined \<Rightarrow> Inr (Some (Dec (sl_tds l)))
      | Given (Dec r) \<Rightarrow> Inr (Some (Dec (money_round D (money_times D (sl_gross l) r))))
      | _ \<Rightarrow> Inl (JsError ''[DecimalError] Invalid argument''))"

definition line_apply_bulk :: "dec_lib \<Rightarrow> bulk_rule \<Rightarrow> salary_line \<Rightarrow> domain_error + salary_line" where
  "line_apply_bulk D r l =
     rbind (tds_of_rate D (br_tds_rate r) l) (\<lambda>tds.
     rbind (apply_components D (sl_gross l)
       \<lparr>co_allowances = comp_arg (br_allowances r) (sl_allowances l), co_tds = tds,
        co_pf = comp_arg (br_pf r) (sl_pf l), co_advance = comp_arg (br_advance r) (sl_advance l),
        co_other = Some (Dec (sl_other l))\<rparr>) (\<lambda>a. Inr (with_amounts a l)))"

datatype sheet_status = SheetDraft | SheetPosted

record pre_post_warnings =
  pw_days_with_no_records :: "string list"
  pw_skipped :: "(string \<times> string) list"
  pw_absences :: "(string \<times> nat) list"
  pw_no_weekly_holidays :: bool

record salary_sheet =
  sh_id :: string
  sh_company :: string
  sh_fy :: string
  sh_label :: string
  sh_start :: string
  sh_end :: string
  sh_status :: sheet_status
  sh_entry :: "string option"
  sh_posted_at :: "int option"
  sh_posted_by :: "string option"
  sh_warnings :: "pre_post_warnings option"
  sh_version :: nat
  sh_lines :: "salary_line list"

record new_salary_sheet =
  nh_fy :: string
  nh_label :: string
  nh_start :: string
  nh_end :: string

definition sheet_generate ::
  "string \<Rightarrow> string \<Rightarrow> new_salary_sheet \<Rightarrow> salary_line list \<Rightarrow> pre_post_warnings option \<Rightarrow> domain_error + salary_sheet" where
  "sheet_generate i company inp ls warnings =
     rbind (require (\<not> nh_end inp < nh_start inp) (ValidationError ''periodEnd'')) (\<lambda>_.
     rbind (req (nh_fy inp) ''financialYearId'') (\<lambda>fy.
     rbind (req (nh_label inp) ''periodLabel'') (\<lambda>label.
     rbind (req (nh_start inp) ''periodStart'') (\<lambda>start.
     rbind (req (nh_end inp) ''periodEnd'') (\<lambda>fin.
     Inr \<lparr>sh_id = i, sh_company = company, sh_fy = fy, sh_label = label, sh_start = start, sh_end = fin,
          sh_status = SheetDraft, sh_entry = None, sh_posted_at = None, sh_posted_by = None,
          sh_warnings = warnings, sh_version = 1, sh_lines = ls\<rparr>)))))"

definition sheet_assert_draft :: "salary_sheet \<Rightarrow> domain_error + unit" where
  "sheet_assert_draft h = require (sh_status h = SheetDraft) (CodedError ''SALARY_NOT_DRAFT'' (sh_id h))"

definition sheet_edit_line :: "dec_lib \<Rightarrow> string \<Rightarrow> edit_components \<Rightarrow> salary_sheet \<Rightarrow> domain_error + salary_sheet" where
  "sheet_edit_line D line_id p h =
     rbind (sheet_assert_draft h) (\<lambda>_.
     rbind (fetch (ValidationError line_id) (List.find (\<lambda>l. sl_id l = line_id) (sh_lines h))) (\<lambda>l.
     rbind (line_edit_components D p l) (\<lambda>l'.
     Inr (h\<lparr>sh_lines := update_where (\<lambda>k. sl_id k = line_id) (\<lambda>_. l') (sh_lines h)\<rparr>))))"

definition sheet_apply_bulk :: "dec_lib \<Rightarrow> bulk_rule \<Rightarrow> salary_sheet \<Rightarrow> domain_error + salary_sheet" where
  "sheet_apply_bulk D r h =
     rbind (sheet_assert_draft h) (\<lambda>_.
     rbind (rmap (\<lambda>l. if br_employees r = [] \<or> sl_employee l \<in> set (br_employees r) then line_apply_bulk D r l else Inr l)
       (sh_lines h)) (\<lambda>ls. Inr (h\<lparr>sh_lines := ls\<rparr>)))"

definition sheet_mark_posted :: "string \<Rightarrow> string \<Rightarrow> int \<Rightarrow> salary_sheet \<Rightarrow> domain_error + salary_sheet" where
  "sheet_mark_posted entry_id who now h =
     rbind (sheet_assert_draft h) (\<lambda>_.
     rbind (req entry_id ''entryId'') (\<lambda>e.
     Inr (h\<lparr>sh_status := SheetPosted, sh_entry := Some e, sh_posted_by := Some who, sh_posted_at := Some now\<rparr>)))"

definition sheet_totals :: "dec_lib \<Rightarrow> salary_sheet \<Rightarrow> money \<times> money \<times> money" where
  "sheet_totals D h =
     foldl (\<lambda>(g, d, n) l. (money_plus D g (sl_gross l),
        money_plus D (money_plus D (money_plus D (money_plus D d (sl_tds l)) (sl_pf l)) (sl_advance l)) (sl_other l),
        money_plus D n (sl_net l))) (0, 0, 0) (sh_lines h)"

section \<open>The posting map\<close>

record salary_account_map =
  sm_gross :: string
  sm_employer_pf :: string
  sm_payable :: string
  sm_tds :: string
  sm_pf :: string
  sm_advance :: string
  sm_cost_centre :: string

record dim_group =
  dg_project :: string
  dg_purpose :: string
  dg_gross :: money
  dg_employer_pf :: money
  dg_tds :: money
  dg_employee_pf :: money
  dg_advance :: money
  dg_payable :: money

text \<open>
  The groups by project and purpose (the cost centre of every group is the Labour one), in the order
  their first line comes.
\<close>

definition line_payable :: "dec_lib \<Rightarrow> salary_line \<Rightarrow> money" where
  "line_payable D l = money_minus D (money_minus D (money_minus D (sl_gross l) (sl_tds l)) (sl_pf l)) (sl_advance l)"

fun add_to_group :: "dec_lib \<Rightarrow> (salary_line \<Rightarrow> money) \<Rightarrow> salary_line \<Rightarrow> dim_group list \<Rightarrow> dim_group list" where
  "add_to_group D pf_of l [] =
     [\<lparr>dg_project = sl_project l, dg_purpose = sl_purpose l, dg_gross = sl_gross l, dg_employer_pf = pf_of l,
       dg_tds = sl_tds l, dg_employee_pf = sl_pf l, dg_advance = sl_advance l, dg_payable = line_payable D l\<rparr>]"
| "add_to_group D pf_of l (g # gs) =
     (if dg_project g = sl_project l \<and> dg_purpose g = sl_purpose l
      then g\<lparr>dg_gross := money_plus D (dg_gross g) (sl_gross l), dg_employer_pf := money_plus D (dg_employer_pf g) (pf_of l),
             dg_tds := money_plus D (dg_tds g) (sl_tds l), dg_employee_pf := money_plus D (dg_employee_pf g) (sl_pf l),
             dg_advance := money_plus D (dg_advance g) (sl_advance l),
             dg_payable := money_plus D (dg_payable g) (line_payable D l)\<rparr> # gs
      else g # add_to_group D pf_of l gs)"

definition salary_groups :: "dec_lib \<Rightarrow> (salary_line \<Rightarrow> money) \<Rightarrow> salary_line list \<Rightarrow> dim_group list" where
  "salary_groups D pf_of ls = fold (add_to_group D pf_of) ls []"

definition group_line :: "salary_account_map \<Rightarrow> dim_group \<Rightarrow> string \<Rightarrow> money \<Rightarrow> money \<Rightarrow> account_type \<Rightarrow> posting_line" where
  "group_line m g acc dr cr ty =
     dim_line acc (Some (dg_project g)) (Some (sm_cost_centre m)) (Some (dg_purpose g)) None dr cr ty False"

definition group_lines :: "dec_lib \<Rightarrow> salary_account_map \<Rightarrow> dim_group \<Rightarrow> posting_line list" where
  "group_lines D m g =
     (let pf_payable = money_plus D (dg_employer_pf g) (dg_employee_pf g) in
      [group_line m g (sm_gross m) (dg_gross g) 0 EXPENSE] @
      (if \<not> money_is_zero (dg_employer_pf g) then [group_line m g (sm_employer_pf m) (dg_employer_pf g) 0 EXPENSE] else []) @
      [group_line m g (sm_payable m) 0 (dg_payable g) LIABILITY] @
      (if \<not> money_is_zero (dg_tds g) then [group_line m g (sm_tds m) 0 (dg_tds g) LIABILITY] else []) @
      (if \<not> money_is_zero pf_payable then [group_line m g (sm_pf m) 0 pf_payable LIABILITY] else []) @
      (if \<not> money_is_zero (dg_advance g) then [group_line m g (sm_advance m) 0 (dg_advance g) ASSET] else []))"

definition salary_lines :: "dec_lib \<Rightarrow> salary_account_map \<Rightarrow> (salary_line \<Rightarrow> money) \<Rightarrow> salary_line list \<Rightarrow> posting_line list" where
  "salary_lines D m pf_of ls = concat (map (group_lines D m) (salary_groups D pf_of ls))"

definition build_salary_command ::
  "dec_lib \<Rightarrow> salary_sheet \<Rightarrow> salary_account_map \<Rightarrow> string \<Rightarrow> string \<Rightarrow> (salary_line \<Rightarrow> money) \<Rightarrow> domain_error + posting_command" where
  "build_salary_command D h m company who pf_of =
     (if sh_lines h = [] then Inl (JsError ''buildSalaryCommand requires at least one salary sheet line'')
      else Inr \<lparr>pc_company = company, pc_fy = sh_fy h, pc_voucher_type = SALARY, pc_voucher_date = sh_end h,
                pc_source_type = ''SalarySheet'', pc_source_id = sh_id h, pc_posted_by = who, pc_narration = None,
                pc_lines = salary_lines D m pf_of (sh_lines h)\<rparr>)"


section \<open>Exact amounts\<close>

text \<open>The amounts of a line: four decimals, none negative but the net, which is what the components leave.\<close>

definition salary_line_ok :: "salary_line \<Rightarrow> bool" where
  "salary_line_ok l \<longleftrightarrow> nonneg_grid (sl_gross l) \<and> nonneg_grid (sl_allowances l) \<and> nonneg_grid (sl_tds l) \<and>
     nonneg_grid (sl_pf l) \<and> nonneg_grid (sl_advance l) \<and> nonneg_grid (sl_other l) \<and>
     sl_net l = sl_gross l + sl_allowances l - (sl_tds l + sl_pf l + sl_advance l + sl_other l)"

text \<open>The sums of a group of lines.\<close>

definition group_of :: "(salary_line \<Rightarrow> money) \<Rightarrow> string \<Rightarrow> string \<Rightarrow> salary_line list \<Rightarrow> dim_group" where
  "group_of pf_of project purpose ls =
     \<lparr>dg_project = project, dg_purpose = purpose, dg_gross = sum_list (map sl_gross ls),
      dg_employer_pf = sum_list (map pf_of ls), dg_tds = sum_list (map sl_tds ls),
      dg_employee_pf = sum_list (map sl_pf ls), dg_advance = sum_list (map sl_advance ls),
      dg_payable = sum_list (map sl_gross ls) - sum_list (map sl_tds ls) - sum_list (map sl_pf ls) - sum_list (map sl_advance ls)\<rparr>"

definition line_key :: "salary_line \<Rightarrow> string \<times> string" where
  "line_key l = (sl_project l, sl_purpose l)"

definition group_key :: "dim_group \<Rightarrow> string \<times> string" where
  "group_key g = (dg_project g, dg_purpose g)"

definition lines_of_key :: "string \<times> string \<Rightarrow> salary_line list \<Rightarrow> salary_line list" where
  "lines_of_key k ls = filter (\<lambda>l. line_key l = k) ls"

text \<open>What is summed stays in the range decimal.js handles exactly.\<close>

definition sums_fit :: "(salary_line \<Rightarrow> money) \<Rightarrow> salary_line list \<Rightarrow> bool" where
  "sums_fit pf_of ls \<longleftrightarrow> (\<forall>l \<in> set ls. salary_line_ok l \<and> nonneg_grid (pf_of l)) \<and>
     sum_list (map sl_gross ls) < 10 ^ 14 \<and> sum_list (map pf_of ls) + sum_list (map sl_pf ls) < 10 ^ 14 \<and>
     sum_list (map sl_tds ls) < 10 ^ 14 \<and> sum_list (map sl_advance ls) < 10 ^ 14"

lemma line_fields_nonneg:
  "salary_line_ok l \<Longrightarrow> nonneg_grid (sl_gross l) \<and> nonneg_grid (sl_tds l) \<and> nonneg_grid (sl_pf l) \<and> nonneg_grid (sl_advance l)"
  by (simp add: salary_line_ok_def)

lemma nonneg_grid_sum: "\<forall>l \<in> set ls. nonneg_grid (f l) \<Longrightarrow> nonneg_grid (sum_list (map f ls))"
  by (auto simp: nonneg_grid_def intro!: sum_list_nonneg on_grid_sum_list)

lemma filter_sum_le:
  fixes f :: "'x \<Rightarrow> rat"
  assumes "\<forall>x \<in> set xs. 0 \<le> f x" shows "sum_list (map f (filter P xs)) \<le> sum_list (map f xs)"
  using assms by (induction xs) (auto simp: add_increasing)

lemma sums_fit_filter:
  assumes "sums_fit pf_of ls" shows "sums_fit pf_of (filter P ls)"
proof -
  have n: "\<forall>l \<in> set ls. 0 \<le> sl_gross l" "\<forall>l \<in> set ls. 0 \<le> sl_tds l" "\<forall>l \<in> set ls. 0 \<le> sl_pf l"
    "\<forall>l \<in> set ls. 0 \<le> sl_advance l" "\<forall>l \<in> set ls. 0 \<le> pf_of l"
    using assms line_fields_nonneg by (auto simp: sums_fit_def nonneg_grid_def)
  have "sum_list (map sl_gross (filter P ls)) < 10 ^ 14" "sum_list (map sl_tds (filter P ls)) < 10 ^ 14"
    "sum_list (map sl_advance (filter P ls)) < 10 ^ 14"
    "sum_list (map pf_of (filter P ls)) + sum_list (map sl_pf (filter P ls)) < 10 ^ 14"
    using assms filter_sum_le [OF n(1), of P] filter_sum_le [OF n(2), of P] filter_sum_le [OF n(3), of P]
      filter_sum_le [OF n(4), of P] filter_sum_le [OF n(5), of P]
    unfolding sums_fit_def by linarith+
  with assms show ?thesis by (simp add: sums_fit_def)
qed

lemma sums_fit_member:
  assumes "sums_fit pf_of ls" and "l \<in> set ls"
  shows "salary_line_ok l" and "nonneg_grid (pf_of l)"
    and "sl_gross l < 10 ^ 14" and "pf_of l < 10 ^ 14" and "sl_pf l < 10 ^ 14" and "sl_tds l < 10 ^ 14" and "sl_advance l < 10 ^ 14"
proof -
  have n: "0 \<le> sl_gross x" "0 \<le> sl_tds x" "0 \<le> sl_pf x" "0 \<le> sl_advance x" "0 \<le> pf_of x" if "x \<in> set ls" for x
    using assms(1) that line_fields_nonneg by (auto simp: sums_fit_def nonneg_grid_def)
  note m = sum_list_member_le [OF assms(2)]
  have "sl_gross l \<le> sum_list (map sl_gross ls)" "sl_tds l \<le> sum_list (map sl_tds ls)" "sl_pf l \<le> sum_list (map sl_pf ls)"
    "sl_advance l \<le> sum_list (map sl_advance ls)" "pf_of l \<le> sum_list (map pf_of ls)"
    using n by (auto intro!: m)
  moreover have "0 \<le> sum_list (map pf_of ls)" "0 \<le> sum_list (map sl_pf ls)" using n by (auto intro!: sum_list_nonneg)
  ultimately show "salary_line_ok l" "nonneg_grid (pf_of l)" "sl_gross l < 10 ^ 14" "pf_of l < 10 ^ 14" "sl_pf l < 10 ^ 14"
    "sl_tds l < 10 ^ 14" "sl_advance l < 10 ^ 14"
    using assms by (auto simp: sums_fit_def)
qed

definition extend_group :: "dec_lib \<Rightarrow> (salary_line \<Rightarrow> money) \<Rightarrow> salary_line \<Rightarrow> dim_group \<Rightarrow> dim_group" where
  "extend_group D pf_of l g =
     g\<lparr>dg_gross := money_plus D (dg_gross g) (sl_gross l), dg_employer_pf := money_plus D (dg_employer_pf g) (pf_of l),
       dg_tds := money_plus D (dg_tds g) (sl_tds l), dg_employee_pf := money_plus D (dg_employee_pf g) (sl_pf l),
       dg_advance := money_plus D (dg_advance g) (sl_advance l), dg_payable := money_plus D (dg_payable g) (line_payable D l)\<rparr>"

lemma add_to_group_map:
  assumes "distinct ks" and "\<And>k. group_key (G k) = k"
  shows "add_to_group D pf_of l (map G ks) =
    (if line_key l \<in> set ks then map (\<lambda>k. if k = line_key l then extend_group D pf_of l (G k) else G k) ks
     else map G ks @ add_to_group D pf_of l [])"
  using assms(1)
proof (induction ks)
  case (Cons k ks)
  have "dg_project (G k) = sl_project l \<and> dg_purpose (G k) = sl_purpose l \<longleftrightarrow> k = line_key l"
    using assms(2) [of k] by (auto simp: group_key_def line_key_def)
  with Cons show ?case by (auto simp: extend_group_def)
qed simp

text \<open>The keys of a list of lines, in the order they first come.\<close>

fun first_keys :: "(string \<times> string) list \<Rightarrow> (string \<times> string) list \<Rightarrow> (string \<times> string) list" where
  "first_keys seen [] = seen"
| "first_keys seen (k # ks) = first_keys (if k \<in> set seen then seen else seen @ [k]) ks"

lemma first_keys_snoc:
  "first_keys seen (ks @ [k]) = (let s = first_keys seen ks in if k \<in> set s then s else s @ [k])"
  by (induction seen ks rule: first_keys.induct) (auto simp: Let_def)

lemma first_keys_set: "set (first_keys seen ks) = set seen \<union> set ks"
  by (induction seen ks rule: first_keys.induct) auto

lemma first_keys_distinct: "distinct seen \<Longrightarrow> distinct (first_keys seen ks)"
  by (induction seen ks rule: first_keys.induct) auto

context decimal_js begin

lemma plus_nonneg: "nonneg_grid a \<Longrightarrow> nonneg_grid b \<Longrightarrow> a + b < 10 ^ 16 \<Longrightarrow> money_plus D a b = a + b"
  unfolding money_plus_def by (rule plus_exact) (auto simp: exact_range_def nonneg_grid_def)

lemma line_payable_exact:
  assumes "sums_fit pf_of ls" and "l \<in> set ls"
  shows "line_payable D l = sl_gross l - sl_tds l - sl_pf l - sl_advance l"
proof -
  note m = sums_fit_member [OF assms]
  have g: "nonneg_grid (sl_gross l)" "nonneg_grid (sl_tds l)" "nonneg_grid (sl_pf l)" "nonneg_grid (sl_advance l)"
    using line_fields_nonneg [OF m(1)] by blast+
  have "exact_range (sl_gross l - sl_tds l)" "exact_range (sl_gross l - sl_tds l - sl_pf l)"
    "exact_range (sl_gross l - sl_tds l - sl_pf l - sl_advance l)"
    using m g by (auto simp: exact_range_def nonneg_grid_def)
  then show ?thesis by (simp add: line_payable_def money_minus_def minus_exact)
qed

lemma extend_exact:
  assumes "sums_fit pf_of (ks @ [l])"
  shows "extend_group D pf_of l (group_of pf_of p q ks) = group_of pf_of p q (ks @ [l])"
proof -
  from assms have g: "\<forall>x \<in> set (ks @ [l]). nonneg_grid (sl_gross x)" "\<forall>x \<in> set (ks @ [l]). nonneg_grid (sl_tds x)"
    "\<forall>x \<in> set (ks @ [l]). nonneg_grid (sl_pf x)" "\<forall>x \<in> set (ks @ [l]). nonneg_grid (sl_advance x)"
    "\<forall>x \<in> set (ks @ [l]). nonneg_grid (pf_of x)"
    using line_fields_nonneg by (auto simp: sums_fit_def)
  have k: "nonneg_grid (sum_list (map sl_gross ks))" "nonneg_grid (sum_list (map sl_tds ks))" "nonneg_grid (sum_list (map sl_pf ks))"
    "nonneg_grid (sum_list (map sl_advance ks))" "nonneg_grid (sum_list (map pf_of ks))"
    using g by (auto intro!: nonneg_grid_sum)
  have l: "nonneg_grid (sl_gross l)" "nonneg_grid (sl_tds l)" "nonneg_grid (sl_pf l)" "nonneg_grid (sl_advance l)" "nonneg_grid (pf_of l)"
    using g by simp_all
  have b: "sum_list (map sl_gross ks) + sl_gross l < 10 ^ 14" "sum_list (map sl_tds ks) + sl_tds l < 10 ^ 14"
    "sum_list (map sl_advance ks) + sl_advance l < 10 ^ 14"
    "sum_list (map pf_of ks) + pf_of l + (sum_list (map sl_pf ks) + sl_pf l) < 10 ^ 14"
    using assms by (simp_all add: sums_fit_def)
  note nn = k [unfolded nonneg_grid_def] l [unfolded nonneg_grid_def]
  have e: "exact_range (sum_list (map sl_gross ks) - sum_list (map sl_tds ks) - sum_list (map sl_pf ks) - sum_list (map sl_advance ks) +
      (sl_gross l - sl_tds l - sl_pf l - sl_advance l))"
    using nn b by (auto simp: exact_range_def nonneg_grid_def abs_less_iff intro!: on_grid_add on_grid_diff)
  have le: "10 ^ 14 \<le> (10 ^ 16 :: rat)" by simp
  have p: "money_plus D (sum_list (map sl_gross ks)) (sl_gross l) = sum_list (map sl_gross ks) + sl_gross l"
    "money_plus D (sum_list (map sl_tds ks)) (sl_tds l) = sum_list (map sl_tds ks) + sl_tds l"
    "money_plus D (sum_list (map sl_pf ks)) (sl_pf l) = sum_list (map sl_pf ks) + sl_pf l"
    "money_plus D (sum_list (map sl_advance ks)) (sl_advance l) = sum_list (map sl_advance ks) + sl_advance l"
    "money_plus D (sum_list (map pf_of ks)) (pf_of l) = sum_list (map pf_of ks) + pf_of l"
    using nn b by (auto intro!: plus_nonneg k l)
  have pay: "line_payable D l = sl_gross l - sl_tds l - sl_pf l - sl_advance l" by (rule line_payable_exact [OF assms]) simp
  have "money_plus D (sum_list (map sl_gross ks) - sum_list (map sl_tds ks) - sum_list (map sl_pf ks) - sum_list (map sl_advance ks)) (line_payable D l) =
    (sum_list (map sl_gross ks) + sl_gross l) - (sum_list (map sl_tds ks) + sl_tds l) - (sum_list (map sl_pf ks) + sl_pf l) - (sum_list (map sl_advance ks) + sl_advance l)"
    unfolding money_plus_def pay plus_exact [OF e] by simp
  then show ?thesis by (simp add: extend_group_def group_of_def p)
qed


lemma new_group_exact:
  assumes "sums_fit pf_of ls" and "l \<in> set ls"
  shows "add_to_group D pf_of l [] = [group_of pf_of (sl_project l) (sl_purpose l) [l]]"
  by (simp add: group_of_def line_payable_exact [OF assms])

lemma sums_fit_snoc: "sums_fit pf_of (ls @ [l]) \<Longrightarrow> sums_fit pf_of ls"
  using sums_fit_filter [of pf_of "ls @ [l]" "\<lambda>x. True"] sums_fit_member [of pf_of "ls @ [l]" l]
  by (auto simp: sums_fit_def nonneg_grid_def salary_line_ok_def)

text \<open>The groups are the exact sums over the lines of each project and purpose.\<close>

lemma salary_groups_exact:
  "sums_fit pf_of ls \<Longrightarrow> salary_groups D pf_of ls =
     map (\<lambda>k. group_of pf_of (fst k) (snd k) (lines_of_key k ls)) (first_keys [] (map line_key ls))"
proof (induction ls rule: rev_induct)
  case Nil
  then show ?case by (simp add: salary_groups_def)
next
  case (snoc l ls)
  let ?ks = "first_keys [] (map line_key ls)"
  let ?G = "\<lambda>ls k. group_of pf_of (fst k) (snd k) (lines_of_key k ls)"
  have fit: "sums_fit pf_of (lines_of_key (line_key l) ls @ [l])"
    using sums_fit_filter [OF snoc.prems, of "\<lambda>x. line_key x = line_key l"] by (simp add: lines_of_key_def)
  have other: "lines_of_key k (ls @ [l]) = (if k = line_key l then lines_of_key k ls @ [l] else lines_of_key k ls)" for k
    by (auto simp: lines_of_key_def)
  have ext: "extend_group D pf_of l (?G ls (line_key l)) = ?G (ls @ [l]) (line_key l)"
    using extend_exact [OF fit] by (simp add: other)
  have new: "lines_of_key (line_key l) ls = []" if "line_key l \<notin> set ?ks"
    using that by (auto simp: lines_of_key_def first_keys_set filter_empty_conv rev_image_eqI)
  have "salary_groups D pf_of (ls @ [l]) = add_to_group D pf_of l (map (?G ls) ?ks)"
    using snoc.IH sums_fit_snoc [OF snoc.prems] by (simp add: salary_groups_def)
  also have "\<dots> = (if line_key l \<in> set ?ks
      then map (\<lambda>k. if k = line_key l then extend_group D pf_of l (?G ls k) else ?G ls k) ?ks
      else map (?G ls) ?ks @ add_to_group D pf_of l [])"
    by (rule add_to_group_map) (simp_all add: first_keys_distinct group_key_def group_of_def)
  also have "\<dots> = map (?G (ls @ [l])) (first_keys [] (map line_key (ls @ [l])))"
  proof (cases "line_key l \<in> set ?ks")
    case True
    then show ?thesis using ext by (auto simp: first_keys_snoc Let_def other)
  next
    case False
    have "?G (ls @ [l]) (line_key l) = group_of pf_of (sl_project l) (sl_purpose l) [l]"
      using new [OF False] by (simp add: other line_key_def)
    moreover have "map (?G (ls @ [l])) ?ks = map (?G ls) ?ks" using False by (auto simp: other)
    ultimately show ?thesis using False new_group_exact [OF snoc.prems, of l]
      by (simp add: first_keys_snoc Let_def del: add_to_group.simps)
  qed
  finally show ?case .
qed

end

text \<open>Summing the groups is summing the lines.\<close>

lemma sum_list_one:
  fixes x :: rat
  shows "distinct ks \<Longrightarrow> k \<in> set ks \<Longrightarrow> sum_list (map (\<lambda>j. if j = k then x else 0) ks) = x"
proof (induction ks)
  case (Cons j js)
  have "sum_list (map (\<lambda>j. if j = k then x else 0) js) = 0" if "k \<notin> set js"
    using that by (induction js) auto
  with Cons show ?case by auto
qed simp

lemma sum_by_key:
  fixes f :: "salary_line \<Rightarrow> rat"
  assumes "distinct ks" and "line_key ` set ls \<subseteq> set ks"
  shows "sum_list (map (\<lambda>k. sum_list (map f (lines_of_key k ls))) ks) = sum_list (map f ls)"
  using assms(2)
proof (induction ls)
  case Nil
  then show ?case by (simp add: lines_of_key_def sum_list_triv)
next
  case (Cons l ls)
  have "sum_list (map (\<lambda>k. sum_list (map f (lines_of_key k (l # ls)))) ks) =
      sum_list (map (\<lambda>k. (if k = line_key l then f l else 0) + sum_list (map f (lines_of_key k ls))) ks)"
    by (rule arg_cong [of _ _ sum_list], rule map_cong) (auto simp: lines_of_key_def)
  also have "\<dots> = sum_list (map (\<lambda>k. if k = line_key l then f l else 0) ks) + sum_list (map f ls)"
    using Cons by (simp add: sum_list_addf)
  also have "sum_list (map (\<lambda>k. if k = line_key l then f l else 0) ks) = f l"
    using assms(1) Cons.prems by (intro sum_list_one) simp_all
  finally show ?case by simp
qed

end
