(* ===== verification/Attendance.thy ===== *)
theory Attendance
  imports Vouchers
begin

text \<open>
  Attendance capture and the daily-labour accrual of \<open>src/src/modules/hr/domain/\<close>: the attendance record
  with its three modes, the command its confirmation posts, and the labour payable that payments settle.
  The em dash of the accrual narration is written as a hyphen, outside the characters of the model.
\<close>

section \<open>Attendance records\<close>

datatype attendance_mode = OFFICE | SUBCONTRACTOR | DAILY_LABOUR

definition attendance_modes :: "(string \<times> attendance_mode) list" where
  "attendance_modes = [(''OFFICE'', OFFICE), (''SUBCONTRACTOR'', SUBCONTRACTOR), (''DAILY_LABOUR'', DAILY_LABOUR)]"

definition attendance_mode_name :: "attendance_mode \<Rightarrow> string" where
  "attendance_mode_name m = (case m of OFFICE \<Rightarrow> ''OFFICE'' | SUBCONTRACTOR \<Rightarrow> ''SUBCONTRACTOR'' | DAILY_LABOUR \<Rightarrow> ''DAILY_LABOUR'')"

definition day_statuses :: "string list" where
  "day_statuses = [''PRESENT'', ''PAID_LEAVE'', ''UNPAID_LEAVE'', ''ABSENT'']"

definition attendance_sources :: "string list" where
  "attendance_sources = [''MANUAL'', ''BIOMETRIC_IMPORT'']"

record new_attendance =
  na_mode :: string
  na_date :: string
  na_project :: string
  na_cost_centre :: "string option"
  na_purpose :: "string option"
  na_employee :: "string option"
  na_check_in :: "string option"
  na_check_out :: "string option"
  na_day_status :: "string option"
  na_overtime :: decimal_input
  na_source :: "string option"
  na_party :: "string option"
  na_head_count :: "rat option"
  na_category :: "string option"
  na_daily_rate :: decimal_input

record attendance =
  at_id :: string
  at_company :: string
  at_fy :: string
  at_mode :: attendance_mode
  at_date :: string
  at_project :: string
  at_cost_centre :: "string option"
  at_purpose :: "string option"
  at_employee :: "string option"
  at_check_in :: "string option"
  at_check_out :: "string option"
  at_day_status :: "string option"
  at_overtime :: "decimal option"
  at_party :: "string option"
  at_head_count :: "int option"
  at_category :: "string option"
  at_daily_rate :: "money option"
  at_source :: string
  at_confirmed :: bool
  at_entry :: "string option"
  at_version :: nat

definition req_mode :: "string \<Rightarrow> domain_error + attendance_mode" where
  "req_mode v = fetch (ValidationError ''mode'') (map_of attendance_modes v)"

definition req_day_status :: "string option \<Rightarrow> domain_error + string" where
  "req_day_status v = (case v of
     None \<Rightarrow> Inl (ValidationError ''dayStatus'')
   | Some s \<Rightarrow> if s \<in> set day_statuses then Inr s else Inl (ValidationError ''dayStatus''))"

definition req_source :: "string option \<Rightarrow> domain_error + string" where
  "req_source v = (let s = (case v of None \<Rightarrow> ''MANUAL'' | Some x \<Rightarrow> x) in
     if s \<in> set attendance_sources then Inr s else Inl (ValidationError ''source''))"

text \<open>\<open>Number.isInteger(v) && v >= 1\<close>.\<close>

definition req_head_count :: "rat option \<Rightarrow> domain_error + int" where
  "req_head_count v = (case v of
     None \<Rightarrow> Inl (ValidationError ''headCount'')
   | Some n \<Rightarrow> if of_int \<lfloor>n\<rfloor> = n \<and> 1 \<le> n then Inr \<lfloor>n\<rfloor> else Inl (ValidationError ''headCount''))"

definition to_non_neg_money :: "decimal_input \<Rightarrow> string \<Rightarrow> domain_error + money" where
  "to_non_neg_money v field = rbind (to_decimal v field) (\<lambda>m. assert_non_neg m field)"

definition req_date :: "string \<Rightarrow> string \<Rightarrow> domain_error + string" where
  "req_date v field = (if parse_iso (trim v) = None then Inl (ValidationError field) else Inr (trim v))"

definition blank_attendance :: "string \<Rightarrow> string \<Rightarrow> string \<Rightarrow> attendance_mode \<Rightarrow> string \<Rightarrow> string \<Rightarrow> string option \<Rightarrow> attendance" where
  "blank_attendance i company fy mode date project purpose =
     \<lparr>at_id = i, at_company = company, at_fy = fy, at_mode = mode, at_date = date, at_project = project,
      at_cost_centre = None, at_purpose = purpose, at_employee = None, at_check_in = None, at_check_out = None,
      at_day_status = None, at_overtime = None, at_party = None, at_head_count = None, at_category = None,
      at_daily_rate = None, at_source = ''MANUAL'', at_confirmed = False, at_entry = None, at_version = 1\<rparr>"

definition attendance_capture ::
  "string \<Rightarrow> string \<Rightarrow> string \<Rightarrow> new_attendance \<Rightarrow> domain_error + attendance" where
  "attendance_capture i company fy inp =
     rbind (req_mode (na_mode inp)) (\<lambda>mode.
     rbind (req (na_project inp) ''projectId'') (\<lambda>project.
     rbind (req_date (na_date inp) ''attendanceDate'') (\<lambda>date.
     let base = blank_attendance i company fy mode date project (clean (na_purpose inp)) in
     case mode of
       OFFICE \<Rightarrow>
         rbind (require (na_head_count inp = None \<and> \<not> truthy (na_party inp)) (ValidationError ''mode'')) (\<lambda>_.
         rbind (req (or_empty (na_employee inp)) ''employeeId'') (\<lambda>employee.
         rbind (req_day_status (na_day_status inp)) (\<lambda>day_status.
         rbind (to_non_neg_money (if na_overtime inp = Absent then Dec 0 else na_overtime inp) ''overtimeHours'') (\<lambda>overtime.
         rbind (req_source (na_source inp)) (\<lambda>source.
         Inr (base\<lparr>at_employee := Some employee, at_check_in := clean (na_check_in inp),
                   at_check_out := clean (na_check_out inp), at_day_status := Some day_status,
                   at_overtime := Some overtime, at_source := source\<rparr>))))))
     | SUBCONTRACTOR \<Rightarrow>
         rbind (req (or_empty (na_party inp)) ''partyId'') (\<lambda>party.
         rbind (req (or_empty (na_cost_centre inp)) ''costCentreId'') (\<lambda>cost_centre.
         rbind (req_head_count (na_head_count inp)) (\<lambda>heads.
         Inr (base\<lparr>at_party := Some party, at_cost_centre := Some cost_centre, at_head_count := Some heads\<rparr>))))
     | DAILY_LABOUR \<Rightarrow>
         rbind (req (or_empty (na_cost_centre inp)) ''costCentreId'') (\<lambda>cost_centre.
         rbind (req_head_count (na_head_count inp)) (\<lambda>heads.
         rbind (to_non_neg_money (na_daily_rate inp) ''dailyRate'') (\<lambda>rate.
         Inr (base\<lparr>at_cost_centre := Some cost_centre, at_head_count := Some heads, at_daily_rate := Some rate,
                   at_category := clean (na_category inp)\<rparr>)))))))"

definition assert_accruable :: "attendance \<Rightarrow> domain_error + unit" where
  "assert_accruable a = require (at_mode a = DAILY_LABOUR) (CodedError ''NOT_ACCRUABLE_MODE'' (attendance_mode_name (at_mode a)))"

definition assert_unconfirmed :: "attendance \<Rightarrow> domain_error + unit" where
  "assert_unconfirmed a = require (\<not> at_confirmed a) (CodedError ''ALREADY_CONFIRMED'' (at_id a))"

text \<open>A patch of an unconfirmed daily-labour row; a field left out keeps its value.\<close>

record labour_patch =
  ed_head_count :: "rat patch"
  ed_daily_rate :: "decimal_input patch"
  ed_category :: "string patch"
  ed_purpose :: "string patch"

definition edit_labour_record :: "labour_patch \<Rightarrow> attendance \<Rightarrow> domain_error + attendance" where
  "edit_labour_record p a =
     rbind (assert_accruable a) (\<lambda>_.
     rbind (assert_unconfirmed a) (\<lambda>_.
     rbind (patched (ed_head_count p) (at_head_count a)
        (\<lambda>v. rbind (req_head_count v) (\<lambda>n. Inr (Some n)))) (\<lambda>heads.
     rbind (patched (ed_daily_rate p) (at_daily_rate a)
        (\<lambda>v. rbind (to_non_neg_money (case v of Some x \<Rightarrow> x | None \<Rightarrow> Absent) ''dailyRate'') (\<lambda>r. Inr (Some r)))) (\<lambda>rate.
     rbind (patched (ed_category p) (at_category a) (\<lambda>v. Inr (clean v))) (\<lambda>category.
     rbind (patched (ed_purpose p) (at_purpose a) (\<lambda>v. Inr (clean v))) (\<lambda>purpose.
     Inr (a\<lparr>at_head_count := heads, at_daily_rate := rate, at_category := category, at_purpose := purpose\<rparr>)))))))"

definition attendance_set_purpose :: "string \<Rightarrow> attendance \<Rightarrow> domain_error + attendance" where
  "attendance_set_purpose v a = rbind (req v ''purposeId'') (\<lambda>p. Inr (a\<lparr>at_purpose := Some p\<rparr>))"

definition attendance_confirm :: "string \<Rightarrow> attendance \<Rightarrow> domain_error + attendance" where
  "attendance_confirm entry_id a =
     rbind (assert_accruable a) (\<lambda>_.
     rbind (assert_unconfirmed a) (\<lambda>_.
     rbind (req entry_id ''accrualEntryId'') (\<lambda>e. Inr (a\<lparr>at_confirmed := True, at_entry := Some e\<rparr>))))"

definition accrued_cost :: "dec_lib \<Rightarrow> attendance \<Rightarrow> domain_error + money" where
  "accrued_cost D a =
     rbind (assert_accruable a) (\<lambda>_.
     Inr (money_round D (money_times D (case at_daily_rate a of None \<Rightarrow> 0 | Some r \<Rightarrow> r)
            (case at_head_count a of None \<Rightarrow> 0 | Some n \<Rightarrow> of_int n))))"

section \<open>The accrual command\<close>

record accrual_accounts =
  ac_labour_cost :: string
  ac_labour_payable :: string

record accrual_line =
  al_project :: string
  al_cost_centre :: "string option"
  al_purpose :: "string option"
  al_cost :: money
  al_narration :: "string option"

definition accrual_line_for :: "dec_lib \<Rightarrow> attendance \<Rightarrow> domain_error + accrual_line" where
  "accrual_line_for D a =
     rbind (accrued_cost D a) (\<lambda>cost.
     Inr \<lparr>al_project = at_project a, al_cost_centre = at_cost_centre a, al_purpose = at_purpose a, al_cost = cost,
          al_narration = (if truthy (at_category a) then Some (''Daily labour - '' @ the (at_category a)) else None)\<rparr>)"

definition accrual_pair :: "accrual_accounts \<Rightarrow> accrual_line \<Rightarrow> posting_line list" where
  "accrual_pair m l =
     [(dim_line (ac_labour_cost m) (Some (al_project l)) (al_cost_centre l) (al_purpose l) None (al_cost l) 0 EXPENSE False)
        \<lparr>pl_narration := al_narration l\<rparr>,
      (dim_line (ac_labour_payable m) (Some (al_project l)) (al_cost_centre l) (al_purpose l) None 0 (al_cost l) LIABILITY False)
        \<lparr>pl_narration := al_narration l\<rparr>]"

definition build_accrual_command ::
  "string \<Rightarrow> string \<Rightarrow> string \<Rightarrow> string \<Rightarrow> string \<Rightarrow> accrual_line list \<Rightarrow> accrual_accounts \<Rightarrow> domain_error + posting_command" where
  "build_accrual_command company fy date source_id who ls m =
     (if ls = [] then Inl (JsError ''buildAccrualCommand requires at least one cost line'')
      else Inr \<lparr>pc_company = company, pc_fy = fy, pc_voucher_type = DAILY_LABOUR_ACCRUAL, pc_voucher_date = date,
                pc_source_type = ''AttendanceRecord'', pc_source_id = source_id, pc_posted_by = who, pc_narration = None,
                pc_lines = concat (map (accrual_pair m) ls)\<rparr>)"

section \<open>Labour payables\<close>

datatype payable_status = Outstanding | PartiallySettled | Settled

record labour_payable =
  lp_id :: string
  lp_company :: string
  lp_fy :: string
  lp_project :: string
  lp_cost_centre :: string
  lp_date :: string
  lp_accrued :: money
  lp_entry :: string
  lp_settled :: money
  lp_status :: payable_status
  lp_version :: nat

definition payable_create ::
  "string \<Rightarrow> string \<Rightarrow> string \<Rightarrow> string \<Rightarrow> string \<Rightarrow> string \<Rightarrow> money \<Rightarrow> string \<Rightarrow> labour_payable" where
  "payable_create i company fy project cost_centre date accrued entry_id =
     \<lparr>lp_id = i, lp_company = company, lp_fy = fy, lp_project = project, lp_cost_centre = cost_centre,
      lp_date = date, lp_accrued = accrued, lp_entry = entry_id, lp_settled = 0, lp_status = Outstanding, lp_version = 1\<rparr>"

definition derive_payable_status :: "money \<Rightarrow> money \<Rightarrow> payable_status" where
  "derive_payable_status settled accrued =
     (if settled = 0 then Outstanding else if accrued \<le> settled then Settled else PartiallySettled)"

definition payable_settle :: "dec_lib \<Rightarrow> money \<Rightarrow> labour_payable \<Rightarrow> domain_error + labour_payable" where
  "payable_settle D amount p =
     rbind (require (\<not> money_is_negative amount) (ValidationError ''amount'')) (\<lambda>_.
     let next = money_plus D (lp_settled p) amount;
         settled = (if lp_accrued p < next then lp_accrued p else next)
     in Inr (p\<lparr>lp_settled := settled, lp_status := derive_payable_status settled (lp_accrued p)\<rparr>))"

end
