(* ===== verification/Employees.thy ===== *)
theory Employees
  imports Attendance
begin

text \<open>
  The employee master of \<open>src/src/modules/hr/domain/employee.ts\<close>: creation, edits, the append-only
  reassignment history and the active/inactive switch.
\<close>

record employee =
  em_id :: string
  em_company :: string
  em_code :: string
  em_name :: string
  em_designation :: string
  em_project :: "string option"
  em_department :: "string option"
  em_work_base :: string
  em_wage_type :: string
  em_wage :: money
  em_bank_account_name :: "string option"
  em_bank_account_no :: "string option"
  em_bank_name :: "string option"
  em_pf :: bool
  em_gratuity :: bool
  em_wppf :: bool
  em_tin :: "string option"
  em_joining :: string
  em_active :: bool
  em_version :: nat

record new_employee =
  ne_code :: string
  ne_name :: string
  ne_designation :: string
  ne_project :: "string option"
  ne_department :: "string option"
  ne_work_base :: string
  ne_wage_type :: string
  ne_wage :: decimal_input
  ne_bank_account_name :: "string option"
  ne_bank_account_no :: "string option"
  ne_bank_name :: "string option"
  ne_pf :: "bool option"
  ne_gratuity :: "bool option"
  ne_wppf :: "bool option"
  ne_tin :: "string option"
  ne_joining :: string

record edit_employee =
  ee_name :: "string option"
  ee_designation :: "string option"
  ee_project :: "string patch"
  ee_department :: "string patch"
  ee_work_base :: "string option"
  ee_wage_type :: "string option"
  ee_wage :: "decimal_input option"
  ee_bank_account_name :: "string patch"
  ee_bank_account_no :: "string patch"
  ee_bank_name :: "string patch"
  ee_pf :: "bool option"
  ee_gratuity :: "bool option"
  ee_wppf :: "bool option"
  ee_tin :: "string patch"

record employee_assignment =
  ea_id :: string
  ea_employee :: string
  ea_company :: string
  ea_project :: string
  ea_effective :: string
  ea_note :: "string option"

definition req_wage_type :: "string \<Rightarrow> domain_error + string" where
  "req_wage_type v = (if v \<in> {''MONTHLY'', ''DAILY''} then Inr v else Inl (ValidationError ''wageType''))"

definition req_work_base :: "string \<Rightarrow> domain_error + string" where
  "req_work_base v = (if v \<in> {''HEAD_OFFICE'', ''SITE''} then Inr v else Inl (ValidationError ''workBase''))"

definition normalize_tin :: "string option \<Rightarrow> domain_error + string option" where
  "normalize_tin v = (case clean v of None \<Rightarrow> Inr None | Some t \<Rightarrow> rbind (tin_of t) (\<lambda>x. Inr (Some x)))"

definition flag :: "bool option \<Rightarrow> bool" where
  "flag v = (case v of None \<Rightarrow> False | Some b \<Rightarrow> b)"

definition employee_create :: "string \<Rightarrow> string \<Rightarrow> new_employee \<Rightarrow> domain_error + employee" where
  "employee_create i company inp =
     rbind (to_decimal (ne_wage inp) ''wageAmount'') (\<lambda>wage.
     rbind (require (\<not> money_is_negative wage) (ValidationError ''wageAmount'')) (\<lambda>_.
     rbind (req (ne_code inp) ''employeeCode'') (\<lambda>code.
     rbind (req (ne_name inp) ''name'') (\<lambda>name.
     rbind (req (ne_designation inp) ''designation'') (\<lambda>designation.
     rbind (req_work_base (ne_work_base inp)) (\<lambda>work_base.
     rbind (req_wage_type (ne_wage_type inp)) (\<lambda>wage_type.
     rbind (normalize_tin (ne_tin inp)) (\<lambda>tin.
     rbind (req_date (ne_joining inp) ''joiningDate'') (\<lambda>joining.
     Inr \<lparr>em_id = i, em_company = company, em_code = code, em_name = name, em_designation = designation,
          em_project = clean (ne_project inp), em_department = clean (ne_department inp), em_work_base = work_base,
          em_wage_type = wage_type, em_wage = wage, em_bank_account_name = clean (ne_bank_account_name inp),
          em_bank_account_no = clean (ne_bank_account_no inp), em_bank_name = clean (ne_bank_name inp),
          em_pf = flag (ne_pf inp), em_gratuity = flag (ne_gratuity inp), em_wppf = flag (ne_wppf inp),
          em_tin = tin, em_joining = joining, em_active = True, em_version = 1\<rparr>)))))))))"

text \<open>A field that is left out keeps its value; the code is not among them.\<close>

definition if_given :: "'a option \<Rightarrow> 'b \<Rightarrow> ('a \<Rightarrow> domain_error + 'b) \<Rightarrow> domain_error + 'b" where
  "if_given v old f = (case v of None \<Rightarrow> Inr old | Some x \<Rightarrow> f x)"

definition employee_update :: "edit_employee \<Rightarrow> employee \<Rightarrow> domain_error + employee" where
  "employee_update p e =
     rbind (if_given (ee_name p) (em_name e) (\<lambda>v. req v ''name'')) (\<lambda>name.
     rbind (if_given (ee_designation p) (em_designation e) (\<lambda>v. req v ''designation'')) (\<lambda>designation.
     rbind (if_given (ee_work_base p) (em_work_base e) req_work_base) (\<lambda>work_base.
     rbind (if_given (ee_wage_type p) (em_wage_type e) req_wage_type) (\<lambda>wage_type.
     rbind (if_given (ee_wage p) (em_wage e) (\<lambda>v. rbind (to_decimal v ''wageAmount'') (\<lambda>w.
        rbind (require (\<not> money_is_negative w) (ValidationError ''wageAmount'')) (\<lambda>_. Inr w)))) (\<lambda>wage.
     rbind (patched (ee_tin p) (em_tin e) normalize_tin) (\<lambda>tin.
     Inr (e\<lparr>em_name := name, em_designation := designation, em_project := clean_patch (ee_project p) (em_project e),
            em_department := clean_patch (ee_department p) (em_department e), em_work_base := work_base,
            em_wage_type := wage_type, em_wage := wage,
            em_bank_account_name := clean_patch (ee_bank_account_name p) (em_bank_account_name e),
            em_bank_account_no := clean_patch (ee_bank_account_no p) (em_bank_account_no e),
            em_bank_name := clean_patch (ee_bank_name p) (em_bank_name e),
            em_pf := (case ee_pf p of None \<Rightarrow> em_pf e | Some b \<Rightarrow> b),
            em_gratuity := (case ee_gratuity p of None \<Rightarrow> em_gratuity e | Some b \<Rightarrow> b),
            em_wppf := (case ee_wppf p of None \<Rightarrow> em_wppf e | Some b \<Rightarrow> b), em_tin := tin\<rparr>)))))))"

definition employee_reassign ::
  "string \<Rightarrow> string \<Rightarrow> string \<Rightarrow> string option \<Rightarrow> employee \<Rightarrow> domain_error + (employee \<times> employee_assignment)" where
  "employee_reassign assignment_id project_id effective_date note e =
     rbind (req project_id ''projectId'') (\<lambda>project.
     rbind (req_date effective_date ''effectiveDate'') (\<lambda>effective.
     rbind (require (\<not> effective < em_joining e) (CodedError ''EFFECTIVE_DATE_BEFORE_JOINING'' effective)) (\<lambda>_.
     Inr (e\<lparr>em_project := Some project\<rparr>,
          \<lparr>ea_id = assignment_id, ea_employee = em_id e, ea_company = em_company e, ea_project = project,
           ea_effective = effective, ea_note = clean note\<rparr>))))"

definition employee_set_active :: "bool \<Rightarrow> employee \<Rightarrow> employee" where
  "employee_set_active b e = e\<lparr>em_active := b\<rparr>"

end
