(* ===== verification/Hr_State.thy ===== *)
theory Hr_State
  imports Payroll Employees
begin

text \<open>
  The tables of the HR module (\<open>src/src/modules/hr/infrastructure/\<close>) with the row checks of their
  migrations, the adapters that read the master data, and the repositories.  Nothing in the module deletes an
  employee, so the soft-delete column is not modelled; foreign keys are not modelled.
\<close>

section \<open>State\<close>

record hr_config_row =
  hc_company :: string
  hc_role :: string
  hc_account :: "string option"
  hc_cost_centre :: "string option"

record attendance_setting =
  st_company :: string
  st_late_hour :: int
  st_late_minute :: int
  st_lates_per_day :: int

record hr_db = db +
  hr_accounts :: "account_row list"
  hr_config :: "hr_config_row list"
  hr_projects :: "project_state list"
  hr_settings :: "attendance_setting list"
  hr_weekly :: "(string \<times> int) list"
  hr_holidays :: "holiday_row list"
  hr_employees :: "employee list"
  hr_assignments :: "employee_assignment list"
  hr_attendance :: "attendance list"
  hr_payables :: "labour_payable list"
  hr_sheets :: "salary_sheet list"

section \<open>Adapters\<close>

definition hr_by_code :: "string \<Rightarrow> string \<Rightarrow> string \<Rightarrow> account_row list \<Rightarrow> domain_error + string" where
  "hr_by_code co code role accs =
     (case List.find (\<lambda>a. ac_company a = co \<and> ac_code a = code) accs of
        None \<Rightarrow> Inl (CodedError ''HR_ACCOUNT_NOT_CONFIGURED'' role) | Some a \<Rightarrow> Inr (ac_id a))"

definition accrual_accounts_of :: "string \<Rightarrow> account_row list \<Rightarrow> domain_error + accrual_accounts" where
  "accrual_accounts_of co accs =
     rbind (hr_by_code co ''5110'' ''labour-cost'' accs) (\<lambda>cost.
     rbind (hr_by_code co ''2310'' ''labour-payable'' accs) (\<lambda>payable.
     Inr \<lparr>ac_labour_cost = cost, ac_labour_payable = payable\<rparr>))"

definition config_role :: "string \<Rightarrow> string \<Rightarrow> hr_config_row list \<Rightarrow> hr_config_row option" where
  "config_role co role tbl = List.find (\<lambda>r. hc_company r = co \<and> hc_role r = role) tbl"

definition by_role_account :: "string \<Rightarrow> string \<Rightarrow> hr_config_row list \<Rightarrow> domain_error + string" where
  "by_role_account co role tbl =
     (case config_role co role tbl of
        None \<Rightarrow> Inl (CodedError ''HR_ACCOUNT_NOT_CONFIGURED'' role)
      | Some r \<Rightarrow> if truthy (hc_account r) then Inr (the (hc_account r)) else Inl (CodedError ''HR_ACCOUNT_NOT_CONFIGURED'' role))"

definition by_role_cost_centre :: "string \<Rightarrow> string \<Rightarrow> hr_config_row list \<Rightarrow> domain_error + string" where
  "by_role_cost_centre co role tbl =
     (case config_role co role tbl of
        None \<Rightarrow> Inl (CodedError ''HR_ACCOUNT_NOT_CONFIGURED'' role)
      | Some r \<Rightarrow> if truthy (hc_cost_centre r) then Inr (the (hc_cost_centre r)) else Inl (CodedError ''HR_ACCOUNT_NOT_CONFIGURED'' role))"

definition salary_accounts_of :: "string \<Rightarrow> hr_config_row list \<Rightarrow> domain_error + salary_account_map" where
  "salary_accounts_of co tbl =
     rbind (by_role_account co ''GROSS_SALARY'' tbl) (\<lambda>gross.
     rbind (by_role_account co ''EMPLOYER_PF'' tbl) (\<lambda>employer_pf.
     rbind (by_role_account co ''SALARY_PAYABLE'' tbl) (\<lambda>payable.
     rbind (by_role_account co ''TDS_PAYABLE'' tbl) (\<lambda>tds.
     rbind (by_role_account co ''PF_PAYABLE'' tbl) (\<lambda>pf.
     rbind (by_role_account co ''STAFF_ADVANCE_RECOVERY'' tbl) (\<lambda>advance.
     rbind (by_role_cost_centre co ''LABOUR_COST_CENTRE'' tbl) (\<lambda>cost_centre.
     Inr \<lparr>sm_gross = gross, sm_employer_pf = employer_pf, sm_payable = payable, sm_tds = tds, sm_pf = pf,
          sm_advance = advance, sm_cost_centre = cost_centre\<rparr>)))))))"

definition hr_assert_not_closed :: "string \<Rightarrow> string \<Rightarrow> project_state list \<Rightarrow> domain_error + unit" where
  "hr_assert_not_closed co project ps =
     rbind (fetch (NotFoundError project) (List.find (\<lambda>p. pst_id p = project \<and> pst_company p = co) ps)) (\<lambda>p.
     require (pst_status p \<noteq> ''CLOSED'') (ProjectClosedError project))"

section \<open>The attendance repository\<close>

definition in_money_column :: "decimal \<Rightarrow> bool" where
  "in_money_column x \<longleftrightarrow> \<bar>x\<bar> < 10 ^ 14"

definition stored_attendance :: "dec_lib \<Rightarrow> attendance \<Rightarrow> attendance" where
  "stored_attendance D a = a\<lparr>at_overtime := map_option (to_dp D 4) (at_overtime a),
     at_daily_rate := map_option (to_dp D 4) (at_daily_rate a)\<rparr>"

definition attendance_checks :: "attendance \<Rightarrow> domain_error + unit" where
  "attendance_checks a =
     rbind (require (list_all in_money_column (List.map_filter id [at_overtime a, at_daily_rate a]) \<and>
         (case at_head_count a of None \<Rightarrow> True | Some n \<Rightarrow> n < 2 ^ 31)) (DatabaseError ''numeric field overflow'')) (\<lambda>_.
     rbind (require (at_source a \<in> set attendance_sources) (DatabaseError ''chk_attendance_source'')) (\<lambda>_.
     rbind (require (case at_day_status a of None \<Rightarrow> True | Some d \<Rightarrow> d \<in> set day_statuses)
        (DatabaseError ''chk_attendance_day_status'')) (\<lambda>_.
     rbind (require (at_mode a = OFFICE \<longrightarrow> at_employee a \<noteq> None \<and> at_head_count a = None \<and> at_party a = None)
        (DatabaseError ''chk_attendance_office'')) (\<lambda>_.
     rbind (require (at_mode a = SUBCONTRACTOR \<longrightarrow> at_party a \<noteq> None \<and> at_cost_centre a \<noteq> None \<and>
          (case at_head_count a of None \<Rightarrow> True | Some n \<Rightarrow> 1 \<le> n)) (DatabaseError ''chk_attendance_subcontractor'')) (\<lambda>_.
     rbind (require (at_mode a = DAILY_LABOUR \<longrightarrow> at_cost_centre a \<noteq> None \<and>
          (case at_head_count a of None \<Rightarrow> True | Some n \<Rightarrow> 1 \<le> n) \<and> (case at_daily_rate a of None \<Rightarrow> True | Some r \<Rightarrow> 0 \<le> r))
        (DatabaseError ''chk_attendance_daily_labour'')) (\<lambda>_.
     require ((\<not> at_confirmed a \<and> at_entry a = None) \<or> (at_confirmed a \<and> at_entry a \<noteq> None \<and> at_mode a = DAILY_LABOUR))
        (DatabaseError ''chk_attendance_confirmed_entry'')))))))"

definition same_office_day :: "attendance \<Rightarrow> attendance \<Rightarrow> bool" where
  "same_office_day a b \<longleftrightarrow> at_mode a = OFFICE \<and> at_mode b = OFFICE \<and> at_company a = at_company b \<and>
     at_employee a = at_employee b \<and> at_date a = at_date b"

definition attendance_insert :: "dec_lib \<Rightarrow> attendance \<Rightarrow> attendance list \<Rightarrow> domain_error + attendance list" where
  "attendance_insert D a tbl =
     (let q = (stored_attendance D a)\<lparr>at_version := 1\<rparr> in
      rbind (attendance_checks q) (\<lambda>_.
      rbind (require (\<not> list_ex (\<lambda>r. at_id r = at_id q) tbl) (DatabaseError ''attendance_record_pkey'')) (\<lambda>_.
      rbind (require (\<not> list_ex (same_office_day q) tbl) (DatabaseError ''uq_attendance_office_employee_day'')) (\<lambda>_.
      Inr (tbl @ [q])))))"

fun attendance_insert_many :: "dec_lib \<Rightarrow> attendance list \<Rightarrow> attendance list \<Rightarrow> domain_error + attendance list" where
  "attendance_insert_many D [] tbl = Inr tbl"
| "attendance_insert_many D (a # rest) tbl = rbind (attendance_insert D a tbl) (attendance_insert_many D rest)"

definition attendance_hit :: "attendance \<Rightarrow> nat \<Rightarrow> attendance \<Rightarrow> bool" where
  "attendance_hit a expected r \<longleftrightarrow> at_id r = at_id a \<and> at_company r = at_company a \<and> at_version r = expected"

text \<open>\<open>save\<close> writes the columns it lists; mode, date, project, employee, party and source stay.\<close>

definition attendance_saved :: "dec_lib \<Rightarrow> attendance \<Rightarrow> nat \<Rightarrow> attendance \<Rightarrow> attendance" where
  "attendance_saved D a expected r = (let q = stored_attendance D a in
     r\<lparr>at_cost_centre := at_cost_centre q, at_purpose := at_purpose q, at_head_count := at_head_count q,
       at_category := at_category q, at_daily_rate := at_daily_rate q, at_day_status := at_day_status q,
       at_check_in := at_check_in q, at_check_out := at_check_out q, at_overtime := at_overtime q,
       at_confirmed := at_confirmed q, at_entry := at_entry q, at_version := expected + 1\<rparr>)"

definition attendance_save :: "dec_lib \<Rightarrow> attendance \<Rightarrow> nat \<Rightarrow> attendance list \<Rightarrow> domain_error + attendance list" where
  "attendance_save D a expected tbl =
     (if \<not> list_ex (attendance_hit a expected) tbl then Inl OptimisticLockConflictError
      else rbind (riter (\<lambda>r. attendance_checks (attendance_saved D a expected r)) (filter (attendance_hit a expected) tbl)) (\<lambda>_.
           Inr (update_where (attendance_hit a expected) (attendance_saved D a expected) tbl)))"

definition attendance_find :: "string \<Rightarrow> string \<Rightarrow> attendance list \<Rightarrow> attendance option" where
  "attendance_find i co tbl = List.find (\<lambda>a. at_id a = i \<and> at_company a = co) tbl"

definition office_rows :: "string \<Rightarrow> string \<Rightarrow> string \<Rightarrow> string \<Rightarrow> attendance list \<Rightarrow> attendance list" where
  "office_rows co employee start fin tbl =
     filter (\<lambda>a. at_company a = co \<and> at_employee a = Some employee \<and> at_mode a = OFFICE \<and>
        start \<le> at_date a \<and> at_date a \<le> fin) tbl"

definition list_office_days :: "string \<Rightarrow> string \<Rightarrow> string \<Rightarrow> string \<Rightarrow> attendance list \<Rightarrow> office_day list" where
  "list_office_days co employee start fin tbl =
     map (\<lambda>a. \<lparr>od_date = at_date a, od_status = at_day_status a, od_check_in = at_check_in a, od_project = at_project a,
        od_overtime = (case at_overtime a of None \<Rightarrow> 0 | Some h \<Rightarrow> h)\<rparr>)
       (sort_key at_date (office_rows co employee start fin tbl))"

text \<open>The project most of the days carry, the first to reach the largest count.\<close>

definition count_of :: "string \<Rightarrow> string list \<Rightarrow> nat" where
  "count_of p ps = length (filter (\<lambda>q. q = p) ps)"

definition primary_project :: "string list \<Rightarrow> string option" where
  "primary_project ps =
     fold (\<lambda>p best. case best of None \<Rightarrow> Some p | Some b \<Rightarrow> if count_of b ps < count_of p ps then Some p else Some b)
       (rev (remdups (rev ps))) None"

record office_summary =
  os_paid :: nat
  os_attended :: nat
  os_overtime :: decimal
  os_project :: "string option"

definition summarize_office :: "dec_lib \<Rightarrow> string \<Rightarrow> string \<Rightarrow> string \<Rightarrow> string \<Rightarrow> attendance list \<Rightarrow> office_summary" where
  "summarize_office D co employee start fin tbl =
     (let rows = office_rows co employee start fin tbl in
      \<lparr>os_paid = length (filter (\<lambda>a. at_day_status a \<in> {Some ''PRESENT'', Some ''PAID_LEAVE''}) rows),
       os_attended = length (filter (\<lambda>a. at_day_status a = Some ''PRESENT'') rows),
       os_overtime = to_dp D 4 (foldl (d_plus D) 0 (List.map_filter at_overtime rows)),
       os_project = primary_project (map at_project rows)\<rparr>)"

section \<open>The payable repository\<close>

definition payable_checks :: "labour_payable \<Rightarrow> domain_error + unit" where
  "payable_checks p =
     rbind (require (in_money_column (lp_accrued p) \<and> in_money_column (lp_settled p)) (DatabaseError ''numeric field overflow'')) (\<lambda>_.
     require (0 \<le> lp_settled p \<and> lp_settled p \<le> lp_accrued p) (DatabaseError ''chk_labour_payable_settled''))"

definition payable_insert :: "dec_lib \<Rightarrow> labour_payable \<Rightarrow> labour_payable list \<Rightarrow> domain_error + labour_payable list" where
  "payable_insert D p tbl =
     (let q = p\<lparr>lp_accrued := to_dp D 4 (lp_accrued p), lp_settled := to_dp D 4 (lp_settled p), lp_version := 1\<rparr> in
      rbind (payable_checks q) (\<lambda>_.
      rbind (require (\<not> list_ex (\<lambda>r. lp_id r = lp_id q) tbl) (DatabaseError ''labour_payable_pkey'')) (\<lambda>_.
      Inr (tbl @ [q]))))"

definition payable_save :: "dec_lib \<Rightarrow> labour_payable \<Rightarrow> nat \<Rightarrow> labour_payable list \<Rightarrow> domain_error + labour_payable list" where
  "payable_save D p expected tbl =
     (let hit = (\<lambda>r. lp_id r = lp_id p \<and> lp_company r = lp_company p \<and> lp_version r = expected);
          new = (\<lambda>r. r\<lparr>lp_settled := to_dp D 4 (lp_settled p), lp_status := lp_status p, lp_version := expected + 1\<rparr>)
      in if \<not> list_ex hit tbl then Inl OptimisticLockConflictError
         else rbind (riter (\<lambda>r. payable_checks (new r)) (filter hit tbl)) (\<lambda>_. Inr (update_where hit new tbl)))"

definition payable_by_entry :: "string \<Rightarrow> string \<Rightarrow> labour_payable list \<Rightarrow> labour_payable option" where
  "payable_by_entry co entry_id tbl = List.find (\<lambda>p. lp_company p = co \<and> lp_entry p = entry_id) tbl"

section \<open>The employee repository\<close>

definition employee_checks :: "employee \<Rightarrow> domain_error + unit" where
  "employee_checks e =
     rbind (require (in_money_column (em_wage e)) (DatabaseError ''numeric field overflow'')) (\<lambda>_.
     require (0 \<le> em_wage e) (DatabaseError ''chk_employee_wage_nonneg''))"

definition employee_insert :: "dec_lib \<Rightarrow> employee \<Rightarrow> employee list \<Rightarrow> domain_error + employee list" where
  "employee_insert D e tbl =
     (let q = e\<lparr>em_wage := to_dp D 4 (em_wage e), em_version := 1\<rparr> in
      rbind (employee_checks q) (\<lambda>_.
      rbind (require (\<not> list_ex (\<lambda>r. em_id r = em_id q) tbl) (DatabaseError ''employee_pkey'')) (\<lambda>_.
      rbind (require (\<not> list_ex (\<lambda>r. em_company r = em_company q \<and> em_code r = em_code q) tbl)
        (DatabaseError ''uq_employee_company_code'')) (\<lambda>_.
      Inr (tbl @ [q])))))"

text \<open>\<open>save\<close> writes every column but company, code and joining date.\<close>

definition employee_save :: "dec_lib \<Rightarrow> employee \<Rightarrow> nat \<Rightarrow> employee list \<Rightarrow> domain_error + employee list" where
  "employee_save D e expected tbl =
     (let hit = (\<lambda>r. em_id r = em_id e \<and> em_company r = em_company e \<and> em_version r = expected);
          q = e\<lparr>em_wage := to_dp D 4 (em_wage e), em_version := expected + 1\<rparr>;
          new = (\<lambda>r. q\<lparr>em_id := em_id r, em_company := em_company r, em_code := em_code r, em_joining := em_joining r\<rparr>)
      in if \<not> list_ex hit tbl then Inl OptimisticLockConflictError
         else rbind (employee_checks q) (\<lambda>_. Inr (update_where hit new tbl)))"

definition employee_find :: "string \<Rightarrow> string \<Rightarrow> employee list \<Rightarrow> employee option" where
  "employee_find i co tbl = List.find (\<lambda>e. em_id e = i \<and> em_company e = co) tbl"

definition employee_code_exists :: "string \<Rightarrow> string \<Rightarrow> employee list \<Rightarrow> bool" where
  "employee_code_exists co code tbl = list_ex (\<lambda>e. em_company e = co \<and> em_code e = code) tbl"

definition active_for_company :: "string \<Rightarrow> string option \<Rightarrow> employee list \<Rightarrow> employee list" where
  "active_for_company co project tbl =
     sort_key em_code (filter (\<lambda>e. em_company e = co \<and> em_active e \<and> (truthy project \<longrightarrow> em_project e = project)) tbl)"

section \<open>The salary sheet repository\<close>

definition stored_salary_line :: "dec_lib \<Rightarrow> salary_line \<Rightarrow> salary_line" where
  "stored_salary_line D l =
     l\<lparr>sl_paid_days := to_dp D 4 (sl_paid_days l), sl_gross := to_dp D 4 (sl_gross l),
       sl_allowances := to_dp D 4 (sl_allowances l), sl_tds := to_dp D 4 (sl_tds l), sl_pf := to_dp D 4 (sl_pf l),
       sl_advance := to_dp D 4 (sl_advance l), sl_other := to_dp D 4 (sl_other l), sl_net := to_dp D 4 (sl_net l),
       sl_standard_days := to_dp D 4 (sl_standard_days l), sl_unpaid_days := to_dp D 4 (sl_unpaid_days l),
       sl_penalty_days := to_dp D 4 (sl_penalty_days l), sl_penalty_amount := to_dp D 4 (sl_penalty_amount l)\<rparr>"

definition salary_line_checks :: "salary_line \<Rightarrow> domain_error + unit" where
  "salary_line_checks l =
     rbind (require (list_all in_money_column [sl_paid_days l, sl_gross l, sl_allowances l, sl_tds l, sl_pf l, sl_advance l,
         sl_other l, sl_net l, sl_standard_days l, sl_unpaid_days l, sl_penalty_days l, sl_penalty_amount l])
       (DatabaseError ''numeric field overflow'')) (\<lambda>_.
     rbind (require (list_all (\<lambda>x. 0 \<le> x) [sl_paid_days l, sl_gross l, sl_allowances l, sl_tds l, sl_pf l, sl_advance l, sl_other l])
       (DatabaseError ''chk_salary_sheet_line_nonneg'')) (\<lambda>_.
     require (0 \<le> sl_late_count l \<and> list_all (\<lambda>x. 0 \<le> x) [sl_penalty_days l, sl_penalty_amount l, sl_standard_days l, sl_unpaid_days l])
       (DatabaseError ''chk_salary_sheet_line_days_nonneg'')))"

definition line_ids :: "salary_sheet list \<Rightarrow> string list" where
  "line_ids tbl = concat (map (map sl_id \<circ> sh_lines) tbl)"

definition draft_for_period :: "string \<Rightarrow> string \<Rightarrow> string \<Rightarrow> salary_sheet \<Rightarrow> bool" where
  "draft_for_period co fy label h \<longleftrightarrow> sh_company h = co \<and> sh_fy h = fy \<and> sh_label h = label \<and> sh_status h = SheetDraft"

definition exists_draft_for_period :: "string \<Rightarrow> string \<Rightarrow> string \<Rightarrow> salary_sheet list \<Rightarrow> bool" where
  "exists_draft_for_period co fy label tbl = list_ex (draft_for_period co fy label) tbl"

definition sheet_insert :: "dec_lib \<Rightarrow> salary_sheet \<Rightarrow> salary_sheet list \<Rightarrow> domain_error + salary_sheet list" where
  "sheet_insert D h tbl =
     (let q = h\<lparr>sh_version := 1, sh_lines := map (stored_salary_line D) (sh_lines h)\<rparr> in
      rbind (require (\<not> sh_end q < sh_start q) (DatabaseError ''chk_salary_sheet_period'')) (\<lambda>_.
      rbind (require (\<not> list_ex (\<lambda>r. sh_id r = sh_id q) tbl) (DatabaseError ''salary_sheet_pkey'')) (\<lambda>_.
      rbind (require (sh_status q = SheetDraft \<longrightarrow> \<not> exists_draft_for_period (sh_company q) (sh_fy q) (sh_label q) tbl)
        (DatabaseError ''uq_salary_sheet_draft_period'')) (\<lambda>_.
      rbind (riter salary_line_checks (sh_lines q)) (\<lambda>_.
      rbind (require (distinct (line_ids (tbl @ [q]))) (DatabaseError ''salary_sheet_line_pkey'')) (\<lambda>_.
      Inr (tbl @ [q])))))))"

text \<open>\<open>save\<close>: the status columns of the sheet, then the components of each line it carries.\<close>

definition line_components_saved :: "dec_lib \<Rightarrow> salary_line \<Rightarrow> salary_line \<Rightarrow> salary_line" where
  "line_components_saved D l k = (let q = stored_salary_line D l in
     k\<lparr>sl_allowances := sl_allowances q, sl_tds := sl_tds q, sl_pf := sl_pf q, sl_advance := sl_advance q,
       sl_other := sl_other q, sl_net := sl_net q, sl_version := sl_version k + 1\<rparr>)"

definition lines_saved :: "dec_lib \<Rightarrow> salary_line list \<Rightarrow> salary_line list \<Rightarrow> salary_line list" where
  "lines_saved D new old = fold (\<lambda>l. update_where (\<lambda>k. sl_id k = sl_id l) (line_components_saved D l)) new old"

definition sheet_hit :: "salary_sheet \<Rightarrow> nat \<Rightarrow> salary_sheet \<Rightarrow> bool" where
  "sheet_hit h expected r \<longleftrightarrow> sh_id r = sh_id h \<and> sh_company r = sh_company h \<and> sh_version r = expected"

definition sheet_saved :: "dec_lib \<Rightarrow> salary_sheet \<Rightarrow> nat \<Rightarrow> salary_sheet \<Rightarrow> salary_sheet" where
  "sheet_saved D h expected r =
     r\<lparr>sh_status := sh_status h, sh_entry := sh_entry h, sh_posted_at := sh_posted_at h, sh_posted_by := sh_posted_by h,
       sh_version := expected + 1, sh_lines := lines_saved D (sh_lines h) (sh_lines r)\<rparr>"

definition sheet_save :: "dec_lib \<Rightarrow> salary_sheet \<Rightarrow> nat \<Rightarrow> salary_sheet list \<Rightarrow> domain_error + salary_sheet list" where
  "sheet_save D h expected tbl =
     (if \<not> list_ex (sheet_hit h expected) tbl then Inl OptimisticLockConflictError
      else rbind (riter (\<lambda>r. riter salary_line_checks (sh_lines (sheet_saved D h expected r))) (filter (sheet_hit h expected) tbl)) (\<lambda>_.
           Inr (update_where (sheet_hit h expected) (sheet_saved D h expected) tbl)))"

definition sheet_find :: "string \<Rightarrow> string \<Rightarrow> salary_sheet list \<Rightarrow> salary_sheet option" where
  "sheet_find i co tbl = List.find (\<lambda>h. sh_id h = i \<and> sh_company h = co) tbl"

end
