(* ===== verification/Hr_Use_Cases.thy ===== *)
theory Hr_Use_Cases
  imports Hr_State
begin

text \<open>
  The services of the HR module (\<open>src/src/modules/hr/application/\<close>), each method one transaction:
  employees, attendance capture with the daily-labour accrual and its settlement, and the salary sheets.
\<close>

section \<open>Employees\<close>

definition create_employee ::
  "dec_lib \<Rightarrow> (nat \<Rightarrow> string) \<Rightarrow> new_employee \<Rightarrow> actor \<Rightarrow> 'a hr_db_scheme \<Rightarrow> domain_error + (string \<times> 'a hr_db_scheme)" where
  "create_employee D mk inp act = uow_run (\<lambda>s.
     rbind (require (ne_wage_type inp \<in> {''MONTHLY'', ''DAILY''}) (CodedError ''EMPLOYEE_NOT_OFFICE_STAFF'' (ne_wage_type inp))) (\<lambda>_.
     rbind (require (\<not> employee_code_exists (act_company act) (ne_code inp) (hr_employees s))
       (CodedError ''DUPLICATE_CODE'' (ne_code inp))) (\<lambda>_.
     case ids_next mk s of (i, s1) \<Rightarrow>
     rbind (employee_create i (act_company act) inp) (\<lambda>e.
     rbind (employee_insert D e (hr_employees s1)) (\<lambda>tbl.
     let s2 = s1\<lparr>hr_employees := tbl\<rparr>;
         s3 = (case em_project e of
                 None \<Rightarrow> s2
               | Some p \<Rightarrow> (case ids_next mk s2 of (j, t) \<Rightarrow>
                   t\<lparr>hr_assignments := hr_assignments t @ [\<lparr>ea_id = j, ea_employee = i, ea_company = act_company act,
                      ea_project = p, ea_effective = em_joining e, ea_note = Some ''Initial assignment''\<rparr>]\<rparr>))
     in Inr (i, audit_record ''CREATE'' ''Employee'' i act s3))))))"

definition with_employee ::
  "dec_lib \<Rightarrow> string \<Rightarrow> nat \<Rightarrow> (employee \<Rightarrow> domain_error + employee) \<Rightarrow> string \<Rightarrow> actor \<Rightarrow> 'a hr_db_scheme \<Rightarrow>
   domain_error + (unit \<times> 'a hr_db_scheme)" where
  "with_employee D i version f action act s =
     rbind (fetch (NotFoundError i) (employee_find i (act_company act) (hr_employees s))) (\<lambda>e.
     rbind (f e) (\<lambda>e'.
     rbind (employee_save D e' version (hr_employees s)) (\<lambda>tbl.
     Inr ((), audit_record action ''Employee'' i act (s\<lparr>hr_employees := tbl\<rparr>)))))"

definition update_employee ::
  "dec_lib \<Rightarrow> string \<Rightarrow> edit_employee \<Rightarrow> nat \<Rightarrow> actor \<Rightarrow> 'a hr_db_scheme \<Rightarrow> domain_error + (unit \<times> 'a hr_db_scheme)" where
  "update_employee D i patch version act = uow_run (with_employee D i version (employee_update patch) ''UPDATE'' act)"

definition reassign_employee ::
  "dec_lib \<Rightarrow> (nat \<Rightarrow> string) \<Rightarrow> string \<Rightarrow> string \<Rightarrow> string \<Rightarrow> string option \<Rightarrow> nat \<Rightarrow> actor \<Rightarrow> 'a hr_db_scheme \<Rightarrow>
   domain_error + (unit \<times> 'a hr_db_scheme)" where
  "reassign_employee D mk i project effective note version act = uow_run (\<lambda>s.
     rbind (fetch (NotFoundError i) (employee_find i (act_company act) (hr_employees s))) (\<lambda>e.
     case ids_next mk s of (j, s1) \<Rightarrow>
     rbind (employee_reassign j project effective note e) (\<lambda>(e', a).
     rbind (employee_save D e' version (hr_employees s1)) (\<lambda>tbl.
     Inr ((), audit_record ''UPDATE'' ''Employee'' i act
       (s1\<lparr>hr_employees := tbl, hr_assignments := hr_assignments s1 @ [a]\<rparr>))))))"

definition set_employee_status ::
  "dec_lib \<Rightarrow> string \<Rightarrow> nat \<Rightarrow> bool \<Rightarrow> actor \<Rightarrow> 'a hr_db_scheme \<Rightarrow> domain_error + (unit \<times> 'a hr_db_scheme)" where
  "set_employee_status D i version active act = uow_run
     (with_employee D i version (\<lambda>e. Inr (employee_set_active active e)) (if active then ''REACTIVATE'' else ''DEACTIVATE'') act)"

section \<open>Attendance\<close>

text \<open>\<open>capture\<close> for the head-count modes; an office day goes through the punch pipeline instead.\<close>

fun capture_rows :: "(nat \<Rightarrow> string) \<Rightarrow> string \<Rightarrow> string \<Rightarrow> string \<Rightarrow> new_attendance list \<Rightarrow> nat \<Rightarrow>
    domain_error + (attendance list \<times> nat)" where
  "capture_rows mk co fy mode [] n = Inr ([], n)"
| "capture_rows mk co fy mode (r # rest) n =
     rbind (attendance_capture (mk n) co fy (r\<lparr>na_mode := mode\<rparr>)) (\<lambda>a.
     rbind (capture_rows mk co fy mode rest (Suc n)) (\<lambda>(as, m). Inr (a # as, m)))"

definition joined_ids :: "string list \<Rightarrow> string" where
  "joined_ids ids = concat (case ids of [] \<Rightarrow> [] | i # rest \<Rightarrow> i # map (\<lambda>j. '','' @ j) rest)"

definition capture_heads ::
  "dec_lib \<Rightarrow> (nat \<Rightarrow> string) \<Rightarrow> string \<Rightarrow> new_attendance list \<Rightarrow> actor \<Rightarrow> 'a hr_db_scheme \<Rightarrow>
   domain_error + (string list \<times> 'a hr_db_scheme)" where
  "capture_heads D mk mode rows act = uow_run (\<lambda>s.
     rbind (capture_rows mk (act_company act) (act_fy act) mode rows (db_ids s)) (\<lambda>(as, n).
     rbind (attendance_insert_many D as (hr_attendance s)) (\<lambda>tbl.
     Inr (map at_id as, audit_record ''CREATE'' ''AttendanceRecord'' (joined_ids (map at_id as)) act
       (s\<lparr>db_ids := n, hr_attendance := tbl\<rparr>)))))"

definition edit_daily_labour ::
  "dec_lib \<Rightarrow> string \<Rightarrow> labour_patch \<Rightarrow> nat \<Rightarrow> actor \<Rightarrow> 'a hr_db_scheme \<Rightarrow> domain_error + (unit \<times> 'a hr_db_scheme)" where
  "edit_daily_labour D i patch version act = uow_run (\<lambda>s.
     rbind (fetch (NotFoundError i) (attendance_find i (act_company act) (hr_attendance s))) (\<lambda>a.
     rbind (require (\<not> at_confirmed a) (CodedError ''ATTENDANCE_CONFIRMED_IMMUTABLE'' i)) (\<lambda>_.
     rbind (edit_labour_record patch a) (\<lambda>b.
     rbind (attendance_save D b version (hr_attendance s)) (\<lambda>tbl.
     Inr ((), s\<lparr>hr_attendance := tbl\<rparr>))))))"

definition confirm_daily_labour ::
  "dec_lib \<Rightarrow> (nat \<Rightarrow> string) \<Rightarrow> 'a hr_db_scheme ports \<Rightarrow> string \<Rightarrow> string option \<Rightarrow> actor \<Rightarrow> int \<Rightarrow> 'a hr_db_scheme \<Rightarrow>
   domain_error + ((string \<times> string) \<times> 'a hr_db_scheme)" where
  "confirm_daily_labour D mk P i purpose act now = uow_run (\<lambda>s.
     rbind (fetch (NotFoundError i) (attendance_find i (act_company act) (hr_attendance s))) (\<lambda>a.
     rbind (assert_accruable a) (\<lambda>_.
     rbind (assert_unconfirmed a) (\<lambda>_.
     rbind (if truthy purpose then attendance_set_purpose (the purpose) a else Inr a) (\<lambda>b.
     rbind (hr_assert_not_closed (act_company act) (at_project b) (hr_projects s)) (\<lambda>_.
     rbind (accrual_accounts_of (act_company act) (hr_accounts s)) (\<lambda>accs.
     rbind (accrual_line_for D b) (\<lambda>l.
     rbind (build_accrual_command (act_company act) (at_fy b) (at_date b) (at_id b) (act_user act) [l] accs) (\<lambda>cmd.
     rbind (post D mk P cmd now s) (\<lambda>(entry, s1).
     rbind (attendance_confirm (je_id entry) b) (\<lambda>c.
     rbind (attendance_save D c (at_version c) (hr_attendance s1)) (\<lambda>tbl.
     case ids_next mk (s1\<lparr>hr_attendance := tbl\<rparr>) of (j, s2) \<Rightarrow>
     rbind (payable_insert D (payable_create j (act_company act) (at_fy c) (at_project c) (or_empty (at_cost_centre c))
              (at_date c) (al_cost l) (je_id entry)) (hr_payables s2)) (\<lambda>pays.
     Inr ((je_id entry, je_no entry), audit_record ''POST'' ''AttendanceRecord'' i act (s2\<lparr>hr_payables := pays\<rparr>)))))))))))))))"

definition reverse_accrual ::
  "dec_lib \<Rightarrow> (nat \<Rightarrow> string) \<Rightarrow> 'a hr_db_scheme ports \<Rightarrow> string \<Rightarrow> string \<Rightarrow> actor \<Rightarrow> int \<Rightarrow> 'a hr_db_scheme \<Rightarrow>
   domain_error + ((string \<times> string) \<times> 'a hr_db_scheme)" where
  "reverse_accrual D mk P i reason act now = uow_run (\<lambda>s.
     rbind (fetch (NotFoundError i) (attendance_find i (act_company act) (hr_attendance s))) (\<lambda>a.
     rbind (require (at_confirmed a \<and> truthy (at_entry a)) (CodedError ''ATTENDANCE_NOT_CONFIRMED'' i)) (\<lambda>_.
     rbind (reverse D mk P (the (at_entry a)) (act_company act) reason (act_user act) now s) (\<lambda>(back, s1).
     Inr ((je_id back, je_no back), audit_record ''CANCEL'' ''AttendanceRecord'' i act s1)))))"

definition apply_settlement ::
  "dec_lib \<Rightarrow> string \<Rightarrow> string \<Rightarrow> money \<Rightarrow> actor option \<Rightarrow> 'a hr_db_scheme \<Rightarrow> domain_error + (unit \<times> 'a hr_db_scheme)" where
  "apply_settlement D co entry_id amount who = uow_run (\<lambda>s.
     case payable_by_entry co entry_id (hr_payables s) of
       None \<Rightarrow> Inr ((), s)
     | Some p \<Rightarrow>
         rbind (payable_settle D amount p) (\<lambda>q.
         rbind (payable_save D q (lp_version q) (hr_payables s)) (\<lambda>tbl.
         let s1 = s\<lparr>hr_payables := tbl\<rparr> in
         Inr ((), case who of None \<Rightarrow> s1 | Some act \<Rightarrow>
           s1\<lparr>db_audit := db_audit s1 @ [\<lparr>a_action = ''UPDATE'', a_entity_type = ''LabourPayable'', a_entity_id = lp_id p,
              a_actor = act_user act, a_company = co\<rparr>]\<rparr>))))"

section \<open>Salary sheets\<close>

definition default_late_threshold :: late_threshold where
  "default_late_threshold = \<lparr>lt_hour = 9, lt_minute = 30\<rparr>"

definition find_setting :: "string \<Rightarrow> attendance_setting list \<Rightarrow> attendance_setting option" where
  "find_setting co tbl = List.find (\<lambda>r. st_company r = co) tbl"

definition late_rule :: "string \<Rightarrow> attendance_setting list \<Rightarrow> late_threshold \<times> int" where
  "late_rule co tbl = (case find_setting co tbl of
     None \<Rightarrow> (default_late_threshold, 3)
   | Some r \<Rightarrow> (\<lparr>lt_hour = st_late_hour r, lt_minute = st_late_minute r\<rparr>, st_lates_per_day r))"

record new_salary =
  ns_fy :: string
  ns_label :: string
  ns_start :: string
  ns_end :: string
  ns_project :: "string option"
  ns_purpose :: string

text \<open>What one employee adds to the sheet: the attendance facts, the gross and its late penalty.\<close>

definition salary_pay ::
  "dec_lib \<Rightarrow> employee \<Rightarrow> payroll_days \<Rightarrow> int \<Rightarrow> domain_error + (money \<times> money)" where
  "salary_pay D e p forfeited =
     (let pay = \<lparr>ep_wage_type = em_wage_type e, ep_wage = em_wage e\<rparr>;
          att = \<lparr>as_paid = Dec (of_int (pd_paid p)), as_standard = Dec (of_nat (pd_standard p)),
            as_attended = Dec (of_nat (pd_attended p)), as_overtime = Some (Dec 0), as_penalty = Some (Dec (of_int forfeited))\<rparr>
      in rbind (calc_gross D pay att) (\<lambda>gross.
         rbind (if em_wage_type e = ''MONTHLY'' \<and> 0 < forfeited
                then rbind (calc_gross D pay (att\<lparr>as_penalty := Some (Dec 0)\<rparr>)) (\<lambda>full. Inr (money_minus D full gross))
                else Inr 0) (\<lambda>cost. Inr (gross, cost))))"

record generation =
  gn_lines :: "salary_line list"
  gn_skipped :: "(string \<times> string) list"
  gn_absences :: "(string \<times> nat) list"
  gn_missing :: "string list"

text \<open>
  \<open>gn_missing\<close> lists every missing day of every employee on the sheet; \<open>missingByDate\<close> of the code counts them.
\<close>

fun generate_lines ::
  "dec_lib \<Rightarrow> (nat \<Rightarrow> string) \<Rightarrow> string \<Rightarrow> new_salary \<Rightarrow> string \<Rightarrow> string list \<Rightarrow> late_threshold \<Rightarrow> int \<Rightarrow> attendance list \<Rightarrow>
   employee list \<Rightarrow> nat \<Rightarrow> generation \<Rightarrow> domain_error + (generation \<times> nat)" where
  "generate_lines D mk co inp cost_centre holidays th per att [] n g = Inr (g, n)"
| "generate_lines D mk co inp cost_centre holidays th per att (e # es) n g =
     (let summary = summarize_office D co (em_id e) (ns_start inp) (ns_end inp) att;
          days = list_office_days co (em_id e) (ns_start inp) (ns_end inp) att;
          p = compute_payroll_days (ns_start inp) (ns_end inp) (Some (em_joining e)) None days holidays th;
          forfeited = penalty_days (pd_late p) per
      in rbind (salary_pay D e p forfeited) (\<lambda>(gross, cost).
         let project = (case os_project summary of Some x \<Rightarrow> Some x | None \<Rightarrow> em_project e) in
         if \<not> truthy project
         then generate_lines D mk co inp cost_centre holidays th per att es n
                (g\<lparr>gn_skipped := gn_skipped g @ [(em_id e, ''NO_PROJECT'')]\<rparr>)
         else
           rbind (salary_line_create D (mk n)
             \<lparr>nl_employee = em_id e, nl_project = the project, nl_cost_centre = cost_centre, nl_purpose = ns_purpose inp,
              nl_paid_days = of_int (pd_paid p), nl_gross = gross, nl_standard_days = Some (of_nat (pd_standard p)),
              nl_unpaid_days = Some (of_nat (pd_unpaid p)), nl_late_count = Some (int (pd_late p)),
              nl_penalty_days = Some (of_int forfeited), nl_penalty_amount = Some cost\<rparr>) (\<lambda>l.
           generate_lines D mk co inp cost_centre holidays th per att es (Suc n)
             (g\<lparr>gn_lines := gn_lines g @ [l], gn_absences := gn_absences g @ [(em_id e, pd_unpaid p)],
                gn_missing := gn_missing g @ pd_missing p\<rparr>))))"

definition company_gaps :: "generation \<Rightarrow> string list" where
  "company_gaps g = sort (filter (\<lambda>d. gn_lines g \<noteq> [] \<and> count_of d (gn_missing g) = length (gn_lines g)) (remdups (gn_missing g)))"

definition generate_salary ::
  "dec_lib \<Rightarrow> (nat \<Rightarrow> string) \<Rightarrow> new_salary \<Rightarrow> actor \<Rightarrow> 'a hr_db_scheme \<Rightarrow>
   domain_error + ((string \<times> pre_post_warnings) \<times> 'a hr_db_scheme)" where
  "generate_salary D mk inp act = uow_run (\<lambda>s.
     let co = act_company act in
     rbind (require (\<not> exists_draft_for_period co (ns_fy inp) (ns_label inp) (hr_sheets s))
       (CodedError ''DUPLICATE_DRAFT_SHEET'' (ns_label inp))) (\<lambda>_.
     let es = active_for_company co (ns_project inp) (hr_employees s) in
     rbind (salary_accounts_of co (hr_config s)) (\<lambda>accs.
     case late_rule co (hr_settings s) of (th, per) \<Rightarrow>
     let weekly = map snd (filter (\<lambda>r. fst r = co) (hr_weekly s));
         holidays = resolve_holiday_dates co (ns_start inp) (ns_end inp) weekly (hr_holidays s)
     in rbind (generate_lines D mk co inp (sm_cost_centre accs) holidays th per (hr_attendance s) es (db_ids s)
          \<lparr>gn_lines = [], gn_skipped = [], gn_absences = [], gn_missing = []\<rparr>) (\<lambda>(g, n).
        let warnings = \<lparr>pw_days_with_no_records = company_gaps g, pw_skipped = gn_skipped g, pw_absences = gn_absences g,
              pw_no_weekly_holidays = (weekly = [])\<rparr>
        in rbind (sheet_generate (mk n) co \<lparr>nh_fy = ns_fy inp, nh_label = ns_label inp, nh_start = ns_start inp, nh_end = ns_end inp\<rparr>
             (gn_lines g) (Some warnings)) (\<lambda>h.
        rbind (sheet_insert D h (hr_sheets s)) (\<lambda>tbl.
        Inr ((sh_id h, warnings), audit_record ''CREATE'' ''SalarySheet'' (sh_id h) act (s\<lparr>db_ids := Suc n, hr_sheets := tbl\<rparr>))))))))"

definition with_sheet ::
  "dec_lib \<Rightarrow> string \<Rightarrow> nat \<Rightarrow> (salary_sheet \<Rightarrow> domain_error + salary_sheet) \<Rightarrow> actor \<Rightarrow> 'a hr_db_scheme \<Rightarrow>
   domain_error + (unit \<times> 'a hr_db_scheme)" where
  "with_sheet D i version f act s =
     rbind (fetch (NotFoundError i) (sheet_find i (act_company act) (hr_sheets s))) (\<lambda>h.
     rbind (f h) (\<lambda>k.
     rbind (sheet_save D k version (hr_sheets s)) (\<lambda>tbl.
     Inr ((), audit_record ''UPDATE'' ''SalarySheet'' i act (s\<lparr>hr_sheets := tbl\<rparr>)))))"

definition edit_salary_line ::
  "dec_lib \<Rightarrow> string \<Rightarrow> string \<Rightarrow> edit_components \<Rightarrow> nat \<Rightarrow> actor \<Rightarrow> 'a hr_db_scheme \<Rightarrow> domain_error + (unit \<times> 'a hr_db_scheme)" where
  "edit_salary_line D i line_id patch version act = uow_run (with_sheet D i version (sheet_edit_line D line_id patch) act)"

definition apply_bulk_components ::
  "dec_lib \<Rightarrow> string \<Rightarrow> bulk_rule \<Rightarrow> nat \<Rightarrow> actor \<Rightarrow> 'a hr_db_scheme \<Rightarrow> domain_error + (unit \<times> 'a hr_db_scheme)" where
  "apply_bulk_components D i r version act = uow_run (with_sheet D i version (sheet_apply_bulk D r) act)"

text \<open>The employer's contribution matches the employee's PF where it applies, by line id.\<close>

definition employer_pf_of :: "string \<Rightarrow> employee list \<Rightarrow> salary_line \<Rightarrow> money" where
  "employer_pf_of co es l = (case employee_find (sl_employee l) co es of
     None \<Rightarrow> 0 | Some e \<Rightarrow> if em_pf e then sl_pf l else 0)"

definition post_salary ::
  "dec_lib \<Rightarrow> (nat \<Rightarrow> string) \<Rightarrow> 'a hr_db_scheme ports \<Rightarrow> string \<Rightarrow> nat \<Rightarrow> actor \<Rightarrow> int \<Rightarrow> 'a hr_db_scheme \<Rightarrow>
   domain_error + ((string \<times> string) \<times> 'a hr_db_scheme)" where
  "post_salary D mk P i version act now = uow_run (\<lambda>s.
     rbind (fetch (NotFoundError i) (sheet_find i (act_company act) (hr_sheets s))) (\<lambda>h.
     rbind (sheet_assert_draft h) (\<lambda>_.
     rbind (riter (\<lambda>p. hr_assert_not_closed (act_company act) p (hr_projects s))
       (rev (remdups (rev (map sl_project (sh_lines h)))))) (\<lambda>_.
     rbind (salary_accounts_of (act_company act) (hr_config s)) (\<lambda>accs.
     rbind (build_salary_command D h accs (act_company act) (act_user act)
       (employer_pf_of (act_company act) (hr_employees s))) (\<lambda>cmd.
     rbind (post D mk P cmd now s) (\<lambda>(entry, s1).
     rbind (sheet_mark_posted (je_id entry) (act_user act) now h) (\<lambda>k.
     rbind (sheet_save D k version (hr_sheets s1)) (\<lambda>tbl.
     Inr ((je_id entry, je_no entry), audit_record ''POST'' ''SalarySheet'' i act (s1\<lparr>hr_sheets := tbl\<rparr>)))))))))))"

definition reverse_salary ::
  "dec_lib \<Rightarrow> (nat \<Rightarrow> string) \<Rightarrow> 'a hr_db_scheme ports \<Rightarrow> string \<Rightarrow> string \<Rightarrow> actor \<Rightarrow> int \<Rightarrow> 'a hr_db_scheme \<Rightarrow>
   domain_error + ((string \<times> string) \<times> 'a hr_db_scheme)" where
  "reverse_salary D mk P i reason act now = uow_run (\<lambda>s.
     rbind (fetch (NotFoundError i) (sheet_find i (act_company act) (hr_sheets s))) (\<lambda>h.
     rbind (require (sh_status h = SheetPosted \<and> truthy (sh_entry h)) (CodedError ''SALARY_NOT_POSTED'' i)) (\<lambda>_.
     rbind (reverse D mk P (the (sh_entry h)) (act_company act) reason (act_user act) now s) (\<lambda>(back, s1).
     Inr ((je_id back, je_no back), audit_record ''CANCEL'' ''SalarySheet'' i act s1)))))"

end
