(* ===== verification/Payroll_Posting.thy ===== *)
theory Payroll_Posting
  imports Payroll
begin

text \<open>
  What the \<open>SALARY\<close> command of a sheet states: its sides balance, each account carries the sum of its
  column, and it can be posted exactly when every group of lines leaves something payable.
\<close>

lemma total_concat: "total_dr (concat lss) = sum_list (map total_dr lss)" "total_cr (concat lss) = sum_list (map total_cr lss)"
  by (induction lss) simp_all

lemma lines_net_concat: "lines_net acc (concat lss) = sum_list (map (lines_net acc) lss)"
  by (induction lss) simp_all

lemma group_line_simps [simp]:
  "pl_account (group_line m g acc dr cr ty) = acc" "pl_debit (group_line m g acc dr cr ty) = dr"
  "pl_credit (group_line m g acc dr cr ty) = cr"
  by (simp_all add: group_line_def)

definition salary_accounts_distinct :: "salary_account_map \<Rightarrow> bool" where
  "salary_accounts_distinct m \<longleftrightarrow> distinct [sm_gross m, sm_employer_pf m, sm_payable m, sm_tds m, sm_pf m, sm_advance m]"

lemma accounts_differ:
  assumes "salary_accounts_distinct m"
  shows "sm_gross m \<noteq> sm_employer_pf m" "sm_gross m \<noteq> sm_payable m" "sm_gross m \<noteq> sm_tds m" "sm_gross m \<noteq> sm_pf m" "sm_gross m \<noteq> sm_advance m"
    and "sm_employer_pf m \<noteq> sm_payable m" "sm_employer_pf m \<noteq> sm_tds m" "sm_employer_pf m \<noteq> sm_pf m" "sm_employer_pf m \<noteq> sm_advance m" "sm_payable m \<noteq> sm_tds m"
    and "sm_payable m \<noteq> sm_pf m" "sm_payable m \<noteq> sm_advance m" "sm_tds m \<noteq> sm_pf m" "sm_tds m \<noteq> sm_advance m" "sm_pf m \<noteq> sm_advance m"
  using assms by (simp_all add: salary_accounts_distinct_def)

lemmas accounts_apart = accounts_differ accounts_differ [THEN not_sym]

definition columns_fit :: "dim_group \<Rightarrow> bool" where
  "columns_fit g \<longleftrightarrow> nonneg_grid (dg_gross g) \<and> nonneg_grid (dg_employer_pf g) \<and> nonneg_grid (dg_tds g) \<and>
     nonneg_grid (dg_employee_pf g) \<and> nonneg_grid (dg_advance g) \<and> dg_employer_pf g + dg_employee_pf g < 10 ^ 14 \<and>
     dg_payable g = dg_gross g - dg_tds g - dg_employee_pf g - dg_advance g"

lemma columns_fit_group_of: "sums_fit pf_of ls \<Longrightarrow> columns_fit (group_of pf_of p q ls)"
  using line_fields_nonneg
  by (auto simp: columns_fit_def group_of_def sums_fit_def intro!: nonneg_grid_sum)

lemmas group_simps = group_of_def lines_of_key_def

context decimal_js begin

lemma pf_payable_exact: "columns_fit g \<Longrightarrow> money_plus D (dg_employer_pf g) (dg_employee_pf g) = dg_employer_pf g + dg_employee_pf g"
  by (rule plus_nonneg) (auto simp: columns_fit_def)

lemma group_lines_totals:
  assumes "columns_fit g"
  shows "total_dr (group_lines D m g) = dg_gross g + dg_employer_pf g"
    and "total_cr (group_lines D m g) = dg_gross g + dg_employer_pf g"
  using assms pf_payable_exact [OF assms]
  by (simp_all add: group_lines_def Let_def money_is_zero_def columns_fit_def)

lemma group_lines_net:
  assumes "columns_fit g" and "salary_accounts_distinct m"
  shows "lines_net (sm_gross m) (group_lines D m g) = dg_gross g"
    and "lines_net (sm_employer_pf m) (group_lines D m g) = dg_employer_pf g"
    and "lines_net (sm_payable m) (group_lines D m g) = - dg_payable g"
    and "lines_net (sm_tds m) (group_lines D m g) = - dg_tds g"
    and "lines_net (sm_pf m) (group_lines D m g) = - (dg_employer_pf g + dg_employee_pf g)"
    and "lines_net (sm_advance m) (group_lines D m g) = - dg_advance g"
  using pf_payable_exact [OF assms(1)]
  by (simp_all add: group_lines_def Let_def money_is_zero_def accounts_apart [OF assms(2)])

lemma group_lines_ok:
  assumes "columns_fit g"
  shows "(\<forall>l \<in> set (group_lines D m g). pl_ok l) \<longleftrightarrow> 0 < dg_payable g"
    and "\<forall>l \<in> set (group_lines D m g). pl_grid l"
    and "2 \<le> length (group_lines D m g)"
  using assms pf_payable_exact [OF assms]
  by (auto simp: group_lines_def Let_def money_is_zero_def pl_ok_def pl_grid_def columns_fit_def nonneg_grid_def)

text \<open>The lines of a sheet, group by group.\<close>

lemma salary_lines_groups:
  assumes "sums_fit pf_of ls"
  shows "salary_lines D m pf_of ls =
    concat (map (\<lambda>k. group_lines D m (group_of pf_of (fst k) (snd k) (lines_of_key k ls))) (first_keys [] (map line_key ls)))"
  by (simp add: salary_lines_def salary_groups_exact [OF assms] comp_def)

lemma group_fit: "sums_fit pf_of ls \<Longrightarrow> columns_fit (group_of pf_of p q (lines_of_key k ls))"
  unfolding lines_of_key_def by (intro columns_fit_group_of sums_fit_filter)

lemma column_sum:
  assumes "sums_fit pf_of ls" and "\<And>g. columns_fit g \<Longrightarrow> F (group_lines D m g) = (G g :: rat)"
    and "\<And>p q ks. G (group_of pf_of p q ks) = sum_list (map f ks)"
    and "\<And>lss. F (concat lss) = sum_list (map F lss)"
  shows "F (salary_lines D m pf_of ls) = sum_list (map f ls)"
proof -
  have "F (salary_lines D m pf_of ls) = sum_list (map (\<lambda>k. sum_list (map f (lines_of_key k ls))) (first_keys [] (map line_key ls)))"
    unfolding salary_lines_groups [OF assms(1)] assms(4)
    by (simp add: comp_def assms(2) [OF group_fit [OF assms(1)]] assms(3))
  then show ?thesis by (simp add: sum_by_key first_keys_distinct first_keys_set)
qed

lemma salary_columns:
  assumes "sums_fit pf_of ls" and "salary_accounts_distinct m"
  shows "lines_net (sm_gross m) (salary_lines D m pf_of ls) = sum_list (map sl_gross ls)"
    and "lines_net (sm_employer_pf m) (salary_lines D m pf_of ls) = sum_list (map pf_of ls)"
    and "lines_net (sm_tds m) (salary_lines D m pf_of ls) = - sum_list (map sl_tds ls)"
    and "lines_net (sm_advance m) (salary_lines D m pf_of ls) = - sum_list (map sl_advance ls)"
    and "lines_net (sm_pf m) (salary_lines D m pf_of ls) = - sum_list (map (\<lambda>l. pf_of l + sl_pf l) ls)"
    and "lines_net (sm_payable m) (salary_lines D m pf_of ls) =
      - sum_list (map (\<lambda>l. sl_gross l - sl_tds l - sl_pf l - sl_advance l) ls)"
proof -
  note c = column_sum [OF assms(1) _ _ lines_net_concat]
  note g = group_lines_net [OF _ assms(2)]
  show "lines_net (sm_gross m) (salary_lines D m pf_of ls) = sum_list (map sl_gross ls)"
    by (rule c [OF g(1)]) (simp_all add: group_of_def)
  show "lines_net (sm_employer_pf m) (salary_lines D m pf_of ls) = sum_list (map pf_of ls)"
    by (rule c [OF g(2)]) (simp_all add: group_of_def)
  have "lines_net (sm_tds m) (salary_lines D m pf_of ls) = sum_list (map (\<lambda>l. - sl_tds l) ls)"
    by (rule c [OF g(4)]) (simp_all add: group_of_def uminus_sum_list_map comp_def)
  then show "lines_net (sm_tds m) (salary_lines D m pf_of ls) = - sum_list (map sl_tds ls)"
    by (simp add: uminus_sum_list_map comp_def)
  have "lines_net (sm_advance m) (salary_lines D m pf_of ls) = sum_list (map (\<lambda>l. - sl_advance l) ls)"
    by (rule c [OF g(6)]) (simp_all add: group_of_def uminus_sum_list_map comp_def)
  then show "lines_net (sm_advance m) (salary_lines D m pf_of ls) = - sum_list (map sl_advance ls)"
    by (simp add: uminus_sum_list_map comp_def)
  have "lines_net (sm_pf m) (salary_lines D m pf_of ls) = sum_list (map (\<lambda>l. - (pf_of l + sl_pf l)) ls)"
    by (rule c [OF g(5)]) (simp_all add: group_of_def uminus_sum_list_map sum_list_addf [symmetric] comp_def)
  then show "lines_net (sm_pf m) (salary_lines D m pf_of ls) = - sum_list (map (\<lambda>l. pf_of l + sl_pf l) ls)"
    by (simp add: uminus_sum_list_map comp_def)
  have "lines_net (sm_payable m) (salary_lines D m pf_of ls) =
      sum_list (map (\<lambda>l. - (sl_gross l - sl_tds l - sl_pf l - sl_advance l)) ls)"
    by (rule c [OF g(3)]) (simp_all add: group_of_def uminus_sum_list_map sum_list_addf [symmetric] sum_list_subtractf [symmetric] comp_def)
  then show "lines_net (sm_payable m) (salary_lines D m pf_of ls) =
      - sum_list (map (\<lambda>l. sl_gross l - sl_tds l - sl_pf l - sl_advance l) ls)"
    by (simp add: uminus_sum_list_map comp_def)
qed

lemma salary_lines_postable:
  assumes "sums_fit pf_of ls" and "ls \<noteq> []"
  shows "(\<forall>l \<in> set (salary_lines D m pf_of ls). pl_ok l) \<longleftrightarrow>
      (\<forall>l \<in> set ls. 0 < dg_payable (group_of pf_of (sl_project l) (sl_purpose l) (lines_of_key (line_key l) ls)))"
    and "\<forall>l \<in> set (salary_lines D m pf_of ls). pl_grid l"
    and "2 \<le> length (salary_lines D m pf_of ls)"
    and "total_dr (salary_lines D m pf_of ls) = sum_list (map (\<lambda>l. sl_gross l + pf_of l) ls)"
    and "total_cr (salary_lines D m pf_of ls) = sum_list (map (\<lambda>l. sl_gross l + pf_of l) ls)"
proof -
  let ?ks = "first_keys [] (map line_key ls)"
  note L = salary_lines_groups [OF assms(1), of m]
  note ok = group_lines_ok [OF group_fit [OF assms(1)], of m]
  show "\<forall>l \<in> set (salary_lines D m pf_of ls). pl_grid l" using ok(2) by (auto simp: L)
  show "(\<forall>l \<in> set (salary_lines D m pf_of ls). pl_ok l) \<longleftrightarrow>
      (\<forall>l \<in> set ls. 0 < dg_payable (group_of pf_of (sl_project l) (sl_purpose l) (lines_of_key (line_key l) ls)))"
    by (simp add: L first_keys_set ok(1) ball_UN) (simp add: line_key_def)
  from assms(2) have "hd ls \<in> set ls" by simp
  then have "line_key (hd ls) \<in> set ?ks" by (simp add: first_keys_set)
  then obtain a b where "?ks = a @ line_key (hd ls) # b" by (meson split_list)
  then show "2 \<le> length (salary_lines D m pf_of ls)"
    using ok(3) [of "fst (line_key (hd ls))" "snd (line_key (hd ls))" "line_key (hd ls)"] by (simp add: L)
  show "total_dr (salary_lines D m pf_of ls) = sum_list (map (\<lambda>l. sl_gross l + pf_of l) ls)"
    using column_sum [where F = total_dr and G = "\<lambda>g. dg_gross g + dg_employer_pf g" and f = "\<lambda>l. sl_gross l + pf_of l", OF assms(1) group_lines_totals(1)]
    by (simp add: group_of_def sum_list_addf total_concat)
  show "total_cr (salary_lines D m pf_of ls) = sum_list (map (\<lambda>l. sl_gross l + pf_of l) ls)"
    using column_sum [where F = total_cr and G = "\<lambda>g. dg_gross g + dg_employer_pf g" and f = "\<lambda>l. sl_gross l + pf_of l", OF assms(1) group_lines_totals(2)]
    by (simp add: group_of_def sum_list_addf total_concat)
qed

end


text \<open>
  C27. The \<open>SALARY\<close> command of a draft sheet.  Its sides balance, and every account carries the sum of its
  column over all lines, however they are grouped: gross salary, employer contribution, TDS, PF of both sides
  and advance recovery.  What it credits to Salary Payable is the net of the lines \<^emph>\<open>without\<close> their
  allowances and other deductions.  The ledger's side and balance checks accept it exactly when every group of
  a project and a purpose leaves something payable.
\<close>

theorem salary_command_states_the_sheet:
  assumes "decimal_js D" and "build_salary_command D h m company who pf_of = Inr cmd"
    and "sums_fit pf_of (sh_lines h)" and "salary_accounts_distinct m"
  shows "pc_source_id cmd = sh_id h \<and> total_dr (pc_lines cmd) = total_cr (pc_lines cmd) \<and>
    lines_net (sm_gross m) (pc_lines cmd) = sum_list (map sl_gross (sh_lines h)) \<and>
    lines_net (sm_employer_pf m) (pc_lines cmd) = sum_list (map pf_of (sh_lines h)) \<and>
    lines_net (sm_tds m) (pc_lines cmd) = - sum_list (map sl_tds (sh_lines h)) \<and>
    lines_net (sm_pf m) (pc_lines cmd) = - sum_list (map (\<lambda>l. pf_of l + sl_pf l) (sh_lines h)) \<and>
    lines_net (sm_advance m) (pc_lines cmd) = - sum_list (map sl_advance (sh_lines h)) \<and>
    lines_net (sm_payable m) (pc_lines cmd) = - sum_list (map (\<lambda>l. sl_net l - sl_allowances l + sl_other l) (sh_lines h)) \<and>
    (assert_postable D (pc_lines cmd) = Inr () \<longleftrightarrow> (\<forall>l \<in> set (sh_lines h).
       0 < dg_payable (group_of pf_of (sl_project l) (sl_purpose l) (lines_of_key (line_key l) (sh_lines h)))))"
proof -
  from assms(2) have ne: "sh_lines h \<noteq> []" and src: "pc_source_id cmd = sh_id h"
    and l: "pc_lines cmd = salary_lines D m pf_of (sh_lines h)"
    by (auto simp: build_salary_command_def split: if_splits)
  note c = decimal_js.salary_columns [OF assms(1,3,4)] and p = decimal_js.salary_lines_postable [OF assms(1,3) ne, of m]
  have net: "map (\<lambda>l. sl_gross l - sl_tds l - sl_pf l - sl_advance l) (sh_lines h) =
      map (\<lambda>l. sl_net l - sl_allowances l + sl_other l) (sh_lines h)"
    using assms(3) by (auto simp: sums_fit_def salary_line_ok_def)
  have "0 \<le> sum_list (map sl_pf (sh_lines h))"
    using assms(3) by (auto simp: sums_fit_def salary_line_ok_def nonneg_grid_def intro!: sum_list_nonneg)
  with assms(3) have b: "sum_list (map (\<lambda>l. sl_gross l + pf_of l) (sh_lines h)) < 10 ^ 16"
    by (simp add: sums_fit_def sum_list_addf)
  show ?thesis
    using decimal_js.assert_postable_exact [OF assms(1) p(2)] b
    by (simp add: l src c net p(1,3,4,5) del: One_nat_def)
qed

definition sample_salary_line :: "string \<Rightarrow> money \<Rightarrow> money \<Rightarrow> salary_line" where
  "sample_salary_line i gross allowances =
     \<lparr>sl_id = i, sl_employee = i, sl_project = ''P'', sl_cost_centre = ''L'', sl_purpose = ''U'', sl_paid_days = 31,
      sl_gross = gross, sl_allowances = allowances, sl_tds = 1000, sl_pf = 500, sl_advance = 0, sl_other = 200,
      sl_net = gross + allowances - 1700, sl_standard_days = 31, sl_unpaid_days = 0, sl_late_count = 0,
      sl_penalty_days = 0, sl_penalty_amount = 0, sl_version = 1\<rparr>"

definition sample_sheet :: salary_sheet where
  "sample_sheet = \<lparr>sh_id = ''SHEET'', sh_company = ''CO'', sh_fy = ''FY'', sh_label = ''July'', sh_start = ''2026-07-01'',
     sh_end = ''2026-07-31'', sh_status = SheetDraft, sh_entry = None, sh_posted_at = None, sh_posted_by = None,
     sh_warnings = None, sh_version = 1, sh_lines = [sample_salary_line ''e1'' 30000 500, sample_salary_line ''e2'' 20000 0]\<rparr>"

definition sample_salary_accounts :: salary_account_map where
  "sample_salary_accounts = \<lparr>sm_gross = ''A1'', sm_employer_pf = ''A2'', sm_payable = ''A3'', sm_tds = ''A4'',
     sm_pf = ''A5'', sm_advance = ''A6'', sm_cost_centre = ''L''\<rparr>"

definition sample_salary_command :: posting_command where
  "sample_salary_command = \<lparr>pc_company = ''CO'', pc_fy = ''FY'', pc_voucher_type = SALARY, pc_voucher_date = ''2026-07-31'',
     pc_source_type = ''SalarySheet'', pc_source_id = ''SHEET'', pc_posted_by = ''U1'', pc_narration = None,
     pc_lines = salary_lines dec20 sample_salary_accounts sl_pf (sh_lines sample_sheet)\<rparr>"

text \<open>The sheet pays out 47100, the ledger owes 47000: the allowance of 500 and the deductions of 400 are missing.\<close>

theorem salary_command_states_the_sheet_witness:
  "build_salary_command dec20 sample_sheet sample_salary_accounts ''CO'' ''U1'' sl_pf = Inr sample_salary_command \<and>
   lines_net ''A3'' (pc_lines sample_salary_command) = - 47000 \<and>
   sum_list (map sl_net (sh_lines sample_sheet)) = 47100 \<and> assert_postable dec20 (pc_lines sample_salary_command) = Inr ()"
proof -
  have b: "build_salary_command dec20 sample_sheet sample_salary_accounts ''CO'' ''U1'' sl_pf = Inr sample_salary_command"
    by (simp add: build_salary_command_def sample_salary_command_def) (simp add: sample_sheet_def)
  have f: "sums_fit sl_pf (sh_lines sample_sheet)"
    by (simp add: sample_sheet_def sample_salary_line_def sums_fit_def salary_line_ok_def nonneg_grid_def on_grid_def)
  have d: "salary_accounts_distinct sample_salary_accounts"
    by (simp add: salary_accounts_distinct_def sample_salary_accounts_def)
  note P = salary_command_states_the_sheet [OF dec20.decimal_js_axioms b f d]
  show ?thesis
    using b P
    by (simp add: sample_sheet_def sample_salary_line_def sample_salary_accounts_def group_of_def lines_of_key_def line_key_def)
qed

end
