(* ===== verification/Hr_Soundness.thy ===== *)
theory Hr_Soundness
  imports Hr_Use_Cases Payroll_Posting
begin

text \<open>
  The committed steps of the HR module, the invariant of its tables against the ledger, and what stays
  unchanged for good: confirmed head counts, posted sheets and their entries.
\<close>

section \<open>Steps\<close>

definition hr_entry :: "journal_entry \<Rightarrow> bool" where
  "hr_entry e \<longleftrightarrow> je_source_type e \<in> {''AttendanceRecord'', ''SalarySheet''}"

text \<open>What the rest of the program may do: post other vouchers, and change the tables HR only reads.\<close>

definition hr_kept :: "'a hr_db_scheme \<Rightarrow> 'a hr_db_scheme \<Rightarrow> bool" where
  "hr_kept s s' \<longleftrightarrow> hr_payables s' = hr_payables s \<and> hr_sheets s' = hr_sheets s \<and> hr_attendance s' = hr_attendance s"

text \<open>The punch pipeline writes office days only.\<close>

definition office_change :: "'a hr_db_scheme \<Rightarrow> 'a hr_db_scheme \<Rightarrow> bool" where
  "office_change s s' \<longleftrightarrow> quiet s s' \<and> hr_payables s' = hr_payables s \<and> hr_sheets s' = hr_sheets s \<and>
     distinct (map at_id (hr_attendance s')) \<and>
     filter (\<lambda>a. at_mode a \<noteq> OFFICE) (hr_attendance s') = filter (\<lambda>a. at_mode a \<noteq> OFFICE) (hr_attendance s) \<and>
     (\<forall>a \<in> set (hr_attendance s'). at_mode a = OFFICE \<longrightarrow> \<not> at_confirmed a)"

text \<open>
  Every operation of the module is a step.  \<open>applySettlement\<close>, which nothing in the repository calls, is one for amounts
  of four decimals, as payments store them; for others the status it derives need not fit the amount it stores.
\<close>

inductive hr_step :: "dec_lib \<Rightarrow> (nat \<Rightarrow> string) \<Rightarrow> 'a hr_db_scheme \<Rightarrow> 'a hr_db_scheme \<Rightarrow> bool" for D mk where
  h_employee: "create_employee D mk inp act s = Inr (x, s') \<Longrightarrow> hr_step D mk s s'"
| h_update: "update_employee D i patch v act s = Inr (u, s') \<Longrightarrow> hr_step D mk s s'"
| h_reassign: "reassign_employee D mk i project effective note v act s = Inr (u, s') \<Longrightarrow> hr_step D mk s s'"
| h_status: "set_employee_status D i v b act s = Inr (u, s') \<Longrightarrow> hr_step D mk s s'"
| h_capture: "capture_heads D mk mode rows act s = Inr (ids, s') \<Longrightarrow> hr_step D mk s s'"
| h_edit: "edit_daily_labour D i ed v act s = Inr (u, s') \<Longrightarrow> hr_step D mk s s'"
| h_confirm: "confirm_daily_labour D mk (erp_ports mk) i purpose act now s = Inr (x, s') \<Longrightarrow> hr_step D mk s s'"
| h_unaccrue: "reverse_accrual D mk (erp_ports mk) i reason act now s = Inr (x, s') \<Longrightarrow> hr_step D mk s s'"
| h_settle: "on_grid 4 amount \<Longrightarrow> apply_settlement D co entry_id amount who s = Inr (u, s') \<Longrightarrow> hr_step D mk s s'"
| h_generate: "generate_salary D mk new act s = Inr (y, s') \<Longrightarrow> hr_step D mk s s'"
| h_edit_line: "edit_salary_line D i line_id comps v act s = Inr (u, s') \<Longrightarrow> hr_step D mk s s'"
| h_bulk: "apply_bulk_components D i rule v act s = Inr (u, s') \<Longrightarrow> hr_step D mk s s'"
| h_post: "post_salary D mk (erp_ports mk) i v act now s = Inr (x, s') \<Longrightarrow> hr_step D mk s s'"
| h_unpost: "reverse_salary D mk (erp_ports mk) i reason act now s = Inr (x, s') \<Longrightarrow> hr_step D mk s s'"
| h_office: "office_change s s' \<Longrightarrow> hr_step D mk s s'"
| h_other: "erp_step D mk s s' \<Longrightarrow> hr_kept s s' \<Longrightarrow> hr_step D mk s s'"

section \<open>Rows changed by key\<close>

lemma attendance_save_effect:
  assumes "attendance_save D b v tbl = Inr tbl'" and "distinct (map at_id tbl)" and "a \<in> set tbl" and "at_id b = at_id a"
  shows "v = at_version a" and "tbl' = update_where (\<lambda>r. r = a) (attendance_saved D b v) tbl"
    and "attendance_checks (attendance_saved D b v a) = Inr ()"
proof -
  from assms(1) have h: "list_ex (attendance_hit b v) tbl"
    and c: "riter (\<lambda>r. attendance_checks (attendance_saved D b v r)) (filter (attendance_hit b v) tbl) = Inr ()"
    and t: "tbl' = update_where (attendance_hit b v) (attendance_saved D b v) tbl"
    by (auto simp: attendance_save_def rbind_eq_Inr split: if_splits)
  note u = hit_unique [OF assms(2,3) _ h, unfolded attendance_hit_def, simplified assms(4)]
  show "v = at_version a" using u(1) by simp
  show "tbl' = update_where (\<lambda>r. r = a) (attendance_saved D b v) tbl"
    unfolding t by (rule hit_unique(3) [OF assms(2,3) _ h]) (simp add: attendance_hit_def assms(4))
  have "filter (attendance_hit b v) tbl = [a]"
    by (rule hit_unique(2) [OF assms(2,3) _ h]) (simp add: attendance_hit_def assms(4))
  with c show "attendance_checks (attendance_saved D b v a) = Inr ()" by (simp add: rbind_eq_Inr)
qed

lemma sheet_save_effect:
  assumes "sheet_save D k v tbl = Inr tbl'" and "distinct (map sh_id tbl)" and "h \<in> set tbl" and "sh_id k = sh_id h"
  shows "v = sh_version h" and "tbl' = update_where (\<lambda>r. r = h) (sheet_saved D k v) tbl"
proof -
  from assms(1) have x: "list_ex (sheet_hit k v) tbl" and t: "tbl' = update_where (sheet_hit k v) (sheet_saved D k v) tbl"
    by (auto simp: sheet_save_def rbind_eq_Inr split: if_splits)
  have u: "\<And>r. sheet_hit k v r \<Longrightarrow> sh_id r = sh_id h" by (simp add: sheet_hit_def assms(4))
  show "v = sh_version h" using hit_unique(1) [OF assms(2,3) u x] by (simp add: sheet_hit_def)
  show "tbl' = update_where (\<lambda>r. r = h) (sheet_saved D k v) tbl"
    unfolding t by (rule hit_unique(3) [OF assms(2,3) u x])
qed

lemma attendance_find_Some: "attendance_find i co tbl = Some a \<Longrightarrow> a \<in> set tbl \<and> at_id a = i \<and> at_company a = co"
  by (auto simp: attendance_find_def dest: find_SomeD)

lemma sheet_find_Some: "sheet_find i co tbl = Some h \<Longrightarrow> h \<in> set tbl \<and> sh_id h = i \<and> sh_company h = co"
  by (auto simp: sheet_find_def dest: find_SomeD)

section \<open>What a committed step did\<close>

lemma hr_more:
  fixes s s' :: "'a hr_db_scheme"
  assumes "db.more s' = db.more s"
  shows "hr_attendance s' = hr_attendance s" "hr_payables s' = hr_payables s" "hr_sheets s' = hr_sheets s"
    "hr_employees s' = hr_employees s"
  using assms by (cases s; cases s'; simp)+

lemma hr_audit [simp]:
  fixes s :: "'a hr_db_scheme"
  shows "hr_attendance (audit_record a b c d s) = hr_attendance s" "hr_payables (audit_record a b c d s) = hr_payables s"
    "hr_sheets (audit_record a b c d s) = hr_sheets s" "hr_employees (audit_record a b c d s) = hr_employees s"
  by (simp_all add: audit_record_def)

text \<open>The employee operations leave everything the invariant speaks of alone.\<close>

definition hr_quiet :: "'a hr_db_scheme \<Rightarrow> 'a hr_db_scheme \<Rightarrow> bool" where
  "hr_quiet s s' \<longleftrightarrow> quiet s s' \<and> hr_kept s s'"

lemmas hr_quiet_simps = hr_quiet_def hr_kept_def quiet_def

lemma with_employee_quiet: "with_employee D i v f action act s = Inr (u, s') \<Longrightarrow> hr_quiet s s'"
  by (auto simp: with_employee_def hr_quiet_simps elim!: rbindE)

lemma create_employee_quiet: "create_employee D mk inp act s = Inr (x, s') \<Longrightarrow> hr_quiet s s'"
  by (auto simp: create_employee_def ids_next_def Let_def hr_quiet_simps split: option.splits elim!: rbindE dest!: uow_run_InrD)

lemma update_employee_quiet: "update_employee D i patch v act s = Inr (u, s') \<Longrightarrow> hr_quiet s s'"
  by (auto simp: update_employee_def dest!: uow_run_InrD intro: with_employee_quiet)

lemma set_status_quiet: "set_employee_status D i v b act s = Inr (u, s') \<Longrightarrow> hr_quiet s s'"
  by (auto simp: set_employee_status_def dest!: uow_run_InrD intro: with_employee_quiet)

lemma reassign_quiet: "reassign_employee D mk i project effective note v act s = Inr (u, s') \<Longrightarrow> hr_quiet s s'"
  by (auto simp: reassign_employee_def ids_next_def hr_quiet_simps elim!: rbindE dest!: uow_run_InrD)

text \<open>New head counts are unconfirmed rows at the end of the table.\<close>

lemma capture_unconfirmed:
  "attendance_capture i co fy r = Inr a \<Longrightarrow> \<not> at_confirmed a \<and> at_entry a = None \<and> at_id a = i"
  by (auto simp: attendance_capture_def blank_attendance_def Let_def elim!: rbindE split: attendance_mode.splits)

lemma capture_rows_facts:
  "capture_rows mk co fy mode rows n = Inr (xs, m) \<Longrightarrow> n \<le> m \<and> (\<forall>a \<in> set xs. \<not> at_confirmed a \<and> at_entry a = None)"
proof (induction rows arbitrary: n xs m)
  case (Cons r rest)
  from Cons.prems obtain a ys where a: "attendance_capture (mk n) co fy (r\<lparr>na_mode := mode\<rparr>) = Inr a"
    and y: "capture_rows mk co fy mode rest (Suc n) = Inr (ys, m)" and x: "xs = a # ys"
    by (auto elim!: rbindE)
  from Cons.IH [OF y] capture_unconfirmed [OF a] x show ?case by auto
qed simp

lemma insert_many_facts:
  "attendance_insert_many D as tbl = Inr tbl' \<Longrightarrow> distinct (map at_id tbl) \<Longrightarrow>
     distinct (map at_id tbl') \<and> (\<exists>new. tbl' = tbl @ new \<and> length new = length as \<and>
       (\<forall>i < length as. new ! i = (stored_attendance D (as ! i))\<lparr>at_version := 1\<rparr> \<and> attendance_checks (new ! i) = Inr ()))"
proof (induction as arbitrary: tbl)
  case (Cons a as)
  from Cons.prems(1) obtain t where i: "attendance_insert D a tbl = Inr t" and r: "attendance_insert_many D as t = Inr tbl'"
    by (auto elim!: rbindE)
  define q where "q = (stored_attendance D a)\<lparr>at_version := 1\<rparr>"
  from i have t: "t = tbl @ [q]" "attendance_checks q = Inr ()" "at_id q \<notin> at_id ` set tbl"
    by (auto simp: attendance_insert_def q_def Let_def list_ex_iff elim!: rbindE)
  with Cons.prems(2) have "distinct (map at_id t)" by auto
  from Cons.IH [OF r this] obtain new where n: "distinct (map at_id tbl')" "tbl' = t @ new" "length new = length as"
    "\<forall>i < length as. new ! i = (stored_attendance D (as ! i))\<lparr>at_version := 1\<rparr> \<and> attendance_checks (new ! i) = Inr ()"
    by blast
  have "\<forall>i < length (a # as). (q # new) ! i = (stored_attendance D ((a # as) ! i))\<lparr>at_version := 1\<rparr> \<and> attendance_checks ((q # new) ! i) = Inr ()"
    using n(4) t(2) by (auto simp: nth_Cons q_def split: nat.splits)
  with n t show ?case by (intro conjI exI [of _ "q # new"]) auto
qed simp

section \<open>The invariant\<close>

definition att_grid :: "attendance \<Rightarrow> bool" where
  "att_grid a \<longleftrightarrow> (\<forall>x. at_daily_rate a = Some x \<longrightarrow> on_grid 4 x) \<and> (\<forall>x. at_overtime a = Some x \<longrightarrow> on_grid 4 x)"

definition hr_voucher :: "string \<Rightarrow> string \<Rightarrow> string \<Rightarrow> journal_entry \<Rightarrow> bool" where
  "hr_voucher kind i co e \<longleftrightarrow> je_source_type e = kind \<and> je_source_id e = i \<and> je_company e = co \<and> \<not> je_is_reversal e"

text \<open>A confirmed head count has its entry in the ledger and its payable, both over the accrued cost.\<close>

definition accrual_backed :: "dec_lib \<Rightarrow> journal_entry list \<Rightarrow> labour_payable list \<Rightarrow> attendance \<Rightarrow> bool" where
  "accrual_backed D es pays a \<longleftrightarrow> (\<exists>e \<in> set es. \<exists>m l. \<exists>p \<in> set pays.
     at_entry a = Some (trim (je_id e)) \<and> hr_voucher ''AttendanceRecord'' (at_id a) (at_company a) e \<and>
     accrual_line_for D a = Inr l \<and> je_lines e = lines_of (accrual_pair m l) \<and>
     lp_entry p = je_id e \<and> lp_company p = at_company a \<and> lp_accrued p = al_cost l)"

definition labour_row_ok :: "dec_lib \<Rightarrow> journal_entry list \<Rightarrow> labour_payable list \<Rightarrow> attendance \<Rightarrow> bool" where
  "labour_row_ok D es pays a \<longleftrightarrow> (at_mode a \<noteq> OFFICE \<longrightarrow> att_grid a) \<and> (at_confirmed a \<longrightarrow> accrual_backed D es pays a)"

definition payable_ok :: "journal_entry list \<Rightarrow> labour_payable \<Rightarrow> bool" where
  "payable_ok es p \<longleftrightarrow> on_grid 4 (lp_accrued p) \<and> 0 < lp_accrued p \<and> lp_accrued p < 10 ^ 14 \<and> nonneg_grid (lp_settled p) \<and> lp_settled p \<le> lp_accrued p \<and>
     lp_status p = derive_payable_status (lp_settled p) (lp_accrued p) \<and>
     (\<exists>e \<in> set es. lp_entry p = je_id e \<and> (\<exists>i. hr_voucher ''AttendanceRecord'' i (lp_company p) e) \<and>
        sum_list (map jl_debit (je_lines e)) = lp_accrued p)"

definition line_amounts :: "salary_line \<Rightarrow> money list" where
  "line_amounts l = [sl_paid_days l, sl_gross l, sl_allowances l, sl_tds l, sl_pf l, sl_advance l, sl_other l, sl_net l,
     sl_standard_days l, sl_unpaid_days l, sl_penalty_days l, sl_penalty_amount l]"

definition line_grid :: "salary_line \<Rightarrow> bool" where
  "line_grid l \<longleftrightarrow> (\<forall>x \<in> set (line_amounts l). on_grid 4 x)"

definition sheet_backed :: "dec_lib \<Rightarrow> journal_entry list \<Rightarrow> salary_sheet \<Rightarrow> bool" where
  "sheet_backed D es h \<longleftrightarrow> (\<exists>e \<in> set es. \<exists>m staff.
     sh_entry h = Some (trim (je_id e)) \<and> hr_voucher ''SalarySheet'' (sh_id h) (sh_company h) e \<and>
     je_lines e = map (stored_line D) (lines_of (salary_lines D m (employer_pf_of (sh_company h) staff) (sh_lines h))))"

definition sheet_ok :: "dec_lib \<Rightarrow> journal_entry list \<Rightarrow> salary_sheet \<Rightarrow> bool" where
  "sheet_ok D es h \<longleftrightarrow> (\<forall>l \<in> set (sh_lines h). line_grid l) \<and> (sh_status h = SheetPosted \<longrightarrow> sheet_backed D es h)"

definition period_key :: "salary_sheet \<Rightarrow> string \<times> string \<times> string" where
  "period_key h = (sh_company h, sh_fy h, sh_label h)"

definition hr_sound ::
  "dec_lib \<Rightarrow> journal_entry list \<Rightarrow> attendance list \<Rightarrow> labour_payable list \<Rightarrow> salary_sheet list \<Rightarrow> bool" where
  "hr_sound D es att pays sheets \<longleftrightarrow>
     distinct (map at_id att) \<and> (\<forall>a \<in> set att. labour_row_ok D es pays a) \<and>
     distinct (map lp_id pays) \<and> distinct (map lp_entry pays) \<and> (\<forall>p \<in> set pays. payable_ok es p) \<and>
     distinct (map sh_id sheets) \<and> distinct (line_ids sheets) \<and> (\<forall>h \<in> set sheets. sheet_ok D es h) \<and>
     distinct (map period_key (filter (\<lambda>h. sh_status h = SheetDraft) sheets))"

lemma hr_sound_grows:
  assumes "hr_sound D es att pays sheets" and "set es \<subseteq> set es'" shows "hr_sound D es' att pays sheets"
  using assms unfolding hr_sound_def labour_row_ok_def accrual_backed_def payable_ok_def sheet_ok_def sheet_backed_def
  by blast

definition hr_inv :: "dec_lib \<Rightarrow> (nat \<Rightarrow> string) \<Rightarrow> 'a hr_db_scheme \<Rightarrow> bool" where
  "hr_inv D mk s \<longleftrightarrow> erp_inv mk s \<and> hr_sound D (db_entries s) (hr_attendance s) (hr_payables s) (hr_sheets s)"

lemma hr_inv_quiet: "hr_quiet s s' \<Longrightarrow> hr_inv D mk s \<Longrightarrow> hr_inv D mk s'"
  by (auto simp: hr_inv_def hr_quiet_def hr_kept_def quiet_entries intro: quiet_erp_inv)

text \<open>What no step takes back.\<close>

definition payable_later :: "labour_payable \<Rightarrow> labour_payable \<Rightarrow> bool" where
  "payable_later p q \<longleftrightarrow> lp_id q = lp_id p \<and> lp_company q = lp_company p \<and> lp_entry q = lp_entry p \<and>
     lp_accrued q = lp_accrued p \<and> lp_settled p \<le> lp_settled q"

definition hr_frozen :: "'a hr_db_scheme \<Rightarrow> 'a hr_db_scheme \<Rightarrow> bool" where
  "hr_frozen s s' \<longleftrightarrow> (\<exists>new. db_entries s' = db_entries s @ new) \<and>
     (\<forall>a \<in> set (hr_attendance s). at_confirmed a \<longrightarrow> a \<in> set (hr_attendance s')) \<and>
     (\<forall>h \<in> set (hr_sheets s). sh_status h = SheetPosted \<longrightarrow> h \<in> set (hr_sheets s')) \<and>
     (\<forall>p \<in> set (hr_payables s). \<exists>q \<in> set (hr_payables s'). payable_later p q)"

lemma payable_later_refl [simp]: "payable_later p p"
  by (simp add: payable_later_def)

lemma payable_kept: "p \<in> A \<Longrightarrow> \<exists>q \<in> A. payable_later p q"
  by (rule bexI [of _ p]) simp_all

lemma hr_frozen_refl: "hr_frozen s s"
  by (auto simp: hr_frozen_def intro: payable_kept)

lemma hr_frozen_trans: "hr_frozen s t \<Longrightarrow> hr_frozen t u \<Longrightarrow> hr_frozen s u"
  unfolding hr_frozen_def payable_later_def by (fastforce intro: order_trans)

lemma hr_frozen_kept: "hr_kept s s' \<Longrightarrow> db_entries s' = db_entries s @ new \<Longrightarrow> hr_frozen s s'"
  by (auto simp: hr_frozen_def hr_kept_def intro: payable_kept)

definition hr_safe :: "dec_lib \<Rightarrow> (nat \<Rightarrow> string) \<Rightarrow> 'a hr_db_scheme \<Rightarrow> 'a hr_db_scheme \<Rightarrow> bool" where
  "hr_safe D mk s s' \<longleftrightarrow> hr_inv D mk s' \<and> hr_frozen s s'"

lemma hr_safe_quiet: "hr_quiet s s' \<Longrightarrow> hr_inv D mk s \<Longrightarrow> hr_safe D mk s s'"
  unfolding hr_safe_def
  by (auto intro: hr_inv_quiet hr_frozen_kept [of _ _ "[]"] simp: hr_quiet_def quiet_entries)

text \<open>An unconfirmed row says nothing of the ledger, so it may come, change or go.\<close>

lemma hr_sound_attendance:
  assumes "hr_sound D es att pays sheets" and "distinct (map at_id att')"
    and "\<And>a. a \<in> set att' \<Longrightarrow> a \<in> set att \<or> labour_row_ok D es pays a"
  shows "hr_sound D es att' pays sheets"
  using assms unfolding hr_sound_def by blast

context decimal_js begin

lemma stored_att_grid: "att_grid (stored_attendance D a)"
  by (auto simp: att_grid_def stored_attendance_def to_dp_half_up)

lemma stored_att_id: "att_grid a \<Longrightarrow> stored_attendance D a = a"
  by (cases a) (auto simp: att_grid_def stored_attendance_def to_dp_id split: option.splits intro!: option.map_ident_strong)

lemma capture_heads_safe:
  assumes "capture_heads D mk mode rows act s = Inr (ids, s')" and "hr_inv D mk s"
  shows "hr_safe D mk s s'"
proof -
  from assms(1) obtain xs n tbl where c: "capture_rows mk (act_company act) (act_fy act) mode rows (db_ids s) = Inr (xs, n)"
    and i: "attendance_insert_many D xs (hr_attendance s) = Inr tbl"
    and s': "s' = audit_record ''CREATE'' ''AttendanceRecord'' (joined_ids (map at_id xs)) act (s\<lparr>db_ids := n, hr_attendance := tbl\<rparr>)"
    by (auto simp: capture_heads_def elim!: rbindE dest!: uow_run_InrD)
  from assms(2) have hs: "hr_sound D (db_entries s) (hr_attendance s) (hr_payables s) (hr_sheets s)" and e: "erp_inv mk s"
    by (auto simp: hr_inv_def)
  then have d: "distinct (map at_id (hr_attendance s))" by (simp add: hr_sound_def)
  from capture_rows_facts [OF c] have f: "db_ids s \<le> n" "\<forall>a \<in> set xs. \<not> at_confirmed a" by auto
  from insert_many_facts [OF i d] obtain new where t: "distinct (map at_id tbl)" "tbl = hr_attendance s @ new"
    "length new = length xs" "\<forall>k < length xs. new ! k = (stored_attendance D (xs ! k))\<lparr>at_version := 1\<rparr>" by blast
  have "labour_row_ok D (db_entries s) (hr_payables s) a" if "a \<in> set new" for a
  proof -
    from that t(3) obtain k where k: "k < length xs" "a = new ! k" by (metis in_set_conv_nth)
    then have a: "a = (stored_attendance D (xs ! k))\<lparr>at_version := 1\<rparr>" "xs ! k \<in> set xs" using t(4) by auto
    with f(2) stored_att_grid [of "xs ! k"] show ?thesis
      by (auto simp: labour_row_ok_def att_grid_def stored_attendance_def)
  qed
  then have "hr_sound D (db_entries s) tbl (hr_payables s) (hr_sheets s)"
    using t(1,2) by (intro hr_sound_attendance [OF hs]) auto
  moreover have "erp_inv mk s'" by (rule quiet_erp_inv [OF _ e]) (simp add: quiet_def s' f)
  ultimately have "hr_inv D mk s'" by (simp add: hr_inv_def s')
  moreover have "hr_frozen s s'" by (auto simp: hr_frozen_def s' t intro: payable_kept)
  ultimately show ?thesis by (simp add: hr_safe_def)
qed

end

end
