(* ===== verification/Hr_Steps.thy ===== *)
theory Hr_Steps
  imports Hr_Soundness
begin

text \<open>
  Every committed step of the HR module keeps its invariant and takes nothing back: the attendance and payable
  steps, then the salary sheets, and the two together over a whole run.
\<close>

lemma hr_invD:
  assumes "hr_inv D mk s"
  shows "erp_inv mk s" and "hr_sound D (db_entries s) (hr_attendance s) (hr_payables s) (hr_sheets s)"
    and "distinct (map at_id (hr_attendance s))" and "distinct (map lp_id (hr_payables s))"
    and "distinct (map sh_id (hr_sheets s))" and "distinct (line_ids (hr_sheets s))"
  using assms by (auto simp: hr_inv_def hr_sound_def)

section \<open>Attendance\<close>

lemma edit_labour_facts:
  "edit_labour_record p a = Inr b \<Longrightarrow> \<not> at_confirmed a \<and> \<not> at_confirmed b \<and> at_id b = at_id a \<and> at_company b = at_company a"
  by (auto simp: edit_labour_record_def assert_unconfirmed_def elim!: rbindE)

lemma saved_simps [simp]:
  "at_id (attendance_saved D b v r) = at_id r" "at_confirmed (attendance_saved D b v r) = at_confirmed b"
  "at_company (attendance_saved D b v r) = at_company r" "at_entry (attendance_saved D b v r) = at_entry b"
  by (simp_all add: attendance_saved_def stored_attendance_def Let_def)

context decimal_js begin

lemma saved_grid: "att_grid (attendance_saved D b v r)"
  using stored_att_grid [of b] by (simp add: att_grid_def attendance_saved_def Let_def)

lemma edit_daily_labour_safe:
  assumes "edit_daily_labour D i p v act s = Inr (u, s')" and "hr_inv D mk s"
  shows "hr_safe D mk s s'"
proof -
  note inv = hr_invD [OF assms(2)]
  from assms(1) obtain a b tbl where a: "attendance_find i (act_company act) (hr_attendance s) = Some a"
    and b: "edit_labour_record p a = Inr b" and t: "attendance_save D b v (hr_attendance s) = Inr tbl"
    and s': "s' = s\<lparr>hr_attendance := tbl\<rparr>"
    using uow_run_InrD [OF assms(1) [unfolded edit_daily_labour_def], THEN conjunct1] by (auto elim!: rbindE)
  from attendance_find_Some [OF a] have am: "a \<in> set (hr_attendance s)" by simp
  note bf = edit_labour_facts [OF b]
  from bf have "at_id b = at_id a" by simp
  note e = attendance_save_effect [OF t inv(3) am this]
  have new: "labour_row_ok D (db_entries s) (hr_payables s) (attendance_saved D b v a)"
    using bf by (simp add: labour_row_ok_def saved_grid)
  have rows: "x \<in> set (hr_attendance s) \<or> labour_row_ok D (db_entries s) (hr_payables s) x" if "x \<in> set tbl" for x
    using update_one_set [OF that [unfolded e(2)]] new by blast
  have "distinct (map at_id tbl)" unfolding e(2) by (subst update_one_keys) (simp_all add: inv(3))
  then have "hr_sound D (db_entries s) tbl (hr_payables s) (hr_sheets s)"
    by (rule hr_sound_attendance [OF inv(2)]) (rule rows)
  moreover have "erp_inv mk s'" by (rule quiet_erp_inv [OF _ inv(1)]) (simp add: quiet_def s')
  moreover have "hr_frozen s s'"
    using bf update_one_keys by (auto simp: hr_frozen_def s' e(2) intro: payable_kept update_one_keeps)
  ultimately show ?thesis by (simp add: hr_safe_def hr_inv_def s')
qed

end

section \<open>The accrual\<close>

lemma accrual_pair_simps:
  "map pl_debit (accrual_pair m l) = [al_cost l, 0]" "map pl_credit (accrual_pair m l) = [0, al_cost l]"
  "map pl_account (accrual_pair m l) = [ac_labour_cost m, ac_labour_payable m]"
  by (simp_all add: accrual_pair_def)

lemma accrual_line_same:
  assumes "at_mode a = at_mode b" "at_project a = at_project b" "at_cost_centre a = at_cost_centre b" "at_purpose a = at_purpose b"
    "at_daily_rate a = at_daily_rate b" "at_head_count a = at_head_count b" "at_category a = at_category b"
  shows "accrual_line_for D a = accrual_line_for D b"
  using assms by (simp add: accrual_line_for_def accrued_cost_def assert_accruable_def)

lemma confirm_InrE:
  assumes "confirm_daily_labour D mk P i purpose act now s = Inr (x, s')"
  obtains a b l accs cmd e s1 tbl pays where
    "attendance_find i (act_company act) (hr_attendance s) = Some a" and "at_mode a = DAILY_LABOUR" and "\<not> at_confirmed a"
    and "b = a \<or> (\<exists>p. b = a\<lparr>at_purpose := Some p\<rparr>)" and "accrual_line_for D b = Inr l"
    and "accrual_accounts_of (act_company act) (hr_accounts s) = Inr accs"
    and "build_accrual_command (act_company act) (at_fy b) (at_date b) (at_id b) (act_user act) [l] accs = Inr cmd"
    and "post D mk P cmd now s = Inr (e, s1)" and "trim (je_id e) \<noteq> []"
    and "attendance_save D (b\<lparr>at_confirmed := True, at_entry := Some (trim (je_id e))\<rparr>) (at_version a) (hr_attendance s1) = Inr tbl"
    and "payable_insert D (payable_create (mk (db_ids s1)) (act_company act) (at_fy b) (at_project b) (or_empty (at_cost_centre b))
              (at_date b) (al_cost l) (je_id e)) (hr_payables s1) = Inr pays"
    and "x = (je_id e, je_no e)"
    and "s' = audit_record ''POST'' ''AttendanceRecord'' i act
      (s1\<lparr>hr_attendance := tbl, db_ids := Suc (db_ids s1), hr_payables := pays\<rparr>)"
proof -
  from assms obtain a b accs l cmd e s1 c tbl pays where
    f: "attendance_find i (act_company act) (hr_attendance s) = Some a" "at_mode a = DAILY_LABOUR" "\<not> at_confirmed a"
    and b: "(if truthy purpose then attendance_set_purpose (the purpose) a else Inr a) = Inr b"
    and r: "accrual_accounts_of (act_company act) (hr_accounts s) = Inr accs" "accrual_line_for D b = Inr l"
      "build_accrual_command (act_company act) (at_fy b) (at_date b) (at_id b) (act_user act) [l] accs = Inr cmd"
      "post D mk P cmd now s = Inr (e, s1)"
    and c: "attendance_confirm (je_id e) b = Inr c"
    and t: "attendance_save D c (at_version c) (hr_attendance s1) = Inr tbl"
    and p: "payable_insert D (payable_create (mk (db_ids s1)) (act_company act) (at_fy c) (at_project c) (or_empty (at_cost_centre c))
              (at_date c) (al_cost l) (je_id e)) (hr_payables s1) = Inr pays"
    and x: "x = (je_id e, je_no e)"
      "s' = audit_record ''POST'' ''AttendanceRecord'' i act (s1\<lparr>hr_attendance := tbl, db_ids := Suc (db_ids s1), hr_payables := pays\<rparr>)"
    by (auto simp: confirm_daily_labour_def ids_next_def assert_accruable_def assert_unconfirmed_def
        elim!: rbindE dest!: uow_run_InrD split: prod.splits)
  from b have b': "b = a \<or> (\<exists>p. b = a\<lparr>at_purpose := Some p\<rparr>)"
    by (auto simp: attendance_set_purpose_def rbind_eq_Inr split: if_splits)
  from c have c': "c = b\<lparr>at_confirmed := True, at_entry := Some (trim (je_id e))\<rparr>" "trim (je_id e) \<noteq> []"
    by (auto simp: attendance_confirm_def rbind_eq_Inr)
  from b' have v: "at_version c = at_version a" "at_fy c = at_fy b" "at_project c = at_project b" "at_date c = at_date b"
    "at_cost_centre c = at_cost_centre b" by (auto simp: c')
  show ?thesis by (rule that [OF f b' r(2,1,3,4) c'(2) t [unfolded v(1), unfolded c'(1)] p [unfolded v] x])
qed

lemma payable_insert_InrD:
  "payable_insert D p tbl = Inr tbl' \<Longrightarrow>
     tbl' = tbl @ [p\<lparr>lp_accrued := to_dp D 4 (lp_accrued p), lp_settled := to_dp D 4 (lp_settled p), lp_version := 1\<rparr>] \<and>
     lp_id p \<notin> lp_id ` set tbl \<and> to_dp D 4 (lp_accrued p) < 10 ^ 14"
  by (auto simp: payable_insert_def payable_checks_def in_money_column_def Let_def list_ex_iff elim!: rbindE)

lemma accrual_command_fields:
  assumes "build_accrual_command co fy date i who [l] m = Inr cmd"
  shows "pc_lines cmd = accrual_pair m l" "pc_source_type cmd = ''AttendanceRecord''" "pc_source_id cmd = i" "pc_company cmd = co"
  using assms by (auto simp: build_accrual_command_def)

lemma labour_row_ok_later:
  assumes "labour_row_ok D es pays a" and "\<And>p. p \<in> set pays \<Longrightarrow> \<exists>q \<in> set pays'. payable_later p q"
  shows "labour_row_ok D es pays' a"
proof -
  have "accrual_backed D es pays' a" if b: "accrual_backed D es pays a"
  proof -
    from b obtain e m l p where e: "e \<in> set es" "at_entry a = Some (trim (je_id e))"
      "hr_voucher ''AttendanceRecord'' (at_id a) (at_company a) e" "accrual_line_for D a = Inr l" "je_lines e = lines_of (accrual_pair m l)"
      and p: "p \<in> set pays" "lp_entry p = je_id e" "lp_company p = at_company a" "lp_accrued p = al_cost l"
      unfolding accrual_backed_def by blast
    from assms(2) [OF p(1)] p obtain q where "q \<in> set pays'" "lp_entry q = je_id e" "lp_company q = at_company a" "lp_accrued q = al_cost l"
      by (auto simp: payable_later_def)
    with e show ?thesis unfolding accrual_backed_def by blast
  qed
  with assms(1) show ?thesis by (auto simp: labour_row_ok_def)
qed

lemma hr_sound_payables:
  assumes "hr_sound D es att pays sheets" and "\<And>p. p \<in> set pays \<Longrightarrow> \<exists>q \<in> set pays'. payable_later p q"
    and "\<And>p. p \<in> set pays' \<Longrightarrow> payable_ok es p" and "distinct (map lp_id pays')" and "distinct (map lp_entry pays')"
  shows "hr_sound D es att pays' sheets"
  using assms labour_row_ok_later [OF _ assms(2)] unfolding hr_sound_def by blast

lemma hr_sound_payable:
  assumes "hr_sound D es att pays sheets" and "payable_ok es p" and "lp_id p \<notin> lp_id ` set pays" and "lp_entry p \<notin> lp_entry ` set pays"
  shows "hr_sound D es att (pays @ [p]) sheets"
  by (rule hr_sound_payables [OF assms(1)]) (use assms payable_kept in \<open>auto simp: hr_sound_def\<close>)

lemma payable_entry_known: "hr_sound D es att pays sheets \<Longrightarrow> p \<in> set pays \<Longrightarrow> lp_entry p \<in> je_id ` set es"
  by (auto simp: hr_sound_def payable_ok_def)

lemma entry_ids_distinct: "erp_inv mk s \<Longrightarrow> distinct (map je_id (db_entries s))"
  by (simp add: erp_inv_def ledger_core_def)

context decimal_js begin

lemma accrued_cost_grid: "accrual_line_for D a = Inr l \<Longrightarrow> on_grid 4 (al_cost l)"
  by (auto simp: accrual_line_for_def accrued_cost_def money_round_def to_dp_half_up elim!: rbindE)

lemma post_accrual_facts:
  assumes "post D mk (erp_ports mk) cmd now s = Inr (e, s1)" and "pc_lines cmd = accrual_pair m l" and "on_grid 4 (al_cost l)"
  shows "0 < al_cost l" and "je_lines (stored_entry D e) = lines_of (accrual_pair m l)"
    and "sum_list (map jl_debit (je_lines (stored_entry D e))) = al_cost l"
proof -
  have "\<forall>x \<in> set (pc_lines cmd). pl_ok x"
    using assms(1) by (rule post_InrE) (auto dest!: entry_create_InrD)
  then show "0 < al_cost l" by (auto simp: assms(2) accrual_pair_def pl_ok_def)
  have "\<forall>x \<in> set (pc_lines cmd). pl_grid x" using assms(3) by (simp add: assms(2) accrual_pair_def pl_grid_def)
  from stored_post_lines [OF assms(1) this] show l: "je_lines (stored_entry D e) = lines_of (accrual_pair m l)" by (simp only: assms(2))
  show "sum_list (map jl_debit (je_lines (stored_entry D e))) = al_cost l"
    unfolding l lines_of_debits accrual_pair_simps by simp
qed

lemma confirm_row:
  assumes "att_grid a" and "b = a \<or> (\<exists>p. b = a\<lparr>at_purpose := Some p\<rparr>)" and "accrual_line_for D b = Inr l"
  shows "accrual_line_for D (attendance_saved D (b\<lparr>at_confirmed := True, at_entry := Some i\<rparr>) v a) = Inr l"
    and "at_mode (attendance_saved D (b\<lparr>at_confirmed := True, at_entry := Some i\<rparr>) v a) = at_mode a"
proof -
  have g: "stored_attendance D (b\<lparr>at_confirmed := True, at_entry := Some i\<rparr>) = b\<lparr>at_confirmed := True, at_entry := Some i\<rparr>"
    using assms(1,2) by (intro stored_att_id) (auto simp: att_grid_def)
  have "accrual_line_for D (attendance_saved D (b\<lparr>at_confirmed := True, at_entry := Some i\<rparr>) v a) = accrual_line_for D b"
    using assms(2) by (intro accrual_line_same) (auto simp: attendance_saved_def g Let_def)
  then show "accrual_line_for D (attendance_saved D (b\<lparr>at_confirmed := True, at_entry := Some i\<rparr>) v a) = Inr l"
    by (simp add: assms(3))
qed (simp add: attendance_saved_def Let_def)

lemma confirm_safe:
  assumes "confirm_daily_labour D mk (erp_ports mk) i purpose act now s = Inr (x, s')" and "hr_inv D mk s"
  shows "hr_safe D mk s s'"
  using assms(1)
proof (rule confirm_InrE)
  fix a b l accs cmd e s1 tbl pays
  assume a: "attendance_find i (act_company act) (hr_attendance s) = Some a" "at_mode a = DAILY_LABOUR" "\<not> at_confirmed a"
    and b: "b = a \<or> (\<exists>p. b = a\<lparr>at_purpose := Some p\<rparr>)" "accrual_line_for D b = Inr l"
    and cmd: "build_accrual_command (act_company act) (at_fy b) (at_date b) (at_id b) (act_user act) [l] accs = Inr cmd"
    and p: "post D mk (erp_ports mk) cmd now s = Inr (e, s1)"
    and t: "attendance_save D (b\<lparr>at_confirmed := True, at_entry := Some (trim (je_id e))\<rparr>) (at_version a) (hr_attendance s1) = Inr tbl"
    and y: "payable_insert D (payable_create (mk (db_ids s1)) (act_company act) (at_fy b) (at_project b) (or_empty (at_cost_centre b))
              (at_date b) (al_cost l) (je_id e)) (hr_payables s1) = Inr pays"
    and s': "s' = audit_record ''POST'' ''AttendanceRecord'' i act (s1\<lparr>hr_attendance := tbl, db_ids := Suc (db_ids s1), hr_payables := pays\<rparr>)"
  note inv = hr_invD [OF assms(2)]
  note m = post_appends [OF p] and tables = hr_more [OF post_appends(1) [OF p]]
  note c = accrual_command_fields [OF cmd]
  note f = post_accrual_facts [OF p c(1) accrued_cost_grid [OF b(2)]]
  from attendance_find_Some [OF a(1)] have am: "a \<in> set (hr_attendance s)" "at_company a = act_company act" by simp_all
  let ?e = "stored_entry D e" and ?c = "b\<lparr>at_confirmed := True, at_entry := Some (trim (je_id e))\<rparr>"
  let ?r = "attendance_saved D ?c (at_version a) a"
  let ?p = "payable_create (mk (db_ids s1)) (act_company act) (at_fy b) (at_project b) (or_empty (at_cost_centre b)) (at_date b) (al_cost l) (je_id e)"
  have bi: "at_id b = at_id a" using b(1) by auto
  have entries: "db_entries s' = db_entries s @ [?e]" using m(2) by (simp add: s')
  have inv': "erp_inv mk s'"
    by (rule tx_post [OF assms(1) [unfolded confirm_daily_labour_def] inv(1) quiet_refl p]) (simp add: quiet_def s')
  have fresh: "je_id e \<notin> je_id ` set (db_entries s)" using entry_ids_distinct [OF inv'] by (simp add: entries)
  have id: "to_dp D 4 (al_cost l) = al_cost l" "to_dp D 4 0 = 0" using accrued_cost_grid [OF b(2)] by (simp_all add: to_dp_id)
  from payable_insert_InrD [OF y] have pays: "pays = hr_payables s @ [?p]" "lp_id ?p \<notin> lp_id ` set (hr_payables s)" "al_cost l < 10 ^ 14"
    by (simp_all add: tables payable_create_def id)
  have v: "hr_voucher ''AttendanceRecord'' (at_id a) (at_company a) ?e"
    using m c by (simp add: hr_voucher_def am bi)
  have "hr_sound D (db_entries s @ [?e]) (hr_attendance s) (hr_payables s) (hr_sheets s)"
    by (rule hr_sound_grows [OF inv(2)]) auto
  moreover have "payable_ok (db_entries s @ [?e]) ?p"
    using f(1,3) pays(3) v accrued_cost_grid [OF b(2)] am(2)
    by (auto simp: payable_ok_def payable_create_def derive_payable_status_def)
  moreover have "lp_entry ?p \<notin> lp_entry ` set (hr_payables s)"
    using payable_entry_known [OF inv(2)] fresh by (auto simp: payable_create_def)
  ultimately have sound: "hr_sound D (db_entries s @ [?e]) (hr_attendance s) pays (hr_sheets s)"
    unfolding pays(1) using pays(2) by (intro hr_sound_payable) auto
  from inv(2) am(1) a(2) have ag: "att_grid a" by (auto simp: hr_sound_def labour_row_ok_def)
  note row = confirm_row [OF ag b, of "trim (je_id e)" "at_version a"]
  have "labour_row_ok D (db_entries s @ [?e]) pays ?r"
    using row v f(2) am(2) by (auto simp: labour_row_ok_def saved_grid accrual_backed_def pays(1) payable_create_def intro!: bexI [of _ ?e])
  moreover note t' = attendance_save_effect [OF t [unfolded tables] inv(3) am(1)]
  have tbl: "tbl = update_where (\<lambda>r. r = a) (attendance_saved D ?c (at_version a)) (hr_attendance s)" by (rule t'(2)) (simp add: bi)
  ultimately have rows: "z \<in> set (hr_attendance s) \<or> labour_row_ok D (db_entries s @ [?e]) pays z" if "z \<in> set tbl" for z
    using update_one_set [OF that [unfolded tbl]] by blast
  have "distinct (map at_id tbl)" unfolding tbl by (subst update_one_keys) (simp_all add: inv(3))
  from hr_sound_attendance [OF sound this rows] have "hr_inv D mk s'"
    using inv' by (simp add: hr_inv_def s' m(2) tables)
  moreover have "hr_frozen s s'"
    using a(3) by (auto simp: hr_frozen_def entries) (auto simp: s' tbl tables pays(1) intro: update_one_keeps payable_kept)
  ultimately show ?thesis by (simp add: hr_safe_def)
qed

end

section \<open>Settlements and reversals\<close>

lemma payable_save_effect:
  assumes "payable_save D q v tbl = Inr tbl'" and "distinct (map lp_id tbl)" and "p \<in> set tbl" and "lp_id q = lp_id p"
  shows "v = lp_version p" and "tbl' = update_where (\<lambda>r. r = p)
    (\<lambda>r. r\<lparr>lp_settled := to_dp D 4 (lp_settled q), lp_status := lp_status q, lp_version := v + 1\<rparr>) tbl"
proof -
  let ?hit = "\<lambda>r. lp_id r = lp_id q \<and> lp_company r = lp_company q \<and> lp_version r = v"
  from assms(1) have x: "list_ex ?hit tbl" and t: "tbl' = update_where ?hit
    (\<lambda>r. r\<lparr>lp_settled := to_dp D 4 (lp_settled q), lp_status := lp_status q, lp_version := v + 1\<rparr>) tbl"
    by (auto simp: payable_save_def rbind_eq_Inr Let_def split: if_splits)
  have u: "\<And>r. ?hit r \<Longrightarrow> lp_id r = lp_id p" by (simp add: assms(4))
  show "v = lp_version p" using hit_unique(1) [OF assms(2,3) u x] by simp
  show "tbl' = update_where (\<lambda>r. r = p)
    (\<lambda>r. r\<lparr>lp_settled := to_dp D 4 (lp_settled q), lp_status := lp_status q, lp_version := v + 1\<rparr>) tbl"
    unfolding t by (rule hit_unique(3) [OF assms(2,3) u x])
qed

lemma payable_by_entry_Some: "payable_by_entry co i tbl = Some p \<Longrightarrow> p \<in> set tbl \<and> lp_company p = co \<and> lp_entry p = i"
  by (auto simp: payable_by_entry_def dest: find_SomeD)

text \<open>What a settlement makes of a payable.\<close>

definition settled_by :: "money \<Rightarrow> labour_payable \<Rightarrow> labour_payable" where
  "settled_by amount p = (let x = min (lp_accrued p) (lp_settled p + amount) in
     p\<lparr>lp_settled := x, lp_status := derive_payable_status x (lp_accrued p)\<rparr>)"

definition settled_row :: "money \<Rightarrow> labour_payable \<Rightarrow> labour_payable" where
  "settled_row amount p = (settled_by amount p)\<lparr>lp_version := lp_version p + 1\<rparr>"

lemma settled_row_ok: "payable_ok es p \<Longrightarrow> on_grid 4 amount \<Longrightarrow> 0 \<le> amount \<Longrightarrow> payable_ok es (settled_row amount p)"
  by (auto simp: payable_ok_def settled_row_def settled_by_def Let_def nonneg_grid_def intro!: on_grid_min on_grid_add)

lemma settled_row_later: "0 \<le> amount \<Longrightarrow> lp_settled p \<le> lp_accrued p \<Longrightarrow> payable_later p (settled_row amount p)"
  by (simp add: payable_later_def settled_row_def settled_by_def Let_def)

context decimal_js begin

lemma settle_exact:
  assumes "payable_ok es p" and "on_grid 4 amount" and "0 \<le> amount"
  shows "payable_settle D amount p = Inr (settled_by amount p)"
proof -
  from assms(1) have p: "0 \<le> lp_settled p" "on_grid 4 (lp_settled p)" "lp_accrued p < 10 ^ 14" "lp_settled p \<le> lp_accrued p"
    by (auto simp: payable_ok_def nonneg_grid_def)
  have "(if lp_accrued p < money_plus D (lp_settled p) amount then lp_accrued p else money_plus D (lp_settled p) amount) =
      min (lp_accrued p) (lp_settled p + amount)"
  proof (cases "amount < 10 ^ 15")
    case True
    then have "exact_range (lp_settled p + amount)" using p assms by (auto simp: exact_range_def)
    then show ?thesis by (simp add: money_plus_def plus_exact min_def)
  next
    case False
    let ?x = "lp_settled p + amount"
    have x: "10 ^ 15 \<le> ?x" using False p by simp
    have "\<bar>rnd D ?x - ?x\<bar> * (2 * 10 ^ 19) \<le> ?x" using rnd_error [of ?x] x by simp
    then have "?x - rnd D ?x \<le> ?x / 2" using x abs_ge_minus_self [of "rnd D ?x - ?x"] by simp
    then have "lp_accrued p < rnd D ?x" using x p(3) by simp
    moreover have "lp_accrued p < ?x" using x p(3) by simp
    ultimately show ?thesis by (simp add: money_plus_def d_plus_def)
  qed
  then show ?thesis using assms(3) by (simp add: payable_settle_def settled_by_def Let_def money_is_negative_def)
qed

lemma settle_safe:
  assumes "apply_settlement D co i amount who s = Inr (u, s')" and "on_grid 4 amount" and "hr_inv D mk s"
  shows "hr_safe D mk s s'"
proof (cases "payable_by_entry co i (hr_payables s)")
  case None
  with uow_run_InrD [OF assms(1) [unfolded apply_settlement_def]] have "s' = s" by simp
  with assms(3) show ?thesis by (simp add: hr_safe_def hr_frozen_refl)
next
  case (Some p)
  note inv = hr_invD [OF assms(3)]
  from payable_by_entry_Some [OF Some] have pm: "p \<in> set (hr_payables s)" by simp
  with inv(2) have ok: "payable_ok (db_entries s) p" by (simp add: hr_sound_def)
  from uow_run_InrD [OF assms(1) [unfolded apply_settlement_def], THEN conjunct1] Some obtain q tbl where
    q: "payable_settle D amount p = Inr q" and t: "payable_save D q (lp_version q) (hr_payables s) = Inr tbl"
    and s': "db_entries s' = db_entries s" "quiet s s'" "hr_payables s' = tbl" "hr_attendance s' = hr_attendance s" "hr_sheets s' = hr_sheets s"
    by (auto simp: Let_def quiet_def elim!: rbindE split: option.splits)
  from q have a: "0 \<le> amount" by (auto simp: payable_settle_def money_is_negative_def elim!: rbindE)
  from q settle_exact [OF ok assms(2) a] have q': "q = settled_by amount p" by simp
  then have qf: "lp_id q = lp_id p" "lp_version q = lp_version p" by (simp_all add: settled_by_def Let_def)
  have grid: "on_grid 4 (min (lp_accrued p) (lp_settled p + amount))"
    using ok assms(2) by (auto simp: payable_ok_def nonneg_grid_def intro!: on_grid_min on_grid_add)
  have tbl: "tbl = update_where (\<lambda>r. r = p) (settled_row amount) (hr_payables s)"
    unfolding payable_save_effect(2) [OF t inv(4) pm qf(1)] update_where_def
    by (rule map_cong [OF refl]) (simp add: q' settled_by_def settled_row_def Let_def to_dp_id grid)
  have later: "\<exists>y \<in> set tbl. payable_later x y" if "x \<in> set (hr_payables s)" for x
  proof (cases "x = p")
    case True
    then show ?thesis using settled_row_later [OF a, of p] ok pm
      by (intro bexI [of _ "settled_row amount p"]) (auto simp: payable_ok_def tbl intro: update_one_new)
  next
    case False
    with that show ?thesis unfolding tbl by (intro payable_kept update_one_keeps)
  qed
  have "map lp_id tbl = map lp_id (hr_payables s)" "map lp_entry tbl = map lp_entry (hr_payables s)"
    unfolding tbl by (rule update_one_keys, simp add: settled_row_def settled_by_def Let_def)+
  moreover have "payable_ok (db_entries s) x" if "x \<in> set tbl" for x
    using update_one_set [OF that [unfolded tbl]] settled_row_ok [OF ok assms(2) a] inv(2) by (auto simp: hr_sound_def)
  ultimately have "hr_sound D (db_entries s) (hr_attendance s) tbl (hr_sheets s)"
    using inv(2) by (intro hr_sound_payables [OF inv(2) later]) (simp_all add: hr_sound_def)
  with quiet_erp_inv [OF s'(2) inv(1)] have "hr_inv D mk s'" by (simp add: hr_inv_def s')
  with later show ?thesis by (simp add: hr_safe_def hr_frozen_def s')
qed

lemma reversal_safe:
  assumes "uow_run work s = Inr (x, s')" and "reverse D mk (erp_ports mk) i co reason who now s = Inr (e, s1)"
    and "s' = audit_record a b c act s1" and "hr_inv D mk s"
  shows "hr_safe D mk s s'"
proof -
  note inv = hr_invD [OF assms(4)]
  from reverse_appends [OF assms(2)] have m: "db.more s1 = db.more s" and d: "db_entries s1 = db_entries s @ [stored_entry D e]"
    by blast+
  have "erp_inv mk s'" by (rule tx_reverse [OF assms(1) inv(1) quiet_refl assms(2)]) (simp add: quiet_def assms(3))
  moreover have "hr_sound D (db_entries s') (hr_attendance s) (hr_payables s) (hr_sheets s)"
    by (rule hr_sound_grows [OF inv(2)]) (auto simp: assms(3) d)
  moreover have "hr_kept s s'" by (simp add: hr_kept_def assms(3) hr_more [OF m])
  ultimately show ?thesis using hr_frozen_kept [of s s' "[stored_entry D e]"]
    by (simp add: hr_safe_def hr_inv_def hr_kept_def assms(3) d)
qed

lemma unaccrue_safe:
  assumes "reverse_accrual D mk (erp_ports mk) i reason act now s = Inr (x, s')" and "hr_inv D mk s"
  shows "hr_safe D mk s s'"
proof -
  from uow_run_InrD [OF assms(1) [unfolded reverse_accrual_def], THEN conjunct1] obtain a :: attendance and e s1 where
    "reverse D mk (erp_ports mk) (the (at_entry a)) (act_company act) reason (act_user act) now s = Inr (e, s1)"
    "s' = audit_record ''CANCEL'' ''AttendanceRecord'' i act s1"
    by (auto elim!: rbindE split: prod.splits)
  then show ?thesis by (rule reversal_safe [OF assms(1) [unfolded reverse_accrual_def] _ _ assms(2)])
qed

lemma unpost_safe:
  assumes "reverse_salary D mk (erp_ports mk) i reason act now s = Inr (x, s')" and "hr_inv D mk s"
  shows "hr_safe D mk s s'"
proof -
  from uow_run_InrD [OF assms(1) [unfolded reverse_salary_def], THEN conjunct1] obtain h :: salary_sheet and e s1 where
    "reverse D mk (erp_ports mk) (the (sh_entry h)) (act_company act) reason (act_user act) now s = Inr (e, s1)"
    "s' = audit_record ''CANCEL'' ''SalarySheet'' i act s1"
    by (auto elim!: rbindE split: prod.splits)
  then show ?thesis by (rule reversal_safe [OF assms(1) [unfolded reverse_salary_def] _ _ assms(2)])
qed

end

end
