(* ===== verification/Hr_Sheets.thy ===== *)
theory Hr_Sheets
  imports Hr_Steps
begin

text \<open>
  The salary sheets: generating, editing and posting keep the invariant of the module; together with the
  attendance steps, every committed run does.
\<close>

section \<open>Lines through the repository\<close>

lemma stored_line_fields [simp]: "sl_id (stored_salary_line D l) = sl_id l" "sl_version (stored_salary_line D l) = sl_version l"
  by (simp_all add: stored_salary_line_def)

lemma components_saved_id [simp]: "sl_id (line_components_saved D l k) = sl_id k"
  by (simp add: line_components_saved_def Let_def)

lemma lines_saved_Cons:
  "sl_id x \<notin> sl_id ` set ns \<Longrightarrow> lines_saved D ns (x # xs) = x # lines_saved D ns xs"
proof (induction ns arbitrary: xs)
  case (Cons n ns)
  then have "update_where (\<lambda>k. sl_id k = sl_id n) (line_components_saved D n) (x # xs) =
      x # update_where (\<lambda>k. sl_id k = sl_id n) (line_components_saved D n) xs"
    by (auto simp: update_where_def)
  with Cons show ?case by (simp add: lines_saved_def)
qed (simp add: lines_saved_def)

lemma lines_saved_zip:
  assumes "map sl_id new = map sl_id old" and "distinct (map sl_id old)"
  shows "lines_saved D new old = map2 (line_components_saved D) new old"
  using assms
proof (induction new arbitrary: old)
  case Nil
  then show ?case by (simp add: lines_saved_def)
next
  case (Cons n ns)
  then obtain k ks where o: "old = k # ks" "sl_id n = sl_id k" "map sl_id ns = map sl_id ks" by (cases old) auto
  with Cons.prems have d: "sl_id k \<notin> sl_id ` set ks" "distinct (map sl_id ks)" by auto
  then have "update_where (\<lambda>x. sl_id x = sl_id n) (line_components_saved D n) ks = ks"
    using o(2) by (intro update_where_none) (auto simp: rev_image_eqI)
  then have "lines_saved D (n # ns) old = lines_saved D ns (line_components_saved D n k # ks)"
    by (simp add: lines_saved_def o update_where_def)
  moreover have "sl_id (line_components_saved D n k) \<notin> sl_id ` set ns"
    using d(1) o(3) by (metis components_saved_id list.set_map)
  ultimately show ?case using Cons.IH [OF o(3) d(2)] by (simp add: lines_saved_Cons o)
qed

lemma lines_saved_ids [simp]: "map sl_id (lines_saved D new old) = map sl_id old"
proof (induction new arbitrary: old)
  case (Cons n ns)
  have "map sl_id (update_where (\<lambda>k. sl_id k = sl_id n) (line_components_saved D n) old) = map sl_id old"
    by (rule map_update_where) simp
  with Cons show ?case by (simp add: lines_saved_def)
qed (simp add: lines_saved_def)

text \<open>The command of a sheet does not read the versions of its lines.\<close>

lemma add_to_group_version:
  "(\<And>v. pf (l\<lparr>sl_version := v\<rparr>) = pf l) \<Longrightarrow> add_to_group D pf (l\<lparr>sl_version := v\<rparr>) gs = add_to_group D pf l gs"
  by (induction gs) (simp_all add: line_payable_def)

lemma salary_lines_version:
  assumes "\<And>l v. pf (l\<lparr>sl_version := v\<rparr>) = pf l"
  shows "salary_lines D m pf (map (\<lambda>l. l\<lparr>sl_version := f l\<rparr>) ls) = salary_lines D m pf ls"
proof -
  have "fold (add_to_group D pf) (map (\<lambda>l. l\<lparr>sl_version := f l\<rparr>) ls) gs = fold (add_to_group D pf) ls gs" for gs
    by (induction ls arbitrary: gs) (simp_all add: add_to_group_version assms)
  then show ?thesis by (simp add: salary_lines_def salary_groups_def)
qed

lemma employer_pf_version: "employer_pf_of co es (l\<lparr>sl_version := v\<rparr>) = employer_pf_of co es l"
  by (simp add: employer_pf_of_def split: option.split)

context decimal_js begin

lemma stored_line_grid: "line_grid (stored_salary_line D l)"
  by (simp add: line_grid_def line_amounts_def stored_salary_line_def to_dp_half_up)

lemma stored_line_same: "line_grid l \<Longrightarrow> stored_salary_line D l = l"
  by (cases l) (simp add: line_grid_def line_amounts_def stored_salary_line_def to_dp_id)

lemma components_saved_grid: "line_grid k \<Longrightarrow> line_grid (line_components_saved D l k)"
  using stored_line_grid [of l] by (simp add: line_grid_def line_amounts_def line_components_saved_def Let_def)

lemma components_saved_same: "line_grid l \<Longrightarrow> line_components_saved D l l = l\<lparr>sl_version := sl_version l + 1\<rparr>"
  by (simp add: line_components_saved_def stored_line_same Let_def)

lemma lines_saved_grid: "\<forall>l \<in> set old. line_grid l \<Longrightarrow> \<forall>l \<in> set (lines_saved D new old). line_grid l"
proof (induction new arbitrary: old)
  case (Cons n ns)
  have "\<forall>l \<in> set (update_where (\<lambda>k. sl_id k = sl_id n) (line_components_saved D n) old). line_grid l"
    using Cons.prems components_saved_grid by (auto simp: set_update_where)
  from Cons.IH [OF this] show ?case by (simp add: lines_saved_def)
qed (simp add: lines_saved_def)

lemma lines_saved_same:
  assumes "\<forall>l \<in> set ls. line_grid l" and "distinct (map sl_id ls)"
  shows "lines_saved D ls ls = map (\<lambda>l. l\<lparr>sl_version := sl_version l + 1\<rparr>) ls"
proof -
  have "lines_saved D ls ls = map (\<lambda>l. line_components_saved D l l) ls"
    using lines_saved_zip [OF refl assms(2)] by (simp add: zip_same_conv_map)
  also have "\<dots> = map (\<lambda>l. l\<lparr>sl_version := sl_version l + 1\<rparr>) ls"
    by (rule map_cong [OF refl]) (simp add: components_saved_same assms(1))
  finally show ?thesis .
qed

end

section \<open>The tables\<close>

lemma map_filter_update:
  assumes "distinct (map g (filter P tbl))" and "\<And>r. r \<in> set tbl \<Longrightarrow> Q r \<Longrightarrow> P (f r) \<Longrightarrow> P r \<and> g (f r) = g r"
  shows "distinct (map g (filter P (update_where Q f tbl)))"
proof -
  have "distinct (map g (filter P (update_where Q f xs))) \<and> g ` set (filter P (update_where Q f xs)) \<subseteq> g ` set (filter P xs)"
    if "distinct (map g (filter P xs))" "set xs \<subseteq> set tbl" for xs
    using that
  proof (induction xs)
    case (Cons x xs)
    let ?y = "if Q x then f x else x"
    have u: "update_where Q f (x # xs) = ?y # update_where Q f xs" by (simp add: update_where_def)
    have y: "P ?y \<Longrightarrow> P x \<and> g ?y = g x" using assms(2) [of x] Cons.prems(2) by auto
    have IH: "distinct (map g (filter P (update_where Q f xs)))"
      "g ` set (filter P (update_where Q f xs)) \<subseteq> g ` set (filter P xs)"
      using Cons by (auto split: if_splits)
    show ?case
    proof (cases "P ?y")
      case True
      with y have px: "P x" "g ?y = g x" by blast+
      with Cons.prems(1) have "g x \<notin> g ` set (filter P xs)" by simp
      with IH px True show ?thesis unfolding u by (auto simp del: set_filter)
    next
      case False
      with IH show ?thesis unfolding u by (auto simp del: set_filter)
    qed
  qed (simp add: update_where_def)
  with assms(1) show ?thesis by blast
qed

lemma line_ids_update:
  "(\<And>r. map sl_id (sh_lines (f r)) = map sl_id (sh_lines r)) \<Longrightarrow> line_ids (update_where Q f tbl) = line_ids tbl"
  by (simp add: line_ids_def update_where_def comp_def if_distrib cong: if_cong)

lemma lines_distinct: "distinct (line_ids tbl) \<Longrightarrow> h \<in> set tbl \<Longrightarrow> distinct (map sl_id (sh_lines h))"
  by (auto simp: line_ids_def distinct_concat_iff)

lemma hr_sound_sheets:
  assumes "hr_sound D es att pays sheets" and "distinct (map sh_id sheets')" and "distinct (line_ids sheets')"
    and "distinct (map period_key (filter (\<lambda>h. sh_status h = SheetDraft) sheets'))"
    and "\<And>h. h \<in> set sheets' \<Longrightarrow> h \<in> set sheets \<or> sheet_ok D es h"
  shows "hr_sound D es att pays sheets'"
  using assms unfolding hr_sound_def by blast

text \<open>Saving one sheet whose lines, where it is a draft, keep their ids.\<close>

lemma hr_sound_sheet_saved:
  assumes "hr_sound D es att pays sheets" and "h \<in> set sheets" and "sheet_ok D es (sheet_saved D k v h)"
    and "sh_status k = SheetDraft \<Longrightarrow> sh_status h = SheetDraft"
  shows "hr_sound D es att pays (update_where (\<lambda>r. r = h) (sheet_saved D k v) sheets)"
proof (rule hr_sound_sheets [OF assms(1)])
  note s = assms(1) [unfolded hr_sound_def]
  have f: "sh_id (sheet_saved D k v r) = sh_id r" "period_key (sheet_saved D k v r) = period_key r"
    "sh_status (sheet_saved D k v r) = sh_status k" "map sl_id (sh_lines (sheet_saved D k v r)) = map sl_id (sh_lines r)" for r
    by (simp_all add: sheet_saved_def period_key_def)
  show "distinct (map sh_id (update_where (\<lambda>r. r = h) (sheet_saved D k v) sheets))"
    using s by (subst update_one_keys) (simp_all add: f)
  show "distinct (line_ids (update_where (\<lambda>r. r = h) (sheet_saved D k v) sheets))"
    using s by (subst line_ids_update) (simp_all add: f)
  show "distinct (map period_key (filter (\<lambda>h. sh_status h = SheetDraft) (update_where (\<lambda>r. r = h) (sheet_saved D k v) sheets)))"
    using s assms(4) by (intro map_filter_update) (simp_all add: f)
  show "x \<in> set sheets \<or> sheet_ok D es x" if "x \<in> set (update_where (\<lambda>r. r = h) (sheet_saved D k v) sheets)" for x
    using update_one_set [OF that] assms(3) by blast
qed

section \<open>Generating a sheet\<close>

lemma generate_lines_ids:
  "generate_lines D mk co inp cc hol th per att es n g = Inr (g', m) \<Longrightarrow> n \<le> m"
proof (induction es arbitrary: n g)
  case (Cons e es)
  show ?case
    using Cons.prems Cons.IH by (fastforce simp: Let_def elim!: rbindE split: if_splits prod.splits)
qed simp

lemma sheet_insert_InrD:
  assumes "sheet_insert D h tbl = Inr tbl'"
  shows "tbl' = tbl @ [h\<lparr>sh_version := 1, sh_lines := map (stored_salary_line D) (sh_lines h)\<rparr>]" and "sh_id h \<notin> sh_id ` set tbl"
    and "sh_status h = SheetDraft \<Longrightarrow> \<not> exists_draft_for_period (sh_company h) (sh_fy h) (sh_label h) tbl"
    and "distinct (line_ids tbl')"
  using assms by (auto simp: sheet_insert_def Let_def list_ex_iff elim!: rbindE)

lemma sheet_generate_InrD:
  "sheet_generate i co inp ls w = Inr h \<Longrightarrow> sh_status h = SheetDraft \<and> sh_lines h = ls \<and> sh_company h = co \<and> sh_id h = i"
  by (auto simp: sheet_generate_def elim!: rbindE)

context decimal_js begin

lemma generate_safe:
  assumes "generate_salary D mk inp act s = Inr (y, s')" and "hr_inv D mk s"
  shows "hr_safe D mk s s'"
proof -
  note inv = hr_invD [OF assms(2)]
  from uow_run_InrD [OF assms(1) [unfolded generate_salary_def], THEN conjunct1] obtain accs :: salary_account_map and holidays th per es and g :: generation and n w
      and h :: salary_sheet and tbl and new :: new_salary_sheet where
    g: "generate_lines D mk (act_company act) inp (sm_cost_centre accs) holidays th per (hr_attendance s) es (db_ids s)
          \<lparr>gn_lines = [], gn_skipped = [], gn_absences = [], gn_missing = []\<rparr> = Inr (g, n)"
    and h: "sheet_generate (mk n) (act_company act) new (gn_lines g) w = Inr h" and t: "sheet_insert D h (hr_sheets s) = Inr tbl"
    and s': "s' = audit_record ''CREATE'' ''SalarySheet'' (sh_id h) act (s\<lparr>db_ids := Suc n, hr_sheets := tbl\<rparr>)"
    by (auto simp: Let_def elim!: rbindE split: prod.splits)
  note i = sheet_insert_InrD [OF t] and hf = sheet_generate_InrD [OF h]
  let ?h = "h\<lparr>sh_version := 1, sh_lines := map (stored_salary_line D) (sh_lines h)\<rparr>"
  have ok: "sheet_ok D (db_entries s) ?h" using hf stored_line_grid by (auto simp: sheet_ok_def)
  have "period_key ?h \<notin> period_key ` set (filter (\<lambda>h. sh_status h = SheetDraft) (hr_sheets s))"
    using i(3) hf by (auto simp: period_key_def exists_draft_for_period_def draft_for_period_def list_ex_iff)
  then have "hr_sound D (db_entries s) (hr_attendance s) (hr_payables s) tbl"
    using inv(2) i(2,4) ok hf by (intro hr_sound_sheets [OF inv(2)]) (auto simp: i(1) hr_sound_def)
  moreover have "erp_inv mk s'"
    using generate_lines_ids [OF g] by (intro quiet_erp_inv [OF _ inv(1)]) (simp add: quiet_def s')
  moreover have "hr_frozen s s'" by (auto simp: hr_frozen_def s' i(1) intro: payable_kept)
  ultimately show ?thesis by (simp add: hr_safe_def hr_inv_def s')
qed

section \<open>Editing and posting\<close>

lemma sheet_edit_InrD: "sheet_edit_line D line_id p h = Inr k \<Longrightarrow> sh_status h = SheetDraft \<and> sh_status k = SheetDraft \<and> sh_id k = sh_id h"
  by (auto simp: sheet_edit_line_def sheet_assert_draft_def elim!: rbindE)

lemma sheet_bulk_InrD: "sheet_apply_bulk D r h = Inr k \<Longrightarrow> sh_status h = SheetDraft \<and> sh_status k = SheetDraft \<and> sh_id k = sh_id h"
  by (auto simp: sheet_apply_bulk_def sheet_assert_draft_def elim!: rbindE)

lemma draft_change_safe:
  assumes "with_sheet D i v f act s = Inr (u, s')" and "hr_inv D mk s"
    and "\<And>h k. f h = Inr k \<Longrightarrow> sh_status h = SheetDraft \<and> sh_status k = SheetDraft \<and> sh_id k = sh_id h"
  shows "hr_safe D mk s s'"
proof -
  note inv = hr_invD [OF assms(2)]
  from assms(1) obtain h k tbl where h: "sheet_find i (act_company act) (hr_sheets s) = Some h" and k: "f h = Inr k"
    and t: "sheet_save D k v (hr_sheets s) = Inr tbl"
    and s': "s' = audit_record ''UPDATE'' ''SalarySheet'' i act (s\<lparr>hr_sheets := tbl\<rparr>)"
    unfolding with_sheet_def by (auto elim!: rbindE)
  from sheet_find_Some [OF h] have hm: "h \<in> set (hr_sheets s)" by simp
  note d = assms(3) [OF k]
  have tbl: "tbl = update_where (\<lambda>r. r = h) (sheet_saved D k v) (hr_sheets s)"
    using sheet_save_effect(2) [OF t inv(5) hm] d by blast
  from inv(2) hm have "\<forall>l \<in> set (sh_lines h). line_grid l" by (auto simp: hr_sound_def sheet_ok_def)
  then have "sheet_ok D (db_entries s) (sheet_saved D k v h)"
    using lines_saved_grid d by (simp add: sheet_ok_def sheet_saved_def)
  from hr_sound_sheet_saved [OF inv(2) hm this] have "hr_sound D (db_entries s) (hr_attendance s) (hr_payables s) tbl"
    using d by (simp add: tbl)
  moreover have "erp_inv mk s'" by (rule quiet_erp_inv [OF _ inv(1)]) (simp add: quiet_def s')
  moreover have "hr_frozen s s'"
    using d by (auto simp: hr_frozen_def s' tbl intro: payable_kept update_one_keeps)
  ultimately show ?thesis by (simp add: hr_safe_def hr_inv_def s')
qed

lemma edit_line_safe:
  assumes "edit_salary_line D i line_id comps v act s = Inr (u, s')" and "hr_inv D mk s" shows "hr_safe D mk s s'"
  using uow_run_InrD [OF assms(1) [unfolded edit_salary_line_def], THEN conjunct1]
  by (rule draft_change_safe [OF _ assms(2)]) (rule sheet_edit_InrD)

lemma bulk_safe:
  assumes "apply_bulk_components D i r v act s = Inr (u, s')" and "hr_inv D mk s" shows "hr_safe D mk s s'"
  using uow_run_InrD [OF assms(1) [unfolded apply_bulk_components_def], THEN conjunct1]
  by (rule draft_change_safe [OF _ assms(2)]) (rule sheet_bulk_InrD)

lemma post_salary_safe:
  assumes "post_salary D mk (erp_ports mk) i v act now s = Inr (x, s')" and "hr_inv D mk s"
  shows "hr_safe D mk s s'"
proof -
  note inv = hr_invD [OF assms(2)]
  from uow_run_InrD [OF assms(1) [unfolded post_salary_def], THEN conjunct1] obtain h :: salary_sheet and accs :: salary_account_map and cmd and e and s1 and k :: salary_sheet and tbl where
    h: "sheet_find i (act_company act) (hr_sheets s) = Some h" "sheet_assert_draft h = Inr ()"
    and c: "build_salary_command D h accs (act_company act) (act_user act) (employer_pf_of (act_company act) (hr_employees s)) = Inr cmd"
    and p: "post D mk (erp_ports mk) cmd now s = Inr (e, s1)" and k: "sheet_mark_posted (je_id e) (act_user act) now h = Inr k"
    and t: "sheet_save D k v (hr_sheets s1) = Inr tbl"
    and s': "s' = audit_record ''POST'' ''SalarySheet'' i act (s1\<lparr>hr_sheets := tbl\<rparr>)"
    by (auto elim!: rbindE split: prod.splits)
  note m = post_appends [OF p] and tables = hr_more [OF post_appends(1) [OF p]]
  from sheet_find_Some [OF h(1)] have hm: "h \<in> set (hr_sheets s)" "sh_id h = i" "sh_company h = act_company act" by simp_all
  from h(2) have d: "sh_status h = SheetDraft" by (simp add: sheet_assert_draft_def)
  from k have k': "k = h\<lparr>sh_status := SheetPosted, sh_entry := Some (trim (je_id e)), sh_posted_by := Some (act_user act), sh_posted_at := Some now\<rparr>"
    by (auto simp: sheet_mark_posted_def elim!: rbindE)
  from c have cmd: "pc_lines cmd = salary_lines D accs (employer_pf_of (act_company act) (hr_employees s)) (sh_lines h)"
    "pc_source_type cmd = ''SalarySheet''" "pc_source_id cmd = sh_id h" "pc_company cmd = act_company act"
    by (auto simp: build_salary_command_def split: if_splits)
  let ?e = "stored_entry D e"
  have entries: "db_entries s' = db_entries s @ [?e]" using m(2) by (simp add: s')
  have inv': "erp_inv mk s'"
    by (rule tx_post [OF assms(1) [unfolded post_salary_def] inv(1) quiet_refl p]) (simp add: quiet_def s')
  have tbl: "tbl = update_where (\<lambda>r. r = h) (sheet_saved D k v) (hr_sheets s)"
    by (rule sheet_save_effect(2) [OF t [unfolded tables] inv(5) hm(1)]) (simp add: k')
  from inv(2) hm(1) have g: "\<forall>l \<in> set (sh_lines h). line_grid l" by (auto simp: hr_sound_def sheet_ok_def)
  have ls: "sh_lines (sheet_saved D k v h) = map (\<lambda>l. l\<lparr>sl_version := sl_version l + 1\<rparr>) (sh_lines h)"
    using lines_saved_same [OF g lines_distinct [OF inv(6) hm(1)]] by (simp add: sheet_saved_def k')
  have bk: "sheet_backed D (db_entries s @ [?e]) (sheet_saved D k v h)"
    using m cmd hm unfolding sheet_backed_def ls
    by (intro bexI [of _ ?e] exI [of _ accs] exI [of _ "hr_employees s"])
      (simp_all add: sheet_saved_def k' hr_voucher_def salary_lines_version employer_pf_version)
  have "sheet_ok D (db_entries s @ [?e]) (sheet_saved D k v h)"
    using bk g by (auto simp: sheet_ok_def ls line_grid_def line_amounts_def)
  moreover have "hr_sound D (db_entries s @ [?e]) (hr_attendance s) (hr_payables s) (hr_sheets s)"
    by (rule hr_sound_grows [OF inv(2)]) auto
  ultimately have "hr_sound D (db_entries s @ [?e]) (hr_attendance s) (hr_payables s) tbl"
    unfolding tbl by (intro hr_sound_sheet_saved [OF _ hm(1)]) (auto simp: d)
  with inv' have "hr_inv D mk s'" by (simp add: hr_inv_def s' m(2) tables)
  moreover have "hr_frozen s s'"
    using d by (auto simp: hr_frozen_def entries) (auto simp: s' tbl tables intro: update_one_keeps payable_kept)
  ultimately show ?thesis by (simp add: hr_safe_def)
qed

section \<open>Every run\<close>

lemma office_safe:
  assumes "office_change s s'" and "hr_inv D mk s" shows "hr_safe D mk s s'"
proof -
  note inv = hr_invD [OF assms(2)]
  from assms(1) have o: "quiet s s'" "hr_payables s' = hr_payables s" "hr_sheets s' = hr_sheets s" "distinct (map at_id (hr_attendance s'))"
    "filter (\<lambda>a. at_mode a \<noteq> OFFICE) (hr_attendance s') = filter (\<lambda>a. at_mode a \<noteq> OFFICE) (hr_attendance s)"
    "\<forall>a \<in> set (hr_attendance s'). at_mode a = OFFICE \<longrightarrow> \<not> at_confirmed a"
    by (simp_all add: office_change_def)
  have same: "a \<in> set (hr_attendance s') \<longleftrightarrow> a \<in> set (hr_attendance s)" if "at_mode a \<noteq> OFFICE" for a
    using arg_cong [OF o(5), of set] that by auto
  have "a \<in> set (hr_attendance s) \<or> labour_row_ok D (db_entries s) (hr_payables s) a" if "a \<in> set (hr_attendance s')" for a
    using that same [of a] o(6) by (cases "at_mode a = OFFICE") (auto simp: labour_row_ok_def)
  from hr_sound_attendance [OF inv(2) o(4) this] have "hr_inv D mk s'"
    using quiet_erp_inv [OF o(1) inv(1)] quiet_entries [OF o(1)] by (simp add: hr_inv_def o)
  moreover have "at_mode a \<noteq> OFFICE" if "a \<in> set (hr_attendance s)" "at_confirmed a" for a
  proof -
    from inv(2) that have "accrual_backed D (db_entries s) (hr_payables s) a" by (simp add: hr_sound_def labour_row_ok_def)
    then show ?thesis by (auto simp: accrual_backed_def accrual_line_for_def accrued_cost_def assert_accruable_def elim!: rbindE)
  qed
  then have "hr_frozen s s'"
    using same quiet_entries [OF o(1)] by (auto simp: hr_frozen_def o intro: payable_kept)
  ultimately show ?thesis by (simp add: hr_safe_def)
qed

lemma hr_step_safe:
  assumes "hr_step D mk s s'" and "hr_inv D mk s"
  shows "hr_safe D mk s s'"
  using assms(1)
proof (cases rule: hr_step.cases)
  case h_other
  from erp_step_append [OF h_other(1)] obtain new where new: "db_entries s' = db_entries s @ new" by blast
  have "erp_inv mk s'" by (rule erp_step_inv [OF decimal_js_axioms h_other(1) hr_invD(1) [OF assms(2)]])
  moreover have "hr_sound D (db_entries s') (hr_attendance s) (hr_payables s) (hr_sheets s)"
    by (rule hr_sound_grows [OF hr_invD(2) [OF assms(2)]]) (simp add: new)
  ultimately show ?thesis using h_other(2) hr_frozen_kept [OF h_other(2) new] by (simp add: hr_safe_def hr_inv_def hr_kept_def)
qed (use assms(2) in \<open>auto intro: hr_safe_quiet create_employee_quiet update_employee_quiet reassign_quiet set_status_quiet
    capture_heads_safe edit_daily_labour_safe confirm_safe unaccrue_safe settle_safe generate_safe edit_line_safe bulk_safe
    post_salary_safe unpost_safe office_safe\<close>)

end

definition empty_hr :: "'a hr_db_scheme \<Rightarrow> bool" where
  "empty_hr s \<longleftrightarrow> empty_db s \<and> hr_attendance s = [] \<and> hr_payables s = [] \<and> hr_sheets s = []"

lemma hr_inv_empty: "inj mk \<Longrightarrow> empty_hr s \<Longrightarrow> hr_inv D mk s"
  by (simp add: hr_inv_def hr_sound_def empty_hr_def erp_inv_empty line_ids_def)

lemma hr_run_safe:
  assumes "decimal_js D" and "rtranclp (hr_step D mk) s s'" and "hr_inv D mk s"
  shows "hr_safe D mk s s'"
  using assms(2)
proof (induction rule: rtranclp_induct)
  case base
  with assms(3) show ?case by (simp add: hr_safe_def hr_frozen_refl)
next
  case (step t u)
  then have "hr_inv D mk t" by (simp add: hr_safe_def)
  with step(2) have "hr_safe D mk t u" by (rule decimal_js.hr_step_safe [OF assms(1)])
  with step show ?case by (auto simp: hr_safe_def intro: hr_frozen_trans)
qed

end
