(* ===== verification/Hr_Demo_Sheet.thy ===== *)
theory Hr_Demo_Sheet
  imports Hr_Demo
begin

text \<open>
  The salary sheet of the concrete run: one employee, one paid holiday, generated and posted.
\<close>

definition hr_demo_request :: new_salary where
  "hr_demo_request = \<lparr>ns_fy = ''FY'', ns_label = ''July'', ns_start = ''2025-07-11'', ns_end = ''2025-07-11'', ns_project = None,
     ns_purpose = ''U''\<rparr>"

definition hr_demo_line :: salary_line where
  "hr_demo_line = \<lparr>sl_id = ''1'', sl_employee = ''E1'', sl_project = ''P'', sl_cost_centre = ''L'', sl_purpose = ''U'',
     sl_paid_days = 1, sl_gross = 3000, sl_allowances = 0, sl_tds = 0, sl_pf = 0, sl_advance = 0, sl_other = 0, sl_net = 3000,
     sl_standard_days = 1, sl_unpaid_days = 0, sl_late_count = 0, sl_penalty_days = 0, sl_penalty_amount = 0, sl_version = 1\<rparr>"

definition hr_demo_sheet :: salary_sheet where
  "hr_demo_sheet = \<lparr>sh_id = ''2'', sh_company = ''C'', sh_fy = ''FY'', sh_label = ''July'', sh_start = ''2025-07-11'',
     sh_end = ''2025-07-11'', sh_status = SheetDraft, sh_entry = None, sh_posted_at = None, sh_posted_by = None,
     sh_warnings = Some \<lparr>pw_days_with_no_records = [], pw_skipped = [], pw_absences = [(''E1'', 0)], pw_no_weekly_holidays = False\<rparr>,
     sh_version = 1, sh_lines = [hr_demo_line]\<rparr>"

definition hr_demo_drafted :: hr_db where
  "hr_demo_drafted = hr_demo_open\<lparr>db_ids := 3, hr_sheets := [hr_demo_sheet], db_audit := [\<lparr>a_action = ''CREATE'', a_entity_type = ''SalarySheet'',
     a_entity_id = ''2'', a_actor = ''U'', a_company = ''C''\<rparr>]\<rparr>"

definition hr_demo_days :: payroll_days where
  "hr_demo_days = \<lparr>pd_standard = 1, pd_working = 0, pd_unpaid = 0, pd_paid = 1, pd_late = 0, pd_attended = 0, pd_missing = []\<rparr>"

lemma hr_demo_pay: "salary_pay dec20 hr_demo_employee hr_demo_days 0 = Inr (3000, 0)"
  by (simp add: salary_pay_def calc_gross_def days_arg_def or_zero_def to_decimal_def assert_non_neg_def hr_demo_employee_def
      hr_demo_days_def Let_def money_round_def money_plus_def d_plus_def d_minus_def d_times_def d_div_def rnd20_small to_dp20_small)

lemma hr_demo_line_create: "salary_line_create dec20 ''1''
     \<lparr>nl_employee = ''E1'', nl_project = ''P'', nl_cost_centre = ''L'', nl_purpose = ''U'',
              nl_paid_days = 1, nl_gross = 3000, nl_standard_days = Some 1,
              nl_unpaid_days = Some 0, nl_late_count = Some 0,
              nl_penalty_days = Some 0, nl_penalty_amount = Some 0\<rparr> = Inr hr_demo_line"
  by code_simp

lemma hr_demo_reads:
  "exists_draft_for_period ''C'' ''FY'' ''July'' (hr_sheets hr_demo_open) = False"
  "active_for_company ''C'' None (hr_employees hr_demo_open) = [hr_demo_employee]"
  "late_rule ''C'' (hr_settings hr_demo_open) = (default_late_threshold, 3)"
  "map snd (filter (\<lambda>r. fst r = ''C'') (hr_weekly hr_demo_open)) = [5]"
  "resolve_holiday_dates ''C'' ''2025-07-11'' ''2025-07-11'' [5] (hr_holidays hr_demo_open) = [''2025-07-11'']"
  "list_office_days ''C'' ''E1'' ''2025-07-11'' ''2025-07-11'' (hr_attendance hr_demo_open) = []"
  "office_rows ''C'' ''E1'' ''2025-07-11'' ''2025-07-11'' (hr_attendance hr_demo_open) = []"
  by code_simp+

lemma hr_demo_day_counts:
  "compute_payroll_days ''2025-07-11'' ''2025-07-11'' (Some ''2025-01-01'') None [] [''2025-07-11''] default_late_threshold = hr_demo_days"
  by code_simp

definition hr_demo_roles :: salary_account_map where
  "hr_demo_roles = \<lparr>sm_gross = ''S1'', sm_employer_pf = ''S2'', sm_payable = ''S3'', sm_tds = ''S4'', sm_pf = ''S5'', sm_advance = ''S6'',
     sm_cost_centre = ''L''\<rparr>"

lemma hr_demo_roles_found: "salary_accounts_of ''C'' (hr_config hr_demo_open) = Inr hr_demo_roles"
  by code_simp

lemma hr_demo_names:
  "ns_fy hr_demo_request = ''FY''" "ns_label hr_demo_request = ''July''" "ns_start hr_demo_request = ''2025-07-11''"
  "ns_end hr_demo_request = ''2025-07-11''" "ns_project hr_demo_request = None" "ns_purpose hr_demo_request = ''U''"
  "em_id hr_demo_employee = ''E1''" "em_joining hr_demo_employee = ''2025-01-01''" "em_project hr_demo_employee = Some ''P''"
  "sm_cost_centre hr_demo_roles = ''L''" "db_ids hr_demo_open = 1" "pd_late hr_demo_days = 0" "pd_paid hr_demo_days = 1"
  "pd_standard hr_demo_days = 1" "pd_unpaid hr_demo_days = 0" "pd_missing hr_demo_days = []" "show_nat 1 = ''1''" "show_nat 2 = ''2''"
  by code_simp+

lemma hr_demo_lines:
  "generate_lines dec20 show_nat ''C'' hr_demo_request ''L'' [''2025-07-11''] default_late_threshold 3 (hr_attendance hr_demo_open)
     [hr_demo_employee] 1 \<lparr>gn_lines = [], gn_skipped = [], gn_absences = [], gn_missing = []\<rparr> =
   Inr (\<lparr>gn_lines = [hr_demo_line], gn_skipped = [], gn_absences = [(''E1'', 0)], gn_missing = []\<rparr>, 2)"
  by (simp add: Let_def hr_demo_names [unfolded One_nat_def] hr_demo_reads hr_demo_day_counts hr_demo_pay hr_demo_line_create
      summarize_office_def primary_project_def penalty_days_def)

lemma hr_demo_sheet_made:
  "sheet_generate ''2'' ''C'' \<lparr>nh_fy = ''FY'', nh_label = ''July'', nh_start = ''2025-07-11'', nh_end = ''2025-07-11''\<rparr> [hr_demo_line]
     (sh_warnings hr_demo_sheet) = Inr hr_demo_sheet"
  "sheet_insert dec20 hr_demo_sheet (hr_sheets hr_demo_open) = Inr [hr_demo_sheet]"
  by code_simp+

lemma hr_demo_generated:
  "\<exists>x. generate_salary dec20 show_nat hr_demo_request sample_actor hr_demo_open = Inr (x, hr_demo_drafted)"
proof -
  have g: "company_gaps \<lparr>gn_lines = [hr_demo_line], gn_skipped = [], gn_absences = [(''E1'', 0)], gn_missing = []\<rparr> = []" by code_simp
  have a: "audit_record ''CREATE'' ''SalarySheet'' ''2'' sample_actor (hr_demo_open\<lparr>db_ids := 3, hr_sheets := [hr_demo_sheet]\<rparr>) = hr_demo_drafted"
    by code_simp
  have w: "sh_warnings hr_demo_sheet = Some \<lparr>pw_days_with_no_records = [], pw_skipped = [], pw_absences = [(''E1'', 0)], pw_no_weekly_holidays = False\<rparr>"
    by code_simp
  have "db_entries hr_demo_drafted = []" by code_simp
  moreover have "sh_id hr_demo_sheet = ''2''" by code_simp
  moreover have "filter (\<lambda>r. fst r = ''C'') (hr_weekly hr_demo_open) \<noteq> []" by code_simp
  ultimately show ?thesis using a
    by (simp add: generate_salary_def uow_run_def Let_def hr_demo_fields hr_demo_names hr_demo_names [unfolded One_nat_def] hr_demo_reads hr_demo_roles_found
        hr_demo_lines [unfolded One_nat_def] g hr_demo_sheet_made [unfolded w] numeral_3_eq_3
        del: generate_lines.simps)
qed

definition hr_demo_salary_cmd :: posting_command where
  "hr_demo_salary_cmd = \<lparr>pc_company = ''C'', pc_fy = ''FY'', pc_voucher_type = SALARY, pc_voucher_date = ''2025-07-11'',
     pc_source_type = ''SalarySheet'', pc_source_id = ''2'', pc_posted_by = ''U'', pc_narration = None,
     pc_lines = salary_lines dec20 hr_demo_roles (\<lambda>_. 0) [hr_demo_line]\<rparr>"

lemma hr_demo_cmd_built:
  "build_salary_command dec20 hr_demo_sheet hr_demo_roles ''C'' ''U'' (employer_pf_of ''C'' (hr_employees hr_demo_drafted)) = Inr hr_demo_salary_cmd"
  by code_simp

definition hr_demo_salary_entry :: journal_entry where
  "hr_demo_salary_entry = \<lparr>je_id = ''4'', je_company = ''C'', je_fy = ''FY'', je_no = ''SAL/2525/0001'', je_voucher_type = SALARY,
     je_voucher_date = ''2025-07-11'', je_source_type = ''SalarySheet'', je_source_id = ''2'', je_is_reversal = False,
     je_reversal_of = None, je_posted_at = 5, je_posted_by = ''U'', je_narration = None,
     je_lines = lines_of (salary_lines dec20 hr_demo_roles (\<lambda>_. 0) [hr_demo_line])\<rparr>"

definition hr_demo_booked :: hr_db where
  "hr_demo_booked = hr_demo_drafted\<lparr>db_ids := 5, db_entries := [hr_demo_salary_entry],
     db_series := [\<lparr>s_id = ''3'', s_company = ''C'', s_fy = ''FY'', s_voucher_type = SALARY, s_prefix = ''SAL'', s_padding = 4,
       s_last = 1, s_version = 1\<rparr>]\<rparr>"

definition hr_demo_posted_sheet :: salary_sheet where
  "hr_demo_posted_sheet = hr_demo_sheet\<lparr>sh_status := SheetPosted, sh_entry := Some ''4'', sh_posted_by := Some ''U'',
     sh_posted_at := Some 5, sh_version := 2, sh_lines := [hr_demo_line\<lparr>sl_version := 2\<rparr>]\<rparr>"

definition hr_demo_posted :: hr_db where
  "hr_demo_posted = audit_record ''POST'' ''SalarySheet'' ''2'' sample_actor (hr_demo_booked\<lparr>hr_sheets := [hr_demo_posted_sheet]\<rparr>)"

lemma hr_demo_salary_post: "post dec20 show_nat (erp_ports show_nat) hr_demo_salary_cmd 5 hr_demo_drafted = Inr (hr_demo_salary_entry, hr_demo_booked)"
  by code_simp

lemma hr_demo_post_reads:
  "sheet_find ''2'' ''C'' (hr_sheets hr_demo_drafted) = Some hr_demo_sheet"
  "sheet_assert_draft hr_demo_sheet = Inr ()"
  "riter (\<lambda>p. hr_assert_not_closed ''C'' p (hr_projects hr_demo_drafted)) (rev (remdups (rev (map sl_project (sh_lines hr_demo_sheet))))) = Inr ()"
  "salary_accounts_of ''C'' (hr_config hr_demo_drafted) = Inr hr_demo_roles"
  "db_entries hr_demo_drafted = []" "db_entries hr_demo_posted = [hr_demo_salary_entry]" "balance_check hr_demo_salary_entry = Inr ()"
  by code_simp+

lemma hr_demo_sheet_saved:
  "sheet_save dec20 (hr_demo_sheet\<lparr>sh_status := SheetPosted, sh_entry := Some ''4'', sh_posted_by := Some ''U'', sh_posted_at := Some 5\<rparr>) 1
     (hr_sheets hr_demo_booked) = Inr [hr_demo_posted_sheet]"
  by code_simp

lemma hr_demo_post_salary:
  "post_salary dec20 show_nat (erp_ports show_nat) ''2'' 1 sample_actor 5 hr_demo_drafted = Inr ((''4'', ''SAL/2525/0001''), hr_demo_posted)"
proof -
  have i: "je_id hr_demo_salary_entry = ''4''" "je_no hr_demo_salary_entry = ''SAL/2525/0001''" "trim ''4'' = ''4''"
    by code_simp+
  show ?thesis
    by (simp add: post_salary_def uow_run_def hr_demo_fields hr_demo_post_reads hr_demo_cmd_built hr_demo_salary_post
        sheet_mark_posted_def req_def i hr_demo_sheet_saved [unfolded One_nat_def] hr_demo_posted_def [symmetric])
qed

lemma hr_demo_posted_reachable: "rtranclp (hr_step dec20 show_nat) hr_demo_db hr_demo_posted"
proof -
  have "hr_kept hr_demo_db hr_demo_open" by (simp add: hr_kept_def hr_demo_open_def)
  then have "hr_step dec20 show_nat hr_demo_db hr_demo_open"
    by (rule h_other [OF step_period [OF step_generate [OF hr_demo_generate]]])
  moreover from hr_demo_generated obtain x where
    "generate_salary dec20 show_nat hr_demo_request sample_actor hr_demo_open = Inr (x, hr_demo_drafted)" by blast
  then have "hr_step dec20 show_nat hr_demo_open hr_demo_drafted" by (rule h_generate)
  moreover have "hr_step dec20 show_nat hr_demo_drafted hr_demo_posted" by (rule h_post [OF hr_demo_post_salary])
  ultimately show ?thesis by (meson rtranclp.rtrancl_refl rtranclp.rtrancl_into_rtrancl)
qed

end
