(* ===== verification/Hr_Pay.thy ===== *)
theory Hr_Pay
  imports Hr_Use_Cases
begin

text \<open>
  What an employee earns: the prorated wage of a month stays within the wage and within rounding of the exact
  proportion, and the late penalty never turns negative.
\<close>

lemma on_grid_mult_nat: "on_grid n x \<Longrightarrow> on_grid n (x * of_nat k)"
  unfolding on_grid_def by (metis Ints_mult Ints_of_nat mult.assoc mult.commute)

lemma on_grid_of_int: "on_grid n (of_int m)"
  using Ints_of_int [of "m * 10 ^ n", where 'a = rat] by (simp add: on_grid_def)

lemma exact_between: "on_grid 4 x \<Longrightarrow> on_grid 4 y \<Longrightarrow> 0 \<le> x \<Longrightarrow> x \<le> w \<Longrightarrow> 0 \<le> y \<Longrightarrow> y \<le> w \<Longrightarrow> w < 10 ^ 14 \<Longrightarrow> exact_range (x - y)"
  by (auto simp: exact_range_def abs_less_iff)

lemma near_trans: "\<bar>a - b\<bar> \<le> e \<Longrightarrow> \<bar>b - c\<bar> \<le> f \<Longrightarrow> e + f \<le> g \<Longrightarrow> \<bar>a - c\<bar> \<le> (g :: rat)"
  by linarith

definition prorated :: "dec_lib \<Rightarrow> money \<Rightarrow> nat \<Rightarrow> nat \<Rightarrow> money" where
  "prorated D w k n = money_round D (d_div D (d_times D w (of_nat k)) (of_nat n))"

context decimal_js begin

lemma prorated_exact_product:
  assumes "nonneg_grid w" and "w < 10 ^ 14" and "k \<le> n" and "n \<le> 100"
  shows "d_times D w (of_nat k) = w * of_nat k"
proof -
  have "w * of_nat k \<le> 10 ^ 14 * of_nat k" using assms(2) by (intro mult_right_mono) auto
  also have "\<dots> \<le> 10 ^ 14 * 100" using assms(3,4) by (intro mult_left_mono) auto
  finally have "\<bar>w * of_nat k\<bar> < 10 ^ 16 \<or> w * of_nat k = 10 ^ 16" using assms(1) by (auto simp: nonneg_grid_def)
  moreover have "w * of_nat k < 10 ^ 16" if "k \<noteq> 0"
  proof -
    have "w * of_nat k < 10 ^ 14 * of_nat k" using assms(2) that by (intro mult_strict_right_mono) auto
    also have "\<dots> \<le> 10 ^ 14 * 100" using assms(3,4) by (intro mult_left_mono) auto
    finally show ?thesis by simp
  qed
  ultimately have "exact_range (w * of_nat k)"
    using assms(1) by (cases "k = 0") (auto simp: exact_range_def nonneg_grid_def intro: on_grid_mult_nat)
  then show ?thesis by (simp add: d_times_def rnd_exact_range)
qed

lemma prorated_share:
  assumes "0 \<le> w" and "k \<le> n" and "0 < n"
  shows "0 \<le> w * of_nat k / of_nat n" and "w * of_nat k / of_nat n \<le> (w :: rat)"
  using assms by (auto simp: divide_le_eq intro!: mult_left_mono divide_nonneg_nonneg mult_nonneg_nonneg)

lemma prorated_bounds:
  assumes "nonneg_grid w" and "w < 10 ^ 14" and "k \<le> n" and "0 < n" and "n \<le> 100"
  shows "0 \<le> prorated D w k n" and "on_grid 4 (prorated D w k n)" and "prorated D w k n \<le> w"
    and "\<bar>prorated D w k n - w * of_nat k / of_nat n\<bar> \<le> 6 / 10 ^ 5" and "prorated D w n n = w"
proof -
  let ?x = "w * of_nat k / of_nat n"
  have w: "0 \<le> w" "on_grid 4 w" using assms(1) by (auto simp: nonneg_grid_def)
  have p: "prorated D w k n = half_up 4 (rnd D ?x)"
    by (simp add: prorated_def money_round_def to_dp_half_up d_div_def prorated_exact_product [OF assms(1-3,5)])
  note x = prorated_share [OF w(1) assms(3,4)]
  show "0 \<le> prorated D w k n" unfolding p by (rule half_up_nonneg [OF rnd_nonneg [OF x(1)]])
  show "on_grid 4 (prorated D w k n)" by (simp add: p)
  have e: "\<bar>rnd D ?x - ?x\<bar> \<le> 10 ^ 14 / (2 * 10 ^ 19)"
    using rnd_error [of ?x] x assms(2) by (simp add: field_simps)
  show "prorated D w k n \<le> w" unfolding p
  proof (rule half_up_le_near [OF w(2) _ w(1)])
    have "rnd D ?x - w \<le> \<bar>rnd D ?x - ?x\<bar>" using x by linarith
    with e show "(rnd D ?x - w) * 10 ^ 4 < 1 / 2" by simp
  qed
  have "\<bar>half_up 4 (rnd D ?x) - rnd D ?x\<bar> \<le> 5 / 10 ^ 5" using half_up_error [of 4 "rnd D ?x"] by simp
  then show "\<bar>prorated D w k n - ?x\<bar> \<le> 6 / 10 ^ 5" unfolding p by (rule near_trans [OF _ e]) simp
  have "rnd D w = w" using w assms(2) by (intro rnd_exact_range) (simp add: exact_range_def)
  then show "prorated D w n n = w"
    using assms w by (simp add: prorated_def money_round_def to_dp_id d_div_def prorated_exact_product)
qed

lemma prorated_mono:
  assumes "nonneg_grid w" and "w < 10 ^ 14" and "j \<le> k" and "k \<le> n" and "0 < n" and "n \<le> 100"
  shows "prorated D w j n \<le> prorated D w k n"
proof (cases "j = k")
  case False
  let ?y = "w * of_nat j / of_nat n" and ?x = "w * of_nat k / of_nat n"
  have w: "0 \<le> w" using assms(1) by (simp add: nonneg_grid_def)
  have p: "prorated D w i n = half_up 4 (rnd D (w * of_nat i / of_nat n))" if "i \<le> n" for i
    by (simp add: prorated_def money_round_def to_dp_half_up d_div_def prorated_exact_product [OF assms(1,2) that assms(6)])
  have "?y + w / of_nat n = w * (of_nat j + 1) / of_nat n" by (simp add: field_simps add_divide_distrib)
  also have "\<dots> \<le> ?x"
  proof -
    have "of_nat j + 1 \<le> (of_nat k :: rat)" using False assms(3) by (metis Suc_leI le_neq_implies_less of_nat_Suc of_nat_le_iff add.commute)
    with w assms(5) show ?thesis by (intro divide_right_mono mult_left_mono) auto
  qed
  finally have d: "?y + w / of_nat n \<le> ?x" .
  have s: "0 \<le> ?y" "?y \<le> w" "0 \<le> ?x" "?x \<le> w"
    using prorated_share [OF w _ assms(5)] assms(3,4) by (meson le_trans)+
  have n: "w / 100 \<le> w / of_nat n" using w assms(5,6) by (intro divide_left_mono) auto
  have r: "\<bar>rnd D z - z\<bar> \<le> w / (2 * 10 ^ 19)" if "0 \<le> z" "z \<le> w" for z
    using rnd_error [of z] divide_right_mono [OF that(2), of "2 * 10 ^ 19"] that by simp
  have "rnd D ?y \<le> ?y + w / (2 * 10 ^ 19)" using r [OF s(1,2)] by linarith
  moreover have "?x - w / (2 * 10 ^ 19) \<le> rnd D ?x" using r [OF s(3,4)] by linarith
  ultimately have "rnd D ?y \<le> rnd D ?x" using d n w by simp
  then show ?thesis using assms by (simp add: p half_up_mono)
qed simp

text \<open>A month's salary is the prorated wage for the days left after the penalty.\<close>

lemma payable_days:
  assumes "0 \<le> paid" and "paid \<le> 100" and "0 \<le> f" and "f \<le> 100"
  shows "max (d_minus D (of_int paid) (of_int f)) 0 = of_nat (nat (max 0 (paid - f)))"
proof -
  have "exact_range (of_int paid - of_int f)"
    by (rule exact_between [of _ _ 100]) (use assms in \<open>auto simp: on_grid_of_int\<close>)
  then show ?thesis by (simp add: minus_exact max_def)
qed

lemma monthly_gross:
  assumes "em_wage_type e = ''MONTHLY''" and "0 < pd_standard p" and "0 \<le> pd_paid p" and "pd_paid p \<le> 100" and "0 \<le> f" and "f \<le> 100"
    and "nonneg_grid (em_wage e)" and "em_wage e < 10 ^ 14" and "pd_paid p \<le> int (pd_standard p)" and "pd_standard p \<le> 100"
  shows "calc_gross D \<lparr>ep_wage_type = em_wage_type e, ep_wage = em_wage e\<rparr>
      \<lparr>as_paid = Dec (of_int (pd_paid p)), as_standard = Dec (of_nat (pd_standard p)),
       as_attended = Dec (of_nat (pd_attended p)), as_overtime = Some (Dec 0), as_penalty = Some (Dec (of_int f))\<rparr> =
    Inr (prorated D (em_wage e) (nat (max 0 (pd_paid p - f))) (pd_standard p))"
proof -
  let ?k = "nat (max 0 (pd_paid p - f))"
  have "?k \<le> pd_standard p" using assms(5,9) by auto
  note b = prorated_bounds [OF assms(7,8) this assms(2,10)]
  have "exact_range (prorated D (em_wage e) ?k (pd_standard p))" using b(1,2,3) assms(8) by (auto simp: exact_range_def)
  then show ?thesis using assms payable_days [OF assms(3-6)]
    by (simp add: calc_gross_def days_arg_def or_zero_def to_decimal_def assert_non_neg_def Let_def prorated_def money_round_def
        money_plus_def plus_exact to_dp_id)
qed

lemma monthly_pay:
  assumes "em_wage_type e = ''MONTHLY''" and "0 < pd_standard p" and "0 \<le> pd_paid p" and "0 \<le> f" and "f \<le> 100"
    and "nonneg_grid (em_wage e)" and "em_wage e < 10 ^ 14" and "pd_paid p \<le> int (pd_standard p)" and "pd_standard p \<le> 100"
  shows "salary_pay D e p f = Inr (prorated D (em_wage e) (nat (max 0 (pd_paid p - f))) (pd_standard p),
    prorated D (em_wage e) (nat (pd_paid p)) (pd_standard p) - prorated D (em_wage e) (nat (max 0 (pd_paid p - f))) (pd_standard p))"
proof -
  let ?p = "\<lambda>k. prorated D (em_wage e) k (pd_standard p)"
  have le: "pd_paid p \<le> 100" using assms(8,9) by linarith
  note g = monthly_gross [OF assms(1-3) le _ _ assms(6-9)]
  have k: "nat (max 0 (pd_paid p - f)) \<le> nat (pd_paid p)" "nat (pd_paid p) \<le> pd_standard p" using assms(4,8) by auto
  note b = prorated_bounds [OF assms(6,7) _ assms(2,9)]
  have "exact_range (?p (nat (pd_paid p)) - ?p (nat (max 0 (pd_paid p - f))))"
    by (rule exact_between [OF b(2) [OF k(2)] b(2) [OF le_trans [OF k]] b(1) [OF k(2)] b(3) [OF k(2)] b(1) [OF le_trans [OF k]]
          b(3) [OF le_trans [OF k]] assms(7)])
  then have m: "money_minus D (?p (nat (pd_paid p))) (?p (nat (max 0 (pd_paid p - f)))) = ?p (nat (pd_paid p)) - ?p (nat (max 0 (pd_paid p - f)))"
    by (simp add: money_minus_def minus_exact)
  have z: "max 0 (pd_paid p) = pd_paid p" using assms(3) by simp
  show ?thesis
  proof (cases "0 < f")
    case True
    with g [of f] g [of 0] assms(1,4,5) m z show ?thesis by (simp add: salary_pay_def Let_def)
  next
    case False
    with assms(4) have "f = 0" by simp
    with g [of 0] z show ?thesis by (simp add: salary_pay_def Let_def)
  qed
qed

end

text \<open>The days of a period stay within it.\<close>

lemma payroll_day_bounds:
  assumes "good_day a" and "good_day b" and "\<forall>j. joined = Some j \<longrightarrow> good_day j"
    and "p = compute_payroll_days (iso a) (iso b) (map_option iso joined) None days holidays th"
  shows "0 \<le> pd_paid p" and "pd_paid p \<le> int (pd_standard p)" and "pd_late p \<le> pd_standard p"
proof -
  note l = payroll_days_lists [OF assms refl refl]
  have "pd_unpaid p \<le> pd_standard p" unfolding l(1,3) by (rule le_trans [OF length_filter_le length_filter_le])
  then show "0 \<le> pd_paid p" "pd_paid p \<le> int (pd_standard p)" unfolding l(7) by simp_all
  show "pd_late p \<le> pd_standard p" unfolding l(1,4) by (rule le_trans [OF length_filter_le length_filter_le])
qed

lemma penalty_day_bounds: "0 \<le> penalty_days n per" "penalty_days n per \<le> int n"
proof -
  show "0 \<le> penalty_days n per" by (simp add: penalty_days_def pos_imp_zdiv_nonneg_iff)
  have "int n div max 1 per \<le> int n div 1" by (rule zdiv_mono2) auto
  then show "penalty_days n per \<le> int n" by (simp add: penalty_days_def)
qed

section \<open>A joiner after the period\<close>

lemma late_joiner_pay:
  assumes "em_wage_type e = ''MONTHLY''" and "pd_standard p = 0"
  shows "salary_pay D e p f = Inl (ValidationError ''standardDays'')"
  using assms by (simp add: salary_pay_def Let_def calc_gross_def days_arg_def or_zero_def to_decimal_def assert_non_neg_def)

lemma late_joiner_days:
  assumes "good_day a" and "good_day b" and "good_day j" and "b < j"
  shows "pd_standard (compute_payroll_days (iso a) (iso b) (Some (iso j)) None days holidays th) = 0"
proof -
  have "\<forall>x. Some j = Some x \<longrightarrow> good_day x" using assms(3) by simp
  from payroll_days_cards(1) [OF assms(1,2) this refl refl] have
    "pd_standard (compute_payroll_days (iso a) (iso b) (Some (iso j)) None days holidays th) = card (employed_days a b (Some j))"
    by simp
  also have "employed_days a b (Some j) = {}" using assms(4) by (auto simp: employed_days_def)
  finally show ?thesis by simp
qed

lemma generate_lines_pays:
  "generate_lines D mk co inp cc holidays th per att es n g = Inr r \<Longrightarrow> e \<in> set es \<Longrightarrow>
   \<exists>days f q. salary_pay D e (compute_payroll_days (ns_start inp) (ns_end inp) (Some (em_joining e)) None days holidays th) f = Inr q"
proof (induction es arbitrary: n g)
  case (Cons x xs)
  from Cons.prems(1) obtain q n' g' where
    q: "salary_pay D x (compute_payroll_days (ns_start inp) (ns_end inp) (Some (em_joining x)) None
          (list_office_days co (em_id x) (ns_start inp) (ns_end inp) att) holidays th)
        (penalty_days (pd_late (compute_payroll_days (ns_start inp) (ns_end inp) (Some (em_joining x)) None
          (list_office_days co (em_id x) (ns_start inp) (ns_end inp) att) holidays th)) per) = Inr q"
    and r: "generate_lines D mk co inp cc holidays th per att xs n' g' = Inr r"
    by (auto simp: Let_def elim!: rbindE split: prod.splits if_splits)
  show ?case
  proof (cases "e = x")
    case True
    with q show ?thesis by blast
  next
    case False
    with Cons.prems(2) have "e \<in> set xs" by simp
    from Cons.IH [OF r this] show ?thesis .
  qed
qed simp

end
