(* ===== verification/Hr_Books.thy ===== *)
theory Hr_Books
  imports Hr_Demo_Sheet Hr_Pay "HOL-Library.Multiset"
begin

text \<open>
  The properties of the HR module over every run: confirmed labour and posted salary are final and stand in the
  ledger, payables are settled up to what was accrued, and what a sheet pays each employee.
\<close>

section \<open>Over every run\<close>

lemma hr_reachable_inv:
  "decimal_js D \<Longrightarrow> inj mk \<Longrightarrow> empty_hr z \<Longrightarrow> rtranclp (hr_step D mk) z s \<Longrightarrow> hr_inv D mk s"
  using hr_run_safe hr_inv_empty by (blast intro: hr_safe_def [THEN iffD1, THEN conjunct1])

text \<open>
  C28. Confirmed labour, posted salary and their payables are final: whatever operations follow, a confirmed
  attendance row stays as it is (its rate and head count are never edited), so does a posted salary sheet, every
  ledger entry stays, and a labour payable keeps its entry and its accrued amount while its settled amount only grows.
\<close>

theorem hr_facts_are_final:
  assumes "decimal_js D" and "inj mk" and "empty_hr z" and "rtranclp (hr_step D mk) z s" and "rtranclp (hr_step D mk) s s'"
  shows "set (db_entries s) \<subseteq> set (db_entries s') \<and>
    (\<forall>a \<in> set (hr_attendance s). at_confirmed a \<longrightarrow> a \<in> set (hr_attendance s')) \<and>
    (\<forall>h \<in> set (hr_sheets s). sh_status h = SheetPosted \<longrightarrow> h \<in> set (hr_sheets s')) \<and>
    (\<forall>p \<in> set (hr_payables s). \<exists>q \<in> set (hr_payables s'). lp_id q = lp_id p \<and> lp_entry q = lp_entry p \<and>
       lp_accrued q = lp_accrued p \<and> lp_settled p \<le> lp_settled q)"
proof -
  have "hr_frozen s s'"
    using hr_run_safe [OF assms(1,5) hr_reachable_inv [OF assms(1-4)]] by (simp add: hr_safe_def)
  then show ?thesis unfolding hr_frozen_def payable_later_def by fastforce
qed

theorem hr_facts_are_final_witness:
  "\<exists>s'. rtranclp (hr_step dec20 show_nat) hr_demo_confirmed s' \<and> hr_demo_done \<in> set (hr_attendance s')"
proof -
  have r: "rtranclp (hr_step dec20 show_nat) hr_demo_db hr_demo_confirmed"
    by (rule rtranclp.rtrancl_into_rtrancl [OF hr_demo_captured_reachable hr_demo_confirm_step])
  have "hr_demo_done \<in> set (hr_attendance hr_demo_confirmed)" "at_confirmed hr_demo_done"
    by (simp_all add: hr_demo_confirmed_def hr_demo_done_def)
  with hr_facts_are_final [OF decimal_js_dec20 inj_show_nat hr_demo_empty r rtranclp.rtrancl_refl] show ?thesis by blast
qed

text \<open>
  C29. Every confirmed head count stands in the ledger and is owed: a row is confirmed exactly with one entry that
  debits the labour cost and credits the labour payable with the rounded product of its rate and head count, and one
  payable over that amount.  No two payables share an entry, and a payable's settled amount lies between zero
  and the accrued amount with the status that follows from it.
\<close>

theorem confirmed_labour_is_owed:
  assumes "decimal_js D" and "inj mk" and "empty_hr z" and "rtranclp (hr_step D mk) z s"
  shows "(\<forall>a \<in> set (hr_attendance s). at_confirmed a \<longrightarrow> (\<exists>e \<in> set (db_entries s). \<exists>p \<in> set (hr_payables s). \<exists>m l.
       at_entry a = Some (trim (je_id e)) \<and> je_source_id e = at_id a \<and> accrual_line_for D a = Inr l \<and>
       je_lines e = lines_of (accrual_pair m l) \<and> lp_entry p = je_id e \<and> lp_accrued p = al_cost l)) \<and>
    distinct (map lp_entry (hr_payables s)) \<and>
    (\<forall>p \<in> set (hr_payables s). 0 \<le> lp_settled p \<and> lp_settled p \<le> lp_accrued p \<and>
       lp_status p = derive_payable_status (lp_settled p) (lp_accrued p) \<and>
       (\<exists>e \<in> set (db_entries s). je_id e = lp_entry p \<and> sum_list (map jl_debit (je_lines e)) = lp_accrued p))"
proof -
  note inv = hr_invD(2) [OF hr_reachable_inv [OF assms]]
  have "accrual_backed D (db_entries s) (hr_payables s) a" if "a \<in> set (hr_attendance s)" "at_confirmed a" for a
    using inv that by (simp add: hr_sound_def labour_row_ok_def)
  then have rows: "\<exists>e \<in> set (db_entries s). \<exists>p \<in> set (hr_payables s). \<exists>m l.
       at_entry a = Some (trim (je_id e)) \<and> je_source_id e = at_id a \<and> accrual_line_for D a = Inr l \<and>
       je_lines e = lines_of (accrual_pair m l) \<and> lp_entry p = je_id e \<and> lp_accrued p = al_cost l"
    if "a \<in> set (hr_attendance s)" "at_confirmed a" for a
    using that unfolding accrual_backed_def hr_voucher_def by meson
  have pays: "0 \<le> lp_settled p \<and> lp_settled p \<le> lp_accrued p \<and>
       lp_status p = derive_payable_status (lp_settled p) (lp_accrued p) \<and>
       (\<exists>e \<in> set (db_entries s). je_id e = lp_entry p \<and> sum_list (map jl_debit (je_lines e)) = lp_accrued p)"
    if "p \<in> set (hr_payables s)" for p
  proof -
    from inv that have "payable_ok (db_entries s) p" by (simp add: hr_sound_def)
    then show ?thesis unfolding payable_ok_def nonneg_grid_def by metis
  qed
  have "distinct (map lp_entry (hr_payables s))" using inv by (simp add: hr_sound_def)
  with rows pays show ?thesis by blast
qed

theorem confirmed_labour_is_owed_witness:
  "lp_accrued hr_demo_payable = 2600 \<and> (\<exists>p \<in> set (hr_payables hr_demo_confirmed). lp_entry p = je_id hr_demo_entry)"
proof -
  have r: "rtranclp (hr_step dec20 show_nat) hr_demo_db hr_demo_confirmed"
    by (rule rtranclp.rtrancl_into_rtrancl [OF hr_demo_captured_reachable hr_demo_confirm_step])
  have "hr_demo_done \<in> set (hr_attendance hr_demo_confirmed)" "at_confirmed hr_demo_done"
    by (simp_all add: hr_demo_confirmed_def hr_demo_done_def)
  with confirmed_labour_is_owed [OF decimal_js_dec20 inj_show_nat hr_demo_empty r] obtain e p where
    e: "e \<in> set (db_entries hr_demo_confirmed)" "p \<in> set (hr_payables hr_demo_confirmed)" "lp_entry p = je_id e" by blast
  then have "e = hr_demo_entry" by (simp add: hr_demo_fields)
  with e show ?thesis by (auto simp: hr_demo_payable_def)
qed

text \<open>
  C30. A financial year's period has at most one draft salary sheet per company and label, and every posted sheet
  stands in the ledger: its entry is there, belongs to the sheet and holds exactly the salary lines of the sheet.
\<close>

theorem posted_salary_is_in_the_ledger:
  assumes "decimal_js D" and "inj mk" and "empty_hr z" and "rtranclp (hr_step D mk) z s"
  shows "distinct (map (\<lambda>h. (sh_company h, sh_fy h, sh_label h)) (filter (\<lambda>h. sh_status h = SheetDraft) (hr_sheets s))) \<and>
    (\<forall>h \<in> set (hr_sheets s). sh_status h = SheetPosted \<longrightarrow> (\<exists>e \<in> set (db_entries s). \<exists>m staff.
       sh_entry h = Some (trim (je_id e)) \<and> je_source_id e = sh_id h \<and> je_company e = sh_company h \<and>
       je_lines e = map (stored_line D) (lines_of (salary_lines D m (employer_pf_of (sh_company h) staff) (sh_lines h)))))"
proof -
  note inv = hr_invD(2) [OF hr_reachable_inv [OF assms]]
  have k: "(\<lambda>h. (sh_company h, sh_fy h, sh_label h)) = period_key" by (simp add: period_key_def fun_eq_iff)
  have "sheet_backed D (db_entries s) h" if "h \<in> set (hr_sheets s)" "sh_status h = SheetPosted" for h
    using inv that by (simp add: hr_sound_def sheet_ok_def)
  then show ?thesis using inv unfolding k hr_sound_def sheet_backed_def hr_voucher_def by blast
qed

theorem posted_salary_is_in_the_ledger_witness:
  "\<exists>e \<in> set (db_entries hr_demo_posted). je_source_id e = ''2'' \<and> je_company e = ''C''"
proof -
  have "hr_demo_posted_sheet \<in> set (hr_sheets hr_demo_posted)" "sh_status hr_demo_posted_sheet = SheetPosted"
    "sh_id hr_demo_posted_sheet = ''2''" "sh_company hr_demo_posted_sheet = ''C''"
    by (simp_all add: hr_demo_posted_def hr_demo_posted_sheet_def hr_demo_sheet_def)
  with posted_salary_is_in_the_ledger [OF decimal_js_dec20 inj_show_nat hr_demo_empty hr_demo_posted_reachable]
  show ?thesis by metis
qed

section \<open>Settling a payable\<close>

text \<open>The settlements of one payable, one transaction each, in the order they come.\<close>

fun settle_all :: "dec_lib \<Rightarrow> string \<Rightarrow> string \<Rightarrow> money list \<Rightarrow> 'a hr_db_scheme \<Rightarrow> domain_error + 'a hr_db_scheme" where
  "settle_all D co entry_id [] s = Inr s"
| "settle_all D co entry_id (x # xs) s = rbind (apply_settlement D co entry_id x None s) (\<lambda>(u, s1). settle_all D co entry_id xs s1)"

definition settled_after :: "money list \<Rightarrow> labour_payable \<Rightarrow> labour_payable" where
  "settled_after xs p = (let x = min (lp_accrued p) (lp_settled p + sum_list xs) in
     p\<lparr>lp_settled := x, lp_status := derive_payable_status x (lp_accrued p), lp_version := lp_version p + length xs\<rparr>)"

lemma settled_after_Nil: "payable_ok es p \<Longrightarrow> settled_after [] p = p"
  by (cases p) (auto simp: settled_after_def payable_ok_def Let_def)

lemma settled_after_Cons: "0 \<le> sum_list xs \<Longrightarrow> settled_after xs (settled_row x p) = settled_after (x # xs) p"
  by (cases p) (auto simp: settled_after_def settled_row_def settled_by_def Let_def min_def add.assoc)

lemma payable_find:
  assumes "distinct (map lp_entry tbl)" and "p \<in> set tbl" and "lp_company p = co" and "lp_entry p = i"
  shows "payable_by_entry co i tbl = Some p"
proof -
  have "payable_by_entry co i tbl \<noteq> None"
    using assms(2-4) by (auto simp: payable_by_entry_def find_None_iff)
  then obtain q where q: "payable_by_entry co i tbl = Some q" by blast
  from payable_by_entry_Some [OF q] have "q \<in> set tbl" "lp_entry q = lp_entry p" by (simp_all add: assms(4))
  then have "q = p" by (rule distinct_map_inj [OF assms(1) _ assms(2)])
  with q show ?thesis by simp
qed

context decimal_js begin

lemma settled_row_checks: "payable_ok es p \<Longrightarrow> payable_checks p = Inr ()"
  by (auto simp: payable_ok_def payable_checks_def nonneg_grid_def in_money_column_def)

lemma settle_once:
  assumes "hr_sound D (db_entries s) (hr_attendance s) (hr_payables s) (hr_sheets s)" and "p \<in> set (hr_payables s)"
    and "on_grid 4 x" and "0 \<le> x"
  shows "apply_settlement D (lp_company p) (lp_entry p) x None s =
    Inr ((), s\<lparr>hr_payables := update_where (\<lambda>r. r = p) (settled_row x) (hr_payables s)\<rparr>)"
proof -
  from assms(1) have d: "distinct (map lp_entry (hr_payables s))" "distinct (map lp_id (hr_payables s))" by (simp_all add: hr_sound_def)
  from assms(1,2) have ok: "payable_ok (db_entries s) p" by (simp add: hr_sound_def)
  let ?q = "settled_by x p"
  let ?hit = "\<lambda>r. lp_id r = lp_id ?q \<and> lp_company r = lp_company ?q \<and> lp_version r = lp_version ?q"
  let ?new = "\<lambda>r. r\<lparr>lp_settled := to_dp D 4 (lp_settled ?q), lp_status := lp_status ?q, lp_version := lp_version ?q + 1\<rparr>"
  have q: "lp_id ?q = lp_id p" "lp_company ?q = lp_company p" "lp_version ?q = lp_version p" by (simp_all add: settled_by_def Let_def)
  have h: "list_ex ?hit (hr_payables s)" using assms(2) q by (auto simp: list_ex_iff)
  have u: "\<And>r. ?hit r \<Longrightarrow> lp_id r = lp_id p" using q by simp
  have "on_grid 4 (min (lp_accrued p) (lp_settled p + x))"
    using ok assms(3) by (auto simp: payable_ok_def nonneg_grid_def intro!: on_grid_min on_grid_add)
  then have new: "?new p = settled_row x p" by (simp add: settled_by_def settled_row_def Let_def to_dp_id)
  have "payable_checks (settled_row x p) = Inr ()" by (rule settled_row_checks [OF settled_row_ok [OF ok assms(3,4)]])
  moreover have "filter ?hit (hr_payables s) = [p]" by (rule hit_unique(2) [OF d(2) assms(2) u h])
  ultimately have c: "riter (\<lambda>r. payable_checks (?new r)) (filter ?hit (hr_payables s)) = Inr ()"
    by (simp only: riter.simps new rbind_Inr)
  have t: "update_where ?hit ?new (hr_payables s) = update_where (\<lambda>r. r = p) (settled_row x) (hr_payables s)"
  proof -
    have "update_where ?hit ?new (hr_payables s) = update_where (\<lambda>r. r = p) ?new (hr_payables s)"
      by (rule hit_unique(3) [OF d(2) assms(2) u h])
    also have "\<dots> = update_where (\<lambda>r. r = p) (settled_row x) (hr_payables s)"
      unfolding update_where_def by (rule map_cong [OF refl]) (use new in auto)
    finally show ?thesis .
  qed
  have "payable_save D ?q (lp_version ?q) (hr_payables s) = Inr (update_where (\<lambda>r. r = p) (settled_row x) (hr_payables s))"
    unfolding payable_save_def Let_def t using h c by simp
  then show ?thesis
    by (simp add: apply_settlement_def uow_run_def payable_find [OF d(1) assms(2) refl refl] settle_exact [OF ok assms(3,4)])
qed

lemma settle_all_exact:
  assumes "hr_inv D mk s" and "p \<in> set (hr_payables s)" and "\<forall>x \<in> set xs. on_grid 4 x \<and> 0 \<le> x"
  shows "settle_all D (lp_company p) (lp_entry p) xs s =
    Inr (s\<lparr>hr_payables := update_where (\<lambda>r. r = p) (settled_after xs) (hr_payables s)\<rparr>)"
  using assms
proof (induction xs arbitrary: s p)
  case Nil
  then have "payable_ok (db_entries s) p" using hr_invD(2) [OF Nil(1)] by (simp add: hr_sound_def)
  then have "update_where (\<lambda>r. r = p) (settled_after []) (hr_payables s) = hr_payables s"
    by (simp add: update_where_def settled_after_Nil cong: if_cong)
  then show ?case by simp
next
  case (Cons x xs)
  note inv = hr_invD [OF Cons.prems(1)]
  from Cons.prems(3) have x: "on_grid 4 x" "0 \<le> x" and xs: "\<forall>x \<in> set xs. on_grid 4 x \<and> 0 \<le> x" by simp_all
  let ?t = "s\<lparr>hr_payables := update_where (\<lambda>r. r = p) (settled_row x) (hr_payables s)\<rparr>" and ?q = "settled_row x p"
  note one = settle_once [OF inv(2) Cons.prems(2) x]
  have t: "hr_inv D mk ?t" using settle_safe [OF one x(1) Cons.prems(1)] by (simp add: hr_safe_def)
  have q: "?q \<in> set (hr_payables ?t)" using Cons.prems(2) by (simp add: update_one_new)
  have keys: "lp_company ?q = lp_company p" "lp_entry ?q = lp_entry p" "lp_id ?q = lp_id p"
    by (simp_all add: settled_row_def settled_by_def Let_def)
  have "r \<noteq> ?q" if "r \<in> set (hr_payables s)" "r \<noteq> p" for r
    using distinct_map_inj [OF inv(4) that(1) Cons.prems(2)] that(2) keys(3) by metis
  moreover have "0 \<le> sum_list xs" using xs by (intro sum_list_nonneg) simp
  ultimately have "update_where (\<lambda>r. r = ?q) (settled_after xs) (update_where (\<lambda>r. r = p) (settled_row x) (hr_payables s)) =
      update_where (\<lambda>r. r = p) (settled_after (x # xs)) (hr_payables s)"
    by (auto simp: update_where_def settled_after_Cons)
  then show ?case using Cons.IH [OF t q xs] by (simp add: one keys)
qed

end

text \<open>
  C31. Settlements of a payable accumulate and never overshoot: any list of non-negative settlements of a payable is
  accepted, one transaction each, and leaves that payable settled by the smaller of the accrued amount and the sum, with
  the status that follows, and no other payable changed; the order of the settlements makes no difference.
\<close>

theorem settlements_accumulate:
  assumes "decimal_js D" and "inj mk" and "empty_hr z" and "rtranclp (hr_step D mk) z s" and "p \<in> set (hr_payables s)"
    and "\<forall>x \<in> set xs. on_grid 4 x \<and> 0 \<le> x" and "mset ys = mset xs"
  shows "settle_all D (lp_company p) (lp_entry p) xs s = Inr (s\<lparr>hr_payables := update_where (\<lambda>r. r = p)
      (\<lambda>_. let x = min (lp_accrued p) (lp_settled p + sum_list xs) in
        p\<lparr>lp_settled := x, lp_status := derive_payable_status x (lp_accrued p), lp_version := lp_version p + length xs\<rparr>) (hr_payables s)\<rparr>) \<and>
    settle_all D (lp_company p) (lp_entry p) ys s = settle_all D (lp_company p) (lp_entry p) xs s"
proof -
  note e = decimal_js.settle_all_exact [OF assms(1) hr_reachable_inv [OF assms(1-4)] assms(5)]
  have y: "\<forall>x \<in> set ys. on_grid 4 x \<and> 0 \<le> x" using assms(6) arg_cong [OF assms(7), of set_mset] by simp
  have "settled_after ys = settled_after xs"
    using assms(7) by (simp add: settled_after_def fun_eq_iff flip: sum_mset_sum_list size_mset)
  with e [OF y] e [OF assms(6)] show ?thesis by (simp add: settled_after_def update_where_def cong: if_cong)
qed

theorem settlements_accumulate_witness:
  "settle_all dec20 ''C'' ''3'' [1000, 2000] hr_demo_confirmed = settle_all dec20 ''C'' ''3'' [2000, 1000] hr_demo_confirmed \<and>
   (\<exists>s'. settle_all dec20 ''C'' ''3'' [2000, 1000] hr_demo_confirmed = Inr s')"
proof -
  have r: "rtranclp (hr_step dec20 show_nat) hr_demo_db hr_demo_confirmed"
    by (rule rtranclp.rtrancl_into_rtrancl [OF hr_demo_captured_reachable hr_demo_confirm_step])
  have p: "hr_demo_payable \<in> set (hr_payables hr_demo_confirmed)" "lp_company hr_demo_payable = ''C''" "lp_entry hr_demo_payable = ''3''"
    by (simp_all add: hr_demo_confirmed_def hr_demo_payable_def)
  have g: "\<forall>x \<in> set [2000, 1000 :: rat]. on_grid 4 x \<and> 0 \<le> x" by code_simp
  from settlements_accumulate [OF decimal_js_dec20 inj_show_nat hr_demo_empty r p(1) g, of "[1000, 2000]"] p(2,3)
  show ?thesis by auto
qed

section \<open>What a sheet pays\<close>

text \<open>
  C32. A monthly salary never leaves the wage: for a period of up to a hundred days the gross lies between zero
  and the monthly wage, is within 0.00006 of the exact proportion of the days left after the late penalty, and equals
  the wage exactly for a full period without a penalty; the penalty is never negative, and gross and penalty add up to
  the pay without it.
\<close>

theorem monthly_pay_within_the_wage:
  assumes "decimal_js D" and "good_day a" and "good_day b" and "good_day j" and "em_wage_type e = ''MONTHLY''"
    and "nonneg_grid (em_wage e)" and "em_wage e < 10 ^ 14"
    and "p = compute_payroll_days (iso a) (iso b) (Some (iso j)) None days holidays th"
    and "0 < pd_standard p" and "pd_standard p \<le> 100" and "f = penalty_days (pd_late p) per"
  shows "\<exists>gross cost. salary_pay D e p f = Inr (gross, cost) \<and> 0 \<le> gross \<and> 0 \<le> cost \<and> gross + cost \<le> em_wage e \<and>
    \<bar>gross - em_wage e * of_int (max 0 (pd_paid p - f)) / of_nat (pd_standard p)\<bar> \<le> 6 / 10 ^ 5 \<and>
    \<bar>gross + cost - em_wage e * of_int (pd_paid p) / of_nat (pd_standard p)\<bar> \<le> 6 / 10 ^ 5 \<and>
    (pd_unpaid p = 0 \<and> f = 0 \<longrightarrow> gross = em_wage e)"
proof -
  have p: "p = compute_payroll_days (iso a) (iso b) (map_option iso (Some j)) None days holidays th" using assms(8) by simp
  have js: "\<forall>x. Some j = Some x \<longrightarrow> good_day x" using assms(4) by simp
  note d = payroll_day_bounds [OF assms(2,3) js p]
  have f: "0 \<le> f" "f \<le> 100" using penalty_day_bounds [of "pd_late p" per] d(3) assms(10,11) by auto
  let ?p = "\<lambda>k. prorated D (em_wage e) k (pd_standard p)"
  let ?k = "nat (max 0 (pd_paid p - f))" and ?n = "nat (pd_paid p)"
  have k: "?k \<le> ?n" "?n \<le> pd_standard p" using d(2) f(1) by auto
  note pay = decimal_js.monthly_pay [OF assms(1,5,9) d(1) f assms(6,7) d(2) assms(10)]
  note b = decimal_js.prorated_bounds [OF assms(1,6,7) _ assms(9,10)]
  have le: "?p ?k \<le> ?p ?n" by (rule decimal_js.prorated_mono [OF assms(1,6,7) k assms(9,10)])
  have full: "?p ?k = em_wage e" if "pd_unpaid p = 0" "f = 0"
  proof -
    have "pd_paid p = int (pd_standard p)" using that(1) payroll_days_lists(7) [OF assms(2,3) js p refl refl] by simp
    then show ?thesis using that(2) b(5) [OF order.refl] by simp
  qed
  have i: "rat_of_nat ?k = of_int (max 0 (pd_paid p - f))" "rat_of_nat ?n = of_int (pd_paid p)" using d(1) by simp_all
  show ?thesis
    using pay le full b(1) [OF le_trans [OF k]] b(3) [OF k(2)] b(4) [OF le_trans [OF k]] b(4) [OF k(2)] unfolding i
    by (intro exI [of _ "?p ?k"] exI [of _ "?p ?n - ?p ?k"]) auto
qed


theorem monthly_pay_within_the_wage_witness:
  "\<exists>gross cost. salary_pay dec20 hr_demo_employee hr_demo_days 0 = Inr (gross, cost) \<and> gross = 3000 \<and> 0 \<le> cost"
proof -
  have g: "good_day (2025, 7, 11)" "good_day (2025, 1, 1)" by code_simp+
  have i: "iso (2025, 7, 11) = ''2025-07-11''" "iso (2025, 1, 1) = ''2025-01-01''" by code_simp+
  have e: "em_wage_type hr_demo_employee = ''MONTHLY''" "em_wage hr_demo_employee = 3000" by (simp_all add: hr_demo_employee_def)
  have w: "nonneg_grid (em_wage hr_demo_employee)" "em_wage hr_demo_employee < 10 ^ 14" unfolding e by (code_simp, simp)
  have d: "0 < pd_standard hr_demo_days" "pd_standard hr_demo_days \<le> 100" "0 = penalty_days (pd_late hr_demo_days) 3"
    "pd_unpaid hr_demo_days = 0" by code_simp+
  from monthly_pay_within_the_wage [OF decimal_js_dec20 g(1,1,2) e(1) w hr_demo_day_counts [folded i, symmetric] d(1-3)] d(4) e(2)
  show ?thesis by auto
qed

text \<open>
  C33. One late joiner blocks the whole sheet: when an active monthly employee of the company joins only after the
  period ends, generating the salary of the period fails for everybody, whatever the other employees earn.
\<close>

theorem late_joiner_blocks_generation:
  assumes "good_day a" and "good_day b" and "good_day j" and "b < j" and "ns_start inp = iso a" and "ns_end inp = iso b"
    and "e \<in> set (hr_employees s)" and "em_company e = act_company act" and "em_active e" and "em_wage_type e = ''MONTHLY''"
    and "em_joining e = iso j" and "ns_project inp = None \<or> em_project e = ns_project inp"
  shows "\<exists>err. generate_salary D mk inp act s = Inl err"
proof -
  have e: "e \<in> set (active_for_company (act_company act) (ns_project inp) (hr_employees s))"
    using assms(7-9,12) by (auto simp: active_for_company_def truthy_def)
  show ?thesis
  proof (cases "generate_salary D mk inp act s")
    case (Inr x)
    obtain y s' where "x = (y, s')" by (cases x)
    with uow_run_InrD [OF Inr [unfolded generate_salary_def this], THEN conjunct1] obtain cc holidays th per n g r where
      "generate_lines D mk (act_company act) inp cc holidays th per (hr_attendance s)
         (active_for_company (act_company act) (ns_project inp) (hr_employees s)) n g = Inr r"
      by (auto simp: Let_def elim!: rbindE split: prod.splits)
    from generate_lines_pays [OF this e] late_joiner_pay [OF assms(10) late_joiner_days [OF assms(1-4)]]
    show ?thesis by (simp add: assms(5,6,11))
  qed simp
qed

definition hr_demo_joiner :: hr_db where
  "hr_demo_joiner = hr_demo_open\<lparr>hr_employees := [hr_demo_employee, hr_demo_employee\<lparr>em_id := ''E2'', em_code := ''002'', em_joining := ''2025-07-12''\<rparr>]\<rparr>"

theorem late_joiner_blocks_generation_witness:
  "\<exists>err. generate_salary dec20 show_nat hr_demo_request sample_actor hr_demo_joiner = Inl err"
proof -
  have g: "good_day (2025, 7, 11)" "good_day (2025, 7, 12)" "(2025, 7, 11) < (2025 :: int, 7 :: int, 12 :: int)" by code_simp+
  have i: "iso (2025, 7, 11) = ''2025-07-11''" "iso (2025, 7, 12) = ''2025-07-12''" by code_simp+
  show ?thesis
    by (rule late_joiner_blocks_generation [OF g(1,1,2,3), of _ "hr_demo_employee\<lparr>em_id := ''E2'', em_code := ''002'', em_joining := ''2025-07-12''\<rparr>"])
      (simp_all add: i hr_demo_joiner_def hr_demo_request_def hr_demo_employee_def hr_demo_fields)
qed

end
