(* ===== verification/Requisition.thy ===== *)
theory Requisition
  imports Policies
begin

text \<open>
  The material requisition (\<open>src/src/modules/requisition/domain/\<close>): the document with its lines, the
  approvals it collects, the escalation policy, and the issue event.  Quantities are exact decimals of four
  places.
\<close>

section \<open>The document\<close>

datatype requisition_status =
  RqDraft | RqSubmitted | RqApproved | RqRejected | RqPartiallyIssued | RqIssued | RqClosed

datatype approval_tier = TierPm | TierAccounts

datatype approval_decision = DecApproved | DecRejected

fun requisition_status_name :: "requisition_status \<Rightarrow> string" where
  "requisition_status_name RqDraft = ''DRAFT''"
| "requisition_status_name RqSubmitted = ''SUBMITTED''"
| "requisition_status_name RqApproved = ''APPROVED''"
| "requisition_status_name RqRejected = ''REJECTED''"
| "requisition_status_name RqPartiallyIssued = ''PARTIALLY_ISSUED''"
| "requisition_status_name RqIssued = ''ISSUED''"
| "requisition_status_name RqClosed = ''CLOSED''"

definition priorities :: "string list" where
  "priorities = [''LOW'', ''NORMAL'', ''HIGH'', ''URGENT'']"

record new_requisition_line =
  nq_item :: string
  nq_requested :: decimal_input
  nq_uom :: string

record new_requisition =
  nr_project :: string
  nr_cost_centre :: string
  nr_purpose :: string
  nr_godown :: "string option"
  nr_required_date :: string
  nr_priority :: string
  nr_narration :: "string option"
  nr_lines :: "new_requisition_line list"

record edit_requisition =
  er_project :: "string patch"
  er_cost_centre :: "string patch"
  er_purpose :: "string patch"
  er_godown :: "string patch"
  er_required_date :: "string patch"
  er_priority :: "string patch"
  er_narration :: "string patch"
  er_lines :: "new_requisition_line list option"

record requisition_line =
  ql_id :: string
  ql_no :: nat
  ql_item :: string
  ql_requested :: decimal
  ql_issued :: decimal
  ql_balance :: decimal
  ql_rate :: "decimal option"
  ql_uom :: string

record requisition_approval =
  qa_id :: string
  qa_requisition :: string
  qa_decision :: approval_decision
  qa_tier :: approval_tier
  qa_threshold :: decimal
  qa_estimated :: decimal
  qa_reason :: "string option"
  qa_by :: string
  qa_at :: int

record requisition =
  rq_id :: string
  rq_company :: string
  rq_fy :: string
  rq_no :: "string option"
  rq_seq :: "nat option"
  rq_project :: string
  rq_cost_centre :: string
  rq_purpose :: string
  rq_godown :: "string option"
  rq_required_date :: string
  rq_priority :: string
  rq_status :: requisition_status
  rq_estimated :: decimal
  rq_tier :: "approval_tier option"
  rq_submitted_at :: "int option"
  rq_submitted_by :: "string option"
  rq_closed_at :: "int option"
  rq_closed_reason :: "string option"
  rq_narration :: "string option"
  rq_version :: nat
  rq_lines :: "requisition_line list"
  rq_approvals :: "requisition_approval list"

section \<open>Drafts\<close>

definition req_line :: "dec_lib \<Rightarrow> string \<Rightarrow> nat \<Rightarrow> new_requisition_line \<Rightarrow> domain_error + requisition_line" where
  "req_line D i no l =
     rbind (to_decimal (nq_requested l) ''requestedQuantity'') (\<lambda>q.
     let requested = round4 D q in
     rbind (require (0 < requested) (ValidationError ''requestedQuantity'')) (\<lambda>_.
     rbind (req (nq_item l) ''itemId'') (\<lambda>item.
     rbind (req (nq_uom l) ''uom'') (\<lambda>uom.
     Inr \<lparr>ql_id = i, ql_no = no, ql_item = item, ql_requested = requested, ql_issued = 0, ql_balance = requested,
          ql_rate = None, ql_uom = uom\<rparr>))))"

fun req_lines_from :: "dec_lib \<Rightarrow> nat \<Rightarrow> string list \<Rightarrow> new_requisition_line list \<Rightarrow> domain_error + requisition_line list" where
  "req_lines_from D no ids [] = Inr []"
| "req_lines_from D no [] (l # ls) = Inl (ValidationError ''lines'')"
| "req_lines_from D no (i # ids) (l # ls) =
     rbind (req_line D i no l) (\<lambda>q. rbind (req_lines_from D (Suc no) ids ls) (\<lambda>qs. Inr (q # qs)))"

definition req_build_lines :: "dec_lib \<Rightarrow> new_requisition_line list \<Rightarrow> string list \<Rightarrow> domain_error + requisition_line list" where
  "req_build_lines D inp ids =
     rbind (require (inp \<noteq> []) (ValidationError ''lines'')) (\<lambda>_.
     rbind (require (\<not> length ids < length inp) (ValidationError ''lines'')) (\<lambda>_.
     req_lines_from D 1 ids inp))"

definition assert_priority :: "string \<Rightarrow> domain_error + string" where
  "assert_priority p = (if p \<in> set priorities then Inr p else Inl (ValidationError ''priority''))"

definition req_create_draft ::
  "dec_lib \<Rightarrow> string \<Rightarrow> string \<Rightarrow> string \<Rightarrow> new_requisition \<Rightarrow> string list \<Rightarrow> domain_error + requisition" where
  "req_create_draft D i company fy inp ids =
     rbind (req_build_lines D (nr_lines inp) ids) (\<lambda>ls.
     rbind (req (nr_project inp) ''projectId'') (\<lambda>project.
     rbind (req (nr_cost_centre inp) ''costCentreId'') (\<lambda>cost_centre.
     rbind (req (nr_purpose inp) ''purposeId'') (\<lambda>purpose.
     rbind (req (nr_required_date inp) ''requiredDate'') (\<lambda>required.
     rbind (assert_priority (nr_priority inp)) (\<lambda>priority.
     Inr \<lparr>rq_id = i, rq_company = company, rq_fy = fy, rq_no = None, rq_seq = None, rq_project = project,
          rq_cost_centre = cost_centre, rq_purpose = purpose, rq_godown = clean (nr_godown inp), rq_required_date = required,
          rq_priority = priority, rq_status = RqDraft, rq_estimated = 0, rq_tier = None, rq_submitted_at = None,
          rq_submitted_by = None, rq_closed_at = None, rq_closed_reason = None, rq_narration = nr_narration inp,
          rq_version = 1, rq_lines = ls, rq_approvals = []\<rparr>))))))"

definition req_assert_draft :: "requisition \<Rightarrow> domain_error + unit" where
  "req_assert_draft r = require (rq_status r = RqDraft) (CodedError ''VOUCHER_POSTED_IMMUTABLE'' (requisition_status_name (rq_status r)))"

definition req_patched :: "string patch \<Rightarrow> string \<Rightarrow> string \<Rightarrow> domain_error + string" where
  "req_patched p old field = patched p old (\<lambda>v. req (or_empty v) field)"

definition req_edit_draft :: "dec_lib \<Rightarrow> edit_requisition \<Rightarrow> string list \<Rightarrow> requisition \<Rightarrow> domain_error + requisition" where
  "req_edit_draft D p ids r =
     rbind (req_assert_draft r) (\<lambda>_.
     rbind (req_patched (er_project p) (rq_project r) ''projectId'') (\<lambda>project.
     rbind (req_patched (er_cost_centre p) (rq_cost_centre r) ''costCentreId'') (\<lambda>cost_centre.
     rbind (req_patched (er_purpose p) (rq_purpose r) ''purposeId'') (\<lambda>purpose.
     rbind (req_patched (er_required_date p) (rq_required_date r) ''requiredDate'') (\<lambda>required.
     rbind (patched (er_priority p) (rq_priority r) (\<lambda>v. assert_priority (or_empty v))) (\<lambda>priority.
     rbind (case er_lines p of None \<Rightarrow> Inr (rq_lines r) | Some ls \<Rightarrow> req_build_lines D ls ids) (\<lambda>ls.
     Inr (r\<lparr>rq_project := project, rq_cost_centre := cost_centre, rq_purpose := purpose,
            rq_godown := clean_patch (er_godown p) (rq_godown r), rq_required_date := required, rq_priority := priority,
            rq_narration := patch_defined (er_narration p) (rq_narration r), rq_lines := ls\<rparr>))))))))"

section \<open>Review\<close>

text \<open>The estimates by line id, as the \<open>Map\<close> of the code keeps them: the last one of an id wins.\<close>

definition req_submit ::
  "string \<Rightarrow> nat \<Rightarrow> decimal \<Rightarrow> approval_tier \<Rightarrow> (string \<times> decimal) list \<Rightarrow> string \<Rightarrow> int \<Rightarrow> requisition \<Rightarrow>
   domain_error + requisition" where
  "req_submit no seq estimated tier rates who now r =
     rbind (require (rq_status r = RqDraft)
       (CodedError ''INVALID_REQUISITION_TRANSITION'' (requisition_status_name (rq_status r)))) (\<lambda>_.
     rbind (req no ''requisitionNo'') (\<lambda>n.
     Inr (r\<lparr>rq_lines := map (\<lambda>l. case map_of (rev rates) (ql_id l) of None \<Rightarrow> l | Some x \<Rightarrow> l\<lparr>ql_rate := Some x\<rparr>) (rq_lines r),
            rq_no := Some n, rq_seq := Some seq, rq_estimated := estimated, rq_tier := Some tier,
            rq_submitted_by := Some who, rq_submitted_at := Some now, rq_status := RqSubmitted\<rparr>)))"

definition req_assert_submitted :: "requisition \<Rightarrow> domain_error + unit" where
  "req_assert_submitted r =
     require (rq_status r = RqSubmitted) (CodedError ''REQUISITION_NOT_SUBMITTED'' (requisition_status_name (rq_status r)))"

record approval_input =
  ai_id :: string
  ai_tier :: approval_tier
  ai_threshold :: decimal
  ai_estimated :: decimal
  ai_reason :: "string option"
  ai_by :: string

definition record_approval :: "approval_decision \<Rightarrow> string option \<Rightarrow> approval_input \<Rightarrow> int \<Rightarrow> requisition \<Rightarrow> requisition" where
  "record_approval dec reason a now r = r\<lparr>rq_approvals := rq_approvals r @
     [\<lparr>qa_id = ai_id a, qa_requisition = rq_id r, qa_decision = dec, qa_tier = ai_tier a, qa_threshold = ai_threshold a,
       qa_estimated = ai_estimated a, qa_reason = reason, qa_by = ai_by a, qa_at = now\<rparr>]\<rparr>"

definition req_approve :: "approval_input \<Rightarrow> int \<Rightarrow> requisition \<Rightarrow> domain_error + requisition" where
  "req_approve a now r =
     rbind (req_assert_submitted r) (\<lambda>_.
     Inr ((record_approval DecApproved (ai_reason a) a now r)\<lparr>rq_status := RqApproved\<rparr>))"

definition req_reject :: "approval_input \<Rightarrow> int \<Rightarrow> requisition \<Rightarrow> domain_error + requisition" where
  "req_reject a now r =
     rbind (req_assert_submitted r) (\<lambda>_.
     rbind (require (trim (or_empty (ai_reason a)) \<noteq> []) (CodedError ''MISSING_REJECT_REASON'' (rq_id r))) (\<lambda>_.
     Inr ((record_approval DecRejected (Some (trim (or_empty (ai_reason a)))) a now r)\<lparr>rq_status := RqRejected\<rparr>)))"

definition select_tier :: "decimal \<Rightarrow> decimal \<Rightarrow> approval_tier" where
  "select_tier estimated threshold = (if estimated \<le> threshold then TierPm else TierAccounts)"

record approver_context =
  ap_tier :: approval_tier
  ap_assigned :: bool

definition can_approve :: "approval_tier \<Rightarrow> approver_context \<Rightarrow> bool" where
  "can_approve selected a =
     (if selected = TierPm then ap_tier a = TierPm \<and> ap_assigned a else ap_tier a = TierAccounts)"

definition approver_context_of :: "actor \<Rightarrow> string \<Rightarrow> approver_context" where
  "approver_context_of act project =
     (if act_unscoped act then \<lparr>ap_tier = TierAccounts, ap_assigned = True\<rparr>
      else \<lparr>ap_tier = TierPm, ap_assigned = project \<in> set (act_projects act)\<rparr>)"

section \<open>Issues\<close>

definition has_outstanding :: "requisition \<Rightarrow> bool" where
  "has_outstanding r \<longleftrightarrow> list_ex (\<lambda>l. 0 < ql_balance l) (rq_lines r)"

definition fully_issued :: "requisition_line list \<Rightarrow> bool" where
  "fully_issued ls \<longleftrightarrow> list_all (\<lambda>l. ql_balance l = 0) ls"

definition any_issued :: "requisition_line list \<Rightarrow> bool" where
  "any_issued ls \<longleftrightarrow> list_ex (\<lambda>l. 0 < ql_issued l) ls"

definition req_close :: "string \<Rightarrow> int \<Rightarrow> requisition \<Rightarrow> domain_error + requisition" where
  "req_close reason now r =
     rbind (require (\<not> (rq_status r = RqIssued \<or> \<not> has_outstanding r))
       (CodedError ''NO_OUTSTANDING_BALANCE'' (requisition_status_name (rq_status r)))) (\<lambda>_.
     rbind (require (rq_status r = RqApproved \<or> rq_status r = RqPartiallyIssued)
       (CodedError ''INVALID_REQUISITION_TRANSITION'' (requisition_status_name (rq_status r)))) (\<lambda>_.
     Inr (r\<lparr>rq_status := RqClosed, rq_closed_reason := clean (Some reason), rq_closed_at := Some now\<rparr>)))"

definition req_assert_issuable :: "requisition \<Rightarrow> domain_error + unit" where
  "req_assert_issuable r =
     require (rq_status r \<in> {RqApproved, RqPartiallyIssued})
       (CodedError ''REQUISITION_NOT_APPROVED'' (requisition_status_name (rq_status r)))"

definition set_issued :: "dec_lib \<Rightarrow> requisition_line \<Rightarrow> decimal \<Rightarrow> requisition_line list \<Rightarrow> requisition_line list" where
  "set_issued D l issued ls =
     update_where (\<lambda>k. ql_id k = ql_id l)
       (\<lambda>k. k\<lparr>ql_issued := issued, ql_balance := round4 D (d_minus D (ql_requested l) issued)\<rparr>) ls"

definition req_line_or_throw :: "string \<Rightarrow> requisition_line list \<Rightarrow> domain_error + requisition_line" where
  "req_line_or_throw i ls = fetch (ValidationError i) (List.find (\<lambda>l. ql_id l = i) ls)"

fun apply_issue_lines ::
  "dec_lib \<Rightarrow> (string \<times> decimal) list \<Rightarrow> requisition_line list \<Rightarrow> domain_error + requisition_line list" where
  "apply_issue_lines D [] ls = Inr ls"
| "apply_issue_lines D ((i, q) # rest) ls =
     rbind (req_line_or_throw i ls) (\<lambda>l.
     let qty = round4 D q in
     rbind (require (0 < qty \<and> \<not> ql_balance l < qty) (CodedError ''ISSUE_EXCEEDS_BALANCE'' i)) (\<lambda>_.
     apply_issue_lines D rest (set_issued D l (round4 D (d_plus D (ql_issued l) qty)) ls)))"

definition req_apply_issue :: "dec_lib \<Rightarrow> (string \<times> decimal) list \<Rightarrow> requisition \<Rightarrow> domain_error + requisition" where
  "req_apply_issue D us r =
     rbind (req_assert_issuable r) (\<lambda>_.
     rbind (apply_issue_lines D us (rq_lines r)) (\<lambda>ls.
     Inr (r\<lparr>rq_lines := ls, rq_status := (if fully_issued ls then RqIssued else RqPartiallyIssued)\<rparr>)))"

fun reverse_issue_lines ::
  "dec_lib \<Rightarrow> (string \<times> decimal) list \<Rightarrow> requisition_line list \<Rightarrow> domain_error + requisition_line list" where
  "reverse_issue_lines D [] ls = Inr ls"
| "reverse_issue_lines D ((i, q) # rest) ls =
     rbind (req_line_or_throw i ls) (\<lambda>l.
     let issued = round4 D (d_minus D (ql_issued l) (round4 D q))
     in reverse_issue_lines D rest (set_issued D l (if issued < 0 then 0 else issued) ls))"

definition req_reverse_issue :: "dec_lib \<Rightarrow> (string \<times> decimal) list \<Rightarrow> requisition \<Rightarrow> domain_error + requisition" where
  "req_reverse_issue D us r =
     rbind (reverse_issue_lines D us (rq_lines r)) (\<lambda>ls.
     Inr (r\<lparr>rq_lines := ls, rq_status := (if any_issued ls then RqPartiallyIssued else RqApproved)\<rparr>))"

definition req_outstanding :: "requisition \<Rightarrow> (string \<times> decimal) list" where
  "req_outstanding r = map (\<lambda>l. (ql_id l, ql_balance l)) (rq_lines r)"

definition outstanding_value :: "dec_lib \<Rightarrow> requisition \<Rightarrow> decimal" where
  "outstanding_value D r =
     foldl (\<lambda>acc l. d_plus D acc (d_times D (ql_balance l) (case ql_rate l of None \<Rightarrow> 0 | Some x \<Rightarrow> x))) 0 (rq_lines r)"

section \<open>The issue event\<close>

record requisition_issue_line =
  il_id :: string
  il_line :: string
  il_item :: string
  il_godown :: string
  il_movement :: string
  il_qty :: decimal
  il_rate :: decimal
  il_value :: decimal

record requisition_issue =
  iq_id :: string
  iq_requisition :: string
  iq_no :: nat
  iq_from_godown :: string
  iq_entry :: string
  iq_entry_no :: string
  iq_value :: decimal
  iq_by :: string
  iq_at :: int
  iq_authorised :: "string option"
  iq_reversed_at :: "int option"
  iq_reversed_by :: "string option"
  iq_lines :: "requisition_issue_line list"

definition issue_create ::
  "dec_lib \<Rightarrow> string \<Rightarrow> string \<Rightarrow> nat \<Rightarrow> string \<Rightarrow> string \<Rightarrow> string \<Rightarrow> requisition_issue_line list \<Rightarrow> string \<Rightarrow> int \<Rightarrow>
   string option \<Rightarrow> domain_error + requisition_issue" where
  "issue_create D i requisition no godown entry entry_no ls who now authorised =
     rbind (require (ls \<noteq> []) (ValidationError ''lines'')) (\<lambda>_.
     Inr \<lparr>iq_id = i, iq_requisition = requisition, iq_no = no, iq_from_godown = godown, iq_entry = entry, iq_entry_no = entry_no,
          iq_value = foldl (\<lambda>acc l. d_plus D acc (il_value l)) 0 ls, iq_by = who, iq_at = now, iq_authorised = authorised,
          iq_reversed_at = None, iq_reversed_by = None, iq_lines = ls\<rparr>)"

definition issue_assert_not_reversed :: "requisition_issue \<Rightarrow> domain_error + unit" where
  "issue_assert_not_reversed q = require (iq_reversed_at q = None) (CodedError ''ALREADY_REVERSED'' (iq_id q))"

definition issue_mark_reversed :: "string \<Rightarrow> int \<Rightarrow> requisition_issue \<Rightarrow> domain_error + requisition_issue" where
  "issue_mark_reversed who now q =
     rbind (issue_assert_not_reversed q) (\<lambda>_. Inr (q\<lparr>iq_reversed_at := Some now, iq_reversed_by := Some who\<rparr>))"

end
