(* ===== verification/Requisition_State.thy ===== *)
theory Requisition_State
  imports Requisition Stock_Ledger
begin

text \<open>
  The tables of the requisition module and the masters it reads
  (\<open>src/src/modules/requisition/infrastructure/\<close>), its repository, the indicative rate and the consumption
  command.
\<close>

section \<open>Tables\<close>

record master_row =
  ms_id :: string
  ms_company :: string
  ms_active :: bool

record godown_row =
  gd_id :: string
  gd_company :: string
  gd_project :: string
  gd_active :: bool

record stock_item =
  im_id :: string
  im_company :: string
  im_active :: bool
  im_uom :: string
  im_account :: "string option"

record requisition_row =
  rr_doc :: requisition
  rr_deleted :: bool

record req_db = stock_db +
  rd_projects :: "project_state list"
  rd_centres :: "master_row list"
  rd_purposes :: "owned_row list"
  rd_godowns :: "godown_row list"
  rd_items :: "stock_item list"
  rd_accounts :: "account_row list"
  rd_rows :: "requisition_row list"
  rd_issues :: "requisition_issue list"

section \<open>Masters\<close>

definition rq_assert_not_closed :: "string \<Rightarrow> string \<Rightarrow> project_state list \<Rightarrow> domain_error + unit" where
  "rq_assert_not_closed co project ps =
     rbind (fetch (NotFoundError project) (List.find (\<lambda>p. pst_id p = project \<and> pst_company p = co) ps)) (\<lambda>p.
     require (pst_status p \<noteq> ''CLOSED'') (ProjectClosedError project))"

definition rq_assert_centre :: "string \<Rightarrow> string \<Rightarrow> master_row list \<Rightarrow> domain_error + unit" where
  "rq_assert_centre co centre tbl =
     rbind (fetch (NotFoundError centre) (List.find (\<lambda>r. ms_id r = centre \<and> ms_company r = co) tbl)) (\<lambda>r.
     require (ms_active r) (CodedError ''INACTIVE_MASTER_REFERENCE'' centre))"

definition rq_assert_godown :: "string \<Rightarrow> string option \<Rightarrow> string \<Rightarrow> godown_row list \<Rightarrow> domain_error + unit" where
  "rq_assert_godown co godown project tbl =
     (if \<not> truthy godown then Inr ()
      else rbind (fetch (NotFoundError (the godown)) (List.find (\<lambda>g. gd_id g = the godown \<and> gd_company g = co) tbl)) (\<lambda>g.
           rbind (require (gd_active g) (CodedError ''INACTIVE_MASTER_REFERENCE'' (the godown))) (\<lambda>_.
           require (gd_project g = project) (CodedError ''GODOWN_NOT_IN_PROJECT'' (the godown)))))"

definition rq_item_uom :: "string \<Rightarrow> string \<Rightarrow> stock_item list \<Rightarrow> domain_error + string" where
  "rq_item_uom co item tbl =
     rbind (fetch (NotFoundError item) (List.find (\<lambda>r. im_id r = item \<and> im_company r = co) tbl)) (\<lambda>r.
     rbind (require (im_active r) (CodedError ''INACTIVE_MASTER_REFERENCE'' item)) (\<lambda>_. Inr (im_uom r)))"

text \<open>The godown rows as the tag check reads them.\<close>

definition godown_owner :: "godown_row \<Rightarrow> owned_row" where
  "godown_owner g = \<lparr>ow_id = gd_id g, ow_company = gd_company g, ow_project = Some (gd_project g)\<rparr>"

section \<open>The repository\<close>

definition stored_req_line :: "dec_lib \<Rightarrow> requisition_line \<Rightarrow> requisition_line" where
  "stored_req_line D l = l\<lparr>ql_requested := to_dp D 4 (ql_requested l), ql_issued := to_dp D 4 (ql_issued l),
     ql_balance := to_dp D 4 (ql_balance l), ql_rate := map_option (to_dp D 4) (ql_rate l)\<rparr>"

definition stored_approval :: "dec_lib \<Rightarrow> requisition_approval \<Rightarrow> requisition_approval" where
  "stored_approval D a = a\<lparr>qa_threshold := to_dp D 4 (qa_threshold a), qa_estimated := to_dp D 4 (qa_estimated a)\<rparr>"

definition req_line_checks :: "requisition_line \<Rightarrow> domain_error + unit" where
  "req_line_checks l =
     rbind (riter in_column [ql_requested l, ql_issued l, ql_balance l]) (\<lambda>_.
     rbind (case ql_rate l of None \<Rightarrow> Inr () | Some x \<Rightarrow> in_column x) (\<lambda>_.
     rbind (require (0 < ql_requested l) (DatabaseError ''chk_requisition_line_requested_pos'')) (\<lambda>_.
     rbind (require (0 \<le> ql_issued l) (DatabaseError ''chk_requisition_line_issued_nonneg'')) (\<lambda>_.
     rbind (require (0 \<le> ql_balance l) (DatabaseError ''chk_requisition_line_balance_nonneg'')) (\<lambda>_.
     require (ql_issued l + ql_balance l = ql_requested l) (DatabaseError ''chk_requisition_line_balance_invariant''))))))"

definition req_header_checks :: "decimal \<Rightarrow> domain_error + unit" where
  "req_header_checks estimated =
     rbind (in_column estimated) (\<lambda>_. require (0 \<le> estimated) (DatabaseError ''chk_requisition_estimate_nonneg''))"

definition req_line_ids :: "requisition_row list \<Rightarrow> string list" where
  "req_line_ids tbl = concat (map (\<lambda>r. map ql_id (rq_lines (rr_doc r))) tbl)"

definition req_insert :: "dec_lib \<Rightarrow> requisition \<Rightarrow> requisition_row list \<Rightarrow> domain_error + requisition_row list" where
  "req_insert D r tbl =
     (let q = r\<lparr>rq_estimated := to_dp D 4 (rq_estimated r), rq_lines := map (stored_req_line D) (rq_lines r), rq_version := 1,
              rq_approvals := []\<rparr> in
      rbind (req_header_checks (rq_estimated q)) (\<lambda>_.
      rbind (require (\<not> list_ex (\<lambda>x. rq_id (rr_doc x) = rq_id q) tbl) (DatabaseError ''requisition_pkey'')) (\<lambda>_.
      rbind (riter req_line_checks (rq_lines q)) (\<lambda>_.
      rbind (require (distinct (req_line_ids tbl @ map ql_id (rq_lines q))) (DatabaseError ''requisition_line_pkey'')) (\<lambda>_.
      Inr (tbl @ [\<lparr>rr_doc = q, rr_deleted = False\<rparr>]))))))"

definition req_hit :: "requisition \<Rightarrow> nat \<Rightarrow> requisition_row \<Rightarrow> bool" where
  "req_hit r expected x \<longleftrightarrow> rq_id (rr_doc x) = rq_id r \<and> rq_company (rr_doc x) = rq_company r \<and> rq_version (rr_doc x) = expected"

text \<open>
  The update writes the header but not the company and the year, makes the lines of the row the lines of the
  document (inserting, updating and deleting by id), and appends the approvals that are new.
\<close>

definition new_approvals :: "dec_lib \<Rightarrow> requisition \<Rightarrow> requisition \<Rightarrow> requisition_approval list" where
  "new_approvals D r old = map (stored_approval D) (filter (\<lambda>a. qa_id a \<notin> qa_id ` set (rq_approvals old)) (rq_approvals r))"

definition req_saved :: "dec_lib \<Rightarrow> requisition \<Rightarrow> nat \<Rightarrow> requisition_row \<Rightarrow> requisition_row" where
  "req_saved D r expected x = x\<lparr>rr_doc := r\<lparr>rq_company := rq_company (rr_doc x), rq_fy := rq_fy (rr_doc x),
     rq_estimated := to_dp D 4 (rq_estimated r), rq_version := expected + 1,
     rq_lines := map (stored_req_line D) (rq_lines r), rq_approvals := rq_approvals (rr_doc x) @ new_approvals D r (rr_doc x)\<rparr>\<rparr>"

definition req_save :: "dec_lib \<Rightarrow> requisition \<Rightarrow> nat \<Rightarrow> requisition_row list \<Rightarrow> domain_error + requisition_row list" where
  "req_save D r expected tbl =
     (let tbl' = update_where (req_hit r expected) (req_saved D r expected) tbl in
      rbind (require (list_ex (req_hit r expected) tbl) OptimisticLockConflictError) (\<lambda>_.
      rbind (req_header_checks (to_dp D 4 (rq_estimated r))) (\<lambda>_.
      rbind (riter req_line_checks (map (stored_req_line D) (rq_lines r))) (\<lambda>_.
      rbind (require (distinct (req_line_ids tbl')) (DatabaseError ''requisition_line_pkey'')) (\<lambda>_.
      Inr tbl')))))"

definition req_find :: "string \<Rightarrow> string \<Rightarrow> requisition_row list \<Rightarrow> requisition option" where
  "req_find i co tbl =
     map_option rr_doc (List.find (\<lambda>x. rq_id (rr_doc x) = i \<and> rq_company (rr_doc x) = co \<and> \<not> rr_deleted x) tbl)"

definition req_soft_delete :: "string \<Rightarrow> string \<Rightarrow> requisition_row list \<Rightarrow> requisition_row list" where
  "req_soft_delete i co tbl = update_where (\<lambda>x. rq_id (rr_doc x) = i \<and> rq_company (rr_doc x) = co) (\<lambda>x. x\<lparr>rr_deleted := True\<rparr>) tbl"

definition next_requisition_seq :: "string \<Rightarrow> string \<Rightarrow> requisition_row list \<Rightarrow> nat" where
  "next_requisition_seq co fy tbl =
     foldr (\<lambda>x n. if rq_company (rr_doc x) = co \<and> rq_fy (rr_doc x) = fy then max n (case rq_seq (rr_doc x) of None \<Rightarrow> 0 | Some k \<Rightarrow> k) else n)
       tbl 0 + 1"

definition find_line_for_update :: "string \<Rightarrow> string \<Rightarrow> requisition_row list \<Rightarrow> (string \<times> requisition_line) option" where
  "find_line_for_update i co tbl =
     List.find (\<lambda>(r, l). ql_id l = i)
       (concat (map (\<lambda>x. map (\<lambda>l. (rq_id (rr_doc x), l)) (rq_lines (rr_doc x)))
          (filter (\<lambda>x. rq_company (rr_doc x) = co \<and> \<not> rr_deleted x) tbl)))"

definition stored_issue_line :: "dec_lib \<Rightarrow> requisition_issue_line \<Rightarrow> requisition_issue_line" where
  "stored_issue_line D l = l\<lparr>il_qty := to_dp D 4 (il_qty l), il_rate := to_dp D 4 (il_rate l), il_value := to_dp D 4 (il_value l)\<rparr>"

definition issue_line_checks :: "requisition_issue_line \<Rightarrow> domain_error + unit" where
  "issue_line_checks l =
     rbind (riter in_column [il_qty l, il_rate l, il_value l]) (\<lambda>_.
     rbind (require (0 < il_qty l) (DatabaseError ''chk_requisition_issue_line_qty_pos'')) (\<lambda>_.
     rbind (require (0 \<le> il_rate l) (DatabaseError ''chk_requisition_issue_line_rate_nonneg'')) (\<lambda>_.
     rbind (require (0 \<le> il_value l) (DatabaseError ''chk_requisition_issue_line_value_nonneg'')) (\<lambda>_.
     require (il_value l = il_qty l * il_rate l) (DatabaseError ''chk_requisition_issue_line_value_eq_qty_rate'')))))"

definition issue_line_ids :: "requisition_issue list \<Rightarrow> string list" where
  "issue_line_ids tbl = concat (map (\<lambda>q. map il_id (iq_lines q)) tbl)"

definition issue_save :: "dec_lib \<Rightarrow> requisition_issue \<Rightarrow> requisition_issue list \<Rightarrow> domain_error + requisition_issue list" where
  "issue_save D q tbl =
     (let p = q\<lparr>iq_value := to_dp D 4 (iq_value q), iq_lines := map (stored_issue_line D) (iq_lines q)\<rparr> in
      rbind (in_column (iq_value p)) (\<lambda>_.
      rbind (require (0 < iq_no p) (DatabaseError ''chk_requisition_issue_no_pos'')) (\<lambda>_.
      rbind (require (0 \<le> iq_value p) (DatabaseError ''chk_requisition_issue_value_nonneg'')) (\<lambda>_.
      rbind (require (\<not> list_ex (\<lambda>x. iq_id x = iq_id p) tbl) (DatabaseError ''requisition_issue_pkey'')) (\<lambda>_.
      rbind (require (\<not> list_ex (\<lambda>x. iq_requisition x = iq_requisition p \<and> iq_no x = iq_no p) tbl) (DatabaseError ''uq_requisition_issue_no'')) (\<lambda>_.
      rbind (riter issue_line_checks (iq_lines p)) (\<lambda>_.
      rbind (require (distinct (issue_line_ids tbl @ map il_id (iq_lines p))) (DatabaseError ''requisition_issue_line_pkey'')) (\<lambda>_.
      Inr (tbl @ [p])))))))))"

definition issue_save_reversal :: "requisition_issue \<Rightarrow> requisition_issue list \<Rightarrow> requisition_issue list" where
  "issue_save_reversal q tbl =
     update_where (\<lambda>x. iq_id x = iq_id q) (\<lambda>x. x\<lparr>iq_reversed_at := iq_reversed_at q, iq_reversed_by := iq_reversed_by q\<rparr>) tbl"

definition issue_find ::
  "string \<Rightarrow> string \<Rightarrow> string \<Rightarrow> requisition_row list \<Rightarrow> requisition_issue list \<Rightarrow> domain_error + requisition_issue option" where
  "issue_find requisition i co tbl issues =
     (case List.find (\<lambda>q. iq_id q = i \<and> iq_requisition q = requisition) issues of
        None \<Rightarrow> Inr None
      | Some q \<Rightarrow>
          rbind (require (list_ex (\<lambda>x. rq_id (rr_doc x) = requisition \<and> rq_company (rr_doc x) = co) tbl) (NotFoundError requisition))
            (\<lambda>_. Inr (Some q)))"

definition next_issue_no :: "string \<Rightarrow> requisition_issue list \<Rightarrow> nat" where
  "next_issue_no requisition tbl = foldr (\<lambda>q n. if iq_requisition q = requisition then max n (iq_no q) else n) tbl 0 + 1"

section \<open>The indicative rate\<close>

text \<open>
  The current weighted average of the godown, else the rate of the item's last movement anywhere (of those
  with the latest time, the one written last).
\<close>

definition last_movement :: "string \<Rightarrow> string \<Rightarrow> stock_movement list \<Rightarrow> stock_movement option" where
  "last_movement co item ms =
     foldl (\<lambda>best m. if mv_company m = co \<and> mv_item m = item \<and> (case best of None \<Rightarrow> True | Some b \<Rightarrow> mv_posted_at b \<le> mv_posted_at m)
                     then Some m else best) None ms"

definition indicative_rate :: "dec_lib \<Rightarrow> string \<Rightarrow> string option \<Rightarrow> string \<Rightarrow> stock_movement list \<Rightarrow> decimal" where
  "indicative_rate D co godown item ms =
     (let here = filter (\<lambda>m. mv_key m = (co, the godown, item)) ms;
          qty = sum_list (map signed_quantity here); val = sum_list (map signed_value here)
      in if truthy godown \<and> 0 < qty then to_dp D 4 (d_div D val qty)
         else case last_movement co item ms of None \<Rightarrow> 0 | Some m \<Rightarrow> mv_rate m)"

section \<open>The consumption command\<close>

definition item_account_of :: "string \<Rightarrow> string \<Rightarrow> stock_item list \<Rightarrow> domain_error + string" where
  "item_account_of co item items =
     (case List.find (\<lambda>r. im_id r = item \<and> im_company r = co) items of
        None \<Rightarrow> Inl (InventoryAccountNotConfiguredError ''item-inventory'')
      | Some r \<Rightarrow> if truthy (im_account r) then Inr (the (im_account r))
                  else Inl (InventoryAccountNotConfiguredError ''item-inventory''))"

definition material_account_of :: "string \<Rightarrow> account_row list \<Rightarrow> domain_error + string" where
  "material_account_of co accs =
     (case List.find (\<lambda>a. ac_company a = co \<and> ac_code a = ''5100'') accs of
        None \<Rightarrow> Inl (InventoryAccountNotConfiguredError ''material-expense'')
      | Some a \<Rightarrow> Inr (ac_id a))"

record consumption =
  cn_item :: string
  cn_godown :: string
  cn_value :: decimal

definition consumption_line :: "requisition \<Rightarrow> consumption \<Rightarrow> string \<Rightarrow> decimal \<Rightarrow> decimal \<Rightarrow> account_type \<Rightarrow> posting_line" where
  "consumption_line r c acc dr cr ty =
     \<lparr>pl_account = acc, pl_project = Some (rq_project r), pl_cost_centre = Some (rq_cost_centre r), pl_purpose = Some (rq_purpose r),
      pl_godown = Some (cn_godown c), pl_party = None, pl_debit = dr, pl_credit = cr, pl_narration = None,
      pl_account_type = Some ty, pl_is_control = Some False, pl_is_stock = None\<rparr>"

definition build_consumption_command ::
  "requisition \<Rightarrow> string \<Rightarrow> string \<Rightarrow> actor \<Rightarrow> consumption list \<Rightarrow> stock_item list \<Rightarrow> account_row list \<Rightarrow> domain_error + posting_command" where
  "build_consumption_command r issue_id today act cs items accs =
     rbind (material_account_of (act_company act) accs) (\<lambda>expense.
     rbind (rmap (\<lambda>c. rbind (item_account_of (act_company act) (cn_item c) items) (\<lambda>inv.
              Inr [consumption_line r c expense (cn_value c) 0 EXPENSE, consumption_line r c inv 0 (cn_value c) ASSET])) cs) (\<lambda>ls.
     Inr \<lparr>pc_company = act_company act, pc_fy = act_fy act, pc_voucher_type = STOCK_JOURNAL, pc_voucher_date = today,
          pc_source_type = ''REQ_ISSUE'', pc_source_id = issue_id, pc_posted_by = act_user act, pc_narration = None,
          pc_lines = concat ls\<rparr>))"

end
