(* ===== verification/Requisition_Use_Cases.thy ===== *)
theory Requisition_Use_Cases
  imports Requisition_State
begin

text \<open>
  The use cases of the requisition module (\<open>src/src/modules/requisition/application/\<close>), each one transaction.
  \<open>now\<close> is the clock and \<open>today\<close> its UTC date; \<open>threshold\<close> is the configured limit of the project manager's tier.
\<close>

section \<open>Drafts\<close>

definition with_uoms :: "string \<Rightarrow> stock_item list \<Rightarrow> (string \<times> decimal_input) list \<Rightarrow> domain_error + new_requisition_line list" where
  "with_uoms co items ls =
     rmap (\<lambda>(item, q). rbind (rq_item_uom co item items) (\<lambda>uom. Inr \<lparr>nq_item = item, nq_requested = q, nq_uom = uom\<rparr>)) ls"

definition line_ids_next :: "(nat \<Rightarrow> string) \<Rightarrow> nat \<Rightarrow> 'a db_scheme \<Rightarrow> string list \<times> 'a db_scheme" where
  "line_ids_next mk n s = (map (\<lambda>k. mk (db_ids s + k)) [0..<n], s\<lparr>db_ids := db_ids s + n\<rparr>)"

definition requisition_tags :: "string \<Rightarrow> string \<Rightarrow> string option \<Rightarrow> 'b list \<Rightarrow> tag_line list" where
  "requisition_tags project purpose godown ls =
     map (\<lambda>_. \<lparr>tl_project = project, tl_purpose = Some purpose, tl_godown = godown\<rparr>) ls"

definition create_requisition ::
  "dec_lib \<Rightarrow> (nat \<Rightarrow> string) \<Rightarrow> new_requisition \<Rightarrow> (string \<times> decimal_input) list \<Rightarrow> actor \<Rightarrow> 'a req_db_scheme \<Rightarrow>
   domain_error + (string \<times> 'a req_db_scheme)" where
  "create_requisition D mk inp raw act = uow_run (\<lambda>s.
     rbind (scope_or_forbidden act (nr_project inp)) (\<lambda>_.
     rbind (rq_assert_not_closed (act_company act) (nr_project inp) (rd_projects s)) (\<lambda>_.
     rbind (rq_assert_centre (act_company act) (nr_cost_centre inp) (rd_centres s)) (\<lambda>_.
     rbind (rq_assert_godown (act_company act) (nr_godown inp) (nr_project inp) (rd_godowns s)) (\<lambda>_.
     rbind (with_uoms (act_company act) (rd_items s) raw) (\<lambda>ls.
     rbind (assert_consistent (act_company act) (rd_purposes s) (map godown_owner (rd_godowns s))
       (if ls = [] then requisition_tags (nr_project inp) (nr_purpose inp) (nr_godown inp) [()]
        else requisition_tags (nr_project inp) (nr_purpose inp) (nr_godown inp) ls)) (\<lambda>_.
     case ids_next mk s of (i, s1) \<Rightarrow>
     case line_ids_next mk (length ls) s1 of (ids, s2) \<Rightarrow>
     rbind (req_create_draft D i (act_company act) (act_fy act) (inp\<lparr>nr_lines := ls\<rparr>) ids) (\<lambda>r.
     rbind (req_insert D r (rd_rows s2)) (\<lambda>tbl.
     Inr (i, audit_record ''CREATE'' ''Requisition'' i act (s2\<lparr>rd_rows := tbl\<rparr>)))))))))))"

text \<open>The advisory budget check after the commit: \<open>requestedQuantity || 0\<close> reads an absent quantity as zero.\<close>

definition requisition_budget_warnings ::
  "dec_lib \<Rightarrow> (string \<Rightarrow> string \<Rightarrow> decimal option) \<Rightarrow> (string \<Rightarrow> string \<Rightarrow> decimal option) \<Rightarrow> new_requisition \<Rightarrow>
   (string \<times> decimal) list \<Rightarrow> actor \<Rightarrow> stock_movement list \<Rightarrow> prospective list" where
  "requisition_budget_warnings D actual_of budget_of inp raw act ms =
     (let amount = foldl (\<lambda>acc (item, q). d_plus D acc (d_times D (indicative_rate D (act_company act) (nr_godown inp) item ms) q)) 0 raw
      in if amount = 0 then []
         else check_prospective D actual_of budget_of
           [\<lparr>dc_project = nr_project inp, dc_cost_centre = nr_cost_centre inp, dc_amount = amount\<rparr>])"

definition req_immutable :: "requisition \<Rightarrow> domain_error + unit" where
  "req_immutable r = require (rq_status r = RqDraft) (CodedError ''VOUCHER_POSTED_IMMUTABLE'' (requisition_status_name (rq_status r)))"

definition update_requisition ::
  "dec_lib \<Rightarrow> (nat \<Rightarrow> string) \<Rightarrow> string \<Rightarrow> edit_requisition \<Rightarrow> (string \<times> decimal_input) list option \<Rightarrow> actor \<Rightarrow> 'a req_db_scheme \<Rightarrow>
   domain_error + (unit \<times> 'a req_db_scheme)" where
  "update_requisition D mk i p raw act = uow_run (\<lambda>s.
     let co = act_company act in
     rbind (fetch (NotFoundError i) (req_find i co (rd_rows s))) (\<lambda>r.
     rbind (req_immutable r) (\<lambda>_.
     rbind (scope_or_forbidden act (rq_project r)) (\<lambda>_.
     let project = patch_nullish (er_project p) (rq_project r);
         purpose = patch_nullish (er_purpose p) (rq_purpose r);
         godown = patch_defined (er_godown p) (rq_godown r)
     in rbind (case er_project p of Undefined \<Rightarrow> Inr () | Null \<Rightarrow> require (act_unscoped act) (CodedError ''FORBIDDEN'' ''null'')
               | Given x \<Rightarrow> scope_or_forbidden act x) (\<lambda>_.
        rbind (rq_assert_not_closed co project (rd_projects s)) (\<lambda>_.
        rbind (case er_cost_centre p of Undefined \<Rightarrow> Inr ()
               | Null \<Rightarrow> Inl (NotFoundError ''null'') | Given c \<Rightarrow> rq_assert_centre co c (rd_centres s)) (\<lambda>_.
        rbind (rq_assert_godown co godown project (rd_godowns s)) (\<lambda>_.
        rbind (case raw of
                 None \<Rightarrow> Inr (None, [], s)
               | Some ls0 \<Rightarrow>
                   rbind (with_uoms co (rd_items s) ls0) (\<lambda>ls.
                   case line_ids_next mk (length ls) s of (ids, s1) \<Rightarrow>
                   rbind (assert_consistent co (rd_purposes s) (map godown_owner (rd_godowns s))
                     (requisition_tags project purpose godown ls)) (\<lambda>_.
                   Inr (Some ls, ids, s1)))) (\<lambda>(lines, ids, s1).
        rbind (req_edit_draft D (p\<lparr>er_lines := lines\<rparr>) ids r) (\<lambda>q.
        rbind (req_save D q (rq_version q) (rd_rows s1)) (\<lambda>tbl.
        Inr ((), audit_record ''UPDATE'' ''Requisition'' i act (s1\<lparr>rd_rows := tbl\<rparr>)))))))))))))"

definition delete_requisition ::
  "string \<Rightarrow> actor \<Rightarrow> 'a req_db_scheme \<Rightarrow> domain_error + (unit \<times> 'a req_db_scheme)" where
  "delete_requisition i act = uow_run (\<lambda>s.
     rbind (fetch (NotFoundError i) (req_find i (act_company act) (rd_rows s))) (\<lambda>r.
     rbind (req_immutable r) (\<lambda>_.
     rbind (scope_or_forbidden act (rq_project r)) (\<lambda>_.
     Inr ((), audit_record ''DELETE'' ''Requisition'' i act (s\<lparr>rd_rows := req_soft_delete i (act_company act) (rd_rows s)\<rparr>))))))"

section \<open>Review\<close>

definition requisition_no :: "nat \<Rightarrow> string" where
  "requisition_no n = ''REQ-'' @ pad_start 6 (show_nat n)"

definition save_requisition ::
  "dec_lib \<Rightarrow> string \<Rightarrow> string \<Rightarrow> requisition \<Rightarrow> actor \<Rightarrow> 'a req_db_scheme \<Rightarrow> domain_error + 'a req_db_scheme" where
  "save_requisition D action i q act s =
     rbind (req_save D q (rq_version q) (rd_rows s)) (\<lambda>tbl.
     Inr (audit_record action ''Requisition'' i act (s\<lparr>rd_rows := tbl\<rparr>)))"

text \<open>\<open>estimated\<close>: the requested quantities at the indicative rates, each item still active.\<close>

fun line_estimates ::
  "dec_lib \<Rightarrow> string \<Rightarrow> string option \<Rightarrow> stock_item list \<Rightarrow> stock_movement list \<Rightarrow> requisition_line list \<Rightarrow> decimal \<Rightarrow>
   domain_error + ((string \<times> decimal) list \<times> decimal)" where
  "line_estimates D co godown items ms [] acc = Inr ([], acc)"
| "line_estimates D co godown items ms (l # ls) acc =
     rbind (rq_item_uom co (ql_item l) items) (\<lambda>_.
     let rate = indicative_rate D co godown (ql_item l) ms in
     rbind (line_estimates D co godown items ms ls (d_plus D acc (d_times D rate (ql_requested l)))) (\<lambda>(es, total).
     Inr ((ql_id l, rate) # es, total)))"

definition submit_requisition ::
  "dec_lib \<Rightarrow> decimal \<Rightarrow> string \<Rightarrow> actor \<Rightarrow> int \<Rightarrow> 'a req_db_scheme \<Rightarrow> domain_error + (unit \<times> 'a req_db_scheme)" where
  "submit_requisition D threshold i act now = uow_run (\<lambda>s.
     let co = act_company act in
     rbind (fetch (NotFoundError i) (req_find i co (rd_rows s))) (\<lambda>r.
     rbind (rq_assert_godown co (rq_godown r) (rq_project r) (rd_godowns s)) (\<lambda>_.
     rbind (line_estimates D co (rq_godown r) (rd_items s) (st_movements s) (rq_lines r) 0) (\<lambda>(rates, total).
     let estimated = to_dp D 4 total; seq = next_requisition_seq co (act_fy act) (rd_rows s)
     in rbind (req_submit (requisition_no seq) seq estimated (select_tier estimated threshold) rates (act_user act) now r) (\<lambda>q.
        rbind (save_requisition D ''UPDATE'' i q act s) (\<lambda>s1. Inr ((), s1)))))))"

definition selected_tier :: "requisition \<Rightarrow> approval_tier" where
  "selected_tier r = (case rq_tier r of None \<Rightarrow> TierAccounts | Some t \<Rightarrow> t)"

definition approval_of :: "(nat \<Rightarrow> string) \<Rightarrow> decimal \<Rightarrow> string option \<Rightarrow> actor \<Rightarrow> requisition \<Rightarrow> 'a db_scheme \<Rightarrow> approval_input" where
  "approval_of mk threshold reason act r s =
     \<lparr>ai_id = mk (db_ids s), ai_tier = selected_tier r, ai_threshold = threshold, ai_estimated = rq_estimated r, ai_reason = reason,
      ai_by = act_user act\<rparr>"

definition assert_authority :: "actor \<Rightarrow> requisition \<Rightarrow> domain_error + unit" where
  "assert_authority act r =
     require (can_approve (selected_tier r) (approver_context_of act (rq_project r))) (CodedError ''APPROVAL_BEYOND_AUTHORITY'' (rq_id r))"

definition approve_requisition ::
  "dec_lib \<Rightarrow> (nat \<Rightarrow> string) \<Rightarrow> decimal \<Rightarrow> string \<Rightarrow> string option \<Rightarrow> actor \<Rightarrow> int \<Rightarrow> 'a req_db_scheme \<Rightarrow>
   domain_error + (unit \<times> 'a req_db_scheme)" where
  "approve_requisition D mk threshold i note act now = uow_run (\<lambda>s.
     rbind (fetch (NotFoundError i) (req_find i (act_company act) (rd_rows s))) (\<lambda>r.
     rbind (req_assert_submitted r) (\<lambda>_.
     rbind (assert_authority act r) (\<lambda>_.
     rbind (req_approve (approval_of mk threshold note act r s) now r) (\<lambda>q.
     rbind (save_requisition D ''APPROVE'' i q act (s\<lparr>db_ids := Suc (db_ids s)\<rparr>)) (\<lambda>s1. Inr ((), s1)))))))"

definition reject_requisition ::
  "dec_lib \<Rightarrow> (nat \<Rightarrow> string) \<Rightarrow> decimal \<Rightarrow> string \<Rightarrow> string \<Rightarrow> actor \<Rightarrow> int \<Rightarrow> 'a req_db_scheme \<Rightarrow>
   domain_error + (unit \<times> 'a req_db_scheme)" where
  "reject_requisition D mk threshold i reason act now = uow_run (\<lambda>s.
     rbind (fetch (NotFoundError i) (req_find i (act_company act) (rd_rows s))) (\<lambda>r.
     rbind (req_assert_submitted r) (\<lambda>_.
     rbind (assert_authority act r) (\<lambda>_.
     rbind (req_reject (approval_of mk threshold (Some reason) act r s) now r) (\<lambda>q.
     rbind (save_requisition D ''REJECT'' i q act (s\<lparr>db_ids := Suc (db_ids s)\<rparr>)) (\<lambda>s1. Inr ((), s1)))))))"

definition close_requisition ::
  "dec_lib \<Rightarrow> string \<Rightarrow> string \<Rightarrow> actor \<Rightarrow> int \<Rightarrow> 'a req_db_scheme \<Rightarrow> domain_error + (unit \<times> 'a req_db_scheme)" where
  "close_requisition D i reason act now = uow_run (\<lambda>s.
     rbind (fetch (NotFoundError i) (req_find i (act_company act) (rd_rows s))) (\<lambda>r.
     rbind (scope_or_forbidden act (rq_project r)) (\<lambda>_.
     rbind (req_close reason now r) (\<lambda>q.
     rbind (save_requisition D ''CANCEL'' i q act s) (\<lambda>s1. Inr ((), s1))))))"

section \<open>Issue and reversal\<close>

record issue_request =
  ir_line :: string
  ir_qty :: decimal
  ir_godown :: "string option"

text \<open>One line of an issue: the godown, the line of the requisition, and the stock it takes.\<close>

definition issue_one ::
  "dec_lib \<Rightarrow> (nat \<Rightarrow> string) \<Rightarrow> requisition \<Rightarrow> string \<Rightarrow> bool \<Rightarrow> actor \<Rightarrow> int \<Rightarrow> string \<Rightarrow> issue_request \<Rightarrow> 'a req_db_scheme \<Rightarrow>
   domain_error + (requisition_issue_line \<times> 'a req_db_scheme)" where
  "issue_one D mk r from allow act now today q s =
     (let godown = (case ir_godown q of None \<Rightarrow> from | Some g \<Rightarrow> g) in
      rbind (rq_assert_godown (act_company act) (Some godown) (rq_project r) (rd_godowns s)) (\<lambda>_.
      rbind (case find_line_for_update (ir_line q) (act_company act) (rd_rows s) of
               None \<Rightarrow> Inl (NotFoundError (ir_line q))
             | Some (owner, l) \<Rightarrow> if owner = rq_id r then Inr l else Inl (NotFoundError (ir_line q))) (\<lambda>l.
      case ids_next mk s of (i, s1) \<Rightarrow>
      rbind (issue_out D mk \<lparr>cx_company = act_company act, cx_date = today, cx_posted_by = act_user act\<rparr>
               \<lparr>si_godown = godown, si_item = ql_item l, si_qty = ir_qty q, si_source = i\<rparr> allow now s1) (\<lambda>((val, rate, m), s2).
      Inr (\<lparr>il_id = i, il_line = ql_id l, il_item = ql_item l, il_godown = godown, il_movement = m, il_qty = ir_qty q,
            il_rate = rate, il_value = val\<rparr>, s2)))))"

fun issue_loop ::
  "dec_lib \<Rightarrow> (nat \<Rightarrow> string) \<Rightarrow> requisition \<Rightarrow> string \<Rightarrow> bool \<Rightarrow> actor \<Rightarrow> int \<Rightarrow> string \<Rightarrow> issue_request list \<Rightarrow> 'a req_db_scheme \<Rightarrow>
   domain_error + (requisition_issue_line list \<times> 'a req_db_scheme)" where
  "issue_loop D mk r from allow act now today [] s = Inr ([], s)"
| "issue_loop D mk r from allow act now today (q # qs) s =
     rbind (issue_one D mk r from allow act now today q s) (\<lambda>(l, s1).
     rbind (issue_loop D mk r from allow act now today qs s1) (\<lambda>(ls, s2). Inr (l # ls, s2)))"

definition issue_requisition ::
  "dec_lib \<Rightarrow> (nat \<Rightarrow> string) \<Rightarrow> 'a req_db_scheme ports \<Rightarrow> string \<Rightarrow> string \<Rightarrow> issue_request list \<Rightarrow> bool \<Rightarrow> string option \<Rightarrow>
   actor \<Rightarrow> int \<Rightarrow> string \<Rightarrow> 'a req_db_scheme \<Rightarrow> domain_error + (requisition_issue \<times> 'a req_db_scheme)" where
  "issue_requisition D mk P i from qs allow reason act now today s0 =
     rbind (require (\<not> (allow \<and> trim (or_empty reason) = [])) (ValidationError ''negativeStockReason'')) (\<lambda>_.
     rbind (require (qs \<noteq> []) (ValidationError ''lines'')) (\<lambda>_.
     uow_run (\<lambda>s.
       rbind (fetch (NotFoundError i) (req_find i (act_company act) (rd_rows s))) (\<lambda>r.
       rbind (req_assert_issuable r) (\<lambda>_.
       rbind (rq_assert_not_closed (act_company act) (rq_project r) (rd_projects s)) (\<lambda>_.
       rbind (issue_loop D mk r from allow act now today qs s) (\<lambda>(ls, s1).
       case ids_next mk s1 of (iid, s2) \<Rightarrow>
       rbind (build_consumption_command r iid today act
         (map (\<lambda>l. \<lparr>cn_item = il_item l, cn_godown = il_godown l, cn_value = il_value l\<rparr>) ls) (rd_items s2) (rd_accounts s2)) (\<lambda>cmd.
       rbind (post D mk P cmd now s2) (\<lambda>(e, s3).
       rbind (issue_create D iid i (next_issue_no i (rd_issues s3)) from (je_id e) (je_no e) ls (act_user act) now
         (if allow then Some (act_user act) else None)) (\<lambda>q.
       rbind (req_apply_issue D (map (\<lambda>l. (il_line l, il_qty l)) ls) r) (\<lambda>r'.
       rbind (issue_save D q (rd_issues s3)) (\<lambda>issues.
       rbind (save_requisition D ''POST'' i r' act (s3\<lparr>rd_issues := issues\<rparr>)) (\<lambda>s4.
       Inr (q, s4)))))))))))) s0))"

fun reverse_stock_lines ::
  "dec_lib \<Rightarrow> (nat \<Rightarrow> string) \<Rightarrow> actor \<Rightarrow> int \<Rightarrow> string \<Rightarrow> requisition_issue_line list \<Rightarrow> 'a req_db_scheme \<Rightarrow> domain_error + 'a req_db_scheme" where
  "reverse_stock_lines D mk act now today [] s = Inr s"
| "reverse_stock_lines D mk act now today (l # ls) s =
     rbind (reverse_issue_out D mk \<lparr>cx_company = act_company act, cx_date = today, cx_posted_by = act_user act\<rparr>
              \<lparr>si_godown = il_godown l, si_item = il_item l, si_qty = il_qty l, si_source = il_id l\<rparr> (il_value l) now s) (\<lambda>(u, s1).
     reverse_stock_lines D mk act now today ls s1)"

definition reverse_requisition_issue ::
  "dec_lib \<Rightarrow> (nat \<Rightarrow> string) \<Rightarrow> 'a req_db_scheme ports \<Rightarrow> string \<Rightarrow> string \<Rightarrow> string \<Rightarrow> actor \<Rightarrow> int \<Rightarrow> string \<Rightarrow> 'a req_db_scheme \<Rightarrow>
   domain_error + (string \<times> 'a req_db_scheme)" where
  "reverse_requisition_issue D mk P i issue_id reason act now today = uow_run (\<lambda>s.
     rbind (fetch (NotFoundError i) (req_find i (act_company act) (rd_rows s))) (\<lambda>r.
     rbind (issue_find i issue_id (act_company act) (rd_rows s) (rd_issues s)) (\<lambda>found.
     rbind (fetch (NotFoundError issue_id) found) (\<lambda>q.
     rbind (issue_assert_not_reversed q) (\<lambda>_.
     rbind (reverse_stock_lines D mk act now today (iq_lines q) s) (\<lambda>s1.
     rbind (reverse D mk P (iq_entry q) (act_company act) reason (act_user act) now s1) (\<lambda>(e, s2).
     rbind (req_reverse_issue D (map (\<lambda>l. (il_line l, il_qty l)) (iq_lines q)) r) (\<lambda>r'.
     rbind (issue_mark_reversed (act_user act) now q) (\<lambda>q'.
     rbind (req_save D r' (rq_version r') (rd_rows s2)) (\<lambda>tbl.
     Inr (requisition_status_name (rq_status r'), audit_record ''CANCEL'' ''Requisition'' i act
       (s2\<lparr>rd_rows := tbl, rd_issues := issue_save_reversal q' (rd_issues s2)\<rparr>))))))))))))"

end
