(* ===== verification/Requisition_Soundness.thy ===== *)
theory Requisition_Soundness
  imports Requisition_Use_Cases Stock_Books
begin

text \<open>
  The committed steps of the requisition module and the invariant of its tables: what a line has issued is
  what its issues, not reversed, have taken out of the stock, and nothing leaves without an approval of
  the tier the estimate demands.
\<close>

section \<open>Line arithmetic\<close>

definition line_sound :: "requisition_line \<Rightarrow> bool" where
  "line_sound l \<longleftrightarrow> on_grid 4 (ql_requested l) \<and> on_grid 4 (ql_issued l) \<and> on_grid 4 (ql_balance l) \<and>
     0 < ql_requested l \<and> 0 \<le> ql_issued l \<and> 0 \<le> ql_balance l \<and> ql_issued l + ql_balance l = ql_requested l \<and> ql_requested l < 10 ^ 14"

definition taken :: "dec_lib \<Rightarrow> (string \<times> decimal) list \<Rightarrow> string \<Rightarrow> decimal" where
  "taken D us i = sum_list (map (\<lambda>u. round4 D (snd u)) (filter (\<lambda>u. fst u = i) us))"

lemma taken_simps [simp]:
  "taken D [] = (\<lambda>_. 0)" "taken D ((j, q) # us) i = (if j = i then round4 D q else 0) + taken D us i"
  by (simp_all add: taken_def fun_eq_iff)

definition shift_lines :: "(string \<Rightarrow> decimal) \<Rightarrow> requisition_line list \<Rightarrow> requisition_line list" where
  "shift_lines f ls = map (\<lambda>l. l\<lparr>ql_issued := ql_issued l + f (ql_id l), ql_balance := ql_balance l - f (ql_id l)\<rparr>) ls"

lemma shift_lines_simps [simp]:
  "shift_lines (\<lambda>_. 0) ls = ls" "map ql_id (shift_lines f ls) = map ql_id ls"
  by (simp_all add: shift_lines_def comp_def)

lemma shift_shift: "shift_lines f (shift_lines g ls) = shift_lines (\<lambda>i. g i + f i) ls"
  by (simp add: shift_lines_def add.assoc diff_diff_eq)

lemma shift_lines_mem: "l' \<in> set (shift_lines f ls) \<longleftrightarrow>
    (\<exists>l \<in> set ls. l' = l\<lparr>ql_issued := ql_issued l + f (ql_id l), ql_balance := ql_balance l - f (ql_id l)\<rparr>)"
  by (auto simp: shift_lines_def)

lemma find_line: "distinct (map ql_id ls) \<Longrightarrow> l \<in> set ls \<Longrightarrow> List.find (\<lambda>k. ql_id k = ql_id l) ls = Some l"
proof (induction ls)
  case (Cons k ks)
  then show ?case by (cases "k = l") (auto simp: rev_image_eqI)
qed simp

context decimal_js begin

lemma set_issued_shift:
  assumes "distinct (map ql_id ls)" and "l \<in> set ls" and "line_sound l" and "0 \<le> ql_issued l + d" and "d \<le> ql_balance l" and "on_grid 4 d"
  shows "set_issued D l (ql_issued l + d) ls = shift_lines (\<lambda>i. if i = ql_id l then d else 0) ls"
proof -
  have "round4 D (d_minus D (ql_requested l) (ql_issued l + d)) = ql_balance l - d"
  proof -
    have "ql_requested l - (ql_issued l + d) = ql_balance l - d" using assms(3) by (simp add: line_sound_def)
    moreover have "exact_range (ql_balance l - d)"
      using assms(3-6) by (auto simp: line_sound_def exact_range_def abs_less_iff)
    ultimately have "d_minus D (ql_requested l) (ql_issued l + d) = ql_balance l - d"
      using minus_exact [of "ql_requested l" "ql_issued l + d"] by (simp only:)
    then show ?thesis using assms(3,6) by (simp add: round4_def to_dp_id line_sound_def on_grid_diff)
  qed
  moreover have "k = l" if "k \<in> set ls" "ql_id k = ql_id l" for k
    using distinct_map_inj [OF assms(1) that(1) assms(2) that(2)] .
  ultimately show ?thesis
    unfolding set_issued_def update_where_def shift_lines_def by (intro map_cong) auto
qed

lemma shifted_sound:
  "line_sound l \<Longrightarrow> on_grid 4 d \<Longrightarrow> 0 \<le> ql_issued l + d \<Longrightarrow> d \<le> ql_balance l \<Longrightarrow>
   line_sound (l\<lparr>ql_issued := ql_issued l + d, ql_balance := ql_balance l - d\<rparr>)"
  by (simp add: line_sound_def on_grid_add on_grid_diff)

lemma apply_issue_effect:
  assumes "apply_issue_lines D us ls = Inr ls'" and "distinct (map ql_id ls)" and "\<forall>l \<in> set ls. line_sound l"
  shows "ls' = shift_lines (taken D us) ls \<and> (\<forall>l \<in> set ls'. line_sound l) \<and>
    (\<forall>(i, q) \<in> set us. i \<in> ql_id ` set ls \<and> 0 < round4 D q)"
  using assms
proof (induction us arbitrary: ls)
  case (Cons u rest)
  obtain i q where u: "u = (i, q)" by (cases u)
  from Cons.prems(1) obtain l where l: "List.find (\<lambda>l. ql_id l = i) ls = Some l"
    and q: "0 < round4 D q" "round4 D q \<le> ql_balance l"
    and r: "apply_issue_lines D rest (set_issued D l (round4 D (d_plus D (ql_issued l) (round4 D q))) ls) = Inr ls'"
    by (auto simp: u req_line_or_throw_def Let_def elim!: rbindE)
  from find_SomeD [OF l] have lm: "l \<in> set ls" "ql_id l = i" by simp_all
  with Cons.prems(3) have ls: "line_sound l" by blast
  have g: "on_grid 4 (round4 D q)" by (simp add: round4_def to_dp_half_up)
  have "exact_range (ql_issued l + round4 D q)" using ls q g by (auto simp: line_sound_def exact_range_def abs_less_iff)
  then have "round4 D (d_plus D (ql_issued l) (round4 D q)) = ql_issued l + round4 D q"
    using ls g by (simp add: plus_exact round4_def to_dp_id line_sound_def on_grid_add)
  moreover have s: "0 \<le> ql_issued l + round4 D q" using ls q by (simp add: line_sound_def)
  ultimately have step: "set_issued D l (round4 D (d_plus D (ql_issued l) (round4 D q))) ls = shift_lines (\<lambda>j. if j = i then round4 D q else 0) ls"
    using set_issued_shift [OF Cons.prems(2) lm(1) ls s q(2) g] lm(2) by simp
  let ?ks = "shift_lines (\<lambda>j. if j = i then round4 D q else 0) ls"
  have "line_sound k" if "k \<in> set ?ks" for k
  proof -
    from that obtain m where m: "m \<in> set ls" "k = m\<lparr>ql_issued := ql_issued m + (if ql_id m = i then round4 D q else 0),
        ql_balance := ql_balance m - (if ql_id m = i then round4 D q else 0)\<rparr>" by (auto simp: shift_lines_mem)
    show ?thesis
    proof (cases "ql_id m = i")
      case True
      then have "m = l" using distinct_map_inj [OF Cons.prems(2) m(1) lm(1)] lm(2) by simp
      with m True shifted_sound [OF ls g s q(2)] show ?thesis by simp
    next
      case False
      with m Cons.prems(3) show ?thesis by simp
    qed
  qed
  with Cons.IH [OF r [unfolded step]] Cons.prems(2) have IH: "ls' = shift_lines (taken D rest) ?ks" "\<forall>l \<in> set ls'. line_sound l"
    "\<forall>(i, q) \<in> set rest. i \<in> ql_id ` set ls \<and> 0 < round4 D q" by (auto simp flip: set_map)
  have "taken D (u # rest) = (\<lambda>j. (if j = i then round4 D q else 0) + taken D rest j)" by (auto simp: u)
  with IH(1) have "ls' = shift_lines (taken D (u # rest)) ls" by (simp only: shift_shift)
  moreover have "\<forall>(i, q) \<in> set (u # rest). i \<in> ql_id ` set ls \<and> 0 < round4 D q" using IH(3) lm q(1) u by auto
  ultimately show ?case using IH(2) by blast
qed simp

lemma reverse_issue_effect:
  assumes "\<forall>l \<in> set ls. line_sound l \<and> taken D us (ql_id l) \<le> ql_issued l" and "distinct (map ql_id ls)"
    and "\<forall>(i, q) \<in> set us. i \<in> ql_id ` set ls \<and> 0 \<le> round4 D q"
  shows "reverse_issue_lines D us ls = Inr (shift_lines (\<lambda>i. - taken D us i) ls)"
  using assms
proof (induction us arbitrary: ls)
  case (Cons u rest)
  obtain i q where u: "u = (i, q)" by (cases u)
  from Cons.prems(3) u obtain l where lm: "l \<in> set ls" "ql_id l = i" and q: "0 \<le> round4 D q" by auto
  with Cons.prems(1) have ls: "line_sound l" and t: "round4 D q + taken D rest i \<le> ql_issued l" by (auto simp: u)
  have nn: "0 \<le> taken D rest j" for j
    unfolding taken_def by (rule sum_list_nonneg) (use Cons.prems(3) in auto)
  have g: "on_grid 4 (round4 D q)" by (simp add: round4_def to_dp_half_up)
  have le: "round4 D q \<le> ql_issued l" using t nn [of i] by simp
  have "exact_range (ql_issued l - round4 D q)" using ls le q g by (auto simp: line_sound_def exact_range_def abs_less_iff)
  then have "round4 D (d_minus D (ql_issued l) (round4 D q)) = ql_issued l + - round4 D q"
    using ls g by (simp add: minus_exact round4_def to_dp_id line_sound_def on_grid_diff)
  moreover have s: "0 \<le> ql_issued l + - round4 D q" "- round4 D q \<le> ql_balance l" using ls le q by (auto simp: line_sound_def)
  moreover have g': "on_grid 4 (- round4 D q)" using g by simp
  ultimately have step: "set_issued D l (if round4 D (d_minus D (ql_issued l) (round4 D q)) < 0 then 0 else round4 D (d_minus D (ql_issued l) (round4 D q))) ls
      = shift_lines (\<lambda>j. if j = i then - round4 D q else 0) ls"
    using set_issued_shift [OF Cons.prems(2) lm(1) ls s g'] lm(2) by simp
  let ?ks = "shift_lines (\<lambda>j. if j = i then - round4 D q else 0) ls"
  have "line_sound k \<and> taken D rest (ql_id k) \<le> ql_issued k" if "k \<in> set ?ks" for k
  proof -
    from that obtain m where m: "m \<in> set ls" "k = m\<lparr>ql_issued := ql_issued m + (if ql_id m = i then - round4 D q else 0),
        ql_balance := ql_balance m - (if ql_id m = i then - round4 D q else 0)\<rparr>" by (auto simp: shift_lines_mem)
    show ?thesis
    proof (cases "ql_id m = i")
      case True
      then have "m = l" using distinct_map_inj [OF Cons.prems(2) m(1) lm(1)] lm(2) by simp
      with m True shifted_sound [OF ls g' s] t show ?thesis by simp
    next
      case False
      with m Cons.prems(1) show ?thesis by (auto simp: u)
    qed
  qed
  moreover have "distinct (map ql_id ?ks)" using Cons.prems(2) by simp
  moreover have "\<forall>(j, x) \<in> set rest. j \<in> ql_id ` set ?ks \<and> 0 \<le> round4 D x"
    using Cons.prems(3) by (auto simp flip: set_map)
  ultimately have "reverse_issue_lines D rest ?ks = Inr (shift_lines (\<lambda>i. - taken D rest i) ?ks)" by (intro Cons.IH) blast+
  moreover have "(\<lambda>j. - taken D (u # rest) j) = (\<lambda>j. (if j = i then - round4 D q else 0) + - taken D rest j)" by (auto simp: u)
  ultimately show ?case
    using find_line [OF Cons.prems(2) lm(1)] lm(2) step by (simp add: u req_line_or_throw_def fetch_def Let_def shift_shift)
qed simp

end

section \<open>The invariant\<close>

definition issued_of :: "string \<Rightarrow> requisition_issue list \<Rightarrow> decimal" where
  "issued_of i issues = sum_list (map il_qty (filter (\<lambda>l. il_line l = i) (concat (map iq_lines (filter (\<lambda>q. iq_reversed_at q = None) issues)))))"

definition early :: "requisition_status \<Rightarrow> bool" where
  "early st \<longleftrightarrow> st \<in> {RqDraft, RqSubmitted, RqRejected}"

definition status_ok :: "requisition_issue list \<Rightarrow> requisition \<Rightarrow> bool" where
  "status_ok issues r \<longleftrightarrow>
     (early (rq_status r) \<longrightarrow> (\<forall>q \<in> set issues. iq_requisition q \<noteq> rq_id r)) \<and>
     (rq_status r = RqApproved \<longrightarrow> \<not> any_issued (rq_lines r)) \<and>
     (rq_status r = RqPartiallyIssued \<longrightarrow> any_issued (rq_lines r) \<and> \<not> fully_issued (rq_lines r)) \<and>
     (rq_status r = RqIssued \<longrightarrow> fully_issued (rq_lines r))"

definition approval_ok :: "decimal \<Rightarrow> requisition \<Rightarrow> bool" where
  "approval_ok threshold r \<longleftrightarrow>
     (rq_status r \<in> {RqDraft, RqSubmitted} \<longrightarrow> rq_approvals r = []) \<and>
     (rq_status r \<noteq> RqDraft \<longrightarrow> rq_tier r = Some (select_tier (rq_estimated r) threshold)) \<and>
     (\<not> early (rq_status r) \<longrightarrow> (\<exists>a \<in> set (rq_approvals r). qa_decision a = DecApproved \<and> rq_tier r = Some (qa_tier a) \<and>
        qa_estimated a = rq_estimated r))"

definition doc_ok :: "decimal \<Rightarrow> requisition_issue list \<Rightarrow> requisition \<Rightarrow> bool" where
  "doc_ok threshold issues r \<longleftrightarrow> on_grid 4 (rq_estimated r) \<and> status_ok issues r \<and> approval_ok threshold r \<and>
     (\<forall>l \<in> set (rq_lines r). line_sound l \<and> ql_issued l = issued_of (ql_id l) issues)"

definition left_stock :: "stock_movement list \<Rightarrow> requisition_issue_line \<Rightarrow> bool" where
  "left_stock ms l \<longleftrightarrow> (\<exists>m \<in> set ms. mv_id m = il_movement l \<and> mv_direction m = MvOut \<and> mv_item m = il_item l \<and>
     mv_godown m = il_godown l \<and> mv_quantity m = il_qty l \<and> mv_value m = il_value l)"

definition issue_ok ::
  "requisition_row list \<Rightarrow> stock_movement list \<Rightarrow> journal_entry list \<Rightarrow> requisition_issue \<Rightarrow> bool" where
  "issue_ok rows ms es q \<longleftrightarrow> iq_lines q \<noteq> [] \<and>
     (\<exists>x \<in> set rows. rq_id (rr_doc x) = iq_requisition q \<and> (\<forall>l \<in> set (iq_lines q). il_line l \<in> ql_id ` set (rq_lines (rr_doc x)))) \<and>
     (\<forall>l \<in> set (iq_lines q). on_grid 4 (il_qty l) \<and> 0 < il_qty l \<and> il_value l = il_qty l * il_rate l \<and> left_stock ms l) \<and>
     (\<exists>e \<in> set es. je_id e = iq_entry q \<and> je_source_type e = ''REQ_ISSUE'' \<and> je_source_id e = iq_id q)"

definition rows_ok :: "decimal \<Rightarrow> requisition_row list \<Rightarrow> requisition_issue list \<Rightarrow> bool" where
  "rows_ok threshold rows issues \<longleftrightarrow> distinct (map (\<lambda>x. rq_id (rr_doc x)) rows) \<and> distinct (req_line_ids rows) \<and>
     (\<forall>x \<in> set rows. doc_ok threshold issues (rr_doc x))"

definition issues_ok :: "requisition_row list \<Rightarrow> stock_movement list \<Rightarrow> journal_entry list \<Rightarrow> requisition_issue list \<Rightarrow> bool" where
  "issues_ok rows ms es issues \<longleftrightarrow> distinct (map iq_id issues) \<and> (\<forall>q \<in> set issues. issue_ok rows ms es q)"

definition req_inv :: "decimal \<Rightarrow> 'a req_db_scheme \<Rightarrow> bool" where
  "req_inv threshold s \<longleftrightarrow> rows_ok threshold (rd_rows s) (rd_issues s) \<and> issues_ok (rd_rows s) (st_movements s) (db_entries s) (rd_issues s)"

section \<open>Sums over issues\<close>

lemma issued_of_simps [simp]:
  "issued_of i [] = 0"
  "issued_of i (q # qs) = (if iq_reversed_at q = None then sum_list (map il_qty (filter (\<lambda>l. il_line l = i) (iq_lines q))) else 0) + issued_of i qs"
  "issued_of i (qs @ rs) = issued_of i qs + issued_of i rs"
  by (auto simp: issued_of_def)

lemma taken_stored:
  "sum_list (map il_qty (filter (\<lambda>l. il_line l = i) (map (stored_issue_line D) ls))) = taken D (map (\<lambda>l. (il_line l, il_qty l)) ls) i"
  by (induction ls) (auto simp: stored_issue_line_def round4_def)

lemma taken_grid:
  assumes "decimal_js D" and "\<forall>l \<in> set ls. on_grid 4 (il_qty l)"
  shows "taken D (map (\<lambda>l. (il_line l, il_qty l)) ls) i = sum_list (map il_qty (filter (\<lambda>l. il_line l = i) ls))"
  using assms(2) by (induction ls) (auto simp: round4_def decimal_js.to_dp_id [OF assms(1)])

lemma issued_of_absent: "(\<And>q l. q \<in> set issues \<Longrightarrow> l \<in> set (iq_lines q) \<Longrightarrow> il_line l \<noteq> i) \<Longrightarrow> issued_of i issues = 0"
proof -
  assume a: "\<And>q l. q \<in> set issues \<Longrightarrow> l \<in> set (iq_lines q) \<Longrightarrow> il_line l \<noteq> i"
  then have "filter (\<lambda>l. il_line l = i) (concat (map iq_lines (filter (\<lambda>q. iq_reversed_at q = None) issues))) = []"
    by (auto simp: filter_empty_conv)
  then show ?thesis by (simp only: issued_of_def list.simps sum_list.Nil)
qed

lemma issued_of_reversed:
  assumes "distinct (map iq_id issues)" and "q \<in> set issues" and "iq_reversed_at q = None" and "iq_id p = iq_id q" and "iq_reversed_at p = Some t"
  shows "issued_of i (issue_save_reversal p issues) = issued_of i issues - sum_list (map il_qty (filter (\<lambda>l. il_line l = i) (iq_lines q)))"
  using assms(1,2)
proof (induction issues)
  case (Cons x xs)
  show ?case
  proof (cases "x = q")
    case True
    with Cons.prems(1) assms(4) have "iq_id p \<notin> iq_id ` set xs" by simp
    then have "iq_id y \<noteq> iq_id p" if "y \<in> set xs" for y using that by (metis image_eqI)
    then have "issue_save_reversal p xs = xs" by (simp add: issue_save_reversal_def update_where_def map_idI)
    with True assms(3-5) show ?thesis by (simp add: issue_save_reversal_def update_where_def)
  next
    case False
    with Cons.prems assms(4) have "iq_id x \<noteq> iq_id p" by force
    with False Cons show ?thesis by (simp add: issue_save_reversal_def update_where_def)
  qed
qed simp

section \<open>Rows\<close>

lemma stored_req_line_simps [simp]:
  "ql_id (stored_req_line D l) = ql_id l" "ql_no (stored_req_line D l) = ql_no l" "ql_item (stored_req_line D l) = ql_item l"
  by (simp_all add: stored_req_line_def)

lemma req_saved_simps [simp]:
  "rq_id (rr_doc (req_saved D r v x)) = rq_id r" "rq_status (rr_doc (req_saved D r v x)) = rq_status r"
  "rq_lines (rr_doc (req_saved D r v x)) = map (stored_req_line D) (rq_lines r)" "rq_tier (rr_doc (req_saved D r v x)) = rq_tier r"
  "rq_estimated (rr_doc (req_saved D r v x)) = to_dp D 4 (rq_estimated r)"
  "rq_approvals (rr_doc (req_saved D r v x)) = rq_approvals (rr_doc x) @ new_approvals D r (rr_doc x)"
  by (simp_all add: req_saved_def)

lemma same_approvals: "rq_approvals r = rq_approvals old \<Longrightarrow> new_approvals D r old = []"
  by (simp add: new_approvals_def filter_empty_conv)

lemma line_ids_row: "x \<in> set rows \<Longrightarrow> distinct (req_line_ids rows) \<Longrightarrow> distinct (map ql_id (rq_lines (rr_doc x)))"
  by (induction rows) (auto simp: req_line_ids_def)

lemma req_find_Some:
  "req_find i co tbl = Some r \<Longrightarrow> \<exists>x \<in> set tbl. rr_doc x = r \<and> rq_id r = i \<and> rq_company r = co \<and> \<not> rr_deleted x"
  by (auto simp: req_find_def dest!: find_SomeD)

lemma req_save_effect:
  assumes "req_save D r v tbl = Inr tbl'" and "distinct (map (\<lambda>x. rq_id (rr_doc x)) tbl)" and "x \<in> set tbl" and "rq_id r = rq_id (rr_doc x)"
  shows "tbl' = update_where (\<lambda>y. y = x) (req_saved D r v) tbl" and "distinct (req_line_ids tbl')"
    and "\<forall>l \<in> set (rq_lines r). req_line_checks (stored_req_line D l) = Inr ()"
proof -
  from assms(1) have h: "list_ex (req_hit r v) tbl" and t: "tbl' = update_where (req_hit r v) (req_saved D r v) tbl"
    and c: "riter req_line_checks (map (stored_req_line D) (rq_lines r)) = Inr ()" and "distinct (req_line_ids tbl')"
    by (auto simp: req_save_def Let_def elim!: rbindE)
  show "distinct (req_line_ids tbl')" by fact
  show "\<forall>l \<in> set (rq_lines r). req_line_checks (stored_req_line D l) = Inr ()" using c by (auto simp: riter_eq_Inr)
  show "tbl' = update_where (\<lambda>y. y = x) (req_saved D r v) tbl"
    unfolding t by (rule hit_unique(3) [OF assms(2,3) _ h]) (simp add: req_hit_def assms(4))
qed

text \<open>One row replaced by a sound one with the same key.\<close>

lemma rows_ok_replace:
  assumes "rows_ok th rows issues" and "x \<in> set rows" and "rq_id (rr_doc (f x)) = rq_id (rr_doc x)"
    and "distinct (req_line_ids (update_where (\<lambda>y. y = x) f rows))" and "doc_ok th issues' (rr_doc (f x))"
    and "\<And>y. y \<in> set rows \<Longrightarrow> y \<noteq> x \<Longrightarrow> doc_ok th issues (rr_doc y) \<Longrightarrow> doc_ok th issues' (rr_doc y)"
  shows "rows_ok th (update_where (\<lambda>y. y = x) f rows) issues'"
proof -
  have "map (\<lambda>x. rq_id (rr_doc x)) (update_where (\<lambda>y. y = x) f rows) = map (\<lambda>x. rq_id (rr_doc x)) rows"
    by (rule update_one_keys) (rule assms(3))
  moreover have "doc_ok th issues' (rr_doc z)" if "z \<in> set (update_where (\<lambda>y. y = x) f rows)" for z
    using that assms(1,2,5,6) by (auto simp: update_where_def rows_ok_def split: if_splits)
  ultimately show ?thesis using assms(1,4) by (simp add: rows_ok_def)
qed

lemma issue_ok_mono:
  assumes "issue_ok rows ms es q" and "set ms \<subseteq> set ms'" and "set es \<subseteq> set es'"
    and "\<And>x. x \<in> set rows \<Longrightarrow> rq_id (rr_doc x) = iq_requisition q \<Longrightarrow> \<exists>y \<in> set rows'. rq_id (rr_doc y) = iq_requisition q \<and>
      ql_id ` set (rq_lines (rr_doc x)) \<subseteq> ql_id ` set (rq_lines (rr_doc y))"
  shows "issue_ok rows' ms' es' q"
  using assms unfolding issue_ok_def left_stock_def by (meson subsetD)

lemma issues_ok_replace:
  assumes "issues_ok rows ms es issues" and "set ms \<subseteq> set ms'" and "set es \<subseteq> set es'" and "rq_id (rr_doc (f x)) = rq_id (rr_doc x)"
    and "x \<in> set rows"
    and "(\<forall>q \<in> set issues. iq_requisition q \<noteq> rq_id (rr_doc x)) \<or> ql_id ` set (rq_lines (rr_doc x)) \<subseteq> ql_id ` set (rq_lines (rr_doc (f x)))"
  shows "issues_ok (update_where (\<lambda>y. y = x) f rows) ms' es' issues"
proof -
  have "issue_ok (update_where (\<lambda>y. y = x) f rows) ms' es' q" if q: "q \<in> set issues" for q
  proof (rule issue_ok_mono [OF _ assms(2,3)])
    show "issue_ok rows ms es q" using assms(1) q by (simp add: issues_ok_def)
    fix y assume y: "y \<in> set rows" "rq_id (rr_doc y) = iq_requisition q"
    show "\<exists>z \<in> set (update_where (\<lambda>y. y = x) f rows). rq_id (rr_doc z) = iq_requisition q \<and>
      ql_id ` set (rq_lines (rr_doc y)) \<subseteq> ql_id ` set (rq_lines (rr_doc z))"
    proof (cases "y = x")
      case True
      with assms(4-6) y q show ?thesis by (intro bexI [of _ "f x"]) (auto intro: update_one_new)
    next
      case False
      with y show ?thesis by (intro bexI [of _ y]) (auto intro: update_one_keeps)
    qed
  qed
  with assms(1) show ?thesis by (simp add: issues_ok_def)
qed

end
