(* ===== verification/Requisition_Steps.thy ===== *)
theory Requisition_Steps
  imports Requisition_Soundness
begin

text \<open>
  Every committed step of the requisition module keeps its invariant: the drafts and their review first, then
  the issue with its stock movements and its entry, and the reversal of an issue.
\<close>

section \<open>Steps\<close>

text \<open>Whatever else the program does, it leaves these tables alone and only appends to the two logs.\<close>

definition req_others :: "'a req_db_scheme \<Rightarrow> 'a req_db_scheme \<Rightarrow> bool" where
  "req_others s s' \<longleftrightarrow> rd_rows s' = rd_rows s \<and> rd_issues s' = rd_issues s \<and>
     (\<exists>ms. st_movements s' = st_movements s @ ms) \<and> (\<exists>es. db_entries s' = db_entries s @ es)"

inductive req_step :: "dec_lib \<Rightarrow> (nat \<Rightarrow> string) \<Rightarrow> decimal \<Rightarrow> 'a req_db_scheme \<Rightarrow> 'a req_db_scheme \<Rightarrow> bool" for D mk th where
  q_create: "create_requisition D mk inp raw act s = Inr (i, s') \<Longrightarrow> req_step D mk th s s'"
| q_update: "update_requisition D mk i p raw act s = Inr (u, s') \<Longrightarrow> req_step D mk th s s'"
| q_delete: "delete_requisition i act s = Inr (u, s') \<Longrightarrow> req_step D mk th s s'"
| q_submit: "submit_requisition D th i act now s = Inr (u, s') \<Longrightarrow> req_step D mk th s s'"
| q_approve: "approve_requisition D mk th i note act now s = Inr (u, s') \<Longrightarrow> req_step D mk th s s'"
| q_reject: "reject_requisition D mk th i reason act now s = Inr (u, s') \<Longrightarrow> req_step D mk th s s'"
| q_close: "close_requisition D i reason act now s = Inr (u, s') \<Longrightarrow> req_step D mk th s s'"
| q_issue: "issue_requisition D mk (erp_ports mk) i from qs allow reason act now today s = Inr (q, s') \<Longrightarrow> req_step D mk th s s'"
| q_reverse: "reverse_requisition_issue D mk (erp_ports mk) i issue_id reason act now today s = Inr (st, s') \<Longrightarrow> req_step D mk th s s'"
| q_other: "req_others s s' \<Longrightarrow> req_step D mk th s s'"

lemma req_audit [simp]:
  fixes s :: "'a req_db_scheme"
  shows "rd_rows (audit_record a b c d s) = rd_rows s" "rd_issues (audit_record a b c d s) = rd_issues s"
    "st_movements (audit_record a b c d s) = st_movements s"
  by (simp_all add: audit_record_def)

lemma req_invD:
  assumes "req_inv th s"
  shows "rows_ok th (rd_rows s) (rd_issues s)" and "issues_ok (rd_rows s) (st_movements s) (db_entries s) (rd_issues s)"
    and "distinct (map (\<lambda>x. rq_id (rr_doc x)) (rd_rows s))" and "distinct (req_line_ids (rd_rows s))"
  using assms by (auto simp: req_inv_def rows_ok_def)

lemma row_doc_ok: "req_inv th s \<Longrightarrow> x \<in> set (rd_rows s) \<Longrightarrow> doc_ok th (rd_issues s) (rr_doc x)"
  by (simp add: req_inv_def rows_ok_def)

lemma line_ids_disjoint:
  "distinct (req_line_ids rows) \<Longrightarrow> x \<in> set rows \<Longrightarrow> y \<in> set rows \<Longrightarrow> x \<noteq> y \<Longrightarrow>
   ql_id ` set (rq_lines (rr_doc x)) \<inter> ql_id ` set (rq_lines (rr_doc y)) = {}"
proof (induction rows)
  case (Cons z zs)
  then show ?case unfolding req_line_ids_def by (auto; blast)
qed simp

lemma issues_ok_mono:
  assumes "issues_ok rows ms es issues" and "set ms \<subseteq> set ms'" and "set es \<subseteq> set es'"
    and "\<And>x. x \<in> set rows \<Longrightarrow> \<exists>y \<in> set rows'. rq_id (rr_doc y) = rq_id (rr_doc x) \<and>
      ql_id ` set (rq_lines (rr_doc x)) \<subseteq> ql_id ` set (rq_lines (rr_doc y))"
  shows "issues_ok rows' ms' es' issues"
proof -
  have "issue_ok rows' ms' es' q" if "q \<in> set issues" for q
  proof (rule issue_ok_mono [OF _ assms(2,3)])
    show "issue_ok rows ms es q" using assms(1) that by (simp add: issues_ok_def)
  qed (use assms(4) in metis)
  with assms(1) show ?thesis by (simp add: issues_ok_def)
qed

section \<open>A document saved\<close>

lemma req_save_keeps:
  assumes "req_inv th s" and "x \<in> set (rd_rows s)" and "req_save D q v (rd_rows s) = Inr tbl" and "rq_id q = rq_id (rr_doc x)"
    and "doc_ok th (rd_issues s) (rr_doc (req_saved D q v x))"
    and "(\<forall>p \<in> set (rd_issues s). iq_requisition p \<noteq> rq_id q) \<or> ql_id ` set (rq_lines (rr_doc x)) \<subseteq> ql_id ` set (rq_lines q)"
    and "rd_rows s' = tbl" and "rd_issues s' = rd_issues s" and "st_movements s' = st_movements s" and "db_entries s' = db_entries s"
  shows "req_inv th s'"
proof -
  note inv = req_invD [OF assms(1)] and e = req_save_effect [OF assms(3) req_invD(3) [OF assms(1)] assms(2,4)]
  have "rows_ok th tbl (rd_issues s)"
    unfolding e(1) by (rule rows_ok_replace [OF inv(1) assms(2)]) (use assms(4,5) e(1,2) in auto)
  moreover have "issues_ok tbl (st_movements s) (db_entries s) (rd_issues s)"
    unfolding e(1) by (rule issues_ok_replace [OF inv(2) subset_refl subset_refl _ assms(2)]) (use assms(4,6) in \<open>auto simp: image_image\<close>)
  ultimately show ?thesis using assms(7-10) by (simp add: req_inv_def)
qed

lemma save_requisition_Inr:
  fixes s s' :: "'a req_db_scheme"
  assumes "save_requisition D action i q act s = Inr s'"
  shows "\<exists>tbl. req_save D q (rq_version q) (rd_rows s) = Inr tbl \<and> rd_rows s' = tbl \<and> rd_issues s' = rd_issues s \<and>
    st_movements s' = st_movements s \<and> db_entries s' = db_entries s"
  using assms by (auto simp: save_requisition_def elim!: rbindE)

context decimal_js begin

lemma checks_sound: "req_line_checks (stored_req_line D l) = Inr () \<Longrightarrow> line_sound (stored_req_line D l)"
  by (auto simp: req_line_checks_def in_column_def line_sound_def stored_req_line_def to_dp_half_up elim!: rbindE)

lemma stored_sound: "line_sound l \<Longrightarrow> ql_issued (stored_req_line D l) = ql_issued l \<and> ql_balance (stored_req_line D l) = ql_balance l \<and>
    ql_requested (stored_req_line D l) = ql_requested l \<and> line_sound (stored_req_line D l)"
  by (simp add: stored_req_line_def line_sound_def to_dp_id)

lemma stored_lines_flags:
  assumes "\<forall>l \<in> set ls. line_sound l"
  shows "any_issued (map (stored_req_line D) ls) = any_issued ls" "fully_issued (map (stored_req_line D) ls) = fully_issued ls"
  using assms stored_sound by (auto simp: any_issued_def fully_issued_def list_ex_iff list_all_iff)

text \<open>A change of the header alone: the lines keep what they have issued.\<close>

lemma header_change_ok:
  assumes "doc_ok th issues r" and "rr_doc x = r" and "rq_id q = rq_id r"
    and "map ql_id (rq_lines q) = map ql_id (rq_lines r)"
    and "\<And>l. l \<in> set (rq_lines q) \<Longrightarrow> \<exists>k \<in> set (rq_lines r). ql_id l = ql_id k \<and> ql_issued l = ql_issued k \<and> ql_balance l = ql_balance k \<and>
      ql_requested l = ql_requested k"
    and "status_ok issues q" and "on_grid 4 (rq_estimated q)" and "approval_ok th (rr_doc (req_saved D q v x))"
  shows "doc_ok th issues (rr_doc (req_saved D q v x))"
proof -
  have ls: "line_sound l \<and> ql_issued l = issued_of (ql_id l) issues" if l: "l \<in> set (rq_lines q)" for l
  proof -
    from assms(5) [OF l] obtain k where "k \<in> set (rq_lines r)" "ql_id l = ql_id k" "ql_issued l = ql_issued k" "ql_balance l = ql_balance k"
      "ql_requested l = ql_requested k" by blast
    with assms(1) show ?thesis by (auto simp: doc_ok_def line_sound_def)
  qed
  then have "status_ok issues (rr_doc (req_saved D q v x))"
    using assms(6) stored_lines_flags [of "rq_lines q"] by (simp add: status_ok_def)
  with ls stored_sound assms(7,8) show ?thesis by (simp add: doc_ok_def to_dp_id)
qed

lemma find_row:
  assumes "req_inv th s" and "req_find i co (rd_rows s) = Some r"
  obtains x where "x \<in> set (rd_rows s)" "rr_doc x = r" "rq_id r = i" "doc_ok th (rd_issues s) r"
  using req_find_Some [OF assms(2)] row_doc_ok [OF assms(1)] by blast

lemma same_lines: "l \<in> set ls \<Longrightarrow> \<exists>k \<in> set ls. ql_id l = ql_id k \<and> ql_issued l = ql_issued k \<and> ql_balance l = ql_balance k \<and> ql_requested l = ql_requested k"
  by blast

lemma status_ok_lines:
  assumes "status_ok issues r" and "rq_id q = rq_id r" and "rq_lines q = rq_lines r" and "early (rq_status r)" and "early (rq_status q)"
  shows "status_ok issues q"
  using assms by (auto simp: status_ok_def early_def)

lemma header_saved:
  assumes "req_inv th s" and "x \<in> set (rd_rows s)" and "save_requisition D action i q act s0 = Inr s'" and "rq_id q = rq_id (rr_doc x)"
    and "map ql_id (rq_lines q) = map ql_id (rq_lines (rr_doc x))"
    and "\<And>l. l \<in> set (rq_lines q) \<Longrightarrow> \<exists>k \<in> set (rq_lines (rr_doc x)). ql_id l = ql_id k \<and> ql_issued l = ql_issued k \<and> ql_balance l = ql_balance k \<and>
      ql_requested l = ql_requested k"
    and "status_ok (rd_issues s) q" and "on_grid 4 (rq_estimated q)" and "approval_ok th (rr_doc (req_saved D q (rq_version q) x))"
    and "rd_rows s0 = rd_rows s" and "rd_issues s0 = rd_issues s" and "st_movements s0 = st_movements s" and "db_entries s0 = db_entries s"
  shows "req_inv th s'"
proof -
  from save_requisition_Inr [OF assms(3)] obtain tbl where t: "req_save D q (rq_version q) (rd_rows s) = Inr tbl"
    and s': "rd_rows s' = tbl" "rd_issues s' = rd_issues s" "st_movements s' = st_movements s" "db_entries s' = db_entries s"
    using assms(10-13) by auto
  have "ql_id ` set (rq_lines (rr_doc x)) = ql_id ` set (rq_lines q)" using arg_cong [OF assms(5), of set] by simp
  then show ?thesis
    by (intro req_save_keeps [OF assms(1,2) t assms(4) _ _ s'] header_change_ok [OF row_doc_ok [OF assms(1,2)] refl assms(4-9)] disjI2) (assumption, erule equalityD1)
qed

section \<open>Review\<close>

lemma approve_keeps:
  assumes "approve_requisition D mk th i note act now s = Inr (u, s')" and "req_inv th s"
  shows "req_inv th s'"
proof -
  from uow_run_InrD [OF assms(1) [unfolded approve_requisition_def], THEN conjunct1] obtain r q where
    r: "req_find i (act_company act) (rd_rows s) = Some r" and q: "req_approve (approval_of mk th note act r s) now r = Inr q"
    and v: "save_requisition D ''APPROVE'' i q act (s\<lparr>db_ids := Suc (db_ids s)\<rparr>) = Inr s'"
    by (auto elim!: rbindE)
  from find_row [OF assms(2) r] obtain x where x: "x \<in> set (rd_rows s)" "rr_doc x = r" and ok: "doc_ok th (rd_issues s) r" by blast
  from q have st: "rq_status r = RqSubmitted" and q': "q = (record_approval DecApproved note (approval_of mk th note act r s) now r)\<lparr>rq_status := RqApproved\<rparr>"
    by (auto simp: req_approve_def req_assert_submitted_def approval_of_def elim!: rbindE)
  have ap: "rq_approvals r = []" "rq_tier r = Some (select_tier (rq_estimated r) th)" "on_grid 4 (rq_estimated r)"
    using ok st by (auto simp: doc_ok_def approval_ok_def)
  have "\<not> any_issued (rq_lines r)"
  proof -
    have "issued_of (ql_id l) (rd_issues s) = 0" if l: "l \<in> set (rq_lines r)" for l
    proof (rule issued_of_absent, rule notI)
      fix p k assume p: "p \<in> set (rd_issues s)" "k \<in> set (iq_lines p)" "il_line k = ql_id l"
      from req_invD(2) [OF assms(2)] p(1) obtain y where y: "y \<in> set (rd_rows s)" "rq_id (rr_doc y) = iq_requisition p"
        "\<forall>l \<in> set (iq_lines p). il_line l \<in> ql_id ` set (rq_lines (rr_doc y))" unfolding issues_ok_def issue_ok_def by blast
      have "y \<noteq> x" using ok st p(1) y(2) x(2) by (auto simp: doc_ok_def status_ok_def early_def)
      from line_ids_disjoint [OF req_invD(4) [OF assms(2)] y(1) x(1) this] y(3) p(2,3) l x(2) show False by force
    qed
    with ok show ?thesis by (auto simp: any_issued_def list_ex_iff doc_ok_def)
  qed
  then have so: "status_ok (rd_issues s) q" by (simp add: q' status_ok_def early_def record_approval_def)
  have "approval_ok th (rr_doc (req_saved D q (rq_version q) x))"
    using ap x(2) by (simp add: q' approval_ok_def record_approval_def new_approvals_def stored_approval_def approval_of_def selected_tier_def
        early_def to_dp_id)
  with so ap(3) show ?thesis
    by (intro header_saved [OF assms(2) x(1) v]) (auto simp: q' record_approval_def x(2))
qed

lemma reject_keeps:
  assumes "reject_requisition D mk th i reason act now s = Inr (u, s')" and "req_inv th s"
  shows "req_inv th s'"
proof -
  from uow_run_InrD [OF assms(1) [unfolded reject_requisition_def], THEN conjunct1] obtain r q where
    r: "req_find i (act_company act) (rd_rows s) = Some r" and q: "req_reject (approval_of mk th (Some reason) act r s) now r = Inr q"
    and v: "save_requisition D ''REJECT'' i q act (s\<lparr>db_ids := Suc (db_ids s)\<rparr>) = Inr s'"
    by (auto elim!: rbindE)
  from find_row [OF assms(2) r] obtain x where x: "x \<in> set (rd_rows s)" "rr_doc x = r" and ok: "doc_ok th (rd_issues s) r" by blast
  from q obtain why where st: "rq_status r = RqSubmitted"
    and q': "q = (record_approval DecRejected why (approval_of mk th (Some reason) act r s) now r)\<lparr>rq_status := RqRejected\<rparr>"
    by (auto simp: req_reject_def req_assert_submitted_def elim!: rbindE)
  have "status_ok (rd_issues s) q"
    by (rule status_ok_lines [of _ r]) (use ok st in \<open>auto simp: q' record_approval_def doc_ok_def early_def\<close>)
  moreover have "approval_ok th (rr_doc (req_saved D q (rq_version q) x))" "on_grid 4 (rq_estimated q)"
    using ok st by (auto simp: q' approval_ok_def record_approval_def early_def doc_ok_def to_dp_id)
  ultimately show ?thesis
    by (intro header_saved [OF assms(2) x(1) v]) (auto simp: q' record_approval_def x(2))
qed

lemma close_keeps:
  assumes "close_requisition D i reason act now s = Inr (u, s')" and "req_inv th s"
  shows "req_inv th s'"
proof -
  from uow_run_InrD [OF assms(1) [unfolded close_requisition_def], THEN conjunct1] obtain r q where
    r: "req_find i (act_company act) (rd_rows s) = Some r" and q: "req_close reason now r = Inr q"
    and v: "save_requisition D ''CANCEL'' i q act s = Inr s'"
    by (auto elim!: rbindE)
  from find_row [OF assms(2) r] obtain x where x: "x \<in> set (rd_rows s)" "rr_doc x = r" and ok: "doc_ok th (rd_issues s) r" by blast
  from q have st: "rq_status r \<in> {RqApproved, RqPartiallyIssued}"
    and q': "q = r\<lparr>rq_status := RqClosed, rq_closed_reason := clean (Some reason), rq_closed_at := Some now\<rparr>"
    by (auto simp: req_close_def elim!: rbindE)
  have "status_ok (rd_issues s) q" by (simp add: q' status_ok_def early_def)
  moreover have "approval_ok th (rr_doc (req_saved D q (rq_version q) x))" "on_grid 4 (rq_estimated q)"
    using ok st x(2) by (auto simp: q' approval_ok_def early_def doc_ok_def to_dp_id same_approvals)
  ultimately show ?thesis
    by (intro header_saved [OF assms(2) x(1) v]) (auto simp: q' x(2))
qed

lemma submit_keeps:
  assumes "submit_requisition D th i act now s = Inr (u, s')" and "req_inv th s"
  shows "req_inv th s'"
proof -
  from uow_run_InrD [OF assms(1) [unfolded submit_requisition_def], THEN conjunct1] obtain r q rates total no seq where
    r: "req_find i (act_company act) (rd_rows s) = Some r"
    and q: "req_submit no seq (to_dp D 4 total) (select_tier (to_dp D 4 total) th) rates (act_user act) now r = Inr q"
    and v: "save_requisition D ''UPDATE'' i q act s = Inr s'"
    by (auto simp: Let_def elim!: rbindE split: prod.splits)
  from find_row [OF assms(2) r] obtain x where x: "x \<in> set (rd_rows s)" "rr_doc x = r" and ok: "doc_ok th (rd_issues s) r" by blast
  let ?f = "\<lambda>l. case map_of (rev rates) (ql_id l) of None \<Rightarrow> l | Some x \<Rightarrow> l\<lparr>ql_rate := Some x\<rparr>"
  from q have st: "rq_status r = RqDraft" and f: "rq_id q = rq_id r" "rq_status q = RqSubmitted" "rq_lines q = map ?f (rq_lines r)"
    "rq_estimated q = to_dp D 4 total" "rq_tier q = Some (select_tier (to_dp D 4 total) th)" "rq_approvals q = rq_approvals r"
    by (auto simp: req_submit_def elim!: rbindE)
  have "status_ok (rd_issues s) q" using ok st f by (auto simp: doc_ok_def status_ok_def early_def)
  moreover have "approval_ok th (rr_doc (req_saved D q (rq_version q) x))" "on_grid 4 (rq_estimated q)"
    using ok st x(2) by (auto simp: f approval_ok_def early_def doc_ok_def to_dp_id same_approvals)
  moreover have "map ql_id (rq_lines q) = map ql_id (rq_lines r)" by (auto simp: f split: option.splits)
  moreover have "\<exists>k \<in> set (rq_lines r). ql_id l = ql_id k \<and> ql_issued l = ql_issued k \<and> ql_balance l = ql_balance k \<and> ql_requested l = ql_requested k"
    if "l \<in> set (rq_lines q)" for l
    using that by (fastforce simp: f split: option.splits)
  ultimately show ?thesis
    by (intro header_saved [OF assms(2) x(1) v]) (auto simp: f x(2))
qed


section \<open>Drafts\<close>

lemma req_lines_from_new:
  "req_lines_from D no ids inp = Inr ls \<Longrightarrow> l \<in> set ls \<Longrightarrow> ql_issued l = 0"
  by (induction D no ids inp arbitrary: ls rule: req_lines_from.induct)
    (auto simp: req_line_def Let_def elim!: rbindE)

lemma req_build_lines_new: "req_build_lines D inp ids = Inr ls \<Longrightarrow> l \<in> set ls \<Longrightarrow> ql_issued l = 0"
  by (auto simp: req_build_lines_def elim!: rbindE dest: req_lines_from_new)

text \<open>The issues only name lines of the rows they belong to, so a line of another row has none.\<close>

lemma other_row_unissued:
  assumes "issues_ok rows ms es issues" and "\<And>p. p \<in> set issues \<Longrightarrow> iq_requisition p \<noteq> i"
    and "\<And>y. y \<in> set rows \<Longrightarrow> rq_id (rr_doc y) \<noteq> i \<Longrightarrow> k \<notin> ql_id ` set (rq_lines (rr_doc y))"
  shows "issued_of k issues = 0"
proof (rule issued_of_absent, rule notI)
  fix p l assume p: "p \<in> set issues" "l \<in> set (iq_lines p)" "il_line l = k"
  from assms(1) p(1) obtain y where "y \<in> set rows" "rq_id (rr_doc y) = iq_requisition p"
    "\<forall>l \<in> set (iq_lines p). il_line l \<in> ql_id ` set (rq_lines (rr_doc y))" unfolding issues_ok_def issue_ok_def by blast
  with p assms(2) [OF p(1)] assms(3) [of y] show False by auto
qed

lemma draft_doc_ok:
  assumes "rq_status r = RqDraft" and "rq_approvals r = []" and "on_grid 4 (rq_estimated r)"
    and "\<And>l. l \<in> set (rq_lines r) \<Longrightarrow> line_sound l \<and> ql_issued l = 0"
    and "\<And>l. l \<in> set (rq_lines r) \<Longrightarrow> issued_of (ql_id l) issues = 0" and "\<And>p. p \<in> set issues \<Longrightarrow> iq_requisition p \<noteq> rq_id r"
  shows "doc_ok th issues r"
  using assms by (auto simp: doc_ok_def status_ok_def approval_ok_def early_def)

lemma create_keeps:
  assumes "create_requisition D mk inp raw act s = Inr (i, s')" and "req_inv th s"
  shows "req_inv th s'"
proof -
  from uow_run_InrD [OF assms(1) [unfolded create_requisition_def], THEN conjunct1] obtain ls ids r tbl where
    r: "req_create_draft D i (act_company act) (act_fy act) (inp\<lparr>nr_lines := ls\<rparr>) ids = Inr r" and t: "req_insert D r (rd_rows s) = Inr tbl"
    and s': "rd_rows s' = tbl" "rd_issues s' = rd_issues s" "st_movements s' = st_movements s" "db_entries s' = db_entries s"
    unfolding line_ids_next_def ids_next_def prod.case
    by (elim rbindE) clarsimp
  let ?q = "r\<lparr>rq_estimated := to_dp D 4 (rq_estimated r), rq_lines := map (stored_req_line D) (rq_lines r), rq_version := 1, rq_approvals := []\<rparr>"
  from r obtain us where rr: "rq_status r = RqDraft" "rq_lines r = us" and us: "req_build_lines D (nr_lines (inp\<lparr>nr_lines := ls\<rparr>)) ids = Inr us"
    by (auto simp: req_create_draft_def elim!: rbindE)
  from t have tbl: "tbl = rd_rows s @ [\<lparr>rr_doc = ?q, rr_deleted = False\<rparr>]" and new: "\<forall>x \<in> set (rd_rows s). rq_id (rr_doc x) \<noteq> rq_id r"
    and c: "\<forall>l \<in> set us. req_line_checks (stored_req_line D l) = Inr ()"
    and dl: "distinct (req_line_ids (rd_rows s) @ map ql_id us)"
    using rr by (simp_all add: req_insert_def Let_def list_ex_iff riter_eq_Inr comp_def image_image rbind_eq_Inr)
  note inv = req_invD [OF assms(2)]
  have iss: "iq_requisition p \<noteq> rq_id r" if p: "p \<in> set (rd_issues s)" for p
  proof -
    from inv(2) p obtain x where "x \<in> set (rd_rows s)" "rq_id (rr_doc x) = iq_requisition p" unfolding issues_ok_def issue_ok_def by blast
    with new show ?thesis by metis
  qed
  have "doc_ok th (rd_issues s) ?q"
  proof (rule draft_doc_ok)
    fix l assume "l \<in> set (rq_lines ?q)"
    then obtain k where k: "k \<in> set us" "l = stored_req_line D k" by (auto simp: rr)
    have "ql_issued l = to_dp D 4 0" using req_build_lines_new [OF us k(1)] k(2) by (simp add: stored_req_line_def)
    with checks_sound c k show "line_sound l \<and> ql_issued l = 0" by (simp add: to_dp_id)
    show "issued_of (ql_id l) (rd_issues s) = 0"
      by (rule other_row_unissued [OF inv(2) iss]) (use dl k in \<open>auto simp: req_line_ids_def\<close>)
  qed (use rr iss in \<open>auto simp: to_dp_half_up\<close>)
  then have "rows_ok th tbl (rd_issues s)"
    using inv(1) new dl by (auto simp: rows_ok_def tbl req_line_ids_def comp_def rr)
  moreover have "issues_ok tbl (st_movements s) (db_entries s) (rd_issues s)"
    by (rule issues_ok_mono [OF inv(2) subset_refl subset_refl]) (auto simp: tbl)
  ultimately show ?thesis using s' by (simp add: req_inv_def)
qed

lemma update_keeps:
  assumes "update_requisition D mk i p raw act s = Inr (u, s')" and "req_inv th s"
  shows "req_inv th s'"
proof -
  from uow_run_InrD [OF assms(1) [unfolded update_requisition_def], THEN conjunct1] obtain r lines ids q tbl where
    r: "req_find i (act_company act) (rd_rows s) = Some r" and q: "req_edit_draft D (p\<lparr>er_lines := lines\<rparr>) ids r = Inr q"
    and t: "req_save D q (rq_version q) (rd_rows s) = Inr tbl"
    and s': "rd_rows s' = tbl" "rd_issues s' = rd_issues s" "st_movements s' = st_movements s" "db_entries s' = db_entries s"
    unfolding line_ids_next_def Let_def prod.case fetch_eq_Inr
    by (elim rbindE) (auto elim!: rbindE split: option.splits)
  from find_row [OF assms(2) r] obtain x where x: "x \<in> set (rd_rows s)" "rr_doc x = r" and ok: "doc_ok th (rd_issues s) r" by blast
  from q have st: "rq_status r = RqDraft" and f: "rq_id q = rq_id r" "rq_status q = RqDraft" "rq_approvals q = rq_approvals r" "rq_estimated q = rq_estimated r"
    and ls: "rq_lines q = rq_lines r \<or> (\<exists>inp. req_build_lines D inp ids = Inr (rq_lines q))"
    by (auto simp: req_edit_draft_def req_assert_draft_def elim!: rbindE split: option.splits)
  have id: "rq_id q = rq_id (rr_doc x)" by (simp add: f x)
  note e = req_save_effect [OF t req_invD(3) [OF assms(2)] x(1) id] and inv = req_invD [OF assms(2)]
  have no: "iq_requisition p \<noteq> rq_id r" if "p \<in> set (rd_issues s)" for p using that ok st by (auto simp: doc_ok_def status_ok_def early_def)
  have xt: "req_saved D q (rq_version q) x \<in> set tbl" unfolding e(1) by (rule update_one_new [OF x(1)])
  have "doc_ok th (rd_issues s) (rr_doc (req_saved D q (rq_version q) x))"
  proof (rule draft_doc_ok)
    fix l assume "l \<in> set (rq_lines (rr_doc (req_saved D q (rq_version q) x)))"
    then obtain k where k: "k \<in> set (rq_lines q)" "l = stored_req_line D k" by auto
    have un: "issued_of (ql_id k) (rd_issues s) = 0"
    proof (rule other_row_unissued [OF inv(2) no])
      fix y assume y: "y \<in> set (rd_rows s)" "rq_id (rr_doc y) \<noteq> rq_id r"
      then have "y \<in> set tbl" unfolding e(1) by (intro update_one_keeps) (auto simp: x)
      moreover have "y \<noteq> req_saved D q (rq_version q) x" using y(2) f(1) by auto
      moreover have "ql_id k \<in> ql_id ` set (rq_lines (rr_doc (req_saved D q (rq_version q) x)))" using k(1) by (simp add: image_image)
      ultimately show "ql_id k \<notin> ql_id ` set (rq_lines (rr_doc y))" using line_ids_disjoint [OF e(2) _ xt, of y] by blast
    qed
    with k show "issued_of (ql_id l) (rd_issues s) = 0" by simp
    from ls k ok un have "ql_issued k = 0" by (auto simp: doc_ok_def dest: req_build_lines_new)
    then have "ql_issued l = 0" using k by (simp add: stored_req_line_def to_dp_id)
    with checks_sound e(3) k show "line_sound l \<and> ql_issued l = 0" by blast
  qed (use st f no ok x in \<open>auto simp: doc_ok_def approval_ok_def same_approvals to_dp_half_up\<close>)
  then show ?thesis
    using no by (intro req_save_keeps [OF assms(2) x(1) t id _ _ s'] disjI1) (auto simp: f)
qed

lemma delete_keeps:
  assumes "delete_requisition i act s = Inr (u, s')" and "req_inv th s"
  shows "req_inv th s'"
proof -
  from uow_run_InrD [OF assms(1) [unfolded delete_requisition_def], THEN conjunct1]
  have s': "rd_rows s' = req_soft_delete i (act_company act) (rd_rows s)" "rd_issues s' = rd_issues s" "st_movements s' = st_movements s"
    "db_entries s' = db_entries s"
    by (auto elim!: rbindE)
  have d: "map rr_doc (req_soft_delete i (act_company act) (rd_rows s)) = map rr_doc (rd_rows s)"
    by (simp add: req_soft_delete_def update_where_def comp_def if_distrib cong: if_cong)
  have ids: "req_line_ids tbl = concat (map (\<lambda>q. map ql_id (rq_lines q)) (map rr_doc tbl))" for tbl by (simp add: req_line_ids_def comp_def)
  have keys: "map (\<lambda>x. rq_id (rr_doc x)) tbl = map rq_id (map rr_doc tbl)" for tbl by simp
  have "rows_ok th (rd_rows s') (rd_issues s')"
    using req_invD(1) [OF assms(2)] unfolding s' rows_ok_def keys ids d by (auto simp: req_soft_delete_def update_where_def)
  moreover have "issues_ok (rd_rows s') (st_movements s') (db_entries s') (rd_issues s')"
  proof -
    let ?del = "\<lambda>x. if rq_id (rr_doc x) = i \<and> rq_company (rr_doc x) = act_company act then x\<lparr>rr_deleted := True\<rparr> else x"
    have "?del x \<in> set (rd_rows s')" if "x \<in> set (rd_rows s)" for x
      unfolding s' req_soft_delete_def update_where_def set_map using that by (rule imageI)
    moreover have "rr_doc (?del x) = rr_doc x" for x by simp
    ultimately have "\<exists>y \<in> set (rd_rows s'). rr_doc y = rr_doc x" if "x \<in> set (rd_rows s)" for x using that by blast
    then show ?thesis unfolding s'(2-4) by (intro issues_ok_mono [OF req_invD(2) [OF assms(2)] subset_refl subset_refl]) (metis subset_refl)
  qed
  ultimately show ?thesis by (simp add: req_inv_def)
qed

end

end
