(* ===== verification/Requisition_Issues.thy ===== *)
theory Requisition_Issues
  imports Requisition_Steps
begin

text \<open>
  The issue of material and its reversal: the lines of the requisition, the stock movements, the entry and the
  issue event change together, and the invariant of the requisition tables carries over.
\<close>

section \<open>Stock taken by an issue\<close>

lemma req_more:
  fixes s s' :: "'a req_db_scheme"
  assumes "stock_db.more s' = stock_db.more s"
  shows "rd_rows s' = rd_rows s" "rd_issues s' = rd_issues s"
  using assms by (cases s; cases s'; simp)+

lemma req_db_more:
  fixes s s' :: "'a req_db_scheme"
  assumes "db.more s' = db.more s"
  shows "rd_rows s' = rd_rows s" "rd_issues s' = rd_issues s" "st_movements s' = st_movements s"
  using assms by (cases s; cases s'; simp)+

text \<open>The tables of the requisitions and the entries stay; the movements grow.\<close>

definition only_stock :: "'a req_db_scheme \<Rightarrow> 'a req_db_scheme \<Rightarrow> bool" where
  "only_stock s s' \<longleftrightarrow> rd_rows s' = rd_rows s \<and> rd_issues s' = rd_issues s \<and> db_entries s' = db_entries s \<and>
     set (st_movements s) \<subseteq> set (st_movements s')"

lemma only_stock_refl [simp]: "only_stock s s"
  by (simp add: only_stock_def)

lemma only_stock_trans: "only_stock s t \<Longrightarrow> only_stock t u \<Longrightarrow> only_stock s u"
  by (auto simp: only_stock_def)

lemma moved_only_stock:
  fixes s :: "'a req_db_scheme"
  assumes "moved s q s'" shows "only_stock s s'" "q \<in> set (st_movements s')"
  using assms req_more [of s' s] by (auto simp: only_stock_def moved_def quiet_def)

lemma left_stock_mono: "left_stock ms l \<Longrightarrow> set ms \<subseteq> set ms' \<Longrightarrow> left_stock ms' l"
  by (auto simp: left_stock_def)

lemma appended_moved:
  assumes "current_balance mk k s = (prev, s1)" and "ids_next mk s1 = (i, s2)" and "movement_create D inp i now = Inr m"
    and "movement_append D mk m s2 = Inr s'"
  shows "moved s (stored_movement D m) s'"
  using movement_append_InrD(1) [OF assms(4)] current_balance_effect(2) [OF assms(1)] assms(2)
  by (metis ids_next_def same_stock_ids(2) same_stock_moved same_stock_trans snd_conv)

lemma issue_out_moved:
  assumes "issue_out D mk cx inp allow now s = Inr ((val, rate, i), s')"
  shows "\<exists>q. moved s q s' \<and> mv_id q = i \<and> mv_direction q = MvOut \<and> mv_item q = si_item inp \<and> mv_godown q = si_godown inp \<and>
    mv_quantity q = to_dp D 4 (si_qty inp) \<and> mv_value q = to_dp D 4 val"
proof -
  obtain prev s1 where c: "current_balance mk (cx_key cx inp) s = (prev, s1)" by fastforce
  obtain i' s2 where n: "ids_next mk s1 = (i', s2)" by fastforce
  from assms c n obtain r :: issue_result and m where
    m: "movement_create D (service_movement cx inp SrcReqIssue MvOut (is_rate r) (is_value r) (is_balance r) False) i' now = Inr m"
    and p: "movement_append D mk m s2 = Inr s'" and v: "val = is_value r" "i = i'"
    by (auto simp: issue_out_def cx_key_def elim!: rbindE)
  from movement_create_InrD [OF m] v have "mv_id (stored_movement D m) = i \<and> mv_direction (stored_movement D m) = MvOut \<and>
    mv_item (stored_movement D m) = si_item inp \<and> mv_godown (stored_movement D m) = si_godown inp \<and>
    mv_quantity (stored_movement D m) = to_dp D 4 (si_qty inp) \<and> mv_value (stored_movement D m) = to_dp D 4 val"
    by (auto simp: stored_movement_def service_movement_def mv_key_def)
  with appended_moved [OF c n m p] show ?thesis by blast
qed

lemma reverse_issue_out_only_stock:
  fixes s :: "'a req_db_scheme"
  assumes "reverse_issue_out D mk cx inp val now s = Inr (u, s')"
  shows "only_stock s s'"
proof -
  obtain prev s1 where c: "current_balance mk (cx_key cx inp) s = (prev, s1)" by fastforce
  obtain i s2 where n: "ids_next mk s1 = (i, s2)" by fastforce
  from assms c n obtain after rate m where
    m: "movement_create D (service_movement cx inp SrcReqIssue MvIn rate val after True) i now = Inr m" and p: "movement_append D mk m s2 = Inr s'"
    by (auto simp: reverse_issue_out_def cx_key_def Let_def elim!: rbindE)
  from appended_moved [OF c n m p] show ?thesis by (rule moved_only_stock)
qed

lemma reverse_stock_lines_only_stock:
  fixes s :: "'a req_db_scheme"
  shows "reverse_stock_lines D mk act now today ls s = Inr s' \<Longrightarrow> only_stock s s'"
  by (induction ls arbitrary: s) (auto elim!: rbindE intro: only_stock_trans reverse_issue_out_only_stock)

lemma issue_one_effect:
  fixes s :: "'a req_db_scheme"
  assumes "issue_one D mk r from allow act now today q s = Inr (l, s')"
  shows "only_stock s s' \<and> left_stock (st_movements s') (stored_issue_line D l)"
proof -
  obtain i s1 where n: "ids_next mk s = (i, s1)" by fastforce
  from assms n obtain k :: requisition_line and val rate m g where
    o: "issue_out D mk \<lparr>cx_company = act_company act, cx_date = today, cx_posted_by = act_user act\<rparr>
          \<lparr>si_godown = g, si_item = ql_item k, si_qty = ir_qty q, si_source = i\<rparr> allow now s1 = Inr ((val, rate, m), s')"
    and l: "l = \<lparr>il_id = i, il_line = ql_id k, il_item = ql_item k, il_godown = g, il_movement = m, il_qty = ir_qty q, il_rate = rate, il_value = val\<rparr>"
    by (auto simp: issue_one_def Let_def elim!: rbindE split: option.splits)
  from issue_out_moved [OF o] obtain v where v: "moved s1 v s'" "mv_id v = m" "mv_direction v = MvOut" "mv_item v = ql_item k" "mv_godown v = g"
    "mv_quantity v = to_dp D 4 (ir_qty q)" "mv_value v = to_dp D 4 val" by auto
  have "only_stock s s1" using n by (auto simp: ids_next_def only_stock_def)
  with moved_only_stock [OF v(1)] v(2-) show ?thesis
    by (auto simp: left_stock_def l stored_issue_line_def intro: only_stock_trans)
qed

lemma issue_loop_effect:
  fixes s :: "'a req_db_scheme"
  assumes "issue_loop D mk r from allow act now today qs s = Inr (ls, s')"
  shows "only_stock s s' \<and> (\<forall>l \<in> set ls. left_stock (st_movements s') (stored_issue_line D l))"
  using assms
proof (induction qs arbitrary: s ls)
  case (Cons q qs)
  then obtain l s1 ks where l: "issue_one D mk r from allow act now today q s = Inr (l, s1)"
    and ks: "issue_loop D mk r from allow act now today qs s1 = Inr (ks, s')" "ls = l # ks"
    by (auto elim!: rbindE)
  from issue_one_effect [OF l] Cons.IH [OF ks(1)] show ?case
    by (auto simp: ks(2) only_stock_def intro: left_stock_mono)
qed simp

section \<open>Issues that change one row\<close>

lemma shifted_ids: "ql_id ` set (map (stored_req_line D) (shift_lines f ls)) = ql_id ` set ls" "ql_id ` set (shift_lines f ls) = ql_id ` set ls"
  by (auto simp: shift_lines_def image_image)

text \<open>
  A new table of issues and a new version of one row: the other rows only see the issues of their own lines.
\<close>

lemma issue_change_rows:
  assumes "rows_ok th rows issues" and "x \<in> set rows" and "rq_id (rr_doc (f x)) = rq_id (rr_doc x)"
    and "distinct (req_line_ids (update_where (\<lambda>y. y = x) f rows))" and "doc_ok th issues' (rr_doc (f x))"
    and "\<And>i. i \<notin> ql_id ` set (rq_lines (rr_doc x)) \<Longrightarrow> issued_of i issues' = issued_of i issues"
    and "\<And>p. p \<in> set issues' \<Longrightarrow> iq_requisition p = rq_id (rr_doc x) \<or> (\<exists>p' \<in> set issues. iq_requisition p' = iq_requisition p)"
  shows "rows_ok th (update_where (\<lambda>y. y = x) f rows) issues'"
proof (rule rows_ok_replace [OF assms(1-5)])
  fix y assume y: "y \<in> set rows" "y \<noteq> x" "doc_ok th issues (rr_doc y)"
  have d: "distinct (req_line_ids rows)" "distinct (map (\<lambda>x. rq_id (rr_doc x)) rows)" using assms(1) by (simp_all add: rows_ok_def)
  have "rq_id (rr_doc y) \<noteq> rq_id (rr_doc x)" using distinct_map_inj [OF d(2) y(1) assms(2)] y(2) by blast
  then have "status_ok issues' (rr_doc y)" using y(3) assms(7) unfolding doc_ok_def status_ok_def by metis
  moreover have "issued_of (ql_id l) issues' = issued_of (ql_id l) issues" if "l \<in> set (rq_lines (rr_doc y))" for l
    using line_ids_disjoint [OF d(1) y(1) assms(2) y(2)] that by (intro assms(6)) auto
  ultimately show "doc_ok th issues' (rr_doc y)" using y(3) by (simp add: doc_ok_def)
qed

lemma approval_stays:
  assumes "approval_ok th r" and "\<not> early (rq_status r)" and "\<not> early (rq_status q)" and "rq_tier q = rq_tier r"
    and "rq_estimated q = rq_estimated r" and "set (rq_approvals r) \<subseteq> set (rq_approvals q)"
  shows "approval_ok th q"
  using assms by (auto simp: approval_ok_def early_def)

text \<open>Shifted lines as stored.\<close>

context decimal_js begin

lemma shifted_doc_ok:
  assumes "doc_ok th issues r" and "rr_doc x = r" and "rq_id q = rq_id r" and "rq_lines q = shift_lines f (rq_lines r)"
    and "\<forall>l \<in> set (rq_lines q). line_sound l" and "\<And>l. l \<in> set (rq_lines r) \<Longrightarrow> issued_of (ql_id l) issues' = issued_of (ql_id l) issues + f (ql_id l)"
    and "status_ok issues' q" and "\<not> early (rq_status r)" and "\<not> early (rq_status q)"
    and "rq_tier q = rq_tier r" and "rq_estimated q = rq_estimated r" and "rq_approvals q = rq_approvals r"
  shows "doc_ok th issues' (rr_doc (req_saved D q v x))"
proof -
  have g: "on_grid 4 (rq_estimated r)" "approval_ok th r" using assms(1) by (simp_all add: doc_ok_def)
  have "line_sound l \<and> ql_issued l = issued_of (ql_id l) issues'" if l: "l \<in> set (rq_lines q)" for l
  proof -
    from l assms(4) obtain k where "k \<in> set (rq_lines r)" "ql_id l = ql_id k" "ql_issued l = ql_issued k + f (ql_id k)"
      by (auto simp: shift_lines_mem)
    with assms(1,5,6) l show ?thesis by (auto simp: doc_ok_def)
  qed
  moreover have "status_ok issues' (rr_doc (req_saved D q v x))"
    using assms(7) stored_lines_flags [OF assms(5)] by (simp add: status_ok_def)
  moreover have "approval_ok th (rr_doc (req_saved D q v x))"
    by (rule approval_stays [OF g(2) assms(8)]) (use assms g in \<open>simp_all add: to_dp_id\<close>)
  ultimately show ?thesis using assms(11) g stored_sound by (simp add: doc_ok_def to_dp_id)
qed


end

section \<open>The issue\<close>

lemma taken_outside: "\<forall>(i, q) \<in> set us. i \<in> A \<Longrightarrow> k \<notin> A \<Longrightarrow> taken D us k = 0"
  by (induction us) auto

lemma taken_nonneg: "\<forall>(i, q) \<in> set us. 0 \<le> round4 D q \<Longrightarrow> 0 \<le> taken D us k"
  by (induction us) auto

lemma taken_pos: "\<forall>(i, q) \<in> set us. 0 < round4 D q \<Longrightarrow> (k, q) \<in> set us \<Longrightarrow> 0 < taken D us k"
proof (induction us)
  case (Cons u us)
  then have "\<forall>(i, q) \<in> set us. 0 \<le> round4 D q" by auto
  from taken_nonneg [OF this, of k] Cons show ?case by (cases u) (auto intro: add_nonneg_pos add_pos_nonneg)
qed simp

text \<open>The rows, the issues, the movements and the entries after an issue, as one fact.\<close>

definition issued_into ::
  "dec_lib \<Rightarrow> requisition \<Rightarrow> 'a req_db_scheme \<Rightarrow> requisition_issue \<Rightarrow> (string \<times> decimal) list \<Rightarrow> requisition_line list \<Rightarrow> 'a req_db_scheme \<Rightarrow> bool" where
  "issued_into D r s p us ls s' \<longleftrightarrow> rq_status r \<in> {RqApproved, RqPartiallyIssued} \<and> apply_issue_lines D us (rq_lines r) = Inr ls \<and>
     req_save D (r\<lparr>rq_lines := ls, rq_status := (if fully_issued ls then RqIssued else RqPartiallyIssued)\<rparr>) (rq_version r) (rd_rows s) = Inr (rd_rows s') \<and>
     rd_issues s' = rd_issues s @ [p] \<and> iq_id p \<notin> iq_id ` set (rd_issues s) \<and> iq_requisition p = rq_id r \<and> iq_reversed_at p = None \<and>
     iq_lines p \<noteq> [] \<and> map il_line (iq_lines p) = map fst us \<and>
     (\<forall>i. sum_list (map il_qty (filter (\<lambda>l. il_line l = i) (iq_lines p))) = taken D us i) \<and>
     (\<forall>l \<in> set (iq_lines p). on_grid 4 (il_qty l) \<and> 0 < il_qty l \<and> il_value l = il_qty l * il_rate l \<and> left_stock (st_movements s') l) \<and>
     set (st_movements s) \<subseteq> set (st_movements s') \<and> set (db_entries s) \<subseteq> set (db_entries s') \<and>
     (\<exists>e \<in> set (db_entries s'). je_id e = iq_entry p \<and> je_source_type e = ''REQ_ISSUE'' \<and> je_source_id e = iq_id p)"

context decimal_js begin

lemma issue_save_Inr:
  assumes "issue_save D q issues = Inr issues'"
  obtains p where "issues' = issues @ [p]" and "iq_id p \<notin> iq_id ` set issues" and "p = q\<lparr>iq_value := to_dp D 4 (iq_value q), iq_lines := map (stored_issue_line D) (iq_lines q)\<rparr>"
    and "\<forall>l \<in> set (iq_lines p). 0 < il_qty l \<and> il_value l = il_qty l * il_rate l \<and> on_grid 4 (il_qty l)"
proof -
  let ?p = "q\<lparr>iq_value := to_dp D 4 (iq_value q), iq_lines := map (stored_issue_line D) (iq_lines q)\<rparr>"
  from assms have c: "riter issue_line_checks (iq_lines ?p) = Inr ()" and n: "\<not> list_ex (\<lambda>x. iq_id x = iq_id ?p) issues" and i: "issues' = issues @ [?p]"
    by (simp_all add: issue_save_def Let_def rbind_eq_Inr)
  from c have "\<forall>l \<in> set (iq_lines ?p). 0 < il_qty l \<and> il_value l = il_qty l * il_rate l"
    by (auto simp: riter_eq_Inr issue_line_checks_def rbind_eq_Inr)
  moreover have "\<forall>l \<in> set (iq_lines ?p). on_grid 4 (il_qty l)" by (simp add: stored_issue_line_def to_dp_half_up)
  ultimately show ?thesis using n by (intro that [OF i]) (auto simp: list_ex_iff)
qed

lemma issue_requisition_Inr:
  fixes s s' :: "'a req_db_scheme"
  assumes "issue_requisition D mk (erp_ports mk) i from qs allow reason act now today s = Inr (q, s')"
  obtains r p us ls where "req_find i (act_company act) (rd_rows s) = Some r" and "issued_into D r s p us ls s'"
proof -
  from assms obtain r ks s1 iid s2 cmd e s3 r' issues where
    r: "req_find i (act_company act) (rd_rows s) = Some r" and st: "rq_status r \<in> {RqApproved, RqPartiallyIssued}"
    and l: "issue_loop D mk r from allow act now today qs s = Inr (ks, s1)" and n: "ids_next mk s1 = (iid, s2)"
    and b: "build_consumption_command r iid today act (map (\<lambda>l. \<lparr>cn_item = il_item l, cn_godown = il_godown l, cn_value = il_value l\<rparr>) ks)
      (rd_items s2) (rd_accounts s2) = Inr cmd"
    and p: "post D mk (erp_ports mk) cmd now s2 = Inr (e, s3)"
    and c: "issue_create D iid i (next_issue_no i (rd_issues s3)) from (je_id e) (je_no e) ks (act_user act) now
      (if allow then Some (act_user act) else None) = Inr q"
    and a: "req_apply_issue D (map (\<lambda>l. (il_line l, il_qty l)) ks) r = Inr r'" and v: "issue_save D q (rd_issues s3) = Inr issues"
    and t: "save_requisition D ''POST'' i r' act (s3\<lparr>rd_issues := issues\<rparr>) = Inr s'"
    by (auto simp: issue_requisition_def req_assert_issuable_def elim!: rbindE dest!: uow_run_InrD split: prod.splits)
  from req_find_Some [OF r] have ri: "rq_id r = i" by blast
  from b have cmd: "pc_source_type cmd = ''REQ_ISSUE''" "pc_source_id cmd = iid"
    by (auto simp: build_consumption_command_def elim!: rbindE)
  from post_appends [OF p] have e: "db.more s3 = db.more s2" "db_entries s3 = db_entries s2 @ [stored_entry D e]"
    "je_source_type e = ''REQ_ISSUE''" "je_source_id e = iid" using cmd by simp_all
  from issue_loop_effect [OF l] have o: "only_stock s s1" and ls: "\<forall>l \<in> set ks. left_stock (st_movements s1) (stored_issue_line D l)" by simp_all
  have s2: "rd_rows s2 = rd_rows s1" "rd_issues s2 = rd_issues s1" "st_movements s2 = st_movements s1" "db_entries s2 = db_entries s1"
    using n by (auto simp: ids_next_def)
  note s3 = req_db_more [OF e(1)]
  from c have q: "iq_id q = iid" "iq_requisition q = i" "iq_entry q = je_id e" "iq_lines q = ks" "iq_reversed_at q = None" "ks \<noteq> []"
    by (auto simp: issue_create_def elim!: rbindE)
  from a obtain us where us: "apply_issue_lines D (map (\<lambda>l. (il_line l, il_qty l)) ks) (rq_lines r) = Inr us"
    and r': "r' = r\<lparr>rq_lines := us, rq_status := (if fully_issued us then RqIssued else RqPartiallyIssued)\<rparr>"
    by (auto simp: req_apply_issue_def elim!: rbindE)
  from save_requisition_Inr [OF t] have s': "req_save D r' (rq_version r') (rd_rows s3) = Inr (rd_rows s')" "rd_issues s' = issues"
    "st_movements s' = st_movements s3" "db_entries s' = db_entries s3" by auto
  from issue_save_Inr [OF v] obtain p where p: "issues = rd_issues s3 @ [p]" "iq_id p \<notin> iq_id ` set (rd_issues s3)"
    "p = q\<lparr>iq_value := to_dp D 4 (iq_value q), iq_lines := map (stored_issue_line D) (iq_lines q)\<rparr>"
    "\<forall>l \<in> set (iq_lines p). 0 < il_qty l \<and> il_value l = il_qty l * il_rate l \<and> on_grid 4 (il_qty l)" by blast
  have "issued_into D r s p (map (\<lambda>l. (il_line l, il_qty l)) ks) us s'"
    unfolding issued_into_def
    using st us s' s3 s2 o p ls q ri taken_stored [of _ D ks] e(2-4)
    by (auto simp: r' only_stock_def stored_issue_line_def stored_entry_def)
  with r show ?thesis by (rule that)
qed


lemma issued_into_keeps:
  fixes s s' :: "'a req_db_scheme"
  assumes "issued_into D r s p us ls s'" and "req_inv th s" and "x \<in> set (rd_rows s)" and "rr_doc x = r" and "doc_ok th (rd_issues s) r"
  shows "req_inv th s'"
proof -
  note i = assms(1) [unfolded issued_into_def] and inv = req_invD [OF assms(2)]
  let ?q = "r\<lparr>rq_lines := ls, rq_status := (if fully_issued ls then RqIssued else RqPartiallyIssued)\<rparr>"
  have lr: "distinct (map ql_id (rq_lines r))" "\<forall>l \<in> set (rq_lines r). line_sound l"
    using line_ids_row [OF assms(3) inv(4)] assms(4,5) by (simp_all add: doc_ok_def)
  from apply_issue_effect [OF _ lr] i have ls: "ls = shift_lines (taken D us) (rq_lines r)" "\<forall>l \<in> set ls. line_sound l"
    and us: "\<forall>(i, q) \<in> set us. i \<in> ql_id ` set (rq_lines r) \<and> 0 < round4 D q" by blast+
  have id: "rq_id ?q = rq_id (rr_doc x)" by (simp add: assms(4))
  from i have t: "req_save D ?q (rq_version r) (rd_rows s) = Inr (rd_rows s')" and iss: "rd_issues s' = rd_issues s @ [p]" by blast+
  note e = req_save_effect [OF t inv(3) assms(3) id]
  have io: "issued_of k (rd_issues s') = issued_of k (rd_issues s) + taken D us k" for k using i by (simp add: iss)
  have out: "taken D us k = 0" if "k \<notin> ql_id ` set (rq_lines r)" for k
    by (rule taken_outside [OF _ that]) (use us in auto)
  have lp: "\<forall>l \<in> set (iq_lines p). il_line l \<in> ql_id ` set (rq_lines r)"
  proof
    fix l assume "l \<in> set (iq_lines p)"
    then have "il_line l \<in> set (map fst us)" using i by (metis imageI set_map)
    with us show "il_line l \<in> ql_id ` set (rq_lines r)" by auto
  qed
  have ql: "rq_lines ?q = ls" by simp
  have sub: "ql_id ` set (rq_lines (rr_doc (req_saved D ?q (rq_version r) x))) = ql_id ` set (rq_lines r)"
    unfolding req_saved_simps ql unfolding ls(1) by (rule shifted_ids)
  then have sub: "ql_id ` set (rq_lines (rr_doc x)) \<subseteq> ql_id ` set (rq_lines (rr_doc (req_saved D ?q (rq_version r) x)))"
    by (simp only: assms(4) subset_refl)
  have any: "any_issued ls"
  proof -
    from i obtain k q where kq: "(k, q) \<in> set us" by (cases us) auto
    with us obtain m where m: "m \<in> set (rq_lines r)" "ql_id m = k" by auto
    have "0 < taken D us k" by (rule taken_pos [OF _ kq]) (use us in auto)
    with m lr(2) have "m\<lparr>ql_issued := ql_issued m + taken D us k, ql_balance := ql_balance m - taken D us k\<rparr> \<in> set ls"
      "0 < ql_issued m + taken D us k" by (auto simp: ls(1) shift_lines_mem line_sound_def)
    then show ?thesis by (force simp: any_issued_def list_ex_iff)
  qed
  have docs: "doc_ok th (rd_issues s') (rr_doc (req_saved D ?q (rq_version r) x))"
    by (rule shifted_doc_ok [OF assms(5,4), where f = "taken D us"]) (use ls io any i in \<open>auto simp: status_ok_def early_def\<close>)
  have "rows_ok th (rd_rows s') (rd_issues s')"
    unfolding e(1)
    by (rule issue_change_rows [OF inv(1) assms(3) _ e(2) [unfolded e(1)] docs])
      (use io out assms(4) i iss in auto)
  moreover have "issues_ok (rd_rows s') (st_movements s') (db_entries s') (rd_issues s)"
    unfolding e(1) by (rule issues_ok_replace [OF inv(2) _ _ _ assms(3) disjI2]) (use i sub assms(4) in simp_all)
  moreover have "issue_ok (rd_rows s') (st_movements s') (db_entries s') p"
  proof -
    have "req_saved D ?q (rq_version r) x \<in> set (rd_rows s')" unfolding e(1) by (rule update_one_new [OF assms(3)])
    moreover have "\<forall>l \<in> set (iq_lines p). il_line l \<in> ql_id ` set (rq_lines (rr_doc (req_saved D ?q (rq_version r) x)))"
      using lp sub assms(4) by blast
    moreover have "rq_id (rr_doc (req_saved D ?q (rq_version r) x)) = iq_requisition p" using i by simp
    ultimately show ?thesis using i unfolding issue_ok_def by blast
  qed
  ultimately show ?thesis using i iss by (auto simp: req_inv_def issues_ok_def)
qed

lemma issue_keeps:
  assumes "issue_requisition D mk (erp_ports mk) i from qs allow reason act now today s = Inr (q, s')" and "req_inv th s"
  shows "req_inv th s'"
proof -
  from issue_requisition_Inr [OF assms(1)] obtain r p us ls where r: "req_find i (act_company act) (rd_rows s) = Some r"
    and i: "issued_into D r s p us ls s'" by blast
  from find_row [OF assms(2) r] obtain x where "x \<in> set (rd_rows s)" "rr_doc x = r" "doc_ok th (rd_issues s) r" by blast
  from issued_into_keeps [OF i assms(2) this] show ?thesis .
qed

end

section \<open>The reversal\<close>

lemma issued_of_part:
  assumes "q \<in> set issues" and "iq_reversed_at q = None" and "\<forall>p \<in> set issues. \<forall>l \<in> set (iq_lines p). 0 < il_qty l"
  shows "sum_list (map il_qty (filter (\<lambda>l. il_line l = i) (iq_lines q))) \<le> issued_of i issues"
  using assms
proof (induction issues)
  case (Cons p ps)
  have nn: "0 \<le> issued_of i ps"
    unfolding issued_of_def by (rule sum_list_nonneg) (use Cons.prems(3) in \<open>auto intro: less_imp_le\<close>)
  moreover have "0 \<le> sum_list (map il_qty (filter (\<lambda>l. il_line l = i) (iq_lines p)))"
    by (rule sum_list_nonneg) (use Cons.prems(3) in \<open>auto intro: less_imp_le\<close>)
  ultimately show ?case using Cons by auto
qed simp

lemma issue_save_reversal_set:
  assumes "iq_id q' = iq_id q" and "q' = q\<lparr>iq_reversed_at := t, iq_reversed_by := w\<rparr>" and "distinct (map iq_id issues)" and "q \<in> set issues"
  shows "issue_save_reversal q' issues = update_where (\<lambda>p. p = q) (\<lambda>_. q') issues"
proof -
  have "(if iq_id p = iq_id q' then p\<lparr>iq_reversed_at := iq_reversed_at q', iq_reversed_by := iq_reversed_by q'\<rparr> else p) =
    (if p = q then q' else p)" if "p \<in> set issues" for p
    using distinct_map_inj [OF assms(3) that assms(4)] assms(1,2) by auto
  then show ?thesis by (simp add: issue_save_reversal_def update_where_def cong: map_cong)
qed

lemma issues_ok_reversed:
  assumes "issues_ok rows ms es issues" and "q \<in> set issues" and "q' = q\<lparr>iq_reversed_at := t, iq_reversed_by := w\<rparr>"
  shows "issues_ok rows ms es (issue_save_reversal q' issues)"
proof -
  have d: "distinct (map iq_id issues)" using assms(1) by (simp add: issues_ok_def)
  have id: "iq_id q' = iq_id q" by (simp add: assms(3))
  have "issue_ok rows ms es q'" using assms by (auto simp: issues_ok_def issue_ok_def)
  moreover have "distinct (map iq_id (update_where (\<lambda>p. p = q) (\<lambda>_. q') issues))" using d id by (simp only: update_one_keys)
  ultimately show ?thesis
    using assms(1) unfolding issue_save_reversal_set [OF id assms(3) d assms(2)] issues_ok_def by (auto simp: update_where_def)
qed

lemma reverse_requisition_Inr:
  fixes s s' :: "'a req_db_scheme"
  assumes "reverse_requisition_issue D mk (erp_ports mk) i issue_id reason act now today s = Inr (st, s')"
  obtains r q ls where "req_find i (act_company act) (rd_rows s) = Some r" and "q \<in> set (rd_issues s)" and "iq_requisition q = i"
    and "iq_reversed_at q = None" and "reverse_issue_lines D (map (\<lambda>l. (il_line l, il_qty l)) (iq_lines q)) (rq_lines r) = Inr ls"
    and "req_save D (r\<lparr>rq_lines := ls, rq_status := (if any_issued ls then RqPartiallyIssued else RqApproved)\<rparr>) (rq_version r) (rd_rows s) = Inr (rd_rows s')"
    and "rd_issues s' = issue_save_reversal (q\<lparr>iq_reversed_at := Some now, iq_reversed_by := Some (act_user act)\<rparr>) (rd_issues s)"
    and "set (st_movements s) \<subseteq> set (st_movements s')" and "set (db_entries s) \<subseteq> set (db_entries s')"
proof -
  from uow_run_InrD [OF assms [unfolded reverse_requisition_issue_def], THEN conjunct1] obtain r q s1 e s2 r' q' tbl where
    r: "req_find i (act_company act) (rd_rows s) = Some r" and f: "issue_find i issue_id (act_company act) (rd_rows s) (rd_issues s) = Inr (Some q)"
    and n: "iq_reversed_at q = None" and l: "reverse_stock_lines D mk act now today (iq_lines q) s = Inr s1"
    and v: "reverse D mk (erp_ports mk) (iq_entry q) (act_company act) reason (act_user act) now s1 = Inr (e, s2)"
    and a: "req_reverse_issue D (map (\<lambda>l. (il_line l, il_qty l)) (iq_lines q)) r = Inr r'"
    and m: "issue_mark_reversed (act_user act) now q = Inr q'" and t: "req_save D r' (rq_version r') (rd_rows s2) = Inr tbl"
    and s': "s' = audit_record ''CANCEL'' ''Requisition'' i act (s2\<lparr>rd_rows := tbl, rd_issues := issue_save_reversal q' (rd_issues s2)\<rparr>)"
    by (auto simp: issue_assert_not_reversed_def elim!: rbindE)
  from f have q: "q \<in> set (rd_issues s)" "iq_requisition q = i"
    by (auto simp: issue_find_def elim!: rbindE split: option.splits dest: find_SomeD)
  from a obtain ls where ls: "reverse_issue_lines D (map (\<lambda>l. (il_line l, il_qty l)) (iq_lines q)) (rq_lines r) = Inr ls"
    and r': "r' = r\<lparr>rq_lines := ls, rq_status := (if any_issued ls then RqPartiallyIssued else RqApproved)\<rparr>"
    by (auto simp: req_reverse_issue_def elim!: rbindE)
  from m have q': "q' = q\<lparr>iq_reversed_at := Some now, iq_reversed_by := Some (act_user act)\<rparr>"
    by (auto simp: issue_mark_reversed_def elim!: rbindE)
  from reverse_stock_lines_only_stock [OF l] have o: "only_stock s s1" .
  obtain d: "db.more s2 = db.more s1" "set (db_entries s1) \<subseteq> set (db_entries s2)" by (rule reverse_appends [OF v]) auto
  from that [OF r q n ls] show ?thesis
    using t o d(2) req_db_more [OF d(1)] by (auto simp: s' r' q' only_stock_def)
qed

context decimal_js begin

lemma reverse_keeps:
  fixes s s' :: "'a req_db_scheme"
  assumes "reverse_requisition_issue D mk (erp_ports mk) i issue_id reason act now today s = Inr (st, s')" and "req_inv th s"
  shows "req_inv th s'"
proof (rule reverse_requisition_Inr [OF assms(1)])
  fix r :: requisition and q :: requisition_issue and ls
  let ?us = "map (\<lambda>l. (il_line l, il_qty l)) (iq_lines q)"
  let ?r = "r\<lparr>rq_lines := ls, rq_status := (if any_issued ls then RqPartiallyIssued else RqApproved)\<rparr>"
  let ?q = "q\<lparr>iq_reversed_at := Some now, iq_reversed_by := Some (act_user act)\<rparr>"
  assume r: "req_find i (act_company act) (rd_rows s) = Some r" and q: "q \<in> set (rd_issues s)" "iq_requisition q = i" "iq_reversed_at q = None"
    and ls: "reverse_issue_lines D ?us (rq_lines r) = Inr ls" and t: "req_save D ?r (rq_version r) (rd_rows s) = Inr (rd_rows s')"
    and iss: "rd_issues s' = issue_save_reversal ?q (rd_issues s)" and ms: "set (st_movements s) \<subseteq> set (st_movements s')"
    and es: "set (db_entries s) \<subseteq> set (db_entries s')"
  from find_row [OF assms(2) r] obtain x where x: "x \<in> set (rd_rows s)" "rr_doc x = r" "rq_id r = i" and ok: "doc_ok th (rd_issues s) r" by blast
  note inv = req_invD [OF assms(2)]
  have d: "distinct (map iq_id (rd_issues s))" using inv(2) by (simp add: issues_ok_def)
  from inv(2) q(1) have qo: "issue_ok (rd_rows s) (st_movements s) (db_entries s) q" by (simp add: issues_ok_def)
  then obtain y where y: "y \<in> set (rd_rows s)" "rq_id (rr_doc y) = i" "\<forall>l \<in> set (iq_lines q). il_line l \<in> ql_id ` set (rq_lines (rr_doc y))"
    and ne: "iq_lines q \<noteq> []" and g: "\<forall>l \<in> set (iq_lines q). on_grid 4 (il_qty l) \<and> 0 < il_qty l"
    unfolding issue_ok_def q(2) by blast
  have "y = x" using distinct_map_inj [OF inv(3) y(1) x(1)] y(2) x(2,3) by simp
  with y(3) x(2) have lp: "\<forall>l \<in> set (iq_lines q). il_line l \<in> ql_id ` set (rq_lines r)" by simp
  have lr: "distinct (map ql_id (rq_lines r))" "\<forall>l \<in> set (rq_lines r). line_sound l \<and> ql_issued l = issued_of (ql_id l) (rd_issues s)"
    using line_ids_row [OF x(1) inv(4)] x(2) ok by (simp_all add: doc_ok_def)
  have tk: "taken D ?us k = sum_list (map il_qty (filter (\<lambda>l. il_line l = k) (iq_lines q)))" for k
    by (rule taken_grid [OF decimal_js_axioms]) (use g in simp)
  have pos: "\<forall>p \<in> set (rd_issues s). \<forall>l \<in> set (iq_lines p). 0 < il_qty l" using inv(2) by (auto simp: issues_ok_def issue_ok_def)
  have le: "taken D ?us k \<le> issued_of k (rd_issues s)" for k unfolding tk by (rule issued_of_part [OF q(1,3) pos])
  have us: "\<forall>(i, q) \<in> set ?us. i \<in> ql_id ` set (rq_lines r) \<and> 0 < round4 D q" using lp g by (auto simp: round4_def to_dp_id)
  have "reverse_issue_lines D ?us (rq_lines r) = Inr (shift_lines (\<lambda>i. - taken D ?us i) (rq_lines r))"
    by (rule reverse_issue_effect) (use lr le us in \<open>auto intro: less_imp_le\<close>)
  with ls have sh: "ls = shift_lines (\<lambda>i. - taken D ?us i) (rq_lines r)" by simp
  have io: "issued_of k (rd_issues s') = issued_of k (rd_issues s) + - taken D ?us k" for k
    unfolding iss by (subst issued_of_reversed [OF d q(1) q(3)]) (simp_all add: tk)
  have sound: "\<forall>l \<in> set ls. line_sound l"
  proof
    fix l assume "l \<in> set ls"
    then obtain k where k: "k \<in> set (rq_lines r)" "l = k\<lparr>ql_issued := ql_issued k + - taken D ?us (ql_id k), ql_balance := ql_balance k - - taken D ?us (ql_id k)\<rparr>"
      unfolding sh shift_lines_mem by blast
    have "on_grid 4 (- taken D ?us (ql_id k))" unfolding tk on_grid_uminus using g by (intro on_grid_sum_list) auto
    moreover have "0 \<le> taken D ?us (ql_id k)" using us by (intro taken_nonneg) auto
    moreover have "line_sound k" "ql_issued k = issued_of (ql_id k) (rd_issues s)" using lr(2) k(1) by auto
    ultimately show "line_sound l" unfolding k(2) using le [of "ql_id k"] by (intro shifted_sound) (auto simp: line_sound_def)
  qed
  have nf: "\<not> fully_issued ls"
  proof -
    from ne obtain k u where ku: "(k, u) \<in> set ?us" by (cases "iq_lines q") auto
    with us obtain m where m: "m \<in> set (rq_lines r)" "ql_id m = k" by auto
    have "0 < taken D ?us k" by (rule taken_pos [OF _ ku]) (use us in auto)
    with m lr(2) have "\<exists>l \<in> set ls. 0 < ql_balance l" by (intro bexI [of _ "m\<lparr>ql_issued := ql_issued m + - taken D ?us k, ql_balance := ql_balance m - - taken D ?us k\<rparr>"])
      (auto simp: sh shift_lines_mem line_sound_def intro: add_nonneg_pos)
    then show ?thesis by (force simp: fully_issued_def list_all_iff)
  qed
  have ne: "\<not> early (rq_status r)" using ok q(1,2) x(3) by (auto simp: doc_ok_def status_ok_def)
  have id: "rq_id ?r = rq_id (rr_doc x)" by (simp add: x(2))
  note e = req_save_effect [OF t inv(3) x(1) id]
  have ql: "rq_lines ?r = ls" by simp
  have sub: "ql_id ` set (rq_lines (rr_doc x)) \<subseteq> ql_id ` set (rq_lines (rr_doc (req_saved D ?r (rq_version r) x)))"
    unfolding req_saved_simps ql x(2) unfolding sh shifted_ids by (rule subset_refl)
  have docs: "doc_ok th (rd_issues s') (rr_doc (req_saved D ?r (rq_version r) x))"
    by (rule shifted_doc_ok [OF ok x(2), where f = "\<lambda>i. - taken D ?us i"]) (use sh sound io nf ne in \<open>auto simp: status_ok_def early_def\<close>)
  have out: "taken D ?us k = 0" if "k \<notin> ql_id ` set (rq_lines r)" for k
    by (rule taken_outside [OF _ that]) (use us in auto)
  have "rows_ok th (rd_rows s') (rd_issues s')"
    unfolding e(1)
    by (rule issue_change_rows [OF inv(1) x(1) _ e(2) [unfolded e(1)] docs])
      (use io out x(2) q(1) in \<open>auto simp: iss issue_save_reversal_def update_where_def\<close>)
  moreover have "issues_ok (rd_rows s') (st_movements s') (db_entries s') (rd_issues s)"
    unfolding e(1) by (rule issues_ok_replace [OF inv(2) ms es _ x(1) disjI2]) (use sub x(2) in simp_all)
  ultimately show ?thesis using issues_ok_reversed [OF _ q(1) refl] iss by (simp add: req_inv_def)
qed

end

section \<open>Every step\<close>

context decimal_js begin

lemma other_keeps:
  assumes "req_others s s'" and "req_inv th s" shows "req_inv th s'"
proof -
  from assms(1) have "rd_rows s' = rd_rows s" "rd_issues s' = rd_issues s" "set (st_movements s) \<subseteq> set (st_movements s')"
    "set (db_entries s) \<subseteq> set (db_entries s')" by (auto simp: req_others_def)
  with req_invD(1,2) [OF assms(2)] show ?thesis
    by (auto simp: req_inv_def intro: issues_ok_mono)
qed

lemma req_step_keeps: "req_step D mk th s s' \<Longrightarrow> req_inv th s \<Longrightarrow> req_inv th s'"
  by (induction rule: req_step.induct)
    (blast intro: create_keeps update_keeps delete_keeps submit_keeps approve_keeps reject_keeps close_keeps issue_keeps reverse_keeps other_keeps)+

lemma req_steps_keep: "(req_step D mk th)\<^sup>*\<^sup>* s s' \<Longrightarrow> req_inv th s \<Longrightarrow> req_inv th s'"
  by (induction rule: rtranclp_induct) (auto intro: req_step_keeps)

end

lemma empty_req_inv: "rd_rows s = [] \<Longrightarrow> rd_issues s = [] \<Longrightarrow> req_inv th s"
  by (simp add: req_inv_def rows_ok_def issues_ok_def req_line_ids_def)

end
