(* ===== verification/Requisition_Demo.thy ===== *)
theory Requisition_Demo
  imports Requisition_Issues Stock_Demo
begin

text \<open>
  A concrete run of the requisition module over ten units received at a rate of five: four units are asked for,
  submitted, approved by the accounts tier, issued in two parts, and the second part is reversed.
\<close>

definition rqd_db :: req_db where
  "rqd_db = \<lparr>db_fys = [sample_fy], db_series = [], db_periods = stk_periods, db_entries = [], db_audit = [], db_ids = 4,
     st_movements = [stk_grn], st_balances = [stk_bal ''1'' ''G'' 10 50 2],
     rd_projects = [\<lparr>pst_id = ''P'', pst_company = ''C'', pst_status = ''ACTIVE''\<rparr>],
     rd_centres = [\<lparr>ms_id = ''CC'', ms_company = ''C'', ms_active = True\<rparr>],
     rd_purposes = [\<lparr>ow_id = ''W'', ow_company = ''C'', ow_project = Some ''P''\<rparr>],
     rd_godowns = [\<lparr>gd_id = ''G'', gd_company = ''C'', gd_project = ''P'', gd_active = True\<rparr>],
     rd_items = [\<lparr>im_id = ''I'', im_company = ''C'', im_active = True, im_uom = ''bag'', im_account = Some ''INV''\<rparr>],
     rd_accounts = [\<lparr>ac_id = ''EXP'', ac_company = ''C'', ac_code = ''5100''\<rparr>], rd_rows = [], rd_issues = []\<rparr>"

definition rqd_new :: new_requisition where
  "rqd_new = \<lparr>nr_project = ''P'', nr_cost_centre = ''CC'', nr_purpose = ''W'', nr_godown = Some ''G'', nr_required_date = ''2025-07-20'',
     nr_priority = ''NORMAL'', nr_narration = None, nr_lines = []\<rparr>"

definition rqd_line :: "decimal \<Rightarrow> decimal option \<Rightarrow> requisition_line" where
  "rqd_line q r = \<lparr>ql_id = ''5'', ql_no = 1, ql_item = ''I'', ql_requested = 4, ql_issued = q, ql_balance = 4 - q, ql_rate = r, ql_uom = ''bag''\<rparr>"

definition rqd_draft :: requisition where
  "rqd_draft = \<lparr>rq_id = ''4'', rq_company = ''C'', rq_fy = ''FY'', rq_no = None, rq_seq = None, rq_project = ''P'',
     rq_cost_centre = ''CC'', rq_purpose = ''W'', rq_godown = Some ''G'', rq_required_date = ''2025-07-20'', rq_priority = ''NORMAL'',
     rq_status = RqDraft, rq_estimated = 0, rq_tier = None, rq_submitted_at = None, rq_submitted_by = None, rq_closed_at = None,
     rq_closed_reason = None, rq_narration = None, rq_version = 1, rq_lines = [rqd_line 0 None], rq_approvals = []\<rparr>"

definition rqd_submitted :: requisition where
  "rqd_submitted = rqd_draft\<lparr>rq_no := Some ''REQ-000001'', rq_seq := Some 1, rq_status := RqSubmitted, rq_estimated := 20,
     rq_tier := Some TierAccounts, rq_submitted_at := Some 5, rq_submitted_by := Some ''U'', rq_version := 2, rq_lines := [rqd_line 0 (Some 5)]\<rparr>"

definition rqd_approval :: requisition_approval where
  "rqd_approval = \<lparr>qa_id = ''6'', qa_requisition = ''4'', qa_decision = DecApproved, qa_tier = TierAccounts, qa_threshold = 10,
     qa_estimated = 20, qa_reason = None, qa_by = ''U'', qa_at = 6\<rparr>"

definition rqd_approved :: requisition where
  "rqd_approved = rqd_submitted\<lparr>rq_status := RqApproved, rq_version := 3, rq_approvals := [rqd_approval]\<rparr>"

definition rqd_audit :: "string \<Rightarrow> audit_row" where
  "rqd_audit a = \<lparr>a_action = a, a_entity_type = ''Requisition'', a_entity_id = ''4'', a_actor = ''U'', a_company = ''C''\<rparr>"

definition rqd_row :: "requisition \<Rightarrow> requisition_row" where
  "rqd_row r = \<lparr>rr_doc = r, rr_deleted = False\<rparr>"

definition rqd_s1 :: req_db where
  "rqd_s1 = rqd_db\<lparr>db_ids := 6, db_audit := [rqd_audit ''CREATE''], rd_rows := [rqd_row rqd_draft]\<rparr>"

definition rqd_s2 :: req_db where
  "rqd_s2 = rqd_s1\<lparr>db_audit := map rqd_audit [''CREATE'', ''UPDATE''], rd_rows := [rqd_row rqd_submitted]\<rparr>"

definition rqd_s3 :: req_db where
  "rqd_s3 = rqd_s2\<lparr>db_ids := 7, db_audit := map rqd_audit [''CREATE'', ''UPDATE'', ''APPROVE''], rd_rows := [rqd_row rqd_approved]\<rparr>"

lemma rqd_create: "create_requisition dec20 show_nat rqd_new [(''I'', Dec 4)] sample_actor rqd_db = Inr (''4'', rqd_s1)"
  by code_simp

lemma rqd_estimates: "line_estimates dec20 ''C'' (Some ''G'') (rd_items rqd_s1) (st_movements rqd_s1) [rqd_line 0 None] 0 = Inr ([(''5'', 5)], 20)"
  by (simp add: rq_item_uom_def indicative_rate_def rqd_s1_def rqd_db_def rqd_line_def stk_grn_def stk_mv_def mv_key_def
      signed_quantity_def signed_value_def Let_def d_div_def d_times_def d_plus_def rnd20_small to_dp20_small)

lemma rqd_submit_doc:
  "req_submit ''REQ-000001'' 1 20 TierAccounts [(''5'', 5)] ''U'' 5 rqd_draft = Inr (rqd_submitted\<lparr>rq_version := 1\<rparr>)"
  "save_requisition dec20 ''UPDATE'' ''4'' (rqd_submitted\<lparr>rq_version := 1\<rparr>) sample_actor rqd_s1 = Inr rqd_s2"
  "requisition_no 1 = ''REQ-000001''" "next_requisition_seq ''C'' ''FY'' (rd_rows rqd_s1) = 1"
  "req_find ''4'' ''C'' (rd_rows rqd_s1) = Some rqd_draft" "rq_assert_godown ''C'' (Some ''G'') ''P'' (rd_godowns rqd_s1) = Inr ()"
  "rq_godown rqd_draft = Some ''G''" "rq_project rqd_draft = ''P''" "rq_lines rqd_draft = [rqd_line 0 None]" "act_company sample_actor = ''C''"
  "act_fy sample_actor = ''FY''" "act_user sample_actor = ''U''" "to_dp dec20 4 20 = 20" "db_entries rqd_s1 = []" "db_entries rqd_s2 = []"
  by code_simp+

lemma rqd_submit: "submit_requisition dec20 10 ''4'' sample_actor 5 rqd_s1 = Inr ((), rqd_s2)"
  by (simp add: submit_requisition_def uow_run_def Let_def rqd_estimates rqd_submit_doc [unfolded One_nat_def] select_tier_def del: line_estimates.simps)

lemma rqd_approve_doc:
  "req_find ''4'' ''C'' (rd_rows rqd_s2) = Some rqd_submitted" "req_assert_submitted rqd_submitted = Inr ()"
  "assert_authority sample_actor rqd_submitted = Inr ()" "db_ids rqd_s2 = 6" "db_entries rqd_s3 = []"
  "req_approve (approval_of show_nat 10 None sample_actor rqd_submitted rqd_s2) 6 rqd_submitted = Inr (rqd_approved\<lparr>rq_version := 2\<rparr>)"
  "save_requisition dec20 ''APPROVE'' ''4'' (rqd_approved\<lparr>rq_version := 2\<rparr>) sample_actor (rqd_s2\<lparr>db_ids := 7\<rparr>) = Inr rqd_s3"
  by code_simp+

lemma rqd_approve: "approve_requisition dec20 show_nat 10 ''4'' None sample_actor 6 rqd_s2 = Inr ((), rqd_s3)"
  by (simp add: approve_requisition_def uow_run_def rqd_approve_doc rqd_submit_doc)

section \<open>Two issues and a reversal\<close>

definition rqd_out :: "string \<Rightarrow> string \<Rightarrow> decimal \<Rightarrow> decimal \<Rightarrow> int \<Rightarrow> stock_movement" where
  "rqd_out i src q left t = \<lparr>mv_id = i, mv_company = ''C'', mv_godown = ''G'', mv_item = ''I'', mv_source_type = SrcReqIssue,
    mv_source_id = src, mv_direction = MvOut, mv_quantity = q, mv_rate = 5, mv_value = q * 5, mv_qty_after = left, mv_value_after = left * 5,
    mv_avg_after = Some 5, mv_is_reversal = False, mv_reversal_of = None, mv_date = ''2025-07-10'', mv_posted_at = t, mv_posted_by = ''U''\<rparr>"

definition rqd_issue_line :: "string \<Rightarrow> string \<Rightarrow> decimal \<Rightarrow> requisition_issue_line" where
  "rqd_issue_line i m q = \<lparr>il_id = i, il_line = ''5'', il_item = ''I'', il_godown = ''G'', il_movement = m, il_qty = q, il_rate = 5, il_value = q * 5\<rparr>"

definition rqd_request :: "decimal \<Rightarrow> issue_request" where
  "rqd_request q = \<lparr>ir_line = ''5'', ir_qty = q, ir_godown = None\<rparr>"

definition rqd_taken :: req_db where
  "rqd_taken = rqd_s3\<lparr>db_ids := 11, st_movements := [stk_grn, rqd_out ''9'' ''7'' 3 7 7], st_balances := [stk_bal ''1'' ''G'' 7 35 3]\<rparr>"

lemma rqd_loop:
  "issue_loop dec20 show_nat rqd_approved ''G'' False sample_actor 7 ''2025-07-10'' [rqd_request 3] rqd_s3 = Inr ([rqd_issue_line ''7'' ''9'' 3], rqd_taken)"
  by (simp add: issue_one_def rqd_request_def rq_assert_godown_def find_line_for_update_def issue_out_def value_issue_def rqd_s3_def rqd_s2_def rqd_s1_def rqd_db_def
      rqd_approved_def rqd_submitted_def rqd_draft_def rqd_row_def rqd_line_def sample_actor_def rqd_taken_def rqd_out_def rqd_issue_line_def
      stk_eval stk_grn_def stk_mv_def stk_bal_def cong: rbind_weak_cong)

definition rqd_cmd :: posting_command where
  "rqd_cmd = \<lparr>pc_company = ''C'', pc_fy = ''FY'', pc_voucher_type = STOCK_JOURNAL, pc_voucher_date = ''2025-07-10'', pc_source_type = ''REQ_ISSUE'',
     pc_source_id = ''11'', pc_posted_by = ''U'', pc_narration = None,
     pc_lines = [consumption_line rqd_approved \<lparr>cn_item = ''I'', cn_godown = ''G'', cn_value = 15\<rparr> ''EXP'' 15 0 EXPENSE,
       consumption_line rqd_approved \<lparr>cn_item = ''I'', cn_godown = ''G'', cn_value = 15\<rparr> ''INV'' 0 15 ASSET]\<rparr>"

definition rqd_entry :: journal_entry where
  "rqd_entry = \<lparr>je_id = ''13'', je_company = ''C'', je_fy = ''FY'', je_no = ''SJ/2525/0001'', je_voucher_type = STOCK_JOURNAL,
     je_voucher_date = ''2025-07-10'', je_source_type = ''REQ_ISSUE'', je_source_id = ''11'', je_is_reversal = False,
     je_reversal_of = None, je_posted_at = 7, je_posted_by = ''U'', je_narration = None, je_lines = lines_of (pc_lines rqd_cmd)\<rparr>"

definition rqd_booked :: req_db where
  "rqd_booked = rqd_taken\<lparr>db_ids := 14, db_entries := [rqd_entry],
     db_series := [\<lparr>s_id = ''12'', s_company = ''C'', s_fy = ''FY'', s_voucher_type = STOCK_JOURNAL, s_prefix = ''SJ'', s_padding = 4, s_last = 1, s_version = 1\<rparr>]\<rparr>"

definition rqd_issue :: requisition_issue where
  "rqd_issue = \<lparr>iq_id = ''11'', iq_requisition = ''4'', iq_no = 1, iq_from_godown = ''G'', iq_entry = ''13'', iq_entry_no = ''SJ/2525/0001'', iq_value = 15,
     iq_by = ''U'', iq_at = 7, iq_authorised = None, iq_reversed_at = None, iq_reversed_by = None, iq_lines = [rqd_issue_line ''7'' ''9'' 3]\<rparr>"

definition rqd_partial :: requisition where
  "rqd_partial = rqd_approved\<lparr>rq_status := RqPartiallyIssued, rq_version := 4, rq_lines := [rqd_line 3 (Some 5)]\<rparr>"

definition rqd_s4 :: req_db where
  "rqd_s4 = rqd_booked\<lparr>db_audit := map rqd_audit [''CREATE'', ''UPDATE'', ''APPROVE'', ''POST''], rd_rows := [rqd_row rqd_partial], rd_issues := [rqd_issue]\<rparr>"

lemma rqd_post: "post dec20 show_nat (erp_ports show_nat) rqd_cmd 7 (rqd_taken\<lparr>db_ids := 12\<rparr>) = Inr (rqd_entry, rqd_booked)"
  by code_simp

lemma rqd_issue_doc:
  "req_find ''4'' ''C'' (rd_rows rqd_s3) = Some rqd_approved" "req_assert_issuable rqd_approved = Inr ()"
  "rq_assert_not_closed ''C'' (rq_project rqd_approved) (rd_projects rqd_s3) = Inr ()" "db_ids rqd_taken = 11" "show_nat 11 = ''11''"
  "build_consumption_command rqd_approved ''11'' ''2025-07-10'' sample_actor [\<lparr>cn_item = ''I'', cn_godown = ''G'', cn_value = 15\<rparr>]
     (rd_items rqd_taken) (rd_accounts rqd_taken) = Inr rqd_cmd"
  "next_issue_no ''4'' [] = 1" "je_id rqd_entry = ''13''" "je_no rqd_entry = ''SJ/2525/0001''" "rd_issues rqd_booked = []"
  "issue_create dec20 ''11'' ''4'' 1 ''G'' ''13'' ''SJ/2525/0001'' [rqd_issue_line ''7'' ''9'' 3] ''U'' 7 None = Inr rqd_issue"
  "req_apply_issue dec20 [(''5'', 3)] rqd_approved = Inr (rqd_partial\<lparr>rq_version := 3\<rparr>)"
  "issue_save dec20 rqd_issue [] = Inr [rqd_issue]"
  "save_requisition dec20 ''POST'' ''4'' (rqd_partial\<lparr>rq_version := 3\<rparr>) sample_actor (rqd_booked\<lparr>rd_issues := [rqd_issue]\<rparr>) = Inr rqd_s4"
  "db_entries rqd_s4 = [rqd_entry]" "balance_check rqd_entry = Inr ()"
  "rd_items (rqd_taken\<lparr>db_ids := 12\<rparr>) = rd_items rqd_taken" "rd_accounts (rqd_taken\<lparr>db_ids := 12\<rparr>) = rd_accounts rqd_taken"
  "il_line (rqd_issue_line i m q) = ''5''" "il_qty (rqd_issue_line i m q) = q" "il_value (rqd_issue_line i m q) = q * 5"
  "il_item (rqd_issue_line i m q) = ''I''" "il_godown (rqd_issue_line i m q) = ''G''"
  by code_simp+

lemma rqd_issue_step:
  "issue_requisition dec20 show_nat (erp_ports show_nat) ''4'' ''G'' [rqd_request 3] False None sample_actor 7 ''2025-07-10'' rqd_s3 = Inr (rqd_issue, rqd_s4)"
  by (simp add: issue_requisition_def uow_run_def rqd_loop ids_next_def rqd_post rqd_submit_doc rqd_approve_doc rqd_issue_doc [unfolded One_nat_def] del: issue_loop.simps)

definition rqd_mirrored :: req_db where
  "rqd_mirrored = rqd_s4\<lparr>db_ids := 17,
     st_movements := st_movements rqd_s4 @ [(rqd_out ''15'' ''7'' 3 10 8)\<lparr>mv_direction := MvIn, mv_is_reversal := True\<rparr>],
     st_balances := [stk_bal ''1'' ''G'' 10 50 4]\<rparr>"

definition rqd_reversal :: journal_entry where
  "rqd_reversal = entry_reverse rqd_entry ''wrong'' ''SJ/2525/0002'' ''U'' ''17'' 8"

definition rqd_unbooked :: req_db where
  "rqd_unbooked = rqd_mirrored\<lparr>db_ids := 18, db_entries := [rqd_entry, rqd_reversal],
     db_series := [\<lparr>s_id = ''12'', s_company = ''C'', s_fy = ''FY'', s_voucher_type = STOCK_JOURNAL, s_prefix = ''SJ'', s_padding = 4, s_last = 2, s_version = 1\<rparr>]\<rparr>"

definition rqd_undone :: requisition where
  "rqd_undone = rqd_approved\<lparr>rq_version := 5, rq_lines := [rqd_line 0 (Some 5)]\<rparr>"

definition rqd_cancelled :: requisition_issue where
  "rqd_cancelled = rqd_issue\<lparr>iq_reversed_at := Some 8, iq_reversed_by := Some ''U''\<rparr>"

definition rqd_s5 :: req_db where
  "rqd_s5 = rqd_unbooked\<lparr>db_audit := map rqd_audit [''CREATE'', ''UPDATE'', ''APPROVE'', ''POST'', ''CANCEL''],
     rd_rows := [rqd_row rqd_undone], rd_issues := [rqd_cancelled]\<rparr>"

lemma rqd_mirror: "reverse_stock_lines dec20 show_nat sample_actor 8 ''2025-07-10'' [rqd_issue_line ''7'' ''9'' 3] rqd_s4 = Inr rqd_mirrored"
  by (simp add: reverse_issue_out_def apply_transfer_in_def rqd_s4_def rqd_booked_def rqd_taken_def rqd_s3_def rqd_s2_def rqd_s1_def rqd_db_def
      rqd_mirrored_def rqd_out_def rqd_issue_line_def sample_actor_def stk_eval stk_grn_def stk_mv_def stk_bal_def cong: rbind_weak_cong)

lemma rqd_reverse_ledger:
  "reverse dec20 show_nat (erp_ports show_nat) ''13'' ''C'' ''wrong'' ''U'' 8 rqd_mirrored = Inr (rqd_reversal, rqd_unbooked)"
  by code_simp

lemma rqd_reverse_doc:
  "req_find ''4'' ''C'' (rd_rows rqd_s4) = Some rqd_partial"
  "issue_find ''4'' ''11'' ''C'' (rd_rows rqd_s4) (rd_issues rqd_s4) = Inr (Some rqd_issue)"
  "issue_assert_not_reversed rqd_issue = Inr ()" "iq_lines rqd_issue = [rqd_issue_line ''7'' ''9'' 3]" "iq_entry rqd_issue = ''13''"
  "issue_mark_reversed ''U'' 8 rqd_issue = Inr rqd_cancelled" "rd_rows rqd_unbooked = [rqd_row rqd_partial]" "rd_issues rqd_unbooked = [rqd_issue]"
  "req_save dec20 (rqd_undone\<lparr>rq_version := 4\<rparr>) 4 [rqd_row rqd_partial] = Inr [rqd_row rqd_undone]"
  "issue_save_reversal rqd_cancelled [rqd_issue] = [rqd_cancelled]" "requisition_status_name (rq_status rqd_undone) = ''APPROVED''"
  "audit_record ''CANCEL'' ''Requisition'' ''4'' sample_actor (rqd_unbooked\<lparr>rd_rows := [rqd_row rqd_undone], rd_issues := [rqd_cancelled]\<rparr>) = rqd_s5"
  "db_entries rqd_s5 = [rqd_entry, rqd_reversal]" "balance_check rqd_reversal = Inr ()"
  by code_simp+

lemma rqd_reverse_lines: "req_reverse_issue dec20 [(''5'', 3)] rqd_partial = Inr (rqd_undone\<lparr>rq_version := 4\<rparr>)"
  by (simp add: req_reverse_issue_def rqd_partial_def rqd_undone_def rqd_approved_def rqd_submitted_def rqd_draft_def rqd_line_def req_line_or_throw_def
      round4_def d_minus_def rnd20_small to_dp20_small set_issued_def update_where_def any_issued_def)

lemma rqd_reverse:
  "reverse_requisition_issue dec20 show_nat (erp_ports show_nat) ''4'' ''11'' ''wrong'' sample_actor 8 ''2025-07-10'' rqd_s4 = Inr (''APPROVED'', rqd_s5)"
  by (simp add: reverse_requisition_issue_def uow_run_def rqd_mirror rqd_reverse_ledger rqd_submit_doc rqd_issue_doc rqd_reverse_doc rqd_reverse_lines del: reverse_stock_lines.simps)

section \<open>The run\<close>

lemma rqd_run4: "(req_step dec20 show_nat 10)\<^sup>*\<^sup>* rqd_db rqd_s4"
  using q_create [OF rqd_create] q_submit [OF rqd_submit] q_approve [OF rqd_approve] q_issue [OF rqd_issue_step]
  by (meson rtranclp.rtrancl_refl rtranclp.rtrancl_into_rtrancl)

lemma rqd_run5: "(req_step dec20 show_nat 10)\<^sup>*\<^sup>* rqd_db rqd_s5"
  using rqd_run4 q_reverse [OF rqd_reverse] by (rule rtranclp.rtrancl_into_rtrancl)

end
