(* ===== verification/Requisition_Books.thy ===== *)
theory Requisition_Books
  imports Requisition_Demo
begin

text \<open>
  The properties of the requisition module over every state its committed steps reach from empty requisition
  tables, whatever stock, masters and entries are there.
\<close>

text \<open>
  C34. What a requisition line has issued and what it still owes always add up to what was requested, neither is
  negative, the issued quantity is exactly the sum of the issues of that line that are not reversed, and the status of the document
  says which: APPROVED before anything is issued, PARTIALLY_ISSUED in between, ISSUED when nothing is owed.
\<close>

theorem requisition_lines_balance:
  assumes "decimal_js D" and "(req_step D mk th)\<^sup>*\<^sup>* s0 s" and "rd_rows s0 = []" and "rd_issues s0 = []" and "x \<in> set (rd_rows s)"
  shows "(\<forall>l \<in> set (rq_lines (rr_doc x)). 0 \<le> ql_issued l \<and> 0 \<le> ql_balance l \<and> ql_issued l + ql_balance l = ql_requested l \<and>
      ql_issued l = issued_of (ql_id l) (rd_issues s)) \<and>
    (rq_status (rr_doc x) = RqApproved \<longrightarrow> (\<forall>l \<in> set (rq_lines (rr_doc x)). ql_issued l = 0)) \<and>
    (rq_status (rr_doc x) = RqPartiallyIssued \<longrightarrow> (\<exists>l \<in> set (rq_lines (rr_doc x)). 0 < ql_issued l) \<and> (\<exists>l \<in> set (rq_lines (rr_doc x)). 0 < ql_balance l)) \<and>
    (rq_status (rr_doc x) = RqIssued \<longrightarrow> (\<forall>l \<in> set (rq_lines (rr_doc x)). ql_balance l = 0))"
proof -
  have "doc_ok th (rd_issues s) (rr_doc x)"
    using row_doc_ok [OF decimal_js.req_steps_keep [OF assms(1,2) empty_req_inv [OF assms(3,4)]] assms(5)] .
  then have l: "\<forall>l \<in> set (rq_lines (rr_doc x)). line_sound l \<and> ql_issued l = issued_of (ql_id l) (rd_issues s)"
    and st: "status_ok (rd_issues s) (rr_doc x)" by (simp_all add: doc_ok_def)
  have ls: "0 \<le> ql_issued l" "0 \<le> ql_balance l" "ql_issued l + ql_balance l = ql_requested l" "ql_issued l = issued_of (ql_id l) (rd_issues s)"
    if "l \<in> set (rq_lines (rr_doc x))" for l using l that by (auto simp: line_sound_def)
  have "any_issued ks \<longleftrightarrow> (\<exists>l \<in> set ks. 0 < ql_issued l)" "fully_issued ks \<longleftrightarrow> (\<forall>l \<in> set ks. ql_balance l = 0)" for ks
    by (auto simp: any_issued_def fully_issued_def list_ex_iff list_all_iff)
  with st ls show ?thesis unfolding status_ok_def by (metis order_le_less)
qed

theorem requisition_lines_balance_witness:
  "ql_issued (rqd_line 0 (Some 5)) = issued_of ''5'' (rd_issues rqd_s5)"
proof -
  have m: "rqd_row rqd_undone \<in> set (rd_rows rqd_s5)" "rd_rows rqd_db = []" "rd_issues rqd_db = []"
    "rqd_line 0 (Some 5) \<in> set (rq_lines (rr_doc (rqd_row rqd_undone)))" "ql_id (rqd_line 0 (Some 5)) = ''5''"
    by (simp_all add: rqd_s5_def rqd_db_def rqd_row_def rqd_undone_def rqd_line_def)
  from requisition_lines_balance [OF dec20.decimal_js_axioms rqd_run5 m(2,3,1)] m(4,5) show ?thesis by metis
qed

text \<open>
  C35. Nothing leaves the stock on a requisition without authority: every issue ever recorded belongs to a
  requisition with an APPROVED decision of exactly the tier its estimate demands, each of its lines has left the godown by an
  outgoing movement of the same item, quantity and value, that value is quantity times rate, and the ledger holds the
  consumption entry of the issue.
\<close>

theorem issues_are_approved_and_backed:
  assumes "decimal_js D" and "(req_step D mk th)\<^sup>*\<^sup>* s0 s" and "rd_rows s0 = []" and "rd_issues s0 = []" and "p \<in> set (rd_issues s)"
  shows "(\<exists>x \<in> set (rd_rows s). rq_id (rr_doc x) = iq_requisition p \<and>
      (\<exists>a \<in> set (rq_approvals (rr_doc x)). qa_decision a = DecApproved \<and> qa_tier a = select_tier (rq_estimated (rr_doc x)) th \<and>
         qa_estimated a = rq_estimated (rr_doc x))) \<and>
    iq_lines p \<noteq> [] \<and>
    (\<forall>l \<in> set (iq_lines p). 0 < il_qty l \<and> il_value l = il_qty l * il_rate l \<and>
      (\<exists>m \<in> set (st_movements s). mv_id m = il_movement l \<and> mv_direction m = MvOut \<and> mv_item m = il_item l \<and>
         mv_godown m = il_godown l \<and> mv_quantity m = il_qty l \<and> mv_value m = il_value l)) \<and>
    (\<exists>e \<in> set (db_entries s). je_id e = iq_entry p \<and> je_source_type e = ''REQ_ISSUE'' \<and> je_source_id e = iq_id p)"
proof -
  have inv: "req_inv th s" by (rule decimal_js.req_steps_keep [OF assms(1,2) empty_req_inv [OF assms(3,4)]])
  then have p: "issue_ok (rd_rows s) (st_movements s) (db_entries s) p"
    using assms(5) by (simp add: req_inv_def issues_ok_def)
  then obtain x where x: "x \<in> set (rd_rows s)" "rq_id (rr_doc x) = iq_requisition p" unfolding issue_ok_def by blast
  have ok: "status_ok (rd_issues s) (rr_doc x)" "approval_ok th (rr_doc x)" using row_doc_ok [OF inv x(1)] by (simp_all add: doc_ok_def)
  with x(2) assms(5) have late: "\<not> early (rq_status (rr_doc x))" by (auto simp: status_ok_def)
  then have "rq_status (rr_doc x) \<noteq> RqDraft" by (auto simp: early_def)
  with late ok(2) have "\<exists>a \<in> set (rq_approvals (rr_doc x)). qa_decision a = DecApproved \<and> qa_tier a = select_tier (rq_estimated (rr_doc x)) th \<and>
      qa_estimated a = rq_estimated (rr_doc x)" by (auto simp: approval_ok_def)
  with x p show ?thesis unfolding issue_ok_def left_stock_def by blast
qed

theorem issues_are_approved_and_backed_witness:
  "\<exists>m \<in> set (st_movements rqd_s4). mv_id m = ''9'' \<and> mv_direction m = MvOut \<and> mv_quantity m = 3"
proof -
  have m: "rqd_issue \<in> set (rd_issues rqd_s4)" "rd_rows rqd_db = []" "rd_issues rqd_db = []" "rqd_issue_line ''7'' ''9'' 3 \<in> set (iq_lines rqd_issue)"
    by (simp_all add: rqd_s4_def rqd_db_def rqd_issue_def)
  have l: "il_movement (rqd_issue_line ''7'' ''9'' 3) = ''9''" "il_qty (rqd_issue_line ''7'' ''9'' 3) = 3" by (simp_all add: rqd_issue_line_def)
  from issues_are_approved_and_backed [OF dec20.decimal_js_axioms rqd_run4 m(2,3,1)] m(4) l show ?thesis by metis
qed

end
