(* ===== verification/Payment.thy ===== *)
theory Payment
  imports Vouchers
begin

text \<open>
  The payment aggregate (\<open>src/src/modules/payment/domain/\<close>): the cash-out voucher with its allocations to
  payables, its lifecycle, and the balanced command it becomes.  The classes of its \<open>errors.ts\<close> that the other
  modules do not have are their code.
\<close>

section \<open>Modes and allocations\<close>

datatype payment_mode = PayCash | PayMfs | PayBankTransfer | PayCheque | PayRtgs

definition requires_cheque_ref :: "payment_mode \<Rightarrow> bool" where
  "requires_cheque_ref m \<longleftrightarrow> m \<noteq> PayCash"

fun payment_mode_name :: "payment_mode \<Rightarrow> string" where
  "payment_mode_name PayCash = ''CASH''"
| "payment_mode_name PayMfs = ''MFS''"
| "payment_mode_name PayBankTransfer = ''BANK_TRANSFER''"
| "payment_mode_name PayCheque = ''CHEQUE''"
| "payment_mode_name PayRtgs = ''RTGS''"

datatype payable_type = PurchaseBill | LabourPayable | Salary

text \<open>The last three fields are the binding, absent until the payable is resolved.\<close>

record payment_allocation =
  pa_line :: nat
  pa_type :: payable_type
  pa_payable :: string
  pa_amount :: money
  pa_accrued :: "money option"
  pa_party :: "string option"
  pa_project :: "string option"
  pa_cost_centre :: "string option"
  pa_purpose :: "string option"
  pa_control :: "string option"
  pa_control_type :: "account_type option"
  pa_is_control :: "bool option"

record new_payment_allocation =
  nl_type :: payable_type
  nl_payable :: string
  nl_amount :: decimal_input

record resolved_allocation =
  ra_control :: string
  ra_control_type :: account_type
  ra_is_control :: bool
  ra_party :: "string option"
  ra_project :: "string option"
  ra_cost_centre :: "string option"
  ra_purpose :: "string option"
  ra_accrued :: "money option"

section \<open>The voucher\<close>

datatype payment_status = PayDraft | PayPosted | PayCancelled

fun payment_status_name :: "payment_status \<Rightarrow> string" where
  "payment_status_name PayDraft = ''DRAFT''"
| "payment_status_name PayPosted = ''POSTED''"
| "payment_status_name PayCancelled = ''CANCELLED''"

record payment =
  pv_id :: string
  pv_company :: string
  pv_fy :: string
  pv_party :: "string option"
  pv_date :: string
  pv_mode :: payment_mode
  pv_account :: string
  pv_ref :: "string option"
  pv_charges :: money
  pv_charges_project :: "string option"
  pv_charges_cost_centre :: "string option"
  pv_charges_purpose :: "string option"
  pv_amount :: money
  pv_narration :: "string option"
  pv_status :: payment_status
  pv_entry_no :: "string option"
  pv_entry :: "string option"
  pv_posted_at :: "int option"
  pv_posted_by :: "string option"
  pv_allocs :: "payment_allocation list"
  pv_version :: nat

record new_payment =
  np_party :: "string option"
  np_date :: string
  np_mode :: payment_mode
  np_account :: string
  np_ref :: "string option"
  np_charges :: "decimal_input option"
  np_charges_project :: "string option"
  np_charges_cost_centre :: "string option"
  np_charges_purpose :: "string option"
  np_amount :: decimal_input
  np_narration :: "string option"
  np_allocs :: "new_payment_allocation list"

record edit_payment =
  xp_party :: "string patch"
  xp_date :: "string patch"
  xp_mode :: "payment_mode patch"
  xp_account :: "string patch"
  xp_ref :: "string patch"
  xp_charges :: "decimal_input patch"
  xp_charges_project :: "string patch"
  xp_charges_cost_centre :: "string patch"
  xp_charges_purpose :: "string patch"
  xp_amount :: "decimal_input patch"
  xp_narration :: "string patch"
  xp_allocs :: "new_payment_allocation list patch"

section \<open>Construction\<close>

text \<open>
  \<open>moneyNonNeg\<close> rounds first, but the sign test of decimal.js sees the sign of a negative amount that rounds
  to zero, so the test is on the amount as it came.
\<close>

definition money_non_neg :: "dec_lib \<Rightarrow> decimal_input \<Rightarrow> string \<Rightarrow> domain_error + money" where
  "money_non_neg D v field =
     rbind (to_decimal v field) (\<lambda>d. if d < 0 then Inl (ValidationError field) else Inr (round4 D d))"

definition build_allocation :: "dec_lib \<Rightarrow> nat \<Rightarrow> new_payment_allocation \<Rightarrow> domain_error + payment_allocation" where
  "build_allocation D i a =
     rbind (to_decimal (nl_amount a) ''amountAllocated'') (\<lambda>d.
     let amount = round4 D d in
     rbind (require (0 < amount) (ValidationError ''amountAllocated'')) (\<lambda>_.
     rbind (req (nl_payable a) ''payableId'') (\<lambda>payable.
     Inr \<lparr>pa_line = i + 1, pa_type = nl_type a, pa_payable = payable, pa_amount = amount, pa_accrued = None,
          pa_party = None, pa_project = None, pa_cost_centre = None, pa_purpose = None,
          pa_control = None, pa_control_type = None, pa_is_control = None\<rparr>)))"

definition build_allocations :: "dec_lib \<Rightarrow> new_payment_allocation list \<Rightarrow> domain_error + payment_allocation list" where
  "build_allocations D inputs = rmap (\<lambda>(i, a). build_allocation D i a) (enumerate 0 inputs)"

definition payment_allocated :: "dec_lib \<Rightarrow> payment \<Rightarrow> money" where
  "payment_allocated D p = money_sum D (map pa_amount (pv_allocs p))"

definition payment_invariants :: "dec_lib \<Rightarrow> payment \<Rightarrow> domain_error + unit" where
  "payment_invariants D p =
     rbind (require (payment_allocated D p \<le> pv_amount p) (CodedError ''PAYMENT_OVER_ALLOCATION'' (pv_id p))) (\<lambda>_.
     rbind (require (\<not> (requires_cheque_ref (pv_mode p) \<and> \<not> (truthy (pv_ref p) \<and> trim (or_empty (pv_ref p)) \<noteq> [])))
       (ChequeRefMissingError (payment_mode_name (pv_mode p)))) (\<lambda>_.
     require (0 < pv_charges p \<longrightarrow> truthy (pv_charges_project p) \<and> truthy (pv_charges_cost_centre p) \<and> truthy (pv_charges_purpose p))
       (ValidationError ''bankChargesAmount'')))"

definition payment_create_draft ::
  "dec_lib \<Rightarrow> string \<Rightarrow> string \<Rightarrow> string \<Rightarrow> new_payment \<Rightarrow> domain_error + payment" where
  "payment_create_draft D i co fy inp =
     rbind (req (np_date inp) ''paymentDate'') (\<lambda>date.
     rbind (req (np_account inp) ''paymentAccountId'') (\<lambda>account.
     rbind (money_non_neg D (case np_charges inp of None \<Rightarrow> Dec 0 | Some c \<Rightarrow> c) ''bankChargesAmount'') (\<lambda>charges.
     rbind (money_non_neg D (np_amount inp) ''paymentAmount'') (\<lambda>amount.
     rbind (build_allocations D (np_allocs inp)) (\<lambda>allocs.
     let p = \<lparr>pv_id = i, pv_company = co, pv_fy = fy, pv_party = np_party inp, pv_date = date, pv_mode = np_mode inp,
        pv_account = account, pv_ref = np_ref inp, pv_charges = charges, pv_charges_project = np_charges_project inp,
        pv_charges_cost_centre = np_charges_cost_centre inp, pv_charges_purpose = np_charges_purpose inp,
        pv_amount = amount, pv_narration = np_narration inp, pv_status = PayDraft, pv_entry_no = None, pv_entry = None,
        pv_posted_at = None, pv_posted_by = None, pv_allocs = allocs, pv_version = 1\<rparr> in
     rbind (payment_invariants D p) (\<lambda>_. Inr p))))))"

section \<open>Lifecycle\<close>

definition payment_assert_draft :: "payment \<Rightarrow> domain_error + unit" where
  "payment_assert_draft p = require (pv_status p = PayDraft) (NotDraftError (payment_status_name (pv_status p)))"

text \<open>\<open>assertPosted\<close>, and the same test in \<open>assertCancellable\<close> and \<open>markCancelled\<close>.\<close>

definition payment_assert_posted :: "payment \<Rightarrow> domain_error + unit" where
  "payment_assert_posted p = require (pv_status p = PayPosted) (NotPostedError (payment_status_name (pv_status p)))"

definition payment_update_draft :: "dec_lib \<Rightarrow> edit_payment \<Rightarrow> payment \<Rightarrow> domain_error + payment" where
  "payment_update_draft D x p =
     rbind (payment_assert_draft p) (\<lambda>_.
     rbind (req (patch_nullish (xp_date x) (pv_date p)) ''paymentDate'') (\<lambda>date.
     rbind (req (patch_nullish (xp_account x) (pv_account p)) ''paymentAccountId'') (\<lambda>account.
     rbind (patched (xp_charges x) (pv_charges p)
       (\<lambda>c. money_non_neg D (case c of None \<Rightarrow> Dec 0 | Some v \<Rightarrow> v) ''bankChargesAmount'')) (\<lambda>charges.
     rbind (patched (xp_amount x) (pv_amount p)
       (\<lambda>c. money_non_neg D (case c of None \<Rightarrow> Absent | Some v \<Rightarrow> v) ''paymentAmount'')) (\<lambda>amount.
     rbind (patched (xp_allocs x) (pv_allocs p)
       (\<lambda>c. build_allocations D (case c of None \<Rightarrow> [] | Some v \<Rightarrow> v))) (\<lambda>allocs.
     let q = p\<lparr>pv_party := patch_defined (xp_party x) (pv_party p), pv_date := date,
        pv_mode := patch_nullish (xp_mode x) (pv_mode p), pv_account := account,
        pv_ref := patch_defined (xp_ref x) (pv_ref p), pv_charges := charges,
        pv_charges_project := patch_defined (xp_charges_project x) (pv_charges_project p),
        pv_charges_cost_centre := patch_defined (xp_charges_cost_centre x) (pv_charges_cost_centre p),
        pv_charges_purpose := patch_defined (xp_charges_purpose x) (pv_charges_purpose p),
        pv_amount := amount, pv_narration := patch_defined (xp_narration x) (pv_narration p), pv_allocs := allocs\<rparr> in
     rbind (payment_invariants D q) (\<lambda>_. Inr q)))))))"

text \<open>The first allocation with the line number takes the binding.\<close>

definition bind_allocation :: "resolved_allocation \<Rightarrow> payment_allocation \<Rightarrow> payment_allocation" where
  "bind_allocation r a =
     a\<lparr>pa_control := Some (ra_control r), pa_control_type := Some (ra_control_type r), pa_is_control := Some (ra_is_control r),
       pa_party := ra_party r, pa_project := ra_project r, pa_cost_centre := ra_cost_centre r, pa_purpose := ra_purpose r,
       pa_accrued := ra_accrued r\<rparr>"

fun bind_line :: "nat \<Rightarrow> resolved_allocation \<Rightarrow> payment_allocation list \<Rightarrow> domain_error + payment_allocation list" where
  "bind_line n r [] = Inl (ValidationError ''lineNo'')"
| "bind_line n r (a # as) =
     (if pa_line a = n then Inr (bind_allocation r a # as) else rbind (bind_line n r as) (\<lambda>bs. Inr (a # bs)))"

definition apply_resolved_payable :: "nat \<Rightarrow> resolved_allocation \<Rightarrow> payment \<Rightarrow> domain_error + payment" where
  "apply_resolved_payable n r p = rbind (bind_line n r (pv_allocs p)) (\<lambda>as. Inr (p\<lparr>pv_allocs := as\<rparr>))"

definition payment_assert_postable :: "dec_lib \<Rightarrow> payment \<Rightarrow> domain_error + unit" where
  "payment_assert_postable D p =
     rbind (payment_assert_draft p) (\<lambda>_.
     rbind (require (pv_allocs p \<noteq> []) (ValidationError ''allocations'')) (\<lambda>_.
     rbind (require (pv_account p \<noteq> []) (ValidationError ''paymentAccountId'')) (\<lambda>_.
     payment_invariants D p)))"

definition payment_mark_posted :: "string \<Rightarrow> string \<Rightarrow> string \<Rightarrow> int \<Rightarrow> payment \<Rightarrow> domain_error + payment" where
  "payment_mark_posted entry_id entry_no who now p =
     rbind (payment_assert_draft p) (\<lambda>_.
     Inr (p\<lparr>pv_status := PayPosted, pv_entry := Some entry_id, pv_entry_no := Some entry_no, pv_posted_by := Some who,
       pv_posted_at := Some now\<rparr>))"

definition payment_mark_cancelled :: "payment \<Rightarrow> domain_error + payment" where
  "payment_mark_cancelled p = rbind (payment_assert_posted p) (\<lambda>_. Inr (p\<lparr>pv_status := PayCancelled\<rparr>))"

section \<open>The command\<close>

record payment_accounts =
  pm_labour_cost :: string
  pm_bank_charges :: string

text \<open>\<open>controlAccountFor\<close> of \<open>buildConcreteAccountMap\<close>: the binding of an allocation, or an error.\<close>

definition control_account_for :: "payment_allocation \<Rightarrow> domain_error + (string \<times> account_type \<times> bool)" where
  "control_account_for a =
     (case (pa_control a, pa_control_type a, pa_is_control a) of
        (Some c, Some t, Some b) \<Rightarrow> if c = [] then Inl (ValidationError ''lineNo'') else Inr (c, t, b)
      | _ \<Rightarrow> Inl (ValidationError ''lineNo''))"

text \<open>The lines one allocation pushes.\<close>

definition allocation_lines ::
  "dec_lib \<Rightarrow> payment_accounts \<Rightarrow> payment_allocation \<Rightarrow> domain_error + posting_line list" where
  "allocation_lines D m a =
     rbind (control_account_for a) (\<lambda>(control, ty, ctl).
     rbind (require (ty \<noteq> EXPENSE) (CodedError ''SETTLEMENT_ACCOUNT_IS_EXPENSE'' control)) (\<lambda>_.
     let party = (if ctl then pa_party a else None); paid = pa_amount a in
     case (if pa_type a = LabourPayable then pa_accrued a else None) of
       Some accrued \<Rightarrow>
         if paid = accrued then Inr [dim_line control None None None party paid 0 ty ctl]
         else Inr [dim_line control None None None party accrued 0 ty ctl,
           if paid < accrued
           then dim_line (pm_labour_cost m) (pa_project a) (pa_cost_centre a) (pa_purpose a) None 0 (money_minus D accrued paid) EXPENSE False
           else dim_line (pm_labour_cost m) (pa_project a) (pa_cost_centre a) (pa_purpose a) None (money_minus D paid accrued) 0 EXPENSE False]
     | None \<Rightarrow> Inr [dim_line control None None None party paid 0 ty ctl]))"

definition charge_lines :: "payment_accounts \<Rightarrow> payment \<Rightarrow> posting_line list" where
  "charge_lines m p =
     (if 0 < pv_charges p
      then [dim_line (pm_bank_charges m) (pv_charges_project p) (pv_charges_cost_centre p) (pv_charges_purpose p) None
              (pv_charges p) 0 EXPENSE False]
      else [])"

definition cash_out :: "dec_lib \<Rightarrow> payment \<Rightarrow> money" where
  "cash_out D p =
     (let paid = money_sum D (map pa_amount (pv_allocs p)) in
      if 0 < pv_charges p then money_plus D paid (pv_charges p) else paid)"

definition build_payment_command ::
  "dec_lib \<Rightarrow> payment_accounts \<Rightarrow> string \<Rightarrow> payment \<Rightarrow> domain_error + posting_command" where
  "build_payment_command D m posted_by p =
     rbind (rmap (allocation_lines D m) (pv_allocs p)) (\<lambda>settled.
     Inr \<lparr>pc_company = pv_company p, pc_fy = pv_fy p, pc_voucher_type = PAYMENT, pc_voucher_date = pv_date p,
          pc_source_type = ''PaymentVoucher'', pc_source_id = pv_id p, pc_posted_by = posted_by,
          pc_narration = pv_narration p,
          pc_lines = concat settled @ charge_lines m p @
            [dim_line (pv_account p) None None None None 0 (cash_out D p) ASSET False]\<rparr>)"

end
