(* ===== verification/Settlements.thy ===== *)
theory Settlements
  imports Vouchers
begin

text \<open>
  What payments and receipts share: a table of vouchers, each with shares in the documents it settles, that count
  from the posting of the voucher until its ledger entry is reversed.  The locale states what a module promises of its
  rows; its facts bound the settled total of a document while rows are replaced and entries appended.
\<close>

definition entry_reversed :: "string \<Rightarrow> journal_entry list \<Rightarrow> bool" where
  "entry_reversed j es \<longleftrightarrow> list_ex (\<lambda>e. je_reversal_of e = Some j) es"

definition standing ::
  "('k \<Rightarrow> 'r \<Rightarrow> bool) \<Rightarrow> ('r \<Rightarrow> string option) \<Rightarrow> 'k \<Rightarrow> journal_entry list \<Rightarrow> 'r \<Rightarrow> bool" where
  "standing live entry k es r \<longleftrightarrow> live k r \<and>
     (case entry r of None \<Rightarrow> False | Some j \<Rightarrow> list_ex (\<lambda>e. je_id e = j) es \<and> \<not> entry_reversed j es)"

definition settled_total ::
  "('k \<Rightarrow> 'r \<Rightarrow> bool) \<Rightarrow> ('r \<Rightarrow> string option) \<Rightarrow> ('k \<Rightarrow> 'r \<Rightarrow> decimal) \<Rightarrow> 'k \<Rightarrow> journal_entry list \<Rightarrow> 'r list \<Rightarrow> decimal" where
  "settled_total live entry share k es rows = sum_list (map (share k) (filter (standing live entry k es) rows))"

text \<open>\<open>sound es r\<close>: the row is well formed, and where it counts its entry is in the ledger.\<close>

locale settlement_rows =
  fixes row_id :: "'r \<Rightarrow> string"
    and live :: "'k \<Rightarrow> 'r \<Rightarrow> bool"
    and entry :: "'r \<Rightarrow> string option"
    and share :: "'k \<Rightarrow> 'r \<Rightarrow> decimal"
    and sound :: "journal_entry list \<Rightarrow> 'r \<Rightarrow> bool"
  assumes share_nonneg: "sound es r \<Longrightarrow> 0 \<le> share k r"
    and share_grid: "sound es r \<Longrightarrow> on_grid 4 (share k r)"
    and live_known: "sound es r \<Longrightarrow> live k r \<Longrightarrow> \<exists>e \<in> set es. entry r = Some (je_id e)"
begin

lemma settled_sum:
  "settled_total live entry share k es rows = sum_list (map (\<lambda>r. if standing live entry k es r then share k r else 0) rows)"
  by (induction rows) (simp_all add: settled_total_def)

lemma settled_nonneg: "\<forall>r \<in> set rows. sound es r \<Longrightarrow> 0 \<le> settled_total live entry share k es rows"
  unfolding settled_total_def by (intro sum_list_nonneg) (auto intro: share_nonneg)

lemma settled_grid: "\<forall>r \<in> set rows. sound es r \<Longrightarrow> on_grid 4 (settled_total live entry share k es rows)"
  unfolding settled_total_def by (intro on_grid_sum_list) (auto intro: share_grid)

text \<open>Further entries can only take a voucher out of the total.\<close>

lemma standing_later: "sound es r \<Longrightarrow> standing live entry k (es @ new) r \<Longrightarrow> standing live entry k es r"
  using live_known [of es r k] by (auto simp: standing_def entry_reversed_def list_ex_iff)

lemma settled_later:
  assumes "\<forall>r \<in> set rows. sound es r"
  shows "settled_total live entry share k (es @ new) rows \<le> settled_total live entry share k es rows"
  unfolding settled_sum
proof (rule sum_list_mono)
  fix r assume "r \<in> set rows"
  with assms have r: "sound es r" by blast
  from standing_later [OF r] share_nonneg [OF r]
  show "(if standing live entry k (es @ new) r then share k r else 0) \<le> (if standing live entry k es r then share k r else 0)"
    by auto
qed

text \<open>One row replaced, entries appended: the total grows by at most the share of the new row.\<close>

lemma settled_replaced:
  assumes "\<forall>r \<in> set rows. sound es r" and "distinct (map row_id rows)" and "p \<in> set rows"
  shows "settled_total live entry share k (es @ new) (update_where (\<lambda>r. r = p) f rows) \<le>
    settled_total live entry share k es rows + (if standing live entry k (es @ new) (f p) then share k (f p) else 0)"
proof -
  let ?g = "\<lambda>r. if standing live entry k (es @ new) r then share k r else 0"
  have "sum_list (map ?g (update_where (\<lambda>r. r = p) f rows)) = sum_list (map ?g rows) - ?g p + ?g (f p)"
    by (rule sum_update_where [where k = row_id]) (use assms in auto)
  moreover have "0 \<le> ?g p" using share_nonneg assms(1,3) by auto
  moreover have "sum_list (map ?g rows) \<le> settled_total live entry share k es rows"
    using settled_later [OF assms(1)] unfolding settled_sum .
  ultimately show ?thesis unfolding settled_sum by linarith
qed

text \<open>A row that counted is replaced by one that does not, and no other row is affected: its share is free again.\<close>

lemma settled_freed:
  assumes "\<forall>r \<in> set rows. sound es r" and "distinct (map row_id rows)" and "p \<in> set rows" and "standing live entry k es p"
    and "\<not> standing live entry k (es @ new) (f p)"
    and "\<And>r. r \<in> set rows \<Longrightarrow> r \<noteq> p \<Longrightarrow> standing live entry k (es @ new) r \<longleftrightarrow> standing live entry k es r"
  shows "settled_total live entry share k (es @ new) (update_where (\<lambda>r. r = p) f rows) =
    settled_total live entry share k es rows - share k p"
proof -
  let ?g = "\<lambda>es r. if standing live entry k es r then share k r else 0"
  have d: "p \<notin> set (remove1 p rows)" using assms(2) by (auto simp: distinct_map set_remove1_eq)
  have "sum_list (map (?g (es @ new)) (update_where (\<lambda>r. r = p) f rows)) =
      sum_list (map (?g (es @ new)) rows) - ?g (es @ new) p + ?g (es @ new) (f p)"
    by (rule sum_update_where [where k = row_id]) (use assms in auto)
  also have "\<dots> = sum_list (map (?g (es @ new)) (remove1 p rows))"
    using assms(5) by (simp add: sum_list_map_remove1 [OF assms(3)])
  also have "map (?g (es @ new)) (remove1 p rows) = map (?g es) (remove1 p rows)"
    using d by (intro map_cong refl) (metis assms(6) notin_set_remove1)
  also have "sum_list \<dots> = sum_list (map (?g es) rows) - share k p"
    using assms(4) by (simp add: sum_list_map_remove1 [OF assms(3)])
  finally show ?thesis unfolding settled_sum .
qed

text \<open>A voucher that does not count may come and go.\<close>

lemma settled_drop:
  assumes "\<And>r. r \<in> set rows \<Longrightarrow> \<not> Q r \<Longrightarrow> \<not> live k r"
  shows "settled_total live entry share k es (filter Q rows) = settled_total live entry share k es rows"
proof -
  have "filter (standing live entry k es) (filter Q rows) = filter (standing live entry k es) rows"
    unfolding filter_filter by (rule filter_cong [OF refl]) (use assms in \<open>auto simp: standing_def\<close>)
  then show ?thesis by (simp add: settled_total_def)
qed

lemma settled_add: "\<not> live k r \<Longrightarrow> settled_total live entry share k es (rows @ [r]) = settled_total live entry share k es rows"
  by (simp add: settled_total_def standing_def)

end

end
