(* ===== verification/Payment_State.thy ===== *)
theory Payment_State
  imports Payment Settlements Hr_Use_Cases
begin

text \<open>
  The tables of the payment module (\<open>src/src/modules/payment/infrastructure/\<close>) beside those of HR, the lookup of
  a payable, the projection of what payments have settled, and the repository.  Of a purchase bill the module reads
  the supplier, the net payable amount and the status.
\<close>

section \<open>State\<close>

record bill_ref =
  bl_id :: string
  bl_company :: string
  bl_supplier :: string
  bl_net :: money
  bl_status :: string

record pay_db = hr_db +
  py_bills :: "bill_ref list"
  py_rows :: "payment list"

section \<open>What payments have settled\<close>

text \<open>\<open>appliedTotal\<close> of the lookup joins the entry; the read model's \<open>appliedTo\<close> does not.\<close>

definition payment_live :: "string \<times> payable_type \<times> string \<Rightarrow> payment \<Rightarrow> bool" where
  "payment_live k p \<longleftrightarrow> pv_company p = fst k \<and> pv_status p = PayPosted"

definition allocations_to :: "payable_type \<Rightarrow> string \<Rightarrow> payment \<Rightarrow> payment_allocation list" where
  "allocations_to t i p = filter (\<lambda>a. pa_type a = t \<and> pa_payable a = i) (pv_allocs p)"

definition allocated_to :: "payable_type \<Rightarrow> string \<Rightarrow> payment \<Rightarrow> decimal" where
  "allocated_to t i p = sum_list (map pa_amount (allocations_to t i p))"

definition allocated_share :: "string \<times> payable_type \<times> string \<Rightarrow> payment \<Rightarrow> decimal" where
  "allocated_share k p = allocated_to (fst (snd k)) (snd (snd k)) p"

definition applied_total :: "string \<Rightarrow> payable_type \<Rightarrow> string \<Rightarrow> journal_entry list \<Rightarrow> payment list \<Rightarrow> money" where
  "applied_total co t i es rows = settled_total payment_live pv_entry allocated_share (co, t, i) es rows"

definition payment_stands :: "string \<Rightarrow> journal_entry list \<Rightarrow> payment \<Rightarrow> bool" where
  "payment_stands co es p \<longleftrightarrow> pv_company p = co \<and> pv_status p = PayPosted \<and>
     (case pv_entry p of None \<Rightarrow> True | Some j \<Rightarrow> \<not> entry_reversed j es)"

definition applied_to :: "payable_type \<Rightarrow> string \<Rightarrow> string \<Rightarrow> journal_entry list \<Rightarrow> payment list \<Rightarrow> decimal" where
  "applied_to t i co es rows = sum_list (map (allocated_to t i) (filter (payment_stands co es) rows))"

text \<open>The batch read: an id no standing payment names is not in the map.\<close>

definition applied_for_payables ::
  "payable_type \<Rightarrow> string list \<Rightarrow> string \<Rightarrow> journal_entry list \<Rightarrow> payment list \<Rightarrow> string \<Rightarrow> decimal option" where
  "applied_for_payables t ids co es rows i =
     (if i \<in> set ids \<and> list_ex (\<lambda>p. payment_stands co es p \<and> allocations_to t i p \<noteq> []) rows
      then Some (applied_to t i co es rows) else None)"

definition allocated_for_payments :: "string list \<Rightarrow> string \<Rightarrow> payment list \<Rightarrow> string \<Rightarrow> decimal option" where
  "allocated_for_payments ids co rows i =
     (let hits = concat (map pv_allocs (filter (\<lambda>p. pv_id p = i \<and> pv_company p = co) rows)) in
      if i \<in> set ids \<and> hits \<noteq> [] then Some (sum_list (map pa_amount hits)) else None)"

section \<open>Payable lookup\<close>

definition pay_by_code :: "string \<Rightarrow> string \<Rightarrow> string \<Rightarrow> account_row list \<Rightarrow> domain_error + string" where
  "pay_by_code co code role accs =
     (case List.find (\<lambda>a. ac_company a = co \<and> ac_code a = code) accs of
        None \<Rightarrow> Inl (CodedError ''PAYMENT_ACCOUNT_NOT_CONFIGURED'' role) | Some a \<Rightarrow> Inr (ac_id a))"

definition payment_accounts_of :: "string \<Rightarrow> account_row list \<Rightarrow> domain_error + payment_accounts" where
  "payment_accounts_of co accs =
     rbind (pay_by_code co ''5110'' ''labour cost'' accs) (\<lambda>labour.
     rbind (pay_by_code co ''6200'' ''bank charges'' accs) (\<lambda>charges.
     Inr \<lparr>pm_labour_cost = labour, pm_bank_charges = charges\<rparr>))"

record resolved_payable = resolved_allocation +
  rp_original :: money
  rp_outstanding :: money
  rp_posted :: bool

definition clamp_zero :: "money \<Rightarrow> money" where
  "clamp_zero m = (if m < 0 then 0 else m)"

definition outstanding_of :: "dec_lib \<Rightarrow> string \<Rightarrow> payable_type \<Rightarrow> string \<Rightarrow> money \<Rightarrow> 'a pay_db_scheme \<Rightarrow> money" where
  "outstanding_of D co t i original s = clamp_zero (money_minus D original (applied_total co t i (db_entries s) (py_rows s)))"

text \<open>The purpose of the labour cost line of the accrual entry, or else of any of its lines.\<close>

definition accrual_line_purpose :: "string \<Rightarrow> string \<Rightarrow> 'a pay_db_scheme \<Rightarrow> domain_error + string option" where
  "accrual_line_purpose co entry_id s =
     rbind (pay_by_code co ''5110'' ''labour cost'' (hr_accounts s)) (\<lambda>labour.
     let ls = concat (map je_lines (filter (\<lambda>e. je_id e = entry_id) (db_entries s)));
         own = (case List.find (\<lambda>l. jl_account l = labour) ls of None \<Rightarrow> None | Some l \<Rightarrow> jl_purpose l)
     in if truthy own then Inr own
        else Inr (case List.find (\<lambda>l. jl_purpose l \<noteq> None) ls of None \<Rightarrow> None | Some l \<Rightarrow> jl_purpose l))"

definition sheet_net :: "salary_sheet \<Rightarrow> money" where
  "sheet_net h = sum_list (map sl_net (sh_lines h))"

definition bill_find :: "string \<Rightarrow> string \<Rightarrow> bill_ref list \<Rightarrow> bill_ref option" where
  "bill_find i co tbl = List.find (\<lambda>b. bl_id b = i \<and> bl_company b = co) tbl"

definition labour_payable_find :: "string \<Rightarrow> string \<Rightarrow> labour_payable list \<Rightarrow> labour_payable option" where
  "labour_payable_find i co tbl = List.find (\<lambda>p. lp_id p = i \<and> lp_company p = co) tbl"

definition resolve_bill :: "dec_lib \<Rightarrow> string \<Rightarrow> string \<Rightarrow> 'a pay_db_scheme \<Rightarrow> domain_error + resolved_payable option" where
  "resolve_bill D i co s =
     (case bill_find i co (py_bills s) of
        None \<Rightarrow> Inr None
      | Some b \<Rightarrow>
          rbind (pay_by_code co ''2100'' ''accounts payable control'' (hr_accounts s)) (\<lambda>control.
          Inr (Some \<lparr>ra_control = control, ra_control_type = LIABILITY, ra_is_control = True, ra_party = Some (bl_supplier b),
            ra_project = None, ra_cost_centre = None, ra_purpose = None, ra_accrued = None, rp_original = bl_net b,
            rp_outstanding = outstanding_of D co PurchaseBill i (bl_net b) s, rp_posted = (bl_status b = ''POSTED'')\<rparr>)))"

definition resolve_labour :: "dec_lib \<Rightarrow> string \<Rightarrow> string \<Rightarrow> 'a pay_db_scheme \<Rightarrow> domain_error + resolved_payable option" where
  "resolve_labour D i co s =
     (case labour_payable_find i co (hr_payables s) of
        None \<Rightarrow> Inr None
      | Some p \<Rightarrow>
          rbind (pay_by_code co ''2310'' ''daily-labour payable'' (hr_accounts s)) (\<lambda>control.
          rbind (accrual_line_purpose co (lp_entry p) s) (\<lambda>purpose.
          Inr (Some \<lparr>ra_control = control, ra_control_type = LIABILITY, ra_is_control = False, ra_party = None,
            ra_project = Some (lp_project p), ra_cost_centre = Some (lp_cost_centre p), ra_purpose = purpose,
            ra_accrued = Some (lp_accrued p), rp_original = lp_accrued p,
            rp_outstanding = outstanding_of D co LabourPayable i (lp_accrued p) s, rp_posted = True\<rparr>))))"

definition resolve_salary :: "dec_lib \<Rightarrow> string \<Rightarrow> string \<Rightarrow> 'a pay_db_scheme \<Rightarrow> domain_error + resolved_payable option" where
  "resolve_salary D i co s =
     (case sheet_find i co (hr_sheets s) of
        None \<Rightarrow> Inr None
      | Some h \<Rightarrow>
          rbind (pay_by_code co ''2300'' ''salary payable'' (hr_accounts s)) (\<lambda>control.
          Inr (Some \<lparr>ra_control = control, ra_control_type = LIABILITY, ra_is_control = False, ra_party = None,
            ra_project = None, ra_cost_centre = None, ra_purpose = None, ra_accrued = None, rp_original = sheet_net h,
            rp_outstanding = outstanding_of D co Salary i (sheet_net h) s, rp_posted = (sh_status h = SheetPosted)\<rparr>)))"

definition resolve_payable ::
  "dec_lib \<Rightarrow> payable_type \<Rightarrow> string \<Rightarrow> string \<Rightarrow> 'a pay_db_scheme \<Rightarrow> domain_error + resolved_payable option" where
  "resolve_payable D t i co s =
     (case t of PurchaseBill \<Rightarrow> resolve_bill D i co s | LabourPayable \<Rightarrow> resolve_labour D i co s | Salary \<Rightarrow> resolve_salary D i co s)"

section \<open>Binding the allocations\<close>

definition settleable :: "dec_lib \<Rightarrow> string \<Rightarrow> payment_allocation \<Rightarrow> 'a pay_db_scheme \<Rightarrow> domain_error + resolved_payable" where
  "settleable D co a s =
     rbind (resolve_payable D (pa_type a) (pa_payable a) co s) (\<lambda>found.
     rbind (fetch (CodedError ''PAYABLE_NOT_SETTLEABLE'' (pa_payable a)) found) (\<lambda>r.
     rbind (require (rp_posted r) (CodedError ''PAYABLE_NOT_SETTLEABLE'' (pa_payable a))) (\<lambda>_.
     rbind (require (0 < rp_outstanding r) (CodedError ''PAYABLE_NOT_SETTLEABLE'' (pa_payable a))) (\<lambda>_.
     rbind (require (pa_amount a \<le> rp_outstanding r) (CodedError ''ALLOCATION_EXCEEDS_OUTSTANDING'' (pa_payable a))) (\<lambda>_.
     Inr r)))))"

fun bind_all :: "dec_lib \<Rightarrow> string \<Rightarrow> payment_allocation list \<Rightarrow> 'a pay_db_scheme \<Rightarrow> payment \<Rightarrow> domain_error + payment" where
  "bind_all D co [] s p = Inr p"
| "bind_all D co (a # rest) s p =
     rbind (settleable D co a s) (\<lambda>r.
     rbind (apply_resolved_payable (pa_line a) (resolved_allocation.truncate r) p) (bind_all D co rest s))"

definition resolve_and_bind :: "dec_lib \<Rightarrow> string \<Rightarrow> 'a pay_db_scheme \<Rightarrow> payment \<Rightarrow> domain_error + payment" where
  "resolve_and_bind D co s p = bind_all D co (pv_allocs p) s p"

section \<open>The repository\<close>

definition stored_allocation :: "dec_lib \<Rightarrow> payment_allocation \<Rightarrow> payment_allocation" where
  "stored_allocation D a = a\<lparr>pa_amount := to_dp D 4 (pa_amount a), pa_accrued := map_option (to_dp D 4) (pa_accrued a)\<rparr>"

definition stored_payment :: "dec_lib \<Rightarrow> payment \<Rightarrow> payment" where
  "stored_payment D p =
     p\<lparr>pv_charges := to_dp D 4 (pv_charges p), pv_amount := to_dp D 4 (pv_amount p),
       pv_allocs := map (stored_allocation D) (pv_allocs p)\<rparr>"

definition allocation_checks :: "payment_allocation \<Rightarrow> domain_error + unit" where
  "allocation_checks a =
     rbind (require (in_money_column (pa_amount a) \<and> (case pa_accrued a of None \<Rightarrow> True | Some x \<Rightarrow> in_money_column x))
       (DatabaseError ''numeric field overflow'')) (\<lambda>_.
     rbind (require (0 < pa_amount a) (DatabaseError ''chk_payment_allocation_amount_pos'')) (\<lambda>_.
     require (pa_type a = LabourPayable \<or> pa_accrued a = None) (DatabaseError ''chk_payment_allocation_accrued_labour_only'')))"

definition payment_checks :: "payment \<Rightarrow> domain_error + unit" where
  "payment_checks p =
     rbind (require (in_money_column (pv_charges p) \<and> in_money_column (pv_amount p)) (DatabaseError ''numeric field overflow'')) (\<lambda>_.
     rbind (require (0 \<le> pv_charges p) (DatabaseError ''chk_payment_voucher_bank_charges_nonneg'')) (\<lambda>_.
     rbind (require (0 \<le> pv_amount p) (DatabaseError ''chk_payment_voucher_amount_nonneg'')) (\<lambda>_.
     rbind (require (pv_mode p = PayCash \<or> pv_ref p \<noteq> None) (DatabaseError ''chk_payment_voucher_cheque_ref'')) (\<lambda>_.
     riter allocation_checks (pv_allocs p)))))"

definition payment_insert :: "dec_lib \<Rightarrow> payment \<Rightarrow> payment list \<Rightarrow> domain_error + payment list" where
  "payment_insert D p tbl =
     (let q = (stored_payment D p)\<lparr>pv_version := 1\<rparr> in
      rbind (payment_checks q) (\<lambda>_.
      rbind (require (\<not> list_ex (\<lambda>r. pv_id r = pv_id q) tbl) (DatabaseError ''payment_voucher_pkey'')) (\<lambda>_.
      Inr (tbl @ [q]))))"

text \<open>\<open>save\<close> keeps the company and the financial year of the row and replaces its allocations.\<close>

definition payment_hit :: "payment \<Rightarrow> nat \<Rightarrow> payment \<Rightarrow> bool" where
  "payment_hit p expected r \<longleftrightarrow> pv_id r = pv_id p \<and> pv_company r = pv_company p \<and> pv_version r = expected"

definition payment_saved :: "dec_lib \<Rightarrow> payment \<Rightarrow> nat \<Rightarrow> payment \<Rightarrow> payment" where
  "payment_saved D p expected r =
     (stored_payment D p)\<lparr>pv_id := pv_id r, pv_company := pv_company r, pv_fy := pv_fy r, pv_version := expected + 1\<rparr>"

definition payment_save :: "dec_lib \<Rightarrow> payment \<Rightarrow> nat \<Rightarrow> payment list \<Rightarrow> domain_error + payment list" where
  "payment_save D p expected tbl =
     (if \<not> list_ex (payment_hit p expected) tbl then Inl OptimisticLockConflictError
      else rbind (payment_checks (stored_payment D p)) (\<lambda>_.
           Inr (update_where (payment_hit p expected) (payment_saved D p expected) tbl)))"

definition payment_find :: "string \<Rightarrow> string \<Rightarrow> payment list \<Rightarrow> payment option" where
  "payment_find i co tbl = List.find (\<lambda>p. pv_id p = i \<and> pv_company p = co) tbl"

definition payment_delete :: "string \<Rightarrow> string \<Rightarrow> payment list \<Rightarrow> payment list" where
  "payment_delete i co tbl = filter (\<lambda>p. \<not> (pv_id p = i \<and> pv_company p = co)) tbl"

end
