(* ===== verification/Payment_Use_Cases.thy ===== *)
theory Payment_Use_Cases
  imports Payment_State
begin

text \<open>
  The services of the payment module (\<open>src/src/modules/payment/application/\<close>), each one transaction: a draft is
  created, edited, deleted or posted; a posted payment is cancelled by a reversal or reposted with corrections.
\<close>

definition create_payment ::
  "dec_lib \<Rightarrow> (nat \<Rightarrow> string) \<Rightarrow> new_payment \<Rightarrow> actor \<Rightarrow> 'a pay_db_scheme \<Rightarrow> domain_error + (string \<times> 'a pay_db_scheme)" where
  "create_payment D mk inp act = uow_run (\<lambda>s.
     case ids_next mk s of (i, s1) \<Rightarrow>
     rbind (payment_create_draft D i (act_company act) (act_fy act) inp) (\<lambda>p.
     rbind (resolve_and_bind D (act_company act) s1 p) (\<lambda>q.
     rbind (payment_insert D q (py_rows s1)) (\<lambda>tbl.
     Inr (i, audit_record ''CREATE'' ''PaymentVoucher'' i act (s1\<lparr>py_rows := tbl\<rparr>))))))"

definition update_payment ::
  "dec_lib \<Rightarrow> string \<Rightarrow> edit_payment \<Rightarrow> nat \<Rightarrow> actor \<Rightarrow> 'a pay_db_scheme \<Rightarrow> domain_error + (unit \<times> 'a pay_db_scheme)" where
  "update_payment D i x version act = uow_run (\<lambda>s.
     rbind (fetch (NotFoundError i) (payment_find i (act_company act) (py_rows s))) (\<lambda>p.
     rbind (require (pv_version p = version) OptimisticLockConflictError) (\<lambda>_.
     rbind (payment_update_draft D x p) (\<lambda>q.
     rbind (resolve_and_bind D (act_company act) s q) (\<lambda>q'.
     rbind (payment_save D q' version (py_rows s)) (\<lambda>tbl.
     Inr ((), audit_record ''UPDATE'' ''PaymentVoucher'' i act (s\<lparr>py_rows := tbl\<rparr>))))))))"

definition delete_payment ::
  "string \<Rightarrow> actor \<Rightarrow> 'a pay_db_scheme \<Rightarrow> domain_error + (unit \<times> 'a pay_db_scheme)" where
  "delete_payment i act = uow_run (\<lambda>s.
     rbind (fetch (NotFoundError i) (payment_find i (act_company act) (py_rows s))) (\<lambda>p.
     rbind (payment_assert_draft p) (\<lambda>_.
     Inr ((), audit_record ''DELETE'' ''PaymentVoucher'' i act (s\<lparr>py_rows := payment_delete i (act_company act) (py_rows s)\<rparr>)))))"

definition post_payment ::
  "dec_lib \<Rightarrow> (nat \<Rightarrow> string) \<Rightarrow> 'a pay_db_scheme ports \<Rightarrow> string \<Rightarrow> actor \<Rightarrow> int \<Rightarrow> 'a pay_db_scheme \<Rightarrow>
   domain_error + ((string \<times> string) \<times> 'a pay_db_scheme)" where
  "post_payment D mk P i act now = uow_run (\<lambda>s.
     rbind (fetch (NotFoundError i) (payment_find i (act_company act) (py_rows s))) (\<lambda>p.
     rbind (payment_assert_postable D p) (\<lambda>_.
     rbind (resolve_and_bind D (act_company act) s p) (\<lambda>q.
     rbind (payment_accounts_of (act_company act) (hr_accounts s)) (\<lambda>m.
     rbind (build_payment_command D m (act_user act) q) (\<lambda>cmd.
     rbind (post D mk P cmd now s) (\<lambda>(e, s1).
     rbind (payment_mark_posted (je_id e) (je_no e) (act_user act) now q) (\<lambda>r.
     rbind (payment_save D r (pv_version r) (py_rows s1)) (\<lambda>tbl.
     Inr ((je_id e, je_no e), audit_record ''POST'' ''PaymentVoucher'' i act (s1\<lparr>py_rows := tbl\<rparr>)))))))))))"

definition cancel_payment ::
  "dec_lib \<Rightarrow> (nat \<Rightarrow> string) \<Rightarrow> 'a pay_db_scheme ports \<Rightarrow> string \<Rightarrow> string \<Rightarrow> actor \<Rightarrow> int \<Rightarrow> 'a pay_db_scheme \<Rightarrow>
   domain_error + ((string \<times> string) \<times> 'a pay_db_scheme)" where
  "cancel_payment D mk P i reason act now = uow_run (\<lambda>s.
     rbind (fetch (NotFoundError i) (payment_find i (act_company act) (py_rows s))) (\<lambda>p.
     rbind (payment_assert_posted p) (\<lambda>_.
     rbind (require (truthy (pv_entry p)) (ValidationError i)) (\<lambda>_.
     rbind (reverse D mk P (the (pv_entry p)) (act_company act) reason (act_user act) now s) (\<lambda>(e, s1).
     rbind (payment_mark_cancelled p) (\<lambda>q.
     rbind (payment_save D q (pv_version q) (py_rows s1)) (\<lambda>tbl.
     Inr ((je_id e, je_no e), audit_record ''CANCEL'' ''PaymentVoucher'' i act (s1\<lparr>py_rows := tbl\<rparr>)))))))))"

text \<open>\<open>buildCorrected\<close>: the patch over the fields of the posted payment, as the input of a new draft.\<close>

definition corrected_payment :: "edit_payment \<Rightarrow> payment \<Rightarrow> new_payment" where
  "corrected_payment x p =
     \<lparr>np_party = patch_defined (xp_party x) (pv_party p), np_date = patch_nullish (xp_date x) (pv_date p),
      np_mode = patch_nullish (xp_mode x) (pv_mode p), np_account = patch_nullish (xp_account x) (pv_account p),
      np_ref = patch_defined (xp_ref x) (pv_ref p), np_charges = patch_defined (xp_charges x) (Some (Dec (pv_charges p))),
      np_charges_project = patch_defined (xp_charges_project x) (pv_charges_project p),
      np_charges_cost_centre = patch_defined (xp_charges_cost_centre x) (pv_charges_cost_centre p),
      np_charges_purpose = patch_defined (xp_charges_purpose x) (pv_charges_purpose p),
      np_amount = patch_nullish (xp_amount x) (Dec (pv_amount p)),
      np_narration = patch_defined (xp_narration x) (pv_narration p),
      np_allocs = patch_nullish (xp_allocs x)
        (map (\<lambda>a. \<lparr>nl_type = pa_type a, nl_payable = pa_payable a, nl_amount = Dec (pa_amount a)\<rparr>) (pv_allocs p))\<rparr>"

definition repost_payment ::
  "dec_lib \<Rightarrow> (nat \<Rightarrow> string) \<Rightarrow> 'a pay_db_scheme ports \<Rightarrow> string \<Rightarrow> edit_payment \<Rightarrow> string \<Rightarrow> actor \<Rightarrow> int \<Rightarrow>
   'a pay_db_scheme \<Rightarrow> domain_error + ((string \<times> string) \<times> 'a pay_db_scheme)" where
  "repost_payment D mk P i x reason act now = uow_run (\<lambda>s.
     rbind (fetch (NotFoundError i) (payment_find i (act_company act) (py_rows s))) (\<lambda>p.
     rbind (payment_assert_posted p) (\<lambda>_.
     rbind (require (truthy (pv_entry p)) (ValidationError i)) (\<lambda>_.
     rbind (payment_create_draft D i (act_company act) (act_fy act) (corrected_payment x p)) (\<lambda>c.
     rbind (payment_assert_postable D c) (\<lambda>_.
     rbind (resolve_and_bind D (act_company act) s c) (\<lambda>q.
     rbind (payment_accounts_of (act_company act) (hr_accounts s)) (\<lambda>m.
     rbind (build_payment_command D m (act_user act) q) (\<lambda>cmd.
     rbind (repost D mk P (the (pv_entry p)) (act_company act) reason (act_user act) cmd now s) (\<lambda>((rv, e), s1).
     rbind (payment_mark_posted (je_id e) (je_no e) (act_user act) now q) (\<lambda>r.
     rbind (payment_save D r (pv_version p) (py_rows s1)) (\<lambda>tbl.
     Inr ((je_no e, je_no rv), audit_record ''POST'' ''PaymentVoucher'' i act (s1\<lparr>py_rows := tbl\<rparr>))))))))))))))"

end
