(* ===== verification/Payment_Command.thy ===== *)
theory Payment_Command
  imports Payment_Use_Cases
begin

text \<open>
  The command of a payment: what binding leaves alone, the lines of an allocation, and the totals of the whole.
\<close>

section \<open>Binding\<close>

definition payable_key :: "payment_allocation \<Rightarrow> payable_type \<times> string" where
  "payable_key a = (pa_type a, pa_payable a)"

definition settled_part :: "payment_allocation \<Rightarrow> (payable_type \<times> string) \<times> money" where
  "settled_part a = (payable_key a, pa_amount a)"

lemma bind_allocation_part [simp]: "settled_part (bind_allocation r a) = settled_part a"
  by (simp add: settled_part_def payable_key_def bind_allocation_def)

lemma bind_line_parts: "bind_line n r as = Inr bs \<Longrightarrow> map settled_part bs = map settled_part as"
  by (induction as arbitrary: bs) (auto elim!: rbindE split: if_splits)

text \<open>The fields of a payment that binding its allocations does not touch.\<close>

definition same_head :: "payment \<Rightarrow> payment \<Rightarrow> bool" where
  "same_head p q \<longleftrightarrow> q = p\<lparr>pv_allocs := pv_allocs q\<rparr> \<and> map settled_part (pv_allocs q) = map settled_part (pv_allocs p)"

lemma same_head_refl [simp]: "same_head p p"
  by (simp add: same_head_def)

lemma same_head_trans: "same_head p q \<Longrightarrow> same_head q r \<Longrightarrow> same_head p r"
  unfolding same_head_def by (cases p, cases q, cases r) simp

lemma same_headD:
  assumes "same_head p q"
  shows "pv_id q = pv_id p" "pv_company q = pv_company p" "pv_status q = pv_status p" "pv_version q = pv_version p"
    "pv_amount q = pv_amount p" "pv_charges q = pv_charges p" "pv_entry q = pv_entry p"
    "map settled_part (pv_allocs q) = map settled_part (pv_allocs p)"
proof -
  from assms have q: "q = p\<lparr>pv_allocs := pv_allocs q\<rparr>" by (simp add: same_head_def)
  show "pv_id q = pv_id p" "pv_company q = pv_company p" "pv_status q = pv_status p" "pv_version q = pv_version p"
    "pv_amount q = pv_amount p" "pv_charges q = pv_charges p" "pv_entry q = pv_entry p"
    by (subst q, simp)+
qed (use assms in \<open>simp add: same_head_def\<close>)

lemma apply_resolved_head: "apply_resolved_payable n r p = Inr q \<Longrightarrow> same_head p q"
  by (auto simp: apply_resolved_payable_def same_head_def bind_line_parts elim!: rbindE)

lemma bind_all_InrD:
  assumes "bind_all D co as s p = Inr q"
  shows "same_head p q" and "\<forall>a \<in> set as. \<exists>r. settleable D co a s = Inr r"
proof -
  have "same_head p q \<and> (\<forall>a \<in> set as. \<exists>r. settleable D co a s = Inr r)"
    using assms
  proof (induction as arbitrary: p)
    case (Cons a as)
    from Cons.prems obtain r p' where r: "settleable D co a s = Inr r"
      and p': "apply_resolved_payable (pa_line a) (resolved_allocation.truncate r) p = Inr p'" and q: "bind_all D co as s p' = Inr q"
      by (auto elim!: rbindE)
    from Cons.IH [OF q] same_head_trans [OF apply_resolved_head [OF p']] r show ?case by auto
  qed simp
  then show "same_head p q" "\<forall>a \<in> set as. \<exists>r. settleable D co a s = Inr r" by auto
qed

lemma parts_sum:
  assumes "map settled_part as = map settled_part bs"
  shows "sum_list (map pa_amount (filter (\<lambda>a. pa_type a = t \<and> pa_payable a = i) as)) =
    sum_list (map pa_amount (filter (\<lambda>a. pa_type a = t \<and> pa_payable a = i) bs))"
  using assms
proof (induction as arbitrary: bs)
  case (Cons a as)
  then obtain b bs' where b: "bs = b # bs'" "settled_part a = settled_part b" "map settled_part as = map settled_part bs'"
    by (cases bs) auto
  then have "pa_type a = pa_type b" "pa_payable a = pa_payable b" "pa_amount a = pa_amount b"
    by (simp_all add: settled_part_def payable_key_def)
  with Cons.IH [OF b(3)] b(1) show ?case by simp
qed simp

lemma parts_amounts: "map settled_part as = map settled_part bs \<Longrightarrow> map pa_amount as = map pa_amount bs"
  by (drule arg_cong [where f = "map snd"]) (simp add: settled_part_def comp_def)

lemma parts_keys: "map settled_part as = map settled_part bs \<Longrightarrow> map payable_key as = map payable_key bs"
  by (drule arg_cong [where f = "map fst"]) (simp add: settled_part_def comp_def)

section \<open>The lines of the command\<close>

definition allocation_grid :: "payment_allocation \<Rightarrow> bool" where
  "allocation_grid a \<longleftrightarrow> nonneg_grid (pa_amount a) \<and> pa_amount a < 10 ^ 16 \<and>
     (case pa_accrued a of None \<Rightarrow> True | Some x \<Rightarrow> nonneg_grid x \<and> x < 10 ^ 16)"

text \<open>A payment writes a profit-and-loss line for bank charges and for the difference of daily labour only.\<close>

definition expense_line_ok :: "payment_accounts \<Rightarrow> posting_line \<Rightarrow> bool" where
  "expense_line_ok m l \<longleftrightarrow> (pl_account_type l = Some EXPENSE \<longrightarrow> pl_account l \<in> {pm_labour_cost m, pm_bank_charges m})"

text \<open>What the totals need: amounts of four decimals, and a sum the arithmetic of the library keeps exact.\<close>

definition payment_in_range :: "payment \<Rightarrow> bool" where
  "payment_in_range p \<longleftrightarrow> (\<forall>a \<in> set (pv_allocs p). allocation_grid a) \<and> nonneg_grid (pv_charges p) \<and>
     sum_list (map pa_amount (pv_allocs p)) + pv_charges p < 10 ^ 16"

context decimal_js begin

lemma money_minus_grid:
  assumes "nonneg_grid x" "x < 10 ^ 16" "nonneg_grid y" "y \<le> x" shows "money_minus D x y = x - y"
proof -
  have "exact_range (x - y)" using assms by (auto simp: exact_range_def nonneg_grid_def)
  from minus_exact [OF this] show ?thesis by (simp add: money_minus_def)
qed

lemma allocation_lines_net:
  assumes "allocation_lines D m a = Inr ls" and "allocation_grid a"
  shows "total_dr ls - total_cr ls = pa_amount a" and "\<forall>l \<in> set ls. pl_grid l" and "\<forall>l \<in> set ls. expense_line_ok m l"
proof -
  from assms(1) obtain control ty ctl where c: "control_account_for a = Inr (control, ty, ctl)" and ty: "ty \<noteq> EXPENSE"
    by (auto simp: allocation_lines_def elim!: rbindE)
  have "total_dr ls - total_cr ls = pa_amount a \<and> (\<forall>l \<in> set ls. pl_grid l) \<and> (\<forall>l \<in> set ls. expense_line_ok m l)"
  proof (cases "if pa_type a = LabourPayable then pa_accrued a else None")
    case None
    with assms c ty have "ls = [dim_line control None None None (if ctl then pa_party a else None) (pa_amount a) 0 ty ctl]"
      by (auto simp: allocation_lines_def)
    with assms(2) ty show ?thesis by (simp add: pl_grid_def allocation_grid_def nonneg_grid_def expense_line_ok_def)
  next
    case (Some x)
    then have x: "pa_accrued a = Some x" by (auto split: if_splits)
    with assms(2) have g: "nonneg_grid x" "x < 10 ^ 16" "nonneg_grid (pa_amount a)" "pa_amount a < 10 ^ 16"
      by (auto simp: allocation_grid_def)
    consider "pa_amount a = x" | "pa_amount a < x" | "x < pa_amount a" by linarith
    then show ?thesis
    proof cases
      case 1
      with assms Some c ty have "ls = [dim_line control None None None (if ctl then pa_party a else None) (pa_amount a) 0 ty ctl]"
        by (auto simp: allocation_lines_def)
      with g ty show ?thesis by (simp add: pl_grid_def nonneg_grid_def expense_line_ok_def)
    next
      case 2
      with assms Some c ty have "ls = [dim_line control None None None (if ctl then pa_party a else None) x 0 ty ctl,
          dim_line (pm_labour_cost m) (pa_project a) (pa_cost_centre a) (pa_purpose a) None 0 (money_minus D x (pa_amount a)) EXPENSE False]"
        by (auto simp: allocation_lines_def)
      with money_minus_grid [OF g(1,2,3)] 2 g ty show ?thesis by (auto simp: pl_grid_def nonneg_grid_def expense_line_ok_def)
    next
      case 3
      with assms Some c ty have "ls = [dim_line control None None None (if ctl then pa_party a else None) x 0 ty ctl,
          dim_line (pm_labour_cost m) (pa_project a) (pa_cost_centre a) (pa_purpose a) None (money_minus D (pa_amount a) x) 0 EXPENSE False]"
        by (auto simp: allocation_lines_def)
      with money_minus_grid [OF g(3,4,1)] 3 g ty show ?thesis by (auto simp: pl_grid_def nonneg_grid_def expense_line_ok_def)
    qed
  qed
  then show "total_dr ls - total_cr ls = pa_amount a" "\<forall>l \<in> set ls. pl_grid l" "\<forall>l \<in> set ls. expense_line_ok m l" by auto
qed

lemma settled_lines_net:
  assumes "rmap (allocation_lines D m) as = Inr lss" and "\<forall>a \<in> set as. allocation_grid a"
  shows "total_dr (concat lss) - total_cr (concat lss) = sum_list (map pa_amount as)"
    and "\<forall>l \<in> set (concat lss). pl_grid l" and "\<forall>l \<in> set (concat lss). expense_line_ok m l"
proof -
  have "total_dr (concat lss) - total_cr (concat lss) = sum_list (map pa_amount as) \<and>
    (\<forall>l \<in> set (concat lss). pl_grid l) \<and> (\<forall>l \<in> set (concat lss). expense_line_ok m l)"
    using assms
  proof (induction as arbitrary: lss)
    case (Cons a as)
    then obtain ls rest where lss: "lss = ls # rest" "allocation_lines D m a = Inr ls" "rmap (allocation_lines D m) as = Inr rest"
      by (auto elim!: rbindE)
    with Cons.IH [OF lss(3)] Cons.prems(2) allocation_lines_net [OF lss(2)] show ?case by auto
  qed simp
  then show "total_dr (concat lss) - total_cr (concat lss) = sum_list (map pa_amount as)"
    "\<forall>l \<in> set (concat lss). pl_grid l" "\<forall>l \<in> set (concat lss). expense_line_ok m l" by auto
qed

lemma cash_out_exact:
  assumes "payment_in_range p" shows "cash_out D p = sum_list (map pa_amount (pv_allocs p)) + pv_charges p"
proof -
  have g: "\<forall>x \<in> set (map pa_amount (pv_allocs p)). nonneg_grid x"
    using assms by (auto simp: payment_in_range_def allocation_grid_def)
  then have s: "nonneg_grid (sum_list (map pa_amount (pv_allocs p)))"
    unfolding nonneg_grid_def by (intro conjI sum_list_nonneg on_grid_sum_list) auto
  from assms have "sum_list (map pa_amount (pv_allocs p)) < 10 ^ 16" by (auto simp: payment_in_range_def nonneg_grid_def)
  note paid = money_sum_exact [OF g this]
  have "exact_range (sum_list (map pa_amount (pv_allocs p)) + pv_charges p)"
    using s assms by (auto simp: exact_range_def payment_in_range_def nonneg_grid_def)
  from plus_exact [OF this] paid assms show ?thesis
    by (auto simp: cash_out_def Let_def money_plus_def payment_in_range_def nonneg_grid_def)
qed

lemma payment_lines_facts:
  assumes "build_payment_command D m who p = Inr cmd" and "payment_in_range p"
  shows "total_dr (pc_lines cmd) = total_cr (pc_lines cmd)" and "\<forall>l \<in> set (pc_lines cmd). pl_grid l"
    and "\<forall>l \<in> set (pc_lines cmd). expense_line_ok m l"
    and "last (pc_lines cmd) = dim_line (pv_account p) None None None None 0 (sum_list (map pa_amount (pv_allocs p)) + pv_charges p) ASSET False"
proof -
  from assms(1) obtain lss where l: "rmap (allocation_lines D m) (pv_allocs p) = Inr lss"
    and cmd: "pc_lines cmd = concat lss @ charge_lines m p @ [dim_line (pv_account p) None None None None 0 (cash_out D p) ASSET False]"
    by (auto simp: build_payment_command_def elim!: rbindE)
  from assms(2) have a: "\<forall>a \<in> set (pv_allocs p). allocation_grid a" by (simp add: payment_in_range_def)
  note f = settled_lines_net [OF l a]
  have c: "total_dr (charge_lines m p) = pv_charges p" "total_cr (charge_lines m p) = 0"
    "\<forall>l \<in> set (charge_lines m p). pl_grid l \<and> expense_line_ok m l" "on_grid 4 (cash_out D p)"
    using assms(2) unfolding cash_out_exact [OF assms(2)]
    by (auto simp: charge_lines_def payment_in_range_def nonneg_grid_def pl_grid_def expense_line_ok_def allocation_grid_def
        intro!: on_grid_add on_grid_sum_list)
  from f(1) c show "total_dr (pc_lines cmd) = total_cr (pc_lines cmd)" by (simp add: cmd cash_out_exact [OF assms(2)])
  from f(2) c show "\<forall>l \<in> set (pc_lines cmd). pl_grid l" by (auto simp: cmd pl_grid_def)
  from f(3) c show "\<forall>l \<in> set (pc_lines cmd). expense_line_ok m l" by (auto simp: cmd expense_line_ok_def)
qed (use assms in \<open>auto simp: build_payment_command_def cash_out_exact elim!: rbindE\<close>)

end

end
