(* ===== verification/Payment_Soundness.thy ===== *)
theory Payment_Soundness
  imports Payment_Command Hr_Sheets
begin

text \<open>
  The steps of the program as the payment module sees them, the invariant of its tables (every posted payment has its
  entry), and what a step may do to the amount settled of a payable.
\<close>

section \<open>Steps\<close>

definition pay_kept :: "'a pay_db_scheme \<Rightarrow> 'a pay_db_scheme \<Rightarrow> bool" where
  "pay_kept s s' \<longleftrightarrow> py_rows s' = py_rows s \<and> py_bills s' = py_bills s"

text \<open>
  The purchase module may add, change, cancel and repost bills, whatever payments have been applied to them; its table
  keeps their ids apart and their amounts in its columns.
\<close>

definition bill_rows_ok :: "bill_ref list \<Rightarrow> bool" where
  "bill_rows_ok bills \<longleftrightarrow> distinct (map bl_id bills) \<and> (\<forall>b \<in> set bills. on_grid 4 (bl_net b) \<and> in_money_column (bl_net b))"

definition bills_change :: "'a pay_db_scheme \<Rightarrow> 'a pay_db_scheme \<Rightarrow> bool" where
  "bills_change s s' \<longleftrightarrow> hr_quiet s s' \<and> py_rows s' = py_rows s \<and> bill_rows_ok (py_bills s')"

inductive pay_step :: "dec_lib \<Rightarrow> (nat \<Rightarrow> string) \<Rightarrow> 'a pay_db_scheme \<Rightarrow> 'a pay_db_scheme \<Rightarrow> bool" for D mk where
  y_create: "create_payment D mk inp act s = Inr (x, s') \<Longrightarrow> pay_step D mk s s'"
| y_update: "update_payment D i patch v act s = Inr (u, s') \<Longrightarrow> pay_step D mk s s'"
| y_delete: "delete_payment i act s = Inr (u, s') \<Longrightarrow> pay_step D mk s s'"
| y_post: "post_payment D mk (erp_ports mk) i act now s = Inr (x, s') \<Longrightarrow> pay_step D mk s s'"
| y_cancel: "cancel_payment D mk (erp_ports mk) i reason act now s = Inr (x, s') \<Longrightarrow> pay_step D mk s s'"
| y_repost: "repost_payment D mk (erp_ports mk) i patch reason act now s = Inr (x, s') \<Longrightarrow> pay_step D mk s s'"
| y_bills: "bills_change s s' \<Longrightarrow> pay_step D mk s s'"
| y_hr: "hr_step D mk s s' \<Longrightarrow> pay_kept s s' \<Longrightarrow> pay_step D mk s s'"

section \<open>The invariant\<close>

definition stored_alloc_ok :: "payment_allocation \<Rightarrow> bool" where
  "stored_alloc_ok a \<longleftrightarrow> 0 < pa_amount a \<and> on_grid 4 (pa_amount a) \<and>
     (case pa_accrued a of None \<Rightarrow> True | Some x \<Rightarrow> on_grid 4 x)"

definition stored_payment_ok :: "payment \<Rightarrow> bool" where
  "stored_payment_ok p \<longleftrightarrow> on_grid 4 (pv_charges p) \<and> on_grid 4 (pv_amount p) \<and> (\<forall>a \<in> set (pv_allocs p). stored_alloc_ok a)"

definition payment_backed :: "dec_lib \<Rightarrow> journal_entry list \<Rightarrow> payment \<Rightarrow> bool" where
  "payment_backed D es p \<longleftrightarrow> (\<exists>e \<in> set es. \<exists>m who cmd. pv_entry p = Some (je_id e) \<and>
     je_source_type e = ''PaymentVoucher'' \<and> je_source_id e = pv_id p \<and> je_company e = pv_company p \<and> \<not> je_is_reversal e \<and>
     build_payment_command D m who p = Inr cmd \<and> je_lines e = map (stored_line D) (lines_of (pc_lines cmd)))"

definition pay_row_sound :: "dec_lib \<Rightarrow> journal_entry list \<Rightarrow> payment \<Rightarrow> bool" where
  "pay_row_sound D es p \<longleftrightarrow> stored_payment_ok p \<and> (pv_status p = PayPosted \<longrightarrow> payment_backed D es p)"

definition pay_sound :: "dec_lib \<Rightarrow> journal_entry list \<Rightarrow> payment list \<Rightarrow> bool" where
  "pay_sound D es rows \<longleftrightarrow> distinct (map pv_id rows) \<and> (\<forall>p \<in> set rows. pay_row_sound D es p)"

text \<open>The original amount of a payable that can be settled: a posted bill, a labour payable, a posted salary sheet.\<close>

definition payable_original :: "string \<Rightarrow> payable_type \<Rightarrow> string \<Rightarrow> 'a pay_db_scheme \<Rightarrow> money option" where
  "payable_original co t i s =
     (case t of
        PurchaseBill \<Rightarrow> (case bill_find i co (py_bills s) of None \<Rightarrow> None
                   | Some b \<Rightarrow> if bl_status b = ''POSTED'' then Some (bl_net b) else None)
      | LabourPayable \<Rightarrow> map_option lp_accrued (labour_payable_find i co (hr_payables s))
      | Salary \<Rightarrow> (case sheet_find i co (hr_sheets s) of None \<Rightarrow> None
                   | Some h \<Rightarrow> if sh_status h = SheetPosted then Some (sheet_net h) else None))"

abbreviation settled_so_far :: "string \<Rightarrow> payable_type \<Rightarrow> string \<Rightarrow> 'a pay_db_scheme \<Rightarrow> money" where
  "settled_so_far co t i s \<equiv> applied_total co t i (db_entries s) (py_rows s)"

definition pay_inv :: "dec_lib \<Rightarrow> (nat \<Rightarrow> string) \<Rightarrow> 'a pay_db_scheme \<Rightarrow> bool" where
  "pay_inv D mk s \<longleftrightarrow> hr_inv D mk s \<and> pay_sound D (db_entries s) (py_rows s) \<and> bill_rows_ok (py_bills s)"

text \<open>
  A step that raises the amount settled of a payable writes one posted payment that names it; naming it \<open>n\<close> times it
  settles at most \<open>n\<close> times what was outstanding.  Amounts from \<open>10 ^ 16\<close> on leave the precision of the decimal
  library; a salary sheet of a hundred lines could.
\<close>

definition pays_within :: "'a pay_db_scheme \<Rightarrow> 'a pay_db_scheme \<Rightarrow> bool" where
  "pays_within s s' \<longleftrightarrow> (\<forall>co t i. settled_so_far co t i s < settled_so_far co t i s' \<longrightarrow>
     (\<exists>p \<in> set (py_rows s') - set (py_rows s). \<exists>x. pv_status p = PayPosted \<and> pv_company p = co \<and>
        allocations_to t i p \<noteq> [] \<and> payable_original co t i s' = Some x \<and>
        (x < 10 ^ 16 \<longrightarrow> settled_so_far co t i s' \<le>
           settled_so_far co t i s + of_nat (length (allocations_to t i p)) * (x - settled_so_far co t i s))))"

definition pay_safe :: "dec_lib \<Rightarrow> (nat \<Rightarrow> string) \<Rightarrow> 'a pay_db_scheme \<Rightarrow> 'a pay_db_scheme \<Rightarrow> bool" where
  "pay_safe D mk s s' \<longleftrightarrow> pay_inv D mk s' \<and> pays_within s s'"

lemma pays_within_less: "(\<And>co t i. settled_so_far co t i s' \<le> settled_so_far co t i s) \<Longrightarrow> pays_within s s'"
  unfolding pays_within_def by (meson not_le)

lemma pay_more:
  fixes s s' :: "'a pay_db_scheme"
  assumes "db.more s' = db.more s" shows "py_rows s' = py_rows s" "py_bills s' = py_bills s" "hr_accounts s' = hr_accounts s"
  using assms by (cases s, cases s', simp)+

lemma pay_audit [simp]:
  "py_rows (audit_record a b c d s) = py_rows s" "py_bills (audit_record a b c d s) = py_bills s"
  by (simp_all add: audit_record_def)

section \<open>Applied totals\<close>

lemma allocated_nonneg: "stored_payment_ok p \<Longrightarrow> 0 \<le> allocated_to t i p"
  unfolding allocated_to_def allocations_to_def stored_payment_ok_def stored_alloc_ok_def by (intro sum_list_nonneg) auto

lemma allocated_grid: "stored_payment_ok p \<Longrightarrow> on_grid 4 (allocated_to t i p)"
  unfolding allocated_to_def allocations_to_def stored_payment_ok_def stored_alloc_ok_def by (intro on_grid_sum_list) auto

interpretation pay: settlement_rows pv_id payment_live pv_entry allocated_share "pay_row_sound D" for D
  by unfold_locales
    (auto simp: pay_row_sound_def allocated_share_def payment_live_def payment_backed_def intro: allocated_nonneg allocated_grid)

lemma pay_soundD:
  assumes "pay_sound D es rows"
  shows "distinct (map pv_id rows)" and "\<And>p. p \<in> set rows \<Longrightarrow> stored_payment_ok p"
    and "\<And>p. p \<in> set rows \<Longrightarrow> pv_status p = PayPosted \<Longrightarrow> payment_backed D es p"
    and "\<forall>p \<in> set rows. pay_row_sound D es p"
  using assms by (auto simp: pay_sound_def pay_row_sound_def)

lemma applied_nonneg: "pay_sound D es rows \<Longrightarrow> 0 \<le> applied_total co t i es rows"
  unfolding applied_total_def by (rule pay.settled_nonneg [OF pay_soundD(4)])

lemma applied_grid: "pay_sound D es rows \<Longrightarrow> on_grid 4 (applied_total co t i es rows)"
  unfolding applied_total_def by (rule pay.settled_grid [OF pay_soundD(4)])

lemma applied_later: "pay_sound D es rows \<Longrightarrow> applied_total co t i (es @ new) rows \<le> applied_total co t i es rows"
  unfolding applied_total_def by (rule pay.settled_later [OF pay_soundD(4)])

lemma applied_replaced:
  assumes "pay_sound D es rows" and "p \<in> set rows"
  shows "applied_total co t i (es @ new) (update_where (\<lambda>r. r = p) f rows) \<le> applied_total co t i es rows +
     (if standing payment_live pv_entry (co, t, i) (es @ new) (f p) then allocated_to t i (f p) else 0)"
  using pay.settled_replaced [OF pay_soundD(4) [OF assms(1)] pay_soundD(1) [OF assms(1)] assms(2), of "(co, t, i)" new f]
  by (auto simp: applied_total_def allocated_share_def split: if_splits)

lemma backed_grows: "payment_backed D es p \<Longrightarrow> set es \<subseteq> set es' \<Longrightarrow> payment_backed D es' p"
  unfolding payment_backed_def by blast

lemma pay_sound_grows: "pay_sound D es rows \<Longrightarrow> set es \<subseteq> set es' \<Longrightarrow> pay_sound D es' rows"
  by (auto simp: pay_sound_def pay_row_sound_def intro: backed_grows)

section \<open>Payables\<close>

lemma bill_find_Some:
  "bill_find i co tbl = Some b \<Longrightarrow> b \<in> set tbl \<and> bl_id b = i \<and> bl_company b = co"
  by (auto simp: bill_find_def dest: find_SomeD)

lemma labour_payable_find_Some:
  "labour_payable_find i co tbl = Some p \<Longrightarrow> p \<in> set tbl \<and> lp_id p = i \<and> lp_company p = co"
  by (auto simp: labour_payable_find_def dest: find_SomeD)

lemma payable_original_grid:
  assumes "pay_inv D mk s" and "payable_original co t i s = Some x" shows "on_grid 4 x"
proof (cases t)
  case PurchaseBill
  with assms show ?thesis
    by (auto simp: payable_original_def pay_inv_def bill_rows_ok_def dest!: bill_find_Some split: option.splits if_splits)
next
  case LabourPayable
  with assms obtain p where "p \<in> set (hr_payables s)" "x = lp_accrued p"
    by (auto simp: payable_original_def dest!: labour_payable_find_Some)
  with assms(1) show ?thesis by (auto simp: pay_inv_def hr_inv_def hr_sound_def payable_ok_def)
next
  case Salary
  with assms obtain h where "h \<in> set (hr_sheets s)" "x = sheet_net h"
    by (auto simp: payable_original_def dest!: sheet_find_Some split: option.splits if_splits)
  with assms(1) show ?thesis
    by (auto simp: sheet_net_def pay_inv_def hr_inv_def hr_sound_def sheet_ok_def line_grid_def line_amounts_def intro!: on_grid_sum_list)
qed

end
