(* ===== verification/Payment_Steps.thy ===== *)
theory Payment_Steps
  imports Payment_Soundness
begin

text \<open>
  The parts of a step: drafts, the row a step writes, and the check against the outstanding amount.
\<close>

lemma pay_invD:
  assumes "pay_inv D mk s"
  shows "hr_inv D mk s" "erp_inv mk s" "pay_sound D (db_entries s) (py_rows s)" "bill_rows_ok (py_bills s)"
  using assms by (auto simp: pay_inv_def hr_inv_def)

lemma payment_find_Some: "payment_find i co tbl = Some p \<Longrightarrow> p \<in> set tbl \<and> pv_id p = i \<and> pv_company p = co"
  by (auto simp: payment_find_def dest: find_SomeD)

lemma rmap_member: "rmap f xs = Inr ys \<Longrightarrow> y \<in> set ys \<Longrightarrow> \<exists>x \<in> set xs. f x = Inr y"
  by (induction xs arbitrary: ys) (auto elim!: rbindE)

section \<open>Drafts have four decimals\<close>

context decimal_js begin

lemma money_non_neg_grid: "money_non_neg D v f = Inr x \<Longrightarrow> on_grid 4 x"
  by (auto simp: money_non_neg_def elim!: rbindE split: if_splits)

lemma build_allocation_ok: "build_allocation D i a = Inr b \<Longrightarrow> stored_alloc_ok b"
  by (auto simp: build_allocation_def stored_alloc_ok_def Let_def elim!: rbindE)

lemma build_allocations_ok: "build_allocations D as = Inr bs \<Longrightarrow> \<forall>b \<in> set bs. stored_alloc_ok b"
  by (auto simp: build_allocations_def dest!: rmap_member build_allocation_ok)

lemma create_draft_ok:
  assumes "payment_create_draft D i co fy inp = Inr p"
  shows "stored_payment_ok p" "pv_status p = PayDraft" "pv_id p = i" "pv_company p = co"
  using assms money_non_neg_grid build_allocations_ok
  by (auto simp: payment_create_draft_def stored_payment_ok_def Let_def elim!: rbindE)

lemma update_draft_ok:
  assumes "payment_update_draft D x p = Inr q" and "stored_payment_ok p"
  shows "stored_payment_ok q" "pv_status q = PayDraft" "pv_id q = pv_id p" "pv_company q = pv_company p" "pv_status p = PayDraft"
  using assms money_non_neg_grid build_allocations_ok
  by (auto simp: payment_update_draft_def payment_assert_draft_def stored_payment_ok_def patched_def Let_def elim!: rbindE split: patch.splits)

text \<open>Binding keeps the decimals: the accrued amount comes from a stored payable.\<close>

lemma settleable_accrued:
  assumes "settleable D co a s = Inr r" and "hr_inv D mk s" shows "case ra_accrued r of None \<Rightarrow> True | Some x \<Rightarrow> on_grid 4 x"
proof -
  from assms(1) have "resolve_payable D (pa_type a) (pa_payable a) co s = Inr (Some r)"
    by (auto simp: settleable_def elim!: rbindE)
  then have "ra_accrued r = None \<or> (\<exists>p \<in> set (hr_payables s). ra_accrued r = Some (lp_accrued p))"
    by (auto simp: resolve_payable_def resolve_bill_def resolve_labour_def resolve_salary_def
        elim!: rbindE dest!: labour_payable_find_Some split: payable_type.splits option.splits)
  with assms(2) show ?thesis by (auto simp: hr_inv_def hr_sound_def payable_ok_def)
qed

lemma bind_line_ok:
  assumes "bind_line n r as = Inr bs" and "\<forall>a \<in> set as. stored_alloc_ok a"
    and "case ra_accrued r of None \<Rightarrow> True | Some x \<Rightarrow> on_grid 4 x"
  shows "\<forall>b \<in> set bs. stored_alloc_ok b"
  using assms(1,2)
proof (induction as arbitrary: bs)
  case (Cons a as)
  show ?case
  proof (cases "pa_line a = n")
    case True
    with Cons.prems assms(3) show ?thesis by (auto simp: stored_alloc_ok_def bind_allocation_def)
  next
    case False
    with Cons.prems(1) obtain cs where "bind_line n r as = Inr cs" "bs = a # cs" by (auto elim!: rbindE)
    with Cons show ?thesis by auto
  qed
qed simp

lemma truncate_accrued [simp]: "ra_accrued (resolved_allocation.truncate r) = ra_accrued r"
  by (simp add: resolved_allocation.defs)

lemma bind_all_ok:
  assumes "bind_all D co as s p = Inr q" and "hr_inv D mk s" and "stored_payment_ok p" shows "stored_payment_ok q"
  using assms(1,3)
proof (induction as arbitrary: p)
  case (Cons a as)
  from Cons.prems(1) obtain r p' where r: "settleable D co a s = Inr r"
    and p': "apply_resolved_payable (pa_line a) (resolved_allocation.truncate r) p = Inr p'" and q: "bind_all D co as s p' = Inr q"
    by (auto elim!: rbindE)
  from p' obtain bs where b: "bind_line (pa_line a) (resolved_allocation.truncate r) (pv_allocs p) = Inr bs" "p' = p\<lparr>pv_allocs := bs\<rparr>"
    by (auto simp: apply_resolved_payable_def elim!: rbindE)
  from bind_line_ok [OF b(1)] Cons.prems(2) settleable_accrued [OF r assms(2)] b(2) have "stored_payment_ok p'"
    by (auto simp: stored_payment_ok_def)
  with Cons.IH [OF q] show ?case by blast
qed simp

lemma stored_payment_id: "stored_payment_ok p \<Longrightarrow> stored_payment D p = p"
proof -
  assume ok: "stored_payment_ok p"
  have "stored_allocation D a = a" if "stored_alloc_ok a" for a
    using that by (cases a) (auto simp: stored_alloc_ok_def stored_allocation_def to_dp_id split: option.splits intro!: option.map_ident_strong)
  then have "map (stored_allocation D) (pv_allocs p) = pv_allocs p"
    using ok by (auto simp: stored_payment_ok_def intro: map_idI)
  with ok show ?thesis by (cases p) (simp add: stored_payment_def stored_payment_ok_def to_dp_id)
qed

end

section \<open>The row of a payment\<close>

lemma payment_save_effect:
  assumes "payment_save D q v tbl = Inr tbl'" and "distinct (map pv_id tbl)" and "p \<in> set tbl" and "pv_id q = pv_id p"
  shows "tbl' = update_where (\<lambda>r. r = p) (payment_saved D q v) tbl"
proof -
  from assms(1) have h: "list_ex (payment_hit q v) tbl" and t: "tbl' = update_where (payment_hit q v) (payment_saved D q v) tbl"
    by (auto simp: payment_save_def elim!: rbindE split: if_splits)
  show ?thesis
    unfolding t by (rule hit_unique(3) [OF assms(2,3) _ h]) (simp add: payment_hit_def assms(4))
qed

lemma build_command_same:
  assumes "build_payment_command D m who p = Inr cmd" and "pv_allocs q = pv_allocs p" and "pv_charges q = pv_charges p"
    and "pv_charges_project q = pv_charges_project p" "pv_charges_cost_centre q = pv_charges_cost_centre p"
    "pv_charges_purpose q = pv_charges_purpose p" "pv_account q = pv_account p"
  shows "\<exists>c. build_payment_command D m who q = Inr c \<and> pc_lines c = pc_lines cmd"
  using assms by (auto simp: build_payment_command_def charge_lines_def cash_out_def elim!: rbindE)

text \<open>One row changed, entries appended, the tables of the other modules as they were.\<close>

definition rest_kept :: "'a pay_db_scheme \<Rightarrow> 'a pay_db_scheme \<Rightarrow> bool" where
  "rest_kept s s' \<longleftrightarrow> hr_kept s s' \<and> py_bills s' = py_bills s"

lemma original_kept: "rest_kept s s' \<Longrightarrow> payable_original co t i s' = payable_original co t i s"
  by (cases t) (simp_all add: payable_original_def rest_kept_def hr_kept_def)

lemma pay_sound_replaced:
  assumes "pay_sound D es rows" and "stored_payment_ok (f p)" and "pv_id (f p) = pv_id p"
    and "pv_status (f p) = PayPosted \<Longrightarrow> payment_backed D (es @ new) (f p)"
  shows "pay_sound D (es @ new) (update_where (\<lambda>r. r = p) f rows)"
  unfolding pay_sound_def
proof (intro conjI ballI)
  show "distinct (map pv_id (update_where (\<lambda>r. r = p) f rows))"
    using pay_soundD(1) [OF assms(1)] by (subst update_one_keys) (simp_all add: assms(3))
next
  fix r assume "r \<in> set (update_where (\<lambda>r. r = p) f rows)"
  from update_one_set [OF this] pay_sound_grows [OF assms(1), of "es @ new"] assms(2,4)
  show "pay_row_sound D (es @ new) r"
    by (auto simp: pay_sound_def pay_row_sound_def)
qed

text \<open>
  A new row settles only what was outstanding: each of its allocations was checked against a payable.
\<close>

definition room_for :: "string \<Rightarrow> 'a pay_db_scheme \<Rightarrow> payment_allocation \<Rightarrow> bool" where
  "room_for co s a \<longleftrightarrow> (\<exists>x. payable_original co (pa_type a) (pa_payable a) s = Some x \<and>
     (x < 10 ^ 16 \<longrightarrow> settled_so_far co (pa_type a) (pa_payable a) s + pa_amount a \<le> x))"

lemma sum_list_bounded:
  fixes f :: "'b \<Rightarrow> rat"
  shows "(\<And>a. a \<in> set as \<Longrightarrow> f a \<le> y) \<Longrightarrow> sum_list (map f as) \<le> of_nat (length as) * y"
proof (induction as)
  case (Cons a as)
  then have "f a \<le> y" "sum_list (map f as) \<le> of_nat (length as) * y" by auto
  then show ?case by (simp add: algebra_simps)
qed simp

lemma allocated_bounded:
  assumes "\<forall>a \<in> set (pv_allocs p). room_for co s a" and "payable_original co t i s = Some x" and "x < 10 ^ 16"
  shows "allocated_to t i p \<le> of_nat (length (allocations_to t i p)) * (x - settled_so_far co t i s)"
  unfolding allocated_to_def
proof (rule sum_list_bounded)
  fix a assume "a \<in> set (allocations_to t i p)"
  with assms show "pa_amount a \<le> x - settled_so_far co t i s" by (fastforce simp: allocations_to_def room_for_def)
qed

lemma update_where_id: "f p = p \<Longrightarrow> update_where (\<lambda>r. r = p) f rows = rows"
  by (auto simp: update_where_def intro: map_idI)

lemma pay_row_step:
  assumes "pay_inv D mk s" and "erp_inv mk s'" and "rest_kept s s'" and "db_entries s' = db_entries s @ new"
    and "py_rows s' = update_where (\<lambda>r. r = p) f (py_rows s)" and "p \<in> set (py_rows s)"
    and "stored_payment_ok (f p)" and "pv_id (f p) = pv_id p"
    and "pv_status (f p) = PayPosted \<Longrightarrow> payment_backed D (db_entries s @ new) (f p) \<and>
      (\<forall>a \<in> set (pv_allocs (f p)). room_for (pv_company (f p)) s a)"
  shows "pay_safe D mk s s'"
proof -
  note inv = pay_invD [OF assms(1)]
  have sound: "pay_sound D (db_entries s') (py_rows s')"
    unfolding assms(4,5) using assms(9) by (intro pay_sound_replaced [where f = f and p = p, OF inv(3) assms(7,8)]) blast
  have hr: "hr_inv D mk s'"
    using hr_sound_grows [OF hr_invD(2) [OF inv(1)], of "db_entries s'"] assms(2,3)
    by (auto simp: hr_inv_def rest_kept_def hr_kept_def assms(4))
  have "pays_within s s'"
    unfolding pays_within_def
  proof (intro allI impI)
    fix co t i assume more: "settled_so_far co t i s < settled_so_far co t i s'"
    let ?b = "standing payment_live pv_entry (co, t, i) (db_entries s') (f p)"
    have le: "settled_so_far co t i s' \<le> settled_so_far co t i s + (if ?b then allocated_to t i (f p) else 0)"
      using applied_replaced [OF inv(3) assms(6), of co t i new f] unfolding assms(4,5) .
    with more have b: ?b "0 < allocated_to t i (f p)" by (auto split: if_splits)
    then have post: "pv_status (f p) = PayPosted" "pv_company (f p) = co" by (auto simp: standing_def payment_live_def)
    have named: "allocations_to t i (f p) \<noteq> []" using b(2) by (auto simp: allocated_to_def)
    then obtain a where a: "a \<in> set (pv_allocs (f p))" "pa_type a = t" "pa_payable a = i"
      by (auto simp: allocations_to_def filter_empty_conv)
    from assms(9) [OF post(1)] post(2) have room: "\<forall>a \<in> set (pv_allocs (f p)). room_for co s a" by simp
    with a obtain x where x: "payable_original co t i s = Some x" by (fastforce simp: room_for_def)
    have "f p \<noteq> p"
    proof
      assume "f p = p"
      from update_where_id [of f p, OF this] more applied_later [OF inv(3), of co t i new] show False unfolding assms(4,5) by simp
    qed
    then have fresh: "f p \<notin> set (py_rows s)" using distinct_map_inj [OF pay_soundD(1) [OF inv(3)] _ assms(6,8)] by blast
    have "f p \<in> set (py_rows s')" unfolding assms(5) by (rule update_one_new [OF assms(6)])
    moreover have "settled_so_far co t i s' \<le>
        settled_so_far co t i s + of_nat (length (allocations_to t i (f p))) * (x - settled_so_far co t i s)" if "x < 10 ^ 16"
      using le b(1) allocated_bounded [OF room x that] by simp
    ultimately show "\<exists>p \<in> set (py_rows s') - set (py_rows s). \<exists>x. pv_status p = PayPosted \<and> pv_company p = co \<and>
        allocations_to t i p \<noteq> [] \<and> payable_original co t i s' = Some x \<and>
        (x < 10 ^ 16 \<longrightarrow> settled_so_far co t i s' \<le>
           settled_so_far co t i s + of_nat (length (allocations_to t i p)) * (x - settled_so_far co t i s))"
      using fresh post named x by (intro bexI [of _ "f p"] exI [of _ x]) (simp_all add: original_kept [OF assms(3)])
  qed
  then show ?thesis using sound hr inv(4) assms(3) by (simp add: pay_safe_def pay_inv_def rest_kept_def)
qed

section \<open>The check against the outstanding amount\<close>

lemma resolved_outstanding:
  assumes "resolve_payable D t i co s = Inr (Some r)" and "rp_posted r"
  shows "\<exists>x. payable_original co t i s = Some x \<and> rp_outstanding r = outstanding_of D co t i x s"
proof (cases t)
  case PurchaseBill
  with assms show ?thesis by (auto simp: resolve_payable_def resolve_bill_def payable_original_def elim!: rbindE split: option.splits)
next
  case LabourPayable
  with assms show ?thesis by (auto simp: resolve_payable_def resolve_labour_def payable_original_def elim!: rbindE split: option.splits)
next
  case Salary
  with assms show ?thesis by (auto simp: resolve_payable_def resolve_salary_def payable_original_def elim!: rbindE split: option.splits)
qed

context decimal_js begin

lemma settleable_room:
  assumes "settleable D co a s = Inr r" and "pay_inv D mk s" shows "room_for co s a"
proof -
  let ?t = "pa_type a" and ?i = "pa_payable a"
  from assms(1) have r: "resolve_payable D ?t ?i co s = Inr (Some r)" "rp_posted r"
    "0 < rp_outstanding r" "pa_amount a \<le> rp_outstanding r" by (auto simp: settleable_def elim!: rbindE)
  from resolved_outstanding [OF r(1,2)] obtain x where x: "payable_original co ?t ?i s = Some x"
    "rp_outstanding r = outstanding_of D co ?t ?i x s" by blast
  let ?y = "settled_so_far co ?t ?i s"
  have y: "0 \<le> ?y" "on_grid 4 ?y" using applied_nonneg applied_grid pay_invD(3) [OF assms(2)] by blast+
  have "settled_so_far co ?t ?i s + pa_amount a \<le> x" if "x < 10 ^ 16"
  proof -
    have o: "rp_outstanding r = rnd D (x - ?y)"
      using r(3) by (simp add: x(2) outstanding_of_def clamp_zero_def money_minus_def d_minus_def split: if_splits)
    with r(3) rnd_nonpos [of "x - ?y"] have "0 < x - ?y" by (cases "x - ?y \<le> 0") auto
    then have "exact_range (x - ?y)"
      using that y payable_original_grid [OF assms(2) x(1)] by (auto simp: exact_range_def)
    with o r(4) show ?thesis by (simp add: rnd_exact_range)
  qed
  with x(1) show ?thesis by (auto simp: room_for_def)
qed

lemma bound_room:
  assumes "resolve_and_bind D co s p = Inr q" and "pay_inv D mk s" shows "\<forall>a \<in> set (pv_allocs q). room_for co s a"
proof
  fix a assume "a \<in> set (pv_allocs q)"
  note b = bind_all_InrD [OF assms(1) [unfolded resolve_and_bind_def]]
  from \<open>a \<in> _\<close> have "settled_part a \<in> set (map settled_part (pv_allocs p))"
    unfolding same_headD(8) [OF b(1), symmetric] by simp
  then obtain c where c: "c \<in> set (pv_allocs p)" "settled_part a = settled_part c" by auto
  with b(2) obtain r where "settleable D co c s = Inr r" by blast
  from settleable_room [OF this assms(2)] c(2) show "room_for co s a"
    by (simp add: room_for_def settled_part_def payable_key_def)
qed

end

end
