(* ===== verification/Payment_Books.thy ===== *)
theory Payment_Books
  imports Payment_Steps
begin

text \<open>
  The services one by one, and with them every step of the program: each keeps the invariant of the payment module and
  settles no more than was outstanding, once for each time a payment names the payable.
\<close>

section \<open>The draft services\<close>

lemma pay_rows_step:
  assumes "pay_inv D mk s" and "erp_inv mk s'" and "rest_kept s s'" and "db_entries s' = db_entries s"
    and "pay_sound D (db_entries s) (py_rows s')" and "\<And>co t i. settled_so_far co t i s' = settled_so_far co t i s"
  shows "pay_safe D mk s s'"
proof -
  note inv = pay_invD [OF assms(1)]
  have "hr_inv D mk s'" using hr_invD(2) [OF inv(1)] assms(2-4) by (simp add: hr_inv_def rest_kept_def hr_kept_def)
  moreover have "pays_within s s'" by (rule pays_within_less) (simp add: assms(6))
  ultimately show ?thesis using inv(4) assms(3-5) by (simp add: pay_safe_def pay_inv_def rest_kept_def)
qed

context decimal_js begin

lemma create_safe:
  assumes "create_payment D mk inp act s = Inr (x, s')" and "pay_inv D mk s" shows "pay_safe D mk s s'"
proof -
  note inv = pay_invD [OF assms(2)]
  let ?s = "s\<lparr>db_ids := Suc (db_ids s)\<rparr>"
  from assms(1) obtain p q tbl where p: "payment_create_draft D (mk (db_ids s)) (act_company act) (act_fy act) inp = Inr p"
    and q: "resolve_and_bind D (act_company act) ?s p = Inr q" and t: "payment_insert D q (py_rows s) = Inr tbl"
    and s': "s' = audit_record ''CREATE'' ''PaymentVoucher'' x act (?s\<lparr>py_rows := tbl\<rparr>)"
    using uow_run_InrD [OF assms(1) [unfolded create_payment_def], THEN conjunct1] by (auto elim!: rbindE simp: ids_next_def)
  have hr: "hr_inv D mk ?s" by (rule hr_inv_quiet [OF _ inv(1)]) (simp add: hr_quiet_simps)
  note d = create_draft_ok [OF p]
  note h = same_headD [OF bind_all_InrD(1) [OF q [unfolded resolve_and_bind_def]]]
  have ok: "stored_payment_ok q" by (rule bind_all_ok [OF q [unfolded resolve_and_bind_def] hr d(1)])
  from t have tbl: "tbl = py_rows s @ [q\<lparr>pv_version := 1\<rparr>]" and fresh: "pv_id q \<notin> pv_id ` set (py_rows s)"
    by (auto simp: payment_insert_def stored_payment_id [OF ok] Let_def list_ex_iff elim!: rbindE)
  have draft: "pv_status q = PayDraft" using d h by simp
  show ?thesis
  proof (rule pay_rows_step [OF assms(2)])
    show "erp_inv mk s'" by (rule quiet_erp_inv [OF _ inv(2)]) (simp add: s' quiet_def)
    have "stored_payment_ok (q\<lparr>pv_version := 1\<rparr>)" using ok by (simp add: stored_payment_ok_def)
    then show "pay_sound D (db_entries s) (py_rows s')" using inv(3) fresh draft by (auto simp: s' tbl pay_sound_def pay_row_sound_def)
    show "settled_so_far co t i s' = settled_so_far co t i s" for co t i
      using draft by (simp add: s' tbl applied_total_def payment_live_def pay.settled_add)
  qed (simp_all add: s' rest_kept_def hr_kept_def)
qed

lemma update_safe:
  assumes "update_payment D i x v act s = Inr (u, s')" and "pay_inv D mk s" shows "pay_safe D mk s s'"
proof -
  note inv = pay_invD [OF assms(2)]
  from assms(1) obtain p q q' tbl where p: "payment_find i (act_company act) (py_rows s) = Some p"
    and q: "payment_update_draft D x p = Inr q" and q': "resolve_and_bind D (act_company act) s q = Inr q'"
    and t: "payment_save D q' v (py_rows s) = Inr tbl"
    and s': "s' = audit_record ''UPDATE'' ''PaymentVoucher'' i act (s\<lparr>py_rows := tbl\<rparr>)"
    using uow_run_InrD [OF assms(1) [unfolded update_payment_def], THEN conjunct1] by (auto elim!: rbindE)
  from payment_find_Some [OF p] have pm: "p \<in> set (py_rows s)" by simp
  note d = update_draft_ok [OF q pay_soundD(2) [OF inv(3) pm]]
  note h = same_headD [OF bind_all_InrD(1) [OF q' [unfolded resolve_and_bind_def]]]
  have ok: "stored_payment_ok q'" by (rule bind_all_ok [OF q' [unfolded resolve_and_bind_def] inv(1) d(1)])
  have tbl: "tbl = update_where (\<lambda>r. r = p) (payment_saved D q' v) (py_rows s)"
    by (rule payment_save_effect [OF t pay_soundD(1) [OF inv(3)] pm]) (simp add: h d)
  show ?thesis
  proof (rule pay_row_step [where new = "[]" and f = "payment_saved D q' v", OF assms(2) _ _ _ _ pm])
    show "erp_inv mk s'" by (rule quiet_erp_inv [OF _ inv(2)]) (simp add: s' quiet_def)
    show "stored_payment_ok (payment_saved D q' v p)"
      using ok by (simp add: payment_saved_def stored_payment_id [OF ok] stored_payment_ok_def)
    show "pv_id (payment_saved D q' v p) = pv_id p" by (simp add: payment_saved_def)
  qed (simp_all add: s' tbl rest_kept_def hr_kept_def payment_saved_def stored_payment_id [OF ok] h d)
qed

end

lemma delete_safe:
  assumes "delete_payment i act s = Inr (u, s')" and "pay_inv D mk s" shows "pay_safe D mk s s'"
proof -
  note inv = pay_invD [OF assms(2)]
  from assms(1) obtain p where p: "payment_find i (act_company act) (py_rows s) = Some p" "payment_assert_draft p = Inr ()"
    and s': "s' = audit_record ''DELETE'' ''PaymentVoucher'' i act (s\<lparr>py_rows := payment_delete i (act_company act) (py_rows s)\<rparr>)"
    using uow_run_InrD [OF assms(1) [unfolded delete_payment_def], THEN conjunct1] by (auto elim!: rbindE)
  have gone: "r = p" if "r \<in> set (py_rows s)" "pv_id r = i" for r
    using distinct_map_inj [OF pay_soundD(1) [OF inv(3)] that(1)] payment_find_Some [OF p(1)] that(2) by simp
  show ?thesis
  proof (rule pay_rows_step [OF assms(2)])
    show "erp_inv mk s'" by (rule quiet_erp_inv [OF _ inv(2)]) (simp add: s' quiet_def)
    show "pay_sound D (db_entries s) (py_rows s')"
      using inv(3) by (auto simp: s' pay_sound_def pay_row_sound_def payment_delete_def distinct_map_filter)
    have "settled_so_far co t j s' = applied_total co t j (db_entries s) (payment_delete i (act_company act) (py_rows s))" for co t j
      by (simp add: s')
    also have "\<dots> co t j = settled_so_far co t j s" for co t j
      unfolding payment_delete_def applied_total_def using gone p(2)
      by (intro pay.settled_drop) (auto simp: payment_live_def payment_assert_draft_def)
    finally show "settled_so_far co t j s' = settled_so_far co t j s" for co t j .
  qed (simp_all add: s' rest_kept_def hr_kept_def)
qed

section \<open>Posting, cancelling and reposting\<close>

lemma posting_kept:
  fixes s s1 :: "'a pay_db_scheme"
  assumes "db.more s1 = db.more s" and "s' = audit_record a b c d (s1\<lparr>py_rows := tbl\<rparr>)"
  shows "rest_kept s s'" and "py_rows s1 = py_rows s"
  using hr_more [OF assms(1)] pay_more [OF assms(1)] by (simp_all add: assms(2) rest_kept_def hr_kept_def)

context decimal_js begin

text \<open>The row a posting writes, and the entry that backs it.\<close>

lemma posted_row:
  assumes "stored_payment_ok q" and "pv_id q = pv_id p" and "pv_company q = pv_company p"
    and "payment_mark_posted (je_id e) no who now q = Inr r" and "build_payment_command D m who q = Inr cmd"
    and "post D mk (erp_ports mk) cmd now t = Inr (e, s1)"
  shows "stored_payment_ok (payment_saved D r v p)" and "pv_allocs (payment_saved D r v p) = pv_allocs q"
    and "pv_company (payment_saved D r v p) = pv_company p" and "pv_id (payment_saved D r v p) = pv_id p"
    and "stored_entry D e \<in> set es \<Longrightarrow> payment_backed D es (payment_saved D r v p)"
proof -
  from assms(4) have r: "r = q\<lparr>pv_status := PayPosted, pv_entry := Some (je_id e), pv_entry_no := Some no, pv_posted_by := Some who,
       pv_posted_at := Some now\<rparr>" by (auto simp: payment_mark_posted_def elim!: rbindE)
  with assms(1) have ok: "stored_payment_ok r" by (simp add: stored_payment_ok_def)
  have saved: "payment_saved D r v p = r\<lparr>pv_id := pv_id p, pv_company := pv_company p, pv_fy := pv_fy p, pv_version := v + 1\<rparr>"
    by (simp add: payment_saved_def stored_payment_id [OF ok])
  show "stored_payment_ok (payment_saved D r v p)" using ok unfolding saved by (simp add: stored_payment_ok_def)
  show "pv_allocs (payment_saved D r v p) = pv_allocs q" "pv_company (payment_saved D r v p) = pv_company p"
    "pv_id (payment_saved D r v p) = pv_id p" unfolding saved by (simp_all add: r)
  assume e: "stored_entry D e \<in> set es"
  note m = post_appends [OF assms(6)]
  have c: "pc_source_type cmd = ''PaymentVoucher''" "pc_source_id cmd = pv_id p" "pc_company cmd = pv_company p"
    using assms(2,3,5) by (auto simp: build_payment_command_def elim!: rbindE)
  obtain cmd' where b: "build_payment_command D m who (payment_saved D r v p) = Inr cmd'" "pc_lines cmd' = pc_lines cmd"
    using build_command_same [OF assms(5), of "payment_saved D r v p"] unfolding saved by (auto simp: r)
  have "pv_entry (payment_saved D r v p) = Some (je_id e)" "pv_id (payment_saved D r v p) = pv_id p"
    "pv_company (payment_saved D r v p) = pv_company p" unfolding saved by (simp_all add: r)
  moreover have "je_lines (stored_entry D e) = map (stored_line D) (lines_of (pc_lines cmd))" using m(3) by simp
  ultimately show "payment_backed D es (payment_saved D r v p)"
    unfolding payment_backed_def using e m c b
    by (intro bexI [of _ "stored_entry D e"] exI [of _ m] exI [of _ who] exI [of _ cmd']) simp_all
qed

lemma post_safe:
  assumes "post_payment D mk (erp_ports mk) i act now s = Inr (x, s')" and "pay_inv D mk s"
  shows "pay_safe D mk s s'"
proof -
  note inv = pay_invD [OF assms(2)]
  from assms(1) obtain p q m cmd e s1 r tbl where p: "payment_find i (act_company act) (py_rows s) = Some p"
    and q: "resolve_and_bind D (act_company act) s p = Inr q" and cmd: "build_payment_command D m (act_user act) q = Inr cmd"
    and e: "post D mk (erp_ports mk) cmd now s = Inr (e, s1)"
    and r: "payment_mark_posted (je_id e) (je_no e) (act_user act) now q = Inr r"
    and t: "payment_save D r (pv_version r) (py_rows s1) = Inr tbl"
    and s': "s' = audit_record ''POST'' ''PaymentVoucher'' i act (s1\<lparr>py_rows := tbl\<rparr>)"
    using uow_run_InrD [OF assms(1) [unfolded post_payment_def], THEN conjunct1] by (auto elim!: rbindE)
  note m = post_appends [OF e] and kept = posting_kept [OF post_appends(1) [OF e] s']
  from payment_find_Some [OF p] have pm: "p \<in> set (py_rows s)" "pv_company p = act_company act" by simp_all
  note h = same_headD [OF bind_all_InrD(1) [OF q [unfolded resolve_and_bind_def]]]
  have ok: "stored_payment_ok q"
    by (rule bind_all_ok [OF q [unfolded resolve_and_bind_def] inv(1) pay_soundD(2) [OF inv(3) pm(1)]])
  let ?f = "payment_saved D r (pv_version r)"
  note row = posted_row [OF ok h(1,2) r cmd e, where v = "pv_version r"]
  have id: "pv_id r = pv_id p" using r h by (auto simp: payment_mark_posted_def elim!: rbindE)
  have tbl: "py_rows s' = update_where (\<lambda>z. z = p) ?f (py_rows s)"
    using payment_save_effect [OF t [unfolded kept(2)] pay_soundD(1) [OF inv(3)] pm(1) id] by (simp add: s')
  show ?thesis
  proof (rule pay_row_step [where f = ?f, OF assms(2) _ kept(1) _ tbl pm(1) row(1,4)])
    show "erp_inv mk s'" by (rule tx_post [OF assms(1) [unfolded post_payment_def] inv(2) quiet_refl e]) (simp add: s' quiet_def)
    show "db_entries s' = db_entries s @ [stored_entry D e]" using m(2) by (simp add: s')
    show "payment_backed D (db_entries s @ [stored_entry D e]) (?f p) \<and>
      (\<forall>a \<in> set (pv_allocs (?f p)). room_for (pv_company (?f p)) s a)" if "pv_status (?f p) = PayPosted"
      using row(5) [where es = "db_entries s @ [stored_entry D e]"] bound_room [OF q assms(2)] by (simp add: row(2,3) pm(2))
  qed
qed

lemma cancel_safe:
  assumes "cancel_payment D mk (erp_ports mk) i reason act now s = Inr (x, s')" and "pay_inv D mk s"
  shows "pay_safe D mk s s'"
proof -
  note inv = pay_invD [OF assms(2)]
  from assms(1) obtain p e s1 q tbl where p: "payment_find i (act_company act) (py_rows s) = Some p"
    and e: "reverse D mk (erp_ports mk) (the (pv_entry p)) (act_company act) reason (act_user act) now s = Inr (e, s1)"
    and q: "payment_mark_cancelled p = Inr q" and t: "payment_save D q (pv_version q) (py_rows s1) = Inr tbl"
    and s': "s' = audit_record ''CANCEL'' ''PaymentVoucher'' i act (s1\<lparr>py_rows := tbl\<rparr>)"
    using uow_run_InrD [OF assms(1) [unfolded cancel_payment_def], THEN conjunct1] by (auto elim!: rbindE)
  obtain o' where m: "db.more s1 = db.more s" "db_entries s1 = db_entries s @ [stored_entry D e]"
    by (rule reverse_appends [OF e]) auto
  note kept = posting_kept [OF m(1) s']
  from payment_find_Some [OF p] have pm: "p \<in> set (py_rows s)" by simp
  have q': "q = p\<lparr>pv_status := PayCancelled\<rparr>" using q by (auto simp: payment_mark_cancelled_def elim!: rbindE)
  have ok: "stored_payment_ok q" using pay_soundD(2) [OF inv(3) pm] by (simp add: q' stored_payment_ok_def)
  let ?f = "payment_saved D q (pv_version q)"
  have f: "?f p = q\<lparr>pv_version := pv_version q + 1\<rparr>" unfolding payment_saved_def stored_payment_id [OF ok] by (simp add: q')
  have tbl: "py_rows s' = update_where (\<lambda>z. z = p) ?f (py_rows s)"
    using payment_save_effect [OF t [unfolded kept(2)] pay_soundD(1) [OF inv(3)] pm] by (simp add: s' q')
  show ?thesis
  proof (rule pay_row_step [where f = ?f, OF assms(2) _ kept(1) _ tbl pm])
    show "erp_inv mk s'" by (rule tx_reverse [OF assms(1) [unfolded cancel_payment_def] inv(2) quiet_refl e]) (simp add: s' quiet_def)
    show "db_entries s' = db_entries s @ [stored_entry D e]" using m(2) by (simp add: s')
    show "stored_payment_ok (?f p)" using ok by (simp add: f stored_payment_ok_def)
    show "pv_id (?f p) = pv_id p" unfolding f unfolding q' by simp
    show "payment_backed D (db_entries s @ [stored_entry D e]) (?f p) \<and>
      (\<forall>a \<in> set (pv_allocs (?f p)). room_for (pv_company (?f p)) s a)" if "pv_status (?f p) = PayPosted"
      using that unfolding f unfolding q' by simp
  qed
qed

lemma repost_safe:
  assumes "repost_payment D mk (erp_ports mk) i patch reason act now s = Inr (x, s')" and "pay_inv D mk s"
  shows "pay_safe D mk s s'"
proof -
  note inv = pay_invD [OF assms(2)]
  from assms(1) obtain p c q m cmd rv e s1 r tbl where p: "payment_find i (act_company act) (py_rows s) = Some p"
    and c: "payment_create_draft D i (act_company act) (act_fy act) (corrected_payment patch p) = Inr c"
    and q: "resolve_and_bind D (act_company act) s c = Inr q" and cmd: "build_payment_command D m (act_user act) q = Inr cmd"
    and e: "repost D mk (erp_ports mk) (the (pv_entry p)) (act_company act) reason (act_user act) cmd now s = Inr ((rv, e), s1)"
    and r: "payment_mark_posted (je_id e) (je_no e) (act_user act) now q = Inr r"
    and t: "payment_save D r (pv_version p) (py_rows s1) = Inr tbl"
    and s': "s' = audit_record ''POST'' ''PaymentVoucher'' i act (s1\<lparr>py_rows := tbl\<rparr>)"
    using uow_run_InrD [OF assms(1) [unfolded repost_payment_def], THEN conjunct1] by (auto elim!: rbindE)
  from e obtain t1 where t1: "reverse D mk (erp_ports mk) (the (pv_entry p)) (act_company act) reason (act_user act) now s = Inr (rv, t1)"
    and p1: "post D mk (erp_ports mk) cmd now t1 = Inr (e, s1)" by (auto simp: repost_def elim!: rbindE)
  obtain o' where m0: "db.more t1 = db.more s" "db_entries t1 = db_entries s @ [stored_entry D rv]"
    by (rule reverse_appends [OF t1]) auto
  note m = post_appends [OF p1]
  have kept: "rest_kept s s'" "py_rows s1 = py_rows s" using posting_kept [of s1 s, OF _ s'] m0(1) m(1) by simp_all
  from payment_find_Some [OF p] have pm: "p \<in> set (py_rows s)" "pv_id p = i" "pv_company p = act_company act" by simp_all
  note d = create_draft_ok [OF c]
  note h = same_headD [OF bind_all_InrD(1) [OF q [unfolded resolve_and_bind_def]]]
  have ok: "stored_payment_ok q" by (rule bind_all_ok [OF q [unfolded resolve_and_bind_def] inv(1) d(1)])
  let ?f = "payment_saved D r (pv_version p)"
  have ids: "pv_id q = pv_id p" "pv_company q = pv_company p" by (simp_all add: h d pm)
  note row = posted_row [OF ok ids r cmd p1, where v = "pv_version p"]
  have id: "pv_id r = pv_id p" using r ids by (auto simp: payment_mark_posted_def elim!: rbindE)
  have tbl: "py_rows s' = update_where (\<lambda>z. z = p) ?f (py_rows s)"
    using payment_save_effect [OF t [unfolded kept(2)] pay_soundD(1) [OF inv(3)] pm(1) id] by (simp add: s')
  let ?new = "[stored_entry D rv, stored_entry D e]"
  show ?thesis
  proof (rule pay_row_step [where f = ?f and new = ?new, OF assms(2) _ kept(1) _ tbl pm(1) row(1,4)])
    show "erp_inv mk s'" by (rule tx_repost [OF assms(1) [unfolded repost_payment_def] inv(2) quiet_refl e]) (simp add: s' quiet_def)
    show "db_entries s' = db_entries s @ ?new" using m(2) m0(2) by (simp add: s')
    show "payment_backed D (db_entries s @ ?new) (?f p) \<and>
      (\<forall>a \<in> set (pv_allocs (?f p)). room_for (pv_company (?f p)) s a)" if "pv_status (?f p) = PayPosted"
      using row(5) [where es = "db_entries s @ ?new"] bound_room [OF q assms(2)] by (simp add: row(2,3) pm(3))
  qed
qed

section \<open>Every step\<close>

lemma bills_safe:
  assumes "bills_change s s'" and "pay_inv D mk s" shows "pay_safe D mk s s'"
proof -
  note inv = pay_invD [OF assms(2)]
  from assms(1) have q: "hr_quiet s s'" and rows: "py_rows s' = py_rows s" and ok: "bill_rows_ok (py_bills s')"
    by (auto simp: bills_change_def)
  have es: "db_entries s' = db_entries s" using q by (simp add: hr_quiet_def quiet_entries)
  have "pays_within s s'" by (rule pays_within_less) (simp add: es rows)
  with hr_inv_quiet [OF q inv(1)] inv(3) ok show ?thesis by (simp add: pay_safe_def pay_inv_def es rows)
qed

lemma hr_side_safe:
  assumes "hr_step D mk s s'" and "pay_kept s s'" and "pay_inv D mk s" shows "pay_safe D mk s s'"
proof -
  note inv = pay_invD [OF assms(3)]
  have hr: "hr_inv D mk s'" "hr_frozen s s'" using hr_step_safe [OF assms(1) inv(1)] by (auto simp: hr_safe_def)
  then obtain new where new: "db_entries s' = db_entries s @ new" by (auto simp: hr_frozen_def)
  have rows: "py_rows s' = py_rows s" "py_bills s' = py_bills s" using assms(2) by (auto simp: pay_kept_def)
  have "pays_within s s'" by (rule pays_within_less) (use applied_later [OF inv(3)] in \<open>simp add: new rows\<close>)
  with hr(1) inv(4) pay_sound_grows [OF inv(3), of "db_entries s'"] show ?thesis by (simp add: pay_safe_def pay_inv_def rows new)
qed

lemma pay_step_safe:
  assumes "pay_step D mk s s'" and "pay_inv D mk s" shows "pay_safe D mk s s'"
  using assms(1)
proof (cases rule: pay_step.cases)
qed (use assms(2) in \<open>auto intro: create_safe update_safe delete_safe post_safe cancel_safe repost_safe bills_safe hr_side_safe\<close>)

end

end
