(* ===== verification/Payment_Demo.thy ===== *)
theory Payment_Demo
  imports Payment_Books Hr_Demo
begin

text \<open>
  Two concrete runs of the payment module against a posted purchase bill of 100: one payment allocates 60 of it, and
  one names the bill twice, with 60 each time.
\<close>

definition pay_demo_bill :: bill_ref where
  "pay_demo_bill = \<lparr>bl_id = ''B'', bl_company = ''C'', bl_supplier = ''S'', bl_net = 100, bl_status = ''POSTED''\<rparr>"

definition pay_demo_db :: pay_db where
  "pay_demo_db = \<lparr>db_fys = [sample_fy], db_series = [], db_periods = [], db_entries = [], db_audit = [], db_ids = 0,
     hr_accounts = map (\<lambda>(i, c). \<lparr>ac_id = i, ac_company = ''C'', ac_code = c\<rparr>) [(''LC'', ''5110''), (''AP'', ''2100''), (''BC'', ''6200'')],
     hr_config = [], hr_projects = [], hr_settings = [], hr_weekly = [], hr_holidays = [], hr_employees = [],
     hr_assignments = [], hr_attendance = [], hr_payables = [], hr_sheets = [], py_bills = [pay_demo_bill], py_rows = []\<rparr>"

definition pay_demo_open :: pay_db where
  "pay_demo_open = pay_demo_db\<lparr>db_periods := db_periods sample_open, db_ids := 1\<rparr>"

text \<open>The input, the bound draft and the posted row of a payment that allocates the given amounts to the bill.\<close>

definition pay_demo_input :: "decimal list \<Rightarrow> decimal \<Rightarrow> new_payment" where
  "pay_demo_input xs amt = \<lparr>np_party = Some ''S'', np_date = ''2025-07-20'', np_mode = PayCash, np_account = ''CASH'', np_ref = None,
     np_charges = None, np_charges_project = None, np_charges_cost_centre = None, np_charges_purpose = None,
     np_amount = Dec amt, np_narration = None,
     np_allocs = map (\<lambda>x. \<lparr>nl_type = PurchaseBill, nl_payable = ''B'', nl_amount = Dec x\<rparr>) xs\<rparr>"

definition pay_demo_alloc :: "nat \<Rightarrow> decimal \<Rightarrow> payment_allocation" where
  "pay_demo_alloc n x = \<lparr>pa_line = n, pa_type = PurchaseBill, pa_payable = ''B'', pa_amount = x, pa_accrued = None, pa_party = Some ''S'',
     pa_project = None, pa_cost_centre = None, pa_purpose = None, pa_control = Some ''AP'', pa_control_type = Some LIABILITY,
     pa_is_control = Some True\<rparr>"

definition pay_demo_row :: "payment_allocation list \<Rightarrow> decimal \<Rightarrow> payment" where
  "pay_demo_row as amt = \<lparr>pv_id = ''1'', pv_company = ''C'', pv_fy = ''FY'', pv_party = Some ''S'', pv_date = ''2025-07-20'',
     pv_mode = PayCash, pv_account = ''CASH'', pv_ref = None, pv_charges = 0, pv_charges_project = None, pv_charges_cost_centre = None,
     pv_charges_purpose = None, pv_amount = amt, pv_narration = None, pv_status = PayDraft, pv_entry_no = None, pv_entry = None,
     pv_posted_at = None, pv_posted_by = None, pv_allocs = as, pv_version = 1\<rparr>"

definition pay_demo_audit :: "string \<Rightarrow> audit_row" where
  "pay_demo_audit a = \<lparr>a_action = a, a_entity_type = ''PaymentVoucher'', a_entity_id = ''1'', a_actor = ''U'', a_company = ''C''\<rparr>"

definition pay_demo_drafted :: "payment_allocation list \<Rightarrow> decimal \<Rightarrow> pay_db" where
  "pay_demo_drafted as amt = pay_demo_open\<lparr>db_ids := 2, db_audit := [pay_demo_audit ''CREATE''], py_rows := [pay_demo_row as amt]\<rparr>"

definition pay_demo_lines :: "payment_allocation list \<Rightarrow> decimal \<Rightarrow> posting_line list" where
  "pay_demo_lines as amt = map (\<lambda>a. dim_line ''AP'' None None None (Some ''S'') (pa_amount a) 0 LIABILITY True) as @
     [dim_line ''CASH'' None None None None 0 amt ASSET False]"

definition pay_demo_cmd :: "payment_allocation list \<Rightarrow> decimal \<Rightarrow> posting_command" where
  "pay_demo_cmd as amt = \<lparr>pc_company = ''C'', pc_fy = ''FY'', pc_voucher_type = PAYMENT, pc_voucher_date = ''2025-07-20'',
     pc_source_type = ''PaymentVoucher'', pc_source_id = ''1'', pc_posted_by = ''U'', pc_narration = None,
     pc_lines = pay_demo_lines as amt\<rparr>"

definition pay_demo_entry :: "payment_allocation list \<Rightarrow> decimal \<Rightarrow> journal_entry" where
  "pay_demo_entry as amt = \<lparr>je_id = ''3'', je_company = ''C'', je_fy = ''FY'', je_no = ''PV/2525/0001'', je_voucher_type = PAYMENT,
     je_voucher_date = ''2025-07-20'', je_source_type = ''PaymentVoucher'', je_source_id = ''1'', je_is_reversal = False,
     je_reversal_of = None, je_posted_at = 5, je_posted_by = ''U'', je_narration = None, je_lines = lines_of (pay_demo_lines as amt)\<rparr>"

definition pay_demo_entered :: "payment_allocation list \<Rightarrow> decimal \<Rightarrow> pay_db" where
  "pay_demo_entered as amt = (pay_demo_drafted as amt)\<lparr>db_ids := 4, db_entries := [pay_demo_entry as amt],
     db_series := [\<lparr>s_id = ''2'', s_company = ''C'', s_fy = ''FY'', s_voucher_type = PAYMENT,
       s_prefix = ''PV'', s_padding = 4, s_last = 1, s_version = 1\<rparr>]\<rparr>"

definition pay_demo_done :: "payment_allocation list \<Rightarrow> decimal \<Rightarrow> payment" where
  "pay_demo_done as amt = (pay_demo_row as amt)\<lparr>pv_status := PayPosted, pv_entry := Some ''3'', pv_entry_no := Some ''PV/2525/0001'',
     pv_posted_by := Some ''U'', pv_posted_at := Some 5\<rparr>"

definition pay_demo_posted :: "payment_allocation list \<Rightarrow> decimal \<Rightarrow> pay_db" where
  "pay_demo_posted as amt = (pay_demo_entered as amt)\<lparr>db_audit := [pay_demo_audit ''CREATE'', pay_demo_audit ''POST''],
     py_rows := [(pay_demo_done as amt)\<lparr>pv_version := 2\<rparr>]\<rparr>"

definition pay_demo_one :: "payment_allocation list" where
  "pay_demo_one = [pay_demo_alloc 1 60]"

definition pay_demo_two :: "payment_allocation list" where
  "pay_demo_two = [pay_demo_alloc 1 60, pay_demo_alloc 2 60]"

lemma pay_demo_generate: "generate_periods show_nat ''FY'' sample_actor pay_demo_db = Inr (db_periods sample_open, pay_demo_open)"
  by code_simp

lemma pay_demo_create_one:
  "create_payment dec20 show_nat (pay_demo_input [60] 60) sample_actor pay_demo_open = Inr (''1'', pay_demo_drafted pay_demo_one 60)"
  by code_simp

lemma pay_demo_create_two:
  "create_payment dec20 show_nat (pay_demo_input [60, 60] 120) sample_actor pay_demo_open = Inr (''1'', pay_demo_drafted pay_demo_two 120)"
  by code_simp

lemma pay_demo_post_one:
  "post_payment dec20 show_nat (erp_ports show_nat) ''1'' sample_actor 5 (pay_demo_drafted pay_demo_one 60) =
     Inr ((''3'', ''PV/2525/0001''), pay_demo_posted pay_demo_one 60)"
  by code_simp

lemma pay_demo_post_two:
  "post_payment dec20 show_nat (erp_ports show_nat) ''1'' sample_actor 5 (pay_demo_drafted pay_demo_two 120) =
     Inr ((''3'', ''PV/2525/0001''), pay_demo_posted pay_demo_two 120)"
  by code_simp

end
