(* ===== verification/Payment_Properties.thy ===== *)
theory Payment_Properties
  imports Payment_Demo
begin

text \<open>
  The properties of the payment module: payments settle what is outstanding and stand in the ledger, and
  the command of a payment balances; and what happens at the edges the code leaves open.
\<close>

section \<open>Over every run\<close>

definition empty_pay :: "'a pay_db_scheme \<Rightarrow> bool" where
  "empty_pay s \<longleftrightarrow> empty_hr s \<and> py_rows s = [] \<and> bill_rows_ok (py_bills s)"

lemma pay_inv_empty: "inj mk \<Longrightarrow> empty_pay s \<Longrightarrow> pay_inv D mk s"
  by (simp add: pay_inv_def empty_pay_def hr_inv_empty pay_sound_def)

lemma pay_run_inv:
  assumes "decimal_js D" and "inj mk" and "empty_pay z" and "rtranclp (pay_step D mk) z s" shows "pay_inv D mk s"
  using assms(4)
proof (induction rule: rtranclp_induct)
  case base
  show ?case by (rule pay_inv_empty [OF assms(2,3)])
next
  case (step t u)
  then show ?case using decimal_js.pay_step_safe [OF assms(1)] unfolding pay_safe_def by blast
qed

text \<open>The two projections of what was settled agree where every posted payment has its entry.\<close>

lemma stands_counts:
  assumes "pay_sound D es rows" and "p \<in> set rows" shows "payment_stands co es p \<longleftrightarrow> standing payment_live pv_entry (co, t, i) es p"
proof (cases "pv_status p = PayPosted")
  case True
  with pay_soundD(3) [OF assms] obtain e where "e \<in> set es" "pv_entry p = Some (je_id e)" by (auto simp: payment_backed_def)
  then show ?thesis by (auto simp: payment_stands_def standing_def payment_live_def list_ex_iff)
qed (simp add: payment_stands_def standing_def payment_live_def)

lemma projections_agree: "pay_sound D es rows \<Longrightarrow> applied_to t i co es rows = applied_total co t i es rows"
  unfolding applied_to_def applied_total_def settled_total_def allocated_share_def fst_conv snd_conv
  by (rule arg_cong [where f = "\<lambda>xs. sum_list (map _ xs)"], rule filter_cong [OF refl]) (rule stands_counts)

text \<open>
  C36. Payments settle what is outstanding: from any state that payments, payroll, the purchase module and the rest of
  the program reach, a step that raises the amount settled of a payable writes one posted payment that names it; the
  payable (a posted bill, a confirmed labour payable, a posted salary sheet) exists, and when the payment names it
  once, the amount settled of it is then at most its original amount; a payment that names it \<open>n\<close> times settles at
  most \<open>n\<close> times what was outstanding.  In every such state the read model other modules ask agrees with the check of
  the module, and every posted payment stands in the ledger with one entry of its own that holds exactly its lines.
\<close>

theorem settlements_within_payables:
  assumes "decimal_js D" and "inj mk" and "empty_pay z" and "rtranclp (pay_step D mk) z s"
  shows "(\<forall>s' co t i. pay_step D mk s s' \<and>
         applied_total co t i (db_entries s) (py_rows s) < applied_total co t i (db_entries s') (py_rows s') \<longrightarrow>
       (\<exists>p \<in> set (py_rows s') - set (py_rows s). \<exists>x. pv_status p = PayPosted \<and> pv_company p = co \<and>
          payable_original co t i s' = Some x \<and> allocations_to t i p \<noteq> [] \<and>
          (x < 10 ^ 16 \<and> length (allocations_to t i p) = 1 \<longrightarrow> applied_total co t i (db_entries s') (py_rows s') \<le> x) \<and>
          (x < 10 ^ 16 \<longrightarrow> applied_total co t i (db_entries s') (py_rows s') \<le> applied_total co t i (db_entries s) (py_rows s) +
             of_nat (length (allocations_to t i p)) * (x - applied_total co t i (db_entries s) (py_rows s))))) \<and>
    (\<forall>co t i. applied_to t i co (db_entries s) (py_rows s) = applied_total co t i (db_entries s) (py_rows s)) \<and>
    (\<forall>p \<in> set (py_rows s). pv_status p = PayPosted \<longrightarrow> (\<exists>e \<in> set (db_entries s). \<exists>m who cmd.
       pv_entry p = Some (je_id e) \<and> je_source_type e = ''PaymentVoucher'' \<and> je_source_id e = pv_id p \<and>
       je_company e = pv_company p \<and> \<not> je_is_reversal e \<and>
       build_payment_command D m who p = Inr cmd \<and> je_lines e = map (stored_line D) (lines_of (pc_lines cmd))))"
proof -
  note run = pay_run_inv [OF assms]
  note inv = pay_invD [OF run]
  have backed: "payment_backed D (db_entries s) p" if "p \<in> set (py_rows s)" "pv_status p = PayPosted" for p
    by (rule pay_soundD(3) [OF inv(3) that])
  show ?thesis
  proof (intro conjI allI ballI impI)
    fix s' co t i
    assume a: "pay_step D mk s s' \<and>
       applied_total co t i (db_entries s) (py_rows s) < applied_total co t i (db_entries s') (py_rows s')"
    then have "pays_within s s'" using decimal_js.pay_step_safe [OF assms(1) _ run] by (simp add: pay_safe_def)
    with a obtain p x where p: "p \<in> set (py_rows s') - set (py_rows s)" "pv_status p = PayPosted" "pv_company p = co"
      "payable_original co t i s' = Some x" "allocations_to t i p \<noteq> []" "x < 10 ^ 16 \<longrightarrow> settled_so_far co t i s' \<le>
         settled_so_far co t i s + of_nat (length (allocations_to t i p)) * (x - settled_so_far co t i s)"
      unfolding pays_within_def by blast
    then show "\<exists>p \<in> set (py_rows s') - set (py_rows s). \<exists>x. pv_status p = PayPosted \<and> pv_company p = co \<and>
          payable_original co t i s' = Some x \<and> allocations_to t i p \<noteq> [] \<and>
          (x < 10 ^ 16 \<and> length (allocations_to t i p) = 1 \<longrightarrow> applied_total co t i (db_entries s') (py_rows s') \<le> x) \<and>
          (x < 10 ^ 16 \<longrightarrow> applied_total co t i (db_entries s') (py_rows s') \<le> applied_total co t i (db_entries s) (py_rows s) +
             of_nat (length (allocations_to t i p)) * (x - applied_total co t i (db_entries s) (py_rows s)))"
      by (intro bexI [of _ p] exI [of _ x]) auto
  next
    show "applied_to t i co (db_entries s) (py_rows s) = applied_total co t i (db_entries s) (py_rows s)" for co t i
      by (rule projections_agree [OF inv(3)])
  qed (use backed in \<open>auto simp: payment_backed_def\<close>)
qed

lemma pay_demo_opened: "pay_step dec20 show_nat pay_demo_db pay_demo_open"
proof -
  have "hr_kept pay_demo_db pay_demo_open" "pay_kept pay_demo_db pay_demo_open" by (simp_all add: hr_kept_def pay_kept_def pay_demo_open_def)
  then show ?thesis by (intro y_hr h_other step_period [OF step_generate [OF pay_demo_generate]])
qed

lemma pay_demo_empty: "empty_pay pay_demo_db"
  by (simp add: empty_pay_def empty_hr_def empty_db_def pay_demo_db_def bill_rows_ok_def pay_demo_bill_def in_money_column_def on_grid_code)

lemma pay_demo_drafted_run: "rtranclp (pay_step dec20 show_nat) pay_demo_db (pay_demo_drafted pay_demo_one 60)"
  using pay_demo_opened y_create [OF pay_demo_create_one] by (meson rtranclp.rtrancl_refl rtranclp.rtrancl_into_rtrancl)

lemma pay_demo_totals:
  "applied_total ''C'' PurchaseBill ''B'' (db_entries (pay_demo_drafted pay_demo_one 60)) (py_rows (pay_demo_drafted pay_demo_one 60)) = 0"
  "applied_total ''C'' PurchaseBill ''B'' (db_entries (pay_demo_posted pay_demo_one 60)) (py_rows (pay_demo_posted pay_demo_one 60)) = 60"
  "py_rows (pay_demo_posted pay_demo_one 60) = [(pay_demo_done pay_demo_one 60)\<lparr>pv_version := 2\<rparr>]"
  "length (allocations_to PurchaseBill ''B'' ((pay_demo_done pay_demo_one 60)\<lparr>pv_version := 2\<rparr>)) = 1"
  by code_simp+

theorem settlements_within_payables_witness:
  "\<exists>x. payable_original ''C'' PurchaseBill ''B'' (pay_demo_posted pay_demo_one 60) = Some x \<and> (x < 10 ^ 16 \<longrightarrow> 60 \<le> x)"
proof -
  let ?t = "pay_demo_posted pay_demo_one 60"
  have "applied_total ''C'' PurchaseBill ''B'' (db_entries (pay_demo_drafted pay_demo_one 60)) (py_rows (pay_demo_drafted pay_demo_one 60)) <
      applied_total ''C'' PurchaseBill ''B'' (db_entries ?t) (py_rows ?t)" unfolding pay_demo_totals(1,2) by simp
  with settlements_within_payables [OF decimal_js_dec20 inj_show_nat pay_demo_empty pay_demo_drafted_run, THEN conjunct1, rule_format,
    of ?t "''C''" PurchaseBill "''B''"] y_post [OF pay_demo_post_one]
  obtain p x where p: "p \<in> set (py_rows ?t)" and x: "payable_original ''C'' PurchaseBill ''B'' ?t = Some x"
    "x < 10 ^ 16 \<and> length (allocations_to PurchaseBill ''B'' p) = 1 \<longrightarrow> applied_total ''C'' PurchaseBill ''B'' (db_entries ?t) (py_rows ?t) \<le> x"
    by blast
  from p have "length (allocations_to PurchaseBill ''B'' p) = 1" using pay_demo_totals(4) by (simp add: pay_demo_totals(3))
  with x show ?thesis unfolding pay_demo_totals(2) by blast
qed

section \<open>Edges\<close>

text \<open>
  Each allocation of a payment is checked against the same outstanding amount: a payment that names a payable twice
  settles more than is owed.
\<close>

theorem payment_naming_twice_oversettles:
  "\<exists>s. rtranclp (pay_step dec20 show_nat) pay_demo_db s \<and> payable_original ''C'' PurchaseBill ''B'' s = Some 100 \<and>
     applied_total ''C'' PurchaseBill ''B'' (db_entries s) (py_rows s) = 120"
proof (intro exI conjI)
  show "rtranclp (pay_step dec20 show_nat) pay_demo_db (pay_demo_posted pay_demo_two 120)"
    using pay_demo_opened y_create [OF pay_demo_create_two] y_post [OF pay_demo_post_two]
    by (meson rtranclp.rtrancl_refl rtranclp.rtrancl_into_rtrancl)
  show "payable_original ''C'' PurchaseBill ''B'' (pay_demo_posted pay_demo_two 120) = Some 100" by code_simp
  show "applied_total ''C'' PurchaseBill ''B'' (db_entries (pay_demo_posted pay_demo_two 120)) (py_rows (pay_demo_posted pay_demo_two 120)) = 120"
    by code_simp
qed

text \<open>A repost checks the corrected payment while the original still counts: a payment that settled a payable in full cannot be reposted.\<close>

definition no_patch :: edit_payment where
  "no_patch = \<lparr>xp_party = Undefined, xp_date = Undefined, xp_mode = Undefined, xp_account = Undefined, xp_ref = Undefined,
     xp_charges = Undefined, xp_charges_project = Undefined, xp_charges_cost_centre = Undefined, xp_charges_purpose = Undefined,
     xp_amount = Undefined, xp_narration = Undefined, xp_allocs = Undefined\<rparr>"

theorem full_settlement_cannot_be_reposted:
  "repost_payment dec20 show_nat (erp_ports show_nat) ''1'' no_patch ''why'' sample_actor 6 (pay_demo_posted [pay_demo_alloc 1 100] 100) =
     Inl (CodedError ''PAYABLE_NOT_SETTLEABLE'' ''B'')"
  by code_simp

text \<open>Each part payment of daily labour debits the whole accrued amount: two halves debit it twice.\<close>

theorem labour_part_payments_debit_all:
  assumes "decimal_js D" and "allocation_lines D m a = Inr ls" and "pa_type a = LabourPayable" and "pa_accrued a = Some x"
    and "pa_control a = Some c" and "pm_labour_cost m \<noteq> c"
  shows "lines_net c ls = x"
  using assms(2-6) by (auto simp: allocation_lines_def control_account_for_def Let_def elim!: rbindE split: option.splits if_splits)

section \<open>The command\<close>

text \<open>
  C37. The command of a payment balances: for amounts of four decimals its debits equal its credits, the last line
  credits the paying account with what was allocated plus the bank charges, no line passes a rounded amount, and the
  only expense accounts it touches are the labour cost and the bank charges account: a payment never expenses a
  settlement.
\<close>

theorem payment_command_balances:
  assumes "decimal_js D" and "payment_in_range p" and "build_payment_command D m who p = Inr cmd"
  shows "total_dr (pc_lines cmd) = total_cr (pc_lines cmd) \<and>
    last (pc_lines cmd) = dim_line (pv_account p) None None None None 0 (sum_list (map pa_amount (pv_allocs p)) + pv_charges p) ASSET False \<and>
    (\<forall>l \<in> set (pc_lines cmd). pl_grid l \<and>
       (pl_account_type l = Some EXPENSE \<longrightarrow> pl_account l = pm_labour_cost m \<or> pl_account l = pm_bank_charges m))"
proof -
  note f = decimal_js.payment_lines_facts [OF assms(1,3,2)]
  show ?thesis
  proof (intro conjI ballI)
    fix l assume "l \<in> set (pc_lines cmd)"
    with f(2,3) show "pl_grid l" "pl_account_type l = Some EXPENSE \<longrightarrow> pl_account l = pm_labour_cost m \<or> pl_account l = pm_bank_charges m"
      by (auto simp: expense_line_ok_def)
  qed (rule f(1), rule f(4))
qed

definition pay_demo_labour :: payment where
  "pay_demo_labour = pay_demo_row [\<lparr>pa_line = 1, pa_type = LabourPayable, pa_payable = ''L'', pa_amount = 60, pa_accrued = Some 100,
     pa_party = None, pa_project = Some ''P'', pa_cost_centre = Some ''CC'', pa_purpose = Some ''PU'', pa_control = Some ''LP'',
     pa_control_type = Some LIABILITY, pa_is_control = Some False\<rparr>] 60"

definition pay_demo_maps :: payment_accounts where
  "pay_demo_maps = \<lparr>pm_labour_cost = ''LC'', pm_bank_charges = ''BC''\<rparr>"

theorem payment_command_balances_witness:
  "\<exists>cmd. build_payment_command dec20 pay_demo_maps ''U'' pay_demo_labour = Inr cmd \<and> length (pc_lines cmd) = 3 \<and>
     total_dr (pc_lines cmd) = total_cr (pc_lines cmd)"
proof -
  have "case build_payment_command dec20 pay_demo_maps ''U'' pay_demo_labour of Inr cmd \<Rightarrow> length (pc_lines cmd) = 3 | Inl _ \<Rightarrow> False"
    by code_simp
  then obtain cmd where c: "build_payment_command dec20 pay_demo_maps ''U'' pay_demo_labour = Inr cmd" "length (pc_lines cmd) = 3"
    by (auto split: sum.splits)
  have "payment_in_range pay_demo_labour"
    by (simp add: payment_in_range_def pay_demo_labour_def pay_demo_row_def allocation_grid_def nonneg_grid_def on_grid_code)
  from payment_command_balances [OF decimal_js_dec20 this c(1)] c show ?thesis by blast
qed

end
