(* ===== verification/Receipt.thy ===== *)
theory Receipt
  imports Vouchers
begin

text \<open>
  The receipt aggregate (\<open>src/src/modules/receipt/domain/\<close>): the customer-collection voucher, against a certificate
  or against an income or liability account, its lifecycle, and its posting command.
\<close>

section \<open>The voucher\<close>

datatype receipt_mode = RecCash | RecMfs | RecBankTransfer | RecCheque

fun receipt_mode_name :: "receipt_mode \<Rightarrow> string" where
  "receipt_mode_name RecCash = ''CASH''"
| "receipt_mode_name RecMfs = ''MFS''"
| "receipt_mode_name RecBankTransfer = ''BANK_TRANSFER''"
| "receipt_mode_name RecCheque = ''CHEQUE''"

datatype receipt_type = IpcLinked | General

definition receipt_requires_ref :: "receipt_mode \<Rightarrow> bool" where
  "receipt_requires_ref m \<longleftrightarrow> m = RecMfs \<or> m = RecBankTransfer \<or> m = RecCheque"

datatype receipt_status = RecDraft | RecPosted | RecCancelled

fun receipt_status_name :: "receipt_status \<Rightarrow> string" where
  "receipt_status_name RecDraft = ''DRAFT''"
| "receipt_status_name RecPosted = ''POSTED''"
| "receipt_status_name RecCancelled = ''CANCELLED''"

record new_receipt =
  nc_type :: receipt_type
  nc_date :: string
  nc_mode :: receipt_mode
  nc_deposit :: string
  nc_party :: string
  nc_project :: "string option"
  nc_cost_centre :: string
  nc_purpose :: "string option"
  nc_ipc :: "string option"
  nc_target :: "string option"
  nc_settled :: decimal_input
  nc_tax :: "decimal_input option"
  nc_ref :: "string option"
  nc_narration :: "string option"

record edit_receipt =
  xc_type :: "receipt_type patch"
  xc_date :: "string patch"
  xc_mode :: "receipt_mode patch"
  xc_deposit :: "string patch"
  xc_party :: "string patch"
  xc_project :: "string patch"
  xc_cost_centre :: "string patch"
  xc_purpose :: "string patch"
  xc_ipc :: "string patch"
  xc_target :: "string patch"
  xc_settled :: "decimal_input patch"
  xc_tax :: "decimal_input patch"
  xc_ref :: "string patch"
  xc_narration :: "string patch"

record receipt =
  rc_id :: string
  rc_company :: string
  rc_fy :: string
  rc_type :: receipt_type
  rc_date :: string
  rc_mode :: receipt_mode
  rc_deposit :: string
  rc_party :: string
  rc_project :: "string option"
  rc_cost_centre :: string
  rc_purpose :: "string option"
  rc_ipc :: "string option"
  rc_target :: "string option"
  rc_settled :: money
  rc_cash :: money
  rc_tax :: money
  rc_ref :: "string option"
  rc_narration :: "string option"
  rc_status :: receipt_status
  rc_entry_no :: "string option"
  rc_entry :: "string option"
  rc_posted_at :: "int option"
  rc_posted_by :: "string option"
  rc_version :: nat

section \<open>Figures and checks\<close>

definition assert_composition :: "dec_lib \<Rightarrow> money \<Rightarrow> money \<Rightarrow> money \<Rightarrow> domain_error + unit" where
  "assert_composition D settled cash tax =
     rbind (require (0 < settled) (SettledAmountInvalidError settled)) (\<lambda>_.
     rbind (require (\<not> cash < 0) (SettledAmountInvalidError cash)) (\<lambda>_.
     rbind (require (\<not> tax < 0) (SettledAmountInvalidError tax)) (\<lambda>_.
     require (settled = d_plus D cash tax) (SettledAmountInvalidError settled))))"

definition receipt_figures :: "dec_lib \<Rightarrow> new_receipt \<Rightarrow> domain_error + (money \<times> money \<times> money)" where
  "receipt_figures D inp =
     rbind (to_decimal (nc_settled inp) ''amountSettled'') (\<lambda>x.
     let settled = round4 D x in
     rbind (case nc_tax inp of
              None \<Rightarrow> Inr 0
            | Some v \<Rightarrow> rbind (to_decimal v ''taxDeductedAtSource'') (\<lambda>t.
                rbind (assert_non_neg t ''taxDeductedAtSource'') (\<lambda>t. Inr (round4 D t)))) (\<lambda>tax.
     let cash = d_minus D settled tax in
     rbind (assert_composition D settled cash tax) (\<lambda>_. Inr (settled, cash, tax))))"

definition assert_reference_xor :: "receipt_type \<Rightarrow> string option \<Rightarrow> string option \<Rightarrow> domain_error + unit" where
  "assert_reference_xor ty ipc_id target =
     rbind (require (truthy ipc_id \<noteq> truthy target) ReferenceXorError) (\<lambda>_.
     rbind (require (\<not> (ty = IpcLinked \<and> \<not> truthy ipc_id)) ReferenceXorError) (\<lambda>_.
     require (\<not> (ty = General \<and> \<not> truthy target)) ReferenceXorError))"

definition assert_cheque_ref :: "receipt_mode \<Rightarrow> string option \<Rightarrow> domain_error + unit" where
  "assert_cheque_ref m reference =
     require (\<not> (receipt_requires_ref m \<and> \<not> (truthy reference \<and> trim (or_empty reference) \<noteq> [])))
       (ChequeRefMissingError (receipt_mode_name m))"

section \<open>Construction and lifecycle\<close>

text \<open>The checks and the fields \<open>createDraft\<close> and \<open>updateDraft\<close> share, in their order.\<close>

definition receipt_fill :: "dec_lib \<Rightarrow> new_receipt \<Rightarrow> receipt \<Rightarrow> domain_error + receipt" where
  "receipt_fill D inp r =
     rbind (receipt_figures D inp) (\<lambda>(settled, cash, tax).
     rbind (assert_reference_xor (nc_type inp) (nc_ipc inp) (nc_target inp)) (\<lambda>_.
     rbind (assert_cheque_ref (nc_mode inp) (nc_ref inp)) (\<lambda>_.
     rbind (req (nc_date inp) ''receiptDate'') (\<lambda>date.
     rbind (req (nc_deposit inp) ''depositAccountId'') (\<lambda>deposit.
     rbind (req (nc_party inp) ''partyId'') (\<lambda>party.
     rbind (req (nc_cost_centre inp) ''costCentreId'') (\<lambda>cost_centre.
     Inr (r\<lparr>rc_type := nc_type inp, rc_date := date, rc_mode := nc_mode inp, rc_deposit := deposit, rc_party := party,
       rc_project := nc_project inp, rc_cost_centre := cost_centre, rc_purpose := nc_purpose inp, rc_ipc := nc_ipc inp,
       rc_target := nc_target inp, rc_settled := settled, rc_cash := cash, rc_tax := tax, rc_ref := nc_ref inp,
       rc_narration := nc_narration inp\<rparr>))))))))"

definition blank_receipt :: "string \<Rightarrow> string \<Rightarrow> string \<Rightarrow> receipt" where
  "blank_receipt i co fy =
     \<lparr>rc_id = i, rc_company = co, rc_fy = fy, rc_type = General, rc_date = [], rc_mode = RecCash, rc_deposit = [], rc_party = [],
      rc_project = None, rc_cost_centre = [], rc_purpose = None, rc_ipc = None, rc_target = None, rc_settled = 0, rc_cash = 0,
      rc_tax = 0, rc_ref = None, rc_narration = None, rc_status = RecDraft, rc_entry_no = None, rc_entry = None,
      rc_posted_at = None, rc_posted_by = None, rc_version = 1\<rparr>"

definition receipt_create_draft ::
  "dec_lib \<Rightarrow> string \<Rightarrow> string \<Rightarrow> string \<Rightarrow> new_receipt \<Rightarrow> domain_error + receipt" where
  "receipt_create_draft D i co fy inp = receipt_fill D inp (blank_receipt i co fy)"

definition receipt_assert_draft :: "receipt \<Rightarrow> domain_error + unit" where
  "receipt_assert_draft r = require (rc_status r = RecDraft) (NotDraftError (receipt_status_name (rc_status r)))"

text \<open>The patch over the current fields; \<open>updateDraft\<close> and the repost merge alike.\<close>

definition receipt_merge :: "edit_receipt \<Rightarrow> receipt \<Rightarrow> new_receipt" where
  "receipt_merge x r =
     \<lparr>nc_type = patch_nullish (xc_type x) (rc_type r), nc_date = patch_nullish (xc_date x) (rc_date r),
      nc_mode = patch_nullish (xc_mode x) (rc_mode r), nc_deposit = patch_nullish (xc_deposit x) (rc_deposit r),
      nc_party = patch_nullish (xc_party x) (rc_party r), nc_project = patch_defined (xc_project x) (rc_project r),
      nc_cost_centre = patch_nullish (xc_cost_centre x) (rc_cost_centre r), nc_purpose = patch_defined (xc_purpose x) (rc_purpose r),
      nc_ipc = patch_defined (xc_ipc x) (rc_ipc r), nc_target = patch_defined (xc_target x) (rc_target r),
      nc_settled = patch_nullish (xc_settled x) (Dec (rc_settled r)), nc_tax = patch_defined (xc_tax x) (Some (Dec (rc_tax r))),
      nc_ref = patch_defined (xc_ref x) (rc_ref r), nc_narration = patch_defined (xc_narration x) (rc_narration r)\<rparr>"

definition receipt_update_draft :: "dec_lib \<Rightarrow> edit_receipt \<Rightarrow> receipt \<Rightarrow> domain_error + receipt" where
  "receipt_update_draft D x r = rbind (receipt_assert_draft r) (\<lambda>_. receipt_fill D (receipt_merge x r) r)"

definition receipt_assert_postable :: "dec_lib \<Rightarrow> receipt \<Rightarrow> domain_error + unit" where
  "receipt_assert_postable D r =
     rbind (receipt_assert_draft r) (\<lambda>_.
     rbind (assert_composition D (rc_settled r) (rc_cash r) (rc_tax r)) (\<lambda>_.
     rbind (assert_reference_xor (rc_type r) (rc_ipc r) (rc_target r)) (\<lambda>_.
     rbind (assert_cheque_ref (rc_mode r) (rc_ref r)) (\<lambda>_.
     rbind (require (\<not> (rc_type r = IpcLinked \<and> \<not> truthy (rc_project r))) (ValidationError ''projectId'')) (\<lambda>_.
     require (truthy (rc_purpose r)) (ValidationError ''purposeId''))))))"

definition assert_within_outstanding :: "money \<Rightarrow> receipt \<Rightarrow> domain_error + unit" where
  "assert_within_outstanding outstanding r =
     require (\<not> outstanding < rc_settled r) (OverApplicationError (rc_settled r) outstanding)"

definition receipt_mark_posted :: "string \<Rightarrow> string \<Rightarrow> string \<Rightarrow> int \<Rightarrow> receipt \<Rightarrow> domain_error + receipt" where
  "receipt_mark_posted entry_id entry_no who now r =
     rbind (receipt_assert_draft r) (\<lambda>_.
     Inr (r\<lparr>rc_status := RecPosted, rc_entry := Some entry_id, rc_entry_no := Some entry_no, rc_posted_by := Some who,
       rc_posted_at := Some now\<rparr>))"

definition receipt_assert_posted :: "receipt \<Rightarrow> domain_error + unit" where
  "receipt_assert_posted r = require (rc_status r = RecPosted) (NotPostedError (receipt_status_name (rc_status r)))"

definition receipt_mark_cancelled :: "receipt \<Rightarrow> domain_error + receipt" where
  "receipt_mark_cancelled r = rbind (receipt_assert_posted r) (\<lambda>_. Inr (r\<lparr>rc_status := RecCancelled\<rparr>))"

section \<open>The command\<close>

record receipt_accounts =
  rm_receivable :: string
  rm_tax :: string

record target_facts =
  tf_is_control :: bool
  tf_type :: account_type

definition receipt_line ::
  "receipt \<Rightarrow> string \<Rightarrow> string option \<Rightarrow> money \<Rightarrow> money \<Rightarrow> account_type \<Rightarrow> bool \<Rightarrow> posting_line" where
  "receipt_line r account party dr cr ty ctl =
     dim_line account (rc_project r) (Some (rc_cost_centre r)) (rc_purpose r) party dr cr ty ctl"

definition receipt_lines :: "receipt_accounts \<Rightarrow> target_facts option \<Rightarrow> receipt \<Rightarrow> posting_line list" where
  "receipt_lines m facts r =
     (case rc_type r of
        IpcLinked \<Rightarrow>
          (if 0 < rc_cash r then [receipt_line r (rc_deposit r) None (rc_cash r) 0 ASSET False] else []) @
          (if 0 < rc_tax r then [receipt_line r (rm_tax m) None (rc_tax r) 0 ASSET False] else []) @
          [receipt_line r (rm_receivable m) (Some (rc_party r)) 0 (rc_settled r) ASSET True]
      | General \<Rightarrow>
          (let ctl = (case facts of None \<Rightarrow> False | Some f \<Rightarrow> tf_is_control f);
               ty = (case facts of None \<Rightarrow> INCOME | Some f \<Rightarrow> tf_type f) in
           [receipt_line r (rc_deposit r) None (rc_settled r) 0 ASSET False,
            receipt_line r (or_empty (rc_target r)) (if ctl then Some (rc_party r) else None) 0 (rc_settled r) ty ctl]))"

definition build_receipt_command ::
  "receipt_accounts \<Rightarrow> string \<Rightarrow> target_facts option \<Rightarrow> receipt \<Rightarrow> posting_command" where
  "build_receipt_command m posted_by facts r =
     \<lparr>pc_company = rc_company r, pc_fy = rc_fy r, pc_voucher_type = RECEIPT, pc_voucher_date = rc_date r,
      pc_source_type = ''Receipt'', pc_source_id = rc_id r, pc_posted_by = posted_by, pc_narration = rc_narration r,
      pc_lines = receipt_lines m facts r\<rparr>"

end
