(* ===== verification/Receipt_State.thy ===== *)
theory Receipt_State
  imports Receipt Settlements Sales_Use_Cases
begin

text \<open>
  The tables of the receipt module (\<open>src/src/modules/receipt/infrastructure/\<close>) beside those of the sales module, the
  adapters to the certificates and the chart of accounts, and the repository.  Nothing sets the soft-delete column.
\<close>

section \<open>State\<close>

record target_account =
  ta_id :: string
  ta_company :: string
  ta_type :: account_type
  ta_active :: bool

record receipt_db = sales_db +
  rb_targets :: "target_account list"
  rb_rows :: "receipt list"

section \<open>Adapters\<close>

definition receipt_by_code :: "string \<Rightarrow> string \<Rightarrow> string \<Rightarrow> account_row list \<Rightarrow> domain_error + string" where
  "receipt_by_code co code role accs =
     (case List.find (\<lambda>a. ac_company a = co \<and> ac_code a = code) accs of
        None \<Rightarrow> Inl (ReceiptAccountNotConfiguredError role) | Some a \<Rightarrow> Inr (ac_id a))"

definition receipt_accounts_of :: "string \<Rightarrow> account_row list \<Rightarrow> domain_error + receipt_accounts" where
  "receipt_accounts_of co accs =
     rbind (receipt_by_code co ''1200'' ''accounts-receivable control'' accs) (\<lambda>ar.
     rbind (receipt_by_code co ''1220'' ''tax-deducted-at-source recoverable'' accs) (\<lambda>tax.
     Inr \<lparr>rm_receivable = ar, rm_tax = tax\<rparr>))"

definition general_target_facts :: "string \<Rightarrow> string \<Rightarrow> target_account list \<Rightarrow> target_facts option" where
  "general_target_facts co i tbl =
     (case List.find (\<lambda>a. ta_id a = i \<and> ta_company a = co \<and> ta_active a) tbl of
        None \<Rightarrow> None
      | Some a \<Rightarrow> (case ta_type a of
            INCOME \<Rightarrow> Some \<lparr>tf_is_control = False, tf_type = INCOME\<rparr>
          | LIABILITY \<Rightarrow> Some \<lparr>tf_is_control = True, tf_type = LIABILITY\<rparr>
          | _ \<Rightarrow> None))"

definition find_posted_ipc :: "string \<Rightarrow> string \<Rightarrow> ipc_row list \<Rightarrow> ipc option" where
  "find_posted_ipc i co tbl = map_option ir_ipc (List.find (\<lambda>r. ip_id (ir_ipc r) = i \<and> ip_company (ir_ipc r) = co) tbl)"

text \<open>What stands of a receipt, and the sum the outstanding amount of a certificate is computed from.\<close>

definition receipt_live :: "string \<times> string \<Rightarrow> receipt \<Rightarrow> bool" where
  "receipt_live k r \<longleftrightarrow> rc_company r = fst k \<and> rc_ipc r = Some (snd k) \<and> rc_type r = IpcLinked \<and> rc_status r = RecPosted"

definition received_total :: "string \<Rightarrow> string \<Rightarrow> journal_entry list \<Rightarrow> receipt list \<Rightarrow> money" where
  "received_total co i es rows = settled_total receipt_live rc_entry (\<lambda>_. rc_settled) (co, i) es rows"

definition outstanding_for_ipc :: "dec_lib \<Rightarrow> string \<Rightarrow> string \<Rightarrow> 'a receipt_db_scheme \<Rightarrow> money" where
  "outstanding_for_ipc D i co s =
     (case find_posted_ipc i co (sal_ipcs s) of
        None \<Rightarrow> 0
      | Some p \<Rightarrow> let x = d_minus D (ip_currently_due p) (received_total co i (db_entries s) (rb_rows s))
                  in if x < 0 then 0 else x)"

text \<open>The view \<open>receipt_allocation\<close> the sales module reads.\<close>

definition receipt_allocation :: "journal_entry list \<Rightarrow> receipt list \<Rightarrow> (string option \<times> string \<times> money) list" where
  "receipt_allocation es rows =
     map (\<lambda>r. (rc_ipc r, rc_id r, rc_settled r))
       (filter (\<lambda>r. rc_type r = IpcLinked \<and> rc_status r = RecPosted \<and>
          (case rc_entry r of None \<Rightarrow> False | Some j \<Rightarrow> list_ex (\<lambda>e. je_id e = j) es \<and> \<not> entry_reversed j es)) rows)"

section \<open>The repository\<close>

definition stored_receipt :: "dec_lib \<Rightarrow> receipt \<Rightarrow> receipt" where
  "stored_receipt D r = r\<lparr>rc_settled := to_dp D 4 (rc_settled r), rc_cash := to_dp D 4 (rc_cash r), rc_tax := to_dp D 4 (rc_tax r)\<rparr>"

definition receipt_checks :: "receipt \<Rightarrow> domain_error + unit" where
  "receipt_checks r =
     rbind (require (\<bar>rc_settled r\<bar> < 10 ^ 14 \<and> \<bar>rc_cash r\<bar> < 10 ^ 14 \<and> \<bar>rc_tax r\<bar> < 10 ^ 14) (DatabaseError ''numeric field overflow'')) (\<lambda>_.
     rbind (require (rc_settled r = rc_cash r + rc_tax r) (DatabaseError ''chk_receipt_composition'')) (\<lambda>_.
     rbind (require (0 < rc_settled r) (DatabaseError ''chk_receipt_settled_pos'')) (\<lambda>_.
     rbind (require (0 \<le> rc_cash r) (DatabaseError ''chk_receipt_cash_nonneg'')) (\<lambda>_.
     rbind (require (0 \<le> rc_tax r) (DatabaseError ''chk_receipt_tax_nonneg'')) (\<lambda>_.
     rbind (require ((rc_ipc r \<noteq> None \<and> rc_target r = None \<and> rc_type r = IpcLinked) \<or>
          (rc_ipc r = None \<and> rc_target r \<noteq> None \<and> rc_type r = General)) (DatabaseError ''chk_receipt_reference_xor'')) (\<lambda>_.
     require (rc_mode r = RecCash \<or> rc_ref r \<noteq> None) (DatabaseError ''chk_receipt_cheque_ref'')))))))"

definition receipt_insert :: "dec_lib \<Rightarrow> receipt \<Rightarrow> receipt list \<Rightarrow> domain_error + receipt list" where
  "receipt_insert D r tbl =
     (let q = (stored_receipt D r)\<lparr>rc_version := 1\<rparr> in
      rbind (receipt_checks q) (\<lambda>_.
      rbind (require (\<not> list_ex (\<lambda>x. rc_id x = rc_id q) tbl) (DatabaseError ''receipt_pkey'')) (\<lambda>_.
      Inr (tbl @ [q]))))"

text \<open>\<open>save\<close> keeps the company and the financial year of the row.\<close>

definition receipt_hit :: "receipt \<Rightarrow> nat \<Rightarrow> receipt \<Rightarrow> bool" where
  "receipt_hit r expected x \<longleftrightarrow> rc_id x = rc_id r \<and> rc_company x = rc_company r \<and> rc_version x = expected"

definition receipt_saved :: "dec_lib \<Rightarrow> receipt \<Rightarrow> nat \<Rightarrow> receipt \<Rightarrow> receipt" where
  "receipt_saved D r expected x =
     (stored_receipt D r)\<lparr>rc_id := rc_id x, rc_company := rc_company x, rc_fy := rc_fy x, rc_version := expected + 1\<rparr>"

definition receipt_save :: "dec_lib \<Rightarrow> receipt \<Rightarrow> nat \<Rightarrow> receipt list \<Rightarrow> domain_error + receipt list" where
  "receipt_save D r expected tbl =
     (if \<not> list_ex (receipt_hit r expected) tbl then Inl OptimisticLockConflictError
      else rbind (receipt_checks (stored_receipt D r)) (\<lambda>_.
           Inr (update_where (receipt_hit r expected) (receipt_saved D r expected) tbl)))"

definition receipt_find :: "string \<Rightarrow> string \<Rightarrow> receipt list \<Rightarrow> receipt option" where
  "receipt_find i co tbl = List.find (\<lambda>r. rc_id r = i \<and> rc_company r = co) tbl"

definition receipt_delete :: "string \<Rightarrow> string \<Rightarrow> receipt list \<Rightarrow> receipt list" where
  "receipt_delete i co tbl = filter (\<lambda>r. \<not> (rc_id r = i \<and> rc_company r = co)) tbl"

end
