(* ===== verification/Receipt_Use_Cases.thy ===== *)
theory Receipt_Use_Cases
  imports Receipt_State
begin

text \<open>
  The services of the receipt module (\<open>src/src/modules/receipt/application/\<close>), each one transaction: a draft against a
  posted certificate or a general target is created, edited, deleted or posted; a posted receipt is cancelled or
  reposted.
\<close>

record receipt_input =
  ci_type :: receipt_type
  ci_date :: string
  ci_mode :: receipt_mode
  ci_deposit :: string
  ci_party :: "string option"
  ci_project :: "string option"
  ci_cost_centre :: "string option"
  ci_purpose :: "string option"
  ci_ipc :: "string option"
  ci_target :: "string option"
  ci_settled :: decimal_input
  ci_tax :: "decimal_input option"
  ci_ref :: "string option"
  ci_narration :: "string option"

definition posted_ipc_of :: "string \<Rightarrow> string \<Rightarrow> ipc_row list \<Rightarrow> domain_error + ipc" where
  "posted_ipc_of i co tbl =
     rbind (fetch (NotFoundError i) (find_posted_ipc i co tbl)) (\<lambda>p.
     rbind (require (ip_status p = IpcPosted) (IpcNotPostedError (ip_id p) (ipc_status_name (ip_status p)))) (\<lambda>_. Inr p))"

definition resolve_receipt_input :: "string \<Rightarrow> receipt_input \<Rightarrow> 'a receipt_db_scheme \<Rightarrow> domain_error + new_receipt" where
  "resolve_receipt_input co inp s =
     (let base = (\<lambda>party project centre purpose ipc_id target.
        \<lparr>nc_type = ci_type inp, nc_date = ci_date inp, nc_mode = ci_mode inp, nc_deposit = ci_deposit inp, nc_party = party,
         nc_project = project, nc_cost_centre = centre, nc_purpose = purpose, nc_ipc = ipc_id, nc_target = target,
         nc_settled = ci_settled inp, nc_tax = ci_tax inp, nc_ref = ci_ref inp, nc_narration = ci_narration inp\<rparr>)
      in case ci_type inp of
        IpcLinked \<Rightarrow>
          rbind (require (truthy (ci_ipc inp)) (ValidationError ''ipcId'')) (\<lambda>_.
          rbind (posted_ipc_of (or_empty (ci_ipc inp)) co (sal_ipcs s)) (\<lambda>p.
          Inr (base (ip_customer p) (Some (ip_project p)) (ip_cost_centre p) (Some (ip_purpose p)) (ci_ipc inp) None)))
      | General \<Rightarrow>
          rbind (require (truthy (ci_target inp)) (ValidationError ''generalTargetAccountId'')) (\<lambda>_.
          rbind (fetch (InvalidGeneralTargetError (or_empty (ci_target inp)))
            (general_target_facts co (or_empty (ci_target inp)) (rb_targets s))) (\<lambda>_.
          rbind (require (truthy (ci_party inp)) (ValidationError ''partyId'')) (\<lambda>_.
          rbind (require (truthy (ci_cost_centre inp)) (ValidationError ''costCentreId'')) (\<lambda>_.
          Inr (base (or_empty (ci_party inp)) (ci_project inp) (or_empty (ci_cost_centre inp)) (ci_purpose inp) None (ci_target inp)))))))"

definition check_outstanding :: "dec_lib \<Rightarrow> string \<Rightarrow> receipt \<Rightarrow> 'a receipt_db_scheme \<Rightarrow> domain_error + unit" where
  "check_outstanding D co r s =
     (if rc_type r = IpcLinked \<and> truthy (rc_ipc r)
      then assert_within_outstanding (outstanding_for_ipc D (or_empty (rc_ipc r)) co s) r else Inr ())"

definition create_receipt ::
  "dec_lib \<Rightarrow> (nat \<Rightarrow> string) \<Rightarrow> receipt_input \<Rightarrow> actor \<Rightarrow> 'a receipt_db_scheme \<Rightarrow> domain_error + (string \<times> 'a receipt_db_scheme)" where
  "create_receipt D mk inp act = uow_run (\<lambda>s.
     rbind (resolve_receipt_input (act_company act) inp s) (\<lambda>new.
     case ids_next mk s of (i, s1) \<Rightarrow>
     rbind (receipt_create_draft D i (act_company act) (act_fy act) new) (\<lambda>r.
     rbind (check_outstanding D (act_company act) r s1) (\<lambda>_.
     rbind (receipt_insert D r (rb_rows s1)) (\<lambda>tbl.
     Inr (i, audit_record ''CREATE'' ''Receipt'' i act (s1\<lparr>rb_rows := tbl\<rparr>)))))))"

text \<open>A certificate the patched receipt refers to overrides party and dimensions of the patch.\<close>

definition receipt_dims :: "string \<Rightarrow> edit_receipt \<Rightarrow> receipt \<Rightarrow> 'a receipt_db_scheme \<Rightarrow> domain_error + edit_receipt" where
  "receipt_dims co x r s =
     (let i = patch_defined (xc_ipc x) (rc_ipc r) in
      if patch_nullish (xc_type x) (rc_type r) = IpcLinked \<and> truthy i
      then rbind (posted_ipc_of (or_empty i) co (sal_ipcs s)) (\<lambda>p.
           Inr (x\<lparr>xc_party := Given (ip_customer p), xc_project := Given (ip_project p),
             xc_cost_centre := Given (ip_cost_centre p), xc_purpose := Given (ip_purpose p)\<rparr>))
      else Inr x)"

definition update_receipt ::
  "dec_lib \<Rightarrow> string \<Rightarrow> edit_receipt \<Rightarrow> nat \<Rightarrow> actor \<Rightarrow> 'a receipt_db_scheme \<Rightarrow> domain_error + (unit \<times> 'a receipt_db_scheme)" where
  "update_receipt D i x version act = uow_run (\<lambda>s.
     rbind (fetch (NotFoundError i) (receipt_find i (act_company act) (rb_rows s))) (\<lambda>r.
     rbind (assert_version (rc_version r) version) (\<lambda>_.
     rbind (receipt_dims (act_company act) x r s) (\<lambda>y.
     rbind (receipt_update_draft D y r) (\<lambda>q.
     rbind (check_outstanding D (act_company act) q s) (\<lambda>_.
     rbind (receipt_save D q version (rb_rows s)) (\<lambda>tbl.
     Inr ((), audit_record ''UPDATE'' ''Receipt'' i act (s\<lparr>rb_rows := tbl\<rparr>)))))))))"

definition delete_receipt ::
  "string \<Rightarrow> actor \<Rightarrow> 'a receipt_db_scheme \<Rightarrow> domain_error + (unit \<times> 'a receipt_db_scheme)" where
  "delete_receipt i act = uow_run (\<lambda>s.
     rbind (fetch (NotFoundError i) (receipt_find i (act_company act) (rb_rows s))) (\<lambda>r.
     rbind (receipt_assert_draft r) (\<lambda>_.
     Inr ((), audit_record ''DELETE'' ''Receipt'' i act (s\<lparr>rb_rows := receipt_delete i (act_company act) (rb_rows s)\<rparr>)))))"

text \<open>The checks of a posting, and the facts of a general target.\<close>

definition receipt_target ::
  "dec_lib \<Rightarrow> string \<Rightarrow> receipt \<Rightarrow> 'a receipt_db_scheme \<Rightarrow> domain_error + target_facts option" where
  "receipt_target D co r s =
     (case rc_type r of
        IpcLinked \<Rightarrow>
          rbind (require (truthy (rc_ipc r)) (ValidationError ''ipcId'')) (\<lambda>_.
          rbind (posted_ipc_of (or_empty (rc_ipc r)) co (sal_ipcs s)) (\<lambda>_.
          rbind (assert_within_outstanding (outstanding_for_ipc D (or_empty (rc_ipc r)) co s) r) (\<lambda>_. Inr None)))
      | General \<Rightarrow>
          rbind (require (truthy (rc_target r)) (ValidationError ''generalTargetAccountId'')) (\<lambda>_.
          rbind (fetch (ValidationError ''generalTargetAccountId'')
            (general_target_facts co (or_empty (rc_target r)) (rb_targets s))) (\<lambda>f. Inr (Some f))))"

definition post_receipt ::
  "dec_lib \<Rightarrow> (nat \<Rightarrow> string) \<Rightarrow> 'a receipt_db_scheme ports \<Rightarrow> string \<Rightarrow> actor \<Rightarrow> int \<Rightarrow> 'a receipt_db_scheme \<Rightarrow>
   domain_error + ((string \<times> string) \<times> 'a receipt_db_scheme)" where
  "post_receipt D mk P i act now = uow_run (\<lambda>s.
     rbind (fetch (NotFoundError i) (receipt_find i (act_company act) (rb_rows s))) (\<lambda>r.
     rbind (receipt_assert_postable D r) (\<lambda>_.
     rbind (receipt_target D (act_company act) r s) (\<lambda>facts.
     rbind (receipt_accounts_of (act_company act) (sal_accounts s)) (\<lambda>m.
     rbind (post D mk P (build_receipt_command m (act_user act) facts r) now s) (\<lambda>(e, s1).
     rbind (receipt_mark_posted (je_id e) (je_no e) (act_user act) now r) (\<lambda>q.
     rbind (receipt_save D q (rc_version q) (rb_rows s1)) (\<lambda>tbl.
     Inr ((je_id e, je_no e), audit_record ''POST'' ''Receipt'' i act (s1\<lparr>rb_rows := tbl\<rparr>))))))))))"

definition cancel_receipt ::
  "dec_lib \<Rightarrow> (nat \<Rightarrow> string) \<Rightarrow> 'a receipt_db_scheme ports \<Rightarrow> string \<Rightarrow> string \<Rightarrow> actor \<Rightarrow> int \<Rightarrow> 'a receipt_db_scheme \<Rightarrow>
   domain_error + ((string \<times> string) \<times> 'a receipt_db_scheme)" where
  "cancel_receipt D mk P i reason act now = uow_run (\<lambda>s.
     rbind (fetch (NotFoundError i) (receipt_find i (act_company act) (rb_rows s))) (\<lambda>r.
     rbind (receipt_assert_posted r) (\<lambda>_.
     rbind (require (truthy (rc_entry r)) (ValidationError i)) (\<lambda>_.
     rbind (reverse D mk P (the (rc_entry r)) (act_company act) reason (act_user act) now s) (\<lambda>(e, s1).
     rbind (receipt_mark_cancelled r) (\<lambda>q.
     rbind (receipt_save D q (rc_version q) (rb_rows s1)) (\<lambda>tbl.
     Inr ((je_id e, je_no e), audit_record ''CANCEL'' ''Receipt'' i act (s1\<lparr>rb_rows := tbl\<rparr>)))))))))"

text \<open>The corrected input of a repost, with the dimensions of its certificate, and the facts of its target.\<close>

definition corrected_receipt ::
  "string \<Rightarrow> edit_receipt \<Rightarrow> receipt \<Rightarrow> 'a receipt_db_scheme \<Rightarrow> domain_error + (new_receipt \<times> target_facts option)" where
  "corrected_receipt co x r s =
     (let merged = receipt_merge x r in
      case nc_type merged of
        IpcLinked \<Rightarrow>
          rbind (require (truthy (nc_ipc merged)) (ValidationError ''ipcId'')) (\<lambda>_.
          rbind (posted_ipc_of (or_empty (nc_ipc merged)) co (sal_ipcs s)) (\<lambda>p.
          Inr (merged\<lparr>nc_party := ip_customer p, nc_project := Some (ip_project p), nc_cost_centre := ip_cost_centre p,
            nc_purpose := Some (ip_purpose p)\<rparr>, None)))
      | General \<Rightarrow>
          if truthy (nc_target merged)
          then rbind (fetch (ValidationError ''generalTargetAccountId'')
                 (general_target_facts co (or_empty (nc_target merged)) (rb_targets s))) (\<lambda>f. Inr (merged, Some f))
          else Inr (merged, None))"

definition repost_receipt ::
  "dec_lib \<Rightarrow> (nat \<Rightarrow> string) \<Rightarrow> 'a receipt_db_scheme ports \<Rightarrow> string \<Rightarrow> edit_receipt \<Rightarrow> string \<Rightarrow> actor \<Rightarrow> int \<Rightarrow>
   'a receipt_db_scheme \<Rightarrow> domain_error + ((journal_entry \<times> journal_entry) \<times> 'a receipt_db_scheme)" where
  "repost_receipt D mk P i x reason act now = uow_run (\<lambda>s.
     rbind (fetch (NotFoundError i) (receipt_find i (act_company act) (rb_rows s))) (\<lambda>r.
     rbind (receipt_assert_posted r) (\<lambda>_.
     rbind (require (truthy (rc_entry r)) (ValidationError i)) (\<lambda>_.
     rbind (corrected_receipt (act_company act) x r s) (\<lambda>(merged, facts).
     rbind (receipt_create_draft D i (act_company act) (act_fy act) merged) (\<lambda>c.
     rbind (receipt_assert_postable D c) (\<lambda>_.
     rbind (check_outstanding D (act_company act) c s) (\<lambda>_.
     rbind (receipt_accounts_of (act_company act) (sal_accounts s)) (\<lambda>m.
     rbind (repost D mk P (the (rc_entry r)) (act_company act) reason (act_user act)
              (build_receipt_command m (act_user act) facts c) now s) (\<lambda>((rv, e), s1).
     rbind (receipt_mark_posted (je_id e) (je_no e) (act_user act) now c) (\<lambda>q.
     rbind (receipt_save D q (rc_version r) (rb_rows s1)) (\<lambda>tbl.
     Inr ((rv, e), audit_record ''POST'' ''Receipt'' i act (s1\<lparr>rb_rows := tbl\<rparr>))))))))))))))"

end
