(* ===== verification/Receipt_Soundness.thy ===== *)
theory Receipt_Soundness
  imports Receipt_Use_Cases Sales_Soundness
begin

text \<open>
  The steps of the program as the receipt module sees them, its invariant (every receipt settles its cash plus its tax,
  every posted receipt has its entry), and what a step may do to the amount collected on a certificate.
\<close>

section \<open>Steps\<close>

definition receipts_kept :: "'a receipt_db_scheme \<Rightarrow> 'a receipt_db_scheme \<Rightarrow> bool" where
  "receipts_kept s s' \<longleftrightarrow> rb_rows s' = rb_rows s"

text \<open>What is due on a certificate, when it is posted.\<close>

definition due_of :: "string \<Rightarrow> string \<Rightarrow> ipc_row list \<Rightarrow> money option" where
  "due_of co i tbl = map_option ip_currently_due (find_posted_ipc i co tbl)"

text \<open>
  The sales module changes, cancels and reposts its certificates as its own steps allow, whatever has been collected
  on them; like every other module it leaves the table of receipts alone.
\<close>

inductive receipt_step ::
  "bool \<Rightarrow> dec_lib \<Rightarrow> (nat \<Rightarrow> string) \<Rightarrow> 'a receipt_db_scheme \<Rightarrow> 'a receipt_db_scheme \<Rightarrow> bool" for nn D mk where
  c_create: "create_receipt D mk inp act s = Inr (x, s') \<Longrightarrow> receipt_step nn D mk s s'"
| c_update: "update_receipt D i patch v act s = Inr (u, s') \<Longrightarrow> receipt_step nn D mk s s'"
| c_delete: "delete_receipt i act s = Inr (u, s') \<Longrightarrow> receipt_step nn D mk s s'"
| c_post: "post_receipt D mk (erp_ports mk) i act now s = Inr (x, s') \<Longrightarrow> receipt_step nn D mk s s'"
| c_cancel: "cancel_receipt D mk (erp_ports mk) i reason act now s = Inr (x, s') \<Longrightarrow> receipt_step nn D mk s s'"
| c_repost: "repost_receipt D mk (erp_ports mk) i patch reason act now s = Inr (x, s') \<Longrightarrow> receipt_step nn D mk s s'"
| c_sales: "sales_step nn D mk s s' \<Longrightarrow> receipts_kept s s' \<Longrightarrow> receipt_step nn D mk s s'"

section \<open>The invariant\<close>

definition stored_receipt_ok :: "receipt \<Rightarrow> bool" where
  "stored_receipt_ok r \<longleftrightarrow> receipt_checks r = Inr () \<and> on_grid 4 (rc_settled r) \<and> on_grid 4 (rc_cash r) \<and> on_grid 4 (rc_tax r)"

lemma stored_receipt_okD:
  assumes "stored_receipt_ok r"
  shows "0 < rc_settled r" "0 \<le> rc_cash r" "0 \<le> rc_tax r" "rc_settled r = rc_cash r + rc_tax r" "on_grid 4 (rc_settled r)"
    "on_grid 4 (rc_cash r)" "on_grid 4 (rc_tax r)"
  using assms by (auto simp: stored_receipt_ok_def receipt_checks_def elim!: rbindE)

definition receipt_backed :: "journal_entry list \<Rightarrow> receipt \<Rightarrow> bool" where
  "receipt_backed es r \<longleftrightarrow> (\<exists>e \<in> set es. \<exists>m facts. rc_entry r = Some (je_id e) \<and>
     je_source_type e = ''Receipt'' \<and> je_source_id e = rc_id r \<and> je_company e = rc_company r \<and> \<not> je_is_reversal e \<and>
     je_lines e = lines_of (receipt_lines m facts r))"

definition receipt_row_sound :: "journal_entry list \<Rightarrow> receipt \<Rightarrow> bool" where
  "receipt_row_sound es r \<longleftrightarrow> stored_receipt_ok r \<and> (rc_status r = RecPosted \<longrightarrow> receipt_backed es r)"

definition receipts_sound :: "journal_entry list \<Rightarrow> receipt list \<Rightarrow> bool" where
  "receipts_sound es rows \<longleftrightarrow> distinct (map rc_id rows) \<and> (\<forall>r \<in> set rows. receipt_row_sound es r)"

abbreviation received_so_far :: "string \<Rightarrow> string \<Rightarrow> 'a receipt_db_scheme \<Rightarrow> money" where
  "received_so_far co i s \<equiv> received_total co i (db_entries s) (rb_rows s)"


definition receipt_inv :: "dec_lib \<Rightarrow> (nat \<Rightarrow> string) \<Rightarrow> 'a receipt_db_scheme \<Rightarrow> bool" where
  "receipt_inv D mk s \<longleftrightarrow> sales_inv D mk s \<and> receipts_sound (db_entries s) (rb_rows s)"

lemma receipt_invD:
  assumes "receipt_inv D mk s"
  shows "sales_inv D mk s" "erp_inv mk s" "receipts_sound (db_entries s) (rb_rows s)"
  using assms by (auto simp: receipt_inv_def sales_inv_def)

text \<open>A step collects within what is due: where it raises the amount received, that amount is at most what is due.\<close>

definition collects_within :: "'a receipt_db_scheme \<Rightarrow> 'a receipt_db_scheme \<Rightarrow> bool" where
  "collects_within s s' \<longleftrightarrow> (\<forall>co i. received_so_far co i s' \<le> received_so_far co i s \<or>
     (\<exists>x. due_of co i (sal_ipcs s') = Some x \<and> received_so_far co i s' \<le> x))"

definition receipt_safe :: "dec_lib \<Rightarrow> (nat \<Rightarrow> string) \<Rightarrow> 'a receipt_db_scheme \<Rightarrow> 'a receipt_db_scheme \<Rightarrow> bool" where
  "receipt_safe D mk s s' \<longleftrightarrow> receipt_inv D mk s' \<and> collects_within s s'"

lemma receipt_more:
  fixes s s' :: "'a receipt_db_scheme"
  assumes "db.more s' = db.more s" shows "rb_rows s' = rb_rows s" "rb_targets s' = rb_targets s"
  using assms by (cases s, cases s', simp)+

lemma receipt_audit [simp]:
  "rb_rows (audit_record a b c d s) = rb_rows s" "rb_targets (audit_record a b c d s) = rb_targets s"
  by (simp_all add: audit_record_def)

section \<open>Received totals\<close>

interpretation rec: settlement_rows rc_id receipt_live rc_entry "\<lambda>_. rc_settled" receipt_row_sound
  by unfold_locales (auto simp: receipt_row_sound_def receipt_live_def receipt_backed_def dest: stored_receipt_okD(1,5))

lemma receipts_soundD:
  assumes "receipts_sound es rows"
  shows "distinct (map rc_id rows)" and "\<And>r. r \<in> set rows \<Longrightarrow> stored_receipt_ok r"
    and "\<And>r. r \<in> set rows \<Longrightarrow> rc_status r = RecPosted \<Longrightarrow> receipt_backed es r"
    and "\<forall>r \<in> set rows. receipt_row_sound es r"
  using assms by (auto simp: receipts_sound_def receipt_row_sound_def)

lemma receipts_sound_grows: "receipts_sound es rows \<Longrightarrow> set es \<subseteq> set es' \<Longrightarrow> receipts_sound es' rows"
  unfolding receipts_sound_def receipt_row_sound_def receipt_backed_def by blast

lemma received_nonneg: "receipts_sound es rows \<Longrightarrow> 0 \<le> received_total co i es rows"
  unfolding received_total_def by (rule rec.settled_nonneg [OF receipts_soundD(4)])

lemma received_grid: "receipts_sound es rows \<Longrightarrow> on_grid 4 (received_total co i es rows)"
  unfolding received_total_def by (rule rec.settled_grid [OF receipts_soundD(4)])

lemma received_later: "receipts_sound es rows \<Longrightarrow> received_total co i (es @ new) rows \<le> received_total co i es rows"
  unfolding received_total_def by (rule rec.settled_later [OF receipts_soundD(4)])

lemma received_replaced:
  assumes "receipts_sound es rows" and "p \<in> set rows"
  shows "received_total co i (es @ new) (update_where (\<lambda>r. r = p) f rows) \<le> received_total co i es rows +
     (if standing receipt_live rc_entry (co, i) (es @ new) (f p) then rc_settled (f p) else 0)"
  using rec.settled_replaced [OF receipts_soundD(4) [OF assms(1)] receipts_soundD(1) [OF assms(1)] assms(2), of "(co, i)" new f]
  by (auto simp: received_total_def split: if_splits)

section \<open>Rows and what is due\<close>

definition sales_kept :: "'a receipt_db_scheme \<Rightarrow> 'a receipt_db_scheme \<Rightarrow> bool" where
  "sales_kept s s' \<longleftrightarrow> sal_accounts s' = sal_accounts s \<and> sal_ipcs s' = sal_ipcs s \<and> sal_releases s' = sal_releases s"

lemma sales_inv_other:
  assumes "sales_inv D mk s" and "erp_inv mk s'" and "sales_kept s s'" and "db_entries s' = db_entries s @ new"
    and "\<forall>e \<in> set new. \<not> sales_entry e"
  shows "sales_inv D mk s'"
proof -
  have no: "sales_entries co new = []" for co using assms(5) by (auto simp: sales_entries_def filter_empty_conv)
  show ?thesis
    using assms(1,3) by (intro sales_inv_step [OF assms(1,2) _ assms(4)]) (auto simp: sales_kept_def no sales_inv_def)
qed

lemma receipts_sound_replaced:
  assumes "receipts_sound es rows" and "receipt_row_sound (es @ new) (f p)" and "rc_id (f p) = rc_id p"
  shows "receipts_sound (es @ new) (update_where (\<lambda>r. r = p) f rows)"
  unfolding receipts_sound_def
proof (intro conjI ballI)
  show "distinct (map rc_id (update_where (\<lambda>r. r = p) f rows))"
    using receipts_soundD(1) [OF assms(1)] by (subst update_one_keys) (simp_all add: assms(3))
  fix r assume "r \<in> set (update_where (\<lambda>r. r = p) f rows)"
  from update_one_set [OF this] receipts_sound_grows [OF assms(1), of "es @ new"] assms(2)
  show "receipt_row_sound (es @ new) r" by (auto simp: receipts_sound_def)
qed

text \<open>A posted row of a certificate was checked against what was outstanding.\<close>

definition due_room :: "string \<Rightarrow> 'a receipt_db_scheme \<Rightarrow> receipt \<Rightarrow> bool" where
  "due_room co s r \<longleftrightarrow> (\<forall>i. rc_type r = IpcLinked \<longrightarrow> rc_ipc r = Some i \<longrightarrow>
     (\<exists>x. due_of co i (sal_ipcs s) = Some x \<and> received_so_far co i s + rc_settled r \<le> x))"

lemma receipt_row_step:
  assumes "receipt_inv D mk s" and "erp_inv mk s'" and "sales_kept s s'" and "db_entries s' = db_entries s @ new"
    and "\<forall>e \<in> set new. \<not> sales_entry e"
    and "rb_rows s' = update_where (\<lambda>r. r = p) f (rb_rows s)" and "p \<in> set (rb_rows s)"
    and "receipt_row_sound (db_entries s @ new) (f p)" and "rc_id (f p) = rc_id p"
    and "rc_status (f p) = RecPosted \<Longrightarrow> due_room (rc_company (f p)) s (f p)"
  shows "receipt_safe D mk s s'"
proof -
  note inv = receipt_invD [OF assms(1)]
  have "receipts_sound (db_entries s') (rb_rows s')"
    unfolding assms(4,6) by (rule receipts_sound_replaced [where f = f and p = p, OF inv(3) assms(8,9)])
  moreover have "received_so_far co i s' \<le> received_so_far co i s \<or>
     (\<exists>x. due_of co i (sal_ipcs s') = Some x \<and> received_so_far co i s' \<le> x)" for co i
  proof -
    have t: "received_so_far co i s' \<le> received_so_far co i s +
        (if standing receipt_live rc_entry (co, i) (db_entries s') (f p) then rc_settled (f p) else 0)"
      using received_replaced [OF inv(3) assms(7), of co i new f] by (simp add: assms(4,6))
    show ?thesis
    proof (cases "receipt_live (co, i) (f p)")
      case False
      with t show ?thesis by (auto simp: standing_def)
    next
      case True
      then have live: "rc_company (f p) = co" "rc_ipc (f p) = Some i" "rc_type (f p) = IpcLinked" "rc_status (f p) = RecPosted"
        by (simp_all add: receipt_live_def)
      with assms(10) obtain x where x: "due_of co i (sal_ipcs s) = Some x" "received_so_far co i s + rc_settled (f p) \<le> x"
        by (auto simp: due_room_def)
      from assms(8) have "0 < rc_settled (f p)" by (simp add: receipt_row_sound_def stored_receipt_okD(1))
      with t x(2) have "received_so_far co i s' \<le> x" by (auto split: if_splits)
      with x(1) assms(3) show ?thesis by (auto simp: sales_kept_def)
    qed
  qed
  ultimately show ?thesis using sales_inv_other [OF inv(1) assms(2-5)] by (simp add: receipt_safe_def receipt_inv_def collects_within_def)
qed

lemma find_posted_ipc_Some:
  "find_posted_ipc i co tbl = Some p \<Longrightarrow> \<exists>r \<in> set tbl. p = ir_ipc r \<and> ip_id p = i \<and> ip_company p = co"
  by (auto simp: find_posted_ipc_def dest: find_SomeD)

context decimal_js begin

lemma due_within:
  assumes "sales_inv D mk s" and "due_of co i (sal_ipcs s) = Some x" shows "on_grid 4 x" "0 \<le> x" "x < 10 ^ 16"
proof -
  from assms(2) obtain r where r: "r \<in> set (sal_ipcs s)" "x = ip_currently_due (ir_ipc r)"
    by (auto simp: due_of_def dest!: find_posted_ipc_Some)
  with assms(1) have a: "ipc_amounts_ok (ir_ipc r)" "ipc_fits (ir_ipc r)" by (auto simp: sales_inv_def row_sound_def)
  then show "on_grid 4 x" "0 \<le> x" "x < 10 ^ 16" using r(2)
    by (auto simp: ipc_amounts_ok_def amounts_ok_def nonneg_grid_def ipc_fits_def amounts_fit_def)
qed

lemma outstanding_room:
  assumes "receipt_inv D mk s" and "posted_ipc_of i co (sal_ipcs s) = Inr p"
    and "assert_within_outstanding (outstanding_for_ipc D i co s) r = Inr ()" and "0 < rc_settled r"
  shows "\<exists>x. due_of co i (sal_ipcs s) = Some x \<and> received_so_far co i s + rc_settled r \<le> x"
proof -
  note inv = receipt_invD [OF assms(1)]
  from assms(2) have p: "find_posted_ipc i co (sal_ipcs s) = Some p" by (auto simp: posted_ipc_of_def elim!: rbindE)
  let ?x = "ip_currently_due p" and ?y = "received_so_far co i s"
  have due: "due_of co i (sal_ipcs s) = Some ?x" by (simp add: due_of_def p)
  note x = due_within [OF inv(1) due]
  have y: "0 \<le> ?y" "on_grid 4 ?y" using received_nonneg received_grid inv(3) by blast+
  from assms(3) have le: "rc_settled r \<le> (if d_minus D ?x ?y < 0 then 0 else d_minus D ?x ?y)"
    by (auto simp: assert_within_outstanding_def outstanding_for_ipc_def p Let_def not_less)
  have "?y < ?x"
  proof (rule ccontr)
    assume "\<not> ?y < ?x"
    then have "d_minus D ?x ?y \<le> 0" using rnd_nonpos [of "?x - ?y"] by (simp add: d_minus_def)
    with le assms(4) show False by (auto split: if_splits)
  qed
  then have "exact_range (?x - ?y)" using x y by (auto simp: exact_range_def)
  from minus_exact [OF this] le \<open>?y < ?x\<close> due show ?thesis by auto
qed

end

end
