(* ===== verification/Receipt_Steps.thy ===== *)
theory Receipt_Steps
  imports Receipt_Soundness
begin

text \<open>
  Every committed operation keeps the invariant of the receipt module and collects within what is due.
\<close>

section \<open>Rows as they are stored\<close>

lemma receipt_find_Some: "receipt_find i co tbl = Some r \<Longrightarrow> r \<in> set tbl \<and> rc_id r = i \<and> rc_company r = co"
  by (auto simp: receipt_find_def dest: find_SomeD)

lemma receipt_save_effect:
  assumes "receipt_save D q v tbl = Inr tbl'" and "distinct (map rc_id tbl)" and "p \<in> set tbl" and "rc_id q = rc_id p"
  shows "tbl' = update_where (\<lambda>r. r = p) (receipt_saved D q v) tbl" and "receipt_checks (stored_receipt D q) = Inr ()"
proof -
  from assms(1) have h: "list_ex (receipt_hit q v) tbl" and t: "tbl' = update_where (receipt_hit q v) (receipt_saved D q v) tbl"
    and c: "receipt_checks (stored_receipt D q) = Inr ()"
    by (auto simp: receipt_save_def elim!: rbindE split: if_splits)
  show "tbl' = update_where (\<lambda>r. r = p) (receipt_saved D q v) tbl"
    unfolding t by (rule hit_unique(3) [OF assms(2,3) _ h]) (simp add: receipt_hit_def assms(4))
  show "receipt_checks (stored_receipt D q) = Inr ()" by (rule c)
qed

context decimal_js begin

text \<open>The checks of the table leave nothing else to store than well-formed figures.\<close>

lemma checked_ok:
  assumes "receipt_checks (stored_receipt D q) = Inr ()" shows "stored_receipt_ok (stored_receipt D q)"
  using assms by (simp add: stored_receipt_ok_def) (simp add: stored_receipt_def)

lemma stored_receipt_id: "stored_receipt_ok r \<Longrightarrow> stored_receipt D r = r"
  by (cases r) (simp add: stored_receipt_def stored_receipt_ok_def to_dp_id)

lemma filled_figures:
  assumes "receipt_fill D inp b = Inr q"
  shows "on_grid 4 (rc_settled q)" "on_grid 4 (rc_tax q)" "rc_cash q = d_minus D (rc_settled q) (rc_tax q)"
    and "rc_id q = rc_id b" "rc_company q = rc_company b" "rc_status q = rc_status b" "rc_entry q = rc_entry b"
    and "rc_type q = nc_type inp" "rc_ipc q = nc_ipc inp"
  using assms by (auto simp: receipt_fill_def receipt_figures_def Let_def elim!: rbindE split: option.splits)

lemma filled_stored:
  assumes "receipt_fill D inp b = Inr q" and "receipt_checks (stored_receipt D q) = Inr ()"
  shows "stored_receipt_ok q" and "stored_receipt D q = q"
proof -
  note f = filled_figures [OF assms(1)]
  from assms(2) have b: "\<bar>rc_settled q\<bar> < 10 ^ 14" "\<bar>rc_tax q\<bar> < 10 ^ 14"
    using f(1,2) by (auto simp: receipt_checks_def stored_receipt_def to_dp_id elim!: rbindE)
  have "exact_range (rc_settled q - rc_tax q)" using f(1,2) b by (auto simp: exact_range_def)
  then have "rc_cash q = rc_settled q - rc_tax q" unfolding f(3) by (rule minus_exact)
  with f(1,2) have "to_dp D 4 (rc_cash q) = rc_cash q" by (simp add: to_dp_id on_grid_diff)
  then show "stored_receipt D q = q" using f(1,2) by (cases q) (simp add: stored_receipt_def to_dp_id)
  with checked_ok [OF assms(2)] show "stored_receipt_ok q" by simp
qed

lemma same_figures_ok:
  "stored_receipt_ok q \<Longrightarrow> rc_settled r = rc_settled q \<Longrightarrow> rc_cash r = rc_cash q \<Longrightarrow> rc_tax r = rc_tax q \<Longrightarrow> rc_ipc r = rc_ipc q \<Longrightarrow>
   rc_target r = rc_target q \<Longrightarrow> rc_type r = rc_type q \<Longrightarrow> rc_mode r = rc_mode q \<Longrightarrow> rc_ref r = rc_ref q \<Longrightarrow> stored_receipt_ok r"
  unfolding stored_receipt_ok_def receipt_checks_def by simp

lemma created_facts:
  assumes "receipt_create_draft D i co fy inp = Inr r"
  shows "rc_id r = i" "rc_company r = co" "rc_status r = RecDraft"
  using filled_figures [OF assms [unfolded receipt_create_draft_def]] by (simp_all add: blank_receipt_def)

section \<open>The draft services\<close>

end

lemma receipt_rows_step:
  assumes "receipt_inv D mk s" and "erp_inv mk s'" and "sales_kept s s'" and "db_entries s' = db_entries s"
    and "receipts_sound (db_entries s) (rb_rows s')" and "\<And>co i. received_so_far co i s' = received_so_far co i s"
  shows "receipt_safe D mk s s'"
proof -
  note inv = receipt_invD [OF assms(1)]
  have "sales_inv D mk s'" by (rule sales_inv_other [where new = "[]", OF inv(1) assms(2,3)]) (simp_all add: assms(4))
  then show ?thesis using assms(4-6) by (simp add: receipt_safe_def receipt_inv_def collects_within_def)
qed

context decimal_js begin

lemma create_receipt_safe:
  assumes "create_receipt D mk inp act s = Inr (x, s')" and "receipt_inv D mk s" shows "receipt_safe D mk s s'"
proof -
  note inv = receipt_invD [OF assms(2)]
  let ?s = "s\<lparr>db_ids := Suc (db_ids s)\<rparr>"
  from assms(1) obtain new r tbl where r: "receipt_create_draft D (mk (db_ids s)) (act_company act) (act_fy act) new = Inr r"
    and t: "receipt_insert D r (rb_rows s) = Inr tbl"
    and s': "s' = audit_record ''CREATE'' ''Receipt'' x act (?s\<lparr>rb_rows := tbl\<rparr>)"
    using uow_run_InrD [OF assms(1) [unfolded create_receipt_def], THEN conjunct1] by (auto elim!: rbindE simp: ids_next_def)
  note d = created_facts [OF r]
  let ?q = "(stored_receipt D r)\<lparr>rc_version := 1\<rparr>"
  from t have tbl: "tbl = rb_rows s @ [?q]" and fresh: "rc_id r \<notin> rc_id ` set (rb_rows s)" and c: "receipt_checks ?q = Inr ()"
    by (auto simp: receipt_insert_def Let_def list_ex_iff stored_receipt_def elim!: rbindE)
  from c have "receipt_checks (stored_receipt D r) = Inr ()" by (simp add: receipt_checks_def)
  from same_figures_ok [OF checked_ok [OF this], of ?q] have ok: "stored_receipt_ok ?q" by simp
  have draft: "rc_status ?q = RecDraft" "rc_id ?q = rc_id r" by (simp_all add: stored_receipt_def d)
  show ?thesis
  proof (rule receipt_rows_step [OF assms(2)])
    show "erp_inv mk s'" by (rule quiet_erp_inv [OF _ inv(2)]) (simp add: s' quiet_def)
    show "receipts_sound (db_entries s) (rb_rows s')"
      using inv(3) fresh draft ok by (auto simp: s' tbl receipts_sound_def receipt_row_sound_def)
    show "received_so_far co i s' = received_so_far co i s" for co i
      using draft by (simp add: s' tbl received_total_def receipt_live_def rec.settled_add)
  qed (simp_all add: s' sales_kept_def)
qed

lemma update_receipt_safe:
  assumes "update_receipt D i x v act s = Inr (u, s')" and "receipt_inv D mk s" shows "receipt_safe D mk s s'"
proof -
  note inv = receipt_invD [OF assms(2)]
  from assms(1) obtain p y q tbl where p: "receipt_find i (act_company act) (rb_rows s) = Some p"
    and q: "receipt_update_draft D y p = Inr q" and t: "receipt_save D q v (rb_rows s) = Inr tbl"
    and s': "s' = audit_record ''UPDATE'' ''Receipt'' i act (s\<lparr>rb_rows := tbl\<rparr>)"
    using uow_run_InrD [OF assms(1) [unfolded update_receipt_def], THEN conjunct1] by (auto elim!: rbindE)
  from receipt_find_Some [OF p] have pm: "p \<in> set (rb_rows s)" by simp
  from q have draft: "rc_status p = RecDraft" and f: "receipt_fill D (receipt_merge y p) p = Inr q"
    by (auto simp: receipt_update_draft_def receipt_assert_draft_def elim!: rbindE)
  note d = filled_figures [OF f]
  note e = receipt_save_effect [OF t receipts_soundD(1) [OF inv(3)] pm d(4)]
  note ok = filled_stored [OF f e(2)]
  show ?thesis
  proof (rule receipt_row_step [where new = "[]" and f = "receipt_saved D q v", OF assms(2) _ _ _ _ _ pm])
    show "erp_inv mk s'" by (rule quiet_erp_inv [OF _ inv(2)]) (simp add: s' quiet_def)
    show "receipt_row_sound (db_entries s @ []) (receipt_saved D q v p)"
      using same_figures_ok [OF ok(1)] d(6) draft by (simp add: receipt_row_sound_def receipt_saved_def ok(2))
  qed (simp_all add: s' e(1) sales_kept_def receipt_saved_def ok(2) d(6) draft)
qed

end

lemma delete_receipt_safe:
  assumes "delete_receipt i act s = Inr (u, s')" and "receipt_inv D mk s" shows "receipt_safe D mk s s'"
proof -
  note inv = receipt_invD [OF assms(2)]
  from assms(1) obtain p where p: "receipt_find i (act_company act) (rb_rows s) = Some p" "receipt_assert_draft p = Inr ()"
    and s': "s' = audit_record ''DELETE'' ''Receipt'' i act (s\<lparr>rb_rows := receipt_delete i (act_company act) (rb_rows s)\<rparr>)"
    using uow_run_InrD [OF assms(1) [unfolded delete_receipt_def], THEN conjunct1] by (auto elim!: rbindE)
  have gone: "r = p" if "r \<in> set (rb_rows s)" "rc_id r = i" for r
    using distinct_map_inj [OF receipts_soundD(1) [OF inv(3)] that(1)] receipt_find_Some [OF p(1)] that(2) by simp
  show ?thesis
  proof (rule receipt_rows_step [OF assms(2)])
    show "erp_inv mk s'" by (rule quiet_erp_inv [OF _ inv(2)]) (simp add: s' quiet_def)
    show "receipts_sound (db_entries s) (rb_rows s')"
      using inv(3) by (auto simp: s' receipts_sound_def receipt_delete_def distinct_map_filter)
    show "received_so_far co j s' = received_so_far co j s" for co j
      unfolding s' using gone p(2)
      by (simp add: received_total_def receipt_delete_def)
        (intro rec.settled_drop, auto simp: receipt_live_def receipt_assert_draft_def)
  qed (simp_all add: s' sales_kept_def)
qed

section \<open>Posting, cancelling and reposting\<close>

lemma receipt_posting_kept:
  fixes s s1 :: "'a receipt_db_scheme"
  assumes "db.more s1 = db.more s" and "s' = audit_record a b c d (s1\<lparr>rb_rows := tbl\<rparr>)"
  shows "sales_kept s s'" and "rb_rows s1 = rb_rows s"
  using sales_more [OF assms(1)] receipt_more [OF assms(1)] by (simp_all add: assms(2) sales_kept_def)

lemma receipt_lines_same:
  "rc_type r = rc_type q \<Longrightarrow> rc_cash r = rc_cash q \<Longrightarrow> rc_tax r = rc_tax q \<Longrightarrow> rc_settled r = rc_settled q \<Longrightarrow>
   rc_deposit r = rc_deposit q \<Longrightarrow> rc_party r = rc_party q \<Longrightarrow> rc_target r = rc_target q \<Longrightarrow> rc_project r = rc_project q \<Longrightarrow>
   rc_cost_centre r = rc_cost_centre q \<Longrightarrow> rc_purpose r = rc_purpose q \<Longrightarrow> receipt_lines m facts r = receipt_lines m facts q"
  by (cases "rc_type q") (simp_all add: receipt_lines_def receipt_line_def Let_def)

lemma receipt_lines_grid:
  assumes "stored_receipt_ok r"
  shows "l \<in> set (receipt_lines m facts r) \<Longrightarrow> on_grid 4 (pl_debit l) \<and> on_grid 4 (pl_credit l)"
  using stored_receipt_okD [OF assms] by (cases "rc_type r") (auto simp: receipt_lines_def receipt_line_def Let_def split: if_splits)

context decimal_js begin

lemma lines_of_stored:
  assumes "\<And>l. l \<in> set ls \<Longrightarrow> on_grid 4 (pl_debit l) \<and> on_grid 4 (pl_credit l)"
  shows "map (stored_line D) (lines_of ls) = lines_of ls"
  by (rule map_idI) (auto simp: lines_of_def in_set_enumerate_eq intro!: stored_line_id assms [THEN conjunct1] assms [THEN conjunct2] nth_mem)

text \<open>The row a posting writes, and the entry that backs it.\<close>

lemma posted_receipt_row:
  assumes "stored_receipt_ok q" and "rc_id q = rc_id p" and "rc_company q = rc_company p"
    and "receipt_mark_posted (je_id e) no who now q = Inr r"
    and "post D mk (erp_ports mk) (build_receipt_command m who facts q) now t = Inr (e, s1)" and "stored_entry D e \<in> set es"
  shows "receipt_row_sound es (receipt_saved D r v p)"
    and "rc_id (receipt_saved D r v p) = rc_id p" "rc_company (receipt_saved D r v p) = rc_company p"
    and "rc_settled (receipt_saved D r v p) = rc_settled q" "rc_type (receipt_saved D r v p) = rc_type q"
    "rc_ipc (receipt_saved D r v p) = rc_ipc q"
proof -
  from assms(4) have r: "r = q\<lparr>rc_status := RecPosted, rc_entry := Some (je_id e), rc_entry_no := Some no, rc_posted_by := Some who,
       rc_posted_at := Some now\<rparr>" by (auto simp: receipt_mark_posted_def elim!: rbindE)
  have ok: "stored_receipt_ok r" by (rule same_figures_ok [OF assms(1)]) (simp_all add: r)
  let ?w = "receipt_saved D r v p"
  have w: "?w = r\<lparr>rc_id := rc_id p, rc_company := rc_company p, rc_fy := rc_fy p, rc_version := v + 1\<rparr>"
    by (simp add: receipt_saved_def stored_receipt_id [OF ok])
  show "rc_id ?w = rc_id p" "rc_company ?w = rc_company p" "rc_settled ?w = rc_settled q" "rc_type ?w = rc_type q" "rc_ipc ?w = rc_ipc q"
    unfolding w by (simp_all add: r)
  have same: "receipt_lines m facts ?w = receipt_lines m facts q" unfolding w by (rule receipt_lines_same) (simp_all add: r)
  note a = post_appends [OF assms(5)]
  have "je_lines (stored_entry D e) = lines_of (receipt_lines m facts ?w)"
    unfolding same using a(3) lines_of_stored [OF receipt_lines_grid [OF assms(1)]] by (simp add: build_receipt_command_def)
  moreover have "rc_entry ?w = Some (je_id e)" unfolding w by (simp add: r)
  ultimately have "receipt_backed es ?w"
    unfolding receipt_backed_def using a assms(2,3,6) unfolding w
    by (intro bexI [of _ "stored_entry D e"] exI [of _ m] exI [of _ facts]) (simp_all add: build_receipt_command_def)
  moreover have "stored_receipt_ok ?w" by (rule same_figures_ok [OF ok]) (simp_all add: w)
  ultimately show "receipt_row_sound es ?w" by (simp add: receipt_row_sound_def)
qed

text \<open>Reversing the entry of a posted receipt adds an entry the sales module does not count.\<close>

lemma reverse_receipt:
  assumes "reverse D mk (erp_ports mk) (the (rc_entry p)) co reason who now s = Inr (e, s1)"
    and "erp_inv mk s" and "receipt_backed (db_entries s) p"
  shows "db_entries s1 = db_entries s @ [stored_entry D e]" and "db.more s1 = db.more s" and "\<not> sales_entry (stored_entry D e)"
proof -
  from assms(3) obtain o1 where o1: "o1 \<in> set (db_entries s)" "rc_entry p = Some (je_id o1)" "je_source_type o1 = ''Receipt''"
    by (auto simp: receipt_backed_def)
  from assms(2) have di: "distinct (map je_id (db_entries s))" by (auto simp: erp_inv_def ledger_core_def)
  from assms(1) show "db_entries s1 = db_entries s @ [stored_entry D e]" and "db.more s1 = db.more s"
    by (auto elim!: reverse_appends)
  from assms(1) obtain o' no j where o': "o' \<in> set (db_entries s)" "je_id o' = je_id o1" and e: "e = entry_reverse o' reason no who j now"
    using o1(2) by (auto elim!: reverse_appends)
  from distinct_map_inj [OF di o'(1) o1(1) o'(2)] o1(3) show "\<not> sales_entry (stored_entry D e)"
    by (simp add: e sales_entry_def entry_reverse_def)
qed

lemma marked_id: "receipt_mark_posted j no who now q = Inr r \<Longrightarrow> rc_id r = rc_id q"
  by (auto simp: receipt_mark_posted_def elim!: rbindE)

lemma posted_not_sales:
  assumes "post D mk (erp_ports mk) (build_receipt_command m who facts q) now t = Inr (e, s1)" shows "\<not> sales_entry (stored_entry D e)"
  using post_appends [OF assms] by (simp add: sales_entry_def build_receipt_command_def)

lemma target_room:
  assumes "receipt_target D co r s = Inr facts" and "receipt_inv D mk s" and "0 < rc_settled r" and "rc_type q = rc_type r"
    and "rc_ipc q = rc_ipc r" and "rc_settled q = rc_settled r"
  shows "due_room co s q"
  unfolding due_room_def
proof (intro allI impI)
  fix i assume q: "rc_type q = IpcLinked" "rc_ipc q = Some i"
  with assms(4,5) have "rc_type r = IpcLinked" "rc_ipc r = Some i" by simp_all
  with assms(1) obtain p where "posted_ipc_of i co (sal_ipcs s) = Inr p"
    and "assert_within_outstanding (outstanding_for_ipc D i co s) r = Inr ()"
    by (auto simp: receipt_target_def or_empty_def elim!: rbindE)
  from outstanding_room [OF assms(2) this assms(3)] show "\<exists>x. due_of co i (sal_ipcs s) = Some x \<and> received_so_far co i s + rc_settled q \<le> x"
    by (simp add: assms(6))
qed

lemma repost_room:
  assumes "corrected_receipt co x r s = Inr (merged, facts)" and "receipt_create_draft D i co' fy merged = Inr c"
    and "check_outstanding D co c s = Inr ()" and "receipt_inv D mk s" and "0 < rc_settled c" and "rc_type q = rc_type c"
    and "rc_ipc q = rc_ipc c" and "rc_settled q = rc_settled c"
  shows "due_room co s q"
  unfolding due_room_def
proof (intro allI impI)
  fix j assume q: "rc_type q = IpcLinked" "rc_ipc q = Some j"
  note f = filled_figures [OF assms(2) [unfolded receipt_create_draft_def]]
  from q f(8,9) assms(6,7) have m: "nc_type merged = IpcLinked" "nc_ipc merged = Some j" by simp_all
  with assms(1) obtain p where p: "posted_ipc_of j co (sal_ipcs s) = Inr p" and "truthy (Some j)"
    by (auto simp: corrected_receipt_def Let_def or_empty_def elim!: rbindE split: receipt_type.splits if_splits)
  with q assms(3,6,7) have "assert_within_outstanding (outstanding_for_ipc D j co s) c = Inr ()" by (simp add: check_outstanding_def or_empty_def)
  from outstanding_room [OF assms(4) p this assms(5)]
  show "\<exists>x. due_of co j (sal_ipcs s) = Some x \<and> received_so_far co j s + rc_settled q \<le> x" by (simp add: assms(8))
qed

lemma post_receipt_safe:
  assumes "post_receipt D mk (erp_ports mk) i act now s = Inr (x, s')" and "receipt_inv D mk s" shows "receipt_safe D mk s s'"
proof -
  note inv = receipt_invD [OF assms(2)]
  from assms(1) obtain p facts m e s1 r tbl where p: "receipt_find i (act_company act) (rb_rows s) = Some p"
    and g: "receipt_target D (act_company act) p s = Inr facts"
    and e: "post D mk (erp_ports mk) (build_receipt_command m (act_user act) facts p) now s = Inr (e, s1)"
    and r: "receipt_mark_posted (je_id e) (je_no e) (act_user act) now p = Inr r"
    and t: "receipt_save D r (rc_version r) (rb_rows s1) = Inr tbl"
    and s': "s' = audit_record ''POST'' ''Receipt'' i act (s1\<lparr>rb_rows := tbl\<rparr>)"
    using uow_run_InrD [OF assms(1) [unfolded post_receipt_def], THEN conjunct1] by (auto elim!: rbindE)
  note a = post_appends [OF e] and kept = receipt_posting_kept [OF post_appends(1) [OF e] s']
  from receipt_find_Some [OF p] have pm: "p \<in> set (rb_rows s)" "rc_company p = act_company act" by simp_all
  have ok: "stored_receipt_ok p" by (rule receipts_soundD(2) [OF inv(3) pm(1)])
  let ?f = "receipt_saved D r (rc_version r)"
  note row = posted_receipt_row [OF ok refl refl r e, where v = "rc_version r" and es = "db_entries s @ [stored_entry D e]"]
  have tbl: "rb_rows s' = update_where (\<lambda>z. z = p) ?f (rb_rows s)"
    using receipt_save_effect(1) [OF t [unfolded kept(2)] receipts_soundD(1) [OF inv(3)] pm(1) marked_id [OF r]] by (simp add: s')
  note pos = stored_receipt_okD(1) [OF ok]
  show ?thesis
  proof (rule receipt_row_step [where f = ?f, OF assms(2) _ kept(1) _ _ tbl pm(1)])
    show "erp_inv mk s'" by (rule tx_post [OF assms(1) [unfolded post_receipt_def] inv(2) quiet_refl e]) (simp add: s' quiet_def)
    show "db_entries s' = db_entries s @ [stored_entry D e]" using a(2) by (simp add: s')
    show "\<forall>z \<in> set [stored_entry D e]. \<not> sales_entry z" using posted_not_sales [OF e] by simp
    show "due_room (rc_company (?f p)) s (?f p)"
      using target_room [OF g assms(2) pos row(5,6,4)] by (simp add: row(3) pm(2))
  qed (simp_all add: row)
qed

lemma cancel_receipt_safe:
  assumes "cancel_receipt D mk (erp_ports mk) i reason act now s = Inr (x, s')" and "receipt_inv D mk s" shows "receipt_safe D mk s s'"
proof -
  note inv = receipt_invD [OF assms(2)]
  from assms(1) obtain p e s1 q tbl where p: "receipt_find i (act_company act) (rb_rows s) = Some p" "receipt_assert_posted p = Inr ()"
    and e: "reverse D mk (erp_ports mk) (the (rc_entry p)) (act_company act) reason (act_user act) now s = Inr (e, s1)"
    and q: "receipt_mark_cancelled p = Inr q" and t: "receipt_save D q (rc_version q) (rb_rows s1) = Inr tbl"
    and s': "s' = audit_record ''CANCEL'' ''Receipt'' i act (s1\<lparr>rb_rows := tbl\<rparr>)"
    using uow_run_InrD [OF assms(1) [unfolded cancel_receipt_def], THEN conjunct1] by (auto elim!: rbindE)
  from receipt_find_Some [OF p(1)] have pm: "p \<in> set (rb_rows s)" by simp
  from p(2) have backed: "receipt_backed (db_entries s) p"
    using receipts_soundD(3) [OF inv(3) pm] by (auto simp: receipt_assert_posted_def elim!: rbindE)
  note a = reverse_receipt [OF e inv(2) backed] and kept = receipt_posting_kept [OF reverse_receipt(2) [OF e inv(2) backed] s']
  have q': "q = p\<lparr>rc_status := RecCancelled\<rparr>" using q by (auto simp: receipt_mark_cancelled_def elim!: rbindE)
  have ok: "stored_receipt_ok q" by (rule same_figures_ok [OF receipts_soundD(2) [OF inv(3) pm]]) (simp_all add: q')
  let ?f = "receipt_saved D q (rc_version q)"
  have f: "?f p = q\<lparr>rc_version := rc_version q + 1\<rparr>" unfolding receipt_saved_def stored_receipt_id [OF ok] by (simp add: q')
  have tbl: "rb_rows s' = update_where (\<lambda>z. z = p) ?f (rb_rows s)"
    using receipt_save_effect(1) [OF t [unfolded kept(2)] receipts_soundD(1) [OF inv(3)] pm] by (simp add: s' q')
  show ?thesis
  proof (rule receipt_row_step [where f = ?f, OF assms(2) _ kept(1) _ _ tbl pm])
    show "erp_inv mk s'" by (rule tx_reverse [OF assms(1) [unfolded cancel_receipt_def] inv(2) quiet_refl e]) (simp add: s' quiet_def)
    show "db_entries s' = db_entries s @ [stored_entry D e]" using a(1) by (simp add: s')
    show "\<forall>z \<in> set [stored_entry D e]. \<not> sales_entry z" using a(3) by simp
    have "stored_receipt_ok (?f p)" unfolding f by (rule same_figures_ok [OF ok]) simp_all
    then show "receipt_row_sound (db_entries s @ [stored_entry D e]) (?f p)"
      unfolding receipt_row_sound_def unfolding f unfolding q' by simp
    show "rc_id (?f p) = rc_id p" unfolding f unfolding q' by simp
    show "due_room (rc_company (?f p)) s (?f p)" if "rc_status (?f p) = RecPosted" using that unfolding f unfolding q' by simp
  qed
qed

lemma repost_receipt_safe:
  assumes "repost_receipt D mk (erp_ports mk) i x reason act now s = Inr (y, s')" and "receipt_inv D mk s" shows "receipt_safe D mk s s'"
proof -
  note inv = receipt_invD [OF assms(2)]
  from assms(1) obtain p merged facts c m rv e s1 r tbl where p: "receipt_find i (act_company act) (rb_rows s) = Some p"
      "receipt_assert_posted p = Inr ()"
    and g: "corrected_receipt (act_company act) x p s = Inr (merged, facts)"
    and c: "receipt_create_draft D i (act_company act) (act_fy act) merged = Inr c"
    and o: "check_outstanding D (act_company act) c s = Inr ()"
    and e: "repost D mk (erp_ports mk) (the (rc_entry p)) (act_company act) reason (act_user act)
              (build_receipt_command m (act_user act) facts c) now s = Inr ((rv, e), s1)"
    and r: "receipt_mark_posted (je_id e) (je_no e) (act_user act) now c = Inr r"
    and t: "receipt_save D r (rc_version p) (rb_rows s1) = Inr tbl"
    and s': "s' = audit_record ''POST'' ''Receipt'' i act (s1\<lparr>rb_rows := tbl\<rparr>)"
    using uow_run_InrD [OF assms(1) [unfolded repost_receipt_def], THEN conjunct1] by (auto elim!: rbindE)
  from e obtain t1 where t1: "reverse D mk (erp_ports mk) (the (rc_entry p)) (act_company act) reason (act_user act) now s = Inr (rv, t1)"
    and p1: "post D mk (erp_ports mk) (build_receipt_command m (act_user act) facts c) now t1 = Inr (e, s1)"
    by (auto simp: repost_def elim!: rbindE)
  from receipt_find_Some [OF p(1)] have pm: "p \<in> set (rb_rows s)" "rc_id p = i" "rc_company p = act_company act" by simp_all
  from p(2) have backed: "receipt_backed (db_entries s) p"
    using receipts_soundD(3) [OF inv(3) pm(1)] by (auto simp: receipt_assert_posted_def elim!: rbindE)
  note a0 = reverse_receipt [OF t1 inv(2) backed] and a = post_appends [OF p1]
  have kept: "sales_kept s s'" "rb_rows s1 = rb_rows s" using receipt_posting_kept [of s1 s, OF _ s'] a0(2) a(1) by simp_all
  note d = created_facts [OF c]
  have same: "rc_id r = rc_id p" "stored_receipt D r = (stored_receipt D c)\<lparr>rc_status := rc_status r, rc_entry := rc_entry r,
      rc_entry_no := rc_entry_no r, rc_posted_by := rc_posted_by r, rc_posted_at := rc_posted_at r\<rparr>"
    using r by (auto simp: receipt_mark_posted_def stored_receipt_def d pm elim!: rbindE)
  note sv = receipt_save_effect [OF t [unfolded kept(2)] receipts_soundD(1) [OF inv(3)] pm(1) same(1)]
  have "receipt_checks (stored_receipt D c) = Inr ()" using sv(2) unfolding same(2) by (simp add: receipt_checks_def)
  note ok = filled_stored(1) [OF c [unfolded receipt_create_draft_def] this]
  let ?f = "receipt_saved D r (rc_version p)" and ?new = "[stored_entry D rv, stored_entry D e]"
  have ids: "rc_id c = rc_id p" "rc_company c = rc_company p" by (simp_all add: d pm)
  note row = posted_receipt_row [OF ok ids r p1, where v = "rc_version p" and es = "db_entries s @ ?new"]
  have tbl: "rb_rows s' = update_where (\<lambda>z. z = p) ?f (rb_rows s)" using sv(1) by (simp add: s')
  note pos = stored_receipt_okD(1) [OF ok]
  show ?thesis
  proof (rule receipt_row_step [where f = ?f and new = ?new, OF assms(2) _ kept(1) _ _ tbl pm(1)])
    show "erp_inv mk s'" by (rule tx_repost [OF assms(1) [unfolded repost_receipt_def] inv(2) quiet_refl e]) (simp add: s' quiet_def)
    show "db_entries s' = db_entries s @ ?new" using a(2) a0(1) by (simp add: s')
    show "\<forall>z \<in> set ?new. \<not> sales_entry z" using posted_not_sales [OF p1] a0(3) by simp
    show "due_room (rc_company (?f p)) s (?f p)"
      using repost_room [OF g c o assms(2) pos row(5,6,4)] by (simp add: row(3) pm(3))
  qed (simp_all add: row)
qed

end

end
