(* ===== verification/Receipt_Books.thy ===== *)
theory Receipt_Books
  imports Receipt_Steps
begin

text \<open>
  Every step keeps the invariant of the receipt module, so every run does; and cancelling a standing receipt goes
  through while the period of its entry is open, and frees what it had settled.
\<close>

section \<open>Over every run\<close>

context decimal_js begin

lemma reverse_entries: "reverse D mk (erp_ports mk) i co r who now s = Inr (e, s1) \<Longrightarrow> db_entries s1 = db_entries s @ [stored_entry D e]"
  by (auto elim!: reverse_appends)

lemma repost_entries:
  "repost D mk (erp_ports mk) i co r who cmd now s = Inr ((rv, e), s1) \<Longrightarrow> db_entries s1 = db_entries s @ [stored_entry D rv, stored_entry D e]"
  by (auto simp: repost_def post_appends(2) reverse_entries elim!: rbindE)

text \<open>The sales module only appends to the ledger.\<close>

lemma sales_step_append:
  assumes "sales_step nn D mk s s'" shows "\<exists>new. db_entries s' = db_entries s @ new"
  using assms
proof (cases rule: sales_step.cases)
  case s_other
  from erp_step_append [OF s_other(1)] show ?thesis by blast
next
  case (s_create inp act x)
  from uow_run_InrD [OF s_create(1) [unfolded create_ipc_def], THEN conjunct1] show ?thesis
    by (auto simp: ids_next_def Let_def elim!: rbindE)
next
  case (s_update i patch v act x)
  from uow_run_InrD [OF s_update(1) [unfolded update_ipc_draft_def], THEN conjunct1] show ?thesis
    by (auto simp: Let_def elim!: rbindE)
next
  case (s_delete i act x)
  from uow_run_InrD [OF s_delete(1) [unfolded delete_ipc_def], THEN conjunct1] show ?thesis
    by (auto simp: Let_def elim!: rbindE)
next
  case (s_post i act now x)
  from uow_run_InrD [OF s_post(1) [unfolded post_ipc_def], THEN conjunct1] show ?thesis
    by (auto simp: post_appends(2) Let_def elim!: rbindE)
next
  case (s_cancel i r act now x)
  from uow_run_InrD [OF s_cancel(1) [unfolded cancel_ipc_def], THEN conjunct1] show ?thesis
    by (auto simp: reverse_entries Let_def elim!: rbindE)
next
  case (s_repost i patch r act now x)
  from uow_run_InrD [OF s_repost(1) [unfolded repost_ipc_def], THEN conjunct1] show ?thesis
    by (auto simp: repost_entries Let_def elim!: rbindE)
next
  case (s_release act i date amount narr now r)
  from uow_run_InrD [OF s_release(2) [unfolded release_retention_def], THEN conjunct1] show ?thesis
    by (auto simp: post_appends(2) ids_next_def Let_def elim!: rbindE)
qed

lemma sales_side_safe:
  assumes "sales_step nn D mk s s'" and "receipts_kept s s'" and "receipt_inv D mk s" shows "receipt_safe D mk s s'"
proof -
  note i = receipt_invD [OF assms(3)]
  from sales_step_inv [OF assms(1) i(1)] have sales: "sales_inv D mk s'" .
  from assms(2) have rows: "rb_rows s' = rb_rows s" by (simp add: receipts_kept_def)
  from sales_step_append [OF assms(1)] obtain new where new: "db_entries s' = db_entries s @ new" by blast
  have "received_so_far co k s' \<le> received_so_far co k s" for co k using received_later [OF i(3)] by (simp add: new rows)
  with sales receipts_sound_grows [OF i(3), of "db_entries s'"] show ?thesis
    by (simp add: receipt_safe_def receipt_inv_def collects_within_def rows new)
qed

lemma receipt_step_safe:
  assumes "receipt_step nn D mk s s'" and "receipt_inv D mk s" shows "receipt_safe D mk s s'"
  using assms(1)
proof (cases rule: receipt_step.cases)
qed (use assms(2) in \<open>auto intro: create_receipt_safe update_receipt_safe delete_receipt_safe post_receipt_safe
  cancel_receipt_safe repost_receipt_safe sales_side_safe\<close>)

end

definition empty_receipts :: "'a receipt_db_scheme \<Rightarrow> bool" where
  "empty_receipts s \<longleftrightarrow> empty_sales s \<and> rb_rows s = []"

lemma receipt_inv_empty: "decimal_js D \<Longrightarrow> inj mk \<Longrightarrow> empty_receipts s \<Longrightarrow> receipt_inv D mk s"
  using sales_reachable_inv [OF _ _ _ rtranclp.rtrancl_refl]
  by (auto simp: receipt_inv_def empty_receipts_def receipts_sound_def)

lemma receipt_run_inv:
  assumes "decimal_js D" and "inj mk" and "empty_receipts z" and "rtranclp (receipt_step nn D mk) z s" shows "receipt_inv D mk s"
  using assms(4)
proof (induction rule: rtranclp_induct)
  case base
  show ?case by (rule receipt_inv_empty [OF assms(1-3)])
next
  case (step t u)
  then show ?case using decimal_js.receipt_step_safe [OF assms(1)] unfolding receipt_safe_def by blast
qed

lemma receipt_lines_balance:
  assumes "stored_receipt_ok r"
  shows "sum_list (map pl_debit (receipt_lines m facts r)) = rc_settled r"
    and "sum_list (map pl_credit (receipt_lines m facts r)) = rc_settled r"
  using stored_receipt_okD [OF assms] by (cases "rc_type r"; simp add: receipt_lines_def receipt_line_def Let_def)+

section \<open>A cancellation goes through\<close>

context decimal_js begin

lemma reverse_commits:
  assumes "erp_inv mk s" and "e \<in> set (db_entries s)" and "je_company e = co" and "\<not> je_is_reversal e"
    and "\<not> entry_reversed (je_id e) (db_entries s)" and "assert_open co (je_fy e) (je_voucher_date e) s = Inr ()"
    and "find_fy (je_fy e) co (db_fys s) \<noteq> None"
  obtains v t where "reverse D mk (erp_ports mk) (je_id e) co reason who now s = Inr (v, t)"
    and "db_entries t = db_entries s @ [stored_entry D v]" and "db.more t = db.more s" and "balance_check (stored_entry D v) = Inr ()"
    and "je_reversal_of (stored_entry D v) = Some (je_id e)"
proof -
  have "\<not> (\<exists>r \<in> set (db_entries s). reverses r e)" using assms(5) by (auto simp: entry_reversed_def list_ex_iff reverses_def)
  with reverse_accepted [OF assms(1-3), of reason who now] assms(4,6,7)
  obtain v t where u: "uow_run (reverse D mk (erp_ports mk) (je_id e) co reason who now) s = Inr (v, t)" by blast
  from uow_run_InrD [OF u] have r: "reverse D mk (erp_ports mk) (je_id e) co reason who now s = Inr (v, t)"
    and b: "\<forall>x \<in> set (drop (length (db_entries s)) (db_entries t)). balance_check x = Inr ()" by simp_all
  from r obtain o' no j where a: "db.more t = db.more s" "db_entries t = db_entries s @ [stored_entry D v]" "je_id o' = je_id e"
    "v = entry_reverse o' reason no who j now" by (auto elim!: reverse_appends)
  then show thesis using r b by (intro that [OF r]) (simp_all add: entry_reverse_def)
qed

lemma uow_run_InrI:
  "work s = Inr (x, t) \<Longrightarrow> db_entries t = db_entries s @ new \<Longrightarrow> \<forall>e \<in> set new. balance_check e = Inr () \<Longrightarrow> uow_run work s = Inr (x, t)"
  using riter_eq_Inr [of balance_check new "()"] by (simp add: uow_run_def)

lemma receipt_find_mem: "distinct (map rc_id tbl) \<Longrightarrow> r \<in> set tbl \<Longrightarrow> receipt_find (rc_id r) (rc_company r) tbl = Some r"
  unfolding receipt_find_def by (rule find_unique) (auto intro: distinct_map_inj)

lemma save_commits:
  assumes "r \<in> set tbl" and "stored_receipt_ok q" and "rc_id q = rc_id r" and "rc_company q = rc_company r" and "rc_version q = rc_version r"
  shows "\<exists>tbl'. receipt_save D q (rc_version q) tbl = Inr tbl'"
proof -
  have "list_ex (receipt_hit q (rc_version q)) tbl" using assms by (auto simp: list_ex_iff receipt_hit_def)
  with assms(2) stored_receipt_id [OF assms(2)] show ?thesis by (simp add: receipt_save_def stored_receipt_ok_def)
qed

lemma cancel_commits:
  assumes "receipt_inv D mk s" and "r \<in> set (rb_rows s)" and "rc_status r = RecPosted" and "je_id e \<noteq> []"
    and "rc_entry r = Some (je_id e)" and "e \<in> set (db_entries s)" and "\<not> entry_reversed (je_id e) (db_entries s)"
    and "assert_open (rc_company r) (je_fy e) (je_voucher_date e) s = Inr ()" and "find_fy (je_fy e) (rc_company r) (db_fys s) \<noteq> None"
    and "act_company act = rc_company r"
  obtains x s' v f where "cancel_receipt D mk (erp_ports mk) (rc_id r) reason act now s = Inr (x, s')"
    and "db_entries s' = db_entries s @ [v]" and "je_reversal_of v = Some (je_id e)"
    and "rb_rows s' = update_where (\<lambda>z. z = r) f (rb_rows s)" and "rc_status (f r) = RecCancelled"
proof -
  note inv = receipt_invD [OF assms(1)]
  note dist = receipts_soundD(1) [OF inv(3)]
  from receipts_soundD(3) [OF inv(3) assms(2,3)] obtain o1 where o1: "o1 \<in> set (db_entries s)" "je_id o1 = je_id e"
    "je_company o1 = rc_company r" "\<not> je_is_reversal o1" using assms(5) by (auto simp: receipt_backed_def)
  have "distinct (map je_id (db_entries s))" using inv(2) by (auto simp: erp_inv_def ledger_core_def)
  from distinct_map_inj [OF this o1(1) assms(6) o1(2)] o1 have e: "je_company e = rc_company r" "\<not> je_is_reversal e" by simp_all
  obtain v t where t: "reverse D mk (erp_ports mk) (je_id e) (rc_company r) reason (act_user act) now s = Inr (v, t)"
    "db_entries t = db_entries s @ [stored_entry D v]" "db.more t = db.more s" "balance_check (stored_entry D v) = Inr ()"
    "je_reversal_of (stored_entry D v) = Some (je_id e)"
    by (rule reverse_commits [OF inv(2) assms(6) e assms(7-9)])
  let ?q = "r\<lparr>rc_status := RecCancelled\<rparr>"
  have ok: "stored_receipt_ok ?q" by (rule same_figures_ok [OF receipts_soundD(2) [OF inv(3) assms(2)]]) simp_all
  have rows: "rb_rows t = rb_rows s" by (rule receipt_more(1) [OF t(3)])
  obtain tbl where sv: "receipt_save D ?q (rc_version ?q) (rb_rows t) = Inr tbl"
    using save_commits [OF assms(2) ok] unfolding rows by auto
  let ?s = "audit_record ''CANCEL'' ''Receipt'' (rc_id r) act (t\<lparr>rb_rows := tbl\<rparr>)"
  have c: "cancel_receipt D mk (erp_ports mk) (rc_id r) reason act now s = Inr ((je_id v, je_no v), ?s)"
    unfolding cancel_receipt_def
    by (rule uow_run_InrI [where new = "[stored_entry D v]"])
      (use t sv assms(3-5) in \<open>simp_all add: assms(10) receipt_find_mem [OF dist assms(2)] receipt_assert_posted_def
        receipt_mark_cancelled_def truthy_def\<close>)
  have u: "rb_rows ?s = update_where (\<lambda>z. z = r) (receipt_saved D ?q (rc_version ?q)) (rb_rows s)"
    using receipt_save_effect(1) [OF sv [unfolded rows] dist assms(2)] by simp
  have "rc_status (receipt_saved D ?q (rc_version ?q) r) = RecCancelled" by (simp add: receipt_saved_def stored_receipt_def)
  from that [OF c _ _ u this, of "stored_entry D v"] t(2,5) show thesis by simp
qed

text \<open>What the receipt had settled is outstanding again.\<close>

lemma cancel_frees:
  assumes "receipt_inv D mk s" and "r \<in> set (rb_rows s)" and "standing receipt_live rc_entry (co, i) (db_entries s) r"
    and "rc_entry r = Some (je_id e)" and "rc_status (f r) = RecCancelled" and "je_reversal_of v = Some (je_id e)"
  shows "received_total co i (db_entries s @ [v]) (update_where (\<lambda>z. z = r) f (rb_rows s)) = received_so_far co i s - rc_settled r"
  unfolding received_total_def
proof (rule rec.settled_freed [OF _ _ assms(2,3)])
  note sound = receipt_invD(3) [OF assms(1)]
  show "\<forall>r \<in> set (rb_rows s). receipt_row_sound (db_entries s) r" "distinct (map rc_id (rb_rows s))"
    by (rule receipts_soundD [OF sound])+
  show "\<not> standing receipt_live rc_entry (co, i) (db_entries s @ [v]) (f r)" using assms(5) by (simp add: standing_def receipt_live_def)
  fix q assume q: "q \<in> set (rb_rows s)" "q \<noteq> r"
  show "standing receipt_live rc_entry (co, i) (db_entries s @ [v]) q \<longleftrightarrow> standing receipt_live rc_entry (co, i) (db_entries s) q"
  proof
    show "standing receipt_live rc_entry (co, i) (db_entries s @ [v]) q \<Longrightarrow> standing receipt_live rc_entry (co, i) (db_entries s) q"
      by (rule rec.standing_later) (use receipts_soundD(4) [OF sound] q(1) in blast)
  next
    assume st: "standing receipt_live rc_entry (co, i) (db_entries s) q"
    then have "rc_status q = RecPosted" "rc_status r = RecPosted" using assms(3) by (simp_all add: standing_def receipt_live_def)
    from receipts_soundD(3) [OF sound q(1) this(1)] receipts_soundD(3) [OF sound assms(2) this(2)]
    obtain a b where ab: "a \<in> set (db_entries s)" "rc_entry q = Some (je_id a)" "je_source_id a = rc_id q"
      "b \<in> set (db_entries s)" "je_id b = je_id e" "je_source_id b = rc_id r" using assms(4) by (auto simp: receipt_backed_def)
    have "je_id a \<noteq> je_id e"
    proof
      assume eq: "je_id a = je_id e"
      have "distinct (map je_id (db_entries s))"
        using receipt_invD(2) [OF assms(1)] by (auto simp: erp_inv_def ledger_core_def)
      from distinct_map_inj [OF this ab(1) ab(4)] eq ab(5) have "a = b" by simp
      with ab(3,6) have "rc_id q = rc_id r" by simp
      from distinct_map_inj [OF receipts_soundD(1) [OF sound] q(1) assms(2) this] q(2) show False by simp
    qed
    with st ab(2) assms(6) show "standing receipt_live rc_entry (co, i) (db_entries s @ [v]) q"
      by (auto simp: standing_def entry_reversed_def list_ex_iff)
  qed
qed

end

end
