(* ===== verification/Receipt_Demo.thy ===== *)
theory Receipt_Demo
  imports Receipt_Books Sales_Books
begin

text \<open>
  A concrete run of the sales and receipt modules: a certificate of which 955 is due is posted, and a receipt of 500
  against it, 20 of them tax deducted at source, is created and posted.
\<close>

section \<open>A concrete run\<close>

definition demo_book :: "period list \<Rightarrow> journal_entry list \<Rightarrow> series_row list \<Rightarrow> audit_row list \<Rightarrow> nat \<Rightarrow> ipc_row list \<Rightarrow> receipt_db" where
  "demo_book ps es ss au n is =
     \<lparr>db_fys = [sample_fy], db_series = ss, db_periods = ps, db_entries = es, db_audit = au, db_ids = n,
      sal_accounts = demo_accounts, sal_projects = [\<lparr>pj_id = ''P'', pj_company = ''C'', pj_customer = ''K''\<rparr>],
      sal_ipcs = is, sal_releases = [], rb_targets = [], rb_rows = []\<rparr>"

definition book_empty :: receipt_db where "book_empty = demo_book [] [] [] [] 0 []"

definition book_open :: receipt_db where "book_open = demo_book demo_periods [] [] [] 1 []"

definition book_drafted :: receipt_db where
  "book_drafted = demo_book demo_periods [] [] [demo_audit ''CREATE''] 2 [\<lparr>ir_ipc = demo_ipc, ir_deleted = False\<rparr>]"

definition book_certified :: receipt_db where
  "book_certified = demo_book demo_periods [demo_entry] [demo_series] [demo_audit ''CREATE'', demo_audit ''POST''] 4
     [\<lparr>ir_ipc = demo_posted_ipc, ir_deleted = False\<rparr>]"

lemma book_generate: "generate_periods show_nat ''FY'' sample_actor book_empty = Inr (demo_periods, book_open)"
  by code_simp

lemma book_open_facts:
  "remaining_advance dec20 ''C'' ''P'' ''K'' book_open = 0" "resolve_customer ''C'' ''P'' (sal_projects book_open) = Some ''K''"
  "ids_next show_nat book_open = (''1'', demo_book demo_periods [] [] [] 2 [])" "sal_ipcs book_open = []" "db_entries book_open = []"
  "sal_ipcs (demo_book demo_periods [] [] [] 2 []) = []" "db_entries (demo_book ps es ss au n is) = es"
  by (code_simp, code_simp, code_simp, code_simp, code_simp, code_simp, simp add: demo_book_def)

lemma book_create: "create_ipc True dec20 show_nat demo_new sample_actor book_open = Inr (''1'', book_drafted)"
  by (simp add: create_ipc_def uow_run_def ipc_create_draft_def demo_fill demo_figures demo_open_facts(1) book_open_facts demo_fields(1-4)
      demo_insert exists_seq_no_def)
    (simp add: book_drafted_def audit_record_def sample_actor_def demo_book_def demo_audit_def)

lemma book_post:
  "post_ipc dec20 show_nat (erp_ports show_nat) ''1'' sample_actor 5 book_drafted = Inr ((''3'', ''IPC/2525/0001''), book_certified)"
  by code_simp

definition receipt_demo :: receipt_input where
  "receipt_demo = \<lparr>ci_type = IpcLinked, ci_date = ''2025-07-25'', ci_mode = RecCash, ci_deposit = ''CASH'', ci_party = None,
     ci_project = None, ci_cost_centre = None, ci_purpose = None, ci_ipc = Some ''1'', ci_target = None, ci_settled = Dec 500,
     ci_tax = Some (Dec 20), ci_ref = None, ci_narration = None\<rparr>"

definition receipt_demo_row :: receipt where
  "receipt_demo_row = (blank_receipt ''4'' ''C'' ''FY'')\<lparr>rc_type := IpcLinked, rc_date := ''2025-07-25'', rc_deposit := ''CASH'',
     rc_party := ''K'', rc_project := Some ''P'', rc_cost_centre := ''CC'', rc_purpose := Some ''W'', rc_ipc := Some ''1'',
     rc_settled := 500, rc_cash := 480, rc_tax := 20, rc_status := RecPosted, rc_entry_no := Some ''RV/2525/0001'',
     rc_entry := Some ''6'', rc_posted_at := Some 6, rc_posted_by := Some ''U'', rc_version := 2\<rparr>"

definition book_received :: "receipt list \<Rightarrow> journal_entry list \<Rightarrow> series_row list \<Rightarrow> audit_row list \<Rightarrow> nat \<Rightarrow> receipt_db" where
  "book_received rs es ss au n = (demo_book demo_periods (demo_entry # es) (demo_series # ss)
     ([demo_audit ''CREATE'', demo_audit ''POST''] @ au) n [\<lparr>ir_ipc = demo_posted_ipc, ir_deleted = False\<rparr>])\<lparr>rb_rows := rs\<rparr>"

definition receipt_demo_audit :: "string \<Rightarrow> audit_row" where
  "receipt_demo_audit a = \<lparr>a_action = a, a_entity_type = ''Receipt'', a_entity_id = ''4'', a_actor = ''U'', a_company = ''C''\<rparr>"

definition receipt_demo_draft :: receipt where
  "receipt_demo_draft = receipt_demo_row\<lparr>rc_status := RecDraft, rc_entry_no := None, rc_entry := None, rc_posted_at := None,
     rc_posted_by := None, rc_version := 1\<rparr>"

lemma book_received_facts:
  "find_posted_ipc ''1'' ''C'' (sal_ipcs (book_received rs es ss au n)) = Some demo_posted_ipc"
  "sal_accounts (book_received rs es ss au n) = demo_accounts" "rb_rows (book_received rs es ss au n) = rs"
  "db_entries (book_received rs es ss au n) = demo_entry # es" "ip_currently_due demo_posted_ipc = 955"
  "act_company sample_actor = ''C''" "act_fy sample_actor = ''FY''" "act_user sample_actor = ''U''"
  by (simp_all add: book_received_def demo_book_def find_posted_ipc_def demo_posted_ipc_def demo_ipc_def sample_actor_def)

lemma receipt_demo_outstanding:
  "outstanding_for_ipc dec20 ''1'' ''C'' (book_received [] [] [] au n) = 955"
  "outstanding_for_ipc dec20 ''1'' ''C'' (book_received [receipt_demo_draft] [] [] au n) = 955"
  by (simp_all add: outstanding_for_ipc_def book_received_facts received_total_def settled_total_def standing_def receipt_live_def
      receipt_demo_draft_def d_minus_def rnd20_small)

definition receipt_demo_new :: new_receipt where
  "receipt_demo_new = \<lparr>nc_type = IpcLinked, nc_date = ''2025-07-25'', nc_mode = RecCash, nc_deposit = ''CASH'', nc_party = ''K'',
     nc_project = Some ''P'', nc_cost_centre = ''CC'', nc_purpose = Some ''W'', nc_ipc = Some ''1'', nc_target = None,
     nc_settled = Dec 500, nc_tax = Some (Dec 20), nc_ref = None, nc_narration = None\<rparr>"

lemma receipt_demo_resolve: "resolve_receipt_input ''C'' receipt_demo book_certified = Inr receipt_demo_new"
  by code_simp

lemma receipt_demo_figures: "receipt_figures dec20 receipt_demo_new = Inr (500, 480, 20)"
  by (simp add: receipt_figures_def receipt_demo_new_def round4_def to_dp20_small d_minus_def d_plus_def rnd20_small
      assert_composition_def assert_non_neg_def Let_def)

lemma receipt_demo_draft: "receipt_create_draft dec20 ''4'' ''C'' ''FY'' receipt_demo_new = Inr receipt_demo_draft"
  by (simp add: receipt_create_draft_def receipt_fill_def receipt_demo_figures) code_simp

lemma receipt_demo_insert: "receipt_insert dec20 receipt_demo_draft [] = Inr [receipt_demo_draft]"
  by code_simp

definition receipt_demo_accounts :: receipt_accounts where
  "receipt_demo_accounts = \<lparr>rm_receivable = ''AR'', rm_tax = ''AIT''\<rparr>"

definition receipt_demo_entry :: journal_entry where
  "receipt_demo_entry = \<lparr>je_id = ''6'', je_company = ''C'', je_fy = ''FY'', je_no = ''RV/2525/0001'', je_voucher_type = RECEIPT,
     je_voucher_date = ''2025-07-25'', je_source_type = ''Receipt'', je_source_id = ''4'', je_is_reversal = False,
     je_reversal_of = None, je_posted_at = 6, je_posted_by = ''U'', je_narration = None,
     je_lines = lines_of (receipt_lines receipt_demo_accounts None receipt_demo_draft)\<rparr>"

definition receipt_demo_series :: series_row where
  "receipt_demo_series = \<lparr>s_id = ''5'', s_company = ''C'', s_fy = ''FY'', s_voucher_type = RECEIPT,
     s_prefix = ''RV'', s_padding = 4, s_last = 1, s_version = 1\<rparr>"

definition book_collected :: receipt_db where
  "book_collected = book_received [receipt_demo_row] [receipt_demo_entry] [receipt_demo_series]
     [receipt_demo_audit ''CREATE'', receipt_demo_audit ''POST''] 7"

lemma receipt_demo_create:
  "create_receipt dec20 show_nat receipt_demo sample_actor book_certified =
     Inr (''4'', book_received [receipt_demo_draft] [] [] [receipt_demo_audit ''CREATE''] 5)"
proof -
  have i: "ids_next show_nat book_certified = (''4'', book_received [] [] [] [] 5)" by code_simp
  have d: "rc_type receipt_demo_draft = IpcLinked" "rc_ipc receipt_demo_draft = Some ''1''" "rc_settled receipt_demo_draft = 500"
    by (simp_all add: receipt_demo_draft_def receipt_demo_row_def)
  have e: "db_entries book_certified = [demo_entry]" by (simp add: book_certified_def demo_book_def)
  show ?thesis
    by (simp add: create_receipt_def uow_run_def receipt_demo_resolve receipt_demo_draft i d e book_received_facts check_outstanding_def or_empty_def assert_within_outstanding_def
        receipt_demo_outstanding receipt_demo_insert)
      (simp add: book_received_def demo_book_def audit_record_def sample_actor_def receipt_demo_audit_def)
qed

lemma receipt_demo_book:
  "post dec20 show_nat (erp_ports show_nat) (build_receipt_command receipt_demo_accounts ''U'' None receipt_demo_draft) 6
     (book_received [receipt_demo_draft] [] [] [receipt_demo_audit ''CREATE''] 5) =
     Inr (receipt_demo_entry, book_received [receipt_demo_draft] [receipt_demo_entry] [receipt_demo_series] [receipt_demo_audit ''CREATE''] 7)"
  by code_simp

lemma receipt_demo_post_parts:
  "receipt_find ''4'' ''C'' [receipt_demo_draft] = Some receipt_demo_draft" "receipt_assert_draft receipt_demo_draft = Inr ()"
  "receipt_accounts_of ''C'' demo_accounts = Inr receipt_demo_accounts"
  "receipt_save dec20 (receipt_demo_row\<lparr>rc_version := Suc 0\<rparr>) (Suc 0) [receipt_demo_draft] = Inr [receipt_demo_row]"
  "balance_check receipt_demo_entry = Inr ()"
  by code_simp+

lemma receipt_demo_postable: "receipt_assert_postable dec20 receipt_demo_draft = Inr ()"
  by (simp add: receipt_assert_postable_def receipt_assert_draft_def assert_composition_def assert_reference_xor_def
      assert_cheque_ref_def receipt_requires_ref_def receipt_demo_draft_def receipt_demo_row_def blank_receipt_def truthy_def
      d_plus_def rnd20_small)

lemma receipt_demo_post:
  "post_receipt dec20 show_nat (erp_ports show_nat) ''4'' sample_actor 6
     (book_received [receipt_demo_draft] [] [] [receipt_demo_audit ''CREATE''] 5) = Inr ((''6'', ''RV/2525/0001''), book_collected)"
proof -
  have d: "rc_type receipt_demo_draft = IpcLinked" "rc_ipc receipt_demo_draft = Some ''1''" "rc_settled receipt_demo_draft = 500"
    by (simp_all add: receipt_demo_draft_def receipt_demo_row_def)
  have m: "receipt_mark_posted ''6'' ''RV/2525/0001'' ''U'' 6 receipt_demo_draft = Inr (receipt_demo_row\<lparr>rc_version := 1\<rparr>)" by code_simp
  have g: "posted_ipc_of ''1'' ''C'' (sal_ipcs (book_received rs es ss au n)) = Inr demo_posted_ipc" for rs es ss au n
    by (simp add: posted_ipc_of_def book_received_facts) (simp add: demo_posted_ipc_def)
  have e: "je_id receipt_demo_entry = ''6''" "je_no receipt_demo_entry = ''RV/2525/0001''" "rc_version (receipt_demo_row\<lparr>rc_version := 1\<rparr>) = 1"
    by (simp_all add: receipt_demo_entry_def)
  show ?thesis
    by (simp add: post_receipt_def uow_run_def book_received_facts receipt_demo_post_parts receipt_demo_postable receipt_target_def d g
        or_empty_def assert_within_outstanding_def receipt_demo_outstanding receipt_demo_book m e)
      (simp add: book_collected_def book_received_def demo_book_def audit_record_def sample_actor_def receipt_demo_audit_def)
qed

section \<open>The run\<close>

lemma book_is_empty: "empty_receipts book_empty"
  by (simp add: empty_receipts_def empty_sales_def empty_db_def book_empty_def demo_book_def)

lemma book_run_draft:
  "rtranclp (receipt_step True dec20 show_nat) book_empty (book_received [receipt_demo_draft] [] [] [receipt_demo_audit ''CREATE''] 5)"
proof -
  have "receipt_step True dec20 show_nat book_empty book_open"
  proof (rule c_sales)
    have "other_books book_empty book_open" by (simp add: other_books_def book_open_def book_empty_def demo_book_def)
    then show "sales_step True dec20 show_nat book_empty book_open" by (rule s_other [OF step_period [OF step_generate [OF book_generate]]])
  qed (simp add: receipts_kept_def book_empty_def book_open_def demo_book_def)
  moreover have "receipt_step True dec20 show_nat book_open book_drafted"
    by (rule c_sales [OF s_create [OF book_create]])
      (simp add: receipts_kept_def book_open_def book_drafted_def demo_book_def)
  moreover have "receipt_step True dec20 show_nat book_drafted book_certified"
    by (rule c_sales [OF s_post [OF book_post]])
      (simp add: receipts_kept_def book_certified_def book_drafted_def demo_book_def)
  moreover note c_create [OF receipt_demo_create]
  ultimately show ?thesis by (meson rtranclp.rtrancl_refl rtranclp.rtrancl_into_rtrancl)
qed

lemma book_run: "rtranclp (receipt_step True dec20 show_nat) book_empty book_collected"
proof (rule rtranclp.rtrancl_into_rtrancl [OF book_run_draft])
  show "receipt_step True dec20 show_nat (book_received [receipt_demo_draft] [] [] [receipt_demo_audit ''CREATE''] 5) book_collected"
    by (rule c_post) (rule receipt_demo_post)
qed

lemma book_received_total: "received_total ''C'' ''1'' (db_entries (book_received [receipt_demo_draft] [] [] au n)) [receipt_demo_draft] = 0"
proof -
  have "rc_status receipt_demo_draft = RecDraft" by (simp add: receipt_demo_draft_def)
  then show ?thesis by (simp add: received_total_def settled_total_def standing_def receipt_live_def)
qed

lemma book_collected_facts:
  "rb_rows book_collected = [receipt_demo_row]" "db_entries book_collected = [demo_entry, receipt_demo_entry]"
  "due_of ''C'' ''1'' (sal_ipcs book_collected) = Some 955"
  by (simp_all add: book_collected_def book_received_facts due_of_def)

lemma book_collected_total: "received_total ''C'' ''1'' (db_entries book_collected) (rb_rows book_collected) = 500"
  unfolding book_collected_facts by code_simp

end
