(* ===== verification/Receipt_Properties.thy ===== *)
theory Receipt_Properties
  imports Receipt_Demo
begin

text \<open>
  The properties of the receipt module: collecting stays within what is due and stands in the ledger, and a receipt
  can be taken back; and what happens at the edges the code leaves open.
\<close>

section \<open>Over every run\<close>

text \<open>
  C38. Collections stay within what is due: from any state that receipts, sales and the rest of the program reach, no
  step raises the standing receipts of a certificate above the amount due on it after that step; in every such state
  each receipt settles exactly its cash plus the tax deducted at source, and every posted receipt stands in the ledger
  with one entry of its own that holds exactly its lines, which debit and credit what it settles.
\<close>

theorem receipts_within_due:
  assumes "decimal_js D" and "inj mk" and "empty_receipts z" and "rtranclp (receipt_step nn D mk) z s"
  shows "(\<forall>s' co i. receipt_step nn D mk s s' \<and>
         received_total co i (db_entries s) (rb_rows s) < received_total co i (db_entries s') (rb_rows s') \<longrightarrow>
       (\<exists>x. due_of co i (sal_ipcs s') = Some x \<and> received_total co i (db_entries s') (rb_rows s') \<le> x)) \<and>
    (\<forall>r \<in> set (rb_rows s). 0 < rc_settled r \<and> rc_settled r = rc_cash r + rc_tax r) \<and>
    (\<forall>r \<in> set (rb_rows s). rc_status r = RecPosted \<longrightarrow> (\<exists>e \<in> set (db_entries s). \<exists>m facts.
       rc_entry r = Some (je_id e) \<and> je_source_type e = ''Receipt'' \<and> je_source_id e = rc_id r \<and>
       je_company e = rc_company r \<and> \<not> je_is_reversal e \<and> je_lines e = lines_of (receipt_lines m facts r) \<and>
       sum_list (map jl_debit (je_lines e)) = rc_settled r \<and> sum_list (map jl_credit (je_lines e)) = rc_settled r))"
proof -
  note run = receipt_run_inv [OF assms]
  note inv = receipt_invD [OF run]
  note ok = receipts_soundD(2) [OF inv(3)]
  have backed: "\<exists>e \<in> set (db_entries s). \<exists>m facts.
       rc_entry r = Some (je_id e) \<and> je_source_type e = ''Receipt'' \<and> je_source_id e = rc_id r \<and>
       je_company e = rc_company r \<and> \<not> je_is_reversal e \<and> je_lines e = lines_of (receipt_lines m facts r) \<and>
       sum_list (map jl_debit (je_lines e)) = rc_settled r \<and> sum_list (map jl_credit (je_lines e)) = rc_settled r"
    if "r \<in> set (rb_rows s)" "rc_status r = RecPosted" for r
  proof -
    from receipts_soundD(3) [OF inv(3) that] obtain e m facts where e: "e \<in> set (db_entries s)" "rc_entry r = Some (je_id e)"
      "je_source_type e = ''Receipt''" "je_source_id e = rc_id r" "je_company e = rc_company r" "\<not> je_is_reversal e"
      "je_lines e = lines_of (receipt_lines m facts r)" by (auto simp: receipt_backed_def)
    with receipt_lines_balance [OF ok [OF that(1)]] show ?thesis
      by (intro bexI [of _ e] exI [of _ m] exI [of _ facts]) simp_all
  qed
  show ?thesis
  proof (intro conjI allI ballI)
    fix s' co i
    show "receipt_step nn D mk s s' \<and>
        received_total co i (db_entries s) (rb_rows s) < received_total co i (db_entries s') (rb_rows s') \<longrightarrow>
      (\<exists>x. due_of co i (sal_ipcs s') = Some x \<and> received_total co i (db_entries s') (rb_rows s') \<le> x)"
      using decimal_js.receipt_step_safe [OF assms(1) _ run, of nn s'] unfolding receipt_safe_def collects_within_def by (meson not_le)
  next
    fix r assume r: "r \<in> set (rb_rows s)"
    show "0 < rc_settled r" "rc_settled r = rc_cash r + rc_tax r" using stored_receipt_okD(1,4) [OF ok [OF r]] by simp_all
  qed (use backed in blast)
qed

theorem receipts_within_due_witness:
  "received_total ''C'' ''1'' (db_entries book_collected) (rb_rows book_collected) = 500 \<and>
   (\<exists>x. due_of ''C'' ''1'' (sal_ipcs book_collected) = Some x \<and> 500 \<le> x)"
proof -
  note w = receipts_within_due [OF decimal_js_dec20 inj_show_nat book_is_empty book_run_draft, THEN conjunct1, rule_format, of book_collected "''C''" "''1''"]
  show ?thesis using w c_post [OF receipt_demo_post] by (simp add: book_collected_total book_received_total book_received_facts(3))
qed

text \<open>
  C39. A receipt can be taken back: in every state the program reaches, a posted receipt whose entry has not been
  reversed is cancelled successfully as long as the accounting period of that entry is open, and what it had settled
  of its certificate is outstanding again, to the last digit.
\<close>

theorem standing_receipt_can_be_cancelled:
  assumes "decimal_js D" and "inj mk" and "empty_receipts z" and "rtranclp (receipt_step nn D mk) z s"
    and "r \<in> set (rb_rows s)" and "rc_status r = RecPosted"
    and "e \<in> set (db_entries s)" and "rc_entry r = Some (je_id e)" and "je_id e \<noteq> []"
    and "\<not> entry_reversed (je_id e) (db_entries s)"
    and "assert_open (rc_company r) (je_fy e) (je_voucher_date e) s = Inr ()" and "find_fy (je_fy e) (rc_company r) (db_fys s) \<noteq> None"
    and "act_company act = rc_company r"
  shows "\<exists>x s'. cancel_receipt D mk (erp_ports mk) (rc_id r) reason act now s = Inr (x, s') \<and>
     (\<forall>i. rc_type r = IpcLinked \<and> rc_ipc r = Some i \<longrightarrow>
        received_total (rc_company r) i (db_entries s') (rb_rows s') =
        received_total (rc_company r) i (db_entries s) (rb_rows s) - rc_settled r)"
proof -
  note inv = receipt_run_inv [OF assms(1-4)]
  obtain x s' v f where c: "cancel_receipt D mk (erp_ports mk) (rc_id r) reason act now s = Inr (x, s')"
    and s': "db_entries s' = db_entries s @ [v]" "rb_rows s' = update_where (\<lambda>z. z = r) f (rb_rows s)"
    and v: "je_reversal_of v = Some (je_id e)" "rc_status (f r) = RecCancelled"
    by (rule decimal_js.cancel_commits [OF assms(1) inv assms(5,6,9,8,7,10-13)])
  have "received_total (rc_company r) i (db_entries s') (rb_rows s') =
      received_total (rc_company r) i (db_entries s) (rb_rows s) - rc_settled r"
    if "rc_type r = IpcLinked" "rc_ipc r = Some i" for i
  proof -
    from assms(6-8,10) that have "standing receipt_live rc_entry (rc_company r, i) (db_entries s) r"
      by (auto simp: standing_def receipt_live_def list_ex_iff)
    from decimal_js.cancel_frees [where f = f, OF assms(1) inv assms(5) this assms(8) v(2,1)] show ?thesis by (simp add: s')
  qed
  with c show ?thesis by blast
qed

theorem standing_receipt_can_be_cancelled_witness:
  "\<exists>x s'. cancel_receipt dec20 show_nat (erp_ports show_nat) ''4'' ''wrong customer'' sample_actor 9 book_collected = Inr (x, s') \<and>
     received_total ''C'' ''1'' (db_entries s') (rb_rows s') = 0"
proof -
  have r: "receipt_demo_row \<in> set (rb_rows book_collected)" "receipt_demo_entry \<in> set (db_entries book_collected)"
    by (simp_all add: book_collected_facts)
  have f: "rc_status receipt_demo_row = RecPosted" "rc_entry receipt_demo_row = Some (je_id receipt_demo_entry)" "je_id receipt_demo_entry \<noteq> []"
    "\<not> entry_reversed (je_id receipt_demo_entry) (db_entries book_collected)" "act_company sample_actor = rc_company receipt_demo_row"
    "rc_type receipt_demo_row = IpcLinked" "rc_ipc receipt_demo_row = Some ''1''" "rc_id receipt_demo_row = ''4''"
    "rc_company receipt_demo_row = ''C''" "rc_settled receipt_demo_row = 500"
    unfolding book_collected_facts by code_simp+
  have o: "assert_open (rc_company receipt_demo_row) (je_fy receipt_demo_entry) (je_voucher_date receipt_demo_entry) book_collected = Inr ()"
    "find_fy (je_fy receipt_demo_entry) (rc_company receipt_demo_row) (db_fys book_collected) \<noteq> None"
    by code_simp+
  from standing_receipt_can_be_cancelled [OF decimal_js_dec20 inj_show_nat book_is_empty book_run r(1) f(1) r(2) f(2-4) o f(5)]
  show ?thesis unfolding f(6-10) by (fastforce simp: book_collected_total)
qed

section \<open>Edges\<close>

text \<open>
  A repost checks the corrected receipt while the original still counts: a receipt of more than half of what is due
  cannot be reposted, even unchanged.
\<close>

theorem large_receipt_cannot_be_reposted:
  assumes "decimal_js D" and "receipt_inv D mk s" and "due_of co i (sal_ipcs s) = Some x"
    and "received_total co i (db_entries s) (rb_rows s) = rc_settled c" and "0 < rc_settled c" and "x < 2 * rc_settled c"
  shows "assert_within_outstanding (outstanding_for_ipc D i co s) c \<noteq> Inr ()"
proof -
  note inv = receipt_invD [OF assms(2)]
  note x = decimal_js.due_within [OF assms(1) inv(1) assms(3)]
  have y: "on_grid 4 (rc_settled c)" using assms(4) received_grid [OF inv(3), of co i] by simp
  from assms(3) obtain p where p: "find_posted_ipc i co (sal_ipcs s) = Some p" "ip_currently_due p = x" by (auto simp: due_of_def)
  have m: "d_minus D x (rc_settled c) < rc_settled c"
  proof (cases "rc_settled c \<le> x")
    case True
    with x y assms(5) have "exact_range (x - rc_settled c)" by (auto simp: exact_range_def)
    from decimal_js.minus_exact [OF assms(1) this] assms(6) show ?thesis by simp
  next
    case False
    then have "d_minus D x (rc_settled c) \<le> 0" using decimal_js.rnd_nonpos [OF assms(1), of "x - rc_settled c"] by (simp add: d_minus_def)
    with assms(5) show ?thesis by simp
  qed
  then have "outstanding_for_ipc D i co s < rc_settled c" using assms(5) by (simp add: outstanding_for_ipc_def p assms(4) Let_def)
  then show ?thesis by (simp add: assert_within_outstanding_def)
qed

text \<open>
  A general receipt may carry tax deducted at source: its deposit line debits the settled amount, not the cash received.
\<close>

theorem general_receipt_debits_settled:
  assumes "rc_type r = General"
  shows "map (\<lambda>l. (pl_account l, pl_debit l)) (filter (\<lambda>l. 0 < pl_debit l) (receipt_lines m facts r)) =
    (if 0 < rc_settled r then [(rc_deposit r, rc_settled r)] else [])"
  using assms by (simp add: receipt_lines_def receipt_line_def Let_def)

end
