(* ===== verification/Contra_Journal.thy ===== *)
theory Contra_Journal
  imports Vouchers
begin

text \<open>
  The contra and journal vouchers (\<open>src/src/modules/contra-journal/domain/\<close>): a contra moves money between the
  company's own cash and bank accounts, a journal is a manual entry, or the one opening journal of a company.  Both
  share their header, so they are one record over the type of their lines.
\<close>

section \<open>Accounts\<close>

record account_facts =
  af_type :: "account_type option"
  af_cash_bank :: bool
  af_control :: bool

definition unknown_account :: account_facts where
  "unknown_account = \<lparr>af_type = None, af_cash_bank = False, af_control = False\<rparr>"

text \<open>\<open>AccountClassificationSnapshot\<close>: the facts by the account id they were asked for.\<close>

definition facts_for :: "(string \<times> account_facts) list \<Rightarrow> string \<Rightarrow> account_facts" where
  "facts_for snap i = (case map_of snap i of None \<Rightarrow> unknown_account | Some f \<Rightarrow> f)"

section \<open>The vouchers\<close>

datatype gen_status = GenDraft | GenPosted | GenCancelled

fun gen_status_name :: "gen_status \<Rightarrow> string" where
  "gen_status_name GenDraft = ''DRAFT''"
| "gen_status_name GenPosted = ''POSTED''"
| "gen_status_name GenCancelled = ''CANCELLED''"

record new_contra_line =
  nk_account :: string
  nk_debit :: decimal_input
  nk_credit :: decimal_input
  nk_narration :: "string option"

record new_journal_line = new_contra_line +
  nj_project :: "string option"
  nj_cost_centre :: "string option"
  nj_purpose :: "string option"
  nj_party :: "string option"

record 'l new_voucher =
  nv_date :: string
  nv_narration :: "string option"
  nv_lines :: "'l list"

record contra_line =
  gl_no :: nat
  gl_account :: string
  gl_debit :: decimal
  gl_credit :: decimal
  gl_narration :: "string option"

record draft_line = contra_line +
  gj_project :: "string option"
  gj_cost_centre :: "string option"
  gj_purpose :: "string option"
  gj_party :: "string option"
  gj_type :: "account_type option"
  gj_control :: bool

record 'l gen_voucher =
  gv_id :: string
  gv_company :: string
  gv_fy :: string
  gv_date :: string
  gv_narration :: "string option"
  gv_status :: gen_status
  gv_entry_no :: "string option"
  gv_entry :: "string option"
  gv_posted_at :: "int option"
  gv_posted_by :: "string option"
  gv_version :: nat
  gv_lines :: "'l list"

type_synonym contra_voucher = "contra_line gen_voucher"

record journal_voucher = "draft_line gen_voucher" +
  jv_type :: voucher_type

section \<open>Shape of the lines\<close>

definition to_money :: "decimal_input \<Rightarrow> domain_error + decimal" where
  "to_money v = (case v of Absent \<Rightarrow> Inr 0 | Dec d \<Rightarrow> Inr d | _ \<Rightarrow> Inl (ValidationError ''value''))"

definition assert_line_side :: "decimal \<Rightarrow> decimal \<Rightarrow> domain_error + unit" where
  "assert_line_side debit credit =
     rbind (require (\<not> (debit < 0 \<or> credit < 0)) (ValidationError ''lineNo'')) (\<lambda>_.
     require ((debit = 0) \<noteq> (credit = 0)) (ValidationError ''lineNo''))"

definition assert_draft_balanced :: "dec_lib \<Rightarrow> ('a contra_line_scheme) list \<Rightarrow> domain_error + unit" where
  "assert_draft_balanced D ls =
     (let dr = foldl (d_plus D) 0 (map gl_debit ls); cr = foldl (d_plus D) 0 (map gl_credit ls)
      in require (dr = cr) (CodedError ''UNBALANCED_ENTRY'' []))"

definition contra_line_create :: "new_contra_line \<Rightarrow> nat \<Rightarrow> domain_error + contra_line" where
  "contra_line_create l n =
     rbind (to_money (nk_debit l)) (\<lambda>debit.
     rbind (to_money (nk_credit l)) (\<lambda>credit.
     rbind (assert_line_side debit credit) (\<lambda>_.
     rbind (req (nk_account l) ''accountId'') (\<lambda>account.
     Inr \<lparr>gl_no = n, gl_account = account, gl_debit = debit, gl_credit = credit, gl_narration = nk_narration l\<rparr>))))"

definition check_contra_account :: "(string \<times> account_facts) list \<Rightarrow> contra_line \<Rightarrow> domain_error + unit" where
  "check_contra_account snap l =
     (let f = facts_for snap (gl_account l) in
      rbind (require (af_cash_bank f) (CodedError ''NOT_BANK_CASH_ACCOUNT'' (gl_account l))) (\<lambda>_.
      require (\<not> af_control f) (CodedError ''NOT_BANK_CASH_ACCOUNT'' (gl_account l))))"

definition build_contra_lines ::
  "dec_lib \<Rightarrow> new_contra_line list \<Rightarrow> (string \<times> account_facts) list \<Rightarrow> domain_error + contra_line list" where
  "build_contra_lines D ls snap =
     rbind (require (2 \<le> length ls) (ValidationError ''lines'')) (\<lambda>_.
     rbind (rmap (\<lambda>(n, l). contra_line_create l n) (enumerate 1 ls)) (\<lambda>lines.
     rbind (riter (check_contra_account snap) lines) (\<lambda>_.
     rbind (assert_draft_balanced D lines) (\<lambda>_.
     Inr lines))))"

definition pnl_type :: "account_type option \<Rightarrow> bool" where
  "pnl_type t \<longleftrightarrow> t = Some INCOME \<or> t = Some EXPENSE"

definition missing_dim :: "string \<Rightarrow> string option \<Rightarrow> domain_error + unit" where
  "missing_dim account v = require (truthy v) (CodedError ''MISSING_REQUIRED_DIMENSION'' account)"

definition draft_line_create ::
  "(string \<times> account_facts) list \<Rightarrow> new_journal_line \<Rightarrow> nat \<Rightarrow> domain_error + draft_line" where
  "draft_line_create snap l n =
     rbind (req (nk_account l) ''accountId'') (\<lambda>account.
     rbind (to_money (nk_debit l)) (\<lambda>debit.
     rbind (to_money (nk_credit l)) (\<lambda>credit.
     rbind (assert_line_side debit credit) (\<lambda>_.
     let f = facts_for snap account; project = clean (nj_project l); centre = clean (nj_cost_centre l);
         purpose = clean (nj_purpose l); party = clean (nj_party l) in
     rbind (if pnl_type (af_type f)
            then rbind (missing_dim account project) (\<lambda>_. rbind (missing_dim account centre) (\<lambda>_. missing_dim account purpose))
            else Inr ()) (\<lambda>_.
     rbind (require (\<not> (af_control f \<and> \<not> truthy party)) (CodedError ''MISSING_CONTROL_PARTY'' account)) (\<lambda>_.
     Inr \<lparr>gl_no = n, gl_account = account, gl_debit = debit, gl_credit = credit, gl_narration = nk_narration l,
       gj_project = project, gj_cost_centre = centre, gj_purpose = purpose, gj_party = party, gj_type = af_type f,
       gj_control = af_control f\<rparr>))))))"

definition build_journal_lines ::
  "dec_lib \<Rightarrow> new_journal_line list \<Rightarrow> (string \<times> account_facts) list \<Rightarrow> domain_error + draft_line list" where
  "build_journal_lines D ls snap =
     rbind (require (2 \<le> length ls) (ValidationError ''lines'')) (\<lambda>_.
     rbind (rmap (\<lambda>(n, l). draft_line_create snap l n) (enumerate 1 ls)) (\<lambda>lines.
     rbind (assert_draft_balanced D lines) (\<lambda>_.
     Inr lines)))"

section \<open>Construction and lifecycle\<close>

definition contra_create_draft ::
  "dec_lib \<Rightarrow> string \<Rightarrow> string \<Rightarrow> string \<Rightarrow> new_contra_line new_voucher \<Rightarrow> (string \<times> account_facts) list \<Rightarrow> domain_error + contra_voucher" where
  "contra_create_draft D i co fy inp snap =
     rbind (build_contra_lines D (nv_lines inp) snap) (\<lambda>lines.
     rbind (req (nv_date inp) ''voucherDate'') (\<lambda>date.
     Inr \<lparr>gv_id = i, gv_company = co, gv_fy = fy, gv_date = date, gv_narration = nv_narration inp, gv_status = GenDraft,
       gv_entry_no = None, gv_entry = None, gv_posted_at = None, gv_posted_by = None, gv_version = 1, gv_lines = lines\<rparr>))"

definition journal_create_draft ::
  "dec_lib \<Rightarrow> string \<Rightarrow> string \<Rightarrow> string \<Rightarrow> voucher_type \<Rightarrow> new_journal_line new_voucher \<Rightarrow> (string \<times> account_facts) list \<Rightarrow>
   domain_error + journal_voucher" where
  "journal_create_draft D i co fy vt inp snap =
     rbind (build_journal_lines D (nv_lines inp) snap) (\<lambda>lines.
     rbind (req (nv_date inp) ''voucherDate'') (\<lambda>date.
     Inr \<lparr>gv_id = i, gv_company = co, gv_fy = fy, gv_date = date, gv_narration = nv_narration inp, gv_status = GenDraft,
       gv_entry_no = None, gv_entry = None, gv_posted_at = None, gv_posted_by = None, gv_version = 1, gv_lines = lines, jv_type = vt\<rparr>))"

definition gen_assert_draft :: "('l, 'a) gen_voucher_scheme \<Rightarrow> domain_error + unit" where
  "gen_assert_draft v = require (gv_status v = GenDraft) (NotDraftError (gen_status_name (gv_status v)))"

definition contra_update_draft ::
  "dec_lib \<Rightarrow> new_contra_line new_voucher \<Rightarrow> (string \<times> account_facts) list \<Rightarrow> contra_voucher \<Rightarrow> domain_error + contra_voucher" where
  "contra_update_draft D inp snap v =
     rbind (gen_assert_draft v) (\<lambda>_.
     rbind (req (nv_date inp) ''voucherDate'') (\<lambda>date.
     rbind (build_contra_lines D (nv_lines inp) snap) (\<lambda>lines.
     Inr (v\<lparr>gv_date := date, gv_narration := nv_narration inp, gv_lines := lines\<rparr>))))"

text \<open>The type an update passes along is the one of the voucher, so its check never fires.\<close>

definition journal_update_draft ::
  "dec_lib \<Rightarrow> new_journal_line new_voucher \<Rightarrow> (string \<times> account_facts) list \<Rightarrow> journal_voucher \<Rightarrow> domain_error + journal_voucher" where
  "journal_update_draft D inp snap v =
     rbind (gen_assert_draft v) (\<lambda>_.
     rbind (req (nv_date inp) ''voucherDate'') (\<lambda>date.
     rbind (build_journal_lines D (nv_lines inp) snap) (\<lambda>lines.
     Inr (v\<lparr>gv_date := date, gv_narration := nv_narration inp, gv_lines := lines\<rparr>))))"

definition gen_mark_posted ::
  "string \<Rightarrow> string \<Rightarrow> string \<Rightarrow> int \<Rightarrow> ('l, 'a) gen_voucher_scheme \<Rightarrow> domain_error + ('l, 'a) gen_voucher_scheme" where
  "gen_mark_posted entry_id entry_no who now v =
     rbind (gen_assert_draft v) (\<lambda>_.
     Inr (v\<lparr>gv_status := GenPosted, gv_entry := Some entry_id, gv_entry_no := Some entry_no, gv_posted_by := Some who,
       gv_posted_at := Some now\<rparr>))"

definition gen_mark_cancelled :: "('l, 'a) gen_voucher_scheme \<Rightarrow> domain_error + ('l, 'a) gen_voucher_scheme" where
  "gen_mark_cancelled v =
     rbind (require (gv_status v = GenPosted) (NotDraftError (gen_status_name (gv_status v)))) (\<lambda>_.
     Inr (v\<lparr>gv_status := GenCancelled\<rparr>))"

section \<open>The commands\<close>

definition contra_posting_line :: "contra_line \<Rightarrow> posting_line" where
  "contra_posting_line l =
     \<lparr>pl_account = gl_account l, pl_project = None, pl_cost_centre = None, pl_purpose = None, pl_godown = None, pl_party = None,
      pl_debit = gl_debit l, pl_credit = gl_credit l, pl_narration = gl_narration l, pl_account_type = Some ASSET,
      pl_is_control = Some False, pl_is_stock = None\<rparr>"

definition contra_command :: "contra_voucher \<Rightarrow> string \<Rightarrow> posting_command" where
  "contra_command v posted_by =
     \<lparr>pc_company = gv_company v, pc_fy = gv_fy v, pc_voucher_type = CONTRA, pc_voucher_date = gv_date v,
      pc_source_type = ''ContraVoucher'', pc_source_id = gv_id v, pc_posted_by = posted_by, pc_narration = gv_narration v,
      pc_lines = map contra_posting_line (gv_lines v)\<rparr>"

definition journal_posting_line :: "draft_line \<Rightarrow> posting_line" where
  "journal_posting_line l =
     \<lparr>pl_account = gl_account l, pl_project = gj_project l, pl_cost_centre = gj_cost_centre l, pl_purpose = gj_purpose l,
      pl_godown = None, pl_party = gj_party l, pl_debit = gl_debit l, pl_credit = gl_credit l, pl_narration = gl_narration l,
      pl_account_type = gj_type l, pl_is_control = Some (gj_control l), pl_is_stock = None\<rparr>"

definition journal_command :: "journal_voucher \<Rightarrow> string \<Rightarrow> posting_command" where
  "journal_command v posted_by =
     \<lparr>pc_company = gv_company v, pc_fy = gv_fy v, pc_voucher_type = jv_type v, pc_voucher_date = gv_date v,
      pc_source_type = ''JournalVoucher'', pc_source_id = gv_id v, pc_posted_by = posted_by, pc_narration = gv_narration v,
      pc_lines = map journal_posting_line (gv_lines v)\<rparr>"

end
