(* ===== verification/Contra_Journal_State.thy ===== *)
theory Contra_Journal_State
  imports Contra_Journal
begin

text \<open>
  The tables of the contra and journal module (\<open>src/src/modules/contra-journal/infrastructure/\<close>), the accounts and
  parties it reads, the adapters to them, and the repositories.  Both repositories are the same code over their own
  tables; each persisted line draws a fresh identifier that nothing refers to.
\<close>

section \<open>State\<close>

record gen_account =
  ga_id :: string
  ga_company :: string
  ga_code :: string
  ga_type :: account_type
  ga_opening :: "decimal option"

record gen_party =
  gp_id :: string
  gp_company :: string
  gp_opening :: "decimal option"

record 'v gen_row =
  gr_voucher :: 'v
  gr_deleted :: bool

record gen_db = db +
  gen_accounts :: "gen_account list"
  gen_parties :: "gen_party list"
  gen_contras :: "contra_voucher gen_row list"
  gen_journals :: "journal_voucher gen_row list"

section \<open>Adapters\<close>

definition account_find :: "string \<Rightarrow> string \<Rightarrow> gen_account list \<Rightarrow> gen_account option" where
  "account_find i co tbl = List.find (\<lambda>a. ga_id a = i \<and> ga_company a = co) tbl"

definition facts_of :: "string \<Rightarrow> gen_account list \<Rightarrow> string \<Rightarrow> account_facts" where
  "facts_of co tbl i =
     (case account_find i co tbl of
        None \<Rightarrow> unknown_account
      | Some a \<Rightarrow> \<lparr>af_type = Some (ga_type a), af_cash_bank = (ga_code a \<in> {''1100'', ''1110''}),
                  af_control = (ga_code a = ''1200'' \<or> ga_code a = ''2100'')\<rparr>)"

definition snapshot_load :: "string \<Rightarrow> gen_account list \<Rightarrow> string list \<Rightarrow> (string \<times> account_facts) list" where
  "snapshot_load co tbl ids = map (\<lambda>i. (i, facts_of co tbl i)) (remdups ids)"

definition nonzero_opening :: "decimal option \<Rightarrow> bool" where
  "nonzero_opening v \<longleftrightarrow> (case v of None \<Rightarrow> False | Some x \<Rightarrow> x \<noteq> 0)"

definition accounts_with_opening :: "string \<Rightarrow> gen_account list \<Rightarrow> (string \<times> account_type \<times> decimal) list" where
  "accounts_with_opening co tbl =
     map (\<lambda>a. (ga_id a, ga_type a, the (ga_opening a))) (filter (\<lambda>a. ga_company a = co \<and> nonzero_opening (ga_opening a)) tbl)"

definition parties_with_opening :: "string \<Rightarrow> gen_party list \<Rightarrow> (string \<times> decimal) list" where
  "parties_with_opening co tbl =
     map (\<lambda>p. (gp_id p, the (gp_opening p))) (filter (\<lambda>p. gp_company p = co \<and> nonzero_opening (gp_opening p)) tbl)"

definition resolve_by_code :: "string \<Rightarrow> string \<Rightarrow> string \<Rightarrow> gen_account list \<Rightarrow> domain_error + string" where
  "resolve_by_code co code role tbl =
     (case List.find (\<lambda>a. ga_company a = co \<and> ga_code a = code) tbl of
        None \<Rightarrow> Inl (CodedError ''OPENING_ACCOUNT_NOT_CONFIGURED'' role) | Some a \<Rightarrow> Inr (ga_id a))"

section \<open>The repositories\<close>

definition stored_gen_line :: "dec_lib \<Rightarrow> 'a contra_line_scheme \<Rightarrow> 'a contra_line_scheme" where
  "stored_gen_line D l = l\<lparr>gl_debit := to_dp D 4 (gl_debit l), gl_credit := to_dp D 4 (gl_credit l)\<rparr>"

definition gen_line_checks :: "'a contra_line_scheme \<Rightarrow> domain_error + unit" where
  "gen_line_checks l =
     rbind (require (\<bar>gl_debit l\<bar> < 10 ^ 14 \<and> \<bar>gl_credit l\<bar> < 10 ^ 14) (DatabaseError ''numeric field overflow'')) (\<lambda>_.
     rbind (require (0 \<le> gl_debit l) (DatabaseError ''chk_line_debit_nonneg'')) (\<lambda>_.
     rbind (require (0 \<le> gl_credit l) (DatabaseError ''chk_line_credit_nonneg'')) (\<lambda>_.
     require ((gl_debit l = 0) \<noteq> (gl_credit l = 0)) (DatabaseError ''chk_line_one_side''))))"

definition stored_gen_voucher ::
  "dec_lib \<Rightarrow> ('a contra_line_scheme, 'b) gen_voucher_scheme \<Rightarrow> ('a contra_line_scheme, 'b) gen_voucher_scheme" where
  "stored_gen_voucher D v = v\<lparr>gv_lines := map (stored_gen_line D) (gv_lines v)\<rparr>"

type_synonym ('a, 'b) gen_rows = "('a contra_line_scheme, 'b) gen_voucher_scheme gen_row list"

definition gen_insert ::
  "dec_lib \<Rightarrow> ('a contra_line_scheme, 'b) gen_voucher_scheme \<Rightarrow> ('a, 'b) gen_rows \<Rightarrow> domain_error + ('a, 'b) gen_rows" where
  "gen_insert D v tbl =
     (let q = (stored_gen_voucher D v)\<lparr>gv_version := 1\<rparr> in
      rbind (require (\<not> list_ex (\<lambda>r. gv_id (gr_voucher r) = gv_id q) tbl) (DatabaseError ''voucher_pkey'')) (\<lambda>_.
      rbind (riter gen_line_checks (gv_lines q)) (\<lambda>_.
      Inr (tbl @ [\<lparr>gr_voucher = q, gr_deleted = False\<rparr>]))))"

definition gen_hit :: "('l, 'b) gen_voucher_scheme \<Rightarrow> nat \<Rightarrow> ('l, 'b) gen_voucher_scheme gen_row \<Rightarrow> bool" where
  "gen_hit v expected r \<longleftrightarrow> gv_id (gr_voucher r) = gv_id v \<and> gv_company (gr_voucher r) = gv_company v \<and>
     gv_version (gr_voucher r) = expected"

definition gen_saved ::
  "dec_lib \<Rightarrow> ('a contra_line_scheme, 'b) gen_voucher_scheme \<Rightarrow> nat \<Rightarrow> ('a contra_line_scheme, 'b) gen_voucher_scheme gen_row \<Rightarrow>
   ('a contra_line_scheme, 'b) gen_voucher_scheme gen_row" where
  "gen_saved D v expected r =
     r\<lparr>gr_voucher := (gr_voucher r)\<lparr>gv_date := gv_date v, gv_narration := gv_narration v, gv_status := gv_status v,
       gv_entry_no := gv_entry_no v, gv_entry := gv_entry v, gv_posted_at := gv_posted_at v, gv_posted_by := gv_posted_by v,
       gv_version := expected + 1, gv_lines := map (stored_gen_line D) (gv_lines v)\<rparr>\<rparr>"

definition gen_save ::
  "dec_lib \<Rightarrow> ('a contra_line_scheme, 'b) gen_voucher_scheme \<Rightarrow> nat \<Rightarrow> ('a, 'b) gen_rows \<Rightarrow> domain_error + ('a, 'b) gen_rows" where
  "gen_save D v expected tbl =
     (if \<not> list_ex (gen_hit v expected) tbl then Inl OptimisticLockConflictError
      else rbind (riter gen_line_checks (map (stored_gen_line D) (gv_lines v))) (\<lambda>_.
           Inr (update_where (gen_hit v expected) (gen_saved D v expected) tbl)))"

definition gen_find :: "bool \<Rightarrow> string \<Rightarrow> string \<Rightarrow> ('l, 'b) gen_voucher_scheme gen_row list \<Rightarrow> ('l, 'b) gen_voucher_scheme option" where
  "gen_find nn i co tbl =
     map_option gr_voucher
       (List.find (\<lambda>r. gv_id (gr_voucher r) = i \<and> gv_company (gr_voucher r) = co \<and> (nn \<longrightarrow> \<not> gr_deleted r)) tbl)"

definition gen_find_for_update :: "string \<Rightarrow> string \<Rightarrow> ('l, 'b) gen_voucher_scheme gen_row list \<Rightarrow> ('l, 'b) gen_voucher_scheme option" where
  "gen_find_for_update i co tbl =
     map_option gr_voucher (List.find (\<lambda>r. gv_id (gr_voucher r) = i \<and> gv_company (gr_voucher r) = co \<and> \<not> gr_deleted r) tbl)"

definition gen_soft_delete :: "string \<Rightarrow> string \<Rightarrow> ('l, 'b) gen_voucher_scheme gen_row list \<Rightarrow> ('l, 'b) gen_voucher_scheme gen_row list" where
  "gen_soft_delete i co tbl =
     update_where (\<lambda>r. gv_id (gr_voucher r) = i \<and> gv_company (gr_voucher r) = co) (\<lambda>r. r\<lparr>gr_deleted := True\<rparr>) tbl"

definition exists_opening_for :: "string \<Rightarrow> journal_voucher gen_row list \<Rightarrow> bool" where
  "exists_opening_for co tbl \<longleftrightarrow>
     list_ex (\<lambda>r. gv_company (gr_voucher r) = co \<and> jv_type (gr_voucher r) = OPENING \<and> \<not> gr_deleted r) tbl"

definition journal_insert ::
  "dec_lib \<Rightarrow> journal_voucher \<Rightarrow> journal_voucher gen_row list \<Rightarrow> domain_error + journal_voucher gen_row list" where
  "journal_insert D v tbl =
     rbind (require (jv_type v = OPENING \<longrightarrow> \<not> exists_opening_for (gv_company v) tbl)
       (DatabaseError ''uq_journal_voucher_one_opening'')) (\<lambda>_.
     gen_insert D v tbl)"

text \<open>The identifiers the lines of a voucher draw.\<close>

definition draw_lines :: "('l, 'b) gen_voucher_scheme \<Rightarrow> 'a db_scheme \<Rightarrow> 'a db_scheme" where
  "draw_lines v s = s\<lparr>db_ids := db_ids s + length (gv_lines v)\<rparr>"

end
