(* ===== verification/Contra_Journal_Use_Cases.thy ===== *)
theory Contra_Journal_Use_Cases
  imports Contra_Journal_State
begin

text \<open>
  The services of the contra and journal module (\<open>src/src/modules/contra-journal/application/\<close>), each one
  transaction, and the assembly of the opening journal from the opening balances of accounts and parties.
\<close>

section \<open>Drafts\<close>

record 'l voucher_patch =
  vx_date :: "string patch"
  vx_narration :: "string patch"
  vx_lines :: "'l list patch"

definition create_contra ::
  "dec_lib \<Rightarrow> (nat \<Rightarrow> string) \<Rightarrow> new_contra_line new_voucher \<Rightarrow> actor \<Rightarrow> 'a gen_db_scheme \<Rightarrow> domain_error + (string \<times> 'a gen_db_scheme)" where
  "create_contra D mk inp act = uow_run (\<lambda>s.
     let snap = snapshot_load (act_company act) (gen_accounts s) (map nk_account (nv_lines inp)) in
     case ids_next mk s of (i, s1) \<Rightarrow>
     rbind (contra_create_draft D i (act_company act) (act_fy act) inp snap) (\<lambda>v.
     rbind (gen_insert D v (gen_contras s1)) (\<lambda>tbl.
     Inr (i, audit_record ''CREATE'' ''ContraVoucher'' i act (draw_lines v (s1\<lparr>gen_contras := tbl\<rparr>))))))"

definition create_journal ::
  "dec_lib \<Rightarrow> (nat \<Rightarrow> string) \<Rightarrow> voucher_type option \<Rightarrow> new_journal_line new_voucher \<Rightarrow> actor \<Rightarrow> 'a gen_db_scheme \<Rightarrow>
   domain_error + (string \<times> 'a gen_db_scheme)" where
  "create_journal D mk vt inp act s0 =
     rbind (require (vt \<noteq> Some OPENING) (ValidationError ''voucherType'')) (\<lambda>_. uow_run (\<lambda>s.
     let snap = snapshot_load (act_company act) (gen_accounts s) (map nk_account (nv_lines inp)) in
     case ids_next mk s of (i, s1) \<Rightarrow>
     rbind (journal_create_draft D i (act_company act) (act_fy act) JOURNAL inp snap) (\<lambda>v.
     rbind (journal_insert D v (gen_journals s1)) (\<lambda>tbl.
     Inr (i, audit_record ''CREATE'' ''JournalVoucher'' i act (draw_lines v (s1\<lparr>gen_journals := tbl\<rparr>)))))) s0)"

definition current_contra_line :: "contra_line \<Rightarrow> new_contra_line" where
  "current_contra_line l =
     \<lparr>nk_account = gl_account l, nk_debit = Dec (gl_debit l), nk_credit = Dec (gl_credit l), nk_narration = gl_narration l\<rparr>"

definition current_draft_line :: "draft_line \<Rightarrow> new_journal_line" where
  "current_draft_line l =
     \<lparr>nk_account = gl_account l, nk_debit = Dec (gl_debit l), nk_credit = Dec (gl_credit l), nk_narration = gl_narration l,
      nj_project = gj_project l, nj_cost_centre = gj_cost_centre l, nj_purpose = gj_purpose l, nj_party = gj_party l\<rparr>"

definition patched_input :: "('l \<Rightarrow> 'n) \<Rightarrow> 'n voucher_patch \<Rightarrow> ('l, 'b) gen_voucher_scheme \<Rightarrow> 'n new_voucher" where
  "patched_input current x v =
     \<lparr>nv_date = patch_nullish (vx_date x) (gv_date v), nv_narration = patch_defined (vx_narration x) (gv_narration v),
      nv_lines = patch_nullish (vx_lines x) (map current (gv_lines v))\<rparr>"

definition update_contra ::
  "bool \<Rightarrow> dec_lib \<Rightarrow> string \<Rightarrow> new_contra_line voucher_patch \<Rightarrow> nat \<Rightarrow> actor \<Rightarrow> 'a gen_db_scheme \<Rightarrow> domain_error + (unit \<times> 'a gen_db_scheme)" where
  "update_contra nn D i x version act = uow_run (\<lambda>s.
     rbind (fetch (NotFoundError i) (gen_find nn i (act_company act) (gen_contras s))) (\<lambda>v.
     rbind (assert_version (gv_version v) version) (\<lambda>_.
     let inp = patched_input current_contra_line x v in
     rbind (contra_update_draft D inp (snapshot_load (act_company act) (gen_accounts s) (map nk_account (nv_lines inp))) v) (\<lambda>q.
     rbind (gen_save D q version (gen_contras s)) (\<lambda>tbl.
     Inr ((), audit_record ''UPDATE'' ''ContraVoucher'' i act (draw_lines q (s\<lparr>gen_contras := tbl\<rparr>))))))))"

definition update_journal ::
  "bool \<Rightarrow> dec_lib \<Rightarrow> string \<Rightarrow> new_journal_line voucher_patch \<Rightarrow> nat \<Rightarrow> actor \<Rightarrow> 'a gen_db_scheme \<Rightarrow> domain_error + (unit \<times> 'a gen_db_scheme)" where
  "update_journal nn D i x version act = uow_run (\<lambda>s.
     rbind (fetch (NotFoundError i) (gen_find nn i (act_company act) (gen_journals s))) (\<lambda>v.
     rbind (assert_version (gv_version v) version) (\<lambda>_.
     let inp = patched_input current_draft_line x v in
     rbind (journal_update_draft D inp (snapshot_load (act_company act) (gen_accounts s) (map nk_account (nv_lines inp))) v) (\<lambda>q.
     rbind (gen_save D q version (gen_journals s)) (\<lambda>tbl.
     Inr ((), audit_record ''UPDATE'' ''JournalVoucher'' i act (draw_lines q (s\<lparr>gen_journals := tbl\<rparr>))))))))"

definition delete_contra :: "bool \<Rightarrow> string \<Rightarrow> actor \<Rightarrow> 'a gen_db_scheme \<Rightarrow> domain_error + (unit \<times> 'a gen_db_scheme)" where
  "delete_contra nn i act = uow_run (\<lambda>s.
     rbind (fetch (NotFoundError i) (gen_find nn i (act_company act) (gen_contras s))) (\<lambda>v.
     rbind (gen_assert_draft v) (\<lambda>_.
     Inr ((), audit_record ''DELETE'' ''ContraVoucher'' i act (s\<lparr>gen_contras := gen_soft_delete i (act_company act) (gen_contras s)\<rparr>)))))"

definition delete_journal :: "bool \<Rightarrow> string \<Rightarrow> actor \<Rightarrow> 'a gen_db_scheme \<Rightarrow> domain_error + (unit \<times> 'a gen_db_scheme)" where
  "delete_journal nn i act = uow_run (\<lambda>s.
     rbind (fetch (NotFoundError i) (gen_find nn i (act_company act) (gen_journals s))) (\<lambda>v.
     rbind (gen_assert_draft v) (\<lambda>_.
     Inr ((), audit_record ''DELETE'' ''JournalVoucher'' i act (s\<lparr>gen_journals := gen_soft_delete i (act_company act) (gen_journals s)\<rparr>)))))"

section \<open>Posting and reversing\<close>

definition post_contra ::
  "dec_lib \<Rightarrow> (nat \<Rightarrow> string) \<Rightarrow> 'a gen_db_scheme ports \<Rightarrow> string \<Rightarrow> actor \<Rightarrow> int \<Rightarrow> 'a gen_db_scheme \<Rightarrow>
   domain_error + ((string \<times> string) \<times> 'a gen_db_scheme)" where
  "post_contra D mk P i act now = uow_run (\<lambda>s.
     rbind (fetch (NotFoundError i) (gen_find_for_update i (act_company act) (gen_contras s))) (\<lambda>v.
     rbind (gen_assert_draft v) (\<lambda>_.
     rbind (post D mk P (contra_command v (act_user act)) now s) (\<lambda>(e, s1).
     rbind (gen_mark_posted (je_id e) (je_no e) (act_user act) now v) (\<lambda>q.
     rbind (gen_save D q (gv_version q) (gen_contras s1)) (\<lambda>tbl.
     Inr ((je_id e, je_no e), audit_record ''POST'' ''ContraVoucher'' i act (draw_lines q (s1\<lparr>gen_contras := tbl\<rparr>)))))))))"

definition post_journal ::
  "dec_lib \<Rightarrow> (nat \<Rightarrow> string) \<Rightarrow> 'a gen_db_scheme ports \<Rightarrow> string \<Rightarrow> actor \<Rightarrow> int \<Rightarrow> 'a gen_db_scheme \<Rightarrow>
   domain_error + ((string \<times> string) \<times> 'a gen_db_scheme)" where
  "post_journal D mk P i act now = uow_run (\<lambda>s.
     rbind (fetch (NotFoundError i) (gen_find_for_update i (act_company act) (gen_journals s))) (\<lambda>v.
     rbind (gen_assert_draft v) (\<lambda>_.
     rbind (post D mk P (journal_command v (act_user act)) now s) (\<lambda>(e, s1).
     rbind (gen_mark_posted (je_id e) (je_no e) (act_user act) now v) (\<lambda>q.
     rbind (gen_save D q (gv_version q) (gen_journals s1)) (\<lambda>tbl.
     Inr ((je_id e, je_no e), audit_record ''POST'' ''JournalVoucher'' i act (draw_lines q (s1\<lparr>gen_journals := tbl\<rparr>)))))))))"

definition reverse_contra ::
  "dec_lib \<Rightarrow> (nat \<Rightarrow> string) \<Rightarrow> 'a gen_db_scheme ports \<Rightarrow> string \<Rightarrow> string \<Rightarrow> actor \<Rightarrow> int \<Rightarrow> 'a gen_db_scheme \<Rightarrow>
   domain_error + ((string \<times> string) \<times> 'a gen_db_scheme)" where
  "reverse_contra D mk P i reason act now = uow_run (\<lambda>s.
     rbind (fetch (NotFoundError i) (gen_find_for_update i (act_company act) (gen_contras s))) (\<lambda>v.
     rbind (require (gv_status v = GenPosted) (NotPostedError (gen_status_name (gv_status v)))) (\<lambda>_.
     rbind (require (truthy (gv_entry v)) (ValidationError i)) (\<lambda>_.
     rbind (reverse D mk P (the (gv_entry v)) (act_company act) reason (act_user act) now s) (\<lambda>(e, s1).
     rbind (gen_mark_cancelled v) (\<lambda>q.
     rbind (gen_save D q (gv_version q) (gen_contras s1)) (\<lambda>tbl.
     Inr ((je_id e, je_no e), audit_record ''CANCEL'' ''ContraVoucher'' i act (draw_lines q (s1\<lparr>gen_contras := tbl\<rparr>))))))))))"

definition reverse_journal ::
  "dec_lib \<Rightarrow> (nat \<Rightarrow> string) \<Rightarrow> 'a gen_db_scheme ports \<Rightarrow> string \<Rightarrow> string \<Rightarrow> actor \<Rightarrow> int \<Rightarrow> 'a gen_db_scheme \<Rightarrow>
   domain_error + ((string \<times> string) \<times> 'a gen_db_scheme)" where
  "reverse_journal D mk P i reason act now = uow_run (\<lambda>s.
     rbind (fetch (NotFoundError i) (gen_find_for_update i (act_company act) (gen_journals s))) (\<lambda>v.
     rbind (require (gv_status v = GenPosted) (NotPostedError (gen_status_name (gv_status v)))) (\<lambda>_.
     rbind (require (truthy (gv_entry v)) (ValidationError i)) (\<lambda>_.
     rbind (reverse D mk P (the (gv_entry v)) (act_company act) reason (act_user act) now s) (\<lambda>(e, s1).
     rbind (gen_mark_cancelled v) (\<lambda>q.
     rbind (gen_save D q (gv_version q) (gen_journals s1)) (\<lambda>tbl.
     Inr ((je_id e, je_no e), audit_record ''CANCEL'' ''JournalVoucher'' i act (draw_lines q (s1\<lparr>gen_journals := tbl\<rparr>))))))))))"

section \<open>The opening journal\<close>

text \<open>A line with an amount on one side and nothing else, as the assembler pushes it.\<close>

definition opening_line :: "string \<Rightarrow> string option \<Rightarrow> decimal_input \<Rightarrow> decimal_input \<Rightarrow> new_journal_line" where
  "opening_line account party debit credit =
     \<lparr>nk_account = account, nk_debit = debit, nk_credit = credit, nk_narration = None, nj_project = None,
      nj_cost_centre = None, nj_purpose = None, nj_party = party\<rparr>"

definition debit_natural :: "account_type \<Rightarrow> bool" where
  "debit_natural t \<longleftrightarrow> t = ASSET \<or> t = EXPENSE"

text \<open>
  The loop over the accounts, then the one over the parties: the lines pushed, the net of debits and credits, and the
  facts of the accounts that are set.
\<close>

fun account_openings ::
  "dec_lib \<Rightarrow> (string \<times> account_type \<times> decimal) list \<Rightarrow> new_journal_line list \<times> decimal \<Rightarrow> new_journal_line list \<times> decimal" where
  "account_openings D [] acc = acc"
| "account_openings D ((i, t, x) # rest) (ls, net) =
     account_openings D rest
       (if x = 0 then (ls, net)
        else if debit_natural t then (ls @ [opening_line i None (Dec (to_dp D 4 x)) Absent], d_plus D net x)
        else (ls @ [opening_line i None Absent (Dec (to_dp D 4 x))], d_minus D net x))"

fun party_openings ::
  "dec_lib \<Rightarrow> string \<Rightarrow> string \<Rightarrow> (string \<times> decimal) list \<Rightarrow> new_journal_line list \<times> decimal \<Rightarrow> new_journal_line list \<times> decimal" where
  "party_openings D ar ap [] acc = acc"
| "party_openings D ar ap ((p, x) # rest) (ls, net) =
     party_openings D ar ap rest
       (if x = 0 then (ls, net)
        else if 0 \<le> x then (ls @ [opening_line ar (Some p) (Dec (to_dp D 4 x)) Absent], d_plus D net x)
        else (ls @ [opening_line ap (Some p) Absent (Dec (to_dp D 4 \<bar>x\<bar>))], d_minus D net \<bar>x\<bar>))"

definition account_type_facts :: "account_type \<Rightarrow> bool \<Rightarrow> account_facts" where
  "account_type_facts t control = \<lparr>af_type = Some t, af_cash_bank = False, af_control = control\<rparr>"

text \<open>Later entries of the map replace earlier ones.\<close>

definition opening_facts ::
  "string \<Rightarrow> string \<Rightarrow> string \<Rightarrow> (string \<times> account_type \<times> decimal) list \<Rightarrow> (string \<times> account_facts) list" where
  "opening_facts ar ap equity accs =
     [(equity, account_type_facts EQUITY False), (ap, account_type_facts LIABILITY True), (ar, account_type_facts ASSET True)] @
     rev (map (\<lambda>(i, t, x). (i, account_type_facts t False)) (filter (\<lambda>(i, t, x). x \<noteq> 0) accs))"

definition equity_line :: "dec_lib \<Rightarrow> string \<Rightarrow> decimal \<Rightarrow> new_journal_line list" where
  "equity_line D equity net =
     (if 0 \<le> net then [opening_line equity None Absent (Dec (to_dp D 4 net))]
      else if net < 0 then [opening_line equity None (Dec (to_dp D 4 \<bar>net\<bar>)) Absent] else [])"

definition opening_input ::
  "dec_lib \<Rightarrow> string \<Rightarrow> string \<Rightarrow> string \<Rightarrow> (string \<times> account_type \<times> decimal) list \<Rightarrow> (string \<times> decimal) list \<Rightarrow> new_journal_line list" where
  "opening_input D ar ap equity accs parties =
     (case party_openings D ar ap parties (account_openings D accs ([], 0)) of (ls, net) \<Rightarrow> ls @ equity_line D equity net)"

definition assemble_opening ::
  "dec_lib \<Rightarrow> string \<Rightarrow> string \<Rightarrow> string \<Rightarrow> string \<Rightarrow> string option \<Rightarrow> 'a gen_db_scheme \<Rightarrow> domain_error + journal_voucher" where
  "assemble_opening D i co fy date narration s =
     rbind (resolve_by_code co ''1200'' ''accounts-receivable control'' (gen_accounts s)) (\<lambda>ar.
     rbind (resolve_by_code co ''2100'' ''accounts-payable control'' (gen_accounts s)) (\<lambda>ap.
     rbind (resolve_by_code co ''3900'' ''opening-balance-equity'' (gen_accounts s)) (\<lambda>equity.
     let accs = accounts_with_opening co (gen_accounts s) in
     journal_create_draft D i co fy OPENING
       \<lparr>nv_date = date, nv_narration = narration,
        nv_lines = opening_input D ar ap equity accs (parties_with_opening co (gen_parties s))\<rparr>
       (opening_facts ar ap equity accs))))"

definition post_opening ::
  "dec_lib \<Rightarrow> (nat \<Rightarrow> string) \<Rightarrow> 'a gen_db_scheme ports \<Rightarrow> string \<Rightarrow> string option \<Rightarrow> actor \<Rightarrow> int \<Rightarrow> 'a gen_db_scheme \<Rightarrow>
   domain_error + ((string \<times> string \<times> string) \<times> 'a gen_db_scheme)" where
  "post_opening D mk P date narration act now = uow_run (\<lambda>s.
     rbind (require (\<not> exists_opening_for (act_company act) (gen_journals s)) (CodedError ''OPENING_ALREADY_EXISTS'' (act_company act))) (\<lambda>_.
     rbind (assemble_opening D (mk (db_ids s)) (act_company act) (act_fy act) date
              (Some (case narration of None \<Rightarrow> ''Go-live opening balances'' | Some t \<Rightarrow> t)) s) (\<lambda>v.
     let s1 = snd (ids_next mk s) in
     rbind (journal_insert D v (gen_journals s1)) (\<lambda>tbl.
     rbind (post D mk P (journal_command v (act_user act)) now (draw_lines v (s1\<lparr>gen_journals := tbl\<rparr>))) (\<lambda>(e, s2).
     rbind (gen_mark_posted (je_id e) (je_no e) (act_user act) now v) (\<lambda>q.
     rbind (gen_save D q (gv_version q) (gen_journals s2)) (\<lambda>tbl2.
     Inr ((gv_id v, je_id e, je_no e), audit_record ''POST'' ''JournalVoucher'' (gv_id v) act
       (draw_lines q (s2\<lparr>gen_journals := tbl2\<rparr>))))))))))"

end
