(* ===== verification/Contra_Journal_Opening.thy ===== *)
theory Contra_Journal_Opening
  imports Contra_Journal_Use_Cases
begin

text \<open>
  The opening journal restates the opening balances: when its assembly succeeds, and what the lines then say.
\<close>

section \<open>The openings of a company\<close>

definition signed_opening :: "account_type \<Rightarrow> decimal \<Rightarrow> decimal" where
  "signed_opening t x = (if debit_natural t then x else - x)"

definition openings_net :: "(string \<times> account_type \<times> decimal) list \<Rightarrow> (string \<times> decimal) list \<Rightarrow> decimal" where
  "openings_net accs parties = sum_list (map (\<lambda>(i, t, x). signed_opening t x) accs) + sum_list (map snd parties)"

definition openings_size :: "(string \<times> account_type \<times> decimal) list \<Rightarrow> (string \<times> decimal) list \<Rightarrow> decimal" where
  "openings_size accs parties = sum_list (map (\<lambda>(i, t, x). \<bar>x\<bar>) accs) + sum_list (map (\<lambda>(p, x). \<bar>x\<bar>) parties)"

definition opening_id :: "string \<Rightarrow> bool" where
  "opening_id i \<longleftrightarrow> trim i = i \<and> i \<noteq> []"

text \<open>The amounts have the four decimals of their columns, and all of them together stay in the range of the library.\<close>

definition openings_clean :: "(string \<times> account_type \<times> decimal) list \<Rightarrow> (string \<times> decimal) list \<Rightarrow> bool" where
  "openings_clean accs parties \<longleftrightarrow>
     (\<forall>(i, t, x) \<in> set accs. opening_id i \<and> x \<noteq> 0 \<and> on_grid 4 x) \<and> (\<forall>(p, x) \<in> set parties. opening_id p \<and> x \<noteq> 0 \<and> on_grid 4 x) \<and>
     distinct (map fst accs) \<and> distinct (map fst parties) \<and> openings_size accs parties < 10 ^ 15"

section \<open>The lines pushed\<close>

definition account_line :: "string \<times> account_type \<times> decimal \<Rightarrow> new_journal_line" where
  "account_line = (\<lambda>(i, t, x). if debit_natural t then opening_line i None (Dec x) Absent else opening_line i None Absent (Dec x))"

definition party_line :: "string \<Rightarrow> string \<Rightarrow> string \<times> decimal \<Rightarrow> new_journal_line" where
  "party_line ar ap = (\<lambda>(p, x). if 0 \<le> x then opening_line ar (Some p) (Dec x) Absent else opening_line ap (Some p) Absent (Dec \<bar>x\<bar>))"

context decimal_js begin

lemma account_openings_exact:
  assumes "\<forall>(i, t, x) \<in> set accs. x \<noteq> 0 \<and> on_grid 4 x" and "on_grid 4 net"
    and "\<bar>net\<bar> + sum_list (map (\<lambda>(i, t, x). \<bar>x\<bar>) accs) < 10 ^ 15"
  shows "account_openings D accs (ls, net) = (ls @ map account_line accs, net + sum_list (map (\<lambda>(i, t, x). signed_opening t x) accs))"
  using assms
proof (induction accs arbitrary: ls net)
  case (Cons a rest)
  obtain i t x where a: "a = (i, t, x)" by (cases a)
  from Cons.prems(1) have x: "x \<noteq> 0" "on_grid 4 x" and r: "\<forall>(i, t, x) \<in> set rest. x \<noteq> 0 \<and> on_grid 4 x" by (auto simp: a)
  have nn: "0 \<le> sum_list (map (\<lambda>(i, t, x). \<bar>x\<bar> :: rat) rest)" by (rule sum_list_nonneg) auto
  let ?net = "net + signed_opening t x"
  have b: "\<bar>?net\<bar> \<le> \<bar>net\<bar> + \<bar>x\<bar>" by (auto simp: signed_opening_def)
  have g: "on_grid 4 ?net" using Cons.prems(2) x(2) by (auto simp: signed_opening_def)
  have e: "exact_range ?net" using g b nn Cons.prems(3) by (auto simp: exact_range_def a)
  have step: "(if debit_natural t then d_plus D net x else d_minus D net x) = ?net"
    using e plus_exact [of net x] minus_exact [of net x] by (auto simp: signed_opening_def)
  have "\<bar>?net\<bar> + sum_list (map (\<lambda>(i, t, x). \<bar>x\<bar>) rest) < 10 ^ 15" using b Cons.prems(3) by (simp add: a)
  from Cons.IH [OF r g this, of "ls @ [account_line a]"] step x show ?case
    by (auto simp: a account_line_def to_dp_id split: if_splits)
qed simp

lemma party_openings_exact:
  assumes "\<forall>(p, x) \<in> set parties. x \<noteq> 0 \<and> on_grid 4 x" and "on_grid 4 net"
    and "\<bar>net\<bar> + sum_list (map (\<lambda>(p, x). \<bar>x\<bar>) parties) < 10 ^ 15"
  shows "party_openings D ar ap parties (ls, net) = (ls @ map (party_line ar ap) parties, net + sum_list (map snd parties))"
  using assms
proof (induction parties arbitrary: ls net)
  case (Cons a rest)
  obtain p x where a: "a = (p, x)" by (cases a)
  from Cons.prems(1) have x: "x \<noteq> 0" "on_grid 4 x" and r: "\<forall>(p, x) \<in> set rest. x \<noteq> 0 \<and> on_grid 4 x" by (auto simp: a)
  have nn: "0 \<le> sum_list (map (\<lambda>(p, x). \<bar>x\<bar> :: rat) rest)" by (rule sum_list_nonneg) auto
  have g: "on_grid 4 (net + x)" using Cons.prems(2) x(2) by auto
  have e: "exact_range (net + x)" using g nn Cons.prems(3) by (auto simp: exact_range_def a)
  have step: "(if 0 \<le> x then d_plus D net x else d_minus D net \<bar>x\<bar>) = net + x"
    using e plus_exact [of net x] minus_exact [of net "- x"] by auto
  have "\<bar>net + x\<bar> + sum_list (map (\<lambda>(p, x). \<bar>x\<bar>) rest) < 10 ^ 15" using Cons.prems(3) by (simp add: a)
  from Cons.IH [OF r g this, of "ls @ [party_line ar ap a]"] step x show ?case
    by (auto simp: a party_line_def to_dp_id split: if_splits)
qed simp

lemma opening_input_exact:
  assumes "openings_clean accs parties"
  shows "opening_input D ar ap equity accs parties =
    map account_line accs @ map (party_line ar ap) parties @ equity_line D equity (openings_net accs parties)"
    and "on_grid 4 (openings_net accs parties)" and "\<bar>openings_net accs parties\<bar> \<le> openings_size accs parties"
proof -
  have c: "\<forall>(i, t, x) \<in> set accs. x \<noteq> 0 \<and> on_grid 4 x" "\<forall>(p, x) \<in> set parties. x \<noteq> 0 \<and> on_grid 4 x"
    using assms by (auto simp: openings_clean_def)
  let ?a = "sum_list (map (\<lambda>(i, t, x). signed_opening t x) accs)"
  have a: "\<bar>?a\<bar> \<le> sum_list (map (\<lambda>(i, t, x). \<bar>x\<bar>) accs)"
    by (induction accs) (auto simp: signed_opening_def)
  have p: "\<bar>sum_list (map snd parties)\<bar> \<le> sum_list (map (\<lambda>(p, x). \<bar>x\<bar>) parties)"
    by (induction parties) auto
  have nn: "0 \<le> sum_list (map (\<lambda>(p, x). \<bar>x\<bar> :: rat) parties)" by (rule sum_list_nonneg) auto
  have s: "openings_size accs parties < 10 ^ 15" using assms by (simp add: openings_clean_def)
  have ga: "on_grid 4 ?a" using c(1) by (intro on_grid_sum_list) (auto simp: signed_opening_def)
  have gp: "on_grid 4 (sum_list (map snd parties))" using c(2) by (intro on_grid_sum_list) auto
  show "on_grid 4 (openings_net accs parties)" "\<bar>openings_net accs parties\<bar> \<le> openings_size accs parties"
    using ga gp a p by (auto simp: openings_net_def openings_size_def)
  from account_openings_exact [OF c(1), of 0 "[]"] nn s
  have 1: "account_openings D accs ([], 0) = (map account_line accs, ?a)" by (simp add: openings_size_def)
  have "\<bar>?a\<bar> + sum_list (map (\<lambda>(p, x). \<bar>x\<bar>) parties) < 10 ^ 15" using a s by (simp add: openings_size_def)
  from party_openings_exact [OF c(2) ga this] show "opening_input D ar ap equity accs parties =
    map account_line accs @ map (party_line ar ap) parties @ equity_line D equity (openings_net accs parties)"
    by (simp add: opening_input_def 1 openings_net_def)
qed

end

section \<open>Which lines pass\<close>

definition opening_draft :: "string \<Rightarrow> string option \<Rightarrow> decimal \<Rightarrow> decimal \<Rightarrow> account_type \<Rightarrow> bool \<Rightarrow> nat \<Rightarrow> draft_line" where
  "opening_draft account party dr cr t control n =
     \<lparr>gl_no = n, gl_account = account, gl_debit = dr, gl_credit = cr, gl_narration = None, gj_project = None,
      gj_cost_centre = None, gj_purpose = None, gj_party = party, gj_type = Some t, gj_control = control\<rparr>"

definition input_amount :: "decimal_input \<Rightarrow> decimal" where
  "input_amount v = (case v of Dec x \<Rightarrow> x | _ \<Rightarrow> 0)"

lemma opening_line_create:
  assumes "opening_id i" and "facts_for snap i = account_type_facts t control" and "\<forall>q. party = Some q \<longrightarrow> opening_id q"
    and "debit \<in> range Dec \<union> {Absent}" and "credit \<in> range Dec \<union> {Absent}"
  shows "draft_line_create snap (opening_line i party debit credit) n = Inr l \<longleftrightarrow>
    0 \<le> input_amount debit \<and> 0 \<le> input_amount credit \<and> ((input_amount debit = 0) \<noteq> (input_amount credit = 0)) \<and>
    \<not> pnl_type (Some t) \<and> (control \<longrightarrow> party \<noteq> None) \<and>
    l = opening_draft i party (input_amount debit) (input_amount credit) t control n"
proof -
  have m: "to_money v = Inr (input_amount v)" if "v \<in> range Dec \<union> {Absent}" for v
    using that by (auto simp: to_money_def input_amount_def)
  have c: "clean party = party" using assms(3) by (cases party) (auto simp: clean_def opening_id_def)
  have p: "truthy party \<longleftrightarrow> party \<noteq> None" using assms(3) by (cases party) (auto simp: truthy_def opening_id_def)
  have none: "clean None = None" by (simp add: clean_def)
  show ?thesis
    using assms(1,2)
    by (auto simp: draft_line_create_def opening_line_def m [OF assms(4)] m [OF assms(5)] opening_id_def assert_line_side_def
        Let_def c p none account_type_facts_def missing_dim_def opening_draft_def rbind_eq_Inr req_def)
qed

text \<open>What the facts say of an account with an opening balance: the three well-known accounts override its own type.\<close>

lemma opening_facts_known:
  assumes "distinct [ar, ap, equity]"
  shows "facts_for (opening_facts ar ap equity accs) ar = account_type_facts ASSET True"
    and "facts_for (opening_facts ar ap equity accs) ap = account_type_facts LIABILITY True"
    and "facts_for (opening_facts ar ap equity accs) equity = account_type_facts EQUITY False"
  using assms by (auto simp: facts_for_def opening_facts_def)

lemma opening_facts_account:
  assumes "(i, t, x) \<in> set accs" and "x \<noteq> 0" and "distinct (map fst accs)" and "i \<notin> {ar, ap, equity}"
  shows "facts_for (opening_facts ar ap equity accs) i = account_type_facts t False"
proof -
  let ?kv = "map (\<lambda>(i, t, x). (i, account_type_facts t False)) (filter (\<lambda>(i, t, x). x \<noteq> 0) accs)"
  have k: "map fst ?kv = map fst (filter (\<lambda>(i, t, x). x \<noteq> 0) accs)" by auto
  have "distinct (map fst (rev ?kv))" unfolding rev_map [symmetric] distinct_rev k by (rule distinct_map_filter [OF assms(3)])
  moreover have "(i, account_type_facts t False) \<in> set (rev ?kv)" using assms(1,2) by force
  ultimately have "map_of (rev ?kv) i = Some (account_type_facts t False)" by (rule map_of_is_SomeI)
  with assms(4) show ?thesis by (simp add: facts_for_def opening_facts_def)
qed

lemma rmap_accepts: "(\<exists>ys. rmap f xs = Inr ys) \<longleftrightarrow> (\<forall>x \<in> set xs. \<exists>y. f x = Inr y)"
  by (induction xs) (auto simp: rbind_eq_Inr)

definition opening_passes :: "string \<Rightarrow> string \<Rightarrow> string \<Rightarrow> string \<times> account_type \<times> decimal \<Rightarrow> bool" where
  "opening_passes ar ap equity = (\<lambda>(i, t, x). 0 < x \<and> (i = equity \<or> (i \<notin> {ar, ap} \<and> \<not> pnl_type (Some t))))"

lemma account_line_passes:
  assumes "(i, t, x) \<in> set accs" and "openings_clean accs parties" and "distinct [ar, ap, equity]"
  shows "(\<exists>l. draft_line_create (opening_facts ar ap equity accs) (account_line (i, t, x)) n = Inr l) \<longleftrightarrow>
    opening_passes ar ap equity (i, t, x)"
proof -
  from assms(1,2) have a: "opening_id i" "x \<noteq> 0" "distinct (map fst accs)" by (auto simp: openings_clean_def)
  obtain t' c where f: "facts_for (opening_facts ar ap equity accs) i = account_type_facts t' c"
    and c: "(\<not> pnl_type (Some t') \<and> \<not> c) \<longleftrightarrow> (i = equity \<or> (i \<notin> {ar, ap} \<and> \<not> pnl_type (Some t)))"
  proof (cases "i \<in> {ar, ap, equity}")
    case True
    with opening_facts_known [OF assms(3), of accs] assms(3) show ?thesis by (auto simp: pnl_type_def intro: that)
  next
    case False
    with opening_facts_account [OF assms(1) a(2,3)] show ?thesis by (auto intro: that)
  qed
  show ?thesis
    using opening_line_create [OF a(1) f, of None "Dec x" Absent n] opening_line_create [OF a(1) f, of None Absent "Dec x" n] a(2) c
    by (auto simp: account_line_def opening_passes_def input_amount_def)
qed

lemma party_line_passes:
  assumes "opening_id p" and "x \<noteq> 0" and "opening_id ar" and "opening_id ap" and "distinct [ar, ap, equity]"
  shows "\<exists>l. draft_line_create (opening_facts ar ap equity accs) (party_line ar ap (p, x)) n = Inr l"
  using opening_line_create [OF assms(3) opening_facts_known(1) [OF assms(5)], of "Some p" "Dec x" Absent accs n]
    opening_line_create [OF assms(4) opening_facts_known(2) [OF assms(5)], of "Some p" Absent "Dec \<bar>x\<bar>" accs n] assms(1,2)
  by (auto simp: party_line_def input_amount_def pnl_type_def)

lemma equity_line_passes:
  assumes "opening_id equity" and "distinct [ar, ap, equity]" and "on_grid 4 net" and "decimal_js D"
  shows "(\<forall>l \<in> set (equity_line D equity net). \<exists>y. draft_line_create (opening_facts ar ap equity accs) l n = Inr y) \<longleftrightarrow> net \<noteq> 0"
  using opening_line_create [OF assms(1) opening_facts_known(3) [OF assms(2)], of None Absent "Dec net" accs n]
    opening_line_create [OF assms(1) opening_facts_known(3) [OF assms(2)], of None "Dec \<bar>net\<bar>" Absent accs n] assms(3)
    decimal_js.to_dp_id [OF assms(4), of 4]
  by (auto simp: equity_line_def input_amount_def pnl_type_def)

end
