(* ===== verification/Contra_Journal_Soundness.thy ===== *)
theory Contra_Journal_Soundness
  imports Contra_Journal_Opening
begin

text \<open>
  What the two voucher tables keep: rows as they are stored, the entry behind every voucher that left the draft stage,
  and how inserting and saving change a table.
\<close>

section \<open>Rows\<close>

definition gen_line_ok :: "'a contra_line_scheme \<Rightarrow> bool" where
  "gen_line_ok l \<longleftrightarrow> 0 \<le> gl_debit l \<and> 0 \<le> gl_credit l \<and> (gl_debit l = 0) \<noteq> (gl_credit l = 0) \<and>
     on_grid 4 (gl_debit l) \<and> on_grid 4 (gl_credit l)"

definition gen_backed ::
  "string \<Rightarrow> ('l \<Rightarrow> posting_line) \<Rightarrow> journal_entry list \<Rightarrow> ('l, 'b) gen_voucher_scheme \<Rightarrow> bool" where
  "gen_backed src pl es v \<longleftrightarrow> (\<exists>e \<in> set es. gv_entry v = Some (je_id e) \<and> gv_entry_no v = Some (je_no e) \<and> je_source_type e = src \<and>
     je_source_id e = gv_id v \<and> je_company e = gv_company v \<and> \<not> je_is_reversal e \<and> je_lines e = lines_of (map pl (gv_lines v)))"

definition gen_row_sound ::
  "string \<Rightarrow> ('a contra_line_scheme \<Rightarrow> posting_line) \<Rightarrow> journal_entry list \<Rightarrow> ('a contra_line_scheme, 'b) gen_voucher_scheme \<Rightarrow> bool" where
  "gen_row_sound src pl es v \<longleftrightarrow> (\<forall>l \<in> set (gv_lines v). gen_line_ok l) \<and>
     (gv_status v \<noteq> GenDraft \<longrightarrow> gen_backed src pl es v) \<and>
     (gv_status v = GenCancelled \<longrightarrow> (\<exists>r \<in> set es. je_reversal_of r = gv_entry v \<and> je_company r = gv_company v))"

definition gen_sound ::
  "string \<Rightarrow> ('a contra_line_scheme \<Rightarrow> posting_line) \<Rightarrow> journal_entry list \<Rightarrow> ('a, 'b) gen_rows \<Rightarrow> bool" where
  "gen_sound src pl es tbl \<longleftrightarrow> distinct (map (\<lambda>r. gv_id (gr_voucher r)) tbl) \<and> (\<forall>r \<in> set tbl. gen_row_sound src pl es (gr_voucher r))"

lemma gen_soundD:
  assumes "gen_sound src pl es tbl"
  shows "distinct (map (\<lambda>r. gv_id (gr_voucher r)) tbl)" and "\<And>r. r \<in> set tbl \<Longrightarrow> gen_row_sound src pl es (gr_voucher r)"
  using assms by (auto simp: gen_sound_def)

lemma gen_row_sound_grows: "gen_row_sound src pl es v \<Longrightarrow> set es \<subseteq> set es' \<Longrightarrow> gen_row_sound src pl es' v"
  unfolding gen_row_sound_def gen_backed_def by blast

lemma gen_sound_grows: "gen_sound src pl es tbl \<Longrightarrow> set es \<subseteq> set es' \<Longrightarrow> gen_sound src pl es' tbl"
  unfolding gen_sound_def by (blast intro: gen_row_sound_grows)

lemma gen_find_Some:
  "gen_find nn i co tbl = Some v \<Longrightarrow> \<exists>r \<in> set tbl. v = gr_voucher r \<and> gv_id v = i \<and> gv_company v = co"
  "gen_find_for_update i co tbl = Some v \<Longrightarrow> \<exists>r \<in> set tbl. v = gr_voucher r \<and> gv_id v = i \<and> gv_company v = co \<and> \<not> gr_deleted r"
  by (auto simp: gen_find_def gen_find_for_update_def dest: find_SomeD)

lemma gen_soft_delete_sound:
  assumes "gen_sound src pl es tbl" shows "gen_sound src pl es (gen_soft_delete i co tbl)"
proof -
  have "map (\<lambda>r. gv_id (gr_voucher r)) (gen_soft_delete i co tbl) = map (\<lambda>r. gv_id (gr_voucher r)) tbl"
    unfolding gen_soft_delete_def by (rule map_update_where) simp
  with assms show ?thesis by (auto simp: gen_sound_def gen_soft_delete_def set_update_where)
qed

section \<open>Inserting and saving\<close>

context decimal_js begin

lemma stored_gen_line_ok: "gen_line_checks (stored_gen_line D l) = Inr () \<Longrightarrow> gen_line_ok (stored_gen_line D l)"
  by (auto simp: gen_line_checks_def gen_line_ok_def elim!: rbindE) (simp_all add: stored_gen_line_def)

lemma stored_gen_line_id: "gen_line_ok l \<Longrightarrow> stored_gen_line D l = l"
  by (simp add: gen_line_ok_def stored_gen_line_def to_dp_id)

lemma stored_gen_lines_id: "\<forall>l \<in> set ls. gen_line_ok l \<Longrightarrow> map (stored_gen_line D) ls = ls"
  by (simp add: map_idI stored_gen_line_id)

lemma gen_insert_sound:
  assumes "gen_insert D v tbl = Inr tbl'" and "gen_sound src pl es tbl" and "gv_status v = GenDraft"
  shows "gen_sound src pl es tbl'" and "tbl' = tbl @ [\<lparr>gr_voucher = (stored_gen_voucher D v)\<lparr>gv_version := 1\<rparr>, gr_deleted = False\<rparr>]"
proof -
  let ?q = "(stored_gen_voucher D v)\<lparr>gv_version := 1\<rparr>"
  from assms(1) have t: "tbl' = tbl @ [\<lparr>gr_voucher = ?q, gr_deleted = False\<rparr>]"
    and f: "\<forall>r \<in> set tbl. gv_id (gr_voucher r) \<noteq> gv_id v" and c: "\<forall>l \<in> set (gv_lines ?q). gen_line_checks l = Inr ()"
    by (auto simp: gen_insert_def Let_def list_ex_iff riter_eq_Inr stored_gen_voucher_def elim!: rbindE)
  have "\<forall>l \<in> set (gv_lines ?q). gen_line_ok l" using c stored_gen_line_ok by (auto simp: stored_gen_voucher_def)
  then have "gen_row_sound src pl es ?q" using assms(3) by (simp add: gen_row_sound_def stored_gen_voucher_def)
  with assms(2) f show "gen_sound src pl es tbl'" by (auto simp: gen_sound_def t stored_gen_voucher_def)
  show "tbl' = tbl @ [\<lparr>gr_voucher = ?q, gr_deleted = False\<rparr>]" by (rule t)
qed

lemma gen_save_sound:
  assumes "gen_save D q n tbl = Inr tbl'" and "gen_sound src pl es tbl" and "set es \<subseteq> set es'"
    and "gv_status q \<noteq> GenDraft \<Longrightarrow> \<forall>l \<in> set (gv_lines q). gen_line_ok l \<Longrightarrow> gen_row_sound src pl es' q"
    and "gv_status q \<noteq> GenDraft \<Longrightarrow> \<forall>l \<in> set (gv_lines q). gen_line_ok l"
  shows "gen_sound src pl es' tbl'" and "tbl' = update_where (gen_hit q n) (gen_saved D q n) tbl"
proof -
  from assms(1) have t: "tbl' = update_where (gen_hit q n) (gen_saved D q n) tbl"
    and c: "\<forall>l \<in> set (map (stored_gen_line D) (gv_lines q)). gen_line_checks l = Inr ()"
    by (auto simp: gen_save_def riter_eq_Inr elim!: rbindE split: if_splits)
  have lines: "\<forall>l \<in> set (map (stored_gen_line D) (gv_lines q)). gen_line_ok l" using c stored_gen_line_ok by auto
  have new: "gen_row_sound src pl es' (gr_voucher (gen_saved D q n r))" if "gen_hit q n r" for r
  proof (cases "gv_status q = GenDraft")
    case True
    with lines show ?thesis by (simp add: gen_row_sound_def gen_saved_def)
  next
    case False
    note ok = assms(5) [OF False]
    from assms(4) [OF False ok] that show ?thesis
      by (simp add: gen_row_sound_def gen_backed_def gen_saved_def gen_hit_def stored_gen_lines_id [OF ok])
  qed
  have ids: "map (\<lambda>r. gv_id (gr_voucher r)) tbl' = map (\<lambda>r. gv_id (gr_voucher r)) tbl"
    unfolding t by (rule map_update_where) (simp add: gen_saved_def)
  from gen_sound_grows [OF assms(2,3)] ids new show "gen_sound src pl es' tbl'"
    by (auto simp: gen_sound_def t set_update_where)
  show "tbl' = update_where (gen_hit q n) (gen_saved D q n) tbl" by (rule t)
qed

end

section \<open>Lines and entries\<close>

text \<open>An entry whose lines are all on accounts of one kind leaves their total unchanged.\<close>

lemma entry_within:
  assumes "e \<in> set es" and "\<forall>e \<in> set es. entry_ok e" and "\<forall>l \<in> set (je_lines e). A (jl_account l)"
  shows "entry_net (\<lambda>l. A (jl_account l)) e = 0" and "entry_net (\<lambda>l. \<not> A (jl_account l)) e = 0"
proof -
  have "sum_list (map jl_net ls) = sum_list (map jl_debit ls) - sum_list (map jl_credit ls)" for ls
    by (induction ls) (auto simp: jl_net_def)
  moreover have "filter (\<lambda>l. A (jl_account l)) (je_lines e) = je_lines e" "filter (\<lambda>l. \<not> A (jl_account l)) (je_lines e) = []"
    using assms(3) by (simp_all add: filter_empty_conv)
  moreover have "sum_list (map jl_debit (je_lines e)) = sum_list (map jl_credit (je_lines e))"
    using assms(1,2) by (simp add: entry_ok_def)
  ultimately show "entry_net (\<lambda>l. A (jl_account l)) e = 0" "entry_net (\<lambda>l. \<not> A (jl_account l)) e = 0"
    by (simp_all add: entry_net_def)
qed

text \<open>
  What the two modules promise of the lines they post: the sides of a voucher line become the sides of its posting
  line, and the command carries the voucher's own lines under its own source.
\<close>

locale voucher_posting =
  fixes src :: string
    and pl :: "'a contra_line_scheme \<Rightarrow> posting_line"
    and command :: "('a contra_line_scheme, 'b) gen_voucher_scheme \<Rightarrow> string \<Rightarrow> posting_command"
  assumes sides: "pl_debit (pl l) = gl_debit l" "pl_credit (pl l) = gl_credit l" "pl_account (pl l) = gl_account l"
    and carries: "pc_lines (command v who) = map pl (gv_lines v)" "pc_source_type (command v who) = src"
      "pc_source_id (command v who) = gv_id v" "pc_company (command v who) = gv_company v"
begin

lemma posted_sound:
  assumes "decimal_js D" and "post D mk (erp_ports mk) (command v who) now s = Inr (e, s1)" and "gen_mark_posted (je_id e) (je_no e) who now w = Inr q"
    and "gv_id w = gv_id v" and "gv_company w = gv_company v" and "gv_lines w = gv_lines v" and "\<forall>l \<in> set (gv_lines v). gen_line_ok l"
    and "stored_entry D e \<in> set es"
  shows "gen_row_sound src pl es q" and "\<forall>l \<in> set (gv_lines q). gen_line_ok l" and "gv_status q \<noteq> GenDraft"
proof -
  from assms(3) have q: "q = w\<lparr>gv_status := GenPosted, gv_entry := Some (je_id e), gv_entry_no := Some (je_no e), gv_posted_by := Some who,
       gv_posted_at := Some now\<rparr>" by (auto simp: gen_mark_posted_def elim!: rbindE)
  have g: "\<forall>l \<in> set (pc_lines (command v who)). pl_grid l" using assms(7) by (auto simp: carries pl_grid_def sides gen_line_ok_def)
  from decimal_js.stored_post_lines [OF assms(1,2) g] post_appends [OF assms(2)] assms(4-8)
  show "gen_row_sound src pl es q"
    by (auto simp: gen_row_sound_def gen_backed_def q carries intro!: bexI [of _ "stored_entry D e"])
  show "\<forall>l \<in> set (gv_lines q). gen_line_ok l" "gv_status q \<noteq> GenDraft" using assms(6,7) by (simp_all add: q)
qed

lemma cancelled_sound:
  assumes "reverse D mk (erp_ports mk) (the (gv_entry v)) co reason who now s = Inr (e, s1)" and "gen_mark_cancelled v = Inr q"
    and "gen_row_sound src pl (db_entries s) v" and "co = gv_company v"
  shows "gen_row_sound src pl (db_entries s @ [stored_entry D e]) q" and "\<forall>l \<in> set (gv_lines q). gen_line_ok l" and "gv_status q \<noteq> GenDraft"
    and "db_entries s1 = db_entries s @ [stored_entry D e]" and "db.more s1 = db.more s"
proof -
  from assms(2) have q: "q = v\<lparr>gv_status := GenCancelled\<rparr>" and p: "gv_status v = GenPosted"
    by (auto simp: gen_mark_cancelled_def elim!: rbindE)
  from assms(1) obtain o' no j where o': "je_id o' = the (gv_entry v)" "je_company o' = co" "db.more s1 = db.more s"
    and a: "db_entries s1 = db_entries s @ [stored_entry D e]" and e: "e = entry_reverse o' reason no who j now"
    by (auto elim!: reverse_appends)
  from assms(3) p have b: "gen_backed src pl (db_entries s) v" "\<forall>l \<in> set (gv_lines v). gen_line_ok l" by (auto simp: gen_row_sound_def)
  then have "gv_entry v = Some (je_id o')" using o'(1) by (auto simp: gen_backed_def)
  then have r: "je_reversal_of (stored_entry D e) = gv_entry q \<and> je_company (stored_entry D e) = gv_company q"
    using o'(2) assms(4) by (simp add: q e)
  have "gen_backed src pl (db_entries s @ [stored_entry D e]) q" using b(1) unfolding gen_backed_def q by force
  with r b(2) show "gen_row_sound src pl (db_entries s @ [stored_entry D e]) q"
    unfolding gen_row_sound_def by (simp add: q)
  show "\<forall>l \<in> set (gv_lines q). gen_line_ok l" "gv_status q \<noteq> GenDraft" using b(2) by (simp_all add: q)
  show "db_entries s1 = db_entries s @ [stored_entry D e]" "db.more s1 = db.more s" by (rule a, rule o'(3))
qed

end

interpretation con: voucher_posting "''ContraVoucher''" contra_posting_line contra_command
  by unfold_locales (simp_all add: contra_posting_line_def contra_command_def)

interpretation jou: voucher_posting "''JournalVoucher''" journal_posting_line "journal_command :: journal_voucher \<Rightarrow> _"
  by unfold_locales (simp_all add: journal_posting_line_def journal_command_def)

end
