(* ===== verification/Contra_Journal_Steps.thy ===== *)
theory Contra_Journal_Steps
  imports Contra_Journal_Soundness
begin

text \<open>
  The steps of the program as this module sees them, and its invariant: both tables are sound, contra lines stay on
  cash and bank accounts, and a company has one opening journal, for good.
\<close>

section \<open>Steps\<close>

text \<open>
  Accounts may be added and changed, but the code of an account has no operation that changes it and accounts are
  never removed.
\<close>

definition accounts_evolve :: "gen_account list \<Rightarrow> gen_account list \<Rightarrow> bool" where
  "accounts_evolve as bs \<longleftrightarrow> (\<forall>co i a. account_find i co as = Some a \<longrightarrow>
     (\<exists>b. account_find i co bs = Some b \<and> ga_code b = ga_code a))"

definition vouchers_kept :: "'a gen_db_scheme \<Rightarrow> 'a gen_db_scheme \<Rightarrow> bool" where
  "vouchers_kept s s' \<longleftrightarrow> gen_contras s' = gen_contras s \<and> gen_journals s' = gen_journals s"

inductive gen_step :: "bool \<Rightarrow> dec_lib \<Rightarrow> (nat \<Rightarrow> string) \<Rightarrow> 'a gen_db_scheme \<Rightarrow> 'a gen_db_scheme \<Rightarrow> bool" for nn D mk where
  g_create_contra: "create_contra D mk cin act s = Inr (x, s') \<Longrightarrow> gen_step nn D mk s s'"
| g_create_journal: "create_journal D mk vt jin act s = Inr (x, s') \<Longrightarrow> gen_step nn D mk s s'"
| g_update_contra: "update_contra nn D i cx v act s = Inr (u, s') \<Longrightarrow> gen_step nn D mk s s'"
| g_update_journal: "update_journal nn D i jx v act s = Inr (u, s') \<Longrightarrow> gen_step nn D mk s s'"
| g_delete_contra: "delete_contra nn i act s = Inr (u, s') \<Longrightarrow> gen_step nn D mk s s'"
| g_delete_journal: "delete_journal nn i act s = Inr (u, s') \<Longrightarrow> gen_step nn D mk s s'"
| g_post_contra: "post_contra D mk (erp_ports mk) i act now s = Inr (y, s') \<Longrightarrow> gen_step nn D mk s s'"
| g_post_journal: "post_journal D mk (erp_ports mk) i act now s = Inr (y, s') \<Longrightarrow> gen_step nn D mk s s'"
| g_reverse_contra: "reverse_contra D mk (erp_ports mk) i reason act now s = Inr (y, s') \<Longrightarrow> gen_step nn D mk s s'"
| g_reverse_journal: "reverse_journal D mk (erp_ports mk) i reason act now s = Inr (y, s') \<Longrightarrow> gen_step nn D mk s s'"
| g_opening: "post_opening D mk (erp_ports mk) date narration act now s = Inr (z, s') \<Longrightarrow> gen_step nn D mk s s'"
| g_kernel: "erp_step D mk s s' \<Longrightarrow> db.more s' = db.more s \<Longrightarrow> gen_step nn D mk s s'"
| g_master: "quiet s s' \<Longrightarrow> vouchers_kept s s' \<Longrightarrow> accounts_evolve (gen_accounts s) (gen_accounts s') \<Longrightarrow> gen_step nn D mk s s'"

section \<open>The invariant\<close>

definition own_money :: "string \<Rightarrow> gen_account list \<Rightarrow> string \<Rightarrow> bool" where
  "own_money co as i \<longleftrightarrow> af_cash_bank (facts_of co as i)"

definition contra_lines_ok :: "gen_account list \<Rightarrow> contra_voucher \<Rightarrow> bool" where
  "contra_lines_ok as v \<longleftrightarrow> (\<forall>l \<in> set (gv_lines v). own_money (gv_company v) as (gl_account l))"

definition openings_of :: "string \<Rightarrow> journal_voucher gen_row list \<Rightarrow> journal_voucher gen_row list" where
  "openings_of co tbl = filter (\<lambda>r. gv_company (gr_voucher r) = co \<and> jv_type (gr_voucher r) = OPENING) tbl"

definition openings_ok :: "journal_voucher gen_row list \<Rightarrow> bool" where
  "openings_ok tbl \<longleftrightarrow> (\<forall>co. length (openings_of co tbl) \<le> 1) \<and>
     (\<forall>r \<in> set tbl. jv_type (gr_voucher r) = OPENING \<longrightarrow> \<not> gr_deleted r \<and> gv_status (gr_voucher r) \<noteq> GenDraft)"

definition gen_inv :: "(nat \<Rightarrow> string) \<Rightarrow> 'a gen_db_scheme \<Rightarrow> bool" where
  "gen_inv mk s \<longleftrightarrow> erp_inv mk s \<and> gen_sound ''ContraVoucher'' contra_posting_line (db_entries s) (gen_contras s) \<and>
     gen_sound ''JournalVoucher'' journal_posting_line (db_entries s) (gen_journals s) \<and>
     (\<forall>r \<in> set (gen_contras s). contra_lines_ok (gen_accounts s) (gr_voucher r)) \<and> openings_ok (gen_journals s)"

lemma gen_invD:
  assumes "gen_inv mk s"
  shows "erp_inv mk s" "gen_sound ''ContraVoucher'' contra_posting_line (db_entries s) (gen_contras s)"
    "gen_sound ''JournalVoucher'' journal_posting_line (db_entries s) (gen_journals s)"
    "\<And>r. r \<in> set (gen_contras s) \<Longrightarrow> contra_lines_ok (gen_accounts s) (gr_voucher r)" "openings_ok (gen_journals s)"
  using assms by (auto simp: gen_inv_def)

text \<open>A step that touches one of the tables.\<close>

lemma contra_table_step:
  assumes "gen_inv mk s" and "erp_inv mk s'" and "db_entries s' = db_entries s @ new" and "gen_accounts s' = gen_accounts s"
    and "gen_journals s' = gen_journals s" and "gen_sound ''ContraVoucher'' contra_posting_line (db_entries s') (gen_contras s')"
    and "\<And>r. r \<in> set (gen_contras s') \<Longrightarrow> contra_lines_ok (gen_accounts s) (gr_voucher r)"
  shows "gen_inv mk s'"
  using assms gen_invD [OF assms(1)] unfolding gen_inv_def by (auto intro: gen_sound_grows)

lemma journal_table_step:
  assumes "gen_inv mk s" and "erp_inv mk s'" and "db_entries s' = db_entries s @ new" and "gen_accounts s' = gen_accounts s"
    and "gen_contras s' = gen_contras s" and "gen_sound ''JournalVoucher'' journal_posting_line (db_entries s') (gen_journals s')"
    and "openings_ok (gen_journals s')"
  shows "gen_inv mk s'"
  using assms gen_invD [OF assms(1)] unfolding gen_inv_def by (auto intro: gen_sound_grows)

lemma gen_more:
  fixes s s' :: "'a gen_db_scheme"
  assumes "db.more s' = db.more s"
  shows "gen_accounts s' = gen_accounts s" "gen_parties s' = gen_parties s" "gen_contras s' = gen_contras s" "gen_journals s' = gen_journals s"
  using assms by (cases s, cases s', simp)+

lemma gen_audit [simp]:
  "gen_accounts (audit_record a b c d s) = gen_accounts s" "gen_contras (audit_record a b c d s) = gen_contras s"
  "gen_journals (audit_record a b c d s) = gen_journals s" "gen_parties (audit_record a b c d s) = gen_parties s"
  by (simp_all add: audit_record_def)

lemma draw_lines_simps [simp]:
  "gen_accounts (draw_lines v s) = gen_accounts s" "gen_contras (draw_lines v s) = gen_contras s"
  "gen_journals (draw_lines v s) = gen_journals s" "db_entries (draw_lines v s) = db_entries s"
  "db_series (draw_lines v s) = db_series s" "db_periods (draw_lines v s) = db_periods s"
  "db_fys (draw_lines v s) = db_fys s" "db_ids (draw_lines v s) = db_ids s + length (gv_lines v)"
  by (simp_all add: draw_lines_def)

section \<open>Contra lines\<close>

lemma snapshot_find: "facts_for (snapshot_load co as ids) i = (if i \<in> set ids then facts_of co as i else unknown_account)"
proof -
  have "map_of (map (\<lambda>i. (i, facts_of co as i)) xs) i = (if i \<in> set xs then Some (facts_of co as i) else None)" for xs
    by (induction xs) auto
  then show ?thesis by (simp add: facts_for_def snapshot_load_def)
qed

lemma build_contra_own:
  assumes "build_contra_lines D ls (snapshot_load co as ids) = Inr lines" and "l \<in> set lines"
  shows "own_money co as (gl_account l)"
proof -
  from assms have "check_contra_account (snapshot_load co as ids) l = Inr ()"
    by (auto simp: build_contra_lines_def riter_eq_Inr elim!: rbindE)
  then show ?thesis
    by (auto simp: check_contra_account_def own_money_def Let_def snapshot_find unknown_account_def elim!: rbindE split: if_splits)
qed

lemma own_money_evolves: "accounts_evolve as bs \<Longrightarrow> own_money co as i \<Longrightarrow> own_money co bs i"
  by (fastforce simp: accounts_evolve_def own_money_def facts_of_def unknown_account_def split: option.splits)

lemma stored_lines_own: "\<forall>l \<in> set ls. A (gl_account l) \<Longrightarrow> \<forall>l \<in> set (map (stored_gen_line D) ls). A (gl_account l)"
  by (simp add: stored_gen_line_def)

text \<open>What saving does to the vouchers of a table.\<close>

lemma saved_voucher:
  assumes "r \<in> set (update_where (gen_hit q n) (gen_saved D q n) tbl)"
  obtains "r \<in> set tbl" | r0 where "r0 \<in> set tbl" "gen_hit q n r0" "r = gen_saved D q n r0"
  using assms by (auto simp: set_update_where)

lemma contras_saved:
  assumes "gen_save D q n tbl = Inr tbl'" and "\<And>r. r \<in> set tbl \<Longrightarrow> contra_lines_ok as (gr_voucher r)" and "contra_lines_ok as q"
    and "r \<in> set tbl'"
  shows "contra_lines_ok as (gr_voucher r)"
proof -
  from assms(1) have "tbl' = update_where (gen_hit q n) (gen_saved D q n) tbl"
    by (auto simp: gen_save_def elim!: rbindE split: if_splits)
  with assms(4) have "r \<in> set (update_where (gen_hit q n) (gen_saved D q n) tbl)" by simp
  then show ?thesis
    by (rule saved_voucher) (use assms(2,3) in \<open>auto simp: contra_lines_ok_def gen_saved_def gen_hit_def stored_gen_line_def\<close>)
qed

section \<open>The services of contra vouchers\<close>

context decimal_js begin

lemma create_contra_safe:
  assumes "create_contra D mk cin act s = Inr (x, s')" and "gen_inv mk s" shows "gen_inv mk s'"
proof -
  note inv = gen_invD [OF assms(2)]
  let ?snap = "snapshot_load (act_company act) (gen_accounts s) (map nk_account (nv_lines cin))"
  from assms(1) obtain v tbl where v: "contra_create_draft D x (act_company act) (act_fy act) cin ?snap = Inr v"
    and t: "gen_insert D v (gen_contras s) = Inr tbl"
    and s': "s' = audit_record ''CREATE'' ''ContraVoucher'' x act (draw_lines v ((s\<lparr>db_ids := Suc (db_ids s)\<rparr>)\<lparr>gen_contras := tbl\<rparr>))"
    using uow_run_InrD [OF assms(1) [unfolded create_contra_def], THEN conjunct1]
    by (auto elim!: rbindE simp: Let_def ids_next_def)
  from v obtain lines where l: "build_contra_lines D (nv_lines cin) ?snap = Inr lines"
    and d: "gv_status v = GenDraft" "gv_lines v = lines" "gv_company v = act_company act"
    by (auto simp: contra_create_draft_def elim!: rbindE)
  note ins = gen_insert_sound [OF t inv(2) d(1)]
  show ?thesis
  proof (rule contra_table_step [where new = "[]", OF assms(2)])
    show "erp_inv mk s'" by (rule quiet_erp_inv [OF _ inv(1)]) (simp add: s' quiet_def)
    show "contra_lines_ok (gen_accounts s) (gr_voucher r)" if "r \<in> set (gen_contras s')" for r
      using that inv(4) build_contra_own [OF l]
      by (auto simp: s' ins(2) contra_lines_ok_def stored_gen_voucher_def stored_gen_line_def d)
  qed (use ins(1) in \<open>simp_all add: s'\<close>)
qed

lemma update_contra_safe:
  assumes "update_contra nn D i cx n act s = Inr (u, s')" and "gen_inv mk s" shows "gen_inv mk s'"
proof -
  note inv = gen_invD [OF assms(2)]
  from assms(1) obtain v inp q tbl where v: "gen_find nn i (act_company act) (gen_contras s) = Some v"
    and q: "contra_update_draft D inp (snapshot_load (act_company act) (gen_accounts s) (map nk_account (nv_lines inp))) v = Inr q"
    and t: "gen_save D q n (gen_contras s) = Inr tbl"
    and s': "s' = audit_record ''UPDATE'' ''ContraVoucher'' i act (draw_lines q (s\<lparr>gen_contras := tbl\<rparr>))"
    using uow_run_InrD [OF assms(1) [unfolded update_contra_def], THEN conjunct1] by (auto elim!: rbindE simp: Let_def)
  from gen_find_Some(1) [OF v] have co: "gv_company v = act_company act" by blast
  from q obtain lines where l: "build_contra_lines D (nv_lines inp) (snapshot_load (act_company act) (gen_accounts s) (map nk_account (nv_lines inp))) = Inr lines"
    and d: "gv_status q = GenDraft" "gv_lines q = lines" "gv_company q = act_company act"
    by (auto simp: contra_update_draft_def gen_assert_draft_def co elim!: rbindE)
  have own: "contra_lines_ok (gen_accounts s) q" using build_contra_own [OF l] by (simp add: contra_lines_ok_def d)
  show ?thesis
  proof (rule contra_table_step [where new = "[]", OF assms(2)])
    show "erp_inv mk s'" by (rule quiet_erp_inv [OF _ inv(1)]) (simp add: s' quiet_def)
    show "gen_sound ''ContraVoucher'' contra_posting_line (db_entries s') (gen_contras s')"
      using gen_save_sound(1) [OF t inv(2) subset_refl] d(1) by (simp add: s')
    show "contra_lines_ok (gen_accounts s) (gr_voucher r)" if "r \<in> set (gen_contras s')" for r
      using contras_saved [OF t inv(4) own] that by (simp add: s')
  qed (simp_all add: s')
qed

end

lemma deleted_kept: "r \<in> set (gen_soft_delete i co tbl) \<Longrightarrow> \<exists>r0 \<in> set tbl. gr_voucher r = gr_voucher r0"
  by (auto simp: gen_soft_delete_def set_update_where)

lemma delete_contra_safe:
  assumes "delete_contra nn i act s = Inr (u, s')" and "gen_inv mk s" shows "gen_inv mk s'"
proof -
  note inv = gen_invD [OF assms(2)]
  from assms(1) have s': "s' = audit_record ''DELETE'' ''ContraVoucher'' i act (s\<lparr>gen_contras := gen_soft_delete i (act_company act) (gen_contras s)\<rparr>)"
    using uow_run_InrD [OF assms(1) [unfolded delete_contra_def], THEN conjunct1] by (auto elim!: rbindE)
  show ?thesis
  proof (rule contra_table_step [where new = "[]", OF assms(2)])
    show "erp_inv mk s'" by (rule quiet_erp_inv [OF _ inv(1)]) (simp add: s' quiet_def)
  qed (use inv(2,4) deleted_kept in \<open>fastforce simp: s' gen_soft_delete_sound\<close>)+
qed

context decimal_js begin

lemma post_contra_safe:
  assumes "post_contra D mk (erp_ports mk) i act now s = Inr (y, s')" and "gen_inv mk s" shows "gen_inv mk s'"
proof -
  note inv = gen_invD [OF assms(2)]
  from assms(1) obtain v e s1 q tbl where v: "gen_find_for_update i (act_company act) (gen_contras s) = Some v"
    and e: "post D mk (erp_ports mk) (contra_command v (act_user act)) now s = Inr (e, s1)"
    and q: "gen_mark_posted (je_id e) (je_no e) (act_user act) now v = Inr q"
    and t: "gen_save D q (gv_version q) (gen_contras s1) = Inr tbl"
    and s': "s' = audit_record ''POST'' ''ContraVoucher'' i act (draw_lines q (s1\<lparr>gen_contras := tbl\<rparr>))"
    using uow_run_InrD [OF assms(1) [unfolded post_contra_def], THEN conjunct1] by (auto elim!: rbindE)
  from gen_find_Some(2) [OF v] obtain r where r: "r \<in> set (gen_contras s)" "v = gr_voucher r" by blast
  from gen_soundD(2) [OF inv(2) r(1)] have ok: "\<forall>l \<in> set (gv_lines v). gen_line_ok l" by (simp add: gen_row_sound_def r(2))
  note a = post_appends [OF e] and m = gen_more [OF post_appends(1) [OF e]]
  note p = con.posted_sound [OF decimal_js_axioms e q refl refl refl ok, of "db_entries s1"]
  have new: "stored_entry D e \<in> set (db_entries s1)" using a(2) by simp
  have own: "contra_lines_ok (gen_accounts s) q"
    using inv(4) [OF r(1)] q by (auto simp: contra_lines_ok_def r(2) gen_mark_posted_def elim!: rbindE)
  show ?thesis
  proof (rule contra_table_step [OF assms(2)])
    show "erp_inv mk s'" by (rule tx_post [OF assms(1) [unfolded post_contra_def] inv(1) quiet_refl e]) (simp add: s' quiet_def)
    show "db_entries s' = db_entries s @ [stored_entry D e]" using a(2) by (simp add: s')
    show "gen_sound ''ContraVoucher'' contra_posting_line (db_entries s') (gen_contras s')"
      using gen_save_sound(1) [OF t inv(2) [folded m(3)], of "db_entries s1"] p [OF new] a(2) by (auto simp: s')
    show "contra_lines_ok (gen_accounts s) (gr_voucher r)" if "r \<in> set (gen_contras s')" for r
      using contras_saved [OF t inv(4) [folded m(3)] own] that by (simp add: s')
  qed (simp_all add: s' m)
qed

lemma reverse_contra_safe:
  assumes "reverse_contra D mk (erp_ports mk) i reason act now s = Inr (y, s')" and "gen_inv mk s" shows "gen_inv mk s'"
proof -
  note inv = gen_invD [OF assms(2)]
  from assms(1) obtain v e s1 q tbl where v: "gen_find_for_update i (act_company act) (gen_contras s) = Some v"
    and e: "reverse D mk (erp_ports mk) (the (gv_entry v)) (act_company act) reason (act_user act) now s = Inr (e, s1)"
    and q: "gen_mark_cancelled v = Inr q"
    and t: "gen_save D q (gv_version q) (gen_contras s1) = Inr tbl"
    and s': "s' = audit_record ''CANCEL'' ''ContraVoucher'' i act (draw_lines q (s1\<lparr>gen_contras := tbl\<rparr>))"
    using uow_run_InrD [OF assms(1) [unfolded reverse_contra_def], THEN conjunct1] by (auto elim!: rbindE)
  from gen_find_Some(2) [OF v] obtain r where r: "r \<in> set (gen_contras s)" "v = gr_voucher r" and co: "gv_company v = act_company act" by blast
  note p = con.cancelled_sound [OF e q gen_soundD(2) [OF inv(2) r(1), folded r(2)] co [symmetric]]
  note m = gen_more [OF p(5)]
  have own: "contra_lines_ok (gen_accounts s) q"
    using inv(4) [OF r(1)] q by (auto simp: contra_lines_ok_def r(2) gen_mark_cancelled_def elim!: rbindE)
  show ?thesis
  proof (rule contra_table_step [OF assms(2)])
    show "erp_inv mk s'" by (rule tx_reverse [OF assms(1) [unfolded reverse_contra_def] inv(1) quiet_refl e]) (simp add: s' quiet_def)
    show "db_entries s' = db_entries s @ [stored_entry D e]" using p(4) by (simp add: s')
    show "gen_sound ''ContraVoucher'' contra_posting_line (db_entries s') (gen_contras s')"
      using gen_save_sound(1) [OF t inv(2) [folded m(3)], of "db_entries s1"] p by (auto simp: s')
    show "contra_lines_ok (gen_accounts s) (gr_voucher r)" if "r \<in> set (gen_contras s')" for r
      using contras_saved [OF t inv(4) [folded m(3)] own] that by (simp add: s')
  qed (simp_all add: s' m)
qed

end

end
