(* ===== verification/Contra_Journal_Books.thy ===== *)
theory Contra_Journal_Books
  imports Contra_Journal_Steps
begin

text \<open>
  The services of journal vouchers and the opening journal keep the invariant, and so does every run.
\<close>

section \<open>The opening journals of a table\<close>

lemma filter_update_where_length:
  "(\<And>r. P r \<Longrightarrow> Q (f r) = Q r) \<Longrightarrow> length (filter Q (update_where P f tbl)) = length (filter Q tbl)"
  by (induction tbl) (auto simp: update_where_def)

lemma openings_ok_updated:
  assumes "openings_ok tbl" and "\<And>r. P r \<Longrightarrow> gv_company (gr_voucher (f r)) = gv_company (gr_voucher r)"
    and "\<And>r. P r \<Longrightarrow> jv_type (gr_voucher (f r)) = jv_type (gr_voucher r)"
    and "\<And>r. r \<in> set tbl \<Longrightarrow> P r \<Longrightarrow> jv_type (gr_voucher r) = OPENING \<Longrightarrow> \<not> gr_deleted (f r) \<and> gv_status (gr_voucher (f r)) \<noteq> GenDraft"
  shows "openings_ok (update_where P f tbl)"
proof -
  have "length (openings_of co (update_where P f tbl)) = length (openings_of co tbl)" for co
    unfolding openings_of_def by (rule filter_update_where_length) (simp add: assms(2,3))
  with assms(1,3,4) show ?thesis by (auto simp: openings_ok_def set_update_where)
qed

lemma gen_saved_fields [simp]:
  "gv_id (gr_voucher (gen_saved D q n r)) = gv_id (gr_voucher r)" "gv_company (gr_voucher (gen_saved D q n r)) = gv_company (gr_voucher r)"
  "gv_status (gr_voucher (gen_saved D q n r)) = gv_status q" "gr_deleted (gen_saved D q n r) = gr_deleted r"
  by (simp_all add: gen_saved_def)

lemma gen_saved_type [simp]: "jv_type (gr_voucher (gen_saved D q n r)) = jv_type (gr_voucher r)"
  by (simp add: gen_saved_def)

lemma openings_saved:
  assumes "gen_save D q n tbl = Inr tbl'" and "openings_ok tbl"
    and "\<And>r. r \<in> set tbl \<Longrightarrow> gv_id (gr_voucher r) = gv_id q \<Longrightarrow> jv_type (gr_voucher r) = OPENING \<Longrightarrow> gv_status q \<noteq> GenDraft"
  shows "openings_ok tbl'"
proof -
  from assms(1) have t: "tbl' = update_where (gen_hit q n) (gen_saved D q n) tbl"
    by (auto simp: gen_save_def elim!: rbindE split: if_splits)
  show ?thesis
    unfolding t using assms(2,3) by (intro openings_ok_updated) (auto simp: openings_ok_def gen_hit_def)
qed

text \<open>A draft is no opening journal, nor is any row with its id.\<close>

lemma draft_not_opening:
  assumes "openings_ok tbl" and "distinct (map (\<lambda>r. gv_id (gr_voucher r)) tbl)" and "r0 \<in> set tbl" and "gv_status (gr_voucher r0) = GenDraft"
    and "r \<in> set tbl" and "gv_id (gr_voucher r) = gv_id (gr_voucher r0)"
  shows "jv_type (gr_voucher r) \<noteq> OPENING"
  using distinct_map_inj [OF assms(2,5,3,6)] assms(1,4,5) by (auto simp: openings_ok_def)

lemma openings_deleted:
  assumes "openings_ok tbl" and "distinct (map (\<lambda>r. gv_id (gr_voucher r)) tbl)" and "gen_find nn i co tbl = Some v" and "gv_status v = GenDraft"
  shows "openings_ok (gen_soft_delete i co tbl)"
proof -
  from gen_find_Some(1) [OF assms(3)] obtain r0 where r0: "r0 \<in> set tbl" "v = gr_voucher r0" "gv_id (gr_voucher r0) = i" by blast
  show ?thesis
    unfolding gen_soft_delete_def
    using draft_not_opening [OF assms(1,2) r0(1)] assms(4) r0 by (intro openings_ok_updated [OF assms(1)]) auto
qed

lemma exists_opening_iff: "openings_ok tbl \<Longrightarrow> exists_opening_for co tbl \<longleftrightarrow> openings_of co tbl \<noteq> []"
  by (auto simp: exists_opening_for_def openings_of_def openings_ok_def list_ex_iff filter_empty_conv)

section \<open>The services\<close>

context decimal_js begin

lemma create_journal_safe:
  assumes "create_journal D mk vt jin act s = Inr (x, s')" and "gen_inv mk s" shows "gen_inv mk s'"
proof -
  note inv = gen_invD [OF assms(2)]
  let ?snap = "snapshot_load (act_company act) (gen_accounts s) (map nk_account (nv_lines jin))"
  from assms(1) have u: "uow_run (\<lambda>s. let snap = snapshot_load (act_company act) (gen_accounts s) (map nk_account (nv_lines jin)) in
     case ids_next mk s of (i, s1) \<Rightarrow>
     rbind (journal_create_draft D i (act_company act) (act_fy act) JOURNAL jin snap) (\<lambda>v.
     rbind (journal_insert D v (gen_journals s1)) (\<lambda>tbl.
     Inr (i, audit_record ''CREATE'' ''JournalVoucher'' i act (draw_lines v (s1\<lparr>gen_journals := tbl\<rparr>)))))) s = Inr (x, s')"
    by (auto simp: create_journal_def elim!: rbindE)
  then obtain v tbl where v: "journal_create_draft D x (act_company act) (act_fy act) JOURNAL jin ?snap = Inr v"
    and t: "journal_insert D v (gen_journals s) = Inr tbl"
    and s': "s' = audit_record ''CREATE'' ''JournalVoucher'' x act (draw_lines v ((s\<lparr>db_ids := Suc (db_ids s)\<rparr>)\<lparr>gen_journals := tbl\<rparr>))"
    by (auto dest!: uow_run_InrD elim!: rbindE simp: Let_def ids_next_def)
  from v have d: "gv_status v = GenDraft" "jv_type v = JOURNAL" by (auto simp: journal_create_draft_def elim!: rbindE)
  from t have g: "gen_insert D v (gen_journals s) = Inr tbl" by (auto simp: journal_insert_def elim!: rbindE)
  note ins = gen_insert_sound [OF g inv(3) d(1)]
  show ?thesis
  proof (rule journal_table_step [where new = "[]", OF assms(2)])
    show "erp_inv mk s'" by (rule quiet_erp_inv [OF _ inv(1)]) (simp add: s' quiet_def)
    show "openings_ok (gen_journals s')"
      using inv(5) d(2) by (auto simp: s' ins(2) openings_ok_def openings_of_def stored_gen_voucher_def)
  qed (use ins(1) in \<open>simp_all add: s'\<close>)
qed

lemma update_journal_safe:
  assumes "update_journal nn D i jx n act s = Inr (u, s')" and "gen_inv mk s" shows "gen_inv mk s'"
proof -
  note inv = gen_invD [OF assms(2)]
  from assms(1) obtain v inp q tbl where v: "gen_find nn i (act_company act) (gen_journals s) = Some v"
    and q: "journal_update_draft D inp (snapshot_load (act_company act) (gen_accounts s) (map nk_account (nv_lines inp))) v = Inr q"
    and t: "gen_save D q n (gen_journals s) = Inr tbl"
    and s': "s' = audit_record ''UPDATE'' ''JournalVoucher'' i act (draw_lines q (s\<lparr>gen_journals := tbl\<rparr>))"
    using uow_run_InrD [OF assms(1) [unfolded update_journal_def], THEN conjunct1] by (auto elim!: rbindE simp: Let_def)
  from gen_find_Some(1) [OF v] obtain r0 where r0: "r0 \<in> set (gen_journals s)" "v = gr_voucher r0" by blast
  from q have d: "gv_status v = GenDraft" "gv_status q = GenDraft" "gv_id q = gv_id v"
    by (auto simp: journal_update_draft_def gen_assert_draft_def elim!: rbindE)
  note no = draft_not_opening [OF inv(5) gen_soundD(1) [OF inv(3)] r0(1)]
  show ?thesis
  proof (rule journal_table_step [where new = "[]", OF assms(2)])
    show "erp_inv mk s'" by (rule quiet_erp_inv [OF _ inv(1)]) (simp add: s' quiet_def)
    show "gen_sound ''JournalVoucher'' journal_posting_line (db_entries s') (gen_journals s')"
      using gen_save_sound(1) [OF t inv(3) subset_refl] d(2) by (simp add: s')
    show "openings_ok (gen_journals s')"
      using openings_saved [OF t inv(5)] no d r0(2) by (simp add: s')
  qed (simp_all add: s')
qed

end

lemma delete_journal_safe:
  assumes "delete_journal nn i act s = Inr (u, s')" and "gen_inv mk s" shows "gen_inv mk s'"
proof -
  note inv = gen_invD [OF assms(2)]
  from assms(1) obtain v where v: "gen_find nn i (act_company act) (gen_journals s) = Some v" "gv_status v = GenDraft"
    and s': "s' = audit_record ''DELETE'' ''JournalVoucher'' i act (s\<lparr>gen_journals := gen_soft_delete i (act_company act) (gen_journals s)\<rparr>)"
    using uow_run_InrD [OF assms(1) [unfolded delete_journal_def], THEN conjunct1] by (auto simp: gen_assert_draft_def elim!: rbindE)
  show ?thesis
  proof (rule journal_table_step [where new = "[]", OF assms(2)])
    show "erp_inv mk s'" by (rule quiet_erp_inv [OF _ inv(1)]) (simp add: s' quiet_def)
    show "openings_ok (gen_journals s')" using openings_deleted [OF inv(5) gen_soundD(1) [OF inv(3)] v] by (simp add: s')
  qed (simp_all add: s' gen_soft_delete_sound inv(3))
qed

context decimal_js begin

lemma post_journal_safe:
  assumes "post_journal D mk (erp_ports mk) i act now s = Inr (y, s')" and "gen_inv mk s" shows "gen_inv mk s'"
proof -
  note inv = gen_invD [OF assms(2)]
  from assms(1) obtain v e s1 q tbl where v: "gen_find_for_update i (act_company act) (gen_journals s) = Some v"
    and e: "post D mk (erp_ports mk) (journal_command v (act_user act)) now s = Inr (e, s1)"
    and q: "gen_mark_posted (je_id e) (je_no e) (act_user act) now v = Inr q"
    and t: "gen_save D q (gv_version q) (gen_journals s1) = Inr tbl"
    and s': "s' = audit_record ''POST'' ''JournalVoucher'' i act (draw_lines q (s1\<lparr>gen_journals := tbl\<rparr>))"
    using uow_run_InrD [OF assms(1) [unfolded post_journal_def], THEN conjunct1] by (auto elim!: rbindE)
  from gen_find_Some(2) [OF v] obtain r where r: "r \<in> set (gen_journals s)" "v = gr_voucher r" by blast
  from gen_soundD(2) [OF inv(3) r(1)] have ok: "\<forall>l \<in> set (gv_lines v). gen_line_ok l" by (simp add: gen_row_sound_def r(2))
  note a = post_appends [OF e] and m = gen_more [OF post_appends(1) [OF e]]
  note p = jou.posted_sound [OF decimal_js_axioms e q refl refl refl ok, of "db_entries s1"]
  have new: "stored_entry D e \<in> set (db_entries s1)" using a(2) by simp
  show ?thesis
  proof (rule journal_table_step [OF assms(2)])
    show "erp_inv mk s'" by (rule tx_post [OF assms(1) [unfolded post_journal_def] inv(1) quiet_refl e]) (simp add: s' quiet_def)
    show "db_entries s' = db_entries s @ [stored_entry D e]" using a(2) by (simp add: s')
    show "gen_sound ''JournalVoucher'' journal_posting_line (db_entries s') (gen_journals s')"
      using gen_save_sound(1) [OF t inv(3) [folded m(4)], of "db_entries s1"] p [OF new] a(2) by (auto simp: s')
    show "openings_ok (gen_journals s')" using openings_saved [OF t inv(5) [folded m(4)]] p(3) [OF new] by (simp add: s')
  qed (simp_all add: s' m)
qed

lemma reverse_journal_safe:
  assumes "reverse_journal D mk (erp_ports mk) i reason act now s = Inr (y, s')" and "gen_inv mk s" shows "gen_inv mk s'"
proof -
  note inv = gen_invD [OF assms(2)]
  from assms(1) obtain v e s1 q tbl where v: "gen_find_for_update i (act_company act) (gen_journals s) = Some v"
    and e: "reverse D mk (erp_ports mk) (the (gv_entry v)) (act_company act) reason (act_user act) now s = Inr (e, s1)"
    and q: "gen_mark_cancelled v = Inr q"
    and t: "gen_save D q (gv_version q) (gen_journals s1) = Inr tbl"
    and s': "s' = audit_record ''CANCEL'' ''JournalVoucher'' i act (draw_lines q (s1\<lparr>gen_journals := tbl\<rparr>))"
    using uow_run_InrD [OF assms(1) [unfolded reverse_journal_def], THEN conjunct1] by (auto elim!: rbindE)
  from gen_find_Some(2) [OF v] obtain r where r: "r \<in> set (gen_journals s)" "v = gr_voucher r" and co: "gv_company v = act_company act" by blast
  note p = jou.cancelled_sound [OF e q gen_soundD(2) [OF inv(3) r(1), folded r(2)] co [symmetric]]
  note m = gen_more [OF p(5)]
  show ?thesis
  proof (rule journal_table_step [OF assms(2)])
    show "erp_inv mk s'" by (rule tx_reverse [OF assms(1) [unfolded reverse_journal_def] inv(1) quiet_refl e]) (simp add: s' quiet_def)
    show "db_entries s' = db_entries s @ [stored_entry D e]" using p(4) by (simp add: s')
    show "gen_sound ''JournalVoucher'' journal_posting_line (db_entries s') (gen_journals s')"
      using gen_save_sound(1) [OF t inv(3) [folded m(4)], of "db_entries s1"] p by (auto simp: s')
    show "openings_ok (gen_journals s')" using openings_saved [OF t inv(5) [folded m(4)]] p(3) by (simp add: s')
  qed (simp_all add: s' m)
qed

end

section \<open>The opening journal\<close>

definition input_grid :: "decimal_input \<Rightarrow> bool" where
  "input_grid v \<longleftrightarrow> (case v of Dec x \<Rightarrow> on_grid 4 x | _ \<Rightarrow> True)"

definition grid_line :: "new_journal_line \<Rightarrow> bool" where
  "grid_line l \<longleftrightarrow> input_grid (nk_debit l) \<and> input_grid (nk_credit l)"

lemma grid_opening_line [simp]: "grid_line (opening_line a p x y) \<longleftrightarrow> input_grid x \<and> input_grid y"
  by (simp add: grid_line_def opening_line_def)

context decimal_js begin

lemma input_grid_simps [simp]: "input_grid Absent" "input_grid (Dec (to_dp D 4 x))"
  by (simp_all add: input_grid_def)

lemma account_openings_grid:
  "\<forall>l \<in> set ls. grid_line l \<Longrightarrow> \<forall>l \<in> set (fst (account_openings D accs (ls, net))). grid_line l"
proof (induction accs arbitrary: ls net)
  case (Cons a rest)
  obtain i t x where "a = (i, t, x)" by (cases a)
  then obtain ls' net' where "account_openings D (a # rest) (ls, net) = account_openings D rest (ls', net')" and "\<forall>l \<in> set ls'. grid_line l"
    using Cons.prems by (cases "x = 0"; cases "debit_natural t") (fastforce simp del: split_paired_Ex)+
  with Cons.IH show ?case by simp
qed simp

lemma party_openings_grid:
  "\<forall>l \<in> set ls. grid_line l \<Longrightarrow> \<forall>l \<in> set (fst (party_openings D ar ap ps (ls, net))). grid_line l"
proof (induction ps arbitrary: ls net)
  case (Cons a rest)
  obtain p x where "a = (p, x)" by (cases a)
  then obtain ls' net' where "party_openings D ar ap (a # rest) (ls, net) = party_openings D ar ap rest (ls', net')" and "\<forall>l \<in> set ls'. grid_line l"
    using Cons.prems by (cases "x = 0"; cases "0 \<le> x") (fastforce simp del: split_paired_Ex)+
  with Cons.IH show ?case by simp
qed simp

lemma opening_input_grid: "\<forall>l \<in> set (opening_input D ar ap equity accs ps). grid_line l"
proof -
  obtain ls net where a: "account_openings D accs ([], 0) = (ls, net)" by fastforce
  obtain ls' net' where p: "party_openings D ar ap ps (ls, net) = (ls', net')" by fastforce
  from account_openings_grid [of "[]" accs 0] have "\<forall>l \<in> set ls. grid_line l" by (simp add: a)
  from party_openings_grid [OF this, of ar ap ps net] show ?thesis by (auto simp: opening_input_def a p equity_line_def)
qed

lemma draft_line_grid: "draft_line_create snap l n = Inr d \<Longrightarrow> grid_line l \<Longrightarrow> gen_line_ok d"
  by (auto simp: draft_line_create_def grid_line_def input_grid_def to_money_def assert_line_side_def gen_line_ok_def Let_def
      elim!: rbindE split: decimal_input.splits)

lemma rmap_lines_ok:
  "rmap (\<lambda>(n, l). draft_line_create snap l n) (enumerate k ls) = Inr ds \<Longrightarrow> \<forall>l \<in> set ls. grid_line l \<Longrightarrow>
     \<forall>d \<in> set ds. gen_line_ok d"
  by (induction ls arbitrary: k ds) (auto simp: rbind_eq_Inr intro: draft_line_grid)

lemma built_lines_ok: "build_journal_lines D ls snap = Inr ds \<Longrightarrow> \<forall>l \<in> set ls. grid_line l \<Longrightarrow> \<forall>d \<in> set ds. gen_line_ok d"
  by (auto simp: build_journal_lines_def elim!: rbindE dest: rmap_lines_ok)

lemma assembled:
  assumes "assemble_opening D i co fy date nar s = Inr v"
  shows "gv_status v = GenDraft" "gv_id v = i" "gv_company v = co" "jv_type v = OPENING" "gv_version v = 1" "\<forall>l \<in> set (gv_lines v). gen_line_ok l"
  using assms built_lines_ok [OF _ opening_input_grid]
  by (auto simp: assemble_opening_def journal_create_draft_def Let_def elim!: rbindE)

lemma post_opening_safe:
  assumes "post_opening D mk (erp_ports mk) date nar act now s = Inr (z, s')" and "gen_inv mk s" shows "gen_inv mk s'"
proof -
  note inv = gen_invD [OF assms(2)]
  let ?s = "s\<lparr>db_ids := Suc (db_ids s)\<rparr>"
  from assms(1) obtain v tbl e s2 q tbl2 where x: "\<not> exists_opening_for (act_company act) (gen_journals s)"
    and v: "assemble_opening D (mk (db_ids s)) (act_company act) (act_fy act) date
              (Some (case nar of None \<Rightarrow> ''Go-live opening balances'' | Some t \<Rightarrow> t)) s = Inr v"
    and t: "journal_insert D v (gen_journals s) = Inr tbl"
    and e: "post D mk (erp_ports mk) (journal_command v (act_user act)) now (draw_lines v (?s\<lparr>gen_journals := tbl\<rparr>)) = Inr (e, s2)"
    and q: "gen_mark_posted (je_id e) (je_no e) (act_user act) now v = Inr q"
    and t2: "gen_save D q (gv_version q) (gen_journals s2) = Inr tbl2"
    and s': "s' = audit_record ''POST'' ''JournalVoucher'' (gv_id v) act (draw_lines q (s2\<lparr>gen_journals := tbl2\<rparr>))"
    using uow_run_InrD [OF assms(1) [unfolded post_opening_def], THEN conjunct1] by (auto elim!: rbindE simp: Let_def)
  note d = assembled [OF v]
  from t have g: "gen_insert D v (gen_journals s) = Inr tbl" by (auto simp: journal_insert_def elim!: rbindE)
  note ins = gen_insert_sound [OF g inv(3) d(1)]
  note a = post_appends [OF e] and m = gen_more [OF post_appends(1) [OF e]]
  have j2: "gen_journals s2 = tbl" by (simp add: m)
  have new: "stored_entry D e \<in> set (db_entries s2)" using a(2) by simp
  note p = jou.posted_sound [OF decimal_js_axioms e q refl refl refl d(6), of "db_entries s2", OF new]
  from q have qv: "gv_id q = gv_id v" by (auto simp: gen_mark_posted_def elim!: rbindE)
  let ?q = "(stored_gen_voucher D v)\<lparr>gv_version := 1\<rparr>"
  have k: "gv_id ?q = gv_id v" "gv_company ?q = act_company act" "jv_type ?q = OPENING" by (simp_all add: stored_gen_voucher_def d)
  have fresh: "gv_id (gr_voucher r) \<noteq> gv_id v" if "r \<in> set (gen_journals s)" for r
    using that gen_soundD(1) [OF ins(1)] unfolding ins(2) by (force simp: stored_gen_voucher_def)
  from t2 have u: "tbl2 = update_where (gen_hit q (gv_version q)) (gen_saved D q (gv_version q)) tbl"
    and h: "list_ex (gen_hit q (gv_version q)) tbl"
    unfolding j2 by (auto simp: gen_save_def elim!: rbindE split: if_splits)
  from h have hit: "gen_hit q (gv_version q) \<lparr>gr_voucher = ?q, gr_deleted = False\<rparr>"
    using fresh by (auto simp: ins(2) list_ex_iff gen_hit_def qv)
  have old: "update_where (gen_hit q (gv_version q)) f (gen_journals s) = gen_journals s" for f
    using fresh by (intro update_where_none) (auto simp: gen_hit_def qv)
  have split: "update_where P f (xs @ ys) = update_where P f xs @ update_where P f ys" for P f and xs ys :: "journal_voucher gen_row list"
    by (simp add: update_where_def)
  let ?n = "gen_saved D q (gv_version q) \<lparr>gr_voucher = ?q, gr_deleted = False\<rparr>"
  have tbl2: "tbl2 = gen_journals s @ [?n]"
    unfolding u ins(2) split old using hit by (simp add: update_where_def)
  have n: "gv_company (gr_voucher ?n) = act_company act" "jv_type (gr_voucher ?n) = OPENING" "\<not> gr_deleted ?n" "gv_status (gr_voucher ?n) \<noteq> GenDraft"
    using p(3) by (simp_all add: stored_gen_voucher_def d)
  from x exists_opening_iff [OF inv(5)] have none: "openings_of (act_company act) (gen_journals s) = []" by simp
  show ?thesis
  proof (rule journal_table_step [OF assms(2)])
    show "erp_inv mk s'"
      by (rule tx_post [OF assms(1) [unfolded post_opening_def] inv(1) _ e]) (simp_all add: s' quiet_def)
    show "db_entries s' = db_entries s @ [stored_entry D e]" using a(2) by (simp add: s')
    show "gen_sound ''JournalVoucher'' journal_posting_line (db_entries s') (gen_journals s')"
      using gen_save_sound(1) [OF t2 ins(1) [folded j2], of "db_entries s2"] p a(2) by (auto simp: s')
    have "length (openings_of co tbl2) \<le> 1" for co
    proof (cases "co = act_company act")
      case True
      with none n show ?thesis by (simp add: tbl2 openings_of_def)
    next
      case False
      have "length (openings_of co (gen_journals s)) \<le> 1" using inv(5) by (simp add: openings_ok_def)
      with False n show ?thesis by (simp add: tbl2 openings_of_def)
    qed
    with inv(5) n show "openings_ok (gen_journals s')" by (auto simp: s' openings_ok_def tbl2)
  qed (simp_all add: s' m)
qed

section \<open>Runs\<close>

lemma gen_step_inv:
  assumes "gen_step nn D mk s s'" and "gen_inv mk s" and "inj mk" shows "gen_inv mk s'"
  using assms(1)
proof cases
  case g_kernel
  note inv = gen_invD [OF assms(2)] and m = gen_more [OF g_kernel(2)]
  have "erp_inv mk s'" by (rule erp_step_inv [OF decimal_js_axioms g_kernel(1) inv(1)])
  moreover obtain new where "db_entries s' = db_entries s @ new" using erp_step_append [OF g_kernel(1)] by blast
  ultimately show ?thesis using inv by (auto simp: gen_inv_def m intro: gen_sound_grows)
next
  case g_master
  note inv = gen_invD [OF assms(2)]
  have e: "db_entries s' = db_entries s" using g_master(1) by (simp add: quiet_def)
  have "erp_inv mk s'" by (rule quiet_erp_inv [OF g_master(1) inv(1)])
  with inv g_master(2) own_money_evolves [OF g_master(3)] show ?thesis
    by (auto simp: gen_inv_def vouchers_kept_def e contra_lines_ok_def)
qed (use assms(2) in \<open>blast intro: create_contra_safe create_journal_safe update_contra_safe update_journal_safe delete_contra_safe
    delete_journal_safe post_contra_safe post_journal_safe reverse_contra_safe reverse_journal_safe post_opening_safe\<close>)+

lemma gen_run_inv:
  assumes "rtranclp (gen_step nn D mk) z s" and "gen_inv mk z" and "inj mk" shows "gen_inv mk s"
  using assms(1) by (induction rule: rtranclp_induct) (auto intro: gen_step_inv assms(2,3))

end

definition empty_gen :: "'a gen_db_scheme \<Rightarrow> bool" where
  "empty_gen s \<longleftrightarrow> empty_db s \<and> gen_contras s = [] \<and> gen_journals s = []"

lemma gen_inv_empty: "inj mk \<Longrightarrow> empty_gen s \<Longrightarrow> gen_inv mk s"
  by (auto simp: gen_inv_def empty_gen_def gen_sound_def openings_ok_def openings_of_def intro: erp_inv_empty)

text \<open>No step takes an opening journal away.\<close>

definition openings_grow :: "'a gen_db_scheme \<Rightarrow> 'a gen_db_scheme \<Rightarrow> bool" where
  "openings_grow s s' \<longleftrightarrow> (\<forall>co. length (openings_of co (gen_journals s)) \<le> length (openings_of co (gen_journals s')))"

lemma openings_grow_same [simp]: "gen_journals s' = gen_journals s \<Longrightarrow> openings_grow s s'"
  by (simp add: openings_grow_def)

lemma openings_grow_insert: "journal_insert D v tbl = Inr tbl' \<Longrightarrow> length (openings_of co tbl) \<le> length (openings_of co tbl')"
  by (auto simp: journal_insert_def gen_insert_def openings_of_def Let_def elim!: rbindE)

lemma openings_grow_save:
  fixes q :: journal_voucher
  assumes "gen_save D q n tbl = Inr tbl'" shows "length (openings_of co tbl) = length (openings_of co tbl')"
proof -
  from assms have "tbl' = update_where (gen_hit q n) (gen_saved D q n) tbl" by (auto simp: gen_save_def elim!: rbindE split: if_splits)
  then show ?thesis by (simp add: openings_of_def filter_update_where_length)
qed

lemma openings_grow_delete: "length (openings_of co (gen_soft_delete i c tbl)) = length (openings_of co tbl)"
  unfolding openings_of_def gen_soft_delete_def by (rule filter_update_where_length) simp

lemma reversed_journals:
  assumes "reverse D mk (erp_ports mk) i co reason who now s = Inr (e, s1)" shows "gen_journals s1 = gen_journals s"
proof -
  from assms have "db.more s1 = db.more s" by (auto elim!: reverse_appends)
  then show ?thesis by (rule gen_more(4))
qed

lemma gen_step_openings:
  assumes "gen_step nn D mk s s'" shows "openings_grow s s'"
  using assms
proof cases
  case (g_create_contra cin act x)
  then show ?thesis
    by (auto simp: create_contra_def ids_next_def Let_def dest!: uow_run_InrD elim!: rbindE)
next
  case (g_create_journal vt jin act x)
  then show ?thesis
    by (auto simp: create_journal_def ids_next_def Let_def openings_grow_def dest!: uow_run_InrD elim!: rbindE intro: openings_grow_insert)
next
  case (g_update_contra i cx v act u)
  then show ?thesis by (auto simp: update_contra_def Let_def dest!: uow_run_InrD elim!: rbindE)
next
  case (g_update_journal i jx v act u)
  then obtain q tbl where t: "gen_save D q v (gen_journals s) = Inr tbl" and s': "gen_journals s' = tbl"
    by (auto simp: update_journal_def Let_def dest!: uow_run_InrD elim!: rbindE)
  show ?thesis using openings_grow_save [OF t] by (simp add: openings_grow_def s')
next
  case (g_delete_contra i act u)
  then show ?thesis by (auto simp: delete_contra_def dest!: uow_run_InrD elim!: rbindE)
next
  case (g_delete_journal i act u)
  then show ?thesis by (auto simp: delete_journal_def openings_grow_def openings_grow_delete dest!: uow_run_InrD elim!: rbindE)
next
  case (g_post_contra i act now y)
  then show ?thesis
    by (auto simp: post_contra_def dest!: uow_run_InrD elim!: rbindE dest!: post_appends(1) dest: gen_more(4) intro!: openings_grow_same)
next
  case (g_post_journal i act now y)
  then obtain v e s1 q tbl where e: "post D mk (erp_ports mk) (journal_command v (act_user act)) now s = Inr (e, s1)"
    and t: "gen_save D q (gv_version q) (gen_journals s1) = Inr tbl" and s': "gen_journals s' = tbl"
    by (auto simp: post_journal_def dest!: uow_run_InrD elim!: rbindE)
  show ?thesis using openings_grow_save [OF t] gen_more(4) [OF post_appends(1) [OF e]] by (simp add: openings_grow_def s')
next
  case (g_reverse_contra i reason act now y)
  then show ?thesis by (auto simp: reverse_contra_def dest!: uow_run_InrD elim!: rbindE dest: reversed_journals)
next
  case (g_reverse_journal i reason act now y)
  then show ?thesis
    by (auto simp: reverse_journal_def openings_grow_def dest!: uow_run_InrD elim!: rbindE dest!: reversed_journals openings_grow_save
        intro: order_eq_refl)
next
  case (g_opening date nar act now z)
  then obtain v tbl c e s2 q tbl2 ids where t: "journal_insert D v (gen_journals s) = Inr tbl"
    and e: "post D mk (erp_ports mk) c now (draw_lines v (s\<lparr>db_ids := ids, gen_journals := tbl\<rparr>)) = Inr (e, s2)"
    and t2: "gen_save D q (gv_version q) (gen_journals s2) = Inr tbl2" and s': "gen_journals s' = tbl2"
    by (auto simp: post_opening_def Let_def dest!: uow_run_InrD elim!: rbindE)
  have "gen_journals s2 = tbl" using gen_more(4) [OF post_appends(1) [OF e]] by simp
  with openings_grow_insert [OF t] openings_grow_save [OF t2] show ?thesis by (simp add: openings_grow_def s')
next
  case g_kernel
  show ?thesis by (rule openings_grow_same [OF gen_more(4) [OF g_kernel(2)]])
next
  case g_master
  then show ?thesis by (auto simp: vouchers_kept_def)
qed

lemma gen_run_openings: "rtranclp (gen_step nn D mk) s s' \<Longrightarrow> openings_grow s s'"
proof (induction rule: rtranclp_induct)
  case (step y z)
  from gen_step_openings [OF step.hyps(2)] step.IH show ?case unfolding openings_grow_def by (meson order_trans)
qed simp

end
