(* ===== verification/Contra_Journal_Restated.thy ===== *)
theory Contra_Journal_Restated
  imports Contra_Journal_Books
begin

text \<open>
  The opening journal, as a whole: its lines are created exactly when each of them passes, they balance, and they
  restate every opening balance.
\<close>

section \<open>Lines and their inputs\<close>

definition input_net :: "new_journal_line \<Rightarrow> decimal" where
  "input_net l = input_amount (nk_debit l) - input_amount (nk_credit l)"

definition input_size :: "new_journal_line \<Rightarrow> decimal" where
  "input_size l = input_amount (nk_debit l) + input_amount (nk_credit l)"

definition restates :: "new_journal_line \<Rightarrow> draft_line \<Rightarrow> bool" where
  "restates l d \<longleftrightarrow> gl_account d = trim (nk_account l) \<and> gj_party d = clean (nj_party l) \<and>
     gl_debit d = input_amount (nk_debit l) \<and> gl_credit d = input_amount (nk_credit l) \<and> 0 \<le> gl_debit d \<and> 0 \<le> gl_credit d"

lemma draft_line_restates: "draft_line_create snap l n = Inr d \<Longrightarrow> restates l d"
  by (auto simp: draft_line_create_def restates_def input_amount_def to_money_def assert_line_side_def req_def Let_def
      elim!: rbindE split: decimal_input.splits if_splits)

lemma rmap_enumerate_accepts:
  assumes "\<And>l n. l \<in> set ls \<Longrightarrow> (\<exists>d. f l n = Inr d) \<longleftrightarrow> P l"
  shows "(\<exists>ds. rmap (\<lambda>(n, l). f l n) (enumerate k ls) = Inr ds) \<longleftrightarrow> (\<forall>l \<in> set ls. P l)"
  using assms
proof (induction ls arbitrary: k)
  case (Cons a ls)
  have "(\<exists>d. f a k = Inr d) \<longleftrightarrow> P a" by (rule Cons.prems) simp
  moreover have "(\<exists>ds. rmap (\<lambda>(n, l). f l n) (enumerate (Suc k) ls) = Inr ds) \<longleftrightarrow> (\<forall>l \<in> set ls. P l)"
    by (rule Cons.IH) (rule Cons.prems, simp)
  ultimately show ?case by (auto simp: rbind_eq_Inr)
qed simp

lemma rmap_enumerate_all2:
  "rmap (\<lambda>(n, l). draft_line_create snap l n) (enumerate k ls) = Inr ds \<Longrightarrow> list_all2 restates ls ds"
  by (induction ls arbitrary: k ds) (auto simp: rbind_eq_Inr intro: draft_line_restates)

lemma restated_sums:
  assumes "list_all2 restates ls ds"
  shows "sum_list (map gl_debit ds) - sum_list (map gl_credit ds) = sum_list (map input_net ls)"
    and "sum_list (map gl_debit ds) + sum_list (map gl_credit ds) = sum_list (map input_size ls)"
    and "\<forall>d \<in> set ds. 0 \<le> gl_debit d \<and> 0 \<le> gl_credit d" and "length ds = length ls"
  using assms by (induction) (auto simp: restates_def input_net_def input_size_def)

text \<open>What a command does to a selection of lines.\<close>

definition command_net :: "(posting_line \<Rightarrow> bool) \<Rightarrow> posting_command \<Rightarrow> decimal" where
  "command_net Q cmd = sum_list (map (\<lambda>l. pl_debit l - pl_credit l) (filter Q (pc_lines cmd)))"

lemma restated_net:
  assumes "list_all2 restates ls (gv_lines v)"
    and "\<And>l d. restates l d \<Longrightarrow> l \<in> set ls \<Longrightarrow> Q (journal_posting_line d) = R l"
  shows "command_net Q (journal_command v who) = sum_list (map input_net (filter R ls))"
proof -
  have "sum_list (map (\<lambda>l. pl_debit l - pl_credit l) (filter Q (map journal_posting_line ds))) = sum_list (map input_net (filter R ls))"
    if "list_all2 restates ls ds" "\<And>l d. restates l d \<Longrightarrow> l \<in> set ls \<Longrightarrow> Q (journal_posting_line d) = R l" for ds
    using that by (induction) (auto simp: restates_def input_net_def journal_posting_line_def)
  from this [OF assms] show ?thesis by (simp add: command_net_def journal_command_def)
qed

section \<open>The balance of the lines pushed\<close>

lemma pushed_nets:
  "input_net (account_line (i, t, x)) = signed_opening t x" "input_net (party_line ar ap (p, x)) = x"
  "input_size (account_line (i, t, x)) = x" "input_size (party_line ar ap (p, x)) = \<bar>x\<bar>"
  by (simp_all add: account_line_def party_line_def input_net_def input_size_def input_amount_def opening_line_def signed_opening_def)

lemma pushed_keys: "nk_account (account_line a) = fst a" "nj_party (party_line ar ap b) = Some (fst b)"
  by (cases a, simp add: account_line_def opening_line_def) (cases b, simp add: party_line_def opening_line_def)

lemma account_line_nets:
  "sum_list (map input_net (map account_line accs)) = sum_list (map (\<lambda>(i, t, x). signed_opening t x) accs)"
  "sum_list (map input_size (map account_line accs)) = sum_list (map (\<lambda>(i, t, x). x) accs)"
  by (induction accs) (auto simp: pushed_nets)

lemma party_line_nets:
  "sum_list (map input_net (map (party_line ar ap) ps)) = sum_list (map snd ps)"
  "sum_list (map input_size (map (party_line ar ap) ps)) = sum_list (map (\<lambda>(p, x). \<bar>x\<bar>) ps)"
  by (induction ps) (auto simp: pushed_nets)

context decimal_js begin

lemma equity_line_nets:
  "on_grid 4 net \<Longrightarrow> sum_list (map input_net (equity_line D equity net)) = - net"
  "on_grid 4 net \<Longrightarrow> sum_list (map input_size (equity_line D equity net)) = \<bar>net\<bar>"
  by (auto simp: equity_line_def input_net_def input_size_def input_amount_def opening_line_def to_dp_id)

lemma opening_input_nets:
  assumes "openings_clean accs parties"
  shows "sum_list (map input_net (opening_input D ar ap equity accs parties)) = 0"
    and "sum_list (map input_size (opening_input D ar ap equity accs parties)) < 2 * 10 ^ 15"
proof -
  note e = opening_input_exact(1) [OF assms, of ar ap equity] opening_input_exact(2,3) [OF assms]
  note q = equity_line_nets [OF e(2), of equity]
  show "sum_list (map input_net (opening_input D ar ap equity accs parties)) = 0"
    unfolding e(1) map_append sum_list_append account_line_nets party_line_nets q by (simp add: openings_net_def)
  have "sum_list (map (\<lambda>(i, t, x). x) accs) \<le> sum_list (map (\<lambda>(i, t, x). \<bar>x\<bar>) accs)" by (induction accs) auto
  then have "sum_list (map input_size (opening_input D ar ap equity accs parties)) \<le> openings_size accs parties + \<bar>openings_net accs parties\<bar>"
    unfolding e(1) map_append sum_list_append account_line_nets party_line_nets q by (simp add: openings_size_def)
  with e(3) assms show "sum_list (map input_size (opening_input D ar ap equity accs parties)) < 2 * 10 ^ 15"
    by (simp add: openings_clean_def)
qed

lemma restated_balanced:
  assumes "list_all2 restates (opening_input D ar ap equity accs parties) ds" and "openings_clean accs parties"
    and "\<forall>d \<in> set ds. gen_line_ok d"
  shows "assert_draft_balanced D ds = Inr ()"
proof -
  note r = restated_sums [OF assms(1)] and n = opening_input_nets [OF assms(2), of ar ap equity]
  have nn: "0 \<le> sum_list (map gl_debit ds)" "0 \<le> sum_list (map gl_credit ds)" using r(3) by (auto intro!: sum_list_nonneg)
  with r(1,2) n have b: "sum_list (map gl_debit ds) < 10 ^ 16" "sum_list (map gl_credit ds) < 10 ^ 16"
    "sum_list (map gl_debit ds) = sum_list (map gl_credit ds)" by auto
  have g: "\<forall>x \<in> set (map gl_debit ds). nonneg_grid x" "\<forall>x \<in> set (map gl_credit ds). nonneg_grid x"
    using assms(3) by (auto simp: nonneg_grid_def gen_line_ok_def)
  have "foldl (d_plus D) 0 xs = money_sum D xs" for xs by (simp add: money_sum_def money_plus_def [abs_def])
  with money_sum_exact [OF g(1) b(1)] money_sum_exact [OF g(2) b(2)] b(3) show ?thesis
    by (simp add: assert_draft_balanced_def Let_def)
qed

section \<open>Acceptance\<close>

lemma opening_input_passes:
  assumes "openings_clean accs parties" and "distinct [ar, ap, equity]" and "opening_id ar" and "opening_id ap" and "opening_id equity"
  shows "(\<exists>ds. rmap (\<lambda>(n, l). draft_line_create (opening_facts ar ap equity accs) l n) (enumerate 1 (opening_input D ar ap equity accs parties)) = Inr ds) \<longleftrightarrow>
    openings_net accs parties \<noteq> 0 \<and> (\<forall>a \<in> set accs. opening_passes ar ap equity a)"
proof -
  let ?f = "draft_line_create (opening_facts ar ap equity accs)"
  note e = opening_input_exact(1) [OF assms(1), of ar ap equity] opening_input_exact(2,3) [OF assms(1)]
  have any: "(\<exists>d. ?f l n = Inr d) \<longleftrightarrow> (\<exists>d. ?f l 0 = Inr d)" for l n
    by (auto simp: draft_line_create_def rbind_eq_Inr Let_def)
  from rmap_enumerate_accepts [of _ ?f "\<lambda>l. \<exists>d. ?f l 0 = Inr d", OF any]
  have "(\<exists>ds. rmap (\<lambda>(n, l). ?f l n) (enumerate 1 (opening_input D ar ap equity accs parties)) = Inr ds) \<longleftrightarrow>
      (\<forall>l \<in> set (opening_input D ar ap equity accs parties). \<exists>d. ?f l 0 = Inr d)" .
  moreover have "(\<forall>l \<in> set (map account_line accs). \<exists>d. ?f l 0 = Inr d) \<longleftrightarrow> (\<forall>a \<in> set accs. opening_passes ar ap equity a)"
    using account_line_passes [OF _ assms(1,2)] by fastforce
  moreover have "\<forall>l \<in> set (map (party_line ar ap) parties). \<exists>d. ?f l 0 = Inr d"
  proof
    fix l assume "l \<in> set (map (party_line ar ap) parties)"
    then obtain p x where px: "(p, x) \<in> set parties" "l = party_line ar ap (p, x)" by auto
    with assms(1) have "opening_id p" "x \<noteq> 0" by (auto simp: openings_clean_def)
    from party_line_passes [OF this assms(3,4,2)] show "\<exists>d. ?f l 0 = Inr d" unfolding px(2) .
  qed
  moreover have "(\<forall>l \<in> set (equity_line D equity (openings_net accs parties)). \<exists>d. ?f l 0 = Inr d) \<longleftrightarrow> openings_net accs parties \<noteq> 0"
    by (rule equity_line_passes [OF assms(5,2) e(2) decimal_js_axioms])
  ultimately show ?thesis unfolding e(1) by (auto simp: ball_Un)
qed

lemma assemble_accepts:
  assumes "resolve_by_code co ''1200'' ''accounts-receivable control'' (gen_accounts s) = Inr ar"
    and "resolve_by_code co ''2100'' ''accounts-payable control'' (gen_accounts s) = Inr ap"
    and "resolve_by_code co ''3900'' ''opening-balance-equity'' (gen_accounts s) = Inr equity"
    and "openings_clean (accounts_with_opening co (gen_accounts s)) (parties_with_opening co (gen_parties s))"
    and "distinct [ar, ap, equity]" and "opening_id ar" and "opening_id ap" and "opening_id equity"
  shows "(\<exists>v. assemble_opening D i co fy date nar s = Inr v) \<longleftrightarrow>
    trim date \<noteq> [] \<and> openings_net (accounts_with_opening co (gen_accounts s)) (parties_with_opening co (gen_parties s)) \<noteq> 0 \<and>
    (\<forall>a \<in> set (accounts_with_opening co (gen_accounts s)). opening_passes ar ap equity a)"
proof -
  let ?accs = "accounts_with_opening co (gen_accounts s)" and ?ps = "parties_with_opening co (gen_parties s)"
  let ?in = "opening_input D ar ap equity ?accs ?ps" and ?f = "draft_line_create (opening_facts ar ap equity ?accs)"
  note p = opening_input_passes [OF assms(4-8)]
  note e = opening_input_exact(1) [OF assms(4), of ar ap equity] opening_input_exact(2,3) [OF assms(4)]
  have two: "2 \<le> length ?in" if "openings_net ?accs ?ps \<noteq> 0"
  proof -
    have "?accs \<noteq> [] \<or> ?ps \<noteq> []" using that by (auto simp: openings_net_def)
    moreover have "length (equity_line D equity (openings_net ?accs ?ps)) = 1" by (auto simp: equity_line_def)
    ultimately show ?thesis unfolding e(1) by (cases ?accs; cases ?ps) auto
  qed
  have bal: "assert_draft_balanced D ds = Inr ()" if r: "rmap (\<lambda>(n, l). ?f l n) (enumerate 1 ?in) = Inr ds" "2 \<le> length ?in" for ds
  proof -
    have "\<forall>d \<in> set ds. gen_line_ok d" by (rule rmap_lines_ok [OF r(1) opening_input_grid])
    from restated_balanced [OF rmap_enumerate_all2 [OF r(1)] assms(4) this] show ?thesis .
  qed
  have "(\<exists>v. assemble_opening D i co fy date nar s = Inr v) \<longleftrightarrow>
      (\<exists>ds. 2 \<le> length ?in \<and> rmap (\<lambda>(n, l). ?f l n) (enumerate 1 ?in) = Inr ds \<and> assert_draft_balanced D ds = Inr ()) \<and> trim date \<noteq> []"
    by (auto simp: assemble_opening_def assms(1-3) journal_create_draft_def build_journal_lines_def rbind_eq_Inr Let_def req_def)
  also have "\<dots> \<longleftrightarrow> (\<exists>ds. rmap (\<lambda>(n, l). ?f l n) (enumerate 1 ?in) = Inr ds) \<and> trim date \<noteq> []"
    using two bal p by blast
  finally show ?thesis using p by blast
qed

lemma assembled_restates:
  assumes "assemble_opening D i co fy date nar s = Inr v"
    and "resolve_by_code co ''1200'' ''accounts-receivable control'' (gen_accounts s) = Inr ar"
    and "resolve_by_code co ''2100'' ''accounts-payable control'' (gen_accounts s) = Inr ap"
    and "resolve_by_code co ''3900'' ''opening-balance-equity'' (gen_accounts s) = Inr equity"
  shows "list_all2 restates (opening_input D ar ap equity (accounts_with_opening co (gen_accounts s)) (parties_with_opening co (gen_parties s)))
    (gv_lines v)"
  using assms
  by (auto simp: assemble_opening_def journal_create_draft_def build_journal_lines_def Let_def elim!: rbindE intro: rmap_enumerate_all2)

end

section \<open>What the lines restate\<close>

lemma filter_one:
  "distinct (map k xs) \<Longrightarrow> a \<in> set xs \<Longrightarrow> filter (\<lambda>x. k x = k a) xs = [a]"
  by (induction xs) (auto simp: filter_empty_conv rev_image_eqI)

context decimal_js begin

lemma restated_account:
  assumes "list_all2 restates (opening_input D ar ap equity accs parties) (gv_lines v)" and "openings_clean accs parties"
    and "opening_id ar" and "opening_id ap" and "opening_id equity" and "(i, t, x) \<in> set accs" and "i \<notin> {ar, ap, equity}"
  shows "command_net (\<lambda>l. pl_account l = i) (journal_command v who) = signed_opening t x"
proof -
  note e = opening_input_exact(1) [OF assms(2), of ar ap equity] opening_input_exact(2,3) [OF assms(2)]
  have ids: "\<forall>(j, t, x) \<in> set accs. opening_id j" "distinct (map fst accs)" using assms(2) by (auto simp: openings_clean_def)
  have t: "trim (nk_account l) = nk_account l" if "l \<in> set (opening_input D ar ap equity accs parties)" for l
    using that ids assms(3-5) unfolding e(1)
    by (auto simp: opening_id_def account_line_def party_line_def equity_line_def opening_line_def split: if_splits)
  have "command_net (\<lambda>l. pl_account l = i) (journal_command v who) =
      sum_list (map input_net (filter (\<lambda>l. nk_account l = i) (opening_input D ar ap equity accs parties)))"
    by (rule restated_net [OF assms(1)]) (simp add: restates_def journal_posting_line_def t)
  also have "filter (\<lambda>l. nk_account l = i) (opening_input D ar ap equity accs parties) =
      filter (\<lambda>l. nk_account l = i) (map account_line accs)"
    unfolding e(1) using assms(7) by (auto simp: filter_empty_conv party_line_def equity_line_def opening_line_def split: if_splits)
  also have "\<dots> = map account_line (filter (\<lambda>a. fst a = fst (i, t, x)) accs)"
    by (simp add: filter_map o_def pushed_keys)
  also have "\<dots> = [account_line (i, t, x)]" using filter_one [OF ids(2) assms(6)] by simp
  finally show ?thesis by (simp add: pushed_nets)
qed

lemma restated_party:
  assumes "list_all2 restates (opening_input D ar ap equity accs parties) (gv_lines v)" and "openings_clean accs parties"
    and "(p, x) \<in> set parties"
  shows "command_net (\<lambda>l. pl_party l = Some p) (journal_command v who) = x"
proof -
  note e = opening_input_exact(1) [OF assms(2), of ar ap equity] opening_input_exact(2,3) [OF assms(2)]
  have ids: "\<forall>(q, x) \<in> set parties. opening_id q" "distinct (map fst parties)" using assms(2) by (auto simp: openings_clean_def)
  have t: "clean (nj_party l) = nj_party l" if "l \<in> set (opening_input D ar ap equity accs parties)" for l
    using that ids unfolding e(1)
    by (auto simp: opening_id_def clean_def account_line_def party_line_def equity_line_def opening_line_def split: if_splits)
  have "command_net (\<lambda>l. pl_party l = Some p) (journal_command v who) =
      sum_list (map input_net (filter (\<lambda>l. nj_party l = Some p) (opening_input D ar ap equity accs parties)))"
    by (rule restated_net [OF assms(1)]) (simp add: restates_def journal_posting_line_def t)
  also have "filter (\<lambda>l. nj_party l = Some p) (opening_input D ar ap equity accs parties) =
      filter (\<lambda>l. nj_party l = Some p) (map (party_line ar ap) parties)"
    unfolding e(1) by (auto simp: filter_empty_conv account_line_def equity_line_def opening_line_def split: if_splits)
  also have "\<dots> = map (party_line ar ap) (filter (\<lambda>a. fst a = fst (p, x)) parties)"
    by (simp add: filter_map o_def pushed_keys)
  also have "\<dots> = [party_line ar ap (p, x)]" using filter_one [OF ids(2) assms(3)] by simp
  finally show ?thesis by (simp add: pushed_nets)
qed

lemma restated_equity:
  assumes "list_all2 restates (opening_input D ar ap equity accs parties) (gv_lines v)" and "openings_clean accs parties"
    and "opening_id ar" and "opening_id ap" and "opening_id equity" and "distinct [ar, ap, equity]" and "equity \<notin> fst ` set accs"
  shows "command_net (\<lambda>l. pl_account l = equity) (journal_command v who) = - openings_net accs parties"
proof -
  note e = opening_input_exact(1) [OF assms(2), of ar ap equity] opening_input_exact(2,3) [OF assms(2)]
  have ids: "\<forall>(j, t, x) \<in> set accs. opening_id j" using assms(2) by (auto simp: openings_clean_def)
  have t: "trim (nk_account l) = nk_account l" if "l \<in> set (opening_input D ar ap equity accs parties)" for l
    using that ids assms(3-5) unfolding e(1)
    by (auto simp: opening_id_def account_line_def party_line_def equity_line_def opening_line_def split: if_splits)
  have "command_net (\<lambda>l. pl_account l = equity) (journal_command v who) =
      sum_list (map input_net (filter (\<lambda>l. nk_account l = equity) (opening_input D ar ap equity accs parties)))"
    by (rule restated_net [OF assms(1)]) (simp add: restates_def journal_posting_line_def t)
  also have "filter (\<lambda>l. nk_account l = equity) (opening_input D ar ap equity accs parties) = equity_line D equity (openings_net accs parties)"
    unfolding e(1) using assms(6,7)
    by (auto simp: filter_empty_conv account_line_def party_line_def equity_line_def opening_line_def image_iff split: if_splits)
  finally show ?thesis by (simp add: equity_line_nets e(2))
qed

end

end
