(* ===== verification/Contra_Journal_Demo.thy ===== *)
theory Contra_Journal_Demo
  imports Contra_Journal_Restated
begin

text \<open>
  A concrete run: the company with 500 in cash, a debtor of 200 and a creditor of 150 posts its opening journal and
  banks 100 of its cash.
\<close>

section \<open>States\<close>

definition gen_demo_accounts :: "gen_account list" where
  "gen_demo_accounts =
     [\<lparr>ga_id = ''CASH'', ga_company = ''C'', ga_code = ''1100'', ga_type = ASSET, ga_opening = Some 500\<rparr>,
      \<lparr>ga_id = ''BANK'', ga_company = ''C'', ga_code = ''1110'', ga_type = ASSET, ga_opening = None\<rparr>,
      \<lparr>ga_id = ''AR'', ga_company = ''C'', ga_code = ''1200'', ga_type = ASSET, ga_opening = None\<rparr>,
      \<lparr>ga_id = ''AP'', ga_company = ''C'', ga_code = ''2100'', ga_type = LIABILITY, ga_opening = None\<rparr>,
      \<lparr>ga_id = ''EQ'', ga_company = ''C'', ga_code = ''3900'', ga_type = EQUITY, ga_opening = None\<rparr>]"

definition gen_demo_parties :: "gen_party list" where
  "gen_demo_parties = [\<lparr>gp_id = ''K'', gp_company = ''C'', gp_opening = Some 200\<rparr>, \<lparr>gp_id = ''S'', gp_company = ''C'', gp_opening = Some (- 150)\<rparr>]"

definition gen_demo ::
  "period list \<Rightarrow> journal_entry list \<Rightarrow> series_row list \<Rightarrow> audit_row list \<Rightarrow> nat \<Rightarrow> contra_voucher gen_row list \<Rightarrow> journal_voucher gen_row list \<Rightarrow> gen_db" where
  "gen_demo ps es ss au n cs js =
     \<lparr>db_fys = [sample_fy], db_series = ss, db_periods = ps, db_entries = es, db_audit = au, db_ids = n,
      gen_accounts = gen_demo_accounts, gen_parties = gen_demo_parties, gen_contras = cs, gen_journals = js\<rparr>"

definition gen_demo_periods :: "period list" where
  "gen_demo_periods = [period_create ''0'' ''C'' ''FY'' ''Jul 2025'' ''2025-07-01'' ''2025-07-31'']"

definition gen_demo_audit :: "string \<Rightarrow> string \<Rightarrow> string \<Rightarrow> audit_row" where
  "gen_demo_audit a t i = \<lparr>a_action = a, a_entity_type = t, a_entity_id = i, a_actor = ''U'', a_company = ''C''\<rparr>"

definition gen_demo_open :: gen_db where "gen_demo_open = gen_demo gen_demo_periods [] [] [] 1 [] []"

definition contra_demo_new :: "new_contra_line new_voucher" where
  "contra_demo_new = \<lparr>nv_date = ''2025-07-10'', nv_narration = None, nv_lines =
     [\<lparr>nk_account = ''BANK'', nk_debit = Dec 100, nk_credit = Absent, nk_narration = None\<rparr>,
      \<lparr>nk_account = ''CASH'', nk_debit = Absent, nk_credit = Dec 100, nk_narration = None\<rparr>]\<rparr>"

definition contra_demo_draft :: contra_voucher where
  "contra_demo_draft = \<lparr>gv_id = ''1'', gv_company = ''C'', gv_fy = ''FY'', gv_date = ''2025-07-10'', gv_narration = None,
     gv_status = GenDraft, gv_entry_no = None, gv_entry = None, gv_posted_at = None, gv_posted_by = None, gv_version = 1, gv_lines =
     [\<lparr>gl_no = 1, gl_account = ''BANK'', gl_debit = 100, gl_credit = 0, gl_narration = None\<rparr>,
      \<lparr>gl_no = 2, gl_account = ''CASH'', gl_debit = 0, gl_credit = 100, gl_narration = None\<rparr>]\<rparr>"

definition contra_demo_posted :: contra_voucher where
  "contra_demo_posted = contra_demo_draft\<lparr>gv_status := GenPosted, gv_entry_no := Some ''CV/2525/0001'', gv_entry := Some ''5'',
     gv_posted_at := Some 6, gv_posted_by := Some ''U'', gv_version := 2\<rparr>"

definition contra_demo_entry :: journal_entry where
  "contra_demo_entry = \<lparr>je_id = ''5'', je_company = ''C'', je_fy = ''FY'', je_no = ''CV/2525/0001'', je_voucher_type = CONTRA,
     je_voucher_date = ''2025-07-10'', je_source_type = ''ContraVoucher'', je_source_id = ''1'', je_is_reversal = False,
     je_reversal_of = None, je_posted_at = 6, je_posted_by = ''U'', je_narration = None,
     je_lines = lines_of (map contra_posting_line (gv_lines contra_demo_draft))\<rparr>"

definition gen_demo_series :: "string \<Rightarrow> voucher_type \<Rightarrow> string \<Rightarrow> series_row" where
  "gen_demo_series i vt pre = \<lparr>s_id = i, s_company = ''C'', s_fy = ''FY'', s_voucher_type = vt, s_prefix = pre, s_padding = 4, s_last = 1, s_version = 1\<rparr>"

definition gen_demo_drafted :: gen_db where
  "gen_demo_drafted = gen_demo gen_demo_periods [] [] [gen_demo_audit ''CREATE'' ''ContraVoucher'' ''1''] 4
     [\<lparr>gr_voucher = contra_demo_draft, gr_deleted = False\<rparr>] []"

definition gen_demo_banked :: gen_db where
  "gen_demo_banked = gen_demo gen_demo_periods [contra_demo_entry] [gen_demo_series ''4'' CONTRA ''CV'']
     [gen_demo_audit ''CREATE'' ''ContraVoucher'' ''1'', gen_demo_audit ''POST'' ''ContraVoucher'' ''1''] 8
     [\<lparr>gr_voucher = contra_demo_posted, gr_deleted = False\<rparr>] []"

definition opening_demo_draft :: journal_voucher where
  "opening_demo_draft = \<lparr>gv_id = ''8'', gv_company = ''C'', gv_fy = ''FY'', gv_date = ''2025-07-01'',
     gv_narration = Some ''Go-live opening balances'', gv_status = GenDraft, gv_entry_no = None, gv_entry = None,
     gv_posted_at = None, gv_posted_by = None, gv_version = 1, gv_lines =
       [opening_draft ''CASH'' None 500 0 ASSET False 1, opening_draft ''AR'' (Some ''K'') 200 0 ASSET True 2,
        opening_draft ''AP'' (Some ''S'') 0 150 LIABILITY True 3, opening_draft ''EQ'' None 0 550 EQUITY False 4],
     jv_type = OPENING\<rparr>"

definition opening_demo_posted :: journal_voucher where
  "opening_demo_posted = opening_demo_draft\<lparr>gv_status := GenPosted, gv_entry_no := Some ''OB/2525/0001'', gv_entry := Some ''14'',
     gv_posted_at := Some 7, gv_posted_by := Some ''U'', gv_version := 2\<rparr>"

definition opening_demo_entry :: journal_entry where
  "opening_demo_entry = \<lparr>je_id = ''14'', je_company = ''C'', je_fy = ''FY'', je_no = ''OB/2525/0001'', je_voucher_type = OPENING,
     je_voucher_date = ''2025-07-01'', je_source_type = ''JournalVoucher'', je_source_id = ''8'', je_is_reversal = False,
     je_reversal_of = None, je_posted_at = 7, je_posted_by = ''U'', je_narration = Some ''Go-live opening balances'',
     je_lines = lines_of (map journal_posting_line (gv_lines opening_demo_draft))\<rparr>"

definition gen_demo_live :: gen_db where
  "gen_demo_live = gen_demo gen_demo_periods [contra_demo_entry, opening_demo_entry]
     [gen_demo_series ''4'' CONTRA ''CV'', gen_demo_series ''13'' OPENING ''OB'']
     [gen_demo_audit ''CREATE'' ''ContraVoucher'' ''1'', gen_demo_audit ''POST'' ''ContraVoucher'' ''1'', gen_demo_audit ''POST'' ''JournalVoucher'' ''8'']
     19 [\<lparr>gr_voucher = contra_demo_posted, gr_deleted = False\<rparr>] [\<lparr>gr_voucher = opening_demo_posted, gr_deleted = False\<rparr>]"

section \<open>Its steps\<close>

lemma gen_demo_generate: "generate_periods show_nat ''FY'' sample_actor (gen_demo [] [] [] [] 0 [] []) = Inr (gen_demo_periods, gen_demo_open)"
  by code_simp

lemma gen_demo_create: "create_contra dec20 show_nat contra_demo_new sample_actor gen_demo_open = Inr (''1'', gen_demo_drafted)"
  by code_simp

lemma gen_demo_post:
  "post_contra dec20 show_nat (erp_ports show_nat) ''1'' sample_actor 6 gen_demo_drafted = Inr ((''5'', ''CV/2525/0001''), gen_demo_banked)"
  by code_simp

lemma gen_demo_opening:
  "post_opening dec20 show_nat (erp_ports show_nat) ''2025-07-01'' None sample_actor 7 gen_demo_banked =
     Inr ((''8'', ''14'', ''OB/2525/0001''), gen_demo_live)"
  by code_simp

lemma gen_demo_empty: "empty_gen (gen_demo [] [] [] [] 0 [] [])"
  by (simp add: empty_gen_def empty_db_def gen_demo_def)

lemma gen_demo_run: "rtranclp (gen_step True dec20 show_nat) (gen_demo [] [] [] [] 0 [] []) gen_demo_live"
proof -
  have "gen_step True dec20 show_nat (gen_demo [] [] [] [] 0 [] []) gen_demo_open"
    by (rule g_kernel [OF step_period [OF step_generate [OF gen_demo_generate]]]) (simp add: gen_demo_open_def gen_demo_def)
  moreover note g_create_contra [OF gen_demo_create] g_post_contra [OF gen_demo_post] g_opening [OF gen_demo_opening]
  ultimately show ?thesis by (meson rtranclp.rtrancl_refl rtranclp.rtrancl_into_rtrancl)
qed

end
