(* ===== verification/Contra_Journal_Properties.thy ===== *)
theory Contra_Journal_Properties
  imports Contra_Journal_Demo
begin

text \<open>
  The properties of the contra and journal module.
\<close>

text \<open>
  C40. Manual vouchers are backed, and a contra only moves the company's own money: after any run of the module's
  services and the rest of the program, every contra or journal voucher that left the draft stage stands in the ledger
  with one entry of its own that holds exactly its lines, a cancelled one also with a reversal of that entry, and the
  entry of a contra leaves both the total of the cash and bank accounts and the total of all other accounts unchanged.
\<close>

theorem manual_vouchers_are_backed:
  assumes "decimal_js D" and "inj mk" and "empty_gen z" and "rtranclp (gen_step nn D mk) z s"
  shows "(\<forall>r \<in> set (gen_contras s). let v = gr_voucher r in gv_status v \<noteq> GenDraft \<longrightarrow>
       (\<exists>e \<in> set (db_entries s). gv_entry v = Some (je_id e) \<and> je_source_type e = ''ContraVoucher'' \<and> je_source_id e = gv_id v \<and>
          je_company e = gv_company v \<and> je_lines e = lines_of (map contra_posting_line (gv_lines v)) \<and>
          entry_net (\<lambda>l. own_money (gv_company v) (gen_accounts s) (jl_account l)) e = 0 \<and>
          entry_net (\<lambda>l. \<not> own_money (gv_company v) (gen_accounts s) (jl_account l)) e = 0)) \<and>
    (\<forall>r \<in> set (gen_journals s). let v = gr_voucher r in gv_status v \<noteq> GenDraft \<longrightarrow>
       (\<exists>e \<in> set (db_entries s). gv_entry v = Some (je_id e) \<and> je_source_type e = ''JournalVoucher'' \<and> je_source_id e = gv_id v \<and>
          je_company e = gv_company v \<and> je_lines e = lines_of (map journal_posting_line (gv_lines v)))) \<and>
    (\<forall>v \<in> gr_voucher ` set (gen_contras s). gv_status v = GenCancelled \<longrightarrow> (\<exists>x \<in> set (db_entries s). je_reversal_of x = gv_entry v)) \<and>
    (\<forall>v \<in> gr_voucher ` set (gen_journals s). gv_status v = GenCancelled \<longrightarrow> (\<exists>x \<in> set (db_entries s). je_reversal_of x = gv_entry v))"
proof -
  note inv = gen_invD [OF decimal_js.gen_run_inv [OF assms(1,4) gen_inv_empty [OF assms(2,3)] assms(2)]]
  have row: "gen_row_sound ''ContraVoucher'' contra_posting_line (db_entries s) (gr_voucher r)" if "r \<in> set (gen_contras s)" for r
    using gen_soundD(2) [OF inv(2) that] .
  have jrow: "gen_row_sound ''JournalVoucher'' journal_posting_line (db_entries s) (gr_voucher r)" if "r \<in> set (gen_journals s)" for r
    using gen_soundD(2) [OF inv(3) that] .
  have own: "entry_net (\<lambda>l. own_money (gv_company v) (gen_accounts s) (jl_account l)) e = 0 \<and>
      entry_net (\<lambda>l. \<not> own_money (gv_company v) (gen_accounts s) (jl_account l)) e = 0"
    if "r \<in> set (gen_contras s)" "v = gr_voucher r" "e \<in> set (db_entries s)" "je_lines e = lines_of (map contra_posting_line (gv_lines v))" for r v e
  proof -
    have "\<forall>l \<in> set (je_lines e). own_money (gv_company v) (gen_accounts s) (jl_account l)"
      using inv(4) [OF that(1)]
      by (auto simp: that(2,4) contra_lines_ok_def lines_of_def in_set_enumerate_eq contra_posting_line_def)
    from entry_within [OF that(3) erp_inv_entries [OF inv(1)] this] show ?thesis by simp
  qed
  have "\<exists>e \<in> set (db_entries s). gv_entry v = Some (je_id e) \<and> je_source_type e = ''ContraVoucher'' \<and> je_source_id e = gv_id v \<and>
      je_company e = gv_company v \<and> je_lines e = lines_of (map contra_posting_line (gv_lines v)) \<and>
      entry_net (\<lambda>l. own_money (gv_company v) (gen_accounts s) (jl_account l)) e = 0 \<and>
      entry_net (\<lambda>l. \<not> own_money (gv_company v) (gen_accounts s) (jl_account l)) e = 0"
    if "r \<in> set (gen_contras s)" "v = gr_voucher r" "gv_status v \<noteq> GenDraft" for r v
    using row [OF that(1)] that(2,3) own [OF that(1,2)] unfolding gen_row_sound_def gen_backed_def by blast
  moreover have "\<exists>e \<in> set (db_entries s). gv_entry v = Some (je_id e) \<and> je_source_type e = ''JournalVoucher'' \<and> je_source_id e = gv_id v \<and>
      je_company e = gv_company v \<and> je_lines e = lines_of (map journal_posting_line (gv_lines v))"
    if "r \<in> set (gen_journals s)" "v = gr_voucher r" "gv_status v \<noteq> GenDraft" for r v
    using jrow [OF that(1)] that(2,3) unfolding gen_row_sound_def gen_backed_def by blast
  moreover have "\<exists>x \<in> set (db_entries s). je_reversal_of x = gv_entry v" if "v \<in> gr_voucher ` set (gen_contras s)" "gv_status v = GenCancelled" for v
    using that row by (auto simp: gen_row_sound_def)
  moreover have "\<exists>x \<in> set (db_entries s). je_reversal_of x = gv_entry v" if "v \<in> gr_voucher ` set (gen_journals s)" "gv_status v = GenCancelled" for v
    using that jrow by (auto simp: gen_row_sound_def)
  ultimately show ?thesis unfolding Let_def by (intro conjI ballI impI) simp_all
qed

theorem manual_vouchers_are_backed_witness:
  "\<exists>e \<in> set (db_entries gen_demo_live). je_id e = ''5'' \<and> je_source_id e = ''1'' \<and>
     entry_net (\<lambda>l. own_money ''C'' gen_demo_accounts (jl_account l)) e = 0"
proof -
  note w = manual_vouchers_are_backed [OF decimal_js_dec20 inj_show_nat gen_demo_empty gen_demo_run, THEN conjunct1]
  have "\<lparr>gr_voucher = contra_demo_posted, gr_deleted = False\<rparr> \<in> set (gen_contras gen_demo_live)"
    by (simp add: gen_demo_live_def gen_demo_def)
  moreover have "gv_status contra_demo_posted \<noteq> GenDraft" "gv_entry contra_demo_posted = Some ''5''" "gv_id contra_demo_posted = ''1''"
    "gv_company contra_demo_posted = ''C''" "gen_accounts gen_demo_live = gen_demo_accounts"
    by (simp_all add: contra_demo_posted_def contra_demo_draft_def gen_demo_live_def gen_demo_def)
  ultimately show ?thesis using w by (fastforce simp: Let_def)
qed

text \<open>
  A company opens its books once: after any run it has at most one opening journal, and from the moment it has
  one no later state, whatever was reversed, deleted, changed or posted meanwhile, accepts another: the attempt fails
  with OPENING_ALREADY_EXISTS.
\<close>

theorem books_are_opened_once:
  assumes "decimal_js D" and "inj mk" and "empty_gen z" and "rtranclp (gen_step nn D mk) z s"
    and "exists_opening_for co (gen_journals s)" and "rtranclp (gen_step nn D mk) s s'" and "act_company act = co"
  shows "length (openings_of co (gen_journals s')) = 1 \<and>
    post_opening D mk (erp_ports mk) date nar act now s' = Inl (CodedError ''OPENING_ALREADY_EXISTS'' co)"
proof -
  note run = decimal_js.gen_run_inv [OF assms(1)]
  have i: "gen_inv mk s" by (rule run [OF assms(4) gen_inv_empty [OF assms(2,3)] assms(2)])
  note inv = gen_invD(5) [OF i] gen_invD(5) [OF run [OF assms(6) i assms(2)]]
  from assms(5) have "0 < length (openings_of co (gen_journals s))" by (simp add: exists_opening_iff [OF inv(1)])
  then have pos: "0 < length (openings_of co (gen_journals s'))"
    using gen_run_openings [OF assms(6), unfolded openings_grow_def, rule_format, of co] by (rule less_le_trans)
  moreover have "length (openings_of co (gen_journals s')) \<le> 1" using inv(2) by (simp add: openings_ok_def)
  moreover have "exists_opening_for co (gen_journals s')" using pos by (simp add: exists_opening_iff [OF inv(2)])
  ultimately have one: "length (openings_of co (gen_journals s')) = 1" and e: "exists_opening_for co (gen_journals s')" by linarith+
  show ?thesis by (simp only: one simp_thms) (simp add: post_opening_def uow_run_def assms(7) e)
qed

theorem books_are_opened_once_witness:
  "length (openings_of ''C'' (gen_journals gen_demo_live)) = 1 \<and>
   post_opening dec20 show_nat (erp_ports show_nat) ''2025-07-02'' None sample_actor 9 gen_demo_live = Inl (CodedError ''OPENING_ALREADY_EXISTS'' ''C'')"
  by (rule books_are_opened_once [OF decimal_js_dec20 inj_show_nat gen_demo_empty gen_demo_run _ rtranclp.rtrancl_refl])
    (simp_all add: exists_opening_for_def gen_demo_live_def gen_demo_def opening_demo_posted_def opening_demo_draft_def sample_actor_def)

text \<open>
  The opening journal restates the opening balances, and exactly the following openings are rejected: with the
  three well-known accounts in place, the assembly succeeds if and only if a date is given, the openings do not already
  balance among themselves, every account with an opening has a positive one and is neither a control account nor an
  income or expense account.  When it succeeds, the lines net to the opening of every account on its natural side, to
  the opening of every party, and to the opposite of all of them on the opening-equity account.
\<close>

theorem opening_journal_restates_openings:
  assumes "decimal_js D"
    and "resolve_by_code co ''1200'' ''accounts-receivable control'' (gen_accounts s) = Inr ar"
    and "resolve_by_code co ''2100'' ''accounts-payable control'' (gen_accounts s) = Inr ap"
    and "resolve_by_code co ''3900'' ''opening-balance-equity'' (gen_accounts s) = Inr equity"
    and "accs = accounts_with_opening co (gen_accounts s)" and "parties = parties_with_opening co (gen_parties s)"
    and "openings_clean accs parties" and "distinct [ar, ap, equity]" and "opening_id ar" and "opening_id ap" and "opening_id equity"
  shows "((\<exists>v. assemble_opening D i co fy date nar s = Inr v) \<longleftrightarrow>
       trim date \<noteq> [] \<and> openings_net accs parties \<noteq> 0 \<and>
       (\<forall>(a, t, x) \<in> set accs. 0 < x \<and> (a = equity \<or> (a \<noteq> ar \<and> a \<noteq> ap \<and> t \<noteq> INCOME \<and> t \<noteq> EXPENSE)))) \<and>
    (\<forall>v. assemble_opening D i co fy date nar s = Inr v \<longrightarrow>
       (\<forall>(a, t, x) \<in> set accs. a \<noteq> equity \<longrightarrow> command_net (\<lambda>l. pl_account l = a) (journal_command v who) = signed_opening t x) \<and>
       (\<forall>(p, x) \<in> set parties. command_net (\<lambda>l. pl_party l = Some p) (journal_command v who) = x) \<and>
       (equity \<notin> fst ` set accs \<longrightarrow> command_net (\<lambda>l. pl_account l = equity) (journal_command v who) = - openings_net accs parties))"
proof -
  note a = decimal_js.assemble_accepts [OF assms(1-4) assms(7-11) [unfolded assms(5,6)], folded assms(5,6)]
  have pass: "(\<forall>x \<in> set accs. opening_passes ar ap equity x) \<longleftrightarrow>
      (\<forall>(a, t, x) \<in> set accs. 0 < x \<and> (a = equity \<or> (a \<noteq> ar \<and> a \<noteq> ap \<and> t \<noteq> INCOME \<and> t \<noteq> EXPENSE)))"
    by (auto simp: opening_passes_def pnl_type_def)
  have restated: "(\<forall>(a, t, x) \<in> set accs. a \<noteq> equity \<longrightarrow> command_net (\<lambda>l. pl_account l = a) (journal_command v who) = signed_opening t x) \<and>
       (\<forall>(p, x) \<in> set parties. command_net (\<lambda>l. pl_party l = Some p) (journal_command v who) = x) \<and>
       (equity \<notin> fst ` set accs \<longrightarrow> command_net (\<lambda>l. pl_account l = equity) (journal_command v who) = - openings_net accs parties)"
    if v: "assemble_opening D i co fy date nar s = Inr v" for v
  proof -
    note r = decimal_js.assembled_restates [OF assms(1) v assms(2-4), folded assms(5,6)]
    from a v have ok: "\<forall>x \<in> set accs. opening_passes ar ap equity x" by blast
    have "command_net (\<lambda>l. pl_account l = a) (journal_command v who) = signed_opening t x" if m: "(a, t, x) \<in> set accs" "a \<noteq> equity" for a t x
    proof (rule decimal_js.restated_account [OF assms(1) r assms(7,9-11) m(1)])
      show "a \<notin> {ar, ap, equity}" using ok m by (auto simp: opening_passes_def)
    qed
    with decimal_js.restated_party [OF assms(1) r assms(7)] decimal_js.restated_equity [OF assms(1) r assms(7,9-11,8)]
    show ?thesis by blast
  qed
  show ?thesis unfolding pass [symmetric] by (rule conjI [OF a]) (intro allI impI, rule restated)
qed

theorem opening_journal_restates_openings_witness:
  "\<exists>v. assemble_opening dec20 ''8'' ''C'' ''FY'' ''2025-07-01'' None gen_demo_banked = Inr v"
proof -
  have r: "resolve_by_code ''C'' ''1200'' ''accounts-receivable control'' (gen_accounts gen_demo_banked) = Inr ''AR''"
    "resolve_by_code ''C'' ''2100'' ''accounts-payable control'' (gen_accounts gen_demo_banked) = Inr ''AP''"
    "resolve_by_code ''C'' ''3900'' ''opening-balance-equity'' (gen_accounts gen_demo_banked) = Inr ''EQ''" by code_simp+
  have o: "accounts_with_opening ''C'' (gen_accounts gen_demo_banked) = [(''CASH'', ASSET, 500)]"
    "parties_with_opening ''C'' (gen_parties gen_demo_banked) = [(''K'', 200), (''S'', - 150)]" by code_simp+
  have i: "opening_id ''AR''" "opening_id ''AP''" "opening_id ''EQ''" "opening_id ''CASH''" "opening_id ''K''" "opening_id ''S''" by code_simp+
  have g: "on_grid 4 500" "on_grid 4 200" "on_grid 4 150" by code_simp+
  have "openings_clean [(''CASH'', ASSET, 500)] [(''K'', 200), (''S'', - 150)]"
    using i g by (simp add: openings_clean_def openings_size_def)
  moreover have "distinct [''AR'', ''AP'', ''EQ'']" "trim ''2025-07-01'' \<noteq> []" by code_simp+
  ultimately show ?thesis
    using opening_journal_restates_openings [OF decimal_js_dec20 r o [symmetric] _ _ i(1-3), of "''8''" "''FY''" "''2025-07-01''" None]
    by (simp add: openings_net_def signed_opening_def debit_natural_def)
qed

end
