(* ===== verification/Spec2Isabelle.thy ===== *)
theory Spec2Isabelle
  imports Posting Sales_Books Stock_Properties Hr_Csv Hr_Books Requisition_Books Payment_Properties Receipt_Properties
    Contra_Journal_Properties
begin

text \<open>
  A verification library for the construction ERP back end, a NestJS service in TypeScript over PostgreSQL: double-entry
  accounting for construction projects.  Every module keeps documents (certificates, receipts, payments, stock journals,
  requisitions, attendance and salary sheets, contra and journal vouchers) that are drafted, posted to one ledger and,
  later, reversed or reposted there.  The library models the state-changing code of these modules, statement by
  statement, and proves what makes it correct.

  \<^bold>\<open>How the program is put together.\<close>  Under \<open>src/src/core\<close> sits the posting kernel: the posting service is the only
  writer of the ledger; it asks a period guard, a project guard and a reference check, checks the dimensions of each
  line against a tag matrix, draws a voucher number from a locked series and saves the entry.  Under
  \<open>src/src/modules\<close> each module has a domain (pure aggregates), an application layer (one class per use case, each one
  transaction of the unit of work) and an infrastructure layer (repositories and adapters to the tables of other
  modules).  Modules meet in the ledger, in the stock ledger, and in what one reads of another's tables: payments settle
  bills, labour payables and salary sheets; receipts settle certificates; requisitions take material from the stock.

  \<^bold>\<open>How it is modelled.\<close>  The database is a record: \<open>Core_State.db\<close> holds the tables of the kernel, and each module
  extends it with its own (\<open>sales_db\<close>, \<open>stock_db\<close>, \<open>inventory_db\<close>, \<open>hr_db\<close>, \<open>req_db\<close>, \<open>pay_db\<close>, \<open>receipt_db\<close>,
  \<open>gen_db\<close>), so that the operations of the kernel run on every one of them.  A row is a record with the columns the code
  uses, a table a list in insertion order.  An operation takes the state and returns an error or a result with the new
  state (\<open>Prelude\<close>: \<open>rbind\<close>, \<open>require\<close>, \<open>fetch\<close>, \<open>riter\<close>, \<open>rmap\<close>); every throw of the code is a branch, with the error
  of \<open>Errors\<close>.  \<open>uow_run\<close> is the transaction: on an error the state is the old one, and at commit the deferred trigger of
  the database checks that every new entry balances.  Optimistic versions, unique indexes, check constraints and the
  width of the columns are part of the repositories.  What a run of the program is, each module says by an inductive step
  relation that has every use case as one rule and the rest of the program as another; reachability is
  \<^const>\<open>rtranclp\<close> of it.

  \<^bold>\<open>The theories.\<close>  Shared: \<open>Prelude\<close> (errors, lookup, strings), \<open>Decimals\<close> (the decimal library), \<open>Js_Dates\<close> and
  \<open>Calendar\<close> (dates), \<open>Errors\<close> and \<open>Values\<close> (\<open>src/src/common\<close>), \<open>Core_State\<close> (kernel tables, unit of work, audit),
  \<open>Vouchers\<close> (a transaction that posts, and nets over lines), \<open>Settlements\<close> (documents settled by vouchers that may be
  reversed).  Kernel: \<open>Ledger_Types\<close>, \<open>Journal_Entry\<close>, \<open>Tag_Matrix\<close>, \<open>Numbering\<close>, \<open>Periods\<close>, \<open>Posting\<close>, and
  \<open>Policies\<close> (access policy and cost control).  Sales: \<open>Sales_Ipc\<close> (aggregate), \<open>Sales_Use_Cases\<close>, \<open>Sales_Soundness\<close>,
  \<open>Sales_Books\<close>.  Inventory: \<open>Stock_Ledger\<close> (valuation, movements, balances, the inventory service), \<open>Stock_Journal\<close>,
  \<open>Stock_Books\<close>, \<open>Stock_Soundness\<close>, \<open>Stock_Properties\<close>.  HR: \<open>Hr_Days\<close> and \<open>Hr_Csv\<close> (the pure rules of the attendance
  reports), \<open>Attendance\<close>, \<open>Employees\<close>, \<open>Payroll\<close>, \<open>Payroll_Posting\<close>, \<open>Hr_State\<close>, \<open>Hr_Use_Cases\<close>, \<open>Hr_Soundness\<close>,
  \<open>Hr_Steps\<close>, \<open>Hr_Sheets\<close>, \<open>Hr_Pay\<close>, \<open>Hr_Books\<close>.  Requisition: \<open>Requisition\<close>, \<open>Requisition_State\<close>,
  \<open>Requisition_Use_Cases\<close>, \<open>Requisition_Soundness\<close>, \<open>Requisition_Steps\<close>, \<open>Requisition_Issues\<close>, \<open>Requisition_Books\<close>.
  Payment: \<open>Payment\<close>, \<open>Payment_State\<close>, \<open>Payment_Command\<close>, \<open>Payment_Use_Cases\<close>, \<open>Payment_Soundness\<close>,
  \<open>Payment_Steps\<close>, \<open>Payment_Books\<close>, \<open>Payment_Properties\<close>.  Receipt: \<open>Receipt\<close>, \<open>Receipt_State\<close>, \<open>Receipt_Use_Cases\<close>,
  \<open>Receipt_Soundness\<close>, \<open>Receipt_Steps\<close>, \<open>Receipt_Books\<close>, \<open>Receipt_Properties\<close>.  Contra and journal vouchers:
  \<open>Contra_Journal\<close>, \<open>Contra_Journal_State\<close>, \<open>Contra_Journal_Use_Cases\<close>, \<open>Contra_Journal_Opening\<close>,
  \<open>Contra_Journal_Soundness\<close>, \<open>Contra_Journal_Steps\<close>, \<open>Contra_Journal_Books\<close>, \<open>Contra_Journal_Restated\<close>,
  \<open>Contra_Journal_Properties\<close>.  The theories named \<open>_Demo\<close> hold concrete runs, evaluated by the simplifier, that the
  witnesses of the properties start from.  In each module the theory with the bare name is the domain folder, \<open>_State\<close>
  the infrastructure folder and \<open>_Use_Cases\<close> the application folder; definitions keep the names of the code in snake
  case, with a prefix where two modules share a name.
\<close>

text \<open>
  \<^bold>\<open>The interfaces.\<close>  \<open>decimal_js\<close> states the documented behaviour of the package decimal.js as the program configures
  it (twenty significant digits, half up): a result that fits is exact, any other is off by at most half a unit of the
  last digit, and \<open>toDecimalPlaces\<close> rounds half up; it is interpreted by the executable \<open>dec20\<close>.  \<open>numbering_service\<close>
  and \<open>posting_service\<close> are what the posting service promises its callers given its ports, interpreted by the numbering
  allocator and by the ports as the program wires them (\<open>erp_ports\<close>).  \<open>settlement_rows\<close> is what a table of vouchers
  that settle other documents satisfies, interpreted by payments and by receipts.  \<open>voucher_posting\<close> is the life of a
  manual voucher, interpreted by contra and by journal vouchers.

  \<^bold>\<open>What the lemmas show.\<close>  Kernel: every entry in the ledger balances, numbers are gapless per series, an entry is
  reversed at most once and its reversal takes back its effect on every account, the ledger only grows, a fully closed
  year stays closed, and posting and reversing are accepted exactly under the checks of the code.  Periods: generated
  periods tile the financial year.  Sales: figures of certificates are exact, the sub-ledger reconciles with the ledger,
  a release pays out at most what is held and a recovery at most what is left of the advance.  Inventory: the locked balances are
  the sums of the movements, issues take out the weighted average, transfers conserve and reversals restore.  HR: the
  day counts agree with the calendar, what is posted of labour and salary is final and in the ledger, and pay stays
  within the wage.  Requisition: a line has issued what its issues took from the stock, and nothing leaves without the
  approvals its amount needs.  Payment and receipt: a step that settles stays within what is outstanding, and every
  posted voucher stands in the ledger with exactly its lines.  Contra and journal: the same backing, a contra only moves
  the company's own money, the books of a company are opened once, and the opening journal restates the opening
  balances.  Where modelling showed that the code does something else than its comments or its purpose say, a theorem
  pins what it does (for instance \<open>Payment_Properties.payment_naming_twice_oversettles\<close>,
  \<open>Receipt_Properties.large_receipt_cannot_be_reposted\<close>, \<open>Stock_Properties.rounding_drifts\<close>).

  \<^bold>\<open>Conditions that are visible in the statements.\<close>  \<open>inj mk\<close>: identifiers of the id generator are distinct; \<open>mk\<close> turns
  its counter into them.  \<open>nn\<close>: how the database library treats a \<open>null\<close> in the conditions of a find, which decides
  whether deleted drafts are still found; the statements hold either way.  In the inventory, \<open>neg\<close> (a movement may go below
  zero), \<open>mir\<close> (journals with a receiving side may be reversed) and \<open>fine\<close> (callers pass amounts of at most four
  decimals) name what a run may contain, and statements say which of them they need; the code checks none of
  them, so the general statement is the one where they are unconstrained.  Settlements of a labour payable through
  \<open>applySettlement\<close> are of four decimals (\<open>hr_step\<close>): the operation has no caller in the repository, and for finer
  amounts the status it derives does not fit the amount it stores.  The purchase module, whose bills payments settle, and
  the sales module, whose certificates receipts settle, may cancel and change them at any time: the bounds of payments
  and receipts hold at the step that settles, and a later change of the document may leave more settled than it is for.

  \<^bold>\<open>Bounds and termination.\<close>  No operation uses fuel: loops over rows are structural recursion, the loops over
  days and months have a measure (\<open>each_day\<close>, \<open>month_spans\<close>, \<open>carry_days\<close>), and so has the search for the magnitude of a
  number (\<open>mag_up\<close>, \<open>mag_down\<close>).  Columns of type \<open>numeric(18,4)\<close> hold amounts below \<open>10 ^ 14\<close>, far within the twenty
  digits of the library, which is why sums of a few of them are exact; where a sum could leave that range the statement
  says so.

  \<^bold>\<open>What is not modelled.\<close>  Transactions run one after the other: row locks make that true of most use cases, and
  the findings name those where it does not hold.  Decimals are rationals, so there is no negative zero, infinity or NaN;
  strings are lists of 8-bit characters; foreign keys, soft-delete columns nobody reads and notifications sent
  after the commit are left out; dates are those of a time zone without midnight changes.  Not modelled at all, because
  they only read, or are glue or third-party code: reports, dashboard, list and detail queries, controllers, user and
  token management, seeds and migrations as such, health and configuration; and, as modules of their own, master data and
  purchase, which other modules see as tables that change.
\<close>

end
